(* ===== verification/Ika_Prelude.thy ===== *)
theory Ika_Prelude
  imports Main "HOL-Library.Word"
begin

text \<open>
  What the components share: bytes (a \<open>Uint8Array\<close> or a \<open>number[]\<close> of bytes is a list of 8-bit
  words), the comparison of byte arrays every file of the SDK repeats, integers written as bytes
  (\<open>DataView.setBigUint64\<close>, \<open>setUint32\<close>), byte strings of ASCII text (\<open>TextEncoder\<close>), results
  of code that may throw (a sum, the left side the thrown error), and the interface of a BCS type
  of the \<open>@mysten/bcs\<close> package, which is third-party code and so a parameter of the model.
\<close>

named_theorems result_simps \<open>inversion and evaluation of code that may throw\<close>

section \<open>Results of code that may throw\<close>

text \<open>\<open>Inl e\<close> is a thrown error \<open>e\<close>, \<open>Inr x\<close> a normal return of \<open>x\<close>.\<close>

definition bindE :: "'e + 'a \<Rightarrow> ('a \<Rightarrow> 'e + 'b) \<Rightarrow> 'e + 'b" where
  "bindE m f = (case m of Inl e \<Rightarrow> Inl e | Inr x \<Rightarrow> f x)"

definition seqE :: "'e + unit \<Rightarrow> 'e + 'b \<Rightarrow> 'e + 'b" where
  "seqE m k = bindE m (\<lambda>_. k)"

definition guardE :: "bool \<Rightarrow> 'e \<Rightarrow> 'e + unit" where
  "guardE b e = (if b then Inr () else Inl e)"

text \<open>\<open>try { m } catch (error) { throw h(error) }\<close>.\<close>

definition mapErr :: "('e \<Rightarrow> 'f) \<Rightarrow> 'e + 'a \<Rightarrow> 'f + 'a" where
  "mapErr h m = (case m of Inl e \<Rightarrow> Inl (h e) | Inr x \<Rightarrow> Inr x)"

definition ofOption :: "'e \<Rightarrow> 'a option \<Rightarrow> 'e + 'a" where
  "ofOption e x = (case x of None \<Rightarrow> Inl e | Some y \<Rightarrow> Inr y)"

lemma bindE_Inr [result_simps]: "bindE (Inr x) f = f x"
  and bindE_Inl [result_simps]: "bindE (Inl e) f = Inl e"
  by (simp_all add: bindE_def)

lemma bindE_eq_Inr [result_simps]: "bindE m f = Inr y \<longleftrightarrow> (\<exists>x. m = Inr x \<and> f x = Inr y)"
  by (cases m) (auto simp: bindE_def)

lemma bindE_eq_Inl [result_simps]:
  "bindE m f = Inl e \<longleftrightarrow> m = Inl e \<or> (\<exists>x. m = Inr x \<and> f x = Inl e)"
  by (cases m) (auto simp: bindE_def)

lemma bindE_assoc: "bindE (bindE m f) g = bindE m (\<lambda>x. bindE (f x) g)"
  by (cases m) (auto simp: bindE_def)

lemma seqE_eq_Inr [result_simps]: "seqE m k = Inr y \<longleftrightarrow> m = Inr () \<and> k = Inr y"
  by (auto simp: seqE_def result_simps)

lemma seqE_eq_Inl [result_simps]: "seqE m k = Inl e \<longleftrightarrow> m = Inl e \<or> m = Inr () \<and> k = Inl e"
  by (auto simp: seqE_def result_simps)

lemma seqE_Inr [result_simps]: "seqE (Inr u) k = k"
  and seqE_Inl [result_simps]: "seqE (Inl e) k = Inl e"
  by (simp_all add: seqE_def result_simps)

lemma guardE_eq_Inr [result_simps]: "guardE b e = Inr u \<longleftrightarrow> b"
  and guardE_eq_Inl [result_simps]: "guardE b e = Inl e' \<longleftrightarrow> \<not> b \<and> e' = e"
  by (auto simp: guardE_def)

lemma guardE_True [result_simps]: "b \<Longrightarrow> guardE b e = Inr ()"
  and guardE_False [result_simps]: "\<not> b \<Longrightarrow> guardE b e = Inl e"
  by (simp_all add: guardE_def)

lemma mapErr_eq_Inr [result_simps]: "mapErr h m = Inr x \<longleftrightarrow> m = Inr x"
  and mapErr_eq_Inl [result_simps]: "mapErr h m = Inl f \<longleftrightarrow> (\<exists>e. m = Inl e \<and> f = h e)"
  by (cases m; auto simp: mapErr_def)+

lemma ofOption_eq_Inr [result_simps]: "ofOption e x = Inr y \<longleftrightarrow> x = Some y"
  and ofOption_eq_Inl [result_simps]: "ofOption e x = Inl e' \<longleftrightarrow> x = None \<and> e' = e"
  by (cases x; auto simp: ofOption_def)+

text \<open>Whether a computation returned.\<close>

definition returned :: "'e + 'a \<Rightarrow> bool" where
  "returned m = (case m of Inl _ \<Rightarrow> False | Inr _ \<Rightarrow> True)"

lemma returned_iff: "returned m \<longleftrightarrow> (\<exists>x. m = Inr x)"
  by (cases m) (auto simp: returned_def)

text \<open>A check run over every element in order, as \<open>forEach\<close> with a throwing body.\<close>

fun traverseE :: "('a \<Rightarrow> 'e + 'b) \<Rightarrow> 'a list \<Rightarrow> 'e + 'b list" where
  "traverseE f [] = Inr []"
| "traverseE f (x # xs) = bindE (f x) (\<lambda>y. bindE (traverseE f xs) (\<lambda>ys. Inr (y # ys)))"

lemma traverseE_eq_Inr: "traverseE f xs = Inr ys \<longleftrightarrow> list_all2 (\<lambda>x y. f x = Inr y) xs ys"
  by (induction xs arbitrary: ys) (auto simp: result_simps list_all2_Cons1)

section \<open>Bytes\<close>

type_synonym byte = "8 word"
type_synonym bytes = "byte list"

text \<open>
  \<open>left.length === right.length && left.every((byte, index) => byte === right[index])\<close>: the
  helper each file declares again as \<open>sameBytes\<close>, \<open>equalBytes\<close> or \<open>bytesEqual\<close>.
\<close>

definition equalBytes :: "bytes \<Rightarrow> bytes \<Rightarrow> bool" where
  "equalBytes left right \<longleftrightarrow>
     length left = length right \<and> list_all (\<lambda>i. left ! i = right ! i) [0..<length left]"

lemma equalBytes_iff [simp]: "equalBytes left right \<longleftrightarrow> left = right"
  by (auto simp: equalBytes_def list_all_iff intro: nth_equalityI)

text \<open>\<open>new TextEncoder().encode(s)\<close> of an ASCII string.\<close>

definition ascii :: "string \<Rightarrow> bytes" where
  "ascii s = map (\<lambda>c. word_of_nat (of_char c)) s"

lemma length_ascii [simp]: "length (ascii s) = length s"
  by (simp add: ascii_def)

text \<open>\<open>bytes.slice(from, to)\<close> with both ends in range order.\<close>

definition slice :: "nat \<Rightarrow> nat \<Rightarrow> 'a list \<Rightarrow> 'a list" where
  "slice a b xs = take (b - a) (drop a xs)"

lemma length_slice [simp]: "b \<le> length xs \<Longrightarrow> length (slice a b xs) = b - a"
  by (simp add: slice_def)

lemma slice_append_skip [simp]:
  "length xs \<le> a \<Longrightarrow> slice a b (xs @ ys) = slice (a - length xs) (b - length xs) ys"
  by (simp add: slice_def)

lemma slice_append_exact: "slice 0 n (xs @ ys) = xs" if "length xs = n"
  using that by (simp add: slice_def)

lemma slice_full: "slice 0 (length xs) xs = xs"
  by (simp add: slice_def)

lemma slice_split: "a \<le> b \<Longrightarrow> slice 0 a xs @ slice a b xs = slice 0 b xs"
  by (simp add: slice_def) (metis le_add_diff_inverse take_add)

section \<open>Integers as bytes\<close>

text \<open>
  \<open>DataView\<close>'s setters reduce the integer modulo \<open>2 ^ (8 * n)\<close> and write \<open>n\<close> bytes;
  \<open>bigint\<close>s are unbounded, so the integer is an \<^typ>\<open>int\<close>.
\<close>

fun le_bytes :: "nat \<Rightarrow> int \<Rightarrow> bytes" where
  "le_bytes 0 x = []"
| "le_bytes (Suc n) x = word_of_int x # le_bytes n (x div 256)"

definition be_bytes :: "nat \<Rightarrow> int \<Rightarrow> bytes" where
  "be_bytes n x = rev (le_bytes n x)"

fun le_value :: "bytes \<Rightarrow> int" where
  "le_value [] = 0"
| "le_value (b # bs) = uint b + 256 * le_value bs"

lemma length_le_bytes [simp]: "length (le_bytes n x) = n"
  by (induction n arbitrary: x) auto

lemma length_be_bytes [simp]: "length (be_bytes n x) = n"
  by (simp add: be_bytes_def)

lemma uint_byte_bounds: "0 \<le> uint (b :: byte)" "uint (b :: byte) < 256"
proof -
  show "0 \<le> uint b" by simp
  have "uint b < 2 ^ LENGTH(8)" by (rule uint_bounded)
  then show "uint b < 256" by simp
qed

lemma uint_word_of_int_byte: "uint (word_of_int x :: byte) = x mod 256"
  by (simp add: uint_word_of_int)

lemma le_value_bytes [simp]: "le_value (le_bytes n x) = x mod 256 ^ n"
proof (induction n arbitrary: x)
  case 0
  show ?case by simp
next
  case (Suc n)
  have "le_value (le_bytes (Suc n) x) = x mod 256 + 256 * ((x div 256) mod 256 ^ n)"
    using Suc by (simp add: uint_word_of_int_byte)
  also have "\<dots> = x mod (256 * 256 ^ n)"
    by (simp add: mod_mult2_eq zmod_zmult2_eq)
  finally show ?case by simp
qed

lemma le_value_bounds: "0 \<le> le_value bs \<and> le_value bs < 256 ^ length bs"
proof (induction bs)
  case Nil
  show ?case by simp
next
  case (Cons b bs)
  then show ?case using uint_byte_bounds [of b] by simp
qed

lemma le_bytes_value [simp]: "le_bytes (length bs) (le_value bs) = bs"
proof (induction bs)
  case Nil
  show ?case by simp
next
  case (Cons b bs)
  have d: "(uint b + 256 * le_value bs) div 256 = le_value bs"
    using uint_byte_bounds [of b] by simp
  have "(word_of_int (uint b + 256 * le_value bs) :: byte) = b"
  proof -
    have "uint (word_of_int (uint b + 256 * le_value bs) :: byte) = uint b"
      unfolding uint_word_of_int_byte using uint_byte_bounds [of b] by simp
    then show ?thesis by (simp only: word_uint_eq_iff)
  qed
  then show ?case using Cons d by simp
qed

lemma le_bytes_inject:
  assumes "0 \<le> x" "x < 256 ^ n" "0 \<le> y" "y < 256 ^ n"
  shows "le_bytes n x = le_bytes n y \<longleftrightarrow> x = y"
proof
  assume "le_bytes n x = le_bytes n y"
  then have "le_value (le_bytes n x) = le_value (le_bytes n y)" by simp
  then show "x = y" using assms by simp
qed simp

lemma be_bytes_inject:
  assumes "0 \<le> x" "x < 256 ^ n" "0 \<le> y" "y < 256 ^ n"
  shows "be_bytes n x = be_bytes n y \<longleftrightarrow> x = y"
  using le_bytes_inject [OF assms] by (simp add: be_bytes_def)

definition u64_max :: int where
  "u64_max = 0xffffffffffffffff"

lemma u64_max_pow: "x \<le> u64_max \<longleftrightarrow> x < 256 ^ 8"
  unfolding u64_max_def by auto

section \<open>BCS types and cryptography as parameters\<close>

text \<open>
  A BCS type of \<open>@mysten/bcs\<close>: \<open>type.parse(bytes)\<close> and \<open>type.serialize(value).toBytes()\<close>,
  each \<open>None\<close> where it throws. The package is not part of the repository, so the functions that
  use a type take it as an argument. \<open>codec_ok\<close> is the package's documented round trip: what
  serializes parses back to the value it came from.
\<close>

record 'v bcs_type =
  parse :: "bytes \<Rightarrow> 'v option"
  serialize :: "'v \<Rightarrow> bytes option"

definition codec_ok :: "'v bcs_type \<Rightarrow> bool" where
  "codec_ok c \<longleftrightarrow> (\<forall>v b. serialize c v = Some b \<longrightarrow> parse c b = Some v)"

lemma codec_okD: "codec_ok c \<Longrightarrow> serialize c v = Some b \<Longrightarrow> parse c b = Some v"
  by (simp add: codec_ok_def)

lemma codec_ok_inject:
  "codec_ok c \<Longrightarrow> serialize c v = Some b \<Longrightarrow> serialize c w = Some b \<Longrightarrow> v = w"
  by (metis codec_okD option.inject)

text \<open>
  \<open>@noble/curves\<close>: \<open>ed25519.verify(signature, message, publicKey)\<close>, \<open>None\<close> where it throws
  (a malformed key or signature); every caller in the SDK reads a throw as \<open>false\<close>.
\<close>

type_synonym ed25519_verify = "bytes \<Rightarrow> bytes \<Rightarrow> bytes \<Rightarrow> bool option"
type_synonym hash = "bytes \<Rightarrow> bytes"

text \<open>\<open>try { verified = verify(...) } catch { verified = false }\<close>.\<close>

definition verifiedOrFalse :: "bool option \<Rightarrow> bool" where
  "verifiedOrFalse r = (case r of None \<Rightarrow> False | Some b \<Rightarrow> b)"

lemma verifiedOrFalse_iff [simp]: "verifiedOrFalse r \<longleftrightarrow> r = Some True"
  by (cases r) (auto simp: verifiedOrFalse_def)

section \<open>The errors the SDK throws\<close>

text \<open>
  The error classes the checks throw, with what callers read from them: the failed check and,
  where the class has one, the field. A plain \<open>Error\<close> or \<open>TypeError\<close> carries its message, with
  the constant text of the source; values the source interpolates into a message are left out.
\<close>

datatype att_check = CkVersion | CkSigner | CkSignature | CkDecode | CkLength | CkBinding | CkRecord

datatype output_check = OckKey | OckRecord | OckDigest | OckDecode | OckVersion | OckSigner | OckSignature

datatype not_yours_reason = ShareMissing | AnotherHolder

datatype request_chain = OnSui | OnSolana

datatype sdk_error =
    AttestationRecordError att_check "string option"
  | NetworkKeyOutputError output_check
  | DWalletShareNotYours not_yours_reason
  | DWalletUsabilityNotChecked string
  | DWalletCheckedOnAnotherChain request_chain request_chain
  | TypeErr string
  | Err string

text \<open>\<open>error.message\<close>; the text of the error classes that carry fields is not modelled.\<close>

fun errorMessage :: "sdk_error \<Rightarrow> string" where
  "errorMessage (Err m) = m"
| "errorMessage (TypeErr m) = m"
| "errorMessage (AttestationRecordError c f) = ''AttestationRecordError''"
| "errorMessage (NetworkKeyOutputError c) = ''NetworkKeyOutputError''"
| "errorMessage (DWalletShareNotYours r) = ''DWalletShareNotYours''"
| "errorMessage (DWalletUsabilityNotChecked m) = m"
| "errorMessage (DWalletCheckedOnAnotherChain c r) = ''DWalletCheckedOnAnotherChain''"

text \<open>The interface of a strict wire format: an encoder and a decoder that are inverse.\<close>

locale wire_format =
  fixes enc :: "'v \<Rightarrow> 'e + bytes" and dec :: "bytes \<Rightarrow> 'f + 'v"
  assumes dec_enc: "enc v = Inr b \<Longrightarrow> dec b = Inr v"
    and enc_dec: "dec b = Inr v \<Longrightarrow> enc v = Inr b"
begin

lemma enc_inject: "enc v = Inr b \<Longrightarrow> enc w = Inr b \<Longrightarrow> v = w"
  by (metis dec_enc sum.inject(2))

lemma dec_inject: "dec b = Inr v \<Longrightarrow> dec c = Inr v \<Longrightarrow> b = c"
  by (metis enc_dec sum.inject(2))

lemma accepted_iff: "returned (dec b) \<longleftrightarrow> (\<exists>v. enc v = Inr b)"
  unfolding returned_iff by (blast intro: dec_enc enc_dec)

end

end
