(* ===== verification/Schemes.thy ===== *)
theory Schemes
  imports Ika_Prelude
begin

text \<open>
  The curves, signature algorithms and hashes of the SDK (\<open>client/types.ts\<close>), the tables that say
  which go together and how they are numbered (\<open>client/hash-signature-validation.ts\<close>), and the
  network's scheme of a combination (\<open>common/schemes.ts\<close>). A table is an association list in the
  order the source writes it, so \<open>Object.keys\<close> and \<open>Object.entries\<close> are the list itself, and a
  key the table lacks is \<open>None\<close>, as \<open>undefined\<close> is in the source.
\<close>

section \<open>Data\<close>

datatype hash_name = KECCAK256 | SHA256 | DoubleSHA256 | SHA512 | Merlin

datatype curve = SECP256K1 | RISTRETTO | ED25519 | SECP256R1

datatype sig_alg = ECDSASecp256k1 | Taproot | ECDSASecp256r1 | EdDSA | Schnorrkel

datatype scheme_error =
    InvalidHashForAlgorithm sig_alg hash_name "string list"
  | InvalidCurveForAlgorithm sig_alg curve curve
  | UnknownCurve curve
  | InvalidAlgorithmOfCurve curve sig_alg
  | InvalidHashOfAlgorithm curve sig_alg hash_name
  | UnknownCurveNumber int
  | UnknownAbsoluteAlgorithmNumber int
  | UnknownAlgorithm sig_alg
  | UnknownAbsoluteHashNumber int
  | UnknownHash hash_name
  | UnknownAlgorithmNumber int curve
  | UnknownHashNumber int sig_alg curve
  | NoScheme sig_alg hash_name

section \<open>The tables\<close>

definition VALID_HASH_SIGNATURE_COMBINATIONS :: "(sig_alg \<times> hash_name list) list" where
  "VALID_HASH_SIGNATURE_COMBINATIONS =
    [(ECDSASecp256k1, [KECCAK256, SHA256, DoubleSHA256]),
     (Taproot, [SHA256]),
     (ECDSASecp256r1, [SHA256]),
     (EdDSA, [SHA512]),
     (Schnorrkel, [Merlin])]"

definition SIGNATURE_ALGORITHM_TO_CURVE :: "(sig_alg \<times> curve) list" where
  "SIGNATURE_ALGORITHM_TO_CURVE =
    [(ECDSASecp256k1, SECP256K1), (Taproot, SECP256K1), (ECDSASecp256r1, SECP256R1),
     (EdDSA, ED25519), (Schnorrkel, RISTRETTO)]"

definition SIGNATURE_ALGORITHM_ABSOLUTE_NUMBERS :: "(sig_alg \<times> int) list" where
  "SIGNATURE_ALGORITHM_ABSOLUTE_NUMBERS =
    [(ECDSASecp256k1, 0), (Taproot, 1), (ECDSASecp256r1, 2), (EdDSA, 3), (Schnorrkel, 4)]"

definition HASH_ABSOLUTE_NUMBERS :: "(hash_name \<times> int) list" where
  "HASH_ABSOLUTE_NUMBERS =
    [(KECCAK256, 0), (SHA256, 1), (DoubleSHA256, 2), (SHA512, 3), (Merlin, 4)]"

record algorithm_config =
  signatureAlgorithmNumber :: int
  hashes :: "(hash_name \<times> int) list"

record curve_config =
  curveNumber :: int
  signatureAlgorithms :: "(sig_alg \<times> algorithm_config) list"

definition CURVE_SIGNATURE_HASH_CONFIG :: "(curve \<times> curve_config) list" where
  "CURVE_SIGNATURE_HASH_CONFIG =
    [(SECP256K1, \<lparr>curveNumber = 0, signatureAlgorithms =
       [(ECDSASecp256k1, \<lparr>signatureAlgorithmNumber = 0,
           hashes = [(KECCAK256, 0), (SHA256, 1), (DoubleSHA256, 2)]\<rparr>),
        (Taproot, \<lparr>signatureAlgorithmNumber = 1, hashes = [(SHA256, 0)]\<rparr>)]\<rparr>),
     (SECP256R1, \<lparr>curveNumber = 1, signatureAlgorithms =
       [(ECDSASecp256r1, \<lparr>signatureAlgorithmNumber = 0, hashes = [(SHA256, 0)]\<rparr>)]\<rparr>),
     (ED25519, \<lparr>curveNumber = 2, signatureAlgorithms =
       [(EdDSA, \<lparr>signatureAlgorithmNumber = 0, hashes = [(SHA512, 0)]\<rparr>)]\<rparr>),
     (RISTRETTO, \<lparr>curveNumber = 3, signatureAlgorithms =
       [(Schnorrkel, \<lparr>signatureAlgorithmNumber = 0, hashes = [(Merlin, 0)]\<rparr>)]\<rparr>)]"

text \<open>\<open>table[key]\<close> of a table that has an entry of every key of its type.\<close>

definition entry :: "('k \<times> 'v) list \<Rightarrow> 'k \<Rightarrow> 'v" where
  "entry table k = the (map_of table k)"

text \<open>\<open>for (const [key, n] of Object.entries(table)) if (f(n)) return key\<close>.\<close>

fun findEntry :: "('v \<Rightarrow> bool) \<Rightarrow> ('k \<times> 'v) list \<Rightarrow> 'k option" where
  "findEntry p [] = None"
| "findEntry p ((k, v) # rest) = (if p v then Some k else findEntry p rest)"

section \<open>Names\<close>

fun getHashName :: "hash_name \<Rightarrow> string" where
  "getHashName KECCAK256 = ''KECCAK256 (SHA3)''"
| "getHashName SHA256 = ''SHA256''"
| "getHashName DoubleSHA256 = ''DoubleSHA256''"
| "getHashName SHA512 = ''SHA512''"
| "getHashName Merlin = ''Merlin''"

fun getSignatureAlgorithmName :: "sig_alg \<Rightarrow> string" where
  "getSignatureAlgorithmName ECDSASecp256k1 = ''ECDSASecp256k1''"
| "getSignatureAlgorithmName Taproot = ''Taproot''"
| "getSignatureAlgorithmName ECDSASecp256r1 = ''ECDSASecp256r1''"
| "getSignatureAlgorithmName EdDSA = ''EdDSA''"
| "getSignatureAlgorithmName Schnorrkel = ''Schnorrkel (Ristretto)''"

fun getCurveName :: "curve \<Rightarrow> string" where
  "getCurveName SECP256K1 = ''secp256k1''"
| "getCurveName SECP256R1 = ''secp256r1''"
| "getCurveName ED25519 = ''Ed25519''"
| "getCurveName RISTRETTO = ''Ristretto''"

section \<open>The combinations of a hash and an algorithm\<close>

definition isValidHashForSignature :: "hash_name \<Rightarrow> sig_alg \<Rightarrow> bool" where
  "isValidHashForSignature h a \<longleftrightarrow> List.member (entry VALID_HASH_SIGNATURE_COMBINATIONS a) h"

definition getValidHashesForSignatureAlgorithm :: "sig_alg \<Rightarrow> string list" where
  "getValidHashesForSignatureAlgorithm a =
     map getHashName (entry VALID_HASH_SIGNATURE_COMBINATIONS a)"

definition validateHashSignatureCombination :: "hash_name \<Rightarrow> sig_alg \<Rightarrow> scheme_error + unit" where
  "validateHashSignatureCombination h a =
     (let validHashes = entry VALID_HASH_SIGNATURE_COMBINATIONS a
      in guardE (List.member validHashes h)
           (InvalidHashForAlgorithm a h (map getHashName validHashes)))"

definition validateCurveSignatureAlgorithm :: "curve \<Rightarrow> sig_alg \<Rightarrow> scheme_error + unit" where
  "validateCurveSignatureAlgorithm c a =
     (let expectedCurve = entry SIGNATURE_ALGORITHM_TO_CURVE a
      in guardE (c = expectedCurve) (InvalidCurveForAlgorithm a expectedCurve c))"

definition createValidatedSigningParams ::
    "hash_name \<Rightarrow> sig_alg \<Rightarrow> scheme_error + (hash_name \<times> sig_alg)" where
  "createValidatedSigningParams h a = seqE (validateHashSignatureCombination h a) (Inr (h, a))"

section \<open>Numbers of a curve, an algorithm and a hash\<close>

definition curveConfigOf :: "curve \<Rightarrow> scheme_error + curve_config" where
  "curveConfigOf c = ofOption (UnknownCurve c) (map_of CURVE_SIGNATURE_HASH_CONFIG c)"

definition algorithmConfigOf :: "curve \<Rightarrow> sig_alg \<Rightarrow> scheme_error + algorithm_config" where
  "algorithmConfigOf c a = bindE (curveConfigOf c) (\<lambda>config.
     ofOption (InvalidAlgorithmOfCurve c a) (map_of (signatureAlgorithms config) a))"

definition fromCurveToNumber :: "curve \<Rightarrow> scheme_error + int" where
  "fromCurveToNumber c = bindE (curveConfigOf c) (\<lambda>config. Inr (curveNumber config))"

definition fromSignatureAlgorithmToNumber :: "curve \<Rightarrow> sig_alg \<Rightarrow> scheme_error + int" where
  "fromSignatureAlgorithmToNumber c a =
     bindE (algorithmConfigOf c a) (\<lambda>config. Inr (signatureAlgorithmNumber config))"

definition fromHashToNumber :: "curve \<Rightarrow> sig_alg \<Rightarrow> hash_name \<Rightarrow> scheme_error + int" where
  "fromHashToNumber c a h = bindE (algorithmConfigOf c a) (\<lambda>config.
     ofOption (InvalidHashOfAlgorithm c a h) (map_of (hashes config) h))"

definition fromCurveAndSignatureAlgorithmToNumbers :: "curve \<Rightarrow> sig_alg \<Rightarrow> scheme_error + int \<times> int" where
  "fromCurveAndSignatureAlgorithmToNumbers c a =
     bindE (fromCurveToNumber c) (\<lambda>cn.
     bindE (fromSignatureAlgorithmToNumber c a) (\<lambda>an. Inr (cn, an)))"

definition fromCurveAndSignatureAlgorithmAndHashToNumbers ::
    "curve \<Rightarrow> sig_alg \<Rightarrow> hash_name \<Rightarrow> scheme_error + int \<times> int \<times> int" where
  "fromCurveAndSignatureAlgorithmAndHashToNumbers c a h =
     bindE (fromCurveToNumber c) (\<lambda>cn.
     bindE (fromSignatureAlgorithmToNumber c a) (\<lambda>an.
     bindE (fromHashToNumber c a h) (\<lambda>hn. Inr (cn, an, hn))))"

definition isValidSignatureAlgorithmForCurve :: "curve \<Rightarrow> sig_alg \<Rightarrow> bool" where
  "isValidSignatureAlgorithmForCurve c a =
     (case map_of CURVE_SIGNATURE_HASH_CONFIG c of None \<Rightarrow> False
      | Some config \<Rightarrow> map_of (signatureAlgorithms config) a \<noteq> None)"

definition isValidHashForCurveAndSignature :: "curve \<Rightarrow> sig_alg \<Rightarrow> hash_name \<Rightarrow> bool" where
  "isValidHashForCurveAndSignature c a h =
     (case map_of CURVE_SIGNATURE_HASH_CONFIG c of None \<Rightarrow> False
      | Some config \<Rightarrow>
        (case map_of (signatureAlgorithms config) a of None \<Rightarrow> False
         | Some algorithm \<Rightarrow> map_of (hashes algorithm) h \<noteq> None))"

definition getValidSignatureAlgorithmsForCurve :: "curve \<Rightarrow> sig_alg list" where
  "getValidSignatureAlgorithmsForCurve c =
     (case map_of CURVE_SIGNATURE_HASH_CONFIG c of None \<Rightarrow> []
      | Some config \<Rightarrow> map fst (signatureAlgorithms config))"

definition getValidHashesForCurveAndSignature :: "curve \<Rightarrow> sig_alg \<Rightarrow> hash_name list" where
  "getValidHashesForCurveAndSignature c a =
     (case map_of CURVE_SIGNATURE_HASH_CONFIG c of None \<Rightarrow> []
      | Some config \<Rightarrow>
        (case map_of (signatureAlgorithms config) a of None \<Rightarrow> []
         | Some algorithm \<Rightarrow> map fst (hashes algorithm)))"

section \<open>Back from the numbers\<close>

definition fromNumberToCurve :: "int \<Rightarrow> scheme_error + curve" where
  "fromNumberToCurve n = ofOption (UnknownCurveNumber n)
     (findEntry (\<lambda>config. curveNumber config = n) CURVE_SIGNATURE_HASH_CONFIG)"

definition fromAbsoluteNumberToSignatureAlgorithm :: "int \<Rightarrow> scheme_error + sig_alg" where
  "fromAbsoluteNumberToSignatureAlgorithm n = ofOption (UnknownAbsoluteAlgorithmNumber n)
     (findEntry (\<lambda>m. m = n) SIGNATURE_ALGORITHM_ABSOLUTE_NUMBERS)"

definition fromSignatureAlgorithmToAbsoluteNumber :: "sig_alg \<Rightarrow> scheme_error + int" where
  "fromSignatureAlgorithmToAbsoluteNumber a =
     ofOption (UnknownAlgorithm a) (map_of SIGNATURE_ALGORITHM_ABSOLUTE_NUMBERS a)"

definition fromAbsoluteNumberToHash :: "int \<Rightarrow> scheme_error + hash_name" where
  "fromAbsoluteNumberToHash n = ofOption (UnknownAbsoluteHashNumber n)
     (findEntry (\<lambda>m. m = n) HASH_ABSOLUTE_NUMBERS)"

definition fromHashToAbsoluteNumber :: "hash_name \<Rightarrow> scheme_error + int" where
  "fromHashToAbsoluteNumber h = ofOption (UnknownHash h) (map_of HASH_ABSOLUTE_NUMBERS h)"

definition fromNumberToSignatureAlgorithm :: "curve \<Rightarrow> int \<Rightarrow> scheme_error + sig_alg" where
  "fromNumberToSignatureAlgorithm c n = bindE (curveConfigOf c) (\<lambda>config.
     ofOption (UnknownAlgorithmNumber n c)
       (findEntry (\<lambda>algorithm. signatureAlgorithmNumber algorithm = n) (signatureAlgorithms config)))"

definition fromNumberToHash :: "curve \<Rightarrow> sig_alg \<Rightarrow> int \<Rightarrow> scheme_error + hash_name" where
  "fromNumberToHash c a n = bindE (algorithmConfigOf c a) (\<lambda>config.
     ofOption (UnknownHashNumber n a c) (findEntry (\<lambda>m. m = n) (hashes config)))"

definition fromNumbersToCurveAndSignatureAlgorithm :: "int \<Rightarrow> int \<Rightarrow> scheme_error + curve \<times> sig_alg" where
  "fromNumbersToCurveAndSignatureAlgorithm cn an =
     bindE (fromNumberToCurve cn) (\<lambda>c.
     bindE (fromNumberToSignatureAlgorithm c an) (\<lambda>a. Inr (c, a)))"

definition fromNumbersToCurveAndSignatureAlgorithmAndHash ::
    "int \<Rightarrow> int \<Rightarrow> int \<Rightarrow> scheme_error + curve \<times> sig_alg \<times> hash_name" where
  "fromNumbersToCurveAndSignatureAlgorithmAndHash cn an hn =
     bindE (fromNumberToCurve cn) (\<lambda>c.
     bindE (fromNumberToSignatureAlgorithm c an) (\<lambda>a.
     bindE (fromNumberToHash c a hn) (\<lambda>h. Inr (c, a, h))))"

section \<open>The network's scheme of a combination\<close>

datatype scheme_name =
    EcdsaKeccak256 | EcdsaSha256 | EcdsaDoubleSha256 | TaprootSha256 | EcdsaBlake2b256
  | EddsaSha512 | SchnorrkelMerlin

definition SCHEMES :: "(sig_alg \<times> (hash_name \<times> scheme_name) list) list" where
  "SCHEMES =
    [(ECDSASecp256k1, [(KECCAK256, EcdsaKeccak256), (SHA256, EcdsaSha256),
                       (DoubleSHA256, EcdsaDoubleSha256)]),
     (ECDSASecp256r1, [(SHA256, EcdsaSha256)]),
     (Taproot, [(SHA256, TaprootSha256)]),
     (EdDSA, [(SHA512, EddsaSha512)]),
     (Schnorrkel, [(Merlin, SchnorrkelMerlin)])]"

definition signatureSchemeOf :: "curve \<Rightarrow> sig_alg \<Rightarrow> hash_name \<Rightarrow> scheme_error + scheme_name" where
  "signatureSchemeOf c a h =
     seqE (validateCurveSignatureAlgorithm c a)
    (seqE (validateHashSignatureCombination h a)
          (ofOption (NoScheme a h) (map_of (entry SCHEMES a) h)))"

definition presignSchemeOf :: "curve \<Rightarrow> sig_alg \<Rightarrow> scheme_error + scheme_name" where
  "presignSchemeOf c a =
     seqE (validateCurveSignatureAlgorithm c a) (Inr (snd (hd (entry SCHEMES a))))"

section \<open>Lemmas\<close>

lemmas scheme_tables =
  VALID_HASH_SIGNATURE_COMBINATIONS_def SIGNATURE_ALGORITHM_TO_CURVE_def
  SIGNATURE_ALGORITHM_ABSOLUTE_NUMBERS_def HASH_ABSOLUTE_NUMBERS_def
  CURVE_SIGNATURE_HASH_CONFIG_def SCHEMES_def entry_def

lemmas scheme_numbers =
  curveConfigOf_def algorithmConfigOf_def fromCurveToNumber_def fromSignatureAlgorithmToNumber_def
  fromHashToNumber_def fromNumberToCurve_def fromNumberToSignatureAlgorithm_def fromNumberToHash_def
  fromCurveAndSignatureAlgorithmAndHashToNumbers_def
  fromNumbersToCurveAndSignatureAlgorithmAndHash_def

lemma ofOption_simps [result_simps]: "ofOption e (Some x) = Inr x" "ofOption e None = Inl e"
  by (simp_all add: ofOption_def)

text \<open>The numbers of a valid combination, written out.\<close>

lemma to_numbers_iff:
  "fromCurveAndSignatureAlgorithmAndHashToNumbers c a h = Inr (cn, an, hn) \<longleftrightarrow>
     (c, a, h, cn, an, hn) \<in> set
       [(SECP256K1, ECDSASecp256k1, KECCAK256, 0, 0, 0), (SECP256K1, ECDSASecp256k1, SHA256, 0, 0, 1),
        (SECP256K1, ECDSASecp256k1, DoubleSHA256, 0, 0, 2), (SECP256K1, Taproot, SHA256, 0, 1, 0),
        (SECP256R1, ECDSASecp256r1, SHA256, 1, 0, 0), (ED25519, EdDSA, SHA512, 2, 0, 0),
        (RISTRETTO, Schnorrkel, Merlin, 3, 0, 0)]"
  by (cases c; cases a; cases h; auto simp: scheme_numbers scheme_tables result_simps)

lemma from_numbers_iff:
  "fromNumbersToCurveAndSignatureAlgorithmAndHash cn an hn = Inr (c, a, h) \<longleftrightarrow>
     (c, a, h, cn, an, hn) \<in> set
       [(SECP256K1, ECDSASecp256k1, KECCAK256, 0, 0, 0), (SECP256K1, ECDSASecp256k1, SHA256, 0, 0, 1),
        (SECP256K1, ECDSASecp256k1, DoubleSHA256, 0, 0, 2), (SECP256K1, Taproot, SHA256, 0, 1, 0),
        (SECP256R1, ECDSASecp256r1, SHA256, 1, 0, 0), (ED25519, EdDSA, SHA512, 2, 0, 0),
        (RISTRETTO, Schnorrkel, Merlin, 3, 0, 0)]"
  by (cases c; cases a; cases h; auto simp: scheme_numbers scheme_tables result_simps split: if_splits)

text \<open>Which combinations the three tables admit.\<close>

lemma isValidHashForCurveAndSignature_iff:
  "isValidHashForCurveAndSignature c a h \<longleftrightarrow>
     (\<exists>ns. fromCurveAndSignatureAlgorithmAndHashToNumbers c a h = Inr ns)"
  by (cases c; cases a; cases h;
      simp add: isValidHashForCurveAndSignature_def scheme_numbers scheme_tables result_simps)

lemma signatureSchemeOf_valid:
  "(\<exists>s. signatureSchemeOf c a h = Inr s) \<longleftrightarrow> isValidHashForCurveAndSignature c a h"
  by (cases c; cases a; cases h;
      simp add: isValidHashForCurveAndSignature_def signatureSchemeOf_def validateCurveSignatureAlgorithm_def
        validateHashSignatureCombination_def scheme_tables result_simps)

lemma signatureSchemeOf_never_NoScheme: "signatureSchemeOf c a h \<noteq> Inl (NoScheme a' h')"
  by (cases c; cases a; cases h;
      simp add: signatureSchemeOf_def validateCurveSignatureAlgorithm_def
        validateHashSignatureCombination_def scheme_tables result_simps)

end
