(* ===== verification/Polling.thy ===== *)
theory Polling
  imports Ika_Prelude
begin

text \<open>
  The SDK's loops over a chain that has not caught up yet: read, decide, and read again after a
  pause until a time budget runs out (\<open>freshChainEpoch\<close> in \<open>grpc/committee.ts\<close>,
  \<open>recordOnceSigned\<close> in \<open>grpc/network-key-output.ts\<close>). The environment is explicit: a read
  started at a time takes a number of milliseconds and then gives its answer, and a timer may
  fire late. A loop with a pause of 0 over an environment that takes no time never ends, so the
  loop is a partial function; \<open>pollUntil_returns\<close> shows that with a pause it ends.
\<close>

type_synonym time = int

text \<open>A read: given the time it starts, how long it takes and what it gives.\<close>

type_synonym 'r timed_read = "time \<Rightarrow> nat \<times> 'r"

section \<open>The loop\<close>

text \<open>
  \<^verbatim>\<open>
  for (;;) {
    const r = await read();
    if (decided(r)) return / throw;
    if (Date.now() + pauseMs > deadline) throw giveUp(r);
    await new Promise((resolve) => setTimeout(resolve, pauseMs));
  }
  \<close>
  \<open>decide r\<close> is \<open>Some\<close> of what the body returns or throws, or \<open>None\<close> to go on; \<open>lag t\<close> is how
  late the timer set at \<open>t\<close> fires. The result is the time the loop ended and its outcome.
\<close>

partial_function (option) pollUntil ::
    "'r timed_read \<Rightarrow> ('r \<Rightarrow> ('e + 'a) option) \<Rightarrow> ('r \<Rightarrow> 'e) \<Rightarrow> (time \<Rightarrow> nat) \<Rightarrow> nat \<Rightarrow> time \<Rightarrow> time
      \<Rightarrow> (time \<times> ('e + 'a)) option" where
  "pollUntil read decide giveUp lag pauseMs deadline now =
     (let (dt, r) = read now; t = now + int dt
      in case decide r of
           Some outcome \<Rightarrow> Some (t, outcome)
         | None \<Rightarrow>
             if t + int pauseMs > deadline then Some (t, Inl (giveUp r))
             else pollUntil read decide giveUp lag pauseMs deadline (t + int pauseMs + int (lag t)))"

text \<open>
  \<open>withinTimeLeft\<close>: a read raced against a timer of the time left. The timer's rejection wins
  only when the read takes longer than the time left.
\<close>

definition withinTimeLeft :: "('e + 'r) timed_read \<Rightarrow> time \<Rightarrow> 'e \<Rightarrow> ('e + 'r) timed_read" where
  "withinTimeLeft read deadline timedOut now =
     (let (dt, r) = read now; limit = nat (max 0 (deadline - now))
      in if dt \<le> limit then (dt, r) else (limit, Inl timedOut))"

section \<open>It ends, and what it ends with\<close>

lemma pollUntil_step:
  assumes "read now = (dt, r)" "decide r = None" "now + int dt + int pauseMs \<le> deadline"
  shows "pollUntil read decide giveUp lag pauseMs deadline now =
    pollUntil read decide giveUp lag pauseMs deadline
      (now + int dt + int pauseMs + int (lag (now + int dt)))"
  using assms by (simp add: pollUntil.simps [of _ _ _ _ _ _ now] Let_def)

lemma pollUntil_decided:
  "read now = (dt, r) \<Longrightarrow> decide r = Some outcome \<Longrightarrow>
   pollUntil read decide giveUp lag pauseMs deadline now = Some (now + int dt, outcome)"
  by (simp add: pollUntil.simps)

lemma pollUntil_gaveUp:
  "read now = (dt, r) \<Longrightarrow> decide r = None \<Longrightarrow> deadline < now + int dt + int pauseMs \<Longrightarrow>
   pollUntil read decide giveUp lag pauseMs deadline now = Some (now + int dt, Inl (giveUp r))"
  by (simp add: pollUntil.simps)

lemma pollUntil_returns:
  assumes "0 < pauseMs"
  shows "\<exists>res. pollUntil read decide giveUp lag pauseMs deadline now = Some res"
proof (induction "nat (deadline - now)" arbitrary: now rule: less_induct)
  case less
  obtain dt r where rd: "read now = (dt, r)" by (cases "read now")
  show ?case
  proof (cases "decide r = None \<and> now + int dt + int pauseMs \<le> deadline")
    case True
    let ?next = "now + int dt + int pauseMs + int (lag (now + int dt))"
    have "nat (deadline - ?next) < nat (deadline - now)" using True assms by simp
    then obtain res where "pollUntil read decide giveUp lag pauseMs deadline ?next = Some res"
      using less by blast
    then show ?thesis using rd True by (simp add: pollUntil_step)
  next
    case False
    then show ?thesis using rd by (cases "decide r") (auto simp: pollUntil.simps [of _ _ _ _ _ _ now])
  qed
qed

text \<open>
  Whatever the loop ends with comes from a read it made itself: the outcome is what a read
  decided, or the loop gave up on a read it could not decide, with no room for another pause.
\<close>

definition poll_end ::
    "'r timed_read \<Rightarrow> ('r \<Rightarrow> ('e + 'a) option) \<Rightarrow> ('r \<Rightarrow> 'e) \<Rightarrow> nat \<Rightarrow> time \<Rightarrow> time \<Rightarrow> time \<times> ('e + 'a) \<Rightarrow> bool" where
  "poll_end read decide giveUp pauseMs deadline start res \<longleftrightarrow>
     (\<exists>t\<ge>start. let (dt, r) = read t in
        fst res = t + int dt \<and>
        (decide r = Some (snd res) \<or>
         decide r = None \<and> snd res = Inl (giveUp r) \<and> deadline < t + int dt + int pauseMs))"

lemma poll_end_start:
  "poll_end read decide giveUp pauseMs deadline s res \<Longrightarrow> start \<le> s \<Longrightarrow>
   poll_end read decide giveUp pauseMs deadline start res"
  unfolding poll_end_def by (meson order_trans)

lemma pollUntil_end:
  fixes read :: "'r timed_read" and decide :: "'r \<Rightarrow> ('e + 'a) option"
  assumes "pollUntil read decide giveUp lag pauseMs deadline now = Some res"
  shows "poll_end read decide giveUp pauseMs deadline now res"
proof (rule pollUntil.raw_induct
    [where P = "\<lambda>read decide giveUp lag pauseMs deadline now res.
       poll_end read decide giveUp pauseMs deadline now res", OF _ assms])
  fix f :: "'r timed_read \<Rightarrow> ('r \<Rightarrow> ('e + 'a) option) \<Rightarrow> ('r \<Rightarrow> 'e) \<Rightarrow> (time \<Rightarrow> nat) \<Rightarrow> nat
      \<Rightarrow> time \<Rightarrow> time \<Rightarrow> (time \<times> ('e + 'a)) option"
    and read decide giveUp lag pauseMs deadline now res
  assume IH: "\<And>read decide giveUp lag pauseMs deadline now res.
      f read decide giveUp lag pauseMs deadline now = Some res \<Longrightarrow>
      poll_end read decide giveUp pauseMs deadline now res"
    and eq: "(let (dt, r) = read now; t = now + int dt
      in case decide r of
           Some outcome \<Rightarrow> Some (t, outcome)
         | None \<Rightarrow>
             if t + int pauseMs > deadline then Some (t, Inl (giveUp r))
             else f read decide giveUp lag pauseMs deadline (t + int pauseMs + int (lag t))) = Some res"
  obtain dt r where rd: "read now = (dt, r)" by (cases "read now")
  show "poll_end read decide giveUp pauseMs deadline now res"
  proof (cases "decide r = None \<and> now + int dt + int pauseMs \<le> deadline")
    case True
    then have "f read decide giveUp lag pauseMs deadline
        (now + int dt + int pauseMs + int (lag (now + int dt))) = Some res"
      using eq rd by (simp add: Let_def)
    from IH [OF this] show ?thesis by (rule poll_end_start) simp
  next
    case False
    then show ?thesis using eq rd
      by (cases "decide r") (auto simp: poll_end_def intro: exI [of _ now])
  qed
qed

lemma pollUntil_Inr:
  assumes "pollUntil read decide giveUp lag pauseMs deadline now = Some (t, Inr x)"
  shows "\<exists>s\<ge>now. decide (snd (read s)) = Some (Inr x) \<and> t = s + int (fst (read s))"
  using pollUntil_end [OF assms] by (auto simp: poll_end_def case_prod_unfold Let_def)

text \<open>A read under \<open>withinTimeLeft\<close> never takes longer than the time left.\<close>

lemma withinTimeLeft_Inr:
  "withinTimeLeft read deadline e now = (dt, Inr r) \<Longrightarrow>
     read now = (dt, Inr r) \<and> int dt \<le> max 0 (deadline - now)"
  by (auto simp: withinTimeLeft_def Let_def split: if_splits prod.splits)

lemma withinTimeLeft_time: "int (fst (withinTimeLeft read deadline e now)) \<le> max 0 (deadline - now)"
  by (auto simp: withinTimeLeft_def Let_def split: prod.splits)

section \<open>Sequences of awaited calls\<close>

text \<open>
  An \<open>async\<close> function over the clock: given the time it starts, \<open>None\<close> where it never settles,
  else the time it settles and what it returns or throws.
\<close>

type_synonym ('e, 'a) timed = "time \<Rightarrow> (time \<times> ('e + 'a)) option"

definition returnT :: "'a \<Rightarrow> ('e, 'a) timed" where
  "returnT x now = Some (now, Inr x)"

definition liftT :: "'e + 'a \<Rightarrow> ('e, 'a) timed" where
  "liftT r now = Some (now, r)"

definition readT :: "('e + 'a) timed_read \<Rightarrow> ('e, 'a) timed" where
  "readT read now = (let (dt, r) = read now in Some (now + int dt, r))"

definition bindT :: "('e, 'a) timed \<Rightarrow> ('a \<Rightarrow> ('e, 'b) timed) \<Rightarrow> ('e, 'b) timed" where
  "bindT m f now =
     (case m now of
        None \<Rightarrow> None
      | Some (t, Inl e) \<Rightarrow> Some (t, Inl e)
      | Some (t, Inr x) \<Rightarrow> f x t)"

definition settles :: "('e, 'a) timed \<Rightarrow> bool" where
  "settles m \<longleftrightarrow> (\<forall>now. m now \<noteq> None)"

lemma bindT_Inr [result_simps]:
  "bindT m f now = Some (t, Inr y) \<longleftrightarrow>
     (\<exists>t' x. m now = Some (t', Inr x) \<and> f x t' = Some (t, Inr y))"
  by (auto simp: bindT_def split: option.splits sum.splits)

lemma liftT_Some [result_simps]: "liftT r now = Some (t, r') \<longleftrightarrow> t = now \<and> r = r'"
  by (auto simp: liftT_def)

lemma returnT_Some [result_simps]: "returnT x now = Some (t, r) \<longleftrightarrow> t = now \<and> r = Inr x"
  by (auto simp: returnT_def)

lemma readT_Inr: "readT read now = Some (t, Inr x) \<longleftrightarrow> (\<exists>dt. read now = (dt, Inr x) \<and> t = now + int dt)"
  by (auto simp: readT_def split: prod.splits)

lemma settles_returnT [intro]: "settles (returnT x)"
  and settles_liftT [intro]: "settles (liftT r)"
  and settles_readT [intro]: "settles (readT read)"
  by (auto simp: settles_def returnT_def liftT_def readT_def split: prod.splits)

lemma settles_bindT [intro]: "settles m \<Longrightarrow> (\<And>x. settles (f x)) \<Longrightarrow> settles (bindT m f)"
  by (auto simp: settles_def bindT_def split: option.splits sum.splits)

end
