(* ===== verification/Network_Keys.thy ===== *)
theory Network_Keys
  imports Polling
begin

text \<open>
  The network keys a client trusts (\<open>grpc/deployed-networks.ts\<close>, \<open>grpc/deployed-networks-internal.ts\<close>)
  and the id of a network key (\<open>grpc/network-key-id.ts\<close>). The functions of
  \<open>deployed-networks-internal.ts\<close> take the table of deployed networks as an argument, and the public
  ones are those at the SDK's own table \<open>IKA_DEPLOYED_NETWORKS\<close>.
\<close>

section \<open>Deployed networks\<close>

datatype deployed_network_name = Mainnet | Testnet

datatype ika_network = Deployed deployed_network_name | Custom "bytes list"

record deployed_network_key =
  noaPublicKey :: bytes
  dkgOutputDigest :: bytes
  suiRecordAddress :: bytes
  solanaRecordAddress :: bytes

record deployed_network =
  networkKeys :: "deployed_network_key list"
  network_value :: int
  suiChainNumber :: int
  solanaChainNumber :: int

fun IKA_DEPLOYED_NETWORKS :: "deployed_network_name \<Rightarrow> deployed_network" where
  "IKA_DEPLOYED_NETWORKS Mainnet =
     \<lparr>networkKeys = [], network_value = 1, suiChainNumber = 2, solanaChainNumber = 1\<rparr>"
| "IKA_DEPLOYED_NETWORKS Testnet =
     \<lparr>networkKeys = [], network_value = 2, suiChainNumber = 0, solanaChainNumber = 0\<rparr>"

definition notDeployed :: "deployed_network_name \<Rightarrow> sdk_error" where
  "notDeployed name = Err (''the new flow is not deployed on '' @
     (case name of Mainnet \<Rightarrow> ''mainnet'' | Testnet \<Rightarrow> ''testnet'') @ '' yet'')"

definition listedNetworkKeyIn ::
    "deployed_network \<Rightarrow> deployed_network_name \<Rightarrow> bytes \<Rightarrow> sdk_error + deployed_network_key" where
  "listedNetworkKeyIn table name key =
     (if networkKeys table = [] then Inl (notDeployed name)
      else case find (\<lambda>k. equalBytes (noaPublicKey k) key) (networkKeys table) of
             None \<Rightarrow> Inl (Err ''network key is not a network key of the network'')
           | Some e \<Rightarrow> Inr e)"

text \<open>\<open>undefined\<close> on a custom network, which has no list.\<close>

definition listedNetworkKey :: "ika_network \<Rightarrow> bytes \<Rightarrow> sdk_error + deployed_network_key option" where
  "listedNetworkKey network key =
     (case network of
        Deployed name \<Rightarrow> bindE (listedNetworkKeyIn (IKA_DEPLOYED_NETWORKS name) name key) (\<lambda>e. Inr (Some e))
      | Custom _ \<Rightarrow> Inr None)"

definition deployedNetworkValue :: "deployed_network_name \<Rightarrow> int" where
  "deployedNetworkValue name = network_value (IKA_DEPLOYED_NETWORKS name)"

definition LOCAL_NETWORK_VALUE :: int where
  "LOCAL_NETWORK_VALUE = 3"

definition requestNetworkValue :: "ika_network \<Rightarrow> int" where
  "requestNetworkValue network =
     (case network of Deployed name \<Rightarrow> deployedNetworkValue name | Custom _ \<Rightarrow> LOCAL_NETWORK_VALUE)"

definition deployedSuiChainNumber :: "deployed_network_name \<Rightarrow> sdk_error + int" where
  "deployedSuiChainNumber name =
     (let chainNumber = suiChainNumber (IKA_DEPLOYED_NETWORKS name)
      in if chainNumber = 0 then Inl (notDeployed name) else Inr chainNumber)"

definition deployedSolanaChainNumber :: "deployed_network_name \<Rightarrow> sdk_error + int" where
  "deployedSolanaChainNumber name =
     (let chainNumber = solanaChainNumber (IKA_DEPLOYED_NETWORKS name)
      in if chainNumber = 0 then Inl (notDeployed name) else Inr chainNumber)"

section \<open>The trusted keys\<close>

text \<open>
  \<open>TrustedNetworkKeys\<close> carries a brand no caller can make; the functions below are the only
  ones that build one.
\<close>

record trusted_network_keys =
  network :: ika_network
  publicKeys :: "bytes list"

definition trustedNetworkKeysIn ::
    "deployed_network \<Rightarrow> deployed_network_name \<Rightarrow> sdk_error + trusted_network_keys" where
  "trustedNetworkKeysIn table name =
     (if networkKeys table = [] then Inl (notDeployed name)
      else Inr \<lparr>network = Deployed name, publicKeys = map noaPublicKey (networkKeys table)\<rparr>)"

definition trustedNetworkKeys :: "ika_network \<Rightarrow> sdk_error + trusted_network_keys" where
  "trustedNetworkKeys net =
     (case net of
        Deployed name \<Rightarrow> trustedNetworkKeysIn (IKA_DEPLOYED_NETWORKS name) name
      | Custom custom \<Rightarrow>
          bindE (traverseE (\<lambda>key. if length key \<noteq> 32 then Inl (Err ''a trusted network key is 32 bytes'')
                                 else Inr key) custom)
            (\<lambda>keys. Inr \<lparr>network = Custom keys, publicKeys = keys\<rparr>))"

definition copyTrustedNetworkKeys :: "trusted_network_keys \<Rightarrow> trusted_network_keys" where
  "copyTrustedNetworkKeys keys =
     \<lparr>network = (case network keys of Deployed name \<Rightarrow> Deployed name | Custom ks \<Rightarrow> Custom (map id ks)),
      publicKeys = map id (publicKeys keys)\<rparr>"

text \<open>\<open>trustedNetworkKeys.publicKeys.some((key) => equalBytes(key, k))\<close>.\<close>

definition trusts :: "trusted_network_keys \<Rightarrow> bytes \<Rightarrow> bool" where
  "trusts keys k \<longleftrightarrow> list_ex (\<lambda>key. equalBytes key k) (publicKeys keys)"

lemma trusts_iff [simp]: "trusts keys k \<longleftrightarrow> k \<in> set (publicKeys keys)"
  by (auto simp: trusts_def list_ex_iff)

text \<open>
  Why an attestation's \<open>network_pubkey\<close> is refused, \<open>None\<close> where it is not. The refusals, in the
  order the code makes them.
\<close>

datatype network_key_refusal = NotTrusted | NotTheRequests | NotListed sdk_error

definition attestationNetworkKeyRefusalIn ::
    "(deployed_network_name \<Rightarrow> deployed_network) \<Rightarrow> bytes \<Rightarrow> bytes \<Rightarrow> ika_network
      \<Rightarrow> trusted_network_keys option \<Rightarrow> network_key_refusal option" where
  "attestationNetworkKeyRefusalIn tables named expected net trusted =
     (if (case trusted of None \<Rightarrow> False | Some keys \<Rightarrow> \<not> trusts keys named) then Some NotTrusted
      else if \<not> equalBytes named expected then Some NotTheRequests
      else case net of
             Custom _ \<Rightarrow> None
           | Deployed name \<Rightarrow>
               (case listedNetworkKeyIn (tables name) name expected of
                  Inl e \<Rightarrow> Some (NotListed e) | Inr _ \<Rightarrow> None))"

section \<open>The records of a listed key\<close>

record output_record =
  rec_digest :: bytes
  rec_proof :: bytes

text \<open>
  \<open>NetworkKeyOutputRecordReader\<close>: each read takes its time and then answers or throws.
  \<open>guardedRead\<close> is a read made only once a check has passed, \<open>checkedRead\<close> one whose answer is
  checked.
\<close>

record output_record_reader =
  dkgRecord :: "bytes \<Rightarrow> (sdk_error + output_record option) timed_read"
  reconfigurationRecord :: "bytes \<Rightarrow> int \<Rightarrow> (sdk_error + output_record option) timed_read"
  isRegisteredNetworkKey :: "bytes \<Rightarrow> (sdk_error + bool) timed_read"

definition guardedRead :: "'e + 'a \<Rightarrow> ('a \<Rightarrow> ('e + 'b) timed_read) \<Rightarrow> ('e + 'b) timed_read" where
  "guardedRead check read now = (case check of Inl e \<Rightarrow> (0, Inl e) | Inr x \<Rightarrow> read x now)"

definition checkedRead :: "('e + 'a) timed_read \<Rightarrow> ('a \<Rightarrow> 'e + 'b) \<Rightarrow> ('e + 'b) timed_read" where
  "checkedRead read check now = (let (dt, r) = read now in (dt, bindE r check))"

lemma guardedRead_Inr [result_simps]:
  "guardedRead check read now = (dt, Inr y) \<longleftrightarrow> (\<exists>x. check = Inr x \<and> read x now = (dt, Inr y))"
  by (auto simp: guardedRead_def split: sum.splits)

lemma checkedRead_Inr [result_simps]:
  "checkedRead read check now = (dt, Inr y) \<longleftrightarrow> (\<exists>x. read now = (dt, Inr x) \<and> check x = Inr y)"
  by (auto simp: checkedRead_def result_simps split: prod.splits)

datatype record_chain = SuiChain | SolanaChain

text \<open>\<open>recordAddress\<close> derives an address, which may throw.\<close>

definition listedAt ::
    "deployed_network \<Rightarrow> deployed_network_name \<Rightarrow> record_chain \<Rightarrow> (bytes \<Rightarrow> sdk_error + bytes) \<Rightarrow> bytes
      \<Rightarrow> sdk_error + deployed_network_key" where
  "listedAt table name chain recordAddress key =
     bindE (listedNetworkKeyIn table name key) (\<lambda>e.
       let listedAddress = (case chain of SuiChain \<Rightarrow> suiRecordAddress e | SolanaChain \<Rightarrow> solanaRecordAddress e)
       in bindE (recordAddress key) (\<lambda>at.
          seqE (guardE (equalBytes at listedAddress)
                 (Err ''the record of the network key is not at the address this SDK lists''))
               (Inr e)))"

definition listedNetworkKeyRecordReaderIn ::
    "'r output_record_reader_scheme \<Rightarrow> deployed_network \<Rightarrow> deployed_network_name \<Rightarrow> record_chain
      \<Rightarrow> (bytes \<Rightarrow> sdk_error + bytes) \<Rightarrow> 'r output_record_reader_scheme" where
  "listedNetworkKeyRecordReaderIn reader table name chain recordAddress = reader
     \<lparr>dkgRecord := (\<lambda>key.
        guardedRead (listedAt table name chain recordAddress key) (\<lambda>e.
        checkedRead (dkgRecord reader key) (\<lambda>rec.
          case rec of
            None \<Rightarrow> Inr None
          | Some r \<Rightarrow> if equalBytes (rec_digest r) (dkgOutputDigest e) then Inr (Some r)
                      else Inl (Err ''the record holds another DKG output digest than the one listed'')))),
      reconfigurationRecord := (\<lambda>key epoch.
        guardedRead (listedAt table name chain recordAddress key) (\<lambda>_. reconfigurationRecord reader key epoch)),
      isRegisteredNetworkKey := (\<lambda>key.
        if networkKeys table = [] then (\<lambda>_. (0, Inl (notDeployed name)))
        else if \<not> list_ex (\<lambda>k. equalBytes (noaPublicKey k) key) (networkKeys table) then (\<lambda>_. (0, Inr False))
        else isRegisteredNetworkKey reader key)\<rparr>"

definition listedNetworkKeyRecordReader ::
    "'r output_record_reader_scheme \<Rightarrow> ika_network \<Rightarrow> record_chain \<Rightarrow> (bytes \<Rightarrow> sdk_error + bytes)
      \<Rightarrow> 'r output_record_reader_scheme" where
  "listedNetworkKeyRecordReader reader net chain recordAddress =
     (case net of
        Deployed name \<Rightarrow> listedNetworkKeyRecordReaderIn reader (IKA_DEPLOYED_NETWORKS name) name chain recordAddress
      | Custom _ \<Rightarrow> reader)"

section \<open>The id of a network key\<close>

definition NETWORK_KEY_ID_LENGTH :: nat where
  "NETWORK_KEY_ID_LENGTH = 32"

definition networkKeyIdFromBytes :: "bytes \<Rightarrow> sdk_error + bytes" where
  "networkKeyIdFromBytes bs =
     (if length bs \<noteq> NETWORK_KEY_ID_LENGTH then Inl (Err ''a NetworkKeyId is 32 bytes'') else Inr bs)"

text \<open>Hexadecimal text: \<open>byte.toString(16).padStart(2, '0')\<close> and \<open>parseInt(digits, 16)\<close>.\<close>

definition hexDigit :: "nat \<Rightarrow> char" where
  "hexDigit n = ''0123456789abcdef'' ! n"

definition toString16 :: "nat \<Rightarrow> string" where
  "toString16 n = (if n < 16 then [hexDigit n] else [hexDigit (n div 16), hexDigit (n mod 16)])"

definition padStart :: "nat \<Rightarrow> char \<Rightarrow> string \<Rightarrow> string" where
  "padStart n c s = replicate (n - length s) c @ s"

definition toHex :: "bytes \<Rightarrow> string" where
  "toHex bs = concat (map (\<lambda>b. padStart 2 (CHR ''0'') (toString16 (unat b))) bs)"

definition hexValue :: "char \<Rightarrow> nat option" where
  "hexValue c =
     (let n = of_char c :: nat in
      if 48 \<le> n \<and> n \<le> 57 then Some (n - 48)
      else if 97 \<le> n \<and> n \<le> 102 then Some (n - 87)
      else if 65 \<le> n \<and> n \<le> 70 then Some (n - 55)
      else None)"

definition isHexDigit :: "char \<Rightarrow> bool" where
  "isHexDigit c \<longleftrightarrow> hexValue c \<noteq> None"

definition networkKeyIdFromHex :: "string \<Rightarrow> sdk_error + bytes" where
  "networkKeyIdFromHex hex =
     (let digits = (if take 2 hex = ''0x'' then drop 2 hex else hex)
      in if length digits \<noteq> NETWORK_KEY_ID_LENGTH * 2 \<or> \<not> list_all isHexDigit digits
         then Inl (Err ''a NetworkKeyId is 64 hex digits'')
         else Inr (map (\<lambda>i. word_of_nat (16 * the (hexValue (digits ! (2 * i)))
                                          + the (hexValue (digits ! (2 * i + 1)))))
                     [0..<NETWORK_KEY_ID_LENGTH]))"

definition networkKeyIdToHex :: "bytes \<Rightarrow> string" where
  "networkKeyIdToHex key = ''0x'' @ toHex key"

text \<open>\<open>networkKeysByAge[networkKeysByAge.length - 1]\<close>, \<open>undefined\<close> on the empty list.\<close>

definition latestNetworkKeyIdOf :: "bytes list \<Rightarrow> sdk_error + bytes" where
  "latestNetworkKeyIdOf keysByAge =
     (if keysByAge = [] then Inl (Err ''this epoch has no network key for new dWallets'')
      else Inr (keysByAge ! (length keysByAge - 1)))"

section \<open>Lemmas\<close>

lemma listedNetworkKeyIn_Inr:
  "listedNetworkKeyIn table name key = Inr e \<Longrightarrow> e \<in> set (networkKeys table) \<and> noaPublicKey e = key"
  by (auto simp: listedNetworkKeyIn_def find_Some_iff split: if_splits option.splits)

lemma listedNetworkKeyIn_exists:
  "(\<exists>e. listedNetworkKeyIn table name key = Inr e) \<longleftrightarrow> key \<in> noaPublicKey ` set (networkKeys table)"
  by (auto simp: listedNetworkKeyIn_def find_None_iff find_Some_iff image_iff split: option.splits)

lemma refusal_None:
  "attestationNetworkKeyRefusalIn tables named expected net trusted = None \<longleftrightarrow>
     named = expected \<and> (\<forall>keys. trusted = Some keys \<longrightarrow> named \<in> set (publicKeys keys)) \<and>
     (\<forall>name. net = Deployed name \<longrightarrow> expected \<in> noaPublicKey ` set (networkKeys (tables name)))"
proof -
  have trust: "(case trusted of None \<Rightarrow> False | Some keys \<Rightarrow> \<not> trusts keys named) \<longleftrightarrow>
      \<not> (\<forall>keys. trusted = Some keys \<longrightarrow> named \<in> set (publicKeys keys))"
    by (cases trusted) auto
  have listed: "(case listedNetworkKeyIn (tables name) name expected of
        Inl e \<Rightarrow> Some (NotListed e) | Inr _ \<Rightarrow> None) = None \<longleftrightarrow>
      expected \<in> noaPublicKey ` set (networkKeys (tables name))" for name
    unfolding listedNetworkKeyIn_exists [of "tables name" name expected, symmetric] by (auto split: sum.splits)
  show ?thesis
    unfolding attestationNetworkKeyRefusalIn_def trust by (cases net) (simp_all add: listed)
qed

lemma trustedNetworkKeys_custom:
  "trustedNetworkKeys (Custom ks) = Inr t \<longleftrightarrow>
     (\<forall>k \<in> set ks. length k = 32) \<and> t = \<lparr>network = Custom ks, publicKeys = ks\<rparr>"
proof -
  have "list_all2 (\<lambda>x y. (if length x \<noteq> 32 then Inl (Err ''a trusted network key is 32 bytes'') else Inr x) = Inr y)
          ks keys \<longleftrightarrow> (\<forall>k \<in> set ks. length k = 32) \<and> keys = ks" for keys
    by (induction ks arbitrary: keys) (auto simp: list_all2_Cons1)
  then show ?thesis
    by (auto simp: trustedNetworkKeys_def result_simps traverseE_eq_Inr)
qed

lemma copyTrustedNetworkKeys_eq [simp]: "copyTrustedNetworkKeys keys = keys"
  by (cases keys) (auto simp: copyTrustedNetworkKeys_def split: ika_network.splits)

text \<open>Two hexadecimal digits a byte.\<close>

lemma toHex_Cons: "toHex (b # bs) = hexDigit (unat b div 16) # hexDigit (unat b mod 16) # toHex bs"
  by (simp add: toHex_def padStart_def toString16_def hexDigit_def)

lemma toHex_Nil [simp]: "toHex [] = []"
  by (simp add: toHex_def)

lemma length_toHex [simp]: "length (toHex bs) = 2 * length bs"
  by (induction bs) (simp_all add: toHex_Cons)

lemma hexDigits_valued: "list_all (\<lambda>n. hexValue (hexDigit n) = Some n) [0..<16]"
  by code_simp

lemma hexValue_hexDigit [simp]: "n < 16 \<Longrightarrow> hexValue (hexDigit n) = Some n"
  using hexDigits_valued by (simp add: list_all_iff)

lemma unat_byte_less: "unat (b :: byte) < 256"
  using unsigned_less [of b] by simp

lemma toHex_nth:
  "i < length bs \<Longrightarrow> toHex bs ! (2 * i) = hexDigit (unat (bs ! i) div 16) \<and>
     toHex bs ! (2 * i + 1) = hexDigit (unat (bs ! i) mod 16)"
proof (induction bs arbitrary: i)
  case Nil
  then show ?case by simp
next
  case (Cons b bs)
  then show ?case by (cases i) (auto simp: toHex_Cons)
qed

lemma toHex_isHexDigit: "list_all isHexDigit (toHex bs)"
proof (induction bs)
  case (Cons b bs)
  have "unat b div 16 < 16" "unat b mod 16 < 16" using unat_byte_less [of b] by auto
  then show ?case using Cons by (simp add: toHex_Cons isHexDigit_def)
qed simp

lemma hex_byte_roundtrip:
  assumes "i < length bs"
  shows "word_of_nat (16 * the (hexValue (toHex bs ! (2 * i))) + the (hexValue (toHex bs ! (2 * i + 1)))) = bs ! i"
proof -
  have "unat (bs ! i) div 16 < 16" "unat (bs ! i) mod 16 < 16"
    using unat_byte_less [of "bs ! i"] by auto
  then show ?thesis using toHex_nth [OF assms] by simp
qed

end
