(* ===== verification/Attestations.thy ===== *)
theory Attestations
  imports Schemes Network_Keys
begin

text \<open>
  The values the BCS schemas of \<open>grpc/bcs.ts\<close> describe: a struct is a record whose fields are in
  the schema's order, an enum a datatype whose constructors are in variant order. The package that
  reads and writes them is a parameter: the fields of \<open>sdk_lib\<close>, one BCS type for each schema the
  checks parse or serialize, beside the cryptography of \<open>@noble/curves\<close> and \<open>@noble/hashes\<close>.
  A \<open>u64\<close> that BCS decodes to a decimal string is the integer.
\<close>

section \<open>Enums and small structs\<close>

datatype user_signature =
    UserEd25519 (us_signature: bytes) (us_public_key: bytes)
  | UserSecp256k1 (us_signature: bytes) (us_public_key: bytes)
  | UserSecp256r1 (us_signature: bytes) (us_public_key: bytes)

datatype chain_id = Solana | Sui

record network_signed_attestation =
  attestation_data :: bytes
  network_signature :: bytes
  network_pubkey :: bytes
  signer_noa_public_key :: bytes

datatype user_secret_key_share =
    EncryptedUserShare (encrypted_centralized_secret_share_and_proof: bytes)
      (share_encryption_key: bytes) (share_signer_public_key: bytes)
  | PublicUserShare (public_user_secret_key_share: bytes)

datatype dwallet_curve = Curve_Secp256k1 | Curve_Secp256r1 | Curve_Curve25519 | Curve_Ristretto

datatype dwallet_signature_algorithm =
    Alg_ECDSASecp256k1 | Alg_ECDSASecp256r1 | Alg_Taproot | Alg_EdDSA | Alg_Schnorrkel
  | Alg_TaprootVSS | Alg_EdDSAVSS | Alg_SchnorrkelVSS

datatype signature_scheme = Scheme_Ed25519 | Scheme_Secp256k1 | Scheme_Secp256r1

record share_holder =
  holder_scheme :: signature_scheme
  holder_key :: bytes

record attestation_proof_v1 =
  attestation_version :: int
  proof_signer :: bytes
  noa_signature :: bytes

text \<open>A versioned attestation or envelope: an enum with the one variant \<open>V1\<close>.\<close>

datatype 'v versioned = V1 (v1: 'v)

section \<open>Requests\<close>

record sign_during_dkg_request =
  sd_presign_session_identifier :: bytes
  sd_presign :: bytes
  sd_signature_scheme :: scheme_name
  sd_message :: bytes
  sd_message_metadata :: bytes
  sd_message_centralized_signature :: bytes

record dkg_request =
  dkg_network_key_id :: bytes
  dkg_curve :: dwallet_curve
  dkg_centralized_public_key_share_and_proof :: bytes
  dkg_user_secret_key_share :: user_secret_key_share
  dkg_user_public_output :: bytes
  dkg_sign_during_dkg_request :: "sign_during_dkg_request option"

text \<open>\<open>Sign\<close> and \<open>ImportedKeySign\<close> have the same fields.\<close>

record sign_request =
  sg_message :: bytes
  sg_message_metadata :: bytes
  sg_signature_scheme :: scheme_name
  sg_presign_session_identifier :: bytes
  sg_message_centralized_signature :: bytes
  sg_dwallet_attestation :: network_signed_attestation
  sg_signature_voucher :: bytes

record presign_request =
  pq_network_key_id :: bytes
  pq_curve :: dwallet_curve
  pq_signature_algorithm :: dwallet_signature_algorithm

record presign_for_dwallet_request =
  pd_network_key_id :: bytes
  pd_dwallet_public_key :: bytes
  pd_dwallet_attestation :: network_signed_attestation
  pd_curve :: dwallet_curve
  pd_signature_algorithm :: dwallet_signature_algorithm

record imported_key_request =
  ik_network_key_id :: bytes
  ik_curve :: dwallet_curve
  ik_centralized_party_message :: bytes
  ik_user_secret_key_share :: user_secret_key_share
  ik_user_public_output :: bytes

record re_encrypt_request =
  re_network_key_id :: bytes
  re_dwallet_public_key :: bytes
  re_dwallet_attestation :: network_signed_attestation
  re_encrypted_share_and_proof :: bytes
  re_encryption_key :: bytes
  re_holder :: share_holder
  re_source_holder :: share_holder

record make_public_request =
  mp_dwallet_public_key :: bytes
  mp_dwallet_attestation :: network_signed_attestation
  mp_public_user_secret_key_share :: bytes

record future_sign_request =
  fs_dwallet_public_key :: bytes
  fs_dwallet_attestation :: network_signed_attestation
  fs_presign_attestation :: network_signed_attestation
  fs_message :: bytes
  fs_message_metadata :: bytes
  fs_message_centralized_signature :: bytes
  fs_signature_scheme :: scheme_name
  fs_future_signature_voucher :: bytes

text \<open>\<open>SignWithPartialUserSig\<close> and \<open>ImportedKeySignWithPartialUserSig\<close> have the same fields.\<close>

record partial_sign_request =
  pt_partial_user_signature_attestation :: network_signed_attestation
  pt_dwallet_attestation :: network_signed_attestation
  pt_message :: bytes
  pt_message_metadata :: bytes
  pt_future_signature_voucher :: bytes

record attach_share_request =
  at_network_key_id :: bytes
  at_dwallet_public_key :: bytes
  at_dwallet_attestation :: network_signed_attestation
  at_encrypted_share_and_proof :: bytes
  at_encryption_key :: bytes
  at_holder :: share_holder

text \<open>\<open>DWalletRequest\<close>: the constructors in variant order, the retired ones keep their index.\<close>

datatype dwallet_request =
    Dkg dkg_request
  | Sign sign_request
  | ImportedKeySign sign_request
  | Presign presign_request
  | PresignForDWallet presign_for_dwallet_request
  | ImportedKeyVerification imported_key_request
  | ReEncryptShare re_encrypt_request
  | MakeSharePublic make_public_request
  | FutureSign future_sign_request
  | SignWithPartialUserSig partial_sign_request
  | ImportedKeySignWithPartialUserSig partial_sign_request
  | ReleaseGas bytes
  | RetiredAcceptShare
  | RetiredStorePresign
  | AttachEncryptedShare attach_share_request

record signed_request_data =
  session_identifier_preimage :: bytes
  req_epoch :: int
  req_chain_id :: chain_id
  req_network :: int
  req_intended_chain_sender :: bytes
  req_request :: dwallet_request

datatype transaction_response =
    SignatureResponse bytes
  | AttestationResponse network_signed_attestation
  | ErrorResponse string

section \<open>Attestations\<close>

record dwallet_attestation =
  dw_session_identifier :: bytes
  dw_intended_chain_sender :: bytes
  dw_curve :: dwallet_curve
  dw_public_key :: bytes
  dw_public_output :: bytes
  dw_is_imported_key :: bool
  dw_sign_during_dkg_signature :: "bytes option"
  dw_holder :: "share_holder option"
  dw_encryption_key_hash :: "bytes option"
  dw_encrypted_share_hash :: "bytes option"
  dw_epoch :: int

record encrypted_share_attestation =
  es_session_identifier :: bytes
  es_intended_chain_sender :: bytes
  es_dwallet_public_key :: bytes
  es_encrypted_share_hash :: bytes
  es_encryption_key_hash :: bytes
  es_holder :: share_holder
  es_dwallet_attestation_digest :: bytes

record public_share_attestation =
  ps_session_identifier :: bytes
  ps_intended_chain_sender :: bytes
  ps_dwallet_public_key :: bytes
  ps_public_user_secret_key_share :: bytes
  ps_dwallet_attestation_digest :: bytes

record presign_attestation =
  pr_session_identifier :: bytes
  pr_epoch :: int
  pr_presign_session_identifier :: bytes
  pr_presign_data :: bytes
  pr_curve :: dwallet_curve
  pr_signature_algorithm :: dwallet_signature_algorithm
  pr_dwallet_public_key :: "bytes option"
  pr_user_pubkey :: bytes

record partial_signature_attestation =
  pu_session_identifier :: bytes
  pu_intended_chain_sender :: bytes
  pu_dwallet_public_key :: bytes
  pu_dwallet_attestation_hash :: bytes
  pu_future_signature_voucher :: bytes
  pu_presign_session_identifier :: bytes
  pu_presign_attestation_hash :: bytes
  pu_message_digest :: bytes
  pu_message_metadata_digest :: bytes
  pu_signature_scheme :: scheme_name
  pu_verified_sign_data :: bytes

section \<open>Committee members\<close>

record committee_member =
  consensusPubkey :: bytes
  networkPubkey :: bytes

section \<open>The libraries the SDK calls\<close>

record sdk_lib =
  ed25519_verify :: ed25519_verify
  keccak_256 :: hash
  blake2b_256 :: hash
  dwalletBcs :: "dwallet_attestation versioned bcs_type"
  presignBcs :: "presign_attestation versioned bcs_type"
  partialSignatureBcs :: "partial_signature_attestation versioned bcs_type"
  encryptedShareBcs :: "encrypted_share_attestation versioned bcs_type"
  publicShareBcs :: "public_share_attestation versioned bcs_type"
  attestationProofBcs :: "attestation_proof_v1 versioned bcs_type"
  signedRequestDataBcs :: "signed_request_data bcs_type"
  userSignatureBcs :: "user_signature bcs_type"
  committeeMembersBcs :: "committee_member list bcs_type"

section \<open>Positions in a list\<close>

text \<open>\<open>list.indexOf(x)\<close>, -1 where the list lacks it; \<open>list[i]\<close>, \<open>undefined\<close> out of range.\<close>

fun indexFrom :: "int \<Rightarrow> 'a list \<Rightarrow> 'a \<Rightarrow> int" where
  "indexFrom i [] x = -1"
| "indexFrom i (y # ys) x = (if y = x then i else indexFrom (i + 1) ys x)"

definition indexOf :: "'a list \<Rightarrow> 'a \<Rightarrow> int" where
  "indexOf xs x = indexFrom 0 xs x"

definition element :: "'a list \<Rightarrow> int \<Rightarrow> 'a option" where
  "element xs i = (if 0 \<le> i \<and> i < int (length xs) then Some (xs ! nat i) else None)"

definition ATTESTATION_CURVES :: "dwallet_curve list" where
  "ATTESTATION_CURVES = [Curve_Secp256k1, Curve_Secp256r1, Curve_Curve25519, Curve_Ristretto]"

definition ATTESTATION_SIGNATURE_SCHEMES :: "signature_scheme list" where
  "ATTESTATION_SIGNATURE_SCHEMES = [Scheme_Ed25519, Scheme_Secp256k1, Scheme_Secp256r1]"

definition ATTESTATION_DWALLET_SIGNATURE_SCHEMES :: "scheme_name list" where
  "ATTESTATION_DWALLET_SIGNATURE_SCHEMES =
     [EcdsaKeccak256, EcdsaSha256, EcdsaDoubleSha256, TaprootSha256, EcdsaBlake2b256,
      EddsaSha512, SchnorrkelMerlin]"

definition MIGRATED_DWALLET_ATTESTATION_EPOCH :: int where
  "MIGRATED_DWALLET_ATTESTATION_EPOCH = 18446744073709551615"

lemma curve_index_inject [simp]:
  "indexOf ATTESTATION_CURVES c = indexOf ATTESTATION_CURVES d \<longleftrightarrow> c = d"
  by (cases c; cases d; simp add: indexOf_def ATTESTATION_CURVES_def)

lemma scheme_index_inject [simp]:
  "indexOf ATTESTATION_SIGNATURE_SCHEMES c = indexOf ATTESTATION_SIGNATURE_SCHEMES d \<longleftrightarrow> c = d"
  by (cases c; cases d; simp add: indexOf_def ATTESTATION_SIGNATURE_SCHEMES_def)

lemma dwallet_scheme_index_inject [simp]:
  "indexOf ATTESTATION_DWALLET_SIGNATURE_SCHEMES c = indexOf ATTESTATION_DWALLET_SIGNATURE_SCHEMES d
     \<longleftrightarrow> c = d"
  by (cases c; cases d; simp add: indexOf_def ATTESTATION_DWALLET_SIGNATURE_SCHEMES_def)

end
