(* ===== verification/Attestation_Record.thy ===== *)
theory Attestation_Record
  imports Attestations
begin

text \<open>
  The check of an attestation record (\<open>grpc/attestation-record.ts\<close>): the message the network
  signs, the strict decode, the proof envelope, the rebuild of an attestation's bytes from stored
  fields, and the checks of a dWallet's, an encrypted share's, a public share's, a presign's and a
  partial signature's record.
\<close>

section \<open>The record and the signed message\<close>

record attestation_record =
  attestationData :: bytes
  attestationVersion :: int
  networkSignature :: bytes
  signerNoaPublicKey :: bytes

definition KNOWN_ATTESTATION_VERSIONS :: "int list" where
  "KNOWN_ATTESTATION_VERSIONS = [0]"

datatype attestation_kind =
  DWalletKind | PresignKind | PartialUserSignatureKind | EncryptedShareKind | PublicShareKind

fun ATTESTATION_KIND_TAGS :: "attestation_kind \<Rightarrow> byte" where
  "ATTESTATION_KIND_TAGS DWalletKind = 0"
| "ATTESTATION_KIND_TAGS PresignKind = 1"
| "ATTESTATION_KIND_TAGS PartialUserSignatureKind = 2"
| "ATTESTATION_KIND_TAGS EncryptedShareKind = 3"
| "ATTESTATION_KIND_TAGS PublicShareKind = 4"

definition ATTESTATION_SIGNING_PREFIX :: bytes where
  "ATTESTATION_SIGNING_PREFIX = 0xfe # ascii ''ika-attestation''"

definition attestationSigningMessage :: "attestation_kind \<Rightarrow> bytes \<Rightarrow> bytes" where
  "attestationSigningMessage kind attestation =
     ATTESTATION_SIGNING_PREFIX @ [ATTESTATION_KIND_TAGS kind] @ attestation"

abbreviation att_error :: "att_check \<Rightarrow> sdk_error" where
  "att_error check \<equiv> AttestationRecordError check None"

abbreviation field_error :: "att_check \<Rightarrow> string \<Rightarrow> sdk_error" where
  "field_error check fld \<equiv> AttestationRecordError check (Some fld)"

definition PUBLIC_SHARE_LENGTHS :: "int list" where
  "PUBLIC_SHARE_LENGTHS = [35, 35, 34, 34]"

definition requirePublicShareLength :: "bytes \<Rightarrow> int \<Rightarrow> sdk_error + unit" where
  "requirePublicShareLength share curve =
     guardE (element PUBLIC_SHARE_LENGTHS curve = Some (int (length share)))
       (field_error CkLength ''public_user_secret_key_share'')"

section \<open>The strict decode and the record check\<close>

text \<open>
  The parse must succeed and serializing what it gives must give back every byte; a serialize
  that throws counts as the empty byte string.
\<close>

definition decodeExactly :: "'v versioned bcs_type \<Rightarrow> bytes \<Rightarrow> sdk_error + 'v" where
  "decodeExactly type bs =
     (case parse type bs of
        None \<Rightarrow> Inl (att_error CkDecode)
      | Some decoded \<Rightarrow>
          let reserialized = (case serialize type decoded of None \<Rightarrow> [] | Some r \<Rightarrow> r)
          in if \<not> equalBytes reserialized bs then Inl (att_error CkDecode)
             else case decoded of V1 flds \<Rightarrow> Inr flds)"

definition requireKnownVersion :: "int \<Rightarrow> sdk_error + unit" where
  "requireKnownVersion version =
     guardE (List.member KNOWN_ATTESTATION_VERSIONS version) (att_error CkVersion)"

text \<open>
  The order of the checks is the source's. \<open>shareOf\<close> reads the share of a decoded public share
  attestation; the source reads that field under a cast, for that kind only.
\<close>

definition verifyAndDecode ::
    "sdk_lib \<Rightarrow> 'v versioned bcs_type \<Rightarrow> ('v \<Rightarrow> bytes) \<Rightarrow> attestation_record \<Rightarrow> trusted_network_keys
      \<Rightarrow> attestation_kind \<Rightarrow> int option \<Rightarrow> sdk_error + 'v" where
  "verifyAndDecode L type shareOf rec trusted kind publicShareCurve =
     (if kind = PublicShareKind \<and>
         (case publicShareCurve of None \<Rightarrow> True | Some c \<Rightarrow> element PUBLIC_SHARE_LENGTHS c = None)
      then Inl (TypeErr ''a public share attestation is checked against its dWallet's curve'')
      else
        seqE (requireKnownVersion (attestationVersion rec))
       (seqE (guardE (trusts trusted (signerNoaPublicKey rec)) (att_error CkSigner))
       (seqE (guardE (verifiedOrFalse (ed25519_verify L (networkSignature rec)
                        (attestationSigningMessage kind (attestationData rec)) (signerNoaPublicKey rec)))
                (att_error CkSignature))
       (bindE (decodeExactly type (attestationData rec)) (\<lambda>decoded.
          case publicShareCurve of
            Some c \<Rightarrow> if kind = PublicShareKind
                       then seqE (requirePublicShareLength (shareOf decoded) c) (Inr decoded)
                       else Inr decoded
          | None \<Rightarrow> Inr decoded)))))"

text \<open>No kind but the public share has a share to measure.\<close>

definition noShare :: "'v \<Rightarrow> bytes" where
  "noShare v = []"

definition verifyDWalletBytes where
  "verifyDWalletBytes L rec trusted curve =
     verifyAndDecode L (dwalletBcs L) noShare rec trusted DWalletKind curve"

definition verifyPresignBytes where
  "verifyPresignBytes L rec trusted curve =
     verifyAndDecode L (presignBcs L) noShare rec trusted PresignKind curve"

definition verifyPartialSignatureBytes where
  "verifyPartialSignatureBytes L rec trusted curve =
     verifyAndDecode L (partialSignatureBcs L) noShare rec trusted PartialUserSignatureKind curve"

definition verifyEncryptedShareBytes where
  "verifyEncryptedShareBytes L rec trusted curve =
     verifyAndDecode L (encryptedShareBcs L) noShare rec trusted EncryptedShareKind curve"

definition verifyPublicShareBytes where
  "verifyPublicShareBytes L rec trusted curve =
     verifyAndDecode L (publicShareBcs L) ps_public_user_secret_key_share rec trusted PublicShareKind curve"

text \<open>\<open>verifyAttestationRecord\<close>: the same check of any kind, its decoded value dropped.\<close>

fun verifyAttestationRecord ::
    "sdk_lib \<Rightarrow> attestation_record \<Rightarrow> trusted_network_keys \<Rightarrow> attestation_kind \<Rightarrow> int option
      \<Rightarrow> sdk_error + unit" where
  "verifyAttestationRecord L rec trusted DWalletKind curve =
     bindE (verifyDWalletBytes L rec trusted curve) (\<lambda>_. Inr ())"
| "verifyAttestationRecord L rec trusted PresignKind curve =
     bindE (verifyPresignBytes L rec trusted curve) (\<lambda>_. Inr ())"
| "verifyAttestationRecord L rec trusted PartialUserSignatureKind curve =
     bindE (verifyPartialSignatureBytes L rec trusted curve) (\<lambda>_. Inr ())"
| "verifyAttestationRecord L rec trusted EncryptedShareKind curve =
     bindE (verifyEncryptedShareBytes L rec trusted curve) (\<lambda>_. Inr ())"
| "verifyAttestationRecord L rec trusted PublicShareKind curve =
     bindE (verifyPublicShareBytes L rec trusted curve) (\<lambda>_. Inr ())"

text \<open>An attestation of an answer as a record: its version is its first byte, 255 when it has none.\<close>

definition recordOfAttestation :: "network_signed_attestation \<Rightarrow> attestation_record" where
  "recordOfAttestation a =
     \<lparr>attestationData = attestation_data a,
      attestationVersion = (if length (attestation_data a) = 0 then 255 else uint (attestation_data a ! 0)),
      networkSignature = network_signature a,
      signerNoaPublicKey = signer_noa_public_key a\<rparr>"

section \<open>The proof envelope and the rebuild\<close>

record attestation_proof =
  proofVersion :: int
  proofSigner :: bytes
  proofSignature :: bytes

text \<open>
  The reserialize is outside the \<open>try\<close>: a throw of \<open>serialize\<close> on what \<open>parse\<close> returned would
  leave as the library's own error.
\<close>

definition decodeAttestationProof :: "sdk_lib \<Rightarrow> bytes \<Rightarrow> sdk_error + attestation_proof" where
  "decodeAttestationProof L proofBytes =
     (case parse (attestationProofBcs L) proofBytes of
        None \<Rightarrow> Inl (field_error CkRecord ''attestation_proof'')
      | Some decoded \<Rightarrow>
          (case serialize (attestationProofBcs L) decoded of
             None \<Rightarrow> Inl (Err ''bcs'')
           | Some reserialized \<Rightarrow>
               if \<not> equalBytes reserialized proofBytes
               then Inl (field_error CkRecord ''attestation_proof'')
               else case decoded of V1 proof \<Rightarrow>
                 seqE (requireKnownVersion (attestation_version proof))
                   (Inr \<lparr>proofVersion = attestation_version proof, proofSigner = proof_signer proof,
                         proofSignature = noa_signature proof\<rparr>)))"

definition attestationRecordOf :: "attestation_proof \<Rightarrow> bytes \<Rightarrow> attestation_record" where
  "attestationRecordOf proof bs =
     \<lparr>attestationData = bs, attestationVersion = proofVersion proof,
      networkSignature = proofSignature proof, signerNoaPublicKey = proofSigner proof\<rparr>"

definition writeAttestation :: "bytes option \<Rightarrow> sdk_error + bytes" where
  "writeAttestation r = ofOption (att_error CkRecord) r"

definition rebuildDWalletAttestation :: "sdk_lib \<Rightarrow> int \<Rightarrow> dwallet_attestation \<Rightarrow> sdk_error + bytes" where
  "rebuildDWalletAttestation L version flds =
     seqE (requireKnownVersion version) (writeAttestation (serialize (dwalletBcs L) (V1 flds)))"

definition rebuildEncryptedShareAttestation ::
    "sdk_lib \<Rightarrow> int \<Rightarrow> encrypted_share_attestation \<Rightarrow> sdk_error + bytes" where
  "rebuildEncryptedShareAttestation L version flds =
     seqE (requireKnownVersion version) (writeAttestation (serialize (encryptedShareBcs L) (V1 flds)))"

definition rebuildPublicShareAttestation ::
    "sdk_lib \<Rightarrow> int \<Rightarrow> public_share_attestation \<Rightarrow> sdk_error + bytes" where
  "rebuildPublicShareAttestation L version flds =
     seqE (requireKnownVersion version) (writeAttestation (serialize (publicShareBcs L) (V1 flds)))"

definition rebuildPartialSignatureAttestation ::
    "sdk_lib \<Rightarrow> int \<Rightarrow> partial_signature_attestation \<Rightarrow> sdk_error + bytes" where
  "rebuildPartialSignatureAttestation L version flds =
     seqE (requireKnownVersion version) (writeAttestation (serialize (partialSignatureBcs L) (V1 flds)))"

section \<open>The dWallet's record\<close>

definition requireField :: "string \<Rightarrow> bool \<Rightarrow> sdk_error + unit" where
  "requireField fld holds = guardE holds (field_error CkBinding fld)"

definition requireStoredField :: "string \<Rightarrow> bool \<Rightarrow> sdk_error + unit" where
  "requireStoredField fld holds = guardE holds (field_error CkRecord fld)"

record verified_dwallet =
  vd_attestationData :: bytes
  vd_attestation :: dwallet_attestation
  vd_networkSignature :: bytes
  vd_signer :: bytes

record expected_dwallet =
  ex_curve :: int
  ex_publicKey :: bytes
  ex_importedSessionIdentifier :: "bytes option"

definition verifyDWalletAttestationRecord ::
    "sdk_lib \<Rightarrow> attestation_record \<Rightarrow> trusted_network_keys \<Rightarrow> expected_dwallet
      \<Rightarrow> sdk_error + verified_dwallet" where
  "verifyDWalletAttestationRecord L rec trusted expected =
     bindE (verifyDWalletBytes L rec trusted None) (\<lambda>att.
       seqE (requireField ''curve'' (indexOf ATTESTATION_CURVES (dw_curve att) = ex_curve expected))
      (seqE (requireField ''public_key'' (equalBytes (dw_public_key att) (ex_publicKey expected)))
      (let imported = ex_importedSessionIdentifier expected \<noteq> None in
       seqE (requireField ''is_imported_key'' (dw_is_imported_key att = imported))
      (seqE (case ex_importedSessionIdentifier expected of
               None \<Rightarrow> Inr ()
             | Some sid \<Rightarrow> requireField ''session_identifier'' (equalBytes (dw_session_identifier att) sid))
       (Inr \<lparr>vd_attestationData = attestationData rec, vd_attestation = att,
             vd_networkSignature = networkSignature rec, vd_signer = signerNoaPublicKey rec\<rparr>)))))"

section \<open>Shares of a dWallet\<close>

definition dwalletAttestationDigest :: "sdk_lib \<Rightarrow> bytes \<Rightarrow> bytes" where
  "dwalletAttestationDigest L attestation = keccak_256 L attestation"

definition shareAttestationDigest :: "sdk_lib \<Rightarrow> bytes \<Rightarrow> bytes" where
  "shareAttestationDigest L attestation = keccak_256 L attestation"

definition isShareOfTheCreatingRequest :: "bytes \<Rightarrow> dwallet_attestation \<Rightarrow> bool" where
  "isShareOfTheCreatingRequest session dwallet \<longleftrightarrow> equalBytes session (dw_session_identifier dwallet)"

definition requireSameSenderAndKey :: "bytes \<Rightarrow> bytes \<Rightarrow> verified_dwallet \<Rightarrow> sdk_error + unit" where
  "requireSameSenderAndKey sender key dwallet =
     seqE (requireField ''intended_chain_sender''
             (equalBytes sender (dw_intended_chain_sender (vd_attestation dwallet))))
          (requireField ''dwallet_public_key''
             (equalBytes key (dw_public_key (vd_attestation dwallet))))"

definition requireDWalletAttestationDigest :: "sdk_lib \<Rightarrow> bytes \<Rightarrow> verified_dwallet \<Rightarrow> sdk_error + unit" where
  "requireDWalletAttestationDigest L digest dwallet =
     requireField ''dwallet_attestation_digest''
       (equalBytes digest (dwalletAttestationDigest L (vd_attestationData dwallet)))"

definition requireSameRequest :: "bytes \<Rightarrow> bytes \<Rightarrow> bytes \<Rightarrow> verified_dwallet \<Rightarrow> sdk_error + unit" where
  "requireSameRequest session sender key dwallet =
     seqE (requireField ''session_identifier''
             (equalBytes session (dw_session_identifier (vd_attestation dwallet))))
          (requireSameSenderAndKey sender key dwallet)"

definition requireSameDWallet :: "sdk_lib \<Rightarrow> bytes \<Rightarrow> bytes \<Rightarrow> bytes \<Rightarrow> verified_dwallet \<Rightarrow> sdk_error + unit" where
  "requireSameDWallet L sender key digest dwallet =
     seqE (requireSameSenderAndKey sender key dwallet)
          (requireDWalletAttestationDigest L digest dwallet)"

record asked_holder =
  holderSignerPublicKey :: bytes
  holderSignatureScheme :: "int option"

definition askedHolder :: "share_holder \<Rightarrow> asked_holder \<Rightarrow> bool" where
  "askedHolder h asked \<longleftrightarrow>
     indexOf ATTESTATION_SIGNATURE_SCHEMES (holder_scheme h)
       = (case holderSignatureScheme asked of None \<Rightarrow> 0 | Some s \<Rightarrow> s)
     \<and> equalBytes (holder_key h) (holderSignerPublicKey asked)"

definition verifyEncryptedShareAttestationRecord ::
    "sdk_lib \<Rightarrow> attestation_record \<Rightarrow> trusted_network_keys \<Rightarrow> verified_dwallet \<Rightarrow> asked_holder
      \<Rightarrow> sdk_error + encrypted_share_attestation" where
  "verifyEncryptedShareAttestationRecord L rec trusted dwallet asked =
     bindE (verifyEncryptedShareBytes L rec trusted None) (\<lambda>att.
       let dw = vd_attestation dwallet; isAsked = askedHolder (es_holder att) asked in
       if \<not> isShareOfTheCreatingRequest (es_session_identifier att) dw then
         seqE (requireSameDWallet L (es_intended_chain_sender att) (es_dwallet_public_key att)
                 (es_dwallet_attestation_digest att) dwallet)
        (seqE (requireField ''holder'' isAsked) (Inr att))
       else
         seqE (requireSameRequest (es_session_identifier att) (es_intended_chain_sender att)
                 (es_dwallet_public_key att) dwallet)
        (seqE (requireField ''encrypted_share_hash''
                 (case dw_encrypted_share_hash dw of None \<Rightarrow> False
                  | Some h \<Rightarrow> equalBytes (es_encrypted_share_hash att) h))
        (seqE (requireField ''encryption_key_hash''
                 (case dw_encryption_key_hash dw of None \<Rightarrow> False
                  | Some h \<Rightarrow> equalBytes (es_encryption_key_hash att) h))
        (seqE (requireField ''holder''
                 (case dw_holder dw of None \<Rightarrow> False
                  | Some h \<Rightarrow> holder_scheme (es_holder att) = holder_scheme h \<and>
                      equalBytes (holder_key (es_holder att)) (holder_key h) \<and> isAsked))
        (seqE (requireDWalletAttestationDigest L (es_dwallet_attestation_digest att) dwallet)
              (Inr att))))))"

definition verifyPublicShareAttestationRecord ::
    "sdk_lib \<Rightarrow> attestation_record \<Rightarrow> trusted_network_keys \<Rightarrow> verified_dwallet
      \<Rightarrow> sdk_error + public_share_attestation" where
  "verifyPublicShareAttestationRecord L rec trusted dwallet =
     bindE (verifyPublicShareBytes L rec trusted
              (Some (indexOf ATTESTATION_CURVES (dw_curve (vd_attestation dwallet))))) (\<lambda>att.
       if \<not> isShareOfTheCreatingRequest (ps_session_identifier att) (vd_attestation dwallet) then
         seqE (requireSameDWallet L (ps_intended_chain_sender att) (ps_dwallet_public_key att)
                 (ps_dwallet_attestation_digest att) dwallet)
              (Inr att)
       else
         seqE (requireSameRequest (ps_session_identifier att) (ps_intended_chain_sender att)
                 (ps_dwallet_public_key att) dwallet)
        (seqE (requireField ''holder'' (dw_holder (vd_attestation dwallet) = None))
        (seqE (requireDWalletAttestationDigest L (ps_dwallet_attestation_digest att) dwallet)
              (Inr att))))"

section \<open>What a chain stores beside an attestation\<close>

record stored_dwallet =
  sdw_curve :: int
  sdw_publicKey :: bytes
  sdw_isImportedKey :: bool
  sdw_importedSessionIdentifier :: "bytes option"

definition verifyStoredDWallet :: "stored_dwallet \<Rightarrow> verified_dwallet \<Rightarrow> sdk_error + unit" where
  "verifyStoredDWallet stored dwallet =
     (let att = vd_attestation dwallet in
       seqE (requireStoredField ''curve'' (indexOf ATTESTATION_CURVES (dw_curve att) = sdw_curve stored))
      (seqE (requireStoredField ''public_key'' (equalBytes (sdw_publicKey stored) (dw_public_key att)))
      (seqE (requireStoredField ''is_imported_key'' (sdw_isImportedKey stored = dw_is_imported_key att))
            (requireStoredField ''session_identifier''
               (if dw_is_imported_key att
                then (case sdw_importedSessionIdentifier stored of None \<Rightarrow> False
                      | Some sid \<Rightarrow> equalBytes sid (dw_session_identifier att))
                else sdw_importedSessionIdentifier stored = None)))))"

definition verifyRegisteredEncryptionKey ::
    "sdk_lib \<Rightarrow> encrypted_share_attestation \<Rightarrow> bytes \<Rightarrow> sdk_error + unit" where
  "verifyRegisteredEncryptionKey L share registeredKey =
     requireStoredField ''encryption_key_hash''
       (equalBytes (keccak_256 L registeredKey) (es_encryption_key_hash share))"

definition verifyStoredEncryptedShare ::
    "sdk_lib \<Rightarrow> encrypted_share_attestation \<Rightarrow> bytes \<Rightarrow> sdk_error + unit" where
  "verifyStoredEncryptedShare L share encryptedShare =
     requireStoredField ''encrypted_share''
       (equalBytes (keccak_256 L encryptedShare) (es_encrypted_share_hash share))"

section \<open>Presigns, partial signatures and vouchers\<close>

definition verifyPresignAttestationRecord ::
    "sdk_lib \<Rightarrow> attestation_record \<Rightarrow> trusted_network_keys \<Rightarrow> sdk_error + presign_attestation" where
  "verifyPresignAttestationRecord L rec trusted = verifyPresignBytes L rec trusted None"

definition verifyPartialSignatureAttestationRecord ::
    "sdk_lib \<Rightarrow> attestation_record \<Rightarrow> trusted_network_keys \<Rightarrow> sdk_error + partial_signature_attestation" where
  "verifyPartialSignatureAttestationRecord L rec trusted = verifyPartialSignatureBytes L rec trusted None"

record stored_voucher =
  sv_address :: bytes
  sv_messageDigest :: bytes
  sv_messageMetadataDigest :: bytes
  sv_signatureScheme :: int

definition verifyPartialSignatureVoucherRecord ::
    "sdk_lib \<Rightarrow> attestation_proof \<Rightarrow> partial_signature_attestation \<Rightarrow> trusted_network_keys
      \<Rightarrow> stored_voucher \<Rightarrow> sdk_error + partial_signature_attestation" where
  "verifyPartialSignatureVoucherRecord L proof flds trusted voucher =
     bindE (rebuildPartialSignatureAttestation L (proofVersion proof) flds) (\<lambda>rebuilt.
     bindE (verifyPartialSignatureAttestationRecord L (attestationRecordOf proof rebuilt) trusted) (\<lambda>att.
       seqE (requireField ''future_signature_voucher''
               (equalBytes (pu_future_signature_voucher att) (sv_address voucher)))
      (seqE (requireField ''message_digest''
               (equalBytes (pu_message_digest att) (sv_messageDigest voucher)))
      (seqE (requireField ''message_metadata_digest''
               (equalBytes (pu_message_metadata_digest att) (sv_messageMetadataDigest voucher)))
      (seqE (requireField ''signature_scheme''
               (indexOf ATTESTATION_DWALLET_SIGNATURE_SCHEMES (pu_signature_scheme att)
                  = sv_signatureScheme voucher))
       (Inr att))))))"

section \<open>The network key an attestation names\<close>

definition verifyAttestationNetworkKey ::
    "bytes \<Rightarrow> bytes \<Rightarrow> ika_network \<Rightarrow> trusted_network_keys option \<Rightarrow> sdk_error + unit" where
  "verifyAttestationNetworkKey namedKey expectedKeyId net trusted =
     (case attestationNetworkKeyRefusalIn IKA_DEPLOYED_NETWORKS namedKey expectedKeyId net trusted of
        None \<Rightarrow> Inr ()
      | Some _ \<Rightarrow> Inl (field_error CkBinding ''network_pubkey''))"

text \<open>\<open>reader.fetchNetworkEncryptionKey\<close>, the chain's verified reader: the key its record names.\<close>

definition readAndVerifyNetworkKey ::
    "(bytes \<Rightarrow> sdk_error + bytes option) \<Rightarrow> bytes \<Rightarrow> ika_network \<Rightarrow> sdk_error + bytes" where
  "readAndVerifyNetworkKey fetchNetworkEncryptionKey key net =
     bindE (mapErr (\<lambda>_. field_error CkBinding ''network_pubkey'') (listedNetworkKey net key)) (\<lambda>_.
     bindE (fetchNetworkEncryptionKey key) (\<lambda>rec.
       case rec of
         None \<Rightarrow> Inl (field_error CkBinding ''network_pubkey'')
       | Some recKey \<Rightarrow>
           if \<not> equalBytes recKey key then Inl (field_error CkBinding ''network_pubkey'') else Inr recKey))"

datatype attestation_to_verify =
    Answer network_signed_attestation
  | StoredRecord attestation_record bytes

definition recordToVerify :: "attestation_to_verify \<Rightarrow> attestation_record \<times> bytes" where
  "recordToVerify a = (case a of
     Answer ans \<Rightarrow> (recordOfAttestation ans, network_pubkey ans)
   | StoredRecord rec key \<Rightarrow> (rec, key))"

definition verifyAttestation ::
    "sdk_lib \<Rightarrow> attestation_to_verify \<Rightarrow> attestation_kind \<Rightarrow> bytes \<Rightarrow> trusted_network_keys \<Rightarrow> int option
      \<Rightarrow> sdk_error + unit" where
  "verifyAttestation L att kind expectedKeyId trusted curve =
     (let (rec, namedKey) = recordToVerify att in
      seqE (verifyAttestationNetworkKey namedKey expectedKeyId (network trusted) None)
           (verifyAttestationRecord L rec trusted kind curve))"

end
