(* ===== verification/Record_Laws.thy ===== *)
theory Record_Laws
  imports Attestation_Record
begin

text \<open>
  What the checks of an attestation record promise. \<open>signed_record\<close> is the abstract contract of a
  kind's check; the locale \<open>record_check\<close> states it as an interface, with what a client may
  conclude from an accepted record, and every kind's check interprets it.
\<close>

section \<open>The contract\<close>

text \<open>The bytes decode to exactly this value, and are the one way it is written.\<close>

definition decodes :: "'v versioned bcs_type \<Rightarrow> bytes \<Rightarrow> 'v \<Rightarrow> bool" where
  "decodes type bs v \<longleftrightarrow>
     parse type bs = Some (V1 v) \<and> bs = (case serialize type (V1 v) of None \<Rightarrow> [] | Some r \<Rightarrow> r)"

definition signed_record ::
    "sdk_lib \<Rightarrow> 'v versioned bcs_type \<Rightarrow> attestation_kind \<Rightarrow> attestation_record \<Rightarrow> trusted_network_keys
      \<Rightarrow> 'v \<Rightarrow> bool" where
  "signed_record L type kind rec trusted v \<longleftrightarrow>
     attestationVersion rec = 0 \<and>
     signerNoaPublicKey rec \<in> set (publicKeys trusted) \<and>
     ed25519_verify L (networkSignature rec) (attestationSigningMessage kind (attestationData rec))
       (signerNoaPublicKey rec) = Some True \<and>
     decodes type (attestationData rec) v"

text \<open>
  The documented laws of a versioned BCS type: what it serializes parses back, and no bytes are
  not an enum.
\<close>

definition enum_codec :: "'v versioned bcs_type \<Rightarrow> bool" where
  "enum_codec c \<longleftrightarrow> codec_ok c \<and> parse c [] = None"

lemma decodes_Some:
  "parse type [] = None \<Longrightarrow> decodes type bs v \<Longrightarrow> serialize type (V1 v) = Some bs"
  by (auto simp: decodes_def split: option.splits)

lemma decodes_unique: "decodes type bs v \<Longrightarrow> decodes type bs w \<Longrightarrow> v = w"
  by (metis decodes_def option.inject versioned.inject)

lemma decodes_serialize:
  "codec_ok type \<Longrightarrow> serialize type (V1 v) = Some bs \<Longrightarrow> decodes type bs v"
  by (simp add: decodes_def codec_okD)

lemma decodeExactly_Inr [result_simps]: "decodeExactly type bs = Inr v \<longleftrightarrow> decodes type bs v"
  by (auto simp: decodeExactly_def decodes_def split: option.splits versioned.splits if_splits)

lemma decodeExactly_Inl [result_simps]:
  "decodeExactly type bs = Inl e \<longleftrightarrow> e = att_error CkDecode \<and> (\<forall>v. \<not> decodes type bs v)"
  by (auto simp: decodeExactly_def decodes_def split: option.splits versioned.splits if_splits)

lemma requireKnownVersion_Inr [result_simps]: "requireKnownVersion n = Inr u \<longleftrightarrow> n = 0"
  and requireKnownVersion_Inl [result_simps]:
    "requireKnownVersion n = Inl e \<longleftrightarrow> n \<noteq> 0 \<and> e = att_error CkVersion"
  by (auto simp: requireKnownVersion_def KNOWN_ATTESTATION_VERSIONS_def result_simps)

lemma verifyAndDecode_Inr:
  assumes "kind \<noteq> PublicShareKind"
  shows "verifyAndDecode L type shareOf rec trusted kind curve = Inr v \<longleftrightarrow>
           signed_record L type kind rec trusted v"
  using assms by (auto simp: verifyAndDecode_def signed_record_def result_simps split: option.splits)

lemma not_public:
  "DWalletKind \<noteq> PublicShareKind" "PresignKind \<noteq> PublicShareKind"
  "PartialUserSignatureKind \<noteq> PublicShareKind" "EncryptedShareKind \<noteq> PublicShareKind"
  by simp_all

lemma verifyAndDecode_public_Inr:
  "verifyAndDecode L type shareOf rec trusted PublicShareKind curve = Inr v \<longleftrightarrow>
     signed_record L type PublicShareKind rec trusted v \<and>
     (\<exists>c. curve = Some c \<and> element PUBLIC_SHARE_LENGTHS c = Some (int (length (shareOf v))))"
  by (auto simp: verifyAndDecode_def signed_record_def requirePublicShareLength_def result_simps
      split: option.splits)

section \<open>The interface of a kind's check\<close>

locale record_check =
  fixes L :: sdk_lib
    and type :: "'v versioned bcs_type"
    and kind :: attestation_kind
    and check :: "attestation_record \<Rightarrow> trusted_network_keys \<Rightarrow> sdk_error + 'v"
  assumes check_signed: "check rec trusted = Inr v \<Longrightarrow> signed_record L type kind rec trusted v"
begin

lemma needs_trust: "publicKeys trusted = [] \<Longrightarrow> \<not> returned (check rec trusted)"
  by (auto simp: returned_iff signed_record_def dest: check_signed)

lemma value_of_bytes:
  assumes "check rec trusted = Inr v" "check rec' trusted' = Inr v'"
    and "attestationData rec = attestationData rec'"
  shows "v = v'"
  using check_signed [OF assms(1)] check_signed [OF assms(2)] assms(3)
  unfolding signed_record_def by (metis decodes_unique)

lemma bytes_of_value:
  assumes "parse type [] = None"
    and "check rec trusted = Inr v" "check rec' trusted' = Inr v"
  shows "attestationData rec = attestationData rec'"
  using decodes_Some [OF assms(1)] check_signed [OF assms(2)] check_signed [OF assms(3)]
  unfolding signed_record_def by (metis option.inject)

text \<open>What was serialized is what an accepted record of those bytes decodes to.\<close>

lemma value_of_serialized:
  assumes "codec_ok type" "serialize type (V1 w) = Some (attestationData rec)"
    and "check rec trusted = Inr v"
  shows "v = w"
  using decodes_serialize [OF assms(1,2)] check_signed [OF assms(3)]
  unfolding signed_record_def by (metis decodes_unique)

lemma accepted_signature:
  assumes "check rec trusted = Inr v"
  shows "signerNoaPublicKey rec \<in> set (publicKeys trusted) \<and>
    ed25519_verify L (networkSignature rec) (attestationSigningMessage kind (attestationData rec))
      (signerNoaPublicKey rec) = Some True"
  using check_signed [OF assms] by (simp add: signed_record_def)

end

interpretation dwallet_check: record_check L "dwalletBcs L" DWalletKind "\<lambda>rec trusted. verifyDWalletBytes L rec trusted c" for L c
  by unfold_locales (simp add: verifyDWalletBytes_def verifyAndDecode_Inr)

interpretation presign_check: record_check L "presignBcs L" PresignKind "verifyPresignAttestationRecord L" for L
  by unfold_locales (simp add: verifyPresignAttestationRecord_def verifyPresignBytes_def verifyAndDecode_Inr)

interpretation partial_check: record_check L "partialSignatureBcs L" PartialUserSignatureKind "verifyPartialSignatureAttestationRecord L" for L
  by unfold_locales
    (simp add: verifyPartialSignatureAttestationRecord_def verifyPartialSignatureBytes_def verifyAndDecode_Inr)

interpretation encrypted_check: record_check L "encryptedShareBcs L" EncryptedShareKind "\<lambda>rec trusted. verifyEncryptedShareBytes L rec trusted c" for L c
  by unfold_locales (simp add: verifyEncryptedShareBytes_def verifyAndDecode_Inr)

interpretation public_check: record_check L "publicShareBcs L" PublicShareKind "\<lambda>rec trusted. verifyPublicShareBytes L rec trusted c" for L c
  by unfold_locales (simp add: verifyPublicShareBytes_def verifyAndDecode_public_Inr)

lemmas kind_checks_Inr =
  verifyDWalletBytes_def verifyPresignBytes_def verifyPartialSignatureBytes_def
  verifyEncryptedShareBytes_def verifyPublicShareBytes_def verifyAndDecode_public_Inr

section \<open>The signed message\<close>

lemma kind_tag_inject [simp]: "ATTESTATION_KIND_TAGS k = ATTESTATION_KIND_TAGS k' \<longleftrightarrow> k = k'"
  by (cases k; cases k'; simp)

lemma kind_tag_bound: "ATTESTATION_KIND_TAGS k \<noteq> 5 \<and> ATTESTATION_KIND_TAGS k \<noteq> 6 \<and> ATTESTATION_KIND_TAGS k \<noteq> 7"
  by (cases k) simp_all

lemma length_ATTESTATION_SIGNING_PREFIX [simp]: "length ATTESTATION_SIGNING_PREFIX = 16"
  by (simp add: ATTESTATION_SIGNING_PREFIX_def)

text \<open>
  The message the network signs for an attestation determines the attestation's kind and its
  exact bytes, so a signature over one kind's bytes is never a signature over another kind's.
\<close>

theorem attestationSigningMessage_inject:
  "attestationSigningMessage k d = attestationSigningMessage k' d' \<longleftrightarrow> k = k' \<and> d = d'"
  by (simp add: attestationSigningMessage_def)

section \<open>Any attestation\<close>

text \<open>What each kind's bytes must be, under the contract of its check.\<close>

fun attested :: "sdk_lib \<Rightarrow> attestation_kind \<Rightarrow> attestation_record \<Rightarrow> trusted_network_keys \<Rightarrow> int option \<Rightarrow> bool" where
  "attested L DWalletKind rec trusted curve = (\<exists>v. signed_record L (dwalletBcs L) DWalletKind rec trusted v)"
| "attested L PresignKind rec trusted curve = (\<exists>v. signed_record L (presignBcs L) PresignKind rec trusted v)"
| "attested L PartialUserSignatureKind rec trusted curve =
     (\<exists>v. signed_record L (partialSignatureBcs L) PartialUserSignatureKind rec trusted v)"
| "attested L EncryptedShareKind rec trusted curve =
     (\<exists>v. signed_record L (encryptedShareBcs L) EncryptedShareKind rec trusted v)"
| "attested L PublicShareKind rec trusted curve =
     (\<exists>v c. signed_record L (publicShareBcs L) PublicShareKind rec trusted v \<and> curve = Some c \<and>
        element PUBLIC_SHARE_LENGTHS c = Some (int (length (ps_public_user_secret_key_share v))))"

lemma verifyAttestationRecord_Inr:
  "verifyAttestationRecord L rec trusted kind curve = Inr () \<longleftrightarrow> attested L kind rec trusted curve"
  by (cases kind) (auto simp: kind_checks_Inr verifyAndDecode_Inr result_simps)

text \<open>The network key named is the one expected, and listed where the network is deployed.\<close>

definition key_named :: "ika_network \<Rightarrow> bytes \<Rightarrow> bytes \<Rightarrow> bool" where
  "key_named net expected named \<longleftrightarrow>
     named = expected \<and>
     (\<forall>name. net = Deployed name \<longrightarrow> expected \<in> noaPublicKey ` set (networkKeys (IKA_DEPLOYED_NETWORKS name)))"

lemma verifyAttestationNetworkKey_Inr [result_simps]:
  "verifyAttestationNetworkKey named expected net trusted = Inr u \<longleftrightarrow>
     key_named net expected named \<and> (\<forall>keys. trusted = Some keys \<longrightarrow> named \<in> set (publicKeys keys))"
  using refusal_None [of IKA_DEPLOYED_NETWORKS named expected net trusted]
  by (auto simp: verifyAttestationNetworkKey_def key_named_def split: option.splits)

text \<open>
  An attestation from an answer or from the chain is verified exactly when the network key it
  names is the one expected, listed where the network is a deployed one, and its bytes are an
  attestation of the kind asked for, signed by a key the caller trusts under the kind's own message.
\<close>

theorem verifyAttestation_iff:
  "verifyAttestation L att kind expected trusted curve = Inr () \<longleftrightarrow>
     snd (recordToVerify att) = expected \<and>
     (case network trusted of
        Custom ks \<Rightarrow> True
      | Deployed name \<Rightarrow> expected \<in> noaPublicKey ` set (networkKeys (IKA_DEPLOYED_NETWORKS name))) \<and>
     attested L kind (fst (recordToVerify att)) trusted curve"
proof -
  obtain rec named where r: "recordToVerify att = (rec, named)" by (cases "recordToVerify att")
  show ?thesis
    unfolding verifyAttestation_def r
    by (auto simp: result_simps verifyAttestationRecord_Inr key_named_def split: ika_network.split)
qed

section \<open>The dWallet's record\<close>

lemma requireField_Inr [result_simps]: "requireField f b = Inr u \<longleftrightarrow> b"
  and requireField_Inl [result_simps]: "requireField f b = Inl e \<longleftrightarrow> \<not> b \<and> e = field_error CkBinding f"
  by (auto simp: requireField_def result_simps)

lemma requireStoredField_Inr [result_simps]: "requireStoredField f b = Inr u \<longleftrightarrow> b"
  and requireStoredField_Inl [result_simps]:
    "requireStoredField f b = Inl e \<longleftrightarrow> \<not> b \<and> e = field_error CkRecord f"
  by (auto simp: requireStoredField_def result_simps)

definition dwallet_of :: "attestation_record \<Rightarrow> dwallet_attestation \<Rightarrow> verified_dwallet" where
  "dwallet_of rec att =
     \<lparr>vd_attestationData = attestationData rec, vd_attestation = att,
      vd_networkSignature = networkSignature rec, vd_signer = signerNoaPublicKey rec\<rparr>"

lemma dwallet_record_Inr:
  "verifyDWalletAttestationRecord L rec trusted ex = Inr vd \<longleftrightarrow>
     (\<exists>att. signed_record L (dwalletBcs L) DWalletKind rec trusted att \<and>
        indexOf ATTESTATION_CURVES (dw_curve att) = ex_curve ex \<and>
        dw_public_key att = ex_publicKey ex \<and>
        (case ex_importedSessionIdentifier ex of
           None \<Rightarrow> \<not> dw_is_imported_key att
         | Some sid \<Rightarrow> dw_is_imported_key att \<and> dw_session_identifier att = sid) \<and>
        vd = dwallet_of rec att)"
  by (auto simp: verifyDWalletAttestationRecord_def verifyDWalletBytes_def verifyAndDecode_Inr
      dwallet_of_def result_simps Let_def split: option.splits)

text \<open>
  C6. A dWallet's record is accepted exactly when its bytes are a dWallet attestation signed by a
  trusted key that names the curve, the public key and the origin asked for, and for an imported
  dWallet the import's session; the result is that attestation.
\<close>

theorem verifyDWalletAttestationRecord_iff:
  "verifyDWalletAttestationRecord L rec trusted ex = Inr vd \<longleftrightarrow>
     (\<exists>att. signed_record L (dwalletBcs L) DWalletKind rec trusted att \<and>
        indexOf ATTESTATION_CURVES (dw_curve att) = ex_curve ex \<and>
        dw_public_key att = ex_publicKey ex \<and>
        (case ex_importedSessionIdentifier ex of
           None \<Rightarrow> \<not> dw_is_imported_key att
         | Some sid \<Rightarrow> dw_is_imported_key att \<and> dw_session_identifier att = sid) \<and>
        vd = dwallet_of rec att)"
  by (rule dwallet_record_Inr)

lemma stored_dwallet_agrees:
  assumes "verifyDWalletAttestationRecord L rec trusted ex = Inr vd"
  shows "verifyStoredDWallet stored vd = Inr () \<longleftrightarrow>
     sdw_curve stored = ex_curve ex \<and> sdw_publicKey stored = ex_publicKey ex \<and>
     sdw_isImportedKey stored = (ex_importedSessionIdentifier ex \<noteq> None) \<and>
     sdw_importedSessionIdentifier stored = ex_importedSessionIdentifier ex"
proof -
  from assms obtain att where "vd_attestation vd = att"
    and "indexOf ATTESTATION_CURVES (dw_curve att) = ex_curve ex" "dw_public_key att = ex_publicKey ex"
    and "case ex_importedSessionIdentifier ex of
           None \<Rightarrow> \<not> dw_is_imported_key att
         | Some sid \<Rightarrow> dw_is_imported_key att \<and> dw_session_identifier att = sid"
    by (auto simp: verifyDWalletAttestationRecord_def verifyDWalletBytes_def verifyAndDecode_Inr
        result_simps Let_def split: option.splits)
  then show ?thesis
    by (auto simp: verifyStoredDWallet_def result_simps Let_def split: option.splits)
qed

text \<open>
  What a chain stores beside an accepted attestation passes \<open>verifyStoredDWallet\<close> exactly when
  each stored value is the one the dWallet was asked for with, so a record that was accepted for
  \<open>ex\<close> and passes the stored check stores \<open>ex\<close>.
\<close>

theorem verifyStoredDWallet_agrees:
  assumes "verifyDWalletAttestationRecord L rec trusted ex = Inr vd"
  shows "verifyStoredDWallet stored vd = Inr () \<longleftrightarrow>
     sdw_curve stored = ex_curve ex \<and> sdw_publicKey stored = ex_publicKey ex \<and>
     sdw_isImportedKey stored = (ex_importedSessionIdentifier ex \<noteq> None) \<and>
     sdw_importedSessionIdentifier stored = ex_importedSessionIdentifier ex"
  using assms by (rule stored_dwallet_agrees)

section \<open>Shares\<close>

lemma share_parts_Inr [result_simps]:
  "requireSameSenderAndKey s k d = Inr u \<longleftrightarrow>
     s = dw_intended_chain_sender (vd_attestation d) \<and> k = dw_public_key (vd_attestation d)"
  "requireDWalletAttestationDigest L g d = Inr u \<longleftrightarrow> g = keccak_256 L (vd_attestationData d)"
  "requireSameRequest i s k d = Inr u \<longleftrightarrow>
     i = dw_session_identifier (vd_attestation d) \<and>
     s = dw_intended_chain_sender (vd_attestation d) \<and> k = dw_public_key (vd_attestation d)"
  "requireSameDWallet L s k g d = Inr u \<longleftrightarrow>
     s = dw_intended_chain_sender (vd_attestation d) \<and> k = dw_public_key (vd_attestation d) \<and>
     g = keccak_256 L (vd_attestationData d)"
  by (auto simp: requireSameSenderAndKey_def requireDWalletAttestationDigest_def requireSameRequest_def
      requireSameDWallet_def dwalletAttestationDigest_def result_simps)

definition binds_dwallet :: "sdk_lib \<Rightarrow> verified_dwallet \<Rightarrow> bytes \<Rightarrow> bytes \<Rightarrow> bytes \<Rightarrow> bool" where
  "binds_dwallet L dwallet sender key digest \<longleftrightarrow>
     sender = dw_intended_chain_sender (vd_attestation dwallet) \<and>
     key = dw_public_key (vd_attestation dwallet) \<and>
     digest = keccak_256 L (vd_attestationData dwallet)"

lemma encrypted_share_record_Inr:
  "verifyEncryptedShareAttestationRecord L rec trusted dwallet asked = Inr att \<longleftrightarrow>
     signed_record L (encryptedShareBcs L) EncryptedShareKind rec trusted att \<and>
     binds_dwallet L dwallet (es_intended_chain_sender att) (es_dwallet_public_key att)
       (es_dwallet_attestation_digest att) \<and>
     askedHolder (es_holder att) asked \<and>
     (if es_session_identifier att = dw_session_identifier (vd_attestation dwallet)
      then dw_encrypted_share_hash (vd_attestation dwallet) = Some (es_encrypted_share_hash att) \<and>
           dw_encryption_key_hash (vd_attestation dwallet) = Some (es_encryption_key_hash att) \<and>
           dw_holder (vd_attestation dwallet) = Some (es_holder att)
      else True)"
proof -
  have some: "(case o' of None \<Rightarrow> False | Some h \<Rightarrow> x = h) \<longleftrightarrow> o' = Some x" for o' and x :: bytes
    by (cases o') auto
  have holder: "(case o' of None \<Rightarrow> False | Some h \<Rightarrow> holder_scheme x = holder_scheme h \<and>
      holder_key x = holder_key h \<and> a) \<longleftrightarrow> o' = Some x \<and> a" for o' and x :: share_holder and a
    by (cases o') auto
  show ?thesis
    unfolding verifyEncryptedShareAttestationRecord_def verifyEncryptedShareBytes_def Let_def
      bindE_eq_Inr verifyAndDecode_Inr [OF not_public(4)] binds_dwallet_def
      isShareOfTheCreatingRequest_def equalBytes_iff some holder
    by (simp only: if_split_eq1 result_simps sum.inject split: if_split) blast
qed

text \<open>
  An encrypted share's record is accepted exactly when its bytes are an encrypted share
  attestation signed by a trusted key, it names this dWallet (its sender, its key and the digest of
  its attestation bytes) and the holder asked for, and, when it was made by the dWallet's own
  request, the share and key hashes and the holder are those the dWallet's attestation names.
\<close>

theorem verifyEncryptedShareAttestationRecord_iff:
  "verifyEncryptedShareAttestationRecord L rec trusted dwallet asked = Inr att \<longleftrightarrow>
     signed_record L (encryptedShareBcs L) EncryptedShareKind rec trusted att \<and>
     binds_dwallet L dwallet (es_intended_chain_sender att) (es_dwallet_public_key att)
       (es_dwallet_attestation_digest att) \<and>
     askedHolder (es_holder att) asked \<and>
     (if es_session_identifier att = dw_session_identifier (vd_attestation dwallet)
      then dw_encrypted_share_hash (vd_attestation dwallet) = Some (es_encrypted_share_hash att) \<and>
           dw_encryption_key_hash (vd_attestation dwallet) = Some (es_encryption_key_hash att) \<and>
           dw_holder (vd_attestation dwallet) = Some (es_holder att)
      else True)"
  by (rule encrypted_share_record_Inr)

lemma public_share_record_Inr:
  "verifyPublicShareAttestationRecord L rec trusted dwallet = Inr att \<longleftrightarrow>
     signed_record L (publicShareBcs L) PublicShareKind rec trusted att \<and>
     length (ps_public_user_secret_key_share att) =
       (case dw_curve (vd_attestation dwallet) of
          Curve_Secp256k1 \<Rightarrow> 35 | Curve_Secp256r1 \<Rightarrow> 35 | Curve_Curve25519 \<Rightarrow> 34 | Curve_Ristretto \<Rightarrow> 34) \<and>
     binds_dwallet L dwallet (ps_intended_chain_sender att) (ps_dwallet_public_key att)
       (ps_dwallet_attestation_digest att) \<and>
     (if ps_session_identifier att = dw_session_identifier (vd_attestation dwallet)
      then dw_holder (vd_attestation dwallet) = None else True)"
proof -
  have len: "element PUBLIC_SHARE_LENGTHS (indexOf ATTESTATION_CURVES c) = Some (int n) \<longleftrightarrow>
      n = (case c of Curve_Secp256k1 \<Rightarrow> 35 | Curve_Secp256r1 \<Rightarrow> 35 | Curve_Curve25519 \<Rightarrow> 34 | Curve_Ristretto \<Rightarrow> 34)"
    for c n
    by (cases c) (auto simp: element_def PUBLIC_SHARE_LENGTHS_def indexOf_def ATTESTATION_CURVES_def)
  show ?thesis
    unfolding verifyPublicShareAttestationRecord_def verifyPublicShareBytes_def
      binds_dwallet_def isShareOfTheCreatingRequest_def bindE_eq_Inr verifyAndDecode_public_Inr
    by (auto simp: result_simps len split: if_splits)
qed

text \<open>
  A public share's record is accepted exactly when its bytes are a public share attestation
  signed by a trusted key, its share has the length of the dWallet's curve, it names this dWallet,
  and, when it was made by the dWallet's own request, the dWallet names no holder.
\<close>

theorem verifyPublicShareAttestationRecord_iff:
  "verifyPublicShareAttestationRecord L rec trusted dwallet = Inr att \<longleftrightarrow>
     signed_record L (publicShareBcs L) PublicShareKind rec trusted att \<and>
     length (ps_public_user_secret_key_share att) =
       (case dw_curve (vd_attestation dwallet) of
          Curve_Secp256k1 \<Rightarrow> 35 | Curve_Secp256r1 \<Rightarrow> 35 | Curve_Curve25519 \<Rightarrow> 34 | Curve_Ristretto \<Rightarrow> 34) \<and>
     binds_dwallet L dwallet (ps_intended_chain_sender att) (ps_dwallet_public_key att)
       (ps_dwallet_attestation_digest att) \<and>
     (if ps_session_identifier att = dw_session_identifier (vd_attestation dwallet)
      then dw_holder (vd_attestation dwallet) = None else True)"
  by (rule public_share_record_Inr)

section \<open>A future voucher's partial signature\<close>

text \<open>
  The partial signature a future voucher stores is accepted exactly when its fields serialize to
  bytes a trusted key signed as a partial signature, and they name that voucher, its message, its
  metadata and its scheme; the attestation returned is the stored fields and nothing else.
\<close>

theorem verifyPartialSignatureVoucherRecord_iff:
  assumes "codec_ok (partialSignatureBcs L)"
  shows "verifyPartialSignatureVoucherRecord L proof flds trusted voucher = Inr att \<longleftrightarrow>
     att = flds \<and> proofVersion proof = 0 \<and> proofSigner proof \<in> set (publicKeys trusted) \<and>
     (\<exists>b. serialize (partialSignatureBcs L) (V1 flds) = Some b \<and>
        ed25519_verify L (proofSignature proof) (attestationSigningMessage PartialUserSignatureKind b)
          (proofSigner proof) = Some True) \<and>
     pu_future_signature_voucher flds = sv_address voucher \<and>
     pu_message_digest flds = sv_messageDigest voucher \<and>
     pu_message_metadata_digest flds = sv_messageMetadataDigest voucher \<and>
     indexOf ATTESTATION_DWALLET_SIGNATURE_SCHEMES (pu_signature_scheme flds) = sv_signatureScheme voucher"
proof -
  have "decodes (partialSignatureBcs L) b v \<longleftrightarrow> v = flds" if "serialize (partialSignatureBcs L) (V1 flds) = Some b" for b v
    using decodes_serialize [OF assms that] by (metis decodes_unique)
  then show ?thesis
    by (auto simp: verifyPartialSignatureVoucherRecord_def rebuildPartialSignatureAttestation_def
        verifyPartialSignatureAttestationRecord_def verifyPartialSignatureBytes_def verifyAndDecode_Inr
        signed_record_def attestationRecordOf_def writeAttestation_def result_simps)
qed

end
