(* ===== verification/Network_Key_Output.thy ===== *)
theory Network_Key_Output
  imports Record_Laws Polling
begin

text \<open>
  The check of the network key's public outputs a validator serves, against the records the chain
  keeps (\<open>grpc/network-key-output.ts\<close>): the two signed messages, the check of a record's proof, the
  wait for a record the network has not signed yet, and \<open>verifyNetworkKeyOutput\<close> over them. The
  chain's reader is an environment of timed reads.
\<close>

section \<open>The signed messages\<close>

definition NETWORK_KEY_RECONFIGURATION_RECORD_TAG :: byte where
  "NETWORK_KEY_RECONFIGURATION_RECORD_TAG = 5"

definition NETWORK_KEY_DKG_RECORD_TAG :: byte where
  "NETWORK_KEY_DKG_RECORD_TAG = 6"

definition networkOutputDigest :: "sdk_lib \<Rightarrow> bytes \<Rightarrow> bytes" where
  "networkOutputDigest L out = blake2b_256 L out"

definition requireLength :: "string \<Rightarrow> bytes \<Rightarrow> nat \<Rightarrow> sdk_error + unit" where
  "requireLength name bs n = guardE (length bs = n) (Err (name @ '' is of another length''))"

definition u64LittleEndian :: "int \<Rightarrow> sdk_error + bytes" where
  "u64LittleEndian epoch =
     (if epoch < 0 \<or> epoch > u64_max then Inl (Err ''the epoch is not a u64'') else Inr (le_bytes 8 epoch))"

definition networkKeyReconfigurationRecordMessage :: "bytes \<Rightarrow> int \<Rightarrow> bytes \<Rightarrow> sdk_error + bytes" where
  "networkKeyReconfigurationRecordMessage key epoch digest =
     seqE (requireLength ''the network key'' key 32)
    (seqE (requireLength ''the digest'' digest 32)
    (bindE (u64LittleEndian epoch) (\<lambda>e.
       Inr (ATTESTATION_SIGNING_PREFIX @ [NETWORK_KEY_RECONFIGURATION_RECORD_TAG] @ key @ e @ digest))))"

definition networkKeyDkgRecordMessage :: "bytes \<Rightarrow> bytes \<Rightarrow> sdk_error + bytes" where
  "networkKeyDkgRecordMessage key digest =
     seqE (requireLength ''the network key'' key 32)
    (seqE (requireLength ''the digest'' digest 32)
       (Inr (ATTESTATION_SIGNING_PREFIX @ [NETWORK_KEY_DKG_RECORD_TAG] @ key @ digest)))"

section \<open>The proof of a record\<close>

definition verifyNetworkKeyRecordProof :: "sdk_lib \<Rightarrow> bytes \<Rightarrow> bytes \<Rightarrow> sdk_error + bytes" where
  "verifyNetworkKeyRecordProof L message proof =
     (if length proof \<noteq> 0 \<and> list_all (\<lambda>b. b = 0) proof then Inl (att_error CkDecode)
      else
        case parse (attestationProofBcs L) proof of
          None \<Rightarrow> Inl (att_error CkDecode)
        | Some decoded \<Rightarrow>
            if (case serialize (attestationProofBcs L) decoded of None \<Rightarrow> True | Some r \<Rightarrow> \<not> equalBytes r proof)
            then Inl (att_error CkDecode)
            else
              let p = v1 decoded in
              if attestation_version p \<noteq> 0 then Inl (att_error CkVersion)
              else if \<not> verifiedOrFalse (ed25519_verify L (noa_signature p) message (proof_signer p))
              then Inl (att_error CkSignature)
              else Inr (proof_signer p))"

text \<open>The \<open>catch\<close> of \<open>verifyRecordProof\<close>: three checks keep their name, any other error passes.\<close>

fun recordProofError :: "sdk_error \<Rightarrow> sdk_error" where
  "recordProofError (AttestationRecordError CkDecode f) = NetworkKeyOutputError OckDecode"
| "recordProofError (AttestationRecordError CkVersion f) = NetworkKeyOutputError OckVersion"
| "recordProofError (AttestationRecordError CkSignature f) = NetworkKeyOutputError OckSignature"
| "recordProofError e = e"

section \<open>The chain's reader over time\<close>

record output_chain = output_record_reader +
  outputTimerLag :: "time \<Rightarrow> nat"

record reshare_record_wait =
  pauseMs :: nat
  budgetMs :: nat

definition RESHARE_RECORD_WAIT :: reshare_record_wait where
  "RESHARE_RECORD_WAIT = \<lparr>pauseMs = 2000, budgetMs = 120000\<rparr>"

definition chainDidNotAnswer :: sdk_error where
  "chainDidNotAnswer = Err ''the chain did not answer the read in the time the records were read for''"

definition verifyRecordProof ::
    "sdk_lib \<Rightarrow> output_chain \<Rightarrow> output_record \<Rightarrow> (bytes \<Rightarrow> sdk_error + bytes) \<Rightarrow> time
      \<Rightarrow> (sdk_error, unit) timed" where
  "verifyRecordProof L chain rec message deadline =
     (if length (rec_proof rec) = 0 then liftT (Inl (NetworkKeyOutputError OckRecord))
      else
        bindT (liftT (mapErr recordProofError
                 (bindE (message (rec_digest rec)) (\<lambda>m. verifyNetworkKeyRecordProof L m (rec_proof rec)))))
          (\<lambda>signer.
        bindT (readT (withinTimeLeft (isRegisteredNetworkKey chain signer) deadline chainDidNotAnswer))
          (\<lambda>registered.
             liftT (guardE registered (NetworkKeyOutputError OckSigner)))))"

definition verifyAgainstRecord ::
    "sdk_lib \<Rightarrow> output_chain \<Rightarrow> bytes \<Rightarrow> output_record \<Rightarrow> (bytes \<Rightarrow> sdk_error + bytes) \<Rightarrow> time
      \<Rightarrow> (sdk_error, unit) timed" where
  "verifyAgainstRecord L chain out rec message deadline =
     (if \<not> equalBytes (networkOutputDigest L out) (rec_digest rec)
      then liftT (Inl (NetworkKeyOutputError OckDigest))
      else verifyRecordProof L chain rec message deadline)"

datatype record_kind = DkgRecord | ReshareRecord int

fun recordRead :: "output_chain \<Rightarrow> bytes \<Rightarrow> record_kind \<Rightarrow> (sdk_error + output_record option) timed_read" where
  "recordRead chain key DkgRecord = dkgRecord chain key"
| "recordRead chain key (ReshareRecord epoch) = reconfigurationRecord chain key epoch"

text \<open>What one read of the loop decides: a read that failed throws, an unregistered key is refused,
  a record that is signed or holds another digest is returned, and anything else is read again.\<close>

fun recordDecision ::
    "record_kind \<Rightarrow> bytes \<Rightarrow> sdk_error + output_record option \<Rightarrow> (sdk_error + output_record) option" where
  "recordDecision kind served (Inl e) = Some (Inl e)"
| "recordDecision kind served (Inr None) =
     (if kind = DkgRecord then Some (Inl (NetworkKeyOutputError OckRecord)) else None)"
| "recordDecision kind served (Inr (Some rec)) =
     (if \<not> equalBytes (rec_digest rec) served \<or> length (rec_proof rec) \<noteq> 0
      then Some (Inr rec) else None)"

definition recordOnceSigned ::
    "output_chain \<Rightarrow> bytes \<Rightarrow> record_kind \<Rightarrow> bytes \<Rightarrow> time \<Rightarrow> reshare_record_wait
      \<Rightarrow> (sdk_error, output_record) timed" where
  "recordOnceSigned chain key kind served deadline wait =
     pollUntil (withinTimeLeft (recordRead chain key kind) deadline chainDidNotAnswer)
       (recordDecision kind served) (\<lambda>_. NetworkKeyOutputError OckRecord)
       (outputTimerLag chain) (pauseMs wait) deadline"

section \<open>The served outputs\<close>

record network_key_output =
  networkKeyId :: bytes
  out_epoch :: int
  networkDkgOutput :: bytes
  latestReconfigurationOutput :: "bytes option"

definition verifyNetworkKeyOutput ::
    "sdk_lib \<Rightarrow> output_chain \<Rightarrow> network_key_output \<Rightarrow> bytes \<Rightarrow> reshare_record_wait
      \<Rightarrow> (sdk_error, network_key_output) timed" where
  "verifyNetworkKeyOutput L chain served key wait now =
     (if \<not> equalBytes (networkKeyId served) key then Some (now, Inl (NetworkKeyOutputError OckKey))
      else
        let deadline = now + int (budgetMs wait) in
        bindT (recordOnceSigned chain key DkgRecord
                 (networkOutputDigest L (networkDkgOutput served)) deadline wait) (\<lambda>dkg.
        bindT (verifyAgainstRecord L chain (networkDkgOutput served) dkg
                 (networkKeyDkgRecordMessage key) deadline) (\<lambda>_.
        case latestReconfigurationOutput served of
          None \<Rightarrow> returnT served
        | Some out \<Rightarrow>
            bindT (recordOnceSigned chain key (ReshareRecord (out_epoch served))
                     (networkOutputDigest L out) deadline wait) (\<lambda>reshare.
            bindT (verifyAgainstRecord L chain out reshare
                     (networkKeyReconfigurationRecordMessage key (out_epoch served)) deadline) (\<lambda>_.
            returnT served)))) now)"

definition verifySignedDkgRecord ::
    "sdk_lib \<Rightarrow> output_chain \<Rightarrow> bytes \<Rightarrow> bytes \<Rightarrow> reshare_record_wait \<Rightarrow> (sdk_error, unit) timed" where
  "verifySignedDkgRecord L chain key digest wait now =
     (let deadline = now + int (budgetMs wait) in
      bindT (recordOnceSigned chain key DkgRecord digest deadline wait) (\<lambda>rec.
        if \<not> equalBytes (rec_digest rec) digest then liftT (Inl (NetworkKeyOutputError OckDigest))
        else verifyRecordProof L chain rec (networkKeyDkgRecordMessage key) deadline) now)"

section \<open>Records checked against trusted keys\<close>

definition verifyTrustedRecordProof ::
    "sdk_lib \<Rightarrow> sdk_error + bytes \<Rightarrow> bytes \<Rightarrow> trusted_network_keys \<Rightarrow> sdk_error + unit" where
  "verifyTrustedRecordProof L message proof trusted =
     bindE message (\<lambda>m.
     bindE (verifyNetworkKeyRecordProof L m proof) (\<lambda>signer.
       guardE (trusts trusted signer) (att_error CkSigner)))"

definition verifyNetworkKeyDkgRecord ::
    "sdk_lib \<Rightarrow> bytes \<Rightarrow> bytes \<Rightarrow> bytes \<Rightarrow> trusted_network_keys \<Rightarrow> sdk_error + unit" where
  "verifyNetworkKeyDkgRecord L key digest proof trusted =
     verifyTrustedRecordProof L (networkKeyDkgRecordMessage key digest) proof trusted"

definition verifyNetworkKeyReconfigurationRecord ::
    "sdk_lib \<Rightarrow> bytes \<Rightarrow> int \<Rightarrow> bytes \<Rightarrow> bytes \<Rightarrow> trusted_network_keys \<Rightarrow> sdk_error + unit" where
  "verifyNetworkKeyReconfigurationRecord L key epoch digest proof trusted =
     verifyTrustedRecordProof L (networkKeyReconfigurationRecordMessage key epoch digest) proof trusted"

section \<open>Lemmas\<close>

lemma dkg_message_Inr:
  "networkKeyDkgRecordMessage key digest = Inr m \<longleftrightarrow>
     length key = 32 \<and> length digest = 32 \<and> m = ATTESTATION_SIGNING_PREFIX @ [6] @ key @ digest"
  by (auto simp: networkKeyDkgRecordMessage_def requireLength_def NETWORK_KEY_DKG_RECORD_TAG_def result_simps)

lemma reshare_message_Inr:
  "networkKeyReconfigurationRecordMessage key epoch digest = Inr m \<longleftrightarrow>
     length key = 32 \<and> length digest = 32 \<and> 0 \<le> epoch \<and> epoch \<le> u64_max \<and>
     m = ATTESTATION_SIGNING_PREFIX @ [5] @ key @ le_bytes 8 epoch @ digest"
  by (auto simp: networkKeyReconfigurationRecordMessage_def requireLength_def u64LittleEndian_def
      NETWORK_KEY_RECONFIGURATION_RECORD_TAG_def result_simps)

text \<open>The proof's signer signed the message, and the proof is its one encoding.\<close>

definition proof_of :: "sdk_lib \<Rightarrow> bytes \<Rightarrow> bytes \<Rightarrow> bytes \<Rightarrow> bool" where
  "proof_of L message proof signer \<longleftrightarrow>
     (\<exists>p. parse (attestationProofBcs L) proof = Some (V1 p) \<and>
          serialize (attestationProofBcs L) (V1 p) = Some proof \<and>
          attestation_version p = 0 \<and> proof_signer p = signer \<and>
          ed25519_verify L (noa_signature p) message signer = Some True)"

lemma verifyNetworkKeyRecordProof_Inr:
  assumes "verifyNetworkKeyRecordProof L message proof = Inr signer"
  shows "proof_of L message proof signer"
proof -
  from assms obtain d where d: "parse (attestationProofBcs L) proof = Some d"
    by (auto simp: verifyNetworkKeyRecordProof_def split: if_splits option.splits)
  obtain p where p: "d = V1 p" by (cases d)
  show ?thesis
    using assms d p unfolding proof_of_def verifyNetworkKeyRecordProof_def
    by (auto simp: Let_def split: if_splits option.splits intro!: exI [of _ p])
qed

lemma settles_recordOnceSigned [intro]:
  assumes "0 < pauseMs wait"
  shows "settles (recordOnceSigned chain key kind served deadline wait)"
proof -
  have "recordOnceSigned chain key kind served deadline wait now \<noteq> None" for now
    using pollUntil_returns [OF assms] unfolding recordOnceSigned_def by (metis option.distinct(1))
  then show ?thesis by (simp add: settles_def)
qed

lemma settles_verifyRecordProof [intro]: "settles (verifyRecordProof L chain rec message deadline)"
  by (auto simp: verifyRecordProof_def)

lemma settles_verifyAgainstRecord [intro]: "settles (verifyAgainstRecord L chain out rec message deadline)"
  by (auto simp: verifyAgainstRecord_def)

lemma recordOnceSigned_Inr:
  assumes "recordOnceSigned chain key kind served deadline wait now = Some (t, Inr rec)"
  shows "\<exists>s\<ge>now. snd (recordRead chain key kind s) = Inr (Some rec)"
proof -
  from assms obtain s where "now \<le> s"
    and d: "recordDecision kind served
      (snd (withinTimeLeft (recordRead chain key kind) deadline chainDidNotAnswer s)) = Some (Inr rec)"
    unfolding recordOnceSigned_def by (blast dest: pollUntil_Inr)
  obtain dt r where w: "withinTimeLeft (recordRead chain key kind) deadline chainDidNotAnswer s = (dt, r)"
    by (cases "withinTimeLeft (recordRead chain key kind) deadline chainDidNotAnswer s")
  from d w have "r = Inr (Some rec)"
    by (cases "(kind, served, r)" rule: recordDecision.cases) (auto split: if_splits)
  with w have "recordRead chain key kind s = (dt, Inr (Some rec))"
    by (auto dest: withinTimeLeft_Inr)
  with \<open>now \<le> s\<close> show ?thesis by auto
qed

lemma verifyRecordProof_Inr:
  assumes "verifyRecordProof L chain rec message deadline now = Some (t, Inr u)"
  shows "\<exists>m signer s. message (rec_digest rec) = Inr m \<and> proof_of L m (rec_proof rec) signer \<and>
           snd (isRegisteredNetworkKey chain signer s) = Inr True"
proof -
  from assms obtain m signer where m: "message (rec_digest rec) = Inr m"
    and p: "verifyNetworkKeyRecordProof L m (rec_proof rec) = Inr signer"
    and r: "\<exists>dt. withinTimeLeft (isRegisteredNetworkKey chain signer) deadline chainDidNotAnswer now = (dt, Inr True)"
    by (auto simp: verifyRecordProof_def result_simps readT_Inr split: if_splits)
  from r obtain dt where "isRegisteredNetworkKey chain signer now = (dt, Inr True)"
    by (blast dest: withinTimeLeft_Inr)
  then have "snd (isRegisteredNetworkKey chain signer now) = Inr True" by simp
  with m verifyNetworkKeyRecordProof_Inr [OF p] show ?thesis by blast
qed

definition recorded :: "sdk_lib \<Rightarrow> output_chain \<Rightarrow> bytes \<Rightarrow> record_kind \<Rightarrow> (bytes \<Rightarrow> sdk_error + bytes) \<Rightarrow> bytes \<Rightarrow> bool" where
  "recorded L chain key kind message digest \<longleftrightarrow>
     (\<exists>rec m signer s s'. snd (recordRead chain key kind s) = Inr (Some rec) \<and> rec_digest rec = digest \<and>
        message digest = Inr m \<and> proof_of L m (rec_proof rec) signer \<and>
        snd (isRegisteredNetworkKey chain signer s') = Inr True)"

lemma checked_record:
  assumes "recordOnceSigned chain key kind served deadline wait now = Some (t, Inr rec)"
    and "verifyAgainstRecord L chain out rec message deadline t = Some (t', Inr u)"
  shows "recorded L chain key kind message (networkOutputDigest L out)"
proof -
  from assms(2) have d: "rec_digest rec = networkOutputDigest L out"
    and p: "verifyRecordProof L chain rec message deadline t = Some (t', Inr u)"
    by (auto simp: verifyAgainstRecord_def result_simps split: if_splits)
  from recordOnceSigned_Inr [OF assms(1)] verifyRecordProof_Inr [OF p] d show ?thesis
    unfolding recorded_def by metis
qed

section \<open>Properties\<close>

text \<open>
  The messages the network's key signs for a DKG output's record, for a reshare's record and
  for an attestation are apart: each message determines its domain and everything in it.
\<close>

theorem record_messages_inject:
  "(networkKeyDkgRecordMessage k d = Inr m \<and> networkKeyDkgRecordMessage k' d' = Inr m \<longrightarrow> k = k' \<and> d = d') \<and>
   (networkKeyReconfigurationRecordMessage k e d = Inr m \<and>
      networkKeyReconfigurationRecordMessage k' e' d' = Inr m \<longrightarrow> k = k' \<and> e = e' \<and> d = d') \<and>
   \<not> (networkKeyDkgRecordMessage k d = Inr m \<and> networkKeyReconfigurationRecordMessage k' e' d' = Inr m) \<and>
   networkKeyDkgRecordMessage k d \<noteq> Inr (attestationSigningMessage kind a) \<and>
   networkKeyReconfigurationRecordMessage k e d \<noteq> Inr (attestationSigningMessage kind a)"
proof -
  have "ATTESTATION_KIND_TAGS kind \<noteq> 6" "ATTESTATION_KIND_TAGS kind \<noteq> 5"
    using kind_tag_bound [of kind] by auto
  then show ?thesis
    by (auto simp: dkg_message_Inr reshare_message_Inr attestationSigningMessage_def u64_max_pow
        le_bytes_inject)
qed

lemma verified_output:
  assumes "verifyNetworkKeyOutput L chain served key wait now = Some (t, Inr out)"
  shows "out = served \<and> networkKeyId served = key \<and>
    recorded L chain key DkgRecord (networkKeyDkgRecordMessage key)
      (blake2b_256 L (networkDkgOutput served)) \<and>
    (case latestReconfigurationOutput served of
       None \<Rightarrow> True
     | Some reshare \<Rightarrow>
         recorded L chain key (ReshareRecord (out_epoch served))
           (networkKeyReconfigurationRecordMessage key (out_epoch served)) (blake2b_256 L reshare))"
  using assms
  by (auto simp: verifyNetworkKeyOutput_def Let_def result_simps networkOutputDigest_def
      split: if_splits option.splits dest: checked_record [unfolded networkOutputDigest_def])

text \<open>
  A served output that passes is the output the chain records: for the key asked for, the DKG
  output hashes to the digest a record the chain answered holds, and that record's proof is a
  signature over exactly that key and digest by a key the chain answered as registered; and so is
  the reshare output for its epoch, when one is served.
\<close>

theorem verifyNetworkKeyOutput_sound:
  assumes "verifyNetworkKeyOutput L chain served key wait now = Some (t, Inr out)"
  shows "out = served \<and> networkKeyId served = key \<and>
    recorded L chain key DkgRecord (networkKeyDkgRecordMessage key)
      (blake2b_256 L (networkDkgOutput served)) \<and>
    (case latestReconfigurationOutput served of
       None \<Rightarrow> True
     | Some reshare \<Rightarrow>
         recorded L chain key (ReshareRecord (out_epoch served))
           (networkKeyReconfigurationRecordMessage key (out_epoch served)) (blake2b_256 L reshare))"
  using assms by (rule verified_output)

text \<open>
  The check ends: with a pause between reads, whatever the chain answers and however late,
  \<open>verifyNetworkKeyOutput\<close> returns or throws.
\<close>

theorem verifyNetworkKeyOutput_ends:
  assumes "0 < pauseMs wait"
  shows "\<exists>t r. verifyNetworkKeyOutput L chain served key wait now = Some (t, r)"
proof -
  have "settles (bindT (recordOnceSigned chain key DkgRecord d deadline wait) (\<lambda>dkg.
        bindT (verifyAgainstRecord L chain (networkDkgOutput served) dkg
                 (networkKeyDkgRecordMessage key) deadline) (\<lambda>_.
        case latestReconfigurationOutput served of
          None \<Rightarrow> returnT served
        | Some out \<Rightarrow>
            bindT (recordOnceSigned chain key (ReshareRecord (out_epoch served))
                     (networkOutputDigest L out) deadline wait) (\<lambda>reshare.
            bindT (verifyAgainstRecord L chain out reshare
                     (networkKeyReconfigurationRecordMessage key (out_epoch served)) deadline) (\<lambda>_.
            returnT served)))))" for d deadline
    using assms by (intro settles_bindT) (auto split: option.split)
  then show ?thesis
    unfolding verifyNetworkKeyOutput_def settles_def Let_def by auto
qed

end
