(* ===== verification/Committee.thy ===== *)
theory Committee
  imports Record_Laws Polling
begin

text \<open>
  The committee a client trusts (\<open>grpc/committee.ts\<close>): the strict wire format of a committee's
  attestation and member list, the making and the check of a signed committee, the check of its
  epoch against the chain's, which waits for a chain that lags, and the members' network keys a
  client holds (\<open>VerifiedMembers\<close>).
\<close>

section \<open>Data\<close>

definition COMMITTEE_ATTESTATION_TAG :: byte where
  "COMMITTEE_ATTESTATION_TAG = 7"

definition COMMITTEE_ATTESTATION_LENGTH :: nat where
  "COMMITTEE_ATTESTATION_LENGTH = 41"

record committee_attestation =
  ca_epoch :: int
  membersDigest :: bytes

record signed_committee =
  sc_members :: bytes
  sc_attestation :: bytes
  sc_signer :: bytes
  sc_signature :: bytes

record verified_committee =
  vc_epoch :: int
  vc_members :: "committee_member list"

record committee_answer =
  ans_committee :: "signed_committee option"
  ans_nextCommittee :: "signed_committee option"

section \<open>The order of consensus keys\<close>

text \<open>
  \<open>findIndex\<close> of the first byte of \<open>left\<close> that differs from \<open>right\<close>'s at its place, where \<open>right\<close>
  past its end is \<open>undefined\<close>: different from every byte, and never above one.
\<close>

fun compareBytes :: "bytes \<Rightarrow> bytes \<Rightarrow> int" where
  "compareBytes [] right = - int (length right)"
| "compareBytes (x # xs) [] = 1"
| "compareBytes (x # xs) (y # ys) = (if x \<noteq> y then (if x < y then -1 else 1) else compareBytes xs ys)"

text \<open>\<open>Array.prototype.sort\<close>, a stable sort by a comparator.\<close>

fun insertBy :: "('a \<Rightarrow> 'a \<Rightarrow> int) \<Rightarrow> 'a \<Rightarrow> 'a list \<Rightarrow> 'a list" where
  "insertBy cmp x [] = [x]"
| "insertBy cmp x (y # ys) = (if cmp x y \<le> 0 then x # y # ys else y # insertBy cmp x ys)"

definition sortBy :: "('a \<Rightarrow> 'a \<Rightarrow> int) \<Rightarrow> 'a list \<Rightarrow> 'a list" where
  "sortBy cmp xs = foldr (insertBy cmp) xs []"

definition memberOrder :: "committee_member \<Rightarrow> committee_member \<Rightarrow> int" where
  "memberOrder left right = compareBytes (consensusPubkey left) (consensusPubkey right)"

text \<open>\<open>list.every((m, i) => i === 0 || compareBytes(list[i - 1].key, m.key) < 0)\<close>.\<close>

definition strictlyAscending :: "committee_member list \<Rightarrow> bool" where
  "strictlyAscending ms \<longleftrightarrow>
     list_all (\<lambda>i. i = 0 \<or> memberOrder (ms ! (i - 1)) (ms ! i) < 0) [0..<length ms]"

text \<open>\<open>ordered.find((m, i) => i > 0 && sameBytes(ordered[i - 1].key, m.key))\<close>.\<close>

definition repeatedMember :: "committee_member list \<Rightarrow> committee_member option" where
  "repeatedMember ms =
     (case find (\<lambda>i. i > 0 \<and> equalBytes (consensusPubkey (ms ! (i - 1))) (consensusPubkey (ms ! i)))
             [0..<length ms] of
        None \<Rightarrow> None | Some i \<Rightarrow> Some (ms ! i))"

section \<open>The wire format\<close>

definition committeeMembersDigest :: "sdk_lib \<Rightarrow> bytes \<Rightarrow> bytes" where
  "committeeMembersDigest L members = blake2b_256 L members"

definition committeeSigningMessage :: "bytes \<Rightarrow> bytes" where
  "committeeSigningMessage attestation =
     ATTESTATION_SIGNING_PREFIX @ [COMMITTEE_ATTESTATION_TAG] @ attestation"

definition decodeCommitteeAttestation :: "bytes \<Rightarrow> sdk_error + committee_attestation" where
  "decodeCommitteeAttestation bs =
     (if length bs = 0 then Inl (Err ''the committee attestation is empty'')
      else if bs ! 0 \<noteq> 0 then Inl (Err ''the committee attestation has an unknown variant'')
      else if length bs \<noteq> COMMITTEE_ATTESTATION_LENGTH
      then Inl (Err ''the committee attestation is not 41 bytes'')
      else Inr \<lparr>ca_epoch = le_value (slice 1 9 bs), membersDigest = slice 9 41 bs\<rparr>)"

definition encodeCommitteeAttestation :: "committee_attestation \<Rightarrow> sdk_error + bytes" where
  "encodeCommitteeAttestation a =
     (if length (membersDigest a) \<noteq> 32 then Inl (Err ''the members' digest is not 32 bytes'')
      else if ca_epoch a < 0 \<or> ca_epoch a > u64_max then Inl (Err ''the epoch is not a u64'')
      else Inr (0 # le_bytes 8 (ca_epoch a) @ membersDigest a))"

definition decodeCommitteeMembers :: "sdk_lib \<Rightarrow> bytes \<Rightarrow> bytes \<Rightarrow> sdk_error + committee_member list" where
  "decodeCommitteeMembers L members digest =
     (if \<not> equalBytes (committeeMembersDigest L members) digest
      then Inl (Err ''the members do not hash to the signed digest'')
      else case parse (committeeMembersBcs L) members of
        None \<Rightarrow> Inl (Err ''the committee's members do not decode'')
      | Some decoded \<Rightarrow>
          (case serialize (committeeMembersBcs L) decoded of
             None \<Rightarrow> Inl (Err ''bcs'')
           | Some again \<Rightarrow>
               if \<not> equalBytes again members
               then Inl (Err ''the committee's members do not decode: they have trailing bytes'')
               else if length decoded = 0 then Inl (Err ''the committee has no members'')
               else if \<not> strictlyAscending decoded
               then Inl (Err ''the committee's members are not in strictly ascending order'')
               else Inr decoded))"

definition unsignedCommittee :: "sdk_lib \<Rightarrow> int \<Rightarrow> committee_member list \<Rightarrow> sdk_error + bytes \<times> bytes" where
  "unsignedCommittee L epoch members =
     (let ordered = sortBy memberOrder members in
      case repeatedMember ordered of
        Some _ \<Rightarrow> Inl (Err ''the committee lists a member twice'')
      | None \<Rightarrow>
          if length ordered = 0 then Inl (Err ''the committee has no members'')
          else
            bindE (ofOption (Err ''bcs'') (serialize (committeeMembersBcs L) ordered)) (\<lambda>memberBytes.
            bindE (encodeCommitteeAttestation
                     \<lparr>ca_epoch = epoch, membersDigest = committeeMembersDigest L memberBytes\<rparr>) (\<lambda>att.
            Inr (memberBytes, att))))"

section \<open>The check of a signed committee\<close>

definition committeeRefused :: "string \<Rightarrow> sdk_error \<Rightarrow> sdk_error" where
  "committeeRefused which e = Err (''the '' @ which @ '' is refused: '' @ errorMessage e)"

definition verifySignedCommittee :: "sdk_lib \<Rightarrow> signed_committee \<Rightarrow> string \<Rightarrow> sdk_error + verified_committee" where
  "verifySignedCommittee L sc which =
     (if length (sc_signer sc) \<noteq> 32
      then Inl (Err (''the '' @ which @ '' names a signer that is not 32 bytes''))
      else if length (sc_signature sc) \<noteq> 64
      then Inl (Err (''the '' @ which @ '' carries a signature that is not 64 bytes''))
      else
        bindE (mapErr (committeeRefused which) (decodeCommitteeAttestation (sc_attestation sc))) (\<lambda>att.
        if \<not> verifiedOrFalse (ed25519_verify L (sc_signature sc)
               (committeeSigningMessage (sc_attestation sc)) (sc_signer sc))
        then Inl (committeeRefused which (Err ''the committee's signature does not verify under its signer''))
        else
          bindE (mapErr (committeeRefused which)
                   (decodeCommitteeMembers L (sc_members sc) (membersDigest att))) (\<lambda>members.
          Inr \<lparr>vc_epoch = ca_epoch att, vc_members = members\<rparr>)))"

section \<open>The chain's half\<close>

record committee_chain =
  currentEpoch :: "(sdk_error + int) timed_read"
  isRegistered :: "bytes \<Rightarrow> (sdk_error + bool) timed_read"
  epochTimerLag :: "time \<Rightarrow> nat"

record chain_epoch_retry =
  retryPauseMs :: nat
  retryBudgetMs :: nat

definition CHAIN_EPOCH_RETRY :: chain_epoch_retry where
  "CHAIN_EPOCH_RETRY = \<lparr>retryPauseMs = 5000, retryBudgetMs = 60000\<rparr>"

datatype epoch_standing = OldEpoch | FreshEpoch | AheadEpoch

definition epochStanding :: "int \<Rightarrow> int \<Rightarrow> epoch_standing" where
  "epochStanding epoch chainEpoch =
     (if epoch < chainEpoch then OldEpoch
      else if epoch - chainEpoch \<le> 1 then FreshEpoch else AheadEpoch)"

definition verifyCommitteeSigner ::
    "sdk_lib \<Rightarrow> committee_chain \<Rightarrow> signed_committee \<Rightarrow> string \<Rightarrow> (sdk_error, verified_committee) timed" where
  "verifyCommitteeSigner L chain sc which =
     bindT (liftT (verifySignedCommittee L sc which)) (\<lambda>verified.
     bindT (readT (isRegistered chain (sc_signer sc))) (\<lambda>registered.
       if \<not> registered
       then liftT (Inl (Err (''the '' @ which @ '' is signed by a key not registered on the chain'')))
       else returnT verified))"

fun epochDecision :: "int \<Rightarrow> sdk_error + int \<Rightarrow> (sdk_error + int) option" where
  "epochDecision epoch (Inl e) = Some (Inl e)"
| "epochDecision epoch (Inr chainEpoch) =
     (case epochStanding epoch chainEpoch of
        FreshEpoch \<Rightarrow> Some (Inr chainEpoch)
      | OldEpoch \<Rightarrow> Some (Inl (Err ''the validator answered the committee of an older epoch than the chain's''))
      | AheadEpoch \<Rightarrow> None)"

definition chainDidNotCatchUp :: sdk_error where
  "chainDidNotCatchUp = Err ''the committee is more than one epoch after the chain's and the chain did not catch up''"

definition freshChainEpoch :: "committee_chain \<Rightarrow> int \<Rightarrow> chain_epoch_retry \<Rightarrow> (sdk_error, int) timed" where
  "freshChainEpoch chain epoch retry now =
     pollUntil (currentEpoch chain) (epochDecision epoch) (\<lambda>_. chainDidNotCatchUp)
       (epochTimerLag chain) (retryPauseMs retry) (now + int (retryBudgetMs retry)) now"

record verified_committees =
  vs_chainEpoch :: int
  vs_committee :: verified_committee
  vs_nextCommittee :: "verified_committee option"

definition keepNext :: "verified_committee \<Rightarrow> verified_committee option \<Rightarrow> int \<Rightarrow> verified_committee option" where
  "keepNext committee next chainEpoch =
     (case next of
        None \<Rightarrow> None
      | Some n \<Rightarrow>
          if vc_epoch n = vc_epoch committee + 1 \<and> epochStanding (vc_epoch n) chainEpoch = FreshEpoch
          then Some n else None)"

definition verifyCommitteeAnswer ::
    "sdk_lib \<Rightarrow> committee_chain \<Rightarrow> committee_answer \<Rightarrow> chain_epoch_retry
      \<Rightarrow> (sdk_error, verified_committees) timed" where
  "verifyCommitteeAnswer L chain answer retry =
     (case ans_committee answer of
        None \<Rightarrow> liftT (Inl (Err ''the validator answered no committee''))
      | Some sc \<Rightarrow>
          bindT (verifyCommitteeSigner L chain sc ''committee'') (\<lambda>committee.
          bindT (case ans_nextCommittee answer of
                   None \<Rightarrow> returnT None
                 | Some s \<Rightarrow> bindT (verifyCommitteeSigner L chain s ''next committee'') (\<lambda>n. returnT (Some n)))
            (\<lambda>next.
          bindT (freshChainEpoch chain (vc_epoch committee) retry) (\<lambda>chainEpoch.
          returnT \<lparr>vs_chainEpoch = chainEpoch, vs_committee = committee,
                   vs_nextCommittee = keepNext committee next chainEpoch\<rparr>))))"

section \<open>The members a client holds\<close>

text \<open>\<open>VerifiedMembers.networkKeysByEpoch\<close>, a map from the epoch to the members' network keys.\<close>

type_synonym verified_members = "(int \<times> bytes list) list"

definition putEpoch :: "int \<Rightarrow> bytes list \<Rightarrow> verified_members \<Rightarrow> verified_members" where
  "putEpoch e ks m =
     (if e \<in> set (map fst m) then map (\<lambda>(e', ks'). if e' = e then (e', ks) else (e', ks')) m
      else m @ [(e, ks)])"

definition dropOlderThan :: "int \<Rightarrow> verified_members \<Rightarrow> verified_members" where
  "dropOlderThan chainEpoch m = filter (\<lambda>(e, _). \<not> e < chainEpoch) m"

definition addVerified :: "verified_committees \<Rightarrow> verified_members \<Rightarrow> verified_members" where
  "addVerified v m =
     (let committees = vs_committee v # (case vs_nextCommittee v of None \<Rightarrow> [] | Some n \<Rightarrow> [n])
      in dropOlderThan (vs_chainEpoch v)
           (foldl (\<lambda>acc c. putEpoch (vc_epoch c) (map networkPubkey (vc_members c)) acc) m committees))"

definition containsKey :: "verified_members \<Rightarrow> bytes \<Rightarrow> bool" where
  "containsKey m k \<longleftrightarrow> list_ex (\<lambda>(_, ks). list_ex (\<lambda>key. equalBytes key k) ks) m"

end
