(* ===== verification/Committee_Laws.thy ===== *)
theory Committee_Laws
  imports Committee "HOL-Library.Multiset"
begin

text \<open>
  What the committee checks promise: the wire format is strict and one committee has one byte
  string whatever order its members are given in, an accepted committee is signed and registered,
  an old committee is never accepted, and the keys a client holds are those of fresh committees.
\<close>

section \<open>The attestation's wire format\<close>

lemma decode_encode_attestation:
  assumes "encodeCommitteeAttestation a = Inr b"
  shows "decodeCommitteeAttestation b = Inr a"
proof -
  from assms have d: "length (membersDigest a) = 32" and e: "0 \<le> ca_epoch a" "ca_epoch a \<le> u64_max"
    and b: "b = 0 # le_bytes 8 (ca_epoch a) @ membersDigest a"
    by (auto simp: encodeCommitteeAttestation_def split: if_splits)
  have "slice 1 9 b = le_bytes 8 (ca_epoch a)" "slice 9 41 b = membersDigest a"
    using d by (simp_all add: b slice_def)
  then show ?thesis
    using d e by (simp add: decodeCommitteeAttestation_def COMMITTEE_ATTESTATION_LENGTH_def b u64_max_def)
qed

lemma encode_decode_attestation:
  assumes "decodeCommitteeAttestation b = Inr a"
  shows "encodeCommitteeAttestation a = Inr b"
proof -
  from assms have l: "length b = 41" and h: "b ! 0 = 0"
    and a: "a = \<lparr>ca_epoch = le_value (slice 1 9 b), membersDigest = slice 9 41 b\<rparr>"
    by (auto simp: decodeCommitteeAttestation_def COMMITTEE_ATTESTATION_LENGTH_def split: if_splits)
  have "length (slice 1 9 b) = 8" using l by simp
  then have v: "le_value (slice 1 9 b) \<le> u64_max" "le_bytes 8 (le_value (slice 1 9 b)) = slice 1 9 b"
    using le_value_bounds [of "slice 1 9 b"] le_bytes_value [of "slice 1 9 b"]
    by (simp_all add: u64_max_pow)
  have "slice 0 1 b = [0]" using l h by (cases b) (auto simp: slice_def)
  then have "slice 0 9 b = 0 # slice 1 9 b" using slice_split [of 1 9 b] by simp
  moreover have "slice 0 9 b @ slice 9 41 b = b"
    using slice_split [of 9 41 b] slice_full [of b] l by simp
  ultimately have "b = 0 # slice 1 9 b @ slice 9 41 b" by (metis append_Cons)
  then show ?thesis
    using l v le_value_bounds [of "slice 1 9 b"] by (simp add: encodeCommitteeAttestation_def a)
qed

interpretation committee_attestation_format:
  wire_format encodeCommitteeAttestation decodeCommitteeAttestation
  by unfold_locales (fact decode_encode_attestation, fact encode_decode_attestation)

text \<open>
  C33. A committee attestation has exactly one byte string: encoding and the strict decode are
  inverse, and the decode accepts a byte string exactly when some attestation encodes to it.
\<close>

theorem committee_attestation_canonical:
  "(encodeCommitteeAttestation a = Inr b \<longleftrightarrow> decodeCommitteeAttestation b = Inr a) \<and>
   (returned (decodeCommitteeAttestation c) \<longleftrightarrow> (\<exists>x. encodeCommitteeAttestation x = Inr c))"
  using committee_attestation_format.accepted_iff [of c] decode_encode_attestation encode_decode_attestation
  by blast

section \<open>The order of members\<close>

lemma compareBytes_zero [simp]: "compareBytes xs ys = 0 \<longleftrightarrow> xs = ys"
  by (induction xs ys rule: compareBytes.induct) auto

lemma compareBytes_antisym: "compareBytes xs ys < 0 \<longleftrightarrow> compareBytes ys xs > 0"
proof (induction xs ys rule: compareBytes.induct)
  case (1 right)
  then show ?case by (cases right) auto
qed (auto simp: not_less order.order_iff_strict)

lemma compareBytes_refl [simp]: "compareBytes xs xs = 0"
  by simp

lemma compareBytes_trans:
  "compareBytes xs ys < 0 \<Longrightarrow> compareBytes ys zs < 0 \<Longrightarrow> compareBytes xs zs < 0"
proof (induction xs ys arbitrary: zs rule: compareBytes.induct)
  case (1 ys)
  then show ?case by (cases ys; cases zs) auto
next
  case (3 x xs y ys)
  then show ?case by (cases zs) (auto split: if_splits)
qed auto

definition precedes :: "committee_member \<Rightarrow> committee_member \<Rightarrow> bool" where
  "precedes m n \<longleftrightarrow> memberOrder m n < 0"

lemma precedes_trans: "precedes a b \<Longrightarrow> precedes b c \<Longrightarrow> precedes a c"
  unfolding precedes_def memberOrder_def by (rule compareBytes_trans)

lemma precedes_irrefl [simp]: "\<not> precedes a a"
  by (simp add: precedes_def memberOrder_def)

lemma precedes_cases: "precedes a b \<or> consensusPubkey a = consensusPubkey b \<or> precedes b a"
  using compareBytes_antisym [of "consensusPubkey b" "consensusPubkey a"]
    compareBytes_zero [of "consensusPubkey a" "consensusPubkey b"]
  unfolding precedes_def memberOrder_def by linarith

lemma strictlyAscending_sorted: "strictlyAscending ms \<longleftrightarrow> sorted_wrt precedes ms"
proof -
  have "transp precedes" by (auto intro: transpI precedes_trans)
  then have "sorted_wrt precedes ms \<longleftrightarrow> (\<forall>i. Suc i < length ms \<longrightarrow> precedes (ms ! i) (ms ! Suc i))"
    by (rule sorted_wrt_iff_nth_Suc_transp)
  also have "\<dots> \<longleftrightarrow> (\<forall>i < length ms. i = 0 \<or> precedes (ms ! (i - 1)) (ms ! i))"
    by (metis Suc_less_eq Suc_pred' diff_Suc_1 less_Suc_eq_0_disj not_gr_zero)
  finally show ?thesis
    by (auto simp: strictlyAscending_def list_all_iff precedes_def)
qed

lemma set_insertBy [simp]: "set (insertBy cmp x ys) = insert x (set ys)"
  by (induction ys) auto

lemma mset_insertBy: "mset (insertBy cmp x ys) = add_mset x (mset ys)"
  by (induction ys) auto

lemma mset_sortBy: "mset (sortBy cmp xs) = mset xs"
  by (induction xs) (auto simp: sortBy_def mset_insertBy)

text \<open>With distinct keys the sort is strictly ascending, so its result depends on the set alone.\<close>

lemma insertBy_sorted:
  assumes "sorted_wrt precedes ms" "consensusPubkey m \<notin> consensusPubkey ` set ms"
  shows "sorted_wrt precedes (insertBy memberOrder m ms)"
  using assms
proof (induction ms)
  case (Cons n ns)
  have ne: "consensusPubkey m \<noteq> consensusPubkey n" using Cons.prems by auto
  show ?case
  proof (cases "precedes m n")
    case True
    then show ?thesis using Cons.prems by (auto simp: precedes_def intro: precedes_trans [unfolded precedes_def])
  next
    case False
    then have "precedes n m" "\<not> memberOrder m n \<le> 0"
      using precedes_cases [of m n] ne unfolding precedes_def memberOrder_def
      by auto
    then show ?thesis using Cons by auto
  qed
qed simp

lemma sortBy_sorted:
  "distinct (map consensusPubkey ms) \<Longrightarrow> sorted_wrt precedes (sortBy memberOrder ms)"
proof (induction ms)
  case (Cons m ms)
  have "set (sortBy memberOrder ms) = set ms" using mset_sortBy by (metis set_mset_mset)
  then show ?case using Cons by (auto simp: sortBy_def intro!: insertBy_sorted)
qed (simp add: sortBy_def)

lemma sorted_precedes_unique:
  "sorted_wrt precedes xs \<Longrightarrow> sorted_wrt precedes ys \<Longrightarrow> set xs = set ys \<Longrightarrow> xs = ys"
proof (induction xs arbitrary: ys)
  case (Cons x xs)
  then obtain y zs where ys: "ys = y # zs" by (cases ys) auto
  have "x = y"
    using Cons.prems ys by simp (metis insertE insertI1 precedes_irrefl precedes_trans)
  moreover have "x \<notin> set xs" "y \<notin> set zs" using Cons.prems ys by auto
  ultimately have "set xs = set zs" using Cons.prems(3) ys by auto
  then show ?case using Cons ys \<open>x = y\<close> by simp
qed simp

lemma distinct_keys_sorted: "sorted_wrt precedes ms \<Longrightarrow> distinct (map consensusPubkey ms)"
proof (induction ms)
  case (Cons m ms)
  have "consensusPubkey m \<noteq> consensusPubkey n" if "n \<in> set ms" for n
    using Cons.prems that by (auto simp: precedes_def memberOrder_def)
  then show ?case using Cons by auto
qed simp

lemma sorted_le_sortBy:
  "sorted_wrt (\<lambda>m n. memberOrder m n \<le> 0) (sortBy memberOrder ms)"
proof -
  have trans: "memberOrder a b \<le> 0 \<Longrightarrow> memberOrder b c \<le> 0 \<Longrightarrow> memberOrder a c \<le> 0" for a b c
    unfolding memberOrder_def
    by (metis compareBytes_trans compareBytes_zero order.order_iff_strict)
  have ins: "sorted_wrt (\<lambda>m n. memberOrder m n \<le> 0) (insertBy memberOrder m ns)"
    if "sorted_wrt (\<lambda>m n. memberOrder m n \<le> 0) ns" for m ns
    using that
  proof (induction ns)
    case (Cons n ns)
    show ?case
    proof (cases "memberOrder m n \<le> 0")
      case True
      then show ?thesis using Cons.prems by (auto intro: trans)
    next
      case False
      then have "memberOrder n m \<le> 0"
        unfolding memberOrder_def using compareBytes_antisym
        by (metis linorder_not_le order.strict_implies_order)
      then show ?thesis using False Cons by auto
    qed
  qed simp
  show ?thesis by (induction ms) (auto simp: sortBy_def intro: ins)
qed

lemma repeatedMember_None:
  assumes "sorted_wrt (\<lambda>m n. memberOrder m n \<le> 0) ms"
  shows "repeatedMember ms = None \<longleftrightarrow> distinct (map consensusPubkey ms)"
proof -
  have "repeatedMember ms = None \<longleftrightarrow>
      (\<forall>j < length ms. \<not> (0 < j \<and> consensusPubkey (ms ! (j - 1)) = consensusPubkey (ms ! j)))"
    by (auto simp: repeatedMember_def find_None_iff find_Some_iff split: option.splits)
  also have "\<dots> \<longleftrightarrow> (\<forall>i. Suc i < length ms \<longrightarrow> consensusPubkey (ms ! i) \<noteq> consensusPubkey (ms ! Suc i))"
    by (metis Suc_pred' diff_Suc_1 zero_less_Suc)
  finally have adj: "repeatedMember ms = None \<longleftrightarrow>
      (\<forall>i. Suc i < length ms \<longrightarrow> consensusPubkey (ms ! i) \<noteq> consensusPubkey (ms ! Suc i))" .
  have "distinct (map consensusPubkey ms)"
    if "\<forall>i. Suc i < length ms \<longrightarrow> consensusPubkey (ms ! i) \<noteq> consensusPubkey (ms ! Suc i)"
  proof -
    have "precedes (ms ! i) (ms ! Suc i)" if "Suc i < length ms" for i
      using sorted_wrt_nth_less [OF assms, of i "Suc i"] that
        \<open>\<forall>i. Suc i < length ms \<longrightarrow> _\<close>
      unfolding precedes_def memberOrder_def by (metis compareBytes_zero lessI order.order_iff_strict)
    then have "sorted_wrt precedes ms"
      using sorted_wrt_iff_nth_Suc_transp [of precedes ms] by (auto intro: transpI precedes_trans)
    then show ?thesis by (rule distinct_keys_sorted)
  qed
  moreover have "consensusPubkey (ms ! i) \<noteq> consensusPubkey (ms ! Suc i)"
    if "distinct (map consensusPubkey ms)" "Suc i < length ms" for i
    using that nth_eq_iff_index_eq [OF that(1), of i "Suc i"] by simp
  ultimately show ?thesis using adj by blast
qed

lemma repeatedMember_sortBy:
  "repeatedMember (sortBy memberOrder ms) = None \<longleftrightarrow> distinct (map consensusPubkey ms)"
proof -
  have "mset (map consensusPubkey (sortBy memberOrder ms)) = mset (map consensusPubkey ms)"
    by (simp add: mset_sortBy)
  then have "distinct (map consensusPubkey (sortBy memberOrder ms)) \<longleftrightarrow> distinct (map consensusPubkey ms)"
    by (rule mset_eq_imp_distinct_iff)
  then show ?thesis using repeatedMember_None [OF sorted_le_sortBy] by simp
qed

lemma unsignedCommittee_Inr:
  "unsignedCommittee L epoch ms = Inr (b, a) \<longleftrightarrow>
     distinct (map consensusPubkey ms) \<and> ms \<noteq> [] \<and>
     serialize (committeeMembersBcs L) (sortBy memberOrder ms) = Some b \<and>
     encodeCommitteeAttestation \<lparr>ca_epoch = epoch, membersDigest = blake2b_256 L b\<rparr> = Inr a"
proof -
  have "length (sortBy memberOrder ms) = length ms" using mset_sortBy by (metis size_mset)
  then show ?thesis
    using repeatedMember_sortBy [of ms]
    by (auto simp: unsignedCommittee_def committeeMembersDigest_def Let_def result_simps
        split: option.splits if_splits)
qed

text \<open>
  The order a committee's members are given in changes no byte and no verdict: two lists of
  the same members make the same unsigned committee or fail with the same error.
\<close>

theorem unsignedCommittee_order:
  assumes "mset ms = mset ms'"
  shows "unsignedCommittee L epoch ms = unsignedCommittee L epoch ms'"
proof (cases "distinct (map consensusPubkey ms)")
  case True
  have "mset (map consensusPubkey ms) = mset (map consensusPubkey ms')" using assms by simp
  then have d: "distinct (map consensusPubkey ms')" using True mset_eq_imp_distinct_iff by blast
  have "set (sortBy memberOrder ms) = set (sortBy memberOrder ms')"
    using assms mset_sortBy by (metis set_mset_mset)
  then have "sortBy memberOrder ms = sortBy memberOrder ms'"
    using sortBy_sorted [OF True] sortBy_sorted [OF d] by (rule sorted_precedes_unique [rotated 2])
  then show ?thesis by (simp add: unsignedCommittee_def)
next
  case False
  have "mset (map consensusPubkey ms) = mset (map consensusPubkey ms')" using assms by simp
  then have "\<not> distinct (map consensusPubkey ms')" using False mset_eq_imp_distinct_iff by blast
  then show ?thesis
    using False repeatedMember_sortBy [of ms] repeatedMember_sortBy [of ms']
    by (auto simp: unsignedCommittee_def Let_def)
qed

section \<open>Making and checking a committee\<close>

lemma decodeCommitteeMembers_Inr:
  "decodeCommitteeMembers L b d = Inr ms \<longleftrightarrow>
     blake2b_256 L b = d \<and> parse (committeeMembersBcs L) b = Some ms \<and>
     serialize (committeeMembersBcs L) ms = Some b \<and> ms \<noteq> [] \<and> sorted_wrt precedes ms"
  by (auto simp: decodeCommitteeMembers_def committeeMembersDigest_def strictlyAscending_sorted
      split: option.splits if_splits)

definition committee_signed :: "sdk_lib \<Rightarrow> signed_committee \<Rightarrow> bool" where
  "committee_signed L c \<longleftrightarrow>
     length (sc_signer c) = 32 \<and> length (sc_signature c) = 64 \<and>
     ed25519_verify L (sc_signature c) (committeeSigningMessage (sc_attestation c)) (sc_signer c) = Some True"

lemma verifySignedCommittee_Inr:
  "verifySignedCommittee L c which = Inr v \<longleftrightarrow>
     committee_signed L c \<and>
     (\<exists>att. decodeCommitteeAttestation (sc_attestation c) = Inr att \<and> ca_epoch att = vc_epoch v \<and>
        decodeCommitteeMembers L (sc_members c) (membersDigest att) = Inr (vc_members v))"
  by (cases v) (auto simp: verifySignedCommittee_def committee_signed_def result_simps)

text \<open>
  C27. A signed committee is accepted exactly when it is the unsigned committee of the epoch and
  the members it is read as, in their sorted order, and its signature over those attestation bytes
  verifies: nothing else the validator could serve under that signature is accepted.
\<close>

theorem verifySignedCommittee_iff:
  assumes "codec_ok (committeeMembersBcs L)"
  shows "verifySignedCommittee L c which = Inr v \<longleftrightarrow>
     committee_signed L c \<and> sorted_wrt precedes (vc_members v) \<and>
     unsignedCommittee L (vc_epoch v) (vc_members v) = Inr (sc_members c, sc_attestation c)"
proof -
  have sort: "sortBy memberOrder (vc_members v) = vc_members v" if "sorted_wrt precedes (vc_members v)"
    using that distinct_keys_sorted [OF that] sortBy_sorted mset_sortBy
    by (metis set_mset_mset sorted_precedes_unique)
  have att: "a = \<lparr>ca_epoch = ca_epoch a, membersDigest = membersDigest a\<rparr>" for a :: committee_attestation
    by simp
  show ?thesis
  proof
    assume "verifySignedCommittee L c which = Inr v"
    then obtain a where "committee_signed L c" and d: "decodeCommitteeAttestation (sc_attestation c) = Inr a"
      and e: "ca_epoch a = vc_epoch v"
      and m: "decodeCommitteeMembers L (sc_members c) (membersDigest a) = Inr (vc_members v)"
      by (auto simp: verifySignedCommittee_Inr)
    moreover have "encodeCommitteeAttestation \<lparr>ca_epoch = vc_epoch v, membersDigest = blake2b_256 L (sc_members c)\<rparr>
        = Inr (sc_attestation c)"
      using encode_decode_attestation [OF d] e m by (cases a) (auto simp: decodeCommitteeMembers_Inr)
    ultimately show "committee_signed L c \<and> sorted_wrt precedes (vc_members v) \<and>
        unsignedCommittee L (vc_epoch v) (vc_members v) = Inr (sc_members c, sc_attestation c)"
      using sort distinct_keys_sorted by (simp add: unsignedCommittee_Inr decodeCommitteeMembers_Inr)
  next
    assume a: "committee_signed L c \<and> sorted_wrt precedes (vc_members v) \<and>
        unsignedCommittee L (vc_epoch v) (vc_members v) = Inr (sc_members c, sc_attestation c)"
    then have "decodeCommitteeAttestation (sc_attestation c) =
        Inr \<lparr>ca_epoch = vc_epoch v, membersDigest = blake2b_256 L (sc_members c)\<rparr>"
      by (simp add: unsignedCommittee_Inr decode_encode_attestation)
    moreover have "serialize (committeeMembersBcs L) (vc_members v) = Some (sc_members c)"
      using a sort by (simp add: unsignedCommittee_Inr)
    ultimately show "verifySignedCommittee L c which = Inr v"
      using a codec_okD [OF assms] by (auto simp: verifySignedCommittee_Inr decodeCommitteeMembers_Inr unsignedCommittee_Inr)
  qed
qed

section \<open>The epoch\<close>

lemma fresh_iff: "epochStanding epoch chainEpoch = FreshEpoch \<longleftrightarrow> epoch = chainEpoch \<or> epoch = chainEpoch + 1"
  by (auto simp: epochStanding_def)

lemma freshChainEpoch_Inr:
  assumes "freshChainEpoch chain epoch retry now = Some (t, Inr c)"
  shows "(epoch = c \<or> epoch = c + 1) \<and> (\<exists>s\<ge>now. snd (currentEpoch chain s) = Inr c)"
proof -
  from assms obtain s where s: "now \<le> s" and d: "epochDecision epoch (snd (currentEpoch chain s)) = Some (Inr c)"
    unfolding freshChainEpoch_def by (blast dest: pollUntil_Inr)
  from d have "snd (currentEpoch chain s) = Inr c \<and> epochStanding epoch c = FreshEpoch"
    by (cases "(epoch, snd (currentEpoch chain s))" rule: epochDecision.cases)
      (auto split: epoch_standing.splits)
  with s show ?thesis by (auto simp: fresh_iff)
qed

lemma verifyCommitteeSigner_Inr:
  "verifyCommitteeSigner L chain c which now = Some (t, Inr v) \<Longrightarrow>
     verifySignedCommittee L c which = Inr v \<and> snd (isRegistered chain (sc_signer c) now) = Inr True"
  by (auto simp: verifyCommitteeSigner_def result_simps readT_Inr split: if_splits)

lemma accepted_committee_answer:
  assumes "verifyCommitteeAnswer L chain answer retry now = Some (t, Inr r)"
  shows "(\<exists>c s. ans_committee answer = Some c \<and>
            verifySignedCommittee L c ''committee'' = Inr (vs_committee r) \<and>
            snd (isRegistered chain (sc_signer c) s) = Inr True) \<and>
         (\<exists>s. snd (currentEpoch chain s) = Inr (vs_chainEpoch r)) \<and>
         vc_epoch (vs_committee r) \<in> {vs_chainEpoch r, vs_chainEpoch r + 1} \<and>
         (case vs_nextCommittee r of
            None \<Rightarrow> True
          | Some n \<Rightarrow>
              vc_epoch (vs_committee r) = vs_chainEpoch r \<and> vc_epoch n = vs_chainEpoch r + 1 \<and>
              (\<exists>c s. ans_nextCommittee answer = Some c \<and>
                 verifySignedCommittee L c ''next committee'' = Inr n \<and>
                 snd (isRegistered chain (sc_signer c) s) = Inr True))"
proof -
  from assms obtain c v nxt e t1 t2 t3
    where c: "ans_committee answer = Some c" "verifyCommitteeSigner L chain c ''committee'' now = Some (t1, Inr v)"
      and n: "(case ans_nextCommittee answer of
                   None \<Rightarrow> returnT None
                 | Some s \<Rightarrow> bindT (verifyCommitteeSigner L chain s ''next committee'') (\<lambda>n. returnT (Some n))) t1
              = Some (t2, Inr nxt)"
      and e: "freshChainEpoch chain (vc_epoch v) retry t2 = Some (t3, Inr e)"
      and r: "r = \<lparr>vs_chainEpoch = e, vs_committee = v, vs_nextCommittee = keepNext v nxt e\<rparr>"
    by (auto simp: verifyCommitteeAnswer_def result_simps split: option.splits)
  have ep: "vc_epoch v = e \<or> vc_epoch v = e + 1" "\<exists>s. snd (currentEpoch chain s) = Inr e"
    using freshChainEpoch_Inr [OF e] by auto
  have nx: "case nxt of None \<Rightarrow> True | Some m \<Rightarrow>
      (\<exists>c s. ans_nextCommittee answer = Some c \<and> verifySignedCommittee L c ''next committee'' = Inr m \<and>
         snd (isRegistered chain (sc_signer c) s) = Inr True)"
    using n by (auto simp: result_simps split: option.splits dest!: verifyCommitteeSigner_Inr)
  have kept: "case keepNext v nxt e of None \<Rightarrow> True | Some m \<Rightarrow>
      vc_epoch v = e \<and> vc_epoch m = e + 1 \<and>
      (\<exists>c s. ans_nextCommittee answer = Some c \<and> verifySignedCommittee L c ''next committee'' = Inr m \<and>
         snd (isRegistered chain (sc_signer c) s) = Inr True)"
  proof (cases "keepNext v nxt e")
    case (Some m)
    then have "nxt = Some m" "vc_epoch m = vc_epoch v + 1" "vc_epoch m = e \<or> vc_epoch m = e + 1"
      by (auto simp: keepNext_def fresh_iff split: option.splits if_splits)
    with ep(1) nx Some show ?thesis by auto
  qed simp
  have "vc_epoch v \<in> {e, e + 1}" using ep(1) by simp
  moreover note verifyCommitteeSigner_Inr [OF c(2)]
  ultimately show ?thesis unfolding r verified_committees.simps using c(1) ep(2) kept by blast
qed

text \<open>
  C10. An accepted answer holds a committee that is signed by a key the chain registers and whose
  epoch is the chain's epoch, as the chain itself answered it, or the one after; a next committee is
  kept only when it is signed and registered too and serves the epoch right after a committee of
  the chain's own epoch. A committee of an older epoch is never accepted.
\<close>

theorem verifyCommitteeAnswer_sound:
  assumes "verifyCommitteeAnswer L chain answer retry now = Some (t, Inr r)"
  shows "(\<exists>c s. ans_committee answer = Some c \<and>
            verifySignedCommittee L c ''committee'' = Inr (vs_committee r) \<and>
            snd (isRegistered chain (sc_signer c) s) = Inr True) \<and>
         (\<exists>s. snd (currentEpoch chain s) = Inr (vs_chainEpoch r)) \<and>
         vc_epoch (vs_committee r) \<in> {vs_chainEpoch r, vs_chainEpoch r + 1} \<and>
         (case vs_nextCommittee r of
            None \<Rightarrow> True
          | Some n \<Rightarrow>
              vc_epoch (vs_committee r) = vs_chainEpoch r \<and> vc_epoch n = vs_chainEpoch r + 1 \<and>
              (\<exists>c s. ans_nextCommittee answer = Some c \<and>
                 verifySignedCommittee L c ''next committee'' = Inr n \<and>
                 snd (isRegistered chain (sc_signer c) s) = Inr True))"
  using assms by (rule accepted_committee_answer)

text \<open>
  The check of a committee's answer ends: with a pause between reads it returns or throws,
  whatever the chain answers and however late.
\<close>

theorem verifyCommitteeAnswer_ends:
  assumes "0 < retryPauseMs retry"
  shows "\<exists>t r. verifyCommitteeAnswer L chain answer retry now = Some (t, r)"
proof -
  have f: "settles (freshChainEpoch chain epoch retry)" for epoch
    unfolding settles_def freshChainEpoch_def using pollUntil_returns [OF assms]
    by (metis option.distinct(1))
  have v: "settles (verifyCommitteeSigner L chain c which)" for c which
    unfolding verifyCommitteeSigner_def by (intro settles_bindT) (auto split: if_split)
  have "settles (verifyCommitteeAnswer L chain answer retry)"
    unfolding verifyCommitteeAnswer_def
    by (auto split: option.split intro!: settles_bindT f v)
  then show ?thesis unfolding settles_def by (metis not_None_eq surj_pair)
qed

section \<open>The members a client holds\<close>

lemma map_of_putEpoch: "map_of (putEpoch e ks m) = (map_of m)(e \<mapsto> ks)"
proof (cases "e \<in> set (map fst m)")
  case True
  have "map_of (map (\<lambda>(e', ks'). if e' = e then (e', ks) else (e', ks')) m) x =
      (if x = e \<and> e \<in> set (map fst m) then Some ks else map_of m x)" for x
    by (induction m) (auto split: if_splits)
  with True show ?thesis by (intro ext) (simp add: putEpoch_def)
next
  case False
  then have "map_of m e = None" by (simp add: map_of_eq_None_iff)
  with False show ?thesis
    by (intro ext) (auto simp: putEpoch_def map_add_def split: option.split)
qed

lemma distinct_putEpoch: "distinct (map fst m) \<Longrightarrow> distinct (map fst (putEpoch e ks m))"
proof -
  have "map fst (map (\<lambda>(e', ks'). if e' = e then (e', ks) else (e', ks')) m) = map fst m"
    by (induction m) auto
  then show "distinct (map fst m) \<Longrightarrow> distinct (map fst (putEpoch e ks m))"
    by (cases "e \<in> set (map fst m)") (simp_all add: putEpoch_def del: map_map)
qed

text \<open>What a client's map means: the keys of each epoch.\<close>

definition held :: "verified_members \<Rightarrow> int \<Rightarrow> bytes list option" where
  "held m = map_of m"

definition held_wf :: "verified_members \<Rightarrow> bool" where
  "held_wf m \<longleftrightarrow> distinct (map fst m)"

lemma held_dropOlderThan:
  "held (dropOlderThan c m) = (\<lambda>e. if e < c then None else held m e)"
  unfolding held_def dropOlderThan_def by (induction m) (auto simp: fun_eq_iff)

lemma containsKey_held:
  "held_wf m \<Longrightarrow> containsKey m k \<longleftrightarrow> (\<exists>e ks. held m e = Some ks \<and> k \<in> set ks)"
  unfolding containsKey_def held_def held_wf_def
  by (fastforce simp: list_ex_iff map_of_eq_Some_iff)

lemma held_addVerified:
  "held (addVerified v m) = (\<lambda>e. if e < vs_chainEpoch v then None else
     (case vs_nextCommittee v of
        Some n \<Rightarrow> if e = vc_epoch n then Some (map networkPubkey (vc_members n))
                  else ((held m)(vc_epoch (vs_committee v) \<mapsto> map networkPubkey (vc_members (vs_committee v)))) e
      | None \<Rightarrow> ((held m)(vc_epoch (vs_committee v) \<mapsto> map networkPubkey (vc_members (vs_committee v)))) e))"
  unfolding addVerified_def Let_def held_dropOlderThan
  by (auto simp: held_def map_of_putEpoch fun_eq_iff split: option.splits)

lemma held_wf_addVerified: "held_wf m \<Longrightarrow> held_wf (addVerified v m)"
  by (auto simp: held_wf_def addVerified_def dropOlderThan_def Let_def distinct_putEpoch
      distinct_map_filter split: option.splits)

definition committees_of :: "verified_committees \<Rightarrow> verified_committee list" where
  "committees_of v = vs_committee v # (case vs_nextCommittee v of None \<Rightarrow> [] | Some n \<Rightarrow> [n])"

text \<open>The map after a sequence of accepted answers, from the empty one.\<close>

definition heldAfter :: "verified_committees list \<Rightarrow> verified_members" where
  "heldAfter vs = foldl (\<lambda>m v. addVerified v m) [] vs"

lemma heldAfter_snoc [simp]: "heldAfter (vs @ [v]) = addVerified v (heldAfter vs)"
  by (simp add: heldAfter_def)

lemma heldAfter_wf: "held_wf (heldAfter vs)"
proof (induction vs rule: rev_induct)
  case Nil
  show ?case by (simp add: heldAfter_def held_wf_def)
next
  case (snoc v vs)
  then show ?case by (simp add: held_wf_addVerified)
qed

lemma held_heldAfter:
  "held (heldAfter vs) e = Some ks \<Longrightarrow>
     \<exists>v \<in> set vs. \<exists>c \<in> set (committees_of v). vc_epoch c = e \<and> ks = map networkPubkey (vc_members c)"
proof (induction vs arbitrary: ks rule: rev_induct)
  case Nil
  then show ?case by (simp add: heldAfter_def held_def)
next
  case (snoc v vs)
  show ?case
  proof (cases "held (heldAfter vs) e = Some ks")
    case True
    with snoc.IH show ?thesis by auto
  next
    case False
    with snoc.prems show ?thesis
      by (auto simp: held_addVerified committees_of_def split: if_splits option.splits)
  qed
qed

text \<open>
  C28. A key a client's pinned connection accepts is a member's of a committee it verified whose
  epoch is at least the chain's epoch at the latest answer; and every member of the latest answer's
  next committee, and of its committee, is accepted while the two serve different epochs that are
  not old.
\<close>

theorem held_keys_are_fresh:
  "(containsKey (heldAfter (vs @ [v])) k \<longrightarrow>
      (\<exists>w \<in> set (vs @ [v]). \<exists>c \<in> set (committees_of w).
         vs_chainEpoch v \<le> vc_epoch c \<and> k \<in> networkPubkey ` set (vc_members c))) \<and>
   (distinct (map vc_epoch (committees_of v)) \<longrightarrow>
      (\<forall>c \<in> set (committees_of v). vs_chainEpoch v \<le> vc_epoch c \<longrightarrow>
         (\<forall>m \<in> set (vc_members c). containsKey (heldAfter (vs @ [v])) (networkPubkey m))))"
proof (intro conjI impI ballI)
  assume "containsKey (heldAfter (vs @ [v])) k"
  then obtain e ks where h: "held (heldAfter (vs @ [v])) e = Some ks" and k: "k \<in> set ks"
    using containsKey_held [OF heldAfter_wf] by blast
  from h have "vs_chainEpoch v \<le> e" by (auto simp: held_addVerified split: if_splits)
  with held_heldAfter [OF h] k
  show "\<exists>w \<in> set (vs @ [v]). \<exists>c \<in> set (committees_of w).
      vs_chainEpoch v \<le> vc_epoch c \<and> k \<in> networkPubkey ` set (vc_members c)"
    by (metis set_map)
next
  fix c m
  assume d: "distinct (map vc_epoch (committees_of v))" and c: "c \<in> set (committees_of v)"
    and e: "vs_chainEpoch v \<le> vc_epoch c" and m: "m \<in> set (vc_members c)"
  have "held (heldAfter (vs @ [v])) (vc_epoch c) = Some (map networkPubkey (vc_members c))"
    using d c e by (auto simp: held_addVerified committees_of_def split: option.splits if_splits)
  then show "containsKey (heldAfter (vs @ [v])) (networkPubkey m)"
    using m containsKey_held [OF heldAfter_wf, of "vs @ [v]"] by fastforce
qed

end
