(* ===== verification/Wire_Tables.thy ===== *)
theory Wire_Tables
  imports Ika_Prelude
begin

text \<open>
  The wire table of the ika program (\<open>wire-tables-data.ts\<close>) and the lookups in it
  (\<open>wire-tables.ts\<close>): instruction bytes, account discriminators and lengths, and seed layouts. A
  JSON object is an association list, a field it may lack is an option.
\<close>

record account_entry =
  discriminator :: nat
  acc_version :: nat
  data_len :: "nat option"
  header_len :: "nat option"
  variable :: bool

record seed_component =
  seed_name :: string
  literal :: "string option"
  width :: "nat option"
  chunks_of :: "nat option"
  min_len :: "nat option"
  max_len :: "nat option"
  omitted_when :: "string option"

record seed_schema =
  seed_owner :: string
  components :: "seed_component list"

text \<open>One entry of the table, in the order its keys are written.\<close>

definition account :: "nat \<Rightarrow> nat \<Rightarrow> nat option \<Rightarrow> nat option \<Rightarrow> bool \<Rightarrow> account_entry" where
  "account d v len hdr var =
     \<lparr>discriminator = d, acc_version = v, data_len = len, header_len = hdr, variable = var\<rparr>"

definition literalSeed :: "string \<Rightarrow> string \<Rightarrow> seed_component" where
  "literalSeed name lit =
     \<lparr>seed_name = name, literal = Some lit, width = None, chunks_of = None, min_len = None,
      max_len = None, omitted_when = None\<rparr>"

definition widthSeed :: "string \<Rightarrow> nat \<Rightarrow> seed_component" where
  "widthSeed name w =
     \<lparr>seed_name = name, literal = None, width = Some w, chunks_of = None, min_len = None,
      max_len = None, omitted_when = None\<rparr>"

definition chunkedSeed :: "string \<Rightarrow> nat \<Rightarrow> nat \<Rightarrow> nat \<Rightarrow> seed_component" where
  "chunkedSeed name chunk lo hi =
     \<lparr>seed_name = name, literal = None, width = None, chunks_of = Some chunk, min_len = Some lo,
      max_len = Some hi, omitted_when = None\<rparr>"

section \<open>The table\<close>

definition header_discriminator_offset :: nat where
  "header_discriminator_offset = 0"

definition wire_instructions :: "(string \<times> nat) list" where
  "wire_instructions =
    [(''DWalletTransferOwnership'', 129),
     (''DWalletCommitDWallet'', 132),
     (''DWalletCreateDeposit'', 136),
     (''DWalletTopUp'', 137),
     (''DWalletRequestWithdraw'', 141),
     (''DWalletWithdraw'', 142),
     (''DWalletPauseSigningParameter'', 151),
     (''DWalletUnpauseSigningParameter'', 152),
     (''DWalletRegisterEncryptionKey'', 153),
     (''DWalletIssueSignatureVoucher'', 156),
     (''DWalletSetVoucherSigningKey'', 157),
     (''DWalletRevokeSignatureVoucher'', 158),
     (''DWalletTransferSignatureVoucher'', 159),
     (''DWalletIssueFutureSignatureVoucher'', 161),
     (''DWalletAcceptEncryptedUserShare'', 165),
     (''DWalletTransferGasDeposit'', 166)]"

definition wire_accounts :: "(string \<times> account_entry) list" where
  "wire_accounts =
    [(''SystemState'', account 1 1 (Some 566) (None) False),
     (''DWalletCoordinator'', account 96 1 (Some 631) (None) False),
     (''DWallet'', account 97 1 (Some 185) (None) False),
     (''NetworkEncryptionKey'', account 98 1 (Some 199) (None) False),
     (''GasDeposit'', account 99 1 (Some 179) (None) False),
     (''EncryptedUserSecretKeyShare'', account 101 1 (None) (Some 214) True),
     (''NetworkReconfigurationOutput'', account 102 1 (Some 182) (None) False),
     (''DWalletAttestation'', account 104 1 (None) (Some 101) True),
     (''GasCharge'', account 106 1 (Some 91) (None) False),
     (''EncryptionKey'', account 107 1 (None) (Some 120) True),
     (''SignatureVoucher'', account 108 1 (Some 304) (None) False),
     (''FutureSignatureVoucher'', account 109 1 (Some 1941) (None) False)]"

definition wire_seed_schemas :: "(string \<times> seed_schema) list" where
  "wire_seed_schemas =
    [(''SystemState'', \<lparr>seed_owner = ''system'', components =
        [literalSeed ''prefix'' ''ika_system_state'']\<rparr>),
     (''DWalletCoordinator'', \<lparr>seed_owner = ''dwallet'', components =
        [literalSeed ''prefix'' ''dwallet_coordinator'']\<rparr>),
     (''DWallet'', \<lparr>seed_owner = ''dwallet'', components =
        [literalSeed ''prefix'' ''dwallet'', literalSeed ''tag'' ''record'', chunkedSeed ''dwallet_root'' 32 34 67]\<rparr>),
     (''DWalletAttestation'', \<lparr>seed_owner = ''dwallet'', components =
        [literalSeed ''prefix'' ''dwallet'', literalSeed ''tag'' ''attestation'', chunkedSeed ''dwallet_root'' 32 34 67]\<rparr>),
     (''ImportedDWallet'', \<lparr>seed_owner = ''dwallet'', components =
        [literalSeed ''prefix'' ''dwallet'', literalSeed ''tag'' ''imported_record'', chunkedSeed ''dwallet_root'' 32 34 67, widthSeed ''session_identifier'' 32]\<rparr>),
     (''ImportedDWalletAttestation'', \<lparr>seed_owner = ''dwallet'', components =
        [literalSeed ''prefix'' ''dwallet'', literalSeed ''tag'' ''imported_attestation'', chunkedSeed ''dwallet_root'' 32 34 67, widthSeed ''session_identifier'' 32]\<rparr>),
     (''PublicUserShareAttestation'', \<lparr>seed_owner = ''dwallet'', components =
        [literalSeed ''prefix'' ''dwallet'', literalSeed ''tag'' ''public_user_share'', chunkedSeed ''dwallet_root'' 32 34 67]\<rparr>),
     (''EncryptedShareAttestation'', \<lparr>seed_owner = ''dwallet'', components =
        [literalSeed ''prefix'' ''dwallet'', literalSeed ''tag'' ''encrypted_share_attestation'', chunkedSeed ''dwallet_root'' 32 34 67, widthSeed ''encryption_key_owner'' 32]\<rparr>),
     (''EncryptedUserSecretKeyShare'', \<lparr>seed_owner = ''dwallet'', components =
        [literalSeed ''prefix'' ''dwallet'', literalSeed ''tag'' ''encrypted_user_share'', chunkedSeed ''dwallet_root'' 32 34 67, widthSeed ''encryption_key_owner'' 32]\<rparr>),
     (''ImportedPublicUserShareAttestation'', \<lparr>seed_owner = ''dwallet'', components =
        [literalSeed ''prefix'' ''dwallet'', literalSeed ''tag'' ''imported_public_user_share'', chunkedSeed ''dwallet_root'' 32 34 67, widthSeed ''session_identifier'' 32]\<rparr>),
     (''ImportedEncryptedShareAttestation'', \<lparr>seed_owner = ''dwallet'', components =
        [literalSeed ''prefix'' ''dwallet'', literalSeed ''tag'' ''imported_enc_share_attestation'', chunkedSeed ''dwallet_root'' 32 34 67, widthSeed ''session_identifier'' 32, widthSeed ''encryption_key_owner'' 32]\<rparr>),
     (''ImportedEncryptedUserSecretKeyShare'', \<lparr>seed_owner = ''dwallet'', components =
        [literalSeed ''prefix'' ''dwallet'', literalSeed ''tag'' ''imported_encrypted_user_share'', chunkedSeed ''dwallet_root'' 32 34 67, widthSeed ''session_identifier'' 32, widthSeed ''encryption_key_owner'' 32]\<rparr>),
     (''GasDeposit'', \<lparr>seed_owner = ''dwallet'', components =
        [literalSeed ''prefix'' ''gas_deposit'', widthSeed ''user_pubkey'' 32]\<rparr>),
     (''GasCharge'', \<lparr>seed_owner = ''dwallet'', components =
        [literalSeed ''prefix'' ''gas_charge'', widthSeed ''charge_id'' 32]\<rparr>),
     (''NetworkEncryptionKey'', \<lparr>seed_owner = ''dwallet'', components =
        [literalSeed ''prefix'' ''network_encryption_key'', widthSeed ''noa_public_key'' 32]\<rparr>),
     (''NetworkReconfigurationOutput'', \<lparr>seed_owner = ''dwallet'', components =
        [literalSeed ''prefix'' ''network_reconfig'', widthSeed ''noa_public_key'' 32, widthSeed ''epoch_le'' 8]\<rparr>),
     (''EncryptionKey'', \<lparr>seed_owner = ''dwallet'', components =
        [literalSeed ''prefix'' ''encryption_key'', widthSeed ''signer_public_key'' 32, widthSeed ''curve_le'' 2]\<rparr>)]"

section \<open>Lookups\<close>

definition look :: "string \<Rightarrow> (string \<times> 'v) list \<Rightarrow> string \<Rightarrow> sdk_error + 'v" where
  "look kind table name =
     ofOption (Err (''no '' @ kind @ '' named '' @ name @ '' in wire-tables.json'')) (map_of table name)"

definition instructionByte :: "string \<Rightarrow> sdk_error + nat" where
  "instructionByte name = look ''instruction'' wire_instructions name"

definition accountEntry :: "string \<Rightarrow> sdk_error + account_entry" where
  "accountEntry name = look ''account'' wire_accounts name"

definition accountDiscriminator :: "string \<Rightarrow> sdk_error + nat" where
  "accountDiscriminator name = bindE (accountEntry name) (\<lambda>e. Inr (discriminator e))"

definition accountDataLen :: "string \<Rightarrow> sdk_error + nat" where
  "accountDataLen name = bindE (accountEntry name) (\<lambda>e.
     ofOption (Err (name @ '' is variable-length; it has no single data_len'')) (data_len e))"

definition seedSchema :: "string \<Rightarrow> sdk_error + seed_schema" where
  "seedSchema name = look ''seed schema'' wire_seed_schemas name"

section \<open>Lemmas\<close>

lemmas wire_lookups = look_def accountEntry_def accountDiscriminator_def accountDataLen_def
  seedSchema_def instructionByte_def

lemma wire_keys_distinct:
  "distinct (map fst wire_instructions)" "distinct (map fst wire_accounts)"
  "distinct (map fst wire_seed_schemas)"
  by (simp_all add: wire_instructions_def wire_accounts_def wire_seed_schemas_def)

text \<open>No two instructions share a byte and no two accounts a discriminator; all fit one byte.\<close>

lemma wire_bytes_distinct:
  "distinct (map snd wire_instructions)" "distinct (map (discriminator \<circ> snd) wire_accounts)"
  "\<forall>b \<in> set (map snd wire_instructions). b < 256"
  "\<forall>e \<in> set (map snd wire_accounts). discriminator e < 256"
  by (simp_all add: wire_instructions_def wire_accounts_def account_def)

end
