(* ===== verification/Addresses.thy ===== *)
theory Addresses
  imports Wire_Tables
begin

text \<open>
  The program's addresses (\<open>addresses.ts\<close>): the seeds of an account from the wire table, and the
  program-derived address of a list of seeds. SHA-256 and the decompression of a curve point are
  library code, so they are parameters; the derivation hashes the seeds one after the other, so the
  hashed bytes are \<open>addressPreimage\<close>.
\<close>

section \<open>Program-derived addresses\<close>

definition MAX_SEEDS :: nat where "MAX_SEEDS = 16"

definition MAX_SEED_LEN :: nat where "MAX_SEED_LEN = 32"

definition PDA_MARKER :: bytes where "PDA_MARKER = ascii ''ProgramDerivedAddress''"

record derived_address =
  address :: bytes
  bump :: nat

text \<open>\<open>ed25519.Point.fromBytes\<close>, \<open>None\<close> where it throws; \<open>sha256\<close> over everything it was fed.\<close>

record address_lib =
  sha_256 :: hash
  pointFromBytes :: "bytes \<Rightarrow> unit option"

definition isOnCurve :: "address_lib \<Rightarrow> bytes \<Rightarrow> bool" where
  "isOnCurve A candidate = (case pointFromBytes A candidate of None \<Rightarrow> False | Some _ \<Rightarrow> True)"

definition addressPreimage :: "bytes list \<Rightarrow> nat \<Rightarrow> bytes \<Rightarrow> bytes" where
  "addressPreimage seeds b programId = concat seeds @ [word_of_nat b] @ programId @ PDA_MARKER"

text \<open>\<open>for (let bump = 255; bump >= 0; bump--)\<close>: the argument counts the bumps left.\<close>

fun searchBump :: "address_lib \<Rightarrow> bytes list \<Rightarrow> bytes \<Rightarrow> nat \<Rightarrow> sdk_error + derived_address" where
  "searchBump A seeds programId 0 = Inl (Err ''no bump produced an off-curve address'')"
| "searchBump A seeds programId (Suc b) =
     (let candidate = sha_256 A (addressPreimage seeds b programId)
      in if \<not> isOnCurve A candidate then Inr \<lparr>address = candidate, bump = b\<rparr>
         else searchBump A seeds programId b)"

definition findProgramAddress :: "address_lib \<Rightarrow> bytes list \<Rightarrow> bytes \<Rightarrow> sdk_error + derived_address" where
  "findProgramAddress A seeds programId =
     (if length seeds + 1 > MAX_SEEDS then Inl (Err ''seeds plus the bump exceed Solana's limit'')
      else if list_ex (\<lambda>seed. length seed > MAX_SEED_LEN) seeds
      then Inl (Err ''a seed exceeds Solana's limit'')
      else if length programId \<noteq> 32 then Inl (Err ''a program id is 32 bytes'')
      else searchBump A seeds programId 256)"

section \<open>Seeds\<close>

datatype seed_value = SeedNumber int | SeedBytes bytes

text \<open>The loop writes the low byte and shifts, \<open>width\<close> times; what is left over does not fit.\<close>

fun littleEndianLoop :: "nat \<Rightarrow> int \<Rightarrow> bytes \<times> int" where
  "littleEndianLoop 0 rest = ([], rest)"
| "littleEndianLoop (Suc n) rest =
     (let (bs, left) = littleEndianLoop n (rest div 256) in (word_of_int (rest mod 256) # bs, left))"

definition littleEndian :: "int \<Rightarrow> nat \<Rightarrow> sdk_error + bytes" where
  "littleEndian value w =
     (if value < 0 then Inl (Err ''a seed number cannot be negative'')
      else let (bs, rest) = littleEndianLoop w value
           in if rest \<noteq> 0 then Inl (Err ''the seed number does not fit'') else Inr bs)"

definition asBytes :: "seed_component \<Rightarrow> seed_value \<Rightarrow> sdk_error + bytes" where
  "asBytes component v =
     (case v of
        SeedNumber n \<Rightarrow>
          (case width component of
             None \<Rightarrow> Inl (Err (seed_name component @ '' is variable-length; pass its bytes, not a number''))
           | Some w \<Rightarrow> littleEndian n w)
      | SeedBytes bs \<Rightarrow> Inr bs)"

definition OMITTED_WHEN_ZERO :: string where
  "OMITTED_WHEN_ZERO = ''message_metadata_digest is zero''"

definition isAllZero :: "bytes \<Rightarrow> bool" where
  "isAllZero bs = list_all (\<lambda>b. b = 0) bs"

text \<open>
  \<open>for (let offset = 0; offset < bytes.length; offset += chunk)\<close>. A chunk of 0 would never end; no
  entry of the table has one, and the model then stops.
\<close>

function chunks :: "nat \<Rightarrow> bytes \<Rightarrow> bytes list" where
  "chunks n bs = (if bs = [] \<or> n = 0 then [] else take n bs # chunks n (drop n bs))"
  by pat_completeness auto
termination
  by (relation "measure (\<lambda>(n, bs). length bs)") auto

declare chunks.simps [simp del]

text \<open>The seeds one component of a schema gives.\<close>

definition componentSeeds ::
    "string \<Rightarrow> (string \<Rightarrow> seed_value option) \<Rightarrow> seed_component \<Rightarrow> sdk_error + bytes list" where
  "componentSeeds accountName values component =
     (case literal component of
        Some lit \<Rightarrow> Inr [ascii lit]
      | None \<Rightarrow>
          (case omitted_when component of
             Some condition \<Rightarrow>
               if condition \<noteq> OMITTED_WHEN_ZERO
               then Inl (Err ''the seed is omitted on a condition this code does not implement'')
               else (case values (seed_name component) of
                       None \<Rightarrow> Inr []
                     | Some v \<Rightarrow> bindE (asBytes component v) (\<lambda>bs. Inr (if isAllZero bs then [] else [bs])))
           | None \<Rightarrow>
               (case values (seed_name component) of
                  None \<Rightarrow> Inl (Err (accountName @ '' needs a value for its '' @ seed_name component @ '' seed''))
                | Some v \<Rightarrow>
                    bindE (asBytes component v) (\<lambda>bs.
                    case width component of
                      Some w \<Rightarrow> if length bs \<noteq> w then Inl (Err ''the seed is of another width'') else Inr [bs]
                    | None \<Rightarrow>
                        (case chunks_of component of
                           None \<Rightarrow> Inl (Err ''the seed has no width and no chunk size'')
                         | Some chunk \<Rightarrow>
                             if (case min_len component of None \<Rightarrow> False | Some m \<Rightarrow> length bs < m)
                             then Inl (Err ''the seed is too short'')
                             else if (case max_len component of None \<Rightarrow> False | Some m \<Rightarrow> length bs > m)
                             then Inl (Err ''the seed is too long'')
                             else Inr (chunks chunk bs))))))"

definition deriveSeeds :: "string \<Rightarrow> (string \<Rightarrow> seed_value option) \<Rightarrow> sdk_error + bytes list" where
  "deriveSeeds accountName values =
     bindE (seedSchema accountName) (\<lambda>schema.
     bindE (traverseE (componentSeeds accountName values) (components schema)) (\<lambda>seedss.
     Inr (concat seedss)))"

definition deriveAddress ::
    "address_lib \<Rightarrow> string \<Rightarrow> bytes \<Rightarrow> (string \<Rightarrow> seed_value option) \<Rightarrow> sdk_error + derived_address" where
  "deriveAddress A accountName programId values =
     bindE (deriveSeeds accountName values) (\<lambda>seeds. findProgramAddress A seeds programId)"

section \<open>The accounts' addresses\<close>

definition dwalletSeedRoot :: "int \<Rightarrow> bytes \<Rightarrow> sdk_error + bytes" where
  "dwalletSeedRoot curve key = bindE (littleEndian curve 2) (\<lambda>c. Inr (c @ key))"

text \<open>The values of a dWallet's own accounts, and the name of its schema, DKG or imported.\<close>

definition dwalletValues :: "bytes \<Rightarrow> bytes option \<Rightarrow> (string \<Rightarrow> seed_value option)" where
  "dwalletValues root imported =
     (case imported of
        None \<Rightarrow> [''dwallet_root'' \<mapsto> SeedBytes root]
      | Some sid \<Rightarrow> [''dwallet_root'' \<mapsto> SeedBytes root, ''session_identifier'' \<mapsto> SeedBytes sid])"

definition shareValues :: "bytes \<Rightarrow> bytes \<Rightarrow> bytes option \<Rightarrow> (string \<Rightarrow> seed_value option)" where
  "shareValues root holder imported =
     (case imported of
        None \<Rightarrow> [''dwallet_root'' \<mapsto> SeedBytes root, ''encryption_key_owner'' \<mapsto> SeedBytes holder]
      | Some sid \<Rightarrow> [''dwallet_root'' \<mapsto> SeedBytes root, ''encryption_key_owner'' \<mapsto> SeedBytes holder,
                     ''session_identifier'' \<mapsto> SeedBytes sid])"

definition dkgOrImported :: "bytes option \<Rightarrow> string \<Rightarrow> string \<Rightarrow> string" where
  "dkgOrImported imported dkg imp = (case imported of None \<Rightarrow> dkg | Some _ \<Rightarrow> imp)"

definition dwalletPda ::
    "address_lib \<Rightarrow> bytes \<Rightarrow> int \<Rightarrow> bytes \<Rightarrow> bytes option \<Rightarrow> sdk_error + derived_address" where
  "dwalletPda A programId curve key imported =
     bindE (dwalletSeedRoot curve key) (\<lambda>root.
       deriveAddress A (dkgOrImported imported ''DWallet'' ''ImportedDWallet'') programId
         (dwalletValues root imported))"

definition dwalletAttestationPda ::
    "address_lib \<Rightarrow> bytes \<Rightarrow> int \<Rightarrow> bytes \<Rightarrow> bytes option \<Rightarrow> sdk_error + derived_address" where
  "dwalletAttestationPda A programId curve key imported =
     bindE (dwalletSeedRoot curve key) (\<lambda>root.
       deriveAddress A (dkgOrImported imported ''DWalletAttestation'' ''ImportedDWalletAttestation'')
         programId (dwalletValues root imported))"

definition encryptedUserSecretKeySharePda ::
    "address_lib \<Rightarrow> bytes \<Rightarrow> int \<Rightarrow> bytes \<Rightarrow> bytes \<Rightarrow> bytes option \<Rightarrow> sdk_error + derived_address" where
  "encryptedUserSecretKeySharePda A programId curve key holder imported =
     bindE (dwalletSeedRoot curve key) (\<lambda>root.
       deriveAddress A (dkgOrImported imported ''EncryptedUserSecretKeyShare''
           ''ImportedEncryptedUserSecretKeyShare'')
         programId (shareValues root holder imported))"

definition encryptedShareAttestationPda ::
    "address_lib \<Rightarrow> bytes \<Rightarrow> int \<Rightarrow> bytes \<Rightarrow> bytes \<Rightarrow> bytes option \<Rightarrow> sdk_error + derived_address" where
  "encryptedShareAttestationPda A programId curve key holder imported =
     bindE (dwalletSeedRoot curve key) (\<lambda>root.
       deriveAddress A (dkgOrImported imported ''EncryptedShareAttestation''
           ''ImportedEncryptedShareAttestation'')
         programId (shareValues root holder imported))"

definition publicUserShareAttestationPda ::
    "address_lib \<Rightarrow> bytes \<Rightarrow> int \<Rightarrow> bytes \<Rightarrow> bytes option \<Rightarrow> sdk_error + derived_address" where
  "publicUserShareAttestationPda A programId curve key imported =
     bindE (dwalletSeedRoot curve key) (\<lambda>root.
       deriveAddress A (dkgOrImported imported ''PublicUserShareAttestation''
           ''ImportedPublicUserShareAttestation'')
         programId (dwalletValues root imported))"

definition dwalletCoordinatorPda :: "address_lib \<Rightarrow> bytes \<Rightarrow> sdk_error + derived_address" where
  "dwalletCoordinatorPda A programId = deriveAddress A ''DWalletCoordinator'' programId Map.empty"

definition gasDepositPda :: "address_lib \<Rightarrow> bytes \<Rightarrow> bytes \<Rightarrow> sdk_error + derived_address" where
  "gasDepositPda A programId userPublicKey =
     deriveAddress A ''GasDeposit'' programId [''user_pubkey'' \<mapsto> SeedBytes userPublicKey]"

definition gasChargePda :: "address_lib \<Rightarrow> bytes \<Rightarrow> bytes \<Rightarrow> sdk_error + derived_address" where
  "gasChargePda A programId chargeId =
     deriveAddress A ''GasCharge'' programId [''charge_id'' \<mapsto> SeedBytes chargeId]"

definition encryptionKeyPda :: "address_lib \<Rightarrow> bytes \<Rightarrow> bytes \<Rightarrow> int \<Rightarrow> sdk_error + derived_address" where
  "encryptionKeyPda A programId signer curve =
     deriveAddress A ''EncryptionKey'' programId
       [''signer_public_key'' \<mapsto> SeedBytes signer, ''curve_le'' \<mapsto> SeedNumber curve]"

definition networkEncryptionKeyPda :: "address_lib \<Rightarrow> bytes \<Rightarrow> bytes \<Rightarrow> sdk_error + derived_address" where
  "networkEncryptionKeyPda A programId key =
     deriveAddress A ''NetworkEncryptionKey'' programId [''noa_public_key'' \<mapsto> SeedBytes key]"

definition networkReconfigurationOutputPda ::
    "address_lib \<Rightarrow> bytes \<Rightarrow> bytes \<Rightarrow> int \<Rightarrow> sdk_error + derived_address" where
  "networkReconfigurationOutputPda A programId key epoch =
     deriveAddress A ''NetworkReconfigurationOutput'' programId
       [''noa_public_key'' \<mapsto> SeedBytes key, ''epoch_le'' \<mapsto> SeedNumber epoch]"

section \<open>The digests of an approval\<close>

definition approvalMessageDigests :: "hash \<Rightarrow> bytes \<Rightarrow> bytes \<Rightarrow> bytes \<times> bytes" where
  "approvalMessageDigests keccak message metadata =
     (keccak message, if length metadata = 0 then replicate 32 0 else keccak metadata)"

end
