(* ===== verification/Address_Laws.thy ===== *)
theory Address_Laws
  imports Addresses "HOL-Library.Sublist"
begin

text \<open>
  What the address derivation promises: the address found is the canonical one, the seeds the wire
  table gives always fit Solana's limits, and the hashed bytes of two accounts never coincide: not
  for two kinds of account, and not for two dWallets or two holders.
\<close>

section \<open>The search for a bump\<close>

lemma searchBump_Inr:
  "searchBump A seeds p n = Inr d \<longleftrightarrow>
     bump d < n \<and> address d = sha_256 A (addressPreimage seeds (bump d) p) \<and>
     \<not> isOnCurve A (address d) \<and>
     (\<forall>b. bump d < b \<and> b < n \<longrightarrow> isOnCurve A (sha_256 A (addressPreimage seeds b p)))"
proof (induction n)
  case (Suc n)
  show ?case
  proof (cases "isOnCurve A (sha_256 A (addressPreimage seeds n p))")
    case True
    have less: "b < Suc n \<longleftrightarrow> b < n \<or> b = n" for b by auto
    from True Suc show ?thesis by (cases d) (auto simp: less Let_def)
  next
    case False
    then show ?thesis by (cases d) (auto simp: Let_def less_Suc_eq)
  qed
qed simp

text \<open>
  C32. The address found is the canonical one: the hash of the seeds with the highest bump whose
  hash is off the curve, for a list of seeds within Solana's limits.
\<close>

theorem findProgramAddress_canonical:
  "findProgramAddress A seeds p = Inr d \<longleftrightarrow>
     length seeds < 16 \<and> (\<forall>s \<in> set seeds. length s \<le> 32) \<and> length p = 32 \<and>
     bump d \<le> 255 \<and> address d = sha_256 A (addressPreimage seeds (bump d) p) \<and>
     \<not> isOnCurve A (address d) \<and>
     (\<forall>b. bump d < b \<and> b \<le> 255 \<longrightarrow> isOnCurve A (sha_256 A (addressPreimage seeds b p)))"
proof -
  have "(x :: nat) < 256 \<longleftrightarrow> x \<le> 255" for x by auto
  then show ?thesis
    unfolding findProgramAddress_def searchBump_Inr MAX_SEEDS_def MAX_SEED_LEN_def list_ex_iff
      if_split_eq1 not_less
    by (auto simp: not_less)
qed

section \<open>Numbers and chunks as seeds\<close>

lemma littleEndianLoop_eq: "littleEndianLoop w v = (le_bytes w v, v div 256 ^ w)"
proof (induction w arbitrary: v)
  case (Suc w)
  have "(word_of_int (v mod 256) :: byte) = word_of_int v"
    by (simp add: word_uint_eq_iff uint_word_of_int_byte)
  moreover have "v div 256 div 256 ^ w = v div (256 * 256 ^ w)"
    by (simp add: zdiv_zmult2_eq)
  ultimately show ?case using Suc by (simp add: Let_def)
qed simp

lemma littleEndian_Inr:
  "littleEndian v w = Inr bs \<longleftrightarrow> 0 \<le> v \<and> v < 256 ^ w \<and> bs = le_bytes w v"
proof -
  have "v div 256 ^ w = 0 \<longleftrightarrow> v < 256 ^ w" if "0 \<le> v"
    using that by (subst zdiv_eq_0_iff) (auto intro: less_trans)
  then show ?thesis by (auto simp: littleEndian_def littleEndianLoop_eq)
qed

lemma chunks_Nil [simp]: "chunks n [] = []"
  by (simp add: chunks.simps)

lemma concat_chunks: "0 < n \<Longrightarrow> concat (chunks n bs) = bs"
proof (induction n bs rule: chunks.induct)
  case (1 n bs)
  then show ?case by (cases "bs = []") (simp_all add: chunks.simps [of n bs])
qed

lemma chunks_lengths: "c \<in> set (chunks n bs) \<Longrightarrow> length c \<le> n"
proof (induction n bs rule: chunks.induct)
  case (1 n bs)
  then show ?case by (auto simp: chunks.simps [of n bs] split: if_splits)
qed

lemma length_chunks: "0 < n \<Longrightarrow> n * length (chunks n bs) < length bs + n"
proof (induction n bs rule: chunks.induct)
  case (1 n bs)
  show ?case
  proof (cases "bs = []")
    case True
    then show ?thesis using 1 by (simp add: chunks.simps [of n bs])
  next
    case False
    have "n * length (chunks n (drop n bs)) < length bs"
    proof (cases "n \<le> length bs")
      case True
      then show ?thesis using 1 False by simp
    next
      case short: False
      then show ?thesis using False by simp
    qed
    then show ?thesis using False 1(2) by (simp add: chunks.simps [of n bs])
  qed
qed

section \<open>Seeds of the table's accounts\<close>

text \<open>How many seeds a component gives at most, and how long each can be.\<close>

definition seedCount :: "seed_component \<Rightarrow> nat" where
  "seedCount c =
     (if literal c \<noteq> None \<or> width c \<noteq> None then 1
      else case (chunks_of c, max_len c) of (Some n, Some m) \<Rightarrow> (m + n - 1) div n | _ \<Rightarrow> 100)"

definition seedSize :: "seed_component \<Rightarrow> nat" where
  "seedSize c =
     (case literal c of Some l \<Rightarrow> length l
      | None \<Rightarrow> (case width c of Some w \<Rightarrow> w | None \<Rightarrow> (case chunks_of c of Some n \<Rightarrow> n | None \<Rightarrow> 0)))"

definition plainComponent :: "seed_component \<Rightarrow> bool" where
  "plainComponent c \<longleftrightarrow> omitted_when c = None \<and> (case chunks_of c of None \<Rightarrow> True | Some n \<Rightarrow> 0 < n \<and> max_len c \<noteq> None)"

lemma componentSeeds_bounds:
  assumes "componentSeeds a vs c = Inr ss" "plainComponent c"
  shows "length ss \<le> seedCount c \<and> (\<forall>s \<in> set ss. length s \<le> seedSize c)"
proof -
  have ch: "length (chunks n bs) \<le> (m + n - 1) div n" if "0 < n" "length bs \<le> m" for n m and bs :: bytes
  proof -
    have "n * length (chunks n bs) \<le> m + n - 1"
      using length_chunks [OF that(1), of bs] that by arith
    then show ?thesis using that(1) by (metis div_le_mono nonzero_mult_div_cancel_left less_not_refl)
  qed
  have parts: "(\<exists>l. literal c = Some l \<and> ss = [ascii l]) \<or>
      (\<exists>w bs. literal c = None \<and> width c = Some w \<and> length bs = w \<and> ss = [bs]) \<or>
      (\<exists>n m bs. literal c = None \<and> width c = None \<and> chunks_of c = Some n \<and> 0 < n \<and>
         max_len c = Some m \<and> length bs \<le> m \<and> ss = chunks n bs)"
    using assms
    by (cases "width c"; cases "literal c"; cases "chunks_of c")
      (auto simp: componentSeeds_def plainComponent_def result_simps not_less split: option.splits if_splits)
  then show ?thesis
  proof (elim disjE exE conjE)
    fix n m and bs :: bytes
    assume "literal c = None" "width c = None" "chunks_of c = Some n" "0 < n" "max_len c = Some m"
      "length bs \<le> m" "ss = chunks n bs"
    then show ?thesis using ch [of n bs m] chunks_lengths [of _ n bs]
      by (simp add: seedCount_def seedSize_def)
  qed (simp_all add: seedCount_def seedSize_def)
qed

lemma traverse_bounds:
  assumes "traverseE (componentSeeds a vs) cs = Inr sss" "\<forall>c \<in> set cs. plainComponent c \<and> seedSize c \<le> 32"
  shows "length (concat sss) \<le> sum_list (map seedCount cs) \<and> (\<forall>s \<in> set (concat sss). length s \<le> 32)"
  using assms
proof (induction cs arbitrary: sss)
  case (Cons c cs)
  then obtain ss rest where "componentSeeds a vs c = Inr ss" "traverseE (componentSeeds a vs) cs = Inr rest"
    "sss = ss # rest" by (auto simp: result_simps)
  with Cons componentSeeds_bounds [of a vs c ss] show ?case by (fastforce simp: add_mono)
qed simp

lemma schemas_fit:
  "list_all (\<lambda>(n, s). list_all (\<lambda>c. plainComponent c \<and> seedSize c \<le> 32) (components s) \<and>
     sum_list (map seedCount (components s)) \<le> 15) wire_seed_schemas"
  by (simp add: wire_seed_schemas_def literalSeed_def widthSeed_def chunkedSeed_def plainComponent_def
      seedSize_def seedCount_def)

lemma seedSchema_Inr: "seedSchema n = Inr s \<Longrightarrow> (n, s) \<in> set wire_seed_schemas"
  by (auto simp: seedSchema_def look_def result_simps dest: map_of_SomeD)

text \<open>
  The seeds of every account of the wire table fit Solana's limits whatever values they are
  derived from: at most 15 seeds beside the bump, of at most 32 bytes each, so the derivation of an
  address from them under a 32-byte program id can fail only by finding no off-curve bump.
\<close>

theorem deriveSeeds_fit:
  assumes "deriveSeeds name vs = Inr seeds"
  shows "length seeds + 1 \<le> MAX_SEEDS \<and> (\<forall>s \<in> set seeds. length s \<le> MAX_SEED_LEN) \<and>
    (length p = 32 \<longrightarrow> findProgramAddress A seeds p = searchBump A seeds p 256)"
proof -
  from assms obtain s sss where s: "seedSchema name = Inr s"
    and t: "traverseE (componentSeeds name vs) (components s) = Inr sss" and c: "seeds = concat sss"
    by (auto simp: deriveSeeds_def result_simps)
  have "\<forall>c \<in> set (components s). plainComponent c \<and> seedSize c \<le> 32"
    "sum_list (map seedCount (components s)) \<le> 15"
    using schemas_fit seedSchema_Inr [OF s] by (auto simp: list_all_iff)
  with traverse_bounds [OF t] have "length seeds \<le> 15" "\<forall>s \<in> set seeds. length s \<le> 32"
    unfolding c by (blast intro: order_trans)+
  then show ?thesis
    by (auto simp: findProgramAddress_def MAX_SEEDS_def MAX_SEED_LEN_def list_ex_iff not_less
        simp del: searchBump.simps)
qed

section \<open>No two accounts share their hashed bytes\<close>

text \<open>The bytes every list of seeds of a schema begins with: its leading literals.\<close>

fun schemaHead :: "seed_component list \<Rightarrow> bytes" where
  "schemaHead [] = []"
| "schemaHead (c # cs) = (case literal c of Some l \<Rightarrow> ascii l @ schemaHead cs | None \<Rightarrow> [])"

lemma traverse_head:
  "traverseE (componentSeeds a vs) cs = Inr sss \<Longrightarrow> prefix (schemaHead cs) (concat (concat sss))"
proof (induction cs arbitrary: sss)
  case (Cons c cs)
  then obtain ss rest where cs: "componentSeeds a vs c = Inr ss" "traverseE (componentSeeds a vs) cs = Inr rest"
    "sss = ss # rest" by (auto simp: result_simps)
  show ?case
  proof (cases "literal c")
    case (Some l)
    then have "ss = [ascii l]" using cs(1) by (simp add: componentSeeds_def)
    then show ?thesis using Some Cons.IH [OF cs(2)] cs(3) by simp
  qed simp
qed simp

definition prefixFree :: "bytes list \<Rightarrow> bool" where
  "prefixFree xs \<longleftrightarrow>
     list_all (\<lambda>i. list_all (\<lambda>j. i = j \<or> \<not> prefix (xs ! i) (xs ! j)) [0..<length xs]) [0..<length xs]"

lemma heads_prefix_free:
  "sorted_wrt (\<lambda>x y. \<not> prefix (schemaHead (components (snd x))) (schemaHead (components (snd y))) \<and>
      \<not> prefix (schemaHead (components (snd y))) (schemaHead (components (snd x)))) wire_seed_schemas"
  by (simp add: wire_seed_schemas_def literalSeed_def widthSeed_def chunkedSeed_def ascii_def)

lemma sorted_wrt_pairs:
  "sorted_wrt P xs \<Longrightarrow> (\<And>x y. P x y \<Longrightarrow> P y x) \<Longrightarrow> x \<in> set xs \<Longrightarrow> y \<in> set xs \<Longrightarrow> x \<noteq> y \<Longrightarrow> P x y"
  by (induction xs) auto

lemma preimages_apart:
  assumes "deriveSeeds name vs = Inr seeds" "deriveSeeds name' vs' = Inr seeds'" "name \<noteq> name'"
  shows "addressPreimage seeds b p \<noteq> addressPreimage seeds' b' p'"
proof
  assume eq: "addressPreimage seeds b p = addressPreimage seeds' b' p'"
  from assms(1) obtain s where s: "seedSchema name = Inr s"
    and h: "prefix (schemaHead (components s)) (concat seeds)"
    by (auto simp: deriveSeeds_def result_simps dest: traverse_head)
  from assms(2) obtain s' where s': "seedSchema name' = Inr s'"
    and h': "prefix (schemaHead (components s')) (concat seeds')"
    by (auto simp: deriveSeeds_def result_simps dest: traverse_head)
  have "(name, s) \<noteq> (name', s')" using assms(3) by simp
  then have "\<not> prefix (schemaHead (components s)) (schemaHead (components s'))"
    "\<not> prefix (schemaHead (components s')) (schemaHead (components s))"
    using sorted_wrt_pairs [OF heads_prefix_free _ seedSchema_Inr [OF s] seedSchema_Inr [OF s']] by auto
  moreover have "prefix (schemaHead (components s)) (addressPreimage seeds b p)"
    "prefix (schemaHead (components s')) (addressPreimage seeds b p)"
  proof -
    show "prefix (schemaHead (components s)) (addressPreimage seeds b p)"
      unfolding addressPreimage_def by (rule prefix_prefix [OF h])
    show "prefix (schemaHead (components s')) (addressPreimage seeds b p)"
      unfolding eq unfolding addressPreimage_def by (rule prefix_prefix [OF h'])
  qed
  ultimately show False using prefix_same_cases by blast
qed

text \<open>
  No two kinds of account of the wire table can share an address by sharing the bytes that are
  hashed into it: whatever their seed values and bumps, and whatever programs, the hashed bytes
  differ.
\<close>

theorem account_kinds_apart:
  assumes "deriveSeeds name vs = Inr seeds" "deriveSeeds name' vs' = Inr seeds'" "name \<noteq> name'"
  shows "addressPreimage seeds b p \<noteq> addressPreimage seeds' b' p'"
  using assms by (rule preimages_apart)

section \<open>No two dWallets share their hashed bytes\<close>

definition dwalletSeeds :: "int \<Rightarrow> bytes \<Rightarrow> bytes option \<Rightarrow> sdk_error + bytes list" where
  "dwalletSeeds curve key imported =
     bindE (dwalletSeedRoot curve key) (\<lambda>root.
       deriveSeeds (dkgOrImported imported ''DWallet'' ''ImportedDWallet'') (dwalletValues root imported))"

lemma dwalletPda_seeds:
  "dwalletPda A p curve key imported =
     bindE (dwalletSeeds curve key imported) (\<lambda>seeds. findProgramAddress A seeds p)"
  by (simp add: dwalletPda_def dwalletSeeds_def deriveAddress_def bindE_assoc)

lemma dwallet_schemas:
  "seedSchema ''DWallet'' = Inr \<lparr>seed_owner = ''dwallet'', components =
     [literalSeed ''prefix'' ''dwallet'', literalSeed ''tag'' ''record'', chunkedSeed ''dwallet_root'' 32 34 67]\<rparr>"
  "seedSchema ''ImportedDWallet'' = Inr \<lparr>seed_owner = ''dwallet'', components =
     [literalSeed ''prefix'' ''dwallet'', literalSeed ''tag'' ''imported_record'',
      chunkedSeed ''dwallet_root'' 32 34 67, widthSeed ''session_identifier'' 32]\<rparr>"
  by (simp_all add: seedSchema_def look_def wire_seed_schemas_def result_simps)

lemma componentSeeds_simps [simp]:
  "componentSeeds a vs (literalSeed n l) = Inr [ascii l]"
  "componentSeeds a vs (chunkedSeed n ch lo hi) =
     (case vs n of
        None \<Rightarrow> Inl (Err (a @ '' needs a value for its '' @ n @ '' seed''))
      | Some v \<Rightarrow> bindE (asBytes (chunkedSeed n ch lo hi) v) (\<lambda>bs.
          if length bs < lo then Inl (Err ''the seed is too short'')
          else if length bs > hi then Inl (Err ''the seed is too long'') else Inr (chunks ch bs)))"
  "componentSeeds a vs (widthSeed n w) =
     (case vs n of
        None \<Rightarrow> Inl (Err (a @ '' needs a value for its '' @ n @ '' seed''))
      | Some v \<Rightarrow> bindE (asBytes (widthSeed n w) v) (\<lambda>bs.
          if length bs \<noteq> w then Inl (Err ''the seed is of another width'') else Inr [bs]))"
  by (auto simp: componentSeeds_def literalSeed_def chunkedSeed_def widthSeed_def cong: if_cong split: option.splits)

lemma dwalletSeeds_concat:
  assumes "dwalletSeeds curve key imported = Inr seeds"
  shows "0 \<le> curve \<and> curve < 65536 \<and>
    (case imported of
       None \<Rightarrow> concat seeds = ascii ''dwalletrecord'' @ le_bytes 2 curve @ key
     | Some sid \<Rightarrow> length sid = 32 \<and>
         concat seeds = ascii ''dwalletimported_record'' @ le_bytes 2 curve @ key @ sid)"
proof -
  from assms obtain root where r: "0 \<le> curve" "curve < 65536" "root = le_bytes 2 curve @ key"
    and d: "deriveSeeds (dkgOrImported imported ''DWallet'' ''ImportedDWallet'') (dwalletValues root imported) = Inr seeds"
    by (auto simp: dwalletSeeds_def dwalletSeedRoot_def littleEndian_Inr result_simps)
  show ?thesis
  proof (cases imported)
    case None
    with d r show ?thesis
      by (auto simp: deriveSeeds_def dkgOrImported_def dwalletValues_def dwallet_schemas asBytes_def
          result_simps concat_chunks ascii_def split: if_splits)
  next
    case (Some sid)
    with d r show ?thesis
      by (auto simp: deriveSeeds_def dkgOrImported_def dwalletValues_def dwallet_schemas asBytes_def
          result_simps concat_chunks ascii_def split: if_splits)
  qed
qed

text \<open>
  The bytes hashed into a dWallet's address determine the dWallet: its curve, its public key,
  whether it is imported and by which session, and the program.
\<close>

theorem dwallet_address_determines:
  assumes "dwalletSeeds curve key imported = Inr seeds" "dwalletSeeds curve' key' imported' = Inr seeds'"
    and "length p = 32" "length p' = 32"
    and "addressPreimage seeds b p = addressPreimage seeds' b' p'"
  shows "curve = curve' \<and> key = key' \<and> imported = imported' \<and> p = p'"
proof -
  have "concat seeds = concat seeds'" and p: "p = p'"
    using assms(3-5) by (auto simp: addressPreimage_def)
  have kind: "dkgOrImported imported ''DWallet'' ''ImportedDWallet'' = dkgOrImported imported' ''DWallet'' ''ImportedDWallet''"
    using preimages_apart assms(5) assms(1,2) unfolding dwalletSeeds_def bindE_eq_Inr by metis
  have "le_bytes 2 curve @ key = le_bytes 2 curve' @ key' \<and> imported = imported'"
    using kind dwalletSeeds_concat [OF assms(1)] dwalletSeeds_concat [OF assms(2)]
      \<open>concat seeds = concat seeds'\<close>
    by (auto simp: dkgOrImported_def split: option.splits)
  then show ?thesis
    using p dwalletSeeds_concat [OF assms(1)] dwalletSeeds_concat [OF assms(2)] le_bytes_inject [of curve 2 curve']
    by simp
qed

end
