(* ===== verification/Accounts.thy ===== *)
theory Accounts
  imports Record_Laws Addresses
begin

text \<open>
  The readers of the ika program's accounts (\<open>solana/src/accounts.ts\<close>): the fixed-length accounts,
  the vouchers, the encrypted share and the encryption key with their variable tails, and the
  attestation accounts, which the reader lays out as BCS and rebuilds. \<open>null\<close> is \<open>None\<close>; a read
  past the end of the data is what the source makes of it: \<open>BigInt(undefined)\<close> and
  \<open>DataView.getUint32\<close> throw, a lone byte is \<open>undefined\<close>.
\<close>

section \<open>Reads\<close>

text \<open>
  \<open>data[i]\<close> as a number. Past the end it is \<open>undefined\<close>; \<open>byteAt\<close> gives 0 there, which is what
  \<open>undefined | n\<close> makes of it. \<open>Reader_Laws\<close> shows no reader gets there.
\<close>

definition byteAt :: "bytes \<Rightarrow> nat \<Rightarrow> nat" where
  "byteAt bs i = (if i < length bs then unat (bs ! i) else 0)"

definition readU16 :: "bytes \<Rightarrow> nat \<Rightarrow> nat" where
  "readU16 bs i = byteAt bs i + 256 * byteAt bs (i + 1)"

definition readU64 :: "bytes \<Rightarrow> nat \<Rightarrow> sdk_error + int" where
  "readU64 bs i =
     (if i + 8 \<le> length bs then Inr (le_value (slice i (i + 8) bs))
      else Inl (TypeErr ''Cannot convert undefined to a BigInt''))"

definition getUint32LE :: "bytes \<Rightarrow> nat \<Rightarrow> sdk_error + int" where
  "getUint32LE bs i =
     (if i + 4 \<le> length bs then Inr (le_value (slice i (i + 4) bs))
      else Inl (Err ''Offset is outside the bounds of the DataView''))"

definition isAccount :: "bytes \<Rightarrow> string \<Rightarrow> sdk_error + bool" where
  "isAccount bs name =
     bindE (accountDataLen name) (\<lambda>len.
       if \<not> length bs \<ge> len then Inr False
       else bindE (accountDiscriminator name) (\<lambda>d.
         Inr (byteAt bs header_discriminator_offset = d)))"

text \<open>\<open>if (!isAccount(data, name)) return null;\<close> before the fields are read.\<close>

definition ofAccount :: "bytes \<Rightarrow> string \<Rightarrow> sdk_error + 'a \<Rightarrow> sdk_error + 'a option" where
  "ofAccount bs name body =
     bindE (isAccount bs name) (\<lambda>ok. if \<not> ok then Inr None else bindE body (\<lambda>x. Inr (Some x)))"

section \<open>Fixed-length accounts\<close>

record coordinator_account =
  co_epoch :: int
  co_chainNumber :: int
  co_network :: nat
  co_chainIdentifier :: bytes
  co_ikaMint :: bytes
  co_treasuryVault :: bytes

definition readDWalletCoordinator :: "bytes \<Rightarrow> sdk_error + coordinator_account option" where
  "readDWalletCoordinator bs = ofAccount bs ''DWalletCoordinator''
     (let len = min (byteAt bs 116) 40 in
      bindE (readU64 bs 2) (\<lambda>epoch.
      bindE (getUint32LE bs 569) (\<lambda>chainNumber.
      Inr \<lparr>co_epoch = epoch, co_chainNumber = chainNumber, co_network = byteAt bs 630,
           co_chainIdentifier = slice 117 (117 + len) bs, co_ikaMint = slice 20 52 bs,
           co_treasuryVault = slice 52 84 bs\<rparr>)))"

record dwallet_account =
  da_owner :: bytes
  da_curve :: nat
  da_state :: nat
  da_publicKey :: bytes
  da_createdEpoch :: int
  da_noaPublicKey :: bytes
  da_isImported :: bool
  da_bump :: nat
  da_importedSessionIdentifier :: "bytes option"

definition readDWallet :: "bytes \<Rightarrow> sdk_error + dwallet_account option" where
  "readDWallet bs = ofAccount bs ''DWallet''
     (let publicKeyLength = min (byteAt bs 37) 65 in
      bindE (readU64 bs 103) (\<lambda>createdEpoch.
      Inr \<lparr>da_owner = slice 2 34 bs, da_curve = readU16 bs 34, da_state = byteAt bs 36,
           da_publicKey = slice 38 (38 + publicKeyLength) bs, da_createdEpoch = createdEpoch,
           da_noaPublicKey = slice 111 143 bs, da_isImported = (byteAt bs 143 = 1),
           da_bump = byteAt bs 144,
           da_importedSessionIdentifier = (if byteAt bs 143 = 1 then Some (slice 153 185 bs) else None)\<rparr>))"

definition RECORD_PROOF_SLOT_LEN :: nat where
  "RECORD_PROOF_SLOT_LEN = 98"

definition readRecordProof :: "bytes \<Rightarrow> nat \<Rightarrow> bytes option" where
  "readRecordProof bs offset =
     (let len = byteAt bs offset in
      if len > RECORD_PROOF_SLOT_LEN then None else Some (slice (offset + 1) (offset + 1 + len) bs))"

record network_key_account =
  nk_noaPublicKey :: bytes
  nk_state :: nat
  nk_createdEpoch :: int
  nk_lastReconfigurationEpoch :: int
  nk_dkgOutputDigest :: bytes
  nk_proof :: "bytes option"

definition readNetworkEncryptionKey :: "bytes \<Rightarrow> sdk_error + network_key_account option" where
  "readNetworkEncryptionKey bs = ofAccount bs ''NetworkEncryptionKey''
     (bindE (readU64 bs 35) (\<lambda>createdEpoch.
      bindE (readU64 bs 43) (\<lambda>lastEpoch.
      Inr \<lparr>nk_noaPublicKey = slice 2 34 bs, nk_state = byteAt bs 34, nk_createdEpoch = createdEpoch,
           nk_lastReconfigurationEpoch = lastEpoch, nk_dkgOutputDigest = slice 51 83 bs,
           nk_proof = readRecordProof bs 100\<rparr>)))"

record reconfiguration_account =
  rc_noaPublicKey :: bytes
  rc_epoch :: int
  rc_digest :: bytes
  rc_proof :: "bytes option"

definition readNetworkReconfigurationOutput :: "bytes \<Rightarrow> sdk_error + reconfiguration_account option" where
  "readNetworkReconfigurationOutput bs = ofAccount bs ''NetworkReconfigurationOutput''
     (bindE (readU64 bs 34) (\<lambda>epoch.
      Inr \<lparr>rc_noaPublicKey = slice 2 34 bs, rc_epoch = epoch, rc_digest = slice 42 74 bs,
           rc_proof = readRecordProof bs 74\<rparr>))"

record gas_deposit_account =
  gd_userPublicKey :: bytes
  gd_ikaBalance :: int
  gd_solBalance :: int
  gd_pendingIkaWithdrawal :: int
  gd_pendingSolWithdrawal :: int
  gd_withdrawalSequence :: int
  gd_ikaDebt :: int
  gd_solDebt :: int
  gd_sequence :: int
  gd_owner :: bytes

definition readGasDeposit :: "bytes \<Rightarrow> sdk_error + gas_deposit_account option" where
  "readGasDeposit bs = ofAccount bs ''GasDeposit''
     (bindE (readU64 bs 34) (\<lambda>ikaBalance.
      bindE (readU64 bs 42) (\<lambda>solBalance.
      bindE (readU64 bs 82) (\<lambda>pendingIka.
      bindE (readU64 bs 90) (\<lambda>pendingSol.
      bindE (readU64 bs 98) (\<lambda>withdrawalSequence.
      bindE (readU64 bs 123) (\<lambda>ikaDebt.
      bindE (readU64 bs 131) (\<lambda>solDebt.
      bindE (readU64 bs 139) (\<lambda>sequence.
      Inr \<lparr>gd_userPublicKey = slice 2 34 bs, gd_ikaBalance = ikaBalance, gd_solBalance = solBalance,
           gd_pendingIkaWithdrawal = pendingIka, gd_pendingSolWithdrawal = pendingSol,
           gd_withdrawalSequence = withdrawalSequence, gd_ikaDebt = ikaDebt, gd_solDebt = solDebt,
           gd_sequence = sequence, gd_owner = slice 147 179 bs\<rparr>)))))))))"

section \<open>Vouchers\<close>

record signature_voucher =
  vo_dwallet :: bytes
  vo_messageDigest :: bytes
  vo_messageMetadataDigest :: bytes
  vo_owner :: bytes
  vo_signatureScheme :: nat
  vo_signingKey :: "bytes option"
  vo_issuedEpoch :: int
  vo_status :: nat
  vo_signature :: bytes

text \<open>A future voucher has a voucher's fields and its partial signature's attestation.\<close>

record future_voucher = signature_voucher +
  fv_attestationProof :: bytes
  fv_hasPartialSignature :: bool
  fv_attestation :: bytes

definition readSignatureVoucherUnverified :: "bytes \<Rightarrow> sdk_error + signature_voucher option" where
  "readSignatureVoucherUnverified bs = ofAccount bs ''SignatureVoucher''
     (let signatureLength = min (readU16 bs 174) 128 in
      bindE (readU64 bs 165) (\<lambda>issuedEpoch.
      Inr \<lparr>vo_dwallet = slice 2 34 bs, vo_messageDigest = slice 34 66 bs,
           vo_messageMetadataDigest = slice 66 98 bs, vo_owner = slice 98 130 bs,
           vo_signatureScheme = readU16 bs 130,
           vo_signingKey = (if byteAt bs 132 \<noteq> 0 then Some (slice 133 165 bs) else None),
           vo_issuedEpoch = issuedEpoch, vo_status = byteAt bs 173,
           vo_signature = slice 176 (176 + signatureLength) bs\<rparr>))"

definition readFutureSignatureVoucherUnverified :: "bytes \<Rightarrow> sdk_error + future_voucher option" where
  "readFutureSignatureVoucherUnverified bs = ofAccount bs ''FutureSignatureVoucher''
     (let attestationLength = min (readU16 bs 273) 1536; signatureLength = min (readU16 bs 1811) 128 in
      bindE (readU64 bs 165) (\<lambda>issuedEpoch.
      Inr \<lparr>vo_dwallet = slice 2 34 bs, vo_messageDigest = slice 34 66 bs,
           vo_messageMetadataDigest = slice 66 98 bs, vo_owner = slice 98 130 bs,
           vo_signatureScheme = readU16 bs 130,
           vo_signingKey = (if byteAt bs 132 \<noteq> 0 then Some (slice 133 165 bs) else None),
           vo_issuedEpoch = issuedEpoch, vo_status = byteAt bs 173,
           vo_signature = slice 1813 (1813 + signatureLength) bs,
           fv_attestationProof = slice 174 272 bs, fv_hasPartialSignature = (byteAt bs 272 \<noteq> 0),
           fv_attestation = slice 275 (275 + attestationLength) bs\<rparr>))"

record expected_voucher =
  ev_dwalletAddress :: bytes
  ev_message :: bytes
  ev_messageMetadata :: bytes
  ev_signatureScheme :: nat

text \<open>
  \<open>verifySignature\<close> is the caller's verifier, which throws for a signature that does not verify.
  The function takes either voucher: the record type is open.
\<close>

definition voucherSignatureVerified ::
    "hash \<Rightarrow> 'v signature_voucher_scheme \<Rightarrow> expected_voucher \<Rightarrow> (bytes \<Rightarrow> sdk_error + unit)
      \<Rightarrow> sdk_error + bytes" where
  "voucherSignatureVerified keccak voucher expected verifySignature =
     (let (messageDigest, messageMetadataDigest) =
        approvalMessageDigests keccak (ev_message expected) (ev_messageMetadata expected) in
      if \<not> equalBytes (vo_dwallet voucher) (ev_dwalletAddress expected)
      then Inl (Err ''the voucher is for another dWallet than the expected one'')
      else if \<not> equalBytes (vo_messageDigest voucher) messageDigest
      then Inl (Err ''the voucher is for another message than the expected one'')
      else if \<not> equalBytes (vo_messageMetadataDigest voucher) messageMetadataDigest
      then Inl (Err ''the voucher is for other message metadata than the expected'')
      else if vo_signatureScheme voucher \<noteq> ev_signatureScheme expected
      then Inl (Err ''the voucher is for another signature scheme than the expected one'')
      else if length (vo_signature voucher) = 0 then Inr (vo_signature voucher)
      else bindE (verifySignature (vo_signature voucher)) (\<lambda>_. Inr (vo_signature voucher)))"

definition readSignatureVoucherVerified ::
    "hash \<Rightarrow> bytes \<Rightarrow> expected_voucher \<Rightarrow> (bytes \<Rightarrow> sdk_error + unit) \<Rightarrow> sdk_error + signature_voucher option" where
  "readSignatureVoucherVerified keccak bs expected verifySignature =
     bindE (readSignatureVoucherUnverified bs) (\<lambda>r.
       case r of
         None \<Rightarrow> Inr None
       | Some voucher \<Rightarrow>
           bindE (voucherSignatureVerified keccak voucher expected verifySignature) (\<lambda>sig.
             Inr (Some (voucher\<lparr>vo_signature := sig\<rparr>))))"

definition readFutureSignatureVoucherVerified ::
    "hash \<Rightarrow> bytes \<Rightarrow> expected_voucher \<Rightarrow> (bytes \<Rightarrow> sdk_error + unit) \<Rightarrow> sdk_error + future_voucher option" where
  "readFutureSignatureVoucherVerified keccak bs expected verifySignature =
     bindE (readFutureSignatureVoucherUnverified bs) (\<lambda>r.
       case r of
         None \<Rightarrow> Inr None
       | Some voucher \<Rightarrow>
           bindE (voucherSignatureVerified keccak voucher expected verifySignature) (\<lambda>sig.
             Inr (Some (voucher\<lparr>vo_signature := sig\<rparr>))))"

section \<open>Accounts with a variable tail\<close>

definition variableAccount :: "bytes \<Rightarrow> string \<Rightarrow> nat \<Rightarrow> (nat \<Rightarrow> sdk_error + 'a) \<Rightarrow> sdk_error + 'a option" where
  "variableAccount bs name lengthOffset body =
     bindE (accountEntry name) (\<lambda>e.
       let fixed = (case header_len e of None \<Rightarrow> 0 | Some n \<Rightarrow> n) in
       if fixed = 0 \<or> length bs < fixed \<or> byteAt bs header_discriminator_offset \<noteq> discriminator e \<or>
          length bs \<noteq> fixed + readU16 bs lengthOffset
       then Inr None
       else bindE (body fixed) (\<lambda>x. Inr (Some x)))"

record encrypted_share_account =
  sh_dwallet :: bytes
  sh_encryptionKeyOwner :: bytes
  sh_sourceShare :: bytes
  sh_isReEncrypted :: bool
  sh_createdEpoch :: int
  sh_bump :: nat
  sh_accepted :: bool
  sh_reserved :: bytes
  sh_acceptanceSignature :: bytes
  sh_acceptanceDigest :: bytes
  sh_encryptedShare :: bytes

definition readEncryptedUserSecretKeyShareUnverified :: "bytes \<Rightarrow> sdk_error + encrypted_share_account option" where
  "readEncryptedUserSecretKeyShareUnverified bs =
     variableAccount bs ''EncryptedUserSecretKeyShare'' 116 (\<lambda>fixed.
      bindE (readU64 bs 99) (\<lambda>createdEpoch.
      Inr \<lparr>sh_dwallet = slice 2 34 bs, sh_encryptionKeyOwner = slice 34 66 bs,
           sh_sourceShare = slice 66 98 bs, sh_isReEncrypted = (byteAt bs 98 = 1),
           sh_createdEpoch = createdEpoch, sh_bump = byteAt bs 107, sh_accepted = (byteAt bs 108 = 1),
           sh_reserved = slice 109 116 bs, sh_acceptanceSignature = slice 118 182 bs,
           sh_acceptanceDigest = slice 182 214 bs, sh_encryptedShare = drop fixed bs\<rparr>))"

record encryption_key_account =
  ek_signerPublicKey :: bytes
  ek_signatureScheme :: nat
  ek_curve :: nat
  ek_signature :: bytes
  ek_createdEpoch :: int
  ek_bump :: nat
  ek_encryptionKey :: bytes

definition readEncryptionKeyUnverified :: "bytes \<Rightarrow> sdk_error + encryption_key_account option" where
  "readEncryptionKeyUnverified bs =
     variableAccount bs ''EncryptionKey'' 37 (\<lambda>fixed.
      bindE (readU64 bs 103) (\<lambda>createdEpoch.
      Inr \<lparr>ek_signerPublicKey = slice 2 34 bs, ek_signatureScheme = byteAt bs 34,
           ek_curve = readU16 bs 35, ek_signature = slice 39 103 bs, ek_createdEpoch = createdEpoch,
           ek_bump = byteAt bs 111, ek_encryptionKey = drop fixed bs\<rparr>))"

section \<open>Attestation accounts\<close>

definition ATTESTATION_BUMP :: nat where "ATTESTATION_BUMP = 2"
definition ATTESTATION_PROOF :: nat where "ATTESTATION_PROOF = 3"
definition ATTESTATION_FIELDS :: nat where "ATTESTATION_FIELDS = 101"

text \<open>The bytes of the ULEB128 loop and then the bytes themselves.\<close>

fun uleb128 :: "nat \<Rightarrow> bytes" where
  "uleb128 n = (if 128 \<le> n then word_of_nat (n mod 128 + 128) # uleb128 (n div 128) else [word_of_nat n])"

declare uleb128.simps [simp del]

definition bcsByteVector :: "bytes \<Rightarrow> bytes" where
  "bcsByteVector bs = uleb128 (length bs) @ bs"

text \<open>
  \<open>AttestationRecordReader\<close>: the data, the position and the fields read so far. A method is a
  function of the state; \<open>field\<close> stops the chain of \<open>&&\<close> where a value is \<open>null\<close>, after the
  reads that made it have moved the position.
\<close>

record record_reader =
  reader_data :: bytes
  reader_at :: nat
  reader_fields :: "(string \<times> bytes) list"

type_synonym value_read = "record_reader \<Rightarrow> bytes option \<times> record_reader"

definition takeBytes :: "nat \<Rightarrow> value_read" where
  "takeBytes len r =
     (if reader_at r + len > length (reader_data r) then (None, r)
      else (Some (slice (reader_at r) (reader_at r + len) (reader_data r)),
            r\<lparr>reader_at := reader_at r + len\<rparr>))"

definition flag :: value_read where
  "flag r = (let (b, r') = takeBytes 1 r in
     case b of None \<Rightarrow> (None, r') | Some bs \<Rightarrow> (if byteAt bs 0 > 1 then None else Some bs, r'))"

definition shortValue :: value_read where
  "shortValue r = (let (len, r') = takeBytes 1 r in
     case len of
       None \<Rightarrow> (None, r')
     | Some l \<Rightarrow> (let (b, r'') = takeBytes (byteAt l 0) r' in (map_option bcsByteVector b, r'')))"

definition longValue :: value_read where
  "longValue r = (let (len, r') = takeBytes 2 r in
     case len of
       None \<Rightarrow> (None, r')
     | Some l \<Rightarrow> (let (b, r'') = takeBytes (byteAt l 0 + 256 * byteAt l 1) r' in (map_option bcsByteVector b, r'')))"

definition optionValue :: "value_read \<Rightarrow> value_read" where
  "optionValue readValue r = (let (tag, r') = flag r in
     case tag of
       None \<Rightarrow> (None, r')
     | Some t \<Rightarrow>
         if byteAt t 0 = 0 then (Some t, r')
         else (let (b, r'') = readValue r' in (map_option (\<lambda>v. 1 # v) b, r'')))"

definition fieldOf :: "string \<Rightarrow> value_read \<Rightarrow> record_reader \<Rightarrow> record_reader option" where
  "fieldOf name readValue r = (let (b, r') = readValue r in
     case b of None \<Rightarrow> None | Some v \<Rightarrow> Some (r'\<lparr>reader_fields := reader_fields r' @ [(name, v)]\<rparr>))"

text \<open>\<open>record.field(...) && record.field(...) && ...\<close>.\<close>

fun readFields :: "(string \<times> value_read) list \<Rightarrow> record_reader \<Rightarrow> record_reader option" where
  "readFields [] r = Some r"
| "readFields ((name, readValue) # rest) r =
     (case fieldOf name readValue r of None \<Rightarrow> None | Some r' \<Rightarrow> readFields rest r')"

definition finished :: "record_reader \<Rightarrow> bool" where
  "finished r \<longleftrightarrow> reader_at r = length (reader_data r)"

definition laidOutBytes :: "record_reader \<Rightarrow> bytes" where
  "laidOutBytes r = concat (map snd (reader_fields r))"

record attestation_account =
  aa_attestationData :: bytes
  aa_attestationVersion :: int
  aa_networkSignature :: bytes
  aa_signerNoaPublicKey :: bytes
  aa_attestationProof :: bytes
  aa_fields :: "(string \<times> bytes) list"
  aa_bump :: nat

text \<open>The record a check takes from an account that was read: \<open>AttestationAccount\<close> extends it.\<close>

definition recordOfAccount :: "attestation_account \<Rightarrow> attestation_record" where
  "recordOfAccount a =
     \<lparr>attestationData = aa_attestationData a, attestationVersion = aa_attestationVersion a,
      networkSignature = aa_networkSignature a, signerNoaPublicKey = aa_signerNoaPublicKey a\<rparr>"

text \<open>The decoded fields, \<open>None\<close> where the parse throws or gives no \<open>V1\<close>.\<close>

definition decodedFields :: "'v versioned bcs_type \<Rightarrow> bytes \<Rightarrow> 'v option" where
  "decodedFields type bs = (case parse type bs of None \<Rightarrow> None | Some (V1 v) \<Rightarrow> Some v)"

definition versionField :: "int \<Rightarrow> string \<times> value_read" where
  "versionField version = (''version'', \<lambda>r. (Some [word_of_int version], r))"

definition readAttestationAccount ::
    "sdk_lib \<Rightarrow> bytes \<Rightarrow> (string \<times> value_read) list \<Rightarrow> (int \<Rightarrow> bytes \<Rightarrow> sdk_error + bytes option)
      \<Rightarrow> sdk_error + attestation_account option" where
  "readAttestationAccount L bs layout rebuild =
     bindE (accountEntry ''DWalletAttestation'') (\<lambda>e.
       if length bs < (case header_len e of None \<Rightarrow> ATTESTATION_FIELDS | Some n \<Rightarrow> n) \<or>
          byteAt bs header_discriminator_offset \<noteq> discriminator e
       then Inr None
       else
         let attestationProof = slice ATTESTATION_PROOF ATTESTATION_FIELDS bs in
         bindE (decodeAttestationProof L attestationProof) (\<lambda>proof.
           case readFields (versionField (proofVersion proof) # layout)
                  \<lparr>reader_data = bs, reader_at = ATTESTATION_FIELDS, reader_fields = []\<rparr> of
             None \<Rightarrow> Inr None
           | Some r \<Rightarrow>
               if \<not> finished r then Inr None
               else
                 bindE (rebuild (proofVersion proof) (laidOutBytes r)) (\<lambda>data.
                   case data of
                     None \<Rightarrow> Inr None
                   | Some d \<Rightarrow>
                       Inr (Some \<lparr>aa_attestationData = d, aa_attestationVersion = proofVersion proof,
                                  aa_networkSignature = proofSignature proof,
                                  aa_signerNoaPublicKey = proofSigner proof,
                                  aa_attestationProof = attestationProof, aa_fields = reader_fields r,
                                  aa_bump = byteAt bs ATTESTATION_BUMP\<rparr>))))"

definition dwalletLayout :: "(string \<times> value_read) list" where
  "dwalletLayout =
     [(''session_identifier'', takeBytes 32), (''intended_chain_sender'', shortValue),
      (''curve'', takeBytes 1), (''public_key'', shortValue), (''public_output'', longValue),
      (''is_imported_key'', flag), (''sign_during_dkg_signature'', optionValue longValue),
      (''holder'', optionValue (takeBytes 33)), (''encryption_key_hash'', optionValue (takeBytes 32)),
      (''encrypted_share_hash'', optionValue (takeBytes 32)), (''epoch'', takeBytes 8)]"

definition readDWalletAttestationUnverified :: "sdk_lib \<Rightarrow> bytes \<Rightarrow> sdk_error + attestation_account option" where
  "readDWalletAttestationUnverified L bs =
     readAttestationAccount L bs dwalletLayout (\<lambda>version laidOut.
       case decodedFields (dwalletBcs L) laidOut of
         None \<Rightarrow> Inr None
       | Some v \<Rightarrow> bindE (rebuildDWalletAttestation L version v) (\<lambda>b. Inr (Some b)))"

definition encryptedShareLayout :: "(string \<times> value_read) list" where
  "encryptedShareLayout =
     [(''session_identifier'', takeBytes 32), (''intended_chain_sender'', shortValue),
      (''dwallet_public_key'', shortValue), (''encrypted_share_hash'', takeBytes 32),
      (''encryption_key_hash'', takeBytes 32), (''holder'', takeBytes 33),
      (''dwallet_attestation_digest'', takeBytes 32)]"

definition readEncryptedShareAttestationUnverified ::
    "sdk_lib \<Rightarrow> bytes \<Rightarrow> sdk_error + attestation_account option" where
  "readEncryptedShareAttestationUnverified L bs =
     readAttestationAccount L bs encryptedShareLayout (\<lambda>version laidOut.
       case decodedFields (encryptedShareBcs L) laidOut of
         None \<Rightarrow> Inr None
       | Some v \<Rightarrow> bindE (rebuildEncryptedShareAttestation L version v) (\<lambda>b. Inr (Some b)))"

definition publicShareLayout :: "(string \<times> value_read) list" where
  "publicShareLayout =
     [(''session_identifier'', takeBytes 32), (''intended_chain_sender'', shortValue),
      (''dwallet_public_key'', shortValue), (''public_user_secret_key_share'', longValue),
      (''dwallet_attestation_digest'', takeBytes 32)]"

definition readPublicShareAttestationUnverified ::
    "sdk_lib \<Rightarrow> bytes \<Rightarrow> sdk_error + attestation_account option" where
  "readPublicShareAttestationUnverified L bs =
     readAttestationAccount L bs publicShareLayout (\<lambda>version laidOut.
       case decodedFields (publicShareBcs L) laidOut of
         None \<Rightarrow> Inr None
       | Some v \<Rightarrow> bindE (rebuildPublicShareAttestation L version v) (\<lambda>b. Inr (Some b)))"

definition partialSignatureLayout :: "(string \<times> value_read) list" where
  "partialSignatureLayout =
     [(''session_identifier'', takeBytes 32), (''intended_chain_sender'', shortValue),
      (''dwallet_public_key'', shortValue), (''dwallet_attestation_hash'', takeBytes 32),
      (''future_signature_voucher'', takeBytes 32), (''presign_session_identifier'', shortValue),
      (''presign_attestation_hash'', takeBytes 32), (''message_digest'', takeBytes 32),
      (''message_metadata_digest'', takeBytes 32), (''signature_scheme'', takeBytes 1),
      (''verified_sign_data'', longValue)]"

definition partialSignatureAttestationFields ::
    "sdk_lib \<Rightarrow> future_voucher \<Rightarrow> int \<Rightarrow> partial_signature_attestation option" where
  "partialSignatureAttestationFields L voucher version =
     (if \<not> fv_hasPartialSignature voucher then None
      else
        case readFields (versionField version # partialSignatureLayout)
               \<lparr>reader_data = fv_attestation voucher, reader_at = 0, reader_fields = []\<rparr> of
          None \<Rightarrow> None
        | Some r \<Rightarrow> if \<not> finished r then None else decodedFields (partialSignatureBcs L) (laidOutBytes r))"

end
