(* ===== verification/Reader_Laws.thy ===== *)
theory Reader_Laws
  imports Accounts
begin

text \<open>
  What the account readers promise: a reader of a fixed-length account never throws and reads
  nothing past the account's length, a verified voucher's signature is checked before it is
  returned, and an attestation account's fields are read back from the layout the program stores
  them in, one account for one list of values.
\<close>

section \<open>The table's lengths\<close>

lemma wire_account_lengths [simp]:
  "accountDataLen ''DWalletCoordinator'' = Inr 631" "accountDiscriminator ''DWalletCoordinator'' = Inr 96"
  "accountDataLen ''DWallet'' = Inr 185" "accountDiscriminator ''DWallet'' = Inr 97"
  "accountDataLen ''NetworkEncryptionKey'' = Inr 199" "accountDiscriminator ''NetworkEncryptionKey'' = Inr 98"
  "accountDataLen ''GasDeposit'' = Inr 179" "accountDiscriminator ''GasDeposit'' = Inr 99"
  "accountDataLen ''NetworkReconfigurationOutput'' = Inr 182"
  "accountDiscriminator ''NetworkReconfigurationOutput'' = Inr 102"
  "accountDataLen ''SignatureVoucher'' = Inr 304" "accountDiscriminator ''SignatureVoucher'' = Inr 108"
  "accountDataLen ''FutureSignatureVoucher'' = Inr 1941" "accountDiscriminator ''FutureSignatureVoucher'' = Inr 109"
  by (simp_all add: accountDataLen_def accountDiscriminator_def accountEntry_def look_def
      wire_accounts_def account_def result_simps)

section \<open>Reads inside the account\<close>

lemma byteAt_take: "i < n \<Longrightarrow> byteAt (take n bs) i = byteAt bs i"
  by (simp add: byteAt_def)

lemma slice_take: "b \<le> n \<Longrightarrow> slice a b (take n bs) = slice a b bs"
  by (simp add: slice_def drop_take min_def)

lemma readU16_take: "i + 1 < n \<Longrightarrow> readU16 (take n bs) i = readU16 bs i"
  by (simp add: readU16_def byteAt_take)

lemma readU64_take: "i + 8 \<le> n \<Longrightarrow> n \<le> length bs \<Longrightarrow> readU64 (take n bs) i = readU64 bs i"
  by (simp add: readU64_def slice_take)

lemma getUint32LE_take: "i + 4 \<le> n \<Longrightarrow> n \<le> length bs \<Longrightarrow> getUint32LE (take n bs) i = getUint32LE bs i"
  by (simp add: getUint32LE_def slice_take)

lemma readU64_inside: "i + 8 \<le> length bs \<Longrightarrow> readU64 bs i = Inr (le_value (slice i (i + 8) bs))"
  and getUint32LE_inside: "i + 4 \<le> length bs \<Longrightarrow> getUint32LE bs i = Inr (le_value (slice i (i + 4) bs))"
  by (simp_all add: readU64_def getUint32LE_def)

lemma readRecordProof_take: "i + 99 \<le> n \<Longrightarrow> readRecordProof (take n bs) i = readRecordProof bs i"
  by (simp add: readRecordProof_def RECORD_PROOF_SLOT_LEN_def byteAt_take Let_def slice_take)

text \<open>The contract of a fixed-length account's reader, for every account data.\<close>

definition reads_account :: "(bytes \<Rightarrow> sdk_error + 'a option) \<Rightarrow> nat \<Rightarrow> nat \<Rightarrow> bool" where
  "reads_account read len disc \<longleftrightarrow>
     (\<forall>bs. (\<exists>r. read bs = Inr r \<and> (r = None \<longleftrightarrow> length bs < len \<or> byteAt bs 0 \<noteq> disc)) \<and>
           (len \<le> length bs \<longrightarrow> (\<forall>extra. read (bs @ extra) = read bs)))"

text \<open>The interface of a fixed-length account's reader.\<close>

locale account_reader =
  fixes read :: "bytes \<Rightarrow> sdk_error + 'a option" and len disc :: nat
  assumes accepts: "len \<le> length bs \<Longrightarrow> byteAt bs 0 = disc \<Longrightarrow> \<exists>x. read bs = Inr (Some x)"
    and refuses: "\<not> (len \<le> length bs \<and> byteAt bs 0 = disc) \<Longrightarrow> read bs = Inr None"
    and inside: "len \<le> length bs \<Longrightarrow> read (take len bs) = read bs"
begin

lemma never_throws: "\<exists>r. read bs = Inr r \<and> (r = None \<longleftrightarrow> length bs < len \<or> byteAt bs 0 \<noteq> disc)"
  using accepts [of bs] refuses [of bs] by (cases "len \<le> length bs \<and> byteAt bs 0 = disc") auto

lemma ignores_extra: "len \<le> length bs \<Longrightarrow> read (bs @ extra) = read bs"
  using inside [of bs] inside [of "bs @ extra"] by simp

lemma reads: "reads_account read len disc"
  unfolding reads_account_def by (auto intro: never_throws ignores_extra)

end

lemmas reader_simps =
  ofAccount_def isAccount_def header_discriminator_offset_def returned_def Let_def result_simps
  readU64_inside getUint32LE_inside readU64_take getUint32LE_take byteAt_take readU16_take slice_take
  readRecordProof_take

interpretation coordinator_reader: account_reader readDWalletCoordinator 631 96
  by unfold_locales (auto simp: readDWalletCoordinator_def reader_simps)

interpretation dwallet_reader: account_reader readDWallet 185 97
  by unfold_locales (auto simp: readDWallet_def reader_simps)

interpretation network_key_reader: account_reader readNetworkEncryptionKey 199 98
  by unfold_locales (auto simp: readNetworkEncryptionKey_def reader_simps)

interpretation reconfiguration_reader: account_reader readNetworkReconfigurationOutput 182 102
  by unfold_locales (auto simp: readNetworkReconfigurationOutput_def reader_simps)

interpretation gas_deposit_reader: account_reader readGasDeposit 179 99
  by unfold_locales (auto simp: readGasDeposit_def reader_simps)

interpretation voucher_reader: account_reader readSignatureVoucherUnverified 304 108
  by unfold_locales (auto simp: readSignatureVoucherUnverified_def reader_simps)

interpretation future_voucher_reader: account_reader readFutureSignatureVoucherUnverified 1941 109
  by unfold_locales (auto simp: readFutureSignatureVoucherUnverified_def reader_simps)


text \<open>
  Every reader of a fixed-length account returns for every data, never throwing: an account
  exactly when the data has the wire table's length and discriminator, and what it reads lies
  within that length, so bytes past it change nothing.
\<close>

theorem fixed_readers_total:
  "reads_account readDWalletCoordinator 631 96 \<and> reads_account readDWallet 185 97 \<and>
   reads_account readNetworkEncryptionKey 199 98 \<and> reads_account readNetworkReconfigurationOutput 182 102 \<and>
   reads_account readGasDeposit 179 99 \<and> reads_account readSignatureVoucherUnverified 304 108 \<and>
   reads_account readFutureSignatureVoucherUnverified 1941 109"
  by (simp add: coordinator_reader.reads dwallet_reader.reads network_key_reader.reads
      reconfiguration_reader.reads gas_deposit_reader.reads voucher_reader.reads future_voucher_reader.reads)

section \<open>Verified vouchers\<close>

text \<open>The voucher is for the approval asked for: its dWallet, its digests and its scheme.\<close>

definition voucher_for :: "hash \<Rightarrow> expected_voucher \<Rightarrow> 'v signature_voucher_scheme \<Rightarrow> bool" where
  "voucher_for keccak expected voucher \<longleftrightarrow>
     vo_dwallet voucher = ev_dwalletAddress expected \<and>
     vo_messageDigest voucher = keccak (ev_message expected) \<and>
     vo_messageMetadataDigest voucher =
       (if ev_messageMetadata expected = [] then replicate 32 0 else keccak (ev_messageMetadata expected)) \<and>
     vo_signatureScheme voucher = ev_signatureScheme expected"

lemma voucherSignatureVerified_Inr [result_simps]:
  "voucherSignatureVerified keccak voucher expected verify = Inr sig \<longleftrightarrow>
     voucher_for keccak expected voucher \<and> sig = vo_signature voucher \<and>
     (sig = [] \<or> verify sig = Inr ())"
  by (auto simp: voucherSignatureVerified_def voucher_for_def approvalMessageDigests_def Let_def
      result_simps split: if_splits)

text \<open>
  The verified reads of the two vouchers return a voucher exactly when the account holds it,
  it is for the dWallet, the message, the metadata and the scheme asked for, and its signature,
  where it has one, is one the caller's verifier accepts; the voucher returned is the account's.
\<close>

theorem verified_voucher_iff:
  "(readSignatureVoucherVerified keccak bs expected verify = Inr (Some v) \<longleftrightarrow>
      readSignatureVoucherUnverified bs = Inr (Some v) \<and> voucher_for keccak expected v \<and>
      (vo_signature v = [] \<or> verify (vo_signature v) = Inr ())) \<and>
   (readFutureSignatureVoucherVerified keccak bs expected verify = Inr (Some w) \<longleftrightarrow>
      readFutureSignatureVoucherUnverified bs = Inr (Some w) \<and> voucher_for keccak expected w \<and>
      (vo_signature w = [] \<or> verify (vo_signature w) = Inr ()))"
  by (auto simp: readSignatureVoucherVerified_def readFutureSignatureVoucherVerified_def result_simps
      split: option.splits)

section \<open>The layout of an attestation account\<close>

text \<open>
  How the program stores a field and what BCS makes of it: the specification the reader's methods
  are checked against.
\<close>

datatype value_layout = FixedBytes nat | FlagByte | ShortBytes | LongBytes | OptionOf value_layout

datatype laid_value = Plain bytes | Absent | Present laid_value

fun readOf :: "value_layout \<Rightarrow> value_read" where
  "readOf (FixedBytes n) = takeBytes n"
| "readOf FlagByte = flag"
| "readOf ShortBytes = shortValue"
| "readOf LongBytes = longValue"
| "readOf (OptionOf l) = optionValue (readOf l)"

fun fits :: "value_layout \<Rightarrow> laid_value \<Rightarrow> bool" where
  "fits (FixedBytes n) v = (case v of Plain b \<Rightarrow> length b = n | _ \<Rightarrow> False)"
| "fits FlagByte v = (v = Plain [0] \<or> v = Plain [1])"
| "fits ShortBytes v = (case v of Plain b \<Rightarrow> length b < 256 | _ \<Rightarrow> False)"
| "fits LongBytes v = (case v of Plain b \<Rightarrow> length b < 65536 | _ \<Rightarrow> False)"
| "fits (OptionOf l) v = (case v of Plain b \<Rightarrow> False | Absent \<Rightarrow> True | Present w \<Rightarrow> fits l w)"

fun stored :: "value_layout \<Rightarrow> laid_value \<Rightarrow> bytes" where
  "stored ShortBytes (Plain b) = le_bytes 1 (int (length b)) @ b"
| "stored LongBytes (Plain b) = le_bytes 2 (int (length b)) @ b"
| "stored (OptionOf l) (Present v) = 1 # stored l v"
| "stored l (Plain b) = b"
| "stored l v = [0]"

fun bcsBytes :: "value_layout \<Rightarrow> laid_value \<Rightarrow> bytes" where
  "bcsBytes ShortBytes (Plain b) = bcsByteVector b"
| "bcsBytes LongBytes (Plain b) = bcsByteVector b"
| "bcsBytes (OptionOf l) (Present v) = 1 # bcsBytes l v"
| "bcsBytes l (Plain b) = b"
| "bcsBytes l v = [0]"

lemma takeBytes_Some:
  "takeBytes n r = (Some b, r') \<longleftrightarrow>
     reader_at r + n \<le> length (reader_data r) \<and> b = slice (reader_at r) (reader_at r + n) (reader_data r) \<and>
     r' = r\<lparr>reader_at := reader_at r + n\<rparr>"
  by (auto simp: takeBytes_def)

text \<open>\<open>bytes_here r b\<close>: the data goes on with \<open>b\<close> at the reader's position.\<close>

definition bytes_here :: "record_reader \<Rightarrow> bytes \<Rightarrow> bool" where
  "bytes_here r b \<longleftrightarrow>
     reader_at r + length b \<le> length (reader_data r) \<and>
     take (length b) (drop (reader_at r) (reader_data r)) = b"

definition advance :: "nat \<Rightarrow> record_reader \<Rightarrow> record_reader" where
  "advance n r = r\<lparr>reader_at := reader_at r + n\<rparr>"

lemma advance_simps [simp]:
  "advance m (advance n r) = advance (n + m) r" "reader_data (advance n r) = reader_data r"
  "reader_fields (advance n r) = reader_fields r" "reader_at (advance n r) = reader_at r + n"
  by (simp_all add: advance_def)

lemma bytes_here_append [simp]:
  "bytes_here r (a @ b) \<longleftrightarrow> bytes_here r a \<and> bytes_here (advance (length a) r) b"
  by (auto simp: bytes_here_def take_add add.commute add.left_commute)

lemma takeBytes_here: "takeBytes n r = (Some b, r') \<longleftrightarrow> length b = n \<and> bytes_here r b \<and> r' = advance n r"
  by (auto simp: takeBytes_Some bytes_here_def slice_def advance_def)

lemma single_byte: "length b = 1 \<longleftrightarrow> (\<exists>x. b = [x])"
  by (auto simp: length_Suc_conv)

lemma le_bytes_small: "le_bytes (Suc 0) (int n) = [word_of_nat n]" 
  "le_bytes 2 (int n) = [word_of_nat n, word_of_nat (n div 256)]"
proof -
  show "le_bytes (Suc 0) (int n) = [word_of_nat n]" by simp
  have "int n div 256 = int (n div 256)" by (simp add: zdiv_int)
  then have "le_bytes (Suc (Suc 0)) (int n) = [word_of_nat n, word_of_nat (n div 256)]"
    by (simp only: le_bytes.simps of_int_of_nat_eq)
  then show "le_bytes 2 (int n) = [word_of_nat n, word_of_nat (n div 256)]"
    by (simp add: numeral_2_eq_2)
qed

lemma short_length: "n < 256 \<Longrightarrow> byteAt (le_bytes 1 (int n)) 0 = n"
  by (simp add: byteAt_def unsigned_of_nat take_bit_nat_eq_self)

lemma short_length_ex: "length b = 1 \<Longrightarrow> \<exists>n<256. b = le_bytes 1 (int n) \<and> byteAt b 0 = n"
proof -
  assume "length b = 1"
  then obtain x where b: "b = [x]" unfolding single_byte by blast
  have "unat x < 256" by (rule unat_byte_less)
  then show ?thesis using b by (intro exI [of _ "unat x"]) (simp add: byteAt_def)
qed

lemma long_length: 
  "n < 65536 \<Longrightarrow> byteAt (le_bytes 2 (int n)) 0 + 256 * byteAt (le_bytes 2 (int n)) 1 = n"
  by (simp add: le_bytes_small byteAt_def unsigned_of_nat take_bit_eq_mod)

lemma long_length_ex:
  assumes "length b = 2"
  shows "\<exists>n<65536. b = le_bytes 2 (int n) \<and> byteAt b 0 + 256 * byteAt b 1 = n"
proof -
  obtain x y where b: "b = [x, y]" using assms by (cases b; cases "tl b") auto
  have "unat x < 256" "unat y < 256" by (rule unat_byte_less)+
  moreover have "le_bytes 2 (le_value b) = b" using le_bytes_value [of b] assms by simp
  moreover have "le_value b = int (unat x + 256 * unat y)" by (simp add: b)
  ultimately show ?thesis using b by (intro exI [of _ "unat x + 256 * unat y"]) (simp add: byteAt_def)
qed

lemma flag_here: "flag r = (Some b, r') \<longleftrightarrow> (b = [0] \<or> b = [1]) \<and> bytes_here r b \<and> r' = advance 1 r"
proof -
  have small: "byteAt [x] 0 > 1 \<longleftrightarrow> [x] \<noteq> [0] \<and> [x] \<noteq> [1]" for x
    unfolding list.inject word_unat_eq_iff byteAt_def by auto
  have take: "takeBytes 1 r = (Some b, r') \<longleftrightarrow> (\<exists>x. b = [x]) \<and> bytes_here r b \<and> r' = advance 1 r"
    unfolding takeBytes_here single_byte ..
  have "flag r = (Some b, r') \<longleftrightarrow> takeBytes 1 r = (Some b, r') \<and> \<not> byteAt b 0 > 1"
    by (cases "takeBytes 1 r") (auto simp: flag_def split: option.splits)
  then show ?thesis unfolding take using small by auto
qed

lemma shortValue_here:
  "shortValue r = (Some b, r') \<longleftrightarrow>
     (\<exists>v. length v < 256 \<and> b = bcsByteVector v \<and> bytes_here r (le_bytes 1 (int (length v)) @ v) \<and>
        r' = advance (1 + length v) r)" (is "_ \<longleftrightarrow> ?R")
proof -
  have "shortValue r = (Some b, r') \<longleftrightarrow>
      (\<exists>l r1 v. takeBytes 1 r = (Some l, r1) \<and> takeBytes (byteAt l 0) r1 = (Some v, r') \<and> b = bcsByteVector v)"
    by (cases "takeBytes 1 r") (auto simp: shortValue_def split: option.splits prod.splits)
  also have "\<dots> \<longleftrightarrow> ?R"
  proof
    assume "\<exists>l r1 v. takeBytes 1 r = (Some l, r1) \<and> takeBytes (byteAt l 0) r1 = (Some v, r') \<and> b = bcsByteVector v"
    then obtain l r1 v where "length l = 1" "bytes_here r l" "r1 = advance 1 r"
      "length v = byteAt l 0" "bytes_here r1 v" "r' = advance (length v) r1" "b = bcsByteVector v"
      by (auto simp: takeBytes_here)
    with short_length_ex [of l] show ?R by (intro exI [of _ v]) auto
  next
    assume ?R
    then obtain v where "length v < 256" "b = bcsByteVector v"
      "bytes_here r (le_bytes 1 (int (length v)) @ v)" "r' = advance (1 + length v) r" by blast
    then show "\<exists>l r1 v. takeBytes 1 r = (Some l, r1) \<and> takeBytes (byteAt l 0) r1 = (Some v, r') \<and> b = bcsByteVector v"
      using short_length [of "length v"]
      by (intro exI [of _ "advance 1 r"] exI [of _ v] exI [where P = "\<lambda>l. \<exists>r1 v. P l r1 v" and x = "le_bytes 1 (int (length v))" for P])
        (simp add: takeBytes_here del: le_bytes.simps One_nat_def)
  qed
  finally show ?thesis .
qed

lemma longValue_here:
  "longValue r = (Some b, r') \<longleftrightarrow>
     (\<exists>v. length v < 65536 \<and> b = bcsByteVector v \<and> bytes_here r (le_bytes 2 (int (length v)) @ v) \<and>
        r' = advance (2 + length v) r)" (is "_ \<longleftrightarrow> ?R")
proof -
  have "longValue r = (Some b, r') \<longleftrightarrow>
      (\<exists>l r1 v. takeBytes 2 r = (Some l, r1) \<and> takeBytes (byteAt l 0 + 256 * byteAt l 1) r1 = (Some v, r') \<and>
         b = bcsByteVector v)"
    by (cases "takeBytes 2 r") (auto simp: longValue_def split: option.splits prod.splits)
  also have "\<dots> \<longleftrightarrow> ?R"
  proof
    assume "\<exists>l r1 v. takeBytes 2 r = (Some l, r1) \<and>
      takeBytes (byteAt l 0 + 256 * byteAt l 1) r1 = (Some v, r') \<and> b = bcsByteVector v"
    then obtain l r1 v where "length l = 2" "bytes_here r l" "r1 = advance 2 r"
      "length v = byteAt l 0 + 256 * byteAt l 1" "bytes_here r1 v" "r' = advance (length v) r1" "b = bcsByteVector v"
      by (auto simp: takeBytes_here)
    with long_length_ex [of l] show ?R by (intro exI [of _ v]) auto
  next
    assume ?R
    then obtain v where "length v < 65536" "b = bcsByteVector v"
      "bytes_here r (le_bytes 2 (int (length v)) @ v)" "r' = advance (2 + length v) r" by blast
    then show "\<exists>l r1 v. takeBytes 2 r = (Some l, r1) \<and>
      takeBytes (byteAt l 0 + 256 * byteAt l 1) r1 = (Some v, r') \<and> b = bcsByteVector v"
      using long_length [of "length v"]
      by (intro exI [of _ "le_bytes 2 (int (length v))"] exI [of _ "advance 2 r"] exI [of _ v])
        (simp add: takeBytes_here)
  qed
  finally show ?thesis .
qed

lemma optionValue_here:
  "optionValue read r = (Some b, r') \<longleftrightarrow>
     b = [0] \<and> bytes_here r [0] \<and> r' = advance 1 r \<or>
     (\<exists>c. b = 1 # c \<and> bytes_here r [1] \<and> read (advance 1 r) = (Some c, r'))"
proof -
  have "optionValue read r = (Some b, r') \<longleftrightarrow>
      (\<exists>t r1. flag r = (Some t, r1) \<and>
        (if byteAt t 0 = 0 then b = t \<and> r' = r1 else \<exists>c. b = 1 # c \<and> read r1 = (Some c, r')))"
    by (cases "flag r") (auto simp: optionValue_def split: option.splits prod.splits if_splits)
  moreover have "byteAt [0] 0 = 0" "byteAt [1] 0 \<noteq> 0" by (simp_all add: byteAt_def)
  ultimately show ?thesis unfolding flag_here by metis
qed

lemma ex_laid: "(\<exists>v. P v) \<longleftrightarrow> (\<exists>b. P (Plain b)) \<or> P Absent \<or> (\<exists>w. P (Present w))"
  by (metis laid_value.exhaust)

lemma readOf_here:
  "readOf l r = (Some b, r') \<longleftrightarrow>
     (\<exists>v. fits l v \<and> b = bcsBytes l v \<and> bytes_here r (stored l v) \<and> r' = advance (length (stored l v)) r)"
proof (induction l arbitrary: r b)
  case (FixedBytes n)
  show ?case by (auto simp: takeBytes_here ex_laid)
next
  case FlagByte
  show ?case by (auto simp: flag_here ex_laid)
next
  case ShortBytes
  show ?case by (simp add: shortValue_here ex_laid)
next
  case LongBytes
  show ?case by (simp add: longValue_here ex_laid)
next
  case (OptionOf l)
  have one: "bytes_here r (1 # stored l v) \<longleftrightarrow> bytes_here r [1] \<and> bytes_here (advance 1 r) (stored l v)" for v
    using bytes_here_append [of r "[1]" "stored l v"] by simp
  have "readOf (OptionOf l) r = (Some b, r') \<longleftrightarrow>
     b = [0] \<and> bytes_here r [0] \<and> r' = advance 1 r \<or>
     (\<exists>v. b = 1 # bcsBytes l v \<and> fits l v \<and> bytes_here r (1 # stored l v) \<and>
        r' = advance (1 + length (stored l v)) r)"
    unfolding readOf.simps optionValue_here OptionOf one by auto
  moreover have "(\<exists>v. fits (OptionOf l) v \<and> P v) \<longleftrightarrow> P Absent \<or> (\<exists>v. fits l v \<and> P (Present v))" for P
  proof
    assume "\<exists>v. fits (OptionOf l) v \<and> P v"
    then obtain v where "fits (OptionOf l) v" "P v" by blast
    then show "P Absent \<or> (\<exists>v. fits l v \<and> P (Present v))" by (cases v) auto
  next
    assume "P Absent \<or> (\<exists>v. fits l v \<and> P (Present v))"
    then show "\<exists>v. fits (OptionOf l) v \<and> P v" by (metis fits.simps(5) laid_value.case(2,3))
  qed
  ultimately show ?case by auto
qed

text \<open>A whole layout: named fields, one after the other.\<close>

type_synonym fields_layout = "(string \<times> value_layout) list"

definition fieldReads :: "fields_layout \<Rightarrow> (string \<times> value_read) list" where
  "fieldReads layout = map (\<lambda>(n, l). (n, readOf l)) layout"

fun fieldsFit :: "fields_layout \<Rightarrow> laid_value list \<Rightarrow> bool" where
  "fieldsFit [] vs = (vs = [])"
| "fieldsFit ((n, l) # rest) vs = (case vs of [] \<Rightarrow> False | v # ws \<Rightarrow> fits l v \<and> fieldsFit rest ws)"

fun storedFields :: "fields_layout \<Rightarrow> laid_value list \<Rightarrow> bytes" where
  "storedFields ((n, l) # rest) (v # vs) = stored l v @ storedFields rest vs"
| "storedFields layout vs = []"

fun bcsFields :: "fields_layout \<Rightarrow> laid_value list \<Rightarrow> (string \<times> bytes) list" where
  "bcsFields ((n, l) # rest) (v # vs) = (n, bcsBytes l v) # bcsFields rest vs"
| "bcsFields layout vs = []"

definition addFields :: "(string \<times> bytes) list \<Rightarrow> record_reader \<Rightarrow> record_reader" where
  "addFields fs r = r\<lparr>reader_fields := reader_fields r @ fs\<rparr>"

lemma addFields_simps [simp]:
  "reader_data (addFields fs r) = reader_data r" "reader_at (addFields fs r) = reader_at r"
  "reader_fields (addFields fs r) = reader_fields r @ fs"
  "advance n (addFields fs r) = addFields fs (advance n r)"
  "addFields gs (addFields fs r) = addFields (fs @ gs) r" "addFields [] r = r"
  by (simp_all add: addFields_def advance_def)

lemma bytes_here_addFields [simp]: "bytes_here (addFields fs r) b = bytes_here r b"
  by (simp add: bytes_here_def)

lemma advance_0 [simp]: "advance 0 r = r"
  by (simp add: advance_def)

lemma fieldOf_here:
  "fieldOf n (readOf l) r = Some r' \<longleftrightarrow>
     (\<exists>v. fits l v \<and> bytes_here r (stored l v) \<and>
        r' = addFields [(n, bcsBytes l v)] (advance (length (stored l v)) r))"
proof -
  have "fieldOf n (readOf l) r = Some r' \<longleftrightarrow>
      (\<exists>b r1. readOf l r = (Some b, r1) \<and> r' = addFields [(n, b)] r1)"
    by (cases "readOf l r") (auto simp: fieldOf_def addFields_def split: option.splits)
  then show ?thesis unfolding readOf_here by blast
qed

lemma readFields_here:
  "reader_at r \<le> length (reader_data r) \<Longrightarrow>
   readFields (fieldReads layout) r = Some r' \<longleftrightarrow>
     (\<exists>vs. fieldsFit layout vs \<and> bytes_here r (storedFields layout vs) \<and>
        r' = addFields (bcsFields layout vs) (advance (length (storedFields layout vs)) r))"
proof (induction layout arbitrary: r)
  case Nil
  then show ?case by (auto simp: fieldReads_def bytes_here_def)
next
  case (Cons nl rest)
  obtain n l where nl: "nl = (n, l)" by (cases nl)
  have step: "readFields (fieldReads rest) (addFields f (advance (length (stored l v)) r)) = Some r' \<longleftrightarrow>
      (\<exists>vs. fieldsFit rest vs \<and> bytes_here (advance (length (stored l v)) r) (storedFields rest vs) \<and>
         r' = addFields (f @ bcsFields rest vs) (advance (length (stored l v @ storedFields rest vs)) r))"
    if "bytes_here r (stored l v)" for f v
    using that by (subst Cons.IH) (auto simp: bytes_here_def)
  have "readFields (fieldReads (nl # rest)) r = Some r' \<longleftrightarrow>
      (\<exists>v. fits l v \<and> bytes_here r (stored l v) \<and>
         readFields (fieldReads rest) (addFields [(n, bcsBytes l v)] (advance (length (stored l v)) r)) = Some r')"
  proof -
    have "readFields (fieldReads (nl # rest)) r = Some r' \<longleftrightarrow>
        (\<exists>r1. fieldOf n (readOf l) r = Some r1 \<and> readFields (fieldReads rest) r1 = Some r')"
      by (simp add: nl fieldReads_def split: option.splits)
    then show ?thesis unfolding fieldOf_here by blast
  qed
  also have "\<dots> \<longleftrightarrow> (\<exists>v vs. fits l v \<and> fieldsFit rest vs \<and> bytes_here r (stored l v @ storedFields rest vs) \<and>
         r' = addFields ((n, bcsBytes l v) # bcsFields rest vs)
                (advance (length (stored l v @ storedFields rest vs)) r))"
    by (simp add: step cong: conj_cong) blast
  also have "\<dots> \<longleftrightarrow> (\<exists>ws. fieldsFit (nl # rest) ws \<and> bytes_here r (storedFields (nl # rest) ws) \<and>
        r' = addFields (bcsFields (nl # rest) ws) (advance (length (storedFields (nl # rest) ws)) r))"
  proof -
    have split: "fieldsFit (nl # rest) ws \<longleftrightarrow> (\<exists>v vs. ws = v # vs \<and> fits l v \<and> fieldsFit rest vs)" for ws
      by (cases ws) (simp_all add: nl)
    have "(\<exists>ws. fieldsFit (nl # rest) ws \<and> P ws) \<longleftrightarrow> (\<exists>v vs. fits l v \<and> fieldsFit rest vs \<and> P (v # vs))" for P
      unfolding split by blast
    then show ?thesis by (simp only: nl storedFields.simps bcsFields.simps)
  qed
  finally show ?case .
qed

text \<open>The fields the program stores in each kind of attestation account.\<close>

definition dwalletFields :: fields_layout where
  "dwalletFields =
     [(''session_identifier'', FixedBytes 32), (''intended_chain_sender'', ShortBytes),
      (''curve'', FixedBytes 1), (''public_key'', ShortBytes), (''public_output'', LongBytes),
      (''is_imported_key'', FlagByte), (''sign_during_dkg_signature'', OptionOf LongBytes),
      (''holder'', OptionOf (FixedBytes 33)), (''encryption_key_hash'', OptionOf (FixedBytes 32)),
      (''encrypted_share_hash'', OptionOf (FixedBytes 32)), (''epoch'', FixedBytes 8)]"

definition encryptedShareFields :: fields_layout where
  "encryptedShareFields =
     [(''session_identifier'', FixedBytes 32), (''intended_chain_sender'', ShortBytes),
      (''dwallet_public_key'', ShortBytes), (''encrypted_share_hash'', FixedBytes 32),
      (''encryption_key_hash'', FixedBytes 32), (''holder'', FixedBytes 33),
      (''dwallet_attestation_digest'', FixedBytes 32)]"

definition publicShareFields :: fields_layout where
  "publicShareFields =
     [(''session_identifier'', FixedBytes 32), (''intended_chain_sender'', ShortBytes),
      (''dwallet_public_key'', ShortBytes), (''public_user_secret_key_share'', LongBytes),
      (''dwallet_attestation_digest'', FixedBytes 32)]"

definition partialSignatureFields :: fields_layout where
  "partialSignatureFields =
     [(''session_identifier'', FixedBytes 32), (''intended_chain_sender'', ShortBytes),
      (''dwallet_public_key'', ShortBytes), (''dwallet_attestation_hash'', FixedBytes 32),
      (''future_signature_voucher'', FixedBytes 32), (''presign_session_identifier'', ShortBytes),
      (''presign_attestation_hash'', FixedBytes 32), (''message_digest'', FixedBytes 32),
      (''message_metadata_digest'', FixedBytes 32), (''signature_scheme'', FixedBytes 1),
      (''verified_sign_data'', LongBytes)]"

lemma layouts_fieldReads:
  "dwalletLayout = fieldReads dwalletFields" "encryptedShareLayout = fieldReads encryptedShareFields"
  "publicShareLayout = fieldReads publicShareFields"
  "partialSignatureLayout = fieldReads partialSignatureFields"
  by (simp_all add: fieldReads_def dwalletLayout_def dwalletFields_def encryptedShareLayout_def
      encryptedShareFields_def publicShareLayout_def publicShareFields_def
      partialSignatureLayout_def partialSignatureFields_def)

definition fieldBytes :: "(string \<times> bytes) list \<Rightarrow> bytes" where
  "fieldBytes fs = concat (map snd fs)"

text \<open>The version byte, and the layout's fields up to the end of the data.\<close>

lemma readFields_finished:
  assumes "start \<le> length bs"
  shows "(\<exists>r. readFields (versionField n # fieldReads layout)
            \<lparr>reader_data = bs, reader_at = start, reader_fields = []\<rparr> = Some r \<and> finished r \<and>
            reader_fields r = fs \<and> laidOutBytes r = laidOut) \<longleftrightarrow>
         (\<exists>vs. fieldsFit layout vs \<and> bs = take start bs @ storedFields layout vs \<and>
            fs = (''version'', [word_of_int n]) # bcsFields layout vs \<and>
            laidOut = fieldBytes fs)" (is "?L \<longleftrightarrow> ?R")
proof -
  let ?r = "addFields [(''version'', [word_of_int n])] \<lparr>reader_data = bs, reader_at = start, reader_fields = []\<rparr>"
  have start: "readFields (versionField n # fieldReads layout)
      \<lparr>reader_data = bs, reader_at = start, reader_fields = []\<rparr> = readFields (fieldReads layout) ?r"
    by (simp add: versionField_def fieldOf_def addFields_def)
  have all: "bytes_here ?r b \<and> start + length b = length bs \<longleftrightarrow> bs = take start bs @ b" for b
  proof -
    have "bs = take start bs @ drop start bs" by simp
    then have "bs = take start bs @ b \<longleftrightarrow> drop start bs = b" by (metis append_same_eq same_append_eq)
    then show ?thesis using assms by (auto simp: bytes_here_def)
  qed
  have "?L \<longleftrightarrow> (\<exists>vs. fieldsFit layout vs \<and> (bytes_here ?r (storedFields layout vs) \<and>
      start + length (storedFields layout vs) = length bs) \<and>
      fs = (''version'', [word_of_int n]) # bcsFields layout vs \<and> laidOut = fieldBytes fs)"
    unfolding start using assms
    by (subst readFields_here) (auto simp: finished_def laidOutBytes_def fieldBytes_def)
  then show ?thesis unfolding all .
qed

lemma decodedFields_Some [result_simps]: "decodedFields type bs = Some v \<longleftrightarrow> parse type bs = Some (V1 v)"
  by (auto simp: decodedFields_def split: option.splits versioned.splits)

lemma decodeAttestationProof_version:
  "decodeAttestationProof L b = Inr p \<Longrightarrow> proofVersion p = 0"
  by (auto simp: decodeAttestationProof_def Let_def result_simps split: option.splits versioned.splits if_splits)

lemma attestation_header [result_simps]:
  "accountEntry ''DWalletAttestation'' = Inr (account 104 1 None (Some 101) True)"
  by (simp add: accountEntry_def look_def wire_accounts_def result_simps)

lemma or_null [result_simps]:
  "(case x of None \<Rightarrow> Inr None | Some y \<Rightarrow> f y) = Inr (Some a) \<longleftrightarrow> (\<exists>y. x = Some y \<and> f y = Inr (Some a))"
  "(if b then Inr None else m) = Inr (Some a) \<longleftrightarrow> \<not> b \<and> m = Inr (Some a)"
  by (auto split: option.splits)

text \<open>
  The account holds the attestation \<open>v\<close>: a header with a well-formed proof, then exactly the
  stored fields of \<open>v\<close> and nothing more; what the reader returns is what serializes \<open>v\<close>, with the
  proof's key and signature.
\<close>

definition holds_attestation ::
    "sdk_lib \<Rightarrow> 'v versioned bcs_type \<Rightarrow> fields_layout \<Rightarrow> bytes \<Rightarrow> attestation_account \<Rightarrow> 'v \<Rightarrow> bool" where
  "holds_attestation L type layout bs a v \<longleftrightarrow>
     101 \<le> length bs \<and> byteAt bs 0 = 104 \<and>
     (\<exists>proof vs. decodeAttestationProof L (slice 3 101 bs) = Inr proof \<and>
        fieldsFit layout vs \<and> bs = take 101 bs @ storedFields layout vs \<and>
        parse type (0 # fieldBytes (bcsFields layout vs)) = Some (V1 v) \<and>
        serialize type (V1 v) = Some (aa_attestationData a) \<and>
        aa_attestationVersion a = 0 \<and> aa_networkSignature a = proofSignature proof \<and>
        aa_signerNoaPublicKey a = proofSigner proof \<and> aa_attestationProof a = slice 3 101 bs \<and>
        aa_fields a = (''version'', [0]) # bcsFields layout vs \<and> aa_bump a = byteAt bs 2)"

lemma readAttestationAccount_Inr:
  assumes rebuild: "\<And>n laidOut d. rebuild n laidOut = Inr (Some d) \<longleftrightarrow>
      (\<exists>v. parse type laidOut = Some (V1 v) \<and> n = 0 \<and> serialize type (V1 v) = Some d)"
  shows "readAttestationAccount L bs (fieldReads layout) rebuild = Inr (Some a) \<longleftrightarrow>
    (\<exists>v. holds_attestation L type layout bs a v)"
proof -
  have "readAttestationAccount L bs (fieldReads layout) rebuild = Inr (Some a) \<longleftrightarrow>
      101 \<le> length bs \<and> byteAt bs 0 = 104 \<and>
      (\<exists>proof r d. decodeAttestationProof L (slice 3 101 bs) = Inr proof \<and>
        readFields (versionField (proofVersion proof) # fieldReads layout)
            \<lparr>reader_data = bs, reader_at = 101, reader_fields = []\<rparr> = Some r \<and> finished r \<and>
        rebuild (proofVersion proof) (laidOutBytes r) = Inr (Some d) \<and>
        a = \<lparr>aa_attestationData = d, aa_attestationVersion = proofVersion proof,
             aa_networkSignature = proofSignature proof, aa_signerNoaPublicKey = proofSigner proof,
             aa_attestationProof = slice 3 101 bs, aa_fields = reader_fields r, aa_bump = byteAt bs 2\<rparr>)"
    by (simp add: readAttestationAccount_def account_def header_discriminator_offset_def
        ATTESTATION_PROOF_def ATTESTATION_FIELDS_def ATTESTATION_BUMP_def Let_def result_simps
        not_less eq_commute [of a] del: readFields.simps) blast
  also have "\<dots> \<longleftrightarrow> 101 \<le> length bs \<and> byteAt bs 0 = 104 \<and>
      (\<exists>proof d fs laidOut. decodeAttestationProof L (slice 3 101 bs) = Inr proof \<and>
        (\<exists>r. readFields (versionField (proofVersion proof) # fieldReads layout)
            \<lparr>reader_data = bs, reader_at = 101, reader_fields = []\<rparr> = Some r \<and> finished r \<and>
            reader_fields r = fs \<and> laidOutBytes r = laidOut) \<and>
        rebuild (proofVersion proof) laidOut = Inr (Some d) \<and>
        a = \<lparr>aa_attestationData = d, aa_attestationVersion = proofVersion proof,
             aa_networkSignature = proofSignature proof, aa_signerNoaPublicKey = proofSigner proof,
             aa_attestationProof = slice 3 101 bs, aa_fields = fs, aa_bump = byteAt bs 2\<rparr>)"
    by blast
  also have "\<dots> \<longleftrightarrow> (\<exists>v. holds_attestation L type layout bs a v)"
  proof (cases "101 \<le> length bs")
    case True
    show ?thesis
      unfolding readFields_finished [OF True] rebuild holds_attestation_def
      using True
      by (cases a) (simp add: fieldBytes_def decodeAttestationProof_version [of L "slice 3 101 bs"] cong: conj_cong, blast)
  qed (simp add: holds_attestation_def)
  finally show ?thesis .
qed

lemma readDWalletAttestation_Inr:
  "readDWalletAttestationUnverified L bs = Inr (Some a) \<longleftrightarrow>
     (\<exists>v. holds_attestation L (dwalletBcs L) dwalletFields bs a v)"
  unfolding readDWalletAttestationUnverified_def layouts_fieldReads
  by (rule readAttestationAccount_Inr)
    (auto simp: rebuildDWalletAttestation_def writeAttestation_def result_simps split: option.splits)

lemma readPublicShareAttestation_Inr:
  "readPublicShareAttestationUnverified L bs = Inr (Some a) \<longleftrightarrow>
     (\<exists>v. holds_attestation L (publicShareBcs L) publicShareFields bs a v)"
  unfolding readPublicShareAttestationUnverified_def layouts_fieldReads
  by (rule readAttestationAccount_Inr)
    (auto simp: rebuildPublicShareAttestation_def writeAttestation_def result_simps split: option.splits)

text \<open>
  The readers of a dWallet's, an encrypted share's and a public share's attestation account
  return an account exactly when its data is a header with a well-formed proof followed by exactly
  one attestation's stored fields; the attestation data returned is that attestation serialized.
\<close>

theorem attestation_readers_iff:
  "(readDWalletAttestationUnverified L bs = Inr (Some a) \<longleftrightarrow>
      (\<exists>v. holds_attestation L (dwalletBcs L) dwalletFields bs a v)) \<and>
   (readEncryptedShareAttestationUnverified L bs = Inr (Some a) \<longleftrightarrow>
      (\<exists>v. holds_attestation L (encryptedShareBcs L) encryptedShareFields bs a v)) \<and>
   (readPublicShareAttestationUnverified L bs = Inr (Some a) \<longleftrightarrow>
      (\<exists>v. holds_attestation L (publicShareBcs L) publicShareFields bs a v))"
  unfolding readEncryptedShareAttestationUnverified_def layouts_fieldReads
  by (intro conjI readDWalletAttestation_Inr readPublicShareAttestation_Inr, rule readAttestationAccount_Inr)
    (auto simp: rebuildEncryptedShareAttestation_def writeAttestation_def result_simps split: option.splits)

section \<open>Byte vectors\<close>

text \<open>The specification: how BCS reads a length, seven bits a byte, the last byte below 128.\<close>

fun ulebDecode :: "bytes \<Rightarrow> (nat \<times> bytes) option" where
  "ulebDecode [] = None"
| "ulebDecode (b # bs) =
     (if unat b < 128 then Some (unat b, bs)
      else map_option (\<lambda>(n, rest). (unat b - 128 + 128 * n, rest)) (ulebDecode bs))"

lemma ulebDecode_uleb128: "ulebDecode (uleb128 n @ rest) = Some (n, rest)"
proof (induction n rule: uleb128.induct)
  case (1 n)
  have w: "unat (word_of_nat m :: byte) = m" if "m < 256" for m
    using that by (simp add: unsigned_of_nat take_bit_nat_eq_self)
  show ?case
  proof (cases "128 \<le> n")
    case True
    have "n mod 128 + 128 < 256" by (simp add: mod_less_divisor [of 128 n, simplified] add.commute less_diff_conv2)
    then show ?thesis using True 1 w [of "n mod 128 + 128"] by (simp add: uleb128.simps [of n])
  next
    case False
    then show ?thesis using w [of n] by (simp add: uleb128.simps [of n])
  qed
qed

text \<open>
  The byte vectors the attestation readers lay out are BCS's: reading a length off the front
  gives the vector's length and leaves its bytes and what follows them.
\<close>

theorem bcsByteVector_roundtrip:
  "ulebDecode (bcsByteVector bs @ rest) = Some (length bs, bs @ rest)"
  by (simp add: bcsByteVector_def ulebDecode_uleb128)

section \<open>A stored attestation that is checked\<close>

lemma held_is_decoded:
  assumes "codec_ok type" "\<exists>w. holds_attestation L type layout bs a w"
    and "signed_record L type kind (recordOfAccount a) trusted v"
  shows "holds_attestation L type layout bs a v"
proof -
  from assms(2) obtain w where h: "holds_attestation L type layout bs a w" by blast
  then have "decodes type (attestationData (recordOfAccount a)) w"
    using decodes_serialize [OF assms(1)] by (auto simp: holds_attestation_def recordOfAccount_def)
  then have "w = v" using assms(3) decodes_unique by (auto simp: signed_record_def)
  with h show ?thesis by simp
qed

text \<open>
  Where a dWallet's attestation account is read and what it gives passes the dWallet's record
  check, the attestation the check returns is the one whose fields the account stores, and a
  trusted key signed exactly those bytes.
\<close>

theorem stored_dwallet_attestation_checked:
  assumes "codec_ok (dwalletBcs L)"
    and "readDWalletAttestationUnverified L bs = Inr (Some a)"
    and "verifyDWalletAttestationRecord L (recordOfAccount a) trusted ex = Inr vd"
  shows "holds_attestation L (dwalletBcs L) dwalletFields bs a (vd_attestation vd) \<and>
    aa_signerNoaPublicKey a \<in> set (publicKeys trusted) \<and>
    ed25519_verify L (aa_networkSignature a)
      (attestationSigningMessage DWalletKind (aa_attestationData a)) (aa_signerNoaPublicKey a) = Some True"
proof -
  have h: "\<exists>v. holds_attestation L (dwalletBcs L) dwalletFields bs a v"
    using assms(2) unfolding readDWalletAttestation_Inr .
  from assms(3) have s: "signed_record L (dwalletBcs L) DWalletKind (recordOfAccount a) trusted (vd_attestation vd)"
    by (auto simp: verifyDWalletAttestationRecord_def verifyDWalletBytes_def verifyAndDecode_Inr result_simps)
  then show ?thesis
    using held_is_decoded [OF assms(1) h s] by (auto simp: signed_record_def recordOfAccount_def)
qed

end
