(* ===== verification/Demo.thy ===== *)
theory Demo
  imports Record_Laws Network_Key_Output Committee_Laws Address_Laws Reader_Laws
begin

text \<open>
  Concrete libraries, chains and accounts, and the properties that have a hypothesis applied to
  them. The codecs know one value each, the hash gives the length of what it hashes, and the
  signature check compares the signature with a constant: each satisfies the documented laws of the
  library it stands for, and every definition of the model computes on them.
\<close>

section \<open>Libraries\<close>

definition oneValue :: "'v \<Rightarrow> bytes \<Rightarrow> 'v bcs_type" where
  "oneValue v b = \<lparr>parse = (\<lambda>x. if x = b then Some v else None), serialize = (\<lambda>w. if w = v then Some b else None)\<rparr>"

lemma oneValue_simps [simp]:
  "parse (oneValue v b) x = (if x = b then Some v else None)"
  "serialize (oneValue v b) w = (if w = v then Some b else None)"
  by (simp_all add: oneValue_def)

lemma codec_ok_oneValue [simp]: "codec_ok (oneValue v b)"
  by (simp add: codec_ok_def)

text \<open>A codec of two values.\<close>

definition twoValues :: "'v \<Rightarrow> bytes \<Rightarrow> 'v \<Rightarrow> bytes \<Rightarrow> 'v bcs_type" where
  "twoValues v b w c =
     \<lparr>parse = (\<lambda>x. if x = b then Some v else if x = c then Some w else None),
      serialize = (\<lambda>u. if u = v then Some b else if u = w then Some c else None)\<rparr>"

lemma twoValues_simps [simp]:
  "parse (twoValues v b w c) x = (if x = b then Some v else if x = c then Some w else None)"
  "serialize (twoValues v b w c) u = (if u = v then Some b else if u = w then Some c else None)"
  by (simp_all add: twoValues_def)

lemma codec_ok_twoValues [simp]: "b \<noteq> c \<Longrightarrow> codec_ok (twoValues v b w c)"
  by (simp add: codec_ok_def)

definition lengthHash :: hash where
  "lengthHash b = replicate 32 (word_of_nat (length b))"

definition theSignature :: bytes where
  "theSignature = replicate 64 1"

definition theKey :: bytes where
  "theKey = replicate 32 7"

definition demoVerify :: ed25519_verify where
  "demoVerify s m k = Some (s = theSignature)"

definition demoHolder :: share_holder where
  "demoHolder = \<lparr>holder_scheme = Scheme_Ed25519, holder_key = [9]\<rparr>"

definition demoDWallet :: dwallet_attestation where
  "demoDWallet =
     \<lparr>dw_session_identifier = [1], dw_intended_chain_sender = [2], dw_curve = Curve_Curve25519,
      dw_public_key = [3], dw_public_output = [4], dw_is_imported_key = True,
      dw_sign_during_dkg_signature = None, dw_holder = Some demoHolder,
      dw_encryption_key_hash = Some [5], dw_encrypted_share_hash = Some [6], dw_epoch = 11\<rparr>"

definition demoPartial :: partial_signature_attestation where
  "demoPartial =
     \<lparr>pu_session_identifier = [1], pu_intended_chain_sender = [2], pu_dwallet_public_key = [3],
      pu_dwallet_attestation_hash = [4], pu_future_signature_voucher = [5],
      pu_presign_session_identifier = [6], pu_presign_attestation_hash = [7], pu_message_digest = [8],
      pu_message_metadata_digest = [9], pu_signature_scheme = EddsaSha512, pu_verified_sign_data = [10]\<rparr>"

definition demoProof :: attestation_proof_v1 where
  "demoProof = \<lparr>attestation_version = 0, proof_signer = theKey, noa_signature = theSignature\<rparr>"

definition demoProofBytes :: bytes where
  "demoProofBytes = replicate 98 3"

definition demoMember :: committee_member where
  "demoMember = \<lparr>consensusPubkey = [1], networkPubkey = [2]\<rparr>"

definition demoShare :: encrypted_share_attestation where
  "demoShare =
     \<lparr>es_session_identifier = [1], es_intended_chain_sender = [2], es_dwallet_public_key = [3],
      es_encrypted_share_hash = [6], es_encryption_key_hash = [5], es_holder = demoHolder,
      es_dwallet_attestation_digest = [8]\<rparr>"

definition noBcs :: "'v bcs_type" where
  "noBcs = \<lparr>parse = (\<lambda>b. None), serialize = (\<lambda>v. None)\<rparr>"

definition demoLib :: sdk_lib where
  "demoLib =
     \<lparr>ed25519_verify = demoVerify, keccak_256 = lengthHash, blake2b_256 = lengthHash,
      dwalletBcs = oneValue (V1 demoDWallet) [0, 1], presignBcs = noBcs,
      partialSignatureBcs = oneValue (V1 demoPartial) [0, 2],
      encryptedShareBcs = oneValue (V1 demoShare) [0, 3], publicShareBcs = noBcs,
      attestationProofBcs = oneValue (V1 demoProof) demoProofBytes, signedRequestDataBcs = noBcs,
      userSignatureBcs = noBcs, committeeMembersBcs = oneValue [demoMember] [1, 1, 2]\<rparr>"

definition demoTrust :: trusted_network_keys where
  "demoTrust = \<lparr>network = Custom [theKey], publicKeys = [theKey]\<rparr>"

lemma demoLib_simps [simp]:
  "ed25519_verify demoLib = demoVerify" "keccak_256 demoLib = lengthHash" "blake2b_256 demoLib = lengthHash"
  "dwalletBcs demoLib = oneValue (V1 demoDWallet) [0, 1]" "presignBcs demoLib = noBcs"
  "partialSignatureBcs demoLib = oneValue (V1 demoPartial) [0, 2]"
  "encryptedShareBcs demoLib = oneValue (V1 demoShare) [0, 3]" "publicShareBcs demoLib = noBcs"
  "attestationProofBcs demoLib = oneValue (V1 demoProof) demoProofBytes"
  "signedRequestDataBcs demoLib = noBcs" "userSignatureBcs demoLib = noBcs"
  "committeeMembersBcs demoLib = oneValue [demoMember] [1, 1, 2]"
  by (simp_all add: demoLib_def)

lemmas demo_lib = demoVerify_def demoTrust_def

section \<open>Records\<close>

definition demoRecord :: attestation_record where
  "demoRecord =
     \<lparr>attestationData = [0, 1], attestationVersion = 0, networkSignature = theSignature,
      signerNoaPublicKey = theKey\<rparr>"

definition demoExpected :: expected_dwallet where
  "demoExpected = \<lparr>ex_curve = 2, ex_publicKey = [3], ex_importedSessionIdentifier = Some [1]\<rparr>"

lemma demo_dwallet_record:
  "verifyDWalletAttestationRecord demoLib demoRecord demoTrust demoExpected = Inr (dwallet_of demoRecord demoDWallet)"
  by (simp add: verifyDWalletAttestationRecord_def verifyDWalletBytes_def verifyAndDecode_Inr
      signed_record_def decodes_def demo_lib demoRecord_def demoExpected_def demoDWallet_def
      indexOf_def ATTESTATION_CURVES_def dwallet_of_def result_simps)

definition demoStored :: stored_dwallet where
  "demoStored = \<lparr>sdw_curve = 2, sdw_publicKey = [3], sdw_isImportedKey = True, sdw_importedSessionIdentifier = Some [1]\<rparr>"

theorem verifyStoredDWallet_agrees_witness:
  "verifyStoredDWallet demoStored (dwallet_of demoRecord demoDWallet) = Inr ()"
  unfolding verifyStoredDWallet_agrees [OF demo_dwallet_record]
  by (simp add: demoStored_def demoExpected_def)

definition demoVoucher :: stored_voucher where
  "demoVoucher = \<lparr>sv_address = [5], sv_messageDigest = [8], sv_messageMetadataDigest = [9], sv_signatureScheme = 5\<rparr>"

theorem verifyPartialSignatureVoucherRecord_iff_witness:
  "verifyPartialSignatureVoucherRecord demoLib
     \<lparr>proofVersion = 0, proofSigner = theKey, proofSignature = theSignature\<rparr> demoPartial demoTrust demoVoucher =
     Inr demoPartial"
proof -
  have "codec_ok (partialSignatureBcs demoLib)" by simp
  note iff = verifyPartialSignatureVoucherRecord_iff [OF this]
  show ?thesis unfolding iff
    by (simp add: demo_lib demoVoucher_def demoPartial_def indexOf_def ATTESTATION_DWALLET_SIGNATURE_SCHEMES_def)
qed

section \<open>The network key's outputs\<close>

theorem record_messages_inject_witness:
  "networkKeyDkgRecordMessage theKey theKey =
     Inr (ATTESTATION_SIGNING_PREFIX @ [6] @ theKey @ theKey) \<and>
   networkKeyDkgRecordMessage theKey theKey \<noteq> networkKeyReconfigurationRecordMessage theKey 1 theKey"
proof -
  have m: "networkKeyDkgRecordMessage theKey theKey = Inr (ATTESTATION_SIGNING_PREFIX @ [6] @ theKey @ theKey)"
    unfolding dkg_message_Inr by (simp add: theKey_def)
  with record_messages_inject [where k = theKey and d = theKey and k' = theKey and d' = theKey and e' = 1
      and m = "ATTESTATION_SIGNING_PREFIX @ [6] @ theKey @ theKey"]
  show ?thesis by metis
qed

definition demoOutputChain :: output_chain where
  "demoOutputChain =
     \<lparr>dkgRecord = (\<lambda>key t. (3, Inr (if t < 50 then Some \<lparr>rec_digest = lengthHash [1, 2], rec_proof = []\<rparr>
                                 else Some \<lparr>rec_digest = lengthHash [1, 2], rec_proof = demoProofBytes\<rparr>))),
      reconfigurationRecord = (\<lambda>key e t. (3, Inr None)),
      isRegisteredNetworkKey = (\<lambda>key t. (5, Inr (key = theKey))),
      outputTimerLag = (\<lambda>t. 1)\<rparr>"

definition demoOutput :: network_key_output where
  "demoOutput =
     \<lparr>networkKeyId = theKey, out_epoch = 4, networkDkgOutput = [1, 2], latestReconfigurationOutput = None\<rparr>"

definition demoWait :: reshare_record_wait where
  "demoWait = \<lparr>pauseMs = 40, budgetMs = 1000\<rparr>"

lemma demo_output_accepted:
  "verifyNetworkKeyOutput demoLib demoOutputChain demoOutput theKey demoWait 0 = Some (96, Inr demoOutput)"
proof -
  let ?wait = demoWait and ?d = "lengthHash [1, 2]"
  let ?rec = "\<lparr>rec_digest = ?d, rec_proof = demoProofBytes\<rparr>"
  have "recordOnceSigned demoOutputChain theKey DkgRecord ?d 1000 ?wait 0 = Some (91, Inr ?rec)"
    unfolding recordOnceSigned_def
    by (simp add: pollUntil.simps [of _ _ _ _ _ _ 0] pollUntil.simps [of _ _ _ _ _ _ 44]
        pollUntil.simps [of _ _ _ _ _ _ 88] withinTimeLeft_def demoOutputChain_def demoWait_def demoProofBytes_def)
  moreover have "verifyNetworkKeyRecordProof demoLib m demoProofBytes = Inr theKey" for m
    by (simp add: verifyNetworkKeyRecordProof_def demo_lib demoProof_def demoProofBytes_def list_all_iff)
  moreover have "networkKeyDkgRecordMessage theKey ?d = Inr (ATTESTATION_SIGNING_PREFIX @ [6] @ theKey @ ?d)"
    unfolding dkg_message_Inr by (simp add: theKey_def lengthHash_def)
  ultimately have "bindT (recordOnceSigned demoOutputChain theKey DkgRecord ?d 1000 ?wait)
      (\<lambda>dkg. bindT (verifyAgainstRecord demoLib demoOutputChain [1, 2] dkg (networkKeyDkgRecordMessage theKey) 1000)
        (\<lambda>_. returnT demoOutput)) 0 = Some (96, Inr demoOutput)"
    by (simp add: bindT_def verifyAgainstRecord_def verifyRecordProof_def networkOutputDigest_def liftT_def
        readT_def returnT_def withinTimeLeft_def demoOutputChain_def guardE_def result_simps mapErr_def
        demoProofBytes_def)
  then show ?thesis
    by (simp add: verifyNetworkKeyOutput_def demoOutput_def demoWait_def networkOutputDigest_def)
qed

theorem verifyNetworkKeyOutput_sound_witness:
  "recorded demoLib demoOutputChain theKey DkgRecord (networkKeyDkgRecordMessage theKey) (lengthHash [1, 2])"
  using verifyNetworkKeyOutput_sound [OF demo_output_accepted] by (simp add: demoOutput_def)

theorem verifyNetworkKeyOutput_ends_witness:
  "\<exists>t r. verifyNetworkKeyOutput demoLib demoOutputChain
     (demoOutput\<lparr>latestReconfigurationOutput := Some [5]\<rparr>) theKey demoWait 0 = Some (t, r)"
  by (rule verifyNetworkKeyOutput_ends) (simp add: demoWait_def)

section \<open>Committees\<close>

definition otherMember :: committee_member where
  "otherMember = \<lparr>consensusPubkey = [0, 5], networkPubkey = [4]\<rparr>"

theorem unsignedCommittee_order_witness:
  "unsignedCommittee demoLib 5 [demoMember, otherMember] = unsignedCommittee demoLib 5 [otherMember, demoMember]"
  by (rule unsignedCommittee_order) simp

definition demoAttestation :: bytes where
  "demoAttestation = 0 # le_bytes 8 5 @ replicate 32 3"

definition demoCommittee :: signed_committee where
  "demoCommittee =
     \<lparr>sc_members = [1, 1, 2], sc_attestation = demoAttestation, sc_signer = theKey, sc_signature = theSignature\<rparr>"

definition demoVerified :: verified_committee where
  "demoVerified = \<lparr>vc_epoch = 5, vc_members = [demoMember]\<rparr>"

lemma demo_attestation:
  "encodeCommitteeAttestation \<lparr>ca_epoch = 5, membersDigest = replicate 32 3\<rparr> = Inr demoAttestation"
  by (simp add: encodeCommitteeAttestation_def demoAttestation_def u64_max_def)

lemma demo_unsigned: "unsignedCommittee demoLib 5 [demoMember] = Inr ([1, 1, 2], demoAttestation)"
  using demo_attestation
  by (simp add: unsignedCommittee_def sortBy_def repeatedMember_def committeeMembersDigest_def
      lengthHash_def ofOption_def result_simps)

lemma demo_verified: "verifySignedCommittee demoLib demoCommittee which = Inr demoVerified"
proof -
  have "decodeCommitteeAttestation demoAttestation = Inr \<lparr>ca_epoch = 5, membersDigest = replicate 32 3\<rparr>"
    using demo_attestation by (rule decode_encode_attestation)
  then show ?thesis
    by (auto simp: verifySignedCommittee_Inr committee_signed_def decodeCommitteeMembers_Inr demoCommittee_def
        demoVerified_def demo_lib theKey_def theSignature_def lengthHash_def)
qed

theorem verifySignedCommittee_iff_witness:
  "verifySignedCommittee demoLib demoCommittee ''committee'' = Inr demoVerified \<and>
   verifySignedCommittee demoLib (demoCommittee\<lparr>sc_members := [1, 1, 2, 0]\<rparr>) ''committee'' \<noteq> Inr demoVerified"
proof -
  have "codec_ok (committeeMembersBcs demoLib)" by simp
  note iff = verifySignedCommittee_iff [OF this]
  show ?thesis unfolding iff
    by (simp add: demo_unsigned demoVerified_def demoCommittee_def committee_signed_def demo_lib theKey_def
        theSignature_def)
qed

definition demoCommitteeChain :: committee_chain where
  "demoCommitteeChain =
     \<lparr>currentEpoch = (\<lambda>t. (2, Inr (if t < 3000 then 3 else 5))), isRegistered = (\<lambda>k t. (4, Inr (k = theKey))),
      epochTimerLag = (\<lambda>t. 0)\<rparr>"

definition demoAnswer :: committee_answer where
  "demoAnswer = \<lparr>ans_committee = Some demoCommittee, ans_nextCommittee = None\<rparr>"

definition demoCommittees :: verified_committees where
  "demoCommittees = \<lparr>vs_chainEpoch = 5, vs_committee = demoVerified, vs_nextCommittee = None\<rparr>"

lemma demo_answer:
  "verifyCommitteeAnswer demoLib demoCommitteeChain demoAnswer CHAIN_EPOCH_RETRY 0 = Some (5008, Inr demoCommittees)"
proof -
  have s: "verifyCommitteeSigner demoLib demoCommitteeChain demoCommittee w 0 = Some (4, Inr demoVerified)" for w
    using demo_verified [of w]
    by (simp add: verifyCommitteeSigner_def bindT_def liftT_def readT_def returnT_def
        demoCommitteeChain_def demoCommittee_def)
  have e: "freshChainEpoch demoCommitteeChain 5 CHAIN_EPOCH_RETRY 4 = Some (5008, Inr 5)"
    by (simp add: freshChainEpoch_def pollUntil.simps [of _ _ _ _ _ _ 4] pollUntil.simps [of _ _ _ _ _ _ 5006]
        demoCommitteeChain_def CHAIN_EPOCH_RETRY_def epochStanding_def)
  show ?thesis
    using s [of "''committee''"] e
    by (simp add: verifyCommitteeAnswer_def bindT_def returnT_def demoAnswer_def demoCommittees_def keepNext_def
        demoVerified_def)
qed

theorem verifyCommitteeAnswer_sound_witness:
  "vc_epoch (vs_committee demoCommittees) \<in> {5, 6} \<and>
   (\<exists>s. snd (isRegistered demoCommitteeChain theKey s) = Inr True)"
  using verifyCommitteeAnswer_sound [OF demo_answer]
  by (auto simp: demoCommittees_def demoAnswer_def demoCommittee_def)

theorem verifyCommitteeAnswer_ends_witness:
  "\<exists>t r. verifyCommitteeAnswer demoLib (demoCommitteeChain\<lparr>currentEpoch := (\<lambda>t. (7, Inr 0))\<rparr>)
     demoAnswer CHAIN_EPOCH_RETRY 0 = Some (t, r)"
  by (rule verifyCommitteeAnswer_ends) (simp add: CHAIN_EPOCH_RETRY_def)

theorem held_keys_are_fresh_witness:
  "containsKey (heldAfter [demoCommittees]) [2] \<and> \<not> containsKey (heldAfter [demoCommittees]) [3]"
  using held_keys_are_fresh [of "[]" demoCommittees "[2]"] held_keys_are_fresh [of "[]" demoCommittees "[3]"]
  by (simp add: demoCommittees_def demoVerified_def demoMember_def committees_of_def)

section \<open>Addresses\<close>

text \<open>A hash that keeps the first 32 bytes, and a curve whose points' first byte is 255.\<close>

definition demoAddressLib :: address_lib where
  "demoAddressLib =
     \<lparr>sha_256 = (\<lambda>b. take 32 (b @ replicate 32 0)),
      pointFromBytes = (\<lambda>b. if b ! 0 = 255 then Some () else None)\<rparr>"

theorem findProgramAddress_canonical_witness:
  "findProgramAddress demoAddressLib [] theKey = Inr \<lparr>address = 254 # replicate 31 7, bump = 254\<rparr>"
proof -
  have "replicate 32 (7 :: byte) = replicate 31 7 @ [7]" by (simp add: replicate_append_same flip: replicate_Suc)
  then have h: "sha_256 demoAddressLib (addressPreimage [] b theKey) = word_of_nat b # replicate 31 7" for b
    by (simp add: demoAddressLib_def addressPreimage_def theKey_def)
  have "254 < b \<and> b \<le> 255 \<longleftrightarrow> b = 255" for b :: nat by auto
  with h show ?thesis
    unfolding findProgramAddress_canonical
    by (simp add: theKey_def isOnCurve_def demoAddressLib_def)
qed

lemma demo_coordinator_seeds: "deriveSeeds ''DWalletCoordinator'' Map.empty = Inr [ascii ''dwallet_coordinator'']"
  by (simp add: deriveSeeds_def seedSchema_def look_def wire_seed_schemas_def result_simps)

lemma demo_system_seeds: "deriveSeeds ''SystemState'' Map.empty = Inr [ascii ''ika_system_state'']"
  by (simp add: deriveSeeds_def seedSchema_def look_def wire_seed_schemas_def result_simps)

theorem deriveSeeds_fit_witness:
  "findProgramAddress demoAddressLib [ascii ''dwallet_coordinator''] theKey =
     searchBump demoAddressLib [ascii ''dwallet_coordinator''] theKey 256"
  using deriveSeeds_fit [OF demo_coordinator_seeds, of theKey demoAddressLib]
  by (simp add: theKey_def del: searchBump.simps)

theorem account_kinds_apart_witness:
  "addressPreimage [ascii ''dwallet_coordinator''] 255 theKey \<noteq> addressPreimage [ascii ''ika_system_state''] 254 theKey"
  by (rule account_kinds_apart [OF demo_coordinator_seeds demo_system_seeds]) simp

lemma demo_dwallet_seeds:
  "dwalletSeeds 2 theKey None = Inr [ascii ''dwallet'', ascii ''record'', 2 # 0 # replicate 30 7, [7, 7]]"
proof -
  have "replicate 32 (7 :: byte) = replicate 30 7 @ [7, 7]" by (simp add: numeral_eq_Suc)
  then show ?thesis
    by (simp add: dwalletSeeds_def dwalletSeedRoot_def littleEndian_Inr deriveSeeds_def dkgOrImported_def
      dwalletValues_def dwallet_schemas asBytes_def result_simps theKey_def chunks.simps numeral_2_eq_2)
qed

theorem dwallet_address_determines_witness:
  "(2 :: int) = 2 \<and> theKey = theKey \<and> (None :: bytes option) = None \<and> theKey = theKey"
  by (rule dwallet_address_determines [OF demo_dwallet_seeds demo_dwallet_seeds _ _ refl])
    (simp_all add: theKey_def)

section \<open>Attestation accounts\<close>

definition demoValues :: "laid_value list" where
  "demoValues =
     [Plain (replicate 32 1), Plain [2], Plain [2], Plain [3], Plain [4], Plain [1], Absent,
      Present (Plain (replicate 33 9)), Present (Plain (replicate 32 5)), Present (Plain (replicate 32 6)),
      Plain (replicate 8 0)]"

definition demoAccount :: bytes where
  "demoAccount = [104, 1, 7] @ demoProofBytes @ storedFields dwalletFields demoValues"

definition demoDWalletBytes :: bytes where
  "demoDWalletBytes = 0 # fieldBytes (bcsFields dwalletFields demoValues)"

definition accountLib :: sdk_lib where
  "accountLib = demoLib\<lparr>dwalletBcs := oneValue (V1 demoDWallet) demoDWalletBytes\<rparr>"

definition demoAttestationAccount :: attestation_account where
  "demoAttestationAccount =
     \<lparr>aa_attestationData = demoDWalletBytes, aa_attestationVersion = 0, aa_networkSignature = theSignature,
      aa_signerNoaPublicKey = theKey, aa_attestationProof = demoProofBytes,
      aa_fields = (''version'', [0]) # bcsFields dwalletFields demoValues, aa_bump = 7\<rparr>"

lemma demo_account_read:
  "readDWalletAttestationUnverified accountLib demoAccount = Inr (Some demoAttestationAccount)"
proof -
  have l: "length demoProofBytes = 98" by (simp add: demoProofBytes_def)
  have h: "byteAt demoAccount 0 = 104" "byteAt demoAccount 2 = 7" "101 \<le> length demoAccount"
    "slice 3 101 demoAccount = demoProofBytes"
    "demoAccount = take 101 demoAccount @ storedFields dwalletFields demoValues"
    using l by (simp_all add: demoAccount_def byteAt_def slice_def)
  have p: "decodeAttestationProof accountLib demoProofBytes =
      Inr \<lparr>proofVersion = 0, proofSigner = theKey, proofSignature = theSignature\<rparr>"
    by (simp add: decodeAttestationProof_def accountLib_def demoProof_def requireKnownVersion_def
        KNOWN_ATTESTATION_VERSIONS_def result_simps)
  have f: "fieldsFit dwalletFields demoValues"
    by (simp add: dwalletFields_def demoValues_def)
  show ?thesis
    unfolding readDWalletAttestation_Inr holds_attestation_def h(4) p
    using h f
    by (auto simp: demoAttestationAccount_def accountLib_def demoDWalletBytes_def
        intro!: exI [of _ demoDWallet] exI [of _ demoValues])
qed

lemma demo_account_checked:
  "verifyDWalletAttestationRecord accountLib (recordOfAccount demoAttestationAccount) demoTrust demoExpected =
     Inr (dwallet_of (recordOfAccount demoAttestationAccount) demoDWallet)"
  by (simp add: verifyDWalletAttestationRecord_def verifyDWalletBytes_def verifyAndDecode_Inr accountLib_def
      signed_record_def decodes_def demo_lib demoAttestationAccount_def recordOfAccount_def demoExpected_def
      demoDWallet_def indexOf_def ATTESTATION_CURVES_def dwallet_of_def result_simps)

theorem stored_dwallet_attestation_checked_witness:
  "holds_attestation accountLib (dwalletBcs accountLib) dwalletFields demoAccount demoAttestationAccount demoDWallet"
proof -
  have "codec_ok (dwalletBcs accountLib)" by (simp add: accountLib_def)
  from stored_dwallet_attestation_checked [OF this demo_account_read demo_account_checked]
  show ?thesis by (simp add: dwallet_of_def)
qed

end
