(* ===== verification/Table_Laws.thy ===== *)
theory Table_Laws
  imports Schemes Network_Keys
begin

text \<open>
  What the tables promise: the three tables of curves, algorithms and hashes admit the same
  combinations and their numbers are a bijection, a network key's id has one text, and no key is
  trusted on a deployed network but those the SDK lists for it.
\<close>

section \<open>Curves, algorithms and hashes\<close>

text \<open>
  The numbering of a combination of curve, signature algorithm and hash and the reading of
  the numbers are inverse: a combination has the numbers exactly when the numbers are read as it.
\<close>

theorem combination_numbers_inverse:
  "fromNumbersToCurveAndSignatureAlgorithmAndHash cn an hn = Inr (c, a, h) \<longleftrightarrow>
   fromCurveAndSignatureAlgorithmAndHashToNumbers c a h = Inr (cn, an, hn)"
  unfolding from_numbers_iff to_numbers_iff ..

lemma signatureSchemeOf_Inr:
  "signatureSchemeOf c a h = Inr s \<longleftrightarrow>
     (c, a, h, s) \<in> set
       [(SECP256K1, ECDSASecp256k1, KECCAK256, EcdsaKeccak256), (SECP256K1, ECDSASecp256k1, SHA256, EcdsaSha256),
        (SECP256K1, ECDSASecp256k1, DoubleSHA256, EcdsaDoubleSha256), (SECP256K1, Taproot, SHA256, TaprootSha256),
        (SECP256R1, ECDSASecp256r1, SHA256, EcdsaSha256), (ED25519, EdDSA, SHA512, EddsaSha512),
        (RISTRETTO, Schnorrkel, Merlin, SchnorrkelMerlin)]"
  by (cases c; cases a; cases h;
      auto simp: signatureSchemeOf_def validateCurveSignatureAlgorithm_def
        validateHashSignatureCombination_def scheme_tables result_simps)

text \<open>
  The tables agree: a combination the validity check admits is one that is numbered and one
  the network has a scheme for, the scheme lookup never meets a hole of its table, and on one curve
  two combinations have the same scheme only if they are the same.
\<close>

theorem scheme_tables_agree:
  "(isValidHashForCurveAndSignature c a h \<longleftrightarrow> returned (signatureSchemeOf c a h)) \<and>
   (isValidHashForCurveAndSignature c a h \<longleftrightarrow>
      returned (fromCurveAndSignatureAlgorithmAndHashToNumbers c a h)) \<and>
   signatureSchemeOf c a h \<noteq> Inl (NoScheme a' h') \<and>
   ((\<exists>s. signatureSchemeOf c a h = Inr s \<and> signatureSchemeOf c a' h' = Inr s) \<longleftrightarrow>
      isValidHashForCurveAndSignature c a h \<and> a = a' \<and> h = h')"
proof (intro conjI)
  show "isValidHashForCurveAndSignature c a h \<longleftrightarrow> returned (signatureSchemeOf c a h)"
    unfolding returned_iff using signatureSchemeOf_valid [of c a h] by blast
  show "isValidHashForCurveAndSignature c a h \<longleftrightarrow>
      returned (fromCurveAndSignatureAlgorithmAndHashToNumbers c a h)"
    unfolding returned_iff by (rule isValidHashForCurveAndSignature_iff)
  show "signatureSchemeOf c a h \<noteq> Inl (NoScheme a' h')"
    by (rule signatureSchemeOf_never_NoScheme)
  show "(\<exists>s. signatureSchemeOf c a h = Inr s \<and> signatureSchemeOf c a' h' = Inr s) \<longleftrightarrow>
      isValidHashForCurveAndSignature c a h \<and> a = a' \<and> h = h'"
    unfolding signatureSchemeOf_valid [symmetric] signatureSchemeOf_Inr by auto
qed

section \<open>A key's id as text\<close>

lemma hexValue_less: "hexValue c = Some n \<Longrightarrow> n < 16"
  by (auto simp: hexValue_def Let_def split: if_splits)

text \<open>
  The hex text of a 32-byte key is read back as the key, with its \<open>0x\<close> or without, and no
  text is read as anything but a 32-byte key.
\<close>

theorem networkKeyId_hex_roundtrip:
  "(networkKeyIdFromHex (networkKeyIdToHex key) = Inr key \<longleftrightarrow> length key = 32) \<and>
   (networkKeyIdFromHex (toHex key) = Inr key \<longleftrightarrow> length key = 32) \<and>
   (\<exists>e k. networkKeyIdFromHex t = Inl e \<or> networkKeyIdFromHex t = Inr k \<and> length k = 32)"
proof -
  have digits: "networkKeyIdFromHex t = (let digits = (if take 2 t = ''0x'' then drop 2 t else t)
      in if length digits = 64 \<and> list_all isHexDigit digits
         then Inr (map (\<lambda>i. word_of_nat (16 * the (hexValue (digits ! (2 * i)))
                                          + the (hexValue (digits ! (2 * i + 1))))) [0..<32])
         else Inl (Err ''a NetworkKeyId is 64 hex digits''))" for t
    by (simp add: networkKeyIdFromHex_def NETWORK_KEY_ID_LENGTH_def Let_def)
  have no_prefix: "take 2 (toHex key) \<noteq> ''0x''"
  proof (cases key)
    case (Cons b bs)
    have "hexDigit (unat b mod 16) \<noteq> CHR ''x''"
    proof
      assume "hexDigit (unat b mod 16) = CHR ''x''"
      moreover have "hexValue (hexDigit (unat b mod 16)) = Some (unat b mod 16)" by simp
      moreover have "hexValue CHR ''x'' = None" by (simp add: hexValue_def)
      ultimately show False by simp
    qed
    then show ?thesis by (simp add: Cons toHex_Cons)
  qed simp
  have bytes: "map (\<lambda>i. word_of_nat (16 * the (hexValue (toHex key ! (2 * i)))
      + the (hexValue (toHex key ! (2 * i + 1))))) [0..<32] = key" if "length key = 32"
    using that hex_byte_roundtrip [of _ key] by (auto intro: nth_equalityI)
  have "networkKeyIdFromHex (toHex key) = Inr key \<longleftrightarrow> length key = 32"
    using no_prefix bytes toHex_isHexDigit [of key] by (auto simp: digits Let_def)
  moreover have "networkKeyIdFromHex (networkKeyIdToHex key) = Inr key \<longleftrightarrow> length key = 32"
    using bytes toHex_isHexDigit [of key] by (auto simp: networkKeyIdToHex_def digits Let_def)
  moreover have "\<exists>e k. networkKeyIdFromHex t = Inl e \<or> networkKeyIdFromHex t = Inr k \<and> length k = 32"
    by (auto simp: digits Let_def)
  ultimately show ?thesis by blast
qed

section \<open>Trust\<close>

text \<open>
  The keys trusted on a network are the SDK's list of it and nothing a caller names: on a
  deployed network exactly the listed keys, on a custom one exactly the caller's own, each of 32
  bytes; an attestation that names a network key is let through only where the key is the request's,
  is trusted, and on a deployed network is listed.
\<close>

theorem trusted_keys_are_listed:
  "(trustedNetworkKeysIn table name = Inr t \<longleftrightarrow>
      networkKeys table \<noteq> [] \<and> t = \<lparr>network = Deployed name, publicKeys = map noaPublicKey (networkKeys table)\<rparr>) \<and>
   (trustedNetworkKeys (Custom ks) = Inr t \<longleftrightarrow>
      list_all (\<lambda>k. length k = 32) ks \<and> t = \<lparr>network = Custom ks, publicKeys = ks\<rparr>) \<and>
   (attestationNetworkKeyRefusalIn tables named expected (Deployed name) (Some t) = None \<longleftrightarrow>
      named = expected \<and> named \<in> set (publicKeys t) \<and> named \<in> noaPublicKey ` set (networkKeys (tables name))) \<and>
   (attestationNetworkKeyRefusalIn tables named expected (Custom ks) (Some t) = None \<longleftrightarrow>
      named = expected \<and> named \<in> set (publicKeys t))"
  unfolding refusal_None trustedNetworkKeys_custom
  by (auto simp: trustedNetworkKeysIn_def list_all_iff)

section \<open>The records of a listed key\<close>

definition listed_at :: "deployed_network \<Rightarrow> record_chain \<Rightarrow> (bytes \<Rightarrow> sdk_error + bytes) \<Rightarrow> bytes \<Rightarrow> deployed_network_key \<Rightarrow> bool" where
  "listed_at table chain at key e \<longleftrightarrow> e \<in> set (networkKeys table) \<and> noaPublicKey e = key \<and>
     at key = Inr (case chain of SuiChain \<Rightarrow> suiRecordAddress e | SolanaChain \<Rightarrow> solanaRecordAddress e)"

lemma listedAt_listed: "listedAt table name chain at key = Inr e \<Longrightarrow> listed_at table chain at key e"
  by (auto simp: listedAt_def result_simps Let_def listed_at_def dest: listedNetworkKeyIn_Inr)

text \<open>
  Behind the reader of a deployed network's records, a record a client sees is one the chain's
  own reader gave, for a key the SDK lists, at the address it lists for that chain, and a DKG record
  holds the digest it lists; no key off the list is ever registered.
\<close>

lemma listed_dkgRecord:
  assumes "dkgRecord (listedNetworkKeyRecordReaderIn reader table name chain at) key now = (dt, Inr (Some r))"
  shows "dkgRecord reader key now = (dt, Inr (Some r)) \<and>
    (\<exists>e. listed_at table chain at key e \<and> dkgOutputDigest e = rec_digest r)"
proof -
  from assms obtain e where "dkgRecord reader key now = (dt, Inr (Some r))" "rec_digest r = dkgOutputDigest e"
      "listed_at table chain at key e"
    unfolding listedNetworkKeyRecordReaderIn_def
    by (auto simp: result_simps split: option.splits if_splits dest: listedAt_listed)
  then show ?thesis by auto
qed

lemma listed_reconfigurationRecord:
  assumes "reconfigurationRecord (listedNetworkKeyRecordReaderIn reader table name chain at) key epoch now =
      (dt, Inr (Some r))"
  shows "reconfigurationRecord reader key epoch now = (dt, Inr (Some r)) \<and> (\<exists>e. listed_at table chain at key e)"
  using assms unfolding listedNetworkKeyRecordReaderIn_def
  by (auto simp: result_simps dest: listedAt_listed)

lemma listed_registered:
  assumes "isRegisteredNetworkKey (listedNetworkKeyRecordReaderIn reader table name chain at) key now = (dt, Inr True)"
  shows "isRegisteredNetworkKey reader key now = (dt, Inr True) \<and> key \<in> noaPublicKey ` set (networkKeys table)"
  using assms unfolding listedNetworkKeyRecordReaderIn_def
  by (auto simp: list_ex_iff split: if_splits)

end
