(* ===== verification/Signatures.thy ===== *)
theory Signatures
  imports Attestation_Record
begin

text \<open>
  Making and verifying a signature under a request's scheme (\<open>grpc/signature-verification.ts\<close>): the
  network's scheme and the message metadata choose the curve, the algorithm, the hash and its context
  of the user's cryptography. The cryptography is an interface of the SDK (\<open>UserCryptography\<close>) whose
  implementation is a compiled module, and the two metadata schemas are BCS: both are parameters.
\<close>

section \<open>The cryptography\<close>

text \<open>Each operation gives its value or the error it throws; the last argument is the hash's context.\<close>

record user_cryptography =
  verifySignature :: "curve \<Rightarrow> sig_alg \<Rightarrow> hash_name \<Rightarrow> bytes \<Rightarrow> bytes \<Rightarrow> bytes \<Rightarrow> bytes option \<Rightarrow> sdk_error + unit"
  verifyEcdsaBlake2b256Signature :: "bytes \<Rightarrow> bytes \<Rightarrow> bytes \<Rightarrow> bytes \<Rightarrow> bytes \<Rightarrow> sdk_error + unit"
  createUserSignMessageWithPublicOutput ::
    "bytes \<Rightarrow> bytes \<Rightarrow> bytes \<Rightarrow> bytes \<Rightarrow> bytes \<Rightarrow> hash_name \<Rightarrow> sig_alg \<Rightarrow> curve \<Rightarrow> bytes option \<Rightarrow> sdk_error + bytes"
  createUserSignMessageWithUserPublicOutput ::
    "bytes \<Rightarrow> bytes \<Rightarrow> bytes \<Rightarrow> bytes \<Rightarrow> bytes \<Rightarrow> hash_name \<Rightarrow> sig_alg \<Rightarrow> curve \<Rightarrow> bytes option \<Rightarrow> sdk_error + bytes"
  createUserSignMessageEcdsaBlake2b256 ::
    "bytes \<Rightarrow> bytes \<Rightarrow> bytes \<Rightarrow> bytes \<Rightarrow> bytes \<Rightarrow> bytes \<Rightarrow> bytes \<Rightarrow> sdk_error + bytes"
  decryptUserShare :: "int \<Rightarrow> bytes \<Rightarrow> bytes \<Rightarrow> bytes \<Rightarrow> bytes \<Rightarrow> sdk_error + bytes"
  userAndNetworkDKGOutputMatch :: "curve \<Rightarrow> bytes \<Rightarrow> bytes \<Rightarrow> sdk_error + bool"
  publicKeyFromDWalletOutput :: "curve \<Rightarrow> bytes \<Rightarrow> sdk_error + bytes"
  schnorrkelMetadataBcs :: "bytes bcs_type"
  blake2bMetadataBcs :: "(bytes \<times> bytes) bcs_type"

section \<open>Numbers\<close>

definition SECP256K1_NUMBER :: int where "SECP256K1_NUMBER = 0"
definition SECP256R1_NUMBER :: int where "SECP256R1_NUMBER = 1"
definition CURVE25519_NUMBER :: int where "CURVE25519_NUMBER = 2"
definition RISTRETTO_NUMBER :: int where "RISTRETTO_NUMBER = 3"

definition ECDSA_KECCAK256 :: int where "ECDSA_KECCAK256 = 0"
definition ECDSA_SHA256 :: int where "ECDSA_SHA256 = 1"
definition ECDSA_DOUBLE_SHA256 :: int where "ECDSA_DOUBLE_SHA256 = 2"
definition TAPROOT_SHA256 :: int where "TAPROOT_SHA256 = 3"
definition ECDSA_BLAKE2B256 :: int where "ECDSA_BLAKE2B256 = 4"
definition EDDSA_SHA512 :: int where "EDDSA_SHA512 = 5"
definition SCHNORRKEL_MERLIN :: int where "SCHNORRKEL_MERLIN = 6"

lemmas signature_numbers =
  SECP256K1_NUMBER_def SECP256R1_NUMBER_def CURVE25519_NUMBER_def RISTRETTO_NUMBER_def
  ECDSA_KECCAK256_def ECDSA_SHA256_def ECDSA_DOUBLE_SHA256_def TAPROOT_SHA256_def
  ECDSA_BLAKE2B256_def EDDSA_SHA512_def SCHNORRKEL_MERLIN_def

definition DEFAULT_SCHNORRKEL_CONTEXT :: bytes where
  "DEFAULT_SCHNORRKEL_CONTEXT = ascii ''substrate''"

section \<open>Metadata\<close>

definition parseBlake2bMessageMetadata :: "user_cryptography \<Rightarrow> bytes \<Rightarrow> sdk_error + bytes \<times> bytes" where
  "parseBlake2bMessageMetadata U metadata =
     bindE (ofOption (Err ''bcs'') (parse (blake2bMetadataBcs U) metadata)) (\<lambda>m.
     bindE (ofOption (Err ''bcs'') (serialize (blake2bMetadataBcs U) m)) (\<lambda>again.
     if length again \<noteq> length metadata
     then Inl (Err ''invalid Blake2b message_metadata: bytes remain after the salt'') else Inr m))"

definition parseSchnorrkelMessageMetadata :: "user_cryptography \<Rightarrow> bytes \<Rightarrow> sdk_error + bytes" where
  "parseSchnorrkelMessageMetadata U metadata =
     bindE (ofOption (Err ''bcs'') (parse (schnorrkelMetadataBcs U) metadata)) (\<lambda>m.
     bindE (ofOption (Err ''bcs'') (serialize (schnorrkelMetadataBcs U) m)) (\<lambda>again.
     if length again \<noteq> length metadata
     then Inl (Err ''invalid Schnorrkel message_metadata: bytes remain after the context'') else Inr m))"

text \<open>\<open>reason.startsWith('invalid ')\<close>.\<close>

definition metadataError :: "string \<Rightarrow> sdk_error \<Rightarrow> sdk_error" where
  "metadataError name e =
     (let reason = errorMessage e in
      Err (if take 8 reason = ''invalid '' then reason
           else ''invalid '' @ name @ '' message_metadata: '' @ reason))"

definition requireMessageMetadataOfScheme ::
    "user_cryptography \<Rightarrow> scheme_name \<Rightarrow> bytes \<Rightarrow> sdk_error + unit" where
  "requireMessageMetadataOfScheme U scheme metadata =
     (if scheme = EcdsaBlake2b256 then
        bindE (mapErr (metadataError ''Blake2b'') (parseBlake2bMessageMetadata U metadata)) (\<lambda>_. Inr ())
      else if scheme = SchnorrkelMerlin then
        bindE (mapErr (metadataError ''Schnorrkel'') (parseSchnorrkelMessageMetadata U metadata)) (\<lambda>_. Inr ())
      else if length metadata \<noteq> 0
      then Inl (Err ''message_metadata must be empty for the scheme'') else Inr ())"

section \<open>Verifying\<close>

definition verifySignatureWithScheme ::
    "user_cryptography \<Rightarrow> int \<Rightarrow> int \<Rightarrow> bytes \<Rightarrow> bytes \<Rightarrow> bytes \<Rightarrow> bytes \<Rightarrow> sdk_error + unit" where
  "verifySignatureWithScheme U curve scheme message metadata output signature =
     (let verify = (\<lambda>c a h ctx. verifySignature U c a h output message signature ctx);
          signsOn = (\<lambda>s c. scheme = s \<and> curve = c) in
      if signsOn ECDSA_BLAKE2B256 SECP256K1_NUMBER then
        bindE (parseBlake2bMessageMetadata U metadata) (\<lambda>(personal, salt).
          verifyEcdsaBlake2b256Signature U output message signature personal salt)
      else if signsOn SCHNORRKEL_MERLIN RISTRETTO_NUMBER then
        bindE (parseSchnorrkelMessageMetadata U metadata) (\<lambda>context.
          verify RISTRETTO Schnorrkel Merlin
            (Some (if length context = 0 then DEFAULT_SCHNORRKEL_CONTEXT else context)))
      else if \<not> (scheme = SCHNORRKEL_MERLIN \<or> scheme = ECDSA_BLAKE2B256) \<and> length metadata \<noteq> 0
      then Inl (Err ''message_metadata must be empty for this signature scheme'')
      else if signsOn ECDSA_KECCAK256 SECP256K1_NUMBER then verify SECP256K1 ECDSASecp256k1 KECCAK256 None
      else if signsOn ECDSA_SHA256 SECP256K1_NUMBER then verify SECP256K1 ECDSASecp256k1 SHA256 None
      else if signsOn ECDSA_DOUBLE_SHA256 SECP256K1_NUMBER then verify SECP256K1 ECDSASecp256k1 DoubleSHA256 None
      else if signsOn TAPROOT_SHA256 SECP256K1_NUMBER then verify SECP256K1 Taproot SHA256 None
      else if signsOn ECDSA_SHA256 SECP256R1_NUMBER then verify SECP256R1 ECDSASecp256r1 SHA256 None
      else if signsOn EDDSA_SHA512 CURVE25519_NUMBER then verify ED25519 EdDSA SHA512 None
      else Inl (Err ''the signature scheme does not sign on the curve''))"

section \<open>Signing\<close>

datatype sign_output = DWalletOutput | UserOutput

record sign_inputs =
  si_protocolPublicParameters :: bytes
  si_curve :: int
  si_signatureScheme :: int
  si_message :: bytes
  si_messageMetadata :: bytes
  si_output :: bytes
  si_userSecretKeyShare :: bytes
  si_presign :: bytes

definition userSignMessageWithScheme ::
    "user_cryptography \<Rightarrow> sign_inputs \<Rightarrow> sign_output \<Rightarrow> sdk_error + bytes" where
  "userSignMessageWithScheme U i outputKind =
     (let metadata = si_messageMetadata i; curve = si_curve i; scheme = si_signatureScheme i;
          sign = (\<lambda>c a h ctx.
            (if outputKind = DWalletOutput then createUserSignMessageWithPublicOutput U
             else createUserSignMessageWithUserPublicOutput U)
              (si_protocolPublicParameters i) (si_output i) (si_userSecretKeyShare i) (si_presign i)
              (si_message i) h a c ctx);
          signsOn = (\<lambda>s c. scheme = s \<and> curve = c) in
      if signsOn ECDSA_BLAKE2B256 SECP256K1_NUMBER then
        bindE (parseBlake2bMessageMetadata U metadata) (\<lambda>(personal, salt).
          if outputKind = UserOutput then Inl (Err ''a sign during DKG cannot use EcdsaBlake2b256'')
          else createUserSignMessageEcdsaBlake2b256 U (si_protocolPublicParameters i) (si_output i)
                 (si_userSecretKeyShare i) (si_presign i) (si_message i) personal salt)
      else if signsOn SCHNORRKEL_MERLIN RISTRETTO_NUMBER then
        bindE (parseSchnorrkelMessageMetadata U metadata) (\<lambda>context.
          sign RISTRETTO Schnorrkel Merlin
            (Some (if length context = 0 then DEFAULT_SCHNORRKEL_CONTEXT else context)))
      else if \<not> (scheme = SCHNORRKEL_MERLIN \<or> scheme = ECDSA_BLAKE2B256) \<and> length metadata \<noteq> 0
      then Inl (Err ''message_metadata must be empty for this signature scheme'')
      else if signsOn ECDSA_KECCAK256 SECP256K1_NUMBER then sign SECP256K1 ECDSASecp256k1 KECCAK256 None
      else if signsOn ECDSA_SHA256 SECP256K1_NUMBER then sign SECP256K1 ECDSASecp256k1 SHA256 None
      else if signsOn ECDSA_DOUBLE_SHA256 SECP256K1_NUMBER then sign SECP256K1 ECDSASecp256k1 DoubleSHA256 None
      else if signsOn TAPROOT_SHA256 SECP256K1_NUMBER then sign SECP256K1 Taproot SHA256 None
      else if signsOn ECDSA_SHA256 SECP256R1_NUMBER then sign SECP256R1 ECDSASecp256r1 SHA256 None
      else if signsOn EDDSA_SHA512 CURVE25519_NUMBER then sign ED25519 EdDSA SHA512 None
      else Inl (Err ''the signature scheme does not sign on the curve''))"

definition createUserSignMessageWithScheme :: "user_cryptography \<Rightarrow> sign_inputs \<Rightarrow> sdk_error + bytes" where
  "createUserSignMessageWithScheme U i = userSignMessageWithScheme U i DWalletOutput"

definition createUserSignMessageForSignDuringDkg :: "user_cryptography \<Rightarrow> sign_inputs \<Rightarrow> sdk_error + bytes" where
  "createUserSignMessageForSignDuringDkg U i = userSignMessageWithScheme U i UserOutput"

section \<open>An answer's signature\<close>

record expected_signature =
  es_curve :: int
  es_signatureScheme :: int
  es_message :: bytes
  es_messageMetadata :: bytes
  es_output :: bytes

definition signatureFromResponseVerified ::
    "user_cryptography \<Rightarrow> transaction_response \<Rightarrow> expected_signature \<Rightarrow> sdk_error + bytes" where
  "signatureFromResponseVerified U response expected =
     (case response of
        ErrorResponse m \<Rightarrow> Inl (Err (''the network refused the sign: '' @ m))
      | AttestationResponse a \<Rightarrow> Inl (Err ''a sign request answered with an attestation'')
      | SignatureResponse signature \<Rightarrow>
          seqE (verifySignatureWithScheme U (es_curve expected) (es_signatureScheme expected)
                  (es_message expected) (es_messageMetadata expected) (es_output expected) signature)
            (Inr signature))"

section \<open>Laws\<close>

text \<open>
  What a scheme signs with on a curve: the algorithm, the hash and the context its metadata gives.
  The context of BLAKE2b is its personal and salt.
\<close>

datatype signing_method =
    Plain_method curve sig_alg hash_name "bytes option"
  | Blake2b_method bytes bytes

definition signingMethod :: "user_cryptography \<Rightarrow> int \<Rightarrow> int \<Rightarrow> bytes \<Rightarrow> signing_method option" where
  "signingMethod U c s metadata =
     (if (s, c) = (4, 0) then
          (case parseBlake2bMessageMetadata U metadata of
             Inr (personal, salt) \<Rightarrow> Some (Blake2b_method personal salt) | Inl _ \<Rightarrow> None)
        else if (s, c) = (6, 3) then
          (case parseSchnorrkelMessageMetadata U metadata of
             Inr context \<Rightarrow> Some (Plain_method RISTRETTO Schnorrkel Merlin
                               (Some (if context = [] then DEFAULT_SCHNORRKEL_CONTEXT else context)))
           | Inl _ \<Rightarrow> None)
        else if metadata \<noteq> [] then None
        else map_option (\<lambda>(c', a, h). Plain_method c' a h None)
               (map_of [((0, 0), (SECP256K1, ECDSASecp256k1, KECCAK256)),
                        ((1, 0), (SECP256K1, ECDSASecp256k1, SHA256)),
                        ((2, 0), (SECP256K1, ECDSASecp256k1, DoubleSHA256)),
                        ((3, 0), (SECP256K1, Taproot, SHA256)),
                        ((1, 1), (SECP256R1, ECDSASecp256r1, SHA256)),
                        ((5, 2), (ED25519, EdDSA, SHA512))] (s, c)))"

fun verifiesBy :: "user_cryptography \<Rightarrow> signing_method \<Rightarrow> bytes \<Rightarrow> bytes \<Rightarrow> bytes \<Rightarrow> sdk_error + unit" where
  "verifiesBy U (Plain_method c a h ctx) output message sig = verifySignature U c a h output message sig ctx"
| "verifiesBy U (Blake2b_method p s) output message sig = verifyEcdsaBlake2b256Signature U output message sig p s"

fun signsBy :: "user_cryptography \<Rightarrow> signing_method \<Rightarrow> sign_inputs \<Rightarrow> sdk_error + bytes" where
  "signsBy U (Plain_method c a h ctx) i =
     createUserSignMessageWithPublicOutput U (si_protocolPublicParameters i) (si_output i)
       (si_userSecretKeyShare i) (si_presign i) (si_message i) h a c ctx"
| "signsBy U (Blake2b_method p s) i =
     createUserSignMessageEcdsaBlake2b256 U (si_protocolPublicParameters i) (si_output i)
       (si_userSecretKeyShare i) (si_presign i) (si_message i) p s"

lemma scheme_cases:
  "(s, c :: int) = (4, 0) \<or> (s, c) = (6, 3) \<or> (s, c) = (0, 0) \<or> (s, c) = (1, 0) \<or> (s, c) = (2, 0) \<or>
   (s, c) = (3, 0) \<or> (s, c) = (1, 1) \<or> (s, c) = (5, 2) \<or>
   (s :: int, c) \<notin> {(4, 0), (6, 3), (0, 0), (1, 0), (2, 0), (3, 0), (1, 1), (5, 2)}"
  by blast

lemma signingMethod_table:
  "metadata \<noteq> [] \<Longrightarrow> (s, c) \<notin> {(4, 0), (6, 3)} \<Longrightarrow> signingMethod U c s metadata = None"
  "signingMethod U 0 0 [] = Some (Plain_method SECP256K1 ECDSASecp256k1 KECCAK256 None)"
  "signingMethod U 0 1 [] = Some (Plain_method SECP256K1 ECDSASecp256k1 SHA256 None)"
  "signingMethod U 0 2 [] = Some (Plain_method SECP256K1 ECDSASecp256k1 DoubleSHA256 None)"
  "signingMethod U 0 3 [] = Some (Plain_method SECP256K1 Taproot SHA256 None)"
  "signingMethod U 1 1 [] = Some (Plain_method SECP256R1 ECDSASecp256r1 SHA256 None)"
  "signingMethod U 2 5 [] = Some (Plain_method ED25519 EdDSA SHA512 None)"
  "(s, c) \<notin> {(4, 0), (6, 3), (0, 0), (1, 0), (2, 0), (3, 0), (1, 1), (5, 2)} \<Longrightarrow>
     signingMethod U c s metadata = None"
  by (simp_all add: signingMethod_def) auto

lemma verify_method:
  "verifySignatureWithScheme U c s message metadata output sig = Inr () \<longleftrightarrow>
     (\<exists>m. signingMethod U c s metadata = Some m \<and> verifiesBy U m output message sig = Inr ())"
  using scheme_cases [of s c]
proof (elim disjE)
  assume "(s, c) = (4, 0)"
  then show ?thesis
    by (auto simp: verifySignatureWithScheme_def signingMethod_def signature_numbers result_simps split: sum.splits)
next
  assume "(s, c) = (6, 3)"
  then show ?thesis
    by (auto simp: verifySignatureWithScheme_def signingMethod_def signature_numbers result_simps split: sum.splits)
next
  assume no: "(s, c) \<notin> {(4, 0), (6, 3), (0, 0), (1, 0), (2, 0), (3, 0), (1, 1), (5, 2)}"
  then have "verifySignatureWithScheme U c s message metadata output sig \<noteq> Inr ()"
    by (simp add: verifySignatureWithScheme_def signature_numbers Let_def) blast
  then show ?thesis using signingMethod_table(8) [OF no] by simp
qed (cases "metadata = []"; simp add: verifySignatureWithScheme_def signature_numbers Let_def signingMethod_table)+

lemma sign_method:
  "createUserSignMessageWithScheme U i = Inr b \<longleftrightarrow>
     (\<exists>m. signingMethod U (si_curve i) (si_signatureScheme i) (si_messageMetadata i) = Some m \<and>
        signsBy U m i = Inr b)"
  using scheme_cases [of "si_signatureScheme i" "si_curve i"]
proof (elim disjE)
  assume "(si_signatureScheme i, si_curve i) = (4, 0)"
  then show ?thesis
    by (auto simp: createUserSignMessageWithScheme_def userSignMessageWithScheme_def signingMethod_def
        signature_numbers result_simps split: sum.splits)
next
  assume "(si_signatureScheme i, si_curve i) = (6, 3)"
  then show ?thesis
    by (auto simp: createUserSignMessageWithScheme_def userSignMessageWithScheme_def signingMethod_def
        signature_numbers result_simps split: sum.splits)
next
  assume no: "(si_signatureScheme i, si_curve i) \<notin>
    {(4, 0), (6, 3), (0, 0), (1, 0), (2, 0), (3, 0), (1, 1), (5, 2)}"
  then have "createUserSignMessageWithScheme U i \<noteq> Inr b"
    by (simp add: createUserSignMessageWithScheme_def userSignMessageWithScheme_def signature_numbers Let_def) blast
  then show ?thesis using signingMethod_table(8) [OF no] by simp
qed (cases "si_messageMetadata i = []";
    simp add: createUserSignMessageWithScheme_def userSignMessageWithScheme_def signature_numbers Let_def
      signingMethod_table)+

text \<open>
  The user's sign message is made, and a signature is verified, with the one algorithm, hash and
  context that the request's scheme, curve and metadata give, so what the user signs is what is
  verified; where they give none, nothing is signed and nothing verifies.
\<close>

theorem signing_agrees_with_verifying:
  "(createUserSignMessageWithScheme U i = Inr b \<longleftrightarrow>
      (\<exists>m. signingMethod U (si_curve i) (si_signatureScheme i) (si_messageMetadata i) = Some m \<and>
         signsBy U m i = Inr b)) \<and>
   (verifySignatureWithScheme U (si_curve i) (si_signatureScheme i) (si_message i) (si_messageMetadata i)
        (si_output i) sig = Inr () \<longleftrightarrow>
      (\<exists>m. signingMethod U (si_curve i) (si_signatureScheme i) (si_messageMetadata i) = Some m \<and>
         verifiesBy U m (si_output i) (si_message i) sig = Inr ()))"
  using sign_method verify_method by blast

text \<open>
  A signature is taken from an answer exactly when the answer is that signature and it verifies
  under the dWallet's output for the message, the metadata and the scheme the request named; an
  error and an attestation give none.
\<close>

theorem signatureFromResponseVerified_iff:
  "signatureFromResponseVerified U response expected = Inr sig \<longleftrightarrow>
     response = SignatureResponse sig \<and>
     (\<exists>m. signingMethod U (es_curve expected) (es_signatureScheme expected) (es_messageMetadata expected) = Some m \<and>
        verifiesBy U m (es_output expected) (es_message expected) sig = Inr ())"
  by (cases response) (auto simp: signatureFromResponseVerified_def result_simps verify_method)

text \<open>The curve numbers a scheme signs on.\<close>

fun signsOnCurves :: "scheme_name \<Rightarrow> int list" where
  "signsOnCurves EcdsaKeccak256 = [0]"
| "signsOnCurves EcdsaSha256 = [0, 1]"
| "signsOnCurves EcdsaDoubleSha256 = [0]"
| "signsOnCurves TaprootSha256 = [0]"
| "signsOnCurves EcdsaBlake2b256 = [0]"
| "signsOnCurves EddsaSha512 = [2]"
| "signsOnCurves SchnorrkelMerlin = [3]"

text \<open>
  The metadata check before a request is sent refuses exactly the metadata no signature of the
  scheme could be made or verified with, on every curve the scheme signs on; off those curves
  nothing signs.
\<close>

theorem metadata_check_iff_signs:
  "(signingMethod U c (indexOf ATTESTATION_DWALLET_SIGNATURE_SCHEMES s) metadata \<noteq> None) \<longleftrightarrow>
     c \<in> set (signsOnCurves s) \<and> requireMessageMetadataOfScheme U s metadata = Inr ()"
  by (cases s; cases "metadata = []")
    (auto simp: signingMethod_def requireMessageMetadataOfScheme_def indexOf_def
      ATTESTATION_DWALLET_SIGNATURE_SCHEMES_def result_simps split: sum.splits)

end
