(* ===== verification/Request_Signing.thy ===== *)
theory Request_Signing
  imports Attestation_Record
begin

text \<open>
  What a client signs when it sends a request: the size limits (\<open>grpc/request-size-limits.ts\<close>), the
  session identifier a request opens (\<open>grpc/session-identifier.ts\<close>) and the signed bytes
  (\<open>grpc/sign-request-bytes.ts\<close>). Ed25519 signing and keccak256 are library code.
\<close>

section \<open>Size limits\<close>

record request_size_limits =
  fieldBytes :: nat
  messageBytes :: nat
  messageMetadataBytes :: nat
  signedRequestDataBytes :: nat

definition GRPC_REQUEST_SIZE_LIMITS :: request_size_limits where
  "GRPC_REQUEST_SIZE_LIMITS =
     \<lparr>fieldBytes = 16384, messageBytes = 16384, messageMetadataBytes = 256, signedRequestDataBytes = 65536\<rparr>"

datatype byte_field_limit = FieldLimit | MessageLimit | MessageMetadataLimit

type_synonym byte_field = "string \<times> byte_field_limit \<times> nat"

fun LIMIT_BYTES :: "byte_field_limit \<Rightarrow> nat" where
  "LIMIT_BYTES FieldLimit = fieldBytes GRPC_REQUEST_SIZE_LIMITS"
| "LIMIT_BYTES MessageLimit = messageBytes GRPC_REQUEST_SIZE_LIMITS"
| "LIMIT_BYTES MessageMetadataLimit = messageMetadataBytes GRPC_REQUEST_SIZE_LIMITS"

definition attestationFields :: "string \<Rightarrow> network_signed_attestation \<Rightarrow> byte_field list" where
  "attestationFields prefix a =
     [(prefix @ ''.attestation_data'', FieldLimit, length (attestation_data a)),
      (prefix @ ''.network_signature'', FieldLimit, length (network_signature a)),
      (prefix @ ''.network_pubkey'', FieldLimit, length (network_pubkey a))]"

definition signDuringDkgFields :: "sign_during_dkg_request option \<Rightarrow> byte_field list" where
  "signDuringDkgFields s = (case s of
     None \<Rightarrow> []
   | Some r \<Rightarrow>
       [(''sign_during_dkg_request.presign_session_identifier'', FieldLimit, length (sd_presign_session_identifier r)),
        (''sign_during_dkg_request.presign'', FieldLimit, length (sd_presign r)),
        (''sign_during_dkg_request.message'', MessageLimit, length (sd_message r)),
        (''sign_during_dkg_request.message_metadata'', MessageMetadataLimit, length (sd_message_metadata r)),
        (''sign_during_dkg_request.message_centralized_signature'', FieldLimit,
           length (sd_message_centralized_signature r))])"

fun userSecretKeyShareFields :: "user_secret_key_share \<Rightarrow> byte_field list" where
  "userSecretKeyShareFields (EncryptedUserShare p k s) =
     [(''user_secret_key_share.encrypted_centralized_secret_share_and_proof'', FieldLimit, length p),
      (''user_secret_key_share.encryption_key'', FieldLimit, length k),
      (''user_secret_key_share.signer_public_key'', FieldLimit, length s)]"
| "userSecretKeyShareFields (PublicUserShare s) =
     [(''user_secret_key_share.public_user_secret_key_share'', FieldLimit, length s)]"

definition signFields :: "sign_request \<Rightarrow> byte_field list" where
  "signFields s =
     [(''message'', MessageLimit, length (sg_message s)),
      (''message_metadata'', MessageMetadataLimit, length (sg_message_metadata s)),
      (''presign_session_identifier'', FieldLimit, length (sg_presign_session_identifier s)),
      (''message_centralized_signature'', FieldLimit, length (sg_message_centralized_signature s))]
     @ attestationFields ''dwallet_attestation'' (sg_dwallet_attestation s)"

fun requestByteFields :: "dwallet_request \<Rightarrow> byte_field list" where
  "requestByteFields (Dkg d) =
     (''centralized_public_key_share_and_proof'', FieldLimit, length (dkg_centralized_public_key_share_and_proof d))
     # userSecretKeyShareFields (dkg_user_secret_key_share d)
     @ [(''user_public_output'', FieldLimit, length (dkg_user_public_output d))]
     @ signDuringDkgFields (dkg_sign_during_dkg_request d)"
| "requestByteFields (Sign s) = signFields s"
| "requestByteFields (ImportedKeySign s) = signFields s"
| "requestByteFields (PresignForDWallet p) =
     (''dwallet_public_key'', FieldLimit, length (pd_dwallet_public_key p))
     # attestationFields ''dwallet_attestation'' (pd_dwallet_attestation p)"
| "requestByteFields (ReEncryptShare r) =
     (''dwallet_public_key'', FieldLimit, length (re_dwallet_public_key r))
     # attestationFields ''dwallet_attestation'' (re_dwallet_attestation r)
     @ [(''encrypted_centralized_secret_share_and_proof'', FieldLimit, length (re_encrypted_share_and_proof r)),
        (''encryption_key'', FieldLimit, length (re_encryption_key r))]"
| "requestByteFields (MakeSharePublic m) =
     (''dwallet_public_key'', FieldLimit, length (mp_dwallet_public_key m))
     # attestationFields ''dwallet_attestation'' (mp_dwallet_attestation m)
     @ [(''public_user_secret_key_share'', FieldLimit, length (mp_public_user_secret_key_share m))]"
| "requestByteFields (Presign p) = []"
| "requestByteFields (ImportedKeyVerification i) = []"
| "requestByteFields (FutureSign f) = []"
| "requestByteFields (SignWithPartialUserSig p) = []"
| "requestByteFields (ImportedKeySignWithPartialUserSig p) = []"
| "requestByteFields (ReleaseGas b) = []"
| "requestByteFields RetiredAcceptShare = []"
| "requestByteFields RetiredStorePresign = []"
| "requestByteFields (AttachEncryptedShare a) = []"

definition requestFields :: "signed_request_data \<Rightarrow> byte_field list" where
  "requestFields d =
     (''intended_chain_sender'', FieldLimit, length (req_intended_chain_sender d))
     # requestByteFields (req_request d)"

definition assertRequestFieldsWithinLimits :: "signed_request_data \<Rightarrow> sdk_error + unit" where
  "assertRequestFieldsWithinLimits d =
     (case find (\<lambda>(name, limit, len). len > LIMIT_BYTES limit) (requestFields d) of
        None \<Rightarrow> Inr ()
      | Some (name, _, _) \<Rightarrow> Inl (Err (''the request's '' @ name @ '' is over its limit'')))"

definition assertSignedRequestDataWithinLimit :: "bytes \<Rightarrow> sdk_error + unit" where
  "assertSignedRequestDataWithinLimit bs =
     guardE (\<not> length bs > signedRequestDataBytes GRPC_REQUEST_SIZE_LIMITS)
       (Err ''the signed request is over its limit'')"

section \<open>The session a request opens\<close>

datatype signer_scheme = SignerEd25519 | SignerSecp256k1 | SignerSecp256r1

fun SIGNER_SCHEME_BYTE :: "signer_scheme \<Rightarrow> byte" where
  "SIGNER_SCHEME_BYTE SignerEd25519 = 0"
| "SIGNER_SCHEME_BYTE SignerSecp256k1 = 1"
| "SIGNER_SCHEME_BYTE SignerSecp256r1 = 2"

text \<open>\<open>setBigUint64\<close> reduces the epoch modulo \<open>2 ^ 64\<close>.\<close>

definition sessionPreimage :: "int \<Rightarrow> signer_scheme \<Rightarrow> bytes \<Rightarrow> bytes \<Rightarrow> bytes" where
  "sessionPreimage epoch scheme signerPublicKey preimage =
     replicate 8 0 @ ascii ''GRPC'' @ be_bytes 8 epoch @ [SIGNER_SCHEME_BYTE scheme] @ signerPublicKey @ preimage"

definition grpcSessionIdentifier :: "hash \<Rightarrow> int \<Rightarrow> signer_scheme \<Rightarrow> bytes \<Rightarrow> bytes \<Rightarrow> bytes" where
  "grpcSessionIdentifier keccak epoch scheme signerPublicKey preimage =
     keccak (sessionPreimage epoch scheme signerPublicKey preimage)"

section \<open>The signed bytes\<close>

definition REQUEST_SIGNING_PREFIX :: bytes where
  "REQUEST_SIGNING_PREFIX = 0xff # ascii ''ika-request''"

definition requestSigningMessage :: "bytes \<Rightarrow> bytes" where
  "requestSigningMessage signedRequestData = REQUEST_SIGNING_PREFIX @ signedRequestData"

record transport_keypair =
  kp_secretKey :: bytes
  kp_publicKey :: bytes

record signed_request =
  sr_userSignature :: bytes
  sr_signedRequestData :: bytes

text \<open>\<open>ed25519.sign(message, secretKey)\<close>, \<open>None\<close> where it throws.\<close>

type_synonym ed25519_sign = "bytes \<Rightarrow> bytes \<Rightarrow> bytes option"

definition signSerializedRequest ::
    "sdk_lib \<Rightarrow> ed25519_sign \<Rightarrow> transport_keypair \<Rightarrow> bytes \<Rightarrow> sdk_error + signed_request" where
  "signSerializedRequest L sign keypair data =
     seqE (assertSignedRequestDataWithinLimit data)
    (bindE (ofOption (Err ''ed25519'') (sign (requestSigningMessage data) (kp_secretKey keypair))) (\<lambda>signature.
     bindE (ofOption (Err ''bcs'') (serialize (userSignatureBcs L) (UserEd25519 signature (kp_publicKey keypair)))) (\<lambda>u.
     Inr \<lparr>sr_userSignature = u, sr_signedRequestData = data\<rparr>)))"

definition signRequestBytes ::
    "sdk_lib \<Rightarrow> ed25519_sign \<Rightarrow> transport_keypair \<Rightarrow> signed_request_data \<Rightarrow> sdk_error + signed_request" where
  "signRequestBytes L sign keypair d =
     seqE (assertRequestFieldsWithinLimits d)
    (bindE (ofOption (Err ''bcs'') (serialize (signedRequestDataBcs L) d)) (\<lambda>data.
       signSerializedRequest L sign keypair data))"

section \<open>Laws\<close>

lemma requestFieldsWithin_Inr [result_simps]:
  "assertRequestFieldsWithinLimits d = Inr u \<longleftrightarrow>
     list_all (\<lambda>(name, limit, len). len \<le> LIMIT_BYTES limit) (requestFields d)"
proof -
  have "find (\<lambda>(name, limit, len). len > LIMIT_BYTES limit) xs = None \<longleftrightarrow>
      list_all (\<lambda>(name, limit, len). len \<le> LIMIT_BYTES limit) xs" for xs :: "byte_field list"
    by (induction xs) auto
  from this [of "requestFields d"] show ?thesis
    by (auto simp: assertRequestFieldsWithinLimits_def split: option.splits)
qed

text \<open>The byte fields of a request are held to the network's limits.\<close>

definition attestation_fits :: "network_signed_attestation \<Rightarrow> bool" where
  "attestation_fits a \<longleftrightarrow>
     length (attestation_data a) \<le> 16384 \<and> length (network_signature a) \<le> 16384 \<and>
     length (network_pubkey a) \<le> 16384"

lemma attestationFields_fit [simp]:
  "list_all (\<lambda>(name, limit, len). len \<le> LIMIT_BYTES limit) (attestationFields p a) = attestation_fits a"
  by (simp add: GRPC_REQUEST_SIZE_LIMITS_def attestationFields_def attestation_fits_def)

text \<open>
  A signed request carries exactly the request's BCS bytes, at most 65536 of them, under a
  signature over the request's own signing message, and a sign's message, metadata, signature and
  attestation were each within the network's limits.
\<close>

theorem signRequestBytes_sign:
  assumes "req_request d = Sign s \<or> req_request d = ImportedKeySign s"
  shows "signRequestBytes L sign keypair d = Inr r \<longleftrightarrow>
     length (req_intended_chain_sender d) \<le> 16384 \<and>
     length (sg_message s) \<le> 16384 \<and> length (sg_message_metadata s) \<le> 256 \<and>
     length (sg_presign_session_identifier s) \<le> 16384 \<and>
     length (sg_message_centralized_signature s) \<le> 16384 \<and> attestation_fits (sg_dwallet_attestation s) \<and>
     serialize (signedRequestDataBcs L) d = Some (sr_signedRequestData r) \<and>
     length (sr_signedRequestData r) \<le> 65536 \<and>
     (\<exists>sig. sign (REQUEST_SIGNING_PREFIX @ sr_signedRequestData r) (kp_secretKey keypair) = Some sig \<and>
        serialize (userSignatureBcs L) (UserEd25519 sig (kp_publicKey keypair)) = Some (sr_userSignature r))"
proof -
  have fields: "list_all (\<lambda>(name, limit, len). len \<le> LIMIT_BYTES limit) (requestFields d) \<longleftrightarrow>
     length (req_intended_chain_sender d) \<le> 16384 \<and>
     length (sg_message s) \<le> 16384 \<and> length (sg_message_metadata s) \<le> 256 \<and>
     length (sg_presign_session_identifier s) \<le> 16384 \<and>
     length (sg_message_centralized_signature s) \<le> 16384 \<and> attestation_fits (sg_dwallet_attestation s)"
    using assms by (auto simp: requestFields_def signFields_def GRPC_REQUEST_SIZE_LIMITS_def)
  have whole: "assertSignedRequestDataWithinLimit b = Inr () \<longleftrightarrow> length b \<le> 65536" for b
    by (auto simp: assertSignedRequestDataWithinLimit_def GRPC_REQUEST_SIZE_LIMITS_def result_simps)
  show ?thesis
    unfolding signRequestBytes_def signSerializedRequest_def
    by (cases r) (auto simp: result_simps fields whole requestSigningMessage_def)
qed

text \<open>
  The field limits reach only the kinds the check names: a future sign, a completion of one, an
  imported key's verification and an attached share pass it whatever the size of their fields, with
  the chain sender alone held to its limit.
\<close>

theorem unlisted_kinds_unchecked:
  assumes "case req_request d of
      FutureSign _ \<Rightarrow> True | SignWithPartialUserSig _ \<Rightarrow> True | ImportedKeySignWithPartialUserSig _ \<Rightarrow> True
    | ImportedKeyVerification _ \<Rightarrow> True | AttachEncryptedShare _ \<Rightarrow> True | _ \<Rightarrow> False"
  shows "assertRequestFieldsWithinLimits d = Inr () \<longleftrightarrow> length (req_intended_chain_sender d) \<le> 16384"
  using assms by (simp add: result_simps requestFields_def GRPC_REQUEST_SIZE_LIMITS_def split: dwallet_request.splits)

lemma SIGNER_SCHEME_BYTE_inject [simp]: "SIGNER_SCHEME_BYTE s = SIGNER_SCHEME_BYTE t \<longleftrightarrow> s = t"
  by (cases s; cases t) auto

text \<open>The length of a key of a scheme, which the scheme's byte fixes.\<close>

fun keyLength :: "signer_scheme \<Rightarrow> nat" where
  "keyLength SignerEd25519 = 32"
| "keyLength SignerSecp256k1 = 33"
| "keyLength SignerSecp256r1 = 33"

text \<open>
  The bytes hashed into a session identifier determine the session: its epoch, the scheme and
  the key that signs the request, and the preimage, for keys of their scheme's length and epochs
  that are \<open>u64\<close>; so no other key can name the preimage and open the same session.
\<close>

theorem sessionPreimage_inject:
  assumes "length k = keyLength s" "length k' = keyLength s'"
    and "0 \<le> e" "e \<le> u64_max" "0 \<le> e'" "e' \<le> u64_max"
  shows "sessionPreimage e s k p = sessionPreimage e' s' k' p' \<longleftrightarrow> e = e' \<and> s = s' \<and> k = k' \<and> p = p'"
proof -
  have "be_bytes 8 e = be_bytes 8 e' \<longleftrightarrow> e = e'"
    using assms(3-6) unfolding u64_max_pow by (intro be_bytes_inject) auto
  then have "sessionPreimage e s k p = sessionPreimage e' s' k' p' \<longleftrightarrow>
      e = e' \<and> s = s' \<and> k @ p = k' @ p'"
    by (simp add: sessionPreimage_def)
  then show ?thesis using assms(1,2) by auto
qed

text \<open>
  A request's signing message determines the request's bytes, and is never the message of an
  attestation: a key's signature over the one is no signature over the other.
\<close>

theorem requestSigningMessage_apart:
  "(requestSigningMessage a = requestSigningMessage b \<longleftrightarrow> a = b) \<and>
   requestSigningMessage a \<noteq> attestationSigningMessage kind c"
  by (simp add: requestSigningMessage_def REQUEST_SIGNING_PREFIX_def attestationSigningMessage_def
      ATTESTATION_SIGNING_PREFIX_def)

end
