(* ===== verification/Answer_Checks.thy ===== *)
theory Answer_Checks
  imports Record_Laws Signatures Request_Signing
begin

text \<open>
  The checks of the network's answer to a request (\<open>grpc/answer-checks.ts\<close>) and the holder's
  acceptance of a new dWallet's share (\<open>grpc/dwallet-share-acceptance.ts\<close>,
  \<open>grpc/share-acceptance-signing.ts\<close>): each compares what the network signed with what the client
  sent, field by field, in the order of the source.
\<close>

section \<open>The attestation of an answer\<close>

definition requireSent :: "string \<Rightarrow> bool \<Rightarrow> sdk_error + unit" where
  "requireSent fld holds = guardE holds (field_error CkBinding fld)"

definition attestationOfAnswer ::
    "transaction_response \<Rightarrow> ika_network \<Rightarrow> bytes \<Rightarrow> sdk_error + network_signed_attestation" where
  "attestationOfAnswer response net expectedKey =
     (case response of
        ErrorResponse m \<Rightarrow> Inl (Err (''the network refused the request: '' @ m))
      | SignatureResponse s \<Rightarrow> Inl (Err ''a request that changes state was answered with a signature'')
      | AttestationResponse a \<Rightarrow>
          seqE (verifyAttestationNetworkKey (network_pubkey a) expectedKey net None) (Inr a))"

text \<open>A decode that checks nothing but that the bytes parse.\<close>

definition decodeV1 :: "'v versioned bcs_type \<Rightarrow> bytes \<Rightarrow> sdk_error + 'v" where
  "decodeV1 type bs =
     (case parse type bs of None \<Rightarrow> Inl (att_error CkDecode) | Some (V1 v) \<Rightarrow> Inr v)"

section \<open>Making a share public\<close>

record sent_make_public =
  smp_sessionIdentifier :: bytes
  smp_networkKeyId :: bytes
  smp_publicUserSecretKeyShare :: bytes

definition verifyMakeSharePublicAnswer ::
    "sdk_lib \<Rightarrow> transaction_response \<Rightarrow> trusted_network_keys \<Rightarrow> verified_dwallet \<Rightarrow> sent_make_public
      \<Rightarrow> sdk_error + public_share_attestation" where
  "verifyMakeSharePublicAnswer L response trusted dwallet sent =
     bindE (attestationOfAnswer response (network trusted) (smp_networkKeyId sent)) (\<lambda>answer.
     bindE (verifyPublicShareAttestationRecord L (recordOfAttestation answer) trusted dwallet) (\<lambda>att.
     seqE (requireSent ''session_identifier''
             (equalBytes (ps_session_identifier att) (smp_sessionIdentifier sent)))
    (seqE (requireSent ''public_user_secret_key_share''
             (equalBytes (ps_public_user_secret_key_share att) (smp_publicUserSecretKeyShare sent)))
      (Inr att))))"

section \<open>Re-encrypting a share\<close>

record sent_re_encrypt =
  sre_sessionIdentifier :: bytes
  sre_networkKeyId :: bytes
  sre_encryptedShareAndProof :: bytes
  sre_encryptionKey :: bytes
  sre_holderSignerPublicKey :: bytes

definition verifyReEncryptShareAnswer ::
    "sdk_lib \<Rightarrow> transaction_response \<Rightarrow> trusted_network_keys \<Rightarrow> verified_dwallet \<Rightarrow> sent_re_encrypt
      \<Rightarrow> sdk_error + encrypted_share_attestation" where
  "verifyReEncryptShareAnswer L response trusted dwallet sent =
     bindE (attestationOfAnswer response (network trusted) (sre_networkKeyId sent)) (\<lambda>answer.
     bindE (verifyEncryptedShareAttestationRecord L (recordOfAttestation answer) trusted dwallet
              \<lparr>holderSignerPublicKey = sre_holderSignerPublicKey sent, holderSignatureScheme = None\<rparr>) (\<lambda>att.
     seqE (requireSent ''session_identifier''
             (equalBytes (es_session_identifier att) (sre_sessionIdentifier sent)))
    (seqE (requireSent ''encrypted_share_hash''
             (equalBytes (es_encrypted_share_hash att) (keccak_256 L (sre_encryptedShareAndProof sent))))
    (seqE (requireSent ''encryption_key_hash''
             (equalBytes (es_encryption_key_hash att) (keccak_256 L (sre_encryptionKey sent))))
      (Inr att)))))"

section \<open>Step 1 of a future sign\<close>

definition futureSignMessageDigests :: "sdk_lib \<Rightarrow> bytes \<Rightarrow> bytes \<Rightarrow> bytes \<times> bytes" where
  "futureSignMessageDigests L message metadata =
     (keccak_256 L message, if length metadata = 0 then replicate 32 0 else keccak_256 L metadata)"

record sent_future_sign =
  sfs_sessionIdentifier :: bytes
  sfs_intendedChainSender :: bytes
  sfs_dwalletAttestation :: network_signed_attestation
  sfs_presignAttestation :: network_signed_attestation
  sfs_message :: bytes
  sfs_messageMetadata :: bytes
  sfs_signatureScheme :: scheme_name
  sfs_futureSignatureVoucher :: bytes

definition verifyFutureSignAnswer ::
    "sdk_lib \<Rightarrow> transaction_response \<Rightarrow> trusted_network_keys \<Rightarrow> sent_future_sign
      \<Rightarrow> sdk_error + partial_signature_attestation" where
  "verifyFutureSignAnswer L response trusted sent =
     bindE (attestationOfAnswer response (network trusted) (network_pubkey (sfs_dwalletAttestation sent))) (\<lambda>answer.
     seqE (verifyAttestationRecord L (recordOfAttestation answer) trusted PartialUserSignatureKind None)
    (bindE (decodeV1 (partialSignatureBcs L) (attestation_data answer)) (\<lambda>att.
     let (messageDigest, messageMetadataDigest) =
       futureSignMessageDigests L (sfs_message sent) (sfs_messageMetadata sent) in
     seqE (requireSent ''session_identifier''
             (equalBytes (pu_session_identifier att) (sfs_sessionIdentifier sent)))
    (seqE (requireSent ''intended_chain_sender''
             (equalBytes (pu_intended_chain_sender att) (sfs_intendedChainSender sent)))
    (bindE (decodeV1 (dwalletBcs L) (attestation_data (sfs_dwalletAttestation sent))) (\<lambda>dwallet.
     seqE (requireSent ''dwallet_public_key''
             (equalBytes (pu_dwallet_public_key att) (dw_public_key dwallet)))
    (seqE (requireSent ''dwallet_attestation_hash''
             (equalBytes (pu_dwallet_attestation_hash att)
                (dwalletAttestationDigest L (attestation_data (sfs_dwalletAttestation sent)))))
    (seqE (requireSent ''future_signature_voucher''
             (equalBytes (pu_future_signature_voucher att) (sfs_futureSignatureVoucher sent)))
    (bindE (decodeV1 (presignBcs L) (attestation_data (sfs_presignAttestation sent))) (\<lambda>presign.
     seqE (requireSent ''presign_session_identifier''
             (equalBytes (pu_presign_session_identifier att) (pr_presign_session_identifier presign)))
    (seqE (requireSent ''presign_attestation_hash''
             (equalBytes (pu_presign_attestation_hash att)
                (keccak_256 L (attestation_data (sfs_presignAttestation sent)))))
    (seqE (requireSent ''message_digest''
             (equalBytes (pu_message_digest att) messageDigest \<and>
              equalBytes (pu_message_metadata_digest att) messageMetadataDigest))
    (seqE (requireSent ''signature_scheme'' (pu_signature_scheme att = sfs_signatureScheme sent))
      (Inr att))))))))))))))"

section \<open>Presigns\<close>

record sent_presign =
  spr_sessionIdentifier :: bytes
  spr_epoch :: int
  spr_curve :: dwallet_curve
  spr_signatureAlgorithm :: dwallet_signature_algorithm
  spr_dwalletPublicKey :: "bytes option"
  spr_networkKeyId :: bytes

definition verifyPresignAnswer ::
    "sdk_lib \<Rightarrow> transaction_response \<Rightarrow> trusted_network_keys \<Rightarrow> sent_presign \<Rightarrow> sdk_error + presign_attestation" where
  "verifyPresignAnswer L response trusted sent =
     bindE (attestationOfAnswer response (network trusted) (spr_networkKeyId sent)) (\<lambda>answer.
     seqE (verifyAttestationRecord L (recordOfAttestation answer) trusted PresignKind None)
    (bindE (decodeV1 (presignBcs L) (attestation_data answer)) (\<lambda>att.
     seqE (requireSent ''session_identifier''
             (equalBytes (pr_session_identifier att) (spr_sessionIdentifier sent)))
    (seqE (requireSent ''epoch'' (pr_epoch att = spr_epoch sent))
    (seqE (requireSent ''curve'' (pr_curve att = spr_curve sent))
    (seqE (requireSent ''signature_algorithm'' (pr_signature_algorithm att = spr_signatureAlgorithm sent))
    (let boundTo = pr_dwallet_public_key att in
     seqE (requireSent ''dwallet_public_key''
             (case spr_dwalletPublicKey sent of
                None \<Rightarrow> boundTo = None
              | Some key \<Rightarrow> (case boundTo of None \<Rightarrow> False | Some b \<Rightarrow> equalBytes b key)))
       (Inr att))))))))"

section \<open>A DKG whose user share is public\<close>

record sent_sign_during_dkg =
  ssd_message :: bytes
  ssd_messageMetadata :: bytes
  ssd_signatureScheme :: int

record sent_public_dkg =
  spd_sessionIdentifier :: bytes
  spd_intendedChainSender :: bytes
  spd_curve :: curve
  spd_networkKeyId :: bytes
  spd_userPublicOutput :: bytes
  spd_signDuringDkg :: "sent_sign_during_dkg option"

record public_dkg_answer =
  pda_attestation :: network_signed_attestation
  pda_publicKey :: bytes
  pda_publicOutput :: bytes
  pda_signature :: "bytes option"

text \<open>\<open>fromCurveToNumber\<close>, whose error is of the table lookups.\<close>

definition curveNumber :: "curve \<Rightarrow> sdk_error + int" where
  "curveNumber c = mapErr (\<lambda>_. Err ''Unknown curve'') (fromCurveToNumber c)"

text \<open>The comparison of the decoded dWallet with what was sent.\<close>

definition publicDkgFields ::
    "user_cryptography \<Rightarrow> network_signed_attestation \<Rightarrow> sent_public_dkg \<Rightarrow> dwallet_attestation
      \<Rightarrow> sdk_error + public_dkg_answer" where
  "publicDkgFields U answer sent d =
     seqE (requireSent ''session_identifier''
             (equalBytes (dw_session_identifier d) (spd_sessionIdentifier sent)))
    (seqE (requireSent ''intended_chain_sender''
             (equalBytes (dw_intended_chain_sender d) (spd_intendedChainSender sent)))
    (bindE (curveNumber (spd_curve sent)) (\<lambda>n.
     seqE (requireSent ''curve'' (indexOf ATTESTATION_CURVES (dw_curve d) = n))
    (seqE (requireSent ''is_imported_key'' (\<not> dw_is_imported_key d))
    (seqE (requireSent ''holder''
             (dw_holder d = None \<and> dw_encryption_key_hash d = None \<and> dw_encrypted_share_hash d = None))
    (let publicOutput = dw_public_output d in
     bindE (userAndNetworkDKGOutputMatch U (spd_curve sent) (spd_userPublicOutput sent) publicOutput) (\<lambda>outputsMatch.
     seqE (requireSent ''public_output'' outputsMatch)
    (bindE (publicKeyFromDWalletOutput U (spd_curve sent) publicOutput) (\<lambda>keyOfOutput.
     seqE (requireSent ''public_key'' (equalBytes (dw_public_key d) keyOfOutput))
    (let signature = dw_sign_during_dkg_signature d in
     seqE (requireSent ''sign_during_dkg_signature'' ((signature = None) = (spd_signDuringDkg sent = None)))
    (seqE (case (spd_signDuringDkg sent, signature) of
             (Some s, Some sig) \<Rightarrow>
               verifySignatureWithScheme U n (ssd_signatureScheme s) (ssd_message s) (ssd_messageMetadata s)
                 publicOutput sig
           | _ \<Rightarrow> Inr ())
      (Inr \<lparr>pda_attestation = answer, pda_publicKey = dw_public_key d, pda_publicOutput = publicOutput,
            pda_signature = signature\<rparr>))))))))))))"

definition verifyPublicShareDkgAnswer ::
    "sdk_lib \<Rightarrow> user_cryptography \<Rightarrow> transaction_response \<Rightarrow> trusted_network_keys \<Rightarrow> sent_public_dkg
      \<Rightarrow> sdk_error + public_dkg_answer" where
  "verifyPublicShareDkgAnswer L U response trusted sent =
     bindE (attestationOfAnswer response (network trusted) (spd_networkKeyId sent)) (\<lambda>answer.
     seqE (verifyAttestationRecord L (recordOfAttestation answer) trusted DWalletKind None)
    (seqE (verifyAttestationNetworkKey (network_pubkey answer) (spd_networkKeyId sent) (network trusted) (Some trusted))
    (bindE (decodeV1 (dwalletBcs L) (attestation_data answer)) (publicDkgFields U answer sent))))"

section \<open>The acceptance of a new dWallet's share\<close>

datatype creating_kind = DkgRequestKind | ImportedKeyVerificationKind

record sent_dwallet_request =
  sdr_kind :: creating_kind
  sdr_sessionIdentifier :: bytes
  sdr_intendedChainSender :: bytes
  sdr_curve :: curve
  sdr_networkKeyId :: bytes
  sdr_userPublicOutput :: bytes
  sdr_encryptionKey :: bytes
  sdr_encryptedShareAndProof :: bytes
  sdr_signDuringDkg :: "sent_sign_during_dkg option"

record ed25519_lib =
  edSign :: ed25519_sign
  edGetPublicKey :: "bytes \<Rightarrow> bytes option"

record share_acceptance =
  sac_holderPublicKey :: bytes
  sac_acceptanceDigest :: bytes
  sac_signature :: bytes

definition signShareAcceptance :: "ed25519_lib \<Rightarrow> bytes \<Rightarrow> bytes \<Rightarrow> sdk_error + share_acceptance" where
  "signShareAcceptance E secretKey digest =
     bindE (ofOption (Err ''ed25519'') (edGetPublicKey E secretKey)) (\<lambda>k.
     bindE (ofOption (Err ''ed25519'') (edSign E digest secretKey)) (\<lambda>s.
     Inr \<lparr>sac_holderPublicKey = k, sac_acceptanceDigest = digest, sac_signature = s\<rparr>))"

definition refuseUnless :: "string \<Rightarrow> bool \<Rightarrow> att_check \<Rightarrow> sdk_error + unit" where
  "refuseUnless fld holds check = guardE holds (field_error check fld)"

text \<open>Its own strict decode, whose reserialize is outside the \<open>try\<close>.\<close>

definition decodeExactlyDWallet :: "sdk_lib \<Rightarrow> bytes \<Rightarrow> sdk_error + dwallet_attestation" where
  "decodeExactlyDWallet L bs =
     (case parse (dwalletBcs L) bs of
        None \<Rightarrow> Inl (att_error CkDecode)
      | Some decoded \<Rightarrow>
          bindE (ofOption (Err ''bcs'') (serialize (dwalletBcs L) decoded)) (\<lambda>encoded.
          if \<not> equalBytes encoded bs then Inl (att_error CkDecode) else Inr (v1 decoded)))"

definition networkSignatureVerifies :: "sdk_lib \<Rightarrow> bytes \<Rightarrow> bytes \<Rightarrow> bytes \<Rightarrow> bool" where
  "networkSignatureVerifies L att sig key =
     verifiedOrFalse (ed25519_verify L sig (attestationSigningMessage DWalletKind att) key)"

definition signDuringDkgSignatureVerifies ::
    "user_cryptography \<Rightarrow> int \<Rightarrow> sent_sign_during_dkg \<Rightarrow> bytes \<Rightarrow> bytes \<Rightarrow> bool" where
  "signDuringDkgSignatureVerifies U curve sent output sig =
     returned (verifySignatureWithScheme U curve (ssd_signatureScheme sent) (ssd_message sent)
       (ssd_messageMetadata sent) output sig)"

definition signDWalletShareAcceptance ::
    "sdk_lib \<Rightarrow> user_cryptography \<Rightarrow> ed25519_lib \<Rightarrow> bytes \<Rightarrow> network_signed_attestation \<Rightarrow> trusted_network_keys
      \<Rightarrow> sent_dwallet_request \<Rightarrow> sdk_error + share_acceptance" where
  "signDWalletShareAcceptance L U E holderSecretKey signedAtt trusted sent =
     bindE (decodeExactlyDWallet L (attestation_data signedAtt)) (\<lambda>att.
     seqE (refuseUnless ''signer_noa_public_key'' (trusts trusted (signer_noa_public_key signedAtt)) CkSigner)
    (seqE (refuseUnless ''network_signature''
             (networkSignatureVerifies L (attestation_data signedAtt) (network_signature signedAtt)
                (signer_noa_public_key signedAtt)) CkSignature)
    (seqE (verifyAttestationNetworkKey (network_pubkey signedAtt) (sdr_networkKeyId sent) (network trusted) (Some trusted))
    (bindE (case dw_holder att of
              None \<Rightarrow> Inr False
            | Some h \<Rightarrow>
                if holder_scheme h \<noteq> Scheme_Ed25519 then Inr False
                else bindE (ofOption (Err ''ed25519'') (edGetPublicKey E holderSecretKey)) (\<lambda>k.
                       Inr (equalBytes (holder_key h) k))) (\<lambda>holderIsOwn.
     seqE (refuseUnless ''holder'' holderIsOwn CkBinding)
    (seqE (refuseUnless ''session_identifier''
             (equalBytes (dw_session_identifier att) (sdr_sessionIdentifier sent)) CkBinding)
    (seqE (refuseUnless ''intended_chain_sender''
             (equalBytes (dw_intended_chain_sender att) (sdr_intendedChainSender sent)) CkBinding)
    (let curveNum = indexOf ATTESTATION_CURVES (dw_curve att) in
     bindE (mapErr (\<lambda>_. Err ''Unknown curve number'') (fromNumberToCurve curveNum)) (\<lambda>attestedCurve.
     seqE (refuseUnless ''curve'' (attestedCurve = sdr_curve sent) CkBinding)
    (seqE (refuseUnless ''is_imported_key''
             (dw_is_imported_key att = (sdr_kind sent = ImportedKeyVerificationKind)) CkBinding)
    (let publicOutput = dw_public_output att in
     bindE (userAndNetworkDKGOutputMatch U (sdr_curve sent) (sdr_userPublicOutput sent) publicOutput) (\<lambda>outputsMatch.
     seqE (refuseUnless ''public_output'' outputsMatch CkBinding)
    (bindE (publicKeyFromDWalletOutput U (sdr_curve sent) publicOutput) (\<lambda>keyOfOutput.
     seqE (refuseUnless ''public_key'' (equalBytes (dw_public_key att) keyOfOutput) CkBinding)
    (seqE (refuseUnless ''encryption_key_hash''
             (case dw_encryption_key_hash att of
                None \<Rightarrow> False | Some h \<Rightarrow> equalBytes h (keccak_256 L (sdr_encryptionKey sent))) CkBinding)
    (seqE (refuseUnless ''encrypted_share_hash''
             (case dw_encrypted_share_hash att of
                None \<Rightarrow> False | Some h \<Rightarrow> equalBytes h (keccak_256 L (sdr_encryptedShareAndProof sent))) CkBinding)
    (seqE (case sdr_signDuringDkg sent of
             None \<Rightarrow> refuseUnless ''sign_during_dkg_signature_unasked''
                       (dw_sign_during_dkg_signature att = None) CkBinding
           | Some s \<Rightarrow> refuseUnless ''sign_during_dkg_signature''
                       (case dw_sign_during_dkg_signature att of
                          None \<Rightarrow> False
                        | Some sig \<Rightarrow> signDuringDkgSignatureVerifies U curveNum s publicOutput sig) CkBinding)
      (signShareAcceptance E holderSecretKey
        (dwalletAttestationDigest L (attestation_data signedAtt))))))))))))))))))))"

end
