(* ===== verification/Answer_Laws.thy ===== *)
theory Answer_Laws
  imports Answer_Checks
begin

text \<open>
  What the answer checks promise: an answer passes exactly when it is an attestation of the kind the
  request is answered with, signed by a trusted key under the request's network key, and every field
  the request fixed is the one sent.
\<close>

section \<open>Parts of a check\<close>

lemma requireSent_Inr [result_simps]: "requireSent f b = Inr u \<longleftrightarrow> b"
  by (auto simp: requireSent_def result_simps)

lemma refuseUnless_Inr [result_simps]: "refuseUnless f b c = Inr u \<longleftrightarrow> b"
  by (auto simp: refuseUnless_def result_simps)

lemma decodeV1_Inr [result_simps]: "decodeV1 type bs = Inr v \<longleftrightarrow> parse type bs = Some (V1 v)"
  by (auto simp: decodeV1_def split: option.splits versioned.splits)

lemma attestationOfAnswer_Inr [result_simps]:
  "attestationOfAnswer response net key = Inr a \<longleftrightarrow>
     response = AttestationResponse a \<and> key_named net key (network_pubkey a)"
  by (cases response) (auto simp: attestationOfAnswer_def result_simps)

text \<open>The contract of an answer: an attestation of the kind, trusted and decoded.\<close>

definition answered_with ::
    "sdk_lib \<Rightarrow> 'v versioned bcs_type \<Rightarrow> attestation_kind \<Rightarrow> transaction_response \<Rightarrow> trusted_network_keys
      \<Rightarrow> bytes \<Rightarrow> network_signed_attestation \<Rightarrow> 'v \<Rightarrow> bool" where
  "answered_with L type kind response trusted key a v \<longleftrightarrow>
     response = AttestationResponse a \<and> key_named (network trusted) key (network_pubkey a) \<and>
     signed_record L type kind (recordOfAttestation a) trusted v"

lemma attestationData_recordOfAttestation [simp]:
  "attestationData (recordOfAttestation a) = attestation_data a"
  by (simp add: recordOfAttestation_def)

lemma signed_parse: "signed_record L type kind (recordOfAttestation a) trusted w \<Longrightarrow>
    parse type (attestation_data a) = Some (V1 v) \<longleftrightarrow> v = w"
  by (auto simp: signed_record_def decodes_def)

lemma checked_and_decoded:
  "(\<exists>w. signed_record L type kind (recordOfAttestation a) trusted w) \<and>
     parse type (attestation_data a) = Some (V1 v) \<longleftrightarrow>
   signed_record L type kind (recordOfAttestation a) trusted v"
  using signed_parse by (metis (no_types, lifting))

lemma decoded_answer_Inr:
  assumes "\<And>rec. verifyAttestationRecord L rec trusted kind None = Inr () \<longleftrightarrow>
      (\<exists>w. signed_record L type kind rec trusted w)"
  shows "bindE (attestationOfAnswer response (network trusted) key) (\<lambda>a.
      seqE (verifyAttestationRecord L (recordOfAttestation a) trusted kind None)
        (bindE (decodeV1 type (attestation_data a)) (f a))) = Inr r \<longleftrightarrow>
    (\<exists>a v. answered_with L type kind response trusted key a v \<and> f a v = Inr r)"
proof -
  have "(\<exists>w. signed_record L type kind (recordOfAttestation a) trusted w) \<and>
      (\<exists>v. parse type (attestation_data a) = Some (V1 v) \<and> f a v = Inr r) \<longleftrightarrow>
    (\<exists>v. signed_record L type kind (recordOfAttestation a) trusted v \<and> f a v = Inr r)" for a
    using checked_and_decoded [of L type kind a trusted] by blast
  then show ?thesis
    unfolding answered_with_def bindE_eq_Inr seqE_eq_Inr assms decodeV1_Inr attestationOfAnswer_Inr by blast
qed

lemmas decoded_answers =
  decoded_answer_Inr [where kind = DWalletKind, OF verifyAttestationRecord_Inr [where kind = DWalletKind, unfolded attested.simps]]
  decoded_answer_Inr [where kind = PresignKind, OF verifyAttestationRecord_Inr [where kind = PresignKind, unfolded attested.simps]]
  decoded_answer_Inr [where kind = PartialUserSignatureKind,
    OF verifyAttestationRecord_Inr [where kind = PartialUserSignatureKind, unfolded attested.simps]]

section \<open>Shares\<close>

text \<open>
  The answers to a make-public and to a re-encryption pass exactly when they are the attestation
  of a share of this dWallet under a trusted key, for the request's own session, and hold what the
  request sent: the very public share, or the hashes of the share and the key it was encrypted to,
  and the new holder.
\<close>

theorem share_answers_iff:
  "(verifyMakeSharePublicAnswer L response trusted dwallet sent = Inr att \<longleftrightarrow>
      (\<exists>a. answered_with L (publicShareBcs L) PublicShareKind response trusted (smp_networkKeyId sent) a att) \<and>
      binds_dwallet L dwallet (ps_intended_chain_sender att) (ps_dwallet_public_key att)
        (ps_dwallet_attestation_digest att) \<and>
      length (ps_public_user_secret_key_share att) =
        (case dw_curve (vd_attestation dwallet) of
           Curve_Secp256k1 \<Rightarrow> 35 | Curve_Secp256r1 \<Rightarrow> 35 | Curve_Curve25519 \<Rightarrow> 34 | Curve_Ristretto \<Rightarrow> 34) \<and>
      (ps_session_identifier att = dw_session_identifier (vd_attestation dwallet) \<longrightarrow>
         dw_holder (vd_attestation dwallet) = None) \<and>
      ps_session_identifier att = smp_sessionIdentifier sent \<and>
      ps_public_user_secret_key_share att = smp_publicUserSecretKeyShare sent) \<and>
   (verifyReEncryptShareAnswer L response trusted dwallet sent' = Inr att' \<longleftrightarrow>
      (\<exists>a. answered_with L (encryptedShareBcs L) EncryptedShareKind response trusted (sre_networkKeyId sent') a att') \<and>
      binds_dwallet L dwallet (es_intended_chain_sender att') (es_dwallet_public_key att')
        (es_dwallet_attestation_digest att') \<and>
      es_holder att' = \<lparr>holder_scheme = Scheme_Ed25519, holder_key = sre_holderSignerPublicKey sent'\<rparr> \<and>
      es_session_identifier att' = sre_sessionIdentifier sent' \<and>
      es_encrypted_share_hash att' = keccak_256 L (sre_encryptedShareAndProof sent') \<and>
      es_encryption_key_hash att' = keccak_256 L (sre_encryptionKey sent') \<and>
      (es_session_identifier att' = dw_session_identifier (vd_attestation dwallet) \<longrightarrow>
         dw_encrypted_share_hash (vd_attestation dwallet) = Some (es_encrypted_share_hash att') \<and>
         dw_encryption_key_hash (vd_attestation dwallet) = Some (es_encryption_key_hash att') \<and>
         dw_holder (vd_attestation dwallet) = Some (es_holder att')))"
proof
  show "verifyMakeSharePublicAnswer L response trusted dwallet sent = Inr att \<longleftrightarrow>
      (\<exists>a. answered_with L (publicShareBcs L) PublicShareKind response trusted (smp_networkKeyId sent) a att) \<and>
      binds_dwallet L dwallet (ps_intended_chain_sender att) (ps_dwallet_public_key att)
        (ps_dwallet_attestation_digest att) \<and>
      length (ps_public_user_secret_key_share att) =
        (case dw_curve (vd_attestation dwallet) of
           Curve_Secp256k1 \<Rightarrow> 35 | Curve_Secp256r1 \<Rightarrow> 35 | Curve_Curve25519 \<Rightarrow> 34 | Curve_Ristretto \<Rightarrow> 34) \<and>
      (ps_session_identifier att = dw_session_identifier (vd_attestation dwallet) \<longrightarrow>
         dw_holder (vd_attestation dwallet) = None) \<and>
      ps_session_identifier att = smp_sessionIdentifier sent \<and>
      ps_public_user_secret_key_share att = smp_publicUserSecretKeyShare sent"
    unfolding verifyMakeSharePublicAnswer_def answered_with_def
    by (simp add: result_simps public_share_record_Inr if_bool_eq_conj) blast
next
  have holder: "askedHolder h \<lparr>holderSignerPublicKey = k, holderSignatureScheme = None\<rparr> \<longleftrightarrow>
      h = \<lparr>holder_scheme = Scheme_Ed25519, holder_key = k\<rparr>" for h k
    by (cases h; cases "holder_scheme h")
      (auto simp: askedHolder_def indexOf_def ATTESTATION_SIGNATURE_SCHEMES_def)
  show "verifyReEncryptShareAnswer L response trusted dwallet sent' = Inr att' \<longleftrightarrow>
      (\<exists>a. answered_with L (encryptedShareBcs L) EncryptedShareKind response trusted (sre_networkKeyId sent') a att') \<and>
      binds_dwallet L dwallet (es_intended_chain_sender att') (es_dwallet_public_key att')
        (es_dwallet_attestation_digest att') \<and>
      es_holder att' = \<lparr>holder_scheme = Scheme_Ed25519, holder_key = sre_holderSignerPublicKey sent'\<rparr> \<and>
      es_session_identifier att' = sre_sessionIdentifier sent' \<and>
      es_encrypted_share_hash att' = keccak_256 L (sre_encryptedShareAndProof sent') \<and>
      es_encryption_key_hash att' = keccak_256 L (sre_encryptionKey sent') \<and>
      (es_session_identifier att' = dw_session_identifier (vd_attestation dwallet) \<longrightarrow>
         dw_encrypted_share_hash (vd_attestation dwallet) = Some (es_encrypted_share_hash att') \<and>
         dw_encryption_key_hash (vd_attestation dwallet) = Some (es_encryption_key_hash att') \<and>
         dw_holder (vd_attestation dwallet) = Some (es_holder att'))"
    unfolding verifyReEncryptShareAnswer_def answered_with_def
    by (simp add: result_simps encrypted_share_record_Inr holder if_bool_eq_conj) blast
qed

section \<open>Presigns and future signs\<close>

text \<open>
  The answer to a presign passes exactly when it is a presign attestation under a trusted key
  for the request's own session and epoch, on its curve and for its algorithm, bound to the dWallet
  a presign for one named and to none otherwise: an earlier presign of the same requester does not.
\<close>

theorem verifyPresignAnswer_iff:
  "verifyPresignAnswer L response trusted sent = Inr att \<longleftrightarrow>
     (\<exists>a. answered_with L (presignBcs L) PresignKind response trusted (spr_networkKeyId sent) a att) \<and>
     pr_session_identifier att = spr_sessionIdentifier sent \<and> pr_epoch att = spr_epoch sent \<and>
     pr_curve att = spr_curve sent \<and> pr_signature_algorithm att = spr_signatureAlgorithm sent \<and>
     pr_dwallet_public_key att = spr_dwalletPublicKey sent"
proof -
  have bound: "(case k of None \<Rightarrow> b = None | Some key \<Rightarrow>
      (case b of None \<Rightarrow> False | Some b' \<Rightarrow> equalBytes b' key)) \<longleftrightarrow> b = k" for k b
    by (cases k; cases b) auto
  show ?thesis
    unfolding verifyPresignAnswer_def decoded_answers by (auto simp: result_simps bound Let_def)
qed

lemma future_answer_Inr:
  "verifyFutureSignAnswer L response trusted sent = Inr att \<longleftrightarrow>
     (\<exists>a. answered_with L (partialSignatureBcs L) PartialUserSignatureKind response trusted
        (network_pubkey (sfs_dwalletAttestation sent)) a att) \<and>
     pu_session_identifier att = sfs_sessionIdentifier sent \<and>
     pu_intended_chain_sender att = sfs_intendedChainSender sent \<and>
     (\<exists>d. parse (dwalletBcs L) (attestation_data (sfs_dwalletAttestation sent)) = Some (V1 d) \<and>
        pu_dwallet_public_key att = dw_public_key d) \<and>
     pu_dwallet_attestation_hash att = keccak_256 L (attestation_data (sfs_dwalletAttestation sent)) \<and>
     pu_future_signature_voucher att = sfs_futureSignatureVoucher sent \<and>
     (\<exists>p. parse (presignBcs L) (attestation_data (sfs_presignAttestation sent)) = Some (V1 p) \<and>
        pu_presign_session_identifier att = pr_presign_session_identifier p) \<and>
     pu_presign_attestation_hash att = keccak_256 L (attestation_data (sfs_presignAttestation sent)) \<and>
     pu_message_digest att = keccak_256 L (sfs_message sent) \<and>
     pu_message_metadata_digest att =
       (if sfs_messageMetadata sent = [] then replicate 32 0 else keccak_256 L (sfs_messageMetadata sent)) \<and>
     pu_signature_scheme att = sfs_signatureScheme sent"
  unfolding verifyFutureSignAnswer_def decoded_answers
  by (auto simp: result_simps Let_def futureSignMessageDigests_def dwalletAttestationDigest_def)

text \<open>
  The answer to step 1 of a future sign passes exactly when it is a partial signature's
  attestation under a trusted key for the request's own session and sender, made with the very
  dWallet attestation and presign attestation the request carried, for the voucher, the message, the
  metadata and the scheme it named.
\<close>

theorem verifyFutureSignAnswer_iff:
  "verifyFutureSignAnswer L response trusted sent = Inr att \<longleftrightarrow>
     (\<exists>a. answered_with L (partialSignatureBcs L) PartialUserSignatureKind response trusted
        (network_pubkey (sfs_dwalletAttestation sent)) a att) \<and>
     pu_session_identifier att = sfs_sessionIdentifier sent \<and>
     pu_intended_chain_sender att = sfs_intendedChainSender sent \<and>
     (\<exists>d. parse (dwalletBcs L) (attestation_data (sfs_dwalletAttestation sent)) = Some (V1 d) \<and>
        pu_dwallet_public_key att = dw_public_key d) \<and>
     pu_dwallet_attestation_hash att = keccak_256 L (attestation_data (sfs_dwalletAttestation sent)) \<and>
     pu_future_signature_voucher att = sfs_futureSignatureVoucher sent \<and>
     (\<exists>p. parse (presignBcs L) (attestation_data (sfs_presignAttestation sent)) = Some (V1 p) \<and>
        pu_presign_session_identifier att = pr_presign_session_identifier p) \<and>
     pu_presign_attestation_hash att = keccak_256 L (attestation_data (sfs_presignAttestation sent)) \<and>
     pu_message_digest att = keccak_256 L (sfs_message sent) \<and>
     pu_message_metadata_digest att =
       (if sfs_messageMetadata sent = [] then replicate 32 0 else keccak_256 L (sfs_messageMetadata sent)) \<and>
     pu_signature_scheme att = sfs_signatureScheme sent"
  by (rule future_answer_Inr)

section \<open>New dWallets\<close>

text \<open>The output and key of a dWallet match the user's own under the user's cryptography.\<close>

definition output_matches :: "user_cryptography \<Rightarrow> curve \<Rightarrow> bytes \<Rightarrow> dwallet_attestation \<Rightarrow> bool" where
  "output_matches U c own d \<longleftrightarrow>
     userAndNetworkDKGOutputMatch U c own (dw_public_output d) = Inr True \<and>
     publicKeyFromDWalletOutput U c (dw_public_output d) = Inr (dw_public_key d)"

text \<open>A signature is there exactly when one was asked for, and then verifies under the dWallet's key.\<close>

definition asked_signature :: "user_cryptography \<Rightarrow> int \<Rightarrow> sent_sign_during_dkg option \<Rightarrow> dwallet_attestation \<Rightarrow> bool" where
  "asked_signature U n asked d \<longleftrightarrow>
     (case (asked, dw_sign_during_dkg_signature d) of
        (None, None) \<Rightarrow> True
      | (Some s, Some sig) \<Rightarrow>
          (\<exists>m. signingMethod U n (ssd_signatureScheme s) (ssd_messageMetadata s) = Some m \<and>
             verifiesBy U m (dw_public_output d) (ssd_message s) sig = Inr ())
      | _ \<Rightarrow> False)"

lemma curveNumber_Inr [result_simps]:
  "curveNumber c = Inr n \<longleftrightarrow> n = (case c of SECP256K1 \<Rightarrow> 0 | SECP256R1 \<Rightarrow> 1 | ED25519 \<Rightarrow> 2 | RISTRETTO \<Rightarrow> 3)"
  by (cases c) (auto simp: curveNumber_def fromCurveToNumber_def curveConfigOf_def scheme_tables result_simps)

fun attested_curve :: "curve \<Rightarrow> dwallet_curve" where
  "attested_curve SECP256K1 = Curve_Secp256k1"
| "attested_curve SECP256R1 = Curve_Secp256r1"
| "attested_curve ED25519 = Curve_Curve25519"
| "attested_curve RISTRETTO = Curve_Ristretto"

lemma attested_curve_number:
  "indexOf ATTESTATION_CURVES d =
     (case c of SECP256K1 \<Rightarrow> 0 | SECP256R1 \<Rightarrow> 1 | ED25519 \<Rightarrow> 2 | RISTRETTO \<Rightarrow> 3) \<longleftrightarrow> d = attested_curve c"
  by (cases c; cases d) (simp_all add: indexOf_def ATTESTATION_CURVES_def)

lemma attested_curve_of_number:
  "fromNumberToCurve (indexOf ATTESTATION_CURVES d) = Inr c \<longleftrightarrow> d = attested_curve c"
  by (cases c; cases d)
    (simp_all add: indexOf_def ATTESTATION_CURVES_def fromNumberToCurve_def scheme_tables result_simps)

lemma asked_signature_check:
  "(dw_sign_during_dkg_signature d = None) = (asked = None) \<and>
   (case (asked, dw_sign_during_dkg_signature d) of
      (Some s, Some sig) \<Rightarrow>
        verifySignatureWithScheme U n (ssd_signatureScheme s) (ssd_message s) (ssd_messageMetadata s)
          (dw_public_output d) sig
    | _ \<Rightarrow> Inr ()) = Inr () \<and> P \<longleftrightarrow> asked_signature U n asked d \<and> P"
  by (cases asked; cases "dw_sign_during_dkg_signature d") (auto simp: asked_signature_def verify_method)

lemma curve_check:
  "(\<exists>n. curveNumber c = Inr n \<and> indexOf ATTESTATION_CURVES d = n \<and> P n) \<longleftrightarrow>
     d = attested_curve c \<and> P (indexOf ATTESTATION_CURVES d)"
  using attested_curve_number [of d c] by (auto simp only: curveNumber_Inr)

lemma outputs_check:
  "(\<exists>b. userAndNetworkDKGOutputMatch U c own (dw_public_output d) = Inr b \<and> b \<and>
     (\<exists>k. publicKeyFromDWalletOutput U c (dw_public_output d) = Inr k \<and> dw_public_key d = k \<and> P)) \<longleftrightarrow>
   output_matches U c own d \<and> P"
  by (auto simp: output_matches_def)

lemma publicDkgFields_Inr:
  "publicDkgFields U a sent d = Inr r \<longleftrightarrow>
     dw_session_identifier d = spd_sessionIdentifier sent \<and>
     dw_intended_chain_sender d = spd_intendedChainSender sent \<and>
     dw_curve d = attested_curve (spd_curve sent) \<and> \<not> dw_is_imported_key d \<and>
     dw_holder d = None \<and> dw_encryption_key_hash d = None \<and> dw_encrypted_share_hash d = None \<and>
     output_matches U (spd_curve sent) (spd_userPublicOutput sent) d \<and>
     asked_signature U (indexOf ATTESTATION_CURVES (dw_curve d)) (spd_signDuringDkg sent) d \<and>
     r = \<lparr>pda_attestation = a, pda_publicKey = dw_public_key d, pda_publicOutput = dw_public_output d,
          pda_signature = dw_sign_during_dkg_signature d\<rparr>"
  unfolding publicDkgFields_def Let_def bindE_eq_Inr seqE_eq_Inr requireSent_Inr equalBytes_iff
    asked_signature_check curve_check outputs_check sum.inject
  by (simp only: conj_assoc eq_commute [of r])

text \<open>
  The answer to a DKG with a public share passes exactly when it is a dWallet's attestation under
  a trusted key and a trusted network key, for the request's own session, sender and curve, not
  imported and with no holder, whose output and key are the user's own, and which carries a
  signature exactly when one was asked for, one that verifies; the result is that attestation's.
\<close>

theorem verifyPublicShareDkgAnswer_iff:
  "verifyPublicShareDkgAnswer L U response trusted sent = Inr r \<longleftrightarrow>
     (\<exists>a d. answered_with L (dwalletBcs L) DWalletKind response trusted (spd_networkKeyId sent) a d \<and>
        network_pubkey a \<in> set (publicKeys trusted) \<and>
        dw_session_identifier d = spd_sessionIdentifier sent \<and>
        dw_intended_chain_sender d = spd_intendedChainSender sent \<and>
        dw_curve d = attested_curve (spd_curve sent) \<and> \<not> dw_is_imported_key d \<and>
        dw_holder d = None \<and> dw_encryption_key_hash d = None \<and> dw_encrypted_share_hash d = None \<and>
        output_matches U (spd_curve sent) (spd_userPublicOutput sent) d \<and>
        asked_signature U (indexOf ATTESTATION_CURVES (dw_curve d)) (spd_signDuringDkg sent) d \<and>
        r = \<lparr>pda_attestation = a, pda_publicKey = dw_public_key d, pda_publicOutput = dw_public_output d,
             pda_signature = dw_sign_during_dkg_signature d\<rparr>)"
proof -
  have "verifyAttestationRecord L (recordOfAttestation a) trusted DWalletKind None = Inr () \<and>
      parse (dwalletBcs L) (attestation_data a) = Some (V1 d) \<longleftrightarrow>
      signed_record L (dwalletBcs L) DWalletKind (recordOfAttestation a) trusted d" for a d
    unfolding verifyAttestationRecord_Inr attested.simps by (rule checked_and_decoded)
  then show ?thesis
    unfolding verifyPublicShareDkgAnswer_def answered_with_def publicDkgFields_Inr [symmetric]
      bindE_eq_Inr seqE_eq_Inr attestationOfAnswer_Inr decodeV1_Inr verifyAttestationNetworkKey_Inr
    by blast
qed

section \<open>Accepting a share\<close>

lemma decodeExactlyDWallet_Inr [result_simps]:
  "decodeExactlyDWallet L bs = Inr d \<longleftrightarrow>
     parse (dwalletBcs L) bs = Some (V1 d) \<and> serialize (dwalletBcs L) (V1 d) = Some bs"
  by (auto simp: decodeExactlyDWallet_def result_simps split: option.splits versioned.splits)

lemma own_holder:
  "(case h of None \<Rightarrow> Inr False
    | Some h \<Rightarrow> if holder_scheme h \<noteq> Scheme_Ed25519 then Inr False
               else bindE (ofOption e k) (\<lambda>k. Inr (holder_key h = k))) = Inr True \<longleftrightarrow>
   (\<exists>own. k = Some own \<and> h = Some \<lparr>holder_scheme = Scheme_Ed25519, holder_key = own\<rparr>)"
  by (cases h; cases k) (auto simp: result_simps)

lemma own_holder_check: "(\<exists>b. m = Inr b \<and> b \<and> P) \<longleftrightarrow> m = Inr True \<and> P"
  by auto

lemma attested_curve_check:
  "(\<exists>c'. mapErr h (fromNumberToCurve (indexOf ATTESTATION_CURVES d)) = Inr c' \<and> c' = c \<and> P) \<longleftrightarrow>
     d = attested_curve c \<and> P"
  by (auto simp: mapErr_eq_Inr attested_curve_of_number)

lemma accepted_signature_check:
  "(case asked of
      None \<Rightarrow> refuseUnless f1 (dw_sign_during_dkg_signature d = None) c1
    | Some s \<Rightarrow> refuseUnless f2
        (case dw_sign_during_dkg_signature d of
           None \<Rightarrow> False
         | Some sig \<Rightarrow> signDuringDkgSignatureVerifies U n s (dw_public_output d) sig) c2) = Inr () \<longleftrightarrow>
   asked_signature U n asked d"
  by (cases asked; cases "dw_sign_during_dkg_signature d")
    (auto simp: asked_signature_def verify_method signDuringDkgSignatureVerifies_def returned_iff refuseUnless_Inr)

lemma hash_is: "(case h of None \<Rightarrow> False | Some x \<Rightarrow> x = y) \<longleftrightarrow> h = Some y"
  by (cases h) auto

lemma signShareAcceptance_Inr:
  "signShareAcceptance E secret digest = Inr r \<longleftrightarrow>
     (\<exists>own sig. edGetPublicKey E secret = Some own \<and> edSign E digest secret = Some sig \<and>
        r = \<lparr>sac_holderPublicKey = own, sac_acceptanceDigest = digest, sac_signature = sig\<rparr>)"
  by (auto simp: signShareAcceptance_def result_simps)

text \<open>
  A holder signs the acceptance of a new dWallet's share exactly when the attestation decodes
  strictly, is signed by a trusted key under the request's network key, names the holder's own key
  and holds what the request sent: session, sender, curve, origin, output, key, the hashes of the
  encryption key and of the encrypted share, and a signature exactly when one was asked for. What is
  signed is then the digest of those very attestation bytes, by the holder's own key.
\<close>

theorem signDWalletShareAcceptance_iff:
  "signDWalletShareAcceptance L U E secret a trusted sent = Inr r \<longleftrightarrow>
     (\<exists>d own sig. parse (dwalletBcs L) (attestation_data a) = Some (V1 d) \<and>
        serialize (dwalletBcs L) (V1 d) = Some (attestation_data a) \<and>
        trusts trusted (signer_noa_public_key a) \<and>
        networkSignatureVerifies L (attestation_data a) (network_signature a) (signer_noa_public_key a) \<and>
        key_named (network trusted) (sdr_networkKeyId sent) (network_pubkey a) \<and>
        network_pubkey a \<in> set (publicKeys trusted) \<and>
        edGetPublicKey E secret = Some own \<and>
        dw_holder d = Some \<lparr>holder_scheme = Scheme_Ed25519, holder_key = own\<rparr> \<and>
        dw_session_identifier d = sdr_sessionIdentifier sent \<and>
        dw_intended_chain_sender d = sdr_intendedChainSender sent \<and>
        dw_curve d = attested_curve (sdr_curve sent) \<and>
        dw_is_imported_key d = (sdr_kind sent = ImportedKeyVerificationKind) \<and>
        output_matches U (sdr_curve sent) (sdr_userPublicOutput sent) d \<and>
        dw_encryption_key_hash d = Some (keccak_256 L (sdr_encryptionKey sent)) \<and>
        dw_encrypted_share_hash d = Some (keccak_256 L (sdr_encryptedShareAndProof sent)) \<and>
        asked_signature U (indexOf ATTESTATION_CURVES (dw_curve d)) (sdr_signDuringDkg sent) d \<and>
        edSign E (dwalletAttestationDigest L (attestation_data a)) secret = Some sig \<and>
        r = \<lparr>sac_holderPublicKey = own,
             sac_acceptanceDigest = dwalletAttestationDigest L (attestation_data a), sac_signature = sig\<rparr>)"
  unfolding signDWalletShareAcceptance_def Let_def
    seqE_eq_Inr bindE_eq_Inr
    refuseUnless_Inr equalBytes_iff decodeExactlyDWallet_Inr
    verifyAttestationNetworkKey_Inr own_holder_check own_holder attested_curve_check output_matches_def
    hash_is accepted_signature_check signShareAcceptance_Inr option.inject
  by auto

end
