(* ===== verification/Cross_Check.thy ===== *)
theory Cross_Check
  imports Polling
begin

text \<open>
  The cross-check of the chain reads that no network signature covers
  (\<open>sdk/core/src/grpc/read-cross-check.ts\<close> and \<open>sdk/solana/src/read-cross-check.ts\<close>). Two
  endpoints are read at once; while their answers differ the one that lags is read again, until they
  agree or the window ends. An endpoint may answer anything, fail, or never answer: its read is a
  function of the time it starts, with \<open>None\<close> for a read that never settles. The loop is given twice,
  as the function the code is and as the relation of its steps, over which the invariants are
  proved; \<open>crossLoop_iff_steps\<close> relates the two.
\<close>

section \<open>The answers\<close>

definition CROSS_CHECK_WINDOW_MS :: nat where
  "CROSS_CHECK_WINDOW_MS = 10000"

definition CROSS_CHECK_RETRY_INTERVAL_MS :: nat where
  "CROSS_CHECK_RETRY_INTERVAL_MS = 1000"

record 'a answer_at =
  position :: int
  answerValue :: "'a option"

datatype 'a endpoint_answer = AnswerAt "'a answer_at" | Behind

datatype cross_endpoint = FirstEndpoint | SecondEndpoint

text \<open>A read that may never settle: the milliseconds it takes and what it gives.\<close>

type_synonym 'r open_read = "time \<Rightarrow> (nat \<times> 'r) option"

type_synonym 'a endpoint_read =
  "cross_endpoint \<Rightarrow> int option \<Rightarrow> (sdk_error + 'a endpoint_answer) open_read"

section \<open>One read\<close>

text \<open>
  One read raced against a timer that ends with the window; the read wins when both are due at once.
  A read that fails or is late is refused with the endpoint's name.
\<close>

type_synonym endpoint_names = "cross_endpoint \<Rightarrow> string"

definition readFrom ::
    "endpoint_names \<Rightarrow> 'a endpoint_read \<Rightarrow> time \<Rightarrow> cross_endpoint \<Rightarrow> int option
      \<Rightarrow> (sdk_error + 'a endpoint_answer) timed_read" where
  "readFrom names read deadline endpoint minPosition now =
     (let left = nat (max 0 (deadline - now));
          refused = Inl (Err (''read from '' @ names endpoint))
      in case read endpoint minPosition now of
           None \<Rightarrow> (left, refused)
         | Some (dt, Inl e) \<Rightarrow> (min dt left, refused)
         | Some (dt, Inr answer) \<Rightarrow> if dt \<le> left then (dt, Inr answer) else (left, refused))"

definition answered :: "endpoint_names \<Rightarrow> cross_endpoint \<Rightarrow> 'a endpoint_answer \<Rightarrow> sdk_error + 'a answer_at" where
  "answered names endpoint answer =
     (case answer of
        Behind \<Rightarrow> Inl (Err (names endpoint @ '' refused a read for a position it has not reached, though none was asked for''))
      | AnswerAt a \<Rightarrow> Inr a)"

section \<open>The loop\<close>

type_synonym 'a answers = "'a answer_at \<times> 'a answer_at"

definition sameValue :: "('a \<Rightarrow> 'a \<Rightarrow> bool) \<Rightarrow> 'a option \<Rightarrow> 'a option \<Rightarrow> bool" where
  "sameValue equal first second =
     (case (first, second) of
        (Some x, Some y) \<Rightarrow> equal x y
      | (None, None) \<Rightarrow> True
      | _ \<Rightarrow> False)"

text \<open>The endpoint that lags, \<open>None\<close> when two values stand at one position.\<close>

definition laggingOf :: "'a answers \<Rightarrow> cross_endpoint option" where
  "laggingOf as =
     (let (first, second) = as in
      if answerValue first = None then Some FirstEndpoint
      else if answerValue second = None then Some SecondEndpoint
      else if position first < position second then Some FirstEndpoint
      else if position second < position first then Some SecondEndpoint
      else None)"

definition targetOf :: "'a answers \<Rightarrow> int" where
  "targetOf as = (let (first, second) = as in
     if position first > position second then position first else position second)"

fun setAnswer :: "cross_endpoint \<Rightarrow> 'a answer_at \<Rightarrow> 'a answers \<Rightarrow> 'a answers" where
  "setAnswer FirstEndpoint a (first, second) = (a, second)"
| "setAnswer SecondEndpoint a (first, second) = (first, a)"

text \<open>A re-read replaces the old answer only at or past the target.\<close>

definition takeAnswer :: "cross_endpoint \<Rightarrow> 'a endpoint_answer \<Rightarrow> 'a answers \<Rightarrow> 'a answers" where
  "takeAnswer lagging answer as =
     (case answer of
        Behind \<Rightarrow> as
      | AnswerAt a \<Rightarrow> if position a \<ge> targetOf as then setAnswer lagging a as else as)"

definition agreed :: "('a \<Rightarrow> 'a \<Rightarrow> bool) \<Rightarrow> 'a answers \<Rightarrow> bool" where
  "agreed equal as = sameValue equal (answerValue (fst as)) (answerValue (snd as))"

record 'a cross_check =
  endpoints :: endpoint_names
  endpointRead :: "'a endpoint_read"
  equalValues :: "'a \<Rightarrow> 'a \<Rightarrow> bool"
  timerLag :: "time \<Rightarrow> nat"
  windowMs :: nat
  retryIntervalMs :: nat

text \<open>When the re-read starts, and the re-read.\<close>

definition wakeAt :: "'a cross_check \<Rightarrow> time \<Rightarrow> time" where
  "wakeAt C now = now + int (retryIntervalMs C) + int (timerLag C now)"

definition reRead :: "'a cross_check \<Rightarrow> time \<Rightarrow> cross_endpoint \<Rightarrow> int \<Rightarrow> (sdk_error + 'a endpoint_answer) timed_read" where
  "reRead C deadline lagging target = readFrom (endpoints C) (endpointRead C) deadline lagging (Some target)"

partial_function (option) crossLoop ::
    "'a cross_check \<Rightarrow> time \<Rightarrow> 'a answers \<Rightarrow> (sdk_error, 'a option) timed" where
  "crossLoop C deadline as now =
     (if agreed (equalValues C) as then Some (now, Inr (answerValue (fst as)))
      else case laggingOf as of
        None \<Rightarrow> Some (now, Inl (Err ''the endpoints disagree at the same position; refusing the read''))
      | Some lagging \<Rightarrow>
          if now + int (retryIntervalMs C) > deadline
          then Some (now, Inl (Err ''the endpoints still disagree; refusing the read''))
          else case reRead C deadline lagging (targetOf as) (wakeAt C now) of
            (dt, Inl e) \<Rightarrow> Some (wakeAt C now + int dt, Inl e)
          | (dt, Inr answer) \<Rightarrow>
              crossLoop C deadline (takeAnswer lagging answer as) (wakeAt C now + int dt))"

text \<open>\<open>Promise.all\<close> of the two first reads: it settles with the first rejection, or once both are there.\<close>

definition bothReads ::
    "nat \<times> ('e + 'r) \<Rightarrow> nat \<times> ('e + 'r) \<Rightarrow> nat \<times> ('e + 'r \<times> 'r)" where
  "bothReads first second =
     (case (first, second) of
        ((dt, Inl e), (dt', Inl e')) \<Rightarrow> if dt \<le> dt' then (dt, Inl e) else (dt', Inl e')
      | ((dt, Inl e), (dt', Inr _)) \<Rightarrow> (dt, Inl e)
      | ((dt, Inr _), (dt', Inl e')) \<Rightarrow> (dt', Inl e')
      | ((dt, Inr x), (dt', Inr y)) \<Rightarrow> (max dt dt', Inr (x, y)))"

definition crossCheckedRead :: "'a cross_check \<Rightarrow> (sdk_error, 'a option) timed" where
  "crossCheckedRead C now =
     (let deadline = now + int (windowMs C);
          (dt, r) = bothReads (readFrom (endpoints C) (endpointRead C) deadline FirstEndpoint None now)
                      (readFrom (endpoints C) (endpointRead C) deadline SecondEndpoint None now)
      in case r of
           Inl e \<Rightarrow> Some (now + int dt, Inl e)
         | Inr (firstAnswer, secondAnswer) \<Rightarrow>
             (case bindE (answered (endpoints C) FirstEndpoint firstAnswer) (\<lambda>first.
                   bindE (answered (endpoints C) SecondEndpoint secondAnswer) (\<lambda>second. Inr (first, second))) of
                Inl e \<Rightarrow> Some (now + int dt, Inl e)
              | Inr as \<Rightarrow> crossLoop C deadline as (now + int dt)))"

section \<open>Its steps\<close>

text \<open>One turn of the loop that reads again and goes on.\<close>

inductive cross_step :: "'a cross_check \<Rightarrow> time \<Rightarrow> 'a answers \<times> time \<Rightarrow> 'a answers \<times> time \<Rightarrow> bool"
  for C :: "'a cross_check" and deadline :: time where
  reread:
    "\<not> agreed (equalValues C) as \<Longrightarrow> laggingOf as = Some lagging \<Longrightarrow>
     now + int (retryIntervalMs C) \<le> deadline \<Longrightarrow>
     reRead C deadline lagging (targetOf as) (wakeAt C now) = (dt, Inr answer) \<Longrightarrow>
     cross_step C deadline (as, now) (takeAnswer lagging answer as, wakeAt C now + int dt)"

inductive_cases cross_stepE: "cross_step C deadline (as, now) s'"

inductive_simps cross_step_simp: "cross_step C deadline (as, now) s'"

lemma cross_can_step:
  "(\<exists>s'. cross_step C deadline (as, now) s') \<longleftrightarrow>
     \<not> agreed (equalValues C) as \<and> now + int (retryIntervalMs C) \<le> deadline \<and>
     (\<exists>lagging dt answer. laggingOf as = Some lagging \<and>
        reRead C deadline lagging (targetOf as) (wakeAt C now) = (dt, Inr answer))"
  unfolding cross_step_simp by blast

lemma crossLoop_step:
  "cross_step C deadline (as, now) (as', now') \<Longrightarrow>
     crossLoop C deadline as now = crossLoop C deadline as' now'"
  by (erule cross_stepE) (simp add: crossLoop.simps [of C deadline as now])

lemma crossLoop_steps:
  "(cross_step C deadline)\<^sup>*\<^sup>* s s' \<Longrightarrow>
     crossLoop C deadline (fst s) (snd s) = crossLoop C deadline (fst s') (snd s')"
proof (induction rule: converse_rtranclp_induct)
  case (step s t)
  have "crossLoop C deadline (fst s) (snd s) = crossLoop C deadline (fst t) (snd t)"
    using step.hyps(1) by (intro crossLoop_step) simp
  then show ?case using step.IH by simp
qed simp

text \<open>One unfolding of the loop, by what it finds.\<close>

lemma crossLoop_agreed:
  "agreed (equalValues C) as \<Longrightarrow> crossLoop C deadline as now = Some (now, Inr (answerValue (fst as)))"
  by (simp add: crossLoop.simps [of C deadline as])

definition cross_stuck :: "'a cross_check \<Rightarrow> time \<Rightarrow> 'a answers \<times> time \<Rightarrow> time \<times> sdk_error \<Rightarrow> bool" where
  "cross_stuck C deadline s end \<longleftrightarrow>
     (let (as, now) = s; (t, e) = end in
      \<not> agreed (equalValues C) as \<and>
      (laggingOf as = None \<and> t = now \<and>
         e = Err ''the endpoints disagree at the same position; refusing the read'' \<or>
       (\<exists>lagging. laggingOf as = Some lagging \<and>
          (deadline < now + int (retryIntervalMs C) \<and> t = now \<and>
             e = Err ''the endpoints still disagree; refusing the read'' \<or>
           now + int (retryIntervalMs C) \<le> deadline \<and>
           (\<exists>dt. reRead C deadline lagging (targetOf as) (wakeAt C now) = (dt, Inl e) \<and>
              t = wakeAt C now + int dt)))))"

text \<open>What a state of the loop ends in, given how its next one does: the shape of every proof over it.\<close>

definition cross_ends :: "'a cross_check \<Rightarrow> time \<Rightarrow> 'a answers \<times> time \<Rightarrow> time \<times> (sdk_error + 'a option) \<Rightarrow> bool" where
  "cross_ends C deadline s res \<longleftrightarrow>
     (\<exists>as. (cross_step C deadline)\<^sup>*\<^sup>* s (as, fst res) \<and> agreed (equalValues C) as \<and>
        snd res = Inr (answerValue (fst as))) \<or>
     (\<exists>s' e. (cross_step C deadline)\<^sup>*\<^sup>* s s' \<and> cross_stuck C deadline s' (fst res, e) \<and> snd res = Inl e)"

lemma cross_ends_step: "cross_step C deadline s s' \<Longrightarrow> cross_ends C deadline s' res \<Longrightarrow> cross_ends C deadline s res"
  unfolding cross_ends_def by (blast intro: converse_rtranclp_into_rtranclp)

lemma crossLoop_ends:
  fixes C :: "'a cross_check"
  assumes "crossLoop C deadline as now = Some res"
  shows "cross_ends C deadline (as, now) res"
proof (rule crossLoop.raw_induct [where P = "\<lambda>C deadline as now res. cross_ends C deadline (as, now) res",
      OF _ assms])
  fix f :: "'a cross_check \<Rightarrow> time \<Rightarrow> 'a answers \<Rightarrow> (sdk_error, 'a option) timed"
    and C :: "'a cross_check" and deadline as now res
  assume IH: "\<And>C deadline as now res. f C deadline as now = Some res \<Longrightarrow> cross_ends C deadline (as, now) res"
    and eq: "(if agreed (equalValues C) as then Some (now, Inr (answerValue (fst as)))
      else case laggingOf as of
        None \<Rightarrow> Some (now, Inl (Err ''the endpoints disagree at the same position; refusing the read''))
      | Some lagging \<Rightarrow>
          if now + int (retryIntervalMs C) > deadline
          then Some (now, Inl (Err ''the endpoints still disagree; refusing the read''))
          else case reRead C deadline lagging (targetOf as) (wakeAt C now) of
            (dt, Inl e) \<Rightarrow> Some (wakeAt C now + int dt, Inl e)
          | (dt, Inr answer) \<Rightarrow>
              f C deadline (takeAnswer lagging answer as) (wakeAt C now + int dt)) = Some res"
  show "cross_ends C deadline (as, now) res"
  proof (cases "\<exists>s'. cross_step C deadline (as, now) s'")
    case True
    then obtain as' now' where step: "cross_step C deadline (as, now) (as', now')" by auto
    then have "f C deadline as' now' = Some res"
      using eq by (auto elim!: cross_stepE)
    from cross_ends_step [OF step IH [OF this]] show ?thesis .
  next
    case False
    show ?thesis
    proof (cases "agreed (equalValues C) as")
      case True
      then show ?thesis using eq unfolding cross_ends_def by (intro disjI1 exI [of _ as]) auto
    next
      case disagreed: False
      have "\<exists>e. cross_stuck C deadline (as, now) (fst res, e) \<and> snd res = Inl e"
        using False disagreed eq unfolding cross_can_step
        by (auto simp: cross_stuck_def not_less split: if_splits option.splits prod.splits sum.splits)
      then show ?thesis unfolding cross_ends_def by blast
    qed
  qed
qed

text \<open>With a pause between re-reads the loop ends, whatever the endpoints do.\<close>

lemma readFrom_time: "int (fst (readFrom names read deadline ep m now)) \<le> max 0 (deadline - now)"
  by (auto simp: readFrom_def Let_def split: option.splits prod.splits sum.splits)

lemma readFrom_Inr:
  "readFrom names read deadline ep m now = (dt, Inr answer) \<longleftrightarrow>
     read ep m now = Some (dt, Inr answer) \<and> int dt \<le> max 0 (deadline - now)"
  by (auto simp: readFrom_def Let_def split: option.splits prod.splits sum.splits if_splits)

lemma cross_step_later:
  "cross_step C deadline s s' \<Longrightarrow> snd s + int (retryIntervalMs C) \<le> snd s' \<and> snd s + int (retryIntervalMs C) \<le> deadline"
  by (erule cross_step.cases) (auto simp: wakeAt_def)

lemma crossLoop_returns:
  assumes "0 < retryIntervalMs C"
  shows "\<exists>res. crossLoop C deadline as now = Some res"
proof (induction "nat (deadline - now)" arbitrary: as now rule: less_induct)
  case less
  show ?case
  proof (cases "\<exists>s'. cross_step C deadline (as, now) s'")
    case True
    then obtain as' now' where step: "cross_step C deadline (as, now) (as', now')" by auto
    then have "nat (deadline - now') < nat (deadline - now)"
      using cross_step_later [OF step] assms by auto
    from less [OF this, of as'] show ?thesis unfolding crossLoop_step [OF step] .
  next
    case False
    then show ?thesis unfolding cross_can_step
      by (auto simp: not_less crossLoop.simps [of C deadline as now]
          split: option.splits prod.splits sum.splits)
  qed
qed

text \<open>The loop and its steps: the value returned is the one of the agreed state the steps reach.\<close>

lemma crossLoop_iff_steps:
  "crossLoop C deadline as now = Some (t, Inr v) \<longleftrightarrow>
     (\<exists>as'. (cross_step C deadline)\<^sup>*\<^sup>* (as, now) (as', t) \<and> agreed (equalValues C) as' \<and>
        v = answerValue (fst as'))"
proof
  assume "crossLoop C deadline as now = Some (t, Inr v)"
  from crossLoop_ends [OF this]
  show "\<exists>as'. (cross_step C deadline)\<^sup>*\<^sup>* (as, now) (as', t) \<and> agreed (equalValues C) as' \<and>
        v = answerValue (fst as')" by (auto simp: cross_ends_def)
next
  assume "\<exists>as'. (cross_step C deadline)\<^sup>*\<^sup>* (as, now) (as', t) \<and> agreed (equalValues C) as' \<and>
        v = answerValue (fst as')"
  then show "crossLoop C deadline as now = Some (t, Inr v)"
    using crossLoop_steps [of C deadline "(as, now)"] by (auto simp: crossLoop_agreed)
qed

section \<open>What every state of the loop holds\<close>

text \<open>
  An answer the loop holds for an endpoint is one that endpoint gave, to a read made no earlier than
  the first ones and answered within the window.
\<close>

definition gave :: "'a cross_check \<Rightarrow> time \<Rightarrow> time \<Rightarrow> cross_endpoint \<Rightarrow> 'a answer_at \<Rightarrow> bool" where
  "gave C start deadline ep a \<longleftrightarrow>
     (\<exists>m t dt. start \<le> t \<and> endpointRead C ep m t = Some (dt, Inr (AnswerAt a)) \<and>
        int dt \<le> max 0 (deadline - t))"

definition cross_inv :: "'a cross_check \<Rightarrow> time \<Rightarrow> time \<Rightarrow> 'a answers \<times> time \<Rightarrow> bool" where
  "cross_inv C start deadline s \<longleftrightarrow>
     start \<le> snd s \<and> gave C start deadline FirstEndpoint (fst (fst s)) \<and>
     gave C start deadline SecondEndpoint (snd (fst s))"

lemma cross_step_inv:
  "cross_step C deadline s s' \<Longrightarrow> cross_inv C start deadline s \<Longrightarrow> cross_inv C start deadline s'"
proof (induction rule: cross_step.induct)
  case (reread as lagging now dt answer)
  have start: "start \<le> wakeAt C now" using reread.prems by (simp add: cross_inv_def wakeAt_def)
  have "gave C start deadline lagging a" if "answer = AnswerAt a" for a
    using reread.hyps(4) start that unfolding gave_def reRead_def readFrom_Inr by blast
  moreover obtain first second where "as = (first, second)" by (cases as)
  ultimately show ?case using reread.prems start
    by (cases lagging) (auto simp: cross_inv_def takeAnswer_def split: endpoint_answer.splits)
qed

lemma cross_steps_inv:
  "(cross_step C deadline)\<^sup>*\<^sup>* s s' \<Longrightarrow> cross_inv C start deadline s \<Longrightarrow> cross_inv C start deadline s'"
  by (induction rule: rtranclp_induct) (auto intro: cross_step_inv)

lemma bothReads_Inr:
  "bothReads first second = (dt, Inr (x, y)) \<longleftrightarrow>
     (\<exists>d d'. first = (d, Inr x) \<and> second = (d', Inr y) \<and> dt = max d d')"
  by (cases first; cases second; cases "snd first"; cases "snd second") (auto simp: bothReads_def)

lemma bothReads_time: "fst (bothReads first second) \<le> max (fst first) (fst second)"
  by (cases first; cases second; cases "snd first"; cases "snd second") (auto simp: bothReads_def)

lemma answered_Inr: "answered names ep answer = Inr a \<longleftrightarrow> answer = AnswerAt a"
  by (cases answer) (auto simp: answered_def)

text \<open>The read begins the loop with both first answers, or ends with an error.\<close>

lemma crossCheckedRead_Inr:
  "crossCheckedRead C now = Some (t, Inr v) \<longleftrightarrow>
     (\<exists>d d' a b. endpointRead C FirstEndpoint None now = Some (d, Inr (AnswerAt a)) \<and> d \<le> windowMs C \<and>
        endpointRead C SecondEndpoint None now = Some (d', Inr (AnswerAt b)) \<and> d' \<le> windowMs C \<and>
        crossLoop C (now + int (windowMs C)) (a, b) (now + int (max d d')) = Some (t, Inr v))"
  (is "_ \<longleftrightarrow> ?rhs")
proof -
  obtain dt r where both: "bothReads (readFrom (endpoints C) (endpointRead C) (now + int (windowMs C)) FirstEndpoint None now)
      (readFrom (endpoints C) (endpointRead C) (now + int (windowMs C)) SecondEndpoint None now) = (dt, r)"
    by (cases "bothReads (readFrom (endpoints C) (endpointRead C) (now + int (windowMs C)) FirstEndpoint None now)
      (readFrom (endpoints C) (endpointRead C) (now + int (windowMs C)) SecondEndpoint None now)")
  show ?thesis
  proof (cases r)
    case (Inl e)
    then have "\<not> ?rhs" using both by (auto simp: readFrom_def bothReads_def)
    then show ?thesis unfolding crossCheckedRead_def Let_def both Inl by simp
  next
    case (Inr xy)
    obtain x y where "xy = (x, y)" by (cases xy)
    then have "(\<exists>d d'. readFrom (endpoints C) (endpointRead C) (now + int (windowMs C)) FirstEndpoint None now = (d, Inr x) \<and>
        readFrom (endpoints C) (endpointRead C) (now + int (windowMs C)) SecondEndpoint None now = (d', Inr y) \<and>
        dt = max d d')"
      using both Inr by (simp add: bothReads_Inr)
    then show ?thesis using \<open>xy = (x, y)\<close> unfolding crossCheckedRead_def Let_def both Inr
      by (auto simp: readFrom_Inr answered_Inr answered_def
          bindE_eq_Inr bindE_Inr split: sum.splits endpoint_answer.splits)
  qed
qed

section \<open>Properties\<close>

lemma crossCheckedRead_gave:
  assumes "crossCheckedRead C now = Some (t, Inr v)"
  shows "\<exists>a b. gave C now (now + int (windowMs C)) FirstEndpoint a \<and>
     gave C now (now + int (windowMs C)) SecondEndpoint b \<and>
     sameValue (equalValues C) (answerValue a) (answerValue b) \<and> v = answerValue a"
proof -
  obtain d d' a b where first: "endpointRead C FirstEndpoint None now = Some (d, Inr (AnswerAt a))" "d \<le> windowMs C"
    and second: "endpointRead C SecondEndpoint None now = Some (d', Inr (AnswerAt b))" "d' \<le> windowMs C"
    and loop: "crossLoop C (now + int (windowMs C)) (a, b) (now + int (max d d')) = Some (t, Inr v)"
    using assms unfolding crossCheckedRead_Inr by blast
  have "cross_inv C now (now + int (windowMs C)) ((a, b), now + int (max d d'))"
    using first second by (auto simp: cross_inv_def gave_def intro!: exI [of _ now] exI [of _ None])
  moreover obtain as' where "(cross_step C (now + int (windowMs C)))\<^sup>*\<^sup>* ((a, b), now + int (max d d')) (as', t)"
    "agreed (equalValues C) as'" "v = answerValue (fst as')"
    using loop unfolding crossLoop_iff_steps by blast
  ultimately have "cross_inv C now (now + int (windowMs C)) (as', t)" by (blast intro: cross_steps_inv)
  then show ?thesis
    using \<open>agreed (equalValues C) as'\<close> \<open>v = answerValue (fst as')\<close> unfolding cross_inv_def agreed_def by auto
qed

text \<open>
  A value is returned only when both endpoints gave it: each of them answered a read of its own,
  made no earlier than the call and answered within the window, and the two values are the same; the
  one returned is the first endpoint's.
\<close>

theorem crossCheckedRead_agreed:
  assumes "crossCheckedRead C now = Some (t, Inr v)"
  shows "\<exists>a b. gave C now (now + int (windowMs C)) FirstEndpoint a \<and>
     gave C now (now + int (windowMs C)) SecondEndpoint b \<and>
     sameValue (equalValues C) (answerValue a) (answerValue b) \<and> v = answerValue a"
  using assms by (rule crossCheckedRead_gave)

text \<open>The steps stay within the window, timers apart.\<close>

lemma cross_step_bounded:
  assumes "cross_step C deadline s s'" "\<And>t. timerLag C t \<le> late"
  shows "snd s' \<le> deadline + int late"
  using assms(1)
proof (induction rule: cross_step.induct)
  case (reread as lagging now dt answer)
  have "int dt \<le> max 0 (deadline - wakeAt C now)"
    using readFrom_time reread.hyps(4) unfolding reRead_def by (metis fst_conv)
  moreover have "wakeAt C now \<le> deadline + int late"
    using reread.hyps(3) assms(2) [of now] by (simp add: wakeAt_def)
  ultimately show ?case by auto
qed

lemma cross_steps_bounded:
  assumes "\<And>t. timerLag C t \<le> late"
  shows "(cross_step C deadline)\<^sup>*\<^sup>* s s' \<Longrightarrow> snd s \<le> deadline + int late \<Longrightarrow> snd s' \<le> deadline + int late"
  by (induction rule: rtranclp_induct) (auto intro: cross_step_bounded [OF _ assms])

lemma cross_stuck_bounded:
  assumes "\<And>t. timerLag C t \<le> late" "cross_stuck C deadline s (t, e)" "snd s \<le> deadline + int late"
  shows "t \<le> deadline + int late"
proof -
  have dt: "int dt \<le> max 0 (deadline - w)" if "reRead C deadline l m w = (dt, r)" for dt r l m w
    using readFrom_time that unfolding reRead_def by (metis fst_conv)
  have "t \<le> deadline + int late" if "reRead C deadline l m (wakeAt C (snd s)) = (dt, r)"
      "snd s + int (retryIntervalMs C) \<le> deadline" "t = wakeAt C (snd s) + int dt" for dt r l m
  proof -
    have "wakeAt C (snd s) \<le> deadline + int late" using that(2) assms(1) [of "snd s"] by (simp add: wakeAt_def)
    then show ?thesis using that(1,3) dt [OF that(1)] by simp
  qed
  then show ?thesis using assms(2,3) unfolding cross_stuck_def Let_def by (cases s) auto
qed

text \<open>
  With a pause between re-reads the read ends whatever the endpoints do, also one that never
  answers, and it ends within the window, up to how late a timer fires.
\<close>

theorem crossCheckedRead_ends:
  assumes "0 < retryIntervalMs C" "\<And>t. timerLag C t \<le> late"
  shows "\<exists>t r. crossCheckedRead C now = Some (t, r) \<and> t \<le> now + int (windowMs C) + int late"
proof -
  let ?deadline = "now + int (windowMs C)"
  let ?both = "bothReads (readFrom (endpoints C) (endpointRead C) ?deadline FirstEndpoint None now)
      (readFrom (endpoints C) (endpointRead C) ?deadline SecondEndpoint None now)"
  have loop: "\<exists>t r. crossLoop C ?deadline as s = Some (t, r) \<and> t \<le> ?deadline + int late"
    if "s \<le> ?deadline" for as s
  proof -
    obtain t r where run: "crossLoop C ?deadline as s = Some (t, r)"
      using crossLoop_returns [OF assms(1)] by (metis surj_pair)
    have "snd (as, s) \<le> ?deadline + int late" using that by simp
    then have "t \<le> ?deadline + int late"
      using crossLoop_ends [OF run] cross_steps_bounded [OF assms(2)] cross_stuck_bounded [OF assms(2)]
      unfolding cross_ends_def by (metis fst_conv snd_conv)
    then show ?thesis using run by blast
  qed
  obtain dt r where both: "?both = (dt, r)" by (cases ?both)
  have left: "fst (readFrom (endpoints C) (endpointRead C) ?deadline ep None now) \<le> windowMs C" for ep
    using readFrom_time [of "endpoints C" "endpointRead C" ?deadline ep None now] by simp
  have "dt \<le> windowMs C"
    using bothReads_time [of "readFrom (endpoints C) (endpointRead C) ?deadline FirstEndpoint None now"
        "readFrom (endpoints C) (endpointRead C) ?deadline SecondEndpoint None now"]
      left [of FirstEndpoint] left [of SecondEndpoint] unfolding both by simp
  then have "int dt \<le> int (windowMs C)"
    by simp
  then show ?thesis unfolding crossCheckedRead_def Let_def both
    using loop [of "now + int dt"] by (auto split: sum.splits prod.splits)
qed

text \<open>
  An endpoint that lags behind the other's answer \<open>b\<close>: until a time it gives stale answers, nothing or an older value at a
  lower position, or says that it is behind a position it is asked for; from then on, one answer.
\<close>

fun otherEndpoint :: "cross_endpoint \<Rightarrow> cross_endpoint" where
  "otherEndpoint FirstEndpoint = SecondEndpoint"
| "otherEndpoint SecondEndpoint = FirstEndpoint"

definition stale :: "'a cross_check \<Rightarrow> cross_endpoint \<Rightarrow> 'a answer_at \<Rightarrow> 'a answer_at \<Rightarrow> 'a answer_at \<Rightarrow> bool" where
  "stale C ep a b s \<longleftrightarrow>
     answerValue s = None \<and> position s \<le> position a \<or>
     position s < position b \<and> \<not> agreed (equalValues C) (setAnswer ep s (b, b))"

definition catches_up ::
    "'a cross_check \<Rightarrow> cross_endpoint \<Rightarrow> time \<Rightarrow> nat \<Rightarrow> 'a answer_at \<Rightarrow> 'a answer_at \<Rightarrow> bool" where
  "catches_up C ep since d a b \<longleftrightarrow>
     (\<forall>m t. \<exists>dt r. endpointRead C ep m t = Some (dt, Inr r) \<and> dt \<le> d \<and>
        (if since \<le> t then r = AnswerAt a
         else r = Behind \<and> m \<noteq> None \<or> (\<exists>s. r = AnswerAt s \<and> stale C ep a b s)))"

lemma stale_turn:
  assumes "stale C ep a b s" "answerValue b = Some y" "position b \<le> position a"
  shows "\<not> agreed (equalValues C) (setAnswer ep s (b, b))" "laggingOf (setAnswer ep s (b, b)) = Some ep"
    and "targetOf (setAnswer ep s (b, b)) \<le> position a"
    and "takeAnswer ep (AnswerAt r) (setAnswer ep s (b, b)) =
      (if targetOf (setAnswer ep s (b, b)) \<le> position r then setAnswer ep r (b, b) else setAnswer ep s (b, b))"
  using assms by (cases ep; auto simp: stale_def agreed_def sameValue_def laggingOf_def targetOf_def takeAnswer_def)+

lemma caught_up:
  assumes cu: "catches_up C ep since d a b" and b: "answerValue b = Some y" "position b \<le> position a"
    and ag: "agreed (equalValues C) (setAnswer ep a (b, b))"
    and retry: "0 < retryIntervalMs C" "\<And>t. timerLag C t \<le> late"
    and room: "since + int (retryIntervalMs C) + int late + 2 * int d \<le> deadline"
    and start: "stale C ep a b s" "now < since + int d"
  shows "\<exists>t. crossLoop C deadline (setAnswer ep s (b, b)) now = Some (t, Inr (answerValue (fst (setAnswer ep a (b, b))))) \<and>
     t \<le> since + int (retryIntervalMs C) + int late + 2 * int d"
  using start
proof (induction "nat (since + int d - now)" arbitrary: s now rule: less_induct)
  case less
  let ?as = "setAnswer ep s (b, b)" and ?wake = "wakeAt C now"
  note turn = stale_turn [OF less.prems(1) b]
  have wake: "now + int (retryIntervalMs C) \<le> ?wake" "?wake \<le> now + int (retryIntervalMs C) + int late"
    using retry(2) [of now] by (simp_all add: wakeAt_def)
  from cu obtain dt r where read: "endpointRead C ep (Some (targetOf ?as)) ?wake = Some (dt, Inr r)" "dt \<le> d"
    and r: "if since \<le> ?wake then r = AnswerAt a else r = Behind \<or> (\<exists>s. r = AnswerAt s \<and> stale C ep a b s)"
    unfolding catches_up_def by (metis option.distinct(1))
  have "reRead C deadline ep (targetOf ?as) ?wake = (dt, Inr r)"
    using read wake(2) room less.prems(2) unfolding reRead_def readFrom_Inr by simp
  with turn(1,2) have "cross_step C deadline (?as, now) (takeAnswer ep r ?as, ?wake + int dt)"
    using room less.prems(2) by (intro cross_step.reread) simp_all
  note again = crossLoop_step [OF this]
  show ?case
  proof (cases "since \<le> ?wake")
    case True
    with r turn(3) turn(4) [of a] have "takeAnswer ep r ?as = setAnswer ep a (b, b)" by simp
    with again ag have "crossLoop C deadline ?as now = Some (?wake + int dt, Inr (answerValue (fst (setAnswer ep a (b, b)))))"
      by (simp add: crossLoop_agreed)
    then show ?thesis using wake(2) read(2) less.prems(2) by simp
  next
    case False
    with r consider "r = Behind" | old where "r = AnswerAt old" "stale C ep a b old" by auto
    then obtain s' where s': "takeAnswer ep r ?as = setAnswer ep s' (b, b)" "stale C ep a b s'"
    proof cases
      case 1
      then have "takeAnswer ep r ?as = ?as" by (simp add: takeAnswer_def)
      with less.prems(1) show ?thesis by (intro that)
    next
      case 2
      with turn(4) [of old] less.prems(1) show ?thesis by (intro that [of "if targetOf ?as \<le> position old then old else s"]) auto
    qed
    have "nat (since + int d - (?wake + int dt)) < nat (since + int d - now)" "?wake + int dt < since + int d"
      using False wake(1) retry(1) read(2) less.prems(2) by simp_all
    from less.hyps [OF this(1) s'(2) this(2)] again s'(1) show ?thesis by simp
  qed
qed

text \<open>
  C36. A record that one endpoint already serves is returned once the other, whichever of the two it is, serves it too: the
  endpoint that finds nothing, an older value or says that it is behind is read again, and the read ends with the first
  endpoint's value within a pause and two reads of the moment the record reaches the other, timers apart, when the window
  has room for them.
\<close>

theorem crossCheckedRead_catches_up:
  assumes "catches_up C ep since d a b" "answerValue b = Some y" "position b \<le> position a"
    and "endpointRead C (otherEndpoint ep) None now = Some (db, Inr (AnswerAt b))" "db \<le> d"
    and "agreed (equalValues C) (setAnswer ep a (b, b))"
    and "0 < retryIntervalMs C" "\<And>t. timerLag C t \<le> late"
    and "max (now + int d) (since + int (retryIntervalMs C) + int late + 2 * int d) \<le> now + int (windowMs C)"
  shows "\<exists>t. crossCheckedRead C now = Some (t, Inr (answerValue (fst (setAnswer ep a (b, b))))) \<and>
     t \<le> max (now + int d) (since + int (retryIntervalMs C) + int late + 2 * int d)"
proof -
  let ?deadline = "now + int (windowMs C)" and ?v = "answerValue (fst (setAnswer ep a (b, b)))"
  from assms(1) obtain da s where s: "endpointRead C ep None now = Some (da, Inr (AnswerAt s))" "da \<le> d"
    and cases: "if since \<le> now then s = a else stale C ep a b s"
    unfolding catches_up_def by (metis endpoint_answer.inject)
  have "\<exists>t. crossLoop C ?deadline (setAnswer ep s (b, b)) (now + int (max da db)) = Some (t, Inr ?v) \<and>
      t \<le> max (now + int d) (since + int (retryIntervalMs C) + int late + 2 * int d)"
  proof (cases "since \<le> now")
    case True
    with cases assms(6) s(2) assms(5) show ?thesis by (simp add: crossLoop_agreed)
  next
    case False
    with cases have "stale C ep a b s" "now + int (max da db) < since + int d" using s(2) assms(5) by simp_all
    from caught_up [OF assms(1-3,6-8) _ this] assms(9) show ?thesis by fastforce
  qed
  then obtain t where t: "crossLoop C ?deadline (setAnswer ep s (b, b)) (now + int (max da db)) = Some (t, Inr ?v)"
    "t \<le> max (now + int d) (since + int (retryIntervalMs C) + int late + 2 * int d)" by blast
  have "d \<le> windowMs C" using assms(9) by simp
  with t s assms(4,5) have "crossCheckedRead C now = Some (t, Inr ?v)"
    unfolding crossCheckedRead_Inr by (cases ep) (force simp: max.commute)+
  with t(2) show ?thesis by blast
qed

section \<open>Over Solana's \<open>getAccount\<close>\<close>

text \<open>A second endpoint's \<open>getAccount\<close>, or \<open>'not-cross-checked'\<close>. The endpoint names are constants.\<close>

datatype 'g solana_cross_check = CrossCheckThrough 'g | NotCrossChecked

fun ENDPOINT_NAMES :: endpoint_names where
  "ENDPOINT_NAMES FirstEndpoint = ''the first Solana endpoint (getAccount)''"
| "ENDPOINT_NAMES SecondEndpoint = ''the second Solana endpoint (crossCheck.getAccount)''"

text \<open>
  \<open>read\<close> decodes through one endpoint's \<open>getAccount\<close>. The answer's position is that of the decoded
  value, 0 where the caller gives none. \<open>assertSolanaReadCrossCheck\<close> refuses values of no type.
\<close>

definition accountEndpoint ::
    "'g \<Rightarrow> 'g \<Rightarrow> ('g \<Rightarrow> (sdk_error + 'a option) open_read) \<Rightarrow> ('a \<Rightarrow> int) option \<Rightarrow> 'a endpoint_read" where
  "accountEndpoint getAccount second read positionOf endpoint minPosition now =
     (case read (if endpoint = FirstEndpoint then getAccount else second) now of
        None \<Rightarrow> None
      | Some (dt, Inl e) \<Rightarrow> Some (dt, Inl e)
      | Some (dt, Inr v) \<Rightarrow>
          Some (dt, Inr (AnswerAt
            \<lparr>position = (case (v, positionOf) of (Some x, Some f) \<Rightarrow> f x | _ \<Rightarrow> 0), answerValue = v\<rparr>)))"

definition accountCrossCheck ::
    "(time \<Rightarrow> nat) \<Rightarrow> 'g \<Rightarrow> 'g \<Rightarrow> ('g \<Rightarrow> (sdk_error + 'a option) open_read) \<Rightarrow> ('a \<Rightarrow> 'a \<Rightarrow> bool)
      \<Rightarrow> ('a \<Rightarrow> int) option \<Rightarrow> 'a cross_check" where
  "accountCrossCheck lag getAccount second read equal positionOf =
     \<lparr>endpoints = ENDPOINT_NAMES, endpointRead = accountEndpoint getAccount second read positionOf,
      equalValues = equal, timerLag = lag, windowMs = CROSS_CHECK_WINDOW_MS,
      retryIntervalMs = CROSS_CHECK_RETRY_INTERVAL_MS\<rparr>"

definition openT :: "('e + 'a) open_read \<Rightarrow> ('e, 'a) timed" where
  "openT read now = (case read now of None \<Rightarrow> None | Some (dt, r) \<Rightarrow> Some (now + int dt, r))"

definition crossCheckedAccountRead ::
    "(time \<Rightarrow> nat) \<Rightarrow> 'g \<Rightarrow> 'g solana_cross_check \<Rightarrow> ('g \<Rightarrow> (sdk_error + 'a option) open_read)
      \<Rightarrow> ('a \<Rightarrow> 'a \<Rightarrow> bool) \<Rightarrow> ('a \<Rightarrow> int) option \<Rightarrow> (sdk_error, 'a option) timed" where
  "crossCheckedAccountRead lag getAccount crossCheck read equal positionOf =
     (case crossCheck of
        NotCrossChecked \<Rightarrow> openT (read getAccount)
      | CrossCheckThrough second \<Rightarrow>
          crossCheckedRead (accountCrossCheck lag getAccount second read equal positionOf))"

lemma accountEndpoint_gave:
  "gave (accountCrossCheck lag g g' read equal positionOf) start deadline ep a \<Longrightarrow>
     \<exists>t dt. start \<le> t \<and> read (if ep = FirstEndpoint then g else g') t = Some (dt, Inr (answerValue a))"
  unfolding gave_def accountCrossCheck_def accountEndpoint_def
  by (cases "ep = FirstEndpoint") (fastforce split: option.split_asm prod.split_asm sum.split_asm)+

text \<open>What a read of an account returns was read through the first endpoint, and agreed to by the second.\<close>

lemma crossCheckedAccountRead_Inr:
  assumes "crossCheckedAccountRead lag g cc read equal positionOf now = Some (t, Inr v)"
  shows "(\<exists>s dt. now \<le> s \<and> read g s = Some (dt, Inr v)) \<and>
    (\<forall>g'. cc = CrossCheckThrough g' \<longrightarrow>
       (\<exists>s dt w. now \<le> s \<and> read g' s = Some (dt, Inr w) \<and> sameValue equal v w))"
proof (cases cc)
  case NotCrossChecked
  then show ?thesis using assms
    by (auto simp: crossCheckedAccountRead_def openT_def split: option.splits)
next
  case (CrossCheckThrough g')
  let ?C = "accountCrossCheck lag g g' read equal positionOf"
  have "crossCheckedRead ?C now = Some (t, Inr v)"
    using assms CrossCheckThrough by (simp add: crossCheckedAccountRead_def)
  from crossCheckedRead_gave [OF this] obtain a b
    where "gave ?C now (now + int (windowMs ?C)) FirstEndpoint a"
      "gave ?C now (now + int (windowMs ?C)) SecondEndpoint b"
      "sameValue (equalValues ?C) (answerValue a) (answerValue b)" "v = answerValue a" by blast
  then show ?thesis
    using accountEndpoint_gave [of lag g g' read equal positionOf] CrossCheckThrough
    by (fastforce simp: accountCrossCheck_def)
qed

end
