(* ===== verification/Demo_Answers.thy ===== *)
theory Demo_Answers
  imports Demo Answer_Laws Cross_Check
begin

text \<open>
  The properties of requests and of their answers applied to concrete requests, with the libraries
  of \<open>Demo\<close>.
\<close>

section \<open>Requests\<close>

definition demoAttestation :: network_signed_attestation where
  "demoAttestation =
     \<lparr>attestation_data = [0, 1], network_signature = theSignature, network_pubkey = theKey,
      signer_noa_public_key = theKey\<rparr>"

definition demoSign :: sign_request where
  "demoSign =
     \<lparr>sg_message = [1, 2], sg_message_metadata = [], sg_signature_scheme = EddsaSha512,
      sg_presign_session_identifier = [3], sg_message_centralized_signature = [4],
      sg_dwallet_attestation = demoAttestation, sg_signature_voucher = []\<rparr>"

definition demoRequest :: "dwallet_request \<Rightarrow> signed_request_data" where
  "demoRequest r =
     \<lparr>session_identifier_preimage = [1], req_epoch = 1, req_chain_id = Solana, req_network = 0,
      req_intended_chain_sender = [2], req_request = r\<rparr>"

definition requestLib :: sdk_lib where
  "requestLib = demoLib\<lparr>signedRequestDataBcs := oneValue (demoRequest (Sign demoSign)) [5, 6],
     userSignatureBcs := oneValue (UserEd25519 theSignature theKey) [7, 8]\<rparr>"

definition demoKeypair :: transport_keypair where
  "demoKeypair = \<lparr>kp_secretKey = [9], kp_publicKey = theKey\<rparr>"

definition demoSigner :: ed25519_sign where
  "demoSigner m secret = Some theSignature"

theorem signRequestBytes_sign_witness:
  "signRequestBytes requestLib demoSigner demoKeypair (demoRequest (Sign demoSign)) =
     Inr \<lparr>sr_userSignature = [7, 8], sr_signedRequestData = [5, 6]\<rparr>"
proof -
  have "req_request (demoRequest (Sign demoSign)) = Sign demoSign \<or>
      req_request (demoRequest (Sign demoSign)) = ImportedKeySign demoSign"
    by (simp add: demoRequest_def)
  note iff = signRequestBytes_sign [OF this]
  show ?thesis unfolding iff
    by (simp add: demoRequest_def demoSign_def attestation_fits_def demoAttestation_def requestLib_def
        demoSigner_def demoKeypair_def theSignature_def theKey_def)
qed

definition demoFutureSign :: future_sign_request where
  "demoFutureSign =
     \<lparr>fs_dwallet_public_key = [3], fs_dwallet_attestation = demoAttestation,
      fs_presign_attestation = demoAttestation, fs_message = replicate 16385 0, fs_message_metadata = [],
      fs_message_centralized_signature = [4], fs_signature_scheme = EddsaSha512,
      fs_future_signature_voucher = []\<rparr>"

theorem unlisted_kinds_unchecked_witness:
  "assertRequestFieldsWithinLimits (demoRequest (FutureSign demoFutureSign)) = Inr () \<and>
   length (fs_message demoFutureSign) > messageBytes GRPC_REQUEST_SIZE_LIMITS"
proof -
  have "case req_request (demoRequest (FutureSign demoFutureSign)) of
      FutureSign _ \<Rightarrow> True | SignWithPartialUserSig _ \<Rightarrow> True | ImportedKeySignWithPartialUserSig _ \<Rightarrow> True
    | ImportedKeyVerification _ \<Rightarrow> True | AttachEncryptedShare _ \<Rightarrow> True | _ \<Rightarrow> False"
    by (simp add: demoRequest_def)
  note iff = unlisted_kinds_unchecked [OF this]
  show ?thesis unfolding iff
    by (simp add: demoRequest_def demoFutureSign_def GRPC_REQUEST_SIZE_LIMITS_def)
qed

theorem sessionPreimage_inject_witness:
  "sessionPreimage 7 SignerEd25519 theKey [1] \<noteq> sessionPreimage 8 SignerEd25519 theKey [1]"
  using sessionPreimage_inject [of theKey SignerEd25519 theKey SignerEd25519 7 8 "[1]" "[1]"]
  by (simp add: theKey_def u64_max_def)

section \<open>A share's answer\<close>

definition movedShare :: encrypted_share_attestation where
  "movedShare =
     \<lparr>es_session_identifier = [7], es_intended_chain_sender = [2], es_dwallet_public_key = [3],
      es_encrypted_share_hash = lengthHash [6], es_encryption_key_hash = lengthHash [5],
      es_holder = demoHolder, es_dwallet_attestation_digest = lengthHash [0, 1]\<rparr>"

definition answerLib :: sdk_lib where
  "answerLib = demoLib\<lparr>encryptedShareBcs := oneValue (V1 movedShare) [0, 3]\<rparr>"

definition movedAnswer :: network_signed_attestation where
  "movedAnswer = demoAttestation\<lparr>attestation_data := [0, 3]\<rparr>"

definition movedSent :: sent_re_encrypt where
  "movedSent =
     \<lparr>sre_sessionIdentifier = [7], sre_networkKeyId = theKey, sre_encryptedShareAndProof = [6],
      sre_encryptionKey = [5], sre_holderSignerPublicKey = [9]\<rparr>"

lemma moved_answered:
  "\<exists>a. answered_with answerLib (encryptedShareBcs answerLib) EncryptedShareKind
     (AttestationResponse movedAnswer) demoTrust (sre_networkKeyId movedSent) a movedShare"
  by (auto simp: answered_with_def answerLib_def movedAnswer_def movedSent_def demoAttestation_def
      key_named_def signed_record_def decodes_def demo_lib recordOfAttestation_def)

theorem share_answers_iff_witness:
  "verifyReEncryptShareAnswer answerLib (AttestationResponse movedAnswer) demoTrust
     (dwallet_of demoRecord demoDWallet) movedSent = Inr movedShare"
  using share_answers_iff [THEN conjunct2, THEN iffD2, of answerLib "AttestationResponse movedAnswer"
      demoTrust movedSent movedShare "dwallet_of demoRecord demoDWallet"] moved_answered
  by (simp add: binds_dwallet_def answerLib_def movedSent_def movedShare_def demoHolder_def
      demoDWallet_def demoRecord_def dwallet_of_def)

section \<open>Cross-checked reads\<close>

text \<open>The second endpoint serves the record at once, the first from 1500 ms on.\<close>

definition servedRecord :: "bool answer_at" where
  "servedRecord = \<lparr>position = 0, answerValue = Some True\<rparr>"

definition lateRead :: "bool endpoint_read" where
  "lateRead ep m t =
     Some (0, Inr (AnswerAt (if ep = SecondEndpoint \<and> 0 \<le> t \<or> 1500 \<le> t then servedRecord
                             else \<lparr>position = 0, answerValue = None\<rparr>)))"

definition lateCheck :: "bool cross_check" where
  "lateCheck = \<lparr>endpoints = ENDPOINT_NAMES, endpointRead = lateRead, equalValues = (=), timerLag = (\<lambda>t. 0),
     windowMs = CROSS_CHECK_WINDOW_MS, retryIntervalMs = CROSS_CHECK_RETRY_INTERVAL_MS\<rparr>"

lemmas late_check = lateCheck_def lateRead_def servedRecord_def CROSS_CHECK_WINDOW_MS_def
  CROSS_CHECK_RETRY_INTERVAL_MS_def

text \<open>
  The first endpoint serves the record, the second an older value at a lower position until 1500 ms, or that it is behind
  when asked for a position; every read takes 2 ms and a timer fires up to 5 ms late.
\<close>

definition behindRead :: "bool endpoint_read" where
  "behindRead ep m t =
     Some (2, Inr (if ep = FirstEndpoint \<or> 1500 \<le> t then AnswerAt \<lparr>position = 7, answerValue = Some True\<rparr>
                   else if m = None then AnswerAt \<lparr>position = 4, answerValue = Some False\<rparr> else Behind))"

definition behindCheck :: "bool cross_check" where
  "behindCheck = lateCheck\<lparr>endpointRead := behindRead, timerLag := (\<lambda>t. nat (t mod 6))\<rparr>"

theorem crossCheckedRead_catches_up_witness:
  "\<exists>t. crossCheckedRead behindCheck 0 = Some (t, Inr (Some True)) \<and> t \<le> 2509"
proof -
  let ?a = "\<lparr>position = 7, answerValue = Some True\<rparr>"
  have "catches_up behindCheck SecondEndpoint 1500 2 ?a ?a"
    by (simp add: catches_up_def stale_def agreed_def sameValue_def behindCheck_def behindRead_def lateCheck_def)
  moreover have "timerLag behindCheck t \<le> 5" for t by (simp add: behindCheck_def)
  ultimately show ?thesis
    using crossCheckedRead_catches_up [of behindCheck SecondEndpoint 1500 2 ?a ?a True 0 2 5]
    by (simp add: behindCheck_def behindRead_def late_check agreed_def sameValue_def)
qed

lemma lateCheck_run: "crossCheckedRead lateCheck 0 = Some (2000, Inr (Some True))"
  by (simp add: late_check crossCheckedRead_def bothReads_def readFrom_def answered_def result_simps
      crossLoop.simps agreed_def sameValue_def laggingOf_def targetOf_def takeAnswer_def reRead_def wakeAt_def)

theorem crossCheckedRead_agreed_witness:
  "\<exists>b. gave lateCheck 0 10000 SecondEndpoint b \<and> answerValue b = Some True"
  using crossCheckedRead_agreed [OF lateCheck_run]
  by (auto simp: lateCheck_def CROSS_CHECK_WINDOW_MS_def sameValue_def split: option.splits)

definition silentCheck :: "bool cross_check" where
  "silentCheck = lateCheck\<lparr>endpointRead := (\<lambda>ep m t. None)\<rparr>"

theorem crossCheckedRead_ends_witness:
  "\<exists>t r. crossCheckedRead silentCheck 0 = Some (t, r) \<and> t \<le> 10000"
  using crossCheckedRead_ends [of silentCheck 0 0] by (simp add: silentCheck_def late_check)

end
