(* ===== verification/Share_Ownership.thy ===== *)
theory Share_Ownership
  imports Answer_Checks Polling
begin

text \<open>
  The check that a user's key holds a dWallet's share, and the results it issues
  (\<open>grpc/share-ownership.ts\<close>, \<open>grpc/usable-state.ts\<close>). A reader is a record of functions, each a read
  of the chain that may throw; the wait of an \<open>await\<close> is not modelled, and every input is a value, so
  the copies the source takes before its first wait are the values themselves. The \<open>WeakMap\<close> of issued
  results is an explicit store: an object the check made refers to its entry, every other object to
  none. \<open>R\<close> stands for \<open>realCryptography\<close>.
\<close>

section \<open>Readers\<close>

record checked_share_record =
  csr_record :: attestation_record
  csr_acceptanceGiven :: bool

record checked_dwallet_record =
  cdr_address :: bytes
  cdr_networkPublicKey :: bytes
  cdr_attestation :: attestation_record
  cdr_readEncryptedShare :: "bytes \<Rightarrow> bytes option \<Rightarrow> sdk_error + checked_share_record option"
  cdr_readPublicShare :: "sdk_error + attestation_record option"
  cdr_migratedShare :: "(bytes \<Rightarrow> string option \<Rightarrow> sdk_error + bool) option"

record share_reader =
  rd_chain :: request_chain
  rd_trusted :: trusted_network_keys
  rd_readDWallet :: "expected_dwallet \<Rightarrow> sdk_error + checked_dwallet_record option"
  rd_readDWalletAt :: "(bytes \<Rightarrow> sdk_error + checked_dwallet_record option) option"
  rd_cryptography :: "user_cryptography option"

definition readerWithCryptography :: "share_reader \<Rightarrow> user_cryptography \<Rightarrow> share_reader" where
  "readerWithCryptography reader cryptography = reader\<lparr>rd_cryptography := Some cryptography\<rparr>"

definition cryptographyOf :: "user_cryptography \<Rightarrow> share_reader \<Rightarrow> user_cryptography" where
  "cryptographyOf R reader = (case rd_cryptography reader of None \<Rightarrow> R | Some U \<Rightarrow> U)"

definition snapshotReader :: "user_cryptography \<Rightarrow> share_reader \<Rightarrow> share_reader" where
  "snapshotReader R reader =
     \<lparr>rd_chain = rd_chain reader, rd_trusted = copyTrustedNetworkKeys (rd_trusted reader),
      rd_readDWallet = rd_readDWallet reader, rd_readDWalletAt = None,
      rd_cryptography = Some (cryptographyOf R reader)\<rparr>"

section \<open>What an attestation names\<close>

definition requireAttestedKeyOfOutput :: "user_cryptography \<Rightarrow> dwallet_attestation \<Rightarrow> sdk_error + unit" where
  "requireAttestedKeyOfOutput U att =
     bindE (mapErr (\<lambda>_. Err ''Unknown curve number'')
              (fromNumberToCurve (indexOf ATTESTATION_CURVES (dw_curve att)))) (\<lambda>curve.
     bindE (publicKeyFromDWalletOutput U curve (dw_public_output att)) (\<lambda>keyOfOutput.
     refuseUnless ''public_key_of_output'' (equalBytes (dw_public_key att) keyOfOutput) CkBinding))"

definition askedOf :: "dwallet_attestation \<Rightarrow> expected_dwallet" where
  "askedOf att =
     \<lparr>ex_curve = indexOf ATTESTATION_CURVES (dw_curve att), ex_publicKey = dw_public_key att,
      ex_importedSessionIdentifier =
        (if dw_is_imported_key att then Some (dw_session_identifier att) else None)\<rparr>"

definition decodeDWalletAttestation :: "sdk_lib \<Rightarrow> bytes \<Rightarrow> sdk_error + dwallet_attestation" where
  "decodeDWalletAttestation L bs = decodeV1 (dwalletBcs L) bs"

section \<open>The dWallet on its chain\<close>

record chain_dwallet =
  cd_verified :: verified_dwallet
  cd_address :: bytes
  cd_networkPublicKey :: bytes
  cd_readOwnShare :: "bytes \<Rightarrow> bytes option \<Rightarrow> sdk_error + (bytes \<times> bool) option"
  cd_readPublicShare :: "sdk_error + bool"
  cd_migratedShare :: "(bytes \<Rightarrow> string option \<Rightarrow> sdk_error + bool) option"

definition readOwnShareOf ::
    "sdk_lib \<Rightarrow> trusted_network_keys \<Rightarrow> checked_dwallet_record \<Rightarrow> verified_dwallet \<Rightarrow> bytes \<Rightarrow> bytes option
      \<Rightarrow> sdk_error + (bytes \<times> bool) option" where
  "readOwnShareOf L trusted rec verified userKey given =
     bindE (cdr_readEncryptedShare rec userKey given) (\<lambda>share.
       case share of
         None \<Rightarrow> Inr None
       | Some s \<Rightarrow>
           bindE (verifyEncryptedShareAttestationRecord L (csr_record s) trusted verified
                    \<lparr>holderSignerPublicKey = userKey, holderSignatureScheme = None\<rparr>) (\<lambda>att.
           Inr (Some (holder_key (es_holder att), csr_acceptanceGiven s))))"

definition readPublicShareOf ::
    "sdk_lib \<Rightarrow> trusted_network_keys \<Rightarrow> checked_dwallet_record \<Rightarrow> verified_dwallet \<Rightarrow> sdk_error + bool" where
  "readPublicShareOf L trusted rec verified =
     bindE (cdr_readPublicShare rec) (\<lambda>share.
       case share of
         None \<Rightarrow> Inr False
       | Some s \<Rightarrow> bindE (verifyPublicShareAttestationRecord L s trusted verified) (\<lambda>_. Inr True))"

definition readChainDWallet ::
    "sdk_lib \<Rightarrow> share_reader \<Rightarrow> expected_dwallet \<Rightarrow> sdk_error + chain_dwallet option" where
  "readChainDWallet L reader asked =
     (let trusted = rd_trusted reader in
      bindE (rd_readDWallet reader asked) (\<lambda>found.
        case found of
          None \<Rightarrow> Inr None
        | Some rec \<Rightarrow>
            bindE (verifyDWalletAttestationRecord L (cdr_attestation rec) trusted asked) (\<lambda>verified.
            if \<not> trusts trusted (cdr_networkPublicKey rec)
            then Inl (field_error CkRecord ''noa_public_key'')
            else Inr (Some
              \<lparr>cd_verified = verified, cd_address = cdr_address rec,
               cd_networkPublicKey = cdr_networkPublicKey rec,
               cd_readOwnShare = readOwnShareOf L trusted rec verified,
               cd_readPublicShare = readPublicShareOf L trusted rec verified,
               cd_migratedShare = cdr_migratedShare rec\<rparr>))))"

definition readDWalletHolding ::
    "sdk_lib \<Rightarrow> share_reader \<Rightarrow> expected_dwallet \<Rightarrow> bytes \<Rightarrow> sdk_error + chain_dwallet" where
  "readDWalletHolding L source asked attData =
     bindE (readChainDWallet L source asked) (\<lambda>found.
       case found of
         None \<Rightarrow> Inl (Err ''the dWallet is not on the chain; it may not be committed yet'')
       | Some cd \<Rightarrow>
           if \<not> equalBytes (vd_attestationData (cd_verified cd)) attData
           then Inl (field_error CkRecord ''attestation_data'') else Inr cd)"

section \<open>Whose share it is\<close>

text \<open>\<open>catch (error)\<close> of a share read: a record that names another holder is not the user's.\<close>

definition notYoursOnHolder :: "sdk_error \<Rightarrow> sdk_error" where
  "notYoursOnHolder e =
     (case e of
        AttestationRecordError c f \<Rightarrow> if f = Some ''holder'' then DWalletShareNotYours AnotherHolder else e
      | _ \<Rightarrow> e)"

definition attachedShareOfMigratedDWallet :: "chain_dwallet \<Rightarrow> bytes \<Rightarrow> sdk_error + bool" where
  "attachedShareOfMigratedDWallet cd userKey =
     (let att = vd_attestation (cd_verified cd) in
      if \<not> (dw_epoch att = MIGRATED_DWALLET_ATTESTATION_EPOCH \<and> dw_holder att = None) then Inr False
      else bindE (mapErr notYoursOnHolder (cd_readOwnShare cd userKey None)) (\<lambda>own.
        case own of
          None \<Rightarrow> Inr False
        | Some (holder, _) \<Rightarrow>
            if \<not> equalBytes holder userKey then Inl (DWalletShareNotYours AnotherHolder) else Inr True))"

text \<open>The share is then always encrypted; the result is whether it was migrated.\<close>

definition usabilityWithoutHolder ::
    "chain_dwallet \<Rightarrow> bytes \<Rightarrow> string option \<Rightarrow> sdk_error + bool" where
  "usabilityWithoutHolder cd userKey classicShareId =
     bindE (attachedShareOfMigratedDWallet cd userKey) (\<lambda>attached.
       if attached then Inr False
       else bindE (case cd_migratedShare cd of
                     None \<Rightarrow> Inr False
                   | Some check \<Rightarrow> check userKey classicShareId) (\<lambda>migrated.
         if migrated then Inr True else Inl (DWalletShareNotYours ShareMissing)))"

definition usabilityOfEncryptedShare ::
    "chain_dwallet \<Rightarrow> bytes \<Rightarrow> bytes \<Rightarrow> bytes option \<Rightarrow> sdk_error + bool" where
  "usabilityOfEncryptedShare cd userKey namedHolder acceptanceSignature =
     (let another = \<not> equalBytes namedHolder userKey in
      bindE (mapErr notYoursOnHolder (cd_readOwnShare cd userKey acceptanceSignature)) (\<lambda>own.
        case own of
          None \<Rightarrow> Inl (DWalletShareNotYours (if another then AnotherHolder else ShareMissing))
        | Some (holder, given) \<Rightarrow>
            if \<not> equalBytes holder userKey then Inl (DWalletShareNotYours AnotherHolder)
            else if given \<and> another then Inl (DWalletShareNotYours AnotherHolder)
            else Inr given))"

section \<open>The check\<close>

datatype share_kind = ShareEncrypted | SharePublic

record issued_state =
  is_chain :: request_chain
  is_address :: bytes
  is_curve :: int
  is_publicKey :: bytes
  is_importedSessionIdentifier :: "bytes option"
  is_holder :: bytes
  is_share :: share_kind
  is_migrated :: bool
  is_waiting :: bool
  is_publicOutput :: bytes
  is_attestation :: network_signed_attestation
  is_verifiedAt :: time

record usable_options =
  op_classicShareId :: "string option"
  op_acceptanceSignature :: "bytes option"

definition noOptions :: usable_options where
  "noOptions = \<lparr>op_classicShareId = None, op_acceptanceSignature = None\<rparr>"

definition usabilityOf ::
    "chain_dwallet \<Rightarrow> bytes \<Rightarrow> usable_options \<Rightarrow> sdk_error + share_kind \<times> bool \<times> bool" where
  "usabilityOf cd userKey opts =
     bindE (cd_readPublicShare cd) (\<lambda>hasPublicShare.
       if hasPublicShare then Inr (SharePublic, False, False)
       else case dw_holder (vd_attestation (cd_verified cd)) of
         None \<Rightarrow>
           bindE (usabilityWithoutHolder cd userKey (op_classicShareId opts)) (\<lambda>migrated.
             Inr (ShareEncrypted, migrated, False))
       | Some named \<Rightarrow>
           bindE (usabilityOfEncryptedShare cd userKey (holder_key named) (op_acceptanceSignature opts)) (\<lambda>waiting.
             Inr (ShareEncrypted, False, waiting)))"

definition issuedStateOf ::
    "request_chain \<Rightarrow> expected_dwallet \<Rightarrow> bytes \<Rightarrow> chain_dwallet \<Rightarrow> share_kind \<times> bool \<times> bool \<Rightarrow> time \<Rightarrow> issued_state" where
  "issuedStateOf chain asked userKey cd usability now =
     (let (share, migrated, waiting) = usability; verified = cd_verified cd in
      \<lparr>is_chain = chain, is_address = cd_address cd, is_curve = ex_curve asked,
       is_publicKey = ex_publicKey asked,
       is_importedSessionIdentifier = ex_importedSessionIdentifier asked,
       is_holder = userKey, is_share = share, is_migrated = migrated, is_waiting = waiting,
       is_publicOutput = dw_public_output (vd_attestation verified),
       is_attestation =
         \<lparr>attestation_data = vd_attestationData verified, network_signature = vd_networkSignature verified,
          network_pubkey = cd_networkPublicKey cd, signer_noa_public_key = vd_signer verified\<rparr>,
       is_verifiedAt = now\<rparr>)"

text \<open>The reads and checks, up to \<open>Date.now()\<close>, given as \<open>now\<close>.\<close>

definition checkDWalletUsable ::
    "sdk_lib \<Rightarrow> user_cryptography \<Rightarrow> share_reader \<Rightarrow> bytes \<Rightarrow> bytes \<Rightarrow> usable_options \<Rightarrow> time
      \<Rightarrow> sdk_error + issued_state" where
  "checkDWalletUsable L R reader userKey attData opts now =
     (let source = snapshotReader R reader in
      bindE (decodeDWalletAttestation L attData) (\<lambda>att.
      let asked = askedOf att in
      bindE (readDWalletHolding L source asked attData) (\<lambda>cd.
      seqE (requireAttestedKeyOfOutput (cryptographyOf R source) (vd_attestation (cd_verified cd)))
     (bindE (usabilityOf cd userKey opts) (\<lambda>usability.
      Inr (issuedStateOf (rd_chain source) asked userKey cd usability now))))))"

section \<open>Issued results\<close>

text \<open>The store; an object holds the entry it refers to, \<open>None\<close> for one the check did not make.\<close>

type_synonym issued_results = "issued_state list"

record dwallet_usable =
  us_ref :: "nat option"
  us_shown :: issued_state

definition issuedGet :: "issued_results \<Rightarrow> dwallet_usable \<Rightarrow> issued_state option" where
  "issuedGet store usable =
     (case us_ref usable of
        None \<Rightarrow> None
      | Some i \<Rightarrow> if i < length store then Some (store ! i) else None)"

definition issue :: "issued_state \<Rightarrow> issued_results \<Rightarrow> dwallet_usable \<times> issued_results" where
  "issue state store = (\<lparr>us_ref = Some (length store), us_shown = state\<rparr>, store @ [state])"

definition assertDWalletUsable ::
    "sdk_lib \<Rightarrow> user_cryptography \<Rightarrow> share_reader \<Rightarrow> bytes \<Rightarrow> bytes \<Rightarrow> usable_options \<Rightarrow> time \<Rightarrow> issued_results
      \<Rightarrow> sdk_error + dwallet_usable \<times> issued_results" where
  "assertDWalletUsable L R reader userKey attData opts now store =
     bindE (checkDWalletUsable L R reader userKey attData opts now) (\<lambda>state. Inr (issue state store))"

definition sameSession :: "bytes option \<Rightarrow> bytes option \<Rightarrow> bool" where
  "sameSession left right =
     (case (left, right) of
        (Some l, Some r) \<Rightarrow> equalBytes l r
      | (None, None) \<Rightarrow> True
      | _ \<Rightarrow> False)"

datatype dwallet_to_read = DWalletAtAddress bytes | DWalletByKey expected_dwallet

definition readDWalletVerified ::
    "sdk_lib \<Rightarrow> user_cryptography \<Rightarrow> share_reader \<Rightarrow> bytes \<Rightarrow> dwallet_to_read \<Rightarrow> usable_options \<Rightarrow> time
      \<Rightarrow> issued_results \<Rightarrow> sdk_error + dwallet_usable \<times> issued_results" where
  "readDWalletVerified L R reader userKey dwallet opts now store =
     bindE (case dwallet of
              DWalletAtAddress a \<Rightarrow>
                (case rd_readDWalletAt reader of
                   None \<Rightarrow> Inl (Err ''this reader cannot read a dWallet by its address'')
                 | Some readAt \<Rightarrow> readAt a)
            | DWalletByKey asked \<Rightarrow> rd_readDWallet reader asked) (\<lambda>found.
       case found of
         None \<Rightarrow> Inl (Err ''the dWallet is not on the chain; it may not be committed yet'')
       | Some rec \<Rightarrow>
           bindE (assertDWalletUsable L R reader userKey (attestationData (cdr_attestation rec)) opts now store)
            (\<lambda>(usable, store').
             let checked = us_shown usable in
             if (case dwallet of
                   DWalletAtAddress a \<Rightarrow> equalBytes (is_address checked) a
                 | DWalletByKey asked \<Rightarrow>
                     is_curve checked = ex_curve asked \<and> equalBytes (is_publicKey checked) (ex_publicKey asked) \<and>
                     sameSession (is_importedSessionIdentifier checked) (ex_importedSessionIdentifier asked))
             then Inr (usable, store')
             else Inl (Err ''the chain served the record of another dWallet than the one asked for'')))"

section \<open>Accepting a re-encrypted share\<close>

definition decodeEncryptedShareAttestation :: "sdk_lib \<Rightarrow> bytes \<Rightarrow> sdk_error + encrypted_share_attestation" where
  "decodeEncryptedShareAttestation L bs =
     (case parse (encryptedShareBcs L) bs of
        None \<Rightarrow> Inl (att_error CkDecode)
      | Some decoded \<Rightarrow>
          bindE (ofOption (Err ''bcs'') (serialize (encryptedShareBcs L) decoded)) (\<lambda>encoded.
          if \<not> equalBytes encoded bs then Inl (att_error CkDecode) else Inr (v1 decoded)))"

definition shareAttestationSignatureVerifies :: "sdk_lib \<Rightarrow> bytes \<Rightarrow> bytes \<Rightarrow> bytes \<Rightarrow> bool" where
  "shareAttestationSignatureVerifies L att sig key =
     verifiedOrFalse (ed25519_verify L sig (attestationSigningMessage EncryptedShareKind att) key)"

definition decryptedShare ::
    "user_cryptography \<Rightarrow> int \<Rightarrow> bytes \<Rightarrow> bytes \<Rightarrow> bytes \<Rightarrow> bytes \<Rightarrow> bytes option" where
  "decryptedShare U curve key output share params =
     (case decryptUserShare U curve key output share params of Inl _ \<Rightarrow> None | Inr d \<Rightarrow> Some d)"

record accept_share_arguments =
  ac_reader :: share_reader
  ac_holderSecretKey :: bytes
  ac_decryptionKey :: bytes
  ac_encryptionKey :: bytes
  ac_sender :: bytes
  ac_senderAcceptanceSignature :: "bytes option"
  ac_dwalletAttestation :: bytes
  ac_shareAttestation :: network_signed_attestation
  ac_encryptedShareAndProof :: bytes
  ac_protocolPublicParameters :: bytes

text \<open>The share attestation's fields, against the dWallet, the holder's own keys and the ciphertext.\<close>

definition reEncryptedShareFields ::
    "sdk_lib \<Rightarrow> ed25519_lib \<Rightarrow> accept_share_arguments \<Rightarrow> dwallet_attestation \<Rightarrow> expected_dwallet
      \<Rightarrow> encrypted_share_attestation \<Rightarrow> sdk_error + unit" where
  "reEncryptedShareFields L E args att asked share =
     bindE (if holder_scheme (es_holder share) \<noteq> Scheme_Ed25519 then Inr False
            else bindE (ofOption (Err ''ed25519'') (edGetPublicKey E (ac_holderSecretKey args))) (\<lambda>k.
                   Inr (equalBytes (holder_key (es_holder share)) k))) (\<lambda>holderIsOwn.
     seqE (refuseUnless ''share_holder'' holderIsOwn CkBinding)
    (seqE (refuseUnless ''share_dwallet_attestation_digest''
             (equalBytes (es_dwallet_attestation_digest share) (keccak_256 L (ac_dwalletAttestation args))) CkBinding)
    (seqE (refuseUnless ''share_dwallet_public_key''
             (equalBytes (es_dwallet_public_key share) (ex_publicKey asked)) CkBinding)
    (seqE (refuseUnless ''share_intended_chain_sender''
             (equalBytes (es_intended_chain_sender share) (dw_intended_chain_sender att)) CkBinding)
    (seqE (refuseUnless ''share_encryption_key_hash''
             (equalBytes (es_encryption_key_hash share) (keccak_256 L (ac_encryptionKey args))) CkBinding)
          (refuseUnless ''share_encrypted_share_hash''
             (equalBytes (es_encrypted_share_hash share) (keccak_256 L (ac_encryptedShareAndProof args)))
             CkBinding))))))"

definition signReEncryptedShareAcceptance ::
    "sdk_lib \<Rightarrow> user_cryptography \<Rightarrow> ed25519_lib \<Rightarrow> accept_share_arguments \<Rightarrow> sdk_error + share_acceptance" where
  "signReEncryptedShareAcceptance L R E args =
     (let reader = snapshotReader R (ac_reader args); signedShare = ac_shareAttestation args in
      bindE (decodeDWalletAttestation L (ac_dwalletAttestation args)) (\<lambda>att.
      let asked = askedOf att in
      bindE (readDWalletHolding L reader asked (ac_dwalletAttestation args)) (\<lambda>cd.
      seqE (requireAttestedKeyOfOutput (cryptographyOf R reader) (vd_attestation (cd_verified cd)))
     (bindE (cd_readOwnShare cd (ac_sender args) (ac_senderAcceptanceSignature args)) (\<lambda>source.
      case source of
        None \<Rightarrow> Inl (Err ''no share record of the sender is on the chain'')
      | Some (_, given) \<Rightarrow>
          let senderIsAttested =
            (case dw_holder (vd_attestation (cd_verified cd)) of
               None \<Rightarrow> False
             | Some h \<Rightarrow> holder_scheme h = Scheme_Ed25519 \<and> equalBytes (holder_key h) (ac_sender args)) in
          seqE (refuseUnless ''sender_is_attested_holder'' (\<not> given \<or> senderIsAttested) CkBinding)
         (bindE (decodeEncryptedShareAttestation L (attestation_data signedShare)) (\<lambda>share.
          seqE (refuseUnless ''share_signer_noa_public_key''
                  (trusts (rd_trusted reader) (signer_noa_public_key signedShare)) CkSigner)
         (seqE (refuseUnless ''share_network_signature''
                  (shareAttestationSignatureVerifies L (attestation_data signedShare)
                     (network_signature signedShare) (signer_noa_public_key signedShare)) CkSignature)
         (seqE (refuseUnless ''share_network_pubkey''
                  (equalBytes (network_pubkey signedShare) (cd_networkPublicKey cd)) CkBinding)
         (seqE (reEncryptedShareFields L E args att asked share)
         (seqE (refuseUnless ''encrypted_share''
                  (decryptedShare (cryptographyOf R reader) (ex_curve asked) (ac_decryptionKey args)
                     (dw_public_output (vd_attestation (cd_verified cd))) (ac_encryptedShareAndProof args)
                     (ac_protocolPublicParameters args) \<noteq> None) CkBinding)
               (signShareAcceptance E (ac_holderSecretKey args)
                  (shareAttestationDigest L (attestation_data signedShare))))))))))))))"

section \<open>Decrypting the holder's share\<close>

record decrypt_share_arguments =
  de_reader :: share_reader
  de_holderSignerPublicKey :: bytes
  de_decryptionKey :: bytes
  de_encryptionKey :: bytes
  de_dwalletAttestation :: bytes
  de_shareAttestation :: network_signed_attestation
  de_encryptedShareAndProof :: bytes
  de_protocolPublicParameters :: bytes

definition decryptHolderShare ::
    "sdk_lib \<Rightarrow> user_cryptography \<Rightarrow> decrypt_share_arguments \<Rightarrow> sdk_error + bytes" where
  "decryptHolderShare L R args =
     (let reader = snapshotReader R (de_reader args); signedShare = de_shareAttestation args in
      bindE (decodeDWalletAttestation L (de_dwalletAttestation args)) (\<lambda>att.
      let asked = askedOf att in
      bindE (readDWalletHolding L reader asked (de_dwalletAttestation args)) (\<lambda>cd.
      seqE (requireAttestedKeyOfOutput (cryptographyOf R reader) (vd_attestation (cd_verified cd)))
     (seqE (refuseUnless ''share_network_pubkey''
              (equalBytes (network_pubkey signedShare) (cd_networkPublicKey cd)) CkBinding)
     (bindE (verifyEncryptedShareAttestationRecord L (recordOfAttestation signedShare) (rd_trusted reader)
               (cd_verified cd)
               \<lparr>holderSignerPublicKey = de_holderSignerPublicKey args, holderSignatureScheme = None\<rparr>) (\<lambda>share.
      seqE (refuseUnless ''encryption_key_hash''
              (equalBytes (es_encryption_key_hash share) (keccak_256 L (de_encryptionKey args))) CkBinding)
     (seqE (refuseUnless ''encrypted_share_hash''
              (equalBytes (es_encrypted_share_hash share) (keccak_256 L (de_encryptedShareAndProof args)))
              CkBinding)
           (case decryptedShare (cryptographyOf R reader) (ex_curve asked) (de_decryptionKey args)
                   (dw_public_output (vd_attestation (cd_verified cd))) (de_encryptedShareAndProof args)
                   (de_protocolPublicParameters args) of
              None \<Rightarrow> Inl (field_error CkBinding ''encrypted_share'')
            | Some d \<Rightarrow> Inr d))))))))"

section \<open>Signing for a dWallet\<close>

record dwallet_ownership =
  ow_userKey :: bytes
  ow_reader :: "share_reader option"
  ow_usable :: "dwallet_usable option"

definition DWALLET_USABLE_MAX_AGE_MS :: int where
  "DWALLET_USABLE_MAX_AGE_MS = 5 * 60 * 1000"

definition notChecked :: "string \<Rightarrow> bool \<Rightarrow> sdk_error + unit" where
  "notChecked message holds = guardE holds (DWalletUsabilityNotChecked message)"

definition requireUsableFor ::
    "dwallet_usable \<Rightarrow> dwallet_attestation \<Rightarrow> bytes \<Rightarrow> bytes \<Rightarrow> bytes \<Rightarrow> time \<Rightarrow> issued_results
      \<Rightarrow> sdk_error + unit" where
  "requireUsableFor usable att attData networkPublicKey userKey now store =
     (case issuedGet store usable of
        None \<Rightarrow> Inl (DWalletUsabilityNotChecked ''the usability result was not made by assertDWalletUsable'')
      | Some verified \<Rightarrow>
          let asked = askedOf att in
          seqE (notChecked ''the usability result is for another dWallet''
                  (is_curve verified = ex_curve asked \<and> equalBytes (is_publicKey verified) (ex_publicKey asked) \<and>
                   ((is_importedSessionIdentifier verified = None) = (ex_importedSessionIdentifier asked = None)) \<and>
                   (case ex_importedSessionIdentifier asked of
                      None \<Rightarrow> True
                    | Some sid \<Rightarrow>
                        equalBytes (case is_importedSessionIdentifier verified of None \<Rightarrow> [] | Some v \<Rightarrow> v) sid)))
         (seqE (notChecked ''the usability result is for another user key''
                  (equalBytes (is_holder verified) userKey))
         (seqE (notChecked ''the usability result checked another attestation of the dWallet''
                  (equalBytes (attestation_data (is_attestation verified)) attData))
         (seqE (notChecked ''the usability result was checked under another network key''
                  (equalBytes (network_pubkey (is_attestation verified)) networkPublicKey))
               (notChecked ''the usability result is too old''
                  (\<not> now - is_verifiedAt verified > DWALLET_USABLE_MAX_AGE_MS))))))"

text \<open>\<open>checkedAt\<close> is the time at which a check run here ends.\<close>

definition requireDWalletUsable ::
    "sdk_lib \<Rightarrow> user_cryptography \<Rightarrow> dwallet_ownership \<Rightarrow> bytes \<Rightarrow> bytes \<Rightarrow> time \<Rightarrow> time \<Rightarrow> issued_results
      \<Rightarrow> sdk_error + dwallet_usable \<times> issued_results" where
  "requireDWalletUsable L R ownership attData networkPublicKey now checkedAt store =
     (case ow_usable ownership of
        Some usable \<Rightarrow>
          bindE (decodeDWalletAttestation L attData) (\<lambda>att.
          seqE (requireUsableFor usable att attData networkPublicKey (ow_userKey ownership) now store)
               (if (case issuedGet store usable of None \<Rightarrow> False | Some st \<Rightarrow> is_waiting st)
                then Inl (DWalletUsabilityNotChecked ''the usability result says the dWallet waits for its holder'')
                else Inr (usable, store)))
      | None \<Rightarrow>
          (case ow_reader ownership of
             Some reader \<Rightarrow>
               assertDWalletUsable L R reader (ow_userKey ownership) attData noOptions checkedAt store
           | None \<Rightarrow>
               Inl (DWalletUsabilityNotChecked ''a builder that signs for a dWallet needs a reader or a result'')))"

fun chainOfRequest :: "chain_id \<Rightarrow> request_chain" where
  "chainOfRequest Sui = OnSui"
| "chainOfRequest Solana = OnSolana"

fun signOfRequest :: "dwallet_request \<Rightarrow> sign_request option" where
  "signOfRequest (Sign s) = Some s"
| "signOfRequest (ImportedKeySign s) = Some s"
| "signOfRequest _ = None"

text \<open>The chain the given result was checked on, or the given reader reads.\<close>

definition checkedChainOf :: "dwallet_ownership \<Rightarrow> issued_results \<Rightarrow> request_chain option" where
  "checkedChainOf ownership store =
     (case ow_usable ownership of
        Some usable \<Rightarrow> map_option is_chain (issuedGet store usable)
      | None \<Rightarrow> map_option rd_chain (ow_reader ownership))"

text \<open>From the metadata check on, for the sign the serialized request holds.\<close>

definition signCheckedRequest ::
    "sdk_lib \<Rightarrow> user_cryptography \<Rightarrow> ed25519_sign \<Rightarrow> transport_keypair \<Rightarrow> bytes \<Rightarrow> request_chain \<Rightarrow> sign_request
      \<Rightarrow> dwallet_ownership \<Rightarrow> time \<Rightarrow> time \<Rightarrow> issued_results
      \<Rightarrow> sdk_error + signed_request \<times> issued_results" where
  "signCheckedRequest L R sign keypair data requestChain s ownership now checkedAt store =
     seqE (requireMessageMetadataOfScheme R (sg_signature_scheme s) (sg_message_metadata s))
    (let ownership' = ownership\<lparr>ow_reader :=
           (if ow_usable ownership = None then map_option (snapshotReader R) (ow_reader ownership) else None)\<rparr> in
     seqE (case checkedChainOf ownership' store of
             None \<Rightarrow> Inr ()
           | Some c \<Rightarrow> guardE (c = requestChain) (DWalletCheckedOnAnotherChain c requestChain))
    (bindE (requireDWalletUsable L R ownership' (attestation_data (sg_dwallet_attestation s))
              (network_pubkey (sg_dwallet_attestation s)) now checkedAt store) (\<lambda>(result, store').
     case issuedGet store' result of
       None \<Rightarrow> Inl (DWalletUsabilityNotChecked ''the usability result was not made by assertDWalletUsable'')
     | Some recorded \<Rightarrow>
         seqE (guardE (is_chain recorded = requestChain)
                 (DWalletCheckedOnAnotherChain (is_chain recorded) requestChain))
        (bindE (signSerializedRequest L sign keypair data) (\<lambda>out. Inr (out, store'))))))"

definition signDWalletSignRequest ::
    "sdk_lib \<Rightarrow> user_cryptography \<Rightarrow> ed25519_sign \<Rightarrow> transport_keypair \<Rightarrow> signed_request_data
      \<Rightarrow> dwallet_ownership \<Rightarrow> time \<Rightarrow> time \<Rightarrow> issued_results
      \<Rightarrow> sdk_error + signed_request \<times> issued_results" where
  "signDWalletSignRequest L R sign keypair d ownership now checkedAt store =
     seqE (assertRequestFieldsWithinLimits d)
    (bindE (ofOption (Err ''bcs'') (serialize (signedRequestDataBcs L) d)) (\<lambda>data.
     seqE (assertSignedRequestDataWithinLimit data)
    (bindE (ofOption (Err ''bcs'') (parse (signedRequestDataBcs L) data)) (\<lambda>parsed.
     case signOfRequest (req_request parsed) of
       None \<Rightarrow> Inl (TypeErr ''signDWalletSignRequest signs only a Sign or ImportedKeySign request'')
     | Some s \<Rightarrow>
         signCheckedRequest L R sign keypair data (chainOfRequest (req_chain_id parsed)) s
           ownership now checkedAt store))))"

end
