(* ===== verification/Ownership_Laws.thy ===== *)
theory Ownership_Laws
  imports Share_Ownership Answer_Laws
begin

text \<open>
  What the ownership check promises: when it passes and what it then holds of the chain's records, the
  invariant of the issued results over every sequence of calls, and that no sign request of a dWallet
  is signed without a check of the same dWallet, chain, key and attestation, at most five minutes old.
\<close>

section \<open>Parts of the check\<close>

lemma askedOf_expected [simp]:
  "ex_curve (askedOf d) = indexOf ATTESTATION_CURVES (dw_curve d)"
  "ex_publicKey (askedOf d) = dw_public_key d"
  "ex_importedSessionIdentifier (askedOf d) =
     (if dw_is_imported_key d then Some (dw_session_identifier d) else None)"
  by (simp_all add: askedOf_def)

lemma snapshotReader_simps [simp]:
  "rd_chain (snapshotReader R reader) = rd_chain reader"
  "rd_trusted (snapshotReader R reader) = rd_trusted reader"
  "rd_readDWallet (snapshotReader R reader) = rd_readDWallet reader"
  "cryptographyOf R (snapshotReader R reader) = cryptographyOf R reader"
  by (simp_all add: snapshotReader_def cryptographyOf_def)

text \<open>A share record that is the user's own, and whether the given acceptance stood in for its own.\<close>

definition share_of_holder ::
    "sdk_lib \<Rightarrow> trusted_network_keys \<Rightarrow> verified_dwallet \<Rightarrow> bytes \<Rightarrow> attestation_record
      \<Rightarrow> encrypted_share_attestation \<Rightarrow> bool" where
  "share_of_holder L trusted vd userKey r att \<longleftrightarrow>
     signed_record L (encryptedShareBcs L) EncryptedShareKind r trusted att \<and>
     binds_dwallet L vd (es_intended_chain_sender att) (es_dwallet_public_key att)
       (es_dwallet_attestation_digest att) \<and>
     es_holder att = \<lparr>holder_scheme = Scheme_Ed25519, holder_key = userKey\<rparr> \<and>
     (es_session_identifier att = dw_session_identifier (vd_attestation vd) \<longrightarrow>
        dw_encrypted_share_hash (vd_attestation vd) = Some (es_encrypted_share_hash att) \<and>
        dw_encryption_key_hash (vd_attestation vd) = Some (es_encryption_key_hash att) \<and>
        dw_holder (vd_attestation vd) = Some (es_holder att))"

definition own_share ::
    "sdk_lib \<Rightarrow> trusted_network_keys \<Rightarrow> checked_dwallet_record \<Rightarrow> verified_dwallet \<Rightarrow> bytes \<Rightarrow> bytes option
      \<Rightarrow> bool \<Rightarrow> bool" where
  "own_share L trusted rec vd userKey given flag \<longleftrightarrow>
     (\<exists>s. cdr_readEncryptedShare rec userKey given = Inr (Some s) \<and> csr_acceptanceGiven s = flag \<and>
        (\<exists>att. share_of_holder L trusted vd userKey (csr_record s) att))"

lemma askedHolder_ed25519:
  "askedHolder h \<lparr>holderSignerPublicKey = k, holderSignatureScheme = None\<rparr> \<longleftrightarrow>
     h = \<lparr>holder_scheme = Scheme_Ed25519, holder_key = k\<rparr>"
  by (cases h; cases "holder_scheme h")
    (auto simp: askedHolder_def indexOf_def ATTESTATION_SIGNATURE_SCHEMES_def)

lemma share_of_holder_Inr:
  "verifyEncryptedShareAttestationRecord L r trusted vd
     \<lparr>holderSignerPublicKey = k, holderSignatureScheme = None\<rparr> = Inr att \<longleftrightarrow>
   share_of_holder L trusted vd k r att"
proof -
  have cond: "(if c then P else True) \<longleftrightarrow> (c \<longrightarrow> P)" for c P by simp
  show ?thesis
    unfolding encrypted_share_record_Inr share_of_holder_def askedHolder_ed25519 cond ..
qed

lemma share_of_holder_key: "share_of_holder L trusted vd k r att \<Longrightarrow> holder_key (es_holder att) = k"
  by (simp add: share_of_holder_def)

lemma readOwnShareOf_Inr:
  "readOwnShareOf L trusted rec vd userKey given = Inr (Some (holder, flag)) \<longleftrightarrow>
     holder = userKey \<and> own_share L trusted rec vd userKey given flag"
  using share_of_holder_key
  by (fastforce simp: readOwnShareOf_def own_share_def bindE_eq_Inr share_of_holder_Inr split: option.splits)

lemma readOwnShareOf_None:
  "readOwnShareOf L trusted rec vd userKey given = Inr None \<longleftrightarrow>
     cdr_readEncryptedShare rec userKey given = Inr None"
  by (auto simp: readOwnShareOf_def result_simps split: option.splits)

lemma own_share_read:
  "own_share L trusted rec vd userKey given flag \<longleftrightarrow>
     readOwnShareOf L trusted rec vd userKey given = Inr (Some (userKey, flag))"
  unfolding readOwnShareOf_Inr by simp

lemma readOwnShareOf_holder:
  "readOwnShareOf L trusted rec vd userKey given = Inr (Some (holder, flag)) \<Longrightarrow> holder = userKey"
  unfolding readOwnShareOf_Inr by simp

text \<open>A public share record of the dWallet that verifies.\<close>

definition public_share ::
    "sdk_lib \<Rightarrow> trusted_network_keys \<Rightarrow> checked_dwallet_record \<Rightarrow> verified_dwallet \<Rightarrow> bool" where
  "public_share L trusted rec vd \<longleftrightarrow>
     (\<exists>s att. cdr_readPublicShare rec = Inr (Some s) \<and>
        signed_record L (publicShareBcs L) PublicShareKind s trusted att \<and>
        length (ps_public_user_secret_key_share att) =
          (case dw_curve (vd_attestation vd) of
             Curve_Secp256k1 \<Rightarrow> 35 | Curve_Secp256r1 \<Rightarrow> 35 | Curve_Curve25519 \<Rightarrow> 34 | Curve_Ristretto \<Rightarrow> 34) \<and>
        binds_dwallet L vd (ps_intended_chain_sender att) (ps_dwallet_public_key att)
          (ps_dwallet_attestation_digest att) \<and>
        (ps_session_identifier att = dw_session_identifier (vd_attestation vd) \<longrightarrow>
           dw_holder (vd_attestation vd) = None))"

lemma readPublicShareOf_Inr:
  "readPublicShareOf L trusted rec vd = Inr b \<longleftrightarrow>
     (if b then public_share L trusted rec vd else cdr_readPublicShare rec = Inr None)"
proof (cases "cdr_readPublicShare rec")
  case (Inr share)
  have cond: "(if c then P else True) \<longleftrightarrow> (c \<longrightarrow> P)" for c P by simp
  show ?thesis
  proof (cases share)
    case None
    then show ?thesis using Inr by (auto simp: readPublicShareOf_def public_share_def result_simps)
  next
    case (Some s)
    have "readPublicShareOf L trusted rec vd = Inr b \<longleftrightarrow> b \<and> public_share L trusted rec vd"
      unfolding readPublicShareOf_def public_share_def Inr Some bindE_Inr option.case bindE_eq_Inr
        public_share_record_Inr sum.inject option.inject cond by blast
    then show ?thesis using Inr Some by simp
  qed
qed (auto simp: readPublicShareOf_def public_share_def result_simps)

text \<open>What each usability means on the chain.\<close>

definition from_classic :: "checked_dwallet_record \<Rightarrow> bytes \<Rightarrow> usable_options \<Rightarrow> bool" where
  "from_classic rec userKey opts \<longleftrightarrow>
     (\<exists>check. cdr_migratedShare rec = Some check \<and> check userKey (op_classicShareId opts) = Inr True)"

definition is_migration :: "dwallet_attestation \<Rightarrow> bool" where
  "is_migration d \<longleftrightarrow> dw_epoch d = MIGRATED_DWALLET_ATTESTATION_EPOCH \<and> dw_holder d = None"

fun usability_held ::
    "sdk_lib \<Rightarrow> trusted_network_keys \<Rightarrow> checked_dwallet_record \<Rightarrow> verified_dwallet \<Rightarrow> bytes \<Rightarrow> usable_options
      \<Rightarrow> share_kind \<times> bool \<times> bool \<Rightarrow> bool" where
  "usability_held L trusted rec vd userKey opts (SharePublic, migrated, waiting) \<longleftrightarrow>
     \<not> migrated \<and> \<not> waiting \<and> public_share L trusted rec vd"
| "usability_held L trusted rec vd userKey opts (ShareEncrypted, migrated, waiting) \<longleftrightarrow>
     cdr_readPublicShare rec = Inr None \<and>
     (case dw_holder (vd_attestation vd) of
        Some h \<Rightarrow> \<not> migrated \<and> own_share L trusted rec vd userKey (op_acceptanceSignature opts) waiting \<and>
          (waiting \<longrightarrow> holder_key h = userKey)
      | None \<Rightarrow> \<not> waiting \<and>
          (if migrated then from_classic rec userKey opts \<and>
             (is_migration (vd_attestation vd) \<longrightarrow> cdr_readEncryptedShare rec userKey None = Inr None)
           else is_migration (vd_attestation vd) \<and> (\<exists>flag. own_share L trusted rec vd userKey None flag)))"

text \<open>The record read for an attestation's own dWallet.\<close>

definition chain_record ::
    "sdk_lib \<Rightarrow> share_reader \<Rightarrow> bytes \<Rightarrow> dwallet_attestation \<Rightarrow> checked_dwallet_record \<Rightarrow> bool" where
  "chain_record L reader attData d rec \<longleftrightarrow>
     rd_readDWallet reader (askedOf d) = Inr (Some rec) \<and>
     attestationData (cdr_attestation rec) = attData \<and>
     signed_record L (dwalletBcs L) DWalletKind (cdr_attestation rec) (rd_trusted reader) d \<and>
     cdr_networkPublicKey rec \<in> set (publicKeys (rd_trusted reader))"

definition chain_dwallet_of ::
    "sdk_lib \<Rightarrow> trusted_network_keys \<Rightarrow> checked_dwallet_record \<Rightarrow> dwallet_attestation \<Rightarrow> chain_dwallet" where
  "chain_dwallet_of L trusted rec d =
     (let vd = dwallet_of (cdr_attestation rec) d in
      \<lparr>cd_verified = vd, cd_address = cdr_address rec, cd_networkPublicKey = cdr_networkPublicKey rec,
       cd_readOwnShare = readOwnShareOf L trusted rec vd, cd_readPublicShare = readPublicShareOf L trusted rec vd,
       cd_migratedShare = cdr_migratedShare rec\<rparr>)"

lemma readDWalletHolding_Inr:
  assumes "parse (dwalletBcs L) attData = Some (V1 d)"
  shows "readDWalletHolding L reader (askedOf d) attData = Inr cd \<longleftrightarrow>
     (\<exists>rec. chain_record L reader attData d rec \<and> cd = chain_dwallet_of L (rd_trusted reader) rec d)"
proof -
  have decoded: "e = d" if "signed_record L (dwalletBcs L) DWalletKind r keys e" "attestationData r = attData" for r keys e
    using that assms by (auto simp: signed_record_def decodes_def)
  have origin: "(case ex_importedSessionIdentifier (askedOf d) of
        None \<Rightarrow> \<not> dw_is_imported_key d
      | Some sid \<Rightarrow> dw_is_imported_key d \<and> dw_session_identifier d = sid)" by simp
  have checked: "verifyDWalletAttestationRecord L (cdr_attestation rec) trusted (askedOf d) = Inr vd \<and>
      attestationData (cdr_attestation rec) = attData \<longleftrightarrow>
    signed_record L (dwalletBcs L) DWalletKind (cdr_attestation rec) trusted d \<and>
      attestationData (cdr_attestation rec) = attData \<and> vd = dwallet_of (cdr_attestation rec) d" for rec trusted vd
    unfolding dwallet_record_Inr using decoded origin by (metis askedOf_expected(1,2))
  show ?thesis
  proof (cases "rd_readDWallet reader (askedOf d)")
    case (Inr found)
    show ?thesis
    proof (cases found)
      case (Some rec)
      have "readDWalletHolding L reader (askedOf d) attData = Inr cd \<longleftrightarrow>
          (\<exists>vd. (verifyDWalletAttestationRecord L (cdr_attestation rec) (rd_trusted reader) (askedOf d) = Inr vd \<and>
             vd_attestationData vd = attData) \<and> trusts (rd_trusted reader) (cdr_networkPublicKey rec) \<and>
             cd = \<lparr>cd_verified = vd, cd_address = cdr_address rec,
               cd_networkPublicKey = cdr_networkPublicKey rec,
               cd_readOwnShare = readOwnShareOf L (rd_trusted reader) rec vd,
               cd_readPublicShare = readPublicShareOf L (rd_trusted reader) rec vd,
               cd_migratedShare = cdr_migratedShare rec\<rparr>)"
        by (auto simp: readDWalletHolding_def readChainDWallet_def Let_def Inr Some bindE_eq_Inr bindE_Inr
            split: if_splits)
      also have "\<dots> \<longleftrightarrow> chain_record L reader attData d rec \<and> cd = chain_dwallet_of L (rd_trusted reader) rec d"
      proof -
        have "vd_attestationData vd = attestationData (cdr_attestation rec)"
          if "verifyDWalletAttestationRecord L (cdr_attestation rec) (rd_trusted reader) (askedOf d) = Inr vd" for vd
          using that by (auto simp: dwallet_record_Inr dwallet_of_def)
        then have "(verifyDWalletAttestationRecord L (cdr_attestation rec) (rd_trusted reader) (askedOf d) = Inr vd \<and>
             vd_attestationData vd = attData) \<longleftrightarrow>
            signed_record L (dwalletBcs L) DWalletKind (cdr_attestation rec) (rd_trusted reader) d \<and>
            attestationData (cdr_attestation rec) = attData \<and> vd = dwallet_of (cdr_attestation rec) d" for vd
          using checked [of rec "rd_trusted reader" vd] by metis
        then show ?thesis
          unfolding chain_record_def chain_dwallet_of_def Let_def Inr Some trusts_iff by auto
      qed
      finally show ?thesis using Inr Some by (auto simp: chain_record_def)
    qed (auto simp: readDWalletHolding_def readChainDWallet_def chain_record_def Let_def Inr bindE_Inr)
  qed (auto simp: readDWalletHolding_def readChainDWallet_def chain_record_def Let_def bindE_Inl)
qed

section \<open>When the check passes\<close>

lemma usabilityOfEncryptedShare_Inr:
  "usabilityOfEncryptedShare (chain_dwallet_of L trusted rec d) userKey named given = Inr waiting \<longleftrightarrow>
     own_share L trusted rec (dwallet_of (cdr_attestation rec) d) userKey given waiting \<and>
     (waiting \<longrightarrow> named = userKey)"
proof -
  have read: "cd_readOwnShare (chain_dwallet_of L trusted rec d) =
      readOwnShareOf L trusted rec (dwallet_of (cdr_attestation rec) d)"
    by (simp add: chain_dwallet_of_def Let_def)
  show ?thesis
  proof (cases "\<exists>h f. readOwnShareOf L trusted rec (dwallet_of (cdr_attestation rec) d) userKey given = Inr (Some (h, f))")
    case True
    then obtain f where "readOwnShareOf L trusted rec (dwallet_of (cdr_attestation rec) d) userKey given = Inr (Some (userKey, f))"
      using readOwnShareOf_holder by blast
    then show ?thesis unfolding usabilityOfEncryptedShare_def Let_def read own_share_read
      by (auto simp: mapErr_def bindE_Inr)
  next
    case False
    then show ?thesis unfolding usabilityOfEncryptedShare_def Let_def read own_share_read
      by (auto simp: bindE_eq_Inr mapErr_eq_Inr split: option.splits)
  qed
qed

lemma attachedShare_Inr:
  "attachedShareOfMigratedDWallet (chain_dwallet_of L trusted rec d) userKey = Inr attached \<longleftrightarrow>
     (if attached then is_migration d \<and>
        (\<exists>flag. own_share L trusted rec (dwallet_of (cdr_attestation rec) d) userKey None flag)
      else is_migration d \<longrightarrow> cdr_readEncryptedShare rec userKey None = Inr None)"
proof -
  have read: "cd_readOwnShare (chain_dwallet_of L trusted rec d) =
      readOwnShareOf L trusted rec (dwallet_of (cdr_attestation rec) d)"
    "vd_attestation (cd_verified (chain_dwallet_of L trusted rec d)) = d"
    by (simp_all add: chain_dwallet_of_def dwallet_of_def Let_def)
  note defs = attachedShareOfMigratedDWallet_def Let_def read is_migration_def own_share_read
    readOwnShareOf_None [of L trusted rec "dwallet_of (cdr_attestation rec) d", symmetric]
  show ?thesis
  proof (cases "\<exists>h f. readOwnShareOf L trusted rec (dwallet_of (cdr_attestation rec) d) userKey None = Inr (Some (h, f))")
    case True
    then obtain f where "readOwnShareOf L trusted rec (dwallet_of (cdr_attestation rec) d) userKey None = Inr (Some (userKey, f))"
      using readOwnShareOf_holder by blast
    then show ?thesis unfolding defs by (auto simp: mapErr_def bindE_Inr)
  next
    case False
    then show ?thesis unfolding defs
      by (auto simp: bindE_eq_Inr mapErr_eq_Inr split: option.splits)
  qed
qed

lemma usabilityWithoutHolder_Inr:
  "usabilityWithoutHolder (chain_dwallet_of L trusted rec d) userKey (op_classicShareId opts) = Inr migrated \<longleftrightarrow>
     (if migrated then from_classic rec userKey opts \<and>
        (is_migration d \<longrightarrow> cdr_readEncryptedShare rec userKey None = Inr None)
      else is_migration d \<and>
        (\<exists>flag. own_share L trusted rec (dwallet_of (cdr_attestation rec) d) userKey None flag))"
proof -
  have check: "cd_migratedShare (chain_dwallet_of L trusted rec d) = cdr_migratedShare rec"
    by (simp add: chain_dwallet_of_def Let_def)
  show ?thesis
  proof (cases "attachedShareOfMigratedDWallet (chain_dwallet_of L trusted rec d) userKey")
    case (Inl e)
    then show ?thesis
      using attachedShare_Inr [of L trusted rec d userKey True] attachedShare_Inr [of L trusted rec d userKey False]
      unfolding usabilityWithoutHolder_def by (auto simp: bindE_Inl)
  next
    case (Inr attached)
    note this [unfolded attachedShare_Inr]
    moreover have "own_share L trusted rec (dwallet_of (cdr_attestation rec) d) userKey None flag \<Longrightarrow>
        cdr_readEncryptedShare rec userKey None \<noteq> Inr None" for flag by (auto simp: own_share_def)
    ultimately show ?thesis unfolding usabilityWithoutHolder_def Inr check from_classic_def bindE_Inr
      by (cases "cdr_migratedShare rec") (auto simp: bindE_eq_Inr bindE_Inr split: if_splits)
  qed
qed

lemma usabilityOf_Inr:
  "usabilityOf (chain_dwallet_of L trusted rec d) userKey opts = Inr u \<longleftrightarrow>
     usability_held L trusted rec (dwallet_of (cdr_attestation rec) d) userKey opts u"
proof -
  have parts: "cd_readPublicShare (chain_dwallet_of L trusted rec d) =
      readPublicShareOf L trusted rec (dwallet_of (cdr_attestation rec) d)"
    "vd_attestation (cd_verified (chain_dwallet_of L trusted rec d)) = d"
    "vd_attestation (dwallet_of (cdr_attestation rec) d) = d"
    by (simp_all add: chain_dwallet_of_def dwallet_of_def Let_def)
  obtain share migrated waiting where u: "u = (share, migrated, waiting)" by (cases u)
  show ?thesis
  proof (cases "dw_holder d")
    case None
    then show ?thesis unfolding u usabilityOf_def bindE_eq_Inr parts readPublicShareOf_Inr
      by (cases share) (auto simp: parts usabilityWithoutHolder_Inr bindE_eq_Inr split: if_splits)
  next
    case (Some h)
    then show ?thesis unfolding u usabilityOf_def bindE_eq_Inr parts readPublicShareOf_Inr
      by (cases share) (auto simp: parts usabilityOfEncryptedShare_Inr bindE_eq_Inr split: if_splits)
  qed
qed

text \<open>The curve a dWallet attestation names, and the key inside its output.\<close>

lemma requireAttestedKeyOfOutput_Inr:
  "requireAttestedKeyOfOutput U d = Inr r \<longleftrightarrow>
     (\<exists>c. dw_curve d = attested_curve c \<and> publicKeyFromDWalletOutput U c (dw_public_output d) = Inr (dw_public_key d))"
  unfolding requireAttestedKeyOfOutput_def bindE_eq_Inr mapErr_eq_Inr attested_curve_of_number refuseUnless_Inr
  by auto

lemma issuedStateOf_fields:
  "st = issuedStateOf chain asked userKey (chain_dwallet_of L trusted rec d) u now \<longleftrightarrow>
     u = (is_share st, is_migrated st, is_waiting st) \<and> is_chain st = chain \<and> is_address st = cdr_address rec \<and>
     is_curve st = ex_curve asked \<and> is_publicKey st = ex_publicKey asked \<and>
     is_importedSessionIdentifier st = ex_importedSessionIdentifier asked \<and>
     is_holder st = userKey \<and> is_publicOutput st = dw_public_output d \<and>
     is_attestation st =
       \<lparr>attestation_data = attestationData (cdr_attestation rec),
        network_signature = networkSignature (cdr_attestation rec),
        network_pubkey = cdr_networkPublicKey rec,
        signer_noa_public_key = signerNoaPublicKey (cdr_attestation rec)\<rparr> \<and>
     is_verifiedAt st = now"
  by (cases st; cases u) (auto simp: issuedStateOf_def chain_dwallet_of_def dwallet_of_def Let_def)

text \<open>What a check that passes established, and the state it issues.\<close>

definition usable_checked ::
    "sdk_lib \<Rightarrow> user_cryptography \<Rightarrow> share_reader \<Rightarrow> bytes \<Rightarrow> usable_options \<Rightarrow> issued_state \<Rightarrow> bool" where
  "usable_checked L R reader userKey opts st \<longleftrightarrow>
     (\<exists>d rec. chain_record L reader (attestation_data (is_attestation st)) d rec \<and>
        parse (dwalletBcs L) (attestation_data (is_attestation st)) = Some (V1 d) \<and>
        (\<exists>c. dw_curve d = attested_curve c \<and>
           publicKeyFromDWalletOutput (cryptographyOf R reader) c (dw_public_output d) = Inr (dw_public_key d)) \<and>
        usability_held L (rd_trusted reader) rec (dwallet_of (cdr_attestation rec) d) userKey opts
          (is_share st, is_migrated st, is_waiting st) \<and>
        is_chain st = rd_chain reader \<and> is_address st = cdr_address rec \<and>
        is_curve st = ex_curve (askedOf d) \<and> is_publicKey st = dw_public_key d \<and>
        is_importedSessionIdentifier st = ex_importedSessionIdentifier (askedOf d) \<and>
        is_holder st = userKey \<and> is_publicOutput st = dw_public_output d \<and>
        is_attestation st =
          \<lparr>attestation_data = attestationData (cdr_attestation rec),
           network_signature = networkSignature (cdr_attestation rec),
           network_pubkey = cdr_networkPublicKey rec,
           signer_noa_public_key = signerNoaPublicKey (cdr_attestation rec)\<rparr>)"

lemma checkDWalletUsable_Inr:
  "checkDWalletUsable L R reader userKey attData opts now = Inr st \<longleftrightarrow>
     usable_checked L R reader userKey opts st \<and> attestation_data (is_attestation st) = attData \<and>
     is_verifiedAt st = now"
proof (cases "\<exists>d. parse (dwalletBcs L) attData = Some (V1 d)")
  case True
  then obtain d where d: "parse (dwalletBcs L) attData = Some (V1 d)" by blast
  have verified: "vd_attestation (cd_verified (chain_dwallet_of L trusted rec d)) = d" for trusted rec
    by (simp add: chain_dwallet_of_def dwallet_of_def Let_def)
  have dec: "decodeDWalletAttestation L attData = Inr d"
    using d by (simp add: decodeDWalletAttestation_def decodeV1_Inr)
  have snapshot: "chain_record L (snapshotReader R reader) attData d rec = chain_record L reader attData d rec" for rec
    by (simp add: chain_record_def)
  have over: "(\<exists>x. (\<exists>rec. chain_record L reader attData d rec \<and> x = chain_dwallet_of L (rd_trusted reader) rec d) \<and> P x) \<longleftrightarrow>
        (\<exists>rec. chain_record L reader attData d rec \<and> P (chain_dwallet_of L (rd_trusted reader) rec d))" for P
    by blast
  have "checkDWalletUsable L R reader userKey attData opts now = Inr st \<longleftrightarrow>
      (\<exists>rec u. chain_record L reader attData d rec \<and>
        (\<exists>c. dw_curve d = attested_curve c \<and>
           publicKeyFromDWalletOutput (cryptographyOf R reader) c (dw_public_output d) = Inr (dw_public_key d)) \<and>
        usability_held L (rd_trusted reader) rec (dwallet_of (cdr_attestation rec) d) userKey opts u \<and>
        st = issuedStateOf (rd_chain reader) (askedOf d) userKey
          (chain_dwallet_of L (rd_trusted reader) rec d) u now)"
    unfolding checkDWalletUsable_def Let_def dec bindE_Inr bindE_eq_Inr seqE_eq_Inr
      readDWalletHolding_Inr [OF d] snapshot snapshotReader_simps sum.inject over verified
      requireAttestedKeyOfOutput_Inr usabilityOf_Inr
    by blast
  also have "\<dots> \<longleftrightarrow> usable_checked L R reader userKey opts st \<and> attestation_data (is_attestation st) = attData \<and>
     is_verifiedAt st = now"
    (is "?checked \<longleftrightarrow> ?issued")
  proof
    assume ?checked
    then obtain rec u where rec: "chain_record L reader attData d rec"
      and key: "\<exists>c. dw_curve d = attested_curve c \<and>
           publicKeyFromDWalletOutput (cryptographyOf R reader) c (dw_public_output d) = Inr (dw_public_key d)"
      and held: "usability_held L (rd_trusted reader) rec (dwallet_of (cdr_attestation rec) d) userKey opts u"
      and st: "st = issuedStateOf (rd_chain reader) (askedOf d) userKey
          (chain_dwallet_of L (rd_trusted reader) rec d) u now" by blast
    have "attestation_data (is_attestation st) = attData"
      using st rec by (simp add: issuedStateOf_fields chain_record_def)
    then show ?issued using st rec key held d unfolding issuedStateOf_fields usable_checked_def askedOf_expected
      by (intro conjI exI [of _ d] exI [of _ rec]) simp_all
  next
    assume issued: ?issued
    then have data: "attestation_data (is_attestation st) = attData" and now: "is_verifiedAt st = now" by simp_all
    from issued have "usable_checked L R reader userKey opts st" by (rule conjunct1)
    then obtain d' rec where parsed: "parse (dwalletBcs L) attData = Some (V1 d')"
      and rec: "chain_record L reader attData d' rec"
      and rest: "\<exists>c. dw_curve d' = attested_curve c \<and>
           publicKeyFromDWalletOutput (cryptographyOf R reader) c (dw_public_output d') = Inr (dw_public_key d')"
        "usability_held L (rd_trusted reader) rec (dwallet_of (cdr_attestation rec) d') userKey opts
          (is_share st, is_migrated st, is_waiting st)"
      and fields: "is_chain st = rd_chain reader" "is_address st = cdr_address rec"
        "is_curve st = ex_curve (askedOf d')" "is_publicKey st = dw_public_key d'"
        "is_importedSessionIdentifier st = ex_importedSessionIdentifier (askedOf d')"
        "is_holder st = userKey" "is_publicOutput st = dw_public_output d'"
        "is_attestation st =
          \<lparr>attestation_data = attestationData (cdr_attestation rec),
           network_signature = networkSignature (cdr_attestation rec),
           network_pubkey = cdr_networkPublicKey rec,
           signer_noa_public_key = signerNoaPublicKey (cdr_attestation rec)\<rparr>"
      unfolding usable_checked_def data by blast
    have st: "st = issuedStateOf (rd_chain reader) (askedOf d') userKey
          (chain_dwallet_of L (rd_trusted reader) rec d') (is_share st, is_migrated st, is_waiting st) now"
      unfolding issuedStateOf_fields using fields now by (simp only: askedOf_expected)
    have "d' = d" using parsed d by simp
    then show ?checked using rec rest st by blast
  qed
  finally show ?thesis .
next
  case False
  then show ?thesis
    by (auto simp: checkDWalletUsable_def usable_checked_def bindE_eq_Inr decodeDWalletAttestation_def decodeV1_Inr Let_def)
qed

lemma assertDWalletUsable_Inr:
  "assertDWalletUsable L R reader userKey attData opts now store = Inr (usable, store') \<longleftrightarrow>
     (\<exists>st. usable_checked L R reader userKey opts st \<and> attestation_data (is_attestation st) = attData \<and>
        is_verifiedAt st = now \<and>
        usable = \<lparr>us_ref = Some (length store), us_shown = st\<rparr> \<and> store' = store @ [st])"
  by (auto simp: assertDWalletUsable_def bindE_eq_Inr checkDWalletUsable_Inr issue_def)

text \<open>
  C8. The ownership check passes exactly when the chain's record of the attested dWallet holds the very
  attestation given, signed by a trusted key, its network key is trusted, the attested key is the
  one inside the attested output, and the share is the user's: the dWallet's verified public share
  record; or an encrypted share record that names the user's key, accepted on the chain or, only for
  the holder the dWallet names, by the signature given, which the result then calls waiting; or a
  classic share of a migrated dWallet. The result issued holds what was verified.
\<close>

theorem assertDWalletUsable_iff:
  "assertDWalletUsable L R reader userKey attData opts now store = Inr (usable, store') \<longleftrightarrow>
     (\<exists>st. usable_checked L R reader userKey opts st \<and> attestation_data (is_attestation st) = attData \<and>
        is_verifiedAt st = now \<and>
        usable = \<lparr>us_ref = Some (length store), us_shown = st\<rparr> \<and> store' = store @ [st])"
  by (rule assertDWalletUsable_Inr)

section \<open>Every sequence of calls\<close>

text \<open>
  The results a process has issued up to a time, after any calls of the check, of a verified read or of
  a sign, by any callers, with any readers, which may lie.
\<close>

inductive issued_by :: "sdk_lib \<Rightarrow> user_cryptography \<Rightarrow> time \<Rightarrow> issued_results \<Rightarrow> bool"
  for L :: sdk_lib and R :: user_cryptography where
  start: "issued_by L R now []"
| wait: "issued_by L R now store \<Longrightarrow> now \<le> later \<Longrightarrow> issued_by L R later store"
| check: "issued_by L R now store \<Longrightarrow>
     assertDWalletUsable L R reader userKey attData opts now store = Inr (usable, store') \<Longrightarrow>
     issued_by L R now store'"
| read: "issued_by L R now store \<Longrightarrow>
     readDWalletVerified L R reader userKey dwallet opts now store = Inr (usable, store') \<Longrightarrow>
     issued_by L R now store'"
| sign: "issued_by L R now store \<Longrightarrow> now \<le> checkedAt \<Longrightarrow>
     signDWalletSignRequest L R signer keypair d ownership now checkedAt store = Inr (out, store') \<Longrightarrow>
     issued_by L R checkedAt store'"

definition all_checked :: "sdk_lib \<Rightarrow> user_cryptography \<Rightarrow> time \<Rightarrow> issued_results \<Rightarrow> bool" where
  "all_checked L R now store \<longleftrightarrow>
     (\<forall>st \<in> set store. (\<exists>reader userKey opts. usable_checked L R reader userKey opts st) \<and> is_verifiedAt st \<le> now)"

lemma all_checked_later: "all_checked L R now store \<Longrightarrow> now \<le> later \<Longrightarrow> all_checked L R later store"
  by (auto simp: all_checked_def)

lemma assertDWalletUsable_checked:
  "assertDWalletUsable L R reader userKey attData opts now store = Inr (usable, store') \<Longrightarrow>
     all_checked L R now store \<Longrightarrow> all_checked L R now store'"
  unfolding assertDWalletUsable_Inr all_checked_def by fastforce

lemma readDWalletVerified_Inr:
  "readDWalletVerified L R reader userKey dwallet opts now store = Inr (usable, store') \<Longrightarrow>
     (\<exists>attData. assertDWalletUsable L R reader userKey attData opts now store = Inr (usable, store')) \<and>
     (case dwallet of
        DWalletAtAddress a \<Rightarrow> is_address (us_shown usable) = a
      | DWalletByKey asked \<Rightarrow>
          is_curve (us_shown usable) = ex_curve asked \<and> is_publicKey (us_shown usable) = ex_publicKey asked \<and>
          is_importedSessionIdentifier (us_shown usable) = ex_importedSessionIdentifier asked)"
  by (auto simp: readDWalletVerified_def bindE_eq_Inr Let_def sameSession_def
      split: option.splits if_splits dwallet_to_read.splits)

lemma requireDWalletUsable_Inr:
  "requireDWalletUsable L R ownership attData netKey now checkedAt store = Inr (usable, store') \<longleftrightarrow>
     (case (ow_usable ownership, ow_reader ownership) of
        (Some given, _) \<Rightarrow>
          usable = given \<and> store' = store \<and>
          (\<exists>d st. parse (dwalletBcs L) attData = Some (V1 d) \<and> issuedGet store given = Some st \<and> \<not> is_waiting st \<and>
             requireUsableFor given d attData netKey (ow_userKey ownership) now store = Inr ())
      | (None, Some reader) \<Rightarrow>
          assertDWalletUsable L R reader (ow_userKey ownership) attData noOptions checkedAt store = Inr (usable, store')
      | (None, None) \<Rightarrow> False)"
  by (cases "ow_usable ownership"; cases "ow_reader ownership")
    (auto simp: requireDWalletUsable_def bindE_eq_Inr seqE_eq_Inr decodeDWalletAttestation_def decodeV1_Inr
      requireUsableFor_def split: option.splits if_splits)

lemma requireUsableFor_Inr:
  "requireUsableFor usable d attData netKey userKey now store = Inr () \<longleftrightarrow>
     (\<exists>st. issuedGet store usable = Some st \<and> is_curve st = ex_curve (askedOf d) \<and>
        is_publicKey st = ex_publicKey (askedOf d) \<and>
        is_importedSessionIdentifier st = ex_importedSessionIdentifier (askedOf d) \<and>
        is_holder st = userKey \<and> attestation_data (is_attestation st) = attData \<and>
        network_pubkey (is_attestation st) = netKey \<and> now - is_verifiedAt st \<le> DWALLET_USABLE_MAX_AGE_MS)"
  by (auto simp: requireUsableFor_def notChecked_def seqE_eq_Inr guardE_eq_Inr Let_def
      split: option.splits)

lemma issuedGet_checked:
  "issuedGet store usable = Some st \<Longrightarrow> all_checked L R now store \<Longrightarrow>
     (\<exists>reader userKey opts. usable_checked L R reader userKey opts st) \<and> is_verifiedAt st \<le> now"
  by (auto simp: issuedGet_def all_checked_def split: option.splits if_splits)

text \<open>The state a sign rests on: the one a given result refers to, or the one of the check it ran.\<close>

definition sign_rests_on ::
    "sdk_lib \<Rightarrow> user_cryptography \<Rightarrow> dwallet_ownership \<Rightarrow> sign_request \<Rightarrow> request_chain \<Rightarrow> time \<Rightarrow> time
      \<Rightarrow> issued_results \<Rightarrow> issued_state \<Rightarrow> bool" where
  "sign_rests_on L R ownership s chain now checkedAt store st \<longleftrightarrow>
     is_chain st = chain \<and> is_holder st = ow_userKey ownership \<and>
     attestation_data (is_attestation st) = attestation_data (sg_dwallet_attestation s) \<and>
     (case (ow_usable ownership, ow_reader ownership) of
        (Some usable, _) \<Rightarrow>
          issuedGet store usable = Some st \<and> \<not> is_waiting st \<and>
          network_pubkey (is_attestation st) = network_pubkey (sg_dwallet_attestation s) \<and>
          now - is_verifiedAt st \<le> DWALLET_USABLE_MAX_AGE_MS
      | (None, Some reader) \<Rightarrow>
          rd_chain reader = chain \<and> is_verifiedAt st = checkedAt \<and>
          usable_checked L R (snapshotReader R reader) (ow_userKey ownership) noOptions st
      | (None, None) \<Rightarrow> False)"

lemma issuedGet_last: "issuedGet (store @ [st]) \<lparr>us_ref = Some (length store), us_shown = v\<rparr> = Some st"
  by (simp add: issuedGet_def)

lemma requireDWalletUsable_state:
  assumes "requireDWalletUsable L R ownership (attestation_data (sg_dwallet_attestation s))
      (network_pubkey (sg_dwallet_attestation s)) now checkedAt store = Inr (usable, store')"
  shows "\<exists>st. issuedGet store' usable = Some st \<and> is_holder st = ow_userKey ownership \<and>
     attestation_data (is_attestation st) = attestation_data (sg_dwallet_attestation s) \<and>
     (case (ow_usable ownership, ow_reader ownership) of
        (Some given, _) \<Rightarrow>
          store' = store \<and> issuedGet store given = Some st \<and> \<not> is_waiting st \<and>
          network_pubkey (is_attestation st) = network_pubkey (sg_dwallet_attestation s) \<and>
          now - is_verifiedAt st \<le> DWALLET_USABLE_MAX_AGE_MS
      | (None, Some reader) \<Rightarrow>
          store' = store @ [st] \<and> is_verifiedAt st = checkedAt \<and>
          usable_checked L R reader (ow_userKey ownership) noOptions st
      | (None, None) \<Rightarrow> False)"
proof (cases "ow_usable ownership")
  case (Some given)
  then show ?thesis using assms unfolding requireDWalletUsable_Inr requireUsableFor_Inr by auto
next
  case None
  show ?thesis
  proof (cases "ow_reader ownership")
    case (Some reader)
    then obtain st where "usable_checked L R reader (ow_userKey ownership) noOptions st"
      "attestation_data (is_attestation st) = attestation_data (sg_dwallet_attestation s)"
      "is_verifiedAt st = checkedAt"
      "usable = \<lparr>us_ref = Some (length store), us_shown = st\<rparr>" "store' = store @ [st]"
      using assms None unfolding requireDWalletUsable_Inr assertDWalletUsable_Inr by auto
    moreover from this(1) have "is_holder st = ow_userKey ownership" by (auto simp: usable_checked_def)
    ultimately show ?thesis using Some None by (auto simp: issuedGet_last)
  next
    case none: None
    then show ?thesis using assms None unfolding requireDWalletUsable_Inr by auto
  qed
qed

lemma signCheckedRequest_Inr:
  assumes "signCheckedRequest L R signer keypair data chain s ownership now checkedAt store = Inr (out, store')"
  shows "\<exists>st. sign_rests_on L R ownership s chain now checkedAt store st \<and>
     signSerializedRequest L signer keypair data = Inr out \<and> (store' = store \<or> store' = store @ [st])"
proof -
  let ?own = "ownership\<lparr>ow_reader :=
    (if ow_usable ownership = None then map_option (snapshotReader R) (ow_reader ownership) else None)\<rparr>"
  obtain result mid where required: "requireDWalletUsable L R ?own (attestation_data (sg_dwallet_attestation s))
      (network_pubkey (sg_dwallet_attestation s)) now checkedAt store = Inr (result, mid)"
    and checked: "(case checkedChainOf ?own store of None \<Rightarrow> Inr ()
      | Some c \<Rightarrow> guardE (c = chain) (DWalletCheckedOnAnotherChain c chain)) = Inr ()"
    and rest: "(case issuedGet mid result of
        None \<Rightarrow> Inl (DWalletUsabilityNotChecked ''the usability result was not made by assertDWalletUsable'')
      | Some recorded \<Rightarrow>
          seqE (guardE (is_chain recorded = chain) (DWalletCheckedOnAnotherChain (is_chain recorded) chain))
            (bindE (signSerializedRequest L signer keypair data) (\<lambda>x. Inr (x, mid)))) = Inr (out, store')"
    using assms unfolding signCheckedRequest_def Let_def seqE_eq_Inr bindE_eq_Inr
    by (elim conjE exE, split prod.splits) (rule that; simp)
  obtain st where st: "issuedGet mid result = Some st" "is_holder st = ow_userKey ?own"
      "attestation_data (is_attestation st) = attestation_data (sg_dwallet_attestation s)"
    and rests: "case (ow_usable ?own, ow_reader ?own) of
        (Some given, _) \<Rightarrow>
          mid = store \<and> issuedGet store given = Some st \<and> \<not> is_waiting st \<and>
          network_pubkey (is_attestation st) = network_pubkey (sg_dwallet_attestation s) \<and>
          now - is_verifiedAt st \<le> DWALLET_USABLE_MAX_AGE_MS
      | (None, Some reader) \<Rightarrow>
          mid = store @ [st] \<and> is_verifiedAt st = checkedAt \<and>
          usable_checked L R reader (ow_userKey ?own) noOptions st
      | (None, None) \<Rightarrow> False"
    using requireDWalletUsable_state [OF required] by blast
  have chain: "is_chain st = chain"
    and signed: "signSerializedRequest L signer keypair data = Inr out" and store: "store' = mid"
    using rest unfolding st option.case seqE_eq_Inr bindE_eq_Inr guardE_eq_Inr by auto
  have "sign_rests_on L R ownership s chain now checkedAt store st \<and> (store' = store \<or> store' = store @ [st])"
  proof (cases "ow_usable ownership")
    case (Some usable)
    then show ?thesis using chain st rests store by (auto simp: sign_rests_on_def)
  next
    case None
    then show ?thesis using chain st rests store checked
      by (cases "ow_reader ownership") (auto simp: sign_rests_on_def checkedChainOf_def guardE_eq_Inr)
  qed
  then show ?thesis using signed by blast
qed

lemma signSerializedRequest_data:
  "signSerializedRequest L signer keypair data = Inr out \<Longrightarrow> sr_signedRequestData out = data"
  by (auto simp: signSerializedRequest_def seqE_eq_Inr bindE_eq_Inr)

lemma signDWalletSignRequest_Inr:
  assumes "signDWalletSignRequest L R signer keypair d ownership now checkedAt store = Inr (out, store')"
  shows "\<exists>parsed s st. assertRequestFieldsWithinLimits d = Inr () \<and>
     serialize (signedRequestDataBcs L) d = Some (sr_signedRequestData out) \<and>
     parse (signedRequestDataBcs L) (sr_signedRequestData out) = Some parsed \<and>
     signOfRequest (req_request parsed) = Some s \<and>
     sign_rests_on L R ownership s (chainOfRequest (req_chain_id parsed)) now checkedAt store st \<and>
     signSerializedRequest L signer keypair (sr_signedRequestData out) = Inr out \<and>
     (store' = store \<or> store' = store @ [st])"
proof -
  obtain data parsed s where within: "assertRequestFieldsWithinLimits d = Inr ()"
    and data: "serialize (signedRequestDataBcs L) d = Some data"
    and parsed: "parse (signedRequestDataBcs L) data = Some parsed"
    and s: "signOfRequest (req_request parsed) = Some s"
    and run: "signCheckedRequest L R signer keypair data (chainOfRequest (req_chain_id parsed)) s
      ownership now checkedAt store = Inr (out, store')"
    using assms by (auto simp: signDWalletSignRequest_def bindE_eq_Inr seqE_eq_Inr ofOption_eq_Inr split: option.splits)
  obtain st where "sign_rests_on L R ownership s (chainOfRequest (req_chain_id parsed)) now checkedAt store st"
    "signSerializedRequest L signer keypair data = Inr out" "store' = store \<or> store' = store @ [st]"
    using signCheckedRequest_Inr [OF run] by blast
  moreover from this(2) have "sr_signedRequestData out = data" by (rule signSerializedRequest_data)
  ultimately show ?thesis using within data parsed s by blast
qed

lemma signDWalletSignRequest_checked:
  assumes "signDWalletSignRequest L R signer keypair d ownership now checkedAt store = Inr (out, store')"
    and "all_checked L R now store" "now \<le> checkedAt"
  shows "all_checked L R checkedAt store'"
proof -
  obtain s chain st where rests: "sign_rests_on L R ownership s chain now checkedAt store st"
    and store: "store' = store \<or> store' = store @ [st]"
    using signDWalletSignRequest_Inr [OF assms(1)] by blast
  have "(\<exists>reader userKey opts. usable_checked L R reader userKey opts st) \<and> is_verifiedAt st \<le> checkedAt"
  proof (cases "ow_usable ownership")
    case (Some usable)
    then have "issuedGet store usable = Some st" using rests by (simp add: sign_rests_on_def)
    then show ?thesis using issuedGet_checked [OF _ assms(2)] assms(3) by fastforce
  next
    case None
    then show ?thesis using rests by (auto simp: sign_rests_on_def split: option.splits)
  qed
  then show ?thesis using all_checked_later [OF assms(2,3)] store
    unfolding all_checked_def by fastforce
qed

lemma issued_by_checked: "issued_by L R now store \<Longrightarrow> all_checked L R now store"
proof (induction rule: issued_by.induct)
  case (read now store reader userKey dwallet opts usable store')
  then show ?case using readDWalletVerified_Inr assertDWalletUsable_checked by blast
next
  case (start now)
  show ?case by (simp add: all_checked_def)
qed (blast intro: all_checked_later assertDWalletUsable_checked signDWalletSignRequest_checked)+

text \<open>
  C7. Whatever was called before, by whom and with what readers, a result the SDK issued is the record of
  a check that passed: it was made by reading some reader's chain, under that reader's trusted keys,
  no later than now. So no caller can make a result, and none can change what one says.
\<close>

theorem issued_results_checked:
  assumes "issued_by L R now store" "issuedGet store usable = Some st"
  shows "\<exists>reader opts. usable_checked L R reader (is_holder st) opts st \<and> is_verifiedAt st \<le> now"
proof -
  obtain reader userKey opts where "usable_checked L R reader userKey opts st" "is_verifiedAt st \<le> now"
    using issuedGet_checked [OF assms(2) issued_by_checked [OF assms(1)]] by blast
  moreover from this(1) have "is_holder st = userKey" by (auto simp: usable_checked_def)
  ultimately show ?thesis by blast
qed

text \<open>
  C5. A dWallet's sign request is signed only on a check of the same dWallet on the request's own
  chain, for the user's own key: the check read the attestation the request carries, was made by this
  process, is at most five minutes old when a result is reused, and did not leave the dWallet waiting;
  and the bytes signed are the request's own under the request signing prefix.
\<close>

theorem signDWalletSignRequest_sound:
  assumes "issued_by L R now store" "codec_ok (signedRequestDataBcs L)"
    and "signDWalletSignRequest L R signer keypair d ownership now checkedAt store = Inr (out, store')"
  shows "\<exists>s st reader opts. signOfRequest (req_request d) = Some s \<and>
     usable_checked L R reader (ow_userKey ownership) opts st \<and>
     is_chain st = chainOfRequest (req_chain_id d) \<and>
     attestation_data (is_attestation st) = attestation_data (sg_dwallet_attestation s) \<and>
     (if ow_usable ownership = None then is_verifiedAt st = checkedAt
      else is_verifiedAt st \<le> now \<and> now - is_verifiedAt st \<le> 300000 \<and> \<not> is_waiting st \<and>
        network_pubkey (is_attestation st) = network_pubkey (sg_dwallet_attestation s)) \<and>
     serialize (signedRequestDataBcs L) d = Some (sr_signedRequestData out) \<and>
     (\<exists>sig. signer (requestSigningMessage (sr_signedRequestData out)) (kp_secretKey keypair) = Some sig \<and>
        serialize (userSignatureBcs L) (UserEd25519 sig (kp_publicKey keypair)) = Some (sr_userSignature out))"
proof -
  obtain parsed s st where data: "serialize (signedRequestDataBcs L) d = Some (sr_signedRequestData out)"
    and parsed: "parse (signedRequestDataBcs L) (sr_signedRequestData out) = Some parsed"
    and s: "signOfRequest (req_request parsed) = Some s"
    and rests: "sign_rests_on L R ownership s (chainOfRequest (req_chain_id parsed)) now checkedAt store st"
    and signed: "signSerializedRequest L signer keypair (sr_signedRequestData out) = Inr out"
    using signDWalletSignRequest_Inr [OF assms(3)] by blast
  have d: "parsed = d" using assms(2) data parsed by (auto simp: codec_ok_def)
  have sig: "\<exists>sig. signer (requestSigningMessage (sr_signedRequestData out)) (kp_secretKey keypair) = Some sig \<and>
        serialize (userSignatureBcs L) (UserEd25519 sig (kp_publicKey keypair)) = Some (sr_userSignature out)"
    using signed by (cases out) (auto simp: signSerializedRequest_def result_simps)
  show ?thesis
  proof (cases "ow_usable ownership")
    case (Some usable)
    then have "issuedGet store usable = Some st" using rests by (simp add: sign_rests_on_def)
    then obtain reader userKey opts where "usable_checked L R reader userKey opts st" "is_verifiedAt st \<le> now"
      using issuedGet_checked [OF _ issued_by_checked [OF assms(1)]] by blast
    moreover from this(1) have "is_holder st = userKey" by (auto simp: usable_checked_def)
    ultimately show ?thesis using Some rests s data sig unfolding d
      by (auto simp: sign_rests_on_def DWALLET_USABLE_MAX_AGE_MS_def)
  next
    case None
    then obtain reader where "ow_reader ownership = Some reader"
      "usable_checked L R (snapshotReader R reader) (ow_userKey ownership) noOptions st" "is_verifiedAt st = checkedAt"
      using rests by (auto simp: sign_rests_on_def split: option.splits)
    then show ?thesis using None rests s data sig unfolding d
      by (auto simp: sign_rests_on_def)
  qed
qed

section \<open>Shares given to a new holder\<close>

text \<open>The dWallet's record, read for the attestation given, with the attested key inside its output.\<close>

definition held_dwallet ::
    "sdk_lib \<Rightarrow> user_cryptography \<Rightarrow> share_reader \<Rightarrow> bytes \<Rightarrow> dwallet_attestation \<Rightarrow> checked_dwallet_record \<Rightarrow> bool" where
  "held_dwallet L R reader attData d rec \<longleftrightarrow>
     parse (dwalletBcs L) attData = Some (V1 d) \<and> chain_record L reader attData d rec \<and>
     (\<exists>c. dw_curve d = attested_curve c \<and>
        publicKeyFromDWalletOutput (cryptographyOf R reader) c (dw_public_output d) = Inr (dw_public_key d))"

lemma held_dwallet_Inr:
  "bindE (decodeDWalletAttestation L attData) (\<lambda>d.
     bindE (readDWalletHolding L (snapshotReader R reader) (askedOf d) attData) (\<lambda>cd.
     seqE (requireAttestedKeyOfOutput (cryptographyOf R (snapshotReader R reader)) (vd_attestation (cd_verified cd)))
       (f d cd))) = Inr r \<longleftrightarrow>
   (\<exists>d rec. held_dwallet L R reader attData d rec \<and> f d (chain_dwallet_of L (rd_trusted reader) rec d) = Inr r)"
proof (cases "\<exists>d. parse (dwalletBcs L) attData = Some (V1 d)")
  case True
  then obtain d where d: "parse (dwalletBcs L) attData = Some (V1 d)" by blast
  have dec: "decodeDWalletAttestation L attData = Inr d"
    using d by (simp add: decodeDWalletAttestation_def decodeV1_Inr)
  have verified: "vd_attestation (cd_verified (chain_dwallet_of L trusted rec d)) = d" for trusted rec
    by (simp add: chain_dwallet_of_def dwallet_of_def Let_def)
  have snapshot: "chain_record L (snapshotReader R reader) attData d rec = chain_record L reader attData d rec" for rec
    by (simp add: chain_record_def)
  have over: "(\<exists>x. (\<exists>rec. chain_record L reader attData d rec \<and> x = chain_dwallet_of L (rd_trusted reader) rec d) \<and> P x) \<longleftrightarrow>
        (\<exists>rec. chain_record L reader attData d rec \<and> P (chain_dwallet_of L (rd_trusted reader) rec d))" for P
    by blast
  have only: "(\<exists>e rec. parse (dwalletBcs L) attData = Some (V1 e) \<and> P e rec) \<longleftrightarrow> (\<exists>rec. P d rec)" for P
    using d by auto
  show ?thesis
    unfolding dec bindE_Inr bindE_eq_Inr seqE_eq_Inr readDWalletHolding_Inr [OF d] snapshot snapshotReader_simps
      over verified requireAttestedKeyOfOutput_Inr held_dwallet_def conj_assoc only ..
next
  case False
  then show ?thesis
    by (auto simp: bindE_eq_Inr decodeDWalletAttestation_def decodeV1_Inr held_dwallet_def)
qed

lemma vd_attestation_dwallet_of: "vd_attestation (dwallet_of r d) = d"
  by (simp add: dwallet_of_def)

lemma chain_dwallet_of_simps:
  "vd_attestation (cd_verified (chain_dwallet_of L trusted rec d)) = d"
  "cd_verified (chain_dwallet_of L trusted rec d) = dwallet_of (cdr_attestation rec) d"
  "cd_networkPublicKey (chain_dwallet_of L trusted rec d) = cdr_networkPublicKey rec"
  "cd_readOwnShare (chain_dwallet_of L trusted rec d) =
     readOwnShareOf L trusted rec (dwallet_of (cdr_attestation rec) d)"
  by (simp_all add: chain_dwallet_of_def dwallet_of_def Let_def)

lemma decodeEncryptedShareAttestation_Inr:
  "decodeEncryptedShareAttestation L bs = Inr v \<longleftrightarrow>
     parse (encryptedShareBcs L) bs = Some (V1 v) \<and> serialize (encryptedShareBcs L) (V1 v) = Some bs"
  by (auto simp: decodeEncryptedShareAttestation_def result_simps split: option.splits versioned.splits)

lemma reEncryptedShareFields_Inr:
  "reEncryptedShareFields L E args d asked sh = Inr () \<longleftrightarrow>
     (\<exists>own. edGetPublicKey E (ac_holderSecretKey args) = Some own \<and>
        es_holder sh = \<lparr>holder_scheme = Scheme_Ed25519, holder_key = own\<rparr>) \<and>
     es_dwallet_attestation_digest sh = keccak_256 L (ac_dwalletAttestation args) \<and>
     es_dwallet_public_key sh = ex_publicKey asked \<and>
     es_intended_chain_sender sh = dw_intended_chain_sender d \<and>
     es_encryption_key_hash sh = keccak_256 L (ac_encryptionKey args) \<and>
     es_encrypted_share_hash sh = keccak_256 L (ac_encryptedShareAndProof args)"
  by (cases "es_holder sh"; cases "edGetPublicKey E (ac_holderSecretKey args)")
    (auto simp: reEncryptedShareFields_def bindE_eq_Inr seqE_eq_Inr refuseUnless_Inr ofOption_eq_Inr)

text \<open>
  A new holder signs the acceptance of a re-encrypted share exactly when the dWallet's record
  holds the attestation given, the sender's own share record is on the chain, accepted there or, only
  by the holder the dWallet names, through the signature the sender gave, and the share's attestation
  decodes strictly, is signed by a trusted key under the dWallet's network key, names the holder's own
  key, this dWallet and the hashes of its own encryption key and of the ciphertext given, and the
  ciphertext decrypts to a share of the dWallet's output. What is signed is the digest of that share
  attestation.
\<close>

theorem signReEncryptedShareAcceptance_iff:
  "signReEncryptedShareAcceptance L R E args = Inr r \<longleftrightarrow>
     (\<exists>d rec sh own sig given.
        held_dwallet L R (ac_reader args) (ac_dwalletAttestation args) d rec \<and>
        own_share L (rd_trusted (ac_reader args)) rec (dwallet_of (cdr_attestation rec) d) (ac_sender args)
          (ac_senderAcceptanceSignature args) given \<and>
        (given \<longrightarrow> dw_holder d = Some \<lparr>holder_scheme = Scheme_Ed25519, holder_key = ac_sender args\<rparr>) \<and>
        parse (encryptedShareBcs L) (attestation_data (ac_shareAttestation args)) = Some (V1 sh) \<and>
        serialize (encryptedShareBcs L) (V1 sh) = Some (attestation_data (ac_shareAttestation args)) \<and>
        signer_noa_public_key (ac_shareAttestation args) \<in> set (publicKeys (rd_trusted (ac_reader args))) \<and>
        shareAttestationSignatureVerifies L (attestation_data (ac_shareAttestation args))
          (network_signature (ac_shareAttestation args)) (signer_noa_public_key (ac_shareAttestation args)) \<and>
        network_pubkey (ac_shareAttestation args) = cdr_networkPublicKey rec \<and>
        reEncryptedShareFields L E args d (askedOf d) sh = Inr () \<and>
        decryptedShare (cryptographyOf R (ac_reader args)) (indexOf ATTESTATION_CURVES (dw_curve d))
          (ac_decryptionKey args) (dw_public_output d) (ac_encryptedShareAndProof args)
          (ac_protocolPublicParameters args) \<noteq> None \<and>
        edGetPublicKey E (ac_holderSecretKey args) = Some own \<and>
        edSign E (shareAttestationDigest L (attestation_data (ac_shareAttestation args)))
          (ac_holderSecretKey args) = Some sig \<and>
        r = \<lparr>sac_holderPublicKey = own,
             sac_acceptanceDigest = shareAttestationDigest L (attestation_data (ac_shareAttestation args)),
             sac_signature = sig\<rparr>)"
proof -
  have sender: "(case h of None \<Rightarrow> False
      | Some h \<Rightarrow> holder_scheme h = Scheme_Ed25519 \<and> holder_key h = k) \<longleftrightarrow>
    h = Some \<lparr>holder_scheme = Scheme_Ed25519, holder_key = k\<rparr>" for h k
    by (cases h) auto
  have source: "(\<exists>x. readOwnShareOf L keys rec vd k given = Inr x \<and>
        (case x of None \<Rightarrow> Inl e | Some (h, g) \<Rightarrow> f g) = Inr r) \<longleftrightarrow>
      (\<exists>g. own_share L keys rec vd k given g \<and> f g = Inr r)" for keys rec vd k given e f
    unfolding own_share_read using readOwnShareOf_holder by (fastforce split: option.splits)
  show ?thesis
    unfolding signReEncryptedShareAcceptance_def Let_def held_dwallet_Inr
    unfolding bindE_eq_Inr [where m = "readOwnShareOf _ _ _ _ _ _"] chain_dwallet_of_simps source
    unfolding seqE_eq_Inr bindE_eq_Inr refuseUnless_Inr equalBytes_iff trusts_iff
      decodeEncryptedShareAttestation_Inr signShareAcceptance_Inr snapshotReader_simps askedOf_expected sender
      vd_attestation_dwallet_of
    by blast
qed

text \<open>
  The holder's share is decrypted exactly when the dWallet's record holds the attestation given,
  and the share's attestation is of this dWallet and this holder under a trusted key and the dWallet's
  network key, names the holder's encryption key and the ciphertext, and decrypts under the reader's
  cryptography to a share of the attested output.
\<close>

theorem decryptHolderShare_iff:
  "decryptHolderShare L R args = Inr share \<longleftrightarrow>
     (\<exists>d rec att. held_dwallet L R (de_reader args) (de_dwalletAttestation args) d rec \<and>
        network_pubkey (de_shareAttestation args) = cdr_networkPublicKey rec \<and>
        share_of_holder L (rd_trusted (de_reader args)) (dwallet_of (cdr_attestation rec) d)
          (de_holderSignerPublicKey args) (recordOfAttestation (de_shareAttestation args)) att \<and>
        es_encryption_key_hash att = keccak_256 L (de_encryptionKey args) \<and>
        es_encrypted_share_hash att = keccak_256 L (de_encryptedShareAndProof args) \<and>
        decryptUserShare (cryptographyOf R (de_reader args)) (indexOf ATTESTATION_CURVES (dw_curve d))
          (de_decryptionKey args) (dw_public_output d) (de_encryptedShareAndProof args)
          (de_protocolPublicParameters args) = Inr share)"
proof -
  have decrypted: "(case decryptedShare U c k out ct pp of
        None \<Rightarrow> Inl (field_error CkBinding ''encrypted_share'') | Some d \<Rightarrow> Inr d) = Inr share \<longleftrightarrow>
      decryptUserShare U c k out ct pp = Inr share" for U c k out ct pp
    by (cases "decryptUserShare U c k out ct pp") (auto simp: decryptedShare_def)
  show ?thesis
    unfolding decryptHolderShare_def Let_def held_dwallet_Inr
    unfolding seqE_eq_Inr bindE_eq_Inr refuseUnless_Inr equalBytes_iff chain_dwallet_of_simps share_of_holder_Inr decrypted snapshotReader_simps askedOf_expected
      vd_attestation_dwallet_of
    by blast
qed

end
