(* ===== verification/Demo_Ownership.thy ===== *)
theory Demo_Ownership
  imports Demo_Answers Ownership_Laws
begin

text \<open>The properties of the ownership check applied to a concrete chain, reader and requests.\<close>

definition demoCryptography :: user_cryptography where
  "demoCryptography =
     \<lparr>verifySignature = (\<lambda>m k s h a c x. Inr ()), verifyEcdsaBlake2b256Signature = (\<lambda>m k s p a. Inr ()),
      createUserSignMessageWithPublicOutput = (\<lambda>a b c d e h s k m. Inr []),
      createUserSignMessageWithUserPublicOutput = (\<lambda>a b c d e h s k m. Inr []),
      createUserSignMessageEcdsaBlake2b256 = (\<lambda>a b c d e f g. Inr []),
      decryptUserShare = (\<lambda>c k out ct pp. Inr [4, 2]),
      userAndNetworkDKGOutputMatch = (\<lambda>c u n. Inr True),
      publicKeyFromDWalletOutput = (\<lambda>c out. Inr [3]),
      schnorrkelMetadataBcs = noBcs, blake2bMetadataBcs = noBcs\<rparr>"

definition demoPublic :: make_public_request where
  "demoPublic = \<lparr>mp_dwallet_public_key = [3], mp_dwallet_attestation = demoAttestation,
     mp_public_user_secret_key_share = replicate 34 1\<rparr>"

definition ownLib :: sdk_lib where
  "ownLib = requestLib\<lparr>encryptedShareBcs := oneValue (V1 movedShare) [0, 3],
     signedRequestDataBcs :=
       twoValues (demoRequest (Sign demoSign)) [5, 6] (demoRequest (MakeSharePublic demoPublic)) [5, 7]\<rparr>"

definition shareRecord :: attestation_record where
  "shareRecord = \<lparr>attestationData = [0, 3], attestationVersion = 0, networkSignature = theSignature,
     signerNoaPublicKey = theKey\<rparr>"

definition demoChainRecord :: checked_dwallet_record where
  "demoChainRecord =
     \<lparr>cdr_address = [1], cdr_networkPublicKey = theKey, cdr_attestation = demoRecord,
      cdr_readEncryptedShare = (\<lambda>k given. Inr (Some \<lparr>csr_record = shareRecord, csr_acceptanceGiven = False\<rparr>)),
      cdr_readPublicShare = Inr None, cdr_migratedShare = None\<rparr>"

definition chainReader :: share_reader where
  "chainReader =
     \<lparr>rd_chain = OnSolana, rd_trusted = demoTrust, rd_readDWallet = (\<lambda>asked. Inr (Some demoChainRecord)),
      rd_readDWalletAt = None, rd_cryptography = Some demoCryptography\<rparr>"

lemma ownLib_simps [simp]:
  "ed25519_verify ownLib = demoVerify" "keccak_256 ownLib = lengthHash"
  "dwalletBcs ownLib = oneValue (V1 demoDWallet) [0, 1]"
  "encryptedShareBcs ownLib = oneValue (V1 movedShare) [0, 3]"
  "signedRequestDataBcs ownLib =
     twoValues (demoRequest (Sign demoSign)) [5, 6] (demoRequest (MakeSharePublic demoPublic)) [5, 7]"
  "userSignatureBcs ownLib = oneValue (UserEd25519 theSignature theKey) [7, 8]"
  by (simp_all add: ownLib_def requestLib_def)

definition issuedAt :: "time \<Rightarrow> issued_state" where
  "issuedAt now =
     \<lparr>is_chain = OnSolana, is_address = [1], is_curve = 2, is_publicKey = [3],
      is_importedSessionIdentifier = Some [1], is_holder = [9], is_share = ShareEncrypted, is_migrated = False,
      is_waiting = False, is_publicOutput = [4], is_attestation = demoAttestation, is_verifiedAt = now\<rparr>"

lemma own_share_demo:
  "own_share ownLib demoTrust demoChainRecord (dwallet_of demoRecord demoDWallet) [9] None False"
  by (simp add: own_share_def demoChainRecord_def share_of_holder_def signed_record_def decodes_def demo_lib
      shareRecord_def movedShare_def demoHolder_def binds_dwallet_def dwallet_of_def demoDWallet_def demoRecord_def)

lemma chain_record_demo: "chain_record ownLib chainReader [0, 1] demoDWallet demoChainRecord"
  by (simp add: chain_record_def chainReader_def demoChainRecord_def demoRecord_def signed_record_def decodes_def demo_lib)

lemma usable_checked_demo: "usable_checked ownLib demoCryptography chainReader [9] noOptions (issuedAt now)"
proof -
  have "\<exists>c. dw_curve demoDWallet = attested_curve c \<and>
      publicKeyFromDWalletOutput (cryptographyOf demoCryptography chainReader) c (dw_public_output demoDWallet) =
        Inr (dw_public_key demoDWallet)"
    by (intro exI [of _ ED25519]) (simp add: demoDWallet_def cryptographyOf_def chainReader_def demoCryptography_def)
  moreover have "usability_held ownLib (rd_trusted chainReader) demoChainRecord
      (dwallet_of (cdr_attestation demoChainRecord) demoDWallet) [9] noOptions (ShareEncrypted, False, False)"
    using own_share_demo
    by (simp add: chainReader_def noOptions_def demoChainRecord_def vd_attestation_dwallet_of demoDWallet_def)
  ultimately show ?thesis using chain_record_demo unfolding usable_checked_def
    by (intro exI [of _ demoDWallet] exI [of _ demoChainRecord])
      (simp add: issuedAt_def demoAttestation_def chainReader_def demoChainRecord_def demoRecord_def demoDWallet_def
        indexOf_def ATTESTATION_CURVES_def)
qed

definition demoUsable :: dwallet_usable where
  "demoUsable = \<lparr>us_ref = Some 0, us_shown = issuedAt 1000\<rparr>"

lemma issued_demo: "issued_by ownLib demoCryptography 2000 [issuedAt 1000]"
proof -
  have "assertDWalletUsable ownLib demoCryptography chainReader [9] [0, 1] noOptions 1000 [] =
      Inr (demoUsable, [issuedAt 1000])"
    unfolding assertDWalletUsable_Inr
    by (intro exI [of _ "issuedAt 1000"])
      (simp add: usable_checked_demo demoUsable_def, simp add: issuedAt_def demoAttestation_def)
  from issued_by.check [OF issued_by.start this] show ?thesis by (rule issued_by.wait) simp
qed

theorem issued_results_checked_witness:
  "\<exists>reader opts. usable_checked ownLib demoCryptography reader [9] opts (issuedAt 1000) \<and> is_verifiedAt (issuedAt 1000) \<le> 2000"
  using issued_results_checked [OF issued_demo, of demoUsable "issuedAt 1000"]
  by (simp add: issuedGet_def demoUsable_def) (simp add: issuedAt_def)

definition demoOwnership :: dwallet_ownership where
  "demoOwnership = \<lparr>ow_userKey = [9], ow_reader = None, ow_usable = Some demoUsable\<rparr>"

lemma demo_sign_run:
  "signDWalletSignRequest ownLib demoCryptography demoSigner demoKeypair (demoRequest (Sign demoSign)) demoOwnership
     2000 2000 [issuedAt 1000] =
   Inr (\<lparr>sr_userSignature = [7, 8], sr_signedRequestData = [5, 6]\<rparr>, [issuedAt 1000])"
proof -
  have fits: "assertRequestFieldsWithinLimits (demoRequest (Sign demoSign)) = Inr ()"
    by (simp add: requestFieldsWithin_Inr requestFields_def demoRequest_def demoSign_def signFields_def
        attestationFields_def demoAttestation_def GRPC_REQUEST_SIZE_LIMITS_def theSignature_def theKey_def)
  have serialized: "serialize (signedRequestDataBcs ownLib) (demoRequest (Sign demoSign)) = Some [5, 6]"
    "parse (signedRequestDataBcs ownLib) [5, 6] = Some (demoRequest (Sign demoSign))"
    by simp_all
  have whole: "assertSignedRequestDataWithinLimit [5, 6] = Inr ()"
    by (simp add: assertSignedRequestDataWithinLimit_def GRPC_REQUEST_SIZE_LIMITS_def guardE_def)
  have usable: "requireUsableFor demoUsable demoDWallet [0, 1] theKey [9] 2000 [issuedAt 1000] = Inr ()"
    by (simp add: requireUsableFor_Inr issuedGet_def demoUsable_def issuedAt_def demoDWallet_def demoAttestation_def
        indexOf_def ATTESTATION_CURVES_def DWALLET_USABLE_MAX_AGE_MS_def)
  have required: "requireDWalletUsable ownLib demoCryptography demoOwnership [0, 1] theKey 2000 2000 [issuedAt 1000] =
      Inr (demoUsable, [issuedAt 1000])"
    unfolding requireDWalletUsable_Inr using usable
    by (simp add: demoOwnership_def issuedGet_def demoUsable_def) (simp add: issuedAt_def)
  have "signCheckedRequest ownLib demoCryptography demoSigner demoKeypair [5, 6] OnSolana demoSign demoOwnership
     2000 2000 [issuedAt 1000] =
     Inr (\<lparr>sr_userSignature = [7, 8], sr_signedRequestData = [5, 6]\<rparr>, [issuedAt 1000])"
  proof -
    have own: "demoOwnership\<lparr>ow_reader := None\<rparr> = demoOwnership" by (simp add: demoOwnership_def)
    have "requireMessageMetadataOfScheme demoCryptography EddsaSha512 [] = Inr ()"
      by (simp add: requireMessageMetadataOfScheme_def)
    moreover have "checkedChainOf demoOwnership [issuedAt 1000] = Some OnSolana"
      by (simp add: checkedChainOf_def demoOwnership_def issuedGet_def demoUsable_def) (simp add: issuedAt_def)
    moreover have "ow_usable demoOwnership = Some demoUsable" by (simp add: demoOwnership_def)
    moreover have "issuedGet [issuedAt 1000] demoUsable = Some (issuedAt 1000)" "is_chain (issuedAt 1000) = OnSolana"
      by (simp_all add: issuedGet_def demoUsable_def) (simp add: issuedAt_def)
    moreover have "signSerializedRequest ownLib demoSigner demoKeypair [5, 6] =
        Inr \<lparr>sr_userSignature = [7, 8], sr_signedRequestData = [5, 6]\<rparr>"
      by (simp add: signSerializedRequest_def whole demoSigner_def demoKeypair_def result_simps)
    ultimately show ?thesis using required own
      by (simp add: signCheckedRequest_def demoSign_def demoAttestation_def result_simps)
  qed
  then show ?thesis
    unfolding signDWalletSignRequest_def fits serialized whole
    by (simp add: result_simps serialized whole) (simp add: demoRequest_def)
qed

theorem signDWalletSignRequest_sound_witness:
  "\<exists>st reader opts. usable_checked ownLib demoCryptography reader [9] opts st \<and> 2000 - is_verifiedAt st \<le> 300000 \<and>
     attestation_data (is_attestation st) = [0, 1]"
  using signDWalletSignRequest_sound [OF issued_demo _ demo_sign_run]
  by (auto simp: demoOwnership_def demoRequest_def demoSign_def demoAttestation_def)

definition demoEd :: ed25519_lib where
  "demoEd = \<lparr>edSign = demoSigner, edGetPublicKey = (\<lambda>secret. Some [9])\<rparr>"

definition demoAccept :: accept_share_arguments where
  "demoAccept =
     \<lparr>ac_reader = chainReader, ac_holderSecretKey = [8], ac_decryptionKey = [], ac_encryptionKey = [5],
      ac_sender = [9], ac_senderAcceptanceSignature = None, ac_dwalletAttestation = [0, 1],
      ac_shareAttestation = movedAnswer, ac_encryptedShareAndProof = [6], ac_protocolPublicParameters = []\<rparr>"

lemma demo_accepted:
  "signReEncryptedShareAcceptance ownLib demoCryptography demoEd demoAccept =
     Inr \<lparr>sac_holderPublicKey = [9], sac_acceptanceDigest = lengthHash [0, 3], sac_signature = theSignature\<rparr>"
proof -
  have held: "held_dwallet ownLib demoCryptography chainReader [0, 1] demoDWallet demoChainRecord"
    using chain_record_demo unfolding held_dwallet_def
    by (simp add: cryptographyOf_def chainReader_def demoCryptography_def demoDWallet_def) (metis attested_curve.simps(3))
  have fields: "reEncryptedShareFields ownLib demoEd demoAccept demoDWallet (askedOf demoDWallet) movedShare = Inr ()"
    by (simp add: reEncryptedShareFields_Inr demoEd_def demoAccept_def movedShare_def demoHolder_def demoDWallet_def)
  have att: "attestation_data movedAnswer = [0, 3]" "network_signature movedAnswer = theSignature"
    "network_pubkey movedAnswer = theKey" "signer_noa_public_key movedAnswer = theKey"
    by (simp_all add: movedAnswer_def demoAttestation_def)
  have share: "own_share ownLib demoTrust demoChainRecord (dwallet_of (cdr_attestation demoChainRecord) demoDWallet) [9] None False"
    using own_share_demo by (simp add: demoChainRecord_def)
  show ?thesis
    unfolding signReEncryptedShareAcceptance_iff
  proof (intro exI conjI)
    show "held_dwallet ownLib demoCryptography (ac_reader demoAccept) (ac_dwalletAttestation demoAccept) demoDWallet demoChainRecord"
      using held by (simp add: demoAccept_def)
    show "own_share ownLib (rd_trusted (ac_reader demoAccept)) demoChainRecord
        (dwallet_of (cdr_attestation demoChainRecord) demoDWallet) (ac_sender demoAccept)
        (ac_senderAcceptanceSignature demoAccept) False"
      using share by (simp add: demoAccept_def chainReader_def)
    show "reEncryptedShareFields ownLib demoEd demoAccept demoDWallet (askedOf demoDWallet) movedShare = Inr ()"
      by (rule fields)
    show "edGetPublicKey demoEd (ac_holderSecretKey demoAccept) = Some [9]" by (simp add: demoEd_def)
    show "edSign demoEd (shareAttestationDigest ownLib (attestation_data (ac_shareAttestation demoAccept)))
        (ac_holderSecretKey demoAccept) = Some theSignature"
      by (simp add: demoEd_def demoSigner_def)
  qed (simp_all add: demoAccept_def att chainReader_def demo_lib shareAttestationSignatureVerifies_def
      verifiedOrFalse_def demoChainRecord_def decryptedShare_def cryptographyOf_def demoCryptography_def
      shareAttestationDigest_def)
qed

end
