(* ===== verification/Request_Records.thy ===== *)
theory Request_Records
  imports Cross_Check Accounts Attestation_Record
begin

text \<open>
  What a request left on the chain once its epoch closed without an answer
  (\<open>common/request-records.ts\<close>), and the Solana reads it is looked up with
  (\<open>sdk/solana/src/request-records.ts\<close>). The lookup runs over the clock; each read is one the chain
  package makes. BCS of the charge tuples is library code, \<open>record_lib\<close>.
\<close>

section \<open>Ids\<close>

datatype gas_charge_source =
    RefusedRequest | RejectedSession | CompletedPresign | MovedNetworkKeySession | GivenUpSignature
  | GivenUpShareCommit

fun sourceName :: "gas_charge_source \<Rightarrow> string" where
  "sourceName RefusedRequest = ''RefusedRequest''"
| "sourceName RejectedSession = ''RejectedSession''"
| "sourceName CompletedPresign = ''CompletedPresign''"
| "sourceName MovedNetworkKeySession = ''MovedNetworkKeySession''"
| "sourceName GivenUpSignature = ''GivenUpSignature''"
| "sourceName GivenUpShareCommit = ''GivenUpShareCommit''"

record record_lib =
  gasChargeBcs :: "(string \<times> string \<times> bytes) bcs_type"
  commitItemBcs :: "(string \<times> bytes) bcs_type"
  recordKeccak :: hash

definition gasChargeId :: "record_lib \<Rightarrow> gas_charge_source \<Rightarrow> bytes \<Rightarrow> sdk_error + bytes" where
  "gasChargeId B source i =
     bindE (ofOption (Err ''bcs'') (serialize (gasChargeBcs B) (''IkaGasCharge'', sourceName source, i))) (\<lambda>b.
       Inr (recordKeccak B b))"

definition signatureCommitItemId :: "record_lib \<Rightarrow> bytes \<Rightarrow> sdk_error + bytes" where
  "signatureCommitItemId B session =
     bindE (ofOption (Err ''bcs'') (serialize (commitItemBcs B) (''IkaSignatureCommit'', session))) (\<lambda>b.
       Inr (recordKeccak B b))"

record dwallet_attested =
  at_attestationData :: bytes
  at_intendedChainSender :: bytes
  at_publicKey :: bytes

definition publicShareAttestationBytes ::
    "sdk_lib \<Rightarrow> bytes \<Rightarrow> dwallet_attested \<Rightarrow> bytes \<Rightarrow> sdk_error + bytes" where
  "publicShareAttestationBytes L session dwallet share =
     ofOption (Err ''bcs'') (serialize (publicShareBcs L) (V1
       \<lparr>ps_session_identifier = session, ps_intended_chain_sender = at_intendedChainSender dwallet,
        ps_dwallet_public_key = at_publicKey dwallet, ps_public_user_secret_key_share = share,
        ps_dwallet_attestation_digest = dwalletAttestationDigest L (at_attestationData dwallet)\<rparr>))"

definition encryptedShareAttestationBytes ::
    "sdk_lib \<Rightarrow> bytes \<Rightarrow> dwallet_attested \<Rightarrow> bytes \<Rightarrow> bytes \<Rightarrow> bytes \<Rightarrow> sdk_error + bytes" where
  "encryptedShareAttestationBytes L session dwallet shareAndProof encryptionKey holderKey =
     ofOption (Err ''bcs'') (serialize (encryptedShareBcs L) (V1
       \<lparr>es_session_identifier = session, es_intended_chain_sender = at_intendedChainSender dwallet,
        es_dwallet_public_key = at_publicKey dwallet,
        es_encrypted_share_hash = keccak_256 L shareAndProof,
        es_encryption_key_hash = keccak_256 L encryptionKey,
        es_holder = \<lparr>holder_scheme = Scheme_Ed25519, holder_key = holderKey\<rparr>,
        es_dwallet_attestation_digest = dwalletAttestationDigest L (at_attestationData dwallet)\<rparr>))"

section \<open>Pending requests\<close>

record future_state =
  fu_stepOneSession :: "bytes option"
  fu_signature :: "bytes option"
  fu_closed :: bool

record request_records =
  hasGasCharge :: "bytes \<Rightarrow> bytes \<Rightarrow> (sdk_error, bool) timed"
  voucherSignature :: "bytes \<Rightarrow> (sdk_error, bytes option) timed"
  futureVoucher :: "bytes \<Rightarrow> (sdk_error, future_state option) timed"

datatype pending_kind =
    PendingPresign
  | PendingSign bytes
  | PendingFutureSignStepOne bytes
  | PendingFutureSignCompletion bytes
  | PendingMakeSharePublic expected_dwallet bytes
  | PendingReEncryptShare expected_dwallet bytes bytes
  | PendingDkg expected_dwallet
  | PendingImportedKey expected_dwallet

record pending_request =
  pn_epoch :: int
  pn_sessionIdentifier :: bytes
  pn_transportKey :: bytes
  pn_curve :: int
  pn_networkKeyId :: bytes
  pn_kind :: pending_kind

definition settledAtEpoch :: "pending_request \<Rightarrow> int" where
  "settledAtEpoch pending =
     pn_epoch pending + (case pn_kind pending of PendingReEncryptShare _ _ _ \<Rightarrow> 2 | _ \<Rightarrow> 1)"

text \<open>The share reader, as far as the lookup reads it: whether a dWallet's records are there.\<close>

record share_records =
  sh_readEncryptedShare :: "bytes \<Rightarrow> (sdk_error, bool) timed"
  sh_readPublicShare :: "(sdk_error, bool) timed"

type_synonym share_lookup = "expected_dwallet \<Rightarrow> (sdk_error, share_records option) timed"

datatype request_outcome = NotRun | Ran string | SignatureFound bytes | UnknownOutcome

section \<open>\<open>Promise.all\<close>\<close>

text \<open>Every promise starts at once; the first rejection in time rejects, else all must settle.\<close>

fun firstRejection :: "(time \<times> ('e + 'a)) option list \<Rightarrow> (time \<times> 'e) option" where
  "firstRejection [] = None"
| "firstRejection (Some (t, Inl e) # rs) =
     (case firstRejection rs of
        Some (t', e') \<Rightarrow> if t' < t then Some (t', e') else Some (t, e)
      | None \<Rightarrow> Some (t, e))"
| "firstRejection (_ # rs) = firstRejection rs"

fun gathered :: "time \<Rightarrow> (time \<times> ('e + 'a)) option list \<Rightarrow> (time \<times> 'a list) option" where
  "gathered now [] = Some (now, [])"
| "gathered now (Some (t, Inr x) # rs) = map_option (\<lambda>(t', xs). (max t t', x # xs)) (gathered now rs)"
| "gathered now (_ # rs) = None"

definition allT :: "('e, 'a) timed list \<Rightarrow> ('e, 'a list) timed" where
  "allT ms now =
     (let rs = map (\<lambda>m. m now) ms in
      case firstRejection rs of
        Some (t, e) \<Rightarrow> Some (t, Inl e)
      | None \<Rightarrow> map_option (\<lambda>(t, xs). (t, Inr xs)) (gathered now rs))"

section \<open>The lookup\<close>

type_synonym charge = "gas_charge_source \<times> bytes"

definition chargesOfSession :: "bytes \<Rightarrow> charge list \<Rightarrow> charge list" where
  "chargesOfSession session extra =
     map (\<lambda>source. (source, session)) [RefusedRequest, RejectedSession, MovedNetworkKeySession] @ extra"

definition charged ::
    "record_lib \<Rightarrow> request_records \<Rightarrow> pending_request \<Rightarrow> charge list \<Rightarrow> (sdk_error, string option) timed" where
  "charged B records pending extra =
     (let charges = chargesOfSession (pn_sessionIdentifier pending) extra in
      bindT (liftT (traverseE (\<lambda>(source, i). gasChargeId B source i) charges)) (\<lambda>ids.
      bindT (allT (map (hasGasCharge records (pn_transportKey pending)) ids)) (\<lambda>held.
      returnT (case find (\<lambda>(charge, h). h) (zip charges held) of
                 None \<Rightarrow> None
               | Some ((source, _), _) \<Rightarrow> Some (''the charge record '' @ sourceName source)))))"

definition ranOr ::
    "record_lib \<Rightarrow> request_records \<Rightarrow> pending_request \<Rightarrow> request_outcome \<Rightarrow> charge list
      \<Rightarrow> (sdk_error, request_outcome) timed" where
  "ranOr B records pending otherwise extra =
     bindT (charged B records pending extra) (\<lambda>rec.
       returnT (case rec of None \<Rightarrow> otherwise | Some r \<Rightarrow> Ran r))"

definition dwalletRecord ::
    "share_lookup option \<Rightarrow> expected_dwallet \<Rightarrow> (sdk_error, share_records option) timed" where
  "dwalletRecord shares dwallet =
     (case shares of
        None \<Rightarrow> liftT (Inl (Err ''a share lookup needs the share reader''))
      | Some lookup \<Rightarrow> lookup dwallet)"

text \<open>Whether a record is there and a read of it finds something.\<close>

definition shareFound ::
    "share_records option \<Rightarrow> (share_records \<Rightarrow> (sdk_error, bool) timed) \<Rightarrow> (sdk_error, bool) timed" where
  "shareFound rec read = (case rec of None \<Rightarrow> returnT False | Some r \<Rightarrow> read r)"

definition findSession ::
    "record_lib \<Rightarrow> pending_request \<Rightarrow> request_records \<Rightarrow> share_lookup option \<Rightarrow> (sdk_error, request_outcome) timed" where
  "findSession B pending records shares =
     (let session = pn_sessionIdentifier pending; ran = ranOr B records pending in
      case pn_kind pending of
        PendingPresign \<Rightarrow> ran NotRun [(CompletedPresign, session)]
      | PendingSign voucher \<Rightarrow>
          bindT (voucherSignature records voucher) (\<lambda>found.
            case found of
              Some signature \<Rightarrow> returnT (SignatureFound signature)
            | None \<Rightarrow>
                bindT (liftT (signatureCommitItemId B session)) (\<lambda>item.
                  ran NotRun [(GivenUpSignature, item)]))
      | PendingFutureSignStepOne voucher \<Rightarrow>
          bindT (futureVoucher records voucher) (\<lambda>found.
            case found of
              None \<Rightarrow> returnT UnknownOutcome
            | Some v \<Rightarrow>
                (case fu_stepOneSession v of
                   Some s \<Rightarrow> returnT (Ran (if equalBytes s session then ''this request's step 1 in the voucher''
                                           else ''another step 1 in the voucher''))
                 | None \<Rightarrow>
                     if fu_signature v \<noteq> None then returnT (Ran ''a signature in the voucher'')
                     else if fu_closed v then ran UnknownOutcome []
                     else ran NotRun []))
      | PendingFutureSignCompletion voucher \<Rightarrow>
          bindT (futureVoucher records voucher) (\<lambda>found.
            case Option.bind found fu_signature of
              Some signature \<Rightarrow> returnT (SignatureFound signature)
            | None \<Rightarrow>
                bindT (liftT (signatureCommitItemId B session)) (\<lambda>item.
                  ran NotRun [(GivenUpSignature, item)]))
      | PendingMakeSharePublic dwallet item \<Rightarrow>
          bindT (dwalletRecord shares dwallet) (\<lambda>rec.
          bindT (shareFound rec sh_readPublicShare) (\<lambda>there.
            if there then returnT (Ran ''the dWallet's public share'')
            else ran NotRun [(GivenUpShareCommit, item)]))
      | PendingReEncryptShare dwallet newHolder item \<Rightarrow>
          bindT (dwalletRecord shares dwallet) (\<lambda>rec.
          bindT (shareFound rec (\<lambda>r. sh_readEncryptedShare r newHolder)) (\<lambda>there.
            if there then returnT (Ran ''the new holder's share'')
            else ran NotRun [(GivenUpShareCommit, item)]))
      | PendingDkg dwallet \<Rightarrow>
          bindT (dwalletRecord shares dwallet) (\<lambda>rec.
            if rec \<noteq> None then returnT (Ran ''the dWallet'') else ran UnknownOutcome [])
      | PendingImportedKey dwallet \<Rightarrow>
          bindT (dwalletRecord shares dwallet) (\<lambda>rec.
            if rec \<noteq> None then returnT (Ran ''the dWallet'') else ran UnknownOutcome []))"

section \<open>Solana's records\<close>

record read_account =
  ra_owner :: bytes
  ra_data :: bytes

type_synonym get_account = "bytes \<Rightarrow> (sdk_error + read_account option) open_read"

text \<open>One \<open>getAccount\<close> and what is decoded from the account found.\<close>

definition throughAccount ::
    "bytes \<Rightarrow> (read_account \<Rightarrow> sdk_error + 'a option) \<Rightarrow> get_account \<Rightarrow> (sdk_error + 'a option) open_read" where
  "throughAccount at decode get now =
     map_option (\<lambda>(dt, r). (dt, bindE r (\<lambda>account. case account of None \<Rightarrow> Inr None | Some a \<Rightarrow> decode a)))
       (get at now)"

definition FUTURE_SIGNATURE_VOUCHER_SETTLED_WITHOUT_DELIVERY :: nat where
  "FUTURE_SIGNATURE_VOUCHER_SETTLED_WITHOUT_DELIVERY = 3"

definition nonEmpty :: "bytes \<Rightarrow> bytes option" where
  "nonEmpty b = (if length b = 0 then None else Some b)"

definition decodeVoucherSignature :: "read_account \<Rightarrow> sdk_error + bytes option" where
  "decodeVoucherSignature a =
     bindE (readSignatureVoucherUnverified (ra_data a)) (\<lambda>read.
       Inr (case read of None \<Rightarrow> None | Some v \<Rightarrow> nonEmpty (vo_signature v)))"

definition decodeFutureState :: "read_account \<Rightarrow> sdk_error + future_state option" where
  "decodeFutureState a =
     bindE (readFutureSignatureVoucherUnverified (ra_data a)) (\<lambda>read.
       Inr (map_option (\<lambda>v.
         \<lparr>fu_stepOneSession = (if fv_hasPartialSignature v then Some (slice 0 32 (fv_attestation v)) else None),
          fu_signature = nonEmpty (vo_signature v),
          fu_closed = (vo_status v = FUTURE_SIGNATURE_VOUCHER_SETTLED_WITHOUT_DELIVERY)\<rparr>) read))"

definition sameOrBothNull :: "bytes option \<Rightarrow> bytes option \<Rightarrow> bool" where
  "sameOrBothNull first second =
     (case (first, second) of
        (Some x, Some y) \<Rightarrow> equalBytes x y
      | (None, None) \<Rightarrow> True
      | _ \<Rightarrow> False)"

definition solanaRequestRecordReader ::
    "address_lib \<Rightarrow> (time \<Rightarrow> nat) \<Rightarrow> bytes \<Rightarrow> get_account \<Rightarrow> get_account solana_cross_check \<Rightarrow> request_records" where
  "solanaRequestRecordReader A lag programId getAccount crossCheck =
     \<lparr>hasGasCharge = (\<lambda>transportKey chargeId.
        bindT (liftT (gasChargePda A programId chargeId)) (\<lambda>pda.
        bindT (crossCheckedAccountRead lag getAccount crossCheck
                 (throughAccount (address pda) (\<lambda>_. Inr (Some True))) (=) None) (\<lambda>found.
        returnT (found = Some True)))),
      voucherSignature = (\<lambda>voucher.
        crossCheckedAccountRead lag getAccount crossCheck
          (throughAccount voucher decodeVoucherSignature) equalBytes None),
      futureVoucher = (\<lambda>voucher.
        crossCheckedAccountRead lag getAccount crossCheck
          (throughAccount voucher decodeFutureState)
          (\<lambda>first second. sameOrBothNull (fu_stepOneSession first) (fu_stepOneSession second) \<and>
             sameOrBothNull (fu_signature first) (fu_signature second) \<and>
             fu_closed first = fu_closed second) None)\<rparr>"

end
