(* ===== verification/Request_Laws.thy ===== *)
theory Request_Laws
  imports Request_Records
begin

text \<open>
  What the lookup of a request's session promises. A request is sent again only when the lookup says it
  never ran, so that answer is the one that must be right: every charge the request could have left was
  read and absent, and so was its result. Over Solana's reads, each absence is one both endpoints gave.
\<close>

section \<open>Reads made together\<close>

lemma firstRejection_None:
  "firstRejection rs = None \<Longrightarrow> gathered now rs = Some (t, xs) \<Longrightarrow>
     list_all2 (\<lambda>r x. \<exists>t'. r = Some (t', Inr x)) rs xs"
  by (induction now rs arbitrary: t xs rule: gathered.induct) auto

lemma allT_Inr:
  assumes "allT ms now = Some (t, Inr xs)"
  shows "list_all2 (\<lambda>m x. \<exists>t'. m now = Some (t', Inr x)) ms xs"
proof -
  from assms have "firstRejection (map (\<lambda>m. m now) ms) = None" "gathered now (map (\<lambda>m. m now) ms) = Some (t, xs)"
    by (auto simp: allT_def Let_def split: option.splits)
  from firstRejection_None [OF this] show ?thesis by (simp add: list_all2_map1)
qed

section \<open>Charges\<close>

text \<open>The charge's record was read, and is not there.\<close>

definition noCharge :: "record_lib \<Rightarrow> request_records \<Rightarrow> bytes \<Rightarrow> charge \<Rightarrow> bool" where
  "noCharge B records transportKey charge \<longleftrightarrow>
     (\<exists>chargeId s t. gasChargeId B (fst charge) (snd charge) = Inr chargeId \<and>
        hasGasCharge records transportKey chargeId s = Some (t, Inr False))"

lemma find_zip_None:
  "list_all2 (\<lambda>x y. P x y) xs ys \<Longrightarrow> find (\<lambda>(c, h). h) (zip xs ys) = None \<Longrightarrow> \<forall>x\<in>set xs. P x False"
  by (induction rule: list_all2_induct) (auto split: if_splits)

lemma charged_None:
  assumes "charged B records pending extra now = Some (t, Inr None)"
  shows "\<forall>c\<in>set (chargesOfSession (pn_sessionIdentifier pending) extra).
           noCharge B records (pn_transportKey pending) c"
proof -
  let ?cs = "chargesOfSession (pn_sessionIdentifier pending) extra"
  from assms obtain ids held t' where ids: "list_all2 (\<lambda>c y. (case c of (source, i) \<Rightarrow> gasChargeId B source i) = Inr y) ?cs ids"
    and held: "allT (map (hasGasCharge records (pn_transportKey pending)) ids) now = Some (t', Inr held)"
    and res: "None = (case find (\<lambda>(charge, h). h) (zip ?cs held) of
                 None \<Rightarrow> None
               | Some ((source, _), _) \<Rightarrow> Some (''the charge record '' @ sourceName source))"
    unfolding charged_def Let_def bindT_Inr liftT_Some returnT_Some
    by (auto simp: traverseE_eq_Inr)
  from res have none: "find (\<lambda>(charge, h). h) (zip ?cs held) = None"
    by (cases "find (\<lambda>(charge, h). h) (zip ?cs held)") (auto split: prod.splits)
  from allT_Inr [OF held]
  have h: "list_all2 (\<lambda>y h. \<exists>s. hasGasCharge records (pn_transportKey pending) y now = Some (s, Inr h)) ids held"
    by (simp add: list_all2_map1)
  have "list_all2 (\<lambda>c h. \<exists>y s. gasChargeId B (fst c) (snd c) = Inr y \<and>
          hasGasCharge records (pn_transportKey pending) y now = Some (s, Inr h)) ?cs held"
    by (rule list_all2_trans [OF _ ids h]) auto
  from find_zip_None [OF this none] show ?thesis unfolding noCharge_def by blast
qed

lemma ranOr_Inr:
  "ranOr B records pending otherwise extra now = Some (t, Inr out) \<longleftrightarrow>
     charged B records pending extra now = Some (t, Inr None) \<and> out = otherwise \<or>
     (\<exists>r. charged B records pending extra now = Some (t, Inr (Some r)) \<and> out = Ran r)"
  by (auto simp: ranOr_def result_simps split: option.splits)

lemma ranOr_NotRun:
  "ranOr B records pending otherwise extra now = Some (t, Inr NotRun) \<Longrightarrow>
     otherwise = NotRun \<and> (\<forall>c\<in>set (chargesOfSession (pn_sessionIdentifier pending) extra).
       noCharge B records (pn_transportKey pending) c)"
  using charged_None by (auto simp: ranOr_Inr)

section \<open>Requests that never ran\<close>

text \<open>
  The charges the network could have made for a request, besides those of any session; \<open>None\<close> where a
  charge's id is not known, so that its absence cannot be read.
\<close>

definition ownCharges :: "record_lib \<Rightarrow> pending_request \<Rightarrow> charge list option" where
  "ownCharges B pending =
     (let session = pn_sessionIdentifier pending;
          givenUp = (case signatureCommitItemId B session of Inl _ \<Rightarrow> None | Inr item \<Rightarrow> Some [(GivenUpSignature, item)])
      in case pn_kind pending of
           PendingPresign \<Rightarrow> Some [(CompletedPresign, session)]
         | PendingSign _ \<Rightarrow> givenUp
         | PendingFutureSignStepOne _ \<Rightarrow> Some []
         | PendingFutureSignCompletion _ \<Rightarrow> givenUp
         | PendingMakeSharePublic _ item \<Rightarrow> Some [(GivenUpShareCommit, item)]
         | PendingReEncryptShare _ _ item \<Rightarrow> Some [(GivenUpShareCommit, item)]
         | PendingDkg _ \<Rightarrow> None
         | PendingImportedKey _ \<Rightarrow> None)"

text \<open>The place the request's result is delivered to was read, and holds none.\<close>

definition nothingDelivered :: "request_records \<Rightarrow> share_lookup option \<Rightarrow> pending_kind \<Rightarrow> bool" where
  "nothingDelivered records shares k \<longleftrightarrow>
     (case k of
        PendingSign voucher \<Rightarrow> \<exists>s t. voucherSignature records voucher s = Some (t, Inr None)
      | PendingFutureSignStepOne voucher \<Rightarrow>
          \<exists>s t v. futureVoucher records voucher s = Some (t, Inr (Some v)) \<and>
             fu_stepOneSession v = None \<and> fu_signature v = None \<and> \<not> fu_closed v
      | PendingFutureSignCompletion voucher \<Rightarrow>
          \<exists>s t v. futureVoucher records voucher s = Some (t, Inr v) \<and> Option.bind v fu_signature = None
      | PendingMakeSharePublic dwallet _ \<Rightarrow>
          \<exists>s t rec. dwalletRecord shares dwallet s = Some (t, Inr rec) \<and>
             (\<forall>r. rec = Some r \<longrightarrow> (\<exists>t'. sh_readPublicShare r t = Some (t', Inr False)))
      | PendingReEncryptShare dwallet newHolder _ \<Rightarrow>
          \<exists>s t rec. dwalletRecord shares dwallet s = Some (t, Inr rec) \<and>
             (\<forall>r. rec = Some r \<longrightarrow> (\<exists>t'. sh_readEncryptedShare r newHolder t = Some (t', Inr False)))
      | _ \<Rightarrow> True)"

definition neverRan :: "record_lib \<Rightarrow> request_records \<Rightarrow> share_lookup option \<Rightarrow> pending_request \<Rightarrow> bool" where
  "neverRan B records shares pending \<longleftrightarrow>
     (\<exists>own. ownCharges B pending = Some own \<and>
        (\<forall>c\<in>set (chargesOfSession (pn_sessionIdentifier pending) own).
           noCharge B records (pn_transportKey pending) c)) \<and>
     nothingDelivered records shares (pn_kind pending)"

lemma shareFound_False:
  "shareFound rec read now = Some (t, Inr False) \<Longrightarrow>
     \<forall>r. rec = Some r \<longrightarrow> (\<exists>t'. read r now = Some (t', Inr False))"
  by (auto simp: shareFound_def)

lemma findSession_neverRan:
  assumes "findSession B pending records shares now = Some (t, Inr NotRun)"
  shows "neverRan B records shares pending"
proof (cases "pn_kind pending")
  case PendingPresign
  with assms show ?thesis
    by (auto simp: findSession_def Let_def neverRan_def ownCharges_def nothingDelivered_def dest!: ranOr_NotRun)
next
  case (PendingSign voucher)
  with assms show ?thesis
    by (auto simp: findSession_def Let_def neverRan_def ownCharges_def nothingDelivered_def result_simps
        dest!: ranOr_NotRun split: option.split_asm)
next
  case (PendingFutureSignStepOne voucher)
  from assms obtain t' v where v: "futureVoucher records voucher now = Some (t', Inr (Some v))"
    and open_: "fu_stepOneSession v = None" "fu_signature v = None"
    and rest: "(if fu_closed v then ranOr B records pending UnknownOutcome [] else ranOr B records pending NotRun []) t'
                 = Some (t, Inr NotRun)"
    unfolding findSession_def Let_def PendingFutureSignStepOne pending_kind.case bindT_Inr
    by (elim exE conjE) (auto simp: result_simps split: option.split_asm if_split_asm)
  from rest have "\<not> fu_closed v" by (auto dest!: ranOr_NotRun split: if_split_asm)
  with rest v open_ show ?thesis
    by (auto simp: neverRan_def ownCharges_def nothingDelivered_def PendingFutureSignStepOne Let_def
        dest!: ranOr_NotRun)
next
  case (PendingFutureSignCompletion voucher)
  with assms show ?thesis
    by (auto simp: findSession_def Let_def neverRan_def ownCharges_def nothingDelivered_def result_simps
        dest!: ranOr_NotRun split: option.split_asm)
next
  case (PendingMakeSharePublic dwallet item)
  with assms show ?thesis
    by (auto simp: findSession_def Let_def neverRan_def ownCharges_def nothingDelivered_def result_simps
        dest!: ranOr_NotRun shareFound_False split: if_split_asm) blast
next
  case (PendingReEncryptShare dwallet newHolder item)
  with assms show ?thesis
    by (auto simp: findSession_def Let_def neverRan_def ownCharges_def nothingDelivered_def result_simps
        dest!: ranOr_NotRun shareFound_False split: if_split_asm) blast
next
  case (PendingDkg dwallet)
  with assms show ?thesis
    by (auto simp: findSession_def Let_def result_simps dest!: ranOr_NotRun split: if_split_asm)
next
  case (PendingImportedKey dwallet)
  with assms show ?thesis
    by (auto simp: findSession_def Let_def result_simps dest!: ranOr_NotRun split: if_split_asm)
qed

text \<open>The lookup says that a request never ran only when the result it would have delivered was read and
  is absent, and so was the record of every charge the network could have made for it. It never says so of
  a DKG or an imported key, where one of those charges cannot be looked for.\<close>

theorem findSession_notRun:
  assumes "findSession B pending records shares now = Some (t, Inr NotRun)"
  shows "neverRan B records shares pending \<and>
         (\<forall>dwallet. pn_kind pending \<noteq> PendingDkg dwallet \<and> pn_kind pending \<noteq> PendingImportedKey dwallet)"
  using findSession_neverRan [OF assms] by (auto simp: neverRan_def ownCharges_def Let_def split: pending_kind.split_asm)

section \<open>Over Solana's reads\<close>

lemma throughAccount_Inr:
  "throughAccount at decode get now = Some (dt, Inr v) \<longleftrightarrow>
     (\<exists>a. get at now = Some (dt, Inr a) \<and> (case a of None \<Rightarrow> v = None | Some x \<Rightarrow> decode x = Inr v))"
  by (auto simp: throughAccount_def result_simps split: option.splits)

text \<open>An account an endpoint said is not there.\<close>

definition absentFor :: "get_account \<Rightarrow> bytes \<Rightarrow> bool" where
  "absentFor get at \<longleftrightarrow> (\<exists>s dt. get at s = Some (dt, Inr None))"

lemma solana_noCharge:
  assumes "hasGasCharge (solanaRequestRecordReader A lag programId get cc) key chargeId now = Some (t, Inr False)"
  shows "\<exists>pda. gasChargePda A programId chargeId = Inr pda \<and> absentFor get (address pda) \<and>
           (\<forall>get'. cc = CrossCheckThrough get' \<longrightarrow> absentFor get' (address pda))"
proof -
  let ?read = "\<lambda>pda. throughAccount (address pda) (\<lambda>_. Inr (Some True))"
  from assms obtain pda found t' where pda: "gasChargePda A programId chargeId = Inr pda"
    and read: "crossCheckedAccountRead lag get cc (?read pda) (=) None now = Some (t', Inr found)"
    and found: "found \<noteq> Some True"
    by (auto simp: solanaRequestRecordReader_def result_simps)
  have v: "v \<noteq> Some True \<Longrightarrow> ?read pda g s = Some (dt, Inr v) \<Longrightarrow> v = None \<and> absentFor g (address pda)"
    for v g s dt
    by (auto simp: throughAccount_Inr absentFor_def split: option.split_asm)
  from crossCheckedAccountRead_Inr [OF read]
  obtain s dt where "?read pda get s = Some (dt, Inr found)"
    and other: "\<forall>g'. cc = CrossCheckThrough g' \<longrightarrow>
       (\<exists>s dt w. now \<le> s \<and> ?read pda g' s = Some (dt, Inr w) \<and> sameValue (=) found w)" by blast
  with v found have "found = None" "absentFor get (address pda)" by blast+
  moreover have "absentFor g' (address pda)" if cc: "cc = CrossCheckThrough g'" for g'
  proof -
    from other cc obtain s dt w where "?read pda g' s = Some (dt, Inr w)" "sameValue (=) found w" by blast
    with v [of w g' s dt] \<open>found = None\<close> show ?thesis by (auto simp: sameValue_def split: option.splits)
  qed
  ultimately show ?thesis using pda by blast
qed

text \<open>C29. Over Solana's reads, a request the lookup says never ran has no charge account: for every charge it
  could have left, the first endpoint and the cross-checking endpoint each answered that the account at the
  charge's derived address is not there.\<close>

theorem solana_notRun_absent:
  assumes "findSession B pending (solanaRequestRecordReader A lag programId get (CrossCheckThrough get')) shares now
             = Some (t, Inr NotRun)"
  shows "\<exists>own. ownCharges B pending = Some own \<and>
     (\<forall>(source, i)\<in>set (chargesOfSession (pn_sessionIdentifier pending) own).
        \<exists>chargeId pda. gasChargeId B source i = Inr chargeId \<and> gasChargePda A programId chargeId = Inr pda \<and>
          absentFor get (address pda) \<and> absentFor get' (address pda))"
  using findSession_neverRan [OF assms]
  unfolding neverRan_def noCharge_def by (fastforce dest: solana_noCharge)

section \<open>Ids of charges\<close>

lemma sourceName_inject: "sourceName s = sourceName s' \<Longrightarrow> s = s'"
  by (cases s; cases s') simp_all

text \<open>Two charges have one id only if they are the same charge, or keccak256 collides: a record found under a
  charge's id is that charge's.\<close>

theorem gasChargeId_apart:
  assumes "codec_ok (gasChargeBcs B)"
    and "gasChargeId B source i = Inr h" and "gasChargeId B source' i' = Inr h"
  shows "(source = source' \<and> i = i') \<or> (\<exists>b b'. b \<noteq> b' \<and> recordKeccak B b = recordKeccak B b')"
proof -
  from assms(2,3) obtain b b' where b: "serialize (gasChargeBcs B) (''IkaGasCharge'', sourceName source, i) = Some b"
    "serialize (gasChargeBcs B) (''IkaGasCharge'', sourceName source', i') = Some b'"
    and h: "recordKeccak B b = recordKeccak B b'"
    by (auto simp: gasChargeId_def result_simps)
  show ?thesis
  proof (cases "b = b'")
    case True
    with b assms(1) have "(''IkaGasCharge'', sourceName source, i) = (''IkaGasCharge'', sourceName source', i')"
      unfolding codec_ok_def by (metis option.inject)
    then show ?thesis by (auto dest: sourceName_inject)
  qed (use h in blast)
qed

end
