(* ===== verification/Demo_Requests.thy ===== *)
theory Demo_Requests
  imports Request_Laws Demo
begin

text \<open>Instances of the laws of a request's lookup: a presign that left nothing on the chain.\<close>

definition demoRecordLib :: record_lib where
  "demoRecordLib =
     \<lparr>gasChargeBcs = \<lparr>parse = (\<lambda>_. None), serialize = (\<lambda>(_, source, _). Some (ascii source))\<rparr>,
      commitItemBcs = noBcs, recordKeccak = (\<lambda>_. theKey)\<rparr>"

definition demoPending :: pending_request where
  "demoPending = \<lparr>pn_epoch = 7, pn_sessionIdentifier = theKey, pn_transportKey = theKey, pn_curve = 2,
     pn_networkKeyId = theKey, pn_kind = PendingPresign\<rparr>"

text \<open>An endpoint that serves no account.\<close>

definition emptyEndpoint :: get_account where
  "emptyEndpoint at now = Some (1, Inr None)"

definition emptyRecords :: request_records where
  "emptyRecords = solanaRequestRecordReader demoAddressLib (\<lambda>_. 0) theKey emptyEndpoint (CrossCheckThrough emptyEndpoint)"

definition oneChargeLib :: record_lib where
  "oneChargeLib =
     \<lparr>gasChargeBcs = oneValue (''IkaGasCharge'', ''RefusedRequest'', theKey) [1],
      commitItemBcs = noBcs, recordKeccak = (\<lambda>_. theKey)\<rparr>"

lemma empty_read:
  "crossCheckedAccountRead (\<lambda>_. 0) emptyEndpoint (CrossCheckThrough emptyEndpoint) (throughAccount at decode) eq None now
     = Some (now + 1, Inr None)"
  by (simp add: crossCheckedAccountRead_def crossCheckedRead_def accountCrossCheck_def accountEndpoint_def
      throughAccount_def emptyEndpoint_def readFrom_def bothReads_def answered_def agreed_def sameValue_def
      CROSS_CHECK_WINDOW_MS_def result_simps crossLoop.simps)

lemma demo_charge_seeds:
  "deriveSeeds ''GasCharge'' [''charge_id'' \<mapsto> SeedBytes theKey] = Inr [ascii ''gas_charge'', theKey]"
  by (simp add: deriveSeeds_def seedSchema_def look_def wire_seed_schemas_def asBytes_def result_simps theKey_def)

lemma demo_charge_pda: "\<exists>pda. gasChargePda demoAddressLib theKey theKey = Inr pda"
proof -
  have "addressPreimage [ascii ''gas_charge'', theKey] b theKey ! 0 \<noteq> 255" for b
    by (simp add: addressPreimage_def ascii_def)
  then have off: "\<not> isOnCurve demoAddressLib (sha_256 demoAddressLib (addressPreimage [ascii ''gas_charge'', theKey] b theKey))" for b
    by (simp add: isOnCurve_def demoAddressLib_def nth_append)
  have "\<exists>pda. searchBump demoAddressLib [ascii ''gas_charge'', theKey] theKey (Suc 255) = Inr pda"
    using off unfolding searchBump.simps(2) Let_def by simp
  then obtain pda where "findProgramAddress demoAddressLib [ascii ''gas_charge'', theKey] theKey = Inr pda"
    by (auto simp: findProgramAddress_def MAX_SEEDS_def MAX_SEED_LEN_def theKey_def simp del: searchBump.simps)
  then show ?thesis
    by (simp add: gasChargePda_def deriveAddress_def demo_charge_seeds result_simps)
qed

lemma demo_charge_id: "gasChargeId demoRecordLib source i = Inr theKey"
  by (simp add: gasChargeId_def demoRecordLib_def result_simps)

lemma demo_no_charge: "hasGasCharge emptyRecords key theKey now = Some (now + 1, Inr False)"
proof -
  from demo_charge_pda obtain pda where "gasChargePda demoAddressLib theKey theKey = Inr pda" by blast
  then show ?thesis
    by (simp add: emptyRecords_def solanaRequestRecordReader_def bindT_def liftT_def returnT_def empty_read)
qed

lemma demo_never_ran: "findSession demoRecordLib demoPending emptyRecords None 0 = Some (1, Inr NotRun)"
  by (simp add: findSession_def demoPending_def ranOr_def charged_def chargesOfSession_def bindT_def liftT_def
      returnT_def demo_charge_id demo_no_charge result_simps allT_def)

theorem findSession_notRun_witness:
  "neverRan demoRecordLib emptyRecords None demoPending"
  using findSession_notRun [OF demo_never_ran] by blast

theorem solana_notRun_absent_witness:
  "\<exists>own. ownCharges demoRecordLib demoPending = Some own \<and>
     (\<exists>pda. gasChargePda demoAddressLib theKey theKey = Inr pda \<and> absentFor emptyEndpoint (address pda))"
proof -
  from solana_notRun_absent [OF demo_never_ran [unfolded emptyRecords_def]]
  obtain own where own: "ownCharges demoRecordLib demoPending = Some own"
    and "\<forall>(source, i)\<in>set (chargesOfSession (pn_sessionIdentifier demoPending) own).
      \<exists>chargeId pda. gasChargeId demoRecordLib source i = Inr chargeId \<and> gasChargePda demoAddressLib theKey chargeId = Inr pda \<and>
        absentFor emptyEndpoint (address pda) \<and> absentFor emptyEndpoint (address pda)" by blast
  then show ?thesis by (fastforce simp: chargesOfSession_def demo_charge_id)
qed

theorem gasChargeId_apart_witness:
  "RefusedRequest = RefusedRequest \<and> theKey = theKey \<or>
     (\<exists>b b'. b \<noteq> b' \<and> recordKeccak oneChargeLib b = recordKeccak oneChargeLib b')"
  by (rule gasChargeId_apart [of oneChargeLib RefusedRequest theKey theKey])
    (simp_all add: oneChargeLib_def gasChargeId_def result_simps)

end
