(* ===== verification/Grpc_Client.thy ===== *)
theory Grpc_Client
  imports Polling Network_Keys
begin

text \<open>
  The dWallet gRPC client's calls over any transport (\<open>grpc/dwallet-client.ts\<close>,
  \<open>grpc/transport.ts\<close>): a request sent on to further validators, a refused validator passed over,
  a request carried across an epoch close, the repeated read of the network keys. The transport, the
  protobuf encoding, the signing of a request and the reads of the chain are parameters, functions
  of the time they start at. The state is the record of refused validators, with what the client
  handed out: the calls given to the transport, the requests signed and the refusals recorded.
\<close>

section \<open>Errors of a call\<close>

definition DEADLINE_EXCEEDED :: nat where "DEADLINE_EXCEEDED = 4"
definition FAILED_PRECONDITION :: nat where "FAILED_PRECONDITION = 9"
definition UNAVAILABLE :: nat where "UNAVAILABLE = 14"

lemmas grpc_codes = DEADLINE_EXCEEDED_def FAILED_PRECONDITION_def UNAVAILABLE_def

text \<open>What the client reads of an error: its status, if it has one, and the two flags of a pinned setup.\<close>

record call_error =
  ce_code :: "nat option"
  ce_details :: "string option"
  ce_refusedPinnedSetup :: bool
  ce_notACommitteeMember :: bool
  ce_message :: string

definition plainError :: "string \<Rightarrow> call_error" where
  "plainError message = \<lparr>ce_code = None, ce_details = None, ce_refusedPinnedSetup = False,
     ce_notACommitteeMember = False, ce_message = message\<rparr>"

definition EPOCH_CLOSING_REFUSAL :: string where
  "EPOCH_CLOSING_REFUSAL = ''the epoch is closing; retry the request in the next epoch''"

definition GAS_WAIT_ENDED_WITH_THE_EPOCH :: string where
  "GAS_WAIT_ENDED_WITH_THE_EPOCH =
     ''the epoch ended while this request waited for its gas deposit to be read; retry in the next epoch''"

definition isEpochClosingRefusal :: "call_error \<Rightarrow> bool" where
  "isEpochClosingRefusal e \<longleftrightarrow>
     ce_code e = Some UNAVAILABLE \<and>
     (ce_details e = Some EPOCH_CLOSING_REFUSAL \<or> ce_details e = Some GAS_WAIT_ENDED_WITH_THE_EPOCH)"

definition markRefusedPinnedSetup :: "call_error \<Rightarrow> call_error" where
  "markRefusedPinnedSetup e = e\<lparr>ce_refusedPinnedSetup := True\<rparr>"

definition markNotACommitteeMember :: "call_error \<Rightarrow> call_error" where
  "markNotACommitteeMember e = (markRefusedPinnedSetup e)\<lparr>ce_notACommitteeMember := True\<rparr>"

definition isTransportFailure :: "call_error \<Rightarrow> bool" where
  "isTransportFailure e \<longleftrightarrow>
     (if ce_refusedPinnedSetup e then False
      else ce_code e = Some UNAVAILABLE \<or> ce_code e = Some DEADLINE_EXCEEDED)"

definition EVERY_VALIDATOR_REFUSED :: string where
  "EVERY_VALIDATOR_REFUSED = ''no validator left to ask: the pinned TLS check refused every validator''"

text \<open>Its cause is the last refusal, if this call had one.\<close>

definition everyValidatorRefused :: "call_error option \<Rightarrow> call_error" where
  "everyValidatorRefused lastError =
     markRefusedPinnedSetup
       \<lparr>ce_code = Some FAILED_PRECONDITION, ce_details = Some EVERY_VALIDATOR_REFUSED,
        ce_refusedPinnedSetup = False, ce_notACommitteeMember = False,
        ce_message = (case lastError of None \<Rightarrow> EVERY_VALIDATOR_REFUSED
                      | Some e \<Rightarrow> EVERY_VALIDATOR_REFUSED @ '': '' @ ce_message e)\<rparr>"

section \<open>The client\<close>

text \<open>A method of the service, with protobufjs' encoding of its request and decoding of its answer.\<close>

record ('q, 'r) rpc_method =
  methodName :: string
  encodeRequest :: "'q \<Rightarrow> call_error + bytes"
  decodeResponse :: "bytes \<Rightarrow> call_error + 'r"

text \<open>
  \<open>unary\<close> is the transport's; \<open>monotonicNow\<close> is \<open>performance.now()\<close> at a time of the wall clock;
  \<open>meanwhile\<close> is what calls that run at the same time have made of the record of refused validators
  when this call looks at it again.
\<close>

type_synonym refused_validators = "nat \<Rightarrow> int option"

record grpc_client =
  unary :: "nat \<Rightarrow> string \<Rightarrow> bytes \<Rightarrow> time \<Rightarrow> (call_error, bytes) timed"
  furtherValidatorCount :: nat
  refusalMaxAgeMs :: int
  monotonicNow :: "time \<Rightarrow> int"
  meanwhile :: "time \<Rightarrow> refused_validators \<Rightarrow> refused_validators"
  lagOf :: "time \<Rightarrow> nat"

definition PIN_REFUSAL_MAX_AGE_MS :: int where
  "PIN_REFUSAL_MAX_AGE_MS = 60000"

record sent_call =
  sc_index :: nat
  sc_method :: string
  sc_bytes :: bytes
  sc_deadline :: time
  sc_at :: time

record client_state =
  cs_refused :: refused_validators
  cs_sent :: "sent_call list"
  cs_built :: "(int \<times> time) list"
  cs_recorded :: "int list"

text \<open>A run of a method of the client: \<open>None\<close> where it never settles.\<close>

type_synonym 'a client_run = "time \<Rightarrow> client_state \<Rightarrow> (time \<times> client_state \<times> (call_error + 'a)) option"

definition isRefused :: "grpc_client \<Rightarrow> client_state \<Rightarrow> nat \<Rightarrow> time \<Rightarrow> bool" where
  "isRefused C s index now =
     (case cs_refused s index of
        None \<Rightarrow> False
      | Some refusedAt \<Rightarrow> monotonicNow C now - refusedAt < refusalMaxAgeMs C)"

definition validatorIndexes :: "grpc_client \<Rightarrow> nat list" where
  "validatorIndexes C = [0..<furtherValidatorCount C + 1]"

definition othersRan :: "grpc_client \<Rightarrow> time \<Rightarrow> client_state \<Rightarrow> client_state" where
  "othersRan C now s = s\<lparr>cs_refused := meanwhile C now (cs_refused s)\<rparr>"

definition refuse :: "grpc_client \<Rightarrow> nat \<Rightarrow> time \<Rightarrow> client_state \<Rightarrow> client_state" where
  "refuse C index now s = s\<lparr>cs_refused := (cs_refused s)(index \<mapsto> monotonicNow C now)\<rparr>"

text \<open>One call to one validator.\<close>

definition call ::
    "grpc_client \<Rightarrow> nat \<Rightarrow> ('q, 'r) rpc_method \<Rightarrow> 'q \<Rightarrow> time \<Rightarrow> 'r client_run" where
  "call C index M request deadline now s =
     (case encodeRequest M request of
        Inl e \<Rightarrow> Some (now, s, Inl e)
      | Inr bs \<Rightarrow>
          let s' = s\<lparr>cs_sent := cs_sent s @ [\<lparr>sc_index = index, sc_method = methodName M, sc_bytes = bs,
                                             sc_deadline = deadline, sc_at = now\<rparr>]\<rparr>
          in case unary C index (methodName M) bs deadline now of
               None \<Rightarrow> None
             | Some (t, r) \<Rightarrow> Some (t, othersRan C t s', bindE r (decodeResponse M)))"

section \<open>Reads\<close>

text \<open>The loop over the validators; \<open>lastError\<close> is the last refusal of the pinned TLS check.\<close>

fun readOver ::
    "grpc_client \<Rightarrow> ('q, 'r) rpc_method \<Rightarrow> 'q \<Rightarrow> time \<Rightarrow> nat list \<Rightarrow> call_error option \<Rightarrow> 'r client_run" where
  "readOver C M request deadline [] lastError now s = Some (now, s, Inl (everyValidatorRefused lastError))"
| "readOver C M request deadline (index # rest) lastError now s =
     (if isRefused C s index now then readOver C M request deadline rest lastError now s
      else case call C index M request deadline now s of
        None \<Rightarrow> None
      | Some (t, s', Inr answer) \<Rightarrow> Some (t, s', Inr answer)
      | Some (t, s', Inl e) \<Rightarrow>
          if \<not> ce_notACommitteeMember e then Some (t, s', Inl e)
          else readOver C M request deadline rest (Some e) t (refuse C index t s'))"

definition readThrough :: "grpc_client \<Rightarrow> ('q, 'r) rpc_method \<Rightarrow> 'q \<Rightarrow> time \<Rightarrow> nat \<Rightarrow> 'r client_run" where
  "readThrough C M request deadline first =
     (let indexes = validatorIndexes C
      in readOver C M request deadline (drop first indexes @ take first indexes) None)"

section \<open>Submitting a request\<close>

record signed_grpc_request =
  gr_userSignature :: bytes
  gr_signedRequestData :: bytes

text \<open>The loop's two variables: whether every validator tried was refused, and the last error.\<close>

fun submitOver ::
    "grpc_client \<Rightarrow> (signed_grpc_request, 'r) rpc_method \<Rightarrow> signed_grpc_request \<Rightarrow> time \<Rightarrow> nat list
      \<Rightarrow> bool \<Rightarrow> call_error option \<Rightarrow> 'r client_run" where
  "submitOver C M request deadline [] everyOneRefused lastError now s =
     Some (now, s, Inl (if everyOneRefused then everyValidatorRefused lastError else the lastError))"
| "submitOver C M request deadline (index # rest) everyOneRefused lastError now s =
     (if isRefused C s index now then submitOver C M request deadline rest everyOneRefused lastError now s
      else case call C index M request deadline now s of
        None \<Rightarrow> None
      | Some (t, s', Inr answer) \<Rightarrow> Some (t, s', Inr answer)
      | Some (t, s', Inl e) \<Rightarrow>
          if ce_code e \<noteq> Some UNAVAILABLE \<or> isEpochClosingRefusal e then Some (t, s', Inl e)
          else if ce_notACommitteeMember e
          then submitOver C M request deadline rest everyOneRefused (Some e) t (refuse C index t s')
          else submitOver C M request deadline rest False (Some e) t s')"

definition submitTransaction ::
    "grpc_client \<Rightarrow> (signed_grpc_request, 'r) rpc_method \<Rightarrow> signed_grpc_request \<Rightarrow> int \<Rightarrow> 'r client_run" where
  "submitTransaction C M request timeoutMs now s =
     submitOver C M request (now + timeoutMs) (validatorIndexes C) True None now s"

section \<open>Across an epoch close\<close>

text \<open>
  \<open>Promise.race\<close> of work and a timer that fires at the deadline or later, \<open>lagOf\<close>; the work
  wins when both are due at once.
\<close>

definition raced :: "(time \<Rightarrow> nat) \<Rightarrow> ('e, 'a) timed \<Rightarrow> time \<Rightarrow> time \<Rightarrow> time \<times> ('e + 'a) option" where
  "raced lag work deadline now =
     (let fires = deadline + int (lag now)
      in case work now of
           None \<Rightarrow> (fires, None)
         | Some (t, r) \<Rightarrow> if t \<le> fires then (t, Some r) else (fires, None))"

definition beforeDeadline ::
    "(time \<Rightarrow> nat) \<Rightarrow> ('e, 'a) timed \<Rightarrow> time \<Rightarrow> 'e \<Rightarrow> time \<Rightarrow> time \<times> ('e + 'a)" where
  "beforeDeadline lag work deadline outOfTime now =
     (if deadline - now \<le> 0 then (now, Inl outOfTime)
      else case raced lag work deadline now of
             (t, None) \<Rightarrow> (t, Inl outOfTime)
           | (t, Some r) \<Rightarrow> (t, r))"

definition positiveMilliseconds :: "int \<Rightarrow> string \<Rightarrow> call_error + int" where
  "positiveMilliseconds value name =
     (if value \<le> 0 then Inl (plainError (name @ '' must be a finite number of milliseconds above zero''))
      else Inr value)"

text \<open>What a caller passes: \<open>build\<close> and \<open>currentEpoch\<close> are its own.\<close>

record across_params =
  build :: "int \<Rightarrow> (call_error, signed_grpc_request) timed"
  currentEpoch :: "(call_error, int) timed"
  epochWaitMs :: int
  pollIntervalMs :: int
  timeoutMs :: int

definition outOfTime :: call_error where
  "outOfTime = plainError ''the request was not answered in a later epoch in time''"

text \<open>\<open>sleep(Math.min(pollIntervalMs, Math.max(0, deadline - Date.now())))\<close>.\<close>

definition sleptUntil :: "grpc_client \<Rightarrow> int \<Rightarrow> time \<Rightarrow> time \<Rightarrow> time" where
  "sleptUntil C pollMs deadline now = now + min pollMs (max 0 (deadline - now)) + int (lagOf C now)"

text \<open>
  The place the loops are at: waiting for an epoch later than the refused one (\<open>waitForEpochAfter\<close>),
  or sending the request built for an epoch.
\<close>

datatype across_phase = AwaitEpochAfter int | Sending int signed_grpc_request

datatype 'r across_next = Ended time client_state "call_error + 'r" | GoesOn across_phase time client_state

definition afterEpochRead ::
    "grpc_client \<Rightarrow> across_params \<Rightarrow> time \<Rightarrow> int \<Rightarrow> int \<Rightarrow> time \<Rightarrow> client_state \<Rightarrow> 'r across_next" where
  "afterEpochRead C A deadline refusedEpoch epoch now s =
     (if now > deadline then Ended now s (Inl outOfTime)
      else if epoch > refusedEpoch then
        let s' = s\<lparr>cs_built := cs_built s @ [(epoch, now)]\<rparr>
        in case beforeDeadline (lagOf C) (build A epoch) deadline outOfTime now of
             (t, Inl e) \<Rightarrow> Ended t s' (Inl e)
           | (t, Inr built) \<Rightarrow> GoesOn (Sending epoch built) t s'
      else GoesOn (AwaitEpochAfter refusedEpoch) (sleptUntil C (pollIntervalMs A) deadline now) s)"

definition afterSubmit ::
    "grpc_client \<Rightarrow> across_params \<Rightarrow> time \<Rightarrow> int \<Rightarrow> signed_grpc_request \<Rightarrow> time \<Rightarrow> client_state
      \<Rightarrow> call_error + 'r \<Rightarrow> 'r across_next" where
  "afterSubmit C A deadline epoch request now s r =
     (case r of
        Inr answer \<Rightarrow> Ended now s (Inr answer)
      | Inl e \<Rightarrow>
          if isEpochClosingRefusal e
          then GoesOn (AwaitEpochAfter epoch) now (s\<lparr>cs_recorded := cs_recorded s @ [epoch]\<rparr>)
          else if ce_code e = Some DEADLINE_EXCEEDED \<and> now \<ge> deadline then Ended now s (Inl outOfTime)
          else if ce_code e \<noteq> Some UNAVAILABLE then Ended now s (Inl e)
          else GoesOn (Sending epoch request) (sleptUntil C (pollIntervalMs A) deadline now) s)"

fun acrossStep ::
    "grpc_client \<Rightarrow> (signed_grpc_request, 'r) rpc_method \<Rightarrow> across_params \<Rightarrow> time \<Rightarrow> across_phase \<Rightarrow> time
      \<Rightarrow> client_state \<Rightarrow> 'r across_next option" where
  "acrossStep C M A deadline (AwaitEpochAfter refusedEpoch) now s =
     (if deadline - now \<le> 0 then Some (Ended now s (Inl outOfTime))
      else case raced (lagOf C) (currentEpoch A) deadline now of
             (t, None) \<Rightarrow> Some (Ended t s (Inl outOfTime))
           | (t, Some (Inl e)) \<Rightarrow> Some (Ended t s (Inl e))
           | (t, Some (Inr epoch)) \<Rightarrow> Some (afterEpochRead C A deadline refusedEpoch epoch t s))"
| "acrossStep C M A deadline (Sending epoch request) now s =
     (if deadline - now \<le> 0 then Some (Ended now s (Inl outOfTime))
      else case submitTransaction C M request (min (timeoutMs A) (deadline - now)) now (othersRan C now s) of
             None \<Rightarrow> None
           | Some (t, s', r) \<Rightarrow> Some (afterSubmit C A deadline epoch request t s' r))"

partial_function (option) acrossLoop ::
    "grpc_client \<Rightarrow> (signed_grpc_request, 'r) rpc_method \<Rightarrow> across_params \<Rightarrow> time \<Rightarrow> across_phase \<Rightarrow> 'r client_run" where
  "acrossLoop C M A deadline phase now s =
     (case acrossStep C M A deadline phase now s of
        None \<Rightarrow> None
      | Some (Ended t s' r) \<Rightarrow> Some (t, s', r)
      | Some (GoesOn phase' t s') \<Rightarrow> acrossLoop C M A deadline phase' t s')"

definition validAcross :: "across_params \<Rightarrow> call_error + unit" where
  "validAcross A =
     bindE (positiveMilliseconds (epochWaitMs A) ''epochWaitMs'') (\<lambda>_.
     bindE (positiveMilliseconds (pollIntervalMs A) ''pollIntervalMs'') (\<lambda>_.
     bindE (positiveMilliseconds (timeoutMs A) ''timeoutMs'') (\<lambda>_. Inr ())))"

text \<open>The first request, before any refusal: its reads and its call are not raced.\<close>

definition submitTransactionAcrossEpochClose ::
    "grpc_client \<Rightarrow> (signed_grpc_request, 'r) rpc_method \<Rightarrow> across_params \<Rightarrow> 'r client_run" where
  "submitTransactionAcrossEpochClose C M A now s =
     (case validAcross A of
        Inl e \<Rightarrow> Some (now, s, Inl e)
      | Inr _ \<Rightarrow>
          (case currentEpoch A now of
             None \<Rightarrow> None
           | Some (t, Inl e) \<Rightarrow> Some (t, s, Inl e)
           | Some (t, Inr epoch) \<Rightarrow>
               let s1 = s\<lparr>cs_built := cs_built s @ [(epoch, t)]\<rparr> in
               (case build A epoch t of
                  None \<Rightarrow> None
                | Some (t1, Inl e) \<Rightarrow> Some (t1, s1, Inl e)
                | Some (t1, Inr first) \<Rightarrow>
                    (case submitTransaction C M first (timeoutMs A) t1 (othersRan C t1 s1) of
                       None \<Rightarrow> None
                     | Some (t2, s2, Inr answer) \<Rightarrow> Some (t2, s2, Inr answer)
                     | Some (t2, s2, Inl e) \<Rightarrow>
                         if \<not> isEpochClosingRefusal e then Some (t2, s2, Inl e)
                         else acrossLoop C M A (t2 + epochWaitMs A) (AwaitEpochAfter epoch) t2
                                (s2\<lparr>cs_recorded := cs_recorded s2 @ [epoch]\<rparr>)))))"

end
