(* ===== verification/Grpc_Laws.thy ===== *)
theory Grpc_Laws
  imports Grpc_Client
begin

text \<open>
  What the gRPC client promises of a request: which validators it goes to, with which bytes, what its
  answer is, and, across an epoch close, for which epochs it is signed and that the wait ends.
\<close>

section \<open>One submission\<close>

text \<open>What the transport answered to a call the client made.\<close>

definition answerOf :: "grpc_client \<Rightarrow> ('q, 'r) rpc_method \<Rightarrow> sent_call \<Rightarrow> (call_error + 'r) option" where
  "answerOf C M c =
     map_option (\<lambda>(t, r). bindE r (decodeResponse M))
       (unary C (sc_index c) (sc_method c) (sc_bytes c) (sc_deadline c) (sc_at c))"

text \<open>An error that sends the request on to the next validator.\<close>

definition sentOn :: "call_error \<Rightarrow> bool" where
  "sentOn e \<longleftrightarrow> ce_code e = Some UNAVAILABLE \<and> \<not> isEpochClosingRefusal e"

text \<open>Other calls only add refusals to the record, and later ones.\<close>

definition others_record_later :: "grpc_client \<Rightarrow> bool" where
  "others_record_later C \<longleftrightarrow>
     (\<forall>t m i r. m i = Some r \<longrightarrow> (\<exists>r'\<ge>r. meanwhile C t m i = Some r'))"

lemma call_Some:
  assumes "encodeRequest M request = Inr bs" "call C i M request deadline now s = Some (t, s', r)"
  obtains c where "c = \<lparr>sc_index = i, sc_method = methodName M, sc_bytes = bs, sc_deadline = deadline, sc_at = now\<rparr>"
    and "s' = othersRan C t (s\<lparr>cs_sent := cs_sent s @ [c]\<rparr>)" and "answerOf C M c = Some r"
  using assms by (auto simp: call_def answerOf_def Let_def split: option.splits)

text \<open>The calls a submission makes, of which the last gave its result.\<close>

definition sends ::
    "grpc_client \<Rightarrow> ('q, 'r) rpc_method \<Rightarrow> bytes \<Rightarrow> time \<Rightarrow> nat list \<Rightarrow> client_state \<Rightarrow> client_state
      \<Rightarrow> sent_call list \<Rightarrow> bool" where
  "sends C M bs deadline indexes s s' cs \<longleftrightarrow>
     cs_sent s' = cs_sent s @ cs \<and> cs_built s' = cs_built s \<and> cs_recorded s' = cs_recorded s \<and>
     sorted_wrt (<) (map sc_index cs) \<and> set (map sc_index cs) \<subseteq> set indexes \<and>
     (\<forall>c\<in>set cs. sc_method c = methodName M \<and> sc_bytes c = bs \<and> sc_deadline c = deadline) \<and>
     (\<forall>c\<in>set (butlast cs). \<exists>e. answerOf C M c = Some (Inl e) \<and> sentOn e)"

text \<open>How the result relates to the calls; \<open>every\<close> and \<open>prior\<close> are the loop's variables at its start.\<close>

fun gives ::
    "grpc_client \<Rightarrow> ('q, 'r) rpc_method \<Rightarrow> bool \<Rightarrow> call_error option \<Rightarrow> sent_call list \<Rightarrow> call_error + 'r \<Rightarrow> bool" where
  "gives C M every prior cs (Inr a) \<longleftrightarrow> cs \<noteq> [] \<and> answerOf C M (last cs) = Some (Inr a)"
| "gives C M every prior cs (Inl e) \<longleftrightarrow>
     cs \<noteq> [] \<and> answerOf C M (last cs) = Some (Inl e) \<or>
     (every \<and> (\<exists>l. e = everyValidatorRefused l) \<and>
        (\<forall>c\<in>set cs. \<exists>e'. answerOf C M c = Some (Inl e') \<and> sentOn e' \<and> ce_notACommitteeMember e')) \<or>
     (\<not> every \<and> cs = [] \<and> e = the prior)"

lemma othersRan_simps [simp]:
  "cs_sent (othersRan C t s) = cs_sent s" "cs_built (othersRan C t s) = cs_built s"
  "cs_recorded (othersRan C t s) = cs_recorded s"
  "cs_sent (refuse C i t s) = cs_sent s" "cs_built (refuse C i t s) = cs_built s"
  "cs_recorded (refuse C i t s) = cs_recorded s"
  by (simp_all add: othersRan_def refuse_def)

lemma sends_Cons:
  assumes "sends C M bs deadline rest s1 s' cs" "sorted_wrt (<) (index # rest)"
    and "cs_sent s1 = cs_sent s @ [c]" "cs_built s1 = cs_built s" "cs_recorded s1 = cs_recorded s"
    and "c = \<lparr>sc_index = index, sc_method = methodName M, sc_bytes = bs, sc_deadline = deadline, sc_at = now\<rparr>"
    and "answerOf C M c = Some (Inl e)" "sentOn e"
  shows "sends C M bs deadline (index # rest) s s' (c # cs)"
  using assms unfolding sends_def by (auto split: if_split_asm)

lemma sends_skip: "sends C M bs deadline rest s s' cs \<Longrightarrow> sends C M bs deadline (index # rest) s s' cs"
  by (auto simp: sends_def)

lemma sends_last:
  assumes "c = \<lparr>sc_index = index, sc_method = methodName M, sc_bytes = bs, sc_deadline = deadline, sc_at = now\<rparr>"
  shows "sends C M bs deadline (index # rest) s (othersRan C t (s\<lparr>cs_sent := cs_sent s @ [c]\<rparr>)) [c]"
  using assms by (simp add: sends_def)

lemma gives_Cons:
  assumes "answerOf C M c = Some (Inl e)" "sentOn e"
  shows "gives C M every (Some e) cs r \<Longrightarrow> ce_notACommitteeMember e \<Longrightarrow> gives C M every prior (c # cs) r"
    and "gives C M False (Some e) cs r \<Longrightarrow> gives C M every prior (c # cs) r"
  using assms by (cases r; auto)+

lemma submitOver_sends:
  assumes "encodeRequest M request = Inr bs"
    and "submitOver C M request deadline indexes every prior now s = Some (t, s', r)"
    and "sorted_wrt (<) indexes"
  shows "\<exists>cs. sends C M bs deadline indexes s s' cs \<and> gives C M every prior cs r"
  using assms(2,3)
proof (induction indexes arbitrary: every prior now s)
  case Nil
  then show ?case by (intro exI [of _ "[]"]) (auto simp: sends_def)
next
  case (Cons index rest)
  show ?case
  proof (cases "isRefused C s index now")
    case True
    with Cons.IH [of every prior now s] Cons.prems show ?thesis by simp (blast intro: sends_skip)
  next
    case False
    with Cons.prems obtain t1 s1 r1 where called: "call C index M request deadline now s = Some (t1, s1, r1)"
      by (auto split: option.splits)
    from call_Some [OF assms(1) called] obtain c
      where c: "c = \<lparr>sc_index = index, sc_method = methodName M, sc_bytes = bs, sc_deadline = deadline, sc_at = now\<rparr>"
        and s1: "s1 = othersRan C t1 (s\<lparr>cs_sent := cs_sent s @ [c]\<rparr>)" and ans: "answerOf C M c = Some r1" .
    have one: "sends C M bs deadline (index # rest) s s1 [c]" unfolding s1 by (rule sends_last [OF c])
    show ?thesis
    proof (cases r1)
      case (Inr a)
      with Cons.prems False called one ans show ?thesis by (intro exI [of _ "[c]"]) auto
    next
      case (Inl e)
      show ?thesis
      proof (cases "sentOn e")
        case False
        with Inl Cons.prems \<open>\<not> isRefused C s index now\<close> called one ans show ?thesis
          by (intro exI [of _ "[c]"]) (auto simp: sentOn_def)
      next
        case True
        let ?every' = "ce_notACommitteeMember e \<and> every"
        let ?s1 = "if ce_notACommitteeMember e then refuse C index t1 s1 else s1"
        from True Inl Cons.prems \<open>\<not> isRefused C s index now\<close> called
        have "submitOver C M request deadline rest ?every' (Some e) t1 ?s1 = Some (t, s', r)"
          by (auto simp: sentOn_def split: if_splits)
        with Cons.IH [of ?every' "Some e" t1 ?s1] Cons.prems(2)
        obtain cs where cs: "sends C M bs deadline rest ?s1 s' cs" "gives C M ?every' (Some e) cs r" by auto
        have "sends C M bs deadline (index # rest) s s' (c # cs)"
          by (rule sends_Cons [OF cs(1) Cons.prems(2) _ _ _ c _ True]) (simp_all add: s1 ans Inl)
        moreover from cs(2) gives_Cons [OF ans [unfolded Inl] True] have "gives C M every prior (c # cs) r"
          by (cases "ce_notACommitteeMember e") auto
        ultimately show ?thesis by blast
      qed
    qed
  qed
qed

text \<open>A validator whose refusal is recorded is left alone until the refusal is old enough.\<close>

definition spares :: "grpc_client \<Rightarrow> client_state \<Rightarrow> sent_call \<Rightarrow> bool" where
  "spares C s c \<longleftrightarrow>
     (\<forall>r. cs_refused s (sc_index c) = Some r \<longrightarrow> refusalMaxAgeMs C \<le> monotonicNow C (sc_at c) - r)"

lemma spares_later:
  assumes "spares C s1 c" "\<And>r. cs_refused s (sc_index c) = Some r \<Longrightarrow> \<exists>r'\<ge>r. cs_refused s1 (sc_index c) = Some r'"
  shows "spares C s c"
  using assms unfolding spares_def by (smt (verit) le_diff_eq)

lemma submitOver_spares:
  assumes "encodeRequest M request = Inr bs" "others_record_later C"
    and "submitOver C M request deadline indexes every prior now s = Some (t, s', r)"
    and "sorted_wrt (<) indexes"
  shows "\<exists>cs. cs_sent s' = cs_sent s @ cs \<and> (\<forall>c\<in>set cs. sc_index c \<in> set indexes \<and> spares C s c)"
  using assms(3,4)
proof (induction indexes arbitrary: every prior now s)
  case Nil
  then show ?case by auto
next
  case (Cons index rest)
  show ?case
  proof (cases "isRefused C s index now")
    case True
    with Cons.IH [of every prior now s] Cons.prems show ?thesis by simp blast
  next
    case False
    with Cons.prems obtain t1 s1 r1 where called: "call C index M request deadline now s = Some (t1, s1, r1)"
      by (auto split: option.splits)
    from call_Some [OF assms(1) called] obtain c
      where c: "c = \<lparr>sc_index = index, sc_method = methodName M, sc_bytes = bs, sc_deadline = deadline, sc_at = now\<rparr>"
        and s1: "s1 = othersRan C t1 (s\<lparr>cs_sent := cs_sent s @ [c]\<rparr>)" and ans: "answerOf C M c = Some r1" .
    from False have first: "spares C s c" by (auto simp: spares_def isRefused_def c)
    show ?thesis
    proof (cases "(\<exists>a. r1 = Inr a) \<or> (\<exists>e. r1 = Inl e \<and> \<not> sentOn e)")
      case True
      with Cons.prems False called have "s' = s1" by (auto simp: sentOn_def)
      with first show ?thesis by (intro exI [of _ "[c]"]) (simp add: s1 c)
    next
      case going: False
      then obtain e where e: "r1 = Inl e" "sentOn e" by (cases r1) auto
      let ?every' = "ce_notACommitteeMember e \<and> every"
      let ?s1 = "if ce_notACommitteeMember e then refuse C index t1 s1 else s1"
      from e Cons.prems False called
      have "submitOver C M request deadline rest ?every' (Some e) t1 ?s1 = Some (t, s', r)"
        by (auto simp: sentOn_def split: if_splits)
      with Cons.IH [of ?every' "Some e" t1 ?s1] Cons.prems(2) obtain cs
        where cs: "cs_sent s' = cs_sent ?s1 @ cs" "\<forall>c\<in>set cs. sc_index c \<in> set rest \<and> spares C ?s1 c" by auto
      have "spares C s d" if "d \<in> set cs" for d
      proof (rule spares_later [of C ?s1])
        from cs that show "spares C ?s1 d" by simp
        fix r assume "cs_refused s (sc_index d) = Some r"
        moreover from cs(2) that Cons.prems(2) have "sc_index d \<noteq> index" by fastforce
        ultimately show "\<exists>r'\<ge>r. cs_refused ?s1 (sc_index d) = Some r'"
          using assms(2) by (auto simp: others_record_later_def s1 othersRan_def refuse_def)
      qed
      with cs first show ?thesis by (intro exI [of _ "c # cs"]) (auto simp: s1 c)
    qed
  qed
qed

lemma sorted_validatorIndexes: "sorted_wrt (<) (validatorIndexes C)"
  unfolding validatorIndexes_def using strict_sorted_list_of_set [of "{0..<furtherValidatorCount C + 1}"]
    by (simp del: upt_Suc add: sorted_list_of_set_range)

lemma in_validatorIndexes [simp]: "i \<in> set (validatorIndexes C) \<longleftrightarrow> i \<le> furtherValidatorCount C"
  by (auto simp: validatorIndexes_def)

text \<open>C30. A submission sends the same bytes to each validator at most once, in their order, with one deadline,
  and to none whose key was refused less than the refusal's age ago.\<close>

theorem submitTransaction_goes:
  assumes "encodeRequest M request = Inr bs" "others_record_later C"
    and "submitTransaction C M request timeout now s = Some (t, s', r)"
  shows "\<exists>cs. cs_sent s' = cs_sent s @ cs \<and> sorted_wrt (<) (map sc_index cs) \<and>
           (\<forall>c\<in>set cs. sc_index c \<le> furtherValidatorCount C \<and> sc_bytes c = bs \<and>
              sc_deadline c = now + timeout \<and> spares C s c)"
proof -
  note run = assms(3) [unfolded submitTransaction_def]
  note sorted = sorted_validatorIndexes [of C]
  from submitOver_sends [OF assms(1) run sorted] obtain cs
    where "sends C M bs (now + timeout) (validatorIndexes C) s s' cs" by blast
  moreover from submitOver_spares [OF assms(1,2) run sorted] obtain cs'
    where "cs_sent s' = cs_sent s @ cs'" "\<forall>c\<in>set cs'. spares C s c" by blast
  ultimately show ?thesis
    by (intro exI [of _ cs]) (fastforce simp: sends_def)
qed

text \<open>What a submission gives is what the last validator it asked gave, every one before it having answered
  UNAVAILABLE with no closing refusal; or, when every validator's key was refused, the refusal that says so.\<close>

theorem submitTransaction_outcome:
  assumes "encodeRequest M request = Inr bs"
    and "submitTransaction C M request timeout now s = Some (t, s', r)"
  shows "\<exists>cs. cs_sent s' = cs_sent s @ cs \<and>
     (\<forall>c\<in>set (butlast cs). \<exists>e. answerOf C M c = Some (Inl e) \<and> sentOn e) \<and>
     (cs \<noteq> [] \<and> answerOf C M (last cs) = Some r \<or>
      (\<exists>l. r = Inl (everyValidatorRefused l)) \<and>
      (\<forall>c\<in>set cs. \<exists>e. answerOf C M c = Some (Inl e) \<and> sentOn e \<and> ce_notACommitteeMember e))"
proof -
  note sorted = sorted_validatorIndexes [of C]
  from submitOver_sends [OF assms(1) assms(2) [unfolded submitTransaction_def] sorted] obtain cs
    where cs: "sends C M bs (now + timeout) (validatorIndexes C) s s' cs" "gives C M True None cs r" by blast
  from cs(2) have "cs \<noteq> [] \<and> answerOf C M (last cs) = Some r \<or>
      (\<exists>l. r = Inl (everyValidatorRefused l)) \<and>
      (\<forall>c\<in>set cs. \<exists>e. answerOf C M c = Some (Inl e) \<and> sentOn e \<and> ce_notACommitteeMember e)"
    by (cases r) auto
  with cs(1) show ?thesis by (intro exI [of _ cs]) (simp add: sends_def)
qed

end
