(* ===== verification/Across_Laws.thy ===== *)
theory Across_Laws
  imports Grpc_Laws
begin

text \<open>
  Carrying a request across an epoch close. The loops are one loop over the place they are at
  (\<open>across_phase\<close>); an invariant of that place and of what was signed, sent and recorded is kept by
  every step, and a measure falls with every step that goes on.
\<close>

section \<open>The loop\<close>

lemma acrossLoop_rule:
  assumes "acrossLoop C M A deadline phase now s = Some (t, s', r)" and "holds phase now s"
    and step: "\<And>phase now s phase' t s'. holds phase now s \<Longrightarrow>
       acrossStep C M A deadline phase now s = Some (GoesOn phase' t s') \<Longrightarrow> holds phase' t s'"
    and ended: "\<And>phase now s t s' r. holds phase now s \<Longrightarrow>
       acrossStep C M A deadline phase now s = Some (Ended t s' r) \<Longrightarrow> post t s' r"
  shows "post t s' r"
proof -
  have "C = C \<and> M = M \<and> A = A \<and> deadline = deadline \<longrightarrow> holds phase now s \<longrightarrow>
      post (fst (t, s', r)) (fst (snd (t, s', r))) (snd (snd (t, s', r)))"
  proof (rule acrossLoop.raw_induct [where P = "\<lambda>C' M' A' d phase now s y. C' = C \<and> M' = M \<and> A' = A \<and> d = deadline \<longrightarrow>
      holds phase now s \<longrightarrow> post (fst y) (fst (snd y)) (snd (snd y))", OF _ assms(1)], intro impI)
    fix f C' M' A' d phase now s y
    assume IH: "\<And>C' M' A' d phase now s y. f C' M' A' d phase now s = Some y \<Longrightarrow>
        C' = C \<and> M' = M \<and> A' = A \<and> d = deadline \<longrightarrow> holds phase now s \<longrightarrow> post (fst y) (fst (snd y)) (snd (snd y))"
      and eq: "(case acrossStep C' M' A' d phase now s of
        None \<Rightarrow> None
      | Some (Ended t s' r) \<Rightarrow> Some (t, s', r)
      | Some (GoesOn phase' t s') \<Rightarrow> f C' M' A' d phase' t s') = Some y"
      and same: "C' = C \<and> M' = M \<and> A' = A \<and> d = deadline" and h: "holds phase now s"
    show "post (fst y) (fst (snd y)) (snd (snd y))"
    proof (cases "acrossStep C' M' A' d phase now s")
      case None
      with eq show ?thesis by simp
    next
      case (Some after)
      show ?thesis
      proof (cases after)
        case (Ended t1 s1 r1)
        with Some eq same ended [OF h] show ?thesis by auto
      next
        case (GoesOn phase' t1 s1)
        with Some eq same step [OF h] IH show ?thesis by auto
      qed
    qed
  qed
  then show ?thesis using assms(2) by simp
qed

section \<open>Epochs and bytes\<close>

lemma call_unencodable: "encodeRequest M request = Inl e \<Longrightarrow> call C i M request deadline now s = Some (now, s, Inl e)"
  by (simp add: call_def)

lemma submitOver_unencodable:
  assumes "encodeRequest M request = Inl e"
    and "submitOver C M request deadline indexes every prior now s = Some (t, s', r)"
  shows "cs_sent s' = cs_sent s \<and> cs_built s' = cs_built s \<and> cs_recorded s' = cs_recorded s"
  using assms(2)
  by (induction indexes arbitrary: every prior now s)
    (fastforce simp: call_unencodable [OF assms(1)] split: if_split_asm)+

lemma submitTransaction_frame:
  assumes "submitTransaction C M request timeout now s = Some (t, s', r)"
  shows "\<exists>cs. cs_sent s' = cs_sent s @ cs \<and> cs_built s' = cs_built s \<and> cs_recorded s' = cs_recorded s \<and>
           (\<forall>c\<in>set cs. encodeRequest M request = Inr (sc_bytes c))"
proof (cases "encodeRequest M request")
  case (Inl e)
  from submitOver_unencodable [OF this assms [unfolded submitTransaction_def]] show ?thesis by auto
next
  case (Inr bs)
  from submitOver_sends [OF this assms [unfolded submitTransaction_def] sorted_validatorIndexes]
  show ?thesis by (auto simp: sends_def Inr)
qed

text \<open>A call that carries what \<open>build\<close> returned for one of the epochs it was asked for.\<close>

definition signedFor ::
    "across_params \<Rightarrow> (signed_grpc_request, 'r) rpc_method \<Rightarrow> (int \<times> time) list \<Rightarrow> sent_call \<Rightarrow> bool" where
  "signedFor A M bs c \<longleftrightarrow>
     (\<exists>(epoch, t)\<in>set bs. \<exists>t' request. build A epoch t = Some (t', Inr request) \<and>
        encodeRequest M request = Inr (sc_bytes c))"

text \<open>What was signed, sent and recorded since the state \<open>s0\<close>.\<close>

definition carried ::
    "across_params \<Rightarrow> (signed_grpc_request, 'r) rpc_method \<Rightarrow> client_state \<Rightarrow> client_state \<Rightarrow> (int \<times> time) list
      \<Rightarrow> int list \<Rightarrow> bool" where
  "carried A M s0 s bs rs \<longleftrightarrow>
     cs_built s = cs_built s0 @ bs \<and> cs_recorded s = cs_recorded s0 @ rs \<and>
     sorted_wrt (<) (map fst bs) \<and> bs \<noteq> [] \<and>
     (\<exists>cs. cs_sent s = cs_sent s0 @ cs \<and> (\<forall>c\<in>set cs. signedFor A M bs c))"

fun phase_inv :: "across_params \<Rightarrow> across_phase \<Rightarrow> (int \<times> time) list \<Rightarrow> int list \<Rightarrow> bool" where
  "phase_inv A (AwaitEpochAfter e) bs rs \<longleftrightarrow> rs = map fst bs \<and> last rs = e"
| "phase_inv A (Sending e request) bs rs \<longleftrightarrow>
     map fst bs = rs @ [e] \<and> (\<exists>t t'. (e, t) \<in> set bs \<and> build A e t = Some (t', Inr request))"

definition across_inv ::
    "across_params \<Rightarrow> (signed_grpc_request, 'r) rpc_method \<Rightarrow> client_state \<Rightarrow> across_phase \<Rightarrow> time \<Rightarrow> client_state \<Rightarrow> bool" where
  "across_inv A M s0 phase now s \<longleftrightarrow> (\<exists>bs rs. carried A M s0 s bs rs \<and> phase_inv A phase bs rs)"

text \<open>Every epoch a request was signed for, but the last, has refused its request.\<close>

definition carriedOver ::
    "across_params \<Rightarrow> (signed_grpc_request, 'r) rpc_method \<Rightarrow> client_state \<Rightarrow> client_state \<Rightarrow> bool" where
  "carriedOver A M s0 s \<longleftrightarrow>
     (\<exists>bs rs. carried A M s0 s bs rs \<and> (rs = map fst bs \<or> rs = butlast (map fst bs)))"

lemma sorted_below_last: "sorted_wrt (<) (xs :: int list) \<Longrightarrow> x \<in> set xs \<Longrightarrow> x \<le> last xs"
  by (induction xs) (auto split: if_splits intro: less_imp_le)

lemma signedFor_mono: "signedFor A M bs c \<Longrightarrow> signedFor A M (bs @ bs') c"
  by (auto simp: signedFor_def)

lemma carried_built:
  assumes "carried A M s0 s bs rs" "phase_inv A (AwaitEpochAfter e) bs rs" "e < epoch"
  shows "carried A M s0 (s\<lparr>cs_built := cs_built s @ [(epoch, t)]\<rparr>) (bs @ [(epoch, t)]) rs"
  using assms sorted_below_last [of "map fst bs"]
  by (fastforce simp: carried_def sorted_wrt_append intro: signedFor_mono)

lemma carried_others [simp]: "carried A M s0 (othersRan C t s) bs rs \<longleftrightarrow> carried A M s0 s bs rs"
  by (simp add: carried_def)

lemma inv_carriedOver: "across_inv A M s0 phase now s \<Longrightarrow> carriedOver A M s0 s"
  by (cases phase) (fastforce simp: across_inv_def carriedOver_def)+

lemma carriedOver_built:
  assumes "carried A M s0 s bs rs" "phase_inv A (AwaitEpochAfter e) bs rs" "e < epoch"
  shows "carriedOver A M s0 (s\<lparr>cs_built := cs_built s @ [(epoch, t)]\<rparr>)"
  using carried_built [OF assms] assms(2) unfolding carriedOver_def
  by (intro exI [of _ "bs @ [(epoch, t)]"] exI [of _ rs]) simp

lemma submit_carried:
  assumes "carried A M s0 s bs rs" "phase_inv A (Sending e request) bs rs"
    and "submitTransaction C M request timeout now (othersRan C now s) = Some (t, s', r)"
  shows "carried A M s0 s' bs rs"
proof -
  from submitTransaction_frame [OF assms(3)] obtain cs where
    "cs_sent s' = cs_sent s @ cs" "cs_built s' = cs_built s" "cs_recorded s' = cs_recorded s"
    and "\<forall>c\<in>set cs. encodeRequest M request = Inr (sc_bytes c)" by auto
  moreover from this(4) assms(2) have "\<forall>c\<in>set cs. signedFor A M bs c"
    by (fastforce simp: signedFor_def)
  ultimately show ?thesis using assms(1) by (fastforce simp: carried_def)
qed

lemma afterEpochRead_inv:
  assumes "carried A M s0 s bs rs" "phase_inv A (AwaitEpochAfter e) bs rs"
  shows "afterEpochRead C A deadline e epoch now s = GoesOn phase' t s' \<Longrightarrow> across_inv A M s0 phase' t s'"
    and "afterEpochRead C A deadline e epoch now s = Ended t s' r \<Longrightarrow> carriedOver A M s0 s'"
proof -
  assume on: "afterEpochRead C A deadline e epoch now s = GoesOn phase' t s'"
  show "across_inv A M s0 phase' t s'"
  proof (cases "epoch > e")
    case True
    with on obtain built where "phase' = Sending epoch built" "s' = s\<lparr>cs_built := cs_built s @ [(epoch, now)]\<rparr>"
      "\<exists>t'. build A epoch now = Some (t', Inr built)"
      by (auto simp: afterEpochRead_def beforeDeadline_def raced_def Let_def
          split: if_split_asm prod.split_asm sum.split_asm option.split_asm)
    with carried_built [OF assms True, of now] assms(2) show ?thesis
      unfolding across_inv_def by (intro exI [of _ "bs @ [(epoch, now)]"] exI [of _ rs]) auto
  next
    case False
    with on assms show ?thesis
      by (auto simp: afterEpochRead_def across_inv_def split: if_split_asm)
  qed
next
  assume ended: "afterEpochRead C A deadline e epoch now s = Ended t s' r"
  show "carriedOver A M s0 s'"
  proof (cases "now > deadline")
    case True
    with ended have "s' = s" by (simp add: afterEpochRead_def)
    with assms show ?thesis by (auto simp: carriedOver_def)
  next
    case False
    with ended have "e < epoch" "s' = s\<lparr>cs_built := cs_built s @ [(epoch, now)]\<rparr>"
      by (auto simp: afterEpochRead_def Let_def split: if_split_asm prod.split_asm sum.split_asm)
    with carriedOver_built [OF assms] show ?thesis by simp
  qed
qed

lemma acrossStep_inv:
  fixes M :: "(signed_grpc_request, 'r) rpc_method"
  assumes "across_inv A M s0 phase now s"
  shows "acrossStep C M A deadline phase now s = Some (GoesOn phase' t s') \<Longrightarrow> across_inv A M s0 phase' t s'"
    and "acrossStep C M A deadline phase now s = Some (Ended t s' r) \<Longrightarrow> carriedOver A M s0 s'"
proof -
  from assms obtain bs rs where c: "carried A M s0 s bs rs" and p: "phase_inv A phase bs rs"
    by (auto simp: across_inv_def)
  show "across_inv A M s0 phase' t s'"
    if on: "acrossStep C M A deadline phase now s = Some (GoesOn phase' t s')"
  proof (cases phase)
    case (AwaitEpochAfter e)
    with on obtain epoch t1 where "afterEpochRead C A deadline e epoch t1 s = (GoesOn phase' t s' :: 'r across_next)"
      by (auto split: if_split_asm prod.split_asm sum.split_asm option.split_asm)
    then show ?thesis by (rule afterEpochRead_inv(1) [OF c p [unfolded AwaitEpochAfter]])
  next
    case (Sending e request)
    with on obtain t1 s1 r1
      where sub: "submitTransaction C M request (min (timeoutMs A) (deadline - now)) now (othersRan C now s) = Some (t1, s1, r1)"
        and aft: "afterSubmit C A deadline e request t1 s1 r1 = GoesOn phase' t s'"
      by (auto split: if_split_asm prod.split_asm option.split_asm)
    note c1 = submit_carried [OF c p [unfolded Sending] sub]
    from aft p c1 show ?thesis unfolding Sending across_inv_def afterSubmit_def
      by (cases r1; auto simp: carried_def split: if_split_asm; blast)
  qed
  show "carriedOver A M s0 s'"
    if ended: "acrossStep C M A deadline phase now s = Some (Ended t s' r)"
  proof (cases phase)
    case (AwaitEpochAfter e)
    with ended consider "s' = s" | epoch t1 where "afterEpochRead C A deadline e epoch t1 s = (Ended t s' r :: 'r across_next)"
      by (auto split: if_split_asm prod.split_asm sum.split_asm option.split_asm)
    then show ?thesis
    proof cases
      case 1
      with inv_carriedOver [OF assms] show ?thesis by simp
    next
      case 2
      then show ?thesis by (rule afterEpochRead_inv(2) [OF c p [unfolded AwaitEpochAfter]])
    qed
  next
    case (Sending e request)
    with ended consider "s' = s" | t1 r1
      where "submitTransaction C M request (min (timeoutMs A) (deadline - now)) now (othersRan C now s) = Some (t1, s', r1)"
      by (auto simp: afterSubmit_def split: if_split_asm prod.split_asm option.split_asm sum.split_asm)
    then show ?thesis
    proof cases
      case 1
      with inv_carriedOver [OF assms] show ?thesis by simp
    next
      case 2
      from submit_carried [OF c p [unfolded Sending] this] p show ?thesis
        unfolding carriedOver_def Sending by (intro exI [of _ bs] exI [of _ rs]) auto
    qed
  qed
qed

lemma acrossLoop_carriedOver:
  assumes "acrossLoop C M A deadline phase now s = Some (t, s', r)" "across_inv A M s0 phase now s"
  shows "carriedOver A M s0 s'"
  by (rule acrossLoop_rule [OF assms(1), where holds = "across_inv A M s0" and post = "\<lambda>_ s' _. carriedOver A M s0 s'"])
    (rule assms(2), erule (1) acrossStep_inv(1), erule (1) acrossStep_inv(2))

lemma first_submission_carried:
  assumes "build A e t0 = Some (t1, Inr first)"
    "submitTransaction C M first d t1 (othersRan C t1 (s\<lparr>cs_built := cs_built s @ [(e, t0)]\<rparr>)) = Some (t2, s2, r2)"
  shows "carried A M s s2 [(e, t0)] []"
proof -
  have "phase_inv A (Sending e first) [(e, t0)] []" using assms(1) by auto
  moreover have "carried A M s (s\<lparr>cs_built := cs_built s @ [(e, t0)]\<rparr>) [(e, t0)] []" by (simp add: carried_def)
  ultimately show ?thesis
    using submitTransaction_frame [OF assms(2)] by (fastforce simp: carried_def signedFor_def)
qed

lemma wait_carriedOver:
  assumes "carried A M s s2 [(e, t0)] []"
    "acrossLoop C M A deadline (AwaitEpochAfter e) t2 (s2\<lparr>cs_recorded := cs_recorded s2 @ [e]\<rparr>) = Some (t, s', r)"
  shows "carriedOver A M s s'"
proof -
  have "carried A M s (s2\<lparr>cs_recorded := cs_recorded s2 @ [e]\<rparr>) [(e, t0)] [e]"
    using assms(1) by (simp add: carried_def)
  then have "across_inv A M s (AwaitEpochAfter e) t2 (s2\<lparr>cs_recorded := cs_recorded s2 @ [e]\<rparr>)"
    unfolding across_inv_def by (intro exI [of _ "[(e, t0)]"] exI [of _ "[e]"]) simp
  with assms(2) show ?thesis by (rule acrossLoop_carriedOver)
qed

lemma submitTransactionAcrossEpochClose_carriedOver:
  assumes "submitTransactionAcrossEpochClose C M A now s = Some (t, s', r)" "s' \<noteq> s"
  shows "carriedOver A M s s'"
proof -
  from assms obtain e t0 where read: "validAcross A = Inr ()" "currentEpoch A now = Some (t0, Inr e)"
    by (auto simp: submitTransactionAcrossEpochClose_def split: sum.split_asm option.split_asm prod.split_asm)
  let ?s1 = "s\<lparr>cs_built := cs_built s @ [(e, t0)]\<rparr>"
  have one: "carried A M s s2 [(e, t0)] [] \<Longrightarrow> carriedOver A M s s2" for s2
    unfolding carriedOver_def by (intro exI [of _ "[(e, t0)]"] exI [of _ "[]"]) simp
  show ?thesis
  proof (cases "\<exists>t1 first. build A e t0 = Some (t1, Inr first)")
    case False
    with assms(1) read have "s' = ?s1"
      by (auto simp: submitTransactionAcrossEpochClose_def Let_def split: sum.split_asm option.split_asm prod.split_asm)
    then show ?thesis using one [of ?s1] by (simp add: carried_def)
  next
    case True
    then obtain t1 first where b: "build A e t0 = Some (t1, Inr first)" by blast
    with assms(1) read obtain t2 s2 r2
      where sub: "submitTransaction C M first (timeoutMs A) t1 (othersRan C t1 ?s1) = Some (t2, s2, r2)"
      by (auto simp: submitTransactionAcrossEpochClose_def split: option.split_asm)
    note c = first_submission_carried [OF b sub]
    show ?thesis
    proof (cases "s' = s2")
      case False
      with assms(1) read b sub
      have "acrossLoop C M A (t2 + epochWaitMs A) (AwaitEpochAfter e) t2
             (s2\<lparr>cs_recorded := cs_recorded s2 @ [e]\<rparr>) = Some (t, s', r)"
        by (auto simp: submitTransactionAcrossEpochClose_def split: sum.split_asm if_split_asm)
      with c show ?thesis by (rule wait_carriedOver)
    qed (use one c in simp)
  qed
qed

text \<open>C11. A request carried across an epoch close is signed for ever later epochs, each later than every epoch that
  refused it; the refusals recorded are those of every epoch it was signed for, but perhaps the last; and
  every call sent carries what was signed for one of those epochs, so a resend repeats those bytes.\<close>

theorem submitTransactionAcrossEpochClose_carries:
  assumes "submitTransactionAcrossEpochClose C M A now s = Some (t, s', r)"
  shows "s' = s \<or> (\<exists>bs rs cs.
     cs_built s' = cs_built s @ bs \<and> cs_recorded s' = cs_recorded s @ rs \<and> cs_sent s' = cs_sent s @ cs \<and>
     sorted_wrt (<) (map fst bs) \<and> (rs = map fst bs \<or> rs = butlast (map fst bs)) \<and>
     (\<forall>c\<in>set cs. signedFor A M bs c))"
proof (cases "s' = s")
  case False
  with assms have "carriedOver A M s s'" by (rule submitTransactionAcrossEpochClose_carriedOver)
  then show ?thesis unfolding carriedOver_def carried_def by blast
qed simp

section \<open>The wait ends\<close>

text \<open>
  The environment: the transport settles every call, no answer comes before its question, and the
  chain shows no epoch past some epoch while the call runs.
\<close>

definition across_env :: "grpc_client \<Rightarrow> across_params \<Rightarrow> int \<Rightarrow> bool" where
  "across_env C A lastEpoch \<longleftrightarrow>
     (\<forall>i m bs d now. \<exists>t r. unary C i m bs d now = Some (t, r) \<and> now \<le> t) \<and>
     (\<forall>now t r. currentEpoch A now = Some (t, r) \<longrightarrow> now \<le> t) \<and>
     (\<forall>now t e. currentEpoch A now = Some (t, Inr e) \<longrightarrow> e \<le> lastEpoch) \<and>
     (\<forall>e now t r. build A e now = Some (t, r) \<longrightarrow> now \<le> t)"

lemma submitOver_settles:
  assumes "\<And>i m bs d now. \<exists>t r. unary C i m bs d now = Some (t, r) \<and> now \<le> t"
  shows "\<exists>t s' r. submitOver C M request deadline indexes every prior now s = Some (t, s', r) \<and> now \<le> t"
proof (induction indexes arbitrary: every prior now s)
  case (Cons index rest)
  have "\<exists>t1 s1 r1. call C index M request deadline now s = Some (t1, s1, r1) \<and> now \<le> t1"
  proof (cases "encodeRequest M request")
    case (Inr bs)
    from assms [where i = index and m = "methodName M" and bs = bs and d = deadline and now = now]
    show ?thesis by (auto simp: call_def Inr Let_def)
  qed (simp add: call_def)
  then obtain t1 s1 r1 where c: "call C index M request deadline now s = Some (t1, s1, r1)" "now \<le> t1" by blast
  show ?case
  proof (cases "isRefused C s index now")
    case True
    with Cons.IH show ?thesis by simp
  next
    case False
    have on: "\<exists>t s' r. submitOver C M request deadline rest every' prior' t1 s1' = Some (t, s', r) \<and> now \<le> t"
      for every' prior' s1'
      using Cons.IH [of every' prior' t1 s1'] c(2) by (meson order_trans)
    from False c on show ?thesis by (cases r1) auto
  qed
qed simp

lemma submitTransaction_settles:
  assumes "across_env C A lastEpoch"
  shows "\<exists>t s' r. submitTransaction C M request timeout now s = Some (t, s', r) \<and> now \<le> t"
  unfolding submitTransaction_def
  by (rule submitOver_settles) (use assms in \<open>simp add: across_env_def\<close>)

text \<open>What falls with every step that goes on: the epochs to come and the time left.\<close>

fun across_measure :: "int \<Rightarrow> time \<Rightarrow> across_phase \<Rightarrow> time \<Rightarrow> nat \<times> nat" where
  "across_measure lastEpoch deadline (AwaitEpochAfter e) now = (2 * nat (lastEpoch - e), nat (deadline - now))"
| "across_measure lastEpoch deadline (Sending e request) now = (2 * nat (lastEpoch - e) + 1, nat (deadline - now))"

definition across_less :: "((nat \<times> nat) \<times> (nat \<times> nat)) set" where
  "across_less = less_than <*lex*> less_than"

lemma wf_across_less: "wf across_less"
  by (simp add: across_less_def wf_lex_prod)

lemma sleptUntil_later:
  "0 < poll \<Longrightarrow> now < deadline \<Longrightarrow> now \<le> t \<Longrightarrow> nat (deadline - sleptUntil C poll deadline t) < nat (deadline - now)"
  unfolding sleptUntil_def by (cases "t < deadline") auto

lemma acrossStep_settles:
  fixes M :: "(signed_grpc_request, 'r) rpc_method"
  assumes "across_env C A lastEpoch"
  shows "\<exists>after. acrossStep C M A deadline phase now s = Some after"
proof (cases phase)
  case (AwaitEpochAfter e)
  then show ?thesis by (auto split: option.split sum.split prod.split)
next
  case (Sending e request)
  from submitTransaction_settles [OF assms, of M request "min (timeoutMs A) (deadline - now)" now "othersRan C now s"]
  have "\<exists>x. submitTransaction C M request (min (timeoutMs A) (deadline - now)) now (othersRan C now s) = Some x"
    by blast
  with Sending show ?thesis by (auto split: prod.split)
qed

lemma acrossStep_falls:
  fixes M :: "(signed_grpc_request, 'r) rpc_method"
  assumes env: "across_env C A lastEpoch" and poll: "0 < pollIntervalMs A"
    and on: "acrossStep C M A deadline phase now s = Some (GoesOn phase' t s')"
  shows "(across_measure lastEpoch deadline phase' t, across_measure lastEpoch deadline phase now) \<in> across_less"
proof (cases phase)
  case (AwaitEpochAfter e)
  with on have early: "now < deadline" by (auto split: if_split_asm)
  from AwaitEpochAfter on obtain epoch t1 where r: "raced (lagOf C) (currentEpoch A) deadline now = (t1, Some (Inr epoch))"
    and aft: "afterEpochRead C A deadline e epoch t1 s = (GoesOn phase' t s' :: 'r across_next)"
    by (auto split: if_split_asm prod.split_asm sum.split_asm option.split_asm)
  from r have "currentEpoch A now = Some (t1, Inr epoch)"
    by (auto simp: raced_def Let_def split: option.split_asm if_split_asm)
  with env have bound: "now \<le> t1" "epoch \<le> lastEpoch" by (auto simp: across_env_def)
  show ?thesis
  proof (cases "e < epoch")
    case True
    with aft obtain built where "phase' = Sending epoch built"
      by (auto simp: afterEpochRead_def Let_def split: if_split_asm prod.split_asm sum.split_asm)
    with True bound AwaitEpochAfter show ?thesis by (auto simp: across_less_def)
  next
    case False
    with aft have "phase' = AwaitEpochAfter e" "t = sleptUntil C (pollIntervalMs A) deadline t1"
      by (auto simp: afterEpochRead_def split: if_split_asm)
    with sleptUntil_later [OF poll early bound(1)] AwaitEpochAfter show ?thesis by (simp add: across_less_def)
  qed
next
  case (Sending e request)
  with on have early: "now < deadline" by (auto split: if_split_asm)
  from Sending on obtain t1 s1 r1
    where sub: "submitTransaction C M request (min (timeoutMs A) (deadline - now)) now (othersRan C now s) = Some (t1, s1, r1)"
      and aft: "afterSubmit C A deadline e request t1 s1 r1 = GoesOn phase' t s'"
    by (auto split: if_split_asm prod.split_asm option.split_asm)
  from submitTransaction_settles [OF env, of M request "min (timeoutMs A) (deadline - now)" now "othersRan C now s"] sub
  have later: "now \<le> t1" by auto
  from aft consider "phase' = AwaitEpochAfter e"
    | "phase' = Sending e request" "t = sleptUntil C (pollIntervalMs A) deadline t1"
    by (auto simp: afterSubmit_def split: sum.split_asm if_split_asm)
  then show ?thesis
    using sleptUntil_later [OF poll early later] Sending by cases (auto simp: across_less_def)
qed

lemma acrossLoop_ends:
  fixes M :: "(signed_grpc_request, 'r) rpc_method"
  assumes "across_env C A lastEpoch" "0 < pollIntervalMs A"
  shows "\<exists>res. acrossLoop C M A deadline phase now s = Some res"
proof (induction "across_measure lastEpoch deadline phase now" arbitrary: phase now s rule: wf_induct_rule [OF wf_across_less])
  case (1 phase now s)
  from acrossStep_settles [OF assms(1), of M deadline phase now s] obtain after
    where step: "acrossStep C M A deadline phase now s = Some after" by blast
  show ?case
  proof (cases after)
    case (GoesOn phase' t s')
    with step 1 [of phase' t s'] acrossStep_falls [OF assms step [unfolded GoesOn]] show ?thesis
      by (subst acrossLoop.simps) simp
  qed (use step in \<open>subst acrossLoop.simps, simp\<close>)
qed

text \<open>Carrying a request across an epoch close ends, whatever the network answers, if every call of the
  transport settles and the chain's epoch does not grow without end: the waits are bounded by their deadline.\<close>

theorem submitTransactionAcrossEpochClose_ends:
  fixes M :: "(signed_grpc_request, 'r) rpc_method"
  assumes "across_env C A lastEpoch"
    and "\<And>t. currentEpoch A t \<noteq> None" "\<And>e t. build A e t \<noteq> None"
  shows "\<exists>res. submitTransactionAcrossEpochClose C M A now s = Some res"
proof (cases "validAcross A")
  case (Inr u)
  then have poll: "0 < pollIntervalMs A"
    by (auto simp: validAcross_def positiveMilliseconds_def result_simps split: if_split_asm)
  have sub: "\<exists>t2 s2 r2. submitTransaction C M first (timeoutMs A) t1 s1 = Some (t2, s2, r2)" for first t1 s1
    using submitTransaction_settles [OF assms(1)] by blast
  obtain t e where read: "currentEpoch A now = Some (t, e)" using assms(2) by fastforce
  show ?thesis
  proof (cases e)
    case epoch: (Inr epoch)
    obtain t1 b where b: "build A epoch t = Some (t1, b)" using assms(3) by fastforce
    show ?thesis
    proof (cases b)
      case first: (Inr first)
      let ?s1 = "othersRan C t1 (s\<lparr>cs_built := cs_built s @ [(epoch, t)]\<rparr>)"
      from sub obtain t2 s2 r2 where "submitTransaction C M first (timeoutMs A) t1 ?s1 = Some (t2, s2, r2)" by blast
      with Inr read epoch b first acrossLoop_ends [OF assms(1) poll, of M "t2 + epochWaitMs A" "AwaitEpochAfter epoch"
          t2 "s2\<lparr>cs_recorded := cs_recorded s2 @ [epoch]\<rparr>"]
      show ?thesis
        by (cases r2) (simp_all add: submitTransactionAcrossEpochClose_def Let_def)
    qed (use Inr read epoch b in \<open>simp add: submitTransactionAcrossEpochClose_def Let_def\<close>)
  qed (use Inr read in \<open>simp add: submitTransactionAcrossEpochClose_def\<close>)
qed (simp add: submitTransactionAcrossEpochClose_def)

end
