(* ===== verification/Grpc_Reads.thy ===== *)
theory Grpc_Reads
  imports Grpc_Laws
begin

text \<open>
  The gRPC client's reads (\<open>grpc/dwallet-client.ts\<close>): presigns, network key outputs, and the epoch's network
  keys, whose read is repeated over the gap in which a validator changes epoch. A decoded message is
  protobufjs' plain object, in which a field at its default value is left out: every field is an
  option.
\<close>

definition READ_TIMEOUT_MS :: int where
  "READ_TIMEOUT_MS = 15000"

text \<open>An error of a check, thrown to the caller of a read: it has no status.\<close>

definition checked :: "sdk_error + 'a \<Rightarrow> call_error + 'a" where
  "checked = mapErr (\<lambda>e. plainError (case e of Err m \<Rightarrow> m | _ \<Rightarrow> []))"

text \<open>\<open>new Uint8Array(undefined)\<close> is empty; \<open>BigInt(undefined)\<close> throws; \<open>Number(undefined)\<close> is \<open>NaN\<close>, here \<open>None\<close>.\<close>

definition newUint8Array :: "bytes option \<Rightarrow> bytes" where
  "newUint8Array field = (case field of None \<Rightarrow> [] | Some b \<Rightarrow> b)"

definition bigIntOf :: "int option \<Rightarrow> call_error + int" where
  "bigIntOf field = ofOption (plainError ''Cannot convert undefined to a BigInt'') field"

text \<open>What a read decodes the answer to, in a run of the client.\<close>

definition thenE :: "'a client_run \<Rightarrow> ('a \<Rightarrow> call_error + 'b) \<Rightarrow> 'b client_run" where
  "thenE run f now s =
     (case run now s of None \<Rightarrow> None | Some (t, s', r) \<Rightarrow> Some (t, s', bindE r f))"

section \<open>Presigns\<close>

record presign_message =
  pm_presign_id :: "bytes option"
  pm_dwallet_binding_id :: "bytes option"
  pm_signature_algorithm :: "int option"
  pm_assigned_epoch :: "int option"

record presign_info =
  presignId :: bytes
  dwalletBindingId :: bytes
  signatureAlgorithm :: "int option"
  assignedEpoch :: int

definition presignInfo :: "presign_message \<Rightarrow> call_error + presign_info" where
  "presignInfo p =
     bindE (bigIntOf (pm_assigned_epoch p)) (\<lambda>epoch.
       Inr \<lparr>presignId = newUint8Array (pm_presign_id p),
            dwalletBindingId = newUint8Array (pm_dwallet_binding_id p),
            signatureAlgorithm = pm_signature_algorithm p, assignedEpoch = epoch\<rparr>)"

definition presignQuery ::
    "grpc_client \<Rightarrow> ('q, presign_message list option) rpc_method \<Rightarrow> 'q \<Rightarrow> presign_info list client_run" where
  "presignQuery C M request now s =
     thenE (readThrough C M request (now + READ_TIMEOUT_MS) 0)
       (\<lambda>presigns. traverseE presignInfo (case presigns of None \<Rightarrow> [] | Some ps \<Rightarrow> ps)) now s"

text \<open>
  A presign for ECDSASecp256k1, whose number is 0: proto3 writes no field at its default value, and
  the answer then says \<open>NaN\<close>.
\<close>

lemma presignInfo_default_algorithm:
  "pm_signature_algorithm p = None \<Longrightarrow> presignInfo p = Inr i \<Longrightarrow> signatureAlgorithm i = None"
  by (auto simp: presignInfo_def result_simps)

section \<open>A network key's outputs\<close>

record key_output_message =
  ko_network_dkg_output :: "bytes option"
  ko_latest_reconfiguration_output :: "bytes option"
  ko_epoch :: "int option"
  ko_dkg_at_epoch :: "int option"
  ko_noa_public_key :: "bytes option"

record grpc_key_output =
  gk_networkDkgOutput :: bytes
  gk_latestReconfigurationOutput :: "bytes option"
  gk_epoch :: int
  gk_dkgAtEpoch :: int
  gk_networkKeyId :: bytes

definition keyOutputOf :: "key_output_message \<Rightarrow> call_error + grpc_key_output" where
  "keyOutputOf response =
     (let reconfiguration = newUint8Array (ko_latest_reconfiguration_output response) in
      bindE (bigIntOf (ko_epoch response)) (\<lambda>epoch.
      bindE (bigIntOf (ko_dkg_at_epoch response)) (\<lambda>dkgAtEpoch.
      bindE (checked (networkKeyIdFromBytes (newUint8Array (ko_noa_public_key response)))) (\<lambda>i.
      Inr \<lparr>gk_networkDkgOutput = newUint8Array (ko_network_dkg_output response),
           gk_latestReconfigurationOutput = (if length reconfiguration > 0 then Some reconfiguration else None),
           gk_epoch = epoch, gk_dkgAtEpoch = dkgAtEpoch, gk_networkKeyId = i\<rparr>))))"

definition getNetworkKeyOutput ::
    "grpc_client \<Rightarrow> (bytes, key_output_message) rpc_method \<Rightarrow> bytes \<Rightarrow> grpc_key_output client_run" where
  "getNetworkKeyOutput C M networkKeyIdentifier now s =
     thenE (readThrough C M networkKeyIdentifier (now + READ_TIMEOUT_MS) 0) keyOutputOf now s"

text \<open>The bytes of a string of hex digits, two digits a byte.\<close>

fun hexPairs :: "string \<Rightarrow> bytes" where
  "hexPairs (c # d # cs) = word_of_nat (16 * the (hexValue c) + the (hexValue d)) # hexPairs cs"
| "hexPairs _ = []"

definition bytesFromHex :: "string \<Rightarrow> call_error + bytes" where
  "bytesFromHex digits =
     (if length digits mod 2 \<noteq> 0 \<or> \<not> list_all isHexDigit digits
      then Inl (plainError ''an object id is an even number of hex digits'')
      else Inr (hexPairs digits))"

definition networkKeyIdOf ::
    "grpc_client \<Rightarrow> (bytes, key_output_message) rpc_method \<Rightarrow> string \<Rightarrow> bytes client_run" where
  "networkKeyIdOf C M objectId now s =
     (let digits = (if take 2 objectId = ''0x'' then drop 2 objectId else objectId)
      in case bytesFromHex digits of
           Inl e \<Rightarrow> Some (now, s, Inl e)
         | Inr objectIdBytes \<Rightarrow>
             thenE (getNetworkKeyOutput C M objectIdBytes) (\<lambda>out. Inr (gk_networkKeyId out)) now s)"

text \<open>The hex printed for bytes reads back as those bytes.\<close>

lemma hexPairs_toHex: "hexPairs (toHex bs) = bs"
proof (induction bs)
  case (Cons b bs)
  have "unat b div 16 < 16" using unat_byte_less [of b] by simp
  with Cons show ?case by (simp add: toHex_Cons)
qed simp

lemma bytesFromHex_toHex: "bytesFromHex (toHex bs) = Inr bs"
  using toHex_isHexDigit [of bs] by (simp add: bytesFromHex_def hexPairs_toHex)

section \<open>The epoch's network keys\<close>

record network_keys_retry =
  attemptTimeoutMs :: int
  pauseMs :: int
  budgetMs :: int

definition NETWORK_KEYS_READ_RETRY :: network_keys_retry where
  "NETWORK_KEYS_READ_RETRY = \<lparr>attemptTimeoutMs = READ_TIMEOUT_MS, pauseMs = 5000, budgetMs = 60000\<rparr>"

record network_keys_message =
  nm_network_key_ids :: "bytes list option"
  nm_latest_usable :: "bytes option"

text \<open>When \<open>close()\<close> was called, if it was; a pause ends at once then.\<close>

type_synonym closed_at = "time option"

definition closedBy :: "closed_at \<Rightarrow> time \<Rightarrow> bool" where
  "closedBy closing now = (case closing of None \<Rightarrow> False | Some at \<Rightarrow> at \<le> now)"

definition pauseUnlessClosed :: "grpc_client \<Rightarrow> closed_at \<Rightarrow> int \<Rightarrow> time \<Rightarrow> time" where
  "pauseUnlessClosed C closing ms now =
     (let woken = now + ms + int (lagOf C now)
      in case closing of None \<Rightarrow> woken | Some at \<Rightarrow> if now \<le> at \<and> at < woken then at else woken)"

definition closedClientError :: call_error where
  "closedClientError = plainError ''the client is closed''"

definition stayedUnreachable :: "call_error \<Rightarrow> call_error" where
  "stayedUnreachable e =
     \<lparr>ce_code = ce_code e, ce_details = ce_details e, ce_refusedPinnedSetup = False,
      ce_notACommitteeMember = False,
      ce_message = ''read the epoch's network keys: the validator stayed unreachable: '' @ ce_message e\<rparr>"

partial_function (option) networkKeysLoop ::
    "grpc_client \<Rightarrow> (unit, network_keys_message) rpc_method \<Rightarrow> network_keys_retry \<Rightarrow> closed_at \<Rightarrow> time
      \<Rightarrow> network_keys_message client_run" where
  "networkKeysLoop C M retry closing budgetEnd now s =
     (case readThrough C M () (min (now + attemptTimeoutMs retry) budgetEnd) 0 now s of
        None \<Rightarrow> None
      | Some (t, s', Inr response) \<Rightarrow> Some (t, s', Inr response)
      | Some (t, s', Inl e) \<Rightarrow>
          if \<not> isTransportFailure e \<or> closedBy closing t then Some (t, s', Inl e)
          else if budgetEnd - t \<le> pauseMs retry then Some (t, s', Inl (stayedUnreachable e))
          else let t' = pauseUnlessClosed C closing (pauseMs retry) t in
            if closedBy closing t' then Some (t', s', Inl closedClientError)
            else networkKeysLoop C M retry closing budgetEnd t' (othersRan C t' s'))"

definition networkKeysByAgeResponse ::
    "grpc_client \<Rightarrow> (unit, network_keys_message) rpc_method \<Rightarrow> network_keys_retry \<Rightarrow> closed_at
      \<Rightarrow> network_keys_message client_run" where
  "networkKeysByAgeResponse C M retry closing now s =
     networkKeysLoop C M retry closing (now + budgetMs retry) now s"

definition keyIdsOf :: "network_keys_message \<Rightarrow> call_error + bytes list" where
  "keyIdsOf response =
     traverseE (\<lambda>i. checked (networkKeyIdFromBytes i))
       (case nm_network_key_ids response of None \<Rightarrow> [] | Some ids \<Rightarrow> ids)"

definition getNetworkKeysByAge ::
    "grpc_client \<Rightarrow> (unit, network_keys_message) rpc_method \<Rightarrow> closed_at \<Rightarrow> bytes list client_run" where
  "getNetworkKeysByAge C M closing =
     thenE (networkKeysByAgeResponse C M NETWORK_KEYS_READ_RETRY closing) keyIdsOf"

definition latestOf :: "network_keys_message \<Rightarrow> call_error + bytes" where
  "latestOf response =
     (let ofList = bindE (keyIdsOf response) (\<lambda>ids. checked (latestNetworkKeyIdOf ids))
      in case nm_latest_usable response of
           None \<Rightarrow> ofList
         | Some latestUsable \<Rightarrow>
             if length latestUsable > 0 then checked (networkKeyIdFromBytes latestUsable) else ofList)"

definition latestNetworkKeyId ::
    "grpc_client \<Rightarrow> (unit, network_keys_message) rpc_method \<Rightarrow> closed_at \<Rightarrow> bytes client_run" where
  "latestNetworkKeyId C M closing =
     thenE (networkKeysByAgeResponse C M NETWORK_KEYS_READ_RETRY closing) latestOf"

section \<open>The read ends in its budget\<close>

text \<open>The transport settles every call, by the call's deadline if that has not passed yet.\<close>

definition calls_in_time :: "grpc_client \<Rightarrow> bool" where
  "calls_in_time C \<longleftrightarrow>
     (\<forall>i m bs d now. \<exists>t r. unary C i m bs d now = Some (t, r) \<and> now \<le> t \<and> t \<le> max now d)"

lemma readOver_in_time:
  assumes "calls_in_time C"
  shows "\<exists>t s' r. readOver C M request deadline indexes prior now s = Some (t, s', r) \<and> now \<le> t \<and> t \<le> max now deadline"
proof (induction indexes arbitrary: prior now s)
  case (Cons index rest)
  have "\<exists>t1 s1 r1. call C index M request deadline now s = Some (t1, s1, r1) \<and> now \<le> t1 \<and> t1 \<le> max now deadline"
  proof (cases "encodeRequest M request")
    case (Inr bs)
    from assms [unfolded calls_in_time_def, rule_format, of index "methodName M" bs deadline now]
    show ?thesis by (auto simp: call_def Inr Let_def)
  qed (simp add: call_def)
  then obtain t1 s1 r1
    where c: "call C index M request deadline now s = Some (t1, s1, r1)" "now \<le> t1" "t1 \<le> max now deadline" by blast
  have on: "\<exists>t s' r. readOver C M request deadline rest prior' t1 s1' = Some (t, s', r) \<and> now \<le> t \<and> t \<le> max now deadline"
    for prior' s1'
    using Cons.IH [of prior' t1 s1'] c(2,3) by (force simp: max_def split: if_splits)
  show ?case
  proof (cases "isRefused C s index now")
    case False
    with c on show ?thesis by (cases r1) auto
  qed (use Cons.IH in simp)
qed simp

lemma readThrough_in_time:
  assumes "calls_in_time C"
  obtains t s' r where "readThrough C M request deadline first now s = Some (t, s', r)" "now \<le> t" "t \<le> max now deadline"
  using readOver_in_time [OF assms, of M request deadline
      "drop first (validatorIndexes C) @ take first (validatorIndexes C)" None now s]
  unfolding readThrough_def Let_def by blast

lemma pause_bounds:
  assumes "0 < ms" "\<not> closedBy closing (pauseUnlessClosed C closing ms now)"
  shows "pauseUnlessClosed C closing ms now = now + ms + int (lagOf C now)"
  using assms by (auto simp: pauseUnlessClosed_def closedBy_def Let_def split: option.splits if_splits)

lemma pause_upper:
  "0 < ms \<Longrightarrow> pauseUnlessClosed C closing ms now \<le> now + ms + int (lagOf C now)"
  by (auto simp: pauseUnlessClosed_def Let_def split: option.splits)

lemma networkKeysLoop_in_time:
  assumes "calls_in_time C" "0 < pauseMs retry" "\<And>t. lagOf C t \<le> lag" "now \<le> budgetEnd + int lag"
  shows "\<exists>t s' r. networkKeysLoop C M retry closing budgetEnd now s = Some (t, s', r) \<and> t \<le> budgetEnd + int lag"
  using assms(4)
proof (induction "nat (budgetEnd + int lag - now)" arbitrary: now s rule: less_induct)
  case less
  let ?d = "min (now + attemptTimeoutMs retry) budgetEnd"
  obtain t s1 r where r: "readThrough C M () ?d 0 now s = Some (t, s1, r)" "now \<le> t" "t \<le> max now ?d"
    by (rule readThrough_in_time [OF assms(1), of M "()" ?d 0 now s])
  with less.prems have t: "t \<le> budgetEnd + int lag" by auto
  show ?case
  proof (cases r)
    case (Inr response)
    with r(1) t show ?thesis by (subst networkKeysLoop.simps) simp
  next
    case (Inl e)
    let ?t' = "pauseUnlessClosed C closing (pauseMs retry) t"
    show ?thesis
    proof (cases "isTransportFailure e \<and> \<not> closedBy closing t \<and> pauseMs retry < budgetEnd - t")
      case False
      with Inl r(1) t show ?thesis by (subst networkKeysLoop.simps) (auto simp: not_less)
    next
      case going: True
      have upper: "?t' \<le> budgetEnd + int lag"
        using pause_upper [OF assms(2), of C closing t] assms(3) [of t] going by linarith
      show ?thesis
      proof (cases "closedBy closing ?t'")
        case True
        with Inl r(1) going upper show ?thesis by (subst networkKeysLoop.simps) (simp add: Let_def)
      next
        case False
        have later: "now < ?t'" using pause_bounds [OF assms(2) False] r(2) assms(2) by linarith
        with upper have "nat (budgetEnd + int lag - ?t') < nat (budgetEnd + int lag - now)" by linarith
        from less.hyps [OF this upper, of "othersRan C ?t' s1"] Inl r(1) going False show ?thesis
          by (subst networkKeysLoop.simps) (simp add: Let_def)
      qed
    qed
  qed
qed

text \<open>The read of the epoch's network keys ends, with an answer or an error, within the budget its retries are
  given and the lag of a timer, however often the validators fail in transport.\<close>

theorem networkKeysByAgeResponse_in_time:
  assumes "calls_in_time C" "0 < pauseMs retry" "0 \<le> budgetMs retry" "\<And>t. lagOf C t \<le> lag"
  shows "\<exists>t s' r. networkKeysByAgeResponse C M retry closing now s = Some (t, s', r) \<and>
           t \<le> now + budgetMs retry + int lag"
  unfolding networkKeysByAgeResponse_def
  by (rule networkKeysLoop_in_time) (use assms in auto)

end
