(* ===== verification/Demo_Grpc.thy ===== *)
theory Demo_Grpc
  imports Across_Laws Grpc_Reads
begin

text \<open>
  Instances of the gRPC client's laws: the first validator serves a key the pinned check refuses, the
  second closes epoch 5 and answers in epoch 6.
\<close>

definition refusedKey :: call_error where
  "refusedKey = markNotACommitteeMember
     \<lparr>ce_code = Some UNAVAILABLE, ce_details = None, ce_refusedPinnedSetup = False,
      ce_notACommitteeMember = False, ce_message = ''refused''\<rparr>"

definition closingRefusal :: call_error where
  "closingRefusal = \<lparr>ce_code = Some UNAVAILABLE, ce_details = Some EPOCH_CLOSING_REFUSAL,
      ce_refusedPinnedSetup = False, ce_notACommitteeMember = False, ce_message = ''closing''\<rparr>"

definition demoClient :: grpc_client where
  "demoClient =
     \<lparr>unary = (\<lambda>i m bs d now. Some (now, if i = 0 then Inl refusedKey
                                        else if bs = [5] then Inl closingRefusal else Inr bs)),
      furtherValidatorCount = 1, refusalMaxAgeMs = PIN_REFUSAL_MAX_AGE_MS, monotonicNow = (\<lambda>t. t),
      meanwhile = (\<lambda>_ m. m), lagOf = (\<lambda>_. 0)\<rparr>"

definition demoSubmit :: "(signed_grpc_request, bytes) rpc_method" where
  "demoSubmit = \<lparr>methodName = ''SubmitTransaction'',
     encodeRequest = (\<lambda>r. Inr (gr_signedRequestData r)), decodeResponse = Inr\<rparr>"

definition demoSigned :: "int \<Rightarrow> signed_grpc_request" where
  "demoSigned epoch = \<lparr>gr_userSignature = [], gr_signedRequestData = [word_of_int epoch]\<rparr>"

definition demoAcross :: across_params where
  "demoAcross =
     \<lparr>build = (\<lambda>e t. Some (t, Inr (demoSigned e))), currentEpoch = (\<lambda>t. Some (t + 1, Inr (if t = 0 then 5 else 6))),
      epochWaitMs = 1800000, pollIntervalMs = 5000, timeoutMs = 600000\<rparr>"

definition freshState :: client_state where
  "freshState = \<lparr>cs_refused = Map.empty, cs_sent = [], cs_built = [], cs_recorded = []\<rparr>"

lemmas demo_client = demoClient_def demoSubmit_def demoSigned_def refusedKey_def closingRefusal_def
  markNotACommitteeMember_def markRefusedPinnedSetup_def isEpochClosingRefusal_def grpc_codes
  PIN_REFUSAL_MAX_AGE_MS_def

lemma demo_indexes: "validatorIndexes demoClient = [0, 1]"
  by (simp add: validatorIndexes_def demoClient_def)

definition demoCall :: "nat \<Rightarrow> sent_call" where
  "demoCall i = \<lparr>sc_index = i, sc_method = ''SubmitTransaction'', sc_bytes = [6], sc_deadline = 600000, sc_at = 0\<rparr>"

lemma demo_submit:
  "submitTransaction demoClient demoSubmit (demoSigned 6) 600000 0 freshState =
     Some (0, \<lparr>cs_refused = [0 \<mapsto> 0], cs_sent = [demoCall 0, demoCall 1], cs_built = [], cs_recorded = []\<rparr>, Inr [6])"
  unfolding submitTransaction_def demo_indexes
  by (simp add: demoCall_def isRefused_def call_def demo_client freshState_def othersRan_def refuse_def result_simps)

lemma demo_others: "others_record_later demoClient"
  by (simp add: others_record_later_def demoClient_def)

lemma demo_encodes: "encodeRequest demoSubmit (demoSigned 6) = Inr [6]"
  by (simp add: demo_client)

theorem submitTransaction_goes_witness:
  "sorted_wrt (<) (map sc_index [demoCall 0, demoCall 1]) \<and>
   sc_bytes (demoCall 0) = [6] \<and> sc_bytes (demoCall 1) = [6] \<and>
   spares demoClient freshState (demoCall 0) \<and> spares demoClient freshState (demoCall 1)"
  using submitTransaction_goes [OF demo_encodes demo_others demo_submit]
  by (simp add: freshState_def)

theorem submitTransaction_outcome_witness:
  "(\<exists>e. answerOf demoClient demoSubmit (demoCall 0) = Some (Inl e) \<and> sentOn e) \<and>
     answerOf demoClient demoSubmit (demoCall 1) = Some (Inr [6])"
  using submitTransaction_outcome [OF demo_encodes demo_submit]
  by (simp add: freshState_def)

theorem submitTransactionAcrossEpochClose_ends_witness:
  "\<exists>res. submitTransactionAcrossEpochClose demoClient demoSubmit demoAcross 0 freshState = Some res"
proof (rule submitTransactionAcrossEpochClose_ends)
  show "across_env demoClient demoAcross 6"
    by (simp add: across_env_def demoClient_def demoAcross_def)
qed (simp_all add: demoAcross_def)

lemma demo_across:
  "\<exists>t s'. submitTransactionAcrossEpochClose demoClient demoSubmit demoAcross 0 freshState = Some (t, s', Inr [6]) \<and>
     map fst (cs_built s') = [5, 6] \<and> cs_recorded s' = [5] \<and> map sc_bytes (cs_sent s') = [[5], [5], [6]]"
  by (simp add: submitTransactionAcrossEpochClose_def validAcross_def positiveMilliseconds_def result_simps
      submitTransaction_def validatorIndexes_def demoAcross_def isRefused_def call_def demo_client freshState_def
      othersRan_def refuse_def acrossLoop.simps raced_def afterEpochRead_def beforeDeadline_def afterSubmit_def
      EPOCH_CLOSING_REFUSAL_def Let_def)

theorem submitTransactionAcrossEpochClose_carries_witness:
  "\<exists>t s' bs cs. submitTransactionAcrossEpochClose demoClient demoSubmit demoAcross 0 freshState = Some (t, s', Inr [6]) \<and>
     map fst bs = [5, 6] \<and> cs_sent s' = cs \<and> length cs = 3 \<and> list_all (signedFor demoAcross demoSubmit bs) cs"
proof -
  from demo_across obtain t s'
    where run: "submitTransactionAcrossEpochClose demoClient demoSubmit demoAcross 0 freshState = Some (t, s', Inr [6])"
      and b: "map fst (cs_built s') = [5, 6]" and c: "map sc_bytes (cs_sent s') = [[5], [5], [6]]" by auto
  from c have l: "length (cs_sent s') = 3" by (metis length_map list.size(3,4) numeral_3_eq_3 One_nat_def add.right_neutral add_Suc_right)
  from b have "s' \<noteq> freshState" by (auto simp: freshState_def)
  with submitTransactionAcrossEpochClose_carries [OF run] obtain bs cs
    where "cs_built s' = bs" "cs_sent s' = cs" "\<forall>c\<in>set cs. signedFor demoAcross demoSubmit bs c"
    by (auto simp: freshState_def)
  with run b l show ?thesis by (intro exI [of _ t] exI [of _ s'] exI [of _ bs] exI [of _ cs]) (simp add: list_all_iff)
qed

definition demoKeys :: "(unit, network_keys_message) rpc_method" where
  "demoKeys = \<lparr>methodName = ''GetNetworkKeysByAge'', encodeRequest = (\<lambda>_. Inr []),
     decodeResponse = (\<lambda>_. Inr \<lparr>nm_network_key_ids = None, nm_latest_usable = None\<rparr>)\<rparr>"

text \<open>Validators that never answer in time.\<close>

definition silentClient :: grpc_client where
  "silentClient = demoClient\<lparr>unary := (\<lambda>i m bs d now. Some (max now d, Inl closingRefusal))\<rparr>"

theorem networkKeysByAgeResponse_in_time_witness:
  "\<exists>t s' r. networkKeysByAgeResponse silentClient demoKeys NETWORK_KEYS_READ_RETRY None 0 freshState = Some (t, s', r) \<and> t \<le> 60000"
  using networkKeysByAgeResponse_in_time [of silentClient NETWORK_KEYS_READ_RETRY 0 demoKeys None 0 freshState]
  by (simp add: calls_in_time_def silentClient_def demoClient_def NETWORK_KEYS_READ_RETRY_def)

end
