(* ===== verification/Requests.thy ===== *)
theory Requests
  imports Share_Ownership
begin

text \<open>
  The builders of requests for a checked dWallet (\<open>grpc/requests.ts\<close>) and the signing of the other kinds.
  A builder takes a result of the ownership check and reads only what the check recorded. The request
  it returns is an object: for a result that waits for its holder, the holder is kept under that
  object, and \<open>signGrpcRequest\<close> reads it there. The \<open>WeakMap\<close> is an explicit store, a list with one newHolderEntry
  for each object built.
\<close>

section \<open>Signing\<close>

type_synonym waiting_holders = "bytes option list"

text \<open>A request value: its object, \<open>None\<close> for one no builder made, and what it holds.\<close>

record request_object =
  ro_ref :: "nat option"
  ro_request :: dwallet_request

definition waitingHolderOf :: "waiting_holders \<Rightarrow> request_object \<Rightarrow> bytes option" where
  "waitingHolderOf holders request =
     (case ro_ref request of
        None \<Rightarrow> None
      | Some i \<Rightarrow> if i < length holders then holders ! i else None)"

fun isDWalletSign :: "dwallet_request \<Rightarrow> bool" where
  "isDWalletSign (Sign _) = True"
| "isDWalletSign (ImportedKeySign _) = True"
| "isDWalletSign _ = False"

text \<open>\<open>d\<close> is the signed request data but for its request, which is the object given.\<close>

definition signGrpcRequest ::
    "sdk_lib \<Rightarrow> ed25519_sign \<Rightarrow> transport_keypair \<Rightarrow> signed_request_data \<Rightarrow> request_object \<Rightarrow> waiting_holders
      \<Rightarrow> sdk_error + signed_request" where
  "signGrpcRequest L sign keypair d request holders =
     (if isDWalletSign (ro_request request)
      then Inl (TypeErr ''signGrpcRequest does not sign a request that signs with a dWallet'')
      else seqE (case waitingHolderOf holders request of
                   None \<Rightarrow> Inr ()
                 | Some holder \<Rightarrow>
                     guardE (equalBytes (kp_publicKey keypair) holder)
                       (Err ''the dWallet waits for its holder: sign this request with the holder's key''))
                (signRequestBytes L sign keypair (d\<lparr>req_request := ro_request request\<rparr>)))"

section \<open>A served attestation against the chain\<close>

definition verifyAttestationSignature ::
    "sdk_lib \<Rightarrow> network_signed_attestation \<Rightarrow> attestation_kind \<Rightarrow> sdk_error + bool" where
  "verifyAttestationSignature L a kind =
     ofOption (Err ''ed25519'') (ed25519_verify L (network_signature a)
       (attestationSigningMessage kind (attestation_data a)) (signer_noa_public_key a))"

definition verifyAttestationAgainstChain ::
    "sdk_lib \<Rightarrow> network_signed_attestation \<Rightarrow> attestation_kind \<Rightarrow> (bytes \<Rightarrow> sdk_error + bytes option)
      \<Rightarrow> sdk_error + unit" where
  "verifyAttestationAgainstChain L a kind fetchNetworkEncryptionKey =
     bindE (verifyAttestationSignature L a kind) (\<lambda>verifies.
     seqE (guardE verifies (Err ''attestation signature does not verify under its served signer''))
    (bindE (fetchNetworkEncryptionKey (signer_noa_public_key a)) (\<lambda>rec.
     case rec of
       None \<Rightarrow> Inl (Err ''no on-chain network encryption key record found for the served signer'')
     | Some recordKey \<Rightarrow>
         guardE (equalBytes recordKey (signer_noa_public_key a))
           (Err ''served signer does not match the on-chain record''))))"

section \<open>The builders' check\<close>

definition checkedStateOf :: "issued_results \<Rightarrow> dwallet_usable \<Rightarrow> time \<Rightarrow> sdk_error + issued_state" where
  "checkedStateOf store usable now =
     (case issuedGet store usable of
        None \<Rightarrow> Inl (DWalletUsabilityNotChecked ''the usability result was not made by assertDWalletUsable'')
      | Some state \<Rightarrow>
          if now - is_verifiedAt state > DWALLET_USABLE_MAX_AGE_MS
          then Inl (DWalletUsabilityNotChecked ''the usability result is too old'')
          else Inr state)"

definition requestOfResult ::
    "issued_state \<Rightarrow> dwallet_request \<Rightarrow> waiting_holders \<Rightarrow> request_object \<times> waiting_holders" where
  "requestOfResult state request holders =
     (\<lparr>ro_ref = Some (length holders), ro_request = request\<rparr>,
      holders @ [if is_waiting state then Some (is_holder state) else None])"

definition makeSharePublicRequest ::
    "issued_results \<Rightarrow> dwallet_usable \<Rightarrow> bytes \<Rightarrow> time \<Rightarrow> waiting_holders
      \<Rightarrow> sdk_error + request_object \<times> waiting_holders" where
  "makeSharePublicRequest store usable share now holders =
     bindE (checkedStateOf store usable now) (\<lambda>state.
     if is_share state = SharePublic then Inl (Err ''the dWallet's share is already public'')
     else if element PUBLIC_SHARE_LENGTHS (is_curve state) \<noteq> Some (int (length share))
     then Inl (Err ''the user's secret share is not the length of a public share of the curve'')
     else Inr (requestOfResult state
       (MakeSharePublic \<lparr>mp_dwallet_public_key = is_publicKey state, mp_dwallet_attestation = is_attestation state,
                         mp_public_user_secret_key_share = share\<rparr>) holders))"

record holder_entry =
  he_signerPublicKey :: bytes
  he_curve :: int
  he_encryptionKey :: bytes

definition reEncryptShareRequest ::
    "issued_results \<Rightarrow> dwallet_usable \<Rightarrow> bytes \<Rightarrow> bytes \<Rightarrow> holder_entry \<Rightarrow> time \<Rightarrow> waiting_holders
      \<Rightarrow> sdk_error + request_object \<times> waiting_holders" where
  "reEncryptShareRequest store usable encryptedShareAndProof newHolder newHolderEntry now holders =
     (if length newHolder \<noteq> 32 then Inl (Err ''the new holder's signer public key must be 32 bytes'')
      else bindE (checkedStateOf store usable now) (\<lambda>state.
        if is_share state = SharePublic then Inl (Err ''the dWallet's share is public'')
        else if is_migrated state then Inl (Err ''the dWallet was migrated from the classic contracts'')
        else if \<not> equalBytes (he_signerPublicKey newHolderEntry) newHolder
        then Inl (Err ''the registry newHolderEntry is another holder's, not the new holder's'')
        else if he_curve newHolderEntry \<noteq> is_curve state then Inl (Err ''the registry newHolderEntry is for another curve'')
        else bindE (networkKeyIdFromBytes (network_pubkey (is_attestation state))) (\<lambda>networkKeyId.
          Inr (requestOfResult state
            (ReEncryptShare
              \<lparr>re_network_key_id = networkKeyId, re_dwallet_public_key = is_publicKey state,
               re_dwallet_attestation = is_attestation state,
               re_encrypted_share_and_proof = encryptedShareAndProof,
               re_encryption_key = he_encryptionKey newHolderEntry,
               re_holder = \<lparr>holder_scheme = Scheme_Ed25519, holder_key = newHolder\<rparr>,
               re_source_holder = \<lparr>holder_scheme = Scheme_Ed25519, holder_key = is_holder state\<rparr>\<rparr>) holders))))"

section \<open>Future signs\<close>

definition decodePresignAttestation :: "sdk_lib \<Rightarrow> bytes \<Rightarrow> sdk_error + presign_attestation" where
  "decodePresignAttestation L bs = map_sum id v1 (ofOption (Err ''bcs'') (parse (presignBcs L) bs))"

definition decodeHeldDWallet :: "sdk_lib \<Rightarrow> bytes \<Rightarrow> sdk_error + dwallet_attestation" where
  "decodeHeldDWallet L bs = map_sum id v1 (ofOption (Err ''bcs'') (parse (dwalletBcs L) bs))"

definition decodePartialUserSignatureAttestation ::
    "sdk_lib \<Rightarrow> bytes \<Rightarrow> sdk_error + partial_signature_attestation" where
  "decodePartialUserSignatureAttestation L bs =
     map_sum id v1 (ofOption (Err ''bcs'') (parse (partialSignatureBcs L) bs))"

definition trustedPresign ::
    "sdk_lib \<Rightarrow> network_signed_attestation \<Rightarrow> bytes \<Rightarrow> trusted_network_keys \<Rightarrow> sdk_error + presign_attestation" where
  "trustedPresign L presignAttestation dwalletNetworkPublicKey trusted =
     seqE (verifyAttestationNetworkKey (network_pubkey presignAttestation) dwalletNetworkPublicKey
             (network trusted) None)
    (seqE (verifyAttestationRecord L (recordOfAttestation presignAttestation) trusted PresignKind None)
          (decodePresignAttestation L (attestation_data presignAttestation)))"

definition requirePresignOfRequester :: "presign_attestation \<Rightarrow> bytes \<Rightarrow> sdk_error + unit" where
  "requirePresignOfRequester presign requester =
     guardE (equalBytes (pr_user_pubkey presign) requester)
       (Err ''only the presign's own requester may use it, and this requester is another key'')"

fun BASE_ALGORITHMS :: "scheme_name \<Rightarrow> dwallet_curve \<Rightarrow> dwallet_signature_algorithm option" where
  "BASE_ALGORITHMS EcdsaKeccak256 Curve_Secp256k1 = Some Alg_ECDSASecp256k1"
| "BASE_ALGORITHMS EcdsaSha256 Curve_Secp256k1 = Some Alg_ECDSASecp256k1"
| "BASE_ALGORITHMS EcdsaSha256 Curve_Secp256r1 = Some Alg_ECDSASecp256r1"
| "BASE_ALGORITHMS EcdsaDoubleSha256 Curve_Secp256k1 = Some Alg_ECDSASecp256k1"
| "BASE_ALGORITHMS TaprootSha256 Curve_Secp256k1 = Some Alg_Taproot"
| "BASE_ALGORITHMS EcdsaBlake2b256 Curve_Secp256k1 = Some Alg_ECDSASecp256k1"
| "BASE_ALGORITHMS EddsaSha512 Curve_Curve25519 = Some Alg_EdDSA"
| "BASE_ALGORITHMS SchnorrkelMerlin Curve_Ristretto = Some Alg_Schnorrkel"
| "BASE_ALGORITHMS _ _ = None"

definition signatureAlgorithmOnCurve ::
    "scheme_name \<Rightarrow> dwallet_curve \<Rightarrow> sdk_error + dwallet_signature_algorithm" where
  "signatureAlgorithmOnCurve scheme curve =
     ofOption (Err ''the scheme does not sign on the curve'') (BASE_ALGORITHMS scheme curve)"

definition requireVoucherAddress :: "bytes \<Rightarrow> sdk_error + unit" where
  "requireVoucherAddress voucher =
     guardE (length voucher = 32) (Err ''the future signature voucher's address must be 32 bytes'')"

record future_sign_args =
  fa_usable :: dwallet_usable
  fa_presignAttestation :: network_signed_attestation
  fa_message :: bytes
  fa_messageMetadata :: bytes
  fa_messageCentralizedSignature :: bytes
  fa_signatureScheme :: scheme_name
  fa_futureSignatureVoucher :: bytes
  fa_requesterPublicKey :: bytes
  fa_trustedNetworkKeys :: trusted_network_keys

text \<open>The presign against the dWallet: its curve, its algorithm, and the dWallet it is bound to.\<close>

definition presignFits ::
    "sdk_lib \<Rightarrow> issued_state \<Rightarrow> presign_attestation \<Rightarrow> scheme_name \<Rightarrow> sdk_error + unit" where
  "presignFits L state presign scheme =
     bindE (ofOption (Err ''the scheme does not sign on the dWallet's curve'')
              (Option.bind (element ATTESTATION_CURVES (is_curve state)) (BASE_ALGORITHMS scheme))) (\<lambda>algorithm.
     seqE (guardE (Some (pr_curve presign) = element ATTESTATION_CURVES (is_curve state))
             (Err ''the presign is on another curve than the dWallet''))
    (seqE (guardE (pr_signature_algorithm presign = algorithm)
             (Err ''the presign is for another algorithm than the scheme's''))
    (bindE (decodeHeldDWallet L (attestation_data (is_attestation state))) (\<lambda>dwallet.
     let requiresBoundPresign =
           dw_is_imported_key dwallet \<and> (algorithm = Alg_ECDSASecp256k1 \<or> algorithm = Alg_ECDSASecp256r1) in
     guardE (if requiresBoundPresign
             then (case pr_dwallet_public_key presign of None \<Rightarrow> False | Some b \<Rightarrow> equalBytes b (is_publicKey state))
             else pr_dwallet_public_key presign = None)
       (Err ''an imported dWallet's ECDSA future sign needs a presign made for that dWallet'')))))"

definition futureSignRequest ::
    "sdk_lib \<Rightarrow> user_cryptography \<Rightarrow> issued_results \<Rightarrow> future_sign_args \<Rightarrow> time \<Rightarrow> sdk_error + dwallet_request" where
  "futureSignRequest L U store args now =
     seqE (requireVoucherAddress (fa_futureSignatureVoucher args))
    (seqE (guardE (length (fa_messageCentralizedSignature args) \<noteq> 0)
             (Err ''the partial signature (message_centralized_signature) must not be empty''))
    (bindE (checkedStateOf store (fa_usable args) now) (\<lambda>state.
     seqE (guardE (\<not> is_waiting state)
             (DWalletUsabilityNotChecked ''the usability result says the dWallet waits for its holder''))
    (bindE (trustedPresign L (fa_presignAttestation args) (network_pubkey (is_attestation state))
              (fa_trustedNetworkKeys args)) (\<lambda>presign.
     seqE (requirePresignOfRequester presign (fa_requesterPublicKey args))
    (seqE (presignFits L state presign (fa_signatureScheme args))
    (seqE (requireMessageMetadataOfScheme U (fa_signatureScheme args) (fa_messageMetadata args))
          (Inr (FutureSign
            \<lparr>fs_dwallet_public_key = is_publicKey state, fs_dwallet_attestation = is_attestation state,
             fs_presign_attestation = fa_presignAttestation args, fs_message = fa_message args,
             fs_message_metadata = fa_messageMetadata args,
             fs_message_centralized_signature = fa_messageCentralizedSignature args,
             fs_signature_scheme = fa_signatureScheme args,
             fs_future_signature_voucher = fa_futureSignatureVoucher args\<rparr>)))))))))"

definition completeFutureSignRequest ::
    "sdk_lib \<Rightarrow> network_signed_attestation \<Rightarrow> network_signed_attestation \<Rightarrow> bytes \<Rightarrow> bytes \<Rightarrow> bytes
      \<Rightarrow> sdk_error + dwallet_request" where
  "completeFutureSignRequest L partialAttestation dwalletAttestation message metadata voucher =
     seqE (requireVoucherAddress voucher)
    (bindE (decodePartialUserSignatureAttestation L (attestation_data partialAttestation)) (\<lambda>partial.
     bindE (decodeHeldDWallet L (attestation_data dwalletAttestation)) (\<lambda>dwallet.
     seqE (guardE (equalBytes (pu_dwallet_public_key partial) (dw_public_key dwallet) \<and>
                   equalBytes (pu_future_signature_voucher partial) voucher)
             (Err ''the partial-signature attestation names another dWallet or another voucher''))
    (seqE (guardE (equalBytes (pu_dwallet_attestation_hash partial)
                     (keccak_256 L (attestation_data dwalletAttestation)))
             (Err ''the dWallet attestation is not the one the partial signature was made with''))
    (let (messageDigest, metadataDigest) = futureSignMessageDigests L message metadata in
     seqE (guardE (equalBytes (pu_message_digest partial) messageDigest \<and>
                   equalBytes (pu_message_metadata_digest partial) metadataDigest)
             (Err ''the message or its metadata is not the one the partial signature was made for''))
    (let fields = \<lparr>pt_partial_user_signature_attestation = partialAttestation,
                   pt_dwallet_attestation = dwalletAttestation, pt_message = message,
                   pt_message_metadata = metadata, pt_future_signature_voucher = voucher\<rparr> in
     Inr (if dw_is_imported_key dwallet then ImportedKeySignWithPartialUserSig fields
          else SignWithPartialUserSig fields)))))))"

end
