(* ===== verification/Request_Building.thy ===== *)
theory Request_Building
  imports Requests Ownership_Laws
begin

text \<open>
  What the request builders promise: a built request names the dWallet the ownership check recorded and
  nothing a caller gave for it, it is built within the age of the check, a request of a waiting dWallet is
  signed by its holder alone, and an accepted answer to step 1 of a future sign builds its completion.
\<close>

section \<open>What a builder reads\<close>

lemma checkedStateOf_Inr [result_simps]:
  "checkedStateOf store usable now = Inr state \<longleftrightarrow>
     issuedGet store usable = Some state \<and> now - is_verifiedAt state \<le> 300000"
  by (auto simp: checkedStateOf_def DWALLET_USABLE_MAX_AGE_MS_def split: option.splits)

lemma map_sum_Inr [result_simps]: "map_sum id f r = Inr y \<longleftrightarrow> (\<exists>x. r = Inr x \<and> y = f x)"
  by (cases r) auto

lemma networkKeyIdFromBytes_Inr [result_simps]:
  "networkKeyIdFromBytes bs = Inr i \<longleftrightarrow> length bs = 32 \<and> i = bs"
  by (auto simp: networkKeyIdFromBytes_def NETWORK_KEY_ID_LENGTH_def)

text \<open>The object a builder returns, and the holder kept under it.\<close>

definition built_object ::
    "issued_state \<Rightarrow> dwallet_request \<Rightarrow> waiting_holders \<Rightarrow> request_object \<Rightarrow> waiting_holders \<Rightarrow> bool" where
  "built_object state request holders object holders' \<longleftrightarrow>
     ro_request object = request \<and>
     (\<forall>later. waitingHolderOf (holders' @ later) object = (if is_waiting state then Some (is_holder state) else None))"

lemma requestOfResult_built:
  "requestOfResult state request holders = (object, holders') \<Longrightarrow> built_object state request holders object holders'"
  by (auto simp: requestOfResult_def built_object_def waitingHolderOf_def nth_append)

lemma makeSharePublicRequest_Inr:
  "makeSharePublicRequest store usable share now holders = Inr (object, holders') \<longleftrightarrow>
     (\<exists>state. issuedGet store usable = Some state \<and> now - is_verifiedAt state \<le> 300000 \<and>
        is_share state = ShareEncrypted \<and>
        element PUBLIC_SHARE_LENGTHS (is_curve state) = Some (int (length share)) \<and>
        requestOfResult state (MakeSharePublic \<lparr>mp_dwallet_public_key = is_publicKey state,
          mp_dwallet_attestation = is_attestation state, mp_public_user_secret_key_share = share\<rparr>) holders
          = (object, holders'))"
  unfolding makeSharePublicRequest_def by (auto simp: result_simps intro: share_kind.exhaust split: if_split_asm)

lemma reEncryptShareRequest_Inr:
  "reEncryptShareRequest store usable ciphertext newHolder reg now holders = Inr (object, holders') \<longleftrightarrow>
     length newHolder = 32 \<and> he_signerPublicKey reg = newHolder \<and>
     (\<exists>state. issuedGet store usable = Some state \<and> now - is_verifiedAt state \<le> 300000 \<and>
        is_share state = ShareEncrypted \<and> \<not> is_migrated state \<and> he_curve reg = is_curve state \<and>
        length (network_pubkey (is_attestation state)) = 32 \<and>
        requestOfResult state (ReEncryptShare
          \<lparr>re_network_key_id = network_pubkey (is_attestation state), re_dwallet_public_key = is_publicKey state,
           re_dwallet_attestation = is_attestation state, re_encrypted_share_and_proof = ciphertext,
           re_encryption_key = he_encryptionKey reg,
           re_holder = \<lparr>holder_scheme = Scheme_Ed25519, holder_key = newHolder\<rparr>,
           re_source_holder = \<lparr>holder_scheme = Scheme_Ed25519, holder_key = is_holder state\<rparr>\<rparr>) holders
          = (object, holders'))"
  unfolding reEncryptShareRequest_def
  by (auto simp: result_simps split: if_split_asm) (metis share_kind.exhaust)+

section \<open>Waiting dWallets\<close>

text \<open>A request value one of the two builders made from a result.\<close>

definition built_from ::
    "issued_results \<Rightarrow> dwallet_usable \<Rightarrow> time \<Rightarrow> waiting_holders \<Rightarrow> request_object \<Rightarrow> waiting_holders \<Rightarrow> bool" where
  "built_from store usable now holders object holders' \<longleftrightarrow>
     (\<exists>share. makeSharePublicRequest store usable share now holders = Inr (object, holders')) \<or>
     (\<exists>ciphertext newHolder reg.
        reEncryptShareRequest store usable ciphertext newHolder reg now holders = Inr (object, holders'))"

lemma built_from_object:
  "built_from store usable now holders object holders' \<Longrightarrow>
     \<exists>state. issuedGet store usable = Some state \<and> now - is_verifiedAt state \<le> 300000 \<and>
       built_object state (ro_request object) holders object holders'"
  unfolding built_from_def makeSharePublicRequest_Inr reEncryptShareRequest_Inr
  by (auto dest!: requestOfResult_built simp: built_object_def)

lemma signGrpcRequest_Inr:
  "signGrpcRequest L sign keypair d object holders = Inr out \<longleftrightarrow>
     \<not> isDWalletSign (ro_request object) \<and>
     (\<forall>h. waitingHolderOf holders object = Some h \<longrightarrow> kp_publicKey keypair = h) \<and>
     signRequestBytes L sign keypair (d\<lparr>req_request := ro_request object\<rparr>) = Inr out"
  by (auto simp: signGrpcRequest_def result_simps split: option.split)

lemma built_from_request:
  "built_from store usable now holders object holders' \<Longrightarrow> issuedGet store usable = Some st \<Longrightarrow>
     is_share st = ShareEncrypted \<and>
     ((\<exists>share. ro_request object = MakeSharePublic \<lparr>mp_dwallet_public_key = is_publicKey st,
         mp_dwallet_attestation = is_attestation st, mp_public_user_secret_key_share = share\<rparr>) \<or>
      (\<exists>q. ro_request object = ReEncryptShare q \<and> re_dwallet_public_key q = is_publicKey st \<and>
         re_dwallet_attestation q = is_attestation st \<and> re_network_key_id q = network_pubkey (is_attestation st) \<and>
         re_source_holder q = \<lparr>holder_scheme = Scheme_Ed25519, holder_key = is_holder st\<rparr>))"
  unfolding built_from_def makeSharePublicRequest_Inr reEncryptShareRequest_Inr by (auto simp: requestOfResult_def)

text \<open>C31. A make-public or a re-encryption request is built only from an ownership check that is, when it is built, at
  most five minutes old and found an encrypted share, and it names that check's dWallet, attestation and, as the source,
  holder. Kept as long as the caller likes and however many requests are built in between, it is signed exactly when its
  bytes can be and, if the dWallet waits for its holder, by the key of that holder, the one whose share the chain's own
  record holds. The age of the check is not read again when it is signed.\<close>

theorem waiting_requests_signed_by_holder:
  assumes "issued_by L R now store" "built_from store usable now holders object holders'"
  shows "\<exists>st reader opts. issuedGet store usable = Some st \<and> now - is_verifiedAt st \<le> 300000 \<and>
     usable_checked L R reader (is_holder st) opts st \<and> is_share st = ShareEncrypted \<and>
     ((\<exists>share. ro_request object = MakeSharePublic \<lparr>mp_dwallet_public_key = is_publicKey st,
         mp_dwallet_attestation = is_attestation st, mp_public_user_secret_key_share = share\<rparr>) \<or>
      (\<exists>q. ro_request object = ReEncryptShare q \<and> re_dwallet_public_key q = is_publicKey st \<and>
         re_dwallet_attestation q = is_attestation st \<and> re_network_key_id q = network_pubkey (is_attestation st) \<and>
         re_source_holder q = \<lparr>holder_scheme = Scheme_Ed25519, holder_key = is_holder st\<rparr>)) \<and>
     (\<forall>later L' sign keypair d out. signGrpcRequest L' sign keypair d object (holders' @ later) = Inr out \<longleftrightarrow>
        (\<not> is_waiting st \<or> kp_publicKey keypair = is_holder st) \<and>
        signRequestBytes L' sign keypair (d\<lparr>req_request := ro_request object\<rparr>) = Inr out)"
proof -
  from built_from_object [OF assms(2)] obtain st
    where st: "issuedGet store usable = Some st" "now - is_verifiedAt st \<le> 300000"
      and built: "built_object st (ro_request object) holders object holders'" by blast
  from issuedGet_checked [OF st(1) issued_by_checked [OF assms(1)]] obtain reader userKey opts
    where c: "usable_checked L R reader userKey opts st" by blast
  then have "is_holder st = userKey" by (auto simp: usable_checked_def)
  with c have "usable_checked L R reader (is_holder st) opts st" by simp
  moreover note request = built_from_request [OF assms(2) st(1)]
  moreover from request have "\<not> isDWalletSign (ro_request object)" by auto
  with built have "signGrpcRequest L' sign keypair d object (holders' @ later) = Inr out \<longleftrightarrow>
      (\<not> is_waiting st \<or> kp_publicKey keypair = is_holder st) \<and>
      signRequestBytes L' sign keypair (d\<lparr>req_request := ro_request object\<rparr>) = Inr out" for later L' sign keypair d out
    by (auto simp: signGrpcRequest_Inr built_object_def)
  ultimately show ?thesis using st by blast
qed

section \<open>Future signs\<close>

text \<open>A presign the network takes for the dWallet and the scheme.\<close>

definition presign_for :: "issued_state \<Rightarrow> dwallet_attestation \<Rightarrow> scheme_name \<Rightarrow> presign_attestation \<Rightarrow> bool" where
  "presign_for state dwallet scheme presign \<longleftrightarrow>
     element ATTESTATION_CURVES (is_curve state) = Some (pr_curve presign) \<and>
     BASE_ALGORITHMS scheme (pr_curve presign) = Some (pr_signature_algorithm presign) \<and>
     pr_dwallet_public_key presign =
       (if dw_is_imported_key dwallet \<and> pr_signature_algorithm presign \<in> {Alg_ECDSASecp256k1, Alg_ECDSASecp256r1}
        then Some (is_publicKey state) else None)"

lemma presignFits_Inr:
  "presignFits L state presign scheme = Inr () \<longleftrightarrow>
     (\<exists>dwallet. parse (dwalletBcs L) (attestation_data (is_attestation state)) = Some (V1 dwallet) \<and>
        presign_for state dwallet scheme presign)"
proof -
  have v: "(\<exists>x. parse (dwalletBcs L) a = Some x \<and> P (v1 x)) \<longleftrightarrow> (\<exists>d. parse (dwalletBcs L) a = Some (V1 d) \<and> P d)" for a P
    by (metis versioned.collapse versioned.sel)
  show ?thesis
    unfolding presignFits_def decodeHeldDWallet_def presign_for_def
    by (cases "element ATTESTATION_CURVES (is_curve state)")
      (auto simp: result_simps v Let_def split: option.splits if_splits)
qed

lemma futureSignRequest_Inr:
  "futureSignRequest L U store args now = Inr request \<longleftrightarrow>
     length (fa_futureSignatureVoucher args) = 32 \<and> fa_messageCentralizedSignature args \<noteq> [] \<and>
     (\<exists>st d p. issuedGet store (fa_usable args) = Some st \<and> now - is_verifiedAt st \<le> 300000 \<and> \<not> is_waiting st \<and>
        trustedPresign L (fa_presignAttestation args) (network_pubkey (is_attestation st))
          (fa_trustedNetworkKeys args) = Inr p \<and>
        pr_user_pubkey p = fa_requesterPublicKey args \<and>
        parse (dwalletBcs L) (attestation_data (is_attestation st)) = Some (V1 d) \<and>
        presign_for st d (fa_signatureScheme args) p \<and>
        requireMessageMetadataOfScheme U (fa_signatureScheme args) (fa_messageMetadata args) = Inr () \<and>
        request = FutureSign
          \<lparr>fs_dwallet_public_key = is_publicKey st, fs_dwallet_attestation = is_attestation st,
           fs_presign_attestation = fa_presignAttestation args, fs_message = fa_message args,
           fs_message_metadata = fa_messageMetadata args,
           fs_message_centralized_signature = fa_messageCentralizedSignature args,
           fs_signature_scheme = fa_signatureScheme args,
           fs_future_signature_voucher = fa_futureSignatureVoucher args\<rparr>)"
  unfolding futureSignRequest_def requireVoucherAddress_def requirePresignOfRequester_def
  by (simp add: result_simps presignFits_Inr) blast

lemma trustedPresign_Inr:
  "trustedPresign L a key trusted = Inr p \<longleftrightarrow>
     key_named (network trusted) key (network_pubkey a) \<and>
     attested L PresignKind (recordOfAttestation a) trusted None \<and>
     parse (presignBcs L) (attestation_data a) = Some (V1 p)"
proof -
  have v: "(\<exists>x. parse (presignBcs L) b = Some x \<and> p = v1 x) \<longleftrightarrow> parse (presignBcs L) b = Some (V1 p)" for b
    by (metis versioned.collapse versioned.sel)
  show ?thesis
    unfolding trustedPresign_def decodePresignAttestation_def
    by (simp add: result_simps verifyAttestationRecord_Inr v del: attested.simps verifyAttestationRecord.simps)
qed

text \<open>Step 1 of a future sign is built exactly on a check of the dWallet that is at most five minutes old and
  leaves nothing waiting, with a presign under a trusted key for the dWallet's network key, for the
  requester's own key, on the dWallet's curve, for the scheme's algorithm there, and bound to the dWallet
  exactly when an imported key signs with ECDSA; the request names the checked dWallet.\<close>

theorem futureSignRequest_iff:
  "futureSignRequest L U store args now = Inr request \<longleftrightarrow>
     length (fa_futureSignatureVoucher args) = 32 \<and> fa_messageCentralizedSignature args \<noteq> [] \<and>
     (\<exists>st d p. issuedGet store (fa_usable args) = Some st \<and> now - is_verifiedAt st \<le> 300000 \<and> \<not> is_waiting st \<and>
        parse (dwalletBcs L) (attestation_data (is_attestation st)) = Some (V1 d) \<and>
        parse (presignBcs L) (attestation_data (fa_presignAttestation args)) = Some (V1 p) \<and>
        attested L PresignKind (recordOfAttestation (fa_presignAttestation args)) (fa_trustedNetworkKeys args) None \<and>
        key_named (network (fa_trustedNetworkKeys args)) (network_pubkey (is_attestation st))
          (network_pubkey (fa_presignAttestation args)) \<and>
        pr_user_pubkey p = fa_requesterPublicKey args \<and> presign_for st d (fa_signatureScheme args) p \<and>
        requireMessageMetadataOfScheme U (fa_signatureScheme args) (fa_messageMetadata args) = Inr () \<and>
        request = FutureSign
          \<lparr>fs_dwallet_public_key = is_publicKey st, fs_dwallet_attestation = is_attestation st,
           fs_presign_attestation = fa_presignAttestation args, fs_message = fa_message args,
           fs_message_metadata = fa_messageMetadata args,
           fs_message_centralized_signature = fa_messageCentralizedSignature args,
           fs_signature_scheme = fa_signatureScheme args,
           fs_future_signature_voucher = fa_futureSignatureVoucher args\<rparr>)"
  unfolding futureSignRequest_Inr trustedPresign_Inr by blast

text \<open>An accepted answer to step 1 of a future sign builds its completion, in any later epoch: with the answer and
  what step 1 carried, the builder refuses nothing, and the request is the variant the dWallet asks for.\<close>

theorem accepted_step_one_completes:
  assumes "verifyFutureSignAnswer L (AttestationResponse answer) trusted sent = Inr att"
    and "length (sfs_futureSignatureVoucher sent) = 32"
  shows "\<exists>dwallet fields.
     completeFutureSignRequest L answer (sfs_dwalletAttestation sent) (sfs_message sent) (sfs_messageMetadata sent)
       (sfs_futureSignatureVoucher sent) =
       Inr (if dw_is_imported_key dwallet then ImportedKeySignWithPartialUserSig fields else SignWithPartialUserSig fields) \<and>
     parse (dwalletBcs L) (attestation_data (sfs_dwalletAttestation sent)) = Some (V1 dwallet) \<and>
     pt_partial_user_signature_attestation fields = answer \<and> pt_message fields = sfs_message sent"
proof -
  from assms(1) obtain a d where a: "answered_with L (partialSignatureBcs L) PartialUserSignatureKind
        (AttestationResponse answer) trusted (network_pubkey (sfs_dwalletAttestation sent)) a att"
    and d: "parse (dwalletBcs L) (attestation_data (sfs_dwalletAttestation sent)) = Some (V1 d)"
      "pu_dwallet_public_key att = dw_public_key d"
    and same: "pu_dwallet_attestation_hash att = keccak_256 L (attestation_data (sfs_dwalletAttestation sent))"
      "pu_future_signature_voucher att = sfs_futureSignatureVoucher sent"
      "pu_message_digest att = keccak_256 L (sfs_message sent)"
      "pu_message_metadata_digest att =
        (if sfs_messageMetadata sent = [] then replicate 32 0 else keccak_256 L (sfs_messageMetadata sent))"
    unfolding future_answer_Inr by blast
  from a have "parse (partialSignatureBcs L) (attestation_data answer) = Some (V1 att)"
    by (auto simp: answered_with_def signed_parse)
  with d same assms(2) show ?thesis
    by (intro exI [of _ d] exI)
      (auto simp: completeFutureSignRequest_def requireVoucherAddress_def decodePartialUserSignatureAttestation_def
        decodeHeldDWallet_def futureSignMessageDigests_def result_simps Let_def)
qed

end
