(* ===== verification/Demo_Building.thy ===== *)
theory Demo_Building
  imports Request_Building Demo_Ownership
begin

text \<open>Instances of the builders' laws: a make-public built from a result, and a completed future sign.\<close>

text \<open>A chain that holds the share of a holder who has not accepted it there, but gives the signature it accepts with.\<close>

definition waitLib :: sdk_lib where
  "waitLib = ownLib\<lparr>userSignatureBcs := oneValue (UserEd25519 theSignature [9]) [7, 8]\<rparr>"

definition waitRecord :: checked_dwallet_record where
  "waitRecord = demoChainRecord\<lparr>cdr_readEncryptedShare :=
     (\<lambda>k given. Inr (Some \<lparr>csr_record = shareRecord, csr_acceptanceGiven = given \<noteq> None\<rparr>))\<rparr>"

definition waitReader :: share_reader where
  "waitReader = chainReader\<lparr>rd_readDWallet := (\<lambda>asked. Inr (Some waitRecord))\<rparr>"

definition waitOptions :: usable_options where
  "waitOptions = \<lparr>op_classicShareId = None, op_acceptanceSignature = Some theSignature\<rparr>"

abbreviation waitingState :: issued_state where
  "waitingState \<equiv> (issuedAt 1000)\<lparr>is_waiting := True\<rparr>"

abbreviation holderKeys :: transport_keypair where
  "holderKeys \<equiv> \<lparr>kp_secretKey = [8], kp_publicKey = [9]\<rparr>"

lemma waitLib_simps [simp]:
  "ed25519_verify waitLib = demoVerify" "keccak_256 waitLib = lengthHash"
  "dwalletBcs waitLib = oneValue (V1 demoDWallet) [0, 1]" "encryptedShareBcs waitLib = oneValue (V1 movedShare) [0, 3]"
  "signedRequestDataBcs waitLib = signedRequestDataBcs ownLib"
  "userSignatureBcs waitLib = oneValue (UserEd25519 theSignature [9]) [7, 8]"
  by (simp_all add: waitLib_def)

lemma usable_checked_waiting: "usable_checked waitLib demoCryptography waitReader [9] waitOptions waitingState"
proof -
  have reader: "rd_trusted waitReader = demoTrust" "rd_readDWallet waitReader = (\<lambda>asked. Inr (Some waitRecord))"
    "rd_chain waitReader = OnSolana" "cryptographyOf demoCryptography waitReader = demoCryptography"
    by (simp_all add: waitReader_def chainReader_def cryptographyOf_def)
  have rec: "cdr_attestation waitRecord = demoRecord" "cdr_networkPublicKey waitRecord = theKey" "cdr_address waitRecord = [1]"
    "cdr_readPublicShare waitRecord = Inr None"
    by (simp_all add: waitRecord_def demoChainRecord_def)
  have "\<exists>c. dw_curve demoDWallet = attested_curve c \<and>
      publicKeyFromDWalletOutput demoCryptography c (dw_public_output demoDWallet) = Inr (dw_public_key demoDWallet)"
    by (intro exI [of _ ED25519]) (simp add: demoDWallet_def demoCryptography_def)
  moreover have "own_share waitLib demoTrust waitRecord (dwallet_of demoRecord demoDWallet) [9] (Some theSignature) True"
    by (simp add: own_share_def waitRecord_def share_of_holder_def signed_record_def decodes_def demo_lib
        shareRecord_def movedShare_def demoHolder_def binds_dwallet_def dwallet_of_def demoDWallet_def demoRecord_def)
  then have "usability_held waitLib demoTrust waitRecord (dwallet_of demoRecord demoDWallet) [9] waitOptions
      (ShareEncrypted, False, True)"
    by (simp add: rec waitOptions_def vd_attestation_dwallet_of demoDWallet_def demoHolder_def)
  moreover have "chain_record waitLib waitReader [0, 1] demoDWallet waitRecord"
    by (simp add: chain_record_def reader rec demoRecord_def signed_record_def decodes_def demo_lib)
  ultimately show ?thesis unfolding usable_checked_def reader
    by (intro exI [of _ demoDWallet] exI [of _ waitRecord])
      (simp add: rec issuedAt_def demoAttestation_def demoRecord_def demoDWallet_def indexOf_def ATTESTATION_CURVES_def)
qed

definition waitingUsable :: dwallet_usable where
  "waitingUsable = \<lparr>us_ref = Some 0, us_shown = waitingState\<rparr>"

lemma issued_waiting: "issued_by waitLib demoCryptography 2000 [waitingState]"
proof -
  have "assertDWalletUsable waitLib demoCryptography waitReader [9] [0, 1] waitOptions 1000 [] =
      Inr (waitingUsable, [waitingState])"
    unfolding assertDWalletUsable_Inr
    by (intro exI [of _ waitingState])
      (simp add: usable_checked_waiting waitingUsable_def, simp add: issuedAt_def demoAttestation_def)
  from issued_by.check [OF issued_by.start this] show ?thesis by (rule issued_by.wait) simp
qed

definition demoObject :: request_object where
  "demoObject = \<lparr>ro_ref = Some 0, ro_request = MakeSharePublic demoPublic\<rparr>"

lemma demo_built: "built_from [waitingState] waitingUsable 2000 [] demoObject [Some [9]]"
proof -
  have "makeSharePublicRequest [waitingState] waitingUsable (replicate 34 1) 2000 [] = Inr (demoObject, [Some [9]])"
    unfolding makeSharePublicRequest_Inr
    by (intro exI [of _ waitingState])
      (simp add: issuedGet_def waitingUsable_def issuedAt_def element_def PUBLIC_SHARE_LENGTHS_def requestOfResult_def
        demoObject_def demoPublic_def)
  then show ?thesis unfolding built_from_def by blast
qed

lemma demo_public_bytes:
  "signRequestBytes waitLib demoSigner holderKeys ((demoRequest (MakeSharePublic demoPublic))\<lparr>req_request := ro_request demoObject\<rparr>) =
     Inr \<lparr>sr_userSignature = [7, 8], sr_signedRequestData = [5, 7]\<rparr>"
  by (simp add: demoObject_def signRequestBytes_def result_simps requestFields_def
      demoRequest_def demoPublic_def demoAttestation_def attestationFields_def attestation_fits_def
      GRPC_REQUEST_SIZE_LIMITS_def theSignature_def theKey_def signSerializedRequest_def demoSigner_def
      assertSignedRequestDataWithinLimit_def)

text \<open>The request of a dWallet that waits: the holder's keypair signs it, later too, and no other keypair does.\<close>

theorem waiting_requests_signed_by_holder_witness:
  "signGrpcRequest waitLib demoSigner holderKeys (demoRequest (MakeSharePublic demoPublic)) demoObject [Some [9], None] =
     Inr \<lparr>sr_userSignature = [7, 8], sr_signedRequestData = [5, 7]\<rparr> \<and>
   signGrpcRequest waitLib demoSigner demoKeypair (demoRequest (MakeSharePublic demoPublic)) demoObject [Some [9]] \<noteq>
     Inr \<lparr>sr_userSignature = [7, 8], sr_signedRequestData = [5, 7]\<rparr>"
proof -
  from waiting_requests_signed_by_holder [OF issued_waiting demo_built] obtain st
    where st: "issuedGet [waitingState] waitingUsable = Some st"
      and signed: "\<forall>later L' sign keypair d out. signGrpcRequest L' sign keypair d demoObject ([Some [9]] @ later) = Inr out \<longleftrightarrow>
        (\<not> is_waiting st \<or> kp_publicKey keypair = is_holder st) \<and>
        signRequestBytes L' sign keypair (d\<lparr>req_request := ro_request demoObject\<rparr>) = Inr out"
    by (elim exE conjE) (rule that)
  from st have "is_waiting st" "is_holder st = [9]" by (auto simp: issuedGet_def waitingUsable_def issuedAt_def)
  moreover have "kp_publicKey demoKeypair \<noteq> [9]" by (simp add: demoKeypair_def theKey_def numeral_eq_Suc)
  ultimately show ?thesis
    using spec [OF signed, of "[None]"] spec [OF signed, of "[]"] demo_public_bytes by simp
qed

definition stepOne :: partial_signature_attestation where
  "stepOne =
     \<lparr>pu_session_identifier = [1], pu_intended_chain_sender = [2], pu_dwallet_public_key = [3],
      pu_dwallet_attestation_hash = replicate 32 2, pu_future_signature_voucher = theKey,
      pu_presign_session_identifier = [6], pu_presign_attestation_hash = replicate 32 3,
      pu_message_digest = replicate 32 1, pu_message_metadata_digest = replicate 32 0,
      pu_signature_scheme = EddsaSha512, pu_verified_sign_data = [10]\<rparr>"

definition demoPresign :: presign_attestation where
  "demoPresign =
     \<lparr>pr_session_identifier = [1], pr_epoch = 1, pr_presign_session_identifier = [6], pr_presign_data = [],
      pr_curve = Curve_Curve25519, pr_signature_algorithm = Alg_EdDSA, pr_dwallet_public_key = None,
      pr_user_pubkey = theKey\<rparr>"

definition stepLib :: sdk_lib where
  "stepLib = demoLib\<lparr>partialSignatureBcs := oneValue (V1 stepOne) [0, 2], presignBcs := oneValue (V1 demoPresign) [0, 4, 4]\<rparr>"

definition stepAnswer :: network_signed_attestation where
  "stepAnswer = \<lparr>attestation_data = [0, 2], network_signature = theSignature, network_pubkey = theKey,
     signer_noa_public_key = theKey\<rparr>"

definition stepSent :: sent_future_sign where
  "stepSent =
     \<lparr>sfs_sessionIdentifier = [1], sfs_intendedChainSender = [2], sfs_dwalletAttestation = demoAttestation,
      sfs_presignAttestation = stepAnswer\<lparr>attestation_data := [0, 4, 4]\<rparr>, sfs_message = [8], sfs_messageMetadata = [],
      sfs_signatureScheme = EddsaSha512, sfs_futureSignatureVoucher = theKey\<rparr>"

lemma step_accepted: "verifyFutureSignAnswer stepLib (AttestationResponse stepAnswer) demoTrust stepSent = Inr stepOne"
  unfolding future_answer_Inr
  by (simp add: answered_with_def key_named_def signed_record_def decodes_def demo_lib stepLib_def stepAnswer_def
      stepSent_def stepOne_def demoPresign_def recordOfAttestation_def demoAttestation_def lengthHash_def demoDWallet_def
      numeral_2_eq_2 numeral_3_eq_3)

theorem accepted_step_one_completes_witness:
  "\<exists>fields. completeFutureSignRequest stepLib stepAnswer demoAttestation [8] [] theKey =
     Inr (ImportedKeySignWithPartialUserSig fields)"
  using accepted_step_one_completes [OF step_accepted]
  by (auto simp: stepSent_def theKey_def stepLib_def demoAttestation_def demoDWallet_def)

end
