(* ===== verification/Solana_Records.thy ===== *)
theory Solana_Records
  imports Accounts
begin

text \<open>
  The check of a Solana encrypted share, its account and its attestation account, and of a future
  signature voucher's stored partial-signature attestation (\<open>sdk/solana/src/record-checks.ts\<close>). The
  attestation checks are the core's; this theory adds what the account stores beside them.
\<close>

section \<open>An encrypted share\<close>

record not_covered_by_signature =
  nc_createdEpoch :: int
  nc_bump :: nat
  nc_reserved :: bytes

record verified_solana_share =
  vs_attestation :: encrypted_share_attestation
  vs_encryptedShare :: bytes
  vs_registeredEncryptionKey :: bytes
  vs_acceptanceSignature :: bytes
  vs_acceptanceGiven :: bool
  vs_notCoveredBySignature :: not_covered_by_signature

definition noSourceShare :: "encrypted_share_account \<Rightarrow> bool" where
  "noSourceShare acct \<longleftrightarrow>
     length (sh_sourceShare acct) = 32 \<and> list_all (\<lambda>b. b = 0) (sh_sourceShare acct)"

text \<open>The digest the holder signs: of the dWallet's attestation for a first share, else of the share's own.\<close>

definition solanaAcceptedDigest :: "sdk_lib \<Rightarrow> bool \<Rightarrow> verified_dwallet \<Rightarrow> attestation_record \<Rightarrow> bytes" where
  "solanaAcceptedDigest L firstShare dwallet rec =
     (if firstShare then keccak_256 L (vd_attestationData dwallet) else keccak_256 L (attestationData rec))"

definition verifySolanaEncryptedShareRecord ::
    "sdk_lib \<Rightarrow> encrypted_share_account \<Rightarrow> attestation_record \<Rightarrow> trusted_network_keys \<Rightarrow> verified_dwallet
      \<Rightarrow> bytes \<Rightarrow> asked_holder \<Rightarrow> bytes \<Rightarrow> bytes option \<Rightarrow> sdk_error + verified_solana_share" where
  "verifySolanaEncryptedShareRecord L acct rec trusted dwallet dwalletAddress holder registeredKey given =
     seqE (requireStoredField ''dwallet'' (equalBytes (sh_dwallet acct) dwalletAddress))
    (bindE (verifyEncryptedShareAttestationRecord L rec trusted dwallet holder) (\<lambda>att.
     seqE (requireStoredField ''encryption_key_owner''
             (equalBytes (holder_key (es_holder att)) (sh_encryptionKeyOwner acct)))
    (let firstShare = isShareOfTheCreatingRequest (es_session_identifier att) (vd_attestation dwallet) in
     seqE (requireStoredField ''source_share''
             (length (sh_sourceShare acct) = 32 \<and>
              (if firstShare then noSourceShare acct else \<not> noSourceShare acct)))
    (seqE (requireStoredField ''is_re_encrypted'' (sh_isReEncrypted acct = (\<not> firstShare)))
    (seqE (verifyStoredEncryptedShare L att (sh_encryptedShare acct))
    (seqE (verifyRegisteredEncryptionKey L att registeredKey)
    (let digest = solanaAcceptedDigest L firstShare dwallet rec;
         acceptanceGiven = (\<not> sh_accepted acct \<and> given \<noteq> None);
         signature = (if acceptanceGiven then (case given of None \<Rightarrow> [] | Some s \<Rightarrow> s)
                      else sh_acceptanceSignature acct) in
     seqE (requireStoredField ''accepted'' (sh_accepted acct \<or> acceptanceGiven))
    (seqE (requireStoredField ''acceptance_digest'' (equalBytes (sh_acceptanceDigest acct) digest))
    (seqE (requireStoredField ''acceptance_signature''
             (verifiedOrFalse (ed25519_verify L signature digest (holder_key (es_holder att)))))
     (Inr \<lparr>vs_attestation = att, vs_encryptedShare = sh_encryptedShare acct,
           vs_registeredEncryptionKey = registeredKey, vs_acceptanceSignature = signature,
           vs_acceptanceGiven = acceptanceGiven,
           vs_notCoveredBySignature =
             \<lparr>nc_createdEpoch = sh_createdEpoch acct, nc_bump = sh_bump acct,
              nc_reserved = sh_reserved acct\<rparr>\<rparr>))))))))))"

section \<open>A voucher's partial signature\<close>

definition verifySolanaPartialSignatureVoucher ::
    "sdk_lib \<Rightarrow> future_voucher \<Rightarrow> bytes \<Rightarrow> trusted_network_keys \<Rightarrow> sdk_error + partial_signature_attestation" where
  "verifySolanaPartialSignatureVoucher L voucher voucherAddress trusted =
     (if \<not> fv_hasPartialSignature voucher then Inl (field_error CkRecord ''attestation'')
      else bindE (decodeAttestationProof L (fv_attestationProof voucher)) (\<lambda>proof.
        case partialSignatureAttestationFields L voucher (proofVersion proof) of
          None \<Rightarrow> Inl (field_error CkRecord ''attestation'')
        | Some flds \<Rightarrow>
            verifyPartialSignatureVoucherRecord L proof flds trusted
              \<lparr>sv_address = voucherAddress, sv_messageDigest = vo_messageDigest voucher,
               sv_messageMetadataDigest = vo_messageMetadataDigest voucher,
               sv_signatureScheme = int (vo_signatureScheme voucher)\<rparr>))"

section \<open>What the checks decide\<close>

lemmas stored_simps = requireStoredField_def requireField_def verifyStoredEncryptedShare_def
  verifyRegisteredEncryptionKey_def

text \<open>The signature that stands for the holder's acceptance: the account's, or the one given where it has none.\<close>

definition acceptance_of :: "encrypted_share_account \<Rightarrow> bytes option \<Rightarrow> bytes option" where
  "acceptance_of acct given = (if sh_accepted acct then Some (sh_acceptanceSignature acct) else given)"

definition share_account_ok ::
    "sdk_lib \<Rightarrow> encrypted_share_account \<Rightarrow> encrypted_share_attestation \<Rightarrow> bool \<Rightarrow> bytes \<Rightarrow> bytes \<Rightarrow> bytes \<Rightarrow> bool" where
  "share_account_ok L acct att firstShare dwalletAddress registeredKey digest \<longleftrightarrow>
     sh_dwallet acct = dwalletAddress \<and>
     sh_encryptionKeyOwner acct = holder_key (es_holder att) \<and>
     length (sh_sourceShare acct) = 32 \<and>
     (sh_sourceShare acct = replicate 32 0) = firstShare \<and>
     sh_isReEncrypted acct = (\<not> firstShare) \<and>
     keccak_256 L (sh_encryptedShare acct) = es_encrypted_share_hash att \<and>
     keccak_256 L registeredKey = es_encryption_key_hash att \<and>
     sh_acceptanceDigest acct = digest"

lemma noSourceShare_iff: "noSourceShare acct \<longleftrightarrow> sh_sourceShare acct = replicate 32 0"
  by (auto simp: noSourceShare_def list_all_iff replicate_eqI)

lemma verifySolanaEncryptedShareRecord_Inr:
  "verifySolanaEncryptedShareRecord L acct rec trusted dwallet dwalletAddress holder registeredKey given = Inr v \<longleftrightarrow>
     (\<exists>att signature firstShare digest.
        verifyEncryptedShareAttestationRecord L rec trusted dwallet holder = Inr att \<and>
        firstShare = (es_session_identifier att = dw_session_identifier (vd_attestation dwallet)) \<and>
        digest = keccak_256 L (if firstShare then vd_attestationData dwallet else attestationData rec) \<and>
        share_account_ok L acct att firstShare dwalletAddress registeredKey digest \<and>
        acceptance_of acct given = Some signature \<and>
        ed25519_verify L signature digest (holder_key (es_holder att)) = Some True \<and>
        v = \<lparr>vs_attestation = att, vs_encryptedShare = sh_encryptedShare acct,
             vs_registeredEncryptionKey = registeredKey, vs_acceptanceSignature = signature,
             vs_acceptanceGiven = (\<not> sh_accepted acct),
             vs_notCoveredBySignature =
               \<lparr>nc_createdEpoch = sh_createdEpoch acct, nc_bump = sh_bump acct,
                nc_reserved = sh_reserved acct\<rparr>\<rparr>)"
proof (cases "verifyEncryptedShareAttestationRecord L rec trusted dwallet holder")
  case (Inl e)
  then show ?thesis by (simp add: verifySolanaEncryptedShareRecord_def result_simps)
next
  case (Inr att)
  note unfold = verifySolanaEncryptedShareRecord_def result_simps stored_simps Let_def noSourceShare_iff
    share_account_ok_def acceptance_of_def solanaAcceptedDigest_def isShareOfTheCreatingRequest_def Inr
  show ?thesis
  proof (cases "sh_accepted acct")
    case True
    then show ?thesis by (simp add: unfold) (intro conjI impI iffI; elim conjE; simp)
  next
    case False
    show ?thesis
    proof (cases given)
      case None
      with False show ?thesis by (simp add: unfold)
    next
      case (Some signature)
      with False show ?thesis by (simp add: unfold) (intro conjI impI iffI; elim conjE; simp)
    qed
  qed
qed

text \<open>
  A Solana encrypted share passes exactly when its attestation passes the core's check for the holder
  asked for, every field its account stores is the one the attestation and the dWallet fix, and a
  signature for its acceptance, the stored one or else the one given, verifies with the attested holder's
  key over the digest of the right attestation: the dWallet's for a first share, else the share's own.
\<close>

theorem verifySolanaEncryptedShareRecord_iff:
  "verifySolanaEncryptedShareRecord L acct rec trusted dwallet dwalletAddress holder registeredKey given = Inr v \<longleftrightarrow>
     (\<exists>att signature firstShare digest.
        verifyEncryptedShareAttestationRecord L rec trusted dwallet holder = Inr att \<and>
        firstShare = (es_session_identifier att = dw_session_identifier (vd_attestation dwallet)) \<and>
        digest = keccak_256 L (if firstShare then vd_attestationData dwallet else attestationData rec) \<and>
        share_account_ok L acct att firstShare dwalletAddress registeredKey digest \<and>
        acceptance_of acct given = Some signature \<and>
        ed25519_verify L signature digest (holder_key (es_holder att)) = Some True \<and>
        v = \<lparr>vs_attestation = att, vs_encryptedShare = sh_encryptedShare acct,
             vs_registeredEncryptionKey = registeredKey, vs_acceptanceSignature = signature,
             vs_acceptanceGiven = (\<not> sh_accepted acct),
             vs_notCoveredBySignature =
               \<lparr>nc_createdEpoch = sh_createdEpoch acct, nc_bump = sh_bump acct,
                nc_reserved = sh_reserved acct\<rparr>\<rparr>)"
  by (rule verifySolanaEncryptedShareRecord_Inr)

end
