(* ===== verification/Solana_Readers.thy ===== *)
theory Solana_Readers
  imports Request_Records Network_Key_Output Committee_Laws Table_Laws Reader_Laws
begin

text \<open>
  What the SDK reads of the ika protocol program on Solana: the reader of a network key's output
  records (\<open>sdk/solana/src/network-key-output.ts\<close>) and the committee's reader
  (\<open>sdk/solana/src/committee-reader.ts\<close>). A \<open>getAccount\<close> is an open read: it answers in its time,
  or never.
\<close>

section \<open>Reads of one account\<close>

definition openGuard :: "'e + 'a \<Rightarrow> ('a \<Rightarrow> ('e + 'b) open_read) \<Rightarrow> ('e + 'b) open_read" where
  "openGuard check read now = (case check of Inl e \<Rightarrow> Some (0, Inl e) | Inr x \<Rightarrow> read x now)"

definition openCheck :: "('e + 'a) open_read \<Rightarrow> ('a \<Rightarrow> 'e + 'b) \<Rightarrow> ('e + 'b) open_read" where
  "openCheck read check now = map_option (\<lambda>(dt, r). (dt, bindE r check)) (read now)"

definition mapFound :: "('a \<Rightarrow> 'e + 'b) \<Rightarrow> 'a option \<Rightarrow> 'e + 'b option" where
  "mapFound f found = (case found of None \<Rightarrow> Inr None | Some x \<Rightarrow> bindE (f x) (\<lambda>y. Inr (Some y)))"

text \<open>
  A read started by code that waits for it, the time it takes and its answer. The reads the check of an
  output makes are raced against the time left, so one that never settles is no different there from one
  that rejects.
\<close>

definition settled :: "('e, 'a) timed \<Rightarrow> 'e \<Rightarrow> ('e + 'a) timed_read" where
  "settled read never now =
     (case read now of None \<Rightarrow> (0, Inl never) | Some (t, r) \<Rightarrow> (nat (t - now), r))"

definition neverSettled :: sdk_error where
  "neverSettled = Err ''the read never settled''"

definition programAccount ::
    "bytes \<Rightarrow> string \<Rightarrow> (bytes \<Rightarrow> sdk_error + 'a option) \<Rightarrow> read_account \<Rightarrow> sdk_error + 'a option" where
  "programAccount programId name decode a =
     (if \<not> equalBytes (ra_owner a) programId
      then Inl (Err (''the '' @ name @ '' account is not owned by the ika protocol program''))
      else bindE (accountDataLen name) (\<lambda>len.
           bindE (if length (ra_data a) = len then decode (ra_data a) else Inr None) (\<lambda>decoded.
           case decoded of
             None \<Rightarrow> Inl (Err (''the '' @ name @ '' account does not read as one''))
           | Some x \<Rightarrow> Inr (Some x))))"

definition storedProof :: "bytes option \<Rightarrow> sdk_error + bytes" where
  "storedProof proof = ofOption (Err ''the record stores a proof length above its slot'') proof"

section \<open>The records of a network key\<close>

definition readKeyThrough ::
    "address_lib \<Rightarrow> bytes \<Rightarrow> bytes \<Rightarrow> get_account \<Rightarrow> (sdk_error + network_key_account option) open_read" where
  "readKeyThrough A programId key get =
     openCheck
       (openGuard (networkEncryptionKeyPda A programId key) (\<lambda>pda.
          throughAccount (address pda)
            (programAccount programId ''NetworkEncryptionKey'' readNetworkEncryptionKey) get))
       (mapFound (\<lambda>k.
          if \<not> equalBytes (nk_noaPublicKey k) key
          then Inl (Err ''the NetworkEncryptionKey account names another key'') else Inr k))"

definition dkgRecordThrough ::
    "address_lib \<Rightarrow> bytes \<Rightarrow> get_account \<Rightarrow> bytes \<Rightarrow> (sdk_error + output_record option) open_read" where
  "dkgRecordThrough A programId get key =
     openCheck (readKeyThrough A programId key get)
       (mapFound (\<lambda>k. bindE (storedProof (nk_proof k)) (\<lambda>proof.
          Inr \<lparr>rec_digest = nk_dkgOutputDigest k, rec_proof = proof\<rparr>)))"

definition reshareRecordThrough ::
    "address_lib \<Rightarrow> bytes \<Rightarrow> get_account \<Rightarrow> bytes \<Rightarrow> int \<Rightarrow> (sdk_error + output_record option) open_read" where
  "reshareRecordThrough A programId get key epoch =
     openCheck
       (openGuard (networkReconfigurationOutputPda A programId key epoch) (\<lambda>pda.
          throughAccount (address pda)
            (programAccount programId ''NetworkReconfigurationOutput'' readNetworkReconfigurationOutput) get))
       (mapFound (\<lambda>r.
          if \<not> equalBytes (rc_noaPublicKey r) key \<or> rc_epoch r \<noteq> epoch
          then Inl (Err ''the NetworkReconfigurationOutput account names another key or epoch'')
          else bindE (storedProof (rc_proof r)) (\<lambda>proof.
            Inr \<lparr>rec_digest = rc_digest r, rec_proof = proof\<rparr>)))"

definition keyRegistered ::
    "address_lib \<Rightarrow> (time \<Rightarrow> nat) \<Rightarrow> bytes \<Rightarrow> get_account \<Rightarrow> get_account solana_cross_check \<Rightarrow> bytes
      \<Rightarrow> (sdk_error, bool) timed" where
  "keyRegistered A lag programId get crossCheck key =
     bindT (crossCheckedAccountRead lag get crossCheck (readKeyThrough A programId key)
              (\<lambda>first second. equalBytes (nk_noaPublicKey first) (nk_noaPublicKey second) \<and>
                 equalBytes (nk_dkgOutputDigest first) (nk_dkgOutputDigest second)) None) (\<lambda>k.
     returnT (k \<noteq> None))"

definition chainNetworkKeyOutputRecordReader ::
    "address_lib \<Rightarrow> (time \<Rightarrow> nat) \<Rightarrow> bytes \<Rightarrow> get_account \<Rightarrow> get_account solana_cross_check \<Rightarrow> output_chain" where
  "chainNetworkKeyOutputRecordReader A lag programId get registrationCrossCheck =
     \<lparr>dkgRecord = (\<lambda>key. settled (openT (dkgRecordThrough A programId get key)) neverSettled),
      reconfigurationRecord = (\<lambda>key epoch.
        settled (openT (reshareRecordThrough A programId get key epoch)) neverSettled),
      isRegisteredNetworkKey = (\<lambda>key.
        if length key \<noteq> 32 then (\<lambda>_. (0, Inr False))
        else settled (keyRegistered A lag programId get registrationCrossCheck key) neverSettled),
      outputTimerLag = lag\<rparr>"

definition registrationCrossCheck :: "ika_network \<Rightarrow> 'g solana_cross_check \<Rightarrow> 'g solana_cross_check" where
  "registrationCrossCheck net crossCheck = (case net of Custom _ \<Rightarrow> crossCheck | Deployed _ \<Rightarrow> NotCrossChecked)"

definition networkKeyAddress :: "address_lib \<Rightarrow> bytes \<Rightarrow> bytes \<Rightarrow> sdk_error + bytes" where
  "networkKeyAddress A programId key = bindE (networkEncryptionKeyPda A programId key) (\<lambda>pda. Inr (address pda))"

definition solanaNetworkKeyOutputRecordReader ::
    "address_lib \<Rightarrow> (time \<Rightarrow> nat) \<Rightarrow> bytes \<Rightarrow> get_account \<Rightarrow> get_account solana_cross_check \<Rightarrow> ika_network
      \<Rightarrow> output_chain" where
  "solanaNetworkKeyOutputRecordReader A lag programId get crossCheck net =
     listedNetworkKeyRecordReader
       (chainNetworkKeyOutputRecordReader A lag programId get (registrationCrossCheck net crossCheck))
       net SolanaChain (networkKeyAddress A programId)"

definition readSolanaNetworkKeyOutputVerified ::
    "sdk_lib \<Rightarrow> address_lib \<Rightarrow> (time \<Rightarrow> nat) \<Rightarrow> bytes \<Rightarrow> get_account \<Rightarrow> get_account solana_cross_check
      \<Rightarrow> ika_network \<Rightarrow> (bytes \<Rightarrow> (sdk_error, network_key_output) timed) \<Rightarrow> bytes
      \<Rightarrow> (sdk_error, network_key_output) timed" where
  "readSolanaNetworkKeyOutputVerified L A lag programId get crossCheck net getNetworkKeyOutput key =
     bindT (liftT (listedNetworkKey net key)) (\<lambda>_.
     let records = solanaNetworkKeyOutputRecordReader A lag programId get crossCheck net in
     bindT (getNetworkKeyOutput key) (\<lambda>served.
     verifyNetworkKeyOutput L records served key RESHARE_RECORD_WAIT))"

section \<open>The committee's reader\<close>

definition SYSTEM_STATE_EPOCH :: nat where
  "SYSTEM_STATE_EPOCH = 2"

definition getBigUint64LE :: "bytes \<Rightarrow> nat \<Rightarrow> sdk_error + int" where
  "getBigUint64LE bs i =
     (if i + 8 \<le> length bs then Inr (le_value (slice i (i + 8) bs))
      else Inl (Err ''Offset is outside the bounds of the DataView''))"

definition decodeSystemState :: "bytes \<Rightarrow> read_account \<Rightarrow> sdk_error + int option" where
  "decodeSystemState programId a =
     (if \<not> equalBytes (ra_owner a) programId
      then Inl (Err ''the SystemState account is not owned by the ika protocol program'')
      else bindE (accountDataLen ''SystemState'') (\<lambda>len.
           bindE (if length (ra_data a) \<noteq> len then Inr True
                  else bindE (accountDiscriminator ''SystemState'') (\<lambda>d. Inr (byteAt (ra_data a) 0 \<noteq> d)))
             (\<lambda>refused.
           if refused then Inl (Err ''the SystemState account does not read as one'')
           else bindE (getBigUint64LE (ra_data a) SYSTEM_STATE_EPOCH) (\<lambda>e. Inr (Some e)))))"

definition readEpoch :: "address_lib \<Rightarrow> bytes \<Rightarrow> get_account \<Rightarrow> (sdk_error + int option) open_read" where
  "readEpoch A programId get =
     openGuard (deriveAddress A ''SystemState'' programId Map.empty) (\<lambda>pda.
       throughAccount (address pda) (decodeSystemState programId) get)"

definition solanaCommitteeReader ::
    "address_lib \<Rightarrow> (time \<Rightarrow> nat) \<Rightarrow> bytes \<Rightarrow> get_account \<Rightarrow> get_account solana_cross_check \<Rightarrow> ika_network
      \<Rightarrow> committee_chain" where
  "solanaCommitteeReader A lag programId get crossCheck net =
     (let records = solanaNetworkKeyOutputRecordReader A lag programId get crossCheck net in
      \<lparr>currentEpoch = settled
         (bindT (crossCheckedAccountRead lag get crossCheck (readEpoch A programId) (=) (Some id)) (\<lambda>e.
            liftT (ofOption (Err ''no SystemState account at the address read'') e))) neverSettled,
       isRegistered = isRegisteredNetworkKey records,
       epochTimerLag = lag\<rparr>)"

section \<open>What the readers answer\<close>

lemma openGuard_Inr [result_simps]:
  "openGuard check read now = Some (dt, Inr y) \<longleftrightarrow> (\<exists>x. check = Inr x \<and> read x now = Some (dt, Inr y))"
  by (auto simp: openGuard_def split: sum.splits)

lemma openCheck_Inr [result_simps]:
  "openCheck read check now = Some (dt, Inr y) \<longleftrightarrow> (\<exists>x. read now = Some (dt, Inr x) \<and> check x = Inr y)"
  by (auto simp: openCheck_def result_simps)

lemma mapFound_Some [result_simps]: "mapFound f found = Inr (Some y) \<longleftrightarrow> (\<exists>x. found = Some x \<and> f x = Inr y)"
  by (auto simp: mapFound_def result_simps split: option.splits)

lemma throughAccount_found:
  "throughAccount at decode get now = Some (dt, Inr (Some v)) \<longleftrightarrow>
     (\<exists>a. get at now = Some (dt, Inr (Some a)) \<and> decode a = Inr (Some v))"
  by (auto simp: throughAccount_def result_simps split: option.splits)

lemma settled_Inr: "settled read never now = (dt, Inr x) \<Longrightarrow> \<exists>t. read now = Some (t, Inr x)"
  by (auto simp: settled_def split: option.splits)

lemma openT_Inr: "openT read now = Some (t, Inr x) \<Longrightarrow> \<exists>dt. read now = Some (dt, Inr x)"
  by (auto simp: openT_def split: option.splits)

lemma programAccount_Some:
  "programAccount programId name decode a = Inr (Some x) \<longleftrightarrow>
     ra_owner a = programId \<and> accountDataLen name = Inr (length (ra_data a)) \<and> decode (ra_data a) = Inr (Some x)"
  by (auto simp: programAccount_def result_simps split: option.splits if_splits)

text \<open>An account the program owns that an endpoint answered at an address.\<close>

definition served :: "get_account \<Rightarrow> bytes \<Rightarrow> bytes \<Rightarrow> read_account \<Rightarrow> bool" where
  "served get programId at a \<longleftrightarrow> (\<exists>s dt. get at s = Some (dt, Inr (Some a))) \<and> ra_owner a = programId"

definition key_account :: "address_lib \<Rightarrow> bytes \<Rightarrow> get_account \<Rightarrow> bytes \<Rightarrow> network_key_account \<Rightarrow> bool" where
  "key_account A programId get key k \<longleftrightarrow>
     (\<exists>pda a. networkEncryptionKeyPda A programId key = Inr pda \<and> served get programId (address pda) a \<and>
        length (ra_data a) = 199 \<and> readNetworkEncryptionKey (ra_data a) = Inr (Some k)) \<and>
     nk_noaPublicKey k = key"

definition reshare_account ::
    "address_lib \<Rightarrow> bytes \<Rightarrow> get_account \<Rightarrow> bytes \<Rightarrow> int \<Rightarrow> reconfiguration_account \<Rightarrow> bool" where
  "reshare_account A programId get key epoch r \<longleftrightarrow>
     (\<exists>pda a. networkReconfigurationOutputPda A programId key epoch = Inr pda \<and>
        served get programId (address pda) a \<and>
        length (ra_data a) = 182 \<and> readNetworkReconfigurationOutput (ra_data a) = Inr (Some r)) \<and>
     rc_noaPublicKey r = key \<and> rc_epoch r = epoch"

lemma readKeyThrough_found:
  "readKeyThrough A programId key get now = Some (dt, Inr (Some k)) \<Longrightarrow> key_account A programId get key k"
  by (fastforce simp: readKeyThrough_def result_simps throughAccount_found programAccount_Some key_account_def
      served_def split: if_splits)

lemma dkgRecordThrough_found:
  "dkgRecordThrough A programId get key now = Some (dt, Inr (Some r)) \<Longrightarrow>
     \<exists>k. key_account A programId get key k \<and> nk_dkgOutputDigest k = rec_digest r \<and> nk_proof k = Some (rec_proof r)"
  by (auto simp: dkgRecordThrough_def result_simps storedProof_def dest!: readKeyThrough_found)

lemma reshareRecordThrough_found:
  "reshareRecordThrough A programId get key epoch now = Some (dt, Inr (Some r)) \<Longrightarrow>
     \<exists>k. reshare_account A programId get key epoch k \<and> rc_digest k = rec_digest r \<and> rc_proof k = Some (rec_proof r)"
  by (fastforce simp: reshareRecordThrough_def result_simps throughAccount_found programAccount_Some
      storedProof_def reshare_account_def served_def split: if_splits)

text \<open>A key the program registers, as the endpoints answered it.\<close>

definition registered_key ::
    "address_lib \<Rightarrow> bytes \<Rightarrow> get_account \<Rightarrow> get_account solana_cross_check \<Rightarrow> bytes \<Rightarrow> bool" where
  "registered_key A programId get crossCheck key \<longleftrightarrow> length key = 32 \<and>
     (\<exists>k. key_account A programId get key k \<and>
        (\<forall>get'. crossCheck = CrossCheckThrough get' \<longrightarrow>
           (\<exists>k'. key_account A programId get' key k' \<and> nk_dkgOutputDigest k' = nk_dkgOutputDigest k)))"

lemma keyRegistered_True:
  assumes "keyRegistered A lag programId get cc key now = Some (t, Inr True)" "length key = 32"
  shows "registered_key A programId get cc key"
proof -
  from assms(1) obtain k t'
    where "crossCheckedAccountRead lag get cc (readKeyThrough A programId key)
             (\<lambda>first second. equalBytes (nk_noaPublicKey first) (nk_noaPublicKey second) \<and>
                equalBytes (nk_dkgOutputDigest first) (nk_dkgOutputDigest second)) None now
           = Some (t', Inr (Some k))"
    by (auto simp: keyRegistered_def result_simps)
  note agreed = crossCheckedAccountRead_Inr [OF this]
  then have "key_account A programId get key k" by (auto dest: readKeyThrough_found)
  moreover have "\<exists>k'. key_account A programId get' key k' \<and> nk_dkgOutputDigest k' = nk_dkgOutputDigest k"
    if "cc = CrossCheckThrough get'" for get'
    using agreed that by (fastforce simp: sameValue_def split: option.splits dest: readKeyThrough_found)
  ultimately show ?thesis using assms(2) unfolding registered_key_def by blast
qed

lemma solana_registered:
  assumes "isRegisteredNetworkKey (solanaNetworkKeyOutputRecordReader A lag programId get cc net) signer now
             = (dt, Inr True)"
  shows "registered_key A programId get (registrationCrossCheck net cc) signer \<and>
    (\<forall>name. net = Deployed name \<longrightarrow> signer \<in> noaPublicKey ` set (networkKeys (IKA_DEPLOYED_NETWORKS name)))"
proof -
  let ?chain = "chainNetworkKeyOutputRecordReader A lag programId get (registrationCrossCheck net cc)"
  have "registered_key A programId get (registrationCrossCheck net cc) signer"
    if "isRegisteredNetworkKey ?chain signer now = (dt, Inr True)"
    using that unfolding chainNetworkKeyOutputRecordReader_def
    by (auto split: if_splits dest!: settled_Inr keyRegistered_True)
  then show ?thesis using assms unfolding solanaNetworkKeyOutputRecordReader_def listedNetworkKeyRecordReader_def
    by (auto split: ika_network.splits dest!: listed_registered)
qed

lemma solana_record:
  assumes "recordRead (solanaNetworkKeyOutputRecordReader A lag programId get cc net) key kind now
             = (dt, Inr (Some r))"
  shows "case kind of
      DkgRecord \<Rightarrow>
        (\<exists>k. key_account A programId get key k \<and> nk_dkgOutputDigest k = rec_digest r \<and>
           nk_proof k = Some (rec_proof r)) \<and>
        (\<forall>name. net = Deployed name \<longrightarrow>
           (\<exists>e. listed_at (IKA_DEPLOYED_NETWORKS name) SolanaChain (networkKeyAddress A programId) key e \<and>
              dkgOutputDigest e = rec_digest r))
    | ReshareRecord epoch \<Rightarrow>
        (\<exists>k. reshare_account A programId get key epoch k \<and> rc_digest k = rec_digest r \<and>
           rc_proof k = Some (rec_proof r))"
proof -
  let ?chain = "chainNetworkKeyOutputRecordReader A lag programId get (registrationCrossCheck net cc)"
  have chain: "dkgRecord ?chain key now = (dt, Inr (Some r)) \<Longrightarrow>
      \<exists>k. key_account A programId get key k \<and> nk_dkgOutputDigest k = rec_digest r \<and> nk_proof k = Some (rec_proof r)"
    "reconfigurationRecord ?chain key epoch now = (dt, Inr (Some r)) \<Longrightarrow>
      \<exists>k. reshare_account A programId get key epoch k \<and> rc_digest k = rec_digest r \<and> rc_proof k = Some (rec_proof r)"
    for epoch
    unfolding chainNetworkKeyOutputRecordReader_def
    by (auto dest!: settled_Inr openT_Inr dkgRecordThrough_found reshareRecordThrough_found)
  from assms chain show ?thesis unfolding solanaNetworkKeyOutputRecordReader_def listedNetworkKeyRecordReader_def
    by (auto split: ika_network.splits record_kind.splits
        dest!: listed_dkgRecord listed_reconfigurationRecord)
qed

section \<open>A network key's outputs, on Solana\<close>

text \<open>
  A digest is signed on Solana: a registered network key's signature over the message of the record is the
  proof the account stores.
\<close>

definition signed_on_solana ::
    "sdk_lib \<Rightarrow> address_lib \<Rightarrow> bytes \<Rightarrow> get_account \<Rightarrow> get_account solana_cross_check \<Rightarrow> ika_network
      \<Rightarrow> sdk_error + bytes \<Rightarrow> bytes option \<Rightarrow> bool" where
  "signed_on_solana L A programId get cc net message proof \<longleftrightarrow>
     (\<exists>m p signer. message = Inr m \<and> proof = Some p \<and> proof_of L m p signer \<and>
        registered_key A programId get (registrationCrossCheck net cc) signer \<and>
        (\<forall>name. net = Deployed name \<longrightarrow> signer \<in> noaPublicKey ` set (networkKeys (IKA_DEPLOYED_NETWORKS name))))"

text \<open>The two records, as the accounts they are read from.\<close>

lemma recorded_dkg:
  assumes "recorded L (solanaNetworkKeyOutputRecordReader A lag programId get cc net) key DkgRecord message digest"
  shows "(\<exists>k. key_account A programId get key k \<and> nk_dkgOutputDigest k = digest \<and>
           signed_on_solana L A programId get cc net (message digest) (nk_proof k)) \<and>
         (\<forall>name. net = Deployed name \<longrightarrow>
           (\<exists>e. listed_at (IKA_DEPLOYED_NETWORKS name) SolanaChain (networkKeyAddress A programId) key e \<and>
              dkgOutputDigest e = digest))"
proof -
  from assms obtain rec m signer s s' dt dt'
    where r: "recordRead (solanaNetworkKeyOutputRecordReader A lag programId get cc net) key DkgRecord s
                = (dt, Inr (Some rec))" "rec_digest rec = digest"
      and m: "message digest = Inr m" "proof_of L m (rec_proof rec) signer"
      and g: "isRegisteredNetworkKey (solanaNetworkKeyOutputRecordReader A lag programId get cc net) signer s'
                = (dt', Inr True)"
    unfolding recorded_def by (metis prod.collapse)
  from solana_record [OF r(1)] r(2) obtain k
    where "key_account A programId get key k" "nk_dkgOutputDigest k = digest" "nk_proof k = Some (rec_proof rec)"
      and "\<forall>name. net = Deployed name \<longrightarrow>
           (\<exists>e. listed_at (IKA_DEPLOYED_NETWORKS name) SolanaChain (networkKeyAddress A programId) key e \<and>
              dkgOutputDigest e = digest)" by auto
  with m solana_registered [OF g] show ?thesis unfolding signed_on_solana_def by blast
qed

lemma recorded_reshare:
  assumes "recorded L (solanaNetworkKeyOutputRecordReader A lag programId get cc net) key (ReshareRecord epoch)
             message digest"
  shows "\<exists>k. reshare_account A programId get key epoch k \<and> rc_digest k = digest \<and>
           signed_on_solana L A programId get cc net (message digest) (rc_proof k)"
proof -
  from assms obtain rec m signer s s' dt dt'
    where r: "recordRead (solanaNetworkKeyOutputRecordReader A lag programId get cc net) key (ReshareRecord epoch) s
                = (dt, Inr (Some rec))" "rec_digest rec = digest"
      and m: "message digest = Inr m" "proof_of L m (rec_proof rec) signer"
      and g: "isRegisteredNetworkKey (solanaNetworkKeyOutputRecordReader A lag programId get cc net) signer s'
                = (dt', Inr True)"
    unfolding recorded_def by (metis prod.collapse)
  from solana_record [OF r(1)] r(2) obtain k
    where "reshare_account A programId get key epoch k" "rc_digest k = digest" "rc_proof k = Some (rec_proof rec)"
    by auto
  with m solana_registered [OF g] show ?thesis unfolding signed_on_solana_def by blast
qed

text \<open>
  C23. The outputs \<open>readSolanaNetworkKeyOutputVerified\<close> returns are the ones the program on Solana records:
  an account the program owns, at the address derived from the network key, holds the DKG output's digest
  and a signature over it by a key that has such an account too, found by both endpoints on a custom
  network; so does the reshare's account for its epoch. On a deployed network the key, its address and
  its digest, and every signer, are the SDK's listed ones.
\<close>

theorem readSolanaNetworkKeyOutputVerified_sound:
  assumes "readSolanaNetworkKeyOutputVerified L A lag programId get cc net validators key now = Some (t, Inr out)"
  shows "networkKeyId out = key \<and>
    (\<exists>k. key_account A programId get key k \<and> nk_dkgOutputDigest k = blake2b_256 L (networkDkgOutput out) \<and>
       signed_on_solana L A programId get cc net
         (networkKeyDkgRecordMessage key (nk_dkgOutputDigest k)) (nk_proof k)) \<and>
    (case latestReconfigurationOutput out of
       None \<Rightarrow> True
     | Some reshare \<Rightarrow>
         \<exists>k. reshare_account A programId get key (out_epoch out) k \<and> rc_digest k = blake2b_256 L reshare \<and>
           signed_on_solana L A programId get cc net
             (networkKeyReconfigurationRecordMessage key (out_epoch out) (rc_digest k)) (rc_proof k)) \<and>
    (\<forall>name. net = Deployed name \<longrightarrow>
       (\<exists>e. listed_at (IKA_DEPLOYED_NETWORKS name) SolanaChain (networkKeyAddress A programId) key e \<and>
          dkgOutputDigest e = blake2b_256 L (networkDkgOutput out)))"
proof -
  let ?records = "solanaNetworkKeyOutputRecordReader A lag programId get cc net"
  from assms obtain found t'
    where "verifyNetworkKeyOutput L ?records found key RESHARE_RECORD_WAIT t' = Some (t, Inr out)"
    by (auto simp: readSolanaNetworkKeyOutputVerified_def Let_def result_simps)
  from verified_output [OF this] show ?thesis
    by (auto split: option.splits dest!: recorded_dkg recorded_reshare)
qed

section \<open>The committee, on Solana\<close>

text \<open>The epoch of the program's \<open>SystemState\<close> account, as an endpoint answered it.\<close>

definition system_epoch :: "address_lib \<Rightarrow> bytes \<Rightarrow> get_account \<Rightarrow> int \<Rightarrow> bool" where
  "system_epoch A programId get e \<longleftrightarrow>
     (\<exists>pda a. deriveAddress A ''SystemState'' programId Map.empty = Inr pda \<and>
        served get programId (address pda) a \<and> length (ra_data a) = 566 \<and> byteAt (ra_data a) 0 = 1 \<and>
        e = le_value (slice 2 10 (ra_data a)))"

lemma system_state_entry:
  "accountDataLen ''SystemState'' = Inr 566" "accountDiscriminator ''SystemState'' = Inr 1"
  by (simp_all add: accountDataLen_def accountDiscriminator_def accountEntry_def look_def
      wire_accounts_def account_def result_simps)

lemma decodeSystemState_Some:
  assumes "decodeSystemState programId a = Inr (Some e)"
  shows "ra_owner a = programId \<and> length (ra_data a) = 566 \<and> byteAt (ra_data a) 0 = 1 \<and>
    e = le_value (slice 2 10 (ra_data a))"
  using assms
  by (auto simp: decodeSystemState_def result_simps system_state_entry getBigUint64LE_def
      SYSTEM_STATE_EPOCH_def split: if_split_asm)

lemma readEpoch_found:
  assumes "readEpoch A programId get now = Some (dt, Inr (Some e))"
  shows "system_epoch A programId get e"
proof -
  from assms obtain pda a where "deriveAddress A ''SystemState'' programId Map.empty = Inr pda"
      "get (address pda) now = Some (dt, Inr (Some a))" "decodeSystemState programId a = Inr (Some e)"
    unfolding readEpoch_def openGuard_Inr throughAccount_found by blast
  then show ?thesis using decodeSystemState_Some unfolding system_epoch_def served_def by blast
qed

lemma solana_current_epoch:
  assumes "currentEpoch (solanaCommitteeReader A lag programId get cc net) now = (dt, Inr e)"
  shows "system_epoch A programId get e \<and>
    (\<forall>get'. cc = CrossCheckThrough get' \<longrightarrow> system_epoch A programId get' e)"
proof -
  from assms obtain t
    where "crossCheckedAccountRead lag get cc (readEpoch A programId) (=) (Some id) now = Some (t, Inr (Some e))"
    by (auto simp: solanaCommitteeReader_def Let_def result_simps dest!: settled_Inr)
  note agreed = crossCheckedAccountRead_Inr [OF this]
  then have "system_epoch A programId get e" by (auto dest: readEpoch_found)
  moreover have "system_epoch A programId get' e" if "cc = CrossCheckThrough get'" for get'
    using agreed that by (auto simp: sameValue_def split: option.splits dest: readEpoch_found)
  ultimately show ?thesis by blast
qed

text \<open>
  A committee accepted over Solana is signed by a key the program's accounts register, and its epoch is
  the epoch of the program's own \<open>SystemState\<close> account, or the next one; where the reads are
  cross-checked, the second endpoint answered that very epoch too. So one endpoint that serves an
  old epoch cannot make a former committee pass.
\<close>

theorem solana_committee_sound:
  assumes "verifyCommitteeAnswer L (solanaCommitteeReader A lag programId get cc net) answer retry now = Some (t, Inr r)"
  shows "system_epoch A programId get (vs_chainEpoch r) \<and>
    (\<forall>get'. cc = CrossCheckThrough get' \<longrightarrow> system_epoch A programId get' (vs_chainEpoch r)) \<and>
    vc_epoch (vs_committee r) \<in> {vs_chainEpoch r, vs_chainEpoch r + 1} \<and>
    (\<exists>c. ans_committee answer = Some c \<and> verifySignedCommittee L c ''committee'' = Inr (vs_committee r) \<and>
       registered_key A programId get (registrationCrossCheck net cc) (sc_signer c))"
proof -
  let ?chain = "solanaCommitteeReader A lag programId get cc net"
  from accepted_committee_answer [OF assms] obtain c s s'
    where c: "ans_committee answer = Some c" "verifySignedCommittee L c ''committee'' = Inr (vs_committee r)"
      and registered: "snd (isRegistered ?chain (sc_signer c) s) = Inr True"
      and epoch: "snd (currentEpoch ?chain s') = Inr (vs_chainEpoch r)"
      and range: "vc_epoch (vs_committee r) \<in> {vs_chainEpoch r, vs_chainEpoch r + 1}" by blast
  from registered obtain dt where
    "isRegisteredNetworkKey (solanaNetworkKeyOutputRecordReader A lag programId get cc net) (sc_signer c) s = (dt, Inr True)"
    by (cases "isRegistered ?chain (sc_signer c) s") (simp add: solanaCommitteeReader_def Let_def)
  note solana_registered [OF this]
  moreover from epoch obtain dt' where "currentEpoch ?chain s' = (dt', Inr (vs_chainEpoch r))"
    by (cases "currentEpoch ?chain s'") simp
  note solana_current_epoch [OF this]
  ultimately show ?thesis using c range by blast
qed

end
