(* ===== verification/Solana_Shares.thy ===== *)
theory Solana_Shares
  imports Solana_Records Solana_Readers Ownership_Laws
begin

text \<open>
  The reader of the ownership check over Solana accounts (\<open>sdk/solana/src/usability.ts\<close>), and the binding
  of a check's result to an approval. The core's share reader has no time of its own, so the reader here is
  the one of the reads started at one time, \<open>now\<close>; the re-reads of a cross check go on from there.
\<close>

section \<open>An approval and the check's result\<close>

record dwallet_usable_result =
  ur_chain :: request_chain
  ur_address :: bytes
  ur_holder :: bytes
  ur_share :: share_kind
  ur_verifiedAt :: time

record approval_usability =
  au_holderSignerPublicKey :: bytes
  au_usable :: "dwallet_usable_result option"
  au_check :: "(sdk_error + dwallet_usable_result) option"

definition approvalNeedsCheck :: sdk_error where
  "approvalNeedsCheck = Err ''an approval needs the ownership check''"

definition requireApprovalUsability ::
    "approval_usability option \<Rightarrow> bytes \<Rightarrow> sdk_error + dwallet_usable_result" where
  "requireApprovalUsability usability dwalletAddress =
     (case usability of
        None \<Rightarrow> Inl approvalNeedsCheck
      | Some u \<Rightarrow>
          bindE (case au_usable u of
                   Some r \<Rightarrow> Inr r
                 | None \<Rightarrow> (case au_check u of None \<Rightarrow> Inl approvalNeedsCheck | Some run \<Rightarrow> run)) (\<lambda>result.
          if ur_chain result \<noteq> OnSolana \<or> \<not> equalBytes (ur_address result) dwalletAddress
          then Inl (Err ''the ownership check's result is for another dWallet than this approval's'')
          else if \<not> equalBytes (ur_holder result) (au_holderSignerPublicKey u)
          then Inl (Err ''the ownership check's result is for another user key than the one given'')
          else Inr result))"

section \<open>The checked reader\<close>

record solana_share_read =
  sr_account :: encrypted_share_account
  sr_attestation :: attestation_record
  sr_registeredEncryptionKey :: bytes

record solana_reads =
  so_trustedNetworkKeys :: trusted_network_keys
  so_dwalletAddress :: "expected_dwallet \<Rightarrow> sdk_error + bytes"
  so_readDWalletAttestation :: "expected_dwallet \<Rightarrow> sdk_error + attestation_record option"
  so_readDWalletAccount :: "expected_dwallet \<Rightarrow> sdk_error + dwallet_account option"
  so_readEncryptedShare :: "expected_dwallet \<Rightarrow> bytes \<Rightarrow> sdk_error + solana_share_read option"
  so_readPublicShareAttestation :: "expected_dwallet \<Rightarrow> sdk_error + attestation_record option"
  so_readDWalletAt :: "(bytes \<Rightarrow> sdk_error + dwallet_account option) option"

definition storedOf :: "dwallet_account \<Rightarrow> stored_dwallet" where
  "storedOf a =
     \<lparr>sdw_curve = int (da_curve a), sdw_publicKey = da_publicKey a, sdw_isImportedKey = da_isImported a,
      sdw_importedSessionIdentifier = da_importedSessionIdentifier a\<rparr>"

definition checkedEncryptedShare ::
    "sdk_lib \<Rightarrow> solana_reads \<Rightarrow> trusted_network_keys \<Rightarrow> verified_dwallet \<Rightarrow> bytes \<Rightarrow> expected_dwallet \<Rightarrow> bytes
      \<Rightarrow> bytes option \<Rightarrow> sdk_error + checked_share_record option" where
  "checkedEncryptedShare L reads keys dwallet at looked holder given =
     bindE (so_readEncryptedShare reads looked holder) (mapFound (\<lambda>share.
       bindE (verifySolanaEncryptedShareRecord L (sr_account share) (sr_attestation share) keys dwallet at
                \<lparr>holderSignerPublicKey = holder, holderSignatureScheme = None\<rparr>
                (sr_registeredEncryptionKey share) given) (\<lambda>verified.
       Inr \<lparr>csr_record = sr_attestation share, csr_acceptanceGiven = vs_acceptanceGiven verified\<rparr>)))"

definition checkedReadDWallet ::
    "sdk_lib \<Rightarrow> solana_reads \<Rightarrow> trusted_network_keys \<Rightarrow> expected_dwallet
      \<Rightarrow> sdk_error + checked_dwallet_record option" where
  "checkedReadDWallet L reads keys looked =
     bindE (so_dwalletAddress reads looked) (\<lambda>at.
     bindE (so_readDWalletAttestation reads looked) (mapFound (\<lambda>attestation.
       bindE (verifyDWalletAttestationRecord L attestation keys looked) (\<lambda>dwallet.
       bindE (so_readDWalletAccount reads looked) (\<lambda>found.
       case found of
         None \<Rightarrow> Inl (field_error CkRecord ''noa_public_key'')
       | Some acct \<Rightarrow>
           if \<not> trusts keys (da_noaPublicKey acct) then Inl (field_error CkRecord ''noa_public_key'')
           else seqE (verifyStoredDWallet (storedOf acct) dwallet)
             (Inr \<lparr>cdr_address = at, cdr_networkPublicKey = da_noaPublicKey acct,
                   cdr_attestation = attestation,
                   cdr_readEncryptedShare = checkedEncryptedShare L reads keys dwallet at looked,
                   cdr_readPublicShare = so_readPublicShareAttestation reads looked,
                   cdr_migratedShare = None\<rparr>))))))"

definition checkedSolanaShareReader :: "sdk_lib \<Rightarrow> solana_reads \<Rightarrow> share_reader" where
  "checkedSolanaShareReader L reads =
     (let keys = copyTrustedNetworkKeys (so_trustedNetworkKeys reads) in
      \<lparr>rd_chain = OnSolana, rd_trusted = keys,
       rd_readDWallet = checkedReadDWallet L reads keys,
       rd_readDWalletAt = map_option (\<lambda>readAt asked.
         bindE (readAt asked) (\<lambda>found.
         case found of
           None \<Rightarrow> Inr None
         | Some atAsked \<Rightarrow>
             bindE (checkedReadDWallet L reads keys
                      \<lparr>ex_curve = int (da_curve atAsked), ex_publicKey = da_publicKey atAsked,
                       ex_importedSessionIdentifier = da_importedSessionIdentifier atAsked\<rparr>) (\<lambda>rec.
             case rec of
               None \<Rightarrow> Inr None
             | Some r \<Rightarrow> if \<not> equalBytes (cdr_address r) asked then Inl (field_error CkRecord ''address'')
                         else Inr (Some r)))) (so_readDWalletAt reads),
       rd_cryptography = None\<rparr>)"

section \<open>Over the program's accounts\<close>

definition sameAttestationRecord :: "attestation_record \<Rightarrow> attestation_record \<Rightarrow> bool" where
  "sameAttestationRecord first second \<longleftrightarrow>
     equalBytes (attestationData first) (attestationData second) \<and>
     attestationVersion first = attestationVersion second \<and>
     equalBytes (networkSignature first) (networkSignature second) \<and>
     equalBytes (signerNoaPublicKey first) (signerNoaPublicKey second)"

definition addressOf :: "sdk_error + derived_address \<Rightarrow> sdk_error + bytes" where
  "addressOf pda = bindE pda (\<lambda>p. Inr (address p))"

definition readShareAccount ::
    "bytes \<Rightarrow> string \<Rightarrow> (bytes \<Rightarrow> sdk_error + 'a option) \<Rightarrow> sdk_error + bytes \<Rightarrow> get_account
      \<Rightarrow> (sdk_error + 'a option) open_read" where
  "readShareAccount programId kind decode at get =
     openGuard at (\<lambda>p. throughAccount p (\<lambda>a.
       if \<not> equalBytes (ra_owner a) programId
       then Inl (Err (''the '' @ kind @ '' account is not owned by the ika-dwallet program''))
       else bindE (decode (ra_data a)) (\<lambda>decoded.
         case decoded of
           None \<Rightarrow> Inl (Err (''the '' @ kind @ '' account does not read as one''))
         | Some x \<Rightarrow> Inr (Some x))) get)"

text \<open>A read started at \<open>now\<close>, and what it settles with.\<close>

definition startedAt :: "time \<Rightarrow> (sdk_error, 'a) timed \<Rightarrow> sdk_error + 'a" where
  "startedAt now read = snd (settled read neverSettled now)"

definition readAttestationRecord ::
    "bytes \<Rightarrow> string \<Rightarrow> (bytes \<Rightarrow> sdk_error + attestation_account option) \<Rightarrow> sdk_error + bytes
      \<Rightarrow> get_account \<Rightarrow> (sdk_error + attestation_record option) open_read" where
  "readAttestationRecord programId kind decode pda get =
     openCheck (readShareAccount programId kind decode pda get) (\<lambda>a. Inr (map_option recordOfAccount a))"

definition readEncryptedShareAccounts ::
    "sdk_lib \<Rightarrow> address_lib \<Rightarrow> bytes \<Rightarrow> get_account \<Rightarrow> time \<Rightarrow> expected_dwallet \<Rightarrow> bytes
      \<Rightarrow> sdk_error + solana_share_read option" where
  "readEncryptedShareAccounts L A programId get now looked holder =
     (let curve = ex_curve looked; key = ex_publicKey looked; imported = ex_importedSessionIdentifier looked in
      bindE (startedAt now (openT (readShareAccount programId ''encrypted share''
               readEncryptedUserSecretKeyShareUnverified
               (addressOf (encryptedUserSecretKeySharePda A programId curve key holder imported)) get))) (\<lambda>acct.
      bindE (startedAt now (openT (readAttestationRecord programId ''encrypted share attestation''
               (readEncryptedShareAttestationUnverified L)
               (addressOf (encryptedShareAttestationPda A programId curve key holder imported)) get))) (\<lambda>attestation.
      case (acct, attestation) of
        (Some acc, Some att) \<Rightarrow>
          bindE (startedAt now (openT (readShareAccount programId ''encryption key''
                   readEncryptionKeyUnverified (addressOf (encryptionKeyPda A programId holder curve)) get))) (\<lambda>entry.
          case entry of
            None \<Rightarrow> Inl (field_error CkRecord ''encryption_key_hash'')
          | Some e \<Rightarrow>
              if \<not> equalBytes (ek_signerPublicKey e) holder \<or> int (ek_curve e) \<noteq> curve
              then Inl (field_error CkRecord ''encryption_key_hash'')
              else Inr (Some \<lparr>sr_account = acc, sr_attestation = att,
                              sr_registeredEncryptionKey = ek_encryptionKey e\<rparr>))
      | _ \<Rightarrow> Inr None)))"

definition accountReads ::
    "sdk_lib \<Rightarrow> address_lib \<Rightarrow> (time \<Rightarrow> nat) \<Rightarrow> bytes \<Rightarrow> get_account \<Rightarrow> get_account solana_cross_check
      \<Rightarrow> trusted_network_keys \<Rightarrow> time \<Rightarrow> solana_reads" where
  "accountReads L A lag programId get crossCheck keys now =
     \<lparr>so_trustedNetworkKeys = keys,
      so_dwalletAddress = (\<lambda>x.
        addressOf (dwalletPda A programId (ex_curve x) (ex_publicKey x) (ex_importedSessionIdentifier x))),
      so_readDWalletAttestation = (\<lambda>x.
        startedAt now (openT (readAttestationRecord programId ''dWallet attestation''
          (readDWalletAttestationUnverified L)
          (addressOf (dwalletAttestationPda A programId (ex_curve x) (ex_publicKey x) (ex_importedSessionIdentifier x))) get))),
      so_readDWalletAccount = (\<lambda>x.
        startedAt now (openT (readShareAccount programId ''dWallet'' readDWallet
          (addressOf (dwalletPda A programId (ex_curve x) (ex_publicKey x) (ex_importedSessionIdentifier x))) get))),
      so_readEncryptedShare = readEncryptedShareAccounts L A programId get now,
      so_readPublicShareAttestation = (\<lambda>x.
        startedAt now (crossCheckedAccountRead lag get crossCheck
          (readAttestationRecord programId ''public share attestation'' (readPublicShareAttestationUnverified L)
            (addressOf (publicUserShareAttestationPda A programId (ex_curve x) (ex_publicKey x)
               (ex_importedSessionIdentifier x))))
          sameAttestationRecord None)),
      so_readDWalletAt = Some (\<lambda>a.
        startedAt now (openT (readShareAccount programId ''dWallet'' readDWallet (Inr a) get)))\<rparr>"

definition dwalletShareReader ::
    "sdk_lib \<Rightarrow> address_lib \<Rightarrow> (time \<Rightarrow> nat) \<Rightarrow> bytes \<Rightarrow> get_account \<Rightarrow> get_account solana_cross_check
      \<Rightarrow> trusted_network_keys \<Rightarrow> time \<Rightarrow> share_reader" where
  "dwalletShareReader L A lag programId get crossCheck keys now =
     checkedSolanaShareReader L (accountReads L A lag programId get crossCheck keys now)"

end
