(* ===== verification/Instructions.thy ===== *)
theory Instructions
  imports Solana_Shares
begin

text \<open>
  The instructions a client sends to the ika program (\<open>sdk/solana/src/instructions.ts\<close>): the bytes and
  accounts of each, the messages a key signs for the program, and the read of a holder's registered
  encryption key. A \<open>PublicKey\<close> is its 32 bytes; \<open>@solana/web3.js\<close> is a parameter, \<open>web3_lib\<close>.
\<close>

section \<open>Instructions\<close>

record account_meta =
  meta_pubkey :: bytes
  meta_isSigner :: bool
  meta_isWritable :: bool

record instruction =
  ins_programId :: bytes
  ins_keys :: "account_meta list"
  ins_data :: bytes

definition meta :: "bytes \<Rightarrow> bool \<Rightarrow> bool \<Rightarrow> account_meta" where
  "meta k signer writable = \<lparr>meta_pubkey = k, meta_isSigner = signer, meta_isWritable = writable\<rparr>"

text \<open>\<open>createInstructionWithPublicKey\<close> takes the key, the message and the signature.\<close>

record web3_lib =
  newPublicKey :: "bytes \<Rightarrow> sdk_error + bytes"
  ed25519Instruction :: "bytes \<Rightarrow> bytes \<Rightarrow> bytes \<Rightarrow> sdk_error + instruction"
  ed25519ProgramId :: bytes
  systemProgramId :: bytes
  TOKEN_PROGRAM_ID :: bytes
  INSTRUCTIONS_SYSVAR_ID :: bytes

text \<open>\<open>data.set(field, at)\<close> and the \<open>DataView\<close> setters throw past the end of the buffer.\<close>

definition setBytes :: "nat \<Rightarrow> bytes \<Rightarrow> bytes \<Rightarrow> sdk_error + bytes" where
  "setBytes at field buffer =
     (if at + length field \<le> length buffer
      then Inr (take at buffer @ field @ drop (at + length field) buffer)
      else Inl (Err ''offset is out of bounds''))"

fun setAll :: "(nat \<times> bytes) list \<Rightarrow> bytes \<Rightarrow> sdk_error + bytes" where
  "setAll [] buffer = Inr buffer"
| "setAll ((at, field) # rest) buffer = bindE (setBytes at field buffer) (setAll rest)"

definition newData :: "nat \<Rightarrow> (nat \<times> bytes) list \<Rightarrow> sdk_error + bytes" where
  "newData n sets = setAll sets (replicate n 0)"

text \<open>The data of an instruction: its byte from the wire table, then the fields.\<close>

definition instructionData :: "string \<Rightarrow> nat \<Rightarrow> (nat \<times> bytes) list \<Rightarrow> sdk_error + bytes" where
  "instructionData name n sets = bindE (instructionByte name) (\<lambda>b. newData n ((0, [word_of_nat b]) # sets))"

section \<open>Addresses\<close>

definition addressKey :: "web3_lib \<Rightarrow> sdk_error + derived_address \<Rightarrow> sdk_error + bytes" where
  "addressKey W derived = bindE derived (\<lambda>d. newPublicKey W (address d))"

definition coordinatorAddress :: "web3_lib \<Rightarrow> address_lib \<Rightarrow> bytes \<Rightarrow> sdk_error + bytes" where
  "coordinatorAddress W A programId = addressKey W (dwalletCoordinatorPda A programId)"

definition gasDepositAddress :: "web3_lib \<Rightarrow> address_lib \<Rightarrow> bytes \<Rightarrow> bytes \<Rightarrow> sdk_error + bytes \<times> nat" where
  "gasDepositAddress W A programId requestPublicKey =
     bindE (gasDepositPda A programId requestPublicKey) (\<lambda>derived.
     bindE (newPublicKey W (address derived)) (\<lambda>key. Inr (key, bump derived)))"

definition eventAuthorityAddress :: "web3_lib \<Rightarrow> address_lib \<Rightarrow> bytes \<Rightarrow> sdk_error + bytes" where
  "eventAuthorityAddress W A programId =
     addressKey W (findProgramAddress A [ascii ''__event_authority''] programId)"

section \<open>The proof of possession of a deposit\<close>

definition DEPOSIT_PROOF_DOMAIN :: string where
  "DEPOSIT_PROOF_DOMAIN = ''ika_protocol::gas::proof_of_possession''"

definition DEPOSIT_PROOF_MESSAGE_VERSION :: int where
  "DEPOSIT_PROOF_MESSAGE_VERSION = 1"

definition depositProofMessage :: "int \<Rightarrow> int \<Rightarrow> bytes \<Rightarrow> sdk_error + bytes" where
  "depositProofMessage chainNumber net sender =
     (let domain = ascii DEPOSIT_PROOF_DOMAIN; at = 2 + length domain in
      newData (2 + length domain + 4 + 1 + 1 + length sender)
        [(0, le_bytes 2 DEPOSIT_PROOF_MESSAGE_VERSION), (2, domain), (at, le_bytes 4 chainNumber),
         (at + 4, [word_of_int net]), (at + 5, [word_of_nat (length sender)]), (at + 6, sender)])"

datatype request_key = SigningKeypair (request_key_public: bytes) bytes | ProofMade (request_key_public: bytes) bytes

record create_deposit =
  cr_sender :: bytes
  cr_payer :: "bytes option"
  cr_requestKey :: request_key
  cr_chainNumber :: int
  cr_network :: int

definition createDepositInstructions ::
    "web3_lib \<Rightarrow> address_lib \<Rightarrow> ed25519_lib \<Rightarrow> bytes \<Rightarrow> create_deposit \<Rightarrow> sdk_error + instruction list" where
  "createDepositInstructions W A E programId params =
     (let sender = cr_sender params; key = cr_requestKey params;
          payer = (case cr_payer params of None \<Rightarrow> sender | Some p \<Rightarrow> p) in
      bindE (gasDepositAddress W A programId (request_key_public key)) (\<lambda>(deposit, b).
      bindE (depositProofMessage (cr_chainNumber params) (cr_network params) sender) (\<lambda>message.
      bindE (case key of
               SigningKeypair _ secretKey \<Rightarrow> ofOption (Err ''ed25519'') (edSign E message secretKey)
             | ProofMade _ proof \<Rightarrow> Inr proof) (\<lambda>signature.
      bindE (instructionData ''DWalletCreateDeposit'' 98
               [(1, request_key_public key), (33, signature), (97, [word_of_nat b])]) (\<lambda>ins_bytes.
      bindE (ed25519Instruction W (request_key_public key) message signature) (\<lambda>precompile.
      bindE (coordinatorAddress W A programId) (\<lambda>coordinator.
      Inr [precompile,
        \<lparr>ins_programId = programId,
         ins_keys = [meta sender True False, meta deposit False True, meta coordinator False False,
                     meta payer True True, meta (systemProgramId W) False False,
                     meta (INSTRUCTIONS_SYSVAR_ID W) False False],
         ins_data = ins_bytes\<rparr>])))))))"

section \<open>Top-ups and withdrawals\<close>

record top_up =
  tu_deposit :: bytes
  tu_payer :: bytes
  tu_ikaTokenAccount :: bytes
  tu_treasuryVault :: bytes
  tu_ikaAmount :: int
  tu_solAmount :: int

definition topUpInstruction ::
    "web3_lib \<Rightarrow> address_lib \<Rightarrow> bytes \<Rightarrow> top_up \<Rightarrow> sdk_error + instruction" where
  "topUpInstruction W A programId params =
     bindE (instructionData ''DWalletTopUp'' 17
              [(1, le_bytes 8 (tu_ikaAmount params)), (9, le_bytes 8 (tu_solAmount params))]) (\<lambda>ins_bytes.
     bindE (coordinatorAddress W A programId) (\<lambda>coordinator.
     Inr \<lparr>ins_programId = programId,
          ins_keys = [meta (tu_deposit params) False True, meta coordinator False False,
                      meta (tu_ikaTokenAccount params) False True, meta (tu_treasuryVault params) False True,
                      meta (TOKEN_PROGRAM_ID W) False False, meta (tu_payer params) True True,
                      meta (systemProgramId W) False False],
          ins_data = ins_bytes\<rparr>))"

record request_withdraw =
  rw_owner :: bytes
  rw_deposit :: bytes
  rw_ikaAmount :: int
  rw_solAmount :: int

definition requestWithdrawInstruction ::
    "web3_lib \<Rightarrow> address_lib \<Rightarrow> bytes \<Rightarrow> request_withdraw \<Rightarrow> sdk_error + instruction" where
  "requestWithdrawInstruction W A programId params =
     bindE (instructionData ''DWalletRequestWithdraw'' 17
              [(1, le_bytes 8 (rw_ikaAmount params)), (9, le_bytes 8 (rw_solAmount params))]) (\<lambda>ins_bytes.
     bindE (coordinatorAddress W A programId) (\<lambda>coordinator.
     Inr \<lparr>ins_programId = programId,
          ins_keys = [meta (rw_owner params) True False, meta (rw_deposit params) False True,
                      meta coordinator False False],
          ins_data = ins_bytes\<rparr>))"

definition GAS_RELEASE_PREFIX :: bytes where
  "GAS_RELEASE_PREFIX = 0xff # ascii ''solana-gas-release''"

record gas_release =
  gr_deposit :: bytes
  gr_requestPublicKey :: bytes
  gr_withdrawalSequence :: int
  gr_ikaAmount :: int
  gr_solAmount :: int

definition gasReleaseMessage :: "bytes \<Rightarrow> gas_release \<Rightarrow> sdk_error + bytes" where
  "gasReleaseMessage programId params =
     (let at = length GAS_RELEASE_PREFIX in
      newData (at + 32 * 3 + 8 * 3)
        [(0, GAS_RELEASE_PREFIX), (at, programId), (at + 32, gr_deposit params),
         (at + 64, gr_requestPublicKey params), (at + 96, le_bytes 8 (gr_withdrawalSequence params)),
         (at + 96 + 8, le_bytes 8 (gr_ikaAmount params)), (at + 96 + 16, le_bytes 8 (gr_solAmount params))])"

record withdraw =
  wd_owner :: bytes
  wd_deposit :: bytes
  wd_requestPublicKey :: bytes
  wd_ikaTokenAccount :: bytes
  wd_treasuryVault :: bytes
  wd_networkPublicKey :: bytes
  wd_withdrawalSequence :: int
  wd_ikaAmount :: int
  wd_solAmount :: int
  wd_signature :: bytes

definition withdrawInstructions ::
    "web3_lib \<Rightarrow> address_lib \<Rightarrow> bytes \<Rightarrow> withdraw \<Rightarrow> sdk_error + instruction list" where
  "withdrawInstructions W A programId params =
     bindE (gasReleaseMessage programId
              \<lparr>gr_deposit = wd_deposit params, gr_requestPublicKey = wd_requestPublicKey params,
               gr_withdrawalSequence = wd_withdrawalSequence params, gr_ikaAmount = wd_ikaAmount params,
               gr_solAmount = wd_solAmount params\<rparr>) (\<lambda>message.
     bindE (instructionData ''DWalletWithdraw'' 73
              [(1, le_bytes 8 (wd_withdrawalSequence params)), (9, wd_signature params)]) (\<lambda>ins_bytes.
     bindE (addressKey W (findProgramAddress A [ascii ''vault_authority''] programId)) (\<lambda>vaultAuthority.
     bindE (addressKey W (networkEncryptionKeyPda A programId (wd_networkPublicKey params))) (\<lambda>networkKey.
     bindE (ed25519Instruction W (wd_networkPublicKey params) message (wd_signature params)) (\<lambda>precompile.
     bindE (coordinatorAddress W A programId) (\<lambda>coordinator.
     Inr [precompile,
       \<lparr>ins_programId = programId,
        ins_keys = [meta (wd_owner params) True True, meta (wd_deposit params) False True,
                    meta coordinator False False, meta (wd_ikaTokenAccount params) False True,
                    meta (wd_treasuryVault params) False True, meta vaultAuthority False False,
                    meta (TOKEN_PROGRAM_ID W) False False, meta networkKey False False,
                    meta (INSTRUCTIONS_SYSVAR_ID W) False False],
        ins_data = ins_bytes\<rparr>]))))))"

section \<open>New owners\<close>

definition transferGasDepositInstruction ::
    "web3_lib \<Rightarrow> address_lib \<Rightarrow> bytes \<Rightarrow> bytes \<Rightarrow> bytes \<Rightarrow> bytes \<Rightarrow> sdk_error + instruction" where
  "transferGasDepositInstruction W A programId owner deposit newOwner =
     bindE (instructionData ''DWalletTransferGasDeposit'' 33 [(1, newOwner)]) (\<lambda>ins_bytes.
     bindE (eventAuthorityAddress W A programId) (\<lambda>authority.
     Inr \<lparr>ins_programId = programId,
          ins_keys = [meta owner True False, meta deposit False True, meta authority False False,
                      meta programId False False],
          ins_data = ins_bytes\<rparr>))"

definition transferOwnershipInstruction :: "bytes \<Rightarrow> bytes \<Rightarrow> bytes \<Rightarrow> bytes \<Rightarrow> sdk_error + instruction" where
  "transferOwnershipInstruction programId owner dwallet newOwner =
     bindE (instructionData ''DWalletTransferOwnership'' 33 [(1, newOwner)]) (\<lambda>ins_bytes.
     Inr \<lparr>ins_programId = programId, ins_keys = [meta owner True False, meta dwallet False True],
          ins_data = ins_bytes\<rparr>)"

section \<open>Vouchers\<close>

definition ISSUE_VOUCHER_HAS_OWNER :: nat where "ISSUE_VOUCHER_HAS_OWNER = 1"
definition ISSUE_VOUCHER_HAS_SIGNING_KEY :: nat where "ISSUE_VOUCHER_HAS_SIGNING_KEY = 2"

record issue_voucher =
  iv_owner :: bytes
  iv_dwallet :: bytes
  iv_voucher :: bytes
  iv_messageDigest :: bytes
  iv_messageMetadataDigest :: "bytes option"
  iv_signatureScheme :: int
  iv_requestPublicKey :: "bytes option"
  iv_voucherOwner :: "bytes option"
  iv_payer :: "bytes option"
  iv_usability :: "approval_usability option"

definition presentFields :: "bytes option list \<Rightarrow> bytes list" where
  "presentFields fs = List.map_filter id fs"

definition voucherFlags :: "issue_voucher \<Rightarrow> nat" where
  "voucherFlags params =
     (case iv_voucherOwner params of None \<Rightarrow> 0 | Some _ \<Rightarrow> ISSUE_VOUCHER_HAS_OWNER) +
     (case iv_requestPublicKey params of None \<Rightarrow> 0 | Some _ \<Rightarrow> ISSUE_VOUCHER_HAS_SIGNING_KEY)"

definition issueSignatureVoucherInstruction ::
    "web3_lib \<Rightarrow> address_lib \<Rightarrow> bytes \<Rightarrow> issue_voucher \<Rightarrow> sdk_error + instruction" where
  "issueSignatureVoucherInstruction W A programId params =
     bindE (requireApprovalUsability (iv_usability params) (iv_dwallet params)) (\<lambda>_.
     let metadataDigest = (case iv_messageMetadataDigest params of None \<Rightarrow> replicate 32 0 | Some d \<Rightarrow> d);
         present = presentFields [iv_voucherOwner params, iv_requestPublicKey params];
         payer = (case iv_payer params of None \<Rightarrow> iv_owner params | Some p \<Rightarrow> p) in
     bindE (instructionData ''DWalletIssueSignatureVoucher'' (68 + 32 * length present)
              ([(1, iv_messageDigest params), (33, metadataDigest), (65, le_bytes 2 (iv_signatureScheme params)),
                (67, [word_of_nat (voucherFlags params)])] @
               zip (map (\<lambda>i. 68 + 32 * i) [0..<length present]) present)) (\<lambda>ins_bytes.
     bindE (coordinatorAddress W A programId) (\<lambda>coordinator.
     Inr \<lparr>ins_programId = programId,
          ins_keys = [meta coordinator False False, meta (iv_voucher params) True True,
                      meta (iv_dwallet params) False False, meta (iv_owner params) True False,
                      meta payer True True, meta (systemProgramId W) False False],
          ins_data = ins_bytes\<rparr>)))"

definition issueFutureSignatureVoucherInstruction ::
    "web3_lib \<Rightarrow> address_lib \<Rightarrow> bytes \<Rightarrow> issue_voucher \<Rightarrow> sdk_error + instruction" where
  "issueFutureSignatureVoucherInstruction W A programId params =
     bindE (issueSignatureVoucherInstruction W A programId params) (\<lambda>ins.
     bindE (instructionByte ''DWalletIssueFutureSignatureVoucher'') (\<lambda>b.
       Inr (ins\<lparr>ins_data := (ins_data ins)[0 := word_of_nat b]\<rparr>)))"

definition voucherControlInstruction :: "bytes \<Rightarrow> bytes \<Rightarrow> bytes \<Rightarrow> bytes \<Rightarrow> instruction" where
  "voucherControlInstruction programId voucherOwner voucher ins_bytes =
     \<lparr>ins_programId = programId, ins_keys = [meta voucher False True, meta voucherOwner True False],
      ins_data = ins_bytes\<rparr>"

definition setVoucherSigningKeyInstruction :: "bytes \<Rightarrow> bytes \<Rightarrow> bytes \<Rightarrow> bytes \<Rightarrow> sdk_error + instruction" where
  "setVoucherSigningKeyInstruction programId voucherOwner voucher requestPublicKey =
     bindE (instructionData ''DWalletSetVoucherSigningKey'' 33 [(1, requestPublicKey)]) (\<lambda>ins_bytes.
       Inr (voucherControlInstruction programId voucherOwner voucher ins_bytes))"

definition revokeSignatureVoucherInstruction :: "bytes \<Rightarrow> bytes \<Rightarrow> bytes \<Rightarrow> sdk_error + instruction" where
  "revokeSignatureVoucherInstruction programId voucherOwner voucher =
     bindE (instructionData ''DWalletRevokeSignatureVoucher'' 1 []) (\<lambda>ins_bytes.
       Inr (voucherControlInstruction programId voucherOwner voucher ins_bytes))"

definition transferSignatureVoucherInstruction :: "bytes \<Rightarrow> bytes \<Rightarrow> bytes \<Rightarrow> bytes \<Rightarrow> sdk_error + instruction" where
  "transferSignatureVoucherInstruction programId voucherOwner voucher newOwner =
     bindE (instructionData ''DWalletTransferSignatureVoucher'' 33 [(1, newOwner)]) (\<lambda>ins_bytes.
       Inr (voucherControlInstruction programId voucherOwner voucher ins_bytes))"

end
