(* ===== verification/Key_Registry.thy ===== *)
theory Key_Registry
  imports Instructions
begin

text \<open>
  The rest of \<open>sdk/solana/src/instructions.ts\<close>: pausing a signing parameter, registering an encryption
  key, accepting a share, and the read of a holder's registered key, checked against the holder's own
  signature and cross-checked through a second endpoint.
\<close>

section \<open>Signing parameters\<close>

definition SIGNING_PARAMETER_CURVE :: int where "SIGNING_PARAMETER_CURVE = 0"
definition SIGNING_PARAMETER_SIGNATURE_ALGORITHM :: int where "SIGNING_PARAMETER_SIGNATURE_ALGORITHM = 1"
definition SIGNING_PARAMETER_HASH_SCHEME :: int where "SIGNING_PARAMETER_HASH_SCHEME = 2"

record signing_parameter =
  sp_signer :: bytes
  sp_signerIsNetworkKey :: bool
  sp_kind :: int
  sp_value :: int

definition signingParameterInstruction ::
    "string \<Rightarrow> web3_lib \<Rightarrow> address_lib \<Rightarrow> bytes \<Rightarrow> signing_parameter \<Rightarrow> sdk_error + instruction" where
  "signingParameterInstruction name W A programId params =
     bindE (instructionData name 6 [(1, [word_of_int (sp_kind params)]), (2, le_bytes 4 (sp_value params))]) (\<lambda>ins_bytes.
     bindE (coordinatorAddress W A programId) (\<lambda>coordinator.
     bindE (eventAuthorityAddress W A programId) (\<lambda>authority.
     let base = [meta coordinator False True, meta (sp_signer params) True False, meta authority False False,
                 meta programId False False] in
     bindE (if sp_signerIsNetworkKey params
            then bindE (addressKey W (networkEncryptionKeyPda A programId (sp_signer params))) (\<lambda>key.
                   Inr (base @ [meta key False False]))
            else Inr base) (\<lambda>accounts.
     Inr \<lparr>ins_programId = programId, ins_keys = accounts, ins_data = ins_bytes\<rparr>))))"

definition pauseSigningParameterInstruction ::
    "web3_lib \<Rightarrow> address_lib \<Rightarrow> bytes \<Rightarrow> signing_parameter \<Rightarrow> sdk_error + instruction" where
  "pauseSigningParameterInstruction = signingParameterInstruction ''DWalletPauseSigningParameter''"

definition unpauseSigningParameterInstruction ::
    "web3_lib \<Rightarrow> address_lib \<Rightarrow> bytes \<Rightarrow> signing_parameter \<Rightarrow> sdk_error + instruction" where
  "unpauseSigningParameterInstruction = signingParameterInstruction ''DWalletUnpauseSigningParameter''"

section \<open>Registering an encryption key\<close>

definition ENCRYPTION_KEY_ED25519_SIGNATURE_SCHEME :: nat where
  "ENCRYPTION_KEY_ED25519_SIGNATURE_SCHEME = 0"

definition ENCRYPTION_KEY_REGISTRATION_DOMAIN :: string where
  "ENCRYPTION_KEY_REGISTRATION_DOMAIN = ''ika_encryption_key''"

definition ENCRYPTION_KEY_REGISTRATION_MESSAGE_VERSION :: int where
  "ENCRYPTION_KEY_REGISTRATION_MESSAGE_VERSION = 1"

text \<open>The \<open>do ... while\<close> loop of \<open>uleb128\<close>: the low seven bits, with the top bit unless nothing is left.\<close>

fun uleb128Loop :: "nat \<Rightarrow> bytes" where
  "uleb128Loop value =
     (let low = value mod 128; left = value div 128
      in if left = 0 then [word_of_nat low] else word_of_nat (low + 128) # uleb128Loop left)"

declare uleb128Loop.simps [simp del]

definition u32LittleEndian :: "int \<Rightarrow> bytes" where
  "u32LittleEndian value = [word_of_int value, word_of_int (value div 2 ^ 8), word_of_int (value div 2 ^ 16),
     word_of_int (value div 2 ^ 24)]"

definition encryptionKeyRegistrationMessage :: "int \<Rightarrow> int \<Rightarrow> int \<Rightarrow> bytes \<Rightarrow> bytes" where
  "encryptionKeyRegistrationMessage chainNumber net curve encryptionKey =
     (let domain = ascii ENCRYPTION_KEY_REGISTRATION_DOMAIN in
      [word_of_int ENCRYPTION_KEY_REGISTRATION_MESSAGE_VERSION,
       word_of_int (ENCRYPTION_KEY_REGISTRATION_MESSAGE_VERSION div 2 ^ 8)] @
      uleb128Loop (length domain) @ domain @ u32LittleEndian chainNumber @ [word_of_int net] @
      [word_of_int curve, word_of_int (curve div 2 ^ 8)] @
      uleb128Loop (length encryptionKey) @ encryptionKey)"

definition signEncryptionKeyRegistration ::
    "ed25519_lib \<Rightarrow> bytes \<Rightarrow> int \<Rightarrow> int \<Rightarrow> int \<Rightarrow> bytes \<Rightarrow> sdk_error + bytes" where
  "signEncryptionKeyRegistration E secretKey chainNumber net curve encryptionKey =
     ofOption (Err ''ed25519'')
       (edSign E (encryptionKeyRegistrationMessage chainNumber net curve encryptionKey) secretKey)"

definition registrationPrecompileInstruction ::
    "web3_lib \<Rightarrow> bytes \<Rightarrow> bytes \<Rightarrow> bytes \<Rightarrow> sdk_error + instruction" where
  "registrationPrecompileInstruction W holderPublicKey message signature =
     (let publicKeyOffset = 2 + 14; signatureOffset = publicKeyOffset + 32; messageOffset = signatureOffset + 64;
          flds = [int signatureOffset, 0xffff, int publicKeyOffset, 0xffff, int messageOffset,
                  int (length message), 0xffff] in
      bindE (newData (messageOffset + length message)
               ((0, [1]) # zip (map (\<lambda>i. 2 + i * 2) [0..<length flds]) (map (le_bytes 2) flds) @
                [(publicKeyOffset, holderPublicKey), (signatureOffset, signature), (messageOffset, message)]))
        (\<lambda>ins_bytes. Inr \<lparr>ins_programId = ed25519ProgramId W, ins_keys = [], ins_data = ins_bytes\<rparr>))"

record register_key =
  rk_payer :: bytes
  rk_holderPublicKey :: bytes
  rk_chainNumber :: int
  rk_network :: int
  rk_curve :: int
  rk_encryptionKey :: bytes
  rk_signature :: bytes

definition registerEncryptionKeyInstructions ::
    "web3_lib \<Rightarrow> address_lib \<Rightarrow> bytes \<Rightarrow> register_key \<Rightarrow> sdk_error + instruction list" where
  "registerEncryptionKeyInstructions W A programId params =
     (let holder = rk_holderPublicKey params; curve = rk_curve params in
      bindE (encryptionKeyPda A programId holder curve) (\<lambda>entry.
      bindE (instructionData ''DWalletRegisterEncryptionKey'' 37
               [(1, holder), (33, [word_of_nat ENCRYPTION_KEY_ED25519_SIGNATURE_SCHEME]), (34, le_bytes 2 curve),
                (36, [word_of_nat (bump entry)])]) (\<lambda>ins_bytes.
      bindE (registrationPrecompileInstruction W holder
               (encryptionKeyRegistrationMessage (rk_chainNumber params) (rk_network params) curve
                  (rk_encryptionKey params)) (rk_signature params)) (\<lambda>precompile.
      bindE (newPublicKey W holder) (\<lambda>holderKey.
      bindE (newPublicKey W (address entry)) (\<lambda>entryKey.
      bindE (coordinatorAddress W A programId) (\<lambda>coordinator.
      bindE (eventAuthorityAddress W A programId) (\<lambda>authority.
      Inr [precompile,
        \<lparr>ins_programId = programId,
         ins_keys = [meta holderKey False False, meta entryKey False True, meta coordinator False False,
                     meta (rk_payer params) True True, meta (systemProgramId W) False False,
                     meta (INSTRUCTIONS_SYSVAR_ID W) False False, meta authority False False,
                     meta programId False False],
         ins_data = ins_bytes\<rparr>]))))))))"

section \<open>Accepting a share\<close>

record accept_share =
  as_dwallet :: expected_dwallet
  as_holderPublicKey :: bytes
  as_acceptanceDigest :: bytes
  as_signature :: bytes

definition acceptEncryptedUserShareInstructions ::
    "web3_lib \<Rightarrow> address_lib \<Rightarrow> bytes \<Rightarrow> accept_share \<Rightarrow> sdk_error + instruction list" where
  "acceptEncryptedUserShareInstructions W A programId params =
     (let d = as_dwallet params; holder = as_holderPublicKey params in
      bindE (dwalletPda A programId (ex_curve d) (ex_publicKey d) (ex_importedSessionIdentifier d)) (\<lambda>dwallet.
      bindE (encryptedUserSecretKeySharePda A programId (ex_curve d) (ex_publicKey d) holder
               (ex_importedSessionIdentifier d)) (\<lambda>share.
      bindE (registrationPrecompileInstruction W holder (as_acceptanceDigest params) (as_signature params)) (\<lambda>precompile.
      bindE (coordinatorAddress W A programId) (\<lambda>coordinator.
      bindE (newPublicKey W (address dwallet)) (\<lambda>dwalletKey.
      bindE (newPublicKey W (address share)) (\<lambda>shareKey.
      bindE (eventAuthorityAddress W A programId) (\<lambda>authority.
      bindE (instructionData ''DWalletAcceptEncryptedUserShare'' 1 []) (\<lambda>ins_bytes.
      Inr [precompile,
        \<lparr>ins_programId = programId,
         ins_keys = [meta coordinator False False, meta dwalletKey False True, meta shareKey False True,
                     meta (INSTRUCTIONS_SYSVAR_ID W) False False, meta authority False False,
                     meta programId False False],
         ins_data = ins_bytes\<rparr>])))))))))"

section \<open>Reading a registered key\<close>

record key_entry =
  ke_address :: bytes
  ke_signerPublicKey :: bytes
  ke_curve :: int
  ke_signature :: bytes
  ke_signatureScheme :: nat
  ke_encryptionKey :: bytes

record read_key =
  re_chainNumber :: int
  re_network :: int
  re_holderPublicKey :: bytes
  re_curve :: int

text \<open>\<open>header_len ?? 0\<close>, and the account's shape: \<open>view.getUint16\<close> is reached only past the fixed part.\<close>

definition readsAsEntry :: "bytes \<Rightarrow> sdk_error + nat option" where
  "readsAsEntry bs =
     bindE (accountEntry ''EncryptionKey'') (\<lambda>table.
       let fixed = (case header_len table of None \<Rightarrow> 0 | Some n \<Rightarrow> n) in
       Inr (if fixed = 0 \<or> length bs < fixed \<or>
               byteAt bs header_discriminator_offset \<noteq> discriminator table \<or>
               length bs \<noteq> fixed + readU16 bs 37
            then None else Some fixed))"

definition checkedEncryptionKeyEntry ::
    "web3_lib \<Rightarrow> sdk_lib \<Rightarrow> bytes \<Rightarrow> bytes \<Rightarrow> read_key \<Rightarrow> read_account \<Rightarrow> sdk_error + key_entry" where
  "checkedEncryptionKeyEntry W L programId at params a =
     (let bs = ra_data a; holder = re_holderPublicKey params; curve = re_curve params in
      bindE (newPublicKey W (ra_owner a)) (\<lambda>owner.
      if owner \<noteq> programId then Inl (Err ''the account is not owned by the ika-dwallet program'') else
      bindE (readsAsEntry bs) (\<lambda>shape.
      case shape of
        None \<Rightarrow> Inl (Err ''the account does not read as an EncryptionKey entry'')
      | Some fixed \<Rightarrow>
          let signerPublicKey = slice 2 34 bs in
          bindE (newPublicKey W signerPublicKey) (\<lambda>signer.
          bindE (newPublicKey W holder) (\<lambda>asked.
          if signer \<noteq> asked then Inl (Err ''the registry entry names another holder'') else
          if int (readU16 bs 35) \<noteq> curve then Inl (Err ''the registry entry is for another curve'') else
          if byteAt bs 34 \<noteq> ENCRYPTION_KEY_ED25519_SIGNATURE_SCHEME
          then Inl (Err ''the registry entry is not signed by the holder'') else
          let signature = slice 39 103 bs; encryptionKey = drop fixed bs in
          bindE (ofOption (Err ''ed25519'') (ed25519_verify L signature
                   (encryptionKeyRegistrationMessage (re_chainNumber params) (re_network params) curve encryptionKey)
                   holder)) (\<lambda>ok.
          if \<not> ok then Inl (Err ''the registry entry is not signed by the holder'') else
          Inr \<lparr>ke_address = at, ke_signerPublicKey = signerPublicKey, ke_curve = curve, ke_signature = signature,
               ke_signatureScheme = byteAt bs 34, ke_encryptionKey = encryptionKey\<rparr>))))))"

text \<open>
  Its own cross-checked read, with the constants and endpoint names of \<open>crossCheckedAccountRead\<close> and every
  answer at position 0.
\<close>

definition readEncryptionKey ::
    "web3_lib \<Rightarrow> sdk_lib \<Rightarrow> address_lib \<Rightarrow> (time \<Rightarrow> nat) \<Rightarrow> bytes \<Rightarrow> get_account \<Rightarrow> get_account solana_cross_check
      \<Rightarrow> read_key \<Rightarrow> (sdk_error, key_entry) timed" where
  "readEncryptionKey W L A lag programId getAccount crossCheck params =
     bindT (liftT (encryptionKeyPda A programId (re_holderPublicKey params) (re_curve params))) (\<lambda>pda.
     let checkedThrough = throughAccount (address pda) (\<lambda>a.
           bindE (checkedEncryptionKeyEntry W L programId (address pda) params a) (\<lambda>e. Inr (Some e))) in
     bindT (crossCheckedAccountRead lag getAccount crossCheck checkedThrough
              (\<lambda>first second. equalBytes (ke_encryptionKey first) (ke_encryptionKey second) \<and>
                 equalBytes (ke_signature first) (ke_signature second)) None) (\<lambda>entry.
     liftT (ofOption (Err ''the holder has no registry entry for the curve'') entry)))"

end
