(* ===== verification/Solana_Share_Laws.thy ===== *)
theory Solana_Share_Laws
  imports Solana_Shares
begin

text \<open>
  What the ownership check establishes when it runs over Solana accounts: the accounts it rests on, each
  one the program owns at the address derived from the dWallet asked for.
\<close>

section \<open>Accounts\<close>

definition served_as ::
    "get_account \<Rightarrow> bytes \<Rightarrow> sdk_error + bytes \<Rightarrow> (bytes \<Rightarrow> sdk_error + 'a option) \<Rightarrow> 'a \<Rightarrow> bool" where
  "served_as get programId at decode x \<longleftrightarrow>
     (\<exists>p a. at = Inr p \<and> served get programId p a \<and> decode (ra_data a) = Inr (Some x))"

lemma readShareAccount_found:
  assumes "readShareAccount programId kind decode at get now = Some (dt, Inr (Some x))"
  shows "served_as get programId at decode x"
proof -
  from assms obtain p a where "at = Inr p" "get p now = Some (dt, Inr (Some a))" "ra_owner a = programId"
      "decode (ra_data a) = Inr (Some x)"
    unfolding readShareAccount_def openGuard_Inr throughAccount_found
    by (auto simp: result_simps split: option.splits if_splits)
  then show ?thesis unfolding served_as_def served_def by blast
qed

lemma readAttestationRecord_found:
  "readAttestationRecord programId kind decode at get now = Some (dt, Inr (Some r)) \<Longrightarrow>
     \<exists>x. served_as get programId at decode x \<and> r = recordOfAccount x"
  unfolding readAttestationRecord_def openCheck_Inr by (auto dest: readShareAccount_found)

lemma startedAt_Inr: "startedAt now read = Inr x \<Longrightarrow> \<exists>t. read now = Some (t, Inr x)"
  by (auto simp: startedAt_def settled_def split: option.splits)

lemma started_account:
  "startedAt now (openT (readShareAccount programId kind decode at get)) = Inr (Some x) \<Longrightarrow>
     served_as get programId at decode x"
  by (auto dest!: startedAt_Inr openT_Inr readShareAccount_found)

lemma started_attestation:
  "startedAt now (openT (readAttestationRecord programId kind decode at get)) = Inr (Some r) \<Longrightarrow>
     \<exists>x. served_as get programId at decode x \<and> r = recordOfAccount x"
  by (auto dest!: startedAt_Inr openT_Inr readAttestationRecord_found)

lemma sameAttestationRecord_iff [simp]: "sameAttestationRecord first second \<longleftrightarrow> first = second"
  by (cases first; cases second) (auto simp: sameAttestationRecord_def)

section \<open>The dWallet\<close>

definition on_curve_key :: "(bytes \<Rightarrow> int \<Rightarrow> bytes \<Rightarrow> bytes option \<Rightarrow> sdk_error + derived_address) \<Rightarrow> bytes
    \<Rightarrow> expected_dwallet \<Rightarrow> sdk_error + bytes" where
  "on_curve_key pda programId x =
     addressOf (pda programId (ex_curve x) (ex_publicKey x) (ex_importedSessionIdentifier x))"

text \<open>The dWallet account and the attestation account at the addresses derived for \<open>x\<close>.\<close>

definition dwallet_on_solana ::
    "sdk_lib \<Rightarrow> address_lib \<Rightarrow> bytes \<Rightarrow> get_account \<Rightarrow> expected_dwallet \<Rightarrow> bytes \<Rightarrow> bytes \<Rightarrow> attestation_record \<Rightarrow> bool" where
  "dwallet_on_solana L A programId get x at networkKey attestation \<longleftrightarrow>
     on_curve_key (dwalletPda A) programId x = Inr at \<and>
     (\<exists>acct. served_as get programId (Inr at) readDWallet acct \<and> da_noaPublicKey acct = networkKey \<and>
        int (da_curve acct) = ex_curve x \<and> da_publicKey acct = ex_publicKey x \<and>
        da_isImported acct = (ex_importedSessionIdentifier x \<noteq> None) \<and>
        da_importedSessionIdentifier acct = ex_importedSessionIdentifier x) \<and>
     (\<exists>a. served_as get programId (on_curve_key (dwalletAttestationPda A) programId x)
            (readDWalletAttestationUnverified L) a \<and> attestation = recordOfAccount a)"

lemma checkedReadDWallet_found:
  assumes "checkedReadDWallet L (accountReads L A lag programId get cc keys' now) keys x = Inr (Some rec)"
  shows "\<exists>dwallet. verifyDWalletAttestationRecord L (cdr_attestation rec) keys x = Inr dwallet \<and>
     dwallet_on_solana L A programId get x (cdr_address rec) (cdr_networkPublicKey rec) (cdr_attestation rec) \<and>
     cdr_readEncryptedShare rec =
       checkedEncryptedShare L (accountReads L A lag programId get cc keys' now) keys dwallet (cdr_address rec) x \<and>
     cdr_readPublicShare rec = so_readPublicShareAttestation (accountReads L A lag programId get cc keys' now) x \<and>
     cdr_migratedShare rec = None"
proof -
  let ?reads = "accountReads L A lag programId get cc keys' now"
  from assms obtain at attestation dwallet acct
    where at: "so_dwalletAddress ?reads x = Inr at"
      and att: "so_readDWalletAttestation ?reads x = Inr (Some attestation)"
      and verified: "verifyDWalletAttestationRecord L attestation keys x = Inr dwallet"
      and acct: "so_readDWalletAccount ?reads x = Inr (Some acct)"
      and stores: "verifyStoredDWallet (storedOf acct) dwallet = Inr ()"
      and rec: "rec = \<lparr>cdr_address = at, cdr_networkPublicKey = da_noaPublicKey acct,
                   cdr_attestation = attestation,
                   cdr_readEncryptedShare = checkedEncryptedShare L ?reads keys dwallet at x,
                   cdr_readPublicShare = so_readPublicShareAttestation ?reads x,
                   cdr_migratedShare = None\<rparr>"
    unfolding checkedReadDWallet_def bindE_eq_Inr mapFound_Some seqE_eq_Inr
    by (auto simp: result_simps split: option.splits if_splits)
  have "on_curve_key (dwalletPda A) programId x = Inr at"
    using at by (simp add: accountReads_def on_curve_key_def)
  moreover from this acct have "served_as get programId (Inr at) readDWallet acct"
    by (auto simp: accountReads_def on_curve_key_def dest!: started_account)
  moreover from att have "\<exists>a. served_as get programId (on_curve_key (dwalletAttestationPda A) programId x)
      (readDWalletAttestationUnverified L) a \<and> attestation = recordOfAccount a"
    by (auto simp: accountReads_def on_curve_key_def dest!: started_attestation)
  moreover from stored_dwallet_agrees [OF verified] stores
  have "int (da_curve acct) = ex_curve x" "da_publicKey acct = ex_publicKey x"
    "da_isImported acct = (ex_importedSessionIdentifier x \<noteq> None)"
    "da_importedSessionIdentifier acct = ex_importedSessionIdentifier x"
    by (simp_all add: storedOf_def)
  ultimately have "dwallet_on_solana L A programId get x at (da_noaPublicKey acct) attestation"
    unfolding dwallet_on_solana_def by blast
  with verified rec show ?thesis by simp
qed

section \<open>Shares\<close>

text \<open>The three accounts of a holder's encrypted share, checked against the share's attestation.\<close>

definition share_on_solana ::
    "sdk_lib \<Rightarrow> address_lib \<Rightarrow> bytes \<Rightarrow> get_account \<Rightarrow> expected_dwallet \<Rightarrow> bytes \<Rightarrow> trusted_network_keys
      \<Rightarrow> verified_dwallet \<Rightarrow> bytes \<Rightarrow> bytes option \<Rightarrow> verified_solana_share \<Rightarrow> bool" where
  "share_on_solana L A programId get x at keys dwallet holder given v \<longleftrightarrow>
     (\<exists>acct a entry.
        served_as get programId
          (addressOf (encryptedUserSecretKeySharePda A programId (ex_curve x) (ex_publicKey x) holder
             (ex_importedSessionIdentifier x))) readEncryptedUserSecretKeyShareUnverified acct \<and>
        served_as get programId
          (addressOf (encryptedShareAttestationPda A programId (ex_curve x) (ex_publicKey x) holder
             (ex_importedSessionIdentifier x))) (readEncryptedShareAttestationUnverified L) a \<and>
        served_as get programId (addressOf (encryptionKeyPda A programId holder (ex_curve x)))
          readEncryptionKeyUnverified entry \<and>
        ek_signerPublicKey entry = holder \<and>
        verifySolanaEncryptedShareRecord L acct (recordOfAccount a) keys dwallet at
          \<lparr>holderSignerPublicKey = holder, holderSignatureScheme = None\<rparr> (ek_encryptionKey entry) given = Inr v)"

lemma checkedEncryptedShare_found:
  assumes "checkedEncryptedShare L (accountReads L A lag programId get cc keys' now) keys dwallet at x holder given
             = Inr (Some s)"
  shows "\<exists>v. share_on_solana L A programId get x at keys dwallet holder given v \<and>
           csr_acceptanceGiven s = vs_acceptanceGiven v"
proof -
  from assms obtain share v
    where read: "readEncryptedShareAccounts L A programId get now x holder = Inr (Some share)"
      and v: "verifySolanaEncryptedShareRecord L (sr_account share) (sr_attestation share) keys dwallet at
                \<lparr>holderSignerPublicKey = holder, holderSignatureScheme = None\<rparr>
                (sr_registeredEncryptionKey share) given = Inr v"
      and s: "csr_acceptanceGiven s = vs_acceptanceGiven v"
    unfolding checkedEncryptedShare_def bindE_eq_Inr mapFound_Some by (auto simp: accountReads_def)
  let ?curve = "ex_curve x" and ?key = "ex_publicKey x" and ?imported = "ex_importedSessionIdentifier x"
  from read obtain acct r entry
    where acct: "startedAt now (openT (readShareAccount programId ''encrypted share''
               readEncryptedUserSecretKeyShareUnverified
               (addressOf (encryptedUserSecretKeySharePda A programId ?curve ?key holder ?imported)) get)) = Inr (Some acct)"
      and r: "startedAt now (openT (readAttestationRecord programId ''encrypted share attestation''
               (readEncryptedShareAttestationUnverified L)
               (addressOf (encryptedShareAttestationPda A programId ?curve ?key holder ?imported)) get)) = Inr (Some r)"
      and entry: "startedAt now (openT (readShareAccount programId ''encryption key''
                   readEncryptionKeyUnverified (addressOf (encryptionKeyPda A programId holder ?curve)) get))
                = Inr (Some entry)"
      and key: "ek_signerPublicKey entry = holder"
      and share: "share = \<lparr>sr_account = acct, sr_attestation = r, sr_registeredEncryptionKey = ek_encryptionKey entry\<rparr>"
    unfolding readEncryptedShareAccounts_def Let_def bindE_eq_Inr
    by (auto simp: result_simps split: option.splits if_splits)
  from started_account [OF acct] started_attestation [OF r] started_account [OF entry] key v s
  show ?thesis unfolding share share_on_solana_def by auto
qed

text \<open>A public share's attestation account, found by every endpoint of the cross check.\<close>

definition public_share_on_solana ::
    "sdk_lib \<Rightarrow> address_lib \<Rightarrow> bytes \<Rightarrow> get_account \<Rightarrow> expected_dwallet \<Rightarrow> attestation_record \<Rightarrow> bool" where
  "public_share_on_solana L A programId get x r \<longleftrightarrow>
     (\<exists>a. served_as get programId (on_curve_key (publicUserShareAttestationPda A) programId x)
            (readPublicShareAttestationUnverified L) a \<and> r = recordOfAccount a)"

lemma public_share_found:
  assumes "so_readPublicShareAttestation (accountReads L A lag programId get cc keys now) x = Inr (Some r)"
  shows "public_share_on_solana L A programId get x r \<and>
    (\<forall>get'. cc = CrossCheckThrough get' \<longrightarrow> public_share_on_solana L A programId get' x r)"
proof -
  let ?read = "readAttestationRecord programId ''public share attestation'' (readPublicShareAttestationUnverified L)
            (on_curve_key (publicUserShareAttestationPda A) programId x)"
  from assms obtain t where "crossCheckedAccountRead lag get cc ?read sameAttestationRecord None now = Some (t, Inr (Some r))"
    by (auto simp: accountReads_def on_curve_key_def dest!: startedAt_Inr)
  note agreed = crossCheckedAccountRead_Inr [OF this]
  then have "public_share_on_solana L A programId get x r"
    unfolding public_share_on_solana_def by (auto dest: readAttestationRecord_found)
  moreover have "public_share_on_solana L A programId get' x r" if "cc = CrossCheckThrough get'" for get'
    using agreed that unfolding public_share_on_solana_def
    by (auto simp: sameValue_def split: option.splits dest: readAttestationRecord_found)
  ultimately show ?thesis by blast
qed

section \<open>The ownership check\<close>

lemma dwalletShareReader_parts:
  "rd_chain (dwalletShareReader L A lag programId get cc keys now) = OnSolana"
  "rd_trusted (dwalletShareReader L A lag programId get cc keys now) = keys"
  "rd_readDWallet (dwalletShareReader L A lag programId get cc keys now) =
     checkedReadDWallet L (accountReads L A lag programId get cc keys now) keys"
  by (simp_all add: dwalletShareReader_def checkedSolanaShareReader_def accountReads_def Let_def)

lemma nothing_given_accepted:
  assumes "share_on_solana L A programId get x at keys dwallet holder None v"
  shows "\<not> vs_acceptanceGiven v"
  using assms unfolding share_on_solana_def verifySolanaEncryptedShareRecord_Inr acceptance_of_def
  by (auto split: if_splits)

lemma own_share_on_solana:
  assumes "own_share L keys rec vd userKey given f"
    and "cdr_readEncryptedShare rec =
       checkedEncryptedShare L (accountReads L A lag programId get cc keys' now) keys dwallet at x"
  shows "\<exists>v. share_on_solana L A programId get x at keys dwallet userKey given v \<and> f = vs_acceptanceGiven v"
proof -
  from assms obtain s where "checkedEncryptedShare L (accountReads L A lag programId get cc keys' now) keys dwallet at x
      userKey given = Inr (Some s)" "csr_acceptanceGiven s = f" unfolding own_share_def by auto
  with checkedEncryptedShare_found show ?thesis by metis
qed

text \<open>What a usability found over the checked reader rests on.\<close>

lemma usability_on_solana:
  assumes "usability_held L keys rec vd userKey opts (share, migrated, waiting)"
    and "cdr_readEncryptedShare rec =
       checkedEncryptedShare L (accountReads L A lag programId get cc keys now) keys dwallet at x"
    and "cdr_readPublicShare rec = so_readPublicShareAttestation (accountReads L A lag programId get cc keys now) x"
    and "cdr_migratedShare rec = None"
  shows "\<not> migrated \<and>
    (case share of
       SharePublic \<Rightarrow> \<not> waiting \<and>
         (\<exists>r. public_share_on_solana L A programId get x r \<and>
            (\<forall>get'. cc = CrossCheckThrough get' \<longrightarrow> public_share_on_solana L A programId get' x r))
     | ShareEncrypted \<Rightarrow>
         (\<exists>given v. share_on_solana L A programId get x at keys dwallet userKey given v \<and>
            waiting = vs_acceptanceGiven v))"
proof (cases share)
  case SharePublic
  with assms(1) obtain r where r: "cdr_readPublicShare rec = Inr (Some r)" and "\<not> migrated" "\<not> waiting"
    by (auto simp: public_share_def)
  with public_share_found [OF r [unfolded assms(3)]] SharePublic show ?thesis by auto
next
  case ShareEncrypted
  have classic: "\<not> from_classic rec userKey opts" using assms(4) by (simp add: from_classic_def)
  have "\<not> migrated \<and> (\<exists>given v. share_on_solana L A programId get x at keys dwallet userKey given v \<and>
            waiting = vs_acceptanceGiven v)"
  proof (cases "dw_holder (vd_attestation vd)")
    case None
    with assms(1) ShareEncrypted classic obtain f
      where "\<not> waiting" "\<not> migrated" "own_share L keys rec vd userKey None f" by (auto split: if_splits)
    with own_share_on_solana [OF this(3) assms(2)] nothing_given_accepted show ?thesis by blast
  next
    case (Some h)
    with assms(1) ShareEncrypted have "\<not> migrated" "own_share L keys rec vd userKey (op_acceptanceSignature opts) waiting"
      by auto
    with own_share_on_solana [OF this(2) assms(2)] show ?thesis by blast
  qed
  with ShareEncrypted show ?thesis by simp
qed

text \<open>
  C22. An ownership check that passes over Solana rests on accounts the program owns, at the addresses
  derived from the attested dWallet: the dWallet's own account, which stores its curve, key and origin and
  names a trusted network key; its attestation account, which holds the attestation checked; and either the
  public share's account, found by every endpoint, or the user's own share account, its attestation and the
  user's registered encryption key, checked against each other. The result is called waiting exactly when
  that account stores no acceptance and the signature given stood in for it.
\<close>

theorem solana_usable_sound:
  assumes "assertDWalletUsable L R (dwalletShareReader L A lag programId get cc keys now) userKey attData opts checkedAt store
             = Inr (usable, store')"
  shows "\<exists>st d att dwallet. issuedGet store' usable = Some st \<and> parse (dwalletBcs L) attData = Some (V1 d) \<and>
     is_chain st = OnSolana \<and> is_holder st = userKey \<and> attestationData att = attData \<and>
     verifyDWalletAttestationRecord L att keys (askedOf d) = Inr dwallet \<and>
     dwallet_on_solana L A programId get (askedOf d) (is_address st) (network_pubkey (is_attestation st)) att \<and>
     network_pubkey (is_attestation st) \<in> set (publicKeys keys) \<and> \<not> is_migrated st \<and>
     (case is_share st of
        SharePublic \<Rightarrow> \<not> is_waiting st \<and>
          (\<exists>r. public_share_on_solana L A programId get (askedOf d) r \<and>
             (\<forall>get'. cc = CrossCheckThrough get' \<longrightarrow> public_share_on_solana L A programId get' (askedOf d) r))
      | ShareEncrypted \<Rightarrow>
          (\<exists>given v. share_on_solana L A programId get (askedOf d) (is_address st) keys dwallet userKey given v \<and>
             is_waiting st = vs_acceptanceGiven v))"
proof -
  let ?reader = "dwalletShareReader L A lag programId get cc keys now"
  from assms [unfolded assertDWalletUsable_Inr] obtain st
    where checked: "usable_checked L R ?reader userKey opts st" and data: "attestation_data (is_attestation st) = attData"
      and issued: "usable = \<lparr>us_ref = Some (length store), us_shown = st\<rparr>" "store' = store @ [st]" by blast
  from checked obtain d rec where rec: "chain_record L ?reader attData d rec"
      and parsed: "parse (dwalletBcs L) attData = Some (V1 d)"
      and held: "usability_held L keys rec (dwallet_of (cdr_attestation rec) d) userKey opts
          (is_share st, is_migrated st, is_waiting st)"
      and st: "is_chain st = OnSolana" "is_address st = cdr_address rec" "is_holder st = userKey"
        "network_pubkey (is_attestation st) = cdr_networkPublicKey rec"
    unfolding usable_checked_def data dwalletShareReader_parts by auto
  from rec have read: "checkedReadDWallet L (accountReads L A lag programId get cc keys now) keys (askedOf d)
        = Inr (Some rec)" and att: "attestationData (cdr_attestation rec) = attData"
      and trusted: "cdr_networkPublicKey rec \<in> set (publicKeys keys)"
    unfolding chain_record_def dwalletShareReader_parts by blast+
  from checkedReadDWallet_found [OF read] obtain dwallet
    where "verifyDWalletAttestationRecord L (cdr_attestation rec) keys (askedOf d) = Inr dwallet"
      and "dwallet_on_solana L A programId get (askedOf d) (cdr_address rec) (cdr_networkPublicKey rec) (cdr_attestation rec)"
      and shares: "cdr_readEncryptedShare rec = checkedEncryptedShare L (accountReads L A lag programId get cc keys now)
          keys dwallet (cdr_address rec) (askedOf d)"
        "cdr_readPublicShare rec = so_readPublicShareAttestation (accountReads L A lag programId get cc keys now) (askedOf d)"
        "cdr_migratedShare rec = None" by blast
  moreover note usability_on_solana [OF held shares]
  moreover have "issuedGet store' usable = Some st" using issued by (simp add: issuedGet_def)
  ultimately show ?thesis using att trusted parsed st
    by (intro exI [of _ st] exI [of _ d] exI [of _ "cdr_attestation rec"] exI [of _ dwallet]) (simp cong: share_kind.case_cong)
qed

text \<open>An approval is built only on a result for this dWallet's address on Solana and for the user's own key.\<close>

lemma requireApprovalUsability_Inr:
  "requireApprovalUsability usability dwalletAddress = Inr r \<longleftrightarrow>
     (\<exists>u. usability = Some u \<and>
        (au_usable u = Some r \<or> au_usable u = None \<and> au_check u = Some (Inr r)) \<and>
        ur_chain r = OnSolana \<and> ur_address r = dwalletAddress \<and> ur_holder r = au_holderSignerPublicKey u)"
  by (auto simp: requireApprovalUsability_def result_simps split: option.splits if_splits)

end
