(* ===== verification/Instruction_Laws.thy ===== *)
theory Instruction_Laws
  imports Key_Registry Solana_Share_Laws
begin

text \<open>
  The bytes of the instructions and of the messages signed for them, laid out; the shape every builder
  gives its instruction; and what the read of a registered key establishes.
\<close>

section \<open>Fields laid end to end\<close>

fun laidFrom :: "nat \<Rightarrow> bytes list \<Rightarrow> (nat \<times> bytes) list" where
  "laidFrom at [] = []"
| "laidFrom at (f # fs) = (at, f) # laidFrom (at + length f) fs"

lemma setBytes_next:
  "setBytes (length pre) f (pre @ replicate (length f + n) 0) = Inr (pre @ f @ replicate n 0)"
  by (simp add: setBytes_def)

lemma setAll_laid:
  "setAll (laidFrom (length pre) fs) (pre @ replicate (length (concat fs)) 0) = Inr (pre @ concat fs)"
proof (induction fs arbitrary: pre)
  case Nil
  show ?case by simp
next
  case (Cons f fs)
  have "length (concat (f # fs)) = length f + length (concat fs)" by simp
  then show ?case
    using Cons [of "pre @ f"] setBytes_next [of pre f "length (concat fs)"]
    by (simp only: laidFrom.simps setAll.simps bindE_Inr length_append concat.simps append_assoc)
qed

lemma newData_laid: "n = length (concat fs) \<Longrightarrow> newData n (laidFrom 0 fs) = Inr (concat fs)"
  using setAll_laid [of "[]" fs] by (simp add: newData_def)

text \<open>Data of a fixed length keeps its length, whatever was set.\<close>

lemma setAll_length: "setAll sets buffer = Inr out \<Longrightarrow> length out = length buffer"
proof (induction sets arbitrary: buffer)
  case (Cons set rest)
  obtain at f where set: "set = (at, f)" by (cases set)
  with Cons.prems obtain mid where "setBytes at f buffer = Inr mid" "setAll rest mid = Inr out"
    by (auto simp: result_simps)
  then show ?case using Cons.IH [of mid] by (auto simp: setBytes_def split: if_splits)
qed simp

lemma setAll_fits:
  "list_all (\<lambda>(at, f). at + length f \<le> length buffer) sets \<Longrightarrow> \<exists>out. setAll sets buffer = Inr out"
proof (induction sets arbitrary: buffer)
  case (Cons set rest)
  obtain at f where set: "set = (at, f)" by (cases set)
  with Cons.prems obtain mid where mid: "setBytes at f buffer = Inr mid" by (auto simp: setBytes_def)
  then have "length mid = length buffer" by (auto simp: setBytes_def split: if_splits)
  with Cons.IH [of mid] Cons.prems mid set show ?case by (simp add: bindE_Inr)
qed simp

lemma setAll_first:
  "setAll sets buffer = Inr out \<Longrightarrow> list_all (\<lambda>(at, f). 0 < at) sets \<Longrightarrow> buffer \<noteq> [] \<Longrightarrow> hd out = hd buffer"
proof (induction sets arbitrary: buffer)
  case (Cons set rest)
  obtain at f where set: "set = (at, f)" by (cases set)
  with Cons.prems obtain mid where mid: "setBytes at f buffer = Inr mid" "setAll rest mid = Inr out" and "0 < at"
    by (auto simp: result_simps)
  then have "mid \<noteq> []" "hd mid = hd buffer"
    using Cons.prems(3) by (auto simp: setBytes_def hd_append hd_conv_nth nth_append split: if_splits)
  then show ?case using Cons.IH [OF mid(2)] Cons.prems(2) by simp
qed simp

lemma instructionData_Inr:
  assumes "instructionData name n sets = Inr out" "0 < n" "list_all (\<lambda>(at, f). 0 < at) sets"
  shows "length out = n \<and> (\<exists>b. instructionByte name = Inr b \<and> hd out = word_of_nat b)"
proof -
  from assms(1) obtain b where b: "instructionByte name = Inr b"
    and out: "newData n ((0, [word_of_nat b]) # sets) = Inr out" by (auto simp: instructionData_def result_simps)
  from out assms(2) have "setAll sets (word_of_nat b # replicate (n - 1) 0) = Inr out"
    by (cases n) (simp_all add: newData_def setBytes_def result_simps)
  from setAll_length [OF this] setAll_first [OF this assms(3)] b assms(2) show ?thesis by auto
qed

section \<open>The messages\<close>

lemma depositProofMessage_eq:
  "depositProofMessage c n sender =
     Inr (le_bytes 2 1 @ ascii DEPOSIT_PROOF_DOMAIN @ le_bytes 4 c @ [word_of_int n] @
          [word_of_nat (length sender)] @ sender)"
  using newData_laid [of "2 + length DEPOSIT_PROOF_DOMAIN + 4 + 1 + 1 + length sender"
      "[le_bytes 2 1, ascii DEPOSIT_PROOF_DOMAIN, le_bytes 4 c, [word_of_int n], [word_of_nat (length sender)], sender]"]
  by (simp add: depositProofMessage_def Let_def DEPOSIT_PROOF_MESSAGE_VERSION_def numeral_2_eq_2)

lemma length_GAS_RELEASE_PREFIX [simp]: "length GAS_RELEASE_PREFIX = 19"
  by (simp add: GAS_RELEASE_PREFIX_def)

lemma gasReleaseMessage_eq:
  assumes "length programId = 32" "length (gr_deposit p) = 32" "length (gr_requestPublicKey p) = 32"
  shows "gasReleaseMessage programId p =
     Inr (GAS_RELEASE_PREFIX @ programId @ gr_deposit p @ gr_requestPublicKey p @
          le_bytes 8 (gr_withdrawalSequence p) @ le_bytes 8 (gr_ikaAmount p) @ le_bytes 8 (gr_solAmount p))"
  using newData_laid [of 139 "[GAS_RELEASE_PREFIX, programId, gr_deposit p, gr_requestPublicKey p,
      le_bytes 8 (gr_withdrawalSequence p), le_bytes 8 (gr_ikaAmount p), le_bytes 8 (gr_solAmount p)]"] assms
  by (simp add: gasReleaseMessage_def Let_def)

lemma uleb128Loop_eq: "uleb128Loop n = uleb128 n"
proof (induction n rule: less_induct)
  case (less n)
  show ?case
  proof (cases "128 \<le> n")
    case True
    then have "uleb128Loop (n div 128) = uleb128 (n div 128)" by (intro less) simp
    with True show ?thesis by (simp add: uleb128Loop.simps [of n] uleb128.simps [of n] Let_def)
  next
    case False
    then show ?thesis by (simp add: uleb128Loop.simps [of n] uleb128.simps [of n] Let_def)
  qed
qed

lemma u32LittleEndian_eq: "u32LittleEndian v = le_bytes 4 v"
  by (simp add: u32LittleEndian_def numeral_eq_Suc zdiv_zmult2_eq [symmetric])

lemma registrationMessage_eq:
  "encryptionKeyRegistrationMessage c n cu k =
     le_bytes 2 1 @ 18 # ascii ''ika_encryption_key'' @ le_bytes 4 c @ [word_of_int n] @ le_bytes 2 cu @
     bcsByteVector k"
proof -
  have n: "length ''ika_encryption_key'' = 18" by simp
  have "uleb128 18 = [18]" by (simp add: uleb128.simps)
  then have "uleb128 (length (ascii ''ika_encryption_key'')) = [18]" unfolding length_ascii n .
  moreover have "le_bytes 2 v = [word_of_int v, word_of_int (v div 2 ^ 8)]" for v
    by (simp add: numeral_2_eq_2)
  ultimately show ?thesis
    by (simp add: encryptionKeyRegistrationMessage_def u32LittleEndian_eq uleb128Loop_eq bcsByteVector_def
        ENCRYPTION_KEY_REGISTRATION_MESSAGE_VERSION_def ENCRYPTION_KEY_REGISTRATION_DOMAIN_def
        del: length_ascii)
qed

section \<open>What a signature is for\<close>

text \<open>
  Every message the SDK signs, or checks a signature over, that starts with a domain of its own: the
  user's requests, the network's attestations of each kind, records and committees, the proof of a deposit,
  a key's registration and the network's release of a withdrawal.
\<close>

datatype purpose =
    ForRequest | ForAttestation attestation_kind | ForReshareRecord | ForDkgRecord | ForCommittee
  | ForDeposit | ForRegistration | ForGasRelease

inductive signed_for :: "purpose \<Rightarrow> bytes \<Rightarrow> bool" where
  request: "signed_for ForRequest (requestSigningMessage data)"
| attestation: "signed_for (ForAttestation kind) (attestationSigningMessage kind data)"
| reshare: "networkKeyReconfigurationRecordMessage key epoch digest = Inr m \<Longrightarrow> signed_for ForReshareRecord m"
| dkg: "networkKeyDkgRecordMessage key digest = Inr m \<Longrightarrow> signed_for ForDkgRecord m"
| committee: "signed_for ForCommittee (committeeSigningMessage data)"
| deposit: "depositProofMessage c n sender = Inr m \<Longrightarrow> signed_for ForDeposit m"
| registration: "signed_for ForRegistration (encryptionKeyRegistrationMessage c n cu k)"
| gas_release: "gasReleaseMessage programId p = Inr m \<Longrightarrow> length programId = 32 \<Longrightarrow>
    length (gr_deposit p) = 32 \<Longrightarrow> length (gr_requestPublicKey p) = 32 \<Longrightarrow> signed_for ForGasRelease m"

text \<open>The domain a message starts with, read back from its first bytes.\<close>

definition purposeOf :: "bytes \<Rightarrow> purpose option" where
  "purposeOf m =
     (if take 1 m = [0xff] then
        (if slice 1 4 m = ascii ''ika'' then Some ForRequest else Some ForGasRelease)
      else if take 1 m = [0xfe] then
        map_of [(0, ForAttestation DWalletKind), (1, ForAttestation PresignKind),
                (2, ForAttestation PartialUserSignatureKind), (3, ForAttestation EncryptedShareKind),
                (4, ForAttestation PublicShareKind), (5, ForReshareRecord), (6, ForDkgRecord),
                (7, ForCommittee)] (m ! 16)
      else if m ! 2 = 18 then Some ForRegistration else Some ForDeposit)"

lemma ascii_Cons: "ascii (c # s) = word_of_nat (of_char c) # ascii s"
  and ascii_Nil: "ascii [] = []"
  by (simp_all add: ascii_def)

lemma le_bytes_2_1: "le_bytes 2 1 = [1, 0]"
  by (simp add: numeral_2_eq_2)

lemma signed_for_purposeOf: "signed_for p m \<Longrightarrow> purposeOf m = Some p"
proof (induction rule: signed_for.induct)
  case (request data)
  show ?case by (simp add: purposeOf_def requestSigningMessage_def REQUEST_SIGNING_PREFIX_def slice_def ascii_Cons ascii_Nil)
next
  case (attestation kind data)
  show ?case by (cases kind)
    (simp_all add: purposeOf_def attestationSigningMessage_def ATTESTATION_SIGNING_PREFIX_def nth_append)
next
  case (reshare key epoch digest m)
  then show ?case by (auto simp: networkKeyReconfigurationRecordMessage_def result_simps purposeOf_def
      ATTESTATION_SIGNING_PREFIX_def NETWORK_KEY_RECONFIGURATION_RECORD_TAG_def nth_append)
next
  case (dkg key digest m)
  then show ?case by (auto simp: networkKeyDkgRecordMessage_def result_simps purposeOf_def
      ATTESTATION_SIGNING_PREFIX_def NETWORK_KEY_DKG_RECORD_TAG_def nth_append)
next
  case (committee data)
  show ?case by (simp add: purposeOf_def committeeSigningMessage_def ATTESTATION_SIGNING_PREFIX_def
      COMMITTEE_ATTESTATION_TAG_def nth_append)
next
  case (deposit c n sender m)
  then show ?case by (auto simp: depositProofMessage_eq purposeOf_def le_bytes_2_1 DEPOSIT_PROOF_DOMAIN_def ascii_Cons)
next
  case (registration c n cu k)
  show ?case by (simp add: registrationMessage_eq purposeOf_def le_bytes_2_1)
next
  case (gas_release programId p m)
  then show ?case by (auto simp: gasReleaseMessage_eq purposeOf_def GAS_RELEASE_PREFIX_def slice_def ascii_Cons ascii_Nil)
qed

text \<open>
  C25. No bytes are signed for two purposes: a message that is a request of a user, an attestation of one
  kind, a record of a network key, a committee, a deposit's proof, a key's registration or a gas release is
  none of the others. So a signature made or checked for one is never one for another.
\<close>

theorem signed_messages_apart:
  assumes "signed_for p m" "signed_for q m"
  shows "p = q"
  using signed_for_purposeOf [OF assms(1)] signed_for_purposeOf [OF assms(2)] by simp

text \<open>
  A registration's message says what it is signed for in one way only: chain, network, curve and key are
  read back from the bytes.
\<close>

theorem registration_message_determines:
  assumes "encryptionKeyRegistrationMessage c n cu k = encryptionKeyRegistrationMessage c' n' cu' k'"
    and "0 \<le> c" "c < 2 ^ 32" "0 \<le> c'" "c' < 2 ^ 32" "0 \<le> n" "n < 256" "0 \<le> n'" "n' < 256"
    and "0 \<le> cu" "cu < 2 ^ 16" "0 \<le> cu'" "cu' < 2 ^ 16"
  shows "c = c' \<and> n = n' \<and> cu = cu' \<and> k = k'"
proof -
  from assms(1) have parts: "le_bytes 4 c = le_bytes 4 c'" "(word_of_int n :: byte) = word_of_int n'"
      "le_bytes 2 cu = le_bytes 2 cu'" "bcsByteVector k = bcsByteVector k'"
    by (auto simp: registrationMessage_eq)
  have "k = k'" using parts(4) ulebDecode_uleb128 unfolding bcsByteVector_def by (metis option.inject prod.inject)
  moreover have "c = c'" using le_bytes_inject [of c 4 c'] parts(1) assms by simp
  moreover have "cu = cu'" using le_bytes_inject [of cu 2 cu'] parts(3) assms by simp
  moreover have "n = n'" using arg_cong [OF parts(2), of uint] assms by (simp add: uint_word_of_int_byte)
  ultimately show ?thesis by blast
qed

section \<open>The shape of every instruction\<close>

text \<open>
  For each instruction, the lengths its data can have and the lists its accounts can be: in order, which of them
  sign and which are written. A signing parameter's instruction has one account more when the network signs.
\<close>

definition instruction_layouts :: "(string \<times> nat list \<times> (bool \<times> bool) list list) list" where
  "instruction_layouts =
     (let r = (False, False); w = (False, True); s = (True, False); sw = (True, True) in
      [(''DWalletCreateDeposit'', [98], [[s, w, r, sw, r, r]]),
       (''DWalletTopUp'', [17], [[w, r, w, w, r, sw, r]]),
       (''DWalletRequestWithdraw'', [17], [[s, w, r]]),
       (''DWalletWithdraw'', [73], [[sw, w, r, w, w, r, r, r, r]]),
       (''DWalletTransferGasDeposit'', [33], [[s, w, r, r]]),
       (''DWalletTransferOwnership'', [33], [[s, w]]),
       (''DWalletIssueSignatureVoucher'', [68, 100, 132], [[r, sw, r, s, sw, r]]),
       (''DWalletIssueFutureSignatureVoucher'', [68, 100, 132], [[r, sw, r, s, sw, r]]),
       (''DWalletSetVoucherSigningKey'', [33], [[w, s]]),
       (''DWalletRevokeSignatureVoucher'', [1], [[w, s]]),
       (''DWalletTransferSignatureVoucher'', [33], [[w, s]]),
       (''DWalletRegisterEncryptionKey'', [37], [[r, w, r, sw, r, r, r, r]]),
       (''DWalletAcceptEncryptedUserShare'', [1], [[r, w, w, r, r, r]]),
       (''DWalletPauseSigningParameter'', [6], [[w, s, r, r], [w, s, r, r, r]]),
       (''DWalletUnpauseSigningParameter'', [6], [[w, s, r, r], [w, s, r, r, r]])])"

definition laid_out :: "bytes \<Rightarrow> string \<Rightarrow> nat \<Rightarrow> (bool \<times> bool) list \<Rightarrow> instruction \<Rightarrow> bool" where
  "laid_out programId name n flags ins \<longleftrightarrow> ins_programId ins = programId \<and> length (ins_data ins) = n \<and>
     (\<exists>b. instructionByte name = Inr b \<and> hd (ins_data ins) = word_of_nat b) \<and>
     map (\<lambda>m. (meta_isSigner m, meta_isWritable m)) (ins_keys ins) = flags"

text \<open>
  The Ed25519 precompile instruction that goes before: none, one the package makes, or one of the client's own layout,
  with the key, the message and the signature the program reads from it.
\<close>

datatype precompile = NoPrecompile | Packaged bytes bytes bytes | OwnLayout bytes bytes bytes

definition own_precompile :: "web3_lib \<Rightarrow> bytes \<Rightarrow> bytes \<Rightarrow> bytes \<Rightarrow> instruction \<Rightarrow> bool" where
  "own_precompile W key message signature ins \<longleftrightarrow>
     ins_programId ins = ed25519ProgramId W \<and> ins_keys ins = [] \<and> length (ins_data ins) = 112 + length message \<and>
     take 16 (ins_data ins) =
       [1, 0] @ concat (map (le_bytes 2) [48, 0xffff, 16, 0xffff, 112, int (length message), 0xffff]) \<and>
     drop 112 (ins_data ins) = message \<and>
     (length signature = 64 \<longrightarrow> take 64 (drop 48 (ins_data ins)) = signature \<and>
        (length key = 32 \<longrightarrow> take 32 (drop 16 (ins_data ins)) = key))"

fun precompiled :: "web3_lib \<Rightarrow> precompile \<Rightarrow> instruction list \<Rightarrow> bool" where
  "precompiled W NoPrecompile pre \<longleftrightarrow> pre = []"
| "precompiled W (Packaged key message signature) pre \<longleftrightarrow>
     (case pre of [ins] \<Rightarrow> ed25519Instruction W key message signature = Inr ins | _ \<Rightarrow> False)"
| "precompiled W (OwnLayout key message signature) pre \<longleftrightarrow>
     (case pre of [ins] \<Rightarrow> own_precompile W key message signature ins | _ \<Rightarrow> False)"

text \<open>The proof of possession of a new deposit: made with the keypair, or given.\<close>

definition deposit_proof :: "ed25519_lib \<Rightarrow> request_key \<Rightarrow> bytes \<Rightarrow> bytes \<Rightarrow> bool" where
  "deposit_proof E key message signature \<longleftrightarrow>
     (case key of SigningKeypair _ secretKey \<Rightarrow> edSign E message secretKey = Some signature
      | ProofMade _ proof \<Rightarrow> signature = proof)"

text \<open>Every builder of \<open>instructions.ts\<close>, with the precompile its instruction needs.\<close>

inductive built :: "web3_lib \<Rightarrow> address_lib \<Rightarrow> ed25519_lib \<Rightarrow> bytes \<Rightarrow> string \<Rightarrow> precompile \<Rightarrow> instruction list \<Rightarrow> bool"
  for W A E programId where
  create_deposit: "createDepositInstructions W A E programId p1 = Inr inss \<Longrightarrow>
     depositProofMessage (cr_chainNumber p1) (cr_network p1) (cr_sender p1) = Inr message \<Longrightarrow>
     deposit_proof E (cr_requestKey p1) message signature \<Longrightarrow>
     built W A E programId ''DWalletCreateDeposit''
       (Packaged (request_key_public (cr_requestKey p1)) message signature) inss"
| top_up: "topUpInstruction W A programId p2 = Inr ins \<Longrightarrow> built W A E programId ''DWalletTopUp'' NoPrecompile [ins]"
| request_withdraw: "requestWithdrawInstruction W A programId p3 = Inr ins \<Longrightarrow>
     built W A E programId ''DWalletRequestWithdraw'' NoPrecompile [ins]"
| withdraw: "withdrawInstructions W A programId p4 = Inr inss \<Longrightarrow>
     gasReleaseMessage programId
       \<lparr>gr_deposit = wd_deposit p4, gr_requestPublicKey = wd_requestPublicKey p4,
        gr_withdrawalSequence = wd_withdrawalSequence p4, gr_ikaAmount = wd_ikaAmount p4,
        gr_solAmount = wd_solAmount p4\<rparr> = Inr message \<Longrightarrow>
     built W A E programId ''DWalletWithdraw'' (Packaged (wd_networkPublicKey p4) message (wd_signature p4)) inss"
| transfer_deposit: "transferGasDepositInstruction W A programId o1 d1 n1 = Inr ins \<Longrightarrow>
     built W A E programId ''DWalletTransferGasDeposit'' NoPrecompile [ins]"
| transfer_ownership: "transferOwnershipInstruction programId o2 d2 n2 = Inr ins \<Longrightarrow>
     built W A E programId ''DWalletTransferOwnership'' NoPrecompile [ins]"
| issue_voucher: "issueSignatureVoucherInstruction W A programId p5 = Inr ins \<Longrightarrow>
     built W A E programId ''DWalletIssueSignatureVoucher'' NoPrecompile [ins]"
| issue_future: "issueFutureSignatureVoucherInstruction W A programId p6 = Inr ins \<Longrightarrow>
     built W A E programId ''DWalletIssueFutureSignatureVoucher'' NoPrecompile [ins]"
| set_voucher_key: "setVoucherSigningKeyInstruction programId o3 v3 k3 = Inr ins \<Longrightarrow>
     built W A E programId ''DWalletSetVoucherSigningKey'' NoPrecompile [ins]"
| revoke_voucher: "revokeSignatureVoucherInstruction programId o4 v4 = Inr ins \<Longrightarrow>
     built W A E programId ''DWalletRevokeSignatureVoucher'' NoPrecompile [ins]"
| transfer_voucher: "transferSignatureVoucherInstruction programId o5 v5 n5 = Inr ins \<Longrightarrow>
     built W A E programId ''DWalletTransferSignatureVoucher'' NoPrecompile [ins]"
| register_key: "registerEncryptionKeyInstructions W A programId p7 = Inr inss \<Longrightarrow>
     built W A E programId ''DWalletRegisterEncryptionKey''
       (OwnLayout (rk_holderPublicKey p7)
          (encryptionKeyRegistrationMessage (rk_chainNumber p7) (rk_network p7) (rk_curve p7) (rk_encryptionKey p7))
          (rk_signature p7)) inss"
| accept_share: "acceptEncryptedUserShareInstructions W A programId p8 = Inr inss \<Longrightarrow>
     built W A E programId ''DWalletAcceptEncryptedUserShare''
       (OwnLayout (as_holderPublicKey p8) (as_acceptanceDigest p8) (as_signature p8)) inss"
| pause: "pauseSigningParameterInstruction W A programId p9 = Inr ins \<Longrightarrow>
     built W A E programId ''DWalletPauseSigningParameter'' NoPrecompile [ins]"
| unpause: "unpauseSigningParameterInstruction W A programId p10 = Inr ins \<Longrightarrow>
     built W A E programId ''DWalletUnpauseSigningParameter'' NoPrecompile [ins]"

lemma laid_outI:
  assumes "instructionData name n sets = Inr (ins_data ins)" "0 < n" "list_all (\<lambda>(at, f). 0 < at) sets"
    and "ins_programId ins = programId" "map (\<lambda>m. (meta_isSigner m, meta_isWritable m)) (ins_keys ins) = flags"
  shows "laid_out programId name n flags ins"
  using instructionData_Inr [OF assms(1-3)] assms(4,5) by (auto simp: laid_out_def)

lemma voucher_laid_out:
  assumes "issueSignatureVoucherInstruction W A programId p = Inr ins"
  shows "\<exists>n \<in> {68, 100, 132}. laid_out programId ''DWalletIssueSignatureVoucher'' n
     [(False, False), (True, True), (False, False), (True, False), (True, True), (False, False)] ins"
proof -
  define present where "present = presentFields [iv_voucherOwner p, iv_requestPublicKey p]"
  have "length present \<in> {0, 1, 2}"
    by (auto simp: present_def presentFields_def List.map_filter_def split: option.splits)
  then have n: "68 + 32 * length present \<in> {68, 100, 132}" by auto
  let ?sets = "[(1, iv_messageDigest p), (33, (case iv_messageMetadataDigest p of None \<Rightarrow> replicate 32 0 | Some d \<Rightarrow> d)),
      (65, le_bytes 2 (iv_signatureScheme p)), (67, [word_of_nat (voucherFlags p)])] @
      zip (map (\<lambda>i. 68 + 32 * i) [0..<length present]) present"
  have at: "list_all (\<lambda>(at, f). 0 < at) ?sets" by (auto simp: list_all_iff dest!: set_zip_leftD)
  from assms have "instructionData ''DWalletIssueSignatureVoucher'' (68 + 32 * length present) ?sets
        = Inr (ins_data ins)"
    and "ins_programId ins = programId" "map (\<lambda>m. (meta_isSigner m, meta_isWritable m)) (ins_keys ins) =
      [(False, False), (True, True), (False, False), (True, False), (True, True), (False, False)]"
    by (auto simp: issueSignatureVoucherInstruction_def Let_def result_simps present_def meta_def)
  from laid_outI [OF this(1) _ at this(2,3)] n show ?thesis by auto
qed

definition well_laid_out :: "bytes \<Rightarrow> string \<Rightarrow> instruction \<Rightarrow> bool" where
  "well_laid_out programId name ins \<longleftrightarrow>
     (case map_of instruction_layouts name of
        None \<Rightarrow> False
      | Some (lengths, accounts) \<Rightarrow> \<exists>n \<in> set lengths. \<exists>flags \<in> set accounts. laid_out programId name n flags ins)"

lemma voucher_well_laid_out:
  assumes "issueSignatureVoucherInstruction W A programId p = Inr ins"
  shows "well_laid_out programId ''DWalletIssueSignatureVoucher'' ins"
  using voucher_laid_out [OF assms] by (auto simp: well_laid_out_def instruction_layouts_def Let_def)

lemma future_voucher_well_laid_out:
  assumes "issueFutureSignatureVoucherInstruction W A programId p = Inr ins"
  shows "well_laid_out programId ''DWalletIssueFutureSignatureVoucher'' ins"
proof -
  from assms obtain b old where old: "issueSignatureVoucherInstruction W A programId p = Inr old"
      and b: "instructionByte ''DWalletIssueFutureSignatureVoucher'' = Inr b"
      and ins: "ins = old\<lparr>ins_data := (ins_data old)[0 := word_of_nat b]\<rparr>"
    by (auto simp: issueFutureSignatureVoucherInstruction_def result_simps)
  from voucher_laid_out [OF old] obtain n where n: "n \<in> {68, 100, 132}"
      "laid_out programId ''DWalletIssueSignatureVoucher'' n
     [(False, False), (True, True), (False, False), (True, False), (True, True), (False, False)] old" by blast
  then have "laid_out programId ''DWalletIssueFutureSignatureVoucher'' n
     [(False, False), (True, True), (False, False), (True, False), (True, True), (False, False)] ins"
    using b unfolding ins laid_out_def by (cases "ins_data old") auto
  with n(1) show ?thesis by (auto simp: well_laid_out_def instruction_layouts_def Let_def)
qed

text \<open>One length: what the data and the accounts of a builder give.\<close>

lemma single_well_laid_out:
  assumes "map_of instruction_layouts name = Some ([n], accounts)"
    and "instructionData name n sets = Inr (ins_data ins)" "0 < n" "list_all (\<lambda>(at, f). 0 < at) sets"
    and "ins_programId ins = programId" "map (\<lambda>m. (meta_isSigner m, meta_isWritable m)) (ins_keys ins) \<in> set accounts"
  shows "well_laid_out programId name ins"
  using assms(1,6) laid_outI [OF assms(2-5) refl] by (auto simp: well_laid_out_def)

lemmas builder_defs = createDepositInstructions_def topUpInstruction_def
    requestWithdrawInstruction_def withdrawInstructions_def transferGasDepositInstruction_def
    transferOwnershipInstruction_def setVoucherSigningKeyInstruction_def revokeSignatureVoucherInstruction_def
    transferSignatureVoucherInstruction_def registerEncryptionKeyInstructions_def
    acceptEncryptedUserShareInstructions_def voucherControlInstruction_def pauseSigningParameterInstruction_def
    unpauseSigningParameterInstruction_def signingParameterInstruction_def meta_def

lemma instruction_layouts_single:
  "map_of instruction_layouts ''DWalletCreateDeposit'' = Some ([98], [[(True, False), (False, True), (False, False), (True, True), (False, False), (False, False)]])"
  "map_of instruction_layouts ''DWalletTopUp'' = Some ([17], [[(False, True), (False, False), (False, True), (False, True), (False, False), (True, True), (False, False)]])"
  "map_of instruction_layouts ''DWalletRequestWithdraw'' = Some ([17], [[(True, False), (False, True), (False, False)]])"
  "map_of instruction_layouts ''DWalletWithdraw'' = Some ([73], [[(True, True), (False, True), (False, False), (False, True), (False, True), (False, False), (False, False), (False, False), (False, False)]])"
  "map_of instruction_layouts ''DWalletTransferGasDeposit'' = Some ([33], [[(True, False), (False, True), (False, False), (False, False)]])"
  "map_of instruction_layouts ''DWalletTransferOwnership'' = Some ([33], [[(True, False), (False, True)]])"
  "map_of instruction_layouts ''DWalletSetVoucherSigningKey'' = Some ([33], [[(False, True), (True, False)]])"
  "map_of instruction_layouts ''DWalletRevokeSignatureVoucher'' = Some ([1], [[(False, True), (True, False)]])"
  "map_of instruction_layouts ''DWalletTransferSignatureVoucher'' = Some ([33], [[(False, True), (True, False)]])"
  "map_of instruction_layouts ''DWalletRegisterEncryptionKey'' = Some ([37], [[(False, False), (False, True), (False, False), (True, True), (False, False), (False, False), (False, False), (False, False)]])"
  "map_of instruction_layouts ''DWalletAcceptEncryptedUserShare'' = Some ([1], [[(False, False), (False, True), (False, True), (False, False), (False, False), (False, False)]])"
  "map_of instruction_layouts ''DWalletPauseSigningParameter'' = Some ([6], [[(False, True), (True, False), (False, False), (False, False)],
     [(False, True), (True, False), (False, False), (False, False), (False, False)]])"
  "map_of instruction_layouts ''DWalletUnpauseSigningParameter'' = Some ([6], [[(False, True), (True, False), (False, False), (False, False)],
     [(False, True), (True, False), (False, False), (False, False), (False, False)]])"
  by (simp_all add: instruction_layouts_def Let_def)

lemmas single_layouts = instruction_layouts_single [THEN single_well_laid_out]

text \<open>The client's own precompile: the header, the key, the signature and the message, each at its offset.\<close>

lemma setAll_append: "setAll (xs @ ys) buffer = bindE (setAll xs buffer) (setAll ys)"
  by (induction xs buffer rule: setAll.induct) (simp_all add: bindE_def split: sum.split)

lemma precompile_header:
  "setAll ((0, [1]) # zip (map (\<lambda>i. 2 + i * 2) [0..<7]) (map (le_bytes 2) [48, 0xffff, 16, 0xffff, 112, m, 0xffff]))
     (replicate 16 0 @ rest) =
   Inr ([1, 0] @ concat (map (le_bytes 2) [48, 0xffff, 16, 0xffff, 112, m, 0xffff]) @ rest)"
  by (simp add: setBytes_def upt_rec bindE_Inr)

lemma setBytes_keeps:
  assumes "setBytes at f buffer = Inr out"
  shows "length out = length buffer" "take (length f) (drop at out) = f" "at + length f \<le> length buffer"
    and "i \<le> at \<Longrightarrow> take i out = take i buffer" "i + n \<le> at \<Longrightarrow> take n (drop i out) = take n (drop i buffer)"
proof -
  from assms have fits: "at + length f \<le> length buffer" and out: "out = take at buffer @ f @ drop (at + length f) buffer"
    by (auto simp: setBytes_def split: if_splits)
  from fits show "length out = length buffer" "take (length f) (drop at out) = f" "at + length f \<le> length buffer"
    unfolding out by simp_all
  from fits show head: "take i out = take i buffer" if "i \<le> at" for i unfolding out using that by simp
  show "take n (drop i out) = take n (drop i buffer)" if "i + n \<le> at" for i n
    using head [OF that] by (simp add: take_drop add.commute)
qed

lemma set_fields:
  assumes "setAll [(16, key), (48, signature), (112, message)] (header @ replicate (96 + length message) 0) = Inr out"
    and "length header = 16"
  shows "length out = 112 + length message" "take 16 out = header" "drop 112 out = message"
    and "length signature = 64 \<Longrightarrow> take 64 (drop 48 out) = signature"
    and "length signature = 64 \<Longrightarrow> length key = 32 \<Longrightarrow> take 32 (drop 16 out) = key"
proof -
  from assms(1) obtain o1 o2 where o1: "setBytes 16 key (header @ replicate (96 + length message) 0) = Inr o1"
    and o2: "setBytes 48 signature o1 = Inr o2" and out: "setBytes 112 message o2 = Inr out"
    by (auto simp: bindE_eq_Inr)
  note k1 = setBytes_keeps [OF o1] and k2 = setBytes_keeps [OF o2] and k3 = setBytes_keeps [OF out]
  show l: "length out = 112 + length message" using k1(1) k2(1) k3(1) assms(2) by simp
  show "take 16 out = header" using k1(4) [of 16] k2(4) [of 16] k3(4) [of 16] assms(2) by simp
  show "drop 112 out = message" using k3(2) l by simp
  show "take 64 (drop 48 out) = signature" if "length signature = 64" using k3(5) [of 48 64] k2(2) that by simp
  show "take 32 (drop 16 out) = key" if "length signature = 64" "length key = 32"
    using k3(5) [of 16 32] k2(5) [of 16 32] k1(2) that by simp
qed

lemma registration_precompile:
  assumes "registrationPrecompileInstruction W key message signature = Inr ins"
  shows "own_precompile W key message signature ins"
proof -
  let ?fields = "[48, 0xffff, 16, 0xffff, 112, int (length message), 0xffff]"
  let ?sets = "(0, [1]) # zip (map (\<lambda>i. 2 + i * 2) [0..<7]) (map (le_bytes 2) ?fields)"
  let ?rest = "replicate (96 + length message) 0 :: bytes" and ?header = "[1, 0] @ concat (map (le_bytes 2) ?fields)"
  have eq: "registrationPrecompileInstruction W key message signature =
      bindE (newData (112 + length message) (?sets @ [(16, key), (48, signature), (112, message)]))
        (\<lambda>ins_bytes. Inr \<lparr>ins_programId = ed25519ProgramId W, ins_keys = [], ins_data = ins_bytes\<rparr>)"
    by (simp add: registrationPrecompileInstruction_def Let_def upt_rec)
  from assms [unfolded eq] obtain out where out: "newData (112 + length message) (?sets @ [(16, key), (48, signature), (112, message)]) = Inr out"
    and ins: "ins = \<lparr>ins_programId = ed25519ProgramId W, ins_keys = [], ins_data = out\<rparr>"
    unfolding bindE_eq_Inr sum.inject by blast
  have "replicate (112 + length message) 0 = replicate 16 0 @ ?rest" by (simp add: replicate_add [symmetric])
  with out have "setAll [(16, key), (48, signature), (112, message)] (?header @ ?rest) = Inr out"
    using precompile_header [of "int (length message)" ?rest]
    unfolding newData_def setAll_append by (simp only: bindE_Inr append_assoc)
  from set_fields [OF this] show ?thesis unfolding own_precompile_def ins by simp
qed

lemma one_laid_out:
  "well_laid_out programId name ins \<Longrightarrow>
     \<exists>pre ins'. [ins] = pre @ [ins'] \<and> well_laid_out programId name ins' \<and> precompiled W NoPrecompile pre"
  by simp

lemma two_laid_out:
  "well_laid_out programId name ins \<Longrightarrow> precompiled W p [first] \<Longrightarrow>
     \<exists>pre ins'. [first, ins] = pre @ [ins'] \<and> well_laid_out programId name ins' \<and> precompiled W p pre"
  by (intro exI [of _ "[first]"] exI [of _ ins]) simp

text \<open>
  C26. What every builder gives, whatever its arguments: one instruction, after the Ed25519 precompile instruction it
  needs and none otherwise. The instruction has the shape of its name: the program's own id, the instruction's byte of
  the wire table, data of a length the instruction has, and as many accounts as it can have, of which exactly the right
  ones sign and are written. The precompile is over the very key, message and signature of the builder's arguments: the
  proof of a deposit, the network's release, a registration or the acceptance of a share. The client's own precompile
  lays them out at the offsets its header names, all of them in its own data.
\<close>

theorem built_instructions_laid_out:
  assumes "built W A E programId name precompile inss"
  shows "\<exists>pre ins. inss = pre @ [ins] \<and> well_laid_out programId name ins \<and> precompiled W precompile pre"
  using assms
proof cases
  case (create_deposit p message signature)
  then show ?thesis
    by (cases "cr_requestKey p")
      (auto simp: builder_defs Let_def bindE_eq_Inr ofOption_eq_Inr deposit_proof_def intro!: two_laid_out single_layouts(1)
        split: prod.splits)
next
  case (withdraw p message)
  then show ?thesis by (auto simp: builder_defs Let_def bindE_eq_Inr intro!: two_laid_out single_layouts(4))
next
  case (register_key p)
  then show ?thesis
    by (auto simp: builder_defs Let_def bindE_eq_Inr intro!: two_laid_out single_layouts(10) dest!: registration_precompile)
next
  case (accept_share p)
  then show ?thesis
    by (auto simp: builder_defs Let_def bindE_eq_Inr intro!: two_laid_out single_layouts(11) dest!: registration_precompile)
next
  case (issue_voucher p ins)
  then show ?thesis using one_laid_out [OF voucher_well_laid_out] by simp
next
  case (issue_future p ins)
  then show ?thesis using one_laid_out [OF future_voucher_well_laid_out] by simp
qed (auto simp: builder_defs Let_def bindE_eq_Inr intro!: single_layouts split: if_split_asm)

section \<open>The read of a registered key\<close>

text \<open>\<open>new PublicKey\<close> keeps 32 bytes as they are, as the package documents.\<close>

definition keeps_keys :: "web3_lib \<Rightarrow> bool" where
  "keeps_keys W \<longleftrightarrow> (\<forall>b. length b = 32 \<longrightarrow> newPublicKey W b = Inr b)"

text \<open>An entry an endpoint answered at the holder's derived address, as \<open>accounts.ts\<close> reads it.\<close>

definition registered_entry ::
    "web3_lib \<Rightarrow> address_lib \<Rightarrow> bytes \<Rightarrow> get_account \<Rightarrow> bytes \<Rightarrow> int \<Rightarrow> encryption_key_account \<Rightarrow> bool" where
  "registered_entry W A programId get holder curve k \<longleftrightarrow>
     (\<exists>pda a s dt. encryptionKeyPda A programId holder curve = Inr pda \<and>
        get (address pda) s = Some (dt, Inr (Some a)) \<and> newPublicKey W (ra_owner a) = Inr programId \<and>
        readEncryptionKeyUnverified (ra_data a) = Inr (Some k)) \<and>
     ek_signerPublicKey k = holder \<and> int (ek_curve k) = curve \<and> ek_signatureScheme k = 0"

text \<open>The holder's signature over the registration of the entry's key on this chain and network.\<close>

definition signed_entry :: "sdk_lib \<Rightarrow> read_key \<Rightarrow> encryption_key_account \<Rightarrow> bool" where
  "signed_entry L params k \<longleftrightarrow>
     ed25519_verify L (ek_signature k)
       (encryptionKeyRegistrationMessage (re_chainNumber params) (re_network params) (re_curve params)
          (ek_encryptionKey k)) (re_holderPublicKey params) = Some True"

lemma readsAsEntry_reads:
  "readsAsEntry bs = Inr (Some fixed) \<Longrightarrow> fixed = 120 \<and> 120 \<le> length bs \<and>
     (\<exists>k. readEncryptionKeyUnverified bs = Inr (Some k) \<and> ek_signerPublicKey k = slice 2 34 bs \<and>
        ek_signatureScheme k = byteAt bs 34 \<and> ek_curve k = readU16 bs 35 \<and> ek_signature k = slice 39 103 bs \<and>
        ek_encryptionKey k = drop fixed bs)"
  by (auto simp: readsAsEntry_def readEncryptionKeyUnverified_def variableAccount_def accountEntry_def look_def
      wire_accounts_def account_def result_simps readU64_def split: if_splits)

lemma checkedEncryptionKeyEntry_Inr:
  assumes "checkedEncryptionKeyEntry W L programId at params a = Inr e" "keeps_keys W"
    and "length (re_holderPublicKey params) = 32"
  shows "newPublicKey W (ra_owner a) = Inr programId \<and>
    (\<exists>k. readEncryptionKeyUnverified (ra_data a) = Inr (Some k) \<and> ek_signerPublicKey k = re_holderPublicKey params \<and>
       int (ek_curve k) = re_curve params \<and> ek_signatureScheme k = 0 \<and> signed_entry L params k \<and>
       e = \<lparr>ke_address = at, ke_signerPublicKey = re_holderPublicKey params, ke_curve = re_curve params,
            ke_signature = ek_signature k, ke_signatureScheme = 0, ke_encryptionKey = ek_encryptionKey k\<rparr>)"
proof -
  from assms(1) obtain fixed signer where
      owner: "newPublicKey W (ra_owner a) = Inr programId"
      and shape: "readsAsEntry (ra_data a) = Inr (Some fixed)"
      and signer: "newPublicKey W (slice 2 34 (ra_data a)) = Inr signer"
        "newPublicKey W (re_holderPublicKey params) = Inr signer"
      and rest: "int (readU16 (ra_data a) 35) = re_curve params" "byteAt (ra_data a) 34 = 0"
        "ed25519_verify L (slice 39 103 (ra_data a))
           (encryptionKeyRegistrationMessage (re_chainNumber params) (re_network params) (re_curve params)
              (drop fixed (ra_data a))) (re_holderPublicKey params) = Some True"
      and e: "e = \<lparr>ke_address = at, ke_signerPublicKey = slice 2 34 (ra_data a), ke_curve = re_curve params,
           ke_signature = slice 39 103 (ra_data a), ke_signatureScheme = 0,
           ke_encryptionKey = drop fixed (ra_data a)\<rparr>"
    by (auto simp: checkedEncryptionKeyEntry_def Let_def result_simps ENCRYPTION_KEY_ED25519_SIGNATURE_SCHEME_def
        split: option.splits if_splits)
  note reads = readsAsEntry_reads [OF shape]
  then have "length (slice 2 34 (ra_data a)) = 32" by simp
  with signer assms(2,3) have "slice 2 34 (ra_data a) = re_holderPublicKey params" by (auto simp: keeps_keys_def)
  with reads rest e owner show ?thesis unfolding signed_entry_def by auto
qed

text \<open>
  C24. A key \<open>readEncryptionKey\<close> returns is one the holder signed for this chain, network and curve, read
  from the program's account at the holder's derived address; where a second endpoint is named, it serves an
  entry of the holder with the same key and signature there.
\<close>

theorem readEncryptionKey_sound:
  assumes "readEncryptionKey W L A lag programId get cc params now = Some (t, Inr e)" "keeps_keys W"
    and "length (re_holderPublicKey params) = 32"
  shows "\<exists>k. registered_entry W A programId get (re_holderPublicKey params) (re_curve params) k \<and>
    signed_entry L params k \<and> ke_encryptionKey e = ek_encryptionKey k \<and> ke_signature e = ek_signature k \<and>
    ke_signerPublicKey e = re_holderPublicKey params \<and> ke_curve e = re_curve params \<and>
    (\<forall>get'. cc = CrossCheckThrough get' \<longrightarrow>
       (\<exists>k'. registered_entry W A programId get' (re_holderPublicKey params) (re_curve params) k' \<and>
          ek_encryptionKey k' = ek_encryptionKey k \<and> ek_signature k' = ek_signature k))"
proof -
  let ?read = "\<lambda>pda. throughAccount (address pda) (\<lambda>a.
           bindE (checkedEncryptionKeyEntry W L programId (address pda) params a) (\<lambda>e. Inr (Some e)))"
  from assms(1) obtain pda t'
    where pda: "encryptionKeyPda A programId (re_holderPublicKey params) (re_curve params) = Inr pda"
      and read: "crossCheckedAccountRead lag get cc (?read pda)
              (\<lambda>first second. equalBytes (ke_encryptionKey first) (ke_encryptionKey second) \<and>
                 equalBytes (ke_signature first) (ke_signature second)) None now = Some (t', Inr (Some e))"
    by (auto simp: readEncryptionKey_def Let_def result_simps)
  have found: "\<exists>k. registered_entry W A programId g (re_holderPublicKey params) (re_curve params) k \<and>
      signed_entry L params k \<and> ke_encryptionKey w = ek_encryptionKey k \<and> ke_signature w = ek_signature k \<and>
      ke_signerPublicKey w = re_holderPublicKey params \<and> ke_curve w = re_curve params"
    if "?read pda g s = Some (dt, Inr (Some w))" for g s dt w
  proof -
    from that obtain a where a: "g (address pda) s = Some (dt, Inr (Some a))"
        "checkedEncryptionKeyEntry W L programId (address pda) params a = Inr w"
      by (auto simp: throughAccount_found result_simps)
    from checkedEncryptionKeyEntry_Inr [OF a(2) assms(2,3)] obtain k where k:
        "newPublicKey W (ra_owner a) = Inr programId" "readEncryptionKeyUnverified (ra_data a) = Inr (Some k)"
        "ek_signerPublicKey k = re_holderPublicKey params" "int (ek_curve k) = re_curve params"
        "ek_signatureScheme k = 0" "signed_entry L params k"
      and w: "w = \<lparr>ke_address = address pda, ke_signerPublicKey = re_holderPublicKey params, ke_curve = re_curve params,
            ke_signature = ek_signature k, ke_signatureScheme = 0, ke_encryptionKey = ek_encryptionKey k\<rparr>" by blast
    have "registered_entry W A programId g (re_holderPublicKey params) (re_curve params) k"
      unfolding registered_entry_def using k pda a(1) by blast
    with k(6) w show ?thesis by (intro exI [of _ k]) simp
  qed
  note agreed = crossCheckedAccountRead_Inr [OF read]
  then obtain k where k: "registered_entry W A programId get (re_holderPublicKey params) (re_curve params) k"
      "signed_entry L params k" "ke_encryptionKey e = ek_encryptionKey k" "ke_signature e = ek_signature k"
      "ke_signerPublicKey e = re_holderPublicKey params" "ke_curve e = re_curve params"
    using found by blast
  have "\<exists>k'. registered_entry W A programId get' (re_holderPublicKey params) (re_curve params) k' \<and>
          ek_encryptionKey k' = ek_encryptionKey k \<and> ek_signature k' = ek_signature k"
    if cc: "cc = CrossCheckThrough get'" for get'
  proof -
    from agreed cc obtain s dt w where "?read pda get' s = Some (dt, Inr (Some w))"
        "ke_encryptionKey w = ke_encryptionKey e" "ke_signature w = ke_signature e"
      by (auto simp: sameValue_def split: option.splits)
    with found k(3,4) show ?thesis by metis
  qed
  with k show ?thesis by blast
qed

section \<open>Issuing a voucher\<close>

lemma instructionData_laid:
  assumes "instructionByte name = Inr b" "n = 1 + length (concat fs)"
  shows "instructionData name n (laidFrom 1 fs) = Inr (word_of_nat b # concat fs)"
  using newData_laid [of n "[word_of_nat b] # fs"] assms by (simp add: instructionData_def result_simps)

text \<open>
  A voucher's instruction is built only on the result of an ownership check for this very dWallet on
  Solana and the user's own key; then its data is the instruction's byte, the message's digest, the metadata's
  digest or 32 zeros, the scheme, which of owner and signing key follow, and those that do.
\<close>

theorem issueSignatureVoucherInstruction_iff:
  assumes "length (iv_messageDigest p) = 32" "\<forall>d. iv_messageMetadataDigest p = Some d \<longrightarrow> length d = 32"
    and "\<forall>k. iv_requestPublicKey p = Some k \<longrightarrow> length k = 32" "\<forall>k. iv_voucherOwner p = Some k \<longrightarrow> length k = 32"
  shows "issueSignatureVoucherInstruction W A programId p = Inr ins \<longleftrightarrow>
    (\<exists>u r coordinator. iv_usability p = Some u \<and> (au_usable u = Some r \<or> au_usable u = None \<and> au_check u = Some (Inr r)) \<and>
       ur_chain r = OnSolana \<and> ur_address r = iv_dwallet p \<and> ur_holder r = au_holderSignerPublicKey u \<and>
       coordinatorAddress W A programId = Inr coordinator \<and>
       ins = \<lparr>ins_programId = programId,
          ins_keys = [meta coordinator False False, meta (iv_voucher p) True True,
                      meta (iv_dwallet p) False False, meta (iv_owner p) True False,
                      meta (case iv_payer p of None \<Rightarrow> iv_owner p | Some k \<Rightarrow> k) True True,
                      meta (systemProgramId W) False False],
          ins_data = 156 # iv_messageDigest p @
            (case iv_messageMetadataDigest p of None \<Rightarrow> replicate 32 0 | Some d \<Rightarrow> d) @
            le_bytes 2 (iv_signatureScheme p) @ [word_of_nat (voucherFlags p)] @
            (case iv_voucherOwner p of None \<Rightarrow> [] | Some k \<Rightarrow> k) @
            (case iv_requestPublicKey p of None \<Rightarrow> [] | Some k \<Rightarrow> k)\<rparr>)"
proof -
  let ?digest = "case iv_messageMetadataDigest p of None \<Rightarrow> replicate 32 0 | Some d \<Rightarrow> d"
  let ?present = "presentFields [iv_voucherOwner p, iv_requestPublicKey p]"
  let ?sets = "[(1, iv_messageDigest p), (33, ?digest), (65, le_bytes 2 (iv_signatureScheme p)),
      (67, [word_of_nat (voucherFlags p)])] @ zip (map (\<lambda>i. 68 + 32 * i) [0..<length ?present]) ?present"
  let ?fields = "[iv_messageDigest p, ?digest, le_bytes 2 (iv_signatureScheme p), [word_of_nat (voucherFlags p)]] @ ?present"
  have digest: "length ?digest = 32" using assms(2) by (cases "iv_messageMetadataDigest p") auto
  have present: "?present = (case iv_voucherOwner p of None \<Rightarrow> [] | Some k \<Rightarrow> [k]) @
      (case iv_requestPublicKey p of None \<Rightarrow> [] | Some k \<Rightarrow> [k])"
    by (auto simp: presentFields_def List.map_filter_def split: option.splits)
  have sets: "?sets = laidFrom 1 ?fields"
    unfolding present using assms digest
    by (cases "iv_voucherOwner p"; cases "iv_requestPublicKey p") simp_all
  have n: "68 + 32 * length ?present = 1 + length (concat ?fields)"
    unfolding present using assms digest
    by (cases "iv_voucherOwner p"; cases "iv_requestPublicKey p") simp_all
  have byte: "instructionByte ''DWalletIssueSignatureVoucher'' = Inr 156"
    by (simp add: instructionByte_def look_def wire_instructions_def result_simps)
  have ins_bytes: "instructionData ''DWalletIssueSignatureVoucher'' (68 + 32 * length ?present) ?sets =
      Inr (156 # concat ?fields)"
    unfolding sets using instructionData_laid [OF byte n] by simp
  have concat_present: "concat ?present = (case iv_voucherOwner p of None \<Rightarrow> [] | Some k \<Rightarrow> k) @
            (case iv_requestPublicKey p of None \<Rightarrow> [] | Some k \<Rightarrow> k)"
    unfolding present by (simp split: option.splits)
  show ?thesis
    unfolding issueSignatureVoucherInstruction_def Let_def ins_bytes bindE_Inr bindE_eq_Inr
      requireApprovalUsability_Inr
    using concat_present by auto
qed

end
