(* ===== verification/Demo_Solana.thy ===== *)
theory Demo_Solana
  imports Instruction_Laws Demo_Requests Demo_Ownership
begin

text \<open>
  Concrete Solana accounts and endpoints, and the properties of the Solana readers and instructions that
  have a hypothesis applied to them.
\<close>

section \<open>Addresses and endpoints\<close>

text \<open>No hash is on the curve, and an address shows how many bytes it was derived from.\<close>

definition lengthAddress :: address_lib where
  "lengthAddress = \<lparr>sha_256 = (\<lambda>b. word_of_nat (length b) # replicate 31 7), pointFromBytes = (\<lambda>_. None)\<rparr>"

lemma find_lengthAddress:
  assumes "length programId = 32" "length seeds < MAX_SEEDS" "list_all (\<lambda>s. length s \<le> MAX_SEED_LEN) seeds"
  shows "findProgramAddress lengthAddress seeds programId =
     Inr \<lparr>address = word_of_nat (length (addressPreimage seeds 255 programId)) # replicate 31 7, bump = 255\<rparr>"
proof -
  have "searchBump lengthAddress seeds programId (Suc 255) =
      Inr \<lparr>address = word_of_nat (length (addressPreimage seeds 255 programId)) # replicate 31 7, bump = 255\<rparr>"
    unfolding searchBump.simps(2) Let_def by (simp add: isOnCurve_def lengthAddress_def)
  with assms show ?thesis
    by (auto simp: findProgramAddress_def list_all_iff list_ex_iff simp del: searchBump.simps)
qed

text \<open>An endpoint that serves, at every address, the account of the program that its first byte stands for.\<close>

definition serving :: "(byte \<Rightarrow> bytes) \<Rightarrow> get_account" where
  "serving accounts at now = Some (1, Inr (Some \<lparr>ra_owner = theKey, ra_data = accounts (hd at)\<rparr>))"

lemma read_serving:
  "throughAccount at decode (serving accounts) now = Some (1, decode \<lparr>ra_owner = theKey, ra_data = accounts (hd at)\<rparr>)"
  by (simp add: throughAccount_def serving_def result_simps)

text \<open>A read that both endpoints answer alike in a millisecond ends then.\<close>

lemma cross_agreed:
  assumes "\<And>s. read get s = Some (1, Inr (Some v))" "\<And>s. read get' s = Some (1, Inr (Some v'))" "eq v v'"
  shows "crossCheckedAccountRead (\<lambda>_. 0) get (CrossCheckThrough get') read eq pos now = Some (now + 1, Inr (Some v))"
  using assms
  by (simp add: crossCheckedAccountRead_def crossCheckedRead_def accountCrossCheck_def accountEndpoint_def
      readFrom_def bothReads_def answered_def agreed_def sameValue_def
      CROSS_CHECK_WINDOW_MS_def result_simps crossLoop.simps)

section \<open>A network key\<close>

lemma le_value_zeros: "le_value (replicate n 0) = 0"
  by (induction n) simp_all

definition keyAccount :: bytes where
  "keyAccount = [98, 1] @ theKey @ replicate 17 0 @ lengthHash [1, 2] @ replicate 17 0 @ [98] @ demoProofBytes"

definition stateAccount :: bytes where
  "stateAccount = [1, 1, 5] @ replicate 563 0"

definition keyEndpoint :: get_account where
  "keyEndpoint = serving (\<lambda>b. if b = 70 then stateAccount else keyAccount)"

definition demoKeyAccount :: network_key_account where
  "demoKeyAccount =
     \<lparr>nk_noaPublicKey = theKey, nk_state = 0, nk_createdEpoch = 0, nk_lastReconfigurationEpoch = 0,
      nk_dkgOutputDigest = lengthHash [1, 2], nk_proof = Some demoProofBytes\<rparr>"

lemma demo_key_account: "length keyAccount = 199" "readNetworkEncryptionKey keyAccount = Inr (Some demoKeyAccount)"
proof -
  have l: "length demoProofBytes = 98" "length theKey = 32" "length (lengthHash [1, 2]) = 32"
    by (simp_all add: demoProofBytes_def theKey_def lengthHash_def)
  then show "length keyAccount = 199" by (simp add: keyAccount_def)
  have b: "byteAt keyAccount 0 = 98" "byteAt keyAccount 34 = 0" "byteAt keyAccount 100 = 98"
    "slice 2 34 keyAccount = theKey" "slice 51 83 keyAccount = lengthHash [1, 2]"
    "slice 101 199 keyAccount = demoProofBytes" "slice 35 43 keyAccount = replicate 8 0"
    "slice 43 51 keyAccount = replicate 8 0"
    using l by (simp_all add: keyAccount_def byteAt_def slice_def nth_append)
  then show "readNetworkEncryptionKey keyAccount = Inr (Some demoKeyAccount)"
    using \<open>length keyAccount = 199\<close>
    by (simp add: readNetworkEncryptionKey_def ofAccount_def isAccount_def accountDataLen_def
        accountDiscriminator_def accountEntry_def look_def wire_accounts_def account_def result_simps
        header_discriminator_offset_def readU64_def readRecordProof_def RECORD_PROOF_SLOT_LEN_def demoKeyAccount_def
        le_value_zeros)
qed

lemma demo_key_pda:
  "networkEncryptionKeyPda lengthAddress theKey theKey = Inr \<lparr>address = 108 # replicate 31 7, bump = 255\<rparr>"
proof -
  have "deriveSeeds ''NetworkEncryptionKey'' [''noa_public_key'' \<mapsto> SeedBytes theKey] =
      Inr [ascii ''network_encryption_key'', theKey]"
    by (simp add: deriveSeeds_def seedSchema_def look_def wire_seed_schemas_def asBytes_def result_simps theKey_def)
  then show ?thesis
    by (simp add: networkEncryptionKeyPda_def deriveAddress_def result_simps find_lengthAddress MAX_SEEDS_def
        MAX_SEED_LEN_def theKey_def addressPreimage_def PDA_MARKER_def)
qed

lemma demo_key_read: "readKeyThrough lengthAddress theKey theKey keyEndpoint now = Some (1, Inr (Some demoKeyAccount))"
proof -
  have "accountDataLen ''NetworkEncryptionKey'' = Inr 199"
    by (simp add: accountDataLen_def accountEntry_def look_def wire_accounts_def account_def result_simps)
  then show ?thesis using demo_key_account
    by (simp add: demo_key_pda readKeyThrough_def openCheck_def openGuard_def keyEndpoint_def read_serving programAccount_def
        mapFound_def result_simps demoKeyAccount_def)
qed

definition demoRecords :: output_chain where
  "demoRecords = solanaNetworkKeyOutputRecordReader lengthAddress (\<lambda>_. 0) theKey keyEndpoint
     (CrossCheckThrough keyEndpoint) (Custom [theKey])"

lemma demo_records:
  "dkgRecord demoRecords theKey now = (1, Inr (Some \<lparr>rec_digest = lengthHash [1, 2], rec_proof = demoProofBytes\<rparr>))"
  "isRegisteredNetworkKey demoRecords theKey now = (1, Inr True)"
  "outputTimerLag demoRecords = (\<lambda>_. 0)"
proof -
  have read: "readKeyThrough lengthAddress theKey theKey keyEndpoint = (\<lambda>now. Some (1, Inr (Some demoKeyAccount)))"
    using demo_key_read by blast
  show "dkgRecord demoRecords theKey now =
      (1, Inr (Some \<lparr>rec_digest = lengthHash [1, 2], rec_proof = demoProofBytes\<rparr>))"
    by (simp add: demoRecords_def solanaNetworkKeyOutputRecordReader_def listedNetworkKeyRecordReader_def
        chainNetworkKeyOutputRecordReader_def settled_def openT_def dkgRecordThrough_def openCheck_def read
        mapFound_def storedProof_def demoKeyAccount_def ofOption_def result_simps)
  have "crossCheckedAccountRead (\<lambda>_. 0) keyEndpoint (CrossCheckThrough keyEndpoint)
      (readKeyThrough lengthAddress theKey theKey)
      (\<lambda>first second. equalBytes (nk_noaPublicKey first) (nk_noaPublicKey second) \<and>
         equalBytes (nk_dkgOutputDigest first) (nk_dkgOutputDigest second)) None now
      = Some (now + 1, Inr (Some demoKeyAccount))" for now
    by (rule cross_agreed) (simp_all add: demo_key_read)
  then show "isRegisteredNetworkKey demoRecords theKey now = (1, Inr True)"
    by (simp add: demoRecords_def solanaNetworkKeyOutputRecordReader_def listedNetworkKeyRecordReader_def
        registrationCrossCheck_def
        chainNetworkKeyOutputRecordReader_def settled_def keyRegistered_def bindT_def returnT_def)
      (simp add: theKey_def)
  show "outputTimerLag demoRecords = (\<lambda>_. 0)"
    by (simp add: demoRecords_def solanaNetworkKeyOutputRecordReader_def listedNetworkKeyRecordReader_def
        chainNetworkKeyOutputRecordReader_def)
qed

lemma demo_records_verified:
  "verifyNetworkKeyOutput demoLib demoRecords demoOutput theKey RESHARE_RECORD_WAIT now = Some (now + 2, Inr demoOutput)"
proof -
  let ?d = "lengthHash [1, 2]"
  let ?rec = "\<lparr>rec_digest = ?d, rec_proof = demoProofBytes\<rparr>"
  have "recordOnceSigned demoRecords theKey DkgRecord ?d b RESHARE_RECORD_WAIT now = Some (now + 1, Inr ?rec)"
    if "now + 1 \<le> b" for b
    using that unfolding recordOnceSigned_def
    by (simp add: pollUntil.simps [of _ _ _ _ _ _ now] withinTimeLeft_def demo_records RESHARE_RECORD_WAIT_def
        Let_def demoProofBytes_def)
  moreover have "verifyNetworkKeyRecordProof demoLib m demoProofBytes = Inr theKey" for m
    by (simp add: verifyNetworkKeyRecordProof_def demo_lib demoProof_def demoProofBytes_def list_all_iff)
  moreover have "networkKeyDkgRecordMessage theKey ?d = Inr (ATTESTATION_SIGNING_PREFIX @ [6] @ theKey @ ?d)"
    unfolding dkg_message_Inr by (simp add: theKey_def lengthHash_def)
  moreover have "theKey \<noteq> []" by (simp add: theKey_def)
  ultimately show ?thesis
    by (simp add: verifyNetworkKeyOutput_def demoOutput_def RESHARE_RECORD_WAIT_def networkOutputDigest_def
        bindT_def verifyAgainstRecord_def verifyRecordProof_def liftT_def
        readT_def returnT_def withinTimeLeft_def demo_records guardE_def result_simps mapErr_def
        demoProofBytes_def)
qed

theorem readSolanaNetworkKeyOutputVerified_sound_witness:
  "\<exists>k. key_account lengthAddress theKey keyEndpoint theKey k \<and> nk_dkgOutputDigest k = lengthHash [1, 2] \<and>
     signed_on_solana demoLib lengthAddress theKey keyEndpoint (CrossCheckThrough keyEndpoint) (Custom [theKey])
       (networkKeyDkgRecordMessage theKey (nk_dkgOutputDigest k)) (nk_proof k)"
proof -
  have "readSolanaNetworkKeyOutputVerified demoLib lengthAddress (\<lambda>_. 0) theKey keyEndpoint
      (CrossCheckThrough keyEndpoint) (Custom [theKey]) (\<lambda>key. returnT demoOutput) theKey 0 = Some (2, Inr demoOutput)"
    using demo_records_verified [of 0]
    by (simp add: readSolanaNetworkKeyOutputVerified_def bindT_def liftT_def listedNetworkKey_def returnT_def
        demoRecords_def)
  from readSolanaNetworkKeyOutputVerified_sound [OF this] show ?thesis by (simp add: demoOutput_def)
qed

section \<open>A committee\<close>

lemma demo_state_pda: "\<exists>pda. deriveAddress lengthAddress ''SystemState'' theKey Map.empty = Inr pda \<and> hd (address pda) = 70"
  by (simp add: deriveAddress_def demo_system_seeds result_simps find_lengthAddress MAX_SEEDS_def
      MAX_SEED_LEN_def theKey_def addressPreimage_def PDA_MARKER_def)

lemma demo_state_read: "readEpoch lengthAddress theKey keyEndpoint now = Some (1, Inr (Some 5))"
proof -
  from demo_state_pda obtain pda
    where "deriveAddress lengthAddress ''SystemState'' theKey Map.empty = Inr pda" "hd (address pda) = 70" by blast
  moreover have "byteAt stateAccount 0 = 1" "length stateAccount = 566" "slice 2 10 stateAccount = 5 # replicate 7 0"
    by (simp_all add: stateAccount_def byteAt_def slice_def)
  moreover have "le_value (5 # replicate 7 0) = 5" by (simp add: le_value_zeros)
  ultimately show ?thesis
    by (simp add: readEpoch_def openGuard_def keyEndpoint_def read_serving decodeSystemState_def result_simps
        system_state_entry getBigUint64LE_def SYSTEM_STATE_EPOCH_def del: le_value.simps)
qed

definition demoSolanaChain :: committee_chain where
  "demoSolanaChain = solanaCommitteeReader lengthAddress (\<lambda>_. 0) theKey keyEndpoint (CrossCheckThrough keyEndpoint)
     (Custom [theKey])"

lemma demo_solana_chain:
  "currentEpoch demoSolanaChain now = (1, Inr 5)" "isRegistered demoSolanaChain theKey now = (1, Inr True)"
  "epochTimerLag demoSolanaChain = (\<lambda>_. 0)"
proof -
  have "crossCheckedAccountRead (\<lambda>_. 0) keyEndpoint (CrossCheckThrough keyEndpoint) (readEpoch lengthAddress theKey)
      (=) (Some id) now = Some (now + 1, Inr (Some 5))"
    by (rule cross_agreed) (simp_all add: demo_state_read)
  then show "currentEpoch demoSolanaChain now = (1, Inr 5)"
    by (simp add: demoSolanaChain_def solanaCommitteeReader_def settled_def bindT_def liftT_def ofOption_def)
  show "isRegistered demoSolanaChain theKey now = (1, Inr True)" "epochTimerLag demoSolanaChain = (\<lambda>_. 0)"
    using demo_records(2) by (simp_all add: demoSolanaChain_def solanaCommitteeReader_def demoRecords_def)
qed

theorem solana_committee_sound_witness:
  "system_epoch lengthAddress theKey keyEndpoint 5 \<and>
   registered_key lengthAddress theKey keyEndpoint (CrossCheckThrough keyEndpoint) theKey"
proof -
  have s: "verifyCommitteeSigner demoLib demoSolanaChain demoCommittee w 0 = Some (1, Inr demoVerified)" for w
    using demo_verified [of w]
    by (simp add: verifyCommitteeSigner_def bindT_def liftT_def readT_def returnT_def
        demo_solana_chain demoCommittee_def)
  have e: "freshChainEpoch demoSolanaChain 5 CHAIN_EPOCH_RETRY 1 = Some (2, Inr 5)"
    by (simp add: freshChainEpoch_def pollUntil.simps [of _ _ _ _ _ _ 1]
        demo_solana_chain CHAIN_EPOCH_RETRY_def epochStanding_def)
  have "verifyCommitteeAnswer demoLib demoSolanaChain demoAnswer CHAIN_EPOCH_RETRY 0 = Some (2, Inr demoCommittees)"
    using s [of "''committee''"] e
    by (simp add: verifyCommitteeAnswer_def bindT_def returnT_def demoAnswer_def demoCommittees_def keepNext_def
        demoVerified_def)
  from solana_committee_sound [OF this [unfolded demoSolanaChain_def]] show ?thesis
    by (simp add: demoCommittees_def demoAnswer_def demoCommittee_def registrationCrossCheck_def)
qed

section \<open>Instructions\<close>

definition demoWeb :: web3_lib where
  "demoWeb =
     \<lparr>newPublicKey = (\<lambda>b. if length b = 32 then Inr b else Inl (Err ''Invalid public key input'')),
      ed25519Instruction = (\<lambda>k m s. Inr \<lparr>ins_programId = [2], ins_keys = [], ins_data = s\<rparr>),
      ed25519ProgramId = [2], systemProgramId = [0], TOKEN_PROGRAM_ID = [3], INSTRUCTIONS_SYSVAR_ID = [4]\<rparr>"

theorem signed_messages_apart_witness:
  "requestSigningMessage [1, 2] \<noteq> committeeSigningMessage [3]"
  using signed_messages_apart [OF signed_for.request [of "[1, 2]"], of ForCommittee] signed_for.committee [of "[3]"]
  by fastforce

theorem registration_message_determines_witness:
  "encryptionKeyRegistrationMessage 1 2 2 [5] \<noteq> encryptionKeyRegistrationMessage 1 2 0 [5]"
  using registration_message_determines [of 1 2 2 "[5]" 1 2 0 "[5]"] by auto

definition demoUsability :: approval_usability where
  "demoUsability = \<lparr>au_holderSignerPublicKey = [9], au_usable = None,
     au_check = Some (Inr \<lparr>ur_chain = OnSolana, ur_address = [6], ur_holder = [9], ur_share = ShareEncrypted,
                           ur_verifiedAt = 5\<rparr>)\<rparr>"

definition demoIssue :: issue_voucher where
  "demoIssue = \<lparr>iv_owner = [5], iv_dwallet = [6], iv_voucher = [7], iv_messageDigest = theKey,
     iv_messageMetadataDigest = None, iv_signatureScheme = 5, iv_requestPublicKey = Some theKey,
     iv_voucherOwner = None, iv_payer = None, iv_usability = Some demoUsability\<rparr>"

lemma demo_coordinator: "\<exists>k. coordinatorAddress demoWeb lengthAddress theKey = Inr k"
  by (simp add: coordinatorAddress_def addressKey_def dwalletCoordinatorPda_def deriveAddress_def
      demo_coordinator_seeds result_simps find_lengthAddress MAX_SEEDS_def MAX_SEED_LEN_def theKey_def demoWeb_def)

theorem issueSignatureVoucherInstruction_iff_witness:
  "\<exists>ins. issueSignatureVoucherInstruction demoWeb lengthAddress theKey demoIssue = Inr ins \<and>
     ins_data ins = 156 # theKey @ replicate 32 0 @ [5, 0, 2] @ theKey"
proof -
  obtain k where "coordinatorAddress demoWeb lengthAddress theKey = Inr k" using demo_coordinator by blast
  then show ?thesis
    by (subst issueSignatureVoucherInstruction_iff)
      (simp_all add: demoIssue_def demoUsability_def theKey_def voucherFlags_def ISSUE_VOUCHER_HAS_SIGNING_KEY_def
        numeral_2_eq_2)
qed

section \<open>A registered key\<close>

definition entryAccount :: bytes where
  "entryAccount = [107, 1] @ theKey @ [0, 2, 0, 1, 0] @ theSignature @ replicate 17 0 @ [5]"

definition entryEndpoint :: get_account where
  "entryEndpoint = serving (\<lambda>_. entryAccount)"

definition demoRead :: read_key where
  "demoRead = \<lparr>re_chainNumber = 1, re_network = 2, re_holderPublicKey = theKey, re_curve = 2\<rparr>"

lemma demo_entry_pda: "\<exists>pda. encryptionKeyPda lengthAddress theKey theKey 2 = Inr pda \<and> length (address pda) = 32"
proof -
  have w: "width (widthSeed name n) = Some n" for name n by (simp add: widthSeed_def)
  have "littleEndian 2 2 = Inr [2, 0]" by (simp add: littleEndian_Inr) (simp add: numeral_2_eq_2)
  then have "deriveSeeds ''EncryptionKey'' [''signer_public_key'' \<mapsto> SeedBytes theKey, ''curve_le'' \<mapsto> SeedNumber 2] =
      Inr [ascii ''encryption_key'', theKey, [2, 0]]"
    by (simp add: deriveSeeds_def seedSchema_def look_def wire_seed_schemas_def asBytes_def
        w result_simps theKey_def)
  then show ?thesis
    by (simp add: encryptionKeyPda_def deriveAddress_def result_simps find_lengthAddress MAX_SEEDS_def
        MAX_SEED_LEN_def theKey_def)
qed

definition demoRegister :: register_key where
  "demoRegister = \<lparr>rk_payer = theKey, rk_holderPublicKey = theKey, rk_chainNumber = 1, rk_network = 2, rk_curve = 2,
     rk_encryptionKey = [5], rk_signature = replicate 64 1\<rparr>"

text \<open>A key registered: its instruction after the precompile, over the registration's own message.\<close>

theorem built_instructions_laid_out_witness:
  "\<exists>pre ins. registerEncryptionKeyInstructions demoWeb lengthAddress theKey demoRegister = Inr [pre, ins] \<and>
     well_laid_out theKey ''DWalletRegisterEncryptionKey'' ins \<and>
     own_precompile demoWeb theKey (encryptionKeyRegistrationMessage 1 2 2 [5]) (replicate 64 1) pre"
proof -
  have "\<exists>inss. registerEncryptionKeyInstructions demoWeb lengthAddress theKey demoRegister = Inr inss"
  proof -
    from demo_entry_pda obtain entry where entry: "encryptionKeyPda lengthAddress theKey theKey 2 = Inr entry"
      "length (address entry) = 32" by blast
    have "deriveSeeds ''DWalletCoordinator'' Map.empty = Inr [ascii ''dwallet_coordinator'']"
      by (simp add: deriveSeeds_def seedSchema_def look_def wire_seed_schemas_def asBytes_def result_simps)
    then have coordinator: "\<exists>k. coordinatorAddress demoWeb lengthAddress theKey = Inr k"
      by (simp add: coordinatorAddress_def addressKey_def dwalletCoordinatorPda_def deriveAddress_def bindE_Inr
          find_lengthAddress MAX_SEEDS_def MAX_SEED_LEN_def demoWeb_def theKey_def)
    have authority: "\<exists>k. eventAuthorityAddress demoWeb lengthAddress theKey = Inr k"
      by (simp add: eventAuthorityAddress_def addressKey_def bindE_Inr find_lengthAddress MAX_SEEDS_def MAX_SEED_LEN_def
          demoWeb_def theKey_def)
    have ins_data: "\<exists>out. instructionData ''DWalletRegisterEncryptionKey'' 37 [(1, theKey),
        (33, [word_of_nat ENCRYPTION_KEY_ED25519_SIGNATURE_SCHEME]), (34, le_bytes 2 2), (36, [word_of_nat b])] = Inr out" for b
      unfolding instructionData_def newData_def instructionByte_def
      by (simp add: look_def wire_instructions_def result_simps del: setAll.simps) (rule setAll_fits, simp add: theKey_def)
    have "\<exists>out. registrationPrecompileInstruction demoWeb theKey message (replicate 64 1) = Inr out" for message
    proof -
      have "\<exists>out. newData (112 + length message) ((0, [1]) # zip (map (\<lambda>i. 2 + i * 2) [0..<7])
          (map (le_bytes 2) [48, 0xffff, 16, 0xffff, 112, int (length message), 0xffff]) @
          [(16, theKey), (48, replicate 64 1), (112, message)]) = Inr out"
        unfolding newData_def by (rule setAll_fits) (simp add: upt_rec theKey_def)
      then show ?thesis by (auto simp: registrationPrecompileInstruction_def Let_def upt_rec result_simps simp del: setAll.simps)
    qed
    then obtain first where "registrationPrecompileInstruction demoWeb theKey (encryptionKeyRegistrationMessage 1 2 2 [5])
        (replicate 64 1) = Inr first" by blast
    moreover have "newPublicKey demoWeb theKey = Inr theKey" "newPublicKey demoWeb (address entry) = Inr (address entry)"
      using entry(2) by (simp_all add: demoWeb_def theKey_def)
    ultimately show ?thesis using entry coordinator authority ins_data [of "bump entry"]
      by (auto simp: registerEncryptionKeyInstructions_def Let_def demoRegister_def result_simps)
  qed
  then obtain inss where run: "registerEncryptionKeyInstructions demoWeb lengthAddress theKey demoRegister = Inr inss" ..
  from built_instructions_laid_out [OF built.register_key [OF run, of demoEd]] obtain pre ins
    where inss: "inss = pre @ [ins]" "well_laid_out theKey ''DWalletRegisterEncryptionKey'' ins"
      and pre: "precompiled demoWeb (OwnLayout theKey (encryptionKeyRegistrationMessage 1 2 2 [5]) (replicate 64 1)) pre"
    by (auto simp: demoRegister_def)
  from pre obtain first where "pre = [first]"
      "own_precompile demoWeb theKey (encryptionKeyRegistrationMessage 1 2 2 [5]) (replicate 64 1) first"
    by (auto split: list.split_asm)
  with run inss show ?thesis by auto
qed

lemma demo_entry_reads:
  "length entryAccount = 121" "readU16 entryAccount 35 = 2" "readU16 entryAccount 37 = 1"
  "byteAt entryAccount 0 = 107" "byteAt entryAccount 34 = 0" "slice 2 34 entryAccount = theKey"
  "slice 39 103 entryAccount = theSignature" "drop 120 entryAccount = [5]"
proof -
  have l: "length theKey = 32" "length theSignature = 64" by (simp_all add: theKey_def theSignature_def)
  then show "length entryAccount = 121" "readU16 entryAccount 35 = 2" "readU16 entryAccount 37 = 1"
    "byteAt entryAccount 0 = 107" "byteAt entryAccount 34 = 0" "slice 2 34 entryAccount = theKey"
    "slice 39 103 entryAccount = theSignature" "drop 120 entryAccount = [5]"
    by (simp_all add: entryAccount_def readU16_def byteAt_def slice_def nth_append)
qed

lemma demo_entry_checked:
  "checkedEncryptionKeyEntry demoWeb demoLib theKey at demoRead \<lparr>ra_owner = theKey, ra_data = entryAccount\<rparr> =
     Inr \<lparr>ke_address = at, ke_signerPublicKey = theKey, ke_curve = 2, ke_signature = theSignature,
          ke_signatureScheme = 0, ke_encryptionKey = [5]\<rparr>"
proof -
  have "newPublicKey demoWeb theKey = Inr theKey" by (simp add: demoWeb_def theKey_def)
  moreover have "readsAsEntry entryAccount = Inr (Some 120)"
    by (simp add: readsAsEntry_def accountEntry_def look_def wire_accounts_def account_def result_simps
        header_discriminator_offset_def demo_entry_reads)
  ultimately show ?thesis
    by (simp add: checkedEncryptionKeyEntry_def demoRead_def demo_entry_reads result_simps demo_lib
        ENCRYPTION_KEY_ED25519_SIGNATURE_SCHEME_def)
qed

theorem readEncryptionKey_sound_witness:
  "\<exists>k. registered_entry demoWeb lengthAddress theKey entryEndpoint theKey 2 k \<and> signed_entry demoLib demoRead k \<and>
     ek_encryptionKey k = [5]"
proof -
  obtain pda where pda: "encryptionKeyPda lengthAddress theKey theKey 2 = Inr pda" using demo_entry_pda by blast
  let ?read = "throughAccount (address pda) (\<lambda>a.
      bindE (checkedEncryptionKeyEntry demoWeb demoLib theKey (address pda) demoRead a) (\<lambda>e. Inr (Some e)))"
  let ?e = "\<lparr>ke_address = address pda, ke_signerPublicKey = theKey, ke_curve = 2, ke_signature = theSignature,
          ke_signatureScheme = 0, ke_encryptionKey = [5]\<rparr>"
  have "crossCheckedAccountRead (\<lambda>_. 0) entryEndpoint (CrossCheckThrough entryEndpoint) ?read
      (\<lambda>first second. equalBytes (ke_encryptionKey first) (ke_encryptionKey second) \<and>
         equalBytes (ke_signature first) (ke_signature second)) None 0 = Some (0 + 1, Inr (Some ?e))"
    by (rule cross_agreed [where v' = ?e]) (simp_all add: entryEndpoint_def read_serving demo_entry_checked result_simps)
  then have "readEncryptionKey demoWeb demoLib lengthAddress (\<lambda>_. 0) theKey entryEndpoint
      (CrossCheckThrough entryEndpoint) demoRead 0 = Some (1, Inr ?e)"
    using pda by (simp add: readEncryptionKey_def demoRead_def bindT_def liftT_def ofOption_def)
  from readEncryptionKey_sound [OF this] have "\<exists>k. registered_entry demoWeb lengthAddress theKey entryEndpoint
      (re_holderPublicKey demoRead) (re_curve demoRead) k \<and> signed_entry demoLib demoRead k \<and>
      ke_encryptionKey ?e = ek_encryptionKey k"
    by (auto simp: keeps_keys_def demoWeb_def) (auto simp: demoRead_def theKey_def)
  then show ?thesis by (auto simp: demoRead_def)
qed

section \<open>A dWallet with a public share\<close>

definition publicDWallet :: dwallet_attestation where
  "publicDWallet =
     \<lparr>dw_session_identifier = replicate 32 1, dw_intended_chain_sender = [2], dw_curve = Curve_Curve25519,
      dw_public_key = theKey, dw_public_output = [4], dw_is_imported_key = False,
      dw_sign_during_dkg_signature = None, dw_holder = None,
      dw_encryption_key_hash = None, dw_encrypted_share_hash = None, dw_epoch = 0\<rparr>"

definition publicValues :: "laid_value list" where
  "publicValues =
     [Plain (replicate 32 1), Plain [2], Plain [2], Plain theKey, Plain [4], Plain [0], Absent, Absent, Absent,
      Absent, Plain (replicate 8 0)]"

definition publicDWalletBytes :: bytes where
  "publicDWalletBytes = 0 # Reader_Laws.fieldBytes (bcsFields dwalletFields publicValues)"

definition madePublic :: public_share_attestation where
  "madePublic =
     \<lparr>ps_session_identifier = replicate 32 9, ps_intended_chain_sender = [2], ps_dwallet_public_key = theKey,
      ps_public_user_secret_key_share = replicate 34 1, ps_dwallet_attestation_digest = lengthHash publicDWalletBytes\<rparr>"

definition madePublicValues :: "laid_value list" where
  "madePublicValues =
     [Plain (replicate 32 9), Plain [2], Plain theKey, Plain (replicate 34 1), Plain (lengthHash publicDWalletBytes)]"

definition madePublicBytes :: bytes where
  "madePublicBytes = 0 # Reader_Laws.fieldBytes (bcsFields publicShareFields madePublicValues)"

definition publicLib :: sdk_lib where
  "publicLib = demoLib\<lparr>dwalletBcs := oneValue (V1 publicDWallet) publicDWalletBytes,
     publicShareBcs := oneValue (V1 madePublic) madePublicBytes\<rparr>"

definition attestationAccount :: "bytes \<Rightarrow> bytes" where
  "attestationAccount flds = [104, 1, 7] @ demoProofBytes @ flds"

definition dwalletAccount :: bytes where
  "dwalletAccount = [97, 1] @ replicate 32 0 @ [2, 0, 0, 32] @ theKey @ replicate 41 0 @ theKey @ replicate 42 0"

definition dwalletEndpoint :: get_account where
  "dwalletEndpoint = serving (\<lambda>b.
     if b = 101 then dwalletAccount
     else if b = 106 then attestationAccount (storedFields dwalletFields publicValues)
     else attestationAccount (storedFields publicShareFields madePublicValues))"

lemma attestationAccount_parts:
  "byteAt (attestationAccount flds) 0 = 104" "byteAt (attestationAccount flds) 2 = 7"
  "101 \<le> length (attestationAccount flds)" "slice 3 101 (attestationAccount flds) = demoProofBytes"
  "attestationAccount flds = take 101 (attestationAccount flds) @ flds"
proof -
  have "length demoProofBytes = 98" by (simp add: demoProofBytes_def)
  then show "byteAt (attestationAccount flds) 0 = 104" "byteAt (attestationAccount flds) 2 = 7"
    "101 \<le> length (attestationAccount flds)" "slice 3 101 (attestationAccount flds) = demoProofBytes"
    "attestationAccount flds = take 101 (attestationAccount flds) @ flds"
    by (simp_all add: attestationAccount_def byteAt_def slice_def)
qed

lemma public_proof:
  "decodeAttestationProof publicLib demoProofBytes =
     Inr \<lparr>proofVersion = 0, proofSigner = theKey, proofSignature = theSignature\<rparr>"
  by (simp add: decodeAttestationProof_def publicLib_def demoProof_def requireKnownVersion_def
      KNOWN_ATTESTATION_VERSIONS_def result_simps)

definition attestationRead :: "bytes \<Rightarrow> (string \<times> bytes) list \<Rightarrow> attestation_account" where
  "attestationRead content flds =
     \<lparr>aa_attestationData = content, aa_attestationVersion = 0, aa_networkSignature = theSignature,
      aa_signerNoaPublicKey = theKey, aa_attestationProof = demoProofBytes,
      aa_fields = (''version'', [0]) # flds, aa_bump = 7\<rparr>"

lemma public_dwallet_read:
  "readDWalletAttestationUnverified publicLib (attestationAccount (storedFields dwalletFields publicValues)) =
     Inr (Some (attestationRead publicDWalletBytes (bcsFields dwalletFields publicValues)))"
proof -
  have "fieldsFit dwalletFields publicValues"
    by (simp add: dwalletFields_def publicValues_def theKey_def)
  then show ?thesis
    unfolding readDWalletAttestation_Inr holds_attestation_def attestationAccount_parts(4) public_proof
    using attestationAccount_parts
    by (auto simp: attestationRead_def publicLib_def publicDWalletBytes_def
        intro!: exI [of _ publicDWallet] exI [of _ publicValues])
qed

lemma public_share_read:
  "readPublicShareAttestationUnverified publicLib (attestationAccount (storedFields publicShareFields madePublicValues)) =
     Inr (Some (attestationRead madePublicBytes (bcsFields publicShareFields madePublicValues)))"
proof -
  have "fieldsFit publicShareFields madePublicValues"
    by (simp add: publicShareFields_def madePublicValues_def theKey_def lengthHash_def)
  then show ?thesis
    unfolding readPublicShareAttestation_Inr holds_attestation_def attestationAccount_parts(4) public_proof
    using attestationAccount_parts
    by (auto simp: attestationRead_def publicLib_def madePublicBytes_def
        intro!: exI [of _ madePublic] exI [of _ madePublicValues])
qed

text \<open>The two chunks of the dWallet's root: its curve and the first 30 bytes of the key, and the last two.\<close>

lemma demo_root:
  "littleEndian 2 2 = Inr [2, 0]" "length ([2, 0] @ theKey) = 34"
  "chunks 32 ([2, 0] @ theKey) = [2 # 0 # replicate 30 7, [7, 7]]"
proof -
  show "littleEndian 2 2 = Inr [2, 0]" by (simp add: littleEndian_Inr) (simp add: numeral_2_eq_2)
  show "length ([2, 0] @ theKey) = 34" by (simp add: theKey_def)
  have "replicate 32 (7 :: byte) = replicate 30 7 @ [7, 7]" by (simp add: numeral_eq_Suc)
  then show "chunks 32 ([2, 0] @ theKey) = [2 # 0 # replicate 30 7, [7, 7]]"
    by (simp add: theKey_def chunks.simps)
qed

lemma public_pdas:
  "\<exists>p. dwalletPda lengthAddress theKey 2 theKey None = Inr p \<and> hd (address p) = 101"
  "\<exists>p. dwalletAttestationPda lengthAddress theKey 2 theKey None = Inr p \<and> hd (address p) = 106"
  "\<exists>p. publicUserShareAttestationPda lengthAddress theKey 2 theKey None = Inr p \<and> hd (address p) = 112"
proof -
  have root: "dwalletSeedRoot 2 theKey = Inr ([2, 0] @ theKey)"
    by (simp add: dwalletSeedRoot_def demo_root result_simps)
  let ?seeds = "\<lambda>tag. [ascii ''dwallet'', ascii tag, 2 # 0 # replicate 30 7, [7, 7]]"
  have schemas: "seedSchema ''DWalletAttestation'' = Inr \<lparr>seed_owner = ''dwallet'', components =
      [literalSeed ''prefix'' ''dwallet'', literalSeed ''tag'' ''attestation'', chunkedSeed ''dwallet_root'' 32 34 67]\<rparr>"
    "seedSchema ''PublicUserShareAttestation'' = Inr \<lparr>seed_owner = ''dwallet'', components =
      [literalSeed ''prefix'' ''dwallet'', literalSeed ''tag'' ''public_user_share'',
       chunkedSeed ''dwallet_root'' 32 34 67]\<rparr>"
    by (simp_all add: seedSchema_def look_def wire_seed_schemas_def result_simps)
  note seeds = deriveSeeds_def dwallet_schemas schemas asBytes_def result_simps demo_root dwalletValues_def
  note found = deriveAddress_def find_lengthAddress MAX_SEEDS_def MAX_SEED_LEN_def addressPreimage_def
    PDA_MARKER_def dkgOrImported_def
  have key: "length theKey = 32" by (simp add: theKey_def)
  have "deriveSeeds ''DWallet'' (dwalletValues ([2, 0] @ theKey) None) = Inr (?seeds ''record'')"
    "deriveSeeds ''DWalletAttestation'' (dwalletValues ([2, 0] @ theKey) None) = Inr (?seeds ''attestation'')"
    "deriveSeeds ''PublicUserShareAttestation'' (dwalletValues ([2, 0] @ theKey) None) = Inr (?seeds ''public_user_share'')"
    using demo_root by (simp_all add: seeds)
  then show "\<exists>p. dwalletPda lengthAddress theKey 2 theKey None = Inr p \<and> hd (address p) = 101"
    "\<exists>p. dwalletAttestationPda lengthAddress theKey 2 theKey None = Inr p \<and> hd (address p) = 106"
    "\<exists>p. publicUserShareAttestationPda lengthAddress theKey 2 theKey None = Inr p \<and> hd (address p) = 112"
    unfolding dwalletPda_def dwalletAttestationPda_def publicUserShareAttestationPda_def root bindE_Inr
    by (simp_all add: found key bindE_Inr)
qed

definition publicAsked :: expected_dwallet where
  "publicAsked = \<lparr>ex_curve = 2, ex_publicKey = theKey, ex_importedSessionIdentifier = None\<rparr>"

definition publicReads :: solana_reads where
  "publicReads = accountReads publicLib lengthAddress (\<lambda>_. 0) theKey dwalletEndpoint
     (CrossCheckThrough dwalletEndpoint) demoTrust 0"

definition publicRecord :: attestation_record where
  "publicRecord = recordOfAccount (attestationRead publicDWalletBytes (bcsFields dwalletFields publicValues))"

definition madePublicRecord :: attestation_record where
  "madePublicRecord = recordOfAccount (attestationRead madePublicBytes (bcsFields publicShareFields madePublicValues))"

definition publicAccount :: dwallet_account where
  "publicAccount =
     \<lparr>da_owner = replicate 32 0, da_curve = 2, da_state = 0, da_publicKey = theKey, da_createdEpoch = 0,
      da_noaPublicKey = theKey, da_isImported = False, da_bump = 0, da_importedSessionIdentifier = None\<rparr>"

lemma public_account_read: "readDWallet dwalletAccount = Inr (Some publicAccount)"
proof -
  have l: "length theKey = 32" by (simp add: theKey_def)
  then have "length dwalletAccount = 185" "byteAt dwalletAccount 0 = 97" "byteAt dwalletAccount 34 = 2"
    "byteAt dwalletAccount 35 = 0" "byteAt dwalletAccount 36 = 0" "byteAt dwalletAccount 37 = 32"
    "byteAt dwalletAccount 143 = 0" "byteAt dwalletAccount 144 = 0" "slice 2 34 dwalletAccount = replicate 32 0"
    "slice 38 70 dwalletAccount = theKey" "slice 103 111 dwalletAccount = replicate 8 0"
    "slice 111 143 dwalletAccount = theKey"
    by (simp_all add: dwalletAccount_def byteAt_def slice_def nth_append)
  then show ?thesis
    by (simp add: readDWallet_def ofAccount_def isAccount_def accountDataLen_def accountDiscriminator_def
        accountEntry_def look_def wire_accounts_def account_def result_simps header_discriminator_offset_def
        readU64_def readU16_def le_value_zeros publicAccount_def)
qed

lemma readShareAccount_serving:
  assumes "at = Inr p" "decode (accounts (hd p)) = Inr (Some x)"
  shows "readShareAccount theKey kind decode at (serving accounts) now = Some (1, Inr (Some x))"
  using assms by (simp add: readShareAccount_def openGuard_def read_serving result_simps)

lemma public_reads:
  "\<exists>at. so_dwalletAddress publicReads publicAsked = Inr at"
  "so_readDWalletAttestation publicReads publicAsked = Inr (Some publicRecord)"
  "so_readDWalletAccount publicReads publicAsked = Inr (Some publicAccount)"
  "so_readPublicShareAttestation publicReads publicAsked = Inr (Some madePublicRecord)"
proof -
  from public_pdas obtain p q r
    where p: "dwalletPda lengthAddress theKey 2 theKey None = Inr p" "hd (address p) = 101"
      and q: "dwalletAttestationPda lengthAddress theKey 2 theKey None = Inr q" "hd (address q) = 106"
      and r: "publicUserShareAttestationPda lengthAddress theKey 2 theKey None = Inr r" "hd (address r) = 112"
    by blast
  show "\<exists>at. so_dwalletAddress publicReads publicAsked = Inr at"
    by (simp add: publicReads_def accountReads_def publicAsked_def p addressOf_def bindE_Inr)
  have account: "readShareAccount theKey kind readDWallet (Inr (address p)) dwalletEndpoint now = Some (1, Inr (Some publicAccount))"
    for kind now unfolding dwalletEndpoint_def
    by (rule readShareAccount_serving [OF refl]) (simp add: p public_account_read)
  have att: "readAttestationRecord theKey kind (readDWalletAttestationUnverified publicLib) (Inr (address q)) dwalletEndpoint now
      = Some (1, Inr (Some publicRecord))" for kind now
    unfolding dwalletEndpoint_def readAttestationRecord_def openCheck_def publicRecord_def
    by (subst readShareAccount_serving [OF refl]) (simp_all add: q public_dwallet_read bindE_Inr)
  have share: "readAttestationRecord theKey kind (readPublicShareAttestationUnverified publicLib) (Inr (address r)) dwalletEndpoint now
      = Some (1, Inr (Some madePublicRecord))" for kind now
    unfolding dwalletEndpoint_def readAttestationRecord_def openCheck_def madePublicRecord_def
    by (subst readShareAccount_serving [OF refl]) (simp_all add: r public_share_read bindE_Inr)
  show "so_readDWalletAttestation publicReads publicAsked = Inr (Some publicRecord)"
    "so_readDWalletAccount publicReads publicAsked = Inr (Some publicAccount)"
    by (simp_all add: publicReads_def accountReads_def publicAsked_def p q addressOf_def bindE_Inr account att
        startedAt_def settled_def openT_def)
  have "crossCheckedAccountRead (\<lambda>_. 0) dwalletEndpoint (CrossCheckThrough dwalletEndpoint)
      (readAttestationRecord theKey kind (readPublicShareAttestationUnverified publicLib) (Inr (address r)))
      sameAttestationRecord None 0 = Some (0 + 1, Inr (Some madePublicRecord))" for kind
    by (rule cross_agreed [where v' = madePublicRecord]) (simp_all add: share)
  then show "so_readPublicShareAttestation publicReads publicAsked = Inr (Some madePublicRecord)"
    by (simp add: publicReads_def accountReads_def publicAsked_def r addressOf_def bindE_Inr
        startedAt_def settled_def)
qed

definition publicReader :: share_reader where
  "publicReader = dwalletShareReader publicLib lengthAddress (\<lambda>_. 0) theKey dwalletEndpoint
     (CrossCheckThrough dwalletEndpoint) demoTrust 0"

definition publicIssued :: "bytes \<Rightarrow> issued_state" where
  "publicIssued at =
     \<lparr>is_chain = OnSolana, is_address = at, is_curve = 2, is_publicKey = theKey,
      is_importedSessionIdentifier = None, is_holder = [9], is_share = SharePublic, is_migrated = False,
      is_waiting = False, is_publicOutput = [4],
      is_attestation =
        \<lparr>attestation_data = publicDWalletBytes, network_signature = theSignature, network_pubkey = theKey,
         signer_noa_public_key = theKey\<rparr>,
      is_verifiedAt = 1000\<rparr>"

definition publicCryptography :: user_cryptography where
  "publicCryptography = demoCryptography\<lparr>publicKeyFromDWalletOutput := (\<lambda>c out. Inr theKey)\<rparr>"

lemma public_records_signed:
  "signed_record publicLib (dwalletBcs publicLib) DWalletKind publicRecord demoTrust publicDWallet"
  "signed_record publicLib (publicShareBcs publicLib) PublicShareKind madePublicRecord demoTrust madePublic"
  by (simp_all add: signed_record_def decodes_def demo_lib publicLib_def publicRecord_def madePublicRecord_def
      recordOfAccount_def attestationRead_def)

lemma public_found:
  "\<exists>rec. checkedReadDWallet publicLib publicReads demoTrust publicAsked = Inr (Some rec) \<and>
     cdr_networkPublicKey rec = theKey \<and> cdr_attestation rec = publicRecord \<and>
     cdr_readPublicShare rec = Inr (Some madePublicRecord)"
proof -
  have v: "verifyDWalletAttestationRecord publicLib publicRecord demoTrust publicAsked = Inr (dwallet_of publicRecord publicDWallet)"
    unfolding dwallet_record_Inr using public_records_signed(1)
    by (intro exI [of _ publicDWallet]) (simp add: publicDWallet_def publicAsked_def indexOf_def ATTESTATION_CURVES_def)
  have "verifyStoredDWallet (storedOf publicAccount) (dwallet_of publicRecord publicDWallet) = Inr ()"
    unfolding stored_dwallet_agrees [OF v] by (simp add: storedOf_def publicAccount_def publicAsked_def)
  moreover obtain at where "so_dwalletAddress publicReads publicAsked = Inr at" using public_reads(1) by blast
  moreover have "trusts demoTrust theKey" "da_noaPublicKey publicAccount = theKey"
    by (simp_all add: demoTrust_def publicAccount_def)
  ultimately show ?thesis
    by (simp add: checkedReadDWallet_def public_reads v mapFound_def bindE_Inr seqE_def)
qed

theorem solana_usable_sound_witness:
  "\<exists>r. public_share_on_solana publicLib lengthAddress theKey dwalletEndpoint (askedOf publicDWallet) r"
proof -
  have asked: "askedOf publicDWallet = publicAsked"
    by (simp add: askedOf_def publicDWallet_def publicAsked_def indexOf_def ATTESTATION_CURVES_def)
  have parts: "rd_chain publicReader = OnSolana" "rd_trusted publicReader = demoTrust"
    "rd_readDWallet publicReader = checkedReadDWallet publicLib publicReads demoTrust"
    by (simp_all add: publicReader_def publicReads_def dwalletShareReader_parts)
  from public_found obtain rec
    where rec: "checkedReadDWallet publicLib publicReads demoTrust publicAsked = Inr (Some rec)"
      "cdr_networkPublicKey rec = theKey" "cdr_attestation rec = publicRecord"
      "cdr_readPublicShare rec = Inr (Some madePublicRecord)" by blast
  have key: "\<exists>c. dw_curve publicDWallet = attested_curve c \<and>
      publicKeyFromDWalletOutput (cryptographyOf publicCryptography publicReader) c (dw_public_output publicDWallet) =
        Inr (dw_public_key publicDWallet)"
    by (intro exI [of _ ED25519])
      (simp add: publicDWallet_def cryptographyOf_def publicReader_def dwalletShareReader_def checkedSolanaShareReader_def
        publicCryptography_def Let_def)
  have binds: "attestationData publicRecord = publicDWalletBytes" "keccak_256 publicLib = lengthHash"
    "networkSignature publicRecord = theSignature" "signerNoaPublicKey publicRecord = theKey"
    by (simp_all add: publicRecord_def recordOfAccount_def attestationRead_def publicLib_def)
  have share: "public_share publicLib demoTrust rec (dwallet_of publicRecord publicDWallet)"
    using rec(4) public_records_signed(2)
    by (auto simp: public_share_def binds_dwallet_def dwallet_of_def publicDWallet_def madePublic_def binds
        intro!: exI [of _ madePublic])
  have chained: "chain_record publicLib publicReader publicDWalletBytes publicDWallet rec"
    using rec public_records_signed(1) by (simp add: chain_record_def parts asked binds demoTrust_def)
  have "parse (dwalletBcs publicLib) publicDWalletBytes = Some (V1 publicDWallet)" by (simp add: publicLib_def)
  then have checked: "usable_checked publicLib publicCryptography publicReader [9] noOptions (publicIssued (cdr_address rec))"
    unfolding usable_checked_def using chained key share rec parts asked binds
    by (intro exI [of _ publicDWallet] exI [of _ rec])
      (simp add: publicIssued_def publicAsked_def, simp add: publicDWallet_def)
  let ?st = "publicIssued (cdr_address rec)"
  have "assertDWalletUsable publicLib publicCryptography publicReader [9] publicDWalletBytes noOptions 1000 [] =
      Inr (\<lparr>us_ref = Some 0, us_shown = ?st\<rparr>, [?st])"
    unfolding assertDWalletUsable_Inr using checked by (intro exI [of _ ?st]) (simp add: publicIssued_def)
  from solana_usable_sound [OF this [unfolded publicReader_def]] show ?thesis
    by (auto simp: issuedGet_def publicIssued_def publicLib_def)
qed

end
