(* ===== verification/Engine_Runs.thy ===== *)
theory Engine_Runs
  imports Requests Request_Records Grpc_Client
begin

text \<open>
  Submitting a request through a connection (\<open>common/engine.ts\<close>): signing it once for an epoch, sending
  the same bytes until a validator answers, and deciding from the chain what became of a request whose
  epoch closed before an answer. A run of the connection is a function of the time it starts at and of
  the connection's state; \<open>None\<close> is a run that never settles. The user's cryptography, the random
  numbers, the chain's reads and the transport are parameters.
\<close>

section \<open>Constants\<close>

definition NO_GAS_DEPOSIT_REFUSAL :: string where
  "NO_GAS_DEPOSIT_REFUSAL = ''this transport key has no gas deposit on the chain the request names''"

definition PRESIGN_POOL_EMPTY_REFUSAL :: string where
  "PRESIGN_POOL_EMPTY_REFUSAL = ''presign pool empty for requested algorithm''"

definition POOL_RETRY_MS :: int where "POOL_RETRY_MS = 3000"
definition DEPOSIT_READ_WAIT_MS :: int where "DEPOSIT_READ_WAIT_MS = 20000"
definition DEPOSIT_READ_RETRY_MS :: int where "DEPOSIT_READ_RETRY_MS = 1000"
definition RESEND_INTERVAL_MS :: int where "RESEND_INTERVAL_MS = 2000"
definition NETWORK_KEY_READ_WAIT_MS :: int where "NETWORK_KEY_READ_WAIT_MS = 120000"
definition NETWORK_KEY_READ_RETRY_MS :: int where "NETWORK_KEY_READ_RETRY_MS = 2000"
definition SUBMIT_TIMEOUT_MS :: int where "SUBMIT_TIMEOUT_MS = 5 * 60 * 1000"
definition EPOCH_CLOSE_WAIT_MS :: int where "EPOCH_CLOSE_WAIT_MS = 30 * 60 * 1000"
definition CHAIN_EPOCH_POLL_MS :: int where "CHAIN_EPOCH_POLL_MS = 5000"
definition REBUILDS_AFTER_EPOCH_CLOSE :: nat where "REBUILDS_AFTER_EPOCH_CLOSE = 2"

lemmas engine_constants =
  POOL_RETRY_MS_def DEPOSIT_READ_WAIT_MS_def DEPOSIT_READ_RETRY_MS_def RESEND_INTERVAL_MS_def
  NETWORK_KEY_READ_WAIT_MS_def NETWORK_KEY_READ_RETRY_MS_def SUBMIT_TIMEOUT_MS_def
  EPOCH_CLOSE_WAIT_MS_def CHAIN_EPOCH_POLL_MS_def REBUILDS_AFTER_EPOCH_CLOSE_def

definition SIGNATURE_SCHEMES :: "scheme_name list" where
  "SIGNATURE_SCHEMES =
     [EcdsaKeccak256, EcdsaSha256, EcdsaDoubleSha256, TaprootSha256, EcdsaBlake2b256, EddsaSha512,
      SchnorrkelMerlin]"

text \<open>A scheme by its name or by its number.\<close>

datatype scheme_choice = SchemeNamed scheme_name | SchemeNumbered int

definition unknownScheme :: sdk_error where
  "unknownScheme = Err ''the signature scheme is not one the network knows''"

definition signatureSchemeNumber :: "scheme_choice \<Rightarrow> sdk_error + int" where
  "signatureSchemeNumber choice =
     (let number = (case choice of SchemeNumbered n \<Rightarrow> n | SchemeNamed name \<Rightarrow> indexOf SIGNATURE_SCHEMES name)
      in if element SIGNATURE_SCHEMES number = None then Inl unknownScheme else Inr number)"

definition schemeName :: "int \<Rightarrow> sdk_error + scheme_name" where
  "schemeName number = ofOption unknownScheme (element SIGNATURE_SCHEMES number)"

section \<open>Errors\<close>

datatype engine_error =
    CallFailed call_error
  | Thrown sdk_error
  | EpochClosedBeforeAnswer int bytes int string pending_request
  | PresignExpiredWithTheEpoch int int
  | RequestRanBeforeAnswer int bytes string

text \<open>\<open>error.message\<close>, without the numbers and hex the source interpolates into it.\<close>

fun engineMessage :: "engine_error \<Rightarrow> string" where
  "engineMessage (CallFailed e) = ce_message e"
| "engineMessage (Thrown e) = errorMessage e"
| "engineMessage (EpochClosedBeforeAnswer epoch session chainEpoch refusal pending) =
     ''the request for its epoch was refused ('' @ refusal @ ''), and it may have run in that epoch''"
| "engineMessage (PresignExpiredWithTheEpoch epoch chainEpoch) =
     ''The presign expired with its epoch, and nothing was sent: take a new presign, and sign with it.''"
| "engineMessage (RequestRanBeforeAnswer epoch session rec) =
     ''the request got no answer before its epoch closed, and the chain shows it ran: '' @ rec"

section \<open>Refusals read from a message\<close>

text \<open>\<open>text.includes(part)\<close>.\<close>

fun textIncludes :: "string \<Rightarrow> string \<Rightarrow> bool" where
  "textIncludes part [] \<longleftrightarrow> part = []"
| "textIncludes part (c # cs) \<longleftrightarrow> take (length part) (c # cs) = part \<or> textIncludes part cs"

definition isDigit :: "char \<Rightarrow> bool" where
  "isDigit c \<longleftrightarrow> 48 \<le> (of_char c :: nat) \<and> (of_char c :: nat) \<le> 57"

text \<open>\<open>BigInt\<close> of a string of decimal digits.\<close>

definition bigIntOfDigits :: "string \<Rightarrow> int" where
  "bigIntOfDigits digits = fold (\<lambda>c n. 10 * n + (int (of_char c) - 48)) digits 0"

definition afterPrefix :: "string \<Rightarrow> string \<Rightarrow> string option" where
  "afterPrefix p text = (if take (length p) text = p then Some (drop (length p) text) else None)"

text \<open>
  \<open>/request epoch (\d+) does not match current epoch (\d+)/\<close> at one place of the text, and at the first
  place it matches. A run of digits is followed by a space, so the greedy \<open>\d+\<close> never backtracks.
\<close>

definition staleEpochAt :: "string \<Rightarrow> (string \<times> string) option" where
  "staleEpochAt text =
     Option.bind (afterPrefix ''request epoch '' text) (\<lambda>rest.
       let sent = takeWhile isDigit rest in
       if sent = [] then None
       else Option.bind (afterPrefix '' does not match current epoch '' (dropWhile isDigit rest)) (\<lambda>rest'.
              let current = takeWhile isDigit rest' in
              if current = [] then None else Some (sent, current)))"

fun staleEpochMatch :: "string \<Rightarrow> (string \<times> string) option" where
  "staleEpochMatch [] = staleEpochAt []"
| "staleEpochMatch (c # cs) =
     (case staleEpochAt (c # cs) of Some m \<Rightarrow> Some m | None \<Rightarrow> staleEpochMatch cs)"

fun staleEpochRefusal :: "transaction_response \<Rightarrow> int \<Rightarrow> int option" where
  "staleEpochRefusal (ErrorResponse message) sentEpoch =
     (case staleEpochMatch message of
        None \<Rightarrow> None
      | Some (sent, current) \<Rightarrow>
          if bigIntOfDigits sent \<noteq> sentEpoch then None
          else if bigIntOfDigits current > sentEpoch then Some (bigIntOfDigits current) else None)"
| "staleEpochRefusal _ sentEpoch = None"

text \<open>The status \<open>ABORTED\<close>; the engine's own test of a transport failure, which knows no pinned setup.\<close>

definition ABORTED :: nat where "ABORTED = 10"

definition isDroppedRequest :: "call_error \<Rightarrow> bool" where
  "isDroppedRequest e \<longleftrightarrow> ce_code e = Some ABORTED"

definition isServerRestart :: "call_error \<Rightarrow> bool" where
  "isServerRestart e \<longleftrightarrow> ce_code e = Some UNAVAILABLE \<or> ce_code e = Some DEADLINE_EXCEEDED"

section \<open>The connection\<close>

text \<open>
  The user's half of the protocol steps, beyond \<^typ>\<open>user_cryptography\<close>. A step draws random numbers, so
  its result depends on the time it runs at; \<open>prepared\<close> is what a DKG or an import prepares.
\<close>

record prepared_step =
  userMessage :: bytes
  userSecretKeyShare :: bytes
  userPublicOutput :: bytes

record engine_cryptography =
  ec_user :: user_cryptography
  ec_mock :: bool
  prepareDKGForSessionIdentifier :: "bytes \<Rightarrow> curve \<Rightarrow> bytes \<Rightarrow> time \<Rightarrow> sdk_error + prepared_step"
  prepareImportedKeyVerification :: "bytes \<Rightarrow> curve \<Rightarrow> bytes \<Rightarrow> bytes \<Rightarrow> time \<Rightarrow> sdk_error + prepared_step"
  encryptSecretShare :: "curve \<Rightarrow> bytes \<Rightarrow> bytes \<Rightarrow> bytes \<Rightarrow> time \<Rightarrow> sdk_error + bytes"
  publicKeyFromCentralizedDKGOutput :: "curve \<Rightarrow> bytes \<Rightarrow> sdk_error + bytes"
  networkDkgToParameters :: "curve \<Rightarrow> bytes \<Rightarrow> sdk_error + bytes"
  reconfigurationToParameters :: "curve \<Rightarrow> bytes \<Rightarrow> bytes \<Rightarrow> sdk_error + bytes"
  decryptUserShareOfOutput :: "curve \<Rightarrow> bytes \<Rightarrow> bytes \<Rightarrow> bytes \<Rightarrow> bytes \<Rightarrow> sdk_error + bytes"

text \<open>
  The libraries and the environment of a connection: \<open>randomBytes\<close> is the \<open>n\<close>-th draw of 32 random
  bytes, \<open>elapses\<close> how long a computation started at a time takes, and \<open>othersEpoch\<close> and
  \<open>othersTrusted\<close> what other calls on the connection have made of its epoch and keys by a time.
\<close>

record engine_env =
  en_sdk :: sdk_lib
  en_ed25519 :: ed25519_lib
  en_records :: record_lib
  en_realCryptography :: user_cryptography
  randomBytes :: "nat \<Rightarrow> bytes"
  elapses :: "time \<Rightarrow> nat"
  othersEpoch :: "time \<Rightarrow> int \<Rightarrow> int"
  othersTrusted :: "time \<Rightarrow> trusted_network_keys \<Rightarrow> trusted_network_keys"

text \<open>\<open>class Network\<close>, but for its two changing fields.\<close>

record network_connection =
  cn_env :: engine_env
  cn_client :: grpc_client
  cn_submit :: "(signed_grpc_request, transaction_response) rpc_method"
  cn_curve :: curve
  cn_network :: ika_network
  cn_networkKeyId :: bytes
  cn_latestNetworkKeyId :: bytes
  cn_protocolPublicParameters :: bytes
  cn_chainEpoch :: "(sdk_error, int) timed"
  cn_requestRecords :: "request_records option"
  cn_shares :: "(trusted_network_keys \<Rightarrow> share_lookup) option"
  cn_cryptography :: engine_cryptography

text \<open>
  \<open>#epoch\<close> and \<open>#trustedNetworkKeys\<close>, with the gRPC client's state, the two stores of issued results and of
  built requests, the number of random draws and the requests signed: the epoch, the session, the time the signing began and the bytes.
\<close>

record signed_entry =
  sg_epoch :: int
  sg_session :: bytes
  sg_at :: time
  sg_signed :: signed_grpc_request

record net_state =
  ns_client :: client_state
  ns_epoch :: int
  ns_trusted :: trusted_network_keys
  ns_holders :: waiting_holders
  ns_issued :: issued_results
  ns_draws :: nat
  ns_signed :: "signed_entry list"

type_synonym 'a engine_run = "time \<Rightarrow> net_state \<Rightarrow> (time \<times> net_state \<times> (engine_error + 'a)) option"

definition bindN :: "'a engine_run \<Rightarrow> ('a \<Rightarrow> 'b engine_run) \<Rightarrow> 'b engine_run" where
  "bindN m f now s =
     (case m now s of
        None \<Rightarrow> None
      | Some (t, s', Inl e) \<Rightarrow> Some (t, s', Inl e)
      | Some (t, s', Inr x) \<Rightarrow> f x t s')"

definition returnN :: "'a \<Rightarrow> 'a engine_run" where
  "returnN x now s = Some (now, s, Inr x)"

definition throwN :: "engine_error \<Rightarrow> 'a engine_run" where
  "throwN e now s = Some (now, s, Inl e)"

definition liftN :: "sdk_error + 'a \<Rightarrow> 'a engine_run" where
  "liftN r now s = Some (now, s, mapErr Thrown r)"

text \<open>A step that reads the state, without an \<open>await\<close>.\<close>

definition withState :: "(net_state \<Rightarrow> 'a engine_run) \<Rightarrow> 'a engine_run" where
  "withState f now s = f s now s"

definition withTime :: "(time \<Rightarrow> 'a engine_run) \<Rightarrow> 'a engine_run" where
  "withTime f now s = f now now s"

text \<open>What the other calls on the connection did while this one waited.\<close>

definition resumed :: "network_connection \<Rightarrow> time \<Rightarrow> net_state \<Rightarrow> net_state" where
  "resumed N now s =
     s\<lparr>ns_epoch := othersEpoch (cn_env N) now (ns_epoch s), ns_trusted := othersTrusted (cn_env N) now (ns_trusted s)\<rparr>"

text \<open>\<open>await\<close> of a read, of a computation, and of a call of the gRPC client.\<close>

definition awaitRead :: "network_connection \<Rightarrow> (sdk_error, 'a) timed \<Rightarrow> 'a engine_run" where
  "awaitRead N read now s = map_option (\<lambda>(t, r). (t, resumed N t s, mapErr Thrown r)) (read now)"

definition computeAt :: "network_connection \<Rightarrow> (time \<Rightarrow> sdk_error + 'a) \<Rightarrow> 'a engine_run" where
  "computeAt N f now s =
     (let t = now + int (elapses (cn_env N) now) in Some (t, resumed N t s, mapErr Thrown (f now)))"

definition compute :: "network_connection \<Rightarrow> sdk_error + 'a \<Rightarrow> 'a engine_run" where
  "compute N r = computeAt N (\<lambda>_. r)"

definition awaitClient :: "network_connection \<Rightarrow> 'a client_run \<Rightarrow> 'a engine_run" where
  "awaitClient N run now s =
     (case run now (ns_client s) of
        None \<Rightarrow> None
      | Some (t, c, r) \<Rightarrow> Some (t, resumed N t (s\<lparr>ns_client := c\<rparr>), mapErr CallFailed r))"

section \<open>Requesters\<close>

record request_signer =
  rs_publicKey :: bytes
  signRequest :: "bytes \<Rightarrow> (sdk_error, bytes) timed"

record requester =
  rq_keypair :: transport_keypair
  rq_signer :: "request_signer option"
  rq_chain :: chain_id
  rq_intendedChainSender :: bytes

definition UNSIGNED_KEYPAIR :: "ed25519_lib \<Rightarrow> transport_keypair" where
  "UNSIGNED_KEYPAIR E =
     (let secretKey = replicate 32 0
      in \<lparr>kp_secretKey = secretKey,
          kp_publicKey = (case edGetPublicKey E secretKey of None \<Rightarrow> [] | Some k \<Rightarrow> k)\<rparr>)"

definition signedBySigner ::
    "network_connection \<Rightarrow> requester \<Rightarrow> request_signer \<Rightarrow> bytes \<Rightarrow> signed_request engine_run" where
  "signedBySigner N req signer data =
     (let L = en_sdk (cn_env N); publicKey = kp_publicKey (rq_keypair req) in
      bindN (awaitRead N (signRequest signer data)) (\<lambda>signature.
      bindN (liftN (ofOption (Err ''ed25519'') (ed25519_verify L signature (requestSigningMessage data) publicKey))) (\<lambda>verifies.
      if \<not> verifies
      then throwN (Thrown (Err ''the request signer returned a signature that does not verify under the request key''))
      else bindN (liftN (ofOption (Err ''bcs'') (serialize (userSignatureBcs L) (UserEd25519 signature publicKey)))) (\<lambda>u.
           returnN \<lparr>sr_userSignature = u, sr_signedRequestData = data\<rparr>))))"

definition signFor ::
    "network_connection \<Rightarrow> requester \<Rightarrow> (transport_keypair \<Rightarrow> signed_request engine_run) \<Rightarrow> signed_request engine_run" where
  "signFor N req sign =
     (case rq_signer req of
        None \<Rightarrow> sign (rq_keypair req)
      | Some signer \<Rightarrow>
          bindN (sign (UNSIGNED_KEYPAIR (en_ed25519 (cn_env N)))) (\<lambda>unsigned.
            signedBySigner N req signer (sr_signedRequestData unsigned)))"

text \<open>\<open>(keypair) => signGrpcRequest(keypair, data)\<close>.\<close>

definition signingRequest ::
    "network_connection \<Rightarrow> signed_request_data \<Rightarrow> request_object \<Rightarrow> transport_keypair \<Rightarrow> signed_request engine_run" where
  "signingRequest N d object keypair =
     withState (\<lambda>s. liftN (signGrpcRequest (en_sdk (cn_env N)) (edSign (en_ed25519 (cn_env N))) keypair d object
                            (ns_holders s)))"

section \<open>Sending one signed request\<close>

text \<open>The same bytes to the validators until one answers.\<close>

partial_function (option) sendLoop ::
    "grpc_client \<Rightarrow> (signed_grpc_request, transaction_response) rpc_method \<Rightarrow> signed_grpc_request \<Rightarrow> time
      \<Rightarrow> transaction_response client_run" where
  "sendLoop C M request deadline now s =
     (case submitTransaction C M request (max 1 (deadline - now)) now (othersRan C now s) of
        None \<Rightarrow> None
      | Some (t, s', Inr answer) \<Rightarrow> Some (t, s', Inr answer)
      | Some (t, s', Inl e) \<Rightarrow>
          if isEpochClosingRefusal e \<or> \<not> (isServerRestart e \<or> isDroppedRequest e) \<or> t \<ge> deadline
          then Some (t, s', Inl e)
          else sendLoop C M request deadline (t + RESEND_INTERVAL_MS + int (lagOf C t)) s')"

definition sendUntilAnswered ::
    "grpc_client \<Rightarrow> (signed_grpc_request, transaction_response) rpc_method \<Rightarrow> signed_grpc_request
      \<Rightarrow> transaction_response client_run" where
  "sendUntilAnswered C M request now = sendLoop C M request (now + SUBMIT_TIMEOUT_MS) now"

fun depositUnread :: "transaction_response \<Rightarrow> bool" where
  "depositUnread (ErrorResponse message) \<longleftrightarrow> textIncludes NO_GAS_DEPOSIT_REFUSAL message"
| "depositUnread _ \<longleftrightarrow> False"

partial_function (option) depositLoop ::
    "grpc_client \<Rightarrow> (signed_grpc_request, transaction_response) rpc_method \<Rightarrow> signed_grpc_request \<Rightarrow> time
      \<Rightarrow> transaction_response \<Rightarrow> transaction_response client_run" where
  "depositLoop C M request deadline answer now s =
     (if depositUnread answer \<and> now < deadline then
        let later = now + DEPOSIT_READ_RETRY_MS + int (lagOf C now) in
        case submitTransaction C M request SUBMIT_TIMEOUT_MS later (othersRan C later s) of
          None \<Rightarrow> None
        | Some (t, s', Inl e) \<Rightarrow> Some (t, s', Inl e)
        | Some (t, s', Inr answer') \<Rightarrow> depositLoop C M request deadline answer' t s'
      else Some (now, s, Inr answer))"

definition resendWhileDepositUnread ::
    "grpc_client \<Rightarrow> (signed_grpc_request, transaction_response) rpc_method \<Rightarrow> signed_grpc_request
      \<Rightarrow> transaction_response \<Rightarrow> transaction_response client_run" where
  "resendWhileDepositUnread C M request response now =
     depositLoop C M request (now + DEPOSIT_READ_WAIT_MS) response now"

definition sendSigned ::
    "grpc_client \<Rightarrow> (signed_grpc_request, transaction_response) rpc_method \<Rightarrow> signed_grpc_request
      \<Rightarrow> transaction_response client_run" where
  "sendSigned C M request now s =
     (case sendUntilAnswered C M request now s of
        None \<Rightarrow> None
      | Some (t, s', Inl e) \<Rightarrow> Some (t, s', Inl e)
      | Some (t, s', Inr answer) \<Rightarrow> resendWhileDepositUnread C M request answer t s')"

section \<open>Building, signing and sending\<close>

record 'k sent_request =
  se_epoch :: int
  se_session :: bytes
  se_kept :: 'k

text \<open>What \<open>#signAndSend\<close> ends with: the answer, or \<open>ClosedBeforeAnswer\<close> with the refusal.\<close>

datatype 'k sent_outcome =
    Answered transaction_response "'k sent_request"
  | ClosedBeforeAnswer "'k sent_request" string

type_synonym 'k build_request = "int \<Rightarrow> bytes \<Rightarrow> (request_object \<times> 'k) engine_run"
type_synonym sign_data = "signed_request_data \<Rightarrow> request_object \<Rightarrow> signed_request engine_run"
type_synonym 'k describe_request = "bytes \<Rightarrow> 'k \<Rightarrow> pending_kind engine_run"

definition readChainEpoch :: "network_connection \<Rightarrow> int engine_run" where
  "readChainEpoch N =
     bindN (awaitRead N (cn_chainEpoch N)) (\<lambda>read now s.
       let s' = (if read > ns_epoch s then s\<lparr>ns_epoch := read\<rparr> else s)
       in Some (now, s', Inr (ns_epoch s')))"

definition freshPreimage :: "network_connection \<Rightarrow> bytes engine_run" where
  "freshPreimage N now s =
     Some (now, s\<lparr>ns_draws := ns_draws s + 1\<rparr>, Inr (randomBytes (cn_env N) (ns_draws s)))"

definition sessionIdentifier :: "network_connection \<Rightarrow> requester \<Rightarrow> int \<Rightarrow> bytes \<Rightarrow> bytes" where
  "sessionIdentifier N req epoch preimage =
     grpcSessionIdentifier (keccak_256 (en_sdk (cn_env N))) epoch SignerEd25519 (kp_publicKey (rq_keypair req)) preimage"

definition signedData :: "requester \<Rightarrow> int \<Rightarrow> int \<Rightarrow> bytes \<Rightarrow> dwallet_request \<Rightarrow> signed_request_data" where
  "signedData req net epoch preimage request =
     \<lparr>session_identifier_preimage = preimage, req_epoch = epoch, req_chain_id = rq_chain req,
      req_network = net, req_intended_chain_sender = rq_intendedChainSender req, req_request = request\<rparr>"

definition grpcRequest :: "signed_request \<Rightarrow> signed_grpc_request" where
  "grpcRequest out = \<lparr>gr_userSignature = sr_userSignature out, gr_signedRequestData = sr_signedRequestData out\<rparr>"

text \<open>\<open>catch\<close> of a closing refusal of the two loops.\<close>

definition sendBuilt ::
    "network_connection \<Rightarrow> signed_request \<Rightarrow> time \<Rightarrow> 'k sent_request \<Rightarrow> 'k sent_outcome engine_run" where
  "sendBuilt N out signedAt sent now s =
     (let request = grpcRequest out;
          s' = s\<lparr>ns_signed := ns_signed s @ [\<lparr>sg_epoch = se_epoch sent, sg_session = se_session sent, sg_at = signedAt, sg_signed = request\<rparr>]\<rparr>
      in case awaitClient N (sendSigned (cn_client N) (cn_submit N) request) now s' of
           None \<Rightarrow> None
         | Some (t, s'', Inl (CallFailed e)) \<Rightarrow>
             Some (t, s'', if isEpochClosingRefusal e
                           then Inr (ClosedBeforeAnswer sent (case ce_details e of None \<Rightarrow> [] | Some d \<Rightarrow> d))
                           else Inl (CallFailed e))
         | Some (t, s'', Inl e) \<Rightarrow> Some (t, s'', Inl e)
         | Some (t, s'', Inr answer) \<Rightarrow>
             Some (t, s'', Inr (if staleEpochRefusal answer (se_epoch sent) \<noteq> None
                                then ClosedBeforeAnswer sent (case answer of ErrorResponse m \<Rightarrow> m | _ \<Rightarrow> [])
                                else Answered answer sent)))"

definition signAndSend ::
    "network_connection \<Rightarrow> requester \<Rightarrow> int \<Rightarrow> sign_data \<Rightarrow> 'k build_request \<Rightarrow> 'k sent_outcome engine_run" where
  "signAndSend N req epoch sign mk =
     bindN (freshPreimage N) (\<lambda>preimage.
     let session = sessionIdentifier N req epoch preimage in
     bindN (mk epoch session) (\<lambda>(object, kept).
     withTime (\<lambda>signedAt.
     bindN (sign (signedData req (requestNetworkValue (cn_network N)) epoch preimage (ro_request object)) object) (\<lambda>out.
     sendBuilt N out signedAt \<lparr>se_epoch = epoch, se_session = session, se_kept = kept\<rparr>))))"

section \<open>After the epoch closed\<close>

definition curveNumberOf :: "network_connection \<Rightarrow> sdk_error + int" where
  "curveNumberOf N = curveNumber (cn_curve N)"

definition pendingOf ::
    "network_connection \<Rightarrow> requester \<Rightarrow> 'k sent_request \<Rightarrow> 'k describe_request \<Rightarrow> pending_request engine_run" where
  "pendingOf N req sent describe =
     bindN (liftN (curveNumberOf N)) (\<lambda>curve.
     bindN (describe (se_session sent) (se_kept sent)) (\<lambda>kind.
     returnN \<lparr>pn_epoch = se_epoch sent, pn_sessionIdentifier = se_session sent,
              pn_transportKey = kp_publicKey (rq_keypair req), pn_curve = curve,
              pn_networkKeyId = cn_networkKeyId N, pn_kind = kind\<rparr>))"

text \<open>The wait for the epoch at which every session of the request's epoch is settled; a failed read counts for nothing.\<close>

partial_function (option) settledLoop ::
    "network_connection \<Rightarrow> int \<Rightarrow> time \<Rightarrow> time \<Rightarrow> net_state \<Rightarrow> (time \<times> net_state) option" where
  "settledLoop N settledAt deadline now s =
     (if ns_epoch s < settledAt \<and> now < deadline then
        case readChainEpoch N now s of
          None \<Rightarrow> None
        | Some (t, s', _) \<Rightarrow>
            if ns_epoch s' \<ge> settledAt then Some (t, s')
            else let later = t + CHAIN_EPOCH_POLL_MS + int (lagOf (cn_client N) t)
                 in settledLoop N settledAt deadline later (resumed N later s')
      else Some (now, s))"

definition foundOutcome :: "(sdk_error + request_outcome) \<Rightarrow> request_outcome" where
  "foundOutcome r = (case r of Inl _ \<Rightarrow> UnknownOutcome | Inr outcome \<Rightarrow> outcome)"

definition outcomeAfterEpochClose :: "network_connection \<Rightarrow> pending_request \<Rightarrow> request_outcome engine_run" where
  "outcomeAfterEpochClose N pending now s =
     (let settledAt = settledAtEpoch pending in
      case settledLoop N settledAt (now + EPOCH_CLOSE_WAIT_MS) now s of
        None \<Rightarrow> None
      | Some (t, s') \<Rightarrow>
          (case cn_requestRecords N of
             None \<Rightarrow> Some (t, s', Inr UnknownOutcome)
           | Some records \<Rightarrow>
               if ns_epoch s' < settledAt then Some (t, s', Inr UnknownOutcome)
               else map_option (\<lambda>(t', r). (t', resumed N t' s', Inr (foundOutcome r)))
                      (findSession (en_records (cn_env N)) pending records
                         (map_option (\<lambda>shares. shares (ns_trusted s')) (cn_shares N)) t)))"

definition answerOrThrow ::
    "'k sent_request \<Rightarrow> string \<Rightarrow> request_outcome \<Rightarrow> pending_request
      \<Rightarrow> (transaction_response \<times> 'k sent_request) engine_run" where
  "answerOrThrow sent refusal outcome pending =
     (case outcome of
        SignatureFound signature \<Rightarrow> returnN (SignatureResponse signature, sent)
      | Ran rec \<Rightarrow> throwN (RequestRanBeforeAnswer (se_epoch sent) (se_session sent) rec)
      | _ \<Rightarrow> withState (\<lambda>s. throwN (EpochClosedBeforeAnswer (se_epoch sent) (se_session sent) (ns_epoch s) refusal pending)))"

text \<open>\<open>#submit\<close>: \<open>again\<close> is the submission with one rebuild less, where one is left.\<close>

definition submitOnce ::
    "network_connection \<Rightarrow> requester \<Rightarrow> 'k build_request \<Rightarrow> 'k describe_request
      \<Rightarrow> (transaction_response \<times> 'k sent_request) engine_run option
      \<Rightarrow> (transaction_response \<times> 'k sent_request) engine_run" where
  "submitOnce N req mk describe again =
     bindN (readChainEpoch N) (\<lambda>epoch.
     bindN (signAndSend N req epoch (\<lambda>d object. signFor N req (signingRequest N d object)) mk) (\<lambda>ended.
     case ended of
       Answered response sent \<Rightarrow> returnN (response, sent)
     | ClosedBeforeAnswer sent refusal \<Rightarrow>
         bindN (pendingOf N req sent describe) (\<lambda>pending.
         bindN (outcomeAfterEpochClose N pending) (\<lambda>outcome.
         case again of
           Some resubmit \<Rightarrow> if outcome = NotRun then resubmit else answerOrThrow sent refusal outcome pending
         | None \<Rightarrow> answerOrThrow sent refusal outcome pending))))"

primrec submit ::
    "network_connection \<Rightarrow> requester \<Rightarrow> 'k build_request \<Rightarrow> 'k describe_request \<Rightarrow> nat
      \<Rightarrow> (transaction_response \<times> 'k sent_request) engine_run" where
  "submit N req mk describe 0 = submitOnce N req mk describe None"
| "submit N req mk describe (Suc rebuildsLeft) =
     submitOnce N req mk describe (Some (submit N req mk describe rebuildsLeft))"

definition submitWithPresign ::
    "network_connection \<Rightarrow> requester \<Rightarrow> int \<Rightarrow> sign_data \<Rightarrow> (bytes \<Rightarrow> (request_object \<times> 'k) engine_run)
      \<Rightarrow> 'k describe_request \<Rightarrow> (transaction_response \<times> 'k sent_request) engine_run" where
  "submitWithPresign N req presignEpoch sign mk describe =
     bindN (readChainEpoch N) (\<lambda>chainEpoch.
     if chainEpoch > presignEpoch then throwN (PresignExpiredWithTheEpoch presignEpoch chainEpoch)
     else bindN (signAndSend N req presignEpoch sign (\<lambda>_. mk)) (\<lambda>ended.
       case ended of
         Answered response sent \<Rightarrow> returnN (response, sent)
       | ClosedBeforeAnswer sent refusal \<Rightarrow>
           bindN (pendingOf N req sent describe) (\<lambda>pending.
           bindN (outcomeAfterEpochClose N pending) (\<lambda>outcome.
           if outcome = NotRun
           then withState (\<lambda>s. throwN (PresignExpiredWithTheEpoch presignEpoch (ns_epoch s)))
           else answerOrThrow sent refusal outcome pending))))"

end
