(* ===== verification/Engine_Laws.thy ===== *)
theory Engine_Laws
  imports Engine_Runs Across_Laws
begin

text \<open>
  What a submission through a connection promises: every copy of a request it sends carries the bytes it
  signed, it signs again only for a later epoch and only after the chain showed that the request it
  signed before never ran, at most three times, and its loops end at their deadlines.
\<close>

section \<open>Sequencing\<close>

lemma bindN_Inr [result_simps]:
  "bindN m f now s = Some (t, s', Inr y) \<longleftrightarrow>
     (\<exists>t1 s1 x. m now s = Some (t1, s1, Inr x) \<and> f x t1 s1 = Some (t, s', Inr y))"
  by (auto simp: bindN_def split: option.splits sum.splits)

lemma bindN_Some:
  assumes "bindN m f now s = Some (t, s', r)"
  obtains (stopped) e where "m now s = Some (t, s', Inl e)" "r = Inl e"
  | (went_on) t1 s1 x where "m now s = Some (t1, s1, Inr x)" "f x t1 s1 = Some (t, s', r)"
  using assms by (auto simp: bindN_def split: option.splits sum.splits)

lemma step_simps [result_simps]:
  "returnN x now s = Some (t, s', r) \<longleftrightarrow> t = now \<and> s' = s \<and> r = Inr x"
  "throwN e now s = Some (t, s', r') \<longleftrightarrow> t = now \<and> s' = s \<and> r' = Inl e"
  "liftN r'' now s = Some (t, s', r''') \<longleftrightarrow> t = now \<and> s' = s \<and> r''' = mapErr Thrown r''"
  "withState f now s = f s now s"
  "withTime g now s = g now now s"
  by (auto simp: returnN_def throwN_def liftN_def withState_def withTime_def)

lemma mapErr_Thrown [result_simps]: "Inr x = mapErr h r \<longleftrightarrow> r = Inr x"
  by (cases r) (auto simp: mapErr_def)

section \<open>The loops send one request\<close>

text \<open>The calls between two states of the client all carry one request.\<close>

definition sends_only ::
    "('q, 'r) rpc_method \<Rightarrow> 'q \<Rightarrow> client_state \<Rightarrow> client_state \<Rightarrow> bool" where
  "sends_only M request s s' \<longleftrightarrow>
     (\<exists>cs. cs_sent s' = cs_sent s @ cs \<and> (\<forall>c\<in>set cs. encodeRequest M request = Inr (sc_bytes c)))"

lemma sends_only_refl [intro]: "sends_only M request s s"
  by (auto simp: sends_only_def)

lemma sends_only_trans: "sends_only M request s s1 \<Longrightarrow> sends_only M request s1 s' \<Longrightarrow> sends_only M request s s'"
  by (force simp: sends_only_def)

lemma sends_only_others [simp]: "sends_only M request (othersRan C t s) s' \<longleftrightarrow> sends_only M request s s'"
  by (simp add: sends_only_def)

lemma submitTransaction_sends_only:
  "submitTransaction C M request timeout now s = Some (t, s', r) \<Longrightarrow> sends_only M request s s'"
  by (drule submitTransaction_frame) (auto simp: sends_only_def)

lemma sendLoop_sends_only:
  assumes "sendLoop C M request deadline now s = Some (t, s', r)"
  shows "sends_only M request s s'"
proof -
  have "sends_only M request s (fst (snd (t, s', r)))"
  proof (rule sendLoop.raw_induct [where P = "\<lambda>C M request deadline now s y. sends_only M request s (fst (snd y))", OF _ assms])
    fix f C M request deadline now s y
    assume IH: "\<And>C M request deadline now s y. f C M request deadline now s = Some y \<Longrightarrow> sends_only M request s (fst (snd y))"
      and eq: "(case submitTransaction C M request (max 1 (deadline - now)) now (othersRan C now s) of
        None \<Rightarrow> None
      | Some (t, s', Inr answer) \<Rightarrow> Some (t, s', Inr answer)
      | Some (t, s', Inl e) \<Rightarrow>
          if isEpochClosingRefusal e \<or> \<not> (isServerRestart e \<or> isDroppedRequest e) \<or> t \<ge> deadline
          then Some (t, s', Inl e)
          else f C M request deadline (t + RESEND_INTERVAL_MS + int (lagOf C t)) s') = Some y"
    from eq obtain t1 s1 r1
      where sub: "submitTransaction C M request (max 1 (deadline - now)) now (othersRan C now s) = Some (t1, s1, r1)"
      by (auto split: option.split_asm)
    note first = submitTransaction_sends_only [OF sub, simplified]
    show "sends_only M request s (fst (snd y))"
      using eq first IH sends_only_trans [OF first] unfolding sub
      by (auto split: sum.split_asm if_split_asm)
  qed
  then show ?thesis by simp
qed

lemma depositLoop_sends_only:
  assumes "depositLoop C M request deadline answer now s = Some (t, s', r)"
  shows "sends_only M request s s'"
proof -
  have "sends_only M request s (fst (snd (t, s', r)))"
  proof (rule depositLoop.raw_induct [where P = "\<lambda>C M request deadline answer now s y. sends_only M request s (fst (snd y))", OF _ assms])
    fix f C M request deadline answer now s y
    assume IH: "\<And>C M request deadline answer now s y. f C M request deadline answer now s = Some y \<Longrightarrow> sends_only M request s (fst (snd y))"
      and eq: "(if depositUnread answer \<and> now < deadline then
        let later = now + DEPOSIT_READ_RETRY_MS + int (lagOf C now) in
        case submitTransaction C M request SUBMIT_TIMEOUT_MS later (othersRan C later s) of
          None \<Rightarrow> None
        | Some (t, s', Inl e) \<Rightarrow> Some (t, s', Inl e)
        | Some (t, s', Inr answer') \<Rightarrow> f C M request deadline answer' t s'
      else Some (now, s, Inr answer)) = Some y"
    show "sends_only M request s (fst (snd y))"
    proof (cases "depositUnread answer \<and> now < deadline")
      case True
      let ?later = "now + DEPOSIT_READ_RETRY_MS + int (lagOf C now)"
      from eq True obtain t1 s1 r1
        where sub: "submitTransaction C M request SUBMIT_TIMEOUT_MS ?later (othersRan C ?later s) = Some (t1, s1, r1)"
        by (auto simp: Let_def split: option.split_asm)
      note first = submitTransaction_sends_only [OF sub, simplified]
      show ?thesis
        using eq True first IH sends_only_trans [OF first] unfolding Let_def sub
        by (auto split: sum.split_asm)
    qed (use eq sends_only_refl in auto)
  qed
  then show ?thesis by simp
qed

lemma sendSigned_sends_only:
  "sendSigned C M request now s = Some (t, s', r) \<Longrightarrow> sends_only M request s s'"
  unfolding sendSigned_def sendUntilAnswered_def resendWhileDepositUnread_def
  by (auto split: option.split_asm sum.split_asm
      dest!: sendLoop_sends_only depositLoop_sends_only intro: sends_only_trans)

section \<open>The loops end\<close>

text \<open>The transport settles every call, and no answer comes before its question.\<close>

definition transport_settles :: "grpc_client \<Rightarrow> bool" where
  "transport_settles C \<longleftrightarrow> (\<forall>i m bs d now. \<exists>t r. unary C i m bs d now = Some (t, r) \<and> now \<le> t)"

lemma submit_settles:
  "transport_settles C \<Longrightarrow> \<exists>t s' r. submitTransaction C M request timeout now s = Some (t, s', r) \<and> now \<le> t"
  unfolding submitTransaction_def transport_settles_def by (rule submitOver_settles) blast

lemma sendLoop_ends:
  assumes "transport_settles C"
  shows "\<exists>t s' r. sendLoop C M request deadline now s = Some (t, s', r) \<and> now \<le> t"
proof (induction "nat (deadline - now)" arbitrary: now s rule: less_induct)
  case less
  from submit_settles [OF assms] obtain t s' r
    where sub: "submitTransaction C M request (max 1 (deadline - now)) now (othersRan C now s) = Some (t, s', r)"
      and later: "now \<le> t" by blast
  let ?next = "t + RESEND_INTERVAL_MS + int (lagOf C t)"
  show ?case
  proof (cases "\<exists>e. r = Inl e \<and> \<not> (isEpochClosingRefusal e \<or> \<not> (isServerRestart e \<or> isDroppedRequest e) \<or> t \<ge> deadline)")
    case True
    with later have "nat (deadline - ?next) < nat (deadline - now)" by (auto simp: RESEND_INTERVAL_MS_def)
    from less [OF this] obtain t' s'' r' where "sendLoop C M request deadline ?next s' = Some (t', s'', r')" "?next \<le> t'"
      by blast
    with True sub later show ?thesis
      by (subst sendLoop.simps) (auto simp: RESEND_INTERVAL_MS_def)
  next
    case False
    with sub later show ?thesis by (subst sendLoop.simps) (cases r; auto)
  qed
qed

lemma depositLoop_ends:
  assumes "transport_settles C"
  shows "\<exists>t s' r. depositLoop C M request deadline answer now s = Some (t, s', r) \<and> now \<le> t"
proof (induction "nat (deadline - now)" arbitrary: answer now s rule: less_induct)
  case less
  show ?case
  proof (cases "depositUnread answer \<and> now < deadline")
    case True
    let ?later = "now + DEPOSIT_READ_RETRY_MS + int (lagOf C now)"
    from submit_settles [OF assms] obtain t s' r
      where sub: "submitTransaction C M request SUBMIT_TIMEOUT_MS ?later (othersRan C ?later s) = Some (t, s', r)"
        and later: "?later \<le> t" by blast
    show ?thesis
    proof (cases r)
      case (Inl e)
      with True sub later show ?thesis by (subst depositLoop.simps) (simp add: Let_def DEPOSIT_READ_RETRY_MS_def)
    next
      case (Inr answer')
      from True later have "nat (deadline - t) < nat (deadline - now)" by (simp add: DEPOSIT_READ_RETRY_MS_def)
      from less [OF this, of answer' s'] obtain t' s'' r'
        where "depositLoop C M request deadline answer' t s' = Some (t', s'', r')" "t \<le> t'" by blast
      with True Inr sub later show ?thesis
        by (subst depositLoop.simps) (simp add: Let_def DEPOSIT_READ_RETRY_MS_def)
    qed
  qed (subst depositLoop.simps, auto)
qed

lemma sendSigned_ends:
  assumes "transport_settles C"
  shows "\<exists>t s' r. sendSigned C M request now s = Some (t, s', r) \<and> now \<le> t"
proof -
  from sendLoop_ends [OF assms] obtain t s' r
    where first: "sendLoop C M request (now + SUBMIT_TIMEOUT_MS) now s = Some (t, s', r)" "now \<le> t" by blast
  show ?thesis
  proof (cases r)
    case (Inr answer)
    from depositLoop_ends [OF assms] obtain t' s'' r'
      where "depositLoop C M request (t + DEPOSIT_READ_WAIT_MS) answer t s' = Some (t', s'', r')" "t \<le> t'" by blast
    with first Inr show ?thesis
      by (simp add: sendSigned_def sendUntilAnswered_def resendWhileDepositUnread_def)
  qed (use first in \<open>simp add: sendSigned_def sendUntilAnswered_def\<close>)
qed

section \<open>The connection's state\<close>

text \<open>Other calls on the connection never take its epoch back.\<close>

definition epochs_grow :: "network_connection \<Rightarrow> bool" where
  "epochs_grow N \<longleftrightarrow> (\<forall>t e. e \<le> othersEpoch (cn_env N) t e)"

text \<open>
  Between two states: the requests \<open>es\<close> were signed, every call sent carries the bytes of one of them,
  the epoch did not go back, no result was issued, and the trusted keys changed through other calls only.
\<close>

definition carries :: "network_connection \<Rightarrow> sent_call \<Rightarrow> signed_entry \<Rightarrow> bool" where
  "carries N c e \<longleftrightarrow> encodeRequest (cn_submit N) (sg_signed e) = Inr (sc_bytes c)"

text \<open>What holds of the trusted keys and other calls keep.\<close>

definition kept_by_others :: "network_connection \<Rightarrow> (trusted_network_keys \<Rightarrow> bool) \<Rightarrow> bool" where
  "kept_by_others N good \<longleftrightarrow> (\<forall>t trusted. good trusted \<longrightarrow> good (othersTrusted (cn_env N) t trusted))"

definition moves :: "network_connection \<Rightarrow> net_state \<Rightarrow> net_state \<Rightarrow> signed_entry list \<Rightarrow> bool" where
  "moves N s s' es \<longleftrightarrow>
     ns_signed s' = ns_signed s @ es \<and> ns_issued s' = ns_issued s \<and> ns_epoch s \<le> ns_epoch s' \<and>
     (\<forall>good. kept_by_others N good \<and> good (ns_trusted s) \<longrightarrow> good (ns_trusted s')) \<and>
     (\<exists>cs. cs_sent (ns_client s') = cs_sent (ns_client s) @ cs \<and> (\<forall>c\<in>set cs. \<exists>e\<in>set es. carries N c e))"

definition keeps_still :: "network_connection \<Rightarrow> 'a engine_run \<Rightarrow> bool" where
  "keeps_still N m \<longleftrightarrow> (\<forall>now s t s' r. m now s = Some (t, s', r) \<longrightarrow> moves N s s' [])"

lemma moves_refl [intro]: "moves N s s []"
  by (simp add: moves_def)

lemma moves_trans: "moves N s s1 es \<Longrightarrow> moves N s1 s' es' \<Longrightarrow> moves N s s' (es @ es')"
  unfolding moves_def by (elim conjE exE) (intro conjI; force)

lemma moves_trusted:
  "moves N s s' es \<Longrightarrow> kept_by_others N good \<Longrightarrow> good (ns_trusted s) \<Longrightarrow> good (ns_trusted s')"
  unfolding moves_def by blast

lemma moves_still: "moves N s s1 [] \<Longrightarrow> moves N s1 s' es \<Longrightarrow> moves N s s' es"
  using moves_trans by fastforce

lemma moves_then_still: "moves N s s1 es \<Longrightarrow> moves N s1 s' [] \<Longrightarrow> moves N s s' es"
  using moves_trans by fastforce

lemma moves_epoch: "moves N s s' es \<Longrightarrow> ns_epoch s \<le> ns_epoch s'"
  by (simp add: moves_def)

lemma keeps_stillD: "keeps_still N m \<Longrightarrow> m now s = Some (t, s', r) \<Longrightarrow> moves N s s' []"
  unfolding keeps_still_def by blast

lemma resumed_moves: "epochs_grow N \<Longrightarrow> moves N s (resumed N t s) []"
  by (simp add: moves_def resumed_def epochs_grow_def kept_by_others_def)

lemma keeps_still_bindN [intro]:
  "keeps_still N m \<Longrightarrow> (\<And>x. keeps_still N (f x)) \<Longrightarrow> keeps_still N (bindN m f)"
  unfolding keeps_still_def by (blast elim: bindN_Some intro: moves_still)

lemma keeps_still_steps [intro]:
  "keeps_still N (returnN x)" "keeps_still N (throwN e)" "keeps_still N (liftN r)"
  "(\<And>s. keeps_still N (f s)) \<Longrightarrow> keeps_still N (withState f)"
  "(\<And>t. keeps_still N (g t)) \<Longrightarrow> keeps_still N (withTime g)"
  by (auto simp: keeps_still_def result_simps)

lemma keeps_still_awaitRead [intro]: "epochs_grow N \<Longrightarrow> keeps_still N (awaitRead N read)"
  by (auto simp: keeps_still_def awaitRead_def resumed_moves)

lemma keeps_still_compute [intro]:
  "epochs_grow N \<Longrightarrow> keeps_still N (computeAt N f)" "epochs_grow N \<Longrightarrow> keeps_still N (compute N r)"
  by (auto simp: keeps_still_def computeAt_def compute_def Let_def resumed_moves)

lemma keeps_still_if [intro]:
  "keeps_still N m \<Longrightarrow> keeps_still N m' \<Longrightarrow> keeps_still N (if b then m else m')"
  by simp

lemma keeps_still_case [intro]:
  "(\<And>x y. keeps_still N (f x y)) \<Longrightarrow> keeps_still N (case p of (x, y) \<Rightarrow> f x y)"
  "keeps_still N m \<Longrightarrow> (\<And>x. keeps_still N (g x)) \<Longrightarrow> keeps_still N (case a of None \<Rightarrow> m | Some x \<Rightarrow> g x)"
  by (auto split: prod.split option.split)

lemma keeps_still_freshPreimage [intro]: "keeps_still N (freshPreimage N)"
  by (auto simp: keeps_still_def freshPreimage_def moves_def)

lemma keeps_still_readChainEpoch [intro]: "epochs_grow N \<Longrightarrow> keeps_still N (readChainEpoch N)"
  unfolding readChainEpoch_def
  by (rule keeps_still_bindN, erule keeps_still_awaitRead) (auto simp: keeps_still_def Let_def moves_def)

lemmas still_intros =
  keeps_still_bindN keeps_still_steps keeps_still_awaitRead keeps_still_compute keeps_still_if keeps_still_case

lemma keeps_still_signing [intro]:
  assumes "epochs_grow N"
  shows "keeps_still N (signingRequest N d object keypair)"
    and "(\<And>k. keeps_still N (sign k)) \<Longrightarrow> keeps_still N (signFor N req sign)"
  unfolding signingRequest_def signFor_def signedBySigner_def Let_def
  by (intro still_intros assms; assumption?)+

lemma keeps_still_pendingOf [intro]:
  "(\<And>session kept. keeps_still N (describe session kept)) \<Longrightarrow> keeps_still N (pendingOf N req sent describe)"
  unfolding pendingOf_def by (intro still_intros)

lemma keeps_still_answerOrThrow [intro]: "keeps_still N (answerOrThrow sent refusal outcome pending)"
  unfolding answerOrThrow_def by (auto split: request_outcome.split)

text \<open>The epoch a read of the chain gives is the connection's latest.\<close>

lemma readChainEpoch_epoch:
  "readChainEpoch N now s = Some (t, s', Inr epoch) \<Longrightarrow> ns_epoch s' = epoch"
  unfolding readChainEpoch_def by (auto simp: bindN_def Let_def split: option.split_asm sum.split_asm)

section \<open>One signing\<close>

text \<open>What is sent under a request signed.\<close>

definition entry_of :: "'k sent_request \<Rightarrow> signed_entry \<Rightarrow> bool" where
  "entry_of sent e \<longleftrightarrow> sg_epoch e = se_epoch sent \<and> sg_session e = se_session sent"

primrec sentOf :: "'k sent_outcome \<Rightarrow> 'k sent_request" where
  "sentOf (Answered response sent) = sent"
| "sentOf (ClosedBeforeAnswer sent refusal) = sent"

lemma sendBuilt_moves:
  assumes "epochs_grow N" "sendBuilt N out at sent now s = Some (t, s', r)"
  shows "\<exists>e. entry_of sent e \<and> sg_at e = at \<and> sg_signed e = grpcRequest out \<and> moves N s s' [e] \<and>
           (\<forall>x. r = Inr x \<longrightarrow> sentOf x = sent)"
proof -
  let ?e = "\<lparr>sg_epoch = se_epoch sent, sg_session = se_session sent, sg_at = at, sg_signed = grpcRequest out\<rparr>"
  let ?s = "s\<lparr>ns_signed := ns_signed s @ [?e]\<rparr>"
  from assms(2) obtain t1 c1 r1
    where run: "sendSigned (cn_client N) (cn_submit N) (grpcRequest out) now (ns_client s) = Some (t1, c1, r1)"
      and s': "s' = resumed N t1 (?s\<lparr>ns_client := c1\<rparr>)"
      and r: "\<forall>x. r = Inr x \<longrightarrow> sentOf x = sent"
    by (auto simp: sendBuilt_def awaitClient_def Let_def split: option.split_asm sum.split_asm engine_error.split_asm)
  from sendSigned_sends_only [OF run] obtain cs
    where "cs_sent c1 = cs_sent (ns_client s) @ cs"
      and "\<forall>c\<in>set cs. encodeRequest (cn_submit N) (grpcRequest out) = Inr (sc_bytes c)"
    by (auto simp: sends_only_def)
  with assms(1) have "moves N s s' [?e]"
    by (auto simp: s' moves_def resumed_def carries_def epochs_grow_def kept_by_others_def)
  with r show ?thesis by (intro exI [of _ ?e]) (simp add: entry_of_def)
qed

text \<open>A request is signed once for the epoch given, or, where building or signing it fails, not at all.\<close>

lemma signAndSend_moves:
  assumes "epochs_grow N" "\<And>epoch session. keeps_still N (mk epoch session)" "\<And>d object. keeps_still N (sign d object)"
    and "signAndSend N req epoch sign mk now s = Some (t, s', r)"
  shows "(\<exists>err. r = Inl err) \<and> moves N s s' [] \<or>
    (\<exists>e. sg_epoch e = epoch \<and> moves N s s' [e] \<and> (\<forall>x. r = Inr x \<longrightarrow> entry_of (sentOf x) e \<and> se_epoch (sentOf x) = epoch))"
proof -
  note still = keeps_stillD [OF keeps_still_freshPreimage] keeps_stillD [OF assms(2)] keeps_stillD [OF assms(3)]
  from assms(4) obtain preimage t1 s1 where drawn: "freshPreimage N now s = Some (t1, s1, Inr preimage)"
    by (simp add: freshPreimage_def)
  let ?session = "sessionIdentifier N req epoch preimage"
  from assms(4) drawn have rest: "bindN (mk epoch ?session) (\<lambda>(object, kept).
     withTime (\<lambda>at. bindN (sign (signedData req (requestNetworkValue (cn_network N)) epoch preimage (ro_request object)) object) (\<lambda>out.
     sendBuilt N out at \<lparr>se_epoch = epoch, se_session = ?session, se_kept = kept\<rparr>))) t1 s1 = Some (t, s', r)"
    by (simp add: signAndSend_def Let_def bindN_def)
  have m1: "moves N s s1 []" by (rule still(1) [OF drawn])
  show ?thesis
  proof (rule bindN_Some [OF rest])
    fix err assume "mk epoch ?session t1 s1 = Some (t, s', Inl err)" "r = Inl err"
    with m1 still(2) show ?thesis by (blast intro: moves_still)
  next
    fix t2 s2 x
    assume mk: "mk epoch ?session t1 s1 = Some (t2, s2, Inr x)"
      and rest: "(case x of (object, kept) \<Rightarrow>
        withTime (\<lambda>at. bindN (sign (signedData req (requestNetworkValue (cn_network N)) epoch preimage (ro_request object)) object) (\<lambda>out.
        sendBuilt N out at \<lparr>se_epoch = epoch, se_session = ?session, se_kept = kept\<rparr>))) t2 s2 = Some (t, s', r)"
    from m1 still(2) [OF mk] have m2: "moves N s s2 []" by (rule moves_still)
    obtain object kept where x: "x = (object, kept)" by (cases x)
    show ?thesis
    proof (rule bindN_Some [OF rest [unfolded x prod.case withTime_def]])
      fix err
      assume "sign (signedData req (requestNetworkValue (cn_network N)) epoch preimage (ro_request object)) object t2 s2 =
          Some (t, s', Inl err)" "r = Inl err"
      with m2 still(3) show ?thesis by (blast intro: moves_still)
    next
      fix t3 s3 out
      assume sign: "sign (signedData req (requestNetworkValue (cn_network N)) epoch preimage (ro_request object)) object t2 s2 =
          Some (t3, s3, Inr out)"
        and sent: "sendBuilt N out t2 \<lparr>se_epoch = epoch, se_session = ?session, se_kept = kept\<rparr> t3 s3 = Some (t, s', r)"
      from m2 still(3) [OF sign] have m3: "moves N s s3 []" by (rule moves_still)
      from sendBuilt_moves [OF assms(1) sent] m3 show ?thesis
        by (auto simp: entry_of_def dest: moves_still [OF m3])
    qed
  qed
qed

section \<open>The wait for the epoch's end\<close>

lemma settledLoop_moves:
  assumes "epochs_grow N" "settledLoop N settledAt deadline now s = Some (t, s')"
  shows "moves N s s' []"
proof -
  have "epochs_grow N \<longrightarrow> moves N s (snd (t, s')) []"
  proof (rule settledLoop.raw_induct [where P = "\<lambda>N settledAt deadline now s y. epochs_grow N \<longrightarrow> moves N s (snd y) []", OF _ assms(2)],
      intro impI)
    fix f N settledAt deadline now s y
    assume IH: "\<And>N settledAt deadline now s y. f N settledAt deadline now s = Some y \<Longrightarrow> epochs_grow N \<longrightarrow> moves N s (snd y) []"
      and eq: "(if ns_epoch s < settledAt \<and> now < deadline then
        case readChainEpoch N now s of
          None \<Rightarrow> None
        | Some (t, s', _) \<Rightarrow>
            if ns_epoch s' \<ge> settledAt then Some (t, s')
            else let later = t + CHAIN_EPOCH_POLL_MS + int (lagOf (cn_client N) t)
                 in f N settledAt deadline later (resumed N later s')
      else Some (now, s)) = Some y"
      and grow: "epochs_grow N"
    show "moves N s (snd y) []"
    proof (cases "ns_epoch s < settledAt \<and> now < deadline")
      case True
      with eq obtain t1 s1 r1 where read: "readChainEpoch N now s = Some (t1, s1, r1)"
        by (auto split: option.split_asm)
      note m = keeps_stillD [OF keeps_still_readChainEpoch [OF grow] read]
      show ?thesis
      proof (cases "settledAt \<le> ns_epoch s1")
        case False
        let ?later = "t1 + CHAIN_EPOCH_POLL_MS + int (lagOf (cn_client N) t1)"
        from eq True read False have "f N settledAt deadline ?later (resumed N ?later s1) = Some y" by (simp add: Let_def)
        from IH [OF this] grow moves_still [OF moves_still [OF m resumed_moves [OF grow]]] show ?thesis by blast
      qed (use eq True read m in auto)
    qed (use eq moves_refl in auto)
  qed
  with assms(1) show ?thesis by simp
qed

text \<open>An outcome the lookup did not find is \<open>UnknownOutcome\<close>; one it found was looked up once the chain settled the epoch.\<close>

definition looked_up :: "network_connection \<Rightarrow> pending_request \<Rightarrow> request_outcome \<Rightarrow> int \<Rightarrow> bool" where
  "looked_up N pending outcome epoch \<longleftrightarrow>
     settledAtEpoch pending \<le> epoch \<and>
     (\<exists>records trusted t t'. cn_requestRecords N = Some records \<and>
        findSession (en_records (cn_env N)) pending records (map_option (\<lambda>shares. shares trusted) (cn_shares N)) t
          = Some (t', Inr outcome))"

lemma outcomeAfterEpochClose_found:
  assumes "epochs_grow N" "outcomeAfterEpochClose N pending now s = Some (t, s', r)"
  shows "moves N s s' [] \<and> (\<exists>outcome. r = Inr outcome \<and> (outcome = UnknownOutcome \<or> looked_up N pending outcome (ns_epoch s')))"
proof -
  from assms(2) obtain t1 s1
    where loop: "settledLoop N (settledAtEpoch pending) (now + EPOCH_CLOSE_WAIT_MS) now s = Some (t1, s1)"
    by (auto simp: outcomeAfterEpochClose_def Let_def split: option.split_asm)
  note m = settledLoop_moves [OF assms(1) loop]
  note m' = moves_still [OF m resumed_moves [OF assms(1)]]
  show ?thesis
  proof (cases "cn_requestRecords N = None \<or> ns_epoch s1 < settledAtEpoch pending")
    case True
    with assms(2) loop m show ?thesis
      by (auto simp: outcomeAfterEpochClose_def Let_def split: option.split_asm if_split_asm)
  next
    case False
    then obtain records where records: "cn_requestRecords N = Some records" by auto
    let ?find = "findSession (en_records (cn_env N)) pending records
      (map_option (\<lambda>shares. shares (ns_trusted s1)) (cn_shares N)) t1"
    from assms(2) loop False records obtain f where f: "?find = Some (t, f)" "s' = resumed N t s1" "r = Inr (foundOutcome f)"
      by (auto simp: outcomeAfterEpochClose_def Let_def)
    have "settledAtEpoch pending \<le> ns_epoch s'"
      using False moves_epoch [OF resumed_moves [OF assms(1)], of s1 t] f(2) by simp
    with f records m' show ?thesis
      by (cases f) (auto simp: foundOutcome_def looked_up_def intro!: exI [of _ "ns_trusted s1"])
  qed
qed

section \<open>A submission\<close>

text \<open>
  The request \<open>e\<close>, of one of the kinds given, never ran: the chain settled its epoch, the lookup of its session found that it never
  ran, and the request \<open>e'\<close> signed next names an epoch at which that was settled.
\<close>

definition never_ran_before ::
    "network_connection \<Rightarrow> (pending_kind \<Rightarrow> bool) \<Rightarrow> signed_entry \<Rightarrow> signed_entry \<Rightarrow> bool" where
  "never_ran_before N kinds e e' \<longleftrightarrow>
     sg_epoch e < sg_epoch e' \<and>
     (\<exists>pending. kinds (pn_kind pending) \<and> pn_epoch pending = sg_epoch e \<and> pn_sessionIdentifier pending = sg_session e \<and>
        looked_up N pending NotRun (sg_epoch e'))"

text \<open>The answer: the network's to the last request signed, or the signature the chain holds for its session.\<close>

definition history ::
    "network_connection \<Rightarrow> (pending_kind \<Rightarrow> bool) \<Rightarrow> net_state \<Rightarrow> net_state
      \<Rightarrow> engine_error + transaction_response \<times> 'k sent_request \<Rightarrow> nat \<Rightarrow> signed_entry list \<Rightarrow> bool" where
  "history N kinds s s' r n es \<longleftrightarrow>
     moves N s s' es \<and> length es \<le> n \<and> successively (never_ran_before N kinds) es \<and>
     (\<forall>e\<in>set es. ns_epoch s \<le> sg_epoch e) \<and>
     (\<forall>response sent. r = Inr (response, sent) \<longrightarrow> es \<noteq> [] \<and> entry_of sent (last es))"

lemma settledAtEpoch_later: "pn_epoch pending < settledAtEpoch pending"
  by (simp add: settledAtEpoch_def split: pending_kind.split)

lemma looked_up_later: "looked_up N pending outcome epoch \<Longrightarrow> epoch \<le> epoch' \<Longrightarrow> looked_up N pending outcome epoch'"
  by (auto simp: looked_up_def)

lemma pendingOf_Inr:
  "pendingOf N req sent describe now s = Some (t, s', Inr pending) \<Longrightarrow>
     pn_epoch pending = se_epoch sent \<and> pn_sessionIdentifier pending = se_session sent \<and>
     (\<exists>now s t s'. describe (se_session sent) (se_kept sent) now s = Some (t, s', Inr (pn_kind pending)))"
  unfolding pendingOf_def by (auto simp: result_simps) blast

lemma answerOrThrow_Inr:
  "answerOrThrow sent refusal outcome pending now s = Some (t, s', r) \<Longrightarrow>
     s' = s \<and> (\<forall>response sent'. r = Inr (response, sent') \<longrightarrow> sent' = sent)"
  unfolding answerOrThrow_def by (auto simp: result_simps split: request_outcome.split_asm)

text \<open>What a request builder and its description may do: compute and read, but neither sign nor send.\<close>

definition quiet_request ::
    "network_connection \<Rightarrow> 'k build_request \<Rightarrow> 'k describe_request \<Rightarrow> bool" where
  "quiet_request N mk describe \<longleftrightarrow>
     (\<forall>epoch session. keeps_still N (mk epoch session)) \<and> (\<forall>session kept. keeps_still N (describe session kept))"

text \<open>The kinds a description gives.\<close>

definition describes :: "(pending_kind \<Rightarrow> bool) \<Rightarrow> 'k describe_request \<Rightarrow> bool" where
  "describes kinds describe \<longleftrightarrow>
     (\<forall>session kept now s t s' kind. describe session kept now s = Some (t, s', Inr kind) \<longrightarrow> kinds kind)"

text \<open>How a run goes on after a request was signed, and after its epoch closed before an answer.\<close>

lemma signed_cases:
  assumes "epochs_grow N" "\<And>epoch session. keeps_still N (mk epoch session)" "\<And>d object. keeps_still N (sign d object)"
    and "bindN (signAndSend N req epoch sign mk) f now s = Some (t, s', r)"
  obtains (unsigned) err where "signAndSend N req epoch sign mk now s = Some (t, s', Inl err)" "moves N s s' []" "r = Inl err"
  | (failed) err e where "signAndSend N req epoch sign mk now s = Some (t, s', Inl err)" "sg_epoch e = epoch"
      "moves N s s' [e]" "r = Inl err"
  | (ended) e t1 s1 ended where "sg_epoch e = epoch" "entry_of (sentOf ended) e" "moves N s s1 [e]"
      "f ended t1 s1 = Some (t, s', r)"
  using assms(4)
proof (cases rule: bindN_Some)
  case (stopped err)
  with signAndSend_moves [OF assms(1-3) stopped(1)] unsigned failed show thesis by blast
next
  case (went_on t1 s1 x)
  with signAndSend_moves [OF assms(1-3) went_on(1)] ended show thesis by blast
qed

lemma closed_cases:
  assumes "epochs_grow N" "\<And>session kept. keeps_still N (describe session kept)" "describes kinds describe"
    and "bindN (pendingOf N req sent describe) (\<lambda>pending.
           bindN (outcomeAfterEpochClose N pending) (f pending)) now s = Some (t, s', r)"
  obtains (failed) err where "pendingOf N req sent describe now s = Some (t, s', Inl err)" "moves N s s' []" "r = Inl err"
  | (found) pending outcome t1 s1 where "pn_epoch pending = se_epoch sent" "pn_sessionIdentifier pending = se_session sent"
      "kinds (pn_kind pending)" "moves N s s1 []" "outcome = UnknownOutcome \<or> looked_up N pending outcome (ns_epoch s1)"
      "f pending outcome t1 s1 = Some (t, s', r)"
  using assms(4)
proof (cases rule: bindN_Some)
  case (stopped err)
  with keeps_stillD [OF keeps_still_pendingOf [OF assms(2)] stopped(1)] failed show thesis by blast
next
  case (went_on t3 s3 pending)
  note m3 = keeps_stillD [OF keeps_still_pendingOf [OF assms(2)] went_on(1)]
  from pendingOf_Inr [OF went_on(1)] assms(3)
  have p: "pn_epoch pending = se_epoch sent" "pn_sessionIdentifier pending = se_session sent" "kinds (pn_kind pending)"
    unfolding describes_def by blast+
  from went_on(2) show thesis
  proof (cases rule: bindN_Some)
    case (stopped err)
    with outcomeAfterEpochClose_found [OF assms(1) stopped(1)] show thesis by simp
  next
    case (went_on t4 s4 outcome)
    from outcomeAfterEpochClose_found [OF assms(1) went_on(1)]
    have m4: "moves N s3 s4 []" and "outcome = UnknownOutcome \<or> looked_up N pending outcome (ns_epoch s4)" by auto
    with p went_on(2) show thesis by (intro found [OF _ _ _ moves_still [OF m3 m4]]) auto
  qed
qed

text \<open>A further submission after one signed for \<open>e\<close> whose lookup found that it never ran.\<close>

lemma history_Cons:
  assumes "moves N s s1 [e]" "ns_epoch s \<le> sg_epoch e"
    and "pn_epoch pending = sg_epoch e" "pn_sessionIdentifier pending = sg_session e"
    and "kinds (pn_kind pending)" "looked_up N pending NotRun (ns_epoch s1)" and es: "history N kinds s1 s' r n es"
  shows "history N kinds s s' r (Suc n) (e # es)"
proof -
  have link: "never_ran_before N kinds e e'" if "e' \<in> set es" for e'
  proof -
    from es that have "ns_epoch s1 \<le> sg_epoch e'" by (auto simp: history_def)
    from looked_up_later [OF assms(6) this] settledAtEpoch_later [of pending] assms(3-5) show ?thesis
      by (auto simp: never_ran_before_def looked_up_def intro!: exI [of _ pending])
  qed
  have "successively (never_ran_before N kinds) (e # es)"
    using es link by (cases es) (auto simp: history_def)
  moreover have "ns_epoch s \<le> sg_epoch e'" if "e' \<in> set es" for e'
    using link [OF that] assms(2) by (auto simp: never_ran_before_def)
  moreover have "moves N s s' (e # es)"
    using es moves_trans [OF assms(1)] by (fastforce simp: history_def)
  ultimately show ?thesis using es assms(2) by (auto simp: history_def)
qed

lemma submitOnce_history:
  fixes mk :: "'k build_request" and r :: "engine_error + transaction_response \<times> 'k sent_request"
  assumes grow: "epochs_grow N" and quiet: "quiet_request N mk describe" "describes kinds describe"
    and run: "submitOnce N req mk describe again now s = Some (t, s', r)"
    and further: "\<And>resubmit now s t s' r. again = Some resubmit \<Longrightarrow> resubmit now s = Some (t, s', r) \<Longrightarrow>
      \<exists>es. history N kinds s s' r n es"
  shows "\<exists>es. history N kinds s s' r (Suc n) es"
proof -
  have still: "keeps_still N (mk epoch session)" "keeps_still N (describe session kept)" for epoch session kept
    using quiet(1) by (simp_all add: quiet_request_def)
  have none: ?thesis if "moves N s s' []" "\<exists>err. r = Inl err"
    using that by (intro exI [of _ "[]"]) (auto simp: history_def)
  from run [unfolded submitOnce_def] show ?thesis
  proof (cases rule: bindN_Some)
    case (stopped err)
    with none keeps_stillD [OF keeps_still_readChainEpoch [OF grow]] show ?thesis by blast
  next
    case (went_on t1 s1 epoch)
    note m1 = keeps_stillD [OF keeps_still_readChainEpoch [OF grow] went_on(1)]
    from readChainEpoch_epoch [OF went_on(1)] m1 have later: "ns_epoch s \<le> epoch" by (auto simp: moves_def)
    from grow still(1) keeps_still_signing(2) [OF grow keeps_still_signing(1) [OF grow]] went_on(2) show ?thesis
    proof (cases rule: signed_cases)
      case (unsigned err)
      with none moves_still [OF m1] show ?thesis by blast
    next
      case (failed err e)
      with later moves_still [OF m1] show ?thesis by (intro exI [of _ "[e]"]) (simp add: history_def)
    next
      case (ended e t2 s2 ended)
      note m2 = moves_still [OF m1 ended(3)]
      have one: ?thesis if "moves N s2 s' []" "\<And>response sent. r = Inr (response, sent) \<Longrightarrow> sent = sentOf ended"
        using that moves_then_still [OF m2 that(1)] later ended by (intro exI [of _ "[e]"]) (auto simp: history_def)
      show ?thesis
      proof (cases ended)
        case (Answered response sent)
        with ended(4) one show ?thesis by (auto simp: result_simps)
      next
        case (ClosedBeforeAnswer sent refusal)
        from grow still(2) quiet(2) ended(4) [unfolded ClosedBeforeAnswer sent_outcome.case] show ?thesis
        proof (cases rule: closed_cases)
          case (failed err)
          with one show ?thesis by auto
        next
          case (found pending outcome t3 s3)
          then consider (again) resubmit where "again = Some resubmit" "outcome = NotRun" "resubmit t3 s3 = Some (t, s', r)"
            | (over) "answerOrThrow sent refusal outcome pending t3 s3 = Some (t, s', r)"
            by (auto split: option.split_asm if_split_asm)
          then show ?thesis
          proof cases
            case over
            from answerOrThrow_Inr [OF over] found(4) one ClosedBeforeAnswer show ?thesis by auto
          next
            case again
            from further [OF again(1,3)] obtain es where "history N kinds s3 s' r n es" ..
            from history_Cons [OF moves_then_still [OF m2 found(4)] _ _ _ _ _ this, of pending]
              found again(2) later ended(1,2) ClosedBeforeAnswer show ?thesis by (auto simp: entry_of_def)
          qed
        qed
      qed
    qed
  qed
qed

lemma submit_history:
  assumes "epochs_grow N" "quiet_request N mk describe" "describes kinds describe" "submit N req mk describe n now s = Some (t, s', r)"
  shows "\<exists>es. history N kinds s s' r (Suc n) es"
  using assms(4)
proof (induction n arbitrary: now s t s' r)
  case 0
  from submitOnce_history [OF assms(1-3) 0 [simplified], of 0] show ?case by simp
next
  case (Suc n)
  from submitOnce_history [OF assms(1-3) Suc.prems [simplified], of "Suc n"] Suc.IH show ?case by simp
qed

end
