(* ===== verification/Submission_Laws.thy ===== *)
theory Submission_Laws
  imports Engine_Laws Request_Building Request_Laws
begin

text \<open>
  The engine's promises about one submission: how often a request is signed and for which epochs, what is
  sent for a presign whose epoch the chain is past, that a submission ends, and who can sign the request
  of a waiting dWallet.
\<close>

section \<open>Signed again only after it never ran\<close>

lemma never_ran_sorted:
  "successively (never_ran_before N kinds) es \<Longrightarrow> sorted_wrt (<) (map sg_epoch es)"
proof (induction es rule: induct_list012)
  case (3 e e' es)
  then have "sg_epoch e < sg_epoch e'" "sorted_wrt (<) (map sg_epoch (e' # es))"
    by (auto simp: never_ran_before_def)
  then show ?case by auto
qed auto

lemma successively_nth:
  "successively R xs \<Longrightarrow> Suc i < length xs \<Longrightarrow> R (xs ! i) (xs ! Suc i)"
  by (induction xs arbitrary: i rule: induct_list012) (auto simp: nth_Cons split: nat.split)

text \<open>C3. A submission signs at most three requests, for ever later epochs, and sends nothing but the bytes it
  signed; it signs a further one only once the chain had settled the epoch of the one before and the
  lookup of that one's session found that it never ran; and what it returns answers the last one signed.\<close>

theorem submit_signs_once_per_epoch:
  assumes "epochs_grow N" "quiet_request N mk describe" "describes kinds describe"
    and "submit N req mk describe REBUILDS_AFTER_EPOCH_CLOSE now s = Some (t, s', r)"
  shows "\<exists>es cs. ns_signed s' = ns_signed s @ es \<and> length es \<le> 3 \<and> sorted_wrt (<) (map sg_epoch es) \<and>
     cs_sent (ns_client s') = cs_sent (ns_client s) @ cs \<and> (\<forall>c\<in>set cs. \<exists>e\<in>set es. carries N c e) \<and>
     (\<forall>i. Suc i < length es \<longrightarrow>
        (\<exists>pending. kinds (pn_kind pending) \<and> pn_epoch pending = sg_epoch (es ! i) \<and> pn_sessionIdentifier pending = sg_session (es ! i) \<and>
           looked_up N pending NotRun (sg_epoch (es ! Suc i)))) \<and>
     (\<forall>response sent. r = Inr (response, sent) \<longrightarrow> es \<noteq> [] \<and> entry_of sent (last es))"
proof -
  from submit_history [OF assms] obtain es
    where es: "history N kinds s s' r 3 es" by (auto simp: REBUILDS_AFTER_EPOCH_CLOSE_def numeral_3_eq_3)
  then obtain cs where "cs_sent (ns_client s') = cs_sent (ns_client s) @ cs" "\<forall>c\<in>set cs. \<exists>e\<in>set es. carries N c e"
    by (auto simp: history_def moves_def)
  moreover have "\<exists>pending. kinds (pn_kind pending) \<and> pn_epoch pending = sg_epoch (es ! i) \<and> pn_sessionIdentifier pending = sg_session (es ! i) \<and>
      looked_up N pending NotRun (sg_epoch (es ! Suc i))" if "Suc i < length es" for i
    using es successively_nth [OF _ that, of "never_ran_before N kinds"] by (auto simp: history_def never_ran_before_def)
  moreover from es have "sorted_wrt (<) (map sg_epoch es)" by (auto simp: history_def intro: never_ran_sorted)
  ultimately show ?thesis using es by (intro exI [of _ es] exI [of _ cs]) (auto simp: history_def moves_def)
qed

text \<open>A creating request is never signed again: the lookup never says that it did not run.\<close>

fun creates :: "pending_kind \<Rightarrow> bool" where
  "creates (PendingDkg d) \<longleftrightarrow> True"
| "creates (PendingImportedKey d) \<longleftrightarrow> True"
| "creates _ \<longleftrightarrow> False"

lemma creating_not_looked_up: "creates (pn_kind pending) \<Longrightarrow> \<not> looked_up N pending NotRun epoch"
  by (cases "pn_kind pending")
    (auto simp: looked_up_def neverRan_def ownCharges_def Let_def dest!: findSession_neverRan)

lemma creating_once: "successively (never_ran_before N creates) es \<Longrightarrow> length es \<le> 1"
  by (induction es rule: induct_list012) (auto simp: never_ran_before_def creating_not_looked_up)

lemma submit_moves:
  assumes "epochs_grow N" "quiet_request N mk describe" "submit N req mk describe n now s = Some (t, s', r)"
  shows "\<exists>es. moves N s s' es \<and> length es \<le> Suc n \<and> sorted_wrt (<) (map sg_epoch es) \<and>
     (describes creates describe \<longrightarrow> length es \<le> 1) \<and>
     (\<forall>response sent. r = Inr (response, sent) \<longrightarrow> es \<noteq> [] \<and> entry_of sent (last es))"
proof (cases "describes creates describe")
  case True
  from submit_history [OF assms(1,2) True assms(3)] obtain es where es: "history N creates s s' r (Suc n) es" ..
  then have "length es \<le> 1" by (intro creating_once [of N]) (simp add: history_def)
  with es show ?thesis by (auto simp: history_def intro: never_ran_sorted intro!: exI [of _ es])
next
  case False
  have "describes (\<lambda>_. True) describe" by (simp add: describes_def)
  from submit_history [OF assms(1,2) this assms(3)] obtain es where "history N (\<lambda>_. True) s s' r (Suc n) es" ..
  with False show ?thesis by (auto simp: history_def intro: never_ran_sorted intro!: exI [of _ es])
qed

section \<open>A request that consumes a presign\<close>

text \<open>A step that throws only errors of the code it calls.\<close>

definition throws_plainly :: "'a engine_run \<Rightarrow> bool" where
  "throws_plainly m \<longleftrightarrow> (\<forall>now s t s' err. m now s = Some (t, s', Inl err) \<longrightarrow> (\<exists>e. err = Thrown e))"

lemma throws_plainlyD: "throws_plainly m \<Longrightarrow> m now s = Some (t, s', Inl err) \<Longrightarrow> \<exists>e. err = Thrown e"
  by (auto simp: throws_plainly_def)

lemma throws_plainly_bindN: "throws_plainly m \<Longrightarrow> (\<And>x. throws_plainly (f x)) \<Longrightarrow> throws_plainly (bindN m f)"
  unfolding throws_plainly_def by (blast elim: bindN_Some)

lemma throws_plainly_steps:
  "throws_plainly (returnN x)" "throws_plainly (throwN (Thrown e))" "throws_plainly (liftN r)"
  "(\<And>s. throws_plainly (f s)) \<Longrightarrow> throws_plainly (withState f)"
  "(\<And>t. throws_plainly (g t)) \<Longrightarrow> throws_plainly (withTime g)"
  "throws_plainly (awaitRead N read)" "throws_plainly (computeAt N h)" "throws_plainly (compute N r)"
  by (auto simp: throws_plainly_def result_simps awaitRead_def computeAt_def compute_def Let_def mapErr_def
      split: sum.split_asm)

lemma throws_plainly_cases:
  "throws_plainly m \<Longrightarrow> throws_plainly m' \<Longrightarrow> throws_plainly (if b then m else m')"
  "(\<And>x y. throws_plainly (h x y)) \<Longrightarrow> throws_plainly (case p of (x, y) \<Rightarrow> h x y)"
  "throws_plainly m \<Longrightarrow> (\<And>x. throws_plainly (g x)) \<Longrightarrow> throws_plainly (case a of None \<Rightarrow> m | Some x \<Rightarrow> g x)"
  by (auto split: prod.split option.split)

lemmas plain_intros = throws_plainly_bindN throws_plainly_steps throws_plainly_cases

lemma throws_plainly_readChainEpoch: "throws_plainly (readChainEpoch N)"
  unfolding readChainEpoch_def
  by (rule throws_plainly_bindN, rule throws_plainly_steps) (simp add: throws_plainly_def Let_def)

lemma throws_plainly_signing:
  "throws_plainly (signingRequest N d object keypair)"
  "(\<And>k. throws_plainly (sign k)) \<Longrightarrow> throws_plainly (signFor N req sign)"
  unfolding signingRequest_def signFor_def signedBySigner_def Let_def by (intro plain_intros; assumption?)+

lemma throws_plainly_pendingOf:
  "(\<And>session kept. throws_plainly (describe session kept)) \<Longrightarrow> throws_plainly (pendingOf N req sent describe)"
  unfolding pendingOf_def by (intro plain_intros)

lemma sendBuilt_error:
  "sendBuilt N out at sent now s = Some (t, s', Inl err) \<Longrightarrow> \<exists>e. err = CallFailed e"
  by (auto simp: sendBuilt_def awaitClient_def Let_def mapErr_def
      split: option.split_asm sum.split_asm engine_error.split_asm if_split_asm)

lemma signAndSend_error:
  assumes "\<And>epoch session. throws_plainly (mk epoch session)" "\<And>d object. throws_plainly (sign d object)"
    and "signAndSend N req epoch sign mk now s = Some (t, s', Inl err)"
  shows "(\<exists>e. err = Thrown e) \<or> (\<exists>e. err = CallFailed e)"
proof -
  from assms(3) show ?thesis
    unfolding signAndSend_def Let_def withTime_def
    by (elim bindN_Some; (auto simp: freshPreimage_def split: prod.split_asm)?)
      (auto dest: throws_plainlyD [OF assms(1)] throws_plainlyD [OF assms(2)] sendBuilt_error elim!: bindN_Some)
qed

text \<open>The read of the chain's epoch: what the chain was asked and what the call then knows.\<close>

lemma readChainEpoch_asks:
  assumes "readChainEpoch N now s = Some (t, s', r)"
  shows "\<exists>at answer. cn_chainEpoch N now = Some (at, answer) \<and>
     (case answer of Inl e \<Rightarrow> r = Inl (Thrown e) | Inr shown \<Rightarrow> \<exists>epoch. r = Inr epoch \<and> shown \<le> epoch)"
  using assms unfolding readChainEpoch_def awaitRead_def bindN_def
  by (auto simp: Let_def mapErr_def split: option.split_asm sum.split_asm if_split_asm)

lemma submitWithPresign_moves:
  assumes "epochs_grow N" "quiet_request N (\<lambda>_. mk) describe" "\<And>d object. keeps_still N (sign d object)"
    and plain: "\<And>session. throws_plainly (mk session)" "\<And>session kept. throws_plainly (describe session kept)"
      "\<And>d object. throws_plainly (sign d object)"
    and run: "submitWithPresign N req presignEpoch sign mk describe now s = Some (t, s', r)"
  shows "\<exists>es. moves N s s' es \<and> length es \<le> 1 \<and> (\<forall>e\<in>set es. sg_epoch e = presignEpoch) \<and>
     (ns_epoch s > presignEpoch \<longrightarrow> es = []) \<and>
     (\<forall>at read. cn_chainEpoch N now = Some (at, Inr read) \<and> presignEpoch < read \<longrightarrow>
        es = [] \<and> (\<exists>ce. r = Inl (PresignExpiredWithTheEpoch presignEpoch ce))) \<and>
     (\<forall>at e. cn_chainEpoch N now = Some (at, Inl e) \<longrightarrow> es = [] \<and> r = Inl (Thrown e)) \<and>
     (\<forall>pe ce. r = Inl (PresignExpiredWithTheEpoch pe ce) \<longrightarrow> pe = presignEpoch \<and>
        (es = [] \<and> presignEpoch < ce \<or>
         (\<exists>e pending. es = [e] \<and> pn_epoch pending = presignEpoch \<and> pn_sessionIdentifier pending = sg_session e \<and>
            looked_up N pending NotRun ce))) \<and>
     (\<forall>response sent. r = Inr (response, sent) \<longrightarrow> (\<exists>e. es = [e] \<and> entry_of sent e))"
proof -
  have still: "keeps_still N (mk session)" "keeps_still N (describe session kept)" for session kept
    using assms(2) by (simp_all add: quiet_request_def)
  have any: "describes (\<lambda>_. True) describe" by (simp add: describes_def)
  from run [unfolded submitWithPresign_def] show ?thesis
  proof (cases rule: bindN_Some)
    case (stopped err)
    with keeps_stillD [OF keeps_still_readChainEpoch [OF assms(1)] stopped(1)] readChainEpoch_asks [OF stopped(1)]
      throws_plainlyD [OF throws_plainly_readChainEpoch stopped(1)]
    show ?thesis by (intro exI [of _ "[]"]) auto
  next
    case (went_on t1 s1 chainEpoch)
    note m1 = keeps_stillD [OF keeps_still_readChainEpoch [OF assms(1)] went_on(1)]
    from readChainEpoch_epoch [OF went_on(1)] m1 have later: "ns_epoch s \<le> chainEpoch" by (auto simp: moves_def)
    from readChainEpoch_asks [OF went_on(1)] obtain at answer where "cn_chainEpoch N now = Some (at, answer)"
      "case answer of Inl e \<Rightarrow> False | Inr shown \<Rightarrow> shown \<le> chainEpoch" by (fastforce split: sum.split_asm sum.split)
    then obtain shown where asked: "cn_chainEpoch N now = Some (at, Inr shown)" "shown \<le> chainEpoch"
      by (cases answer) auto
    show ?thesis
    proof (cases "chainEpoch > presignEpoch")
      case True
      with went_on(2) m1 asked show ?thesis by (intro exI [of _ "[]"]) (auto simp: result_simps)
    next
      case current: False
      with went_on(2) have rest: "bindN (signAndSend N req presignEpoch sign (\<lambda>_. mk)) (\<lambda>ended.
         case ended of
           Answered response sent \<Rightarrow> returnN (response, sent)
         | ClosedBeforeAnswer sent refusal \<Rightarrow>
             bindN (pendingOf N req sent describe) (\<lambda>pending.
             bindN (outcomeAfterEpochClose N pending) (\<lambda>outcome.
             if outcome = NotRun
             then withState (\<lambda>s. throwN (PresignExpiredWithTheEpoch presignEpoch (ns_epoch s)))
             else answerOrThrow sent refusal outcome pending))) t1 s1 = Some (t, s', r)" by simp
      from assms(1) still(1) assms(3) rest show ?thesis
      proof (cases rule: signed_cases)
        case (unsigned err)
        with signAndSend_error [OF plain(1,3)] moves_still [OF m1] current asked show ?thesis by fastforce
      next
        case (failed err e)
        with signAndSend_error [OF plain(1,3) failed(1)] moves_still [OF m1] current later asked show ?thesis
          by (intro exI [of _ "[e]"]) auto
      next
        case (ended e t2 s2 ended)
        note m2 = moves_still [OF m1 ended(3)]
        have one: ?thesis if "moves N s2 s' []" "\<And>pe ce. r = Inl (PresignExpiredWithTheEpoch pe ce) \<Longrightarrow>
            pe = presignEpoch \<and> (\<exists>pending. pn_epoch pending = presignEpoch \<and> pn_sessionIdentifier pending = sg_session e \<and>
              looked_up N pending NotRun ce)" "\<And>response sent. r = Inr (response, sent) \<Longrightarrow> sent = sentOf ended"
          using moves_then_still [OF m2 that(1)] that(2,3) current later asked ended(1,2) by (intro exI [of _ "[e]"]) auto
        show ?thesis
        proof (cases ended)
          case (Answered response sent)
          with ended(4) one show ?thesis by (auto simp: result_simps)
        next
          case (ClosedBeforeAnswer sent refusal)
          from assms(1) still(2) any ended(4) [unfolded ClosedBeforeAnswer sent_outcome.case] show ?thesis
          proof (cases rule: closed_cases)
            case (failed err)
            with one throws_plainlyD [OF throws_plainly_pendingOf [OF plain(2)] failed(1)] show ?thesis by auto
          next
            case (found pending outcome t3 s3)
            then consider "s' = s3" "outcome = NotRun" "r = Inl (PresignExpiredWithTheEpoch presignEpoch (ns_epoch s3))"
              | "answerOrThrow sent refusal outcome pending t3 s3 = Some (t, s', r)"
              by (auto simp: result_simps split: if_split_asm)
            then show ?thesis
            proof cases
              case 1
              with found ended(1,2) ClosedBeforeAnswer one show ?thesis by (auto simp: entry_of_def)
            next
              case 2
              from answerOrThrow_Inr [OF 2] have "s' = s3" "\<And>response sent'. r = Inr (response, sent') \<Longrightarrow> sent' = sent"
                by blast+
              moreover from 2 have "r \<noteq> Inl (PresignExpiredWithTheEpoch pe ce)" for pe ce
                by (auto simp: answerOrThrow_def result_simps split: request_outcome.split_asm)
              ultimately show ?thesis using found(4) ClosedBeforeAnswer by (intro one) (auto, blast?)
            qed
          qed
        qed
      qed
    qed
  qed
qed

text \<open>C9. A request that consumes a presign is signed at most once, for the presign's epoch. When the connection knows a
  later epoch, when the chain read before the signing shows one, or when that read fails, it is not signed and
  nothing is sent; the call fails with the presign's expiry, or with the read's error. It fails with the expiry only
  then, or when the chain settled the epoch of the one request signed and the lookup found that it never ran.\<close>

theorem submitWithPresign_epoch:
  assumes "epochs_grow N" "quiet_request N (\<lambda>_. mk) describe" "\<And>d object. keeps_still N (sign d object)"
    and "\<And>session. throws_plainly (mk session)" "\<And>session kept. throws_plainly (describe session kept)"
      "\<And>d object. throws_plainly (sign d object)"
    and "submitWithPresign N req presignEpoch sign mk describe now s = Some (t, s', r)"
  shows "\<exists>es. moves N s s' es \<and> length es \<le> 1 \<and> (\<forall>e\<in>set es. sg_epoch e = presignEpoch) \<and>
     (ns_epoch s > presignEpoch \<longrightarrow> es = []) \<and>
     (\<forall>at read. cn_chainEpoch N now = Some (at, Inr read) \<and> presignEpoch < read \<longrightarrow>
        es = [] \<and> (\<exists>ce. r = Inl (PresignExpiredWithTheEpoch presignEpoch ce))) \<and>
     (\<forall>at e. cn_chainEpoch N now = Some (at, Inl e) \<longrightarrow> es = [] \<and> r = Inl (Thrown e)) \<and>
     (\<forall>pe ce. r = Inl (PresignExpiredWithTheEpoch pe ce) \<longrightarrow> pe = presignEpoch \<and>
        (es = [] \<and> presignEpoch < ce \<or>
         (\<exists>e pending. es = [e] \<and> pn_epoch pending = presignEpoch \<and> pn_sessionIdentifier pending = sg_session e \<and>
            looked_up N pending NotRun ce)))"
  using submitWithPresign_moves [OF assms] by (elim exE conjE) (intro exI conjI; assumption)

section \<open>A submission ends\<close>

text \<open>A read or a run that settles, no earlier than it started.\<close>

definition answers :: "('e, 'a) timed \<Rightarrow> bool" where
  "answers m \<longleftrightarrow> (\<forall>now. \<exists>t r. m now = Some (t, r) \<and> now \<le> t)"

definition run_ends :: "'a engine_run \<Rightarrow> bool" where
  "run_ends m \<longleftrightarrow> (\<forall>now s. \<exists>t s' r. m now s = Some (t, s', r) \<and> now \<le> t)"

lemma answers_steps [intro]: "answers (returnT x)" "answers (liftT r)"
  by (auto simp: answers_def returnT_def liftT_def)

lemma answers_bindT:
  assumes "answers m" "\<And>x. answers (f x)"
  shows "answers (bindT m f)"
  unfolding answers_def
proof
  fix now
  from assms(1) obtain t r where m: "m now = Some (t, r)" "now \<le> t" unfolding answers_def by blast
  show "\<exists>t r. bindT m f now = Some (t, r) \<and> now \<le> t"
  proof (cases r)
    case (Inr x)
    from assms(2) [of x] obtain t' r' where "f x t = Some (t', r')" "t \<le> t'" unfolding answers_def by blast
    with m Inr show ?thesis by (auto simp: bindT_def)
  qed (use m in \<open>simp add: bindT_def\<close>)
qed

lemma firstRejection_later:
  "firstRejection (map (\<lambda>m. m now) ms) = Some (t, e) \<Longrightarrow> (\<And>m. m \<in> set ms \<Longrightarrow> answers m) \<Longrightarrow> now \<le> t"
proof (induction ms arbitrary: t e)
  case (Cons m ms)
  from Cons.prems(2) [of m] obtain t' r where m: "m now = Some (t', r)" "now \<le> t'" by (force simp: answers_def)
  with Cons show ?case by (cases r) (auto split: option.split_asm if_split_asm)
qed simp

lemma gathered_settles:
  "firstRejection (map (\<lambda>m. m now) ms) = None \<Longrightarrow> (\<And>m. m \<in> set ms \<Longrightarrow> answers m) \<Longrightarrow>
     \<exists>t xs. gathered now (map (\<lambda>m. m now) ms) = Some (t, xs) \<and> now \<le> t"
proof (induction ms)
  case (Cons m ms)
  from Cons.prems(2) [of m] obtain t r where m: "m now = Some (t, r)" "now \<le> t" by (force simp: answers_def)
  from Cons m show ?case by (cases r) (auto split: option.split_asm if_split_asm)
qed simp

lemma answers_allT: "(\<And>m. m \<in> set ms \<Longrightarrow> answers m) \<Longrightarrow> answers (allT ms)"
  unfolding answers_def [of "allT ms"] allT_def Let_def
  by (auto split: option.split dest: firstRejection_later gathered_settles)

lemma answers_cases:
  "answers m \<Longrightarrow> answers m' \<Longrightarrow> answers (if b then m else m')"
  "answers m \<Longrightarrow> (\<And>x. answers (g x)) \<Longrightarrow> answers (case a of None \<Rightarrow> m | Some x \<Rightarrow> g x)"
  by (auto split: option.split)

lemmas answers_intros = answers_steps answers_bindT answers_allT answers_cases

text \<open>The chain's reads a lookup makes.\<close>

definition records_answer :: "request_records \<Rightarrow> bool" where
  "records_answer records \<longleftrightarrow>
     (\<forall>k i. answers (hasGasCharge records k i)) \<and> (\<forall>v. answers (voucherSignature records v)) \<and>
     (\<forall>v. answers (futureVoucher records v))"

definition shares_answer :: "share_lookup \<Rightarrow> bool" where
  "shares_answer lookup \<longleftrightarrow>
     (\<forall>d. answers (lookup d)) \<and>
     (\<forall>d now t r. lookup d now = Some (t, Inr (Some r)) \<longrightarrow>
        answers (sh_readPublicShare r) \<and> (\<forall>k. answers (sh_readEncryptedShare r k)))"

lemma answers_ranOr: "records_answer records \<Longrightarrow> answers (ranOr B records pending otherwise extra)"
  unfolding ranOr_def charged_def Let_def by (intro answers_intros) (auto simp: records_answer_def)

lemma answers_share:
  assumes "case shares of None \<Rightarrow> True | Some lookup \<Rightarrow> shares_answer lookup"
    and "read = sh_readPublicShare \<or> (\<exists>k. read = (\<lambda>r. sh_readEncryptedShare r k))"
    and "\<And>b. answers (f b)"
  shows "answers (bindT (dwalletRecord shares d) (\<lambda>rec. bindT (shareFound rec read) f))"
  unfolding answers_def
proof
  fix now
  show "\<exists>t r. bindT (dwalletRecord shares d) (\<lambda>rec. bindT (shareFound rec read) f) now = Some (t, r) \<and> now \<le> t"
  proof (cases shares)
    case (Some lookup)
    with assms(1) have a: "shares_answer lookup" by simp
    then have "answers (lookup d)" by (simp add: shares_answer_def)
    then obtain t r where l: "lookup d now = Some (t, r)" "now \<le> t" unfolding answers_def by blast
    show ?thesis
    proof (cases r)
      case (Inr rec)
      have "answers (shareFound rec read)"
      proof (cases rec)
        case (Some r')
        with a l Inr have "answers (sh_readPublicShare r') \<and> (\<forall>k. answers (sh_readEncryptedShare r' k))"
          unfolding shares_answer_def by blast
        with Some assms(2) show ?thesis by (auto simp: shareFound_def)
      qed (simp add: shareFound_def answers_steps)
      then have "answers (bindT (shareFound rec read) f)" by (rule answers_bindT) (rule assms(3))
      then obtain t' r' where "bindT (shareFound rec read) f t = Some (t', r')" "t \<le> t'" unfolding answers_def by blast
      with Some Inr l show ?thesis by (auto simp: bindT_def dwalletRecord_def)
    qed (use Some l in \<open>auto simp: bindT_def dwalletRecord_def\<close>)
  qed (simp add: bindT_def dwalletRecord_def liftT_def)
qed

lemma answers_findSession:
  assumes "records_answer records" "case shares of None \<Rightarrow> True | Some lookup \<Rightarrow> shares_answer lookup"
  shows "answers (findSession B pending records shares)"
proof -
  have lookup: "answers (dwalletRecord shares d)" for d
    using assms(2) by (auto simp: dwalletRecord_def shares_answer_def split: option.split_asm)
  have reads: "answers (voucherSignature records v)" "answers (futureVoucher records v)" for v
    using assms(1) by (auto simp: records_answer_def)
  note ran = answers_ranOr [OF assms(1)]
  have public: "answers (bindT (dwalletRecord shares d) (\<lambda>rec. bindT (shareFound rec sh_readPublicShare) f))"
    if "\<And>b. answers (f b)" for d f by (rule answers_share [OF assms(2) _ that]) simp
  have encrypted: "answers (bindT (dwalletRecord shares d) (\<lambda>rec. bindT (shareFound rec (\<lambda>r. sh_readEncryptedShare r k)) f))"
    if "\<And>b. answers (f b)" for d k f by (rule answers_share [OF assms(2) _ that]) blast
  show ?thesis
  proof (cases "pn_kind pending")
    case (PendingMakeSharePublic d item)
    then show ?thesis unfolding findSession_def Let_def PendingMakeSharePublic pending_kind.case
      by (intro public answers_cases answers_steps ran)
  next
    case (PendingReEncryptShare d k item)
    then show ?thesis unfolding findSession_def Let_def PendingReEncryptShare pending_kind.case
      by (intro encrypted answers_cases answers_steps ran)
  qed (simp only: findSession_def Let_def pending_kind.case, intro ran reads lookup answers_intros; simp)+
qed

text \<open>What the environment of a connection must do for a submission to end: answer.\<close>

definition network_answers :: "network_connection \<Rightarrow> bool" where
  "network_answers N \<longleftrightarrow>
     transport_settles (cn_client N) \<and> answers (cn_chainEpoch N) \<and>
     (\<forall>records. cn_requestRecords N = Some records \<longrightarrow> records_answer records) \<and>
     (\<forall>shares trusted. cn_shares N = Some shares \<longrightarrow> shares_answer (shares trusted))"

definition requester_answers :: "requester \<Rightarrow> bool" where
  "requester_answers req \<longleftrightarrow> (\<forall>signer data. rq_signer req = Some signer \<longrightarrow> answers (signRequest signer data))"

lemma run_ends_bindN:
  assumes "run_ends m" "\<And>x. run_ends (f x)"
  shows "run_ends (bindN m f)"
  unfolding run_ends_def
proof (intro allI)
  fix now :: time and s :: net_state
  from assms(1) obtain t s' r where m: "m now s = Some (t, s', r)" "now \<le> t" unfolding run_ends_def by blast
  show "\<exists>t s' r. bindN m f now s = Some (t, s', r) \<and> now \<le> t"
  proof (cases r)
    case (Inr x)
    from assms(2) [of x] obtain t' s'' r' where "f x t s' = Some (t', s'', r')" "t \<le> t'" unfolding run_ends_def by blast
    with m Inr show ?thesis by (auto simp: bindN_def)
  qed (use m in \<open>simp add: bindN_def\<close>)
qed

lemma run_ends_steps:
  "run_ends (returnN x)" "run_ends (throwN e)" "run_ends (liftN r)"
  "(\<And>s. run_ends (f s)) \<Longrightarrow> run_ends (withState f)"
  "(\<And>t. run_ends (g t)) \<Longrightarrow> run_ends (withTime g)"
  "run_ends (computeAt N h)" "run_ends (compute N r')" "run_ends (freshPreimage N)"
  by (auto simp: run_ends_def returnN_def throwN_def liftN_def withState_def withTime_def computeAt_def compute_def
      freshPreimage_def Let_def)

lemma run_ends_awaitRead: "answers read \<Longrightarrow> run_ends (awaitRead N read)"
  unfolding run_ends_def awaitRead_def answers_def by (metis (no_types, lifting) case_prod_conv option.simps(9))

lemma run_ends_cases:
  "run_ends m \<Longrightarrow> run_ends m' \<Longrightarrow> run_ends (if b then m else m')"
  "(\<And>x y. run_ends (h x y)) \<Longrightarrow> run_ends (case p of (x, y) \<Rightarrow> h x y)"
  "run_ends m \<Longrightarrow> (\<And>x. run_ends (g x)) \<Longrightarrow> run_ends (case a of None \<Rightarrow> m | Some x \<Rightarrow> g x)"
  by (auto split: prod.split option.split)

lemmas run_ends_intros = run_ends_bindN run_ends_steps run_ends_awaitRead run_ends_cases

lemma run_ends_readChainEpoch:
  assumes "network_answers N"
  shows "run_ends (readChainEpoch N)"
proof -
  have "run_ends (awaitRead N (cn_chainEpoch N))" using assms by (intro run_ends_awaitRead) (simp add: network_answers_def)
  then show ?thesis unfolding readChainEpoch_def by (rule run_ends_bindN) (simp add: run_ends_def Let_def)
qed

lemma run_ends_signing:
  assumes "requester_answers req"
  shows "run_ends (signFor N req (signingRequest N d object))"
proof (cases "rq_signer req")
  case None
  then show ?thesis unfolding signFor_def signingRequest_def by (simp add: run_ends_intros)
next
  case (Some signer)
  with assms have "answers (signRequest signer data)" for data by (simp add: requester_answers_def)
  with Some show ?thesis
    unfolding signFor_def signingRequest_def signedBySigner_def Let_def by (simp add: run_ends_intros)
qed

lemma run_ends_sendBuilt:
  assumes "network_answers N"
  shows "run_ends (sendBuilt N out at sent)"
  unfolding run_ends_def
proof (intro allI)
  fix now :: time and s :: net_state
  from assms sendSigned_ends [of "cn_client N" "cn_submit N" "grpcRequest out" now]
  obtain t c r where "sendSigned (cn_client N) (cn_submit N) (grpcRequest out) now (ns_client s) = Some (t, c, r)" "now \<le> t"
    by (auto simp: network_answers_def) blast
  then show "\<exists>t s' r. sendBuilt N out at sent now s = Some (t, s', r) \<and> now \<le> t"
    by (cases r) (simp_all add: sendBuilt_def awaitClient_def Let_def mapErr_def)
qed

lemma settledLoop_ends:
  assumes "network_answers N"
  shows "\<exists>t s'. settledLoop N settledAt deadline now s = Some (t, s') \<and> now \<le> t"
proof (induction "nat (deadline - now)" arbitrary: now s rule: less_induct)
  case less
  show ?case
  proof (cases "ns_epoch s < settledAt \<and> now < deadline")
    case True
    from run_ends_readChainEpoch [OF assms] obtain t1 s1 r1
      where read: "readChainEpoch N now s = Some (t1, s1, r1)" "now \<le> t1" unfolding run_ends_def by blast
    let ?later = "t1 + CHAIN_EPOCH_POLL_MS + int (lagOf (cn_client N) t1)"
    show ?thesis
    proof (cases "settledAt \<le> ns_epoch s1")
      case True
      with \<open>ns_epoch s < settledAt \<and> now < deadline\<close> read show ?thesis by (subst settledLoop.simps) simp
    next
      case False
      have "nat (deadline - ?later) < nat (deadline - now)"
        using True read(2) by (simp add: CHAIN_EPOCH_POLL_MS_def)
      from less [OF this, of "resumed N ?later s1"] obtain t s'
        where "settledLoop N settledAt deadline ?later (resumed N ?later s1) = Some (t, s')" "?later \<le> t" by blast
      with True False read show ?thesis
        by (subst settledLoop.simps) (simp add: Let_def CHAIN_EPOCH_POLL_MS_def)
    qed
  qed (subst settledLoop.simps, auto)
qed

lemma run_ends_outcome:
  assumes "network_answers N"
  shows "run_ends (outcomeAfterEpochClose N pending)"
  unfolding run_ends_def
proof (intro allI)
  fix now :: time and s :: net_state
  from settledLoop_ends [OF assms] obtain t s'
    where loop: "settledLoop N (settledAtEpoch pending) (now + EPOCH_CLOSE_WAIT_MS) now s = Some (t, s')" "now \<le> t" by blast
  show "\<exists>t s' r. outcomeAfterEpochClose N pending now s = Some (t, s', r) \<and> now \<le> t"
  proof (cases "cn_requestRecords N")
    case (Some records)
    with assms have "answers (findSession (en_records (cn_env N)) pending records
        (map_option (\<lambda>shares. shares (ns_trusted s')) (cn_shares N)))"
      by (intro answers_findSession) (auto simp: network_answers_def split: option.split)
    then obtain t' r where "findSession (en_records (cn_env N)) pending records
        (map_option (\<lambda>shares. shares (ns_trusted s')) (cn_shares N)) t = Some (t', r)" "t \<le> t'"
      unfolding answers_def by blast
    with loop Some show ?thesis by (simp add: outcomeAfterEpochClose_def Let_def)
  qed (use loop in \<open>simp add: outcomeAfterEpochClose_def Let_def\<close>)
qed

lemma run_ends_submitOnce:
  assumes "network_answers N" "requester_answers req"
    and "\<And>epoch session. run_ends (mk epoch session)" "\<And>session kept. run_ends (describe session kept)"
    and "\<And>resubmit. again = Some resubmit \<Longrightarrow> run_ends resubmit"
  shows "run_ends (submitOnce N req mk describe again)"
proof -
  have answer: "run_ends (answerOrThrow sent refusal outcome pending)" for sent refusal outcome pending
    unfolding answerOrThrow_def by (cases outcome) (auto intro: run_ends_intros)
  have pending: "run_ends (pendingOf N req sent describe)" for sent
    unfolding pendingOf_def by (intro run_ends_intros assms(4))
  have send: "run_ends (signAndSend N req epoch (\<lambda>d object. signFor N req (signingRequest N d object)) mk)" for epoch
    unfolding signAndSend_def Let_def
    by (intro run_ends_intros assms(3) run_ends_signing [OF assms(2)] run_ends_sendBuilt [OF assms(1)])
  have "run_ends (case ended of
       Answered response sent \<Rightarrow> returnN (response, sent)
     | ClosedBeforeAnswer sent refusal \<Rightarrow>
         bindN (pendingOf N req sent describe) (\<lambda>pending.
         bindN (outcomeAfterEpochClose N pending) (\<lambda>outcome.
         case again of
           Some resubmit \<Rightarrow> if outcome = NotRun then resubmit else answerOrThrow sent refusal outcome pending
         | None \<Rightarrow> answerOrThrow sent refusal outcome pending)))" for ended
    by (cases ended; cases again; simp only: sent_outcome.case option.case)
      (intro run_ends_intros pending run_ends_outcome [OF assms(1)] answer assms(5); simp)+
  then show ?thesis
    unfolding submitOnce_def by (intro run_ends_bindN run_ends_readChainEpoch [OF assms(1)] send)
qed

text \<open>C37. A submission ends, with an answer or an error, whatever the validators and the chain answer, if they
  answer at all: its loops end at their deadlines, and it signs again at most twice.\<close>

theorem submit_ends:
  assumes "network_answers N" "requester_answers req"
    and "\<And>epoch session. run_ends (mk epoch session)" "\<And>session kept. run_ends (describe session kept)"
  shows "\<exists>t s' r. submit N req mk describe n now s = Some (t, s', r) \<and> now \<le> t"
proof -
  have "run_ends (submit N req mk describe n)"
    by (induction n) (auto intro!: run_ends_submitOnce assms)
  then show ?thesis by (simp add: run_ends_def)
qed

section \<open>A request key held elsewhere\<close>

text \<open>C40. A request built for a dWallet that waits for its holder is never signed through a \<open>RequestSigner\<close>, not
  even the holder's own: the check compares the holder with the placeholder key the request is built with.\<close>

theorem signer_cannot_sign_waiting:
  assumes "rq_signer req = Some signer" "waitingHolderOf (ns_holders s) object = Some holder"
    and "holder \<noteq> kp_publicKey (UNSIGNED_KEYPAIR (en_ed25519 (cn_env N)))" "\<not> isDWalletSign (ro_request object)"
  shows "signFor N req (signingRequest N d object) now s =
    Some (now, s, Inl (Thrown (Err ''the dWallet waits for its holder: sign this request with the holder's key'')))"
  using assms
  by (simp add: signFor_def bindN_def signingRequest_def withState_def liftN_def signGrpcRequest_def result_simps mapErr_def)

end
