(* ===== verification/Engine_Calls.thy ===== *)
theory Engine_Calls
  imports Submission_Laws
begin

text \<open>
  The calls of a connection (\<open>common/engine.ts\<close>): creating and importing a dWallet, taking a presign,
  signing, the two steps of a future sign, making a share public and re-encrypting it. Each builds its
  request, submits it, and checks the answer against what it sent before it returns anything.
\<close>

section \<open>Values\<close>

datatype dwallet_share = EncryptedTo bytes | PublicShare

record dwallet =
  dl_curve :: int
  dl_publicKey :: bytes
  dl_networkPublicOutput :: bytes
  dl_userSecretKeyShare :: bytes
  dl_attestation :: network_signed_attestation
  dl_networkKeyId :: bytes
  dl_importedSessionIdentifier :: "bytes option"
  dl_share :: dwallet_share
  dl_acceptance :: "share_acceptance option"

record presign =
  pg_reference :: bytes
  pg_material :: bytes
  pg_attestation :: network_signed_attestation
  pg_epoch :: int

record share_encryption =
  sn_holder :: transport_keypair
  sn_encryptionKey :: bytes

text \<open>\<open>SignDuringDkg\<close>, and, with the scheme's number, \<open>NumberedSignDuringDkg\<close>.\<close>

record 'c sign_during_dkg =
  sk_presign :: presign
  sk_message :: bytes
  sk_messageMetadata :: "bytes option"
  sk_signatureScheme :: 'c

record partial_signature =
  pp_partialUserSignatureAttestation :: network_signed_attestation
  pp_dwalletAttestation :: network_signed_attestation
  pp_message :: bytes
  pp_messageMetadata :: bytes
  pp_futureSignatureVoucher :: bytes
  pp_attested :: partial_signature_attestation

record re_encrypted_share =
  rc_dwalletAttestation :: network_signed_attestation
  rc_shareAttestation :: network_signed_attestation
  rc_encryptedShareAndProof :: bytes

definition orEmpty :: "bytes option \<Rightarrow> bytes" where
  "orEmpty metadata = (case metadata of None \<Rightarrow> [] | Some m \<Rightarrow> m)"

section \<open>Helpers\<close>

definition sdkOf :: "network_connection \<Rightarrow> sdk_lib" where
  "sdkOf N = en_sdk (cn_env N)"

definition curveInput :: "network_connection \<Rightarrow> sdk_error + dwallet_curve" where
  "curveInput N = bindE (curveNumberOf N) (\<lambda>n. ofOption (TypeErr ''undefined'') (element ATTESTATION_CURVES n))"

definition algorithmOf :: "network_connection \<Rightarrow> scheme_choice \<Rightarrow> sdk_error + dwallet_signature_algorithm" where
  "algorithmOf N choice =
     bindE (signatureSchemeNumber choice) (\<lambda>n.
     bindE (schemeName n) (\<lambda>name.
     bindE (curveInput N) (signatureAlgorithmOnCurve name)))"

definition numbered :: "scheme_choice sign_during_dkg \<Rightarrow> sdk_error + int sign_during_dkg" where
  "numbered sg =
     bindE (signatureSchemeNumber (sk_signatureScheme sg)) (\<lambda>n.
       Inr \<lparr>sk_presign = sk_presign sg, sk_message = sk_message sg, sk_messageMetadata = sk_messageMetadata sg,
            sk_signatureScheme = n\<rparr>)"

definition decodedDWallet :: "network_connection \<Rightarrow> network_signed_attestation \<Rightarrow> sdk_error + dwallet_attestation" where
  "decodedDWallet N att = decodeHeldDWallet (sdkOf N) (attestation_data att)"

definition isImported :: "network_connection \<Rightarrow> dwallet \<Rightarrow> sdk_error + bool" where
  "isImported N d = map_sum id dw_is_imported_key (decodedDWallet N (dl_attestation d))"

definition signedDuringDkg :: "network_connection \<Rightarrow> network_signed_attestation \<Rightarrow> sdk_error + bytes option" where
  "signedDuringDkg N att = map_sum id dw_sign_during_dkg_signature (decodedDWallet N att)"

definition lookupOf :: "dwallet \<Rightarrow> expected_dwallet" where
  "lookupOf d =
     \<lparr>ex_curve = dl_curve d, ex_publicKey = dl_publicKey d,
      ex_importedSessionIdentifier = dl_importedSessionIdentifier d\<rparr>"

definition dwalletAttested :: "network_connection \<Rightarrow> dwallet \<Rightarrow> sdk_error + dwallet_attested" where
  "dwalletAttested N d =
     map_sum id (\<lambda>a. \<lparr>at_attestationData = attestation_data (dl_attestation d),
                       at_intendedChainSender = dw_intended_chain_sender a, at_publicKey = dw_public_key a\<rparr>)
       (decodedDWallet N (dl_attestation d))"

definition encryptedShareInput :: "share_encryption \<Rightarrow> bytes \<Rightarrow> user_secret_key_share" where
  "encryptedShareInput share encryptedShareAndProof =
     EncryptedUserShare encryptedShareAndProof (sn_encryptionKey share) (kp_publicKey (sn_holder share))"

definition importedSecretKeyEncoding :: "int \<Rightarrow> bytes \<Rightarrow> bytes" where
  "importedSecretKeyEncoding curveNum secretKey =
     (if (curveNum = 0 \<or> curveNum = 1) \<and> length secretKey = 32 then 32 # secretKey else secretKey)"

text \<open>The request object of a request no builder of \<open>requests.ts\<close> made.\<close>

definition plainObject :: "dwallet_request \<Rightarrow> request_object" where
  "plainObject request = \<lparr>ro_ref = None, ro_request = request\<rparr>"

definition fixedRequest :: "dwallet_request \<Rightarrow> unit build_request" where
  "fixedRequest request epoch session = returnN (plainObject request, ())"

definition signsRequest :: "network_connection \<Rightarrow> requester \<Rightarrow> sign_data" where
  "signsRequest N req d object = signFor N req (signingRequest N d object)"

section \<open>Checks\<close>

definition requireLatestNetworkKey :: "network_connection \<Rightarrow> sdk_error + unit" where
  "requireLatestNetworkKey N =
     guardE (equalBytes (cn_networkKeyId N) (cn_latestNetworkKeyId N))
       (Err ''the network creates a dWallet only under the epoch's latest key; connect under the latest key'')"

definition requireServedDWallet :: "network_connection \<Rightarrow> dwallet \<Rightarrow> sdk_error + unit" where
  "requireServedDWallet N d =
     seqE (guardE (equalBytes (dl_networkKeyId d) (cn_networkKeyId N))
             (Err ''the dWallet is under another network key; connect under the dWallet's key''))
    (bindE (curveNumberOf N) (\<lambda>n.
       guardE (dl_curve d = n) (Err ''the dWallet is on another curve than this connection'')))"

definition requireCheckedOutput :: "dwallet \<Rightarrow> dwallet_usable \<Rightarrow> sdk_error + unit" where
  "requireCheckedOutput d usable =
     guardE (equalBytes (dl_networkPublicOutput d) (is_publicOutput (us_shown usable)))
       (Err ''the dWallet's public output is not the one its ownership check verified in the attestation'')"

definition verifiedDWallet :: "network_connection \<Rightarrow> dwallet \<Rightarrow> verified_dwallet engine_run" where
  "verifiedDWallet N d =
     withState (\<lambda>s. liftN (verifyDWalletAttestationRecord (sdkOf N) (recordOfAttestation (dl_attestation d)) (ns_trusted s)
                            (lookupOf d)))"

text \<open>An answer that should be an attestation of a kind, under the connection's key and its trusted keys.\<close>

definition expectAttestation ::
    "network_connection \<Rightarrow> transaction_response \<Rightarrow> attestation_kind \<Rightarrow> int option
      \<Rightarrow> network_signed_attestation engine_run" where
  "expectAttestation N response kind curve =
     (case response of
        ErrorResponse m \<Rightarrow> throwN (Thrown (Err (''the network refused the request: '' @ m)))
      | SignatureResponse sig \<Rightarrow> throwN (Thrown (Err ''the network answered with a Signature, not an attestation''))
      | AttestationResponse a \<Rightarrow>
          withState (\<lambda>s. liftN (seqE (verifyAttestation (sdkOf N) (Answer a) kind (cn_networkKeyId N) (ns_trusted s) curve)
                                 (Inr a))))"

text \<open>\<open>response.Attestation!\<close> of an answer that was checked.\<close>

definition answeredAttestation :: "transaction_response \<Rightarrow> sdk_error + network_signed_attestation" where
  "answeredAttestation response =
     (case response of AttestationResponse a \<Rightarrow> Inr a | _ \<Rightarrow> Inl (TypeErr ''undefined''))"

section \<open>Creating a dWallet\<close>

definition newDWallet :: "network_connection \<Rightarrow> bytes \<Rightarrow> expected_dwallet engine_run" where
  "newDWallet N userOutput =
     bindN (liftN (curveNumberOf N)) (\<lambda>n.
     bindN (compute N (publicKeyFromCentralizedDKGOutput (cn_cryptography N) (cn_curve N) userOutput)) (\<lambda>k.
     returnN \<lparr>ex_curve = n, ex_publicKey = k, ex_importedSessionIdentifier = None\<rparr>))"

definition presignProblem ::
    "network_connection \<Rightarrow> requester \<Rightarrow> int sign_during_dkg \<Rightarrow> presign_attestation \<Rightarrow> dwallet_signature_algorithm
      \<Rightarrow> dwallet_curve \<Rightarrow> string option" where
  "presignProblem N req sg p algorithm curve =
     map_option snd (find fst
       [(\<not> equalBytes (pr_user_pubkey p) (kp_publicKey (rq_keypair req)), ''it was served to another requester''),
        (pr_dwallet_public_key p \<noteq> None, ''it is bound to a dWallet; a sign during DKG takes a pool presign''),
        (pr_curve p \<noteq> curve, ''it is on another curve''),
        (pr_signature_algorithm p \<noteq> algorithm, ''it is for another algorithm''),
        (\<not> equalBytes (pr_presign_session_identifier p) (pg_reference (sk_presign sg)) \<or>
         \<not> equalBytes (pr_presign_data p) (pg_material (sk_presign sg)),
         ''its reference or material is not the one its attestation holds'')])"

definition signDuringDkgPresign ::
    "network_connection \<Rightarrow> requester \<Rightarrow> int sign_during_dkg \<Rightarrow> presign_attestation engine_run" where
  "signDuringDkgPresign N req sg =
     (let att = pg_attestation (sk_presign sg) in
      withState (\<lambda>s. liftN (
        seqE (verifyAttestation (sdkOf N) (Answer att) PresignKind (cn_networkKeyId N) (ns_trusted s) None)
       (bindE (decodePresignAttestation (sdkOf N) (attestation_data att)) (\<lambda>p.
        bindE (algorithmOf N (SchemeNumbered (sk_signatureScheme sg))) (\<lambda>algorithm.
        bindE (curveInput N) (\<lambda>curve.
        case presignProblem N req sg p algorithm curve of
          Some problem \<Rightarrow> Inl (Err (''the presign cannot carry a sign during DKG: '' @ problem))
        | None \<Rightarrow> Inr p)))))))"

definition signInputs ::
    "network_connection \<Rightarrow> int \<Rightarrow> int \<Rightarrow> bytes \<Rightarrow> bytes \<Rightarrow> bytes \<Rightarrow> bytes \<Rightarrow> bytes \<Rightarrow> sign_inputs" where
  "signInputs N curve scheme message metadata out share material =
     \<lparr>si_protocolPublicParameters = cn_protocolPublicParameters N, si_curve = curve, si_signatureScheme = scheme,
      si_message = message, si_messageMetadata = metadata, si_output = out, si_userSecretKeyShare = share,
      si_presign = material\<rparr>"

definition signDuringDkgRequest ::
    "network_connection \<Rightarrow> int sign_during_dkg \<Rightarrow> prepared_step \<Rightarrow> sign_during_dkg_request engine_run" where
  "signDuringDkgRequest N sg prepared =
     bindN (liftN (schemeName (sk_signatureScheme sg))) (\<lambda>scheme.
     bindN (liftN (curveNumberOf N)) (\<lambda>n.
     bindN (compute N (createUserSignMessageForSignDuringDkg (ec_user (cn_cryptography N))
              (signInputs N n (sk_signatureScheme sg) (sk_message sg) (orEmpty (sk_messageMetadata sg))
                 (userPublicOutput prepared) (userSecretKeyShare prepared) (pg_material (sk_presign sg))))) (\<lambda>sig.
     returnN \<lparr>sd_presign_session_identifier = pg_reference (sk_presign sg), sd_presign = pg_material (sk_presign sg),
              sd_signature_scheme = scheme, sd_message = sk_message sg,
              sd_message_metadata = orEmpty (sk_messageMetadata sg), sd_message_centralized_signature = sig\<rparr>)))"

text \<open>What a creating request keeps: what was prepared, and the encrypted share.\<close>

type_synonym kept_step = "prepared_step \<times> bytes option"

definition encryptedFor :: "network_connection \<Rightarrow> prepared_step \<Rightarrow> share_encryption \<Rightarrow> bytes engine_run" where
  "encryptedFor N prepared share =
     computeAt N (encryptSecretShare (cn_cryptography N) (cn_curve N) (userSecretKeyShare prepared)
                    (sn_encryptionKey share) (cn_protocolPublicParameters N))"

definition dkgBuild ::
    "network_connection \<Rightarrow> share_encryption option \<Rightarrow> int sign_during_dkg option \<Rightarrow> bytes
      \<Rightarrow> (request_object \<times> kept_step) engine_run" where
  "dkgBuild N share sg session =
     bindN (computeAt N (prepareDKGForSessionIdentifier (cn_cryptography N) (cn_protocolPublicParameters N) (cn_curve N) session))
       (\<lambda>prepared.
     bindN (case share of None \<Rightarrow> returnN None
            | Some sh \<Rightarrow> bindN (encryptedFor N prepared sh) (\<lambda>e. returnN (Some e))) (\<lambda>encrypted.
     bindN (case sg of None \<Rightarrow> returnN None
            | Some g \<Rightarrow> bindN (signDuringDkgRequest N g prepared) (\<lambda>r. returnN (Some r))) (\<lambda>signRequest.
     bindN (liftN (curveInput N)) (\<lambda>curve.
     returnN (plainObject (Dkg
       \<lparr>dkg_network_key_id = cn_networkKeyId N, dkg_curve = curve,
        dkg_centralized_public_key_share_and_proof = userMessage prepared,
        dkg_user_secret_key_share =
          (case share of None \<Rightarrow> PublicUserShare (userSecretKeyShare prepared)
           | Some sh \<Rightarrow> encryptedShareInput sh (orEmpty encrypted)),
        dkg_user_public_output = userPublicOutput prepared,
        dkg_sign_during_dkg_request = signRequest\<rparr>), (prepared, encrypted))))))"

definition dkgDescribe :: "network_connection \<Rightarrow> kept_step describe_request" where
  "dkgDescribe N session kept = bindN (newDWallet N (userPublicOutput (fst kept))) (\<lambda>d. returnN (PendingDkg d))"

record accepted_dwallet =
  ax_publicKey :: bytes
  ax_publicOutput :: bytes
  ax_acceptance :: share_acceptance

definition signAcceptance ::
    "network_connection \<Rightarrow> transport_keypair \<Rightarrow> network_signed_attestation \<Rightarrow> sent_dwallet_request
      \<Rightarrow> accepted_dwallet engine_run" where
  "signAcceptance N holder att sent =
     withState (\<lambda>s.
     bindN (compute N (signDWalletShareAcceptance (sdkOf N) (ec_user (cn_cryptography N)) (en_ed25519 (cn_env N))
                         (kp_secretKey holder) att (ns_trusted s) sent)) (\<lambda>acceptance.
     bindN (liftN (decodedDWallet N att)) (\<lambda>data.
     returnN \<lparr>ax_publicKey = dw_public_key data, ax_publicOutput = dw_public_output data, ax_acceptance = acceptance\<rparr>)))"

definition sentSign :: "int sign_during_dkg \<Rightarrow> sent_sign_during_dkg" where
  "sentSign sg = \<lparr>ssd_message = sk_message sg, ssd_messageMetadata = orEmpty (sk_messageMetadata sg),
                  ssd_signatureScheme = sk_signatureScheme sg\<rparr>"

definition dkgSent ::
    "network_connection \<Rightarrow> requester \<Rightarrow> creating_kind \<Rightarrow> share_encryption \<Rightarrow> bytes \<Rightarrow> kept_step
      \<Rightarrow> int sign_during_dkg option \<Rightarrow> sent_dwallet_request" where
  "dkgSent N req kind share session kept sg =
     \<lparr>sdr_kind = kind, sdr_sessionIdentifier = session,
      sdr_intendedChainSender = rq_intendedChainSender req, sdr_curve = cn_curve N,
      sdr_networkKeyId = cn_networkKeyId N, sdr_userPublicOutput = userPublicOutput (fst kept),
      sdr_encryptionKey = sn_encryptionKey share, sdr_encryptedShareAndProof = orEmpty (snd kept),
      sdr_signDuringDkg = map_option sentSign sg\<rparr>"

definition dkgPublicSent ::
    "network_connection \<Rightarrow> requester \<Rightarrow> bytes \<Rightarrow> kept_step \<Rightarrow> int sign_during_dkg option \<Rightarrow> sent_public_dkg" where
  "dkgPublicSent N req session kept sg =
     \<lparr>spd_sessionIdentifier = session, spd_intendedChainSender = rq_intendedChainSender req,
      spd_curve = cn_curve N, spd_networkKeyId = cn_networkKeyId N,
      spd_userPublicOutput = userPublicOutput (fst kept), spd_signDuringDkg = map_option sentSign sg\<rparr>"

text \<open>The dWallet a creating call returns.\<close>

definition createdDWallet ::
    "network_connection \<Rightarrow> int \<Rightarrow> bytes \<Rightarrow> bytes \<Rightarrow> prepared_step \<Rightarrow> network_signed_attestation \<Rightarrow> bytes option
      \<Rightarrow> share_encryption option \<Rightarrow> share_acceptance option \<Rightarrow> dwallet" where
  "createdDWallet N n k out prepared att imported share acceptance =
     \<lparr>dl_curve = n, dl_publicKey = k, dl_networkPublicOutput = out,
      dl_userSecretKeyShare = userSecretKeyShare prepared, dl_attestation = att, dl_networkKeyId = cn_networkKeyId N,
      dl_importedSessionIdentifier = imported,
      dl_share = (case share of None \<Rightarrow> PublicShare | Some sh \<Rightarrow> EncryptedTo (kp_publicKey (sn_holder sh))),
      dl_acceptance = acceptance\<rparr>"

text \<open>From the answer on; the signature is the one made during the DKG.\<close>

definition dkgAnswer ::
    "network_connection \<Rightarrow> requester \<Rightarrow> share_encryption option \<Rightarrow> int sign_during_dkg option
      \<Rightarrow> transaction_response \<Rightarrow> kept_step sent_request \<Rightarrow> (dwallet \<times> bytes option) engine_run" where
  "dkgAnswer N req share sg response sent =
     bindN (expectAttestation N response DWalletKind None) (\<lambda>att.
     bindN (liftN (curveNumberOf N)) (\<lambda>n.
     case share of
       Some sh \<Rightarrow>
         bindN (signAcceptance N (sn_holder sh) att (dkgSent N req DkgRequestKind sh (se_session sent) (se_kept sent) sg)) (\<lambda>a.
         bindN (liftN (signedDuringDkg N att)) (\<lambda>signature.
         returnN (createdDWallet N n (ax_publicKey a) (ax_publicOutput a) (fst (se_kept sent)) att None share
                    (Some (ax_acceptance a)), signature)))
     | None \<Rightarrow>
         withState (\<lambda>s.
         bindN (compute N (verifyPublicShareDkgAnswer (sdkOf N) (ec_user (cn_cryptography N)) response (ns_trusted s)
                             (dkgPublicSent N req (se_session sent) (se_kept sent) sg))) (\<lambda>a.
         returnN (createdDWallet N n (pda_publicKey a) (pda_publicOutput a) (fst (se_kept sent)) att None None None,
                  pda_signature a)))))"

definition dkg ::
    "network_connection \<Rightarrow> requester \<Rightarrow> share_encryption option \<Rightarrow> int sign_during_dkg option
      \<Rightarrow> (dwallet \<times> bytes option) engine_run" where
  "dkg N req share sg =
     bindN (liftN (requireLatestNetworkKey N)) (\<lambda>_.
     bindN (case sg of None \<Rightarrow> returnN None
            | Some g \<Rightarrow> bindN (signDuringDkgPresign N req g) (\<lambda>p. returnN (Some p))) (\<lambda>p.
     bindN (case p of
              None \<Rightarrow> submit N req (\<lambda>_. dkgBuild N share sg) (dkgDescribe N) REBUILDS_AFTER_EPOCH_CLOSE
            | Some att \<Rightarrow> submitWithPresign N req (pr_epoch att) (signsRequest N req) (dkgBuild N share sg) (dkgDescribe N))
       (\<lambda>(response, sent). dkgAnswer N req share sg response sent)))"

definition createDWallet :: "network_connection \<Rightarrow> requester \<Rightarrow> share_encryption \<Rightarrow> dwallet engine_run" where
  "createDWallet N req share = bindN (dkg N req (Some share) None) (\<lambda>(d, _). returnN d)"

definition createDWalletWithPublicShare :: "network_connection \<Rightarrow> requester \<Rightarrow> dwallet engine_run" where
  "createDWalletWithPublicShare N req = bindN (dkg N req None None) (\<lambda>(d, _). returnN d)"

definition createDWalletAndSign ::
    "network_connection \<Rightarrow> requester \<Rightarrow> share_encryption \<Rightarrow> scheme_choice sign_during_dkg
      \<Rightarrow> (dwallet \<times> bytes option) engine_run" where
  "createDWalletAndSign N req share sg = bindN (liftN (numbered sg)) (\<lambda>g. dkg N req (Some share) (Some g))"

definition createDWalletWithPublicShareAndSign ::
    "network_connection \<Rightarrow> requester \<Rightarrow> scheme_choice sign_during_dkg \<Rightarrow> (dwallet \<times> bytes option) engine_run" where
  "createDWalletWithPublicShareAndSign N req sg = bindN (liftN (numbered sg)) (\<lambda>g. dkg N req None (Some g))"

section \<open>Importing a key\<close>

definition importBuild ::
    "network_connection \<Rightarrow> share_encryption \<Rightarrow> bytes \<Rightarrow> bytes \<Rightarrow> (request_object \<times> kept_step) engine_run" where
  "importBuild N share secretKey session =
     bindN (liftN (curveNumberOf N)) (\<lambda>n.
     bindN (computeAt N (prepareImportedKeyVerification (cn_cryptography N) (cn_protocolPublicParameters N) (cn_curve N) session
              (importedSecretKeyEncoding n secretKey))) (\<lambda>prepared.
     bindN (encryptedFor N prepared share) (\<lambda>encrypted.
     bindN (liftN (curveInput N)) (\<lambda>curve.
     returnN (plainObject (ImportedKeyVerification
       \<lparr>ik_network_key_id = cn_networkKeyId N, ik_curve = curve, ik_centralized_party_message = userMessage prepared,
        ik_user_secret_key_share = encryptedShareInput share encrypted,
        ik_user_public_output = userPublicOutput prepared\<rparr>), (prepared, Some encrypted))))))"

definition importDescribe :: "network_connection \<Rightarrow> kept_step describe_request" where
  "importDescribe N session kept =
     bindN (newDWallet N (userPublicOutput (fst kept))) (\<lambda>d.
       returnN (PendingImportedKey (d\<lparr>ex_importedSessionIdentifier := Some session\<rparr>)))"

definition verifyImportedKey ::
    "network_connection \<Rightarrow> requester \<Rightarrow> share_encryption \<Rightarrow> bytes \<Rightarrow> dwallet engine_run" where
  "verifyImportedKey N req share secretKey =
     bindN (liftN (requireLatestNetworkKey N)) (\<lambda>_.
     bindN (submit N req (\<lambda>_. importBuild N share secretKey) (importDescribe N) REBUILDS_AFTER_EPOCH_CLOSE)
       (\<lambda>(response, sent).
     bindN (expectAttestation N response DWalletKind None) (\<lambda>att.
     bindN (liftN (curveNumberOf N)) (\<lambda>n.
     bindN (signAcceptance N (sn_holder share) att
              (dkgSent N req ImportedKeyVerificationKind share (se_session sent) (se_kept sent) None)) (\<lambda>a.
     returnN (createdDWallet N n (ax_publicKey a) (ax_publicOutput a) (fst (se_kept sent)) att
                (Some (se_session sent)) (Some share) (Some (ax_acceptance a))))))))"

end
