(* ===== verification/Engine_Signing.thy ===== *)
theory Engine_Signing
  imports Engine_Calls
begin

text \<open>
  The calls of a connection on a dWallet that exists (\<open>common/engine.ts\<close>): presigns, signatures, future
  signs, making a share public, re-encrypting it and accepting a re-encrypted share.
\<close>

section \<open>Presigns\<close>

definition presignCall ::
    "network_connection \<Rightarrow> requester \<Rightarrow> dwallet_request \<Rightarrow> dwallet_signature_algorithm \<Rightarrow> bytes option
      \<Rightarrow> presign engine_run" where
  "presignCall N req request algorithm dwalletPublicKey =
     bindN (submit N req (fixedRequest request) (\<lambda>_ _. returnN PendingPresign) REBUILDS_AFTER_EPOCH_CLOSE)
       (\<lambda>(response, sent).
     bindN (liftN (curveInput N)) (\<lambda>curve.
     withState (\<lambda>s.
     bindN (liftN (verifyPresignAnswer (sdkOf N) response (ns_trusted s)
              \<lparr>spr_sessionIdentifier = se_session sent, spr_epoch = se_epoch sent, spr_curve = curve,
               spr_signatureAlgorithm = algorithm, spr_dwalletPublicKey = dwalletPublicKey,
               spr_networkKeyId = cn_networkKeyId N\<rparr>)) (\<lambda>data.
     if \<not> equalBytes (pr_user_pubkey data) (kp_publicKey (rq_keypair req))
     then throwN (Thrown (Err ''the presign was served to another requester than this one''))
     else bindN (liftN (answeredAttestation response)) (\<lambda>att.
       returnN \<lparr>pg_reference = pr_presign_session_identifier data, pg_material = pr_presign_data data,
                pg_attestation = att, pg_epoch = se_epoch sent\<rparr>)))))"

definition presignRequest ::
    "network_connection \<Rightarrow> dwallet_signature_algorithm \<Rightarrow> sdk_error + dwallet_request" where
  "presignRequest N algorithm =
     bindE (curveInput N) (\<lambda>curve.
       Inr (Presign \<lparr>pq_network_key_id = cn_networkKeyId N, pq_curve = curve, pq_signature_algorithm = algorithm\<rparr>))"

partial_function (option) poolLoop ::
    "network_connection \<Rightarrow> requester \<Rightarrow> dwallet_request \<Rightarrow> dwallet_signature_algorithm \<Rightarrow> time \<Rightarrow> presign engine_run" where
  "poolLoop N req request algorithm deadline now s =
     (case presignCall N req request algorithm None now s of
        None \<Rightarrow> None
      | Some (t, s', Inr p) \<Rightarrow> Some (t, s', Inr p)
      | Some (t, s', Inl e) \<Rightarrow>
          if \<not> textIncludes PRESIGN_POOL_EMPTY_REFUSAL (engineMessage e) \<or> t \<ge> deadline then Some (t, s', Inl e)
          else let later = t + POOL_RETRY_MS + int (lagOf (cn_client N) t)
               in poolLoop N req request algorithm deadline later (resumed N later s'))"

text \<open>\<open>poolWaitMs\<close> is 0 by default.\<close>

definition requestPresign ::
    "network_connection \<Rightarrow> requester \<Rightarrow> scheme_choice \<Rightarrow> int option \<Rightarrow> presign engine_run" where
  "requestPresign N req scheme poolWaitMs =
     bindN (liftN (algorithmOf N scheme)) (\<lambda>algorithm.
     bindN (liftN (presignRequest N algorithm)) (\<lambda>request.
     withTime (\<lambda>now. poolLoop N req request algorithm
       (now + (case poolWaitMs of None \<Rightarrow> 0 | Some ms \<Rightarrow> ms)))))"

definition requestPresignForDWallet ::
    "network_connection \<Rightarrow> requester \<Rightarrow> dwallet \<Rightarrow> scheme_choice \<Rightarrow> presign engine_run" where
  "requestPresignForDWallet N req d scheme =
     bindN (liftN (requireServedDWallet N d)) (\<lambda>_.
     bindN (liftN (algorithmOf N scheme)) (\<lambda>algorithm.
     bindN (liftN (curveInput N)) (\<lambda>curve.
     presignCall N req (PresignForDWallet
       \<lparr>pd_network_key_id = dl_networkKeyId d, pd_dwallet_public_key = dl_publicKey d,
        pd_dwallet_attestation = dl_attestation d, pd_curve = curve, pd_signature_algorithm = algorithm\<rparr>)
       algorithm (Some (dl_publicKey d)))))"

section \<open>Signing\<close>

record sign_args =
  sa_dwallet :: dwallet
  sa_usable :: dwallet_usable
  sa_presign :: presign
  sa_message :: bytes
  sa_messageMetadata :: "bytes option"
  sa_signatureScheme :: scheme_choice
  sa_voucher :: bytes

definition userSignMessage ::
    "network_connection \<Rightarrow> dwallet \<Rightarrow> presign \<Rightarrow> bytes \<Rightarrow> bytes \<Rightarrow> int \<Rightarrow> bytes engine_run" where
  "userSignMessage N d p message metadata scheme =
     compute N (createUserSignMessageWithScheme (ec_user (cn_cryptography N))
       (signInputs N (dl_curve d) scheme message metadata (dl_networkPublicOutput d) (dl_userSecretKeyShare d)
          (pg_material p)))"

text \<open>
  \<open>(data) => signFor(requester, (keypair) => signDWalletSignRequest(keypair, data, ...))\<close>: the ownership is the
  result given, with the holder it shows. Given a result, the check reads nothing and adds none.
\<close>

definition signsDWalletRequest :: "network_connection \<Rightarrow> requester \<Rightarrow> dwallet_usable \<Rightarrow> sign_data" where
  "signsDWalletRequest N req usable d object =
     signFor N req (\<lambda>keypair. withTime (\<lambda>now. withState (\<lambda>s.
       liftN (map_sum id fst (signDWalletSignRequest (sdkOf N) (en_realCryptography (cn_env N))
         (edSign (en_ed25519 (cn_env N))) keypair d
         \<lparr>ow_userKey = is_holder (us_shown usable), ow_reader = None, ow_usable = Some usable\<rparr> now now (ns_issued s))))))"

definition signRequestOf ::
    "bool \<Rightarrow> sign_args \<Rightarrow> bytes \<Rightarrow> scheme_name \<Rightarrow> bytes \<Rightarrow> dwallet_request" where
  "signRequestOf imported args metadata scheme userSignature =
     (let fields = \<lparr>sg_message = sa_message args, sg_message_metadata = metadata, sg_signature_scheme = scheme,
                    sg_presign_session_identifier = pg_reference (sa_presign args),
                    sg_message_centralized_signature = userSignature,
                    sg_dwallet_attestation = dl_attestation (sa_dwallet args), sg_signature_voucher = sa_voucher args\<rparr>
      in if imported then ImportedKeySign fields else Sign fields)"

definition requestSignature :: "network_connection \<Rightarrow> requester \<Rightarrow> sign_args \<Rightarrow> bytes engine_run" where
  "requestSignature N req args =
     (let d = sa_dwallet args; metadata = orEmpty (sa_messageMetadata args) in
      bindN (liftN (signatureSchemeNumber (sa_signatureScheme args))) (\<lambda>scheme.
      bindN (liftN (requireServedDWallet N d)) (\<lambda>_.
      bindN (liftN (requireCheckedOutput d (sa_usable args))) (\<lambda>_.
      bindN (liftN (guardE (length (sa_voucher args) = 32) (Err ''the signature voucher's address must be 32 bytes''))) (\<lambda>_.
      bindN (userSignMessage N d (sa_presign args) (sa_message args) metadata scheme) (\<lambda>userSignature.
      bindN (liftN (schemeName scheme)) (\<lambda>name.
      bindN (liftN (isImported N d)) (\<lambda>imported.
      bindN (submitWithPresign N req (pg_epoch (sa_presign args)) (signsDWalletRequest N req (sa_usable args))
               (\<lambda>_. returnN (plainObject (signRequestOf imported args metadata name userSignature), ()))
               (\<lambda>_ _. returnN (PendingSign (sa_voucher args)))) (\<lambda>(response, _).
      compute N (signatureFromResponseVerified (ec_user (cn_cryptography N)) response
        \<lparr>es_curve = dl_curve d, es_signatureScheme = scheme, es_message = sa_message args,
         es_messageMetadata = metadata, es_output = dl_networkPublicOutput d\<rparr>))))))))))"

section \<open>Future signs\<close>

definition futureSignArgs ::
    "requester \<Rightarrow> sign_args \<Rightarrow> bytes \<Rightarrow> bytes \<Rightarrow> scheme_name \<Rightarrow> trusted_network_keys \<Rightarrow> future_sign_args" where
  "futureSignArgs req args metadata userSignature scheme trusted =
     \<lparr>fa_usable = sa_usable args, fa_presignAttestation = pg_attestation (sa_presign args),
      fa_message = sa_message args, fa_messageMetadata = metadata,
      fa_messageCentralizedSignature = userSignature, fa_signatureScheme = scheme,
      fa_futureSignatureVoucher = sa_voucher args, fa_requesterPublicKey = kp_publicKey (rq_keypair req),
      fa_trustedNetworkKeys = trusted\<rparr>"

definition requestFutureSignature ::
    "network_connection \<Rightarrow> requester \<Rightarrow> sign_args \<Rightarrow> partial_signature engine_run" where
  "requestFutureSignature N req args =
     (let d = sa_dwallet args; metadata = orEmpty (sa_messageMetadata args) in
      bindN (liftN (signatureSchemeNumber (sa_signatureScheme args))) (\<lambda>scheme.
      bindN (liftN (requireServedDWallet N d)) (\<lambda>_.
      bindN (liftN (requireCheckedOutput d (sa_usable args))) (\<lambda>_.
      bindN (verifiedDWallet N d) (\<lambda>_.
      bindN (userSignMessage N d (sa_presign args) (sa_message args) metadata scheme) (\<lambda>userSignature.
      bindN (liftN (schemeName scheme)) (\<lambda>name.
      bindN (withTime (\<lambda>now. withState (\<lambda>s.
               liftN (futureSignRequest (sdkOf N) (en_realCryptography (cn_env N)) (ns_issued s)
                        (futureSignArgs req args metadata userSignature name (ns_trusted s)) now)))) (\<lambda>request.
      bindN (submitWithPresign N req (pg_epoch (sa_presign args)) (signsRequest N req)
               (\<lambda>_. returnN (plainObject request, ()))
               (\<lambda>_ _. returnN (PendingFutureSignStepOne (sa_voucher args)))) (\<lambda>(response, sent).
      bindN (withState (\<lambda>s. liftN (verifyFutureSignAnswer (sdkOf N) response (ns_trusted s)
               \<lparr>sfs_sessionIdentifier = se_session sent, sfs_intendedChainSender = rq_intendedChainSender req,
                sfs_dwalletAttestation = dl_attestation d, sfs_presignAttestation = pg_attestation (sa_presign args),
                sfs_message = sa_message args, sfs_messageMetadata = metadata, sfs_signatureScheme = name,
                sfs_futureSignatureVoucher = sa_voucher args\<rparr>))) (\<lambda>attested.
      bindN (liftN (answeredAttestation response)) (\<lambda>att.
      returnN \<lparr>pp_partialUserSignatureAttestation = att, pp_dwalletAttestation = dl_attestation d,
               pp_message = sa_message args, pp_messageMetadata = metadata,
               pp_futureSignatureVoucher = sa_voucher args, pp_attested = attested\<rparr>)))))))))))"

text \<open>The attestation a \<open>verifyAttestation\<close> returns with its kind.\<close>

definition verifiedAttestedDWallet ::
    "network_connection \<Rightarrow> network_signed_attestation \<Rightarrow> dwallet_attestation engine_run" where
  "verifiedAttestedDWallet N att =
     withState (\<lambda>s. liftN (seqE (verifyAttestation (sdkOf N) (Answer att) DWalletKind (cn_networkKeyId N) (ns_trusted s) None)
                            (decodedDWallet N att)))"

definition completeFutureSignature :: "network_connection \<Rightarrow> requester \<Rightarrow> partial_signature \<Rightarrow> bytes engine_run" where
  "completeFutureSignature N req partial =
     bindN (withState (\<lambda>s. liftN (verifyAttestation (sdkOf N) (Answer (pp_partialUserSignatureAttestation partial))
              PartialUserSignatureKind (cn_networkKeyId N) (ns_trusted s) None))) (\<lambda>_.
     bindN (verifiedAttestedDWallet N (pp_dwalletAttestation partial)) (\<lambda>verified.
     bindN (liftN (completeFutureSignRequest (sdkOf N) (pp_partialUserSignatureAttestation partial)
              (pp_dwalletAttestation partial) (pp_message partial) (pp_messageMetadata partial)
              (pp_futureSignatureVoucher partial))) (\<lambda>request.
     bindN (submit N req (fixedRequest request)
              (\<lambda>_ _. returnN (PendingFutureSignCompletion (pp_futureSignatureVoucher partial)))
              REBUILDS_AFTER_EPOCH_CLOSE) (\<lambda>(response, _).
     compute N (signatureFromResponseVerified (ec_user (cn_cryptography N)) response
       \<lparr>es_curve = indexOf ATTESTATION_CURVES (dw_curve verified),
        es_signatureScheme = indexOf SIGNATURE_SCHEMES (pu_signature_scheme (pp_attested partial)),
        es_message = pp_message partial, es_messageMetadata = pp_messageMetadata partial,
        es_output = dw_public_output verified\<rparr>)))))"

section \<open>User shares\<close>

text \<open>A builder of \<open>requests.ts\<close>, which keeps the holder of a waiting dWallet under the object it returns.\<close>

definition buildHolding ::
    "(issued_results \<Rightarrow> time \<Rightarrow> waiting_holders \<Rightarrow> sdk_error + request_object \<times> waiting_holders)
      \<Rightarrow> request_object engine_run" where
  "buildHolding f now s =
     (case f (ns_issued s) now (ns_holders s) of
        Inl e \<Rightarrow> Some (now, s, Inl (Thrown e))
      | Inr (object, holders) \<Rightarrow> Some (now, s\<lparr>ns_holders := holders\<rparr>, Inr object))"

definition makePublicBuild :: "dwallet \<Rightarrow> dwallet_usable \<Rightarrow> unit build_request" where
  "makePublicBuild d usable epoch session =
     bindN (buildHolding (\<lambda>store. makeSharePublicRequest store usable (dl_userSecretKeyShare d))) (\<lambda>object.
       returnN (object, ()))"

definition makePublicDescribe :: "network_connection \<Rightarrow> dwallet \<Rightarrow> unit describe_request" where
  "makePublicDescribe N d session kept =
     liftN (bindE (dwalletAttested N d) (\<lambda>att.
            bindE (publicShareAttestationBytes (sdkOf N) session att (dl_userSecretKeyShare d)) (\<lambda>bs.
            Inr (PendingMakeSharePublic (lookupOf d) (keccak_256 (sdkOf N) bs)))))"

definition makeSharePublic ::
    "network_connection \<Rightarrow> requester \<Rightarrow> dwallet \<Rightarrow> dwallet_usable \<Rightarrow> (dwallet \<times> public_share_attestation) engine_run" where
  "makeSharePublic N req d usable =
     bindN (liftN (requireServedDWallet N d)) (\<lambda>_.
     bindN (liftN (requireCheckedOutput d usable)) (\<lambda>_.
     bindN (verifiedDWallet N d) (\<lambda>verified.
     bindN (submit N req (makePublicBuild d usable) (makePublicDescribe N d) REBUILDS_AFTER_EPOCH_CLOSE) (\<lambda>(response, sent).
     bindN (withState (\<lambda>s. liftN (verifyMakeSharePublicAnswer (sdkOf N) response (ns_trusted s) verified
              \<lparr>smp_sessionIdentifier = se_session sent, smp_networkKeyId = cn_networkKeyId N,
               smp_publicUserSecretKeyShare = dl_userSecretKeyShare d\<rparr>))) (\<lambda>attestation.
     returnN (d\<lparr>dl_share := PublicShare\<rparr>, attestation))))))"

record re_encrypt_args =
  rn_dwallet :: dwallet
  rn_usable :: dwallet_usable
  rn_newHolder :: bytes
  rn_newHolderEntry :: holder_entry

definition reEncryptBuild :: "re_encrypt_args \<Rightarrow> bytes \<Rightarrow> request_object engine_run" where
  "reEncryptBuild args encryptedShareAndProof =
     buildHolding (\<lambda>store. reEncryptShareRequest store (rn_usable args) encryptedShareAndProof (rn_newHolder args)
       (rn_newHolderEntry args))"

definition reEncryptDescribe :: "network_connection \<Rightarrow> re_encrypt_args \<Rightarrow> bytes \<Rightarrow> unit describe_request" where
  "reEncryptDescribe N args encryptedShareAndProof session kept =
     (let d = rn_dwallet args in
      liftN (bindE (dwalletAttested N d) (\<lambda>att.
             bindE (encryptedShareAttestationBytes (sdkOf N) session att encryptedShareAndProof
                      (he_encryptionKey (rn_newHolderEntry args)) (rn_newHolder args)) (\<lambda>bs.
             Inr (PendingReEncryptShare (lookupOf d) (rn_newHolder args) (keccak_256 (sdkOf N) bs))))))"

definition reEncryptShare ::
    "network_connection \<Rightarrow> requester \<Rightarrow> re_encrypt_args \<Rightarrow> re_encrypted_share engine_run" where
  "reEncryptShare N req args =
     (let d = rn_dwallet args in
      bindN (liftN (requireServedDWallet N d)) (\<lambda>_.
      bindN (liftN (requireCheckedOutput d (rn_usable args))) (\<lambda>_.
      bindN (verifiedDWallet N d) (\<lambda>verified.
      bindN (reEncryptBuild args []) (\<lambda>_.
      bindN (computeAt N (encryptSecretShare (cn_cryptography N) (cn_curve N) (dl_userSecretKeyShare d)
               (he_encryptionKey (rn_newHolderEntry args)) (cn_protocolPublicParameters N))) (\<lambda>encrypted.
      bindN (submit N req (\<lambda>_ _. bindN (reEncryptBuild args encrypted) (\<lambda>object. returnN (object, ())))
               (reEncryptDescribe N args encrypted) REBUILDS_AFTER_EPOCH_CLOSE) (\<lambda>(response, sent).
      bindN (withState (\<lambda>s. liftN (verifyReEncryptShareAnswer (sdkOf N) response (ns_trusted s) verified
               \<lparr>sre_sessionIdentifier = se_session sent, sre_networkKeyId = cn_networkKeyId N,
                sre_encryptedShareAndProof = encrypted,
                sre_encryptionKey = he_encryptionKey (rn_newHolderEntry args),
                sre_holderSignerPublicKey = rn_newHolder args\<rparr>))) (\<lambda>_.
      bindN (liftN (answeredAttestation response)) (\<lambda>att.
      returnN \<lparr>rc_dwalletAttestation = dl_attestation d, rc_shareAttestation = att,
               rc_encryptedShareAndProof = encrypted\<rparr>)))))))))"

record accept_args =
  aa_reader :: share_reader
  aa_holder :: transport_keypair
  aa_encryptionKey :: bytes
  aa_decryptionKey :: bytes
  aa_senderSignerPublicKey :: bytes
  aa_received :: re_encrypted_share

definition acceptArguments :: "network_connection \<Rightarrow> accept_args \<Rightarrow> accept_share_arguments" where
  "acceptArguments N args =
     \<lparr>ac_reader = aa_reader args, ac_holderSecretKey = kp_secretKey (aa_holder args),
      ac_decryptionKey = aa_decryptionKey args, ac_encryptionKey = aa_encryptionKey args,
      ac_sender = aa_senderSignerPublicKey args, ac_senderAcceptanceSignature = None,
      ac_dwalletAttestation = attestation_data (rc_dwalletAttestation (aa_received args)),
      ac_shareAttestation = rc_shareAttestation (aa_received args),
      ac_encryptedShareAndProof = rc_encryptedShareAndProof (aa_received args),
      ac_protocolPublicParameters = cn_protocolPublicParameters N\<rparr>"

definition acceptReEncryptedShare :: "network_connection \<Rightarrow> accept_args \<Rightarrow> dwallet engine_run" where
  "acceptReEncryptedShare N args =
     (let att = rc_dwalletAttestation (aa_received args) in
      bindN (compute N (signReEncryptedShareAcceptance (sdkOf N) (en_realCryptography (cn_env N)) (en_ed25519 (cn_env N))
               (acceptArguments N args))) (\<lambda>acceptance.
      bindN (verifiedAttestedDWallet N att) (\<lambda>data.
      bindN (compute N (decryptUserShareOfOutput (cn_cryptography N) (cn_curve N) (aa_decryptionKey args)
               (dw_public_output data) (rc_encryptedShareAndProof (aa_received args)) (cn_protocolPublicParameters N)))
        (\<lambda>share.
      returnN \<lparr>dl_curve = indexOf ATTESTATION_CURVES (dw_curve data), dl_publicKey = dw_public_key data,
               dl_networkPublicOutput = dw_public_output data, dl_userSecretKeyShare = share, dl_attestation = att,
               dl_networkKeyId = cn_networkKeyId N,
               dl_importedSessionIdentifier = (if dw_is_imported_key data then Some (dw_session_identifier data) else None),
               dl_share = EncryptedTo (kp_publicKey (aa_holder args)), dl_acceptance = Some acceptance\<rparr>))))"

end
