(* ===== verification/Engine_Call_Laws.thy ===== *)
theory Engine_Call_Laws
  imports Engine_Signing
begin

text \<open>
  What the calls of a connection return: a value of the answer to the very request they signed, which
  the answer's checks accepted under keys the connection trusts.
\<close>

section \<open>The request an answer belongs to\<close>

lemma compute_Inr [result_simps]:
  "computeAt N f now s = Some (t, s', Inr y) \<longleftrightarrow>
     t = now + int (elapses (cn_env N) now) \<and> s' = resumed N t s \<and> f now = Inr y"
  "compute N r now s = Some (t, s', Inr y) \<longleftrightarrow>
     t = now + int (elapses (cn_env N) now) \<and> s' = resumed N t s \<and> r = Inr y"
  by (auto simp: computeAt_def compute_def Let_def result_simps)

lemma awaitRead_Inr [result_simps]:
  "awaitRead N read now s = Some (t, s', Inr y) \<longleftrightarrow> s' = resumed N t s \<and> read now = Some (t, Inr y)"
  by (auto simp: awaitRead_def result_simps)

text \<open>The entry \<open>e\<close> is signed over this request, in the session its epoch and a fresh preimage give.\<close>

definition request_signed :: "network_connection \<Rightarrow> requester \<Rightarrow> dwallet_request \<Rightarrow> signed_entry \<Rightarrow> bool" where
  "request_signed N req request e \<longleftrightarrow>
     (\<exists>preimage. sg_session e = sessionIdentifier N req (sg_epoch e) preimage \<and>
        serialize (signedRequestDataBcs (sdkOf N))
          (signedData req (requestNetworkValue (cn_network N)) (sg_epoch e) preimage request) =
          Some (gr_signedRequestData (sg_signed e)))"

text \<open>What was built for the sent request, from the results issued, and the entry signed for it.\<close>

definition built_as ::
    "network_connection \<Rightarrow> requester \<Rightarrow> 'k build_request \<Rightarrow> 'k sent_request \<Rightarrow> issued_results \<Rightarrow> signed_entry \<Rightarrow> bool" where
  "built_as N req mk sent issued e \<longleftrightarrow>
     entry_of sent e \<and>
     (\<exists>object now s t s'. mk (se_epoch sent) (se_session sent) now s = Some (t, s', Inr (object, se_kept sent)) \<and>
        ns_issued s = issued \<and>
        request_signed N req (ro_request object) e)"

text \<open>A signing step signs the bytes of the data it is given.\<close>

definition signs_data :: "network_connection \<Rightarrow> sign_data \<Rightarrow> bool" where
  "signs_data N sign \<longleftrightarrow>
     (\<forall>d object now s t s' out. sign d object now s = Some (t, s', Inr out) \<and> req_request d = ro_request object \<longrightarrow>
        serialize (signedRequestDataBcs (sdkOf N)) d = Some (sr_signedRequestData out))"

lemma signFor_data:
  assumes "\<And>k now s t s' out. sign k now s = Some (t, s', Inr out) \<Longrightarrow> P (sr_signedRequestData out)"
    and "signFor N req sign now s = Some (t, s', Inr out)"
  shows "P (sr_signedRequestData out)"
proof (cases "rq_signer req")
  case None
  with assms show ?thesis by (auto simp: signFor_def)
next
  case (Some signer)
  with assms(2) obtain t1 s1 first where "sign (UNSIGNED_KEYPAIR (en_ed25519 (cn_env N))) now s = Some (t1, s1, Inr first)"
    and "signedBySigner N req signer (sr_signedRequestData first) t1 s1 = Some (t, s', Inr out)"
    by (auto simp: signFor_def result_simps)
  moreover from this(2) have "sr_signedRequestData out = sr_signedRequestData first"
    by (auto simp: signedBySigner_def result_simps Let_def split: if_split_asm)
  ultimately show ?thesis using assms(1) by metis
qed

lemma signsRequest_data: "signs_data N (\<lambda>d object. signFor N req (signingRequest N d object))"
proof -
  have same: "d\<lparr>req_request := ro_request object\<rparr> = d" if "req_request d = ro_request object"
    for d :: signed_request_data and object :: request_object using that by (cases d) simp
  have "serialize (signedRequestDataBcs (sdkOf N)) d = Some (sr_signedRequestData out)"
    if "signingRequest N d object k now s = Some (t, s', Inr out)" "req_request d = ro_request object"
    for d object k now s t s' out
    using that
    by (auto simp: signingRequest_def signGrpcRequest_def signRequestBytes_def sdkOf_def result_simps same
        split: if_split_asm dest: signSerializedRequest_data)
  then show ?thesis unfolding signs_data_def
    by (blast intro: signFor_data [where P = "\<lambda>x. serialize (signedRequestDataBcs (sdkOf N)) d = Some x" for d])
qed

lemma signsDWalletRequest_data: "signs_data N (signsDWalletRequest N req usable)"
proof -
  have data: "serialize (signedRequestDataBcs (sdkOf N)) d = Some (sr_signedRequestData out)"
    if "signDWalletSignRequest (sdkOf N) R signer k d own now checkedAt store = Inr (out, store')"
    for R signer k d own now checkedAt store out store'
    using signDWalletSignRequest_Inr [OF that] by blast
  show ?thesis unfolding signs_data_def signsDWalletRequest_def
    by (intro allI impI, elim conjE,
        rule signFor_data [where P = "\<lambda>x. serialize (signedRequestDataBcs (sdkOf N)) d = Some x" for d])
      (auto simp: result_simps dest: data)
qed

lemma sendBuilt_Inr:
  assumes "sendBuilt N out at sent now s = Some (t, s', Inr ended)"
  shows "sentOf ended = sent \<and>
    ns_signed s' = ns_signed s @ [\<lparr>sg_epoch = se_epoch sent, sg_session = se_session sent, sg_at = at, sg_signed = grpcRequest out\<rparr>]"
  using assms
  by (auto simp: sendBuilt_def awaitClient_def Let_def resumed_def
      split: option.split_asm sum.split_asm engine_error.split_asm if_split_asm)

lemma signAndSend_built:
  assumes "signs_data N sign" "signAndSend N req epoch sign mk now s = Some (t, s', Inr ended)"
  shows "\<exists>pre e. ns_signed s' = pre @ [e] \<and> built_as N req mk (sentOf ended) (ns_issued s) e"
proof -
  from assms(2) obtain preimage t1 s1 object kept t2 s2 out t3 s3
    where drawn: "freshPreimage N now s = Some (t1, s1, Inr preimage)"
      and mk: "mk epoch (sessionIdentifier N req epoch preimage) t1 s1 = Some (t2, s2, Inr (object, kept))"
      and sign: "sign (signedData req (requestNetworkValue (cn_network N)) epoch preimage (ro_request object)) object t2 s2
          = Some (t3, s3, Inr out)"
      and sent: "sendBuilt N out t2 \<lparr>se_epoch = epoch, se_session = sessionIdentifier N req epoch preimage, se_kept = kept\<rparr> t3 s3
          = Some (t, s', Inr ended)"
    by (auto simp: signAndSend_def Let_def result_simps)
  from assms(1) sign have data: "serialize (signedRequestDataBcs (sdkOf N))
      (signedData req (requestNetworkValue (cn_network N)) epoch preimage (ro_request object)) =
      Some (gr_signedRequestData (grpcRequest out))"
    unfolding signs_data_def by (fastforce simp: signedData_def grpcRequest_def)
  let ?e = "\<lparr>sg_epoch = epoch, sg_session = sessionIdentifier N req epoch preimage, sg_at = t2, sg_signed = grpcRequest out\<rparr>"
  from sendBuilt_Inr [OF sent] have "ns_signed s' = ns_signed s3 @ [?e]"
    and "sentOf ended = \<lparr>se_epoch = epoch, se_session = sessionIdentifier N req epoch preimage, se_kept = kept\<rparr>"
    by simp_all
  moreover from drawn have "ns_issued s1 = ns_issued s" by (auto simp: freshPreimage_def)
  ultimately have "built_as N req mk (sentOf ended) (ns_issued s) ?e"
    using mk data unfolding built_as_def request_signed_def entry_of_def
    by (auto intro!: exI [of _ object] exI [of _ preimage])
  with sendBuilt_Inr [OF sent] show ?thesis by (auto simp: built_as_def)
qed

text \<open>The last entry signed is the one the answer belongs to.\<close>

definition answers_last ::
    "network_connection \<Rightarrow> requester \<Rightarrow> 'k build_request \<Rightarrow> 'k sent_request \<Rightarrow> issued_results \<Rightarrow> net_state \<Rightarrow> bool" where
  "answers_last N req mk sent issued s \<longleftrightarrow> (\<exists>pre e. ns_signed s = pre @ [e] \<and> built_as N req mk sent issued e)"

lemma answers_last_still:
  "answers_last N req mk sent issued s \<Longrightarrow> moves N s s' [] \<Longrightarrow> answers_last N req mk sent issued s'"
  by (auto simp: answers_last_def moves_def)

lemma closed_answer:
  assumes "epochs_grow N" "\<And>session kept. keeps_still N (describe session kept)"
    and "bindN (pendingOf N req sent describe) (\<lambda>pending.
           bindN (outcomeAfterEpochClose N pending) (f pending)) now s = Some (t, s', r)"
  obtains err where "r = Inl err"
  | pending outcome t1 s1 where "moves N s s1 []" "f pending outcome t1 s1 = Some (t, s', r)"
proof -
  have "describes (\<lambda>_. True) describe" by (simp add: describes_def)
  from closed_cases [OF assms(1,2) this assms(3)] that show thesis by metis
qed

lemma submitOnce_answers:
  assumes grow: "epochs_grow N" and quiet: "quiet_request N mk describe"
    and run: "submitOnce N req mk describe again now s = Some (t, s', Inr (response, sent))"
    and further: "\<And>resubmit now s t s'. again = Some resubmit \<Longrightarrow> resubmit now s = Some (t, s', Inr (response, sent)) \<Longrightarrow>
      answers_last N req mk sent (ns_issued s) s'"
  shows "answers_last N req mk sent (ns_issued s) s'"
proof -
  have still: "keeps_still N (describe session kept)" "keeps_still N (mk epoch session)" for epoch session kept
    using quiet by (simp_all add: quiet_request_def)
  from run obtain epoch t1 s1 t2 s2 ended
    where read: "readChainEpoch N now s = Some (t1, s1, Inr epoch)"
      and sending: "signAndSend N req epoch (\<lambda>d object. signFor N req (signingRequest N d object)) mk t1 s1 = Some (t2, s2, Inr ended)"
      and rest: "(case ended of
          Answered response sent \<Rightarrow> returnN (response, sent)
        | ClosedBeforeAnswer sent refusal \<Rightarrow>
            bindN (pendingOf N req sent describe) (\<lambda>pending.
            bindN (outcomeAfterEpochClose N pending) (\<lambda>outcome.
            case again of
              Some resubmit \<Rightarrow> if outcome = NotRun then resubmit else answerOrThrow sent refusal outcome pending
            | None \<Rightarrow> answerOrThrow sent refusal outcome pending))) t2 s2 = Some (t, s', Inr (response, sent))"
    unfolding submitOnce_def bindN_Inr by blast
  from keeps_stillD [OF keeps_still_readChainEpoch [OF grow] read] have s1: "ns_issued s1 = ns_issued s"
    by (simp add: moves_def)
  with signAndSend_moves [OF grow still(2) keeps_still_signing(2) [OF grow keeps_still_signing(1) [OF grow]] sending]
  have s2: "ns_issued s2 = ns_issued s" by (auto simp: moves_def)
  have built: "answers_last N req mk (sentOf ended) (ns_issued s) s2"
    using signAndSend_built [OF signsRequest_data sending] by (simp add: answers_last_def s1)
  show ?thesis
  proof (cases ended)
    case (Answered response' sent')
    with rest built show ?thesis by (auto simp: result_simps)
  next
    case (ClosedBeforeAnswer sent' refusal)
    from grow still(1) rest [unfolded ClosedBeforeAnswer sent_outcome.case] show ?thesis
    proof (cases rule: closed_answer)
      case (2 pending outcome t3 s3)
      from 2(1) s2 have s3: "ns_issued s3 = ns_issued s" by (simp add: moves_def)
      show ?thesis
      proof (cases "again \<noteq> None \<and> outcome = NotRun")
        case True
        then obtain resubmit where "again = Some resubmit" by auto
        with True 2(2) have "resubmit t3 s3 = Some (t, s', Inr (response, sent))" by simp
        from further [OF \<open>again = Some resubmit\<close> this] s3 show ?thesis by simp
      next
        case False
        with 2(2) have "answerOrThrow sent' refusal outcome pending t3 s3 = Some (t, s', Inr (response, sent))"
          by (auto split: option.split_asm)
        from answerOrThrow_Inr [OF this] answers_last_still [OF built 2(1)] ClosedBeforeAnswer show ?thesis by simp
      qed
    qed simp
  qed
qed

lemma submit_answers:
  assumes "epochs_grow N" "quiet_request N mk describe"
  shows "submit N req mk describe n now s = Some (t, s', Inr (response, sent)) \<Longrightarrow>
     answers_last N req mk sent (ns_issued s) s'"
proof (induction n arbitrary: now s t s')
  case 0
  then show ?case using submitOnce_answers [OF assms, of req None] by simp
next
  case (Suc n)
  from submitOnce_answers [OF assms Suc.prems [simplified]] Suc.IH show ?case by simp
qed

text \<open>What a submission that answers did.\<close>

lemma submit_answered:
  assumes "epochs_grow N" "quiet_request N mk describe"
    and "submit N req mk describe n now s = Some (t, s', Inr (response, sent))"
  shows "\<exists>es e. moves N s s' (es @ [e]) \<and> length es \<le> n \<and> sorted_wrt (<) (map sg_epoch (es @ [e])) \<and>
     (describes creates describe \<longrightarrow> es = []) \<and> built_as N req mk sent (ns_issued s) e"
proof -
  from submit_moves [OF assms] obtain es where es: "moves N s s' es" "length es \<le> Suc n"
    "sorted_wrt (<) (map sg_epoch es)" "describes creates describe \<longrightarrow> length es \<le> 1" "es \<noteq> []" by blast
  from submit_answers [OF assms] obtain pre e where e: "ns_signed s' = pre @ [e]" "built_as N req mk sent (ns_issued s) e"
    by (auto simp: answers_last_def)
  from es(5) obtain es' e' where split: "es = es' @ [e']" by (cases es rule: rev_cases) auto
  with es(1) e(1) have "e' = e" by (simp add: moves_def)
  with es split e(2) show ?thesis by (intro exI [of _ es'] exI [of _ e]) auto
qed

lemma submitWithPresign_answered:
  assumes "epochs_grow N" "quiet_request N (\<lambda>_. mk) describe" "\<And>d object. keeps_still N (sign d object)"
    and "\<And>session. throws_plainly (mk session)" "\<And>session kept. throws_plainly (describe session kept)"
      "\<And>d object. throws_plainly (sign d object)" "signs_data N sign"
    and run: "submitWithPresign N req presignEpoch sign mk describe now s = Some (t, s', Inr (response, sent))"
  shows "\<exists>e. moves N s s' [e] \<and> sg_epoch e = presignEpoch \<and> built_as N req (\<lambda>_. mk) sent (ns_issued s) e"
proof -
  from submitWithPresign_moves [OF assms(1-6) run] obtain e
    where e: "moves N s s' [e]" "sg_epoch e = presignEpoch" "entry_of sent e" by fastforce
  have still: "keeps_still N (describe session kept)" for session kept
    using assms(2) by (simp add: quiet_request_def)
  from run obtain chainEpoch t1 s1 t2 s2 ended
    where read: "readChainEpoch N now s = Some (t1, s1, Inr chainEpoch)"
      and sending: "signAndSend N req presignEpoch sign (\<lambda>_. mk) t1 s1 = Some (t2, s2, Inr ended)"
      and rest: "(case ended of
          Answered response sent \<Rightarrow> returnN (response, sent)
        | ClosedBeforeAnswer sent refusal \<Rightarrow>
            bindN (pendingOf N req sent describe) (\<lambda>pending.
            bindN (outcomeAfterEpochClose N pending) (\<lambda>outcome.
            if outcome = NotRun
            then withState (\<lambda>s. throwN (PresignExpiredWithTheEpoch presignEpoch (ns_epoch s)))
            else answerOrThrow sent refusal outcome pending))) t2 s2 = Some (t, s', Inr (response, sent))"
    unfolding submitWithPresign_def bindN_Inr by (auto simp: result_simps split: if_split_asm)
  from keeps_stillD [OF keeps_still_readChainEpoch [OF assms(1)] read] have s1: "ns_issued s1 = ns_issued s"
    by (simp add: moves_def)
  have built: "answers_last N req (\<lambda>_. mk) (sentOf ended) (ns_issued s) s2"
    using signAndSend_built [OF assms(7) sending] by (simp add: answers_last_def s1)
  have "answers_last N req (\<lambda>_. mk) sent (ns_issued s) s'"
  proof (cases ended)
    case (Answered response' sent')
    with rest built show ?thesis by (auto simp: result_simps)
  next
    case (ClosedBeforeAnswer sent' refusal)
    from assms(1) still rest [unfolded ClosedBeforeAnswer sent_outcome.case] show ?thesis
    proof (cases rule: closed_answer)
      case (2 pending outcome t3 s3)
      then have "answerOrThrow sent' refusal outcome pending t3 s3 = Some (t, s', Inr (response, sent))"
        by (auto simp: result_simps split: if_split_asm)
      from answerOrThrow_Inr [OF this] answers_last_still [OF built 2(1)] ClosedBeforeAnswer show ?thesis by simp
    qed simp
  qed
  with e show ?thesis by (auto simp: answers_last_def moves_def)
qed


text \<open>The two signing steps of the calls.\<close>

lemma signsRequest_steps:
  "epochs_grow N \<Longrightarrow> keeps_still N (signsRequest N req d object)" "throws_plainly (signsRequest N req d object)"
  "signs_data N (signsRequest N req)"
  using signsRequest_data [of N req] unfolding signsRequest_def signs_data_def
  by (blast intro: keeps_still_signing throws_plainly_signing)+

lemma signsDWalletRequest_steps:
  "epochs_grow N \<Longrightarrow> keeps_still N (signsDWalletRequest N req usable d object)"
  "throws_plainly (signsDWalletRequest N req usable d object)"
  unfolding signsDWalletRequest_def
  by (rule keeps_still_signing throws_plainly_signing, assumption?, intro still_intros plain_intros)+


lemma then_still:
  assumes "bindN m f now s = Some (t, s', r)" "\<And>x. keeps_still N (f x)"
  obtains err where "m now s = Some (t, s', Inl err)"
  | t1 s1 x where "m now s = Some (t1, s1, Inr x)" "moves N s1 s' []"
  using assms(1)
proof (cases rule: bindN_Some)
  case (stopped err)
  with that show thesis by blast
next
  case (went_on t1 s1 x)
  have "moves N s1 s' []" by (rule keeps_stillD [OF assms(2) went_on(2)])
  with went_on(1) that show thesis by blast
qed

end
