(* ===== verification/Creation_Laws.thy ===== *)
theory Creation_Laws
  imports Engine_Call_Laws
begin

text \<open>
  What creating and importing a dWallet through a connection promise: the creating request is signed
  once, and the dWallet returned is the one its answer attests, for the very session, keys, output and
  share the request was built from.
\<close>

section \<open>The creating requests\<close>

lemma expectAttestation_Inr:
  "expectAttestation N response kind curve now s = Some (t, s', Inr a) \<longleftrightarrow>
     t = now \<and> s' = s \<and> response = AttestationResponse a \<and>
     verifyAttestation (sdkOf N) (Answer a) kind (cn_networkKeyId N) (ns_trusted s) curve = Inr ()"
  by (cases response) (auto simp: expectAttestation_def result_simps)

lemma quiet_dkg:
  assumes "epochs_grow N"
  shows "quiet_request N (\<lambda>_. dkgBuild N share sg) (dkgDescribe N)"
  unfolding quiet_request_def dkgBuild_def dkgDescribe_def newDWallet_def encryptedFor_def signDuringDkgRequest_def
  by (intro conjI allI still_intros assms)

lemma plain_dkg:
  "throws_plainly (dkgBuild N share sg session)" "throws_plainly (dkgDescribe N session kept)"
  unfolding dkgBuild_def dkgDescribe_def newDWallet_def encryptedFor_def signDuringDkgRequest_def
  by (intro plain_intros)+

lemma quiet_import:
  assumes "epochs_grow N"
  shows "quiet_request N (\<lambda>_. importBuild N share secretKey) (importDescribe N)"
  unfolding quiet_request_def importBuild_def importDescribe_def newDWallet_def encryptedFor_def
  by (intro conjI allI still_intros assms)

lemma describes_creation: "describes creates (dkgDescribe N)" "describes creates (importDescribe N)"
  by (auto simp: describes_def dkgDescribe_def importDescribe_def result_simps)

text \<open>What was prepared for a session, and its share encrypted where a holder takes it.\<close>

definition prepared_for ::
    "network_connection \<Rightarrow> share_encryption option \<Rightarrow> (time \<Rightarrow> sdk_error + prepared_step) \<Rightarrow> prepared_step \<Rightarrow> bytes option
      \<Rightarrow> bool" where
  "prepared_for N share prep prepared encrypted \<longleftrightarrow>
     (\<exists>at. prep at = Inr prepared) \<and>
     (case share of
        None \<Rightarrow> encrypted = None
      | Some sh \<Rightarrow> \<exists>c at. encrypted = Some c \<and>
          encryptSecretShare (cn_cryptography N) (cn_curve N) (userSecretKeyShare prepared) (sn_encryptionKey sh)
            (cn_protocolPublicParameters N) at = Inr c)"

text \<open>A DKG request over what was prepared.\<close>

fun asks_dkg :: "network_connection \<Rightarrow> share_encryption option \<Rightarrow> prepared_step \<Rightarrow> bytes option \<Rightarrow> dwallet_request \<Rightarrow> bool" where
  "asks_dkg N share prepared encrypted (Dkg q) \<longleftrightarrow>
     dkg_network_key_id q = cn_networkKeyId N \<and> dkg_curve q = attested_curve (cn_curve N) \<and>
     dkg_centralized_public_key_share_and_proof q = userMessage prepared \<and>
     dkg_user_public_output q = userPublicOutput prepared \<and>
     dkg_user_secret_key_share q =
       (case share of None \<Rightarrow> PublicUserShare (userSecretKeyShare prepared)
        | Some sh \<Rightarrow> encryptedShareInput sh (orEmpty encrypted))"
| "asks_dkg N share prepared encrypted _ \<longleftrightarrow> False"

fun asks_import :: "network_connection \<Rightarrow> share_encryption \<Rightarrow> prepared_step \<Rightarrow> bytes option \<Rightarrow> dwallet_request \<Rightarrow> bool" where
  "asks_import N share prepared encrypted (ImportedKeyVerification q) \<longleftrightarrow>
     ik_network_key_id q = cn_networkKeyId N \<and> ik_curve q = attested_curve (cn_curve N) \<and>
     ik_centralized_party_message q = userMessage prepared \<and>
     ik_user_public_output q = userPublicOutput prepared \<and>
     ik_user_secret_key_share q = encryptedShareInput share (orEmpty encrypted)"
| "asks_import N share prepared encrypted _ \<longleftrightarrow> False"

lemma curveInput_Inr [result_simps]: "curveInput N = Inr c \<longleftrightarrow> c = attested_curve (cn_curve N)"
  by (cases "cn_curve N")
    (auto simp: curveInput_def curveNumberOf_def result_simps element_def ATTESTATION_CURVES_def)

lemma dkgBuild_Inr:
  assumes "dkgBuild N share sg session now s = Some (t, s', Inr (object, kept))"
  shows "\<exists>prepared encrypted. kept = (prepared, encrypted) \<and>
     prepared_for N share (prepareDKGForSessionIdentifier (cn_cryptography N) (cn_protocolPublicParameters N) (cn_curve N) session)
       prepared encrypted \<and>
     asks_dkg N share prepared encrypted (ro_request object)"
  using assms unfolding dkgBuild_def encryptedFor_def
  by (cases share; cases sg) (auto simp: result_simps prepared_for_def plainObject_def)

lemma importBuild_Inr:
  assumes "importBuild N share secretKey session now s = Some (t, s', Inr (object, kept))"
  shows "\<exists>prepared encrypted n. kept = (prepared, encrypted) \<and> curveNumberOf N = Inr n \<and>
     prepared_for N (Some share) (prepareImportedKeyVerification (cn_cryptography N) (cn_protocolPublicParameters N) (cn_curve N) session
       (importedSecretKeyEncoding n secretKey)) prepared encrypted \<and>
     asks_import N share prepared encrypted (ro_request object)"
  using assms unfolding importBuild_def encryptedFor_def
  by (auto simp: result_simps prepared_for_def plainObject_def orEmpty_def)


section \<open>What a creating call returns\<close>

text \<open>
  The dWallet \<open>d\<close> is the one \<open>att\<close> attests, signed by a trusted key under the connection's network key, for
  the session and the sender of the request; its output and key are the user's own; it carries a signature
  exactly when one was asked for, and that verifies; its share is public and has no holder, or is the one
  encrypted for the holder, who accepted it over the digest of the attestation's bytes.
\<close>

definition attested_dwallet ::
    "network_connection \<Rightarrow> requester \<Rightarrow> share_encryption option \<Rightarrow> sent_sign_during_dkg option \<Rightarrow> bool \<Rightarrow> bytes
      \<Rightarrow> prepared_step \<Rightarrow> bytes option \<Rightarrow> trusted_network_keys \<Rightarrow> dwallet \<Rightarrow> dwallet_attestation \<Rightarrow> bool" where
  "attested_dwallet N req share asked imported session prepared encrypted trusted d att \<longleftrightarrow>
     signed_record (sdkOf N) (dwalletBcs (sdkOf N)) DWalletKind (recordOfAttestation (dl_attestation d)) trusted att \<and>
     key_named (network trusted) (cn_networkKeyId N) (network_pubkey (dl_attestation d)) \<and>
     network_pubkey (dl_attestation d) \<in> set (publicKeys trusted) \<and>
     dw_session_identifier att = session \<and> dw_intended_chain_sender att = rq_intendedChainSender req \<and>
     dw_curve att = attested_curve (cn_curve N) \<and> dw_is_imported_key att = imported \<and>
     output_matches (ec_user (cn_cryptography N)) (cn_curve N) (userPublicOutput prepared) att \<and>
     asked_signature (ec_user (cn_cryptography N)) (indexOf ATTESTATION_CURVES (dw_curve att)) asked att \<and>
     dl_curve d = indexOf ATTESTATION_CURVES (dw_curve att) \<and> dl_publicKey d = dw_public_key att \<and>
     dl_networkPublicOutput d = dw_public_output att \<and> dl_networkKeyId d = cn_networkKeyId N \<and>
     dl_userSecretKeyShare d = userSecretKeyShare prepared \<and>
     (case share of
        None \<Rightarrow> dw_holder att = None \<and> dw_encryption_key_hash att = None \<and> dw_encrypted_share_hash att = None \<and>
          dl_share d = PublicShare \<and> dl_acceptance d = None
      | Some sh \<Rightarrow>
          dw_encryption_key_hash att = Some (keccak_256 (sdkOf N) (sn_encryptionKey sh)) \<and>
          dw_encrypted_share_hash att = Some (keccak_256 (sdkOf N) (orEmpty encrypted)) \<and>
          dl_share d = EncryptedTo (kp_publicKey (sn_holder sh)) \<and>
          (\<exists>own sig. edGetPublicKey (en_ed25519 (cn_env N)) (kp_secretKey (sn_holder sh)) = Some own \<and>
             dw_holder att = Some \<lparr>holder_scheme = Scheme_Ed25519, holder_key = own\<rparr> \<and>
             edSign (en_ed25519 (cn_env N)) (dwalletAttestationDigest (sdkOf N) (attestation_data (dl_attestation d)))
               (kp_secretKey (sn_holder sh)) = Some sig \<and>
             dl_acceptance d = Some \<lparr>sac_holderPublicKey = own,
               sac_acceptanceDigest = dwalletAttestationDigest (sdkOf N) (attestation_data (dl_attestation d)),
               sac_signature = sig\<rparr>))"

lemma verifyAttestation_dwallet:
  "verifyAttestation L (Answer a) DWalletKind key trusted curve = Inr () \<longleftrightarrow>
     key_named (network trusted) key (network_pubkey a) \<and>
     (\<exists>v. signed_record L (dwalletBcs L) DWalletKind (recordOfAttestation a) trusted v)"
  unfolding verifyAttestation_def recordToVerify_def attestation_to_verify.case prod.case Let_def seqE_eq_Inr verifyAttestationRecord_Inr attested.simps
    verifyAttestationNetworkKey_Inr by simp

lemma decodedDWallet_Inr:
  "signed_record (sdkOf N) (dwalletBcs (sdkOf N)) DWalletKind (recordOfAttestation a) trusted att \<Longrightarrow>
     decodedDWallet N a = Inr att"
  by (auto simp: decodedDWallet_def decodeHeldDWallet_def signed_record_def decodes_def ofOption_def)

text \<open>The holder accepts the share of the attestation answered, and of nothing else.\<close>

lemma signAcceptance_Inr:
  assumes "verifyAttestation (sdkOf N) (Answer a) DWalletKind key (ns_trusted s) c = Inr ()"
    and "signAcceptance N holder a sent now s = Some (t, s', Inr x)"
  shows "\<exists>att. signed_record (sdkOf N) (dwalletBcs (sdkOf N)) DWalletKind (recordOfAttestation a) (ns_trusted s) att \<and>
     s' = resumed N t s \<and> ax_publicKey x = dw_public_key att \<and> ax_publicOutput x = dw_public_output att \<and>
     signDWalletShareAcceptance (sdkOf N) (ec_user (cn_cryptography N)) (en_ed25519 (cn_env N)) (kp_secretKey holder) a
       (ns_trusted s) sent = Inr (ax_acceptance x)"
proof -
  from assms(1) obtain att
    where att: "signed_record (sdkOf N) (dwalletBcs (sdkOf N)) DWalletKind (recordOfAttestation a) (ns_trusted s) att"
    by (auto simp: verifyAttestation_dwallet)
  from assms(2) decodedDWallet_Inr [OF att] att show ?thesis
    by (auto simp: signAcceptance_def result_simps)
qed

lemma accepted_dwallet_attested:
  assumes "verifyAttestation (sdkOf N) (Answer a) DWalletKind (cn_networkKeyId N) (ns_trusted s) c = Inr ()"
    and "curveNumberOf N = Inr n"
    and "signAcceptance N (sn_holder sh) a (dkgSent N req kind sh session (prepared, encrypted) sg) now s = Some (t, s', Inr x)"
  shows "\<exists>att. attested_dwallet N req (Some sh) (map_option sentSign sg) (kind = ImportedKeyVerificationKind) session
     prepared encrypted (ns_trusted s)
     (createdDWallet N n (ax_publicKey x) (ax_publicOutput x) prepared a imported (Some sh) (Some (ax_acceptance x))) att \<and>
     decodedDWallet N a = Inr att"
proof -
  from signAcceptance_Inr [OF assms(1,3)] obtain att
    where att: "signed_record (sdkOf N) (dwalletBcs (sdkOf N)) DWalletKind (recordOfAttestation a) (ns_trusted s) att"
      and x: "ax_publicKey x = dw_public_key att" "ax_publicOutput x = dw_public_output att"
      and acc: "signDWalletShareAcceptance (sdkOf N) (ec_user (cn_cryptography N)) (en_ed25519 (cn_env N))
        (kp_secretKey (sn_holder sh)) a (ns_trusted s) (dkgSent N req kind sh session (prepared, encrypted) sg) =
        Inr (ax_acceptance x)" by blast
  from att have parsed: "parse (dwalletBcs (sdkOf N)) (attestation_data a) = Some (V1 d) \<longleftrightarrow> d = att" for d
    by (auto simp: signed_record_def decodes_def)
  from assms(2) have n: "n = indexOf ATTESTATION_CURVES (attested_curve (cn_curve N))"
    using attested_curve_number [of "attested_curve (cn_curve N)" "cn_curve N"]
    by (simp add: curveNumberOf_def result_simps)
  from acc att n show ?thesis
    unfolding signDWalletShareAcceptance_iff parsed
    by (auto simp: attested_dwallet_def createdDWallet_def dkgSent_def x decodedDWallet_Inr [OF att] orEmpty_def)
qed


lemma public_dwallet_attested:
  assumes "curveNumberOf N = Inr n"
    and "verifyPublicShareDkgAnswer (sdkOf N) (ec_user (cn_cryptography N)) (AttestationResponse a) trusted
           (dkgPublicSent N req session (prepared, encrypted) sg) = Inr x"
  shows "\<exists>att. attested_dwallet N req None (map_option sentSign sg) False session prepared encrypted trusted
     (createdDWallet N n (pda_publicKey x) (pda_publicOutput x) prepared a None None None) att \<and>
     pda_signature x = dw_sign_during_dkg_signature att"
proof -
  from assms(1) have "n = indexOf ATTESTATION_CURVES (attested_curve (cn_curve N))"
    using attested_curve_number [of "attested_curve (cn_curve N)" "cn_curve N"]
    by (simp add: curveNumberOf_def result_simps)
  with assms(2) show ?thesis
    unfolding verifyPublicShareDkgAnswer_iff
    by (auto simp: attested_dwallet_def createdDWallet_def dkgPublicSent_def answered_with_def)
qed

lemma dkgAnswer_Inr:
  assumes "epochs_grow N" "se_kept sent = (prepared, encrypted)"
    and "dkgAnswer N req share sg response sent now s = Some (t, s', Inr (d, signature))"
  shows "moves N s s' [] \<and>
     (\<exists>att. attested_dwallet N req share (map_option sentSign sg) False (se_session sent) prepared encrypted (ns_trusted s) d att \<and>
        dl_importedSessionIdentifier d = None \<and> signature = dw_sign_during_dkg_signature att)"
proof -
  from assms(3) obtain a n where a: "response = AttestationResponse a"
      "verifyAttestation (sdkOf N) (Answer a) DWalletKind (cn_networkKeyId N) (ns_trusted s) None = Inr ()"
    and n: "curveNumberOf N = Inr n"
    by (auto simp: dkgAnswer_def result_simps expectAttestation_Inr)
  show ?thesis
  proof (cases share)
    case (Some sh)
    with assms(2,3) a n obtain x
      where x: "signAcceptance N (sn_holder sh) a (dkgSent N req DkgRequestKind sh (se_session sent) (prepared, encrypted) sg)
          now s = Some (t, s', Inr x)"
        and signature: "signedDuringDkg N a = Inr signature"
        and d: "d = createdDWallet N n (ax_publicKey x) (ax_publicOutput x) prepared a None share (Some (ax_acceptance x))"
      by (auto simp: dkgAnswer_def result_simps expectAttestation_Inr)
    from accepted_dwallet_attested [OF a(2) n x, of None] signature
      signAcceptance_Inr [OF a(2) x] resumed_moves [OF assms(1)] Some show ?thesis
      by (auto simp: d signedDuringDkg_def createdDWallet_def)
  next
    case None
    with assms(2,3) a n obtain x
      where x: "verifyPublicShareDkgAnswer (sdkOf N) (ec_user (cn_cryptography N)) (AttestationResponse a) (ns_trusted s)
           (dkgPublicSent N req (se_session sent) (prepared, encrypted) sg) = Inr x"
        and s': "s' = resumed N t s" "signature = pda_signature x"
        and d: "d = createdDWallet N n (pda_publicKey x) (pda_publicOutput x) prepared a None None None"
      by (auto simp: dkgAnswer_def result_simps expectAttestation_Inr)
    from public_dwallet_attested [OF n x] resumed_moves [OF assms(1)] None show ?thesis
      by (auto simp: d s' createdDWallet_def)
  qed
qed

text \<open>The request is signed once, whether a presign is consumed or not.\<close>

lemma dkg_submitted:
  assumes "epochs_grow N" "dkg N req share sg now s = Some (t, s', Inr r)"
  obtains e response sent t2 s2 where "moves N s s2 [e]" "built_as N req (\<lambda>_. dkgBuild N share sg) sent (ns_issued s) e"
    "dkgAnswer N req share sg response sent t2 s2 = Some (t, s', Inr r)"
proof -
  note quiet = quiet_dkg [OF assms(1)]
  from assms(2) obtain p t1 s1 response sent t2 s2
    where presign: "(case sg of None \<Rightarrow> returnN None
        | Some g \<Rightarrow> bindN (signDuringDkgPresign N req g) (\<lambda>p. returnN (Some p))) now s = Some (t1, s1, Inr p)"
      and sub: "(case p of
          None \<Rightarrow> submit N req (\<lambda>_. dkgBuild N share sg) (dkgDescribe N) REBUILDS_AFTER_EPOCH_CLOSE
        | Some att \<Rightarrow> submitWithPresign N req (pr_epoch att) (signsRequest N req) (dkgBuild N share sg) (dkgDescribe N)) t1 s1
          = Some (t2, s2, Inr (response, sent))"
      and answer: "dkgAnswer N req share sg response sent t2 s2 = Some (t, s', Inr r)"
    by (auto simp: dkg_def result_simps)
  from presign have s1: "s1 = s"
    by (auto simp: signDuringDkgPresign_def result_simps Let_def split: option.split_asm)
  have "\<exists>e. moves N s s2 [e] \<and> built_as N req (\<lambda>_. dkgBuild N share sg) sent (ns_issued s) e"
  proof (cases p)
    case None
    with sub s1 submit_answered [OF assms(1) quiet] describes_creation(1) show ?thesis by fastforce
  next
    case (Some att)
    with sub s1 have "submitWithPresign N req (pr_epoch att) (signsRequest N req) (dkgBuild N share sg) (dkgDescribe N) t1 s
        = Some (t2, s2, Inr (response, sent))" by simp
    with submitWithPresign_answered [OF assms(1) quiet signsRequest_steps(1) [OF assms(1)] plain_dkg signsRequest_steps(2,3)]
    show ?thesis by blast
  qed
  with answer that show thesis by blast
qed

text \<open>C4. A dWallet that a creating call returns is the one the network attests for the request it signed: the one
  request signed asks for the DKG prepared for its session, and the answer, checked under keys the
  connection trusts, is of that session, of the user's own output, key and share, and of the share's
  holder; the signature returned with it is the attestation's.\<close>

theorem dkg_sound:
  assumes "epochs_grow N" "kept_by_others N good" "good (ns_trusted s)"
    and "dkg N req share sg now s = Some (t, s', Inr (d, signature))"
  shows "\<exists>e att trusted prepared encrypted request.
     ns_signed s' = ns_signed s @ [e] \<and> request_signed N req request e \<and> asks_dkg N share prepared encrypted request \<and>
     prepared_for N share (prepareDKGForSessionIdentifier (cn_cryptography N) (cn_protocolPublicParameters N) (cn_curve N)
       (sg_session e)) prepared encrypted \<and>
     good trusted \<and>
     attested_dwallet N req share (map_option sentSign sg) False (sg_session e) prepared encrypted trusted d att \<and>
     dl_importedSessionIdentifier d = None \<and> signature = dw_sign_during_dkg_signature att"
proof -
  from dkg_submitted [OF assms(1,4)] obtain e response sent t2 s2
    where e: "moves N s s2 [e]" and built: "built_as N req (\<lambda>_. dkgBuild N share sg) sent (ns_issued s) e"
      and answer: "dkgAnswer N req share sg response sent t2 s2 = Some (t, s', Inr (d, signature))" .
  from built obtain prepared encrypted request where kept: "se_kept sent = (prepared, encrypted)"
    and session: "se_session sent = sg_session e"
    and asked: "request_signed N req request e" "asks_dkg N share prepared encrypted request"
      "prepared_for N share (prepareDKGForSessionIdentifier (cn_cryptography N) (cn_protocolPublicParameters N) (cn_curve N)
        (sg_session e)) prepared encrypted"
    by (auto simp: built_as_def entry_of_def dest!: dkgBuild_Inr)
  from dkgAnswer_Inr [OF assms(1) kept answer] obtain att where "moves N s2 s' []"
    "attested_dwallet N req share (map_option sentSign sg) False (sg_session e) prepared encrypted (ns_trusted s2) d att"
    "dl_importedSessionIdentifier d = None" "signature = dw_sign_during_dkg_signature att"
    unfolding session by blast
  moreover from this(1) e have "ns_signed s' = ns_signed s @ [e]" by (simp add: moves_def)
  moreover have "good (ns_trusted s2)" by (rule moves_trusted [OF e assms(2,3)])
  ultimately show ?thesis using asked by blast
qed

text \<open>Importing a key returns the dWallet attested for the very import: the one request signed asks for the
  verification prepared from the caller's key for its session, and the answer is an imported dWallet of
  that session, of the user's own output and key, whose encrypted share the holder accepted.\<close>

theorem verifyImportedKey_sound:
  assumes "epochs_grow N" "kept_by_others N good" "good (ns_trusted s)"
    and "verifyImportedKey N req share secretKey now s = Some (t, s', Inr d)"
  shows "\<exists>e att trusted prepared encrypted n request.
     ns_signed s' = ns_signed s @ [e] \<and> request_signed N req request e \<and> asks_import N share prepared encrypted request \<and>
     curveNumberOf N = Inr n \<and>
     prepared_for N (Some share) (prepareImportedKeyVerification (cn_cryptography N) (cn_protocolPublicParameters N)
       (cn_curve N) (sg_session e) (importedSecretKeyEncoding n secretKey)) prepared encrypted \<and>
     good trusted \<and> attested_dwallet N req (Some share) None True (sg_session e) prepared encrypted trusted d att \<and>
     dl_importedSessionIdentifier d = Some (sg_session e)"
proof -
  from assms(4) obtain response sent t1 s1 a n x
    where sub: "submit N req (\<lambda>_. importBuild N share secretKey) (importDescribe N) REBUILDS_AFTER_EPOCH_CLOSE now s
        = Some (t1, s1, Inr (response, sent))"
      and a: "verifyAttestation (sdkOf N) (Answer a) DWalletKind (cn_networkKeyId N) (ns_trusted s1) None = Inr ()"
      and n: "curveNumberOf N = Inr n"
      and x: "signAcceptance N (sn_holder share) a
          (dkgSent N req ImportedKeyVerificationKind share (se_session sent) (se_kept sent) None) t1 s1 = Some (t, s', Inr x)"
      and d: "d = createdDWallet N n (ax_publicKey x) (ax_publicOutput x) (fst (se_kept sent)) a
          (Some (se_session sent)) (Some share) (Some (ax_acceptance x))"
    by (auto simp: verifyImportedKey_def result_simps expectAttestation_Inr)
  from submit_answered [OF assms(1) quiet_import [OF assms(1)] sub] describes_creation(2) obtain e
    where e: "moves N s s1 [e]" and built: "built_as N req (\<lambda>_. importBuild N share secretKey) sent (ns_issued s) e" by auto
  from built n obtain prepared encrypted request where kept: "se_kept sent = (prepared, encrypted)"
    and session: "se_session sent = sg_session e"
    and asked: "request_signed N req request e" "asks_import N share prepared encrypted request"
      "prepared_for N (Some share) (prepareImportedKeyVerification (cn_cryptography N) (cn_protocolPublicParameters N)
        (cn_curve N) (sg_session e) (importedSecretKeyEncoding n secretKey)) prepared encrypted"
    by (auto simp: built_as_def entry_of_def dest!: importBuild_Inr)
  from accepted_dwallet_attested [OF a n x [unfolded kept session], of "Some (sg_session e)"] obtain att
    where "attested_dwallet N req (Some share) None True (sg_session e) prepared encrypted (ns_trusted s1) d att"
    by (auto simp: d kept session)
  moreover have "moves N s1 s' []" using signAcceptance_Inr [OF a x] resumed_moves [OF assms(1)] by auto
  with e have "ns_signed s' = ns_signed s @ [e]" by (simp add: moves_def)
  moreover have "good (ns_trusted s1)" by (rule moves_trusted [OF e assms(2,3)])
  moreover have "dl_importedSessionIdentifier d = Some (sg_session e)" by (simp add: d session createdDWallet_def)
  ultimately show ?thesis using asked n by blast
qed

end
