(* ===== verification/Signing_Laws.thy ===== *)
theory Signing_Laws
  imports Creation_Laws
begin

text \<open>
  What the calls on a dWallet that exists return: a presign attested for this requester, its session and
  its epoch; a signature that verifies under the output the ownership check read, signed for on that
  check; and the attestation of a share for the very request it answers.
\<close>

section \<open>Presigns\<close>

lemma quiet_fixed:
  assumes "epochs_grow N" "\<And>session kept. describe session kept = returnN kind"
  shows "quiet_request N (fixedRequest request) describe"
  unfolding quiet_request_def fixedRequest_def assms(2) by (intro conjI allI still_intros)

text \<open>The presign \<open>p\<close> is attested for this requester, for the session and the epoch of the request signed under \<open>e\<close>.\<close>

definition attested_presign ::
    "network_connection \<Rightarrow> requester \<Rightarrow> dwallet_signature_algorithm \<Rightarrow> bytes option \<Rightarrow> signed_entry \<Rightarrow> trusted_network_keys
      \<Rightarrow> presign \<Rightarrow> presign_attestation \<Rightarrow> bool" where
  "attested_presign N req algorithm dwalletPublicKey e trusted p att \<longleftrightarrow>
     signed_record (sdkOf N) (presignBcs (sdkOf N)) PresignKind (recordOfAttestation (pg_attestation p)) trusted att \<and>
     key_named (network trusted) (cn_networkKeyId N) (network_pubkey (pg_attestation p)) \<and>
     pr_session_identifier att = sg_session e \<and> pr_epoch att = sg_epoch e \<and>
     pr_user_pubkey att = kp_publicKey (rq_keypair req) \<and>
     pr_curve att = attested_curve (cn_curve N) \<and> pr_signature_algorithm att = algorithm \<and>
     pr_dwallet_public_key att = dwalletPublicKey \<and>
     pg_reference p = pr_presign_session_identifier att \<and> pg_material p = pr_presign_data att \<and> pg_epoch p = sg_epoch e"

lemma presignCall_moves:
  assumes "epochs_grow N" "presignCall N req request algorithm k now s = Some (t, s', r)"
  shows "\<exists>es. moves N s s' es"
proof -
  have quiet: "quiet_request N (fixedRequest request) (\<lambda>_ _. returnN PendingPresign)"
    by (rule quiet_fixed [OF assms(1)]) simp
  show ?thesis
  proof (rule then_still [OF assms(2) [unfolded presignCall_def], where N = N], intro still_intros)
    fix err
    assume "submit N req (fixedRequest request) (\<lambda>_ _. returnN PendingPresign) REBUILDS_AFTER_EPOCH_CLOSE now s = Some (t, s', Inl err)"
    from submit_moves [OF assms(1) quiet this] show ?thesis by blast
  next
    fix t1 s1 x
    assume "submit N req (fixedRequest request) (\<lambda>_ _. returnN PendingPresign) REBUILDS_AFTER_EPOCH_CLOSE now s = Some (t1, s1, Inr x)"
      and still: "moves N s1 s' []"
    from submit_moves [OF assms(1) quiet this(1)] obtain es where "moves N s s1 es" by blast
    from moves_then_still [OF this still] show ?thesis ..
  qed
qed

lemma presignCall_Inr:
  assumes "epochs_grow N" "kept_by_others N good" "good (ns_trusted s)"
    and "presignCall N req request algorithm k now s = Some (t, s', Inr p)"
  shows "\<exists>es e att. moves N s s' (es @ [e]) \<and> length es \<le> 2 \<and> request_signed N req request e \<and> good (ns_trusted s') \<and>
     attested_presign N req algorithm k e (ns_trusted s') p att"
proof -
  have quiet: "quiet_request N (fixedRequest request) (\<lambda>_ _. returnN PendingPresign)"
    by (rule quiet_fixed [OF assms(1)]) simp
  from assms(4) obtain response sent data att
    where sub: "submit N req (fixedRequest request) (\<lambda>_ _. returnN PendingPresign) REBUILDS_AFTER_EPOCH_CLOSE now s
        = Some (t, s', Inr (response, sent))"
      and answer: "verifyPresignAnswer (sdkOf N) response (ns_trusted s')
        \<lparr>spr_sessionIdentifier = se_session sent, spr_epoch = se_epoch sent, spr_curve = attested_curve (cn_curve N),
         spr_signatureAlgorithm = algorithm, spr_dwalletPublicKey = k, spr_networkKeyId = cn_networkKeyId N\<rparr> = Inr data"
      and own: "pr_user_pubkey data = kp_publicKey (rq_keypair req)"
      and att: "answeredAttestation response = Inr att"
      and p: "p = \<lparr>pg_reference = pr_presign_session_identifier data, pg_material = pr_presign_data data,
          pg_attestation = att, pg_epoch = se_epoch sent\<rparr>"
    unfolding presignCall_def by (auto simp: result_simps split: if_split_asm)
  from submit_answered [OF assms(1) quiet sub] obtain es e where e: "moves N s s' (es @ [e])" "length es \<le> 2"
    and built: "built_as N req (fixedRequest request) sent (ns_issued s) e" by (auto simp: REBUILDS_AFTER_EPOCH_CLOSE_def)
  from built have signed: "request_signed N req request e" "sg_epoch e = se_epoch sent" "sg_session e = se_session sent"
    by (auto simp: built_as_def entry_of_def fixedRequest_def plainObject_def result_simps)
  from answer own att signed have "attested_presign N req algorithm k e (ns_trusted s') p data"
    unfolding verifyPresignAnswer_iff
    by (auto simp: attested_presign_def p answered_with_def answeredAttestation_def)
  with e signed moves_trusted [OF e(1) assms(2,3)] show ?thesis by blast
qed

text \<open>Every round of the wait for the pool submits once; the last one is answered.\<close>

lemma poolLoop_Inr:
  assumes "epochs_grow N" "kept_by_others N good" "good (ns_trusted s)"
    and "poolLoop N req request algorithm deadline now s = Some (t, s', Inr p)"
  shows "\<exists>es e att. moves N s s' (es @ [e]) \<and> request_signed N req request e \<and> good (ns_trusted s') \<and>
     attested_presign N req algorithm None e (ns_trusted s') p att"
proof -
  let ?Q = "\<lambda>N req request algorithm s s' p. \<exists>es e att. moves N s s' (es @ [e]) \<and> request_signed N req request e \<and>
     good (ns_trusted s') \<and> attested_presign N req algorithm None e (ns_trusted s') p att"
  let ?P = "\<lambda>N req request algorithm s (y :: time \<times> net_state \<times> (engine_error + presign)). epochs_grow N \<and> kept_by_others N good \<and> good (ns_trusted s) \<longrightarrow>
      (\<forall>q. snd (snd y) = Inr q \<longrightarrow> ?Q N req request algorithm s (fst (snd y)) q)"
  have "?P N req request algorithm s (t, s', Inr p)"
  proof (rule poolLoop.raw_induct [where P = "\<lambda>N req request algorithm deadline now s y. ?P N req request algorithm s y",
        OF _ assms(4)], intro impI allI, elim conjE)
    fix f N req request algorithm deadline now s y q
    assume IH: "\<And>N req request algorithm deadline now s y. f N req request algorithm deadline now s = Some y \<Longrightarrow>
        ?P N req request algorithm s y"
      and eq: "(case presignCall N req request algorithm None now s of
        None \<Rightarrow> None
      | Some (t, s', Inr p) \<Rightarrow> Some (t, s', Inr p)
      | Some (t, s', Inl e) \<Rightarrow>
          if \<not> textIncludes PRESIGN_POOL_EMPTY_REFUSAL (engineMessage e) \<or> t \<ge> deadline then Some (t, s', Inl e)
          else let later = t + POOL_RETRY_MS + int (lagOf (cn_client N) t)
               in f N req request algorithm deadline later (resumed N later s')) = Some y"
      and grow: "epochs_grow N" and good: "kept_by_others N good" "good (ns_trusted s)" and q: "snd (snd y) = Inr q"
    from eq obtain t1 s1 r1 where call: "presignCall N req request algorithm None now s = Some (t1, s1, r1)"
      by (auto split: option.split_asm)
    show "?Q N req request algorithm s (fst (snd y)) q"
    proof (cases r1)
      case (Inr p1)
      with eq call q have y: "y = (t1, s1, Inr q)" by auto
      with call Inr eq have "presignCall N req request algorithm None now s = Some (t1, s1, Inr q)" by simp
      from presignCall_Inr [OF grow good this] y show ?thesis by auto
    next
      case (Inl err)
      let ?later = "t1 + POOL_RETRY_MS + int (lagOf (cn_client N) t1)"
      from eq call Inl q have rest: "f N req request algorithm deadline ?later (resumed N ?later s1) = Some y"
        by (auto simp: Let_def split: if_split_asm)
      from presignCall_moves [OF grow call] obtain es where "moves N s s1 es" ..
      from moves_then_still [OF this resumed_moves [OF grow]] have m: "moves N s (resumed N ?later s1) es" .
      from IH [OF rest] grow good moves_trusted [OF m good] q obtain es' e att
        where "moves N (resumed N ?later s1) (fst (snd y)) (es' @ [e])" "request_signed N req request e"
          "good (ns_trusted (fst (snd y)))" "attested_presign N req algorithm None e (ns_trusted (fst (snd y))) q att" by blast
      moreover from moves_trans [OF m this(1)] have "moves N s (fst (snd y)) ((es @ es') @ [e])" by simp
      ultimately show ?thesis by blast
    qed
  qed
  with assms show ?thesis by auto
qed

text \<open>C16. A presign a call returns is attested, under a key the connection trusts and the network key it serves, for
  this requester's key and for the session and the epoch of the last request the call signed, which asks
  for a presign of the scheme's algorithm on the connection's curve; it carries the reference and the
  material of that attestation, and its epoch.\<close>

theorem requestPresign_sound:
  assumes "epochs_grow N" "kept_by_others N good" "good (ns_trusted s)"
    and "requestPresign N req scheme poolWaitMs now s = Some (t, s', Inr p)"
  shows "\<exists>es e att algorithm. ns_signed s' = ns_signed s @ es @ [e] \<and> algorithmOf N scheme = Inr algorithm \<and>
     request_signed N req (Presign \<lparr>pq_network_key_id = cn_networkKeyId N, pq_curve = attested_curve (cn_curve N),
       pq_signature_algorithm = algorithm\<rparr>) e \<and>
     good (ns_trusted s') \<and> attested_presign N req algorithm None e (ns_trusted s') p att"
proof -
  from assms(4) obtain algorithm deadline where algorithm: "algorithmOf N scheme = Inr algorithm"
    and loop: "poolLoop N req (Presign \<lparr>pq_network_key_id = cn_networkKeyId N, pq_curve = attested_curve (cn_curve N),
        pq_signature_algorithm = algorithm\<rparr>) algorithm deadline now s = Some (t, s', Inr p)"
    by (auto simp: requestPresign_def presignRequest_def result_simps)
  from poolLoop_Inr [OF assms(1-3) loop] algorithm show ?thesis by (fastforce simp: moves_def)
qed

theorem requestPresignForDWallet_sound:
  assumes "epochs_grow N" "kept_by_others N good" "good (ns_trusted s)"
    and "requestPresignForDWallet N req d scheme now s = Some (t, s', Inr p)"
  shows "\<exists>es e att algorithm. ns_signed s' = ns_signed s @ es @ [e] \<and> algorithmOf N scheme = Inr algorithm \<and>
     dl_networkKeyId d = cn_networkKeyId N \<and> good (ns_trusted s') \<and>
     attested_presign N req algorithm (Some (dl_publicKey d)) e (ns_trusted s') p att"
proof -
  from assms(4) obtain algorithm request where algorithm: "algorithmOf N scheme = Inr algorithm"
      "dl_networkKeyId d = cn_networkKeyId N"
    and call: "presignCall N req request algorithm (Some (dl_publicKey d)) now s = Some (t, s', Inr p)"
    by (auto simp: requestPresignForDWallet_def requireServedDWallet_def result_simps)
  from presignCall_Inr [OF assms(1-3) call] algorithm show ?thesis by (fastforce simp: moves_def)
qed


section \<open>Signatures\<close>

text \<open>A read of the chain's epoch answers after its question.\<close>

definition chain_answers_later :: "network_connection \<Rightarrow> bool" where
  "chain_answers_later N \<longleftrightarrow> (\<forall>now t r. cn_chainEpoch N now = Some (t, r) \<longrightarrow> now \<le> t)"

lemma readChainEpoch_later:
  "chain_answers_later N \<Longrightarrow> readChainEpoch N now s = Some (t, s', Inr epoch) \<Longrightarrow> now \<le> t"
  unfolding chain_answers_later_def readChainEpoch_def
  by (auto simp: bindN_def awaitRead_def Let_def mapErr_def split: option.split_asm sum.split_asm)

text \<open>The step that signs a request built at once, and the state it signs in.\<close>

lemma signAndSend_signs:
  assumes "\<And>d object. keeps_still N (sign d object)"
    and "signAndSend N req epoch sign (\<lambda>_ _. returnN (object, kept)) now s = Some (t, s', Inr ended)"
  shows "\<exists>s1 t1 s2 out preimage e. moves N s s1 [] \<and>
     sign (signedData req (requestNetworkValue (cn_network N)) epoch preimage (ro_request object)) object now s1 =
       Some (t1, s2, Inr out) \<and> ns_signed s' = ns_signed s @ [e] \<and> sg_at e = now \<and> sg_signed e = grpcRequest out"
proof -
  from assms(2) obtain preimage t1 s1 t3 s3 out where drawn: "freshPreimage N now s = Some (t1, s1, Inr preimage)"
    and sign: "sign (signedData req (requestNetworkValue (cn_network N)) epoch preimage (ro_request object)) object t1 s1
        = Some (t3, s3, Inr out)"
    and sent: "sendBuilt N out t1 \<lparr>se_epoch = epoch, se_session = sessionIdentifier N req epoch preimage, se_kept = kept\<rparr> t3 s3
        = Some (t, s', Inr ended)"
    by (auto simp: signAndSend_def Let_def result_simps)
  from drawn have t1: "t1 = now" by (simp add: freshPreimage_def)
  note m1 = keeps_stillD [OF keeps_still_freshPreimage drawn]
  from moves_still [OF m1 keeps_stillD [OF assms(1) sign]] have "ns_signed s3 = ns_signed s" by (simp add: moves_def)
  with sendBuilt_Inr [OF sent] have "\<exists>e. ns_signed s' = ns_signed s @ [e] \<and> sg_at e = now \<and> sg_signed e = grpcRequest out"
    by (simp add: t1)
  with sign [unfolded t1] m1 show ?thesis by blast
qed

lemma submitWithPresign_signs:
  assumes "epochs_grow N" "chain_answers_later N" "\<And>d object. keeps_still N (sign d object)"
    and "\<And>session kept. keeps_still N (describe session kept)"
    and "submitWithPresign N req epoch sign (\<lambda>_. returnN (object, kept)) describe now s = Some (t, s', Inr (response, sent))"
  shows "\<exists>at s1 t1 s2 out preimage e. now \<le> at \<and> moves N s s1 [] \<and>
     sign (signedData req (requestNetworkValue (cn_network N)) epoch preimage (ro_request object)) object at s1 =
       Some (t1, s2, Inr out) \<and> ns_signed s' = ns_signed s @ [e] \<and> sg_at e = at \<and> sg_signed e = grpcRequest out"
proof -
  from assms(5) obtain chainEpoch t1 s1 t2 s2 ended
    where read: "readChainEpoch N now s = Some (t1, s1, Inr chainEpoch)"
      and sending: "signAndSend N req epoch sign (\<lambda>_ _. returnN (object, kept)) t1 s1 = Some (t2, s2, Inr ended)"
      and rest: "(case ended of
          Answered response sent \<Rightarrow> returnN (response, sent)
        | ClosedBeforeAnswer sent refusal \<Rightarrow>
            bindN (pendingOf N req sent describe) (\<lambda>pending.
            bindN (outcomeAfterEpochClose N pending) (\<lambda>outcome.
            if outcome = NotRun
            then withState (\<lambda>s. throwN (PresignExpiredWithTheEpoch epoch (ns_epoch s)))
            else answerOrThrow sent refusal outcome pending))) t2 s2 = Some (t, s', Inr (response, sent))"
    unfolding submitWithPresign_def by (auto simp: result_simps split: if_split_asm)
  have "moves N s2 s' []"
  proof (cases ended)
    case (Answered response sent)
    with rest show ?thesis by (auto simp: result_simps)
  next
    case (ClosedBeforeAnswer sent refusal)
    show ?thesis
      by (rule closed_answer [OF assms(1,4) rest [unfolded ClosedBeforeAnswer sent_outcome.case]])
        (auto simp: result_simps split: if_split_asm dest: answerOrThrow_Inr)
  qed
  moreover note m1 = keeps_stillD [OF keeps_still_readChainEpoch [OF assms(1)] read]
  ultimately have signed: "ns_signed s' = ns_signed s2" "ns_signed s1 = ns_signed s" by (simp_all add: moves_def)
  from signAndSend_signs [OF assms(3) sending] readChainEpoch_later [OF assms(2) read] moves_still [OF m1]
  show ?thesis unfolding signed by blast
qed

text \<open>A dWallet's sign request is signed on the ownership result given, at the time of the signing.\<close>

lemma signsDWalletRequest_rests:
  assumes "codec_ok (signedRequestDataBcs (sdkOf N))" "signOfRequest (req_request d) = Some q"
    and "signsDWalletRequest N req usable d object at s = Some (t, s', Inr out)"
  shows "\<exists>st. issuedGet (ns_issued s) usable = Some st \<and> \<not> is_waiting st \<and>
     is_chain st = chainOfRequest (req_chain_id d) \<and> is_holder st = is_holder (us_shown usable) \<and>
     attestation_data (is_attestation st) = attestation_data (sg_dwallet_attestation q) \<and>
     at - is_verifiedAt st \<le> DWALLET_USABLE_MAX_AGE_MS"
proof -
  let ?own = "\<lparr>ow_userKey = is_holder (us_shown usable), ow_reader = None, ow_usable = Some usable\<rparr>"
  have "\<exists>k out' store'. signDWalletSignRequest (sdkOf N) (en_realCryptography (cn_env N)) (edSign (en_ed25519 (cn_env N)))
      k d ?own at at (ns_issued s) = Inr (out', store')"
  proof (cases "rq_signer req")
    case None
    with assms(3) show ?thesis by (auto simp: signsDWalletRequest_def signFor_def result_simps)
  next
    case (Some signer)
    with assms(3) show ?thesis by (auto simp: signsDWalletRequest_def signFor_def result_simps)
  qed
  then obtain k out' store' where sign: "signDWalletSignRequest (sdkOf N) (en_realCryptography (cn_env N))
      (edSign (en_ed25519 (cn_env N))) k d ?own at at (ns_issued s) = Inr (out', store')" by blast
  from signDWalletSignRequest_Inr [OF sign] obtain parsed q' st
    where "serialize (signedRequestDataBcs (sdkOf N)) d = Some (sr_signedRequestData out')"
      "parse (signedRequestDataBcs (sdkOf N)) (sr_signedRequestData out') = Some parsed"
      "signOfRequest (req_request parsed) = Some q'"
      and rests: "sign_rests_on (sdkOf N) (en_realCryptography (cn_env N)) ?own q' (chainOfRequest (req_chain_id parsed)) at at
        (ns_issued s) st" by blast
  with assms(1,2) have "parsed = d" "q' = q" by (auto simp: codec_ok_def)
  with rests show ?thesis by (auto simp: sign_rests_on_def)
qed


lemma quiet_returned:
  "quiet_request N (\<lambda>_ _. returnN x) (\<lambda>_ _. returnN kind)"
  unfolding quiet_request_def by (intro conjI allI still_intros)

lemma presign_submission:
  assumes "epochs_grow N" "\<And>d object. keeps_still N (sign d object)" "\<And>d object. throws_plainly (sign d object)"
    and "signs_data N sign"
    and "submitWithPresign N req epoch sign (\<lambda>_. returnN (plainObject request, ())) (\<lambda>_ _. returnN kind) now s
           = Some (t, s', Inr (response, sent))"
  shows "\<exists>e. moves N s s' [e] \<and> sg_epoch e = epoch \<and> entry_of sent e \<and> request_signed N req request e"
proof -
  from submitWithPresign_answered [OF assms(1) quiet_returned assms(2) throws_plainly_steps(1) throws_plainly_steps(1)
      assms(3,4,5)]
  show ?thesis by (auto simp: built_as_def plainObject_def result_simps)
qed

lemma signOfRequest_signRequestOf:
  "signOfRequest (signRequestOf imported args metadata scheme userSignature) =
     Some \<lparr>sg_message = sa_message args, sg_message_metadata = metadata, sg_signature_scheme = scheme,
           sg_presign_session_identifier = pg_reference (sa_presign args),
           sg_message_centralized_signature = userSignature,
           sg_dwallet_attestation = dl_attestation (sa_dwallet args), sg_signature_voucher = sa_voucher args\<rparr>"
  by (simp add: signRequestOf_def Let_def)

text \<open>A signature a call returns verifies, with the method of the scheme, under the output the ownership check
  read; the one request signed names the presign's epoch, the message, the voucher and the dWallet's
  attestation, and is signed on the very ownership result given, which is of this attestation on the
  requester's chain, leaves nothing waiting and is at most five minutes old when the signing begins.\<close>

theorem requestSignature_sound:
  assumes "epochs_grow N" "chain_answers_later N" "codec_ok (signedRequestDataBcs (sdkOf N))"
    and "requestSignature N req args now s = Some (t, s', Inr signature)"
  shows "\<exists>e request q scheme m st. ns_signed s' = ns_signed s @ [e] \<and> sg_epoch e = pg_epoch (sa_presign args) \<and>
     request_signed N req request e \<and> signOfRequest request = Some q \<and>
     sg_message q = sa_message args \<and> sg_signature_voucher q = sa_voucher args \<and>
     sg_presign_session_identifier q = pg_reference (sa_presign args) \<and>
     sg_dwallet_attestation q = dl_attestation (sa_dwallet args) \<and>
     issuedGet (ns_issued s) (sa_usable args) = Some st \<and> \<not> is_waiting st \<and> is_chain st = chainOfRequest (rq_chain req) \<and>
     attestation_data (is_attestation st) = attestation_data (dl_attestation (sa_dwallet args)) \<and>
     now \<le> sg_at e \<and> sg_at e - is_verifiedAt st \<le> 300000 \<and>
     signatureSchemeNumber (sa_signatureScheme args) = Inr scheme \<and>
     signingMethod (ec_user (cn_cryptography N)) (dl_curve (sa_dwallet args)) scheme (orEmpty (sa_messageMetadata args)) = Some m \<and>
     verifiesBy (ec_user (cn_cryptography N)) m (is_publicOutput (us_shown (sa_usable args))) (sa_message args) signature = Inr ()"
proof -
  let ?d = "sa_dwallet args" and ?metadata = "orEmpty (sa_messageMetadata args)" and ?R = "en_realCryptography (cn_env N)"
  from assms(4) obtain scheme name imported userSignature t1 s1 response sent t2 s2
    where scheme: "signatureSchemeNumber (sa_signatureScheme args) = Inr scheme"
      and out: "dl_networkPublicOutput ?d = is_publicOutput (us_shown (sa_usable args))"
      and user: "userSignMessage N ?d (sa_presign args) (sa_message args) ?metadata scheme now s = Some (t1, s1, Inr userSignature)"
      and sub: "submitWithPresign N req (pg_epoch (sa_presign args)) (signsDWalletRequest N req (sa_usable args))
          (\<lambda>_. returnN (plainObject (signRequestOf imported args ?metadata name userSignature), ()))
          (\<lambda>_ _. returnN (PendingSign (sa_voucher args))) t1 s1 = Some (t2, s2, Inr (response, sent))"
      and answer: "compute N (signatureFromResponseVerified (ec_user (cn_cryptography N)) response
          \<lparr>es_curve = dl_curve ?d, es_signatureScheme = scheme, es_message = sa_message args,
           es_messageMetadata = ?metadata, es_output = dl_networkPublicOutput ?d\<rparr>) t2 s2 = Some (t, s', Inr signature)"
    unfolding requestSignature_def Let_def by (auto simp: result_simps requireCheckedOutput_def)
  let ?request = "signRequestOf imported args ?metadata name userSignature"
  from user have m1: "moves N s s1 []" and later: "now \<le> t1"
    by (auto simp: userSignMessage_def result_simps intro: resumed_moves [OF assms(1)])
  from presign_submission [OF assms(1) signsDWalletRequest_steps(1) [OF assms(1)] signsDWalletRequest_steps(2)
      signsDWalletRequest_data sub]
  obtain e where e: "moves N s1 s2 [e]" "sg_epoch e = pg_epoch (sa_presign args)" "request_signed N req ?request e" by blast
  have "keeps_still N (returnN (PendingSign (sa_voucher args)))" by (intro still_intros)
  from submitWithPresign_signs [OF assms(1,2) signsDWalletRequest_steps(1) [OF assms(1)] this sub] obtain at s3 t3 s4 x preimage
    where at: "t1 \<le> at" "moves N s1 s3 []" and signed: "\<exists>e'. ns_signed s2 = ns_signed s1 @ [e'] \<and> sg_at e' = at"
      and sign: "signsDWalletRequest N req (sa_usable args) (signedData req (requestNetworkValue (cn_network N))
        (pg_epoch (sa_presign args)) preimage ?request) (plainObject ?request) at s3 = Some (t3, s4, Inr x)"
    by (auto simp: plainObject_def)
  from signed e(1) have at_e: "sg_at e = at" by (simp add: moves_def)
  have request: "signOfRequest (req_request (signedData req net epoch preimage ?request)) = signOfRequest ?request" for net epoch
    by (simp add: signedData_def)
  from signsDWalletRequest_rests [OF assms(3) request [unfolded signOfRequest_signRequestOf] sign] obtain st
    where st: "issuedGet (ns_issued s) (sa_usable args) = Some st" "\<not> is_waiting st"
      "is_chain st = chainOfRequest (rq_chain req)"
      "attestation_data (is_attestation st) = attestation_data (dl_attestation ?d)" "at - is_verifiedAt st \<le> 300000"
    using m1 at(2) by (auto simp: signedData_def moves_def DWALLET_USABLE_MAX_AGE_MS_def)
  from answer obtain m where m: "signingMethod (ec_user (cn_cryptography N)) (dl_curve ?d) scheme ?metadata = Some m"
      "verifiesBy (ec_user (cn_cryptography N)) m (is_publicOutput (us_shown (sa_usable args))) (sa_message args) signature = Inr ()"
    and s': "s' = resumed N t s2"
    by (auto simp: result_simps signatureFromResponseVerified_iff out)
  from s' m1 e(1) have "ns_signed s' = ns_signed s @ [e]" by (simp add: moves_def resumed_def)
  with e st m scheme later at(1) show ?thesis
    by (intro exI [of _ e] exI [of _ ?request] exI exI [of _ scheme] exI [of _ m] exI [of _ st] conjI)
      (auto simp: signOfRequest_signRequestOf at_e)
qed


section \<open>Future signs\<close>

text \<open>C14. Step 1 of a future sign is signed once, for the presign's epoch, on an ownership check at most five minutes
  old that leaves nothing waiting; the partial signature returned is attested under a trusted key for that
  request's session and sender, with the dWallet's attestation, the presign, the voucher, the message and
  the scheme it named, and step 2 can be built from it.\<close>

theorem requestFutureSignature_sound:
  assumes "epochs_grow N" "kept_by_others N good" "good (ns_trusted s)"
    and "requestFutureSignature N req args now s = Some (t, s', Inr partial)"
  shows "\<exists>e fields st trusted. ns_signed s' = ns_signed s @ [e] \<and> sg_epoch e = pg_epoch (sa_presign args) \<and>
     request_signed N req (FutureSign fields) e \<and> fs_message fields = sa_message args \<and>
     fs_future_signature_voucher fields = sa_voucher args \<and> fs_dwallet_attestation fields = is_attestation st \<and>
     issuedGet (ns_issued s) (sa_usable args) = Some st \<and> \<not> is_waiting st \<and> now - is_verifiedAt st \<le> 300000 \<and>
     good trusted \<and>
     signed_record (sdkOf N) (partialSignatureBcs (sdkOf N)) PartialUserSignatureKind
       (recordOfAttestation (pp_partialUserSignatureAttestation partial)) trusted (pp_attested partial) \<and>
     pu_session_identifier (pp_attested partial) = sg_session e \<and>
     pu_intended_chain_sender (pp_attested partial) = rq_intendedChainSender req \<and>
     pu_dwallet_attestation_hash (pp_attested partial) =
       keccak_256 (sdkOf N) (attestation_data (dl_attestation (sa_dwallet args))) \<and>
     pu_presign_attestation_hash (pp_attested partial) =
       keccak_256 (sdkOf N) (attestation_data (pg_attestation (sa_presign args))) \<and>
     pu_message_digest (pp_attested partial) = keccak_256 (sdkOf N) (sa_message args) \<and>
     pp_message partial = sa_message args \<and>
     (\<exists>completion. completeFutureSignRequest (sdkOf N) (pp_partialUserSignatureAttestation partial)
        (pp_dwalletAttestation partial) (pp_message partial) (pp_messageMetadata partial)
        (pp_futureSignatureVoucher partial) = Inr completion)"
proof -
  let ?d = "sa_dwallet args" and ?metadata = "orEmpty (sa_messageMetadata args)"
  from assms(4) obtain scheme name userSignature t1 s1 request response sent t2 s2 att
    where user: "userSignMessage N ?d (sa_presign args) (sa_message args) ?metadata scheme now s = Some (t1, s1, Inr userSignature)"
      and request: "futureSignRequest (sdkOf N) (en_realCryptography (cn_env N)) (ns_issued s1)
          (futureSignArgs req args ?metadata userSignature name (ns_trusted s1)) t1 = Inr request"
      and sub: "submitWithPresign N req (pg_epoch (sa_presign args)) (signsRequest N req)
          (\<lambda>_. returnN (plainObject request, ())) (\<lambda>_ _. returnN (PendingFutureSignStepOne (sa_voucher args))) t1 s1
          = Some (t2, s2, Inr (response, sent))"
      and answer: "verifyFutureSignAnswer (sdkOf N) response (ns_trusted s2)
          \<lparr>sfs_sessionIdentifier = se_session sent, sfs_intendedChainSender = rq_intendedChainSender req,
           sfs_dwalletAttestation = dl_attestation ?d, sfs_presignAttestation = pg_attestation (sa_presign args),
           sfs_message = sa_message args, sfs_messageMetadata = ?metadata, sfs_signatureScheme = name,
           sfs_futureSignatureVoucher = sa_voucher args\<rparr> = Inr (pp_attested partial)"
      and att: "answeredAttestation response = Inr att" and s': "s' = s2"
      and partial: "pp_partialUserSignatureAttestation partial = att" "pp_dwalletAttestation partial = dl_attestation ?d"
        "pp_message partial = sa_message args" "pp_messageMetadata partial = ?metadata"
        "pp_futureSignatureVoucher partial = sa_voucher args"
    unfolding requestFutureSignature_def Let_def by (auto simp: result_simps verifiedDWallet_def)
  from user have m1: "moves N s s1 []" and later: "now \<le> t1" by (auto simp: userSignMessage_def result_simps intro: resumed_moves [OF assms(1)])
  from presign_submission [OF assms(1) signsRequest_steps(1) [OF assms(1)] signsRequest_steps(2,3) sub]
  obtain e where e: "moves N s1 s2 [e]" "sg_epoch e = pg_epoch (sa_presign args)" "entry_of sent e" "request_signed N req request e"
    by blast
  from request [unfolded futureSignRequest_Inr] m1 obtain st fields where st: "request = FutureSign fields"
      "fs_message fields = sa_message args" "fs_future_signature_voucher fields = sa_voucher args"
      "fs_dwallet_attestation fields = is_attestation st" "issuedGet (ns_issued s) (sa_usable args) = Some st"
      "\<not> is_waiting st" "now - is_verifiedAt st \<le> 300000" and voucher: "length (sa_voucher args) = 32"
    using later by (auto simp: futureSignArgs_def moves_def)
  from att have response: "response = AttestationResponse att"
    by (auto simp: answeredAttestation_def split: transaction_response.split_asm)
  from accepted_step_one_completes [OF answer [unfolded response]] voucher partial obtain completion
    where completion: "completeFutureSignRequest (sdkOf N) (pp_partialUserSignatureAttestation partial)
        (pp_dwalletAttestation partial) (pp_message partial) (pp_messageMetadata partial) (pp_futureSignatureVoucher partial)
        = Inr completion" by fastforce
  from answer [unfolded future_answer_Inr response] partial e(3) have checked:
    "signed_record (sdkOf N) (partialSignatureBcs (sdkOf N)) PartialUserSignatureKind
       (recordOfAttestation (pp_partialUserSignatureAttestation partial)) (ns_trusted s2) (pp_attested partial)"
    "pu_session_identifier (pp_attested partial) = sg_session e"
    "pu_intended_chain_sender (pp_attested partial) = rq_intendedChainSender req"
    "pu_dwallet_attestation_hash (pp_attested partial) = keccak_256 (sdkOf N) (attestation_data (dl_attestation ?d))"
    "pu_presign_attestation_hash (pp_attested partial) = keccak_256 (sdkOf N) (attestation_data (pg_attestation (sa_presign args)))"
    "pu_message_digest (pp_attested partial) = keccak_256 (sdkOf N) (sa_message args)"
    by (auto simp: answered_with_def entry_of_def)
  from m1 e(1) have m: "moves N s s' [e]" unfolding s' by (rule moves_still)
  from moves_trusted [OF this assms(2,3)] have good: "good (ns_trusted s2)" by (simp add: s')
  from m have "ns_signed s' = ns_signed s @ [e]" by (simp add: moves_def)
  with e(2,4) st checked completion good partial(3) show ?thesis by blast
qed

lemma completeFutureSignRequest_Inr:
  assumes "completeFutureSignRequest L a b message metadata voucher = Inr request"
    and "parse (partialSignatureBcs L) (attestation_data a) = Some (V1 p)" "parse (dwalletBcs L) (attestation_data b) = Some (V1 d)"
  shows "pu_dwallet_public_key p = dw_public_key d \<and> pu_future_signature_voucher p = voucher \<and>
     pu_dwallet_attestation_hash p = keccak_256 L (attestation_data b) \<and> pu_message_digest p = keccak_256 L message \<and>
     (\<exists>fields. pt_message fields = message \<and>
        request = (if dw_is_imported_key d then ImportedKeySignWithPartialUserSig fields else SignWithPartialUserSig fields))"
  using assms unfolding completeFutureSignRequest_def decodePartialUserSignatureAttestation_def decodeHeldDWallet_def
  by (auto simp: result_simps futureSignMessageDigests_def Let_def)

lemma signed_decodes:
  "signed_record L type kind (recordOfAttestation a) trusted v \<Longrightarrow> parse type (attestation_data a) = Some (V1 v)"
  unfolding signed_record_def decodes_def attestationData_recordOfAttestation by blast

lemma verifyAttestation_partial:
  "verifyAttestation L (Answer a) PartialUserSignatureKind key trusted curve = Inr () \<longleftrightarrow>
     key_named (network trusted) key (network_pubkey a) \<and>
     (\<exists>v. signed_record L (partialSignatureBcs L) PartialUserSignatureKind (recordOfAttestation a) trusted v)"
  unfolding verifyAttestation_def recordToVerify_def attestation_to_verify.case prod.case Let_def seqE_eq_Inr
    verifyAttestationRecord_Inr attested.simps verifyAttestationNetworkKey_Inr by simp

lemma verifiedAttestedDWallet_Inr:
  "verifiedAttestedDWallet N a now s = Some (t, s', Inr d) \<Longrightarrow>
     t = now \<and> s' = s \<and> key_named (network (ns_trusted s)) (cn_networkKeyId N) (network_pubkey a) \<and>
     signed_record (sdkOf N) (dwalletBcs (sdkOf N)) DWalletKind (recordOfAttestation a) (ns_trusted s) d"
  unfolding verifiedAttestedDWallet_def
  by (auto simp: result_simps verifyAttestation_dwallet decodedDWallet_Inr)

text \<open>C15. The signature that completes a future sign verifies, with the scheme's method, under the output of the
  dWallet's attestation, for the message the partial signature was made for: both attestations are checked
  under keys the connection trusts, and the request names both.\<close>

theorem completeFutureSignature_sound:
  assumes "epochs_grow N" "kept_by_others N good" "good (ns_trusted s)"
    and "completeFutureSignature N req partial now s = Some (t, s', Inr signature)"
  shows "\<exists>es e trusted d p fields m. ns_signed s' = ns_signed s @ es @ [e] \<and> length es \<le> 2 \<and> good trusted \<and>
     signed_record (sdkOf N) (dwalletBcs (sdkOf N)) DWalletKind (recordOfAttestation (pp_dwalletAttestation partial)) trusted d \<and>
     signed_record (sdkOf N) (partialSignatureBcs (sdkOf N)) PartialUserSignatureKind
       (recordOfAttestation (pp_partialUserSignatureAttestation partial)) trusted p \<and>
     pu_dwallet_public_key p = dw_public_key d \<and> pu_message_digest p = keccak_256 (sdkOf N) (pp_message partial) \<and>
     pu_dwallet_attestation_hash p = keccak_256 (sdkOf N) (attestation_data (pp_dwalletAttestation partial)) \<and>
     pu_future_signature_voucher p = pp_futureSignatureVoucher partial \<and>
     pt_message fields = pp_message partial \<and>
     request_signed N req (if dw_is_imported_key d then ImportedKeySignWithPartialUserSig fields
       else SignWithPartialUserSig fields) e \<and>
     signingMethod (ec_user (cn_cryptography N)) (indexOf ATTESTATION_CURVES (dw_curve d))
       (indexOf SIGNATURE_SCHEMES (pu_signature_scheme (pp_attested partial))) (pp_messageMetadata partial) = Some m \<and>
     verifiesBy (ec_user (cn_cryptography N)) m (dw_public_output d) (pp_message partial) signature = Inr ()"
proof -
  let ?U = "ec_user (cn_cryptography N)"
  from assms(4) obtain t0 s0 d request t1 s1 response sent
    where partial: "verifyAttestation (sdkOf N) (Answer (pp_partialUserSignatureAttestation partial)) PartialUserSignatureKind
          (cn_networkKeyId N) (ns_trusted s) None = Inr ()"
      and dwallet: "verifiedAttestedDWallet N (pp_dwalletAttestation partial) now s = Some (t0, s0, Inr d)"
      and request: "completeFutureSignRequest (sdkOf N) (pp_partialUserSignatureAttestation partial)
          (pp_dwalletAttestation partial) (pp_message partial) (pp_messageMetadata partial)
          (pp_futureSignatureVoucher partial) = Inr request"
      and sub: "submit N req (fixedRequest request)
          (\<lambda>_ _. returnN (PendingFutureSignCompletion (pp_futureSignatureVoucher partial))) REBUILDS_AFTER_EPOCH_CLOSE t0 s0
          = Some (t1, s1, Inr (response, sent))"
      and answer: "signatureFromResponseVerified ?U response
          \<lparr>es_curve = indexOf ATTESTATION_CURVES (dw_curve d),
           es_signatureScheme = indexOf SIGNATURE_SCHEMES (pu_signature_scheme (pp_attested partial)),
           es_message = pp_message partial, es_messageMetadata = pp_messageMetadata partial,
           es_output = dw_public_output d\<rparr> = Inr signature"
      and s': "s' = resumed N t s1"
    unfolding completeFutureSignature_def by (auto simp: result_simps)
  from partial obtain p where p: "signed_record (sdkOf N) (partialSignatureBcs (sdkOf N)) PartialUserSignatureKind
      (recordOfAttestation (pp_partialUserSignatureAttestation partial)) (ns_trusted s) p"
    by (auto simp: verifyAttestation_partial)
  from verifiedAttestedDWallet_Inr [OF dwallet] have s0: "s0 = s"
    and d: "signed_record (sdkOf N) (dwalletBcs (sdkOf N)) DWalletKind (recordOfAttestation (pp_dwalletAttestation partial))
      (ns_trusted s) d" by blast+
  from completeFutureSignRequest_Inr [OF request signed_decodes [OF p] signed_decodes [OF d]] obtain fields
    where same: "pu_dwallet_public_key p = dw_public_key d" "pu_future_signature_voucher p = pp_futureSignatureVoucher partial"
        "pu_dwallet_attestation_hash p = keccak_256 (sdkOf N) (attestation_data (pp_dwalletAttestation partial))"
        "pu_message_digest p = keccak_256 (sdkOf N) (pp_message partial)" "pt_message fields = pp_message partial"
      and fields: "request = (if dw_is_imported_key d then ImportedKeySignWithPartialUserSig fields
        else SignWithPartialUserSig fields)" by blast
  have "quiet_request N (fixedRequest request)
      (\<lambda>_ _. returnN (PendingFutureSignCompletion (pp_futureSignatureVoucher partial)))"
    by (rule quiet_fixed [OF assms(1)]) simp
  from submit_answered [OF assms(1) this sub [unfolded s0]] obtain es e where e: "moves N s s1 (es @ [e])" "length es \<le> 2"
    and built: "built_as N req (fixedRequest request) sent (ns_issued s) e" by (auto simp: REBUILDS_AFTER_EPOCH_CLOSE_def)
  from built have signed: "request_signed N req request e"
    by (auto simp: built_as_def fixedRequest_def plainObject_def result_simps)
  from answer obtain m where m: "signingMethod ?U (indexOf ATTESTATION_CURVES (dw_curve d))
        (indexOf SIGNATURE_SCHEMES (pu_signature_scheme (pp_attested partial))) (pp_messageMetadata partial) = Some m"
      "verifiesBy ?U m (dw_public_output d) (pp_message partial) signature = Inr ()"
    by (auto simp: signatureFromResponseVerified_iff)
  from e(1) have "ns_signed s' = ns_signed s @ es @ [e]" by (simp add: s' moves_def resumed_def)
  with e(2) assms(3) d p same m signed [unfolded fields] show ?thesis by blast
qed

end
