(* ===== verification/Share_Call_Laws.thy ===== *)
theory Share_Call_Laws
  imports Signing_Laws
begin

text \<open>
  What the calls on a user's share return: the attestation of the very share made public or encrypted, for
  the dWallet the connection verified and the request it signed, and the dWallet a new holder accepted.
\<close>

section \<open>Building from a checked result\<close>

lemma keeps_still_buildHolding: "keeps_still N (buildHolding f)"
  by (auto simp: keeps_still_def buildHolding_def moves_def split: sum.split_asm)

lemma buildHolding_Inr [result_simps]:
  "buildHolding f now s = Some (t, s', Inr object) \<longleftrightarrow>
     t = now \<and> (\<exists>holders. f (ns_issued s) now (ns_holders s) = Inr (object, holders) \<and> s' = s\<lparr>ns_holders := holders\<rparr>)"
  by (auto simp: buildHolding_def split: sum.split)


lemma quiet_re_encrypt:
  "quiet_request N (\<lambda>_ _. bindN (reEncryptBuild args c) (\<lambda>object. returnN (object, ()))) (reEncryptDescribe N args c)"
  unfolding quiet_request_def reEncryptBuild_def reEncryptDescribe_def Let_def
  by (intro conjI allI still_intros keeps_still_buildHolding)

lemma requestOfResult_request: "requestOfResult state request holders = (object, holders') \<Longrightarrow> ro_request object = request"
  using requestOfResult_built by (simp add: built_object_def)

text \<open>The dWallet a call verified is the one its caller holds, under a trusted key.\<close>

lemma verifiedDWallet_Inr:
  "verifiedDWallet N d now s = Some (t, s', Inr vd) \<Longrightarrow>
     t = now \<and> s' = s \<and>
     (\<exists>att. signed_record (sdkOf N) (dwalletBcs (sdkOf N)) DWalletKind (recordOfAttestation (dl_attestation d)) (ns_trusted s) att \<and>
        indexOf ATTESTATION_CURVES (dw_curve att) = dl_curve d \<and> dw_public_key att = dl_publicKey d \<and>
        vd = dwallet_of (recordOfAttestation (dl_attestation d)) att)"
  unfolding verifiedDWallet_def by (auto simp: result_simps dwallet_record_Inr lookupOf_def)

lemmas re_encrypt_answer = share_answers_iff [THEN conjunct2, THEN iffD1]




text \<open>C18. A re-encrypted share is returned only on an attestation under a trusted key, bound to the verified dWallet,
  for the new holder, with the hashes of the ciphertext returned and of the new holder's registered key,
  made for the session of the last request the call signed; the ciphertext is of the caller's own share.\<close>

theorem reEncryptShare_sound:
  assumes "epochs_grow N" "kept_by_others N good" "good (ns_trusted s)"
    and "reEncryptShare N req args now s = Some (t, s', Inr share)"
  shows "\<exists>es e q st at dw att. ns_signed s' = ns_signed s @ es @ [e] \<and> length es \<le> 2 \<and>
     request_signed N req (ReEncryptShare q) e \<and>
     re_dwallet_attestation q = is_attestation st \<and> issuedGet (ns_issued s) (rn_usable args) = Some st \<and>
     now - is_verifiedAt st \<le> 300000 \<and> is_share st = ShareEncrypted \<and> \<not> is_migrated st \<and>
     re_encrypted_share_and_proof q = rc_encryptedShareAndProof share \<and>
     re_encryption_key q = he_encryptionKey (rn_newHolderEntry args) \<and>
     encryptSecretShare (cn_cryptography N) (cn_curve N) (dl_userSecretKeyShare (rn_dwallet args))
       (he_encryptionKey (rn_newHolderEntry args)) (cn_protocolPublicParameters N) at = Inr (rc_encryptedShareAndProof share) \<and>
     he_signerPublicKey (rn_newHolderEntry args) = rn_newHolder args \<and>
     good (ns_trusted s') \<and>
     signed_record (sdkOf N) (encryptedShareBcs (sdkOf N)) EncryptedShareKind (recordOfAttestation (rc_shareAttestation share))
       (ns_trusted s') att \<and>
     signed_record (sdkOf N) (dwalletBcs (sdkOf N)) DWalletKind (recordOfAttestation (dl_attestation (rn_dwallet args)))
       (ns_trusted s) dw \<and>
     dw_public_key dw = dl_publicKey (rn_dwallet args) \<and>
     binds_dwallet (sdkOf N) (dwallet_of (recordOfAttestation (dl_attestation (rn_dwallet args))) dw)
       (es_intended_chain_sender att) (es_dwallet_public_key att) (es_dwallet_attestation_digest att) \<and>
     es_session_identifier att = sg_session e \<and>
     es_holder att = \<lparr>holder_scheme = Scheme_Ed25519, holder_key = rn_newHolder args\<rparr> \<and>
     es_encrypted_share_hash att = keccak_256 (sdkOf N) (rc_encryptedShareAndProof share) \<and>
     es_encryption_key_hash att = keccak_256 (sdkOf N) (he_encryptionKey (rn_newHolderEntry args))"
proof -
  let ?d = "rn_dwallet args" and ?key = "he_encryptionKey (rn_newHolderEntry args)"
  from assms(4) obtain t0 s0 vd t1 s1 object0 encrypted t2 s2 response sent x a
    where verified: "verifiedDWallet N ?d now s = Some (t0, s0, Inr vd)"
      and probe: "reEncryptBuild args [] t0 s0 = Some (t1, s1, Inr object0)"
      and encrypted: "encryptSecretShare (cn_cryptography N) (cn_curve N) (dl_userSecretKeyShare ?d) ?key
          (cn_protocolPublicParameters N) t1 = Inr encrypted"
      and s2: "s2 = resumed N t2 s1"
      and sub: "submit N req (\<lambda>_ _. bindN (reEncryptBuild args encrypted) (\<lambda>object. returnN (object, ())))
          (reEncryptDescribe N args encrypted) REBUILDS_AFTER_EPOCH_CLOSE t2 s2 = Some (t, s', Inr (response, sent))"
      and answer: "verifyReEncryptShareAnswer (sdkOf N) response (ns_trusted s') vd
          \<lparr>sre_sessionIdentifier = se_session sent, sre_networkKeyId = cn_networkKeyId N,
           sre_encryptedShareAndProof = encrypted, sre_encryptionKey = ?key,
           sre_holderSignerPublicKey = rn_newHolder args\<rparr> = Inr x"
      and a: "answeredAttestation response = Inr a"
      and share: "rc_shareAttestation share = a" "rc_encryptedShareAndProof share = encrypted"
    unfolding reEncryptShare_def Let_def by (auto simp: result_simps)
  from verifiedDWallet_Inr [OF verified] obtain dw where s0: "s0 = s" "t0 = now"
    and signed: "signed_record (sdkOf N) (dwalletBcs (sdkOf N)) DWalletKind (recordOfAttestation (dl_attestation ?d)) (ns_trusted s) dw"
    and dw: "dw_public_key dw = dl_publicKey ?d" "vd = dwallet_of (recordOfAttestation (dl_attestation ?d)) dw" by blast
  have "moves N s0 s1 []"
    using keeps_still_buildHolding keeps_stillD probe [unfolded reEncryptBuild_def] by blast
  from moves_still [OF this resumed_moves [OF assms(1)]] have m: "moves N s s2 []" by (simp add: s0 s2)
  from probe obtain st where st: "issuedGet (ns_issued s) (rn_usable args) = Some st" "now - is_verifiedAt st \<le> 300000"
      "is_share st = ShareEncrypted" "\<not> is_migrated st"
    by (auto simp: reEncryptBuild_def result_simps reEncryptShareRequest_Inr s0)
  from submit_answered [OF assms(1) quiet_re_encrypt sub] obtain es e
    where e: "moves N s2 s' (es @ [e])" "length es \<le> 2"
      and built: "built_as N req (\<lambda>_ _. bindN (reEncryptBuild args encrypted) (\<lambda>object. returnN (object, ()))) sent (ns_issued s2) e"
    by (auto simp: REBUILDS_AFTER_EPOCH_CLOSE_def)
  from built obtain q where q: "request_signed N req (ReEncryptShare q) e" "re_dwallet_attestation q = is_attestation st" "re_encrypted_share_and_proof q = encrypted"
      "re_encryption_key q = ?key" "he_signerPublicKey (rn_newHolderEntry args) = rn_newHolder args"
    and session: "se_session sent = sg_session e" using m st(1)
    by (auto simp: moves_def built_as_def entry_of_def reEncryptBuild_def result_simps reEncryptShareRequest_Inr
        dest!: requestOfResult_request)
  from a have response: "response = AttestationResponse a"
    by (auto simp: answeredAttestation_def split: transaction_response.split_asm)
  from re_encrypt_answer [OF answer] session have checked: "es_session_identifier x = sg_session e"
      "es_holder x = \<lparr>holder_scheme = Scheme_Ed25519, holder_key = rn_newHolder args\<rparr>"
      "es_encrypted_share_hash x = keccak_256 (sdkOf N) encrypted" "es_encryption_key_hash x = keccak_256 (sdkOf N) ?key"
      "binds_dwallet (sdkOf N) vd (es_intended_chain_sender x) (es_dwallet_public_key x) (es_dwallet_attestation_digest x)"
      "signed_record (sdkOf N) (encryptedShareBcs (sdkOf N)) EncryptedShareKind (recordOfAttestation a) (ns_trusted s') x"
    by (auto simp: answered_with_def response)
  note m' = moves_still [OF m e(1)]
  from moves_trusted [OF m' assms(2,3)] have "good (ns_trusted s')" .
  moreover from m' have "ns_signed s' = ns_signed s @ es @ [e]" by (simp add: moves_def)
  ultimately show ?thesis using e(2) q st signed checked encrypted unfolding dw(2) share [symmetric] using dw(1) by blast
qed

lemma acceptArguments_simps:
  "ac_reader (acceptArguments N args) = aa_reader args"
  "ac_holderSecretKey (acceptArguments N args) = kp_secretKey (aa_holder args)"
  "ac_encryptionKey (acceptArguments N args) = aa_encryptionKey args"
  "ac_sender (acceptArguments N args) = aa_senderSignerPublicKey args"
  "ac_senderAcceptanceSignature (acceptArguments N args) = None"
  "ac_dwalletAttestation (acceptArguments N args) = attestation_data (rc_dwalletAttestation (aa_received args))"
  "ac_shareAttestation (acceptArguments N args) = rc_shareAttestation (aa_received args)"
  "ac_encryptedShareAndProof (acceptArguments N args) = rc_encryptedShareAndProof (aa_received args)"
  by (simp_all add: acceptArguments_def)

text \<open>What the acceptance of a share has checked, with the dWallet the attestation's record decodes to.\<close>

lemma acceptance_checked:
  assumes "signReEncryptedShareAcceptance (sdkOf N) R E (acceptArguments N args) = Inr acceptance"
    and "signed_record (sdkOf N) (dwalletBcs (sdkOf N)) DWalletKind
      (recordOfAttestation (rc_dwalletAttestation (aa_received args))) trusted att"
  shows "\<exists>rec sh given. sac_acceptanceDigest acceptance =
       shareAttestationDigest (sdkOf N) (attestation_data (rc_shareAttestation (aa_received args))) \<and>
     edGetPublicKey E (kp_secretKey (aa_holder args)) = Some (sac_holderPublicKey acceptance) \<and>
     edSign E (sac_acceptanceDigest acceptance) (kp_secretKey (aa_holder args)) = Some (sac_signature acceptance) \<and>
     held_dwallet (sdkOf N) R (aa_reader args) (attestation_data (rc_dwalletAttestation (aa_received args))) att rec \<and>
     own_share (sdkOf N) (rd_trusted (aa_reader args)) rec (dwallet_of (cdr_attestation rec) att)
       (aa_senderSignerPublicKey args) None given \<and>
     (\<not> given \<or> dw_holder att = Some \<lparr>holder_scheme = Scheme_Ed25519, holder_key = aa_senderSignerPublicKey args\<rparr>) \<and>
     parse (encryptedShareBcs (sdkOf N)) (attestation_data (rc_shareAttestation (aa_received args))) = Some (V1 sh) \<and>
     serialize (encryptedShareBcs (sdkOf N)) (V1 sh) = Some (attestation_data (rc_shareAttestation (aa_received args))) \<and>
     signer_noa_public_key (rc_shareAttestation (aa_received args)) \<in> set (publicKeys (rd_trusted (aa_reader args))) \<and>
     shareAttestationSignatureVerifies (sdkOf N) (attestation_data (rc_shareAttestation (aa_received args)))
       (network_signature (rc_shareAttestation (aa_received args)))
       (signer_noa_public_key (rc_shareAttestation (aa_received args))) \<and>
     network_pubkey (rc_shareAttestation (aa_received args)) = cdr_networkPublicKey rec \<and>
     es_holder sh = \<lparr>holder_scheme = Scheme_Ed25519, holder_key = sac_holderPublicKey acceptance\<rparr> \<and>
     es_dwallet_attestation_digest sh =
       keccak_256 (sdkOf N) (attestation_data (rc_dwalletAttestation (aa_received args))) \<and>
     es_dwallet_public_key sh = dw_public_key att \<and> es_intended_chain_sender sh = dw_intended_chain_sender att \<and>
     es_encryption_key_hash sh = keccak_256 (sdkOf N) (aa_encryptionKey args) \<and>
     es_encrypted_share_hash sh = keccak_256 (sdkOf N) (rc_encryptedShareAndProof (aa_received args))"
proof -
  from assms(1) obtain held rec sh own sig given
    where held: "held_dwallet (sdkOf N) R (aa_reader args) (attestation_data (rc_dwalletAttestation (aa_received args))) held rec"
      and checks: "own_share (sdkOf N) (rd_trusted (aa_reader args)) rec (dwallet_of (cdr_attestation rec) held)
          (aa_senderSignerPublicKey args) None given"
        "\<not> given \<or> dw_holder held = Some \<lparr>holder_scheme = Scheme_Ed25519, holder_key = aa_senderSignerPublicKey args\<rparr>"
        "parse (encryptedShareBcs (sdkOf N)) (attestation_data (rc_shareAttestation (aa_received args))) = Some (V1 sh)"
        "serialize (encryptedShareBcs (sdkOf N)) (V1 sh) = Some (attestation_data (rc_shareAttestation (aa_received args)))"
        "signer_noa_public_key (rc_shareAttestation (aa_received args)) \<in> set (publicKeys (rd_trusted (aa_reader args)))"
        "shareAttestationSignatureVerifies (sdkOf N) (attestation_data (rc_shareAttestation (aa_received args)))
          (network_signature (rc_shareAttestation (aa_received args)))
          (signer_noa_public_key (rc_shareAttestation (aa_received args)))"
        "network_pubkey (rc_shareAttestation (aa_received args)) = cdr_networkPublicKey rec"
      and fields: "reEncryptedShareFields (sdkOf N) E (acceptArguments N args) held (askedOf held) sh = Inr ()"
      and made: "edGetPublicKey E (kp_secretKey (aa_holder args)) = Some own"
        "edSign E (shareAttestationDigest (sdkOf N) (attestation_data (rc_shareAttestation (aa_received args))))
          (kp_secretKey (aa_holder args)) = Some sig"
        "acceptance = \<lparr>sac_holderPublicKey = own,
           sac_acceptanceDigest = shareAttestationDigest (sdkOf N) (attestation_data (rc_shareAttestation (aa_received args))),
           sac_signature = sig\<rparr>"
    unfolding signReEncryptedShareAcceptance_iff acceptArguments_simps imp_conv_disj by (elim exE conjE) (rule that)
  from held assms(2) have "held = att"
    by (simp add: held_dwallet_def signed_record_def decodes_def recordOfAttestation_def)
  moreover from fields made(1) have "es_holder sh = \<lparr>holder_scheme = Scheme_Ed25519, holder_key = own\<rparr>"
    "es_dwallet_attestation_digest sh =
       keccak_256 (sdkOf N) (attestation_data (rc_dwalletAttestation (aa_received args)))"
    "es_dwallet_public_key sh = dw_public_key held" "es_intended_chain_sender sh = dw_intended_chain_sender held"
    "es_encryption_key_hash sh = keccak_256 (sdkOf N) (aa_encryptionKey args)"
    "es_encrypted_share_hash sh = keccak_256 (sdkOf N) (rc_encryptedShareAndProof (aa_received args))"
    by (simp_all add: reEncryptedShareFields_Inr acceptArguments_simps)
  ultimately show ?thesis using held checks made
    by (intro exI [of _ rec] exI [of _ sh] exI [of _ given]) simp
qed

text \<open>C19. A new holder gets a dWallet only for a share it accepted. The sender's own share record of that dWallet is on
  the chain, under the reader's trusted keys, accepted there (one accepted only through the sender's signature counts for
  the holder the dWallet names alone); the share's attestation decodes strictly, is signed by a trusted key under the
  record's network key, and names the new holder's own key, this dWallet's attestation, key and chain sender, and the
  hashes of the holder's encryption key and of the ciphertext received. The acceptance is the holder's signature over the
  digest of that attestation. The dWallet is the chain's record whose attestation the connection checks under a trusted
  key and its own network key, and the ciphertext decrypts to a share of that attestation's output.\<close>

theorem acceptReEncryptedShare_sound:
  assumes "epochs_grow N" "kept_by_others N good" "good (ns_trusted s)"
    and "acceptReEncryptedShare N args now s = Some (t, s', Inr d)"
  shows "\<exists>trusted att acceptance rec sh given. ns_signed s' = ns_signed s \<and> good trusted \<and>
     signed_record (sdkOf N) (dwalletBcs (sdkOf N)) DWalletKind (recordOfAttestation (dl_attestation d)) trusted att \<and>
     key_named (network trusted) (cn_networkKeyId N) (network_pubkey (dl_attestation d)) \<and>
     dl_attestation d = rc_dwalletAttestation (aa_received args) \<and>
     dl_curve d = indexOf ATTESTATION_CURVES (dw_curve att) \<and> dl_publicKey d = dw_public_key att \<and>
     dl_networkPublicOutput d = dw_public_output att \<and> dl_networkKeyId d = cn_networkKeyId N \<and>
     (dl_importedSessionIdentifier d = (if dw_is_imported_key att then Some (dw_session_identifier att) else None)) \<and>
     decryptUserShareOfOutput (cn_cryptography N) (cn_curve N) (aa_decryptionKey args) (dl_networkPublicOutput d)
       (rc_encryptedShareAndProof (aa_received args)) (cn_protocolPublicParameters N) = Inr (dl_userSecretKeyShare d) \<and>
     dl_acceptance d = Some acceptance \<and>
     sac_acceptanceDigest acceptance =
       shareAttestationDigest (sdkOf N) (attestation_data (rc_shareAttestation (aa_received args))) \<and>
     edGetPublicKey (en_ed25519 (cn_env N)) (kp_secretKey (aa_holder args)) = Some (sac_holderPublicKey acceptance) \<and>
     edSign (en_ed25519 (cn_env N)) (sac_acceptanceDigest acceptance) (kp_secretKey (aa_holder args)) =
       Some (sac_signature acceptance) \<and>
     held_dwallet (sdkOf N) (en_realCryptography (cn_env N)) (aa_reader args) (attestation_data (dl_attestation d)) att rec \<and>
     own_share (sdkOf N) (rd_trusted (aa_reader args)) rec (dwallet_of (cdr_attestation rec) att)
       (aa_senderSignerPublicKey args) None given \<and>
     (\<not> given \<or> dw_holder att = Some \<lparr>holder_scheme = Scheme_Ed25519, holder_key = aa_senderSignerPublicKey args\<rparr>) \<and>
     parse (encryptedShareBcs (sdkOf N)) (attestation_data (rc_shareAttestation (aa_received args))) = Some (V1 sh) \<and>
     serialize (encryptedShareBcs (sdkOf N)) (V1 sh) = Some (attestation_data (rc_shareAttestation (aa_received args))) \<and>
     signer_noa_public_key (rc_shareAttestation (aa_received args)) \<in> set (publicKeys (rd_trusted (aa_reader args))) \<and>
     shareAttestationSignatureVerifies (sdkOf N) (attestation_data (rc_shareAttestation (aa_received args)))
       (network_signature (rc_shareAttestation (aa_received args)))
       (signer_noa_public_key (rc_shareAttestation (aa_received args))) \<and>
     network_pubkey (rc_shareAttestation (aa_received args)) = cdr_networkPublicKey rec \<and>
     es_holder sh = \<lparr>holder_scheme = Scheme_Ed25519, holder_key = sac_holderPublicKey acceptance\<rparr> \<and>
     es_dwallet_attestation_digest sh = keccak_256 (sdkOf N) (attestation_data (dl_attestation d)) \<and>
     es_dwallet_public_key sh = dl_publicKey d \<and> es_intended_chain_sender sh = dw_intended_chain_sender att \<and>
     es_encryption_key_hash sh = keccak_256 (sdkOf N) (aa_encryptionKey args) \<and>
     es_encrypted_share_hash sh = keccak_256 (sdkOf N) (rc_encryptedShareAndProof (aa_received args))"
proof -
  let ?att = "rc_dwalletAttestation (aa_received args)" and ?signed = "rc_shareAttestation (aa_received args)"
  from assms(4) obtain t1 s1 t2 s2 acceptance att share
    where accepted: "signReEncryptedShareAcceptance (sdkOf N) (en_realCryptography (cn_env N)) (en_ed25519 (cn_env N))
        (acceptArguments N args) = Inr acceptance"
      and s1: "s1 = resumed N t1 s" and verified: "verifiedAttestedDWallet N ?att t1 s1 = Some (t2, s2, Inr att)"
      and share: "decryptUserShareOfOutput (cn_cryptography N) (cn_curve N) (aa_decryptionKey args) (dw_public_output att)
        (rc_encryptedShareAndProof (aa_received args)) (cn_protocolPublicParameters N) = Inr share"
      and s': "s' = resumed N t s2"
      and d: "d = \<lparr>dl_curve = indexOf ATTESTATION_CURVES (dw_curve att), dl_publicKey = dw_public_key att,
               dl_networkPublicOutput = dw_public_output att, dl_userSecretKeyShare = share, dl_attestation = ?att,
               dl_networkKeyId = cn_networkKeyId N,
               dl_importedSessionIdentifier = (if dw_is_imported_key att then Some (dw_session_identifier att) else None),
               dl_share = EncryptedTo (kp_publicKey (aa_holder args)), dl_acceptance = Some acceptance\<rparr>"
    unfolding acceptReEncryptedShare_def Let_def by (auto simp: result_simps)
  from verifiedAttestedDWallet_Inr [OF verified] have rest: "s2 = s1"
    "key_named (network (ns_trusted s1)) (cn_networkKeyId N) (network_pubkey ?att)"
    "signed_record (sdkOf N) (dwalletBcs (sdkOf N)) DWalletKind (recordOfAttestation ?att) (ns_trusted s1) att" by blast+
  note checked = acceptance_checked [OF accepted rest(3)]
  have "good (ns_trusted s1)"
    unfolding s1 by (rule moves_trusted [OF resumed_moves [OF assms(1)] assms(2,3)])
  moreover have "ns_signed s' = ns_signed s" by (simp add: s' rest(1) s1 resumed_def)
  ultimately show ?thesis using checked rest(2,3) share unfolding d dwallet.simps by blast
qed

end
