(* ===== verification/Engine_Connect.thy ===== *)
theory Engine_Connect
  imports Engine_Laws Grpc_Reads Network_Key_Output
begin

text \<open>
  Connecting (\<open>Network.connect\<close> and \<open>withTrustedNetworkPublicKeys\<close> of \<open>common/engine.ts\<close>), the format of a
  mock value (\<open>client/mock-format.ts\<close>), and the cache of the protocol parameters derived from a network
  key's outputs, which every connection of the process shares.
\<close>

section \<open>Mock values\<close>

definition MOCK_MAGIC :: bytes where
  "MOCK_MAGIC = 0xff # ascii ''ika-mock''"

datatype mock_kind =
    MockNetworkKeyOutput | MockProtocolPublicParameters | MockKeyMessage | MockDWalletOutput | MockEncryptedShare
  | MockSignMessage | MockPresign | MockUserOutput

fun mockKindByte :: "mock_kind \<Rightarrow> byte" where
  "mockKindByte MockNetworkKeyOutput = 0"
| "mockKindByte MockProtocolPublicParameters = 1"
| "mockKindByte MockKeyMessage = 2"
| "mockKindByte MockDWalletOutput = 3"
| "mockKindByte MockEncryptedShare = 4"
| "mockKindByte MockSignMessage = 5"
| "mockKindByte MockPresign = 6"
| "mockKindByte MockUserOutput = 7"

definition isMockValue :: "bytes \<Rightarrow> bool" where
  "isMockValue bs \<longleftrightarrow>
     \<not> length bs \<le> length MOCK_MAGIC \<and> list_all (\<lambda>i. bs ! i = MOCK_MAGIC ! i) [0..<length MOCK_MAGIC]"

definition mockValue :: "mock_kind \<Rightarrow> bytes \<Rightarrow> bytes" where
  "mockValue kind payload = MOCK_MAGIC @ [mockKindByte kind] @ payload"

definition MOCK_VALUE_REFUSED :: string where
  "MOCK_VALUE_REFUSED = ''a mock value was given to a client of the real protocol''"

definition refuseMockValues :: "bytes list \<Rightarrow> sdk_error + unit" where
  "refuseMockValues values = guardE (\<not> list_ex isMockValue values) (Err MOCK_VALUE_REFUSED)"

lemma take_iff_nth:
  "length m \<le> length bs \<Longrightarrow> take (length m) bs = m \<longleftrightarrow> list_all (\<lambda>i. bs ! i = m ! i) [0..<length m]"
  by (subst list_eq_iff_nth_eq) (simp add: list_all_length)

lemma isMockValue_iff:
  "isMockValue bs \<longleftrightarrow> length bs > length MOCK_MAGIC \<and> take (length MOCK_MAGIC) bs = MOCK_MAGIC"
  using take_iff_nth [of MOCK_MAGIC bs] by (auto simp: isMockValue_def)

lemma isMockValue_mockValue: "isMockValue (mockValue kind payload)"
  by (simp add: isMockValue_iff mockValue_def)

section \<open>The cache of protocol parameters\<close>

text \<open>What a derivation is started on; the reconfiguration output is absent or not empty.\<close>

record parameter_source =
  src_cryptography :: engine_cryptography
  src_curve :: curve
  src_dkg :: bytes
  src_reconfiguration :: "bytes option"

fun curveString :: "curve \<Rightarrow> string" where
  "curveString SECP256K1 = ''SECP256K1''"
| "curveString RISTRETTO = ''RISTRETTO''"
| "curveString ED25519 = ''ED25519''"
| "curveString SECP256R1 = ''SECP256R1''"

definition joinColon :: "string list \<Rightarrow> string" where
  "joinColon parts = (case parts of [] \<Rightarrow> [] | p # ps \<Rightarrow> fold (\<lambda>q text. text @ '':'' @ q) ps p)"

definition sourceKey :: "sdk_lib \<Rightarrow> parameter_source \<Rightarrow> string" where
  "sourceKey L src =
     joinColon
       [if ec_mock (src_cryptography src) then ''mock'' else ''real'',
        curveString (src_curve src),
        toHex (networkOutputDigest L (src_dkg src)),
        case src_reconfiguration src of None \<Rightarrow> [] | Some r \<Rightarrow> toHex (networkOutputDigest L r)]"

definition derive :: "parameter_source \<Rightarrow> sdk_error + bytes" where
  "derive src =
     (case src_reconfiguration src of
        None \<Rightarrow> networkDkgToParameters (src_cryptography src) (src_curve src) (src_dkg src)
      | Some r \<Rightarrow> reconfigurationToParameters (src_cryptography src) (src_curve src) r (src_dkg src))"

text \<open>
  The \<open>Map\<close>, its entries in insertion order: a key and the promise it holds, which is its place in the list
  of derivations started.
\<close>

record parameters_cache =
  pc_entries :: "(string \<times> nat) list"
  pc_started :: "parameter_source list"

definition PROTOCOL_PUBLIC_PARAMETERS_CACHE_SIZE :: nat where
  "PROTOCOL_PUBLIC_PARAMETERS_CACHE_SIZE = 16"

definition mapDelete :: "string \<Rightarrow> (string \<times> nat) list \<Rightarrow> (string \<times> nat) list" where
  "mapDelete k entries = filter (\<lambda>(k', _). k' \<noteq> k) entries"

text \<open>\<open>Map.set\<close>: an entry of the key keeps its place, a new one goes last.\<close>

definition mapSet :: "string \<Rightarrow> nat \<Rightarrow> (string \<times> nat) list \<Rightarrow> (string \<times> nat) list" where
  "mapSet k v entries =
     (if map_of entries k = None then entries @ [(k, v)]
      else map (\<lambda>(k', v'). if k' = k then (k', v) else (k', v')) entries)"

definition protocolPublicParametersOf ::
    "sdk_lib \<Rightarrow> engine_cryptography \<Rightarrow> curve \<Rightarrow> bytes \<Rightarrow> bytes option \<Rightarrow> parameters_cache \<Rightarrow> nat \<times> parameters_cache" where
  "protocolPublicParametersOf L K curve dkg reconfigurationOutput cache =
     (let reconfiguration = (case reconfigurationOutput of
            None \<Rightarrow> None | Some r \<Rightarrow> if length r > 0 then Some r else None);
          src = \<lparr>src_cryptography = K, src_curve = curve, src_dkg = dkg, src_reconfiguration = reconfiguration\<rparr>;
          k = sourceKey L src
      in case map_of (pc_entries cache) k of
           Some promise \<Rightarrow> (promise, cache\<lparr>pc_entries := mapSet k promise (mapDelete k (pc_entries cache))\<rparr>)
         | None \<Rightarrow>
             let promise = length (pc_started cache);
                 entries = mapSet k promise (pc_entries cache)
             in (promise,
                 \<lparr>pc_entries = (if length entries > PROTOCOL_PUBLIC_PARAMETERS_CACHE_SIZE
                               then mapDelete (fst (hd entries)) entries else entries),
                  pc_started = pc_started cache @ [src]\<rparr>))"

text \<open>The \<open>catch\<close> of a derivation that failed.\<close>

definition derivationFailed :: "sdk_lib \<Rightarrow> nat \<Rightarrow> parameters_cache \<Rightarrow> parameters_cache" where
  "derivationFailed L promise cache =
     cache\<lparr>pc_entries := mapDelete (sourceKey L (pc_started cache ! promise)) (pc_entries cache)\<rparr>"

section \<open>Trusted keys\<close>

definition customOrListed :: "ika_network \<Rightarrow> bytes list \<Rightarrow> sdk_error + trusted_network_keys" where
  "customOrListed net keys =
     (case net of Custom _ \<Rightarrow> trustedNetworkKeys (Custom keys) | Deployed name \<Rightarrow> trustedNetworkKeys (Deployed name))"

text \<open>The \<open>filter\<close> before the \<open>forEach\<close> runs over the keys there were.\<close>

definition withTrustedNetworkPublicKeys :: "network_connection \<Rightarrow> bytes list \<Rightarrow> unit engine_run" where
  "withTrustedNetworkPublicKeys N added now s =
     (case cn_network N of
        Deployed name \<Rightarrow>
          (if list_all (\<lambda>key. returned (listedNetworkKey (Deployed name) key)) added then Some (now, s, Inr ())
           else Some (now, s, Inl (Thrown (Err ''the network key is not one this SDK lists''))))
      | Custom _ \<Rightarrow>
          let keys = publicKeys (ns_trusted s);
              keys' = keys @ filter (\<lambda>key. \<not> list_ex (\<lambda>trusted. equalBytes trusted key) keys) added
          in case customOrListed (cn_network N) keys' of
               Inl e \<Rightarrow> Some (now, s, Inl (Thrown e))
             | Inr trusted \<Rightarrow> Some (now, s\<lparr>ns_trusted := trusted\<rparr>, Inr ()))"

section \<open>Connecting\<close>

text \<open>
  \<open>clientAt\<close> is the state of the gRPC client at a time: the two reads of it run together, and with other
  calls. \<open>derives\<close> is how long the wait for a derivation takes.
\<close>

record connect_arguments =
  ca_env :: engine_env
  ca_client :: grpc_client
  ca_submit :: "(signed_grpc_request, transaction_response) rpc_method"
  ca_keys :: "(unit, network_keys_message) rpc_method"
  ca_output :: "(bytes, key_output_message) rpc_method"
  ca_closing :: closed_at
  clientAt :: "time \<Rightarrow> client_state"
  ca_curve :: curve
  ca_networkKeyId :: bytes
  ca_network :: ika_network
  ca_records :: output_chain
  ca_chainEpoch :: "(sdk_error, int) timed"
  ca_requestRecords :: "request_records option"
  ca_shares :: "(trusted_network_keys \<Rightarrow> share_lookup) option"
  ca_cryptography :: "engine_cryptography option"
  ca_realCryptography :: engine_cryptography
  derives :: "time \<Rightarrow> nat"

definition clientRead :: "connect_arguments \<Rightarrow> 'a client_run \<Rightarrow> (call_error, 'a) timed" where
  "clientRead A run now = map_option (\<lambda>(t, _, r). (t, r)) (run now (clientAt A now))"

text \<open>\<open>networkKeyOutputRetried\<close>, over the read it repeats.\<close>

partial_function (option) outputRetried ::
    "(call_error, 'a) timed \<Rightarrow> (time \<Rightarrow> nat) \<Rightarrow> time \<Rightarrow> time \<Rightarrow> (time \<times> (call_error + 'a)) option" where
  "outputRetried read lag deadline now =
     (case read now of
        None \<Rightarrow> None
      | Some (t, Inr out) \<Rightarrow> Some (t, Inr out)
      | Some (t, Inl e) \<Rightarrow>
          if \<not> isServerRestart e \<or> t \<ge> deadline then Some (t, Inl e)
          else outputRetried read lag deadline (t + NETWORK_KEY_READ_RETRY_MS + int (lag t)))"

definition networkKeyOutputRetried :: "connect_arguments \<Rightarrow> bytes \<Rightarrow> (call_error, grpc_key_output) timed" where
  "networkKeyOutputRetried A key now =
     outputRetried (clientRead A (getNetworkKeyOutput (ca_client A) (ca_output A) key)) (lagOf (ca_client A))
       (now + NETWORK_KEY_READ_WAIT_MS) now"

definition erased :: "(time \<times> ('e + 'a)) option \<Rightarrow> (time \<times> ('e + unit)) option" where
  "erased r = map_option (\<lambda>(t, v). (t, map_sum id (\<lambda>_. ()) v)) r"

text \<open>\<open>Promise.all\<close> of three reads.\<close>

definition allThreeT :: "('e, 'a) timed \<Rightarrow> ('e, 'b) timed \<Rightarrow> ('e, 'c) timed \<Rightarrow> ('e, 'a \<times> 'b \<times> 'c) timed" where
  "allThreeT first second third now =
     (case firstRejection [erased (first now), erased (second now), erased (third now)] of
        Some (t, e) \<Rightarrow> Some (t, Inl e)
      | None \<Rightarrow>
          (case (first now, second now, third now) of
             (Some (t1, Inr x), Some (t2, Inr y), Some (t3, Inr z)) \<Rightarrow> Some (max t1 (max t2 t3), Inr (x, y, z))
           | _ \<Rightarrow> None))"

definition thrownBy :: "('e \<Rightarrow> engine_error) \<Rightarrow> ('e, 'a) timed \<Rightarrow> (engine_error, 'a) timed" where
  "thrownBy f m now = map_option (\<lambda>(t, r). (t, mapErr f r)) (m now)"

definition servedOutput :: "grpc_key_output \<Rightarrow> network_key_output" where
  "servedOutput g =
     \<lparr>networkKeyId = gk_networkKeyId g, out_epoch = gk_epoch g, networkDkgOutput = gk_networkDkgOutput g,
      latestReconfigurationOutput = gk_latestReconfigurationOutput g\<rparr>"

text \<open>The key must be one the network lists, or one of the custom network's.\<close>

definition requireNetworksKey :: "ika_network \<Rightarrow> bytes \<Rightarrow> sdk_error + deployed_network_key option" where
  "requireNetworksKey net key =
     bindE (trustedNetworkKeys net) (\<lambda>trusted.
     bindE (listedNetworkKey net key) (\<lambda>listed.
     case net of
       Custom _ \<Rightarrow>
         if \<not> list_ex (\<lambda>k. equalBytes k key) (publicKeys trusted)
         then Inl (Err ''the network key is not one of the custom network's keys'') else Inr listed
     | Deployed _ \<Rightarrow>
         if listed = None then Inl (Err ''the network key is not one this SDK lists'') else Inr listed))"

definition requireListedDigest :: "sdk_lib \<Rightarrow> deployed_network_key option \<Rightarrow> network_key_output \<Rightarrow> sdk_error + unit" where
  "requireListedDigest L listed served =
     (case listed of
        None \<Rightarrow> Inr ()
      | Some e \<Rightarrow>
          guardE (equalBytes (networkOutputDigest L (networkDkgOutput served)) (dkgOutputDigest e))
            (Err ''the network DKG output the validator served does not have the digest this SDK lists for the key''))"

definition requireSameMode :: "bool \<Rightarrow> bytes \<Rightarrow> sdk_error + unit" where
  "requireSameMode mock dkg =
     (let servesMock = isMockValue dkg in
      seqE (if servesMock \<and> \<not> mock
            then mapErr (\<lambda>e. Err (''the network serves the mock network key: it is a mock ika network: '' @ errorMessage e))
                   (refuseMockValues [dkg])
            else Inr ())
           (guardE (\<not> (\<not> servesMock \<and> mock))
              (Err ''the client is in mock mode, and the network serves a real network key'')))"

definition connectionOf ::
    "connect_arguments \<Rightarrow> bytes \<Rightarrow> bytes \<Rightarrow> engine_cryptography \<Rightarrow> bytes \<Rightarrow> network_connection" where
  "connectionOf A key latest K parameters =
     \<lparr>cn_env = ca_env A, cn_client = ca_client A, cn_submit = ca_submit A, cn_curve = ca_curve A,
      cn_network = ca_network A, cn_networkKeyId = key, cn_latestNetworkKeyId = latest,
      cn_protocolPublicParameters = parameters, cn_chainEpoch = ca_chainEpoch A,
      cn_requestRecords = ca_requestRecords A, cn_shares = ca_shares A, cn_cryptography = K\<rparr>"

text \<open>A new connection, with its \<open>#epoch\<close> and \<open>#trustedNetworkKeys\<close>.\<close>

record connected =
  co_connection :: network_connection
  co_epoch :: int
  co_trusted :: trusted_network_keys

definition connectWith ::
    "connect_arguments \<Rightarrow> bytes \<Rightarrow> bytes \<Rightarrow> int \<Rightarrow> network_key_output \<Rightarrow> parameters_cache
      \<Rightarrow> time \<Rightarrow> time \<times> parameters_cache \<times> (engine_error + connected)" where
  "connectWith A key latest epoch verified cache now =
     (let K = (case ca_cryptography A of None \<Rightarrow> ca_realCryptography A | Some K \<Rightarrow> K) in
      case requireSameMode (ec_mock K) (networkDkgOutput verified) of
        Inl e \<Rightarrow> (now, cache, Inl (Thrown e))
      | Inr _ \<Rightarrow>
          let (promise, cache') = protocolPublicParametersOf (en_sdk (ca_env A)) K (ca_curve A) (networkDkgOutput verified)
                                    (latestReconfigurationOutput verified) cache;
              t = now + int (derives A now)
          in (case derive (pc_started cache' ! promise) of
                Inl e \<Rightarrow> (t, derivationFailed (en_sdk (ca_env A)) promise cache', Inl (Thrown e))
              | Inr parameters \<Rightarrow>
                  (t, cache', mapErr Thrown
                    (bindE (customOrListed (ca_network A) [key]) (\<lambda>trusted.
                       Inr \<lparr>co_connection = connectionOf A key latest K parameters, co_epoch = epoch,
                            co_trusted = trusted\<rparr>)))))"

definition connect ::
    "connect_arguments \<Rightarrow> parameters_cache \<Rightarrow> time
      \<Rightarrow> (time \<times> parameters_cache \<times> (engine_error + connected)) option" where
  "connect A cache now =
     (case bindE (networkKeyIdFromBytes (ca_networkKeyId A)) (\<lambda>key.
             bindE (requireNetworksKey (ca_network A) key) (\<lambda>listed. Inr (key, listed))) of
        Inl e \<Rightarrow> Some (now, cache, Inl (Thrown e))
      | Inr (key, listed) \<Rightarrow>
          (case allThreeT
                  (thrownBy CallFailed (clientRead A (latestNetworkKeyId (ca_client A) (ca_keys A) (ca_closing A))))
                  (thrownBy CallFailed (networkKeyOutputRetried A key))
                  (thrownBy Thrown (ca_chainEpoch A)) now of
             None \<Rightarrow> None
           | Some (t, Inl e) \<Rightarrow> Some (t, cache, Inl e)
           | Some (t, Inr (latest, served, epoch)) \<Rightarrow>
               (case requireListedDigest (en_sdk (ca_env A)) listed (servedOutput served) of
                  Inl e \<Rightarrow> Some (t, cache, Inl (Thrown e))
                | Inr _ \<Rightarrow>
                    (case verifyNetworkKeyOutput (en_sdk (ca_env A)) (ca_records A) (servedOutput served) key
                            RESHARE_RECORD_WAIT t of
                       None \<Rightarrow> None
                     | Some (t', Inl e) \<Rightarrow> Some (t', cache, Inl (Thrown e))
                     | Some (t', Inr verified) \<Rightarrow>
                         Some (connectWith A key latest epoch verified cache t')))))"

end
