(* ===== verification/Connect_Laws.thy ===== *)
theory Connect_Laws
  imports Engine_Connect
begin

text \<open>
  What a connection made is: of a key its network names, of outputs the chain records, in the network's own
  mode, with parameters derived from those very outputs. The cache the derivations share keeps one promise
  a key, at most sixteen, and each is of the outputs its key names.
\<close>

section \<open>The key of a cached derivation\<close>

definition colonless :: "string \<Rightarrow> bool" where
  "colonless text \<longleftrightarrow> list_all (\<lambda>c. c \<noteq> CHR '':'') text"

lemma colon_split:
  "colonless p \<Longrightarrow> colonless p' \<Longrightarrow> p @ CHR '':'' # rest = p' @ CHR '':'' # rest' \<longleftrightarrow> p = p' \<and> rest = rest'"
proof (induction p arbitrary: p')
  case Nil
  then show ?case by (cases p') (auto simp: colonless_def)
next
  case (Cons c p)
  then show ?case by (cases p') (auto simp: colonless_def)
qed

lemma colon_no_digit: "hexValue (CHR '':'') = None"
  by code_simp

lemma colonless_toHex [simp]: "colonless (toHex bs)"
  using toHex_isHexDigit [of bs] unfolding colonless_def
  by (rule list.pred_mono_strong) (auto simp: isHexDigit_def colon_no_digit)

lemma toHex_inject [simp]: "toHex bs = toHex bs' \<longleftrightarrow> bs = bs'"
  using hexPairs_toHex by metis

lemma curveString_inject: "curveString c = curveString c' \<longleftrightarrow> c = c'"
  by (cases c; cases c') simp_all

lemma colonless_curveString [simp]: "colonless (curveString c)"
  by (cases c) (simp_all add: colonless_def)

text \<open>Two sources of one key agree in mode, curve and the digests of their outputs.\<close>

definition same_source :: "sdk_lib \<Rightarrow> parameter_source \<Rightarrow> parameter_source \<Rightarrow> bool" where
  "same_source L a b \<longleftrightarrow>
     ec_mock (src_cryptography a) = ec_mock (src_cryptography b) \<and> src_curve a = src_curve b \<and>
     networkOutputDigest L (src_dkg a) = networkOutputDigest L (src_dkg b) \<and>
     map_option (networkOutputDigest L) (src_reconfiguration a) = map_option (networkOutputDigest L) (src_reconfiguration b)"

text \<open>A digest is never empty.\<close>

definition digests_something :: "sdk_lib \<Rightarrow> bool" where
  "digests_something L \<longleftrightarrow> (\<forall>bs. networkOutputDigest L bs \<noteq> [])"

lemma toHex_empty [simp]: "toHex bs = [] \<longleftrightarrow> bs = []"
  using length_toHex [of bs] by (metis length_0_conv mult_is_0 zero_neq_numeral)

lemma sourceKey_inject:
  assumes "digests_something L"
  shows "sourceKey L a = sourceKey L b \<longleftrightarrow> same_source L a b"
proof -
  let ?m = "\<lambda>src. if ec_mock (src_cryptography src) then ''mock'' else ''real''"
  let ?r = "\<lambda>src. case src_reconfiguration src of None \<Rightarrow> [] | Some r \<Rightarrow> toHex (networkOutputDigest L r)"
  have key: "sourceKey L src =
      ?m src @ CHR '':'' # curveString (src_curve src) @ CHR '':'' # toHex (networkOutputDigest L (src_dkg src)) @ CHR '':'' # ?r src"
    for src by (simp add: sourceKey_def joinColon_def)
  have mode: "colonless (?m src)" for src by (simp add: colonless_def)
  have modes: "?m a = ?m b \<longleftrightarrow> ec_mock (src_cryptography a) = ec_mock (src_cryptography b)" by simp
  have "?r a = ?r b \<longleftrightarrow>
      map_option (networkOutputDigest L) (src_reconfiguration a) = map_option (networkOutputDigest L) (src_reconfiguration b)"
    using assms by (cases "src_reconfiguration a"; cases "src_reconfiguration b")
      (auto simp: digests_something_def dest: arg_cong [of "[]" _ length])
  then show ?thesis
    unfolding key colon_split [OF mode mode] modes same_source_def
    by (simp add: colon_split curveString_inject)
qed


section \<open>The cache\<close>

definition cache_ok :: "sdk_lib \<Rightarrow> parameters_cache \<Rightarrow> bool" where
  "cache_ok L cache \<longleftrightarrow>
     distinct (map fst (pc_entries cache)) \<and> length (pc_entries cache) \<le> PROTOCOL_PUBLIC_PARAMETERS_CACHE_SIZE \<and>
     (\<forall>(k, promise)\<in>set (pc_entries cache).
        promise < length (pc_started cache) \<and> sourceKey L (pc_started cache ! promise) = k)"

text \<open>The caches of a process: empty at first, then asked for parameters, with derivations that fail at any time.\<close>

inductive cache_of :: "sdk_lib \<Rightarrow> parameters_cache \<Rightarrow> bool" for L where
  empty: "cache_of L \<lparr>pc_entries = [], pc_started = []\<rparr>"
| asked: "cache_of L cache \<Longrightarrow> protocolPublicParametersOf L K c dkg reconfiguration cache = (promise, cache') \<Longrightarrow> cache_of L cache'"
| failed: "cache_of L cache \<Longrightarrow> cache_of L (derivationFailed L promise cache)"

text \<open>The source a call asks for.\<close>

definition askedSource :: "engine_cryptography \<Rightarrow> curve \<Rightarrow> bytes \<Rightarrow> bytes option \<Rightarrow> parameter_source" where
  "askedSource K c dkg reconfiguration =
     \<lparr>src_cryptography = K, src_curve = c, src_dkg = dkg,
      src_reconfiguration = (case reconfiguration of None \<Rightarrow> None | Some r \<Rightarrow> if length r > 0 then Some r else None)\<rparr>"

lemma mapDelete_set: "set (mapDelete k entries) = {e \<in> set entries. fst e \<noteq> k}"
  by (auto simp: mapDelete_def)

lemma distinct_mapDelete: "distinct (map fst entries) \<Longrightarrow> distinct (map fst (mapDelete k entries))"
  unfolding mapDelete_def by (rule distinct_map_filter)

lemma mapDelete_gone: "map_of (mapDelete k entries) k = None"
  by (induction entries) (auto simp: mapDelete_def)

lemma length_mapDelete: "length (mapDelete k entries) \<le> length entries"
  by (simp add: mapDelete_def)

lemma length_mapDelete_less: "k \<in> fst ` set entries \<Longrightarrow> length (mapDelete k entries) < length entries"
  by (auto simp: mapDelete_def intro: length_filter_less)

lemma mapSet_new: "map_of entries k = None \<Longrightarrow> mapSet k v entries = entries @ [(k, v)]"
  by (simp add: mapSet_def)

lemma cache_step:
  assumes ok: "cache_ok L cache" and asked: "protocolPublicParametersOf L K c dkg reconfiguration cache = (promise, cache')"
  shows "cache_ok L cache' \<and> promise < length (pc_started cache') \<and>
     sourceKey L (pc_started cache' ! promise) = sourceKey L (askedSource K c dkg reconfiguration)"
proof -
  let ?src = "askedSource K c dkg reconfiguration" and ?k = "sourceKey L (askedSource K c dkg reconfiguration)"
  let ?es = "pc_entries cache"
  note d = protocolPublicParametersOf_def [of L K c dkg reconfiguration cache, unfolded Let_def, folded askedSource_def]
  show ?thesis
  proof (cases "map_of ?es ?k")
    case (Some p)
    with asked have p: "promise = p" and c': "cache' = cache\<lparr>pc_entries := mapDelete ?k ?es @ [(?k, p)]\<rparr>"
      by (auto simp: d mapSet_new mapDelete_gone)
    from Some have "(?k, p) \<in> set ?es" by (rule map_of_SomeD)
    moreover from this have "length (mapDelete ?k ?es) < length ?es" by (force intro: length_mapDelete_less)
    ultimately show ?thesis
      using ok p c' by (fastforce simp: cache_ok_def mapDelete_set distinct_mapDelete)
  next
    case None
    let ?entries = "?es @ [(?k, length (pc_started cache))]"
    from asked None have p: "promise = length (pc_started cache)"
      and c': "cache' = \<lparr>pc_entries = (if length ?entries > PROTOCOL_PUBLIC_PARAMETERS_CACHE_SIZE
          then mapDelete (fst (hd ?entries)) ?entries else ?entries), pc_started = pc_started cache @ [?src]\<rparr>"
      by (auto simp: d mapSet_new)
    from None have "?k \<notin> fst ` set ?es" by (simp add: map_of_eq_None_iff)
    with ok have all: "distinct (map fst ?entries)"
      "\<forall>(k, q)\<in>set ?entries. q < length (pc_started cache @ [?src]) \<and> sourceKey L ((pc_started cache @ [?src]) ! q) = k"
      by (auto simp: cache_ok_def nth_append)
    have "fst (hd ?entries) \<in> fst ` set ?entries" by (intro imageI hd_in_set) simp
    from length_mapDelete_less [OF this] ok have "length (mapDelete (fst (hd ?entries)) ?entries) \<le> PROTOCOL_PUBLIC_PARAMETERS_CACHE_SIZE"
      by (simp add: cache_ok_def)
    with all p c' distinct_mapDelete [OF all(1)] show ?thesis
      by (auto simp: cache_ok_def mapDelete_set)
  qed
qed

lemma cache_of_ok: "cache_of L cache \<Longrightarrow> cache_ok L cache"
proof (induction rule: cache_of.induct)
  case (asked cache K c dkg reconfiguration promise cache')
  then show ?case using cache_step by blast
next
  case (failed cache promise)
  then show ?case
    using length_mapDelete [of "sourceKey L (pc_started cache ! promise)" "pc_entries cache"]
    by (auto simp: cache_ok_def derivationFailed_def mapDelete_set distinct_mapDelete)
qed (simp add: cache_ok_def)

text \<open>C20. Whatever connections were made before and whichever derivations failed, the cache holds one promise a key and
  at most sixteen, and the parameters a call gets are of a derivation of the call's own mode and curve, on
  outputs with the digests of the outputs it gave.\<close>

theorem cached_parameters_are_of_the_outputs:
  assumes "cache_of L cache" "digests_something L"
    and "protocolPublicParametersOf L K c dkg reconfiguration cache = (promise, cache')"
  shows "distinct (map fst (pc_entries cache')) \<and> length (pc_entries cache') \<le> 16 \<and>
     promise < length (pc_started cache') \<and>
     same_source L (pc_started cache' ! promise) (askedSource K c dkg reconfiguration)"
  using cache_step [OF cache_of_ok [OF assms(1)] assms(3)]
  by (simp add: cache_ok_def PROTOCOL_PUBLIC_PARAMETERS_CACHE_SIZE_def sourceKey_inject [OF assms(2)])


section \<open>A connection\<close>

text \<open>The key is listed for the deployed network, or one of the custom network's.\<close>

lemma requireNetworksKey_Inr:
  assumes "requireNetworksKey net key = Inr listed"
  shows "case net of
      Custom ks \<Rightarrow> key \<in> set ks \<and> listed = None
    | Deployed name \<Rightarrow> \<exists>e. e \<in> set (networkKeys (IKA_DEPLOYED_NETWORKS name)) \<and> noaPublicKey e = key \<and> listed = Some e"
proof (cases net)
  case (Custom ks)
  with assms have "\<exists>trusted. trustedNetworkKeys (Custom ks) = Inr trusted \<and> key \<in> set (publicKeys trusted) \<and> listed = None"
    by (auto simp: requireNetworksKey_def result_simps listedNetworkKey_def list_ex_iff split: if_split_asm)
  with Custom show ?thesis by (auto simp: trustedNetworkKeys_custom)
next
  case (Deployed name)
  with assms show ?thesis
    by (auto simp: requireNetworksKey_def result_simps listedNetworkKey_def listedNetworkKeyIn_def
        find_Some_iff split: if_split_asm option.split_asm)
qed

lemma requireSameMode_Inr: "requireSameMode mock dkg = Inr u \<longleftrightarrow> isMockValue dkg = mock"
  by (auto simp: requireSameMode_def Let_def result_simps refuseMockValues_def mapErr_eq_Inr)

lemma allThreeT_Inr:
  "allThreeT f g h now = Some (t, Inr (x, y, z)) \<Longrightarrow>
     \<exists>t1 t2 t3. f now = Some (t1, Inr x) \<and> g now = Some (t2, Inr y) \<and> h now = Some (t3, Inr z) \<and> t = max t1 (max t2 t3)"
  by (auto simp: allThreeT_def split: option.split_asm sum.split_asm prod.split_asm)

lemma thrownBy_Inr: "thrownBy f m now = Some (t, Inr x) \<longleftrightarrow> m now = Some (t, Inr x)"
  by (auto simp: thrownBy_def mapErr_eq_Inr)

lemma customOrListed_Inr:
  "customOrListed net [key] = Inr trusted \<Longrightarrow>
     (case net of
        Custom _ \<Rightarrow> trusted = \<lparr>network = Custom [key], publicKeys = [key]\<rparr>
      | Deployed name \<Rightarrow> network trusted = Deployed name \<and>
          publicKeys trusted = map noaPublicKey (networkKeys (IKA_DEPLOYED_NETWORKS name)))"
proof (cases net)
  case (Deployed name)
  then show "customOrListed net [key] = Inr trusted \<Longrightarrow> ?thesis"
    by (auto simp: customOrListed_def trustedNetworkKeys_def trustedNetworkKeysIn_def split: if_split_asm)
qed (auto simp: customOrListed_def trustedNetworkKeys_custom)

lemma connectWith_Inr:
  assumes "connectWith A key latest epoch verified cache now = (t, cache', Inr c)"
  obtains K promise started parameters trusted where
    "K = (case ca_cryptography A of None \<Rightarrow> ca_realCryptography A | Some K \<Rightarrow> K)"
    "isMockValue (networkDkgOutput verified) = ec_mock K"
    "protocolPublicParametersOf (en_sdk (ca_env A)) K (ca_curve A) (networkDkgOutput verified)
       (latestReconfigurationOutput verified) cache = (promise, cache')"
    "derive (pc_started cache' ! promise) = Inr parameters" "customOrListed (ca_network A) [key] = Inr trusted"
    "c = \<lparr>co_connection = connectionOf A key latest K parameters, co_epoch = epoch, co_trusted = trusted\<rparr>"
  using assms unfolding connectWith_def Let_def
  by (auto simp: requireSameMode_Inr result_simps split: sum.split_asm prod.split_asm)

text \<open>C2. A connection is made only under a key its network names, with parameters derived from the network key's
  recorded outputs: the outputs served are the ones the chain records under a registered key's signature,
  the DKG output has the digest listed where the network is deployed, they are mock outputs exactly when
  the client's cryptography is, and the parameters are of a derivation of that mode and curve on outputs
  with the digests of these; the connection starts at the epoch the chain gave and trusts on a custom
  network its own key alone.\<close>

theorem connect_sound:
  assumes "cache_of (en_sdk (ca_env A)) cache" "digests_something (en_sdk (ca_env A))"
    and "connect A cache now = Some (t, cache', Inr c)"
  shows "\<exists>(served :: network_key_output) src te.
     cn_networkKeyId (co_connection c) = ca_networkKeyId A \<and> length (ca_networkKeyId A) = 32 \<and>
     (case ca_network A of
        Custom ks \<Rightarrow> ca_networkKeyId A \<in> set ks \<and>
          co_trusted c = \<lparr>network = Custom [ca_networkKeyId A], publicKeys = [ca_networkKeyId A]\<rparr>
      | Deployed name \<Rightarrow> network (co_trusted c) = Deployed name \<and>
          publicKeys (co_trusted c) = map noaPublicKey (networkKeys (IKA_DEPLOYED_NETWORKS name)) \<and>
          (\<exists>e. e \<in> set (networkKeys (IKA_DEPLOYED_NETWORKS name)) \<and> noaPublicKey e = ca_networkKeyId A \<and>
             networkOutputDigest (en_sdk (ca_env A)) (networkDkgOutput served) = dkgOutputDigest e)) \<and>
     networkKeyId served = ca_networkKeyId A \<and>
     recorded (en_sdk (ca_env A)) (ca_records A) (ca_networkKeyId A) DkgRecord
       (networkKeyDkgRecordMessage (ca_networkKeyId A)) (networkOutputDigest (en_sdk (ca_env A)) (networkDkgOutput served)) \<and>
     (\<forall>out. latestReconfigurationOutput served = Some out \<longrightarrow>
        recorded (en_sdk (ca_env A)) (ca_records A) (ca_networkKeyId A) (ReshareRecord (out_epoch served))
          (networkKeyReconfigurationRecordMessage (ca_networkKeyId A) (out_epoch served))
          (networkOutputDigest (en_sdk (ca_env A)) out)) \<and>
     isMockValue (networkDkgOutput served) = ec_mock (cn_cryptography (co_connection c)) \<and>
     derive src = Inr (cn_protocolPublicParameters (co_connection c)) \<and>
     same_source (en_sdk (ca_env A)) src
       (askedSource (cn_cryptography (co_connection c)) (ca_curve A) (networkDkgOutput served) (latestReconfigurationOutput served)) \<and>
     cn_curve (co_connection c) = ca_curve A \<and> ca_chainEpoch A now = Some (te, Inr (co_epoch c)) \<and>
     cache_of (en_sdk (ca_env A)) cache'"
proof -
  let ?L = "en_sdk (ca_env A)" and ?key = "ca_networkKeyId A"
  from assms(3) obtain key listed t1 latest g epoch t2 verified
    where key: "networkKeyIdFromBytes ?key = Inr key" and listed: "requireNetworksKey (ca_network A) key = Inr listed"
      and reads: "allThreeT
           (thrownBy CallFailed (clientRead A (latestNetworkKeyId (ca_client A) (ca_keys A) (ca_closing A))))
           (thrownBy CallFailed (networkKeyOutputRetried A key)) (thrownBy Thrown (ca_chainEpoch A)) now
           = Some (t1, Inr (latest, g, epoch))"
      and digest: "requireListedDigest ?L listed (servedOutput g) = Inr ()"
      and checked: "verifyNetworkKeyOutput ?L (ca_records A) (servedOutput g) key RESHARE_RECORD_WAIT t1 = Some (t2, Inr verified)"
      and last: "connectWith A key latest epoch verified cache t2 = (t, cache', Inr c)"
    unfolding connect_def by (auto simp: bindE_def split: sum.split_asm option.split_asm prod.split_asm)
  from key have key': "key = ?key" "length ?key = 32"
    by (auto simp: networkKeyIdFromBytes_def NETWORK_KEY_ID_LENGTH_def split: if_split_asm)
  from allThreeT_Inr [OF reads] obtain te where epoch: "ca_chainEpoch A now = Some (te, Inr epoch)"
    by (auto simp: thrownBy_Inr)
  from verified_output [OF checked] have v: "verified = servedOutput g" "networkKeyId verified = ?key"
    and records: "recorded ?L (ca_records A) ?key DkgRecord (networkKeyDkgRecordMessage ?key)
        (networkOutputDigest ?L (networkDkgOutput verified))"
      "\<forall>out. latestReconfigurationOutput verified = Some out \<longrightarrow>
        recorded ?L (ca_records A) ?key (ReshareRecord (out_epoch verified))
          (networkKeyReconfigurationRecordMessage ?key (out_epoch verified)) (networkOutputDigest ?L out)"
    by (auto simp: key'(1) networkOutputDigest_def)
  from connectWith_Inr [OF last] obtain K promise parameters trusted
    where mode: "isMockValue (networkDkgOutput verified) = ec_mock K"
      and asked: "protocolPublicParametersOf ?L K (ca_curve A) (networkDkgOutput verified)
        (latestReconfigurationOutput verified) cache = (promise, cache')"
      and derived: "derive (pc_started cache' ! promise) = Inr parameters"
      and trusted: "customOrListed (ca_network A) [key] = Inr trusted"
      and c: "c = \<lparr>co_connection = connectionOf A key latest K parameters, co_epoch = epoch, co_trusted = trusted\<rparr>"
    by metis
  from cache_step [OF cache_of_ok [OF assms(1)] asked] have src: "same_source ?L (pc_started cache' ! promise)
      (askedSource K (ca_curve A) (networkDkgOutput verified) (latestReconfigurationOutput verified))"
    by (simp add: sourceKey_inject [OF assms(2)])
  have cache: "cache_of ?L cache'" by (rule cache_of.asked [OF assms(1) asked])
  from requireNetworksKey_Inr [OF listed] customOrListed_Inr [OF trusted] digest have net: "case ca_network A of
        Custom ks \<Rightarrow> ?key \<in> set ks \<and> co_trusted c = \<lparr>network = Custom [?key], publicKeys = [?key]\<rparr>
      | Deployed name \<Rightarrow> network (co_trusted c) = Deployed name \<and>
          publicKeys (co_trusted c) = map noaPublicKey (networkKeys (IKA_DEPLOYED_NETWORKS name)) \<and>
          (\<exists>e. e \<in> set (networkKeys (IKA_DEPLOYED_NETWORKS name)) \<and> noaPublicKey e = ?key \<and>
             networkOutputDigest ?L (networkDkgOutput verified) = dkgOutputDigest e)"
    by (auto simp: c key' v(1) requireListedDigest_def result_simps split: ika_network.split) blast
  show ?thesis
    by (rule exI [of _ verified], rule exI [of _ "pc_started cache' ! promise"], rule exI [of _ te], intro conjI)
      (use net v(2) records mode derived src epoch cache key'(2) in \<open>simp_all add: c connectionOf_def key'(1)\<close>)
qed


section \<open>Connecting ends\<close>

lemma thenE_settles:
  "\<exists>t s' r. m now s = Some (t, s', r) \<and> now \<le> t \<Longrightarrow> \<exists>t s' r. thenE m f now s = Some (t, s', r) \<and> now \<le> t"
  by (auto simp: thenE_def split: sum.split)

lemma clientRead_settles:
  "(\<And>now s. \<exists>t s' r. run now s = Some (t, s', r) \<and> now \<le> t) \<Longrightarrow> \<exists>t r. clientRead A run now = Some (t, r) \<and> now \<le> t"
  unfolding clientRead_def by (metis (no_types, lifting) case_prod_conv option.simps(9))

lemma latestNetworkKeyId_settles:
  assumes "calls_in_time C" "\<And>t. lagOf C t \<le> lag"
  shows "\<exists>t s' r. latestNetworkKeyId C M closing now s = Some (t, s', r)"
proof -
  have "0 < network_keys_retry.pauseMs NETWORK_KEYS_READ_RETRY" "0 \<le> network_keys_retry.budgetMs NETWORK_KEYS_READ_RETRY"
    by (simp_all add: NETWORK_KEYS_READ_RETRY_def)
  with networkKeysLoop_in_time [OF assms(1) _ assms(2), of NETWORK_KEYS_READ_RETRY now
      "now + network_keys_retry.budgetMs NETWORK_KEYS_READ_RETRY" M closing s]
  obtain t s' r where "networkKeysByAgeResponse C M NETWORK_KEYS_READ_RETRY closing now s = Some (t, s', r)"
    unfolding networkKeysByAgeResponse_def by auto
  then show ?thesis by (simp add: latestNetworkKeyId_def thenE_def)
qed

lemma getNetworkKeyOutput_settles:
  assumes "calls_in_time C"
  shows "\<exists>t s' r. getNetworkKeyOutput C M key now s = Some (t, s', r) \<and> now \<le> t"
proof -
  from readThrough_in_time [OF assms, of M key "now + READ_TIMEOUT_MS" 0 now s]
  have "\<exists>t s' r. readThrough C M key (now + READ_TIMEOUT_MS) 0 now s = Some (t, s', r) \<and> now \<le> t" by blast
  then show ?thesis unfolding getNetworkKeyOutput_def by (rule thenE_settles)
qed

lemma outputRetried_ends:
  assumes "\<And>now. \<exists>t r. read now = Some (t, r) \<and> now \<le> t"
  shows "\<exists>t r. outputRetried read lag deadline now = Some (t, r) \<and> now \<le> t"
proof (induction "nat (deadline - now)" arbitrary: now rule: less_induct)
  case less
  from assms obtain t r where read: "read now = Some (t, r)" "now \<le> t" by blast
  let ?later = "t + NETWORK_KEY_READ_RETRY_MS + int (lag t)"
  show ?case
  proof (cases "\<exists>e. r = Inl e \<and> \<not> (\<not> isServerRestart e \<or> t \<ge> deadline)")
    case True
    with read have "nat (deadline - ?later) < nat (deadline - now)" by (auto simp: NETWORK_KEY_READ_RETRY_MS_def)
    from less [OF this] obtain t' r' where "outputRetried read lag deadline ?later = Some (t', r')" "?later \<le> t'" by blast
    with True read show ?thesis by (subst outputRetried.simps) (auto simp: NETWORK_KEY_READ_RETRY_MS_def)
  next
    case False
    with read show ?thesis by (subst outputRetried.simps) (cases r; auto)
  qed
qed


lemma allThreeT_ends:
  assumes "\<exists>t r. f now = Some (t, r)" "\<exists>t r. g now = Some (t, r)" "\<exists>t r. h now = Some (t, r)"
  shows "\<exists>t r. allThreeT f g h now = Some (t, r)"
proof -
  from assms obtain t1 r1 t2 r2 t3 r3 where m: "f now = Some (t1, r1)" "g now = Some (t2, r2)" "h now = Some (t3, r3)" by blast
  then show ?thesis
    by (cases r1; cases r2; cases r3) (auto simp: allThreeT_def erased_def)
qed

text \<open>Connecting ends, with a connection or an error, whatever the validators and the chain answer: the transport
  settles each call by its deadline, the chain answers, and every wait is bounded by its own deadline.\<close>

theorem connect_ends:
  assumes "calls_in_time (ca_client A)" "\<And>t. lagOf (ca_client A) t \<le> lag"
    and "\<exists>t r. ca_chainEpoch A now = Some (t, r)"
  shows "\<exists>t cache' r. connect A cache now = Some (t, cache', r)"
proof -
  have latest: "\<exists>t r. clientRead A (latestNetworkKeyId (ca_client A) (ca_keys A) (ca_closing A)) now = Some (t, r)"
    using latestNetworkKeyId_settles [OF assms(1,2), of "ca_keys A" "ca_closing A" now "clientAt A now"]
    by (auto simp: clientRead_def)
  have served: "\<exists>t r. networkKeyOutputRetried A key now = Some (t, r)" for key
  proof -
    have "\<exists>t r. clientRead A (getNetworkKeyOutput (ca_client A) (ca_output A) key) now = Some (t, r) \<and> now \<le> t" for now
      by (rule clientRead_settles) (rule getNetworkKeyOutput_settles [OF assms(1)])
    from outputRetried_ends [OF this] show ?thesis unfolding networkKeyOutputRetried_def by blast
  qed
  have reads: "\<exists>t r. allThreeT
      (thrownBy CallFailed (clientRead A (latestNetworkKeyId (ca_client A) (ca_keys A) (ca_closing A))))
      (thrownBy CallFailed (networkKeyOutputRetried A key)) (thrownBy Thrown (ca_chainEpoch A)) now = Some (t, r)" for key
    using latest served [of key] assms(3) by (intro allThreeT_ends) (auto simp: thrownBy_def)
  have pause: "0 < reshare_record_wait.pauseMs RESHARE_RECORD_WAIT" by (simp add: RESHARE_RECORD_WAIT_def)
  show ?thesis
  proof (cases "bindE (networkKeyIdFromBytes (ca_networkKeyId A)) (\<lambda>key.
      bindE (requireNetworksKey (ca_network A) key) (\<lambda>listed. Inr (key, listed)))")
    case (Inr x)
    then obtain key listed where x: "x = (key, listed)" by (cases x)
    from reads [of key] obtain t r where read: "allThreeT
      (thrownBy CallFailed (clientRead A (latestNetworkKeyId (ca_client A) (ca_keys A) (ca_closing A))))
      (thrownBy CallFailed (networkKeyOutputRetried A key)) (thrownBy Thrown (ca_chainEpoch A)) now = Some (t, r)" by blast
    show ?thesis
    proof (cases r)
      case (Inr y)
      then obtain latest served epoch where y: "y = (latest, served, epoch)" by (cases y)
      from verifyNetworkKeyOutput_ends [OF pause] obtain t' r'
        where "verifyNetworkKeyOutput (en_sdk (ca_env A)) (ca_records A) (servedOutput served) key RESHARE_RECORD_WAIT t
          = Some (t', r')" by blast
      with \<open>bindE _ _ = Inr x\<close> x read Inr y show ?thesis
        by (cases r') (auto simp: connect_def split: sum.split intro: prod_cases3)
    qed (use \<open>bindE _ _ = Inr x\<close> x read in \<open>auto simp: connect_def\<close>)
  qed (simp add: connect_def)
qed

section \<open>Keys trusted later\<close>

text \<open>
  Adding trusted keys drops none and adds only the keys given; on a deployed network it changes nothing,
  and passes only for keys of the list.
\<close>

theorem withTrustedNetworkPublicKeys_adds:
  assumes "withTrustedNetworkPublicKeys N added now s = Some (t, s', r)"
  shows "ns_signed s' = ns_signed s \<and>
     (case cn_network N of
        Deployed name \<Rightarrow> s' = s \<and> (r = Inr () \<longrightarrow>
          (\<forall>key\<in>set added. key \<in> noaPublicKey ` set (networkKeys (IKA_DEPLOYED_NETWORKS name))))
      | Custom _ \<Rightarrow> (r = Inr () \<longrightarrow> set (publicKeys (ns_trusted s')) = set (publicKeys (ns_trusted s)) \<union> set added) \<and>
          (r \<noteq> Inr () \<longrightarrow> s' = s))"
proof (cases "cn_network N")
  case (Custom ks)
  with assms show ?thesis
    by (auto simp: withTrustedNetworkPublicKeys_def Let_def customOrListed_def trustedNetworkKeys_custom list_ex_iff
        split: sum.split_asm)
next
  case (Deployed name)
  with assms show ?thesis
    by (auto simp: withTrustedNetworkPublicKeys_def list_all_iff returned_iff listedNetworkKey_def listedNetworkKeyIn_def
        result_simps find_Some_iff split: if_split_asm option.split_asm)
qed

end
