(* ===== verification/Demo_Engine.thy ===== *)
theory Demo_Engine
  imports Share_Call_Laws Connect_Laws Demo_Building Demo_Requests Demo_Grpc
begin

text \<open>
  The laws of a connection's calls applied to connections whose validator answers at once with what the
  network attests.
\<close>

section \<open>A connection\<close>

definition enginePresign :: presign_attestation where
  "enginePresign =
     \<lparr>pr_session_identifier = theKey, pr_epoch = 7, pr_presign_session_identifier = [6], pr_presign_data = [],
      pr_curve = Curve_Curve25519, pr_signature_algorithm = Alg_EdDSA, pr_dwallet_public_key = None,
      pr_user_pubkey = theKey\<rparr>"

definition enginePartial :: partial_signature_attestation where
  "enginePartial =
     \<lparr>pu_session_identifier = theKey, pu_intended_chain_sender = replicate 32 0, pu_dwallet_public_key = [3],
      pu_dwallet_attestation_hash = theKey, pu_future_signature_voucher = theKey,
      pu_presign_session_identifier = [6], pu_presign_attestation_hash = theKey,
      pu_message_digest = theKey, pu_message_metadata_digest = replicate 32 0,
      pu_signature_scheme = EddsaSha512, pu_verified_sign_data = [10]\<rparr>"

definition enginePublic :: public_share_attestation where
  "enginePublic =
     \<lparr>ps_session_identifier = theKey, ps_intended_chain_sender = replicate 32 0, ps_dwallet_public_key = [3],
      ps_public_user_secret_key_share = replicate 34 1, ps_dwallet_attestation_digest = theKey\<rparr>"

definition engineShare :: encrypted_share_attestation where
  "engineShare =
     \<lparr>es_session_identifier = theKey, es_intended_chain_sender = replicate 32 0, es_dwallet_public_key = [3],
      es_encrypted_share_hash = theKey, es_encryption_key_hash = theKey,
      es_holder = \<lparr>holder_scheme = Scheme_Ed25519, holder_key = theKey\<rparr>, es_dwallet_attestation_digest = theKey\<rparr>"

text \<open>Every kind of attestation has one value, which its bytes hold.\<close>

definition engineLib :: "signed_request_data \<Rightarrow> dwallet_attestation \<Rightarrow> sdk_lib" where
  "engineLib data att = demoLib
     \<lparr>keccak_256 := (\<lambda>_. theKey), blake2b_256 := (\<lambda>_. theKey), dwalletBcs := oneValue (V1 att) [0, 1],
      presignBcs := oneValue (V1 enginePresign) [0, 1], partialSignatureBcs := oneValue (V1 enginePartial) [0, 1],
      publicShareBcs := oneValue (V1 enginePublic) [0, 1], encryptedShareBcs := oneValue (V1 engineShare) [0, 1],
      signedRequestDataBcs := oneValue data [5], userSignatureBcs := oneValue (UserEd25519 theSignature theKey) [7, 8]\<rparr>"

definition engineStep :: prepared_step where
  "engineStep = \<lparr>userMessage = [1], userSecretKeyShare = replicate 34 1, userPublicOutput = [2]\<rparr>"

definition engineUser :: user_cryptography where
  "engineUser = demoCryptography\<lparr>createUserSignMessageWithPublicOutput := (\<lambda>a b c d e h s k m. Inr [5])\<rparr>"

definition engineCryptography :: engine_cryptography where
  "engineCryptography =
     \<lparr>ec_user = engineUser, ec_mock = False,
      prepareDKGForSessionIdentifier = (\<lambda>_ _ _ _. Inr engineStep),
      prepareImportedKeyVerification = (\<lambda>_ _ _ _ _. Inr engineStep),
      encryptSecretShare = (\<lambda>_ _ _ _ _. Inr [6]),
      publicKeyFromCentralizedDKGOutput = (\<lambda>_ _. Inr [3]),
      networkDkgToParameters = (\<lambda>_ _. Inr [1]), reconfigurationToParameters = (\<lambda>_ _ _. Inr [2]),
      decryptUserShareOfOutput = (\<lambda>_ _ _ _ _. Inr (replicate 34 1))\<rparr>"

definition engineEd :: ed25519_lib where
  "engineEd = \<lparr>edSign = (\<lambda>_ _. Some theSignature), edGetPublicKey = (\<lambda>_. Some theKey)\<rparr>"

definition engineEnv :: "sdk_lib \<Rightarrow> engine_env" where
  "engineEnv L =
     \<lparr>en_sdk = L, en_ed25519 = engineEd, en_records = demoRecordLib, en_realCryptography = demoCryptography,
      randomBytes = (\<lambda>_. theKey), elapses = (\<lambda>_. 0), othersEpoch = (\<lambda>_ e. e), othersTrusted = (\<lambda>_ k. k)\<rparr>"

definition engineClient :: grpc_client where
  "engineClient =
     \<lparr>unary = (\<lambda>i m bs d now. Some (now, Inr [])), furtherValidatorCount = 0,
      refusalMaxAgeMs = PIN_REFUSAL_MAX_AGE_MS, monotonicNow = (\<lambda>t. t), meanwhile = (\<lambda>_ m. m), lagOf = (\<lambda>_. 0)\<rparr>"

definition engineSubmit :: "transaction_response \<Rightarrow> (signed_grpc_request, transaction_response) rpc_method" where
  "engineSubmit response = \<lparr>methodName = ''SubmitTransaction'',
     encodeRequest = (\<lambda>r. Inr (gr_signedRequestData r)), decodeResponse = (\<lambda>_. Inr response)\<rparr>"

definition engineParameters :: "engine_cryptography \<Rightarrow> bytes" where
  "engineParameters K = (if ec_mock K then mockValue MockProtocolPublicParameters [2] else [1])"

lemma engineParameters_real [simp]: "engineParameters engineCryptography = [1]"
  by (simp add: engineParameters_def engineCryptography_def)

text \<open>A chain that answers at once and holds no record.\<close>

definition absentRecords :: request_records where
  "absentRecords = \<lparr>hasGasCharge = (\<lambda>_ _ now. Some (now, Inr False)), voucherSignature = (\<lambda>_ now. Some (now, Inr None)),
     futureVoucher = (\<lambda>_ now. Some (now, Inr None))\<rparr>"

definition absentShares :: "trusted_network_keys \<Rightarrow> share_lookup" where
  "absentShares trusted d now = Some (now, Inr None)"

definition engineNetOf :: "engine_cryptography \<Rightarrow> sdk_lib \<Rightarrow> transaction_response \<Rightarrow> network_connection" where
  "engineNetOf K L response =
     \<lparr>cn_env = engineEnv L, cn_client = engineClient, cn_submit = engineSubmit response, cn_curve = ED25519,
      cn_network = Custom [theKey], cn_networkKeyId = theKey, cn_latestNetworkKeyId = theKey,
      cn_protocolPublicParameters = engineParameters K, cn_chainEpoch = (\<lambda>now. Some (now, Inr 7)), cn_requestRecords = Some absentRecords,
      cn_shares = Some absentShares, cn_cryptography = K\<rparr>"

abbreviation engineNet :: "sdk_lib \<Rightarrow> transaction_response \<Rightarrow> network_connection" where
  "engineNet \<equiv> engineNetOf engineCryptography"

definition engineRequester :: requester where
  "engineRequester = \<lparr>rq_keypair = demoKeypair, rq_signer = None, rq_chain = Solana, rq_intendedChainSender = replicate 32 0\<rparr>"

definition engineState :: net_state where
  "engineState = \<lparr>ns_client = freshState, ns_epoch = 7, ns_trusted = demoTrust, ns_holders = [], ns_issued = [],
     ns_draws = 0, ns_signed = []\<rparr>"

definition engineData :: "dwallet_request \<Rightarrow> signed_request_data" where
  "engineData request = signedData engineRequester 3 7 theKey request"

lemma engine_grows [simp]: "epochs_grow (engineNetOf K L response)" "kept_by_others (engineNetOf K L response) good"
  by (simp_all add: epochs_grow_def kept_by_others_def engineNetOf_def engineEnv_def)

lemma engineLib_simps [simp]:
  "ed25519_verify (engineLib d att) = demoVerify" "keccak_256 (engineLib d att) = (\<lambda>_. theKey)"
  "dwalletBcs (engineLib d att) = oneValue (V1 att) [0, 1]"
  "presignBcs (engineLib d att) = oneValue (V1 enginePresign) [0, 1]"
  "partialSignatureBcs (engineLib d att) = oneValue (V1 enginePartial) [0, 1]"
  "publicShareBcs (engineLib d att) = oneValue (V1 enginePublic) [0, 1]"
  "encryptedShareBcs (engineLib d att) = oneValue (V1 engineShare) [0, 1]"
  "signedRequestDataBcs (engineLib d att) = oneValue d [5]"
  "userSignatureBcs (engineLib d att) = oneValue (UserEd25519 theSignature theKey) [7, 8]"
  by (simp_all add: engineLib_def)

lemma engineNet_simps [simp]:
  "cn_env (engineNetOf K L response) = engineEnv L" "cn_client (engineNetOf K L response) = engineClient"
  "cn_submit (engineNetOf K L response) = engineSubmit response" "cn_curve (engineNetOf K L response) = ED25519"
  "cn_network (engineNetOf K L response) = Custom [theKey]" "cn_networkKeyId (engineNetOf K L response) = theKey"
  "cn_latestNetworkKeyId (engineNetOf K L response) = theKey" "cn_protocolPublicParameters (engineNetOf K L response) = engineParameters K"
  "cn_chainEpoch (engineNetOf K L response) = (\<lambda>now. Some (now, Inr 7))" "cn_requestRecords (engineNetOf K L response) = Some absentRecords"
  "cn_shares (engineNetOf K L response) = Some absentShares" "cn_cryptography (engineNetOf K L response) = K"
  "en_sdk (engineEnv L) = L" "en_ed25519 (engineEnv L) = engineEd"
  by (simp_all add: engineNetOf_def engineEnv_def)

text \<open>What waits in the state of a run on this connection: nothing changes but the log.\<close>

definition stays :: "net_state \<Rightarrow> net_state \<Rightarrow> bool" where
  "stays s s' \<longleftrightarrow> ns_epoch s' = ns_epoch s \<and> ns_trusted s' = ns_trusted s \<and> ns_issued s' = ns_issued s \<and>
     cs_refused (ns_client s') = cs_refused (ns_client s)"

lemma engine_resumed [simp]: "resumed (engineNetOf K L response) t s = s"
  by (simp add: resumed_def engineEnv_def)

lemma engine_epoch: "ns_epoch s = 7 \<Longrightarrow> readChainEpoch (engineNetOf K L response) now s = Some (now, s, Inr 7)"
  by (simp add: readChainEpoch_def bindN_def awaitRead_def Let_def mapErr_def)

lemma engine_sends:
  assumes "cs_refused c = Map.empty" "\<not> depositUnread response"
  shows "\<exists>c'. sendSigned engineClient (engineSubmit response) request now c = Some (now, c', Inr response) \<and>
     cs_refused c' = Map.empty"
  using assms
  by (simp add: sendSigned_def sendUntilAnswered_def sendLoop.simps resendWhileDepositUnread_def depositLoop.simps
      submitTransaction_def validatorIndexes_def isRefused_def call_def engineClient_def engineSubmit_def othersRan_def
      result_simps Let_def)


lemma engine_session: "sessionIdentifier (engineNetOf K (engineLib d att) response) req epoch preimage = theKey"
  by (simp add: sessionIdentifier_def grpcSessionIdentifier_def)

lemma engine_signs:
  assumes "\<not> isDWalletSign (ro_request object)" "\<forall>h. waitingHolderOf (ns_holders s) object = Some h \<longrightarrow> h = theKey"
    and "assertRequestFieldsWithinLimits (engineData (ro_request object)) = Inr ()"
  shows "signFor (engineNetOf K (engineLib (engineData (ro_request object)) att) response) engineRequester
      (signingRequest (engineNetOf K (engineLib (engineData (ro_request object)) att) response) (engineData (ro_request object)) object)
      now s = Some (now, s, Inr \<lparr>sr_userSignature = [7, 8], sr_signedRequestData = [5]\<rparr>)"
proof -
  have "engineData (ro_request object)\<lparr>req_request := ro_request object\<rparr> = engineData (ro_request object)"
    by (simp add: engineData_def signedData_def)
  with assms show ?thesis
    by (auto simp: signFor_def engineRequester_def signingRequest_def withState_def liftN_def mapErr_def signGrpcRequest_def
        signRequestBytes_def signSerializedRequest_def assertSignedRequestDataWithinLimit_def engineEd_def demoKeypair_def
        GRPC_REQUEST_SIZE_LIMITS_def theKey_def theSignature_def bindE_def seqE_def guardE_def ofOption_def
        split: option.split sum.split)
qed

lemma engine_send_built:
  assumes "cs_refused (ns_client s) = Map.empty" "\<not> depositUnread response" "staleEpochRefusal response (se_epoch sent) = None"
  shows "\<exists>s'. sendBuilt (engineNetOf K L response) out at sent now s = Some (now, s', Inr (Answered response sent)) \<and>
     ns_epoch s' = ns_epoch s \<and> ns_trusted s' = ns_trusted s \<and> ns_issued s' = ns_issued s \<and>
     cs_refused (ns_client s') = Map.empty"
proof -
  from engine_sends [OF assms(1,2), of "grpcRequest out" now] obtain c'
    where "sendSigned engineClient (engineSubmit response) (grpcRequest out) now (ns_client s) = Some (now, c', Inr response)"
      "cs_refused c' = Map.empty" by blast
  with assms(3) show ?thesis by (simp add: sendBuilt_def awaitClient_def Let_def mapErr_def)
qed

lemma engine_submits:
  assumes s: "ns_epoch s = 7" "cs_refused (ns_client s) = Map.empty"
    and response: "\<not> depositUnread response" "staleEpochRefusal response 7 = None"
    and mk: "mk 7 theKey now (s\<lparr>ns_draws := ns_draws s + 1\<rparr>) = Some (now, s2, Inr (object, kept))" "stays s s2"
    and object: "\<not> isDWalletSign (ro_request object)" "\<forall>h. waitingHolderOf (ns_holders s2) object = Some h \<longrightarrow> h = theKey"
      "assertRequestFieldsWithinLimits (engineData (ro_request object)) = Inr ()"
    and L: "L = engineLib (engineData (ro_request object)) att"
  shows "\<exists>s'. submit (engineNetOf K L response) engineRequester mk describe n now s =
     Some (now, s', Inr (response, \<lparr>se_epoch = 7, se_session = theKey, se_kept = kept\<rparr>)) \<and> stays s s'"
proof -
  let ?N = "engineNetOf K L response" and ?sent = "\<lparr>se_epoch = 7, se_session = theKey, se_kept = kept\<rparr>"
  let ?out = "\<lparr>sr_userSignature = [7, 8], sr_signedRequestData = [5]\<rparr>"
  from s mk(2) have s2: "cs_refused (ns_client s2) = Map.empty" by (simp add: stays_def)
  from engine_send_built [OF this response(1), of ?sent K L ?out now now] response(2) obtain s'
    where sent: "sendBuilt ?N ?out now ?sent now s2 = Some (now, s', Inr (Answered response ?sent))"
      and s': "stays s s'" using mk(2) s(2) by (auto simp: stays_def)
  have data: "signedData engineRequester (requestNetworkValue (Custom [theKey])) 7 theKey (ro_request object) = engineData (ro_request object)"
    by (simp add: engineData_def requestNetworkValue_def LOCAL_NETWORK_VALUE_def)
  have "signAndSend ?N engineRequester 7 (\<lambda>d object. signFor ?N engineRequester (signingRequest ?N d object)) mk now s =
      Some (now, s', Inr (Answered response ?sent))"
    using mk(1) engine_signs [OF object, of K att response now] sent data
    by (simp add: signAndSend_def withTime_def bindN_def freshPreimage_def Let_def L engine_session engineEnv_def)
  then have "submitOnce ?N engineRequester mk describe again now s = Some (now, s', Inr (response, ?sent))" for again
    by (simp add: submitOnce_def bindN_def engine_epoch [OF s(1)] returnN_def)
  with s' show ?thesis by (cases n) auto
qed

lemma engine_ready [simp]: "ns_epoch engineState = 7" "cs_refused (ns_client engineState) = Map.empty"
    "ns_trusted engineState = demoTrust" "ns_holders engineState = []"
  by (simp_all add: engineState_def freshState_def)

lemma engine_answers:
  assumes s: "ns_epoch s = 7" "cs_refused (ns_client s) = Map.empty"
    and build: "\<And>s. mk 7 theKey 0 s = Some (0, s, Inr (plainObject request, kept))"
    and request: "\<not> isDWalletSign request" "assertRequestFieldsWithinLimits (engineData request) = Inr ()"
    and response: "\<not> depositUnread response" "staleEpochRefusal response 7 = None"
  shows "\<exists>s'. submit (engineNetOf K (engineLib (engineData request) att) response) engineRequester mk describe n 0 s =
     Some (0, s', Inr (response, \<lparr>se_epoch = 7, se_session = theKey, se_kept = kept\<rparr>)) \<and> stays s s'"
  by (rule engine_submits [where object = "plainObject request" and ?s2.0 = "s\<lparr>ns_draws := ns_draws s + 1\<rparr>"])
    (use assms in \<open>simp_all add: stays_def plainObject_def waitingHolderOf_def\<close>)

text \<open>A request that carries a presign of epoch 7.\<close>

lemma engine_presigned:
  assumes s: "ns_epoch s = 7" "cs_refused (ns_client s) = Map.empty"
    and response: "\<not> depositUnread response" "staleEpochRefusal response 7 = None"
    and sign: "sign (engineData request) (plainObject request) now (s\<lparr>ns_draws := ns_draws s + 1\<rparr>) =
      Some (now, s\<lparr>ns_draws := ns_draws s + 1\<rparr>, Inr out)"
    and L: "L = engineLib d att"
  shows "\<exists>s'. submitWithPresign (engineNetOf K L response) engineRequester 7 sign (\<lambda>_. returnN (plainObject request, ())) describe now s =
     Some (now, s', Inr (response, \<lparr>se_epoch = 7, se_session = theKey, se_kept = ()\<rparr>)) \<and> stays s s'"
proof -
  let ?N = "engineNetOf K L response" and ?sent = "\<lparr>se_epoch = 7, se_session = theKey, se_kept = ()\<rparr>"
  from engine_send_built [OF _ response(1), of "s\<lparr>ns_draws := ns_draws s + 1\<rparr>" ?sent K L out now now] s response(2) obtain s'
    where sent: "sendBuilt ?N out now ?sent now (s\<lparr>ns_draws := ns_draws s + 1\<rparr>) = Some (now, s', Inr (Answered response ?sent))"
      and s': "stays s s'" by (auto simp: stays_def)
  have data: "signedData engineRequester (requestNetworkValue (Custom [theKey])) 7 theKey request = engineData request"
    by (simp add: engineData_def requestNetworkValue_def LOCAL_NETWORK_VALUE_def)
  have "signAndSend ?N engineRequester 7 sign (\<lambda>_ _. returnN (plainObject request, ())) now s =
      Some (now, s', Inr (Answered response ?sent))"
    using sign sent data
    by (simp add: signAndSend_def withTime_def bindN_def freshPreimage_def Let_def L engine_session engineEnv_def returnN_def plainObject_def)
  then show ?thesis using s'
    by (simp add: submitWithPresign_def bindN_def engine_epoch [OF s(1)] returnN_def)
qed

lemmas engine_limits = assertRequestFieldsWithinLimits_def requestFields_def signDuringDkgFields_def GRPC_REQUEST_SIZE_LIMITS_def engineRequester_def
  theKey_def theSignature_def

definition engineAttestation :: network_signed_attestation where
  "engineAttestation =
     \<lparr>attestation_data = [0, 1], network_signature = theSignature,
      network_pubkey = theKey, signer_noa_public_key = theKey\<rparr>"

lemma engine_attested:
  "key_named (network demoTrust) theKey (network_pubkey engineAttestation)" "network_pubkey engineAttestation \<in> set (publicKeys demoTrust)"
  "signed_record (engineLib d att) (oneValue (V1 w) [0, 1]) kind (recordOfAttestation engineAttestation) demoTrust v \<longleftrightarrow> v = w"
  by (auto simp: key_named_def demo_lib engineAttestation_def signed_record_def recordOfAttestation_def decodes_def)

lemma engine_some_attested [simp]:
  "Ex (signed_record (engineLib d att) (oneValue (V1 w) [0, 1]) kind (recordOfAttestation engineAttestation) demoTrust)"
  by (rule exI [of _ w]) (simp add: engine_attested)

lemma engine_computeAt [simp]: "computeAt (engineNetOf K L response) f now s = Some (now, s, mapErr Thrown (f now))"
  by (simp add: computeAt_def engineEnv_def)

lemma engine_compute [simp]: "compute (engineNetOf K L response) r now s = Some (now, s, mapErr Thrown r)"
  by (simp add: compute_def)

lemmas run_simps = bindN_def returnN_def liftN_def withState_def mapErr_def map_sum_def

lemma engine_curve [simp]: "curveInput (engineNetOf K L response) = Inr Curve_Curve25519"
  "curveNumberOf (engineNetOf K L response) = Inr 2"
  by (simp_all add: curveInput_def curveNumberOf_def element_def ATTESTATION_CURVES_def result_simps)

section \<open>Creating a dWallet\<close>

definition engineDWallet :: dwallet_attestation where
  "engineDWallet =
     \<lparr>dw_session_identifier = theKey, dw_intended_chain_sender = replicate 32 0, dw_curve = Curve_Curve25519,
      dw_public_key = [3], dw_public_output = [4], dw_is_imported_key = False,
      dw_sign_during_dkg_signature = None, dw_holder = None,
      dw_encryption_key_hash = None, dw_encrypted_share_hash = None, dw_epoch = 7\<rparr>"

definition dkgRequest :: dwallet_request where
  "dkgRequest = Dkg
     \<lparr>dkg_network_key_id = theKey, dkg_curve = Curve_Curve25519, dkg_centralized_public_key_share_and_proof = [1],
      dkg_user_secret_key_share = PublicUserShare (replicate 34 1), dkg_user_public_output = [2],
      dkg_sign_during_dkg_request = None\<rparr>"

abbreviation dkgNet :: network_connection where
  "dkgNet \<equiv> engineNet (engineLib (engineData dkgRequest) engineDWallet) (AttestationResponse engineAttestation)"

lemma dkg_built:
  "dkgBuild dkgNet None None theKey now s = Some (now, s, Inr (plainObject dkgRequest, (engineStep, None)))"
  by (simp add: dkgBuild_def run_simps engineCryptography_def dkgRequest_def engineStep_def)

lemma dkg_within_limits: "assertRequestFieldsWithinLimits (engineData dkgRequest) = Inr ()"
  by (simp add: engineData_def signedData_def dkgRequest_def engine_limits)

lemma dkg_submitted_demo:
  "\<exists>s'. submit dkgNet engineRequester (\<lambda>_. dkgBuild dkgNet None None) (dkgDescribe dkgNet) n 0 engineState =
     Some (0, s', Inr (AttestationResponse engineAttestation, \<lparr>se_epoch = 7, se_session = theKey, se_kept = (engineStep, None)\<rparr>)) \<and>
     stays engineState s'"
  by (rule engine_answers [where request = dkgRequest])
    (simp_all add: dkg_built dkg_within_limits, simp_all add: dkgRequest_def)

lemma dkg_answered_demo:
  assumes "ns_trusted s = demoTrust"
  shows "\<exists>d. dkgAnswer dkgNet engineRequester None None (AttestationResponse engineAttestation)
     \<lparr>se_epoch = 7, se_session = theKey, se_kept = (engineStep, None)\<rparr> 0 s = Some (0, s, Inr (d, None))"
proof -
  have "verifyPublicShareDkgAnswer (engineLib (engineData dkgRequest) engineDWallet) engineUser
      (AttestationResponse engineAttestation) demoTrust (dkgPublicSent dkgNet engineRequester theKey (engineStep, None) None) =
      Inr \<lparr>pda_attestation = engineAttestation, pda_publicKey = [3], pda_publicOutput = [4], pda_signature = None\<rparr>"
    unfolding verifyPublicShareDkgAnswer_iff answered_with_def
    by (rule exI [of _ engineAttestation], rule exI [of _ engineDWallet])
      (simp add: dkgPublicSent_def engine_attested, simp add: engineDWallet_def engineRequester_def output_matches_def asked_signature_def engineUser_def demoCryptography_def)
  moreover have "expectAttestation dkgNet (AttestationResponse engineAttestation) DWalletKind None 0 s = Some (0, s, Inr engineAttestation)"
    unfolding expectAttestation_Inr verifyAttestation_dwallet by (simp add: sdkOf_def assms engine_attested)
  ultimately show ?thesis
    by (simp add: dkgAnswer_def run_simps)
      (simp add: sdkOf_def engineCryptography_def run_simps assms)
qed

lemma engine_latest [simp]: "requireLatestNetworkKey (engineNetOf K L response) = Inr ()"
  by (simp add: requireLatestNetworkKey_def result_simps equalBytes_def)

lemma dkg_run_demo: "\<exists>s' d. dkg dkgNet engineRequester None None 0 engineState = Some (0, s', Inr (d, None)) \<and> stays engineState s'"
proof -
  from dkg_submitted_demo [of REBUILDS_AFTER_EPOCH_CLOSE] obtain s'
    where s': "submit dkgNet engineRequester (\<lambda>_. dkgBuild dkgNet None None) (dkgDescribe dkgNet) REBUILDS_AFTER_EPOCH_CLOSE 0
        engineState = Some (0, s', Inr (AttestationResponse engineAttestation,
          \<lparr>se_epoch = 7, se_session = theKey, se_kept = (engineStep, None)\<rparr>))" "stays engineState s'" by blast
  then have "ns_trusted s' = demoTrust" by (simp add: stays_def engineState_def)
  from dkg_answered_demo [OF this] s' show ?thesis
    by (auto simp: dkg_def run_simps)
qed

theorem dkg_sound_witness:
  "\<exists>s' d e att trusted prepared encrypted request.
     dkg dkgNet engineRequester None None 0 engineState = Some (0, s', Inr (d, None)) \<and>
     ns_signed s' = ns_signed engineState @ [e] \<and> request_signed dkgNet engineRequester request e \<and>
     attested_dwallet dkgNet engineRequester None None False (sg_session e) prepared encrypted trusted d att \<and>
     trusted = demoTrust"
proof -
  from dkg_run_demo obtain s' d where run: "dkg dkgNet engineRequester None None 0 engineState = Some (0, s', Inr (d, None))" by blast
  have "epochs_grow dkgNet" "kept_by_others dkgNet (\<lambda>k. k = demoTrust)" by simp_all
  from dkg_sound [OF this _ run] run show ?thesis by (fastforce simp: engineState_def)
qed

section \<open>A presign\<close>

definition presignAsked :: dwallet_request where
  "presignAsked = Presign \<lparr>pq_network_key_id = theKey, pq_curve = Curve_Curve25519, pq_signature_algorithm = Alg_EdDSA\<rparr>"

abbreviation presignNet :: network_connection where
  "presignNet \<equiv> engineNet (engineLib (engineData presignAsked) engineDWallet) (AttestationResponse engineAttestation)"

lemma engine_algorithm [simp]: "algorithmOf (engineNet L response) (SchemeNumbered 5) = Inr Alg_EdDSA"
  by (simp add: algorithmOf_def result_simps signatureSchemeNumber_def schemeName_def element_def
    SIGNATURE_SCHEMES_def signatureAlgorithmOnCurve_def)

lemma presign_submitted_demo:
  "\<exists>s'. submit presignNet engineRequester (fixedRequest presignAsked) (\<lambda>_ _. returnN PendingPresign) n 0 engineState =
     Some (0, s', Inr (AttestationResponse engineAttestation, \<lparr>se_epoch = 7, se_session = theKey, se_kept = ()\<rparr>)) \<and>
     stays engineState s'"
  by (rule engine_answers [where request = presignAsked])
    (simp_all add: fixedRequest_def returnN_def, simp_all add: presignAsked_def engineData_def signedData_def engine_limits)

lemma presign_run_demo:
  "\<exists>s' p. requestPresign presignNet engineRequester (SchemeNumbered 5) None 0 engineState = Some (0, s', Inr p) \<and>
     stays engineState s'"
proof -
  from presign_submitted_demo [of REBUILDS_AFTER_EPOCH_CLOSE] obtain s'
    where s': "submit presignNet engineRequester (fixedRequest presignAsked) (\<lambda>_ _. returnN PendingPresign)
        REBUILDS_AFTER_EPOCH_CLOSE 0 engineState = Some (0, s', Inr (AttestationResponse engineAttestation,
          \<lparr>se_epoch = 7, se_session = theKey, se_kept = ()\<rparr>))" "stays engineState s'" by blast
  then have "ns_trusted s' = demoTrust" by (simp add: stays_def engineState_def)
  then have "verifyPresignAnswer (sdkOf presignNet) (AttestationResponse engineAttestation) (ns_trusted s')
      \<lparr>spr_sessionIdentifier = theKey, spr_epoch = 7, spr_curve = Curve_Curve25519,
       spr_signatureAlgorithm = Alg_EdDSA, spr_dwalletPublicKey = None, spr_networkKeyId = theKey\<rparr> = Inr enginePresign"
    unfolding verifyPresignAnswer_iff answered_with_def
    by (simp add: sdkOf_def engine_attested) (simp add: enginePresign_def)
  moreover have "presignRequest presignNet Alg_EdDSA = Inr presignAsked"
    by (simp add: presignRequest_def presignAsked_def result_simps)
  ultimately show ?thesis using s'
    by (simp add: requestPresign_def poolLoop.simps presignCall_def run_simps withTime_def answeredAttestation_def)
      (simp add: enginePresign_def engineRequester_def demoKeypair_def)
qed

theorem requestPresign_sound_witness:
  "\<exists>s' p es e att. requestPresign presignNet engineRequester (SchemeNumbered 5) None 0 engineState = Some (0, s', Inr p) \<and>
     ns_signed s' = ns_signed engineState @ es @ [e] \<and>
     attested_presign presignNet engineRequester Alg_EdDSA None e (ns_trusted s') p att"
proof -
  from presign_run_demo obtain s' p where run: "requestPresign presignNet engineRequester (SchemeNumbered 5) None 0 engineState =
      Some (0, s', Inr p)" by blast
  have "epochs_grow presignNet" "kept_by_others presignNet (\<lambda>k. k = demoTrust)" "ns_trusted engineState = demoTrust" by simp_all
  from requestPresign_sound [OF this run] run show ?thesis by auto
qed

section \<open>A signature\<close>

definition engineIssued :: issued_state where
  "engineIssued =
     \<lparr>is_chain = OnSolana, is_address = [1], is_curve = 2, is_publicKey = [3],
      is_importedSessionIdentifier = None, is_holder = theKey, is_share = ShareEncrypted, is_migrated = False,
      is_waiting = False, is_publicOutput = [4], is_attestation = engineAttestation, is_verifiedAt = 0\<rparr>"

definition engineUsable :: dwallet_usable where
  "engineUsable = \<lparr>us_ref = Some 0, us_shown = engineIssued\<rparr>"

abbreviation issuedState :: net_state where
  "issuedState \<equiv> engineState\<lparr>ns_issued := [engineIssued]\<rparr>"

definition engineHeld :: dwallet where
  "engineHeld =
     \<lparr>dl_curve = 2, dl_publicKey = [3], dl_networkPublicOutput = [4], dl_userSecretKeyShare = replicate 34 1,
      dl_attestation = engineAttestation, dl_networkKeyId = theKey, dl_importedSessionIdentifier = None,
      dl_share = EncryptedTo theKey, dl_acceptance = None\<rparr>"

definition engineSign :: sign_args where
  "engineSign =
     \<lparr>sa_dwallet = engineHeld, sa_usable = engineUsable,
      sa_presign = \<lparr>pg_reference = [6], pg_material = [], pg_attestation = engineAttestation, pg_epoch = 7\<rparr>,
      sa_message = [8], sa_messageMetadata = None, sa_signatureScheme = SchemeNumbered 5, sa_voucher = theKey\<rparr>"

definition signAsked :: dwallet_request where
  "signAsked = Sign
     \<lparr>sg_message = [8], sg_message_metadata = [], sg_signature_scheme = EddsaSha512,
      sg_presign_session_identifier = [6], sg_message_centralized_signature = [5],
      sg_dwallet_attestation = engineAttestation, sg_signature_voucher = theKey\<rparr>"

definition checkedDWallet :: dwallet_attestation where
  "checkedDWallet = engineDWallet
     \<lparr>dw_session_identifier := [1], dw_holder := Some \<lparr>holder_scheme = Scheme_Ed25519, holder_key = theKey\<rparr>\<rparr>"

abbreviation signNet :: network_connection where
  "signNet \<equiv> engineNet (engineLib (engineData signAsked) checkedDWallet) (SignatureResponse theSignature)"

lemma engineIssued_simps [simp]:
  "attestation_data engineAttestation = [0, 1]" "network_pubkey engineAttestation = theKey"
  "is_chain engineIssued = OnSolana" "is_holder engineIssued = theKey" "is_attestation engineIssued = engineAttestation"
  "is_verifiedAt engineIssued = 0" "\<not> is_waiting engineIssued" "us_shown engineUsable = engineIssued"
  by (simp_all add: engineAttestation_def engineIssued_def engineUsable_def)

lemma issued_found: "issuedGet [engineIssued] engineUsable = Some engineIssued"
  by (simp add: issuedGet_def engineUsable_def)

lemma sign_within_limits: "assertRequestFieldsWithinLimits (engineData signAsked) = Inr ()"
  by (simp add: requestFieldsWithin_Inr requestFields_def engineData_def signedData_def signAsked_def signFields_def
      attestationFields_def engineAttestation_def GRPC_REQUEST_SIZE_LIMITS_def theSignature_def theKey_def engineRequester_def)

lemma sign_signed_demo:
  assumes "ns_issued s = [engineIssued]"
  shows "signsDWalletRequest signNet engineRequester engineUsable (engineData signAsked) object 0 s =
     Some (0, s, Inr \<lparr>sr_userSignature = [7, 8], sr_signedRequestData = [5]\<rparr>)"
proof -
  let ?own = "\<lparr>ow_userKey = theKey, ow_reader = None, ow_usable = Some engineUsable\<rparr>"
  let ?L = "engineLib (engineData signAsked) checkedDWallet"
  have "requireUsableFor engineUsable checkedDWallet [0, 1] theKey theKey 0 [engineIssued] = Inr ()"
    by (simp add: requireUsableFor_Inr issued_found)
      (simp add: engineIssued_def checkedDWallet_def engineDWallet_def engineAttestation_def indexOf_def ATTESTATION_CURVES_def
        DWALLET_USABLE_MAX_AGE_MS_def)
  then have "requireDWalletUsable ?L demoCryptography ?own [0, 1] theKey 0 0 [engineIssued] = Inr (engineUsable, [engineIssued])"
    unfolding requireDWalletUsable_Inr by (simp add: issued_found)
  moreover have "signSerializedRequest ?L (\<lambda>_ _. Some theSignature) demoKeypair [5] =
      Inr \<lparr>sr_userSignature = [7, 8], sr_signedRequestData = [5]\<rparr>"
    by (simp add: signSerializedRequest_def assertSignedRequestDataWithinLimit_def GRPC_REQUEST_SIZE_LIMITS_def demoKeypair_def
        result_simps)
  ultimately have "signDWalletSignRequest ?L demoCryptography (\<lambda>_ _. Some theSignature) demoKeypair (engineData signAsked) ?own
      0 0 [engineIssued] = Inr (\<lparr>sr_userSignature = [7, 8], sr_signedRequestData = [5]\<rparr>, [engineIssued])"
    unfolding signDWalletSignRequest_def sign_within_limits
    by (simp add: result_simps assertSignedRequestDataWithinLimit_def GRPC_REQUEST_SIZE_LIMITS_def)
      (simp add: engineData_def signedData_def signAsked_def engineRequester_def signCheckedRequest_def
        requireMessageMetadataOfScheme_def checkedChainOf_def issued_found result_simps)
  then show ?thesis
    by (simp add: signsDWalletRequest_def signFor_def engineRequester_def withTime_def run_simps assms sdkOf_def engineEnv_def engineEd_def)
qed

lemma engineHeld_simps [simp]:
  "dl_curve engineHeld = 2" "dl_networkPublicOutput engineHeld = [4]" "dl_attestation engineHeld = engineAttestation"
  "dl_networkKeyId engineHeld = theKey" "is_publicOutput engineIssued = [4]" "dl_publicKey engineHeld = [3]"
  "dl_importedSessionIdentifier engineHeld = None" "dl_userSecretKeyShare engineHeld = replicate 34 1"
  by (simp_all add: engineHeld_def engineIssued_def)

lemma engine_served [simp]:
  "requireServedDWallet (engineNet L response) engineHeld = Inr ()" "requireCheckedOutput engineHeld engineUsable = Inr ()"
  by (simp_all add: requireServedDWallet_def requireCheckedOutput_def result_simps)

lemma engine_scheme [simp]: "signatureSchemeNumber (SchemeNumbered 5) = Inr 5" "schemeName 5 = Inr EddsaSha512"
  by (simp_all add: signatureSchemeNumber_def schemeName_def element_def SIGNATURE_SCHEMES_def result_simps)

lemma engine_user_message [simp]:
  "userSignMessage (engineNet L response) engineHeld p m [] 5 now s = Some (now, s, Inr [5])"
  by (simp add: userSignMessage_def signInputs_def run_simps createUserSignMessageWithScheme_def userSignMessageWithScheme_def
      signature_numbers engineCryptography_def engineUser_def result_simps)

lemma engine_verifies [simp]:
  "signatureFromResponseVerified engineUser (SignatureResponse sig)
     \<lparr>es_curve = 2, es_signatureScheme = 5, es_message = m, es_messageMetadata = [], es_output = out\<rparr> = Inr sig"
  by (simp add: signatureFromResponseVerified_def verifySignatureWithScheme_def signature_numbers engineUser_def
      demoCryptography_def result_simps)

lemma sign_run_demo:
  "\<exists>s'. requestSignature signNet engineRequester engineSign 0 issuedState = Some (0, s', Inr theSignature) \<and> stays issuedState s'"
proof -
  have sent: "signRequestOf False engineSign [] EddsaSha512 [5] = signAsked"
    by (simp add: signRequestOf_def engineSign_def signAsked_def)
  have "\<exists>s'. submitWithPresign signNet engineRequester 7 (signsDWalletRequest signNet engineRequester engineUsable)
      (\<lambda>_. returnN (plainObject signAsked, ())) (\<lambda>_ _. returnN (PendingSign theKey)) 0 issuedState =
      Some (0, s', Inr (SignatureResponse theSignature, \<lparr>se_epoch = 7, se_session = theKey, se_kept = ()\<rparr>)) \<and> stays issuedState s'"
    by (rule engine_presigned [where request = signAsked]) (simp_all add: sign_signed_demo)
  then obtain s' where s': "submitWithPresign signNet engineRequester 7 (signsDWalletRequest signNet engineRequester engineUsable)
      (\<lambda>_. returnN (plainObject signAsked, ())) (\<lambda>_ _. returnN (PendingSign theKey)) 0 issuedState =
      Some (0, s', Inr (SignatureResponse theSignature, \<lparr>se_epoch = 7, se_session = theKey, se_kept = ()\<rparr>))" "stays issuedState s'"
    by blast
  have "isImported signNet engineHeld = Inr False"
    by (simp add: isImported_def decodedDWallet_def decodeHeldDWallet_def sdkOf_def result_simps)
      (simp add: checkedDWallet_def engineDWallet_def)
  with s' sent show ?thesis
    by (simp add: requestSignature_def Let_def run_simps engineSign_def orEmpty_def guardE_def)
      (simp add: theKey_def engineCryptography_def)
qed

theorem requestSignature_sound_witness:
  "\<exists>s' e request q m st. requestSignature signNet engineRequester engineSign 0 issuedState = Some (0, s', Inr theSignature) \<and>
     ns_signed s' = ns_signed issuedState @ [e] \<and> request_signed signNet engineRequester request e \<and>
     signOfRequest request = Some q \<and> sg_message q = [8] \<and>
     issuedGet [engineIssued] engineUsable = Some st \<and> 0 - is_verifiedAt st \<le> 300000 \<and>
     verifiesBy engineUser m [4] [8] theSignature = Inr ()"
proof -
  from sign_run_demo obtain s' where run: "requestSignature signNet engineRequester engineSign 0 issuedState =
      Some (0, s', Inr theSignature)" by blast
  have "epochs_grow signNet" "chain_answers_later signNet" "codec_ok (signedRequestDataBcs (sdkOf signNet))"
    by (simp_all add: chain_answers_later_def sdkOf_def)
  from requestSignature_sound [OF this run] run show ?thesis
    by (fastforce simp: engineSign_def engineCryptography_def issued_found)
qed

section \<open>A future sign\<close>

definition futureAsked :: dwallet_request where
  "futureAsked = FutureSign
     \<lparr>fs_dwallet_public_key = [3], fs_dwallet_attestation = engineAttestation, fs_presign_attestation = engineAttestation,
      fs_message = [8], fs_message_metadata = [], fs_message_centralized_signature = [5],
      fs_signature_scheme = EddsaSha512, fs_future_signature_voucher = theKey\<rparr>"

abbreviation futureNet :: network_connection where
  "futureNet \<equiv> engineNet (engineLib (engineData futureAsked) engineDWallet) (AttestationResponse engineAttestation)"

lemma engine_key_named [simp]: "key_named (network demoTrust) theKey theKey" "length theKey = 32" "theKey \<noteq> [1]"
  by (simp_all add: key_named_def demoTrust_def theKey_def numeral_eq_Suc)

lemma engine_verified:
  "verifyDWalletAttestationRecord (engineLib d engineDWallet) (recordOfAttestation engineAttestation) demoTrust (lookupOf engineHeld) =
     Inr (dwallet_of (recordOfAttestation engineAttestation) engineDWallet)"
  unfolding dwallet_record_Inr
  by (rule exI [of _ engineDWallet])
    (simp add: engine_attested lookupOf_def, simp add: engineDWallet_def indexOf_def ATTESTATION_CURVES_def)

lemma future_built_demo:
  "futureSignRequest (engineLib d engineDWallet) demoCryptography [engineIssued]
     (futureSignArgs engineRequester engineSign [] [5] EddsaSha512 demoTrust) 0 = Inr futureAsked"
  unfolding futureSignRequest_Inr trustedPresign_Inr
  by (simp add: futureSignArgs_def engineSign_def issued_found)
   (simp add: futureAsked_def engineIssued_def enginePresign_def presign_for_def element_def ATTESTATION_CURVES_def
     requireMessageMetadataOfScheme_def engineRequester_def demoKeypair_def)

lemma future_within_limits: "assertRequestFieldsWithinLimits (engineData futureAsked) = Inr ()"
  by (simp add: requestFieldsWithin_Inr requestFields_def engineData_def signedData_def futureAsked_def
      attestationFields_def engineAttestation_def GRPC_REQUEST_SIZE_LIMITS_def theSignature_def engineRequester_def)

lemma future_signed_demo:
  "ns_holders s = [] \<Longrightarrow> signsRequest futureNet engineRequester (engineData futureAsked) (plainObject futureAsked) 0 s =
     Some (0, s, Inr \<lparr>sr_userSignature = [7, 8], sr_signedRequestData = [5]\<rparr>)"
  using engine_signs [of "plainObject futureAsked" s engineCryptography engineDWallet "AttestationResponse engineAttestation" 0]
  by (simp add: signsRequest_def plainObject_def future_within_limits waitingHolderOf_def) (simp add: futureAsked_def)

lemma future_run_demo:
  "\<exists>s' partial. requestFutureSignature futureNet engineRequester engineSign 0 issuedState = Some (0, s', Inr partial)"
proof -
  have "\<exists>s'. submitWithPresign futureNet engineRequester 7 (signsRequest futureNet engineRequester)
      (\<lambda>_. returnN (plainObject futureAsked, ())) (\<lambda>_ _. returnN (PendingFutureSignStepOne theKey)) 0 issuedState =
      Some (0, s', Inr (AttestationResponse engineAttestation, \<lparr>se_epoch = 7, se_session = theKey, se_kept = ()\<rparr>)) \<and> stays issuedState s'"
    by (rule engine_presigned [where request = futureAsked]) (simp_all add: future_signed_demo)
  then obtain s' where s': "submitWithPresign futureNet engineRequester 7 (signsRequest futureNet engineRequester)
      (\<lambda>_. returnN (plainObject futureAsked, ())) (\<lambda>_ _. returnN (PendingFutureSignStepOne theKey)) 0 issuedState =
      Some (0, s', Inr (AttestationResponse engineAttestation, \<lparr>se_epoch = 7, se_session = theKey, se_kept = ()\<rparr>))"
    "ns_trusted s' = demoTrust" by (auto simp: stays_def)
  have "verifyFutureSignAnswer (engineLib (engineData futureAsked) engineDWallet) (AttestationResponse engineAttestation) demoTrust
      \<lparr>sfs_sessionIdentifier = theKey, sfs_intendedChainSender = replicate 32 0, sfs_dwalletAttestation = engineAttestation,
       sfs_presignAttestation = engineAttestation, sfs_message = [8], sfs_messageMetadata = [],
       sfs_signatureScheme = EddsaSha512, sfs_futureSignatureVoucher = theKey\<rparr> = Inr enginePartial"
    unfolding future_answer_Inr answered_with_def
    by (simp add: engine_attested) (simp add: enginePartial_def enginePresign_def engineDWallet_def)
  with s' show ?thesis
    by (simp add: requestFutureSignature_def Let_def run_simps verifiedDWallet_def engine_verified engineSign_def orEmpty_def
        withTime_def sdkOf_def engineEnv_def future_built_demo [unfolded engineSign_def] answeredAttestation_def)
      (simp add: engineRequester_def)
qed

theorem requestFutureSignature_sound_witness:
  "\<exists>s' partial e fields. requestFutureSignature futureNet engineRequester engineSign 0 issuedState = Some (0, s', Inr partial) \<and>
     ns_signed s' = ns_signed issuedState @ [e] \<and> request_signed futureNet engineRequester (FutureSign fields) e \<and>
     fs_message fields = [8] \<and> pu_session_identifier (pp_attested partial) = sg_session e"
proof -
  from future_run_demo obtain s' partial where run: "requestFutureSignature futureNet engineRequester engineSign 0 issuedState =
      Some (0, s', Inr partial)" by blast
  have "epochs_grow futureNet" "kept_by_others futureNet (\<lambda>k. k = demoTrust)" "ns_trusted issuedState = demoTrust" by simp_all
  from requestFutureSignature_sound [OF this run] run show ?thesis by (fastforce simp: engineSign_def)
qed

text \<open>Its completion.\<close>

definition enginePartialSignature :: partial_signature where
  "enginePartialSignature =
     \<lparr>pp_partialUserSignatureAttestation = engineAttestation, pp_dwalletAttestation = engineAttestation,
      pp_message = [8], pp_messageMetadata = [], pp_futureSignatureVoucher = theKey, pp_attested = enginePartial\<rparr>"

definition completionAsked :: dwallet_request where
  "completionAsked = SignWithPartialUserSig
     \<lparr>pt_partial_user_signature_attestation = engineAttestation, pt_dwallet_attestation = engineAttestation,
      pt_message = [8], pt_message_metadata = [], pt_future_signature_voucher = theKey\<rparr>"

abbreviation completionNet :: network_connection where
  "completionNet \<equiv> engineNet (engineLib (engineData completionAsked) engineDWallet) (SignatureResponse theSignature)"

lemma completion_built_demo:
  "completeFutureSignRequest (engineLib d engineDWallet) engineAttestation engineAttestation [8] [] theKey = Inr completionAsked"
proof -
  let ?L = "engineLib d engineDWallet"
  have "decodePartialUserSignatureAttestation ?L [0, 1] = Inr enginePartial" "decodeHeldDWallet ?L [0, 1] = Inr engineDWallet"
    by (simp_all add: decodePartialUserSignatureAttestation_def decodeHeldDWallet_def result_simps)
  then show ?thesis
    by (simp add: completeFutureSignRequest_def futureSignMessageDigests_def requireVoucherAddress_def result_simps)
      (simp add: enginePartial_def engineDWallet_def completionAsked_def)
qed

lemma completion_within_limits: "assertRequestFieldsWithinLimits (engineData completionAsked) = Inr ()"
  by (simp add: requestFieldsWithin_Inr requestFields_def engineData_def signedData_def completionAsked_def
      attestationFields_def engineAttestation_def GRPC_REQUEST_SIZE_LIMITS_def theSignature_def engineRequester_def)

lemma completion_run_demo:
  "\<exists>s'. completeFutureSignature completionNet engineRequester enginePartialSignature 0 engineState = Some (0, s', Inr theSignature)"
proof -
  have "\<exists>s'. submit completionNet engineRequester (fixedRequest completionAsked)
      (\<lambda>_ _. returnN (PendingFutureSignCompletion theKey)) REBUILDS_AFTER_EPOCH_CLOSE 0 engineState =
      Some (0, s', Inr (SignatureResponse theSignature, \<lparr>se_epoch = 7, se_session = theKey, se_kept = ()\<rparr>)) \<and> stays engineState s'"
    by (rule engine_answers [where request = completionAsked])
      (simp_all add: fixedRequest_def returnN_def completion_within_limits, simp_all add: completionAsked_def)
  then obtain s' where s': "submit completionNet engineRequester (fixedRequest completionAsked)
      (\<lambda>_ _. returnN (PendingFutureSignCompletion theKey)) REBUILDS_AFTER_EPOCH_CLOSE 0 engineState =
      Some (0, s', Inr (SignatureResponse theSignature, \<lparr>se_epoch = 7, se_session = theKey, se_kept = ()\<rparr>))" by blast
  have verified: "verifyAttestation (engineLib d engineDWallet) (Answer engineAttestation) PartialUserSignatureKind theKey demoTrust None = Inr ()"
      "verifyAttestation (engineLib d engineDWallet) (Answer engineAttestation) DWalletKind theKey demoTrust None = Inr ()"
      "decodedDWallet completionNet engineAttestation = Inr engineDWallet" for d
    by (simp_all add: verifyAttestation_partial verifyAttestation_dwallet decodedDWallet_def decodeHeldDWallet_def sdkOf_def
        result_simps)
  have "indexOf ATTESTATION_CURVES (dw_curve engineDWallet) = 2"
    "indexOf SIGNATURE_SCHEMES (pu_signature_scheme enginePartial) = 5"
    by (simp_all add: indexOf_def ATTESTATION_CURVES_def engineDWallet_def SIGNATURE_SCHEMES_def enginePartial_def)
  with verified s' show ?thesis
    by (simp add: completeFutureSignature_def run_simps enginePartialSignature_def verifiedAttestedDWallet_def sdkOf_def
        completion_built_demo result_simps)
      (simp add: engineCryptography_def)
qed

theorem completeFutureSignature_sound_witness:
  "\<exists>s' es e m (d :: dwallet_attestation). completeFutureSignature completionNet engineRequester enginePartialSignature 0 engineState =
     Some (0, s', Inr theSignature) \<and> ns_signed s' = ns_signed engineState @ es @ [e] \<and> length es \<le> 2 \<and>
     verifiesBy engineUser m (dw_public_output d) [8] theSignature = Inr ()"
proof -
  from completion_run_demo obtain s' where run: "completeFutureSignature completionNet engineRequester enginePartialSignature 0
      engineState = Some (0, s', Inr theSignature)" by blast
  have "epochs_grow completionNet" "kept_by_others completionNet (\<lambda>k. k = demoTrust)" "ns_trusted engineState = demoTrust"
    by simp_all
  from completeFutureSignature_sound [OF this run] obtain es e m and d :: dwallet_attestation
    where "ns_signed s' = ns_signed engineState @ es @ [e]" "length es \<le> 2"
      "verifiesBy (ec_user (cn_cryptography completionNet)) m (dw_public_output d) (pp_message enginePartialSignature)
        theSignature = Inr ()" by (elim exE conjE) (rule that)
  with run show ?thesis by (auto simp: enginePartialSignature_def engineCryptography_def)
qed

section \<open>A share\<close>

definition publicAsked :: dwallet_request where
  "publicAsked = MakeSharePublic
     \<lparr>mp_dwallet_public_key = [3], mp_dwallet_attestation = engineAttestation,
      mp_public_user_secret_key_share = replicate 34 1\<rparr>"

abbreviation publicNet :: network_connection where
  "publicNet \<equiv> engineNet (engineLib (engineData publicAsked) engineDWallet) (AttestationResponse engineAttestation)"





text \<open>A share encrypted for another holder, of a dWallet another session created.\<close>

definition olderDWallet :: dwallet_attestation where
  "olderDWallet = engineDWallet\<lparr>dw_session_identifier := [1]\<rparr>"

definition engineReEncrypt :: re_encrypt_args where
  "engineReEncrypt =
     \<lparr>rn_dwallet = engineHeld, rn_usable = engineUsable, rn_newHolder = theKey,
      rn_newHolderEntry = \<lparr>he_signerPublicKey = theKey, he_curve = 2, he_encryptionKey = [5]\<rparr>\<rparr>"

lemma engineReEncrypt_simps [simp]:
  "rn_dwallet engineReEncrypt = engineHeld" "rn_usable engineReEncrypt = engineUsable" "rn_newHolder engineReEncrypt = theKey"
  "rn_newHolderEntry engineReEncrypt = \<lparr>he_signerPublicKey = theKey, he_curve = 2, he_encryptionKey = [5]\<rparr>"
  by (simp_all add: engineReEncrypt_def)

definition reEncryptAsked :: "bytes \<Rightarrow> dwallet_request" where
  "reEncryptAsked ciphertext = ReEncryptShare
     \<lparr>re_network_key_id = theKey, re_dwallet_public_key = [3], re_dwallet_attestation = engineAttestation,
      re_encrypted_share_and_proof = ciphertext, re_encryption_key = [5],
      re_holder = \<lparr>holder_scheme = Scheme_Ed25519, holder_key = theKey\<rparr>,
      re_source_holder = \<lparr>holder_scheme = Scheme_Ed25519, holder_key = theKey\<rparr>\<rparr>"

abbreviation reEncryptNet :: network_connection where
  "reEncryptNet \<equiv> engineNet (engineLib (engineData (reEncryptAsked [6])) olderDWallet) (AttestationResponse engineAttestation)"

lemma re_encrypt_within_limits: "assertRequestFieldsWithinLimits (engineData (reEncryptAsked [6])) = Inr ()"
  by (simp add: requestFieldsWithin_Inr requestFields_def engineData_def signedData_def reEncryptAsked_def
      attestationFields_def engineAttestation_def GRPC_REQUEST_SIZE_LIMITS_def theSignature_def engineRequester_def)

lemma re_encrypt_built_demo:
  assumes "ns_issued s = [engineIssued]"
  shows "reEncryptBuild engineReEncrypt ciphertext 0 s =
     Some (0, s\<lparr>ns_holders := ns_holders s @ [None]\<rparr>,
       Inr \<lparr>ro_ref = Some (length (ns_holders s)), ro_request = reEncryptAsked ciphertext\<rparr>)"
proof -
  have "reEncryptShareRequest [engineIssued] engineUsable ciphertext theKey \<lparr>he_signerPublicKey = theKey, he_curve = 2, he_encryptionKey = [5]\<rparr> 0 h =
      Inr (\<lparr>ro_ref = Some (length h), ro_request = reEncryptAsked ciphertext\<rparr>, h @ [None])" for h
    unfolding reEncryptShareRequest_Inr
    by (simp add: issued_found)
      (simp add: engineIssued_def requestOfResult_def reEncryptAsked_def)
  then show ?thesis using assms by (simp add: reEncryptBuild_def buildHolding_def engineReEncrypt_def)
qed

lemma older_verified:
  "verifyDWalletAttestationRecord (engineLib d olderDWallet) (recordOfAttestation engineAttestation) demoTrust (lookupOf engineHeld) =
     Inr (dwallet_of (recordOfAttestation engineAttestation) olderDWallet)"
  unfolding dwallet_record_Inr
  by (rule exI [of _ olderDWallet])
    (simp add: engine_attested lookupOf_def, simp add: olderDWallet_def engineDWallet_def indexOf_def ATTESTATION_CURVES_def)

lemma re_encrypt_run_demo:
  "\<exists>s' share. reEncryptShare reEncryptNet engineRequester engineReEncrypt 0 issuedState = Some (0, s', Inr share)"
proof -
  let ?mk = "\<lambda>_ _. bindN (reEncryptBuild engineReEncrypt [6]) (\<lambda>object. returnN (object, ()))"
  let ?s = "issuedState\<lparr>ns_holders := [None]\<rparr>"
  have "\<exists>s'. submit reEncryptNet engineRequester ?mk (reEncryptDescribe reEncryptNet engineReEncrypt [6])
      REBUILDS_AFTER_EPOCH_CLOSE 0 ?s =
      Some (0, s', Inr (AttestationResponse engineAttestation, \<lparr>se_epoch = 7, se_session = theKey, se_kept = ()\<rparr>)) \<and> stays ?s s'"
    by (rule engine_submits [where object = "\<lparr>ro_ref = Some 1, ro_request = reEncryptAsked [6]\<rparr>" and
          ?s2.0 = "?s\<lparr>ns_draws := ns_draws ?s + 1, ns_holders := [None, None]\<rparr>"])
      (simp_all add: bindN_def returnN_def re_encrypt_built_demo re_encrypt_within_limits stays_def waitingHolderOf_def,
       simp_all add: reEncryptAsked_def)
  then obtain s' where s': "submit reEncryptNet engineRequester ?mk (reEncryptDescribe reEncryptNet engineReEncrypt [6])
      REBUILDS_AFTER_EPOCH_CLOSE 0 ?s =
      Some (0, s', Inr (AttestationResponse engineAttestation, \<lparr>se_epoch = 7, se_session = theKey, se_kept = ()\<rparr>))"
    "ns_trusted s' = demoTrust" by (auto simp: stays_def)
  have "verifyReEncryptShareAnswer (engineLib (engineData (reEncryptAsked [6])) olderDWallet) (AttestationResponse engineAttestation) demoTrust
      (dwallet_of (recordOfAttestation engineAttestation) olderDWallet)
      \<lparr>sre_sessionIdentifier = theKey, sre_networkKeyId = theKey, sre_encryptedShareAndProof = [6],
       sre_encryptionKey = [5], sre_holderSignerPublicKey = theKey\<rparr> = Inr engineShare"
    unfolding share_answers_iff [THEN conjunct2] answered_with_def
    by (simp add: engine_attested)
      (simp add: engineShare_def dwallet_of_def olderDWallet_def engineDWallet_def binds_dwallet_def)
  moreover have "encryptSecretShare engineCryptography ED25519 (replicate 34 1) [5] [1] 0 = Inr [6]"
    by (simp add: engineCryptography_def)
  ultimately show ?thesis using s'
    by (simp add: reEncryptShare_def Let_def run_simps verifiedDWallet_def older_verified sdkOf_def re_encrypt_built_demo
        answeredAttestation_def)
qed

theorem reEncryptShare_sound_witness:
  "\<exists>s' share es e q. reEncryptShare reEncryptNet engineRequester engineReEncrypt 0 issuedState = Some (0, s', Inr share) \<and>
     ns_signed s' = ns_signed issuedState @ es @ [e] \<and> request_signed reEncryptNet engineRequester (ReEncryptShare q) e \<and>
     re_encrypted_share_and_proof q = rc_encryptedShareAndProof share \<and> re_encryption_key q = [5]"
proof -
  from re_encrypt_run_demo obtain s' share where run: "reEncryptShare reEncryptNet engineRequester engineReEncrypt 0 issuedState =
      Some (0, s', Inr share)" by blast
  have "epochs_grow reEncryptNet" "kept_by_others reEncryptNet (\<lambda>k. k = demoTrust)" "ns_trusted issuedState = demoTrust"
    by simp_all
  from reEncryptShare_sound [OF this run] obtain es e q
    where "ns_signed s' = ns_signed issuedState @ es @ [e]" "request_signed reEncryptNet engineRequester (ReEncryptShare q) e"
      "re_encrypted_share_and_proof q = rc_encryptedShareAndProof share"
      "re_encryption_key q = he_encryptionKey (rn_newHolderEntry engineReEncrypt)" by (elim exE conjE) (rule that)
  with run show ?thesis by auto
qed

text \<open>A share received and accepted.\<close>

definition engineReceived :: accept_args where
  "engineReceived =
     \<lparr>aa_reader = chainReader, aa_holder = \<lparr>kp_secretKey = [8], kp_publicKey = [9]\<rparr>, aa_encryptionKey = [5],
      aa_decryptionKey = [], aa_senderSignerPublicKey = [9],
      aa_received = \<lparr>rc_dwalletAttestation = demoAttestation, rc_shareAttestation = movedAnswer,
        rc_encryptedShareAndProof = [6]\<rparr>\<rparr>"

definition acceptNet :: network_connection where
  "acceptNet = (engineNet ownLib (SignatureResponse []))
     \<lparr>cn_env := (engineEnv ownLib)\<lparr>en_ed25519 := demoEd\<rparr>, cn_protocolPublicParameters := []\<rparr>"

lemma acceptNet_simps [simp]:
  "sdkOf acceptNet = ownLib" "en_ed25519 (cn_env acceptNet) = demoEd" "en_realCryptography (cn_env acceptNet) = demoCryptography"
  "cn_networkKeyId acceptNet = theKey" "cn_protocolPublicParameters acceptNet = []" "cn_curve acceptNet = ED25519"
  "cn_cryptography acceptNet = engineCryptography" "resumed acceptNet t s = s" "elapses (cn_env acceptNet) t = 0"
  "epochs_grow acceptNet" "kept_by_others acceptNet good"
  by (simp_all add: acceptNet_def sdkOf_def engineEnv_def resumed_def epochs_grow_def kept_by_others_def)

lemma demo_attestation_verifies:
  "verifyAttestation ownLib (Answer demoAttestation) DWalletKind theKey demoTrust None = Inr ()"
  unfolding verifyAttestation_dwallet
  by (rule conjI, simp add: key_named_def demo_lib demoAttestation_def, rule exI [of _ demoDWallet])
    (simp add: signed_record_def decodes_def demo_lib demoAttestation_def recordOfAttestation_def)

lemma accept_run_demo:
  "\<exists>s' d. acceptReEncryptedShare acceptNet engineReceived 0 engineState = Some (0, s', Inr d)"
proof -
  have "acceptArguments acceptNet engineReceived = demoAccept"
    by (simp add: acceptArguments_def engineReceived_def demoAccept_def demoAttestation_def)
  moreover have "verifiedAttestedDWallet acceptNet demoAttestation 0 engineState = Some (0, engineState, Inr demoDWallet)"
    using demo_attestation_verifies
    by (simp add: verifiedAttestedDWallet_def run_simps decodedDWallet_def decodeHeldDWallet_def result_simps)
      (simp add: demoAttestation_def result_simps)
  ultimately show ?thesis using demo_accepted
    by (simp add: acceptReEncryptedShare_def Let_def run_simps compute_def computeAt_def engineReceived_def)
      (simp add: engineCryptography_def)
qed

theorem acceptReEncryptedShare_sound_witness:
  "\<exists>s' d (att :: dwallet_attestation) acceptance (sh :: encrypted_share_attestation).
     acceptReEncryptedShare acceptNet engineReceived 0 engineState = Some (0, s', Inr d) \<and>
     ns_signed s' = ns_signed engineState \<and> dl_attestation d = demoAttestation \<and> dl_publicKey d = dw_public_key att \<and>
     dl_acceptance d = Some acceptance \<and> edSign demoEd (sac_acceptanceDigest acceptance) [8] = Some (sac_signature acceptance) \<and>
     parse (encryptedShareBcs ownLib) (attestation_data movedAnswer) = Some (V1 sh) \<and>
     es_holder sh = \<lparr>holder_scheme = Scheme_Ed25519, holder_key = sac_holderPublicKey acceptance\<rparr> \<and>
     es_encrypted_share_hash sh = keccak_256 ownLib [6]"
proof -
  from accept_run_demo obtain s' d where run: "acceptReEncryptedShare acceptNet engineReceived 0 engineState = Some (0, s', Inr d)"
    by blast
  have "epochs_grow acceptNet" "kept_by_others acceptNet (\<lambda>k. k = demoTrust)" "ns_trusted engineState = demoTrust" by simp_all
  from acceptReEncryptedShare_sound [OF this run] obtain att :: dwallet_attestation and acceptance and sh :: encrypted_share_attestation
    where "ns_signed s' = ns_signed engineState" "dl_attestation d = rc_dwalletAttestation (aa_received engineReceived)"
      "dl_publicKey d = dw_public_key att" "dl_acceptance d = Some acceptance"
      "edSign (en_ed25519 (cn_env acceptNet)) (sac_acceptanceDigest acceptance) (kp_secretKey (aa_holder engineReceived)) =
        Some (sac_signature acceptance)"
      "parse (encryptedShareBcs (sdkOf acceptNet)) (attestation_data (rc_shareAttestation (aa_received engineReceived))) = Some (V1 sh)"
      "es_holder sh = \<lparr>holder_scheme = Scheme_Ed25519, holder_key = sac_holderPublicKey acceptance\<rparr>"
      "es_encrypted_share_hash sh = keccak_256 (sdkOf acceptNet) (rc_encryptedShareAndProof (aa_received engineReceived))"
    by (elim exE conjE) (rule that)
  with run show ?thesis unfolding engineReceived_def by auto
qed

section \<open>Submissions\<close>

theorem submit_signs_once_per_epoch_witness:
  "\<exists>s' r es. submit presignNet engineRequester (fixedRequest presignAsked) (\<lambda>_ _. returnN PendingPresign)
       REBUILDS_AFTER_EPOCH_CLOSE 0 engineState = Some (0, s', Inr r) \<and>
     ns_signed s' = ns_signed engineState @ es \<and> length es \<le> 3 \<and> es \<noteq> [] \<and> sorted_wrt (<) (map sg_epoch es)"
proof -
  from presign_submitted_demo [of REBUILDS_AFTER_EPOCH_CLOSE] obtain s'
    where run: "submit presignNet engineRequester (fixedRequest presignAsked) (\<lambda>_ _. returnN PendingPresign)
        REBUILDS_AFTER_EPOCH_CLOSE 0 engineState = Some (0, s', Inr (AttestationResponse engineAttestation,
          \<lparr>se_epoch = 7, se_session = theKey, se_kept = ()\<rparr>))" by blast
  have kinds: "describes (\<lambda>k. k = PendingPresign) (\<lambda>_ (_ :: unit). returnN PendingPresign)"
    by (auto simp: describes_def returnN_def)
  have "quiet_request presignNet (fixedRequest presignAsked) (\<lambda>_ _. returnN PendingPresign)"
    by (rule quiet_fixed) simp_all
  from submit_signs_once_per_epoch [OF _ this kinds run] show ?thesis using run by auto
qed

text \<open>A presign of epoch 6, which the connection believes current, on a chain in epoch 7.\<close>

lemma engine_epoch_later:
  "ns_epoch s = 6 \<Longrightarrow> readChainEpoch (engineNetOf K L response) now s = Some (now, s\<lparr>ns_epoch := 7\<rparr>, Inr 7)"
  by (simp add: readChainEpoch_def bindN_def awaitRead_def Let_def mapErr_def)

theorem submitWithPresign_epoch_witness:
  "\<exists>s' es. submitWithPresign presignNet engineRequester 6 (signsRequest presignNet engineRequester)
       (\<lambda>_. returnN (plainObject signAsked, ())) (\<lambda>_ _. returnN PendingPresign) 0 (engineState\<lparr>ns_epoch := 6\<rparr>) =
       Some (0, s', Inl (PresignExpiredWithTheEpoch 6 7)) \<and>
     moves presignNet (engineState\<lparr>ns_epoch := 6\<rparr>) s' es \<and> es = []"
proof -
  have run: "submitWithPresign presignNet engineRequester 6 (signsRequest presignNet engineRequester)
       (\<lambda>_. returnN (plainObject signAsked, ())) (\<lambda>_ _. returnN PendingPresign) 0 (engineState\<lparr>ns_epoch := 6\<rparr>) =
       Some (0, engineState\<lparr>ns_epoch := 7\<rparr>, Inl (PresignExpiredWithTheEpoch 6 7))"
    by (simp add: submitWithPresign_def bindN_def engine_epoch_later throwN_def)
  have grow: "epochs_grow presignNet" by simp
  from submitWithPresign_epoch [OF grow quiet_returned signsRequest_steps(1) [OF grow] throws_plainly_steps(1)
      throws_plainly_steps(1) signsRequest_steps(2) run] obtain es
    where "moves presignNet (engineState\<lparr>ns_epoch := 6\<rparr>) (engineState\<lparr>ns_epoch := 7\<rparr>) es"
      "\<forall>at read. cn_chainEpoch presignNet 0 = Some (at, Inr read) \<and> 6 < read \<longrightarrow>
        es = [] \<and> (\<exists>ce. (Inl (PresignExpiredWithTheEpoch 6 7) :: engine_error + transaction_response \<times> unit sent_request) =
          Inl (PresignExpiredWithTheEpoch 6 ce))"
    by (elim exE conjE) (rule that)
  moreover from this(2) have "es = []" by simp
  ultimately show ?thesis using run by blast
qed

lemma engine_settles [simp]: "transport_settles engineClient"
  by (simp add: transport_settles_def engineClient_def)

theorem submit_ends_witness:
  "\<exists>t s' r. submit presignNet engineRequester (fixedRequest presignAsked) (\<lambda>_ _. returnN PendingPresign) 2 5 engineState =
     Some (t, s', r) \<and> 5 \<le> t"
proof -
  have "network_answers presignNet" "requester_answers engineRequester"
    by (simp_all add: network_answers_def answers_def requester_answers_def engineRequester_def records_answer_def
      shares_answer_def absentRecords_def absentShares_def)
  then show ?thesis by (rule submit_ends) (simp_all add: fixedRequest_def run_ends_def returnN_def)
qed

text \<open>A holder whose key a signer holds, and a request that waits for that holder.\<close>

definition walletRequester :: requester where
  "walletRequester = engineRequester\<lparr>rq_keypair := \<lparr>kp_secretKey = [], kp_publicKey = [9]\<rparr>,
     rq_signer := Some \<lparr>rs_publicKey = [9], signRequest = (\<lambda>_ now. Some (now, Inr theSignature))\<rparr>\<rparr>"

theorem signer_cannot_sign_waiting_witness:
  "signFor publicNet walletRequester
     (signingRequest publicNet (engineData publicAsked) \<lparr>ro_ref = Some 0, ro_request = publicAsked\<rparr>) 0
     (engineState\<lparr>ns_holders := [Some [9]]\<rparr>) =
   Some (0, engineState\<lparr>ns_holders := [Some [9]]\<rparr>,
     Inl (Thrown (Err ''the dWallet waits for its holder: sign this request with the holder's key'')))"
proof (rule signer_cannot_sign_waiting)
  show "rq_signer walletRequester = Some \<lparr>rs_publicKey = [9], signRequest = (\<lambda>_ now. Some (now, Inr theSignature))\<rparr>"
    by (simp add: walletRequester_def)
  show "waitingHolderOf (ns_holders (engineState\<lparr>ns_holders := [Some [9]]\<rparr>)) \<lparr>ro_ref = Some 0, ro_request = publicAsked\<rparr> = Some [9]"
    by (simp add: waitingHolderOf_def)
  show "[9] \<noteq> kp_publicKey (UNSIGNED_KEYPAIR (en_ed25519 (cn_env publicNet)))"
    by (simp add: UNSIGNED_KEYPAIR_def engineEd_def theKey_def numeral_eq_Suc)
qed (simp add: publicAsked_def)

end
