(* ===== verification/Demo_Connect.thy ===== *)
theory Demo_Connect
  imports Demo_Engine
begin

text \<open>The laws of connecting applied to validators that answer at once and a chain whose record appears late.\<close>

definition connectKeys :: "(unit, network_keys_message) rpc_method" where
  "connectKeys = demoKeys\<lparr>decodeResponse := (\<lambda>_. Inr \<lparr>nm_network_key_ids = None, nm_latest_usable = Some theKey\<rparr>)\<rparr>"

definition connectOutput :: "(bytes, key_output_message) rpc_method" where
  "connectOutput = \<lparr>methodName = ''GetNetworkKeyOutput'', encodeRequest = (\<lambda>key. Inr key),
     decodeResponse = (\<lambda>_. Inr \<lparr>ko_network_dkg_output = Some [1, 2], ko_latest_reconfiguration_output = None,
       ko_epoch = Some 4, ko_dkg_at_epoch = Some 1, ko_noa_public_key = Some theKey\<rparr>)\<rparr>"

definition demoArguments :: "request_records option \<Rightarrow> (trusted_network_keys \<Rightarrow> share_lookup) option \<Rightarrow> engine_cryptography option \<Rightarrow> connect_arguments" where
  "demoArguments records shares K =
     \<lparr>ca_env = engineEnv demoLib, ca_client = engineClient, ca_submit = engineSubmit (SignatureResponse []),
      ca_keys = connectKeys, ca_output = connectOutput, ca_closing = None, clientAt = (\<lambda>_. freshState),
      ca_curve = ED25519, ca_networkKeyId = theKey, ca_network = Custom [theKey], ca_records = demoOutputChain,
      ca_chainEpoch = (\<lambda>now. Some (now + 1, Inr 5)), ca_requestRecords = records, ca_shares = shares,
      ca_cryptography = K, ca_realCryptography = engineCryptography, derives = (\<lambda>_. 3)\<rparr>"

abbreviation connectArguments :: connect_arguments where
  "connectArguments \<equiv> demoArguments None None None"

lemma demoArguments_simps [simp]:
  "ca_env (demoArguments records shares K) = engineEnv demoLib" "ca_client (demoArguments records shares K) = engineClient" "ca_keys (demoArguments records shares K) = connectKeys"
  "ca_closing (demoArguments records shares K) = None" "ca_networkKeyId (demoArguments records shares K) = theKey" "ca_network (demoArguments records shares K) = Custom [theKey]"
  "ca_records (demoArguments records shares K) = demoOutputChain" "ca_chainEpoch (demoArguments records shares K) = (\<lambda>now. Some (now + 1, Inr 5))"
  by (simp_all add: demoArguments_def)

abbreviation noParameters :: parameters_cache where
  "noParameters \<equiv> \<lparr>pc_entries = [], pc_started = []\<rparr>"

lemma demo_digests: "digests_something demoLib"
  by (simp add: digests_something_def networkOutputDigest_def lengthHash_def)

theorem cached_parameters_are_of_the_outputs_witness:
  "same_source demoLib
     (pc_started (snd (protocolPublicParametersOf demoLib engineCryptography ED25519 [1, 2] None noParameters)) !
       fst (protocolPublicParametersOf demoLib engineCryptography ED25519 [1, 2] None noParameters))
     (askedSource engineCryptography ED25519 [1, 2] None)"
  using cached_parameters_are_of_the_outputs [OF cache_of.empty demo_digests prod.collapse [symmetric]] by blast

lemma engine_calls_in_time [simp]: "calls_in_time engineClient"
  by (simp add: calls_in_time_def engineClient_def)

theorem connect_ends_witness: "\<exists>t cache r. connect connectArguments noParameters 0 = Some (t, cache, r)"
  by (rule connect_ends [where lag = 0]) (simp_all add: demoArguments_def, simp add: engineClient_def)

lemma engine_reads:
  assumes "encodeRequest M request = Inr bs" "decodeResponse M [] = Inr response"
  shows "\<exists>s'. readThrough engineClient M request deadline 0 now freshState = Some (now, s', Inr response)"
  using assms
  by (simp add: readThrough_def validatorIndexes_def engineClient_def call_def othersRan_def isRefused_def freshState_def
      result_simps Let_def)

lemma keys_read_demo:
  "clientRead (demoArguments records shares K) (latestNetworkKeyId engineClient connectKeys None) 0 = Some (0, Inr theKey)"
proof -
  have "encodeRequest connectKeys () = Inr []" "decodeResponse connectKeys [] =
      Inr \<lparr>nm_network_key_ids = None, nm_latest_usable = Some theKey\<rparr>"
    by (simp_all add: connectKeys_def demoKeys_def)
  from engine_reads [OF this] obtain s'
    where "readThrough engineClient connectKeys () (min (attemptTimeoutMs NETWORK_KEYS_READ_RETRY)
        (network_keys_retry.budgetMs NETWORK_KEYS_READ_RETRY)) 0 0 freshState =
      Some (0, s', Inr \<lparr>nm_network_key_ids = None, nm_latest_usable = Some theKey\<rparr>)" by blast
  then show ?thesis
    by (simp add: clientRead_def latestNetworkKeyId_def thenE_def networkKeysByAgeResponse_def networkKeysLoop.simps
        demoArguments_def latestOf_def checked_def networkKeyIdFromBytes_def NETWORK_KEY_ID_LENGTH_def result_simps)
qed

lemma output_read_demo:
  "networkKeyOutputRetried (demoArguments records shares K) theKey 0 = Some (0, Inr
     \<lparr>gk_networkDkgOutput = [1, 2], gk_latestReconfigurationOutput = None, gk_epoch = 4, gk_dkgAtEpoch = 1,
      gk_networkKeyId = theKey\<rparr>)"
proof -
  have "encodeRequest connectOutput theKey = Inr theKey" "decodeResponse connectOutput [] =
      Inr \<lparr>ko_network_dkg_output = Some [1, 2], ko_latest_reconfiguration_output = None,
       ko_epoch = Some 4, ko_dkg_at_epoch = Some 1, ko_noa_public_key = Some theKey\<rparr>"
    by (simp_all add: connectOutput_def)
  from engine_reads [OF this] obtain s'
    where "readThrough engineClient connectOutput theKey READ_TIMEOUT_MS 0 0 freshState = Some (0, s', Inr
      \<lparr>ko_network_dkg_output = Some [1, 2], ko_latest_reconfiguration_output = None,
       ko_epoch = Some 4, ko_dkg_at_epoch = Some 1, ko_noa_public_key = Some theKey\<rparr>)" by blast
  then show ?thesis
    by (simp add: networkKeyOutputRetried_def outputRetried.simps clientRead_def getNetworkKeyOutput_def thenE_def
        demoArguments_def keyOutputOf_def newUint8Array_def bigIntOf_def checked_def networkKeyIdFromBytes_def
        NETWORK_KEY_ID_LENGTH_def mapErr_def bindE_def ofOption_def Let_def)
qed

lemma output_verified_demo:
  "verifyNetworkKeyOutput demoLib demoOutputChain demoOutput theKey RESHARE_RECORD_WAIT 1 = Some (2013, Inr demoOutput)"
proof -
  let ?d = "lengthHash [1, 2]" and ?W = RESHARE_RECORD_WAIT
  let ?rec = "\<lparr>rec_digest = ?d, rec_proof = demoProofBytes\<rparr>"
  have "recordOnceSigned demoOutputChain theKey DkgRecord ?d 120001 ?W 1 = Some (2008, Inr ?rec)"
    unfolding recordOnceSigned_def
    by (simp add: pollUntil.simps [of _ _ _ _ _ _ 1] pollUntil.simps [of _ _ _ _ _ _ 2005]
        withinTimeLeft_def demoOutputChain_def RESHARE_RECORD_WAIT_def demoProofBytes_def)
  moreover have "verifyNetworkKeyRecordProof demoLib m demoProofBytes = Inr theKey" for m
    by (simp add: verifyNetworkKeyRecordProof_def demo_lib demoProof_def demoProofBytes_def list_all_iff)
  moreover have "networkKeyDkgRecordMessage theKey ?d = Inr (ATTESTATION_SIGNING_PREFIX @ [6] @ theKey @ ?d)"
    unfolding dkg_message_Inr by (simp add: theKey_def lengthHash_def)
  ultimately have "bindT (recordOnceSigned demoOutputChain theKey DkgRecord ?d 120001 ?W)
      (\<lambda>dkg. bindT (verifyAgainstRecord demoLib demoOutputChain [1, 2] dkg (networkKeyDkgRecordMessage theKey) 120001)
        (\<lambda>_. returnT demoOutput)) 1 = Some (2013, Inr demoOutput)"
    by (simp add: bindT_def verifyAgainstRecord_def verifyRecordProof_def networkOutputDigest_def liftT_def
        readT_def returnT_def withinTimeLeft_def demoOutputChain_def guardE_def result_simps mapErr_def
        demoProofBytes_def)
  then show ?thesis
    by (simp add: verifyNetworkKeyOutput_def demoOutput_def RESHARE_RECORD_WAIT_def networkOutputDigest_def)
qed

lemma connect_run_demo:
  assumes "K = None \<or> K = Some engineCryptography"
  shows "\<exists>t cache c. connect (demoArguments records shares K) noParameters 0 = Some (t, cache, Inr c)"
proof -
  let ?A = "demoArguments records shares K"
  have key: "networkKeyIdFromBytes theKey = Inr theKey" "requireNetworksKey (Custom [theKey]) theKey = Inr None"
    by (simp_all add: networkKeyIdFromBytes_def NETWORK_KEY_ID_LENGTH_def requireNetworksKey_def trustedNetworkKeys_custom
        listedNetworkKey_def result_simps)
  have real: "requireSameMode False [1, 2] = Inr ()"
    by (simp add: requireSameMode_def isMockValue_def MOCK_MAGIC_def ascii_def Let_def result_simps)
  have trusted: "customOrListed (Custom [theKey]) [theKey] = Inr \<lparr>network = Custom [theKey], publicKeys = [theKey]\<rparr>"
    by (simp add: customOrListed_def trustedNetworkKeys_custom)
  let ?g = "\<lparr>gk_networkDkgOutput = [1, 2], gk_latestReconfigurationOutput = None, gk_epoch = 4, gk_dkgAtEpoch = 1,
      gk_networkKeyId = theKey\<rparr>"
  have reads: "allThreeT (thrownBy CallFailed (clientRead ?A (latestNetworkKeyId engineClient connectKeys None)))
      (thrownBy CallFailed (networkKeyOutputRetried ?A theKey)) (thrownBy Thrown (\<lambda>now. Some (now + 1, Inr (5 :: int)))) 0 =
      Some (1, Inr (theKey, ?g, 5))"
    by (simp add: allThreeT_def thrownBy_def keys_read_demo output_read_demo mapErr_def erased_def)
  have "\<exists>t cache c. connectWith ?A theKey theKey 5 demoOutput noParameters 2013 = (t, cache, Inr c)"
    using assms by (auto simp: connectWith_def Let_def demoArguments_def demoOutput_def protocolPublicParametersOf_def derive_def
        mapSet_def PROTOCOL_PUBLIC_PARAMETERS_CACHE_SIZE_def engineCryptography_def real trusted result_simps mapErr_def)
  moreover have "servedOutput ?g = demoOutput" by (simp add: servedOutput_def demoOutput_def)
  ultimately show ?thesis
    using reads key output_verified_demo
    by (simp add: connect_def requireListedDigest_def bindE_def)
qed

theorem connect_sound_witness:
  "\<exists>t cache c (served :: network_key_output). connect connectArguments noParameters 0 = Some (t, cache, Inr c) \<and>
     cn_networkKeyId (co_connection c) = theKey \<and> networkKeyId served = theKey \<and>
     recorded demoLib demoOutputChain theKey DkgRecord (networkKeyDkgRecordMessage theKey)
       (networkOutputDigest demoLib (networkDkgOutput served)) \<and>
     cache_of demoLib cache"
proof -
  from connect_run_demo [of None None None] obtain t cache c where run: "connect connectArguments noParameters 0 = Some (t, cache, Inr c)" by blast
  have start: "cache_of (en_sdk (ca_env connectArguments)) noParameters"
    "digests_something (en_sdk (ca_env connectArguments))"
    by (simp_all add: cache_of.empty demo_digests engineEnv_def)
  from connect_sound [OF start run] obtain served :: network_key_output
    where "cn_networkKeyId (co_connection c) = ca_networkKeyId connectArguments"
      "networkKeyId served = ca_networkKeyId connectArguments"
      "recorded (en_sdk (ca_env connectArguments)) (ca_records connectArguments) (ca_networkKeyId connectArguments) DkgRecord
        (networkKeyDkgRecordMessage (ca_networkKeyId connectArguments))
        (networkOutputDigest (en_sdk (ca_env connectArguments)) (networkDkgOutput served))"
      "cache_of (en_sdk (ca_env connectArguments)) cache" by (elim exE conjE) (rule that)
  with run show ?thesis by (auto simp: engineEnv_def)
qed

end
