(* ===== verification/User_Keys.thy ===== *)
theory User_Keys
  imports Engine_Runs
begin

text \<open>
  The user's keys (\<open>common/user-share-encryption-keys.ts\<close>) and an app's request key
  (\<open>common/request-key.ts\<close>). The keys all come from one root seed: a class-groups keypair, the holder key that
  accepts shares, and the request key that signs requests. The class-groups derivation, HMAC-SHA512, Keccak
  and Ed25519 are library code and parameters.
\<close>

section \<open>Libraries\<close>

datatype 'k versioned_keys = KeysV1 | KeysV2 | KeysV3 'k

record stored_keys =
  sy_encryptionKey :: bytes
  sy_decryptionKey :: bytes
  sy_holderSecretKey :: bytes
  sy_requestSecretKey :: bytes
  sy_curve :: int

text \<open>\<open>hmacSha512 key message\<close>; the class-groups keypair of a seed is an encryption and a decryption key.\<close>

record key_lib =
  kl_keccak :: hash
  hmacSha512 :: "bytes \<Rightarrow> bytes \<Rightarrow> bytes"
  kl_ed25519 :: ed25519_lib
  generateClassGroups :: "int \<Rightarrow> bytes \<Rightarrow> sdk_error + bytes \<times> bytes"
  versionedKeysBcs :: "stored_keys versioned_keys bcs_type"

section \<open>Derivation\<close>

definition CLASS_GROUPS_DOMAIN :: string where
  "CLASS_GROUPS_DOMAIN = ''CLASS_GROUPS_DECRYPTION_KEY_V1''"

definition ENCRYPTION_SIGNER_DOMAIN :: string where
  "ENCRYPTION_SIGNER_DOMAIN = ''ED25519_SIGNING_KEY_V1''"

definition REQUEST_KEY_DOMAIN :: string where
  "REQUEST_KEY_DOMAIN = ''IKA_REQUEST_KEY_V1''"

text \<open>The bytes \<open>hash\<close> digests.\<close>

definition derivationBytes :: "string \<Rightarrow> bytes \<Rightarrow> curve \<Rightarrow> sdk_error + bytes" where
  "derivationBytes domain seed curve =
     bindE (curveNumber curve) (\<lambda>n. Inr (ascii domain @ [word_of_int n] @ seed))"

definition derivationHash :: "key_lib \<Rightarrow> string \<Rightarrow> bytes \<Rightarrow> curve \<Rightarrow> sdk_error + bytes" where
  "derivationHash K domain seed curve = map_sum id (kl_keccak K) (derivationBytes domain seed curve)"

definition requestKeyBytes :: "bytes \<Rightarrow> bytes" where
  "requestKeyBytes seed = ascii REQUEST_KEY_DOMAIN @ seed"

definition SUI_ED25519_PATH :: "int list" where
  "SUI_ED25519_PATH = [44, 784, 0, 0, 0]"

text \<open>\<open>DataView.setUint32\<close> of a big-endian 32-bit integer.\<close>

definition uint32BE :: "int \<Rightarrow> bytes" where
  "uint32BE n = map (\<lambda>i. word_of_int (n div 256 ^ i)) [3, 2, 1, 0]"

record chain_key =
  ch_key :: bytes
  ch_chainCode :: bytes

definition chainKeyOf :: "bytes \<Rightarrow> chain_key" where
  "chainKeyOf digest = \<lparr>ch_key = take 32 digest, ch_chainCode = drop 32 digest\<rparr>"

text \<open>The 37 bytes of a hardened step: a zero, the parent's key, the index.\<close>

definition hardenedData :: "bytes \<Rightarrow> int \<Rightarrow> bytes" where
  "hardenedData parent index = 0 # parent @ replicate (32 - length parent) 0 @ uint32BE (index + 0x80000000)"

definition hardenedChild :: "key_lib \<Rightarrow> chain_key \<Rightarrow> int \<Rightarrow> chain_key" where
  "hardenedChild K parent index = chainKeyOf (hmacSha512 K (ch_chainCode parent) (hardenedData (ch_key parent) index))"

definition suiEd25519SecretKey :: "key_lib \<Rightarrow> bytes \<Rightarrow> bytes" where
  "suiEd25519SecretKey K seed =
     ch_key (foldl (hardenedChild K) (chainKeyOf (hmacSha512 K (ascii ''ed25519 seed'') seed)) SUI_ED25519_PATH)"

definition keypairOf :: "key_lib \<Rightarrow> bytes \<Rightarrow> sdk_error + transport_keypair" where
  "keypairOf K secretKey =
     bindE (ofOption (Err ''ed25519'') (edGetPublicKey (kl_ed25519 K) secretKey)) (\<lambda>publicKey.
       Inr \<lparr>kp_secretKey = secretKey, kp_publicKey = publicKey\<rparr>)"

section \<open>The keys\<close>

text \<open>An object of the class, with its entry of \<open>SIGNING_KEYS\<close>, which the constructor sets.\<close>

record user_keys =
  uk_encryptionKey :: bytes
  uk_decryptionKey :: bytes
  uk_curve :: curve
  holderKeypair :: transport_keypair
  requestKeypair :: transport_keypair

definition userKeys :: "key_lib \<Rightarrow> bytes \<Rightarrow> bytes \<Rightarrow> bytes \<Rightarrow> bytes \<Rightarrow> curve \<Rightarrow> sdk_error + user_keys" where
  "userKeys K encryptionKey decryptionKey holderSecretKey requestSecretKey curve =
     bindE (keypairOf K holderSecretKey) (\<lambda>holder.
     bindE (keypairOf K requestSecretKey) (\<lambda>req.
     Inr \<lparr>uk_encryptionKey = encryptionKey, uk_decryptionKey = decryptionKey, uk_curve = curve,
          holderKeypair = holder, requestKeypair = req\<rparr>))"

text \<open>\<open>createClassGroupsKeypair\<close> of \<open>client/cryptography.ts\<close>, which takes a seed of 32 bytes.\<close>

definition createClassGroupsKeypair :: "key_lib \<Rightarrow> bytes \<Rightarrow> curve \<Rightarrow> sdk_error + bytes \<times> bytes" where
  "createClassGroupsKeypair K seed curve =
     (if length seed \<noteq> 32 then Inl (Err ''Seed must be 32 bytes'')
      else bindE (curveNumber curve) (\<lambda>n. generateClassGroups K n seed))"

definition fromRootSeedKey :: "key_lib \<Rightarrow> bytes \<Rightarrow> curve \<Rightarrow> sdk_error + user_keys" where
  "fromRootSeedKey K seed curve =
     bindE (derivationHash K CLASS_GROUPS_DOMAIN seed curve) (\<lambda>classGroupsSeed.
     bindE (createClassGroupsKeypair K classGroupsSeed curve) (\<lambda>(encryptionKey, decryptionKey).
     bindE (derivationHash K ENCRYPTION_SIGNER_DOMAIN seed curve) (\<lambda>holderSeed.
     userKeys K encryptionKey decryptionKey (suiEd25519SecretKey K holderSeed)
       (kl_keccak K (requestKeyBytes seed)) curve)))"

definition classicKeysError :: sdk_error where
  "classicKeysError = Err ''these are keys the classic SDK serialized''"

definition fromShareEncryptionKeysBytes :: "key_lib \<Rightarrow> bytes \<Rightarrow> sdk_error + user_keys" where
  "fromShareEncryptionKeysBytes K bs =
     bindE (ofOption (Err ''bcs'') (parse (versionedKeysBcs K) bs)) (\<lambda>parsed.
     case parsed of
       KeysV3 stored \<Rightarrow>
         bindE (mapErr (\<lambda>_. Err ''Unknown curve number'') (fromNumberToCurve (sy_curve stored))) (\<lambda>curve.
         userKeys K (sy_encryptionKey stored) (sy_decryptionKey stored) (sy_holderSecretKey stored)
           (sy_requestSecretKey stored) curve)
     | _ \<Rightarrow> Inl classicKeysError)"

definition toShareEncryptionKeysBytes :: "key_lib \<Rightarrow> user_keys \<Rightarrow> sdk_error + bytes" where
  "toShareEncryptionKeysBytes K keys =
     bindE (curveNumber (uk_curve keys)) (\<lambda>n.
     ofOption (Err ''bcs'') (serialize (versionedKeysBcs K) (KeysV3
       \<lparr>sy_encryptionKey = uk_encryptionKey keys, sy_decryptionKey = uk_decryptionKey keys,
        sy_holderSecretKey = kp_secretKey (holderKeypair keys),
        sy_requestSecretKey = kp_secretKey (requestKeypair keys), sy_curve = n\<rparr>)))"

definition getSigningPublicKeyBytes :: "user_keys \<Rightarrow> bytes" where
  "getSigningPublicKeyBytes keys = kp_publicKey (holderKeypair keys)"

definition getRequestPublicKeyBytes :: "user_keys \<Rightarrow> bytes" where
  "getRequestPublicKeyBytes keys = kp_publicKey (requestKeypair keys)"

section \<open>An app's request key\<close>

record request_key =
  rk_publicKey :: bytes
  rk_secretKey :: bytes

definition requestKeyFromSecretKey :: "ed25519_lib \<Rightarrow> bytes \<Rightarrow> sdk_error + request_key" where
  "requestKeyFromSecretKey E secretKey =
     (if length secretKey \<noteq> 32 then Inl (Err ''an Ed25519 secret key is 32 bytes'')
      else bindE (ofOption (Err ''ed25519'') (edGetPublicKey E secretKey)) (\<lambda>publicKey.
        Inr \<lparr>rk_publicKey = publicKey, rk_secretKey = secretKey\<rparr>))"

definition requestKeySign :: "ed25519_lib \<Rightarrow> request_key \<Rightarrow> bytes \<Rightarrow> sdk_error + bytes" where
  "requestKeySign E key message = ofOption (Err ''ed25519'') (edSign E message (rk_secretKey key))"

definition requestKeySignRequest :: "ed25519_lib \<Rightarrow> request_key \<Rightarrow> bytes \<Rightarrow> sdk_error + bytes" where
  "requestKeySignRequest E key signedRequestData = requestKeySign E key (requestSigningMessage signedRequestData)"

text \<open>The key as the \<open>RequestSigner\<close> a client is given; it settles at once.\<close>

definition requestKeySigner :: "ed25519_lib \<Rightarrow> request_key \<Rightarrow> request_signer" where
  "requestKeySigner E key =
     \<lparr>rs_publicKey = rk_publicKey key, signRequest = (\<lambda>data. liftT (requestKeySignRequest E key data))\<rparr>"

fun requestKindName :: "dwallet_request \<Rightarrow> string" where
  "requestKindName (Dkg _) = ''Dkg''"
| "requestKindName (Sign _) = ''Sign''"
| "requestKindName (ImportedKeySign _) = ''ImportedKeySign''"
| "requestKindName (Presign _) = ''Presign''"
| "requestKindName (PresignForDWallet _) = ''PresignForDWallet''"
| "requestKindName (ImportedKeyVerification _) = ''ImportedKeyVerification''"
| "requestKindName (ReEncryptShare _) = ''ReEncryptShare''"
| "requestKindName (MakeSharePublic _) = ''MakeSharePublic''"
| "requestKindName (FutureSign _) = ''FutureSign''"
| "requestKindName (SignWithPartialUserSig _) = ''SignWithPartialUserSig''"
| "requestKindName (ImportedKeySignWithPartialUserSig _) = ''ImportedKeySignWithPartialUserSig''"
| "requestKindName (ReleaseGas _) = ''ReleaseGas''"
| "requestKindName RetiredAcceptShare = ''RetiredAcceptShare''"
| "requestKindName RetiredStorePresign = ''RetiredStorePresign''"
| "requestKindName (AttachEncryptedShare _) = ''AttachEncryptedShare''"

fun chainName :: "chain_id \<Rightarrow> string" where
  "chainName Solana = ''Solana''"
| "chainName Sui = ''Sui''"

record decoded_request =
  dr_kind :: string
  dr_chain :: string
  dr_intendedChainSender :: bytes
  dr_epoch :: int
  dr_request :: dwallet_request

definition decodeSignedRequest :: "sdk_lib \<Rightarrow> bytes \<Rightarrow> sdk_error + decoded_request" where
  "decodeSignedRequest L signedRequestData =
     bindE (ofOption (Err ''bcs'') (parse (signedRequestDataBcs L) signedRequestData)) (\<lambda>data.
     Inr \<lparr>dr_kind = requestKindName (req_request data), dr_chain = chainName (req_chain_id data),
          dr_intendedChainSender = req_intended_chain_sender data, dr_epoch = req_epoch data,
          dr_request = req_request data\<rparr>)"

end
