(* ===== verification/Client_Base.thy ===== *)
theory Client_Base
  imports Engine_Signing Engine_Connect User_Keys
begin

text \<open>
  What \<open>IkaClient\<close> does the same way on every chain (\<open>common/ika-client-base.ts\<close>, \<open>common/wait.ts\<close>): it keeps one connection for
  each curve and network key, checks a dWallet on the chain before it uses it, reads the voucher a sign goes under,
  takes presigns, and runs the calls of the connection. The chain's own methods, which the class leaves abstract,
  are parameters. A call of the client is a function of the time and of the client's state; \<open>None\<close> is a call that never
  settles. The calls run one at a time against the environment of other calls that \<open>Engine_Runs\<close> models.
\<close>

section \<open>Waiting\<close>

partial_function (option) pollLoop ::
    "(sdk_error, 'x option) timed \<Rightarrow> (time \<Rightarrow> nat) \<Rightarrow> int \<Rightarrow> time \<Rightarrow> time \<Rightarrow> (time \<times> (sdk_error + 'x)) option" where
  "pollLoop read lag interval deadline now =
     (case read now of
        None \<Rightarrow> None
      | Some (t, Inl e) \<Rightarrow> Some (t, Inl e)
      | Some (t, Inr (Some v)) \<Rightarrow> Some (t, Inr v)
      | Some (t, Inr None) \<Rightarrow>
          if t \<ge> deadline then Some (t, Inl (Err ''timed out waiting''))
          else pollLoop read lag interval deadline (t + interval + int (lag t)))"

text \<open>\<open>WaitOptions\<close>: 2 minutes and 1 second by default.\<close>

definition poll ::
    "(sdk_error, 'x option) timed \<Rightarrow> (time \<Rightarrow> nat) \<Rightarrow> int option \<Rightarrow> int option \<Rightarrow> (sdk_error, 'x) timed" where
  "poll read lag timeout interval now =
     pollLoop read lag (case interval of None \<Rightarrow> 1000 | Some ms \<Rightarrow> ms)
       (now + (case timeout of None \<Rightarrow> 120000 | Some ms \<Rightarrow> ms)) now"

section \<open>Constants\<close>

definition DEFAULT_POOL_WAIT_MS :: int where "DEFAULT_POOL_WAIT_MS = 180000"
definition VOUCHER_READ_WAIT_MS :: int where "VOUCHER_READ_WAIT_MS = 30000"
definition OWN_PRESIGN_ATTEMPTS :: nat where "OWN_PRESIGN_ATTEMPTS = 3"
definition SHARE_RECORD_WAIT_MS :: int where "SHARE_RECORD_WAIT_MS = 300000"
definition SHARE_RECORD_POLL_MS :: int where "SHARE_RECORD_POLL_MS = 2000"

definition ECDSA_SCHEMES :: "scheme_name list" where
  "ECDSA_SCHEMES = [EcdsaKeccak256, EcdsaSha256, EcdsaDoubleSha256, EcdsaBlake2b256]"

definition UNACCEPTED_SHARE_FIELDS :: "string list" where
  "UNACCEPTED_SHARE_FIELDS = [''accepted'', ''acceptance_signature'']"

section \<open>The client\<close>

record voucher_approval =
  va_dwallet :: bytes
  va_messageDigest :: bytes
  va_messageMetadataDigest :: bytes
  va_signatureScheme :: int

text \<open>
  The options and the chain's methods. \<open>shareReader trusted t\<close> is the chain's share reader with the records it reads when
  asked at \<open>t\<close>, and \<open>shareLookup\<close> the same reader as far as the lookup of a session reads it; \<open>shareReads t\<close> is how long
  the reads of one check take, and \<open>None\<close> if one of them never settles.
\<close>

record ('address, 'voucher) base_client =
  bc_env :: engine_env
  bc_grpc :: grpc_client
  bc_submit :: "(signed_grpc_request, transaction_response) rpc_method"
  bc_keys :: "(unit, network_keys_message) rpc_method"
  bc_output :: "(bytes, key_output_message) rpc_method"
  bc_closing :: closed_at
  bc_clientAt :: "time \<Rightarrow> client_state"
  bc_derives :: "time \<Rightarrow> nat"
  bc_network :: ika_network
  bc_chain :: chain_id
  poolWaitMs :: int
  requestSigner :: "request_signer option"
  bc_cryptography :: engine_cryptography
  networkKeyRecords :: output_chain
  chainEpoch :: "(sdk_error, int) timed"
  requestRecords :: request_records
  shareReader :: "trusted_network_keys \<Rightarrow> time \<Rightarrow> share_reader"
  shareLookup :: "trusted_network_keys \<Rightarrow> share_lookup"
  shareReads :: "time \<Rightarrow> nat option"
  addressBytes :: "'address \<Rightarrow> sdk_error + bytes"
  voucherBytes :: "'voucher \<Rightarrow> sdk_error + bytes"
  readVoucherApproval :: "'voucher \<Rightarrow> (sdk_error, voucher_approval option) timed"
  dWalletAddressBytes :: "dwallet \<Rightarrow> sdk_error + bytes"
  gasDepositConsentMessage :: "'address \<Rightarrow> sdk_error + bytes"
  readEncryptionKeyEntry :: "bytes \<Rightarrow> curve \<Rightarrow> (sdk_error, holder_entry) timed"

text \<open>What the constructor sets from the options that may be left out, and its refusal of the mock.\<close>

record base_options =
  op_network :: ika_network
  op_presignPoolWaitMs :: "int option"
  op_requestSigner :: "request_signer option"
  op_cryptography :: "engine_cryptography option"

definition isCustom :: "ika_network \<Rightarrow> bool" where
  "isCustom net = (case net of Custom _ \<Rightarrow> True | Deployed _ \<Rightarrow> False)"

definition constructed ::
    "engine_cryptography \<Rightarrow> base_options \<Rightarrow> ('a, 'v) base_client \<Rightarrow> sdk_error + ('a, 'v) base_client" where
  "constructed realCryptography options B =
     (let K = (case op_cryptography options of None \<Rightarrow> realCryptography | Some K \<Rightarrow> K) in
      seqE (guardE (\<not> (ec_mock K \<and> \<not> isCustom (op_network options)))
             (Err ''mock mode is allowed only with a custom network, never on mainnet or testnet''))
           (Inr (B\<lparr>bc_network := op_network options,
                   poolWaitMs := (case op_presignPoolWaitMs options of None \<Rightarrow> DEFAULT_POOL_WAIT_MS | Some ms \<Rightarrow> ms),
                   requestSigner := op_requestSigner options, bc_cryptography := K\<rparr>)))"

definition clientShareReader :: "('a, 'v) base_client \<Rightarrow> trusted_network_keys \<Rightarrow> time \<Rightarrow> share_reader" where
  "clientShareReader B trusted now =
     readerWithCryptography (shareReader B trusted now) (ec_user (bc_cryptography B))"

section \<open>The client's state\<close>

text \<open>
  A connection kept, with its two changing fields. \<open>#engines\<close> names it by its key, which is also the reference a call
  holds: an entry is never removed once its connection is made. The gRPC client, the cache of parameters, the stores
  of the process and the log are shared by the connections.
\<close>

record open_network =
  on_connection :: network_connection
  on_epoch :: int
  on_trusted :: trusted_network_keys

type_synonym network_ref = string

record base_state =
  bs_engines :: "network_ref \<Rightarrow> open_network option"
  bs_latestKey :: "bytes option"
  bs_cache :: parameters_cache
  bs_grpc :: client_state
  bs_holders :: waiting_holders
  bs_issued :: issued_results
  bs_draws :: nat
  bs_signed :: "signed_entry list"

type_synonym 'x base_run = "time \<Rightarrow> base_state \<Rightarrow> (time \<times> base_state \<times> (engine_error + 'x)) option"

definition bindB :: "'x base_run \<Rightarrow> ('x \<Rightarrow> 'y base_run) \<Rightarrow> 'y base_run" where
  "bindB m f now s =
     (case m now s of
        None \<Rightarrow> None
      | Some (t, s', Inl e) \<Rightarrow> Some (t, s', Inl e)
      | Some (t, s', Inr x) \<Rightarrow> f x t s')"

definition returnB :: "'x \<Rightarrow> 'x base_run" where
  "returnB x now s = Some (now, s, Inr x)"

definition liftB :: "sdk_error + 'x \<Rightarrow> 'x base_run" where
  "liftB r now s = Some (now, s, mapErr Thrown r)"

definition netState :: "open_network \<Rightarrow> base_state \<Rightarrow> net_state" where
  "netState on s =
     \<lparr>ns_client = bs_grpc s, ns_epoch = on_epoch on, ns_trusted = on_trusted on, ns_holders = bs_holders s,
      ns_issued = bs_issued s, ns_draws = bs_draws s, ns_signed = bs_signed s\<rparr>"

definition afterNet :: "network_ref \<Rightarrow> open_network \<Rightarrow> net_state \<Rightarrow> base_state \<Rightarrow> base_state" where
  "afterNet ref on n s =
     s\<lparr>bs_engines := (bs_engines s)(ref := Some (on\<lparr>on_epoch := ns_epoch n, on_trusted := ns_trusted n\<rparr>)),
       bs_grpc := ns_client n, bs_holders := ns_holders n, bs_issued := ns_issued n, bs_draws := ns_draws n,
       bs_signed := ns_signed n\<rparr>"

text \<open>A run on the connection a reference names.\<close>

definition onNetwork :: "network_ref \<Rightarrow> (network_connection \<Rightarrow> 'x engine_run) \<Rightarrow> 'x base_run" where
  "onNetwork ref f now s =
     (case bs_engines s ref of
        None \<Rightarrow> Some (now, s, Inl (Thrown (TypeErr ''undefined'')))
      | Some on \<Rightarrow>
          map_option (\<lambda>(t, n, r). (t, afterNet ref on n s, r)) (f (on_connection on) now (netState on s)))"

section \<open>Connections\<close>

definition awaitGrpc :: "'x client_run \<Rightarrow> 'x base_run" where
  "awaitGrpc run now s = map_option (\<lambda>(t, c, r). (t, s\<lparr>bs_grpc := c\<rparr>, mapErr CallFailed r)) (run now (bs_grpc s))"

definition readLatestKey :: "('a, 'v) base_client \<Rightarrow> bytes base_run" where
  "readLatestKey B = awaitGrpc (latestNetworkKeyId (bc_grpc B) (bc_keys B) (bc_closing B))"

definition getLatestNetworkEncryptionKeyId :: "('a, 'v) base_client \<Rightarrow> bytes base_run" where
  "getLatestNetworkEncryptionKeyId B = bindB (readLatestKey B) (\<lambda>key. liftB (networkKeyIdFromBytes key))"

text \<open>\<open>#latestNetworkKeyId\<close>: kept once it was read; a read that failed is not.\<close>

definition latestNetworkKey :: "('a, 'v) base_client \<Rightarrow> bytes base_run" where
  "latestNetworkKey B now s =
     (case bs_latestKey s of
        Some key \<Rightarrow> Some (now, s, Inr key)
      | None \<Rightarrow>
          map_option (\<lambda>(t, s', r). (t, s'\<lparr>bs_latestKey := (case r of Inl _ \<Rightarrow> None | Inr key \<Rightarrow> Some key)\<rparr>, r))
            (readLatestKey B now s))"

definition connectArguments :: "('a, 'v) base_client \<Rightarrow> curve \<Rightarrow> bytes \<Rightarrow> connect_arguments" where
  "connectArguments B curve key =
     \<lparr>ca_env = bc_env B, ca_client = bc_grpc B, ca_submit = bc_submit B, ca_keys = bc_keys B, ca_output = bc_output B,
      ca_closing = bc_closing B, clientAt = bc_clientAt B, ca_curve = curve, ca_networkKeyId = key,
      ca_network = bc_network B, ca_records = networkKeyRecords B, ca_chainEpoch = chainEpoch B,
      ca_requestRecords = Some (requestRecords B), ca_shares = Some (shareLookup B),
      ca_cryptography = Some (bc_cryptography B), ca_realCryptography = bc_cryptography B, derives = bc_derives B\<rparr>"

text \<open>\<open>#connect\<close>.\<close>

definition openNetwork :: "('a, 'v) base_client \<Rightarrow> curve \<Rightarrow> bytes \<Rightarrow> open_network base_run" where
  "openNetwork B curve key now s =
     (let (dt, registered) = isRegisteredNetworkKey (networkKeyRecords B) key now; t = now + int dt in
      case registered of
        Inl e \<Rightarrow> Some (t, s, Inl (Thrown e))
      | Inr False \<Rightarrow> Some (t, s, Inl (Thrown (Err ''the chain's records hold no such network key'')))
      | Inr True \<Rightarrow>
          map_option (\<lambda>(t', cache, r).
            (t', s\<lparr>bs_cache := cache, bs_grpc := bc_clientAt B t'\<rparr>,
             map_sum id (\<lambda>c. \<lparr>on_connection = co_connection c, on_epoch = co_epoch c, on_trusted = co_trusted c\<rparr>) r))
            (connect (connectArguments B curve key) (bs_cache s) t))"

definition engineKey :: "curve \<Rightarrow> bytes \<Rightarrow> network_ref" where
  "engineKey curve key = curveString curve @ '':'' @ toHex key"

text \<open>A connection that could not be made is dropped, and the next call tries again.\<close>

definition engineFor :: "('a, 'v) base_client \<Rightarrow> curve \<Rightarrow> bytes \<Rightarrow> network_ref base_run" where
  "engineFor B curve key now s =
     (let ref = engineKey curve key in
      case bs_engines s ref of
        Some on \<Rightarrow> Some (now, s, Inr ref)
      | None \<Rightarrow>
          map_option (\<lambda>(t, s', r).
            (case r of
               Inl e \<Rightarrow> (t, s', Inl e)
             | Inr on \<Rightarrow> (t, s'\<lparr>bs_engines := (bs_engines s')(ref := Some on)\<rparr>, Inr ref)))
            (openNetwork B curve key now s))"

definition engine :: "('a, 'v) base_client \<Rightarrow> curve \<Rightarrow> bytes option \<Rightarrow> network_ref base_run" where
  "engine B curve keyId =
     bindB (case keyId of None \<Rightarrow> latestNetworkKey B | Some key \<Rightarrow> returnB key) (engineFor B curve)"

definition initialize :: "('a, 'v) base_client \<Rightarrow> curve \<Rightarrow> unit base_run" where
  "initialize B curve = bindB (engine B curve None) (\<lambda>_. returnB ())"

definition engineOf :: "('a, 'v) base_client \<Rightarrow> dwallet \<Rightarrow> user_keys \<Rightarrow> network_ref base_run" where
  "engineOf B d keys =
     bindB (liftB (bindE (curveNumber (uk_curve keys)) (\<lambda>n.
              guardE (n = dl_curve d)
                (Err ''the keys are for one curve, and the dWallet is on another: derive the keys for the dWallet's curve''))))
       (\<lambda>_. engine B (uk_curve keys) (Some (dl_networkKeyId d)))"

section \<open>Who signs\<close>

definition baseRequester :: "('a, 'v) base_client \<Rightarrow> user_keys \<Rightarrow> 'a option \<Rightarrow> sdk_error + requester" where
  "baseRequester B keys owner =
     bindE (case owner of None \<Rightarrow> Inr (replicate 32 0) | Some a \<Rightarrow> addressBytes B a) (\<lambda>sender.
     Inr \<lparr>rq_keypair = (case requestSigner B of
                           None \<Rightarrow> requestKeypair keys
                         | Some signer \<Rightarrow> \<lparr>kp_secretKey = [], kp_publicKey = rs_publicKey signer\<rparr>),
          rq_signer = requestSigner B, rq_chain = bc_chain B, rq_intendedChainSender = sender\<rparr>)"

definition getRequestPublicKey :: "('a, 'v) base_client \<Rightarrow> user_keys \<Rightarrow> bytes" where
  "getRequestPublicKey B keys =
     (case requestSigner B of None \<Rightarrow> kp_publicKey (requestKeypair keys) | Some signer \<Rightarrow> rs_publicKey signer)"

datatype consent_key = ConsentOfKeys user_keys | ConsentOfRequestKey request_key

definition signGasDepositConsent :: "('a, 'v) base_client \<Rightarrow> consent_key \<Rightarrow> 'a \<Rightarrow> sdk_error + bytes \<times> bytes" where
  "signGasDepositConsent B key depositOwner =
     bindE (gasDepositConsentMessage B depositOwner) (\<lambda>message.
     case key of
       ConsentOfRequestKey k \<Rightarrow>
         bindE (requestKeySign (en_ed25519 (bc_env B)) k message) (\<lambda>consent. Inr (rk_publicKey k, consent))
     | ConsentOfKeys keys \<Rightarrow>
         bindE (ofOption (Err ''ed25519'')
                  (edSign (en_ed25519 (bc_env B)) message (kp_secretKey (requestKeypair keys)))) (\<lambda>consent.
         Inr (kp_publicKey (requestKeypair keys), consent)))"

section \<open>Checking a dWallet\<close>

text \<open>A check that issues a result, over the records read when it starts; the result is issued when it ends.\<close>

definition issuing ::
    "('a, 'v) base_client \<Rightarrow> network_connection
      \<Rightarrow> (share_reader \<Rightarrow> time \<Rightarrow> issued_results \<Rightarrow> sdk_error + dwallet_usable \<times> issued_results)
      \<Rightarrow> dwallet_usable engine_run" where
  "issuing B N check now s =
     (case shareReads B now of
        None \<Rightarrow> None
      | Some dt \<Rightarrow>
          let t = now + int dt; s' = resumed N t s in
          case check (clientShareReader B (ns_trusted s) now) t (ns_issued s') of
            Inl e \<Rightarrow> Some (t, s', Inl (Thrown e))
          | Inr (usable, store) \<Rightarrow> Some (t, s'\<lparr>ns_issued := store\<rparr>, Inr usable))"

definition usableNow :: "('a, 'v) base_client \<Rightarrow> dwallet \<Rightarrow> user_keys \<Rightarrow> network_connection \<Rightarrow> dwallet_usable engine_run" where
  "usableNow B d keys N =
     issuing B N (\<lambda>reader. assertDWalletUsable (sdkOf N) (en_realCryptography (cn_env N)) reader
       (kp_publicKey (holderKeypair keys)) (attestation_data (dl_attestation d)) noOptions)"

definition baseCheckDWalletUsable :: "('a, 'v) base_client \<Rightarrow> dwallet \<Rightarrow> user_keys \<Rightarrow> dwallet_usable base_run" where
  "baseCheckDWalletUsable B d keys = bindB (engineOf B d keys) (\<lambda>ref. onNetwork ref (usableNow B d keys))"

definition getDWallet :: "('a, 'v) base_client \<Rightarrow> 'a \<Rightarrow> user_keys \<Rightarrow> dwallet_usable base_run" where
  "getDWallet B dWalletId keys =
     bindB (engine B (uk_curve keys) None) (\<lambda>ref.
     bindB (liftB (addressBytes B dWalletId)) (\<lambda>address.
     onNetwork ref (\<lambda>N. issuing B N (\<lambda>reader. readDWalletVerified (sdkOf N) (en_realCryptography (cn_env N)) reader
       (kp_publicKey (holderKeypair keys)) (DWalletAtAddress address) noOptions))))"

section \<open>Waiting for a share\<close>

definition shareIsOnChain :: "checked_dwallet_record \<Rightarrow> bytes \<Rightarrow> sdk_error + bool" where
  "shareIsOnChain rec holder =
     (case cdr_readEncryptedShare rec holder None of
        Inr share \<Rightarrow> Inr (share \<noteq> None)
      | Inl e \<Rightarrow>
          (case e of
             AttestationRecordError check (Some field) \<Rightarrow>
               if check = CkRecord \<and> field \<in> set UNACCEPTED_SHARE_FIELDS then Inr True else Inl e
           | _ \<Rightarrow> Inl e))"

definition shareRecordHeld :: "share_reader \<Rightarrow> expected_dwallet \<Rightarrow> bytes \<Rightarrow> sdk_error + bool" where
  "shareRecordHeld reader lookup holder =
     bindE (rd_readDWallet reader lookup) (\<lambda>found.
       case found of None \<Rightarrow> Inr False | Some rec \<Rightarrow> shareIsOnChain rec holder)"

partial_function (option) shareLoop ::
    "(time \<Rightarrow> share_reader) \<Rightarrow> (time \<Rightarrow> nat option) \<Rightarrow> (time \<Rightarrow> nat) \<Rightarrow> expected_dwallet \<Rightarrow> bytes \<Rightarrow> time \<Rightarrow> time
      \<Rightarrow> (time \<times> (sdk_error + unit)) option" where
  "shareLoop reader reads lag lookup holder deadline now =
     (case reads now of
        None \<Rightarrow> None
      | Some dt \<Rightarrow>
          let t = now + int dt in
          case shareRecordHeld (reader now) lookup holder of
            Inl e \<Rightarrow> Some (t, Inl e)
          | Inr found \<Rightarrow>
              if found then Some (t, Inr ())
              else if t \<ge> deadline
              then Some (t, Inl (Err ''the network answered, and the chain still holds no share of the dWallet for its holder''))
              else shareLoop reader reads lag lookup holder deadline (t + SHARE_RECORD_POLL_MS + int (lag t)))"

definition waitForEncryptedShareRecord ::
    "('a, 'v) base_client \<Rightarrow> network_connection \<Rightarrow> trusted_network_keys \<Rightarrow> expected_dwallet \<Rightarrow> bytes \<Rightarrow> (sdk_error, unit) timed" where
  "waitForEncryptedShareRecord B N trusted lookup holder now =
     shareLoop (clientShareReader B trusted) (shareReads B) (lagOf (cn_client N)) lookup holder
       (now + SHARE_RECORD_WAIT_MS) now"

definition waitForEncryptedShare :: "('a, 'v) base_client \<Rightarrow> dwallet \<Rightarrow> network_connection \<Rightarrow> unit engine_run" where
  "waitForEncryptedShare B d N =
     (case (dl_share d, dl_acceptance d) of
        (EncryptedTo holder, Some _) \<Rightarrow>
          withState (\<lambda>s. awaitRead N (waitForEncryptedShareRecord B N (ns_trusted s) (lookupOf d) holder))
      | _ \<Rightarrow> returnN ())"

section \<open>Creating a dWallet\<close>

record sign_during_dkg_params =
  sj_presign :: presign
  sj_message :: bytes
  sj_hashScheme :: hash_name
  sj_signatureAlgorithm :: sig_alg
  sj_messageMetadata :: "bytes option"

definition invalidScheme :: "scheme_error \<Rightarrow> sdk_error" where
  "invalidScheme e = Err ''the combination of curve, signature algorithm and hash is not valid''"

definition signDuringDkg :: "curve \<Rightarrow> sign_during_dkg_params \<Rightarrow> sdk_error + scheme_choice sign_during_dkg" where
  "signDuringDkg curve sign =
     bindE (mapErr invalidScheme (signatureSchemeOf curve (sj_signatureAlgorithm sign) (sj_hashScheme sign))) (\<lambda>scheme.
     Inr \<lparr>sk_presign = sj_presign sign, sk_message = sj_message sign, sk_messageMetadata = sj_messageMetadata sign,
          sk_signatureScheme = SchemeNamed scheme\<rparr>)"

definition keysShare :: "user_keys \<Rightarrow> share_encryption" where
  "keysShare keys = \<lparr>sn_holder = holderKeypair keys, sn_encryptionKey = uk_encryptionKey keys\<rparr>"

definition requestDWalletDKG ::
    "('a, 'v) base_client \<Rightarrow> curve \<Rightarrow> user_keys \<Rightarrow> 'a \<Rightarrow> sign_during_dkg_params option \<Rightarrow> (dwallet \<times> bytes option) base_run" where
  "requestDWalletDKG B curve keys owner sign =
     bindB (engine B curve None) (\<lambda>ref.
     bindB (liftB (baseRequester B keys (Some owner))) (\<lambda>req.
     case sign of
       None \<Rightarrow>
         bindB (onNetwork ref (\<lambda>N. createDWallet N req (keysShare keys))) (\<lambda>d.
         bindB (onNetwork ref (waitForEncryptedShare B d)) (\<lambda>_. returnB (d, None)))
     | Some params \<Rightarrow>
         bindB (liftB (signDuringDkg curve params)) (\<lambda>g.
         bindB (onNetwork ref (\<lambda>N. createDWalletAndSign N req (keysShare keys) g)) (\<lambda>(d, signature).
         bindB (onNetwork ref (waitForEncryptedShare B d)) (\<lambda>_. returnB (d, signature))))))"

definition requestDWalletDKGWithPublicUserShare ::
    "('a, 'v) base_client \<Rightarrow> curve \<Rightarrow> user_keys \<Rightarrow> 'a \<Rightarrow> sign_during_dkg_params option \<Rightarrow> (dwallet \<times> bytes option) base_run" where
  "requestDWalletDKGWithPublicUserShare B curve keys owner sign =
     bindB (engine B curve None) (\<lambda>ref.
     bindB (liftB (baseRequester B keys (Some owner))) (\<lambda>req.
     case sign of
       None \<Rightarrow> bindB (onNetwork ref (\<lambda>N. createDWalletWithPublicShare N req)) (\<lambda>d. returnB (d, None))
     | Some params \<Rightarrow>
         bindB (liftB (signDuringDkg curve params)) (\<lambda>g.
         onNetwork ref (\<lambda>N. createDWalletWithPublicShareAndSign N req g))))"

definition requestImportedKeyDWalletVerification ::
    "('a, 'v) base_client \<Rightarrow> curve \<Rightarrow> bytes \<Rightarrow> user_keys \<Rightarrow> 'a \<Rightarrow> dwallet base_run" where
  "requestImportedKeyDWalletVerification B curve secretKey keys owner =
     bindB (engine B curve None) (\<lambda>ref.
     bindB (liftB (baseRequester B keys (Some owner))) (\<lambda>req.
     bindB (onNetwork ref (\<lambda>N. verifyImportedKey N req (keysShare keys) secretKey)) (\<lambda>d.
     bindB (onNetwork ref (waitForEncryptedShare B d)) (\<lambda>_. returnB d))))"

section \<open>Presigns\<close>

definition requestGlobalPresign :: "('a, 'v) base_client \<Rightarrow> curve \<Rightarrow> sig_alg \<Rightarrow> user_keys \<Rightarrow> presign base_run" where
  "requestGlobalPresign B curve algorithm keys =
     bindB (engine B curve None) (\<lambda>ref.
     bindB (liftB (baseRequester B keys None)) (\<lambda>req.
     bindB (liftB (mapErr invalidScheme (presignSchemeOf curve algorithm))) (\<lambda>scheme.
     onNetwork ref (\<lambda>N. requestPresign N req (SchemeNamed scheme) (Some (poolWaitMs B))))))"

definition baseRequestPresign :: "('a, 'v) base_client \<Rightarrow> dwallet \<Rightarrow> sig_alg \<Rightarrow> user_keys \<Rightarrow> presign base_run" where
  "baseRequestPresign B d algorithm keys =
     bindB (engineOf B d keys) (\<lambda>ref.
     bindB (liftB (baseRequester B keys None)) (\<lambda>req.
     bindB (liftB (mapErr invalidScheme (presignSchemeOf (uk_curve keys) algorithm))) (\<lambda>scheme.
     onNetwork ref (\<lambda>N. requestPresignForDWallet N req d (SchemeNamed scheme)))))"

section \<open>Signing\<close>

record 'voucher sign_params =
  sq_dWallet :: dwallet
  sq_presign :: "presign option"
  sq_voucher :: 'voucher
  sq_message :: bytes
  sq_keys :: user_keys
  sq_messageMetadata :: "bytes option"
  sq_hashScheme :: "hash_name option"
  sq_signatureAlgorithm :: "sig_alg option"

record sign_terms =
  tm_message :: bytes
  tm_messageMetadata :: "bytes option"
  tm_signatureScheme :: scheme_name

text \<open>From the voucher's approval on.\<close>

definition approvedTerms ::
    "sdk_lib \<Rightarrow> (dwallet \<Rightarrow> sdk_error + bytes) \<Rightarrow> voucher_approval \<Rightarrow> 'v sign_params \<Rightarrow> sdk_error + sign_terms" where
  "approvedTerms L addressOf approval params =
     bindE (addressOf (sq_dWallet params)) (\<lambda>address.
     seqE (guardE (equalBytes (va_dwallet approval) address) (Err ''the voucher is for another dWallet than this one''))
    (let metadata = orEmpty (sq_messageMetadata params) in
     seqE (guardE (equalBytes (va_messageDigest approval) (keccak_256 L (sq_message params)))
             (Err ''the voucher approves another message than this one''))
    (let metadataDigest = (if length metadata = 0 then replicate 32 0 else keccak_256 L metadata) in
     seqE (guardE (equalBytes (va_messageMetadataDigest approval) metadataDigest)
             (Err ''the voucher approves other message metadata than this sign's''))
    (bindE (ofOption (Err ''the voucher names a signature scheme this SDK does not know'')
              (element SIGNATURE_SCHEMES (va_signatureScheme approval))) (\<lambda>voucherScheme.
     seqE (case (sq_hashScheme params, sq_signatureAlgorithm params) of
             (Some h, Some algorithm) \<Rightarrow>
               bindE (mapErr invalidScheme (signatureSchemeOf (uk_curve (sq_keys params)) algorithm h)) (\<lambda>asked.
               guardE (asked = voucherScheme) (Err ''the voucher approves another scheme than this sign asks for''))
           | _ \<Rightarrow> Inr ())
          (Inr \<lparr>tm_message = sq_message params, tm_messageMetadata = sq_messageMetadata params,
                tm_signatureScheme = voucherScheme\<rparr>))))))"

definition noVoucher :: sdk_error where
  "noVoucher = Err ''the chain holds no voucher: issue it and send that transaction before the sign''"

definition awaitVoucher :: "('a, 'v) base_client \<Rightarrow> network_connection \<Rightarrow> 'v \<Rightarrow> voucher_approval engine_run" where
  "awaitVoucher B N voucher =
     awaitRead N (\<lambda>now. map_option (\<lambda>(t, r). (t, mapErr (\<lambda>_. noVoucher) r))
       (poll (readVoucherApproval B voucher) (lagOf (cn_client N)) (Some VOUCHER_READ_WAIT_MS) None now))"

definition signTerms :: "('a, 'v) base_client \<Rightarrow> 'v sign_params \<Rightarrow> network_connection \<Rightarrow> sign_terms engine_run" where
  "signTerms B params N =
     bindN (liftN (guardE ((sq_hashScheme params = None) = (sq_signatureAlgorithm params = None))
              (Err ''pass both signatureAlgorithm and hashScheme, or neither to use the voucher's scheme''))) (\<lambda>_.
     bindN (awaitVoucher B N (sq_voucher params)) (\<lambda>approval.
     liftN (approvedTerms (sdkOf N) (dWalletAddressBytes B) approval params)))"

definition takePresign ::
    "('a, 'v) base_client \<Rightarrow> network_connection \<Rightarrow> requester \<Rightarrow> dwallet \<Rightarrow> scheme_name \<Rightarrow> presign engine_run" where
  "takePresign B N req d scheme =
     bindN (liftN (isImported N d)) (\<lambda>imported.
     if imported \<and> scheme \<in> set ECDSA_SCHEMES then requestPresignForDWallet N req d (SchemeNamed scheme)
     else requestPresign N req (SchemeNamed scheme) (Some (poolWaitMs B)))"

text \<open>A try that ends with \<open>PresignExpiredWithTheEpoch\<close> is followed by another, while one is left.\<close>

primrec ownPresign :: "nat \<Rightarrow> presign engine_run \<Rightarrow> (presign \<Rightarrow> 'x engine_run) \<Rightarrow> 'x engine_run" where
  "ownPresign 0 taking step = bindN taking step"
| "ownPresign (Suc left) taking step = (\<lambda>now s.
     case bindN taking step now s of
       None \<Rightarrow> None
     | Some (t, s', r) \<Rightarrow>
         (case r of
            Inl (PresignExpiredWithTheEpoch epoch later) \<Rightarrow> ownPresign left taking step t s'
          | _ \<Rightarrow> Some (t, s', r)))"

definition withPresign ::
    "('a, 'v) base_client \<Rightarrow> network_connection \<Rightarrow> dwallet \<Rightarrow> user_keys \<Rightarrow> sign_terms \<Rightarrow> presign option
      \<Rightarrow> (presign \<Rightarrow> 'x engine_run) \<Rightarrow> 'x engine_run" where
  "withPresign B N d keys terms presign step =
     (case presign of
        Some p \<Rightarrow> step p
      | None \<Rightarrow>
          bindN (liftN (baseRequester B keys None)) (\<lambda>req.
          ownPresign (OWN_PRESIGN_ATTEMPTS - 1) (takePresign B N req d (tm_signatureScheme terms)) step))"

definition signArgs :: "'v sign_params \<Rightarrow> sign_terms \<Rightarrow> dwallet_usable \<Rightarrow> bytes \<Rightarrow> presign \<Rightarrow> sign_args" where
  "signArgs params terms usable voucher p =
     \<lparr>sa_dwallet = sq_dWallet params, sa_usable = usable, sa_presign = p, sa_message = tm_message terms,
      sa_messageMetadata = tm_messageMetadata terms, sa_signatureScheme = SchemeNamed (tm_signatureScheme terms),
      sa_voucher = voucher\<rparr>"

text \<open>\<open>requestSign\<close> and \<open>requestFutureSign\<close>, but for the call of the connection they end with.\<close>

definition signingWith ::
    "(network_connection \<Rightarrow> requester \<Rightarrow> sign_args \<Rightarrow> 'x engine_run) \<Rightarrow> ('a, 'v) base_client \<Rightarrow> 'v sign_params
      \<Rightarrow> 'x base_run" where
  "signingWith ask B params =
     (let d = sq_dWallet params; keys = sq_keys params in
      bindB (engineOf B d keys) (\<lambda>ref.
      bindB (onNetwork ref (signTerms B params)) (\<lambda>terms.
      bindB (baseCheckDWalletUsable B d keys) (\<lambda>usable.
      onNetwork ref (\<lambda>N. withPresign B N d keys terms (sq_presign params) (\<lambda>p.
        bindN (liftN (baseRequester B keys None)) (\<lambda>req.
        bindN (liftN (voucherBytes B (sq_voucher params))) (\<lambda>voucher.
        ask N req (signArgs params terms usable voucher p)))))))))"

definition requestSign :: "('a, 'v) base_client \<Rightarrow> 'v sign_params \<Rightarrow> bytes base_run" where
  "requestSign B params = signingWith requestSignature B params"

definition requestFutureSign :: "('a, 'v) base_client \<Rightarrow> 'v sign_params \<Rightarrow> partial_signature base_run" where
  "requestFutureSign B params = signingWith requestFutureSignature B params"

definition futureSign :: "('a, 'v) base_client \<Rightarrow> dwallet \<Rightarrow> partial_signature \<Rightarrow> user_keys \<Rightarrow> bytes base_run" where
  "futureSign B d partial keys =
     bindB (engineOf B d keys) (\<lambda>ref.
     bindB (liftB (baseRequester B keys None)) (\<lambda>req.
     onNetwork ref (\<lambda>N. completeFutureSignature N req partial)))"

section \<open>The user share\<close>

definition makeDWalletUserSecretKeySharesPublic :: "('a, 'v) base_client \<Rightarrow> dwallet \<Rightarrow> user_keys \<Rightarrow> dwallet base_run" where
  "makeDWalletUserSecretKeySharesPublic B d keys =
     bindB (engineOf B d keys) (\<lambda>ref.
     bindB (liftB (baseRequester B keys None)) (\<lambda>req.
     bindB (baseCheckDWalletUsable B d keys) (\<lambda>usable.
     bindB (onNetwork ref (\<lambda>N. makeSharePublic N req d usable)) (\<lambda>(d', _). returnB d'))))"

definition requestReEncryptUserShareFor ::
    "('a, 'v) base_client \<Rightarrow> dwallet \<Rightarrow> bytes \<Rightarrow> user_keys \<Rightarrow> re_encrypted_share base_run" where
  "requestReEncryptUserShareFor B d destination keys =
     bindB (engineOf B d keys) (\<lambda>ref.
     bindB (liftB (baseRequester B keys None)) (\<lambda>req.
     bindB (baseCheckDWalletUsable B d keys) (\<lambda>usable.
     bindB (onNetwork ref (\<lambda>N. awaitRead N (readEncryptionKeyEntry B destination (uk_curve keys)))) (\<lambda>entry.
     onNetwork ref (\<lambda>N. reEncryptShare N req
       \<lparr>rn_dwallet = d, rn_usable = usable, rn_newHolder = destination, rn_newHolderEntry = entry\<rparr>)))))"

text \<open>\<open>VersionedDWalletDataAttestationBcs.parse(...).V1!\<close>.\<close>

definition attestedLookup :: "sdk_lib \<Rightarrow> bytes \<Rightarrow> sdk_error + expected_dwallet" where
  "attestedLookup L data =
     bindE (ofOption (Err ''bcs'') (parse (dwalletBcs L) data)) (\<lambda>attested. Inr (askedOf (v1 attested)))"

definition receiveEncryptedUserShare ::
    "('a, 'v) base_client \<Rightarrow> re_encrypted_share \<Rightarrow> bytes \<Rightarrow> user_keys \<Rightarrow> dwallet base_run" where
  "receiveEncryptedUserShare B received source keys =
     bindB (engine B (uk_curve keys) (Some (network_pubkey (rc_dwalletAttestation received)))) (\<lambda>ref.
     onNetwork ref (\<lambda>N. withState (\<lambda>s.
       bindN (liftN (attestedLookup (sdkOf N) (attestation_data (rc_dwalletAttestation received)))) (\<lambda>lookup.
       bindN (awaitRead N (waitForEncryptedShareRecord B N (ns_trusted s) lookup (kp_publicKey (holderKeypair keys)))) (\<lambda>_.
       withTime (\<lambda>now. acceptReEncryptedShare N
         \<lparr>aa_reader = clientShareReader B (ns_trusted s) now, aa_holder = holderKeypair keys,
          aa_encryptionKey = uk_encryptionKey keys, aa_decryptionKey = uk_decryptionKey keys,
          aa_senderSignerPublicKey = source, aa_received = received\<rparr>))))))"

section \<open>A pending request\<close>

datatype session_resolution = WaitingUntil int int | RanAs string | NeverRan | UnknownResolution

fun resolutionOf :: "request_outcome \<Rightarrow> session_resolution" where
  "resolutionOf NotRun = NeverRan"
| "resolutionOf (Ran rec) = RanAs rec"
| "resolutionOf (SignatureFound signature) = RanAs ''a signature in the voucher''"
| "resolutionOf UnknownOutcome = UnknownResolution"

definition resolveSession :: "('a, 'v) base_client \<Rightarrow> pending_request \<Rightarrow> (sdk_error, session_resolution) timed" where
  "resolveSession B pending =
     bindT (chainEpoch B) (\<lambda>epoch.
     let settledAt = settledAtEpoch pending in
     if epoch < settledAt then returnT (WaitingUntil epoch settledAt)
     else bindT (liftT (customOrListed (bc_network B) [pn_networkKeyId pending])) (\<lambda>trusted.
          bindT (findSession (en_records (bc_env B)) pending (requestRecords B) (Some (shareLookup B trusted))) (\<lambda>outcome.
          returnT (resolutionOf outcome))))"

end
