(* ===== verification/Forward_Laws.thy ===== *)
theory Forward_Laws
  imports Signing_Laws Connect_Laws
begin

text \<open>
  A run of a connection never ends before it starts, if no answer of its environment comes before its question. The
  environment need not answer: a run that never ends has no end to compare.
\<close>

section \<open>Reads\<close>

definition later_read :: "('e, 'a) timed \<Rightarrow> bool" where
  "later_read m \<longleftrightarrow> (\<forall>now t r. m now = Some (t, r) \<longrightarrow> now \<le> t)"

lemma later_readD: "later_read m \<Longrightarrow> m now = Some (t, r) \<Longrightarrow> now \<le> t"
  unfolding later_read_def by blast

lemma later_read_steps: "later_read (returnT x)" "later_read (liftT r)"
  by (auto simp: later_read_def returnT_def liftT_def)

lemma later_read_bindT:
  assumes "later_read m" "\<And>x. later_read (f x)"
  shows "later_read (bindT m f)"
  unfolding later_read_def
proof (intro allI impI)
  fix now t r
  assume "bindT m f now = Some (t, r)"
  then show "now \<le> t"
    by (auto simp: bindT_def split: option.split_asm sum.split_asm
        dest!: later_readD [OF assms(1)] later_readD [OF assms(2)])
qed

lemma firstRejection_after:
  "firstRejection (map (\<lambda>m. m now) ms) = Some (t, e) \<Longrightarrow> (\<And>m. m \<in> set ms \<Longrightarrow> later_read m) \<Longrightarrow> now \<le> t"
proof (induction ms arbitrary: t e)
  case (Cons m ms)
  show ?case
  proof (cases "m now")
    case None
    with Cons show ?thesis by simp
  next
    case (Some p)
    obtain t' r where p: "p = (t', r)" by (cases p)
    with Some Cons.prems(2) have "now \<le> t'" by (fastforce simp: later_read_def)
    with Cons Some p show ?thesis by (cases r) (auto split: option.split_asm if_split_asm)
  qed
qed simp

lemma gathered_after: "gathered now rs = Some (t, xs) \<Longrightarrow> now \<le> t"
  by (induction now rs arbitrary: t xs rule: gathered.induct) fastforce+

lemma later_read_allT: "(\<And>m. m \<in> set ms \<Longrightarrow> later_read m) \<Longrightarrow> later_read (allT ms)"
  unfolding later_read_def [of "allT ms"] allT_def Let_def
  by (clarsimp split: option.split_asm prod.split_asm) (blast intro: firstRejection_after gathered_after)+

lemma later_read_cases:
  "later_read m \<Longrightarrow> later_read m' \<Longrightarrow> later_read (if b then m else m')"
  "later_read m \<Longrightarrow> (\<And>x. later_read (g x)) \<Longrightarrow> later_read (case a of None \<Rightarrow> m | Some x \<Rightarrow> g x)"
  by (auto split: option.split)

lemmas later_intros = later_read_steps later_read_bindT later_read_allT later_read_cases

definition records_later :: "request_records \<Rightarrow> bool" where
  "records_later records \<longleftrightarrow>
     (\<forall>k i. later_read (hasGasCharge records k i)) \<and> (\<forall>v. later_read (voucherSignature records v)) \<and>
     (\<forall>v. later_read (futureVoucher records v))"

definition shares_later :: "share_lookup \<Rightarrow> bool" where
  "shares_later lookup \<longleftrightarrow>
     (\<forall>d. later_read (lookup d)) \<and>
     (\<forall>d now t r. lookup d now = Some (t, Inr (Some r)) \<longrightarrow>
        later_read (sh_readPublicShare r) \<and> (\<forall>k. later_read (sh_readEncryptedShare r k)))"

lemma later_ranOr: "records_later records \<Longrightarrow> later_read (ranOr B records pending otherwise extra)"
  unfolding ranOr_def charged_def Let_def by (intro later_intros) (auto simp: records_later_def)

lemma later_share:
  assumes "case shares of None \<Rightarrow> True | Some lookup \<Rightarrow> shares_later lookup"
    and "read = sh_readPublicShare \<or> (\<exists>k. read = (\<lambda>r. sh_readEncryptedShare r k))"
    and "\<And>b. later_read (f b)"
  shows "later_read (bindT (dwalletRecord shares d) (\<lambda>rec. bindT (shareFound rec read) f))"
  unfolding later_read_def
proof (intro allI impI)
  fix now t r
  assume run: "bindT (dwalletRecord shares d) (\<lambda>rec. bindT (shareFound rec read) f) now = Some (t, r)"
  show "now \<le> t"
  proof (cases shares)
    case None
    with run show ?thesis by (auto simp: bindT_def dwalletRecord_def liftT_def)
  next
    case (Some lookup)
    with assms(1) have a: "shares_later lookup" by simp
    from run Some obtain t1 r1 where l: "lookup d now = Some (t1, r1)" by (auto simp: bindT_def dwalletRecord_def split: option.split_asm)
    with a have first: "now \<le> t1" by (auto simp: shares_later_def later_read_def)
    show ?thesis
    proof (cases r1)
      case (Inl e)
      with run Some l first show ?thesis by (auto simp: bindT_def dwalletRecord_def)
    next
      case (Inr rec)
      have "later_read (shareFound rec read)"
      proof (cases rec)
        case (Some r')
        with a l Inr have "later_read (sh_readPublicShare r') \<and> (\<forall>k. later_read (sh_readEncryptedShare r' k))"
          unfolding shares_later_def by blast
        with Some assms(2) show ?thesis by (auto simp: shareFound_def)
      qed (simp add: shareFound_def later_read_steps)
      then have "later_read (bindT (shareFound rec read) f)" by (rule later_read_bindT) (rule assms(3))
      moreover from run Some l Inr have "bindT (shareFound rec read) f t1 = Some (t, r)"
        by (simp add: bindT_def dwalletRecord_def)
      ultimately show ?thesis using first by (auto dest: later_readD)
    qed
  qed
qed

lemma later_findSession:
  assumes "records_later records" "case shares of None \<Rightarrow> True | Some lookup \<Rightarrow> shares_later lookup"
  shows "later_read (findSession B pending records shares)"
proof -
  have lookup: "later_read (dwalletRecord shares d)" for d
    using assms(2) by (auto simp: dwalletRecord_def shares_later_def later_read_steps split: option.split_asm)
  have reads: "later_read (voucherSignature records v)" "later_read (futureVoucher records v)" for v
    using assms(1) by (auto simp: records_later_def)
  note ran = later_ranOr [OF assms(1)]
  have public: "later_read (bindT (dwalletRecord shares d) (\<lambda>rec. bindT (shareFound rec sh_readPublicShare) f))"
    if "\<And>b. later_read (f b)" for d f by (rule later_share [OF assms(2) _ that]) simp
  have encrypted: "later_read (bindT (dwalletRecord shares d) (\<lambda>rec. bindT (shareFound rec (\<lambda>r. sh_readEncryptedShare r k)) f))"
    if "\<And>b. later_read (f b)" for d k f by (rule later_share [OF assms(2) _ that]) blast
  show ?thesis
  proof (cases "pn_kind pending")
    case (PendingMakeSharePublic d item)
    then show ?thesis unfolding findSession_def Let_def PendingMakeSharePublic pending_kind.case
      by (intro public later_read_cases later_read_steps ran)
  next
    case (PendingReEncryptShare d k item)
    then show ?thesis unfolding findSession_def Let_def PendingReEncryptShare pending_kind.case
      by (intro encrypted later_read_cases later_read_steps ran)
  qed (simp only: findSession_def Let_def pending_kind.case, intro ran reads lookup later_intros; simp)+
qed

section \<open>Calls of the gRPC client\<close>

definition later_transport :: "grpc_client \<Rightarrow> bool" where
  "later_transport C \<longleftrightarrow> (\<forall>i m bs d now t r. unary C i m bs d now = Some (t, r) \<longrightarrow> now \<le> t)"

lemma later_transportD: "later_transport C \<Longrightarrow> unary C i m bs d now = Some (t, r) \<Longrightarrow> now \<le> t"
  unfolding later_transport_def by blast

lemma call_after: "later_transport C \<Longrightarrow> call C index M request deadline now s = Some (t, s', r) \<Longrightarrow> now \<le> t"
  by (auto simp: call_def Let_def split: sum.split_asm option.split_asm dest: later_transportD)

lemma submitOver_after:
  assumes "later_transport C"
  shows "submitOver C M request deadline indexes every prior now s = Some (t, s', r) \<Longrightarrow> now \<le> t"
proof (induction indexes arbitrary: every prior now s)
  case (Cons index rest)
  show ?case
  proof (cases "isRefused C s index now")
    case True
    with Cons.IH Cons.prems show ?thesis by simp
  next
    case False
    with Cons.prems obtain t1 s1 r1 where c: "call C index M request deadline now s = Some (t1, s1, r1)"
      by (auto split: option.split_asm)
    from call_after [OF assms c] have "now \<le> t1" .
    moreover have "t1 \<le> t"
      using Cons.IH Cons.prems False c by (cases r1) (fastforce split: if_split_asm)+
    ultimately show ?thesis by simp
  qed
qed simp

lemma submitTransaction_after:
  "later_transport C \<Longrightarrow> submitTransaction C M request timeout now s = Some (t, s', r) \<Longrightarrow> now \<le> t"
  unfolding submitTransaction_def by (rule submitOver_after)

lemma sendLoop_after:
  assumes "later_transport C" "sendLoop C M request deadline now s = Some (t, s', r)"
  shows "now \<le> t"
proof -
  have "later_transport C \<longrightarrow> now \<le> fst (t, s', r)"
  proof (rule sendLoop.raw_induct [where P = "\<lambda>C M request deadline now s y. later_transport C \<longrightarrow> now \<le> fst y", OF _ assms(2)],
      intro impI)
    fix f C M request deadline now s y
    assume IH: "\<And>C M request deadline now s y. f C M request deadline now s = Some y \<Longrightarrow> later_transport C \<longrightarrow> now \<le> fst y"
      and eq: "(case submitTransaction C M request (max 1 (deadline - now)) now (othersRan C now s) of
        None \<Rightarrow> None
      | Some (t, s', Inr answer) \<Rightarrow> Some (t, s', Inr answer)
      | Some (t, s', Inl e) \<Rightarrow>
          if isEpochClosingRefusal e \<or> \<not> (isServerRestart e \<or> isDroppedRequest e) \<or> t \<ge> deadline
          then Some (t, s', Inl e)
          else f C M request deadline (t + RESEND_INTERVAL_MS + int (lagOf C t)) s') = Some y"
      and C: "later_transport C"
    from eq obtain t1 s1 r1
      where sub: "submitTransaction C M request (max 1 (deadline - now)) now (othersRan C now s) = Some (t1, s1, r1)"
      by (auto split: option.split_asm)
    from submitTransaction_after [OF C sub] have "now \<le> t1" .
    moreover from eq sub consider "fst y = t1" | "f C M request deadline (t1 + RESEND_INTERVAL_MS + int (lagOf C t1)) s1 = Some y"
      by (cases r1) (auto split: if_split_asm)
    then have "t1 \<le> fst y"
    proof cases
      case 2
      from IH [OF 2] C show ?thesis by (simp add: RESEND_INTERVAL_MS_def)
    qed simp
    ultimately show "now \<le> fst y" by simp
  qed
  with assms(1) show ?thesis by simp
qed

lemma depositLoop_after:
  assumes "later_transport C" "depositLoop C M request deadline answer now s = Some (t, s', r)"
  shows "now \<le> t"
proof -
  have "later_transport C \<longrightarrow> now \<le> fst (t, s', r)"
  proof (rule depositLoop.raw_induct [where P = "\<lambda>C M request deadline answer now s y. later_transport C \<longrightarrow> now \<le> fst y",
      OF _ assms(2)], intro impI)
    fix f C M request deadline answer now s y
    assume IH: "\<And>C M request deadline answer now s y. f C M request deadline answer now s = Some y \<Longrightarrow>
        later_transport C \<longrightarrow> now \<le> fst y"
      and eq: "(if depositUnread answer \<and> now < deadline then
        let later = now + DEPOSIT_READ_RETRY_MS + int (lagOf C now) in
        case submitTransaction C M request SUBMIT_TIMEOUT_MS later (othersRan C later s) of
          None \<Rightarrow> None
        | Some (t, s', Inl e) \<Rightarrow> Some (t, s', Inl e)
        | Some (t, s', Inr answer') \<Rightarrow> f C M request deadline answer' t s'
      else Some (now, s, Inr answer)) = Some y"
      and C: "later_transport C"
    show "now \<le> fst y"
    proof (cases "depositUnread answer \<and> now < deadline")
      case True
      let ?later = "now + DEPOSIT_READ_RETRY_MS + int (lagOf C now)"
      from eq True obtain t1 s1 r1
        where sub: "submitTransaction C M request SUBMIT_TIMEOUT_MS ?later (othersRan C ?later s) = Some (t1, s1, r1)"
        by (auto simp: Let_def split: option.split_asm)
      from submitTransaction_after [OF C sub] have "now \<le> t1" by (simp add: DEPOSIT_READ_RETRY_MS_def)
      moreover have "t1 \<le> fst y" using eq True sub IH C by (cases r1) (auto simp: Let_def)
      ultimately show ?thesis by simp
    qed (use eq in auto)
  qed
  with assms(1) show ?thesis by simp
qed

lemma sendSigned_after:
  assumes "later_transport C" "sendSigned C M request now s = Some (t, s', r)"
  shows "now \<le> t"
proof -
  from assms(2) obtain t1 s1 r1 where first: "sendLoop C M request (now + SUBMIT_TIMEOUT_MS) now s = Some (t1, s1, r1)"
    by (auto simp: sendSigned_def sendUntilAnswered_def split: option.split_asm)
  from assms(2) first consider "t = t1" | answer where "depositLoop C M request (t1 + DEPOSIT_READ_WAIT_MS) answer t1 s1 = Some (t, s', r)"
    by (cases r1) (auto simp: sendSigned_def sendUntilAnswered_def resendWhileDepositUnread_def)
  then have "t1 \<le> t" by cases (auto dest: depositLoop_after [OF assms(1)])
  with sendLoop_after [OF assms(1) first] show ?thesis by simp
qed

section \<open>Runs of a connection\<close>

definition forward :: "'a engine_run \<Rightarrow> bool" where
  "forward m \<longleftrightarrow> (\<forall>now s t s' r. m now s = Some (t, s', r) \<longrightarrow> now \<le> t)"

lemma forwardI: "(\<And>now s t s' r. m now s = Some (t, s', r) \<Longrightarrow> now \<le> t) \<Longrightarrow> forward m"
  unfolding forward_def by blast

lemma forwardD: "forward m \<Longrightarrow> m now s = Some (t, s', r) \<Longrightarrow> now \<le> t"
  unfolding forward_def by blast

lemma forward_bindN:
  assumes "forward m" "\<And>x. forward (f x)"
  shows "forward (bindN m f)"
proof (rule forwardI)
  fix now s t s' r
  assume "bindN m f now s = Some (t, s', r)"
  then show "now \<le> t"
    by (cases rule: bindN_Some) (auto dest!: forwardD [OF assms(1)] forwardD [OF assms(2)])
qed

lemma forward_steps:
  "forward (returnN x)" "forward (throwN e)" "forward (liftN r)"
  "(\<And>s. forward (f s)) \<Longrightarrow> forward (withState f)"
  "(\<And>t. forward (g t)) \<Longrightarrow> forward (withTime g)"
  "forward (computeAt N h)" "forward (compute N r')" "forward (freshPreimage N)"
  by (auto simp: forward_def returnN_def throwN_def liftN_def withState_def withTime_def computeAt_def compute_def
      freshPreimage_def Let_def)

lemma forward_awaitRead: "later_read read \<Longrightarrow> forward (awaitRead N read)"
  by (auto simp: forward_def awaitRead_def dest: later_readD)

lemma forward_cases:
  "forward m \<Longrightarrow> forward m' \<Longrightarrow> forward (if b then m else m')"
  "(\<And>x y. forward (h x y)) \<Longrightarrow> forward (case p of (x, y) \<Rightarrow> h x y)"
  "forward m \<Longrightarrow> (\<And>x. forward (g x)) \<Longrightarrow> forward (case a of None \<Rightarrow> m | Some x \<Rightarrow> g x)"
  by (auto split: prod.split option.split)

lemmas forward_intros = forward_bindN forward_steps forward_awaitRead forward_cases

text \<open>No answer of the connection's environment comes before its question.\<close>

definition environment_later :: "network_connection \<Rightarrow> bool" where
  "environment_later N \<longleftrightarrow>
     later_transport (cn_client N) \<and> later_read (cn_chainEpoch N) \<and>
     (\<forall>records. cn_requestRecords N = Some records \<longrightarrow> records_later records) \<and>
     (\<forall>shares trusted. cn_shares N = Some shares \<longrightarrow> shares_later (shares trusted))"

definition requester_later :: "requester \<Rightarrow> bool" where
  "requester_later req \<longleftrightarrow> (\<forall>signer data. rq_signer req = Some signer \<longrightarrow> later_read (signRequest signer data))"

lemma forward_readChainEpoch:
  assumes "environment_later N"
  shows "forward (readChainEpoch N)"
proof -
  have "forward (awaitRead N (cn_chainEpoch N))" using assms by (intro forward_awaitRead) (simp add: environment_later_def)
  then show ?thesis unfolding readChainEpoch_def by (rule forward_bindN) (simp add: forward_def Let_def)
qed

lemma forward_signFor:
  assumes "requester_later req" "\<And>keypair. forward (sign keypair)"
  shows "forward (signFor N req sign)"
proof (cases "rq_signer req")
  case None
  then show ?thesis unfolding signFor_def by (simp add: assms(2))
next
  case (Some signer)
  with assms(1) have "later_read (signRequest signer data)" for data by (simp add: requester_later_def)
  with Some show ?thesis
    unfolding signFor_def signedBySigner_def Let_def by (simp add: forward_intros assms(2))
qed

lemma forward_sendBuilt:
  assumes "environment_later N"
  shows "forward (sendBuilt N out at sent)"
proof (rule forwardI)
  fix now s t s' r
  assume "sendBuilt N out at sent now s = Some (t, s', r)"
  then obtain c c' r' where "sendSigned (cn_client N) (cn_submit N) (grpcRequest out) now c = Some (t, c', r')"
    by (auto simp: sendBuilt_def awaitClient_def Let_def split: option.split_asm sum.split_asm engine_error.split_asm)
  with assms show "now \<le> t" by (auto simp: environment_later_def dest: sendSigned_after)
qed

lemma settledLoop_after:
  assumes "environment_later N" "settledLoop N settledAt deadline now s = Some (t, s')"
  shows "now \<le> t"
proof -
  have "environment_later N \<longrightarrow> now \<le> fst (t, s')"
  proof (rule settledLoop.raw_induct [where P = "\<lambda>N settledAt deadline now s y. environment_later N \<longrightarrow> now \<le> fst y", OF _ assms(2)],
      intro impI)
    fix f N settledAt deadline now s y
    assume IH: "\<And>N settledAt deadline now s y. f N settledAt deadline now s = Some y \<Longrightarrow> environment_later N \<longrightarrow> now \<le> fst y"
      and eq: "(if ns_epoch s < settledAt \<and> now < deadline then
        case readChainEpoch N now s of
          None \<Rightarrow> None
        | Some (t, s', _) \<Rightarrow>
            if ns_epoch s' \<ge> settledAt then Some (t, s')
            else let later = t + CHAIN_EPOCH_POLL_MS + int (lagOf (cn_client N) t)
                 in f N settledAt deadline later (resumed N later s')
      else Some (now, s)) = Some y"
      and N: "environment_later N"
    show "now \<le> fst y"
    proof (cases "ns_epoch s < settledAt \<and> now < deadline")
      case True
      with eq obtain t1 s1 r1 where read: "readChainEpoch N now s = Some (t1, s1, r1)"
        by (auto split: option.split_asm)
      from forwardD [OF forward_readChainEpoch [OF N] read] have "now \<le> t1" .
      moreover have "t1 \<le> fst y"
      proof (cases "settledAt \<le> ns_epoch s1")
        case False
        let ?later = "t1 + CHAIN_EPOCH_POLL_MS + int (lagOf (cn_client N) t1)"
        from eq True read False have "f N settledAt deadline ?later (resumed N ?later s1) = Some y" by (simp add: Let_def)
        from IH [OF this] N show ?thesis by (simp add: CHAIN_EPOCH_POLL_MS_def)
      qed (use eq True read in auto)
      ultimately show ?thesis by simp
    qed (use eq in auto)
  qed
  with assms(1) show ?thesis by simp
qed

lemma forward_outcome:
  assumes "environment_later N"
  shows "forward (outcomeAfterEpochClose N pending)"
proof (rule forwardI)
  fix now s t s' r
  assume run: "outcomeAfterEpochClose N pending now s = Some (t, s', r)"
  then obtain t1 s1 where loop: "settledLoop N (settledAtEpoch pending) (now + EPOCH_CLOSE_WAIT_MS) now s = Some (t1, s1)"
    by (auto simp: outcomeAfterEpochClose_def Let_def split: option.split_asm)
  from settledLoop_after [OF assms loop] have "now \<le> t1" .
  moreover have "t1 \<le> t"
  proof (cases "cn_requestRecords N")
    case None
    with run loop show ?thesis by (auto simp: outcomeAfterEpochClose_def Let_def)
  next
    case (Some records)
    with assms have "later_read (findSession (en_records (cn_env N)) pending records
        (map_option (\<lambda>shares. shares (ns_trusted s1)) (cn_shares N)))"
      by (intro later_findSession) (auto simp: environment_later_def split: option.split)
    with run loop Some show ?thesis
      by (auto simp: outcomeAfterEpochClose_def Let_def split: if_split_asm dest: later_readD)
  qed
  ultimately show "now \<le> t" by simp
qed

lemma forward_answerOrThrow: "forward (answerOrThrow sent refusal outcome pending)"
  unfolding answerOrThrow_def by (cases outcome) (auto intro: forward_intros)

lemma forward_signAndSend:
  assumes "environment_later N" "\<And>epoch session. forward (mk epoch session)" "\<And>d object. forward (sign d object)"
  shows "forward (signAndSend N req epoch sign mk)"
  unfolding signAndSend_def Let_def by (intro forward_intros assms(2,3) forward_sendBuilt [OF assms(1)])

lemma forward_pendingOf:
  "(\<And>session kept. forward (describe session kept)) \<Longrightarrow> forward (pendingOf N req sent describe)"
  unfolding pendingOf_def by (intro forward_intros)

lemma forward_submitWithPresign:
  assumes "environment_later N" "\<And>d object. forward (sign d object)" "\<And>session. forward (mk session)"
    and "\<And>session kept. forward (describe session kept)"
  shows "forward (submitWithPresign N req epoch sign mk describe)"
proof -
  have "forward (case ended of
       Answered response sent \<Rightarrow> returnN (response, sent)
     | ClosedBeforeAnswer sent refusal \<Rightarrow>
         bindN (pendingOf N req sent describe) (\<lambda>pending.
         bindN (outcomeAfterEpochClose N pending) (\<lambda>outcome.
         if outcome = NotRun
         then withState (\<lambda>s. throwN (PresignExpiredWithTheEpoch epoch (ns_epoch s)))
         else answerOrThrow sent refusal outcome pending)))" for ended
    by (cases ended; simp only: sent_outcome.case)
      (intro forward_intros forward_pendingOf assms(4) forward_outcome [OF assms(1)] forward_answerOrThrow)+
  then show ?thesis
    unfolding submitWithPresign_def
    by (intro forward_intros forward_readChainEpoch forward_signAndSend assms(1-3))
qed

lemma forward_submitOnce:
  assumes "environment_later N" "requester_later req"
    and "\<And>epoch session. forward (mk epoch session)" "\<And>session kept. forward (describe session kept)"
    and "\<And>resubmit. again = Some resubmit \<Longrightarrow> forward resubmit"
  shows "forward (submitOnce N req mk describe again)"
proof -
  have "forward (case ended of
       Answered response sent \<Rightarrow> returnN (response, sent)
     | ClosedBeforeAnswer sent refusal \<Rightarrow>
         bindN (pendingOf N req sent describe) (\<lambda>pending.
         bindN (outcomeAfterEpochClose N pending) (\<lambda>outcome.
         case again of
           Some resubmit \<Rightarrow> if outcome = NotRun then resubmit else answerOrThrow sent refusal outcome pending
         | None \<Rightarrow> answerOrThrow sent refusal outcome pending)))" for ended
    by (cases ended; cases again; simp only: sent_outcome.case option.case)
      (intro forward_intros forward_pendingOf assms(4) forward_outcome [OF assms(1)] forward_answerOrThrow assms(5); simp)+
  moreover have "forward (signFor N req (signingRequest N d object))" for d object
    unfolding signingRequest_def by (intro forward_signFor assms(2) forward_steps)
  ultimately show ?thesis
    unfolding submitOnce_def by (intro forward_bindN forward_readChainEpoch forward_signAndSend assms(1,3))
qed

lemma forward_submit:
  assumes "environment_later N" "requester_later req"
    and "\<And>epoch session. forward (mk epoch session)" "\<And>session kept. forward (describe session kept)"
  shows "forward (submit N req mk describe n)"
  by (induction n) (auto intro!: forward_submitOnce assms)

section \<open>Presigns and signatures\<close>

lemma forward_presignCall:
  assumes "environment_later N" "requester_later req"
  shows "forward (presignCall N req request algorithm k)"
  unfolding presignCall_def fixedRequest_def by (intro forward_intros forward_submit assms)

lemma poolLoop_after:
  assumes "environment_later N" "requester_later req"
    and "poolLoop N req request algorithm deadline now s = Some (t, s', r)"
  shows "now \<le> t"
proof -
  have "environment_later N \<and> requester_later req \<longrightarrow> now \<le> fst (t, s', r)"
  proof (rule poolLoop.raw_induct [where P = "\<lambda>N req request algorithm deadline now s y.
        environment_later N \<and> requester_later req \<longrightarrow> now \<le> fst y", OF _ assms(3)], intro impI)
    fix f N req request algorithm deadline now s y
    assume IH: "\<And>N req request algorithm deadline now s y. f N req request algorithm deadline now s = Some y \<Longrightarrow>
        environment_later N \<and> requester_later req \<longrightarrow> now \<le> fst y"
      and eq: "(case presignCall N req request algorithm None now s of
        None \<Rightarrow> None
      | Some (t, s', Inr p) \<Rightarrow> Some (t, s', Inr p)
      | Some (t, s', Inl e) \<Rightarrow>
          if \<not> textIncludes PRESIGN_POOL_EMPTY_REFUSAL (engineMessage e) \<or> t \<ge> deadline then Some (t, s', Inl e)
          else let later = t + POOL_RETRY_MS + int (lagOf (cn_client N) t)
               in f N req request algorithm deadline later (resumed N later s')) = Some y"
      and env: "environment_later N \<and> requester_later req"
    from eq obtain t1 s1 r1 where call: "presignCall N req request algorithm None now s = Some (t1, s1, r1)"
      by (auto split: option.split_asm)
    from env forwardD [OF forward_presignCall call] have "now \<le> t1" by blast
    let ?later = "t1 + POOL_RETRY_MS + int (lagOf (cn_client N) t1)"
    from eq call consider "fst y = t1" | "f N req request algorithm deadline ?later (resumed N ?later s1) = Some y"
      by (cases r1) (auto simp: Let_def split: if_split_asm)
    then have "t1 \<le> fst y"
    proof cases
      case 2
      from IH [OF 2] env show ?thesis by (simp add: POOL_RETRY_MS_def)
    qed simp
    with \<open>now \<le> t1\<close> show "now \<le> fst y" by simp
  qed
  with assms(1,2) show ?thesis by simp
qed

lemma forward_requestPresign:
  assumes "environment_later N" "requester_later req"
  shows "forward (requestPresign N req scheme wait)" "forward (requestPresignForDWallet N req d scheme)"
proof -
  have "forward (poolLoop N req request algorithm deadline)" for request algorithm deadline
    by (rule forwardI) (rule poolLoop_after [OF assms])
  then show "forward (requestPresign N req scheme wait)"
    unfolding requestPresign_def by (intro forward_intros)
  show "forward (requestPresignForDWallet N req d scheme)"
    unfolding requestPresignForDWallet_def by (intro forward_intros forward_presignCall assms)
qed

lemma forward_signsDWalletRequest: "requester_later req \<Longrightarrow> forward (signsDWalletRequest N req usable d object)"
  unfolding signsDWalletRequest_def by (intro forward_signFor forward_steps)

lemma forward_requestSignature:
  assumes "environment_later N" "requester_later req"
  shows "forward (requestSignature N req args)"
  unfolding requestSignature_def userSignMessage_def Let_def
  by (intro forward_intros forward_submitWithPresign forward_signsDWalletRequest assms)

section \<open>Connections\<close>

lemma later_records:
  "later_read (recordOnceSigned chain key kind served deadline wait)"
  "later_read (verifyAgainstRecord L chain out rec message deadline)"
proof -
  have "later_read (pollUntil read decide giveUp lag pauseMs deadline)"
    for read :: "'r timed_read" and decide :: "'r \<Rightarrow> ('e + 'a) option" and giveUp lag pauseMs deadline
    unfolding later_read_def by (fastforce simp: poll_end_def case_prod_unfold Let_def dest: pollUntil_end)
  then show "later_read (recordOnceSigned chain key kind served deadline wait)"
    unfolding recordOnceSigned_def by blast
  have "later_read (readT r)" for r :: "('e + 'a) timed_read"
    by (auto simp: later_read_def readT_def case_prod_unfold Let_def)
  then show "later_read (verifyAgainstRecord L chain out rec message deadline)"
    unfolding verifyAgainstRecord_def verifyRecordProof_def by (intro later_intros)
qed

lemma later_verifyNetworkKeyOutput: "later_read (verifyNetworkKeyOutput L chain served key wait)"
proof -
  have "later_read (bindT (recordOnceSigned chain key DkgRecord d deadline wait) (\<lambda>dkg.
        bindT (verifyAgainstRecord L chain (networkDkgOutput served) dkg
                 (networkKeyDkgRecordMessage key) deadline) (\<lambda>_.
        case latestReconfigurationOutput served of
          None \<Rightarrow> returnT served
        | Some out \<Rightarrow>
            bindT (recordOnceSigned chain key (ReshareRecord (out_epoch served))
                     (networkOutputDigest L out) deadline wait) (\<lambda>reshare.
            bindT (verifyAgainstRecord L chain out reshare
                     (networkKeyReconfigurationRecordMessage key (out_epoch served)) deadline) (\<lambda>_.
            returnT served)))))" for d deadline
    by (intro later_intros later_records)
  then show ?thesis
    unfolding verifyNetworkKeyOutput_def Let_def later_read_def by (auto split: if_split_asm)
qed

lemma connect_after:
  assumes "later_read (ca_chainEpoch A)" "connect A cache now = Some (t, cache', Inr c)"
  shows "now \<le> t"
proof -
  from assms(2) obtain key listed t1 latest g epoch t2 verified
    where reads: "allThreeT
           (thrownBy CallFailed (clientRead A (latestNetworkKeyId (ca_client A) (ca_keys A) (ca_closing A))))
           (thrownBy CallFailed (networkKeyOutputRetried A key)) (thrownBy Thrown (ca_chainEpoch A)) now
           = Some (t1, Inr (latest, g, epoch))"
      and checked: "verifyNetworkKeyOutput (en_sdk (ca_env A)) (ca_records A) (servedOutput g) key RESHARE_RECORD_WAIT t1
          = Some (t2, Inr verified)"
      and last: "connectWith A key latest epoch verified cache t2 = (t, cache', Inr c)"
    unfolding connect_def by (auto simp: bindE_def split: sum.split_asm option.split_asm prod.split_asm)
  from allThreeT_Inr [OF reads] obtain te where "ca_chainEpoch A now = Some (te, Inr epoch)" "te \<le> t1"
    by (auto simp: thrownBy_Inr)
  with later_readD [OF assms(1)] have "now \<le> t1" by fastforce
  moreover from later_readD [OF later_verifyNetworkKeyOutput checked] have "t1 \<le> t2" .
  moreover from last have "t = t2 + int (derives A t2)"
    unfolding connectWith_def Let_def by (auto split: sum.split_asm prod.split_asm)
  ultimately show ?thesis by simp
qed

end
