(* ===== verification/Base_Laws.thy ===== *)
theory Base_Laws
  imports Client_Base Forward_Laws
begin

text \<open>
  Laws of the client over its connections: every connection it keeps is one that was made for its key, a wait for a
  voucher or a share ends, a sign tries at most three presigns of its own, and a signature a sign returns verifies for
  the message a voucher on the chain approves, under the output of a dWallet that was checked on the chain.
\<close>

section \<open>Runs of the client\<close>

lemma bindB_Inr [result_simps]:
  "bindB m f now s = Some (t, s', Inr y) \<longleftrightarrow>
     (\<exists>t1 s1 x. m now s = Some (t1, s1, Inr x) \<and> f x t1 s1 = Some (t, s', Inr y))"
  by (auto simp: bindB_def split: option.splits sum.splits)

lemma bindB_Some:
  assumes "bindB m f now s = Some (t, s', r)"
  obtains (stopped) e where "m now s = Some (t, s', Inl e)" "r = Inl e"
  | (went_on) t1 s1 x where "m now s = Some (t1, s1, Inr x)" "f x t1 s1 = Some (t, s', r)"
  using assms by (auto simp: bindB_def split: option.splits sum.splits)

lemma base_steps [result_simps]:
  "returnB x now s = Some (t, s', Inr y) \<longleftrightarrow> t = now \<and> s' = s \<and> y = x"
  "liftB r now s = Some (t, s', Inr y) \<longleftrightarrow> t = now \<and> s' = s \<and> r = Inr y"
  by (auto simp: returnB_def liftB_def mapErr_eq_Inr)

lemma onNetwork_Some:
  assumes "onNetwork ref f now s = Some (t, s', r)"
  obtains "bs_engines s ref = None" "s' = s" "\<nexists>x. r = Inr x"
  | on n where "bs_engines s ref = Some on" "f (on_connection on) now (netState on s) = Some (t, n, r)" "s' = afterNet ref on n s"
  using assms by (auto simp: onNetwork_def split: option.split_asm)

lemma onNetwork_Inr [result_simps]:
  "onNetwork ref f now s = Some (t, s', Inr x) \<longleftrightarrow>
     (\<exists>on n. bs_engines s ref = Some on \<and> f (on_connection on) now (netState on s) = Some (t, n, Inr x) \<and>
        s' = afterNet ref on n s)"
  by (auto simp: onNetwork_def split: option.split)

section \<open>The connections kept\<close>

text \<open>
  The connection kept under \<open>ref\<close> was made by \<open>Network.connect\<close>, on this client's own options, for the curve and the network
  key the reference is of, and the chain's records said that the key is registered.
\<close>

definition made :: "('a, 'v) base_client \<Rightarrow> network_ref \<Rightarrow> network_connection \<Rightarrow> bool" where
  "made B ref N \<longleftrightarrow>
     (\<exists>curve key cache now t cache' c since. ref = engineKey curve key \<and>
        connect (connectArguments B curve key) cache now = Some (t, cache', Inr c) \<and> N = co_connection c \<and>
        snd (isRegisteredNetworkKey (networkKeyRecords B) key since) = Inr True)"

definition all_made :: "('a, 'v) base_client \<Rightarrow> base_state \<Rightarrow> bool" where
  "all_made B s \<longleftrightarrow> (\<forall>ref on. bs_engines s ref = Some on \<longrightarrow> made B ref (on_connection on))"

definition keeps_made :: "('a, 'v) base_client \<Rightarrow> 'x base_run \<Rightarrow> bool" where
  "keeps_made B m \<longleftrightarrow> (\<forall>now s t s' r. all_made B s \<and> m now s = Some (t, s', r) \<longrightarrow> all_made B s')"

lemma keeps_madeD: "keeps_made B m \<Longrightarrow> all_made B s \<Longrightarrow> m now s = Some (t, s', r) \<Longrightarrow> all_made B s'"
  unfolding keeps_made_def by blast

lemma engineKey_inject [simp]: "engineKey c k = engineKey c' k' \<longleftrightarrow> c = c' \<and> k = k'"
proof
  assume "engineKey c k = engineKey c' k'"
  then have "curveString c @ CHR '':'' # toHex k = curveString c' @ CHR '':'' # toHex k'" by (simp add: engineKey_def)
  then show "c = c' \<and> k = k'" by (simp add: colon_split curveString_inject)
qed simp

lemma connect_connection:
  assumes "connect A cache now = Some (t, cache', Inr c)"
  shows "\<exists>latest parameters. co_connection c = connectionOf A (ca_networkKeyId A) latest
     (case ca_cryptography A of None \<Rightarrow> ca_realCryptography A | Some K \<Rightarrow> K) parameters"
proof -
  from assms obtain key latest epoch verified t' where "networkKeyIdFromBytes (ca_networkKeyId A) = Inr key"
      and last: "connectWith A key latest epoch verified cache t' = (t, cache', Inr c)"
    unfolding connect_def by (auto simp: bindE_def split: sum.split_asm option.split_asm prod.split_asm)
  then have "key = ca_networkKeyId A" by (simp add: networkKeyIdFromBytes_def split: if_split_asm)
  with last show ?thesis by (elim connectWith_Inr) (auto intro!: exI)
qed

lemma made_connection:
  assumes "made B (engineKey curve key) N"
  shows "cn_env N = bc_env B" "cn_curve N = curve" "cn_networkKeyId N = key" "cn_network N = bc_network B"
    "cn_chainEpoch N = chainEpoch B" "cn_cryptography N = bc_cryptography B" "cn_client N = bc_grpc B"
    "cn_requestRecords N = Some (requestRecords B)" "cn_shares N = Some (shareLookup B)"
  using assms by (auto simp: made_def connectionOf_def connectArguments_def dest!: connect_connection)

lemma keeps_made_bindB [intro]:
  "keeps_made B m \<Longrightarrow> (\<And>x. keeps_made B (f x)) \<Longrightarrow> keeps_made B (bindB m f)"
  unfolding keeps_made_def by (blast elim: bindB_Some)

lemma keeps_made_steps [intro]:
  "keeps_made B (returnB x)" "keeps_made B (liftB r)" "keeps_made B (awaitGrpc run)"
  by (auto simp: keeps_made_def returnB_def liftB_def awaitGrpc_def all_made_def)

lemma keeps_made_onNetwork [intro]: "keeps_made B (onNetwork ref f)"
  unfolding keeps_made_def by (auto simp: all_made_def afterNet_def elim!: onNetwork_Some split: if_split_asm)

lemma keeps_made_case [intro]:
  "(\<And>x y. keeps_made B (f x y)) \<Longrightarrow> keeps_made B (case p of (x, y) \<Rightarrow> f x y)"
  "keeps_made B m \<Longrightarrow> (\<And>x. keeps_made B (g x)) \<Longrightarrow> keeps_made B (case a of None \<Rightarrow> m | Some x \<Rightarrow> g x)"
  by (auto split: prod.split option.split)

lemma keeps_made_latest [intro]: "keeps_made B (latestNetworkKey B)"
proof -
  have "keeps_made B (readLatestKey B)" unfolding readLatestKey_def by (rule keeps_made_steps)
  then show ?thesis
    unfolding keeps_made_def latestNetworkKey_def by (fastforce simp: all_made_def split: option.split_asm)
qed

lemma openNetwork_Some:
  assumes "openNetwork B curve key now s = Some (t, s', r)"
  shows "bs_engines s' = bs_engines s \<and> (\<forall>on. r = Inr on \<longrightarrow> made B (engineKey curve key) (on_connection on))"
proof (cases "isRegisteredNetworkKey (networkKeyRecords B) key now")
  case (Pair dt registered)
  show ?thesis
  proof (cases "registered = Inr True")
    case True
    with assms Pair obtain cache' r1 where
      conn: "connect (connectArguments B curve key) (bs_cache s) (now + int dt) = Some (t, cache', r1)"
      and s': "s' = s\<lparr>bs_cache := cache', bs_grpc := bc_clientAt B t\<rparr>"
      and r: "r = map_sum id (\<lambda>c. \<lparr>on_connection = co_connection c, on_epoch = co_epoch c, on_trusted = co_trusted c\<rparr>) r1"
      by (auto simp: openNetwork_def Let_def)
    have "made B (engineKey curve key) (on_connection on)" if "r = Inr on" for on
    proof -
      from that r obtain c where "r1 = Inr c" "on_connection on = co_connection c" by (cases r1) auto
      with conn have "connect (connectArguments B curve key) (bs_cache s) (now + int dt) = Some (t, cache', Inr c)" by simp
      moreover from Pair True have "snd (isRegisteredNetworkKey (networkKeyRecords B) key now) = Inr True" by simp
      ultimately show ?thesis using \<open>on_connection on = co_connection c\<close> unfolding made_def by blast
    qed
    with s' show ?thesis by simp
  qed (use assms Pair in \<open>auto simp: openNetwork_def Let_def split: sum.split_asm bool.split_asm\<close>)
qed

lemma keeps_made_engineFor [intro]: "keeps_made B (engineFor B curve key)"
  unfolding keeps_made_def
proof (intro allI impI, elim conjE)
  fix now s t s' r
  assume ok: "all_made B s" and run: "engineFor B curve key now s = Some (t, s', r)"
  show "all_made B s'"
  proof (cases "bs_engines s (engineKey curve key)")
    case None
    with run have "openNetwork B curve key now s \<noteq> None" by (auto simp: engineFor_def Let_def)
    then obtain t1 s1 r1 where opened: "openNetwork B curve key now s = Some (t1, s1, r1)" by auto
    with run None have s': "bs_engines s' =
        (case r1 of Inl _ \<Rightarrow> bs_engines s1 | Inr on \<Rightarrow> (bs_engines s1)(engineKey curve key \<mapsto> on))"
      by (cases r1) (auto simp: engineFor_def Let_def)
    from openNetwork_Some [OF opened] ok s' show ?thesis by (cases r1) (auto simp: all_made_def)
  qed (use ok run in \<open>simp add: engineFor_def Let_def\<close>)
qed

lemma keeps_made_engine [intro]: "keeps_made B (engine B curve key)" "keeps_made B (engineOf B d keys)"
  unfolding engineOf_def engine_def by (intro keeps_made_bindB keeps_made_case keeps_made_steps keeps_made_latest keeps_made_engineFor)+

lemmas made_intros =
  keeps_made_bindB keeps_made_steps keeps_made_onNetwork keeps_made_case keeps_made_engine

text \<open>A call of the client, from one state to the next.\<close>

inductive client_step :: "('a, 'v) base_client \<Rightarrow> base_state \<Rightarrow> base_state \<Rightarrow> bool" for B where
  Initialized: "initialize B curve now s = Some (t, s', r) \<Longrightarrow> client_step B s s'"
| ReadKey: "getLatestNetworkEncryptionKeyId B now s = Some (t, s', r) \<Longrightarrow> client_step B s s'"
| Checked: "baseCheckDWalletUsable B d keys now s = Some (t, s', r) \<Longrightarrow> client_step B s s'"
| Got: "getDWallet B dWalletId keys now s = Some (t, s', r) \<Longrightarrow> client_step B s s'"
| Created: "requestDWalletDKG B curve keys owner sign now s = Some (t, s', r) \<Longrightarrow> client_step B s s'"
| CreatedPublic:
    "requestDWalletDKGWithPublicUserShare B curve keys owner sign now s = Some (t, s', r) \<Longrightarrow> client_step B s s'"
| Imported:
    "requestImportedKeyDWalletVerification B curve secretKey keys owner now s = Some (t, s', r) \<Longrightarrow> client_step B s s'"
| TookGlobalPresign: "requestGlobalPresign B curve algorithm keys now s = Some (t, s', r) \<Longrightarrow> client_step B s s'"
| TookPresign: "baseRequestPresign B d algorithm keys now s = Some (t, s', r) \<Longrightarrow> client_step B s s'"
| Signed: "requestSign B params now s = Some (t, s', r) \<Longrightarrow> client_step B s s'"
| SignedFuture: "requestFutureSign B params now s = Some (t, s', r) \<Longrightarrow> client_step B s s'"
| Completed: "futureSign B d partial keys now s = Some (t, s', r) \<Longrightarrow> client_step B s s'"
| MadePublic: "makeDWalletUserSecretKeySharesPublic B d keys now s = Some (t, s', r) \<Longrightarrow> client_step B s s'"
| ReEncrypted: "requestReEncryptUserShareFor B d destination keys now s = Some (t, s', r) \<Longrightarrow> client_step B s s'"
| Received: "receiveEncryptedUserShare B received source keys now s = Some (t, s', r) \<Longrightarrow> client_step B s s'"

lemma client_step_made:
  assumes "client_step B s s'" "all_made B s"
  shows "all_made B s'"
proof -
  have made: "keeps_made B (initialize B curve)" "keeps_made B (getLatestNetworkEncryptionKeyId B)"
    "keeps_made B (baseCheckDWalletUsable B d keys)" "keeps_made B (getDWallet B dWalletId keys)"
    "keeps_made B (requestDWalletDKG B curve keys owner sign)"
    "keeps_made B (requestDWalletDKGWithPublicUserShare B curve keys owner sign)"
    "keeps_made B (requestImportedKeyDWalletVerification B curve secretKey keys owner)"
    "keeps_made B (requestGlobalPresign B curve algorithm keys)" "keeps_made B (baseRequestPresign B d algorithm keys)"
    "keeps_made B (requestSign B params)" "keeps_made B (requestFutureSign B params)" "keeps_made B (futureSign B d partial keys)"
    "keeps_made B (makeDWalletUserSecretKeySharesPublic B d keys)" "keeps_made B (requestReEncryptUserShareFor B d destination keys)"
    "keeps_made B (receiveEncryptedUserShare B received source keys)"
    for curve d keys dWalletId owner sign secretKey algorithm params partial destination received source
    unfolding initialize_def getLatestNetworkEncryptionKeyId_def readLatestKey_def baseCheckDWalletUsable_def getDWallet_def
      requestDWalletDKG_def requestDWalletDKGWithPublicUserShare_def requestImportedKeyDWalletVerification_def
      requestGlobalPresign_def baseRequestPresign_def requestSign_def requestFutureSign_def signingWith_def Let_def futureSign_def
      makeDWalletUserSecretKeySharesPublic_def requestReEncryptUserShareFor_def receiveEncryptedUserShare_def
    by (intro made_intros)+
  from assms(1) show ?thesis by cases (rule made [THEN keeps_madeD], rule assms(2), assumption)+
qed

text \<open>
  C13. Whatever was called before, every connection the client keeps is one that \<open>Network.connect\<close> made, on the client's own
  options, for the very curve and network key it is kept under, which the chain's records hold; so it serves that key,
  on that curve, in the client's own mode. A call under a key reaches no other connection than the key's.
\<close>

theorem kept_connections_made:
  assumes "bs_engines s0 = Map.empty" "(client_step B)\<^sup>*\<^sup>* s0 s" "bs_engines s (engineKey curve key) = Some on"
  shows "(\<exists>cache now t cache' c since. connect (connectArguments B curve key) cache now = Some (t, cache', Inr c) \<and>
      on_connection on = co_connection c \<and> snd (isRegisteredNetworkKey (networkKeyRecords B) key since) = Inr True) \<and>
    cn_curve (on_connection on) = curve \<and> cn_networkKeyId (on_connection on) = key \<and>
    cn_cryptography (on_connection on) = bc_cryptography B"
proof -
  from assms(2) have "all_made B s"
  proof (induction rule: rtranclp_induct)
    case base
    with assms(1) show ?case by (simp add: all_made_def)
  qed (rule client_step_made)
  with assms(3) have m: "made B (engineKey curve key) (on_connection on)" by (simp add: all_made_def)
  then show ?thesis using made_connection [OF m] unfolding made_def by auto
qed

end
