(* ===== verification/Base_Sign_Laws.thy ===== *)
theory Base_Sign_Laws
  imports Base_Laws
begin

text \<open>
  Laws of the client's calls that end at a voucher, a presign or a session: what the call had read of the chain when it
  signed, and that its waits end.
\<close>

section \<open>Runs that only add requests\<close>

definition adds :: "network_connection \<Rightarrow> 'x engine_run \<Rightarrow> bool" where
  "adds N m \<longleftrightarrow> (\<forall>now s t s' r. m now s = Some (t, s', r) \<longrightarrow> (\<exists>es. moves N s s' es))"

lemma addsI: "(\<And>now s t s' r. m now s = Some (t, s', r) \<Longrightarrow> \<exists>es. moves N s s' es) \<Longrightarrow> adds N m"
  unfolding adds_def by blast

lemma addsD:
  assumes "adds N m" "m now s = Some (t, s', r)"
  obtains es where "moves N s s' es"
  using assms unfolding adds_def by blast

lemma adds_bindN:
  assumes "adds N m" "\<And>x. adds N (f x)"
  shows "adds N (bindN m f)"
proof (rule addsI)
  fix now s t s' r
  assume "bindN m f now s = Some (t, s', r)"
  then show "\<exists>es. moves N s s' es"
    by (cases rule: bindN_Some) (use assms in \<open>blast elim: addsD intro: moves_trans\<close>)+
qed

lemma adds_still: "keeps_still N m \<Longrightarrow> adds N m"
  unfolding adds_def keeps_still_def by blast

lemma adds_steps:
  "adds N (liftN r)" "adds N (returnN x)" "(\<And>t. adds N (g t)) \<Longrightarrow> adds N (withTime g)"
  "adds N m \<Longrightarrow> adds N m' \<Longrightarrow> adds N (if b then m else m')"
  "(\<And>x y. adds N (f x y)) \<Longrightarrow> adds N (case p of (x, y) \<Rightarrow> f x y)"
  by (auto simp: adds_def result_simps split: prod.split)

lemma adds_presignCall: "epochs_grow N \<Longrightarrow> adds N (presignCall N req request algorithm k)"
  by (rule addsI) (rule presignCall_moves)

lemma poolLoop_moves:
  assumes "epochs_grow N" "poolLoop N req request algorithm deadline now s = Some (t, s', r)"
  shows "\<exists>es. moves N s s' es"
proof -
  have "epochs_grow N \<longrightarrow> (\<exists>es. moves N s (fst (snd (t, s', r))) es)"
  proof (rule poolLoop.raw_induct [where P = "\<lambda>N req request algorithm deadline now s y.
        epochs_grow N \<longrightarrow> (\<exists>es. moves N s (fst (snd y)) es)", OF _ assms(2)], intro impI)
    fix f N req request algorithm deadline now s y
    assume IH: "\<And>N req request algorithm deadline now s y. f N req request algorithm deadline now s = Some y \<Longrightarrow>
        epochs_grow N \<longrightarrow> (\<exists>es. moves N s (fst (snd y)) es)"
      and eq: "(case presignCall N req request algorithm None now s of
        None \<Rightarrow> None
      | Some (t, s', Inr p) \<Rightarrow> Some (t, s', Inr p)
      | Some (t, s', Inl e) \<Rightarrow>
          if \<not> textIncludes PRESIGN_POOL_EMPTY_REFUSAL (engineMessage e) \<or> t \<ge> deadline then Some (t, s', Inl e)
          else let later = t + POOL_RETRY_MS + int (lagOf (cn_client N) t)
               in f N req request algorithm deadline later (resumed N later s')) = Some y"
      and grow: "epochs_grow N"
    from eq obtain t1 s1 r1 where call: "presignCall N req request algorithm None now s = Some (t1, s1, r1)"
      by (auto split: option.split_asm)
    from presignCall_moves [OF grow call] obtain es where m: "moves N s s1 es" ..
    let ?later = "t1 + POOL_RETRY_MS + int (lagOf (cn_client N) t1)"
    from eq call consider "fst (snd y) = s1" | "f N req request algorithm deadline ?later (resumed N ?later s1) = Some y"
      by (cases r1) (auto simp: Let_def split: if_split_asm)
    then show "\<exists>es. moves N s (fst (snd y)) es"
    proof cases
      case 2
      from IH [OF 2] grow obtain es' where "moves N (resumed N ?later s1) (fst (snd y)) es'" by blast
      with moves_then_still [OF m resumed_moves [OF grow]] show ?thesis by (blast intro: moves_trans)
    qed (use m in blast)
  qed
  with assms(1) show ?thesis by simp
qed

lemma adds_takePresign:
  assumes "epochs_grow N"
  shows "adds N (takePresign B N req d scheme)"
proof -
  have "adds N (poolLoop N req request algorithm deadline)" for request algorithm deadline
    by (rule addsI) (rule poolLoop_moves [OF assms])
  then show ?thesis
    unfolding takePresign_def requestPresign_def requestPresignForDWallet_def
    by (intro adds_bindN adds_steps adds_presignCall assms)
qed

lemma adds_submitWithPresign:
  assumes "epochs_grow N" "\<And>d object. keeps_still N (sign d object)" "\<And>d object. throws_plainly (sign d object)"
  shows "adds N (submitWithPresign N req epoch sign (\<lambda>_. returnN x) (\<lambda>_ _. returnN kind))"
proof (rule addsI)
  fix now s t s' r
  assume "submitWithPresign N req epoch sign (\<lambda>_. returnN x) (\<lambda>_ _. returnN kind) now s = Some (t, s', r)"
  from submitWithPresign_moves [OF assms(1) quiet_returned assms(2) throws_plainly_steps(1) throws_plainly_steps(1)
      assms(3) this]
  show "\<exists>es. moves N s s' es" by (elim exE conjE) (rule exI)
qed

lemma adds_sign_steps:
  assumes "epochs_grow N"
  shows "adds N (userSignMessage N d p message metadata scheme)" "adds N (compute N result)"
    "adds N (submitWithPresign N req epoch (signsDWalletRequest N req usable) (\<lambda>_. returnN x) (\<lambda>_ _. returnN kind))"
  unfolding userSignMessage_def
  by (intro adds_still keeps_still_compute adds_submitWithPresign signsDWalletRequest_steps assms)+

lemma adds_requestSignature:
  assumes "epochs_grow N"
  shows "adds N (requestSignature N req args)"
  unfolding requestSignature_def Let_def by (intro adds_bindN adds_steps adds_sign_steps assms)

section \<open>A presign of the call's own\<close>

lemma ownPresign_Inr:
  assumes "adds N taking" "\<And>p. adds N (step p)" "forward taking" "\<And>p. forward (step p)"
    and "ownPresign left taking step now s = Some (t, s', Inr x)"
  shows "\<exists>at s0 from' s1 p es. now \<le> at \<and> moves N s s0 es \<and> taking at s0 = Some (from', s1, Inr p) \<and>
     step p from' s1 = Some (t, s', Inr x)"
  using assms(5)
proof (induction left arbitrary: now s)
  case 0
  then obtain from' s1 p where "taking now s = Some (from', s1, Inr p)" "step p from' s1 = Some (t, s', Inr x)"
    by (auto simp: bindN_Inr)
  then show ?case by - (intro exI conjI, rule order_refl, rule moves_refl)
next
  case (Suc left)
  from Suc.prems obtain t1 s1 r where first: "bindN taking step now s = Some (t1, s1, r)"
    and rest: "(\<exists>epoch later. r = Inl (PresignExpiredWithTheEpoch epoch later)) \<and>
        ownPresign left taking step t1 s1 = Some (t, s', Inr x) \<or> (t1, s1, r) = (t, s', Inr x)"
    by (auto split: option.split_asm sum.split_asm engine_error.split_asm)
  from rest show ?case
  proof
    assume again: "(\<exists>epoch later. r = Inl (PresignExpiredWithTheEpoch epoch later)) \<and>
        ownPresign left taking step t1 s1 = Some (t, s', Inr x)"
    from adds_bindN [OF assms(1,2)] first obtain es where "moves N s s1 es" by (rule addsD)
    moreover from forwardD [OF forward_bindN [OF assms(3,4)] first] have "now \<le> t1" .
    ultimately show ?thesis using Suc.IH [of t1 s1] again by (blast intro: moves_trans order_trans)
  next
    assume "(t1, s1, r) = (t, s', Inr x)"
    with first obtain from' s2 p where "taking now s = Some (from', s2, Inr p)" "step p from' s2 = Some (t, s', Inr x)"
      by (auto simp: bindN_Inr)
    then show ?thesis by - (intro exI conjI, rule order_refl, rule moves_refl)
  qed
qed

lemma forward_takePresign:
  "environment_later N \<Longrightarrow> requester_later req \<Longrightarrow> forward (takePresign B N req d scheme)"
  unfolding takePresign_def by (intro forward_intros forward_requestPresign)

text \<open>No answer the client's environment gives comes before its question.\<close>

definition client_later :: "('a, 'v) base_client \<Rightarrow> bool" where
  "client_later B \<longleftrightarrow>
     later_transport (bc_grpc B) \<and> later_read (chainEpoch B) \<and> records_later (requestRecords B) \<and>
     (\<forall>trusted. shares_later (shareLookup B trusted)) \<and> (\<forall>v. later_read (readVoucherApproval B v)) \<and>
     (\<forall>signer data. requestSigner B = Some signer \<longrightarrow> later_read (signRequest signer data))"

lemma baseRequester_later:
  "client_later B \<Longrightarrow> baseRequester B keys owner = Inr req \<Longrightarrow> requester_later req"
  by (auto simp: client_later_def requester_later_def baseRequester_def bindE_eq_Inr)

lemma withPresign_Inr:
  assumes "epochs_grow N" "client_later B" "environment_later N" "\<And>p. adds N (step p)" "\<And>p. forward (step p)"
    and "withPresign B N d keys terms presign step now s = Some (t, s', Inr x)"
  shows "\<exists>from' s1 p es. now \<le> from' \<and> moves N s s1 es \<and> step p from' s1 = Some (t, s', Inr x)"
proof (cases presign)
  case None
  with assms(6) obtain req where req: "baseRequester B keys None = Inr req"
    and run: "ownPresign (OWN_PRESIGN_ATTEMPTS - 1) (takePresign B N req d (tm_signatureScheme terms)) step now s = Some (t, s', Inr x)"
    by (auto simp: withPresign_def result_simps)
  note fw = forward_takePresign [OF assms(3) baseRequester_later [OF assms(2) req]]
  from ownPresign_Inr [OF adds_takePresign [OF assms(1)] assms(4) fw assms(5) run] obtain at s0 from' s1 p es
    where m: "now \<le> at" "moves N s s0 es" and taken: "takePresign B N req d (tm_signatureScheme terms) at s0 = Some (from', s1, Inr p)"
      and step: "step p from' s1 = Some (t, s', Inr x)" by blast
  from adds_takePresign [OF assms(1)] taken obtain es' where "moves N s0 s1 es'" by (rule addsD)
  with moves_trans [OF m(2) this] m(1) forwardD [OF fw taken] step show ?thesis by (blast intro: order_trans)
qed (use assms(6) in \<open>auto simp: withPresign_def intro: moves_refl\<close>)

section \<open>A voucher's approval\<close>

lemma pollLoop_answer:
  assumes "pollLoop read lag interval deadline now = Some y"
  shows "later_read read \<and> 0 \<le> interval \<longrightarrow>
     (\<forall>v. snd y = Inr v \<longrightarrow> (\<exists>at. now \<le> at \<and> read at = Some (fst y, Inr (Some v))))"
  using assms
proof (rule pollLoop.raw_induct [rotated], intro impI allI)
    fix f read lag interval deadline now y v
    assume IH: "\<And>read lag interval deadline now y. f read lag interval deadline now = Some y \<Longrightarrow>
        later_read read \<and> 0 \<le> interval \<longrightarrow>
          (\<forall>v. snd y = Inr v \<longrightarrow> (\<exists>at. now \<le> at \<and> read at = Some (fst y, Inr (Some v))))"
      and eq: "(case read now of
        None \<Rightarrow> None
      | Some (t, Inl e) \<Rightarrow> Some (t, Inl e)
      | Some (t, Inr (Some v)) \<Rightarrow> Some (t, Inr v)
      | Some (t, Inr None) \<Rightarrow>
          if t \<ge> deadline then Some (t, Inl (Err ''timed out waiting''))
          else f read lag interval deadline (t + interval + int (lag t))) = Some y"
      and later: "later_read read \<and> 0 \<le> interval" and v: "snd y = Inr v"
    from eq v consider "read now = Some (fst y, Inr (Some v))"
      | t where "read now = Some (t, Inr None)" "f read lag interval deadline (t + interval + int (lag t)) = Some y"
      by (cases y) (auto split: option.split_asm sum.split_asm if_split_asm)
    then show "\<exists>at. now \<le> at \<and> read at = Some (fst y, Inr (Some v))"
    proof cases
      case 2
      from IH [OF 2(2)] later v obtain at where "t + interval + int (lag t) \<le> at" "read at = Some (fst y, Inr (Some v))" by blast
      moreover from 2(1) later have "now \<le> t" by (blast dest: later_readD)
      ultimately show ?thesis using later by (intro exI [of _ at]) simp
    qed blast
qed

text \<open>The terms of a sign are those of an approval the chain held when it was read.\<close>

definition approves ::
    "('a, 'v) base_client \<Rightarrow> voucher_approval \<Rightarrow> 'v sign_params \<Rightarrow> scheme_name \<Rightarrow> bool" where
  "approves B approval params scheme \<longleftrightarrow>
     dWalletAddressBytes B (sq_dWallet params) = Inr (va_dwallet approval) \<and>
     va_messageDigest approval = keccak_256 (en_sdk (bc_env B)) (sq_message params) \<and>
     va_messageMetadataDigest approval =
       (if orEmpty (sq_messageMetadata params) = [] then replicate 32 0
        else keccak_256 (en_sdk (bc_env B)) (orEmpty (sq_messageMetadata params))) \<and>
     element SIGNATURE_SCHEMES (va_signatureScheme approval) = Some scheme"

lemma approvedTerms_Inr:
  "approvedTerms (en_sdk (bc_env B)) (dWalletAddressBytes B) approval params = Inr terms \<Longrightarrow>
     approves B approval params (tm_signatureScheme terms) \<and> tm_message terms = sq_message params \<and>
     tm_messageMetadata terms = sq_messageMetadata params"
  by (auto simp: approvedTerms_def approves_def Let_def result_simps equalBytes_iff split: if_split_asm)

lemma signTerms_Inr:
  assumes "signTerms B params N now s = Some (t, s', Inr terms)" "cn_env N = bc_env B"
    and "later_read (readVoucherApproval B (sq_voucher params))"
  shows "\<exists>approval at. readVoucherApproval B (sq_voucher params) at = Some (t, Inr (Some approval)) \<and> now \<le> at \<and>
     approves B approval params (tm_signatureScheme terms) \<and> tm_message terms = sq_message params \<and>
     tm_messageMetadata terms = sq_messageMetadata params"
proof -
  from assms(1) obtain t1 s1 approval where read: "awaitVoucher B N (sq_voucher params) now s = Some (t1, s1, Inr approval)"
    and terms: "approvedTerms (sdkOf N) (dWalletAddressBytes B) approval params = Inr terms"
    by (auto simp: signTerms_def result_simps)
  from assms(1) read have "t1 = t" by (auto simp: signTerms_def result_simps)
  with read have "poll (readVoucherApproval B (sq_voucher params)) (lagOf (cn_client N)) (Some VOUCHER_READ_WAIT_MS)
      None now = Some (t, Inr approval)" by (auto simp: awaitVoucher_def result_simps)
  from pollLoop_answer [OF this [unfolded poll_def]] assms(3)
  have "\<exists>at. now \<le> at \<and> readVoucherApproval B (sq_voucher params) at = Some (t, Inr (Some approval))" by simp
  with approvedTerms_Inr [of B approval params terms] terms assms(2) show ?thesis by (auto simp: sdkOf_def)
qed

section \<open>A dWallet checked on the chain\<close>

lemma usableNow_Inr:
  assumes "usableNow B d keys N now s = Some (t, s', Inr usable)"
  shows "\<exists>st reads. usable_checked (sdkOf N) (en_realCryptography (cn_env N)) (clientShareReader B (ns_trusted s) now)
       (kp_publicKey (holderKeypair keys)) noOptions st \<and>
     attestation_data (is_attestation st) = attestation_data (dl_attestation d) \<and> is_verifiedAt st = t \<and>
     shareReads B now = Some reads \<and> t = now + int reads \<and>
     us_shown usable = st \<and> issuedGet (ns_issued s') usable = Some st \<and> ns_issued s' = ns_issued s @ [st] \<and>
     ns_signed s' = ns_signed s"
  using assms unfolding usableNow_def issuing_def Let_def
  by (auto simp: assertDWalletUsable_Inr issuedGet_last resumed_def split: sum.split_asm option.split_asm)

section \<open>A signature, from the chain's records\<close>

text \<open>A connection the client keeps has the client's own environment, chain and mode.\<close>

definition of_options :: "('a, 'v) base_client \<Rightarrow> network_connection \<Rightarrow> bool" where
  "of_options B N \<longleftrightarrow> cn_env N = bc_env B \<and> cn_chainEpoch N = chainEpoch B \<and> cn_cryptography N = bc_cryptography B \<and>
     cn_client N = bc_grpc B \<and> cn_requestRecords N = Some (requestRecords B) \<and> cn_shares N = Some (shareLookup B)"

definition own_connections :: "('a, 'v) base_client \<Rightarrow> base_state \<Rightarrow> bool" where
  "own_connections B s \<longleftrightarrow> (\<forall>ref on. bs_engines s ref = Some on \<longrightarrow> of_options B (on_connection on))"

lemma made_own: "made B ref N \<Longrightarrow> of_options B N"
proof -
  assume m: "made B ref N"
  then obtain curve key where "ref = engineKey curve key" unfolding made_def by blast
  with m show ?thesis using made_connection [of B curve key N] by (simp add: of_options_def)
qed

lemma all_made_own: "all_made B s \<Longrightarrow> own_connections B s"
  unfolding all_made_def own_connections_def by (blast intro: made_own)

lemma latestNetworkKey_keeps:
  "latestNetworkKey B now s = Some (t, s', r) \<Longrightarrow> bs_engines s' = bs_engines s \<and> bs_signed s' = bs_signed s"
  by (auto simp: latestNetworkKey_def readLatestKey_def awaitGrpc_def split: option.split_asm)

lemma openNetwork_logs:
  "openNetwork B curve key now s = Some (t, s', r) \<Longrightarrow> bs_signed s' = bs_signed s \<and> bs_issued s' = bs_issued s"
  by (auto simp: openNetwork_def Let_def split: prod.split_asm sum.split_asm bool.split_asm)

lemma openNetwork_after:
  assumes "client_later B" "openNetwork B curve key now s = Some (t, s', Inr on)"
  shows "now \<le> t"
proof -
  from assms(2) obtain dt cache' c
    where "connect (connectArguments B curve key) (bs_cache s) (now + int dt) = Some (t, cache', Inr c)"
    by (auto simp: openNetwork_def Let_def map_sum_Inr split: prod.split_asm sum.split_asm bool.split_asm)
  from connect_after [OF _ this] assms(1) show ?thesis by (simp add: connectArguments_def client_later_def)
qed

lemma engineFor_Inr:
  assumes "own_connections B s" "client_later B" "engineFor B curve key now s = Some (t, s', Inr ref)"
  shows "ref = engineKey curve key \<and> own_connections B s' \<and> bs_signed s' = bs_signed s \<and> bs_issued s' = bs_issued s \<and> now \<le> t \<and>
     (\<exists>on. bs_engines s' ref = Some on \<and> of_options B (on_connection on))"
proof (cases "bs_engines s (engineKey curve key)")
  case None
  from None assms(3) have "openNetwork B curve key now s \<noteq> None" by (auto simp: engineFor_def Let_def)
  then obtain t1 s1 r1 where some: "openNetwork B curve key now s = Some (t1, s1, r1)" by auto
  with None assms(3) have ran: "\<exists>on. r1 = Inr on \<and> t1 = t \<and> ref = engineKey curve key \<and>
      s1\<lparr>bs_engines := (bs_engines s1)(engineKey curve key \<mapsto> on)\<rparr> = s'"
    by (cases r1) (auto simp: engineFor_def Let_def)
  from ran obtain on where r1: "r1 = Inr on" "t1 = t"
    and s': "s' = s1\<lparr>bs_engines := (bs_engines s1)(engineKey curve key \<mapsto> on)\<rparr>" "ref = engineKey curve key" by blast
  from some have opened: "openNetwork B curve key now s = Some (t, s1, Inr on)" by (simp add: r1)
  from openNetwork_Some [OF opened] have kept: "bs_engines s1 = bs_engines s"
      and new: "made B (engineKey curve key) (on_connection on)" by simp_all
  note own = made_own [OF new]
  have "own_connections B s'"
    using assms(1) own unfolding own_connections_def s' by (simp add: kept)
  with own openNetwork_logs [OF opened] openNetwork_after [OF assms(2) opened] show ?thesis by (simp add: s')
next
  case (Some on)
  with assms(3) have "s' = s" "ref = engineKey curve key" "t = now" by (simp_all add: engineFor_def Let_def)
  with Some assms(1) show ?thesis unfolding own_connections_def by blast
qed

lemma engineOf_Inr:
  assumes "own_connections B s" "client_later B" "engineOf B d keys now s = Some (t, s', Inr ref)"
  shows "curveNumber (uk_curve keys) = Inr (dl_curve d) \<and> ref = engineKey (uk_curve keys) (dl_networkKeyId d) \<and>
     own_connections B s' \<and> bs_signed s' = bs_signed s \<and> bs_issued s' = bs_issued s \<and> now \<le> t \<and>
     (\<exists>on. bs_engines s' ref = Some on \<and> of_options B (on_connection on))"
proof -
  from assms(3) have "curveNumber (uk_curve keys) = Inr (dl_curve d)"
      "engineFor B (uk_curve keys) (dl_networkKeyId d) now s = Some (t, s', Inr ref)"
    by (auto simp: engineOf_def engine_def bindB_Inr base_steps bindE_eq_Inr guardE_eq_Inr)
  with engineFor_Inr [OF assms(1,2)] show ?thesis by blast
qed

lemma engineOf_kept:
  assumes "engineOf B d keys now s = Some (t, s', Inr ref)"
    "bs_engines s (engineKey (uk_curve keys) (dl_networkKeyId d)) = Some on"
  shows "t = now \<and> s' = s \<and> ref = engineKey (uk_curve keys) (dl_networkKeyId d)"
  using assms by (auto simp: engineOf_def engine_def engineFor_def Let_def bindB_Inr base_steps)

lemma afterNet_engine:
  "bs_engines (afterNet ref on n s) ref = Some (on\<lparr>on_epoch := ns_epoch n, on_trusted := ns_trusted n\<rparr>)"
  "bs_signed (afterNet ref on n s) = ns_signed n" "bs_issued (afterNet ref on n s) = ns_issued n"
  "on_epoch on' = ns_epoch n \<Longrightarrow> on_trusted on' = ns_trusted n \<Longrightarrow> netState on' (afterNet ref on n s) = n"
  by (simp_all add: afterNet_def netState_def)

text \<open>What one presign of a sign is asked with, and the parts of a sign that ran to its end on the connection it kept.\<close>

definition signStep ::
    "('a, 'v) base_client \<Rightarrow> 'v sign_params \<Rightarrow> network_connection \<Rightarrow> sign_terms \<Rightarrow> dwallet_usable \<Rightarrow> presign \<Rightarrow> bytes engine_run" where
  "signStep B params N terms usable p =
     bindN (liftN (baseRequester B (sq_keys params) None)) (\<lambda>req.
     bindN (liftN (voucherBytes B (sq_voucher params))) (\<lambda>voucher.
     requestSignature N req (signArgs params terms usable voucher p)))"

lemma signStep_Inr:
  assumes "signStep B params N terms usable p now s = Some (t, s', Inr signature)"
  obtains req voucher where "baseRequester B (sq_keys params) None = Inr req" "voucherBytes B (sq_voucher params) = Inr voucher"
    "requestSignature N req (signArgs params terms usable voucher p) now s = Some (t, s', Inr signature)"
  using assms by (auto simp: signStep_def result_simps)

lemma adds_signStep:
  "epochs_grow N \<Longrightarrow> chain_answers_later N \<Longrightarrow> codec_ok (signedRequestDataBcs (sdkOf N)) \<Longrightarrow>
     adds N (signStep B params N terms usable p)"
  unfolding signStep_def by (intro adds_bindN adds_steps adds_requestSignature)

lemma requestSign_run:
  assumes "own_connections B s" "client_later B" "requestSign B params now s = Some (t, s', Inr signature)"
  defines "ref \<equiv> engineKey (uk_curve (sq_keys params)) (dl_networkKeyId (sq_dWallet params))"
  obtains on' N t1 n1 t2 n2 terms t4 n4 usable n where
    "of_options B N" "bs_engines s' ref = Some on'" "on_connection on' = N"
    "ns_signed n1 = bs_signed s" "bs_signed s' = ns_signed n" "ns_issued n1 = bs_issued s" "bs_issued s' = ns_issued n" "now \<le> t1"
    "signTerms B params N t1 n1 = Some (t2, n2, Inr terms)"
    "usableNow B (sq_dWallet params) (sq_keys params) N t2 n2 = Some (t4, n4, Inr usable)"
    "withPresign B N (sq_dWallet params) (sq_keys params) terms (sq_presign params) (signStep B params N terms usable) t4 n4
       = Some (t, n, Inr signature)"
proof -
  let ?d = "sq_dWallet params" and ?keys = "sq_keys params"
  from assms(3) obtain t1 s1 ref1 t2 s2 terms t3 s3 ref' t4 s4 usable
    where e1: "engineOf B ?d ?keys now s = Some (t1, s1, Inr ref1)"
      and e2: "onNetwork ref1 (signTerms B params) t1 s1 = Some (t2, s2, Inr terms)"
      and e3: "engineOf B ?d ?keys t2 s2 = Some (t3, s3, Inr ref')"
      and e4: "onNetwork ref' (usableNow B ?d ?keys) t3 s3 = Some (t4, s4, Inr usable)"
      and e5: "onNetwork ref1 (\<lambda>N. withPresign B N ?d ?keys terms (sq_presign params) (signStep B params N terms usable)) t4 s4
          = Some (t, s', Inr signature)"
    unfolding requestSign_def signingWith_def baseCheckDWalletUsable_def signStep_def
    by (auto simp: Let_def bindB_Inr)
  from engineOf_Inr [OF assms(1,2) e1] obtain on where ref: "ref1 = ref" and on: "bs_engines s1 ref = Some on"
    and own: "of_options B (on_connection on)" and signed: "bs_signed s1 = bs_signed s" "bs_issued s1 = bs_issued s" "now \<le> t1" unfolding ref_def by blast
  let ?N = "on_connection on"
  from e2 on obtain n2 where n2: "signTerms B params ?N t1 (netState on s1) = Some (t2, n2, Inr terms)"
    and s2: "s2 = afterNet ref on n2 s1" by (auto simp: onNetwork_Inr ref)
  let ?on2 = "on\<lparr>on_epoch := ns_epoch n2, on_trusted := ns_trusted n2\<rparr>"
  from engineOf_kept [OF e3, of ?on2] have e3': "t3 = t2" "s3 = s2" "ref' = ref"
    by (simp_all add: s2 ref_def afterNet_engine)
  from e4 [unfolded e3'] obtain n4 where n4: "usableNow B ?d ?keys ?N t2 n2 = Some (t4, n4, Inr usable)"
    and s4: "s4 = afterNet ref ?on2 n4 s2" by (auto simp: onNetwork_Inr s2 afterNet_engine)
  let ?on4 = "?on2\<lparr>on_epoch := ns_epoch n4, on_trusted := ns_trusted n4\<rparr>"
  from e5 obtain n where n: "withPresign B ?N ?d ?keys terms (sq_presign params) (signStep B params ?N terms usable) t4 n4
      = Some (t, n, Inr signature)" and s': "s' = afterNet ref ?on4 n s4"
    by (auto simp: onNetwork_Inr s4 afterNet_engine ref)
  obtain on' where "bs_engines s' ref = Some on'" "on_connection on' = ?N" by (simp add: s' afterNet_engine)
  from that [OF own this _ _ _ _ signed(3) n2 n4 n] show thesis by (simp add: s' afterNet_engine netState_def signed)
qed

lemma signTerms_signed:
  assumes "epochs_grow N" "signTerms B params N t s = Some (t', s', Inr terms)"
  shows "ns_signed s' = ns_signed s \<and> ns_issued s' = ns_issued s"
proof -
  have "keeps_still N (signTerms B params N)"
    unfolding signTerms_def awaitVoucher_def by (intro still_intros assms(1))
  from keeps_stillD [OF this assms(2)] show ?thesis by (simp add: moves_def)
qed

lemma forward_signStep:
  assumes "client_later B" "environment_later N"
  shows "forward (signStep B params N terms usable p)"
proof (cases "baseRequester B (sq_keys params) None")
  case (Inl e)
  then show ?thesis by (simp add: forward_def signStep_def bindN_def liftN_def mapErr_def)
next
  case (Inr req)
  from baseRequester_later [OF assms(1) Inr] have "requester_later req" .
  from forward_requestSignature [OF assms(2) this]
  have "forward (\<lambda>now s. requestSignature N req args now s)" for args .
  with Inr show ?thesis unfolding signStep_def
    by (cases "voucherBytes B (sq_voucher params)") (simp_all add: forward_def bindN_def liftN_def mapErr_def)
qed

text \<open>
  C1. A signature the client returns was asked for on a connection of its own, in this order: the chain's answer to a
  read of the call's own held a voucher that approves this very dWallet, message, metadata and scheme; then the chain's
  records proved the dWallet usable by the caller's keys, and the result of that check is the one result the call
  issued; then, at most five minutes after the check ended, the last request was signed, which names the message, the
  voucher and the dWallet's attestation. The signature verifies for the message under the output the check found on the
  chain.
\<close>

theorem requestSign_sound:
  assumes "own_connections B s" "client_later B" "\<forall>t e. e \<le> othersEpoch (bc_env B) t e"
    and "codec_ok (signedRequestDataBcs (en_sdk (bc_env B)))"
    and "requestSign B params now s = Some (t, s', Inr signature)"
  shows "\<exists>on approval asked answered scheme st trusted reads req es e request q m number.
     bs_engines s' (engineKey (uk_curve (sq_keys params)) (dl_networkKeyId (sq_dWallet params))) = Some on \<and>
     of_options B (on_connection on) \<and>
     readVoucherApproval B (sq_voucher params) asked = Some (answered, Inr (Some approval)) \<and> now \<le> asked \<and> asked \<le> answered \<and>
     approves B approval params scheme \<and>
     usable_checked (en_sdk (bc_env B)) (en_realCryptography (bc_env B)) (clientShareReader B trusted answered)
       (kp_publicKey (holderKeypair (sq_keys params))) noOptions st \<and> \<not> is_waiting st \<and>
     shareReads B answered = Some reads \<and> is_verifiedAt st = answered + int reads \<and> bs_issued s' = bs_issued s @ [st] \<and>
     attestation_data (is_attestation st) = attestation_data (dl_attestation (sq_dWallet params)) \<and>
     baseRequester B (sq_keys params) None = Inr req \<and> is_chain st = chainOfRequest (rq_chain req) \<and>
     bs_signed s' = bs_signed s @ es @ [e] \<and> request_signed (on_connection on) req request e \<and>
     signOfRequest request = Some q \<and> sg_message q = sq_message params \<and>
     voucherBytes B (sq_voucher params) = Inr (sg_signature_voucher q) \<and>
     sg_dwallet_attestation q = dl_attestation (sq_dWallet params) \<and>
     is_verifiedAt st \<le> sg_at e \<and> sg_at e \<le> is_verifiedAt st + 300000 \<and>
     signatureSchemeNumber (SchemeNamed scheme) = Inr number \<and>
     signingMethod (ec_user (bc_cryptography B)) (dl_curve (sq_dWallet params)) number (orEmpty (sq_messageMetadata params)) = Some m \<and>
     verifiesBy (ec_user (bc_cryptography B)) m (is_publicOutput st) (sq_message params) signature = Inr ()"
proof -
  let ?d = "sq_dWallet params" and ?keys = "sq_keys params"
  from requestSign_run [OF assms(1,2,5)] obtain on N t1 n1 t2 n2 terms t4 n4 usable n
    where on: "of_options B N" "bs_engines s' (engineKey (uk_curve ?keys) (dl_networkKeyId ?d)) = Some on" "on_connection on = N"
      and logs: "ns_signed n1 = bs_signed s" "bs_signed s' = ns_signed n" "ns_issued n1 = bs_issued s" "bs_issued s' = ns_issued n"
      and t1: "now \<le> t1" and n2: "signTerms B params N t1 n1 = Some (t2, n2, Inr terms)"
      and n4: "usableNow B ?d ?keys N t2 n2 = Some (t4, n4, Inr usable)"
      and n: "withPresign B N ?d ?keys terms (sq_presign params) (signStep B params N terms usable) t4 n4
          = Some (t, n, Inr signature)" .
  have N: "sdkOf N = en_sdk (bc_env B)" "cn_env N = bc_env B" "cn_chainEpoch N = chainEpoch B" "cn_cryptography N = bc_cryptography B"
    using on(1) by (simp_all add: of_options_def sdkOf_def)
  have env: "environment_later N" using on(1) assms(2) by (simp add: of_options_def environment_later_def client_later_def)
  have grow: "epochs_grow N" "chain_answers_later N" "codec_ok (signedRequestDataBcs (sdkOf N))"
    using assms(2-4) by (simp_all add: epochs_grow_def chain_answers_later_def client_later_def later_read_def N)
  from assms(2) have voucher_later: "later_read (readVoucherApproval B (sq_voucher params))" by (simp add: client_later_def)
  from signTerms_Inr [OF n2 N(2) voucher_later] later_readD [OF voucher_later] t1 obtain approval asked
    where voucher: "readVoucherApproval B (sq_voucher params) asked = Some (t2, Inr (Some approval))"
        "approves B approval params (tm_signatureScheme terms)" "now \<le> asked" "asked \<le> t2"
      and terms: "tm_message terms = sq_message params" "tm_messageMetadata terms = sq_messageMetadata params"
    by (fastforce intro: order_trans)
  from usableNow_Inr [OF n4] obtain st reads
    where st: "usable_checked (sdkOf N) (en_realCryptography (cn_env N)) (clientShareReader B (ns_trusted n2) t2)
          (kp_publicKey (holderKeypair ?keys)) noOptions st"
        "attestation_data (is_attestation st) = attestation_data (dl_attestation ?d)" "us_shown usable = st"
        "issuedGet (ns_issued n4) usable = Some st" "ns_signed n4 = ns_signed n2" "ns_issued n4 = ns_issued n2 @ [st]"
      and at: "is_verifiedAt st = t4" "shareReads B t2 = Some reads" "t4 = t2 + int reads" by blast
  from withPresign_Inr [OF grow(1) assms(2) env adds_signStep [OF grow] forward_signStep [OF assms(2) env] n]
  obtain from' n5 p es where m5: "t4 \<le> from'" "moves N n4 n5 es"
    and last: "signStep B params N terms usable p from' n5 = Some (t, n, Inr signature)" by blast
  from adds_signStep [OF grow] last obtain es' where m6: "moves N n5 n es'" by (rule addsD)
  from signStep_Inr [OF last] obtain req voucher_data where req: "baseRequester B ?keys None = Inr req"
      "voucherBytes B (sq_voucher params) = Inr voucher_data"
    and sign: "requestSignature N req (signArgs params terms usable voucher_data p) from' n5 = Some (t, n, Inr signature)" .
  from requestSignature_sound [OF grow sign] st m5 obtain e request q scheme m
    where e: "ns_signed n = ns_signed n5 @ [e]" "request_signed N req request e" "signOfRequest request = Some q"
        "sg_message q = tm_message terms" "sg_signature_voucher q = voucher_data" "sg_dwallet_attestation q = dl_attestation ?d"
        "\<not> is_waiting st" "is_chain st = chainOfRequest (rq_chain req)" "from' \<le> sg_at e" "sg_at e - is_verifiedAt st \<le> 300000"
        "signatureSchemeNumber (SchemeNamed (tm_signatureScheme terms)) = Inr scheme"
        "signingMethod (ec_user (bc_cryptography B)) (dl_curve ?d) scheme (orEmpty (tm_messageMetadata terms)) = Some m"
        "verifiesBy (ec_user (bc_cryptography B)) m (is_publicOutput st) (tm_message terms) signature = Inr ()"
    by (auto simp: signArgs_def moves_def N)
  have "bs_signed s' = bs_signed s @ es @ [e]" "bs_issued s' = bs_issued s @ [st]"
    using e(1) m5(2) m6 st(5,6) signTerms_signed [OF grow(1) n2] logs by (simp_all add: moves_def)
  moreover have "is_verifiedAt st \<le> sg_at e" "sg_at e \<le> is_verifiedAt st + 300000" using e(9,10) m5(1) at(1) by simp_all
  ultimately show ?thesis using on voucher st(1,2) req e(2-8,11-13) terms at(2,3) at(1) unfolding N
    by (intro exI [of _ on] exI conjI; (assumption | simp))
qed

section \<open>Waiting for a share\<close>

text \<open>
  What one check of the chain finds: the share, accepted or refused only because its holder has not accepted it yet; no
  dWallet or no share; or an error of a read.
\<close>

definition unaccepted :: "sdk_error \<Rightarrow> bool" where
  "unaccepted e \<longleftrightarrow> (\<exists>field. e = AttestationRecordError CkRecord (Some field) \<and>
     (field = ''accepted'' \<or> field = ''acceptance_signature''))"

definition share_there :: "share_reader \<Rightarrow> expected_dwallet \<Rightarrow> bytes \<Rightarrow> bool" where
  "share_there reader lookup holder \<longleftrightarrow>
     (\<exists>rec. rd_readDWallet reader lookup = Inr (Some rec) \<and>
        ((\<exists>share. cdr_readEncryptedShare rec holder None = Inr (Some share)) \<or>
         (\<exists>e. cdr_readEncryptedShare rec holder None = Inl e \<and> unaccepted e)))"

definition share_absent :: "share_reader \<Rightarrow> expected_dwallet \<Rightarrow> bytes \<Rightarrow> bool" where
  "share_absent reader lookup holder \<longleftrightarrow>
     rd_readDWallet reader lookup = Inr None \<or>
     (\<exists>rec. rd_readDWallet reader lookup = Inr (Some rec) \<and> cdr_readEncryptedShare rec holder None = Inr None)"

definition share_unread :: "share_reader \<Rightarrow> expected_dwallet \<Rightarrow> bytes \<Rightarrow> sdk_error \<Rightarrow> bool" where
  "share_unread reader lookup holder e \<longleftrightarrow>
     rd_readDWallet reader lookup = Inl e \<or>
     (\<exists>rec. rd_readDWallet reader lookup = Inr (Some rec) \<and> cdr_readEncryptedShare rec holder None = Inl e \<and> \<not> unaccepted e)"

lemma shareIsOnChain_result:
  "shareIsOnChain rec holder = Inr True \<longleftrightarrow>
     (\<exists>share. cdr_readEncryptedShare rec holder None = Inr (Some share)) \<or>
     (\<exists>e. cdr_readEncryptedShare rec holder None = Inl e \<and> unaccepted e)"
  "shareIsOnChain rec holder = Inr False \<longleftrightarrow> cdr_readEncryptedShare rec holder None = Inr None"
  "shareIsOnChain rec holder = Inl e \<longleftrightarrow> cdr_readEncryptedShare rec holder None = Inl e \<and> \<not> unaccepted e"
  by (auto simp: shareIsOnChain_def unaccepted_def UNACCEPTED_SHARE_FIELDS_def split: sum.splits sdk_error.splits option.splits)

lemma shareRecordHeld_result:
  "shareRecordHeld reader lookup holder = Inr True \<longleftrightarrow> share_there reader lookup holder"
  "shareRecordHeld reader lookup holder = Inr False \<longleftrightarrow> share_absent reader lookup holder"
  "shareRecordHeld reader lookup holder = Inl e \<longleftrightarrow> share_unread reader lookup holder e"
  by (auto simp: shareRecordHeld_def bindE_eq_Inr bindE_eq_Inl share_there_def share_absent_def share_unread_def
      shareIsOnChain_result split: option.split_asm)

lemma shareLoop_found:
  assumes "shareLoop reader reads lag lookup holder deadline now = Some (t, r)"
  shows "\<exists>at dt. now \<le> at \<and> reads at = Some dt \<and> t = at + int dt \<and>
     (case r of Inr _ \<Rightarrow> shareRecordHeld (reader at) lookup holder = Inr True
      | Inl e \<Rightarrow> shareRecordHeld (reader at) lookup holder = Inl e \<or>
          shareRecordHeld (reader at) lookup holder = Inr False \<and> deadline \<le> t)"
proof -
  define ends where "ends reader reads lookup holder deadline now y = (\<exists>at dt. now \<le> at \<and> reads at = Some dt \<and>
     fst y = at + int dt \<and>
     (case snd y of Inr _ \<Rightarrow> shareRecordHeld (reader at) lookup holder = Inr True
      | Inl e \<Rightarrow> shareRecordHeld (reader at) lookup holder = Inl e \<or>
          shareRecordHeld (reader at) lookup holder = Inr False \<and> deadline \<le> fst y))"
    for reader :: "time \<Rightarrow> share_reader" and reads :: "time \<Rightarrow> nat option" and lookup holder
      and deadline now :: time and y :: "time \<times> (sdk_error + unit)"
  have "ends reader reads lookup holder deadline now (t, r)"
  proof (rule shareLoop.raw_induct [where P = "\<lambda>reader reads lag lookup holder deadline now y.
        ends reader reads lookup holder deadline now y", OF _ assms])
    fix f reader reads lag lookup holder deadline now y
    assume IH: "\<And>reader reads lag lookup holder deadline now y. f reader reads lag lookup holder deadline now = Some y \<Longrightarrow>
        ends reader reads lookup holder deadline now y"
      and eq: "(case reads now of
        None \<Rightarrow> None
      | Some dt \<Rightarrow>
          let t = now + int dt in
          case shareRecordHeld (reader now) lookup holder of
            Inl e \<Rightarrow> Some (t, Inl e)
          | Inr found \<Rightarrow>
              if found then Some (t, Inr ())
              else if t \<ge> deadline
              then Some (t, Inl (Err ''the network answered, and the chain still holds no share of the dWallet for its holder''))
              else f reader reads lag lookup holder deadline (t + SHARE_RECORD_POLL_MS + int (lag t))) = Some y"
    from eq obtain dt where dt: "reads now = Some dt" by (auto split: option.split_asm)
    let ?t = "now + int dt"
    show "ends reader reads lookup holder deadline now y"
    proof (cases "shareRecordHeld (reader now) lookup holder = Inr False \<and> ?t < deadline")
      case True
      with eq dt have "f reader reads lag lookup holder deadline (?t + SHARE_RECORD_POLL_MS + int (lag ?t)) = Some y"
        by (simp add: Let_def)
      from IH [OF this] obtain at dta where "?t + SHARE_RECORD_POLL_MS + int (lag ?t) \<le> at"
        and rest: "reads at = Some dta" "fst y = at + int dta"
          "case snd y of Inr _ \<Rightarrow> shareRecordHeld (reader at) lookup holder = Inr True
           | Inl e \<Rightarrow> shareRecordHeld (reader at) lookup holder = Inl e \<or>
               shareRecordHeld (reader at) lookup holder = Inr False \<and> deadline \<le> fst y"
        unfolding ends_def by blast
      then have "now \<le> at" by (simp add: SHARE_RECORD_POLL_MS_def)
      with rest show ?thesis unfolding ends_def by blast
    next
      case False
      with eq dt show ?thesis unfolding ends_def
        by (intro exI [of _ now] exI [of _ dt]) (auto simp: Let_def split: sum.split_asm if_split_asm)
    qed
  qed
  then show ?thesis unfolding ends_def fst_conv snd_conv .
qed

lemma shareLoop_ends:
  assumes "\<And>at. now \<le> at \<Longrightarrow> reads at \<noteq> None"
  shows "\<exists>t r. shareLoop reader reads lag lookup holder deadline now = Some (t, r)"
  using assms
proof (induction "nat (deadline - now)" arbitrary: now rule: less_induct)
  case less
  from less.prems [of now] obtain dt where dt: "reads now = Some dt" by auto
  let ?t = "now + int dt"
  let ?next = "?t + SHARE_RECORD_POLL_MS + int (lag ?t)"
  show ?case
  proof (cases "shareRecordHeld (reader now) lookup holder = Inr False \<and> ?t < deadline")
    case True
    then have "nat (deadline - ?next) < nat (deadline - now)" by (simp add: SHARE_RECORD_POLL_MS_def)
    from less.hyps [OF this] less.prems obtain t r where "shareLoop reader reads lag lookup holder deadline ?next = Some (t, r)"
      by (fastforce simp: SHARE_RECORD_POLL_MS_def)
    with True dt show ?thesis by (subst shareLoop.simps) (simp add: Let_def)
  next
    case False
    with dt show ?thesis by (subst shareLoop.simps) (auto simp: Let_def split: sum.split)
  qed
qed

text \<open>
  C38. The wait for a share's record ends whenever each check of the chain does: with success only at a check that found
  the record on the chain, accepted or not, and with an error only at a check that failed, or at one that found none once
  five minutes had passed. A check that never settles is not cut short, and the wait then never ends.
\<close>

theorem share_wait_ends:
  assumes "\<And>at. now \<le> at \<Longrightarrow> shareReads B at \<noteq> None"
  shows "\<exists>t r at dt. waitForEncryptedShareRecord B N trusted lookup holder now = Some (t, r) \<and> now \<le> at \<and>
     shareReads B at = Some dt \<and> t = at + int dt \<and>
     (case r of Inr _ \<Rightarrow> share_there (clientShareReader B trusted at) lookup holder
      | Inl e \<Rightarrow> share_unread (clientShareReader B trusted at) lookup holder e \<or>
          share_absent (clientShareReader B trusted at) lookup holder \<and> now + 300000 \<le> t)"
proof -
  have "\<exists>t r. shareLoop (clientShareReader B trusted) (shareReads B) (lagOf (cn_client N)) lookup holder
      (now + SHARE_RECORD_WAIT_MS) now = Some (t, r)"
    by (rule shareLoop_ends) (rule assms)
  then obtain t r where "waitForEncryptedShareRecord B N trusted lookup holder now = Some (t, r)"
    unfolding waitForEncryptedShareRecord_def by blast
  with shareLoop_found [OF this [unfolded waitForEncryptedShareRecord_def]] show ?thesis
    unfolding SHARE_RECORD_WAIT_MS_def shareRecordHeld_result by blast
qed

lemma waitForEncryptedShare_Inr:
  assumes "waitForEncryptedShare B d N now s = Some (t, s', Inr u)" "dl_share d = EncryptedTo holder" "dl_acceptance d = Some a"
  shows "\<exists>at. now \<le> at \<and> shareRecordHeld (clientShareReader B (ns_trusted s) at) (lookupOf d) holder = Inr True"
proof -
  from assms obtain t' where
    "shareLoop (clientShareReader B (ns_trusted s)) (shareReads B) (lagOf (cn_client N)) (lookupOf d) holder
       (now + SHARE_RECORD_WAIT_MS) now = Some (t', Inr ())"
    by (auto simp: waitForEncryptedShare_def waitForEncryptedShareRecord_def result_simps)
  from shareLoop_found [OF this] show ?thesis by auto
qed

text \<open>
  A dWallet made with an encrypted share, or for an imported key, is given to the caller only once the chain's records
  hold the share of its holder.
\<close>

theorem created_share_on_chain:
  assumes "requestDWalletDKG B curve keys owner sign now s = Some (t, s', Inr (d, signature)) \<or>
      requestImportedKeyDWalletVerification B curve secretKey keys owner now s = Some (t, s', Inr d)"
    and "dl_share d = EncryptedTo holder" "dl_acceptance d = Some a"
  shows "\<exists>trusted at. shareRecordHeld (clientShareReader B trusted at) (lookupOf d) holder = Inr True"
proof -
  from assms(1) obtain ref now' s1 t1 s2 u where "onNetwork ref (waitForEncryptedShare B d) now' s1 = Some (t1, s2, Inr u)"
    unfolding requestDWalletDKG_def requestImportedKeyDWalletVerification_def
    by (auto simp: bindB_Inr base_steps split: option.split_asm)
  with waitForEncryptedShare_Inr [OF _ assms(2,3)] show ?thesis by (fastforce simp: onNetwork_Inr)
qed

section \<open>A pending request's end\<close>

text \<open>
  C12. A pending request is said to wait only while the chain's epoch is before the one that settles it. It is said never to
  have run only after that epoch, when the result it would have delivered and every charge it could have left were read
  and are absent; and never of a DKG or an imported key.
\<close>

theorem resolveSession_sound:
  assumes "resolveSession B pending now = Some (t, Inr resolution)"
  shows "\<exists>t1 epoch. chainEpoch B now = Some (t1, Inr epoch) \<and>
     (case resolution of
        WaitingUntil e settledAt \<Rightarrow> e = epoch \<and> settledAt = settledAtEpoch pending \<and> epoch < settledAtEpoch pending
      | NeverRan \<Rightarrow> settledAtEpoch pending \<le> epoch \<and>
          (\<exists>trusted. neverRan (en_records (bc_env B)) (requestRecords B) (Some (shareLookup B trusted)) pending) \<and>
          (\<forall>dwallet. pn_kind pending \<noteq> PendingDkg dwallet \<and> pn_kind pending \<noteq> PendingImportedKey dwallet)
      | _ \<Rightarrow> settledAtEpoch pending \<le> epoch)"
proof -
  from assms obtain t1 epoch where read: "chainEpoch B now = Some (t1, Inr epoch)"
    and branch: "(if epoch < settledAtEpoch pending then returnT (WaitingUntil epoch (settledAtEpoch pending))
      else bindT (liftT (customOrListed (bc_network B) [pn_networkKeyId pending])) (\<lambda>trusted.
           bindT (findSession (en_records (bc_env B)) pending (requestRecords B) (Some (shareLookup B trusted))) (\<lambda>outcome.
           returnT (resolutionOf outcome)))) t1 = Some (t, Inr resolution)"
    by (simp add: resolveSession_def Let_def bindT_Inr) blast
  have rest: "epoch < settledAtEpoch pending \<and> resolution = WaitingUntil epoch (settledAtEpoch pending) \<or>
      settledAtEpoch pending \<le> epoch \<and>
        (\<exists>trusted t2 outcome. findSession (en_records (bc_env B)) pending (requestRecords B) (Some (shareLookup B trusted)) t1
           = Some (t2, Inr outcome) \<and> resolution = resolutionOf outcome)"
    using branch by (cases "epoch < settledAtEpoch pending") (auto simp: result_simps)
  have never: "\<exists>trusted. neverRan (en_records (bc_env B)) (requestRecords B) (Some (shareLookup B trusted)) pending"
    if "resolution = NeverRan"
    using rest that by (auto elim!: resolutionOf.elims [OF sym] dest!: findSession_neverRan)
  moreover have "pn_kind pending \<noteq> PendingDkg dwallet \<and> pn_kind pending \<noteq> PendingImportedKey dwallet"
    if "resolution = NeverRan" for dwallet
    using never [OF that] by (auto simp: neverRan_def ownCharges_def Let_def)
  moreover have "WaitingUntil e e' \<noteq> resolutionOf outcome" for outcome e e' by (cases outcome) simp_all
  ultimately show ?thesis using read rest by (cases resolution) auto
qed

end
