(* ===== verification/User_Key_Laws.thy ===== *)
theory User_Key_Laws
  imports User_Keys Answer_Laws
begin

text \<open>
  What the derivation of a user's keys promises: the bytes digested for the three keys never coincide and tell
  the curve and the seed, stored keys read back as they were, and a request an app's \<open>RequestKey\<close> signs as a
  signer is the one its keypair signs.
\<close>

section \<open>What is digested\<close>

lemma derivationBytes_Inr:
  "derivationBytes domain seed c = Inr bs \<longleftrightarrow>
     bs = ascii domain @ [case c of SECP256K1 \<Rightarrow> 0 | SECP256R1 \<Rightarrow> 1 | ED25519 \<Rightarrow> 2 | RISTRETTO \<Rightarrow> 3] @ seed"
  by (cases c) (auto simp: derivationBytes_def result_simps curveNumber_def fromCurveToNumber_def curveConfigOf_def
      scheme_tables)

lemmas domains = CLASS_GROUPS_DOMAIN_def ENCRYPTION_SIGNER_DOMAIN_def REQUEST_KEY_DOMAIN_def

lemma domains_apart: "ascii CLASS_GROUPS_DOMAIN @ a \<noteq> ascii ENCRYPTION_SIGNER_DOMAIN @ b"
  "ascii CLASS_GROUPS_DOMAIN @ a \<noteq> ascii REQUEST_KEY_DOMAIN @ b"
  "ascii ENCRYPTION_SIGNER_DOMAIN @ a \<noteq> ascii REQUEST_KEY_DOMAIN @ b"
  by (simp_all add: domains ascii_def)

text \<open>
  The bytes a key is derived from tell which of the keys it is, the seed, and the curve; the request key's tell no
  curve, so that one gas deposit serves the keys of every curve.
\<close>

theorem derivations_apart:
  assumes "d \<in> {CLASS_GROUPS_DOMAIN, ENCRYPTION_SIGNER_DOMAIN}" "d' \<in> {CLASS_GROUPS_DOMAIN, ENCRYPTION_SIGNER_DOMAIN}"
    and "derivationBytes d seed c = Inr bs" "derivationBytes d' seed' c' = Inr bs'"
  shows "(bs = bs' \<longleftrightarrow> d = d' \<and> seed = seed' \<and> c = c') \<and> bs \<noteq> requestKeyBytes seed'' \<and>
    (requestKeyBytes seed = requestKeyBytes seed' \<longleftrightarrow> seed = seed')"
  using assms domains_apart domains_apart [symmetric]
  by (auto simp: derivationBytes_Inr requestKeyBytes_def split: curve.splits)

section \<open>A child key\<close>

lemma length_uint32BE [simp]: "length (uint32BE n) = 4"
  by (simp add: uint32BE_def)

lemma uint32BE_inject:
  assumes "uint32BE n = uint32BE m" "0 \<le> n" "n < 2 ^ 32" "0 \<le> m" "m < 2 ^ 32"
  shows "n = m"
proof -
  have digits: "(k div 256 ^ 3) mod 256 * 256 ^ 3 + (k div 256 ^ 2) mod 256 * 256 ^ 2 +
      (k div 256 ^ 1) mod 256 * 256 + (k div 256 ^ 0) mod 256 = k" if "0 \<le> k" "k < 2 ^ 32" for k :: int
  proof -
    define a b c where "a = k div 256" and "b = a div 256" and "c = b div 256"
    have parts: "k div 256 ^ 1 = a" "k div 256 ^ 2 = b" "k div 256 ^ 3 = c" "k div 256 ^ 0 = k"
      by (simp_all add: a_def b_def c_def zdiv_zmult2_eq [symmetric])
    have "c mod 256 = c" using that by (simp add: a_def b_def c_def zdiv_zmult2_eq [symmetric] div_int_pos_iff)
    moreover have "256 * a + k mod 256 = k" "256 * b + a mod 256 = a" "256 * c + b mod 256 = b"
      by (simp_all add: a_def b_def c_def)
    ultimately have "c mod 256 * (256 * 256 * 256) + b mod 256 * (256 * 256) + a mod 256 * 256 + k mod 256 = k"
      by linarith
    then show ?thesis unfolding parts unfolding power3_eq_cube power2_eq_square .
  qed
  have "(word_of_int (n div 256 ^ i) :: byte) = word_of_int (m div 256 ^ i)" if "i \<in> set [3, 2, 1, 0]" for i
    using assms(1) that unfolding uint32BE_def map_eq_conv by blast
  then have byte: "(n div 256 ^ i) mod 256 = (m div 256 ^ i) mod 256" if "i \<in> set [3, 2, 1, 0]" for i
    using that unfolding word_of_int_eq_iff take_bit_eq_mod by simp
  have same: "(n div 256 ^ 3) mod 256 = (m div 256 ^ 3) mod 256" "(n div 256 ^ 2) mod 256 = (m div 256 ^ 2) mod 256"
    "(n div 256 ^ 1) mod 256 = (m div 256 ^ 1) mod 256" "(n div 256 ^ 0) mod 256 = (m div 256 ^ 0) mod 256"
    by (rule byte, simp)+
  show ?thesis using digits [OF assms(2,3), unfolded same] digits [OF assms(4,5)] by (rule trans [OF sym])
qed

text \<open>The bytes of a hardened step: as long as the source's buffer, and no two steps share them.\<close>

lemma length_chain_key [simp]: "length digest = 64 \<Longrightarrow> length (ch_key (chainKeyOf digest)) = 32"
  by (simp add: chainKeyOf_def)

theorem hardenedData_layout:
  assumes "length key = 32" "length key' = 32" "0 \<le> i" "i < 2 ^ 31" "0 \<le> j" "j < 2 ^ 31"
  shows "length (hardenedData key i) = 37 \<and> (hardenedData key i = hardenedData key' j \<longleftrightarrow> key = key' \<and> i = j)"
  using assms uint32BE_inject [of "i + 0x80000000" "j + 0x80000000"] by (auto simp: hardenedData_def)

section \<open>Stored keys\<close>

lemma userKeys_Inr:
  "userKeys K ek dk hk qk c = Inr keys \<longleftrightarrow>
     (\<exists>hp qp. edGetPublicKey (kl_ed25519 K) hk = Some hp \<and> edGetPublicKey (kl_ed25519 K) qk = Some qp \<and>
        keys = \<lparr>uk_encryptionKey = ek, uk_decryptionKey = dk, uk_curve = c,
                holderKeypair = \<lparr>kp_secretKey = hk, kp_publicKey = hp\<rparr>,
                requestKeypair = \<lparr>kp_secretKey = qk, kp_publicKey = qp\<rparr>\<rparr>)"
  by (auto simp: userKeys_def keypairOf_def result_simps)

lemma curve_number_back: "curveNumber c = Inr n \<Longrightarrow> fromNumberToCurve n = Inr c"
  by (cases c) (auto simp: curveNumber_def fromCurveToNumber_def curveConfigOf_def fromNumberToCurve_def scheme_tables
      result_simps)

text \<open>Whatever made the keys, what they are written as reads back as the same keys.\<close>

theorem stored_keys_read_back:
  assumes "codec_ok (versionedKeysBcs K)" "userKeys K ek dk hk qk c = Inr keys"
    and "toShareEncryptionKeysBytes K keys = Inr bs"
  shows "fromShareEncryptionKeysBytes K bs = Inr keys"
  using assms
  by (auto simp: toShareEncryptionKeysBytes_def fromShareEncryptionKeysBytes_def result_simps userKeys_Inr
      codec_okD curve_number_back)

lemma fromShareEncryptionKeysBytes_made:
  "fromShareEncryptionKeysBytes K bs = Inr keys \<Longrightarrow> \<exists>ek dk hk qk c. userKeys K ek dk hk qk c = Inr keys"
  unfolding fromShareEncryptionKeysBytes_def bindE_def by (auto split: versioned_keys.split_asm sum.split_asm intro!: exI)

lemma fromRootSeedKey_made:
  "fromRootSeedKey K seed c = Inr keys \<Longrightarrow> \<exists>ek dk hk qk. userKeys K ek dk hk qk c = Inr keys"
  by (auto simp: fromRootSeedKey_def result_simps)

text \<open>
  C35. The keys derived from a seed for a curve are stored whole: what their bytes read back as is the same keys, every
  field and both keypairs, whose public keys are derived again from the secret keys stored.
\<close>

theorem seed_keys_round_trip:
  assumes "codec_ok (versionedKeysBcs K)" "fromRootSeedKey K seed c = Inr keys" "toShareEncryptionKeysBytes K keys = Inr bs"
  shows "fromShareEncryptionKeysBytes K bs = Inr keys"
  using fromRootSeedKey_made [OF assms(2)] stored_keys_read_back [OF assms(1) _ assms(3)] by blast

text \<open>One seed gives one request key, whatever the curve, and so one gas deposit.\<close>

theorem request_key_serves_every_curve:
  assumes "fromRootSeedKey K seed c = Inr keys" "fromRootSeedKey K seed c' = Inr keys'"
  shows "requestKeypair keys = requestKeypair keys' \<and> uk_curve keys = c \<and> uk_curve keys' = c'"
  using assms by (auto simp: fromRootSeedKey_def result_simps userKeys_Inr)

text \<open>Keys of the classic SDK are refused.\<close>

theorem classic_keys_refused:
  "parse (versionedKeysBcs K) bs = Some v \<Longrightarrow> v \<in> {KeysV1, KeysV2} \<Longrightarrow>
     fromShareEncryptionKeysBytes K bs = Inl classicKeysError"
  by (auto simp: fromShareEncryptionKeysBytes_def bindE_def ofOption_def)

section \<open>An app's key as the signer\<close>

definition keypairOfRequestKey :: "request_key \<Rightarrow> transport_keypair" where
  "keypairOfRequestKey key = \<lparr>kp_secretKey = rk_secretKey key, kp_publicKey = rk_publicKey key\<rparr>"

lemma signSerializedRequest_Inr:
  "signSerializedRequest L sign keypair data = Inr out \<longleftrightarrow>
     (\<exists>sig u. assertSignedRequestDataWithinLimit data = Inr () \<and>
        sign (requestSigningMessage data) (kp_secretKey keypair) = Some sig \<and>
        serialize (userSignatureBcs L) (UserEd25519 sig (kp_publicKey keypair)) = Some u \<and>
        out = \<lparr>sr_userSignature = u, sr_signedRequestData = data\<rparr>)"
  by (auto simp: signSerializedRequest_def result_simps)

lemma signGrpcRequest_serialized:
  "signGrpcRequest L sign keypair d object holders = Inr out \<longleftrightarrow>
     \<not> isDWalletSign (ro_request object) \<and>
     (\<forall>h. waitingHolderOf holders object = Some h \<longrightarrow> kp_publicKey keypair = h) \<and>
     (\<exists>data. assertRequestFieldsWithinLimits (d\<lparr>req_request := ro_request object\<rparr>) = Inr () \<and>
        serialize (signedRequestDataBcs L) (d\<lparr>req_request := ro_request object\<rparr>) = Some data \<and>
        signSerializedRequest L sign keypair data = Inr out)"
  by (auto simp: signGrpcRequest_def signRequestBytes_def result_simps equalBytes_def split: option.split)

text \<open>
  A request signed through a \<open>RequestKey\<close> as the client's signer is, byte for byte, the one the key signs as the
  requester's keypair; and it carries a signature that verifies under the key.
\<close>

theorem request_key_signs_as_keypair:
  assumes signer: "rq_signer req = Some (requestKeySigner (en_ed25519 (cn_env N)) key)"
    and public: "kp_publicKey (rq_keypair req) = rk_publicKey key"
    and free: "waitingHolderOf (ns_holders s) object = None"
    and run: "signFor N req (signingRequest N d object) now s = Some (t, s', Inr out)"
  shows "signFor N (req\<lparr>rq_signer := None, rq_keypair := keypairOfRequestKey key\<rparr>) (signingRequest N d object) now s =
      Some (now, s, Inr out) \<and> t = now \<and>
    (\<exists>sig. ed25519_verify (en_sdk (cn_env N)) sig (requestSigningMessage (sr_signedRequestData out)) (rk_publicKey key) = Some True)"
proof -
  from run signer obtain unsigned t' s''
    where u: "signingRequest N d object (UNSIGNED_KEYPAIR (en_ed25519 (cn_env N))) now s = Some (t', s'', Inr unsigned)"
      and sg: "signedBySigner N req (requestKeySigner (en_ed25519 (cn_env N)) key) (sr_signedRequestData unsigned) t' s'' =
        Some (t, s', Inr out)"
    by (auto simp: signFor_def bindN_def split: option.split_asm sum.split_asm)
  from u have t': "t' = now" "s'' = s"
    and grpc: "signGrpcRequest (en_sdk (cn_env N)) (edSign (en_ed25519 (cn_env N))) (UNSIGNED_KEYPAIR (en_ed25519 (cn_env N)))
        d object (ns_holders s) = Inr unsigned"
    by (auto simp: signingRequest_def withState_def liftN_def mapErr_eq_Inr)
  from sg obtain sig ub
    where sig: "edSign (en_ed25519 (cn_env N)) (requestSigningMessage (sr_signedRequestData unsigned)) (rk_secretKey key) = Some sig"
      and ver: "ed25519_verify (en_sdk (cn_env N)) sig (requestSigningMessage (sr_signedRequestData unsigned))
        (kp_publicKey (rq_keypair req)) = Some True"
      and ub: "serialize (userSignatureBcs (en_sdk (cn_env N))) (UserEd25519 sig (kp_publicKey (rq_keypair req))) = Some ub"
      and out: "out = \<lparr>sr_userSignature = ub, sr_signedRequestData = sr_signedRequestData unsigned\<rparr>" and t: "t = t'"
    by (auto simp: signedBySigner_def Let_def bindN_def awaitRead_def requestKeySigner_def requestKeySignRequest_def
        requestKeySign_def liftT_def liftN_def returnN_def throwN_def mapErr_eq_Inr mapErr_eq_Inl result_simps
        split: sum.split_asm if_split_asm option.split_asm)
  from grpc sig ub public have
    "signGrpcRequest (en_sdk (cn_env N)) (edSign (en_ed25519 (cn_env N))) (keypairOfRequestKey key) d object (ns_holders s) = Inr out"
    by (auto simp: signGrpcRequest_serialized signSerializedRequest_Inr keypairOfRequestKey_def free out)
  with t t' ver public out show ?thesis
    by (auto simp: signFor_def signingRequest_def withState_def liftN_def mapErr_def)
qed

section \<open>What the signer of an app's requests checks\<close>

text \<open>The bytes a request is signed over decode to what the request is.\<close>

theorem decodeSignedRequest_signed:
  assumes "codec_ok (signedRequestDataBcs L)" "signRequestBytes L sign keypair d = Inr out"
  shows "decodeSignedRequest L (sr_signedRequestData out) = Inr
     \<lparr>dr_kind = requestKindName (req_request d), dr_chain = chainName (req_chain_id d),
      dr_intendedChainSender = req_intended_chain_sender d, dr_epoch = req_epoch d, dr_request = req_request d\<rparr>"
  using assms by (auto simp: signRequestBytes_def signSerializedRequest_Inr decodeSignedRequest_def result_simps codec_okD)

end
