(* ===== verification/Real_Cryptography.thy ===== *)
theory Real_Cryptography
  imports Engine_Connect
begin

text \<open>
  The user's half of each protocol step in the 2PC-MPC protocol (\<open>client/cryptography.ts\<close>,
  \<open>client/user-cryptography.ts\<close>): each step refuses mock values, numbers its curve, algorithm and hash, and
  calls the WASM module, whose functions are parameters. A function that draws random numbers takes the time it
  runs at.
\<close>

section \<open>The WASM module\<close>

text \<open>\<open>SignatureHashContextBcs\<close>.\<close>

datatype hash_context = ContextNone | ContextBlake2b bytes bytes | ContextSchnorrkel bytes

record wasm_lib =
  network_dkg_public_output_to_protocol_pp :: "int \<Rightarrow> bytes \<Rightarrow> sdk_error + bytes"
  reconfiguration_public_output_to_protocol_pp :: "int \<Rightarrow> bytes \<Rightarrow> bytes \<Rightarrow> sdk_error + bytes"
  create_dkg_centralized_output_v2 :: "int \<Rightarrow> bytes \<Rightarrow> bytes \<Rightarrow> time \<Rightarrow> sdk_error + bytes \<times> bytes \<times> bytes"
  create_imported_dwallet_centralized_step ::
    "int \<Rightarrow> bytes \<Rightarrow> bytes \<Rightarrow> bytes \<Rightarrow> time \<Rightarrow> sdk_error + bytes \<times> bytes \<times> bytes"
  encrypt_secret_share :: "int \<Rightarrow> bytes \<Rightarrow> bytes \<Rightarrow> bytes \<Rightarrow> time \<Rightarrow> sdk_error + bytes"
  decrypt_user_share :: "int \<Rightarrow> bytes \<Rightarrow> bytes \<Rightarrow> bytes \<Rightarrow> bytes \<Rightarrow> sdk_error + bytes"
  verify_user_share :: "int \<Rightarrow> bytes \<Rightarrow> bytes \<Rightarrow> bytes \<Rightarrow> sdk_error + bool"
  create_sign_user_message ::
    "bytes \<Rightarrow> bytes \<Rightarrow> bytes \<Rightarrow> bytes \<Rightarrow> bytes \<Rightarrow> int \<Rightarrow> int \<Rightarrow> int \<Rightarrow> bytes option \<Rightarrow> sdk_error + bytes"
  create_sign_message_with_dkg_output ::
    "bytes \<Rightarrow> bytes \<Rightarrow> bytes \<Rightarrow> bytes \<Rightarrow> bytes \<Rightarrow> int \<Rightarrow> int \<Rightarrow> int \<Rightarrow> bytes option \<Rightarrow> sdk_error + bytes"
  create_sign_message_ecdsa_blake2b256 ::
    "bytes \<Rightarrow> bytes \<Rightarrow> bytes \<Rightarrow> bytes \<Rightarrow> bytes \<Rightarrow> bytes \<Rightarrow> bytes \<Rightarrow> sdk_error + bytes"
  verify_signature :: "int \<Rightarrow> int \<Rightarrow> int \<Rightarrow> bytes option \<Rightarrow> bytes \<Rightarrow> bytes \<Rightarrow> bytes \<Rightarrow> sdk_error + unit"
  verify_ecdsa_blake2b256_signature :: "bytes \<Rightarrow> bytes \<Rightarrow> bytes \<Rightarrow> bytes \<Rightarrow> bytes \<Rightarrow> sdk_error + unit"
  public_key_from_dwallet_output :: "int \<Rightarrow> bytes \<Rightarrow> sdk_error + bytes"
  public_key_from_centralized_dkg_output :: "int \<Rightarrow> bytes \<Rightarrow> sdk_error + bytes"
  dwallet_output_at_latest_version :: "int \<Rightarrow> bytes \<Rightarrow> bytes \<Rightarrow> sdk_error + bytes"
  parties_dkg_output_match :: "int \<Rightarrow> bytes \<Rightarrow> bytes \<Rightarrow> sdk_error + bool"
  signatureHashContextBcs :: "hash_context bcs_type"
  wl_schnorrkelMetadataBcs :: "bytes bcs_type"
  wl_blake2bMetadataBcs :: "(bytes \<times> bytes) bcs_type"

section \<open>Steps\<close>

text \<open>A step: the refusal of mock values, then the curve's number, then the module.\<close>

definition onCurve :: "bytes list \<Rightarrow> curve \<Rightarrow> (int \<Rightarrow> sdk_error + 'a) \<Rightarrow> sdk_error + 'a" where
  "onCurve values curve f = seqE (refuseMockValues values) (bindE (curveNumber curve) f)"

definition combinationNumbers :: "curve \<Rightarrow> sig_alg \<Rightarrow> hash_name \<Rightarrow> sdk_error + int \<times> int \<times> int" where
  "combinationNumbers curve algorithm h =
     mapErr (\<lambda>_. Err ''Invalid curve, signature algorithm and hash'')
       (fromCurveAndSignatureAlgorithmAndHashToNumbers curve algorithm h)"

text \<open>\<open>hashContext === undefined ? undefined : SignatureHashContextBcs.serialize(hashContext)\<close>; the SDK passes a
  Schnorrkel context, by its bytes.\<close>

definition contextBytes :: "wasm_lib \<Rightarrow> bytes option \<Rightarrow> sdk_error + bytes option" where
  "contextBytes W context =
     (case context of
        None \<Rightarrow> Inr None
      | Some c \<Rightarrow> bindE (ofOption (Err ''bcs'') (serialize (signatureHashContextBcs W) (ContextSchnorrkel c))) (\<lambda>b.
          Inr (Some b)))"

definition realNetworkDkgToParameters :: "wasm_lib \<Rightarrow> curve \<Rightarrow> bytes \<Rightarrow> sdk_error + bytes" where
  "realNetworkDkgToParameters W curve dkg =
     onCurve [dkg] curve (\<lambda>n. network_dkg_public_output_to_protocol_pp W n dkg)"

definition realReconfigurationToParameters :: "wasm_lib \<Rightarrow> curve \<Rightarrow> bytes \<Rightarrow> bytes \<Rightarrow> sdk_error + bytes" where
  "realReconfigurationToParameters W curve reconfiguration dkg =
     onCurve [reconfiguration, dkg] curve (\<lambda>n. reconfiguration_public_output_to_protocol_pp W n reconfiguration dkg)"

definition realPrepareDKG :: "wasm_lib \<Rightarrow> bytes \<Rightarrow> curve \<Rightarrow> bytes \<Rightarrow> time \<Rightarrow> sdk_error + prepared_step" where
  "realPrepareDKG W parameters curve session now =
     onCurve [parameters] curve (\<lambda>n.
       bindE (create_dkg_centralized_output_v2 W n parameters session now) (\<lambda>(message, out, share).
       Inr \<lparr>userMessage = message, userSecretKeyShare = share, userPublicOutput = out\<rparr>))"

definition realPrepareImportedKey ::
    "wasm_lib \<Rightarrow> bytes \<Rightarrow> curve \<Rightarrow> bytes \<Rightarrow> bytes \<Rightarrow> time \<Rightarrow> sdk_error + prepared_step" where
  "realPrepareImportedKey W parameters curve session secretKey now =
     onCurve [parameters] curve (\<lambda>n.
       bindE (create_imported_dwallet_centralized_step W n parameters session secretKey now) (\<lambda>(share, out, message).
       Inr \<lparr>userMessage = message, userSecretKeyShare = share, userPublicOutput = out\<rparr>))"

definition realEncryptSecretShare ::
    "wasm_lib \<Rightarrow> curve \<Rightarrow> bytes \<Rightarrow> bytes \<Rightarrow> bytes \<Rightarrow> time \<Rightarrow> sdk_error + bytes" where
  "realEncryptSecretShare W curve share encryptionKey parameters now =
     onCurve [parameters] curve (\<lambda>n. encrypt_secret_share W n share encryptionKey parameters now)"

definition verifyUserShare :: "wasm_lib \<Rightarrow> curve \<Rightarrow> bytes \<Rightarrow> bytes \<Rightarrow> bytes \<Rightarrow> sdk_error + bool" where
  "verifyUserShare W curve share out parameters =
     onCurve [out, parameters] curve (\<lambda>n. verify_user_share W n share out parameters)"

definition realDecryptUserShareOfOutput ::
    "wasm_lib \<Rightarrow> curve \<Rightarrow> bytes \<Rightarrow> bytes \<Rightarrow> bytes \<Rightarrow> bytes \<Rightarrow> sdk_error + bytes" where
  "realDecryptUserShareOfOutput W curve decryptionKey out encrypted parameters =
     onCurve [out, encrypted, parameters] curve (\<lambda>n.
       bindE (decrypt_user_share W n decryptionKey out encrypted parameters) (\<lambda>share.
       bindE (verifyUserShare W curve share out parameters) (\<lambda>ok.
       if \<not> ok then Inl (Err ''the decrypted share is not a share of the dWallet's public output'') else Inr share)))"

definition realCreateUserSignMessage ::
    "wasm_lib \<Rightarrow> bytes \<Rightarrow> bytes \<Rightarrow> bytes \<Rightarrow> bytes \<Rightarrow> bytes \<Rightarrow> hash_name \<Rightarrow> sig_alg \<Rightarrow> curve \<Rightarrow> bytes option
      \<Rightarrow> sdk_error + bytes" where
  "realCreateUserSignMessage W parameters out share presign message h algorithm curve context =
     seqE (refuseMockValues [parameters, out, presign])
    (bindE (combinationNumbers curve algorithm h) (\<lambda>(curveNum, algorithmNum, hashNum).
     bindE (contextBytes W context) (\<lambda>c.
     create_sign_user_message W parameters out share presign message hashNum algorithmNum curveNum c)))"

definition realCreateUserSignMessageOfUserOutput ::
    "wasm_lib \<Rightarrow> bytes \<Rightarrow> bytes \<Rightarrow> bytes \<Rightarrow> bytes \<Rightarrow> bytes \<Rightarrow> hash_name \<Rightarrow> sig_alg \<Rightarrow> curve \<Rightarrow> bytes option
      \<Rightarrow> sdk_error + bytes" where
  "realCreateUserSignMessageOfUserOutput W parameters userOutput share presign message h algorithm curve context =
     seqE (refuseMockValues [parameters, userOutput, presign])
    (bindE (combinationNumbers curve algorithm h) (\<lambda>(curveNum, algorithmNum, hashNum).
     bindE (contextBytes W context) (\<lambda>c.
     create_sign_message_with_dkg_output W parameters userOutput share presign message hashNum algorithmNum curveNum c)))"

definition realCreateUserSignMessageBlake2b ::
    "wasm_lib \<Rightarrow> bytes \<Rightarrow> bytes \<Rightarrow> bytes \<Rightarrow> bytes \<Rightarrow> bytes \<Rightarrow> bytes \<Rightarrow> bytes \<Rightarrow> sdk_error + bytes" where
  "realCreateUserSignMessageBlake2b W parameters out share presign message personal salt =
     seqE (refuseMockValues [parameters, out, presign])
       (create_sign_message_ecdsa_blake2b256 W parameters out share presign message personal salt)"

definition realVerifySignature ::
    "wasm_lib \<Rightarrow> curve \<Rightarrow> sig_alg \<Rightarrow> hash_name \<Rightarrow> bytes \<Rightarrow> bytes \<Rightarrow> bytes \<Rightarrow> bytes option \<Rightarrow> sdk_error + unit" where
  "realVerifySignature W curve algorithm h out message signature context =
     seqE (refuseMockValues [out])
    (bindE (combinationNumbers curve algorithm h) (\<lambda>(curveNum, algorithmNum, hashNum).
     bindE (contextBytes W context) (\<lambda>c.
     verify_signature W curveNum algorithmNum hashNum c out message signature)))"

definition realVerifyBlake2bSignature ::
    "wasm_lib \<Rightarrow> bytes \<Rightarrow> bytes \<Rightarrow> bytes \<Rightarrow> bytes \<Rightarrow> bytes \<Rightarrow> sdk_error + unit" where
  "realVerifyBlake2bSignature W out message signature personal salt =
     seqE (refuseMockValues [out]) (verify_ecdsa_blake2b256_signature W personal salt out message signature)"

definition realPublicKeyFromDWalletOutput :: "wasm_lib \<Rightarrow> curve \<Rightarrow> bytes \<Rightarrow> sdk_error + bytes" where
  "realPublicKeyFromDWalletOutput W curve out = onCurve [out] curve (\<lambda>n. public_key_from_dwallet_output W n out)"

definition realPublicKeyFromDKGOutput :: "wasm_lib \<Rightarrow> curve \<Rightarrow> bytes \<Rightarrow> sdk_error + bytes" where
  "realPublicKeyFromDKGOutput W curve out = onCurve [out] curve (\<lambda>n. public_key_from_centralized_dkg_output W n out)"

definition dWalletOutputAtLatestVersion :: "wasm_lib \<Rightarrow> curve \<Rightarrow> bytes \<Rightarrow> bytes \<Rightarrow> sdk_error + bytes" where
  "dWalletOutputAtLatestVersion W curve out publicKey =
     onCurve [out] curve (\<lambda>n. dwallet_output_at_latest_version W n out publicKey)"

definition realOutputMatch :: "wasm_lib \<Rightarrow> curve \<Rightarrow> bytes \<Rightarrow> bytes \<Rightarrow> sdk_error + bool" where
  "realOutputMatch W curve userOutput networkOutput =
     onCurve [userOutput, networkOutput] curve (\<lambda>n. parties_dkg_output_match W n userOutput networkOutput)"

definition realDecryptUserShare ::
    "wasm_lib \<Rightarrow> int \<Rightarrow> bytes \<Rightarrow> bytes \<Rightarrow> bytes \<Rightarrow> bytes \<Rightarrow> sdk_error + bytes" where
  "realDecryptUserShare W curveNum decryptionKey out encrypted parameters =
     seqE (refuseMockValues [out, encrypted, parameters])
       (decrypt_user_share W curveNum decryptionKey out encrypted parameters)"

section \<open>The cryptography of a client\<close>

definition realUserCryptography :: "wasm_lib \<Rightarrow> user_cryptography" where
  "realUserCryptography W =
     \<lparr>verifySignature = realVerifySignature W,
      verifyEcdsaBlake2b256Signature = realVerifyBlake2bSignature W,
      createUserSignMessageWithPublicOutput = realCreateUserSignMessage W,
      createUserSignMessageWithUserPublicOutput = realCreateUserSignMessageOfUserOutput W,
      createUserSignMessageEcdsaBlake2b256 = realCreateUserSignMessageBlake2b W,
      decryptUserShare = realDecryptUserShare W,
      userAndNetworkDKGOutputMatch = realOutputMatch W,
      publicKeyFromDWalletOutput = realPublicKeyFromDWalletOutput W,
      schnorrkelMetadataBcs = wl_schnorrkelMetadataBcs W, blake2bMetadataBcs = wl_blake2bMetadataBcs W\<rparr>"

definition realCryptography :: "wasm_lib \<Rightarrow> engine_cryptography" where
  "realCryptography W =
     \<lparr>ec_user = realUserCryptography W, ec_mock = False,
      prepareDKGForSessionIdentifier = realPrepareDKG W,
      prepareImportedKeyVerification = realPrepareImportedKey W,
      encryptSecretShare = realEncryptSecretShare W,
      publicKeyFromCentralizedDKGOutput = realPublicKeyFromDKGOutput W,
      networkDkgToParameters = realNetworkDkgToParameters W,
      reconfigurationToParameters = realReconfigurationToParameters W,
      decryptUserShareOfOutput = realDecryptUserShareOfOutput W\<rparr>"

end
