(* ===== verification/Mock_Cryptography.thy ===== *)
theory Mock_Cryptography
  imports Engine_Connect
begin

text \<open>
  The user's half of each protocol step for a mock ika network (\<open>client/mock-cryptography.ts\<close>), whose backend holds
  an ordinary key for each dWallet. Each step accepts mock values only. The signature verifiers and the hashes
  of \<open>@noble/curves\<close> and \<open>@noble/hashes\<close> are parameters: a verifier gives \<open>None\<close> where it throws.
\<close>

section \<open>Libraries\<close>

text \<open>\<open>verify signature message key\<close>; \<open>recoverPublicKey signature digest\<close>; \<open>randomOf n\<close> at a time is \<open>n\<close> random bytes.\<close>

record mock_lib =
  secp256k1Verify :: "bytes \<Rightarrow> bytes \<Rightarrow> bytes \<Rightarrow> bool option"
  secp256k1Recover :: "bytes \<Rightarrow> bytes \<Rightarrow> bytes option"
  p256Verify :: "bytes \<Rightarrow> bytes \<Rightarrow> bytes \<Rightarrow> bool option"
  p256Recover :: "bytes \<Rightarrow> bytes \<Rightarrow> bytes option"
  schnorrVerify :: "bytes \<Rightarrow> bytes \<Rightarrow> bytes \<Rightarrow> bool option"
  strictEd25519Verify :: "bytes \<Rightarrow> bytes \<Rightarrow> bytes \<Rightarrow> bool option"
  ml_keccak :: hash
  ml_sha256 :: hash
  ml_blake2b :: "bytes \<Rightarrow> bytes \<Rightarrow> bytes \<Rightarrow> bytes"
  randomOf :: "nat \<Rightarrow> time \<Rightarrow> bytes"
  ml_schnorrkelMetadataBcs :: "bytes bcs_type"
  ml_blake2bMetadataBcs :: "(bytes \<times> bytes) bcs_type"

section \<open>Mock values\<close>

definition SHARE_LENGTHS :: "nat list" where
  "SHARE_LENGTHS = [35, 35, 34, 34]"

definition notOfKind :: sdk_error where
  "notOfKind = Err ''a client in mock mode was given a value that is not a mock value of its kind''"

definition payloadOf :: "bytes \<Rightarrow> mock_kind \<Rightarrow> sdk_error + bytes" where
  "payloadOf bs kind =
     (if \<not> isMockValue bs \<or> bs ! length MOCK_MAGIC \<noteq> mockKindByte kind then Inl notOfKind
      else Inr (drop (length MOCK_MAGIC + 1) bs))"

definition mockNetworkKeyOutput :: bytes where
  "mockNetworkKeyOutput = mockValue MockNetworkKeyOutput []"

definition curveByte :: "int \<Rightarrow> byte" where
  "curveByte curveNum = word_of_int curveNum"

definition mockProtocolPublicParameters :: "int \<Rightarrow> bytes \<Rightarrow> sdk_error + bytes" where
  "mockProtocolPublicParameters curveNum networkKeyOutput =
     bindE (payloadOf networkKeyOutput MockNetworkKeyOutput) (\<lambda>_.
       Inr (mockValue MockProtocolPublicParameters [curveByte curveNum]))"

definition curveOfParameters :: "bytes \<Rightarrow> int \<Rightarrow> sdk_error + unit" where
  "curveOfParameters parameters curveNum =
     bindE (payloadOf parameters MockProtocolPublicParameters) (\<lambda>payload.
       guardE (\<not> (length payload \<noteq> 1 \<or> uint (payload ! 0) \<noteq> curveNum))
         (Err ''the mock protocol parameters are not for the curve''))"

text \<open>\<open>SHARE_LENGTHS[curve]!\<close>.\<close>

definition shareLength :: "int \<Rightarrow> sdk_error + nat" where
  "shareLength curveNum = ofOption (TypeErr ''undefined'') (element SHARE_LENGTHS curveNum)"

definition mockPrepareDKG :: "mock_lib \<Rightarrow> bytes \<Rightarrow> int \<Rightarrow> time \<Rightarrow> sdk_error + prepared_step" where
  "mockPrepareDKG M parameters curveNum now =
     seqE (curveOfParameters parameters curveNum)
    (bindE (shareLength curveNum) (\<lambda>n.
     Inr \<lparr>userMessage = mockValue MockKeyMessage [curveByte curveNum], userSecretKeyShare = randomOf M n now,
          userPublicOutput = mockValue MockUserOutput [curveByte curveNum]\<rparr>))"

definition mockPrepareImportedKey :: "mock_lib \<Rightarrow> bytes \<Rightarrow> int \<Rightarrow> bytes \<Rightarrow> time \<Rightarrow> sdk_error + prepared_step" where
  "mockPrepareImportedKey M parameters curveNum secretKey now = mockPrepareDKG M parameters curveNum now"

definition mockUserOutputCurve :: "bytes \<Rightarrow> sdk_error + int" where
  "mockUserOutputCurve out =
     bindE (payloadOf out MockUserOutput) (\<lambda>payload.
       if length payload \<noteq> 1 then Inl (Err ''the mock user's DKG output is not one curve number'')
       else Inr (uint (payload ! 0)))"

definition mockDWalletOutput :: "int \<Rightarrow> bytes \<Rightarrow> bytes" where
  "mockDWalletOutput curveNum publicKey = mockValue MockDWalletOutput (curveByte curveNum # publicKey)"

definition mockOutputKey :: "bytes \<Rightarrow> sdk_error + int \<times> bytes" where
  "mockOutputKey out =
     bindE (payloadOf out MockDWalletOutput) (\<lambda>payload.
       if length payload < 33 then Inl (Err ''the mock dWallet output is too short'')
       else Inr (uint (payload ! 0), drop 1 payload))"

definition mockPublicKeyOfOutput :: "int \<Rightarrow> bytes \<Rightarrow> sdk_error + bytes" where
  "mockPublicKeyOfOutput curveNum out =
     bindE (mockOutputKey out) (\<lambda>(keyCurve, key).
       if keyCurve \<noteq> curveNum then Inl (Err ''the mock dWallet output is on another curve'') else Inr key)"

definition mockEncryptShare :: "bytes \<Rightarrow> int \<Rightarrow> bytes \<Rightarrow> sdk_error + bytes" where
  "mockEncryptShare parameters curveNum share =
     seqE (curveOfParameters parameters curveNum) (Inr (mockValue MockEncryptedShare share))"

text \<open>\<open>SHARE_LENGTHS[curve]\<close> compared, which may be \<open>undefined\<close>.\<close>

definition mockDecryptShare :: "int \<Rightarrow> bytes \<Rightarrow> sdk_error + bytes" where
  "mockDecryptShare curveNum encrypted =
     bindE (payloadOf encrypted MockEncryptedShare) (\<lambda>share.
       if Some (length share) \<noteq> element SHARE_LENGTHS curveNum
       then Inl (Err ''the mock share is not a share of the curve'') else Inr share)"

definition mockSignMessage :: "bytes \<Rightarrow> int \<Rightarrow> bytes \<Rightarrow> sdk_error + bytes" where
  "mockSignMessage parameters curveNum presign =
     seqE (curveOfParameters parameters curveNum)
    (bindE (payloadOf presign MockPresign) (\<lambda>_. Inr (mockValue MockSignMessage [])))"

section \<open>Verifying a mock signature\<close>

datatype mock_hash = MockHash hash_name | MockBlake2b256

definition padded16 :: "bytes \<Rightarrow> sdk_error + bytes" where
  "padded16 bs =
     (if length bs > 16 then Inl (Err ''a BLAKE2b personal or salt is at most 16 bytes'')
      else Inr (bs @ replicate (16 - length bs) 0))"

definition messageDigest :: "mock_lib \<Rightarrow> mock_hash \<Rightarrow> bytes \<Rightarrow> (bytes \<times> bytes) option \<Rightarrow> sdk_error + bytes" where
  "messageDigest M h message blake2bContext =
     (case h of
        MockHash KECCAK256 \<Rightarrow> Inr (ml_keccak M message)
      | MockHash SHA256 \<Rightarrow> Inr (ml_sha256 M message)
      | MockHash DoubleSHA256 \<Rightarrow> Inr (ml_sha256 M (ml_sha256 M message))
      | MockBlake2b256 \<Rightarrow>
          let (personal, salt) = (case blake2bContext of None \<Rightarrow> ([], []) | Some c \<Rightarrow> c) in
          bindE (padded16 personal) (\<lambda>p. bindE (padded16 salt) (\<lambda>s. Inr (ml_blake2b M p s message)))
      | _ \<Rightarrow> Inl (Err ''an ECDSA signature is not made over this hash''))"

definition taprootKey :: "bytes \<Rightarrow> bytes" where
  "taprootKey compressed = drop 1 compressed"

definition mockVerifyFailed :: sdk_error where
  "mockVerifyFailed = Err ''the signature does not verify under the dWallet's public key''"

text \<open>\<open>if (!verify(...)) fail()\<close>, for a verifier that may throw.\<close>

definition requireVerifies :: "bool option \<Rightarrow> sdk_error + unit" where
  "requireVerifies verifies = bindE (ofOption (Err ''noble'') verifies) (\<lambda>b. guardE b mockVerifyFailed)"

definition mockVerifyEcdsa ::
    "mock_lib \<Rightarrow> sig_alg \<Rightarrow> mock_hash \<Rightarrow> (bytes \<times> bytes) option \<Rightarrow> bytes \<Rightarrow> bytes \<Rightarrow> bytes \<Rightarrow> sdk_error + unit" where
  "mockVerifyEcdsa M algorithm h blake2bContext publicKey message signature =
     bindE (messageDigest M h message blake2bContext) (\<lambda>digest.
     seqE (guardE (length signature = 65) mockVerifyFailed)
    (seqE (requireVerifies
             ((if algorithm = ECDSASecp256k1 then secp256k1Verify M else p256Verify M) (drop 1 signature) digest publicKey))
    (bindE (ofOption mockVerifyFailed
             ((if algorithm = ECDSASecp256k1 then secp256k1Recover M else p256Recover M) signature digest)) (\<lambda>recovered.
     guardE (equalBytes recovered publicKey)
       (Err ''the ECDSA signature's recovery byte does not recover the dWallet's public key'')))))"

definition mockVerifySignature ::
    "mock_lib \<Rightarrow> int \<Rightarrow> sig_alg \<Rightarrow> mock_hash \<Rightarrow> (bytes \<times> bytes) option \<Rightarrow> bytes \<Rightarrow> bytes \<Rightarrow> bytes \<Rightarrow> sdk_error + unit" where
  "mockVerifySignature M curveNum algorithm h blake2bContext out message signature =
     bindE (mockPublicKeyOfOutput curveNum out) (\<lambda>publicKey.
     case algorithm of
       ECDSASecp256k1 \<Rightarrow> mockVerifyEcdsa M algorithm h blake2bContext publicKey message signature
     | ECDSASecp256r1 \<Rightarrow> mockVerifyEcdsa M algorithm h blake2bContext publicKey message signature
     | Taproot \<Rightarrow>
         seqE (guardE (h = MockHash SHA256) mockVerifyFailed)
           (requireVerifies (schnorrVerify M signature (ml_sha256 M message) (taprootKey publicKey)))
     | EdDSA \<Rightarrow> requireVerifies (strictEd25519Verify M signature message publicKey)
     | Schnorrkel \<Rightarrow> guardE (length signature = 64) mockVerifyFailed)"

section \<open>The cryptography of a client\<close>

definition decryptedMockShare :: "int \<Rightarrow> bytes \<Rightarrow> bytes \<Rightarrow> bytes \<Rightarrow> sdk_error + bytes" where
  "decryptedMockShare curveNum out encrypted parameters =
     seqE (curveOfParameters parameters curveNum)
    (bindE (mockPublicKeyOfOutput curveNum out) (\<lambda>_. mockDecryptShare curveNum encrypted))"

definition mockOutputMatch :: "curve \<Rightarrow> bytes \<Rightarrow> bytes \<Rightarrow> sdk_error + bool" where
  "mockOutputMatch curve userOutput networkOutput =
     (if \<not> isMockValue userOutput \<or> \<not> isMockValue networkOutput then Inr False
      else bindE (mockOutputKey networkOutput) (\<lambda>(networkCurve, _).
           bindE (curveNumber curve) (\<lambda>n.
           bindE (mockUserOutputCurve userOutput) (\<lambda>userCurve.
           Inr (userCurve = n \<and> networkCurve = n)))))"

definition mockCreateUserSignMessage ::
    "bytes \<Rightarrow> bytes \<Rightarrow> bytes \<Rightarrow> bytes \<Rightarrow> bytes \<Rightarrow> hash_name \<Rightarrow> sig_alg \<Rightarrow> curve \<Rightarrow> bytes option \<Rightarrow> sdk_error + bytes" where
  "mockCreateUserSignMessage parameters out share presign message h algorithm curve context =
     bindE (curveNumber curve) (\<lambda>n.
     bindE (mockPublicKeyOfOutput n out) (\<lambda>_. mockSignMessage parameters n presign))"

definition mockCreateUserSignMessageOfUserOutput ::
    "bytes \<Rightarrow> bytes \<Rightarrow> bytes \<Rightarrow> bytes \<Rightarrow> bytes \<Rightarrow> hash_name \<Rightarrow> sig_alg \<Rightarrow> curve \<Rightarrow> bytes option \<Rightarrow> sdk_error + bytes" where
  "mockCreateUserSignMessageOfUserOutput parameters userOutput share presign message h algorithm curve context =
     bindE (curveNumber curve) (\<lambda>n.
     bindE (mockUserOutputCurve userOutput) (\<lambda>userCurve.
     if userCurve \<noteq> n then Inl (Err ''the mock user's DKG output is for another curve'')
     else mockSignMessage parameters n presign))"

definition mockCreateUserSignMessageBlake2b ::
    "bytes \<Rightarrow> bytes \<Rightarrow> bytes \<Rightarrow> bytes \<Rightarrow> bytes \<Rightarrow> bytes \<Rightarrow> bytes \<Rightarrow> sdk_error + bytes" where
  "mockCreateUserSignMessageBlake2b parameters out share presign message personal salt =
     bindE (mockPublicKeyOfOutput 0 out) (\<lambda>_. mockSignMessage parameters 0 presign)"

definition mockPublicKeyFromDKGOutput :: "curve \<Rightarrow> bytes \<Rightarrow> sdk_error + bytes" where
  "mockPublicKeyFromDKGOutput curve userOutput =
     bindE (mockUserOutputCurve userOutput) (\<lambda>_.
       Inl (Err ''a mock dWallet's key is made by the mock network, so its public key is known only from the network's answer''))"

definition mockUserCryptography :: "mock_lib \<Rightarrow> user_cryptography" where
  "mockUserCryptography M =
     \<lparr>verifySignature = (\<lambda>curve algorithm h out message signature context.
        bindE (curveNumber curve) (\<lambda>n. mockVerifySignature M n algorithm (MockHash h) None out message signature)),
      verifyEcdsaBlake2b256Signature = (\<lambda>out message signature personal salt.
        mockVerifySignature M 0 ECDSASecp256k1 MockBlake2b256 (Some (personal, salt)) out message signature),
      createUserSignMessageWithPublicOutput = mockCreateUserSignMessage,
      createUserSignMessageWithUserPublicOutput = mockCreateUserSignMessageOfUserOutput,
      createUserSignMessageEcdsaBlake2b256 = mockCreateUserSignMessageBlake2b,
      decryptUserShare = (\<lambda>curveNum decryptionKey out encrypted parameters.
        decryptedMockShare curveNum out encrypted parameters),
      userAndNetworkDKGOutputMatch = mockOutputMatch,
      publicKeyFromDWalletOutput = (\<lambda>curve out. bindE (curveNumber curve) (\<lambda>n. mockPublicKeyOfOutput n out)),
      schnorrkelMetadataBcs = ml_schnorrkelMetadataBcs M, blake2bMetadataBcs = ml_blake2bMetadataBcs M\<rparr>"

definition mockCryptography :: "mock_lib \<Rightarrow> engine_cryptography" where
  "mockCryptography M =
     \<lparr>ec_user = mockUserCryptography M, ec_mock = True,
      prepareDKGForSessionIdentifier = (\<lambda>parameters curve session now.
        bindE (curveNumber curve) (\<lambda>n. mockPrepareDKG M parameters n now)),
      prepareImportedKeyVerification = (\<lambda>parameters curve session secretKey now.
        bindE (curveNumber curve) (\<lambda>n. mockPrepareImportedKey M parameters n secretKey now)),
      encryptSecretShare = (\<lambda>curve share encryptionKey parameters now.
        bindE (curveNumber curve) (\<lambda>n. mockEncryptShare parameters n share)),
      publicKeyFromCentralizedDKGOutput = mockPublicKeyFromDKGOutput,
      networkDkgToParameters = (\<lambda>curve dkg. bindE (curveNumber curve) (\<lambda>n. mockProtocolPublicParameters n dkg)),
      reconfigurationToParameters = (\<lambda>curve reconfiguration dkg.
        Inl (Err ''a mock network has no reconfiguration output'')),
      decryptUserShareOfOutput = (\<lambda>curve decryptionKey out encrypted parameters.
        bindE (curveNumber curve) (\<lambda>n. decryptedMockShare n out encrypted parameters))\<rparr>"

end
