(* ===== verification/Mode_Laws.thy ===== *)
theory Mode_Laws
  imports Real_Cryptography Mock_Cryptography Signing_Laws
begin

text \<open>
  The two modes of a client's cryptography. The locale \<open>user_mode\<close> is what both promise: a step returns only when
  the protocol values it was given are of its own mode. It is interpreted for the 2PC-MPC protocol, whose values
  are no mock values, and for the mock, whose values all are; and what one of two such modes accepts the other
  refuses, in a single step and in a whole signature.
\<close>

section \<open>The contract of a mode\<close>

locale user_mode =
  fixes U :: user_cryptography and own :: "bytes \<Rightarrow> bool"
  assumes sign_own:
      "createUserSignMessageWithPublicOutput U p out share presign message h a c ctx = Inr m \<Longrightarrow>
         own p \<and> own out \<and> own presign"
    and sign_user_own:
      "createUserSignMessageWithUserPublicOutput U p out share presign message h a c ctx = Inr m \<Longrightarrow>
         own p \<and> own out \<and> own presign"
    and sign_blake2b_own:
      "createUserSignMessageEcdsaBlake2b256 U p out share presign message personal salt = Inr m \<Longrightarrow>
         own p \<and> own out \<and> own presign"
    and verify_own: "verifySignature U c a h out message signature ctx = Inr u \<Longrightarrow> own out"
    and verify_blake2b_own: "verifyEcdsaBlake2b256Signature U out message signature personal salt = Inr u \<Longrightarrow> own out"
    and decrypt_own: "decryptUserShare U n key out encrypted p = Inr share \<Longrightarrow> own out \<and> own encrypted \<and> own p"
    and match_own: "userAndNetworkDKGOutputMatch U c userOut networkOut = Inr True \<Longrightarrow> own userOut \<and> own networkOut"
    and key_own: "publicKeyFromDWalletOutput U c out = Inr k \<Longrightarrow> own out"
begin

lemma user_sign_message_own:
  assumes "userSignMessageWithScheme U i kind = Inr m"
  shows "own (si_protocolPublicParameters i) \<and> own (si_output i) \<and> own (si_presign i)"
proof -
  have branch: "(if b then x else y) = Inr r \<Longrightarrow> (b \<Longrightarrow> x = Inr r \<Longrightarrow> P) \<Longrightarrow> (\<not> b \<Longrightarrow> y = Inr r \<Longrightarrow> P) \<Longrightarrow> P"
    for b P and x y :: "sdk_error + bytes" and r
    by (cases b) auto
  have step: "bindE f g = Inr r \<Longrightarrow> (\<And>x. g x = Inr r \<Longrightarrow> P) \<Longrightarrow> P"
    for f :: "sdk_error + 'x" and g :: "'x \<Rightarrow> sdk_error + bytes" and r P
    by (cases f) (auto simp: bindE_def)
  show ?thesis
    using assms unfolding userSignMessageWithScheme_def Let_def
    by (elim branch step case_prodE) (simp_all split: if_split_asm prod.split_asm, (blast dest: sign_own sign_user_own sign_blake2b_own)+)
qed

lemma answered_signature_own:
  assumes "signatureFromResponseVerified U response expected = Inr signature"
  shows "own (es_output expected)"
  using assms
  by (auto simp: signatureFromResponseVerified_def result_simps verify_method split: transaction_response.split_asm)
    (metis signing_method.exhaust verifiesBy.simps verify_own verify_blake2b_own)

lemma attested_key_own: "requireAttestedKeyOfOutput U att = Inr u \<Longrightarrow> own (dw_public_output att)"
  by (auto simp: requireAttestedKeyOfOutput_def result_simps dest: key_own)

lemma requestSignature_own:
  assumes "ec_user (cn_cryptography N) = U" "requestSignature N req args now s = Some (t, s', Inr signature)"
  shows "own (cn_protocolPublicParameters N) \<and> own (dl_networkPublicOutput (sa_dwallet args)) \<and>
    own (pg_material (sa_presign args))"
  using assms(2) unfolding requestSignature_def userSignMessage_def createUserSignMessageWithScheme_def
  by (auto simp: result_simps Let_def assms(1) signInputs_def dest!: user_sign_message_own)

end

text \<open>A connection's mode also bounds what it prepares, encrypts and derives its parameters from.\<close>

locale engine_mode = user_mode "ec_user K" own for K :: engine_cryptography and own :: "bytes \<Rightarrow> bool" +
  assumes parameters_own: "networkDkgToParameters K c dkgOut = Inr p \<Longrightarrow> own dkgOut"
    and reconfiguration_own: "reconfigurationToParameters K c r dkgOut = Inr p \<Longrightarrow> own r \<and> own dkgOut"
    and prepare_own: "prepareDKGForSessionIdentifier K p c session now = Inr x \<Longrightarrow> own p"
    and import_own: "prepareImportedKeyVerification K p c session secretKey now = Inr x \<Longrightarrow> own p"
    and encrypt_own: "encryptSecretShare K c share ek p now = Inr e \<Longrightarrow> own p"
    and open_own: "decryptUserShareOfOutput K c key out encrypted p = Inr share \<Longrightarrow> own out \<and> own encrypted \<and> own p"
    and user_key_own: "publicKeyFromCentralizedDKGOutput K c out = Inr k \<Longrightarrow> own out"
begin

lemma derive_own:
  assumes "src_cryptography src = K" "derive src = Inr p"
  shows "own (src_dkg src)"
  using assms(2) unfolding derive_def assms(1)
  by (auto split: option.split_asm dest: parameters_own reconfiguration_own)

end

text \<open>Two modes none of whose values are the other's.\<close>

locale two_modes = one: user_mode U own + other: user_mode V "\<lambda>v. \<not> own v"
  for U V :: user_cryptography and own :: "bytes \<Rightarrow> bool"
begin

lemma no_shared_signature:
  assumes "ec_user (cn_cryptography N) = U" "ec_user (cn_cryptography N') = V"
    and "requestSignature N req args now s = Some (t, s1, Inr signature)"
    and "requestSignature N' req' args' now' s' = Some (t', s2, Inr signature')"
  shows "dl_networkPublicOutput (sa_dwallet args) \<noteq> dl_networkPublicOutput (sa_dwallet args') \<and>
    pg_material (sa_presign args) \<noteq> pg_material (sa_presign args')"
  using one.requestSignature_own [OF assms(1,3)] other.requestSignature_own [OF assms(2,4)] by auto

lemma no_shared_verification:
  assumes "verifySignature U c a h out message signature ctx = Inr u"
  shows "verifySignature V c' a' h' out message' signature' ctx' \<noteq> Inr u'"
  using one.verify_own [OF assms] other.verify_own by blast

end

section \<open>The 2PC-MPC protocol\<close>

lemma refuseMockValues_Inr [result_simps]: "refuseMockValues vs = Inr u \<longleftrightarrow> list_all (\<lambda>v. \<not> isMockValue v) vs"
  by (auto simp: refuseMockValues_def result_simps list_ex_iff list_all_iff)

lemma onCurve_Inr [result_simps]:
  "onCurve vs c f = Inr x \<longleftrightarrow> list_all (\<lambda>v. \<not> isMockValue v) vs \<and> (\<exists>n. curveNumber c = Inr n \<and> f n = Inr x)"
  by (auto simp: onCurve_def result_simps)

lemmas real_steps =
  realUserCryptography_def realCryptography_def realVerifySignature_def realVerifyBlake2bSignature_def
  realCreateUserSignMessage_def realCreateUserSignMessageOfUserOutput_def realCreateUserSignMessageBlake2b_def
  realDecryptUserShare_def realOutputMatch_def realPublicKeyFromDWalletOutput_def realPrepareDKG_def
  realPrepareImportedKey_def realEncryptSecretShare_def realPublicKeyFromDKGOutput_def realNetworkDkgToParameters_def
  realReconfigurationToParameters_def realDecryptUserShareOfOutput_def

interpretation real_user: user_mode "realUserCryptography W" "\<lambda>v. \<not> isMockValue v" for W
  by unfold_locales (auto simp: real_steps result_simps)

interpretation real_engine: engine_mode "realCryptography W" "\<lambda>v. \<not> isMockValue v" for W
proof -
  have "ec_user (realCryptography W) = realUserCryptography W" by (simp add: realCryptography_def)
  then show "engine_mode (realCryptography W) (\<lambda>v. \<not> isMockValue v)"
    unfolding engine_mode_def engine_mode_axioms_def
    using real_user.user_mode_axioms [of W] by (auto simp: real_steps result_simps)
qed

section \<open>The mock\<close>

lemma mockValue_inject [simp]: "mockValue kind p = mockValue kind q \<longleftrightarrow> p = q"
  by (simp add: mockValue_def)

lemma payloadOf_Inr [result_simps]:
  "payloadOf bs kind = Inr payload \<longleftrightarrow> bs = mockValue kind payload"
proof -
  have "isMockValue bs \<longleftrightarrow> (\<exists>b rest. bs = MOCK_MAGIC @ b # rest)"
    by (auto simp: isMockValue_iff) (metis append_take_drop_id drop_eq_Nil not_less list.exhaust)
  then show ?thesis
    by (auto simp: payloadOf_def mockValue_def isMockValue_iff nth_append)
qed

lemma curveOfParameters_Inr [result_simps]:
  "curveOfParameters p n = Inr u \<longleftrightarrow> (\<exists>b. p = mockValue MockProtocolPublicParameters [b] \<and> uint b = n)"
  by (auto simp: curveOfParameters_def result_simps length_Suc_conv)

lemma mockUserOutputCurve_Inr [result_simps]:
  "mockUserOutputCurve out = Inr n \<longleftrightarrow> (\<exists>b. out = mockValue MockUserOutput [b] \<and> uint b = n)"
  by (auto simp: mockUserOutputCurve_def result_simps length_Suc_conv split: if_split_asm)

lemma mockOutputKey_Inr [result_simps]:
  "mockOutputKey out = Inr (n, key) \<longleftrightarrow>
     (\<exists>b. out = mockValue MockDWalletOutput (b # key) \<and> uint b = n \<and> 32 \<le> length key)"
proof
  assume "mockOutputKey out = Inr (n, key)"
  then obtain payload where "out = mockValue MockDWalletOutput payload" "33 \<le> length payload"
      "n = uint (payload ! 0)" "key = drop 1 payload"
    by (auto simp: mockOutputKey_def result_simps not_less split: if_split_asm)
  then show "\<exists>b. out = mockValue MockDWalletOutput (b # key) \<and> uint b = n \<and> 32 \<le> length key"
    by (cases payload) auto
next
  assume "\<exists>b. out = mockValue MockDWalletOutput (b # key) \<and> uint b = n \<and> 32 \<le> length key"
  then show "mockOutputKey out = Inr (n, key)"
    by (auto simp: mockOutputKey_def bindE_def payloadOf_Inr [THEN iffD2, OF refl])
qed

lemma mockPublicKeyOfOutput_Inr [result_simps]:
  "mockPublicKeyOfOutput n out = Inr key \<longleftrightarrow>
     (\<exists>b. out = mockValue MockDWalletOutput (b # key) \<and> uint b = n \<and> 32 \<le> length key)"
  by (auto simp: mockPublicKeyOfOutput_def result_simps split: if_split_asm)

lemma mockDecryptShare_Inr [result_simps]:
  "mockDecryptShare n e = Inr share \<longleftrightarrow>
     e = mockValue MockEncryptedShare share \<and> element SHARE_LENGTHS n = Some (length share)"
  by (auto simp: mockDecryptShare_def result_simps split: if_split_asm)

lemmas mock_steps =
  mockUserCryptography_def mockCryptography_def mockVerifySignature_def mockCreateUserSignMessage_def
  mockCreateUserSignMessageOfUserOutput_def mockCreateUserSignMessageBlake2b_def mockSignMessage_def
  decryptedMockShare_def mockOutputMatch_def mockPrepareDKG_def mockPrepareImportedKey_def mockEncryptShare_def
  mockPublicKeyFromDKGOutput_def mockProtocolPublicParameters_def

interpretation mock_user: user_mode "mockUserCryptography M" isMockValue for M
  by unfold_locales (auto simp: mock_steps result_simps isMockValue_mockValue split: if_split_asm)

interpretation mock_engine: engine_mode "mockCryptography M" isMockValue for M
proof -
  have "ec_user (mockCryptography M) = mockUserCryptography M" by (simp add: mockCryptography_def)
  then show "engine_mode (mockCryptography M) isMockValue"
    unfolding engine_mode_def engine_mode_axioms_def
    using mock_user.user_mode_axioms [of M] by (auto simp: mock_steps result_simps isMockValue_mockValue)
qed

interpretation modes: two_modes "mockUserCryptography M" "realUserCryptography W" isMockValue for M W
  by unfold_locales

end
