(* ===== verification/Mock_Laws.thy ===== *)
theory Mock_Laws
  imports Mode_Laws Creation_Laws
begin

text \<open>
  Laws of the modes over whole calls: what one mode accepts the other refuses, a mock share reads back, and
  what a mock client says of a creation whose epoch closed.
\<close>

section \<open>One mode or the other\<close>

lemma two_modes_either:
  assumes "U = realUserCryptography W \<and> V = mockUserCryptography M \<or> U = mockUserCryptography M \<and> V = realUserCryptography W"
  obtains own where "user_mode U own" "user_mode V (\<lambda>v. \<not> own v)"
  using assms
proof
  assume "U = realUserCryptography W \<and> V = mockUserCryptography M"
  then show ?thesis
    using that [of "\<lambda>v. \<not> isMockValue v"] real_user.user_mode_axioms [of W] mock_user.user_mode_axioms [of M] by simp
next
  assume "U = mockUserCryptography M \<and> V = realUserCryptography W"
  then show ?thesis
    using that [of isMockValue] real_user.user_mode_axioms [of W] mock_user.user_mode_axioms [of M] by simp
qed

text \<open>
  C21. A dWallet whose ownership check passes for a client of one mode is refused by a client of the other: its
  ownership check fails, no user's half of a signature is computed for its output, no signature is accepted under
  it, and no share is decrypted for it. In particular a client of the 2PC-MPC protocol never takes a mock dWallet
  for a real one.
\<close>
theorem modes_refuse_each_other:
  assumes "U = realUserCryptography W \<and> V = mockUserCryptography M \<or> U = mockUserCryptography M \<and> V = realUserCryptography W"
    and "requireAttestedKeyOfOutput U att = Inr ()"
  shows "requireAttestedKeyOfOutput V att \<noteq> Inr () \<and>
    userSignMessageWithScheme V (i\<lparr>si_output := dw_public_output att\<rparr>) kind \<noteq> Inr message \<and>
    signatureFromResponseVerified V response (e\<lparr>es_output := dw_public_output att\<rparr>) \<noteq> Inr signature \<and>
    decryptUserShare V n key (dw_public_output att) encrypted p \<noteq> Inr share"
proof -
  from assms(1) obtain own where u: "user_mode U own" and v: "user_mode V (\<lambda>v. \<not> own v)" by (rule two_modes_either)
  from user_mode.attested_key_own [OF u assms(2)] have "own (dw_public_output att)" .
  then show ?thesis
    using user_mode.attested_key_own [OF v] user_mode.user_sign_message_own [OF v] user_mode.answered_signature_own [OF v]
      user_mode.decrypt_own [OF v] by fastforce
qed

section \<open>A mock dWallet\<close>

lemma curve_byte: "curveNumber c = Inr n \<Longrightarrow> uint (curveByte n) = n"
  by (cases c) (auto simp: curveNumber_def fromCurveToNumber_def curveConfigOf_def scheme_tables result_simps curveByte_def)

text \<open>
  C34. What a mock client prepares for a dWallet it gets back: over an output the backend made on the same curve,
  the user's output matches, the output's key is the backend's, and the encrypted share opens to the share
  prepared. The dWallet's key is never known from the user's output alone.
\<close>
theorem mock_dwallet_round_trip:
  assumes "prepareDKGForSessionIdentifier (mockCryptography M) p c session now = Inr prepared"
    and "encryptSecretShare (mockCryptography M) c (userSecretKeyShare prepared) encryptionKey p later = Inr encrypted"
    and "\<And>k t. length (randomOf M k t) = k"
    and "curveNumber c = Inr n" "32 \<le> length key"
  shows "decryptUserShareOfOutput (mockCryptography M) c decryptionKey (mockDWalletOutput n key) encrypted p =
      Inr (userSecretKeyShare prepared) \<and>
    userAndNetworkDKGOutputMatch (ec_user (mockCryptography M)) c (userPublicOutput prepared) (mockDWalletOutput n key) = Inr True \<and>
    publicKeyFromDWalletOutput (ec_user (mockCryptography M)) c (mockDWalletOutput n key) = Inr key \<and>
    publicKeyFromCentralizedDKGOutput (mockCryptography M) c' (userPublicOutput prepared) \<noteq> Inr key'"
proof -
  from assms(1,4) obtain b k where p: "p = mockValue MockProtocolPublicParameters [b]" "uint b = n"
    and k: "element SHARE_LENGTHS n = Some k"
    and prepared: "userSecretKeyShare prepared = randomOf M k now" "userPublicOutput prepared = mockValue MockUserOutput [curveByte n]"
    by (auto simp: mock_steps result_simps shareLength_def)
  from assms(2,4) have encrypted: "encrypted = mockValue MockEncryptedShare (randomOf M k now)"
    by (auto simp: mock_steps result_simps prepared)
  have out: "mockPublicKeyOfOutput n (mockDWalletOutput n key) = Inr key"
    "mockOutputKey (mockDWalletOutput n key) = Inr (n, key)"
    using assms(5) curve_byte [OF assms(4)] by (auto simp: result_simps mockDWalletOutput_def)
  have share: "mockDecryptShare n encrypted = Inr (randomOf M k now)"
    by (simp add: mockDecryptShare_Inr encrypted assms(3) k)
  have user: "mockUserOutputCurve (mockValue MockUserOutput [curveByte n]) = Inr n"
    using curve_byte [OF assms(4)] by (simp add: mockUserOutputCurve_Inr)
  have parameters: "curveOfParameters p n = Inr ()" by (simp add: curveOfParameters_Inr p)
  show ?thesis
    using out share user parameters assms(4)
    by (simp add: mockCryptography_def mockUserCryptography_def decryptedMockShare_def mockOutputMatch_def
        mockPublicKeyFromDKGOutput_def bindE_def seqE_def prepared isMockValue_mockValue)
      (simp add: mockDWalletOutput_def isMockValue_mockValue)
qed

section \<open>What a mock client says of a creation\<close>

text \<open>Whether an error says that a request may have run in an epoch that closed.\<close>

fun saysMayHaveRun :: "engine_error \<Rightarrow> bool" where
  "saysMayHaveRun (EpochClosedBeforeAnswer _ _ _ _ _) = True"
| "saysMayHaveRun (RequestRanBeforeAnswer _ _ _) = True"
| "saysMayHaveRun _ = False"

definition silent :: "'a engine_run \<Rightarrow> bool" where
  "silent m \<longleftrightarrow> (\<forall>now s t s' e. m now s = Some (t, s', Inl e) \<longrightarrow> \<not> saysMayHaveRun e)"

lemma silentD: "silent m \<Longrightarrow> m now s = Some (t, s', Inl e) \<Longrightarrow> \<not> saysMayHaveRun e"
  unfolding silent_def by blast

lemma silent_bindN_of:
  "silent m \<Longrightarrow> (\<And>x now s t s'. m now s = Some (t, s', Inr x) \<Longrightarrow> silent (f x)) \<Longrightarrow> silent (bindN m f)"
  unfolding silent_def by (blast elim: bindN_Some)

lemma silent_bindN: "silent m \<Longrightarrow> (\<And>x. silent (f x)) \<Longrightarrow> silent (bindN m f)"
  by (rule silent_bindN_of)

lemma silent_steps:
  "silent (returnN x)" "silent (throwN (Thrown e))" "silent (liftN r)"
  "(\<And>s. silent (f s)) \<Longrightarrow> silent (withState f)" "(\<And>t. silent (g t)) \<Longrightarrow> silent (withTime g)"
  "silent (awaitRead N read)" "silent (computeAt N h)" "silent (compute N r)"
  "silent (freshPreimage N)"
  by (auto simp: silent_def returnN_def throwN_def liftN_def withState_def withTime_def awaitRead_def computeAt_def
      compute_def freshPreimage_def Let_def mapErr_eq_Inl)

lemma silent_case:
  "(\<And>x y. silent (f2 x y)) \<Longrightarrow> silent (case p of (x, y) \<Rightarrow> f2 x y)"
  "silent m \<Longrightarrow> (\<And>x. silent (g x)) \<Longrightarrow> silent (case a of None \<Rightarrow> m | Some x \<Rightarrow> g x)"
  "silent m \<Longrightarrow> silent m' \<Longrightarrow> silent (if b then m else m')"
  by (auto split: prod.split option.split)

lemmas silent_intros = silent_bindN silent_steps silent_case

lemma silent_sends: "silent (sendBuilt N out at sent)"
  by (auto simp: silent_def sendBuilt_def Let_def awaitClient_def mapErr_def
      split: option.split_asm sum.split_asm engine_error.split_asm if_split_asm)

lemma silent_readChainEpoch: "silent (readChainEpoch N)"
  unfolding readChainEpoch_def by (rule silent_bindN, rule silent_steps) (simp add: silent_def Let_def)

lemma silent_signing:
  "silent (signingRequest N d object keypair)" "(\<And>k. silent (sign k)) \<Longrightarrow> silent (signFor N req sign)"
  unfolding signingRequest_def signFor_def signedBySigner_def Let_def by (intro silent_intros; assumption?)+

lemma silent_signAndSend:
  assumes "\<And>e session. silent (mk e session)" "\<And>d object. silent (sign d object)"
  shows "silent (signAndSend N req epoch sign mk)"
  unfolding signAndSend_def Let_def by (intro silent_intros silent_sends assms)

text \<open>A description of what was sent that always throws hides every epoch close.\<close>

definition undescribed :: "network_connection \<Rightarrow> 'k describe_request \<Rightarrow> bool" where
  "undescribed N describe \<longleftrightarrow>
     (\<forall>session kept now s. \<exists>t s' e. describe session kept now s = Some (t, s', Inl (Thrown e)))"

lemma undescribed_pendingOf:
  assumes "undescribed N describe"
  shows "\<exists>t s' e. pendingOf N req sent describe now s = Some (t, s', Inl (Thrown e))"
proof (cases "curveNumberOf N")
  case (Inr n)
  from assms [unfolded undescribed_def, rule_format, of "se_session sent" "se_kept sent" now s] show ?thesis
    by (auto simp: pendingOf_def bindN_def liftN_def Inr mapErr_def)
qed (simp add: pendingOf_def bindN_def liftN_def mapErr_def)

lemma silent_pendingOf:
  assumes "undescribed N describe"
  shows "silent (pendingOf N req sent describe)" and "pendingOf N req sent describe now s \<noteq> Some (t, s', Inr x)"
proof -
  show "silent (pendingOf N req sent describe)"
    unfolding silent_def
  proof (intro allI impI)
    fix now s t s' e
    assume "pendingOf N req sent describe now s = Some (t, s', Inl e)"
    with undescribed_pendingOf [OF assms, of req sent now s] show "\<not> saysMayHaveRun e" by auto
  qed
  show "pendingOf N req sent describe now s \<noteq> Some (t, s', Inr x)"
    using undescribed_pendingOf [OF assms, of req sent now s] by auto
qed

lemma silent_unpending:
  "undescribed N describe \<Longrightarrow> silent (bindN (pendingOf N req sent describe) f)"
  by (rule silent_bindN_of) (use silent_pendingOf in blast)+

lemma silent_submit:
  assumes "undescribed N describe" "\<And>e session. silent (mk e session)"
  shows "silent (submit N req mk describe n)"
proof -
  have "silent (submitOnce N req mk describe again)" for again
    unfolding submitOnce_def
    by (intro silent_bindN silent_readChainEpoch silent_signAndSend silent_signing assms(2))
      (auto split: sent_outcome.split intro!: silent_steps silent_unpending [OF assms(1)])
  then show ?thesis by (cases n) simp_all
qed

lemma silent_submitWithPresign:
  assumes "undescribed N describe" "\<And>session. silent (mk session)" "\<And>d object. silent (sign d object)"
  shows "silent (submitWithPresign N req presignEpoch sign mk describe)"
  unfolding submitWithPresign_def
  by (intro silent_bindN silent_readChainEpoch silent_signAndSend assms silent_case(3))
    (auto split: sent_outcome.split simp: silent_def throwN_def intro!: silent_steps silent_unpending [OF assms(1)]
      dest: silentD [OF silent_unpending [OF assms(1)]] elim!: silentD [OF silent_steps(1)])

lemma silent_signDuringDkgPresign: "silent (signDuringDkgPresign N req sg)"
  unfolding signDuringDkgPresign_def Let_def by (intro silent_steps)

lemma silent_expectAttestation: "silent (expectAttestation N response kind curve)"
  unfolding expectAttestation_def by (auto split: transaction_response.split intro!: silent_steps)

lemma silent_creates:
  "silent (dkgBuild N share sg session)" "silent (importBuild N share' secretKey session)"
  unfolding dkgBuild_def encryptedFor_def signDuringDkgRequest_def importBuild_def
  by (intro silent_intros)+

lemma silent_answers:
  "silent (signAcceptance N holder att sent')" "silent (dkgAnswer N req share sg response sent)"
  unfolding dkgAnswer_def signAcceptance_def by (intro silent_intros silent_expectAttestation)+

lemma mock_undescribed:
  assumes "cn_cryptography N = mockCryptography M"
  shows "undescribed N (dkgDescribe N)" "undescribed N (importDescribe N)"
proof -
  have key: "\<exists>e. publicKeyFromCentralizedDKGOutput (cn_cryptography N) c out = Inl e" for c out
    by (cases "mockUserOutputCurve out") (simp_all add: assms mockCryptography_def mockPublicKeyFromDKGOutput_def bindE_def)
  have "\<exists>t s' e. newDWallet N out now s = Some (t, s', Inl (Thrown e))" for out now s
  proof (cases "curveNumberOf N")
    case (Inr n)
    from key [of "cn_curve N" out] obtain e where "publicKeyFromCentralizedDKGOutput (cn_cryptography N) (cn_curve N) out = Inl e" ..
    then show ?thesis by (simp add: newDWallet_def bindN_def liftN_def Inr mapErr_def compute_def computeAt_def Let_def)
  qed (simp add: newDWallet_def bindN_def liftN_def mapErr_def)
  note new = this
  have fails: "\<exists>t s' e. bindN (newDWallet N out) f now s = Some (t, s', Inl (Thrown e))"
    for out now s and f :: "expected_dwallet \<Rightarrow> pending_kind engine_run"
    using new [of out now s] by (auto simp: bindN_def)
  show "undescribed N (dkgDescribe N)" "undescribed N (importDescribe N)"
    unfolding undescribed_def dkgDescribe_def importDescribe_def using fails by blast+
qed

text \<open>
  C39. A mock client never says that a dWallet's creation or import may have run. Where the epoch closes before the
  network answers, describing the request derives the dWallet's key from the user's output, which the mock cannot,
  so the call throws that error instead of \<open>EpochClosedBeforeAnswer\<close>, and the session cannot be resolved later.
\<close>
theorem mock_creation_hides_epoch_close:
  assumes "cn_cryptography N = mockCryptography M"
    and "dkg N req share sg now s = Some (t, s', Inl e) \<or> verifyImportedKey N req share' secretKey now s = Some (t, s', Inl e)"
  shows "\<not> saysMayHaveRun e \<and>
    (\<exists>t' s'' e'. pendingOf N req sent (dkgDescribe N) now' s1 = Some (t', s'', Inl (Thrown e')))"
proof -
  note undescribed = mock_undescribed [OF assms(1)]
  have presigned: "silent (case sg of None \<Rightarrow> returnN None | Some g \<Rightarrow> bindN (signDuringDkgPresign N req g) (\<lambda>p. returnN (Some p)))"
    by (auto split: option.split intro!: silent_bindN silent_steps silent_signDuringDkgPresign)
  have "silent (dkg N req share sg)"
    unfolding dkg_def
    by (intro silent_bindN silent_steps silent_case presigned silent_submit silent_submitWithPresign undescribed silent_creates
        silent_answers) (simp add: signsRequest_def silent_signing)
  moreover have "silent (verifyImportedKey N req share' secretKey)"
    unfolding verifyImportedKey_def
    by (intro silent_bindN silent_steps silent_case silent_submit undescribed silent_creates silent_answers
        silent_expectAttestation)
  ultimately show ?thesis using assms(2) undescribed_pendingOf [OF undescribed(1)] by (blast dest: silentD)
qed

end
