(* ===== verification/Demo_Base.thy ===== *)
theory Demo_Base
  imports Base_Sign_Laws Demo_Connect
begin

text \<open>The laws of the client applied to a client whose validators and chain answer at once.\<close>

section \<open>A client\<close>

definition baseKeys :: user_keys where
  "baseKeys = \<lparr>uk_encryptionKey = [5], uk_decryptionKey = [6], uk_curve = ED25519, holderKeypair = demoKeypair,
     requestKeypair = demoKeypair\<rparr>"

definition baseApproval :: voucher_approval where
  "baseApproval = \<lparr>va_dwallet = [9], va_messageDigest = theKey, va_messageMetadataDigest = replicate 32 0,
     va_signatureScheme = 5\<rparr>"

definition baseRecord :: checked_dwallet_record where
  "baseRecord =
     \<lparr>cdr_address = [1], cdr_networkPublicKey = theKey, cdr_attestation = recordOfAttestation engineAttestation,
      cdr_readEncryptedShare = (\<lambda>k given. Inr (Some \<lparr>csr_record = recordOfAttestation engineAttestation,
        csr_acceptanceGiven = False\<rparr>)),
      cdr_readPublicShare = Inr None, cdr_migratedShare = None\<rparr>"

definition baseReader :: share_reader where
  "baseReader =
     \<lparr>rd_chain = OnSolana, rd_trusted = demoTrust, rd_readDWallet = (\<lambda>asked. Inr (Some baseRecord)),
      rd_readDWalletAt = None, rd_cryptography = None\<rparr>"

definition demoBase :: "sdk_lib \<Rightarrow> transaction_response \<Rightarrow> (sdk_error, int) timed \<Rightarrow> (bytes, bytes) base_client" where
  "demoBase L response epochRead =
     \<lparr>bc_env = engineEnv L, bc_grpc = engineClient, bc_submit = engineSubmit response, bc_keys = connectKeys,
      bc_output = connectOutput, bc_closing = None, bc_clientAt = (\<lambda>_. freshState), bc_derives = (\<lambda>_. 3),
      bc_network = Custom [theKey], bc_chain = Solana, poolWaitMs = 0, requestSigner = None,
      bc_cryptography = engineCryptography, networkKeyRecords = demoOutputChain, chainEpoch = epochRead,
      requestRecords = absentRecords, shareReader = (\<lambda>_ _. baseReader), shareLookup = absentShares,
      shareReads = (\<lambda>_. Some 0), addressBytes = Inr, voucherBytes = Inr,
      readVoucherApproval = (\<lambda>_ now. Some (now, Inr (Some baseApproval))), dWalletAddressBytes = (\<lambda>_. Inr [9]),
      gasDepositConsentMessage = Inr,
      readEncryptionKeyEntry = (\<lambda>_ _ now. Some (now, Inr \<lparr>he_signerPublicKey = theKey, he_curve = 2, he_encryptionKey = [5]\<rparr>))\<rparr>"

lemma demoBase_simps [simp]:
  "bc_env (demoBase L response epochRead) = engineEnv L" "bc_cryptography (demoBase L response epochRead) = engineCryptography"
  "chainEpoch (demoBase L response epochRead) = epochRead" "requestRecords (demoBase L response epochRead) = absentRecords"
  "shareReads (demoBase L response epochRead) = (\<lambda>_. Some 0)" "requestSigner (demoBase L response epochRead) = None"
  "networkKeyRecords (demoBase L response epochRead) = demoOutputChain" "bc_network (demoBase L response epochRead) = Custom [theKey]"
  "bc_chain (demoBase L response epochRead) = Solana" "voucherBytes (demoBase L response epochRead) = Inr"
  "readVoucherApproval (demoBase L response epochRead) = (\<lambda>_ now. Some (now, Inr (Some baseApproval)))"
  "dWalletAddressBytes (demoBase L response epochRead) = (\<lambda>_. Inr [9])"
  "clientShareReader (demoBase L response epochRead) trusted now = readerWithCryptography baseReader engineUser"
  by (simp_all add: demoBase_def clientShareReader_def engineCryptography_def)

definition baseState :: base_state where
  "baseState = \<lparr>bs_engines = Map.empty, bs_latestKey = Some theKey, bs_cache = noParameters, bs_grpc = freshState,
     bs_holders = [], bs_issued = [], bs_draws = 0, bs_signed = []\<rparr>"

section \<open>A connection kept\<close>

abbreviation connectedBase :: "(bytes, bytes) base_client" where
  "connectedBase \<equiv> demoBase demoLib (SignatureResponse []) (\<lambda>now. Some (now + 1, Inr 5))"

lemma connected_arguments:
  "Client_Base.connectArguments connectedBase ED25519 theKey =
     demoArguments (Some absentRecords) (Some absentShares) (Some engineCryptography)"
  by (simp add: Client_Base.connectArguments_def demoArguments_def demoBase_def)

lemma initialize_demo:
  "\<exists>t s on. initialize connectedBase ED25519 (- 5) baseState = Some (t, s, Inr ()) \<and>
     bs_engines s (engineKey ED25519 theKey) = Some on"
proof -
  from connect_run_demo [of "Some engineCryptography" "Some absentRecords" "Some absentShares"]
  obtain t cache c where run: "connect (Client_Base.connectArguments connectedBase ED25519 theKey) noParameters 0 = Some (t, cache, Inr c)"
    unfolding connected_arguments by blast
  have "isRegisteredNetworkKey demoOutputChain theKey (- 5) = (5, Inr True)" by (simp add: demoOutputChain_def)
  with run have "\<exists>s on. openNetwork connectedBase ED25519 theKey (- 5) baseState = Some (t, s, Inr on)"
    by (simp add: openNetwork_def Let_def) (simp add: baseState_def)
  then obtain s on where "openNetwork connectedBase ED25519 theKey (- 5) baseState = Some (t, s, Inr on)" by blast
  then show ?thesis
    by (simp add: initialize_def engine_def engineFor_def Let_def bindB_def returnB_def latestNetworkKey_def baseState_def)
qed

theorem kept_connections_made_witness:
  "\<exists>t s on. initialize connectedBase ED25519 (- 5) baseState = Some (t, s, Inr ()) \<and>
     bs_engines s (engineKey ED25519 theKey) = Some on \<and> cn_curve (on_connection on) = ED25519 \<and>
     cn_networkKeyId (on_connection on) = theKey"
proof -
  from initialize_demo obtain t s on where run: "initialize connectedBase ED25519 (- 5) baseState = Some (t, s, Inr ())"
    and on: "bs_engines s (engineKey ED25519 theKey) = Some on" by blast
  have start: "bs_engines baseState = Map.empty" by (simp add: baseState_def)
  have "(client_step connectedBase)\<^sup>*\<^sup>* baseState s" by (rule r_into_rtranclp, rule Initialized, rule run)
  from kept_connections_made [OF start this on] run on show ?thesis by blast
qed

section \<open>A share's record\<close>

theorem share_wait_ends_witness:
  "\<exists>t. waitForEncryptedShareRecord connectedBase (engineNet demoLib (SignatureResponse [])) demoTrust (lookupOf engineHeld) theKey 0 =
     Some (t, Inr ()) \<and> 0 \<le> t"
proof -
  have found: "shareRecordHeld (readerWithCryptography baseReader engineUser) (lookupOf engineHeld) theKey = Inr True"
    by (simp add: shareRecordHeld_def readerWithCryptography_def baseReader_def shareIsOnChain_def baseRecord_def result_simps)
  have "shareReads connectedBase at \<noteq> None" for at by simp
  from share_wait_ends [where B = connectedBase and now = 0 and N = "engineNet demoLib (SignatureResponse [])" and
      trusted = demoTrust and lookup = "lookupOf engineHeld" and holder = theKey, OF this]
  obtain t r at where run: "waitForEncryptedShareRecord connectedBase (engineNet demoLib (SignatureResponse [])) demoTrust
      (lookupOf engineHeld) theKey 0 = Some (t, r)" "0 \<le> t"
    and r: "case r of Inr _ \<Rightarrow> True
      | Inl e \<Rightarrow> share_unread (clientShareReader connectedBase demoTrust at) (lookupOf engineHeld) theKey e \<or>
          share_absent (clientShareReader connectedBase demoTrust at) (lookupOf engineHeld) theKey"
    by (fastforce split: sum.split_asm)
  from r have "r = Inr ()" by (cases r) (simp_all add: found flip: shareRecordHeld_result)
  with run show ?thesis by blast
qed

section \<open>A pending request\<close>

text \<open>A presign's request of epoch 6, on a chain of epoch 7 that holds no charge for it.\<close>

abbreviation settledBase :: "(bytes, bytes) base_client" where
  "settledBase \<equiv> (demoBase demoLib (SignatureResponse []) (\<lambda>now. Some (now, Inr 7)))
     \<lparr>bc_env := (engineEnv demoLib)\<lparr>en_records := demoRecordLib\<rparr>, requestRecords := emptyRecords\<rparr>"

theorem resolveSession_sound_witness:
  "resolveSession settledBase (demoPending\<lparr>pn_epoch := 6\<rparr>) 0 = Some (1, Inr NeverRan) \<and>
     settledAtEpoch (demoPending\<lparr>pn_epoch := 6\<rparr>) \<le> 7"
proof -
  let ?p = "demoPending\<lparr>pn_epoch := 6\<rparr>"
  have "customOrListed (Custom [theKey]) [theKey] = Inr \<lparr>network = Custom [theKey], publicKeys = [theKey]\<rparr>"
    by (simp add: customOrListed_def trustedNetworkKeys_custom)
  then have run: "resolveSession settledBase ?p 0 = Some (1, Inr NeverRan)"
    by (simp add: resolveSession_def settledAtEpoch_def demoPending_def bindT_def liftT_def returnT_def demoBase_def
        findSession_def ranOr_def charged_def chargesOfSession_def demo_charge_id demo_no_charge result_simps allT_def)
  from resolveSession_sound [OF run] have "settledAtEpoch ?p \<le> 7" by (simp add: demoBase_def)
  with run show ?thesis by blast
qed

section \<open>A signature\<close>

abbreviation signBase :: "(bytes, bytes) base_client" where
  "signBase \<equiv> demoBase (engineLib (engineData signAsked) checkedDWallet) (SignatureResponse theSignature) (\<lambda>now. Some (now, Inr 7))"

definition signParams :: "bytes sign_params" where
  "signParams =
     \<lparr>sq_dWallet = engineHeld, sq_presign = Some (sa_presign engineSign), sq_voucher = theKey, sq_message = [8],
      sq_keys = baseKeys, sq_messageMetadata = None, sq_hashScheme = None, sq_signatureAlgorithm = None\<rparr>"

abbreviation keptNet :: open_network where
  "keptNet \<equiv> \<lparr>on_connection = signNet, on_epoch = 7, on_trusted = demoTrust\<rparr>"

abbreviation keptRef :: network_ref where
  "keptRef \<equiv> engineKey ED25519 theKey"

definition signState :: base_state where
  "signState = baseState\<lparr>bs_engines := [keptRef \<mapsto> keptNet]\<rparr>"

lemma signState_simps [simp]: "bs_engines signState keptRef = Some keptNet" "netState keptNet signState = engineState"
  by (simp_all add: signState_def netState_def baseState_def engineState_def)

lemma base_curve: "curveNumber ED25519 = Inr 2"
  by (simp add: curveNumber_def fromCurveToNumber_def curveConfigOf_def scheme_tables result_simps)

lemma sign_engine:
  "bs_engines s keptRef = Some on \<Longrightarrow> engineOf signBase engineHeld baseKeys 0 s = Some (0, s, Inr keptRef)"
  by (simp add: engineOf_def engine_def engineFor_def Let_def bindB_def returnB_def liftB_def baseKeys_def mapErr_def
      base_curve bindE_def guardE_def)

lemma sign_terms_demo:
  "signTerms signBase signParams signNet 0 engineState =
     Some (0, engineState, Inr \<lparr>tm_message = [8], tm_messageMetadata = None, tm_signatureScheme = EddsaSha512\<rparr>)"
proof -
  have "poll (readVoucherApproval signBase theKey) lag (Some VOUCHER_READ_WAIT_MS) None 0 = Some (0, Inr baseApproval)" for lag
    by (simp add: poll_def pollLoop.simps)
  moreover have "approvedTerms (engineLib (engineData signAsked) checkedDWallet) (\<lambda>_. Inr [9]) baseApproval signParams =
      Inr \<lparr>tm_message = [8], tm_messageMetadata = None, tm_signatureScheme = EddsaSha512\<rparr>"
    by (simp add: approvedTerms_def baseApproval_def signParams_def orEmpty_def element_def SIGNATURE_SCHEMES_def
        result_simps Let_def)
  ultimately show ?thesis
    by (simp add: signTerms_def awaitVoucher_def awaitRead_def run_simps sdkOf_def guardE_def signParams_def)
qed

lemma base_usable_checked:
  "usable_checked (engineLib (engineData signAsked) checkedDWallet) demoCryptography (readerWithCryptography baseReader engineUser)
     theKey noOptions engineIssued"
proof -
  let ?L = "engineLib (engineData signAsked) checkedDWallet" and ?R = "readerWithCryptography baseReader engineUser"
  have reader: "rd_readDWallet ?R = (\<lambda>_. Inr (Some baseRecord))" "rd_trusted ?R = demoTrust" "rd_chain ?R = OnSolana"
    "cryptographyOf demoCryptography ?R = engineUser"
    by (simp_all add: readerWithCryptography_def baseReader_def cryptographyOf_def)
  have "chain_record ?L ?R [0, 1] checkedDWallet baseRecord"
    by (simp add: chain_record_def reader baseRecord_def engine_attested(3))
      (simp add: recordOfAttestation_def demoTrust_def)
  moreover have "\<exists>c. dw_curve checkedDWallet = attested_curve c \<and>
      publicKeyFromDWalletOutput engineUser c (dw_public_output checkedDWallet) = Inr (dw_public_key checkedDWallet)"
    by (intro exI [of _ ED25519]) (simp add: checkedDWallet_def engineDWallet_def engineUser_def demoCryptography_def)
  moreover have "own_share ?L demoTrust baseRecord (dwallet_of (recordOfAttestation engineAttestation) checkedDWallet) theKey None False"
    by (simp add: own_share_def baseRecord_def share_of_holder_def engine_attested(3))
      (simp add: engineShare_def binds_dwallet_def dwallet_of_def checkedDWallet_def engineDWallet_def recordOfAttestation_def)
  then have "usability_held ?L demoTrust baseRecord (dwallet_of (recordOfAttestation engineAttestation) checkedDWallet) theKey
      noOptions (ShareEncrypted, False, False)"
    by (simp add: noOptions_def baseRecord_def vd_attestation_dwallet_of) (simp add: checkedDWallet_def)
  ultimately show ?thesis
    unfolding usable_checked_def reader
    by (intro exI [of _ checkedDWallet] exI [of _ baseRecord])
      (simp add: engineIssued_def baseRecord_def recordOfAttestation_def checkedDWallet_def engineDWallet_def
        engineAttestation_def indexOf_def ATTESTATION_CURVES_def)
qed

lemma base_usable_demo:
  "usableNow signBase engineHeld baseKeys signNet 0 engineState = Some (0, issuedState, Inr engineUsable)"
proof -
  have "assertDWalletUsable (engineLib (engineData signAsked) checkedDWallet) demoCryptography
      (readerWithCryptography baseReader engineUser) theKey [0, 1] noOptions 0 [] = Inr (engineUsable, [engineIssued])"
    unfolding assertDWalletUsable_Inr
    by (intro exI [of _ engineIssued]) (simp add: base_usable_checked engineUsable_def)
  then show ?thesis
    by (simp add: usableNow_def issuing_def Let_def sdkOf_def baseKeys_def demoKeypair_def engineEnv_def)
      (simp add: engineState_def)
qed

lemma base_requester_demo: "baseRequester signBase baseKeys None = Inr engineRequester"
  by (simp add: baseRequester_def baseKeys_def engineRequester_def result_simps)

lemma named_scheme:
  "requestSignature N req (args\<lparr>sa_signatureScheme := SchemeNamed EddsaSha512\<rparr>) =
     requestSignature N req (args\<lparr>sa_signatureScheme := SchemeNumbered 5\<rparr>)"
proof -
  have "signatureSchemeNumber (SchemeNamed EddsaSha512) = Inr 5"
    by (simp add: signatureSchemeNumber_def result_simps indexOf_def element_def SIGNATURE_SCHEMES_def)
  then show ?thesis by (simp add: requestSignature_def signRequestOf_def Let_def)
qed

lemma base_sign_demo: "\<exists>s'. requestSign signBase signParams 0 signState = Some (0, s', Inr theSignature)"
proof -
  let ?terms = "\<lparr>tm_message = [8], tm_messageMetadata = None, tm_signatureScheme = EddsaSha512\<rparr>"
  have args: "signArgs signParams ?terms engineUsable theKey (sa_presign engineSign) =
      engineSign\<lparr>sa_signatureScheme := SchemeNamed EddsaSha512\<rparr>"
    by (simp add: signArgs_def signParams_def engineSign_def)
  have "engineSign\<lparr>sa_signatureScheme := SchemeNumbered 5\<rparr> = engineSign" by (simp add: engineSign_def)
  with sign_run_demo named_scheme [of signNet engineRequester engineSign] obtain n where run:
    "requestSignature signNet engineRequester (engineSign\<lparr>sa_signatureScheme := SchemeNamed EddsaSha512\<rparr>) 0 issuedState =
       Some (0, n, Inr theSignature)" by auto
  let ?s2 = "afterNet keptRef keptNet engineState signState"
  let ?on2 = "keptNet\<lparr>on_epoch := ns_epoch engineState, on_trusted := ns_trusted engineState\<rparr>"
  let ?s4 = "afterNet keptRef ?on2 issuedState ?s2"
  let ?on4 = "?on2\<lparr>on_epoch := ns_epoch issuedState, on_trusted := ns_trusted issuedState\<rparr>"
  have e2: "onNetwork keptRef (signTerms signBase signParams) 0 signState = Some (0, ?s2, Inr ?terms)"
    by (simp add: onNetwork_def sign_terms_demo)
  have e4: "onNetwork keptRef (usableNow signBase engineHeld baseKeys) 0 ?s2 = Some (0, ?s4, Inr engineUsable)"
    by (simp add: onNetwork_def afterNet_engine base_usable_demo)
  let ?step = "\<lambda>p. bindN (liftN (baseRequester signBase baseKeys None)) (\<lambda>req.
      bindN (liftN (voucherBytes signBase theKey)) (\<lambda>voucher.
      requestSignature signNet req (signArgs signParams ?terms engineUsable voucher p)))"
  have "?step (sa_presign engineSign) 0 issuedState = Some (0, n, Inr theSignature)"
    using run by (simp add: bindN_def liftN_def mapErr_def base_requester_demo args)
  then have e5: "onNetwork keptRef (\<lambda>N. withPresign signBase N engineHeld baseKeys ?terms (Some (sa_presign engineSign)) (\<lambda>p.
      bindN (liftN (baseRequester signBase baseKeys None)) (\<lambda>req.
      bindN (liftN (voucherBytes signBase theKey)) (\<lambda>voucher.
      requestSignature N req (signArgs signParams ?terms engineUsable voucher p))))) 0 ?s4 =
      Some (0, afterNet keptRef ?on4 n ?s4, Inr theSignature)"
    by (simp add: onNetwork_def afterNet_engine withPresign_def)
  have kept: "engineOf signBase engineHeld baseKeys 0 signState = Some (0, signState, Inr keptRef)"
    "engineOf signBase engineHeld baseKeys 0 ?s2 = Some (0, ?s2, Inr keptRef)"
    by (rule sign_engine, simp) (rule sign_engine, rule afterNet_engine(1))
  show ?thesis
    using kept e2 e4 e5 unfolding requestSign_def signingWith_def Let_def baseCheckDWalletUsable_def
    by (simp add: bindB_def signParams_def)
qed

lemma sign_base_later: "client_later signBase"
  by (simp add: client_later_def later_transport_def later_read_def records_later_def shares_later_def demoBase_def
      engineClient_def absentRecords_def absentShares_def)

theorem requestSign_sound_witness:
  "\<exists>s' (on :: open_network) scheme (st :: issued_state) request q m es e. requestSign signBase signParams 0 signState = Some (0, s', Inr theSignature) \<and>
     approves signBase baseApproval signParams scheme \<and> bs_issued s' = bs_issued signState @ [st] \<and>
     bs_signed s' = bs_signed signState @ es @ [e] \<and> is_verifiedAt st \<le> sg_at e \<and> sg_at e \<le> is_verifiedAt st + 300000 \<and>
     request_signed (on_connection on) engineRequester request e \<and> signOfRequest request = Some q \<and> sg_message q = [8] \<and>
     \<not> is_waiting st \<and> verifiesBy engineUser m (is_publicOutput st) [8] theSignature = Inr ()"
proof -
  from base_sign_demo obtain s' where run: "requestSign signBase signParams 0 signState = Some (0, s', Inr theSignature)" ..
  have own: "own_connections signBase signState"
    by (simp add: own_connections_def signState_def baseState_def of_options_def) (simp add: demoBase_def)
  have env: "\<forall>t e. e \<le> othersEpoch (bc_env signBase) t e" "codec_ok (signedRequestDataBcs (en_sdk (bc_env signBase)))"
    by (simp_all add: engineEnv_def)
  have params: "sq_message signParams = [8]" "sq_keys signParams = baseKeys" "ec_user engineCryptography = engineUser"
    by (simp_all add: signParams_def engineCryptography_def)
  from requestSign_sound [OF own sign_base_later env run] obtain on :: open_network and asked answered :: time and approval scheme req es e request q m and st :: issued_state where
    "Some (asked, Inr (Some baseApproval)) = Some (answered, (Inr (Some approval) :: sdk_error + voucher_approval option))"
    "approves signBase approval signParams scheme" "\<not> is_waiting st" "bs_issued s' = bs_issued signState @ [st]"
    "baseRequester signBase baseKeys None = Inr req"
    "bs_signed s' = bs_signed signState @ es @ [e]" "request_signed (on_connection on) req request e"
    "signOfRequest request = Some q" "sg_message q = [8]" "is_verifiedAt st \<le> sg_at e" "sg_at e \<le> is_verifiedAt st + 300000"
    "verifiesBy engineUser m (is_publicOutput st) [8] theSignature = Inr ()"
    unfolding params demoBase_simps by (elim exE conjE) (rule that)
  moreover from calculation have "approval = baseApproval" "req = engineRequester" by (simp_all add: base_requester_demo)
  ultimately show ?thesis using run by blast
qed

end
