(* ===== verification/Demo_Modes.thy ===== *)
theory Demo_Modes
  imports Mock_Laws User_Key_Laws Demo_Engine
begin

text \<open>The laws of the two modes and of a user's keys applied to concrete libraries.\<close>

section \<open>A mock network\<close>

definition demoMock :: mock_lib where
  "demoMock =
     \<lparr>secp256k1Verify = (\<lambda>_ _ _. Some True), secp256k1Recover = (\<lambda>_ _. None), p256Verify = (\<lambda>_ _ _. Some True),
      p256Recover = (\<lambda>_ _. None), schnorrVerify = (\<lambda>_ _ _. Some True), strictEd25519Verify = (\<lambda>_ _ _. Some True),
      ml_keccak = (\<lambda>_. theKey), ml_sha256 = (\<lambda>_. theKey), ml_blake2b = (\<lambda>_ _ _. theKey),
      randomOf = (\<lambda>n t. replicate n 1), ml_schnorrkelMetadataBcs = noBcs, ml_blake2bMetadataBcs = noBcs\<rparr>"

definition demoWasm :: wasm_lib where
  "demoWasm =
     \<lparr>network_dkg_public_output_to_protocol_pp = (\<lambda>_ _. Inr [1]),
      reconfiguration_public_output_to_protocol_pp = (\<lambda>_ _ _. Inr [2]),
      create_dkg_centralized_output_v2 = (\<lambda>_ _ _ _. Inr ([1], [2], [3])),
      create_imported_dwallet_centralized_step = (\<lambda>_ _ _ _ _. Inr ([1], [2], [3])),
      encrypt_secret_share = (\<lambda>_ _ _ _ _. Inr [6]), decrypt_user_share = (\<lambda>_ _ _ _ _. Inr [4, 2]),
      verify_user_share = (\<lambda>_ _ _ _. Inr True), create_sign_user_message = (\<lambda>_ _ _ _ _ _ _ _ _. Inr [5]),
      create_sign_message_with_dkg_output = (\<lambda>_ _ _ _ _ _ _ _ _. Inr [5]),
      create_sign_message_ecdsa_blake2b256 = (\<lambda>_ _ _ _ _ _ _. Inr [5]), verify_signature = (\<lambda>_ _ _ _ _ _ _. Inr ()),
      verify_ecdsa_blake2b256_signature = (\<lambda>_ _ _ _ _. Inr ()), public_key_from_dwallet_output = (\<lambda>_ _. Inr [3]),
      public_key_from_centralized_dkg_output = (\<lambda>_ _. Inr [3]), dwallet_output_at_latest_version = (\<lambda>_ out _. Inr out),
      parties_dkg_output_match = (\<lambda>_ _ _. Inr True), signatureHashContextBcs = noBcs,
      wl_schnorrkelMetadataBcs = noBcs, wl_blake2bMetadataBcs = noBcs\<rparr>"

definition mockKey :: bytes where
  "mockKey = replicate 32 7"

definition mockDWallet :: dwallet_attestation where
  "mockDWallet = engineDWallet\<lparr>dw_public_output := mockDWalletOutput 2 mockKey, dw_public_key := mockKey\<rparr>"

lemma curve_byte_ED25519: "uint (curveByte 2) = 2"
  by (simp add: curveByte_def)

lemma mock_output_key: "mockPublicKeyOfOutput 2 (mockDWalletOutput 2 mockKey) = Inr mockKey"
  by (simp add: mockPublicKeyOfOutput_Inr mockDWalletOutput_def curve_byte_ED25519 mockKey_def)

theorem modes_refuse_each_other_witness:
  "requireAttestedKeyOfOutput (mockUserCryptography demoMock) mockDWallet = Inr () \<and>
     requireAttestedKeyOfOutput (realUserCryptography demoWasm) mockDWallet \<noteq> Inr ()"
proof -
  have "curveNumber ED25519 = Inr 2" by (simp add: curveNumber_def fromCurveToNumber_def curveConfigOf_def scheme_tables result_simps)
  moreover have "fromNumberToCurve 2 = Inr ED25519" by (rule curve_number_back) (rule calculation)
  ultimately have own: "requireAttestedKeyOfOutput (mockUserCryptography demoMock) mockDWallet = Inr ()"
    by (simp add: requireAttestedKeyOfOutput_def mockUserCryptography_def mockDWallet_def mock_output_key refuseUnless_def result_simps)
      (auto simp: engineDWallet_def indexOf_def ATTESTATION_CURVES_def result_simps mockDWalletOutput_def curve_byte_ED25519
        mockKey_def)
  from modes_refuse_each_other [of "mockUserCryptography demoMock" demoWasm "realUserCryptography demoWasm" demoMock mockDWallet] own
  show ?thesis by blast
qed

definition mockPrepared :: prepared_step where
  "mockPrepared = \<lparr>userMessage = mockValue MockKeyMessage [curveByte 2], userSecretKeyShare = replicate 34 1,
     userPublicOutput = mockValue MockUserOutput [curveByte 2]\<rparr>"

lemma mock_numbers: "curveNumber ED25519 = Inr 2" "element SHARE_LENGTHS 2 = Some 34"
  by (simp_all add: curveNumber_def fromCurveToNumber_def curveConfigOf_def scheme_tables result_simps element_def
      SHARE_LENGTHS_def)

lemma mock_prepares:
  "prepareDKGForSessionIdentifier (mockCryptography demoMock) (mockValue MockProtocolPublicParameters [2]) ED25519 session now =
     Inr mockPrepared"
  by (simp add: mockCryptography_def mockPrepareDKG_def mock_numbers shareLength_def demoMock_def mockPrepared_def result_simps)

theorem mock_dwallet_round_trip_witness:
  "decryptUserShareOfOutput (mockCryptography demoMock) ED25519 [] (mockDWalletOutput 2 mockKey)
     (mockValue MockEncryptedShare (replicate 34 1)) (mockValue MockProtocolPublicParameters [2]) = Inr (replicate 34 1) \<and>
   publicKeyFromDWalletOutput (ec_user (mockCryptography demoMock)) ED25519 (mockDWalletOutput 2 mockKey) = Inr mockKey"
proof -
  have encrypted: "encryptSecretShare (mockCryptography demoMock) ED25519 (userSecretKeyShare mockPrepared) []
      (mockValue MockProtocolPublicParameters [2]) 0 = Inr (mockValue MockEncryptedShare (replicate 34 1))"
    by (simp add: mockCryptography_def mockEncryptShare_def mock_numbers mockPrepared_def result_simps)
  have "length (randomOf demoMock k t) = k" for k t by (simp add: demoMock_def)
  from mock_dwallet_round_trip [OF mock_prepares encrypted this mock_numbers(1), where key = mockKey and decryptionKey = "[]"] show ?thesis
    by (simp add: mockKey_def mockPrepared_def)
qed

text \<open>The mock client's DKG, answered by a network that has entered the next epoch.\<close>

definition mockDkgRequest :: dwallet_request where
  "mockDkgRequest = Dkg
     \<lparr>dkg_network_key_id = theKey, dkg_curve = Curve_Curve25519,
      dkg_centralized_public_key_share_and_proof = userMessage mockPrepared,
      dkg_user_secret_key_share = PublicUserShare (userSecretKeyShare mockPrepared),
      dkg_user_public_output = userPublicOutput mockPrepared, dkg_sign_during_dkg_request = None\<rparr>"

definition epochClosed :: transaction_response where
  "epochClosed = ErrorResponse ''request epoch 7 does not match current epoch 8''"

abbreviation mockNet :: network_connection where
  "mockNet \<equiv> engineNetOf (mockCryptography demoMock) (engineLib (engineData mockDkgRequest) engineDWallet) epochClosed"

lemma mock_parameters: "engineParameters (mockCryptography demoMock) = mockValue MockProtocolPublicParameters [2]"
  by (simp add: engineParameters_def mockCryptography_def)

lemma mock_dkg_built:
  "dkgBuild mockNet None None theKey now s = Some (now, s, Inr (plainObject mockDkgRequest, (mockPrepared, None)))"
  by (simp add: dkgBuild_def run_simps mock_parameters mock_prepares mockDkgRequest_def)

lemma mock_within_limits: "assertRequestFieldsWithinLimits (engineData mockDkgRequest) = Inr ()"
  by (simp add: engineData_def signedData_def mockDkgRequest_def engine_limits mockPrepared_def mockValue_def MOCK_MAGIC_def ascii_def)

lemma epoch_closed: "staleEpochRefusal epochClosed 7 = Some 8" "\<not> depositUnread epochClosed"
  by (simp_all add: epochClosed_def) (code_simp, code_simp)

lemma mock_sent:
  "\<exists>s'. signAndSend mockNet engineRequester 7 (\<lambda>d object. signFor mockNet engineRequester (signingRequest mockNet d object))
     (\<lambda>_. dkgBuild mockNet None None) 0 engineState =
   Some (0, s', Inr (ClosedBeforeAnswer \<lparr>se_epoch = 7, se_session = theKey, se_kept = (mockPrepared, None)\<rparr>
     ''request epoch 7 does not match current epoch 8''))"
proof -
  let ?sent = "\<lparr>se_epoch = 7, se_session = theKey, se_kept = (mockPrepared, None)\<rparr> :: kept_step sent_request"
  let ?out = "\<lparr>sr_userSignature = [7, 8], sr_signedRequestData = [5]\<rparr>"
  let ?s = "engineState\<lparr>ns_draws := ns_draws engineState + 1\<rparr>"
  have object: "\<not> isDWalletSign (ro_request (plainObject mockDkgRequest))"
    "\<forall>h. waitingHolderOf (ns_holders ?s) (plainObject mockDkgRequest) = Some h \<longrightarrow> h = theKey"
    "assertRequestFieldsWithinLimits (engineData (ro_request (plainObject mockDkgRequest))) = Inr ()"
    by (simp_all add: plainObject_def mock_within_limits waitingHolderOf_def) (simp add: mockDkgRequest_def)
  have "cs_refused (ns_client ?s) = Map.empty" by simp
  from engine_sends [OF this epoch_closed(2), of "grpcRequest ?out" 0] obtain c'
    where "sendSigned engineClient (engineSubmit epochClosed) (grpcRequest ?out) 0 (ns_client ?s) = Some (0, c', Inr epochClosed)"
    by blast
  then obtain s' where "sendBuilt mockNet ?out 0 ?sent 0 ?s = Some (0, s', Inr (ClosedBeforeAnswer ?sent
      ''request epoch 7 does not match current epoch 8''))"
    by (simp add: sendBuilt_def awaitClient_def Let_def mapErr_def epoch_closed(1)) (simp add: epochClosed_def)
  then show ?thesis
    using mock_dkg_built [of 0 ?s] engine_signs [OF object, of "mockCryptography demoMock" engineDWallet epochClosed 0]
    by (simp add: signAndSend_def withTime_def bindN_def freshPreimage_def Let_def engine_session engineEnv_def engineData_def
        requestNetworkValue_def LOCAL_NETWORK_VALUE_def plainObject_def)
qed

lemma mock_dkg_fails: "\<exists>t s' e. dkg mockNet engineRequester None None 0 engineState = Some (t, s', Inl e)"
proof -
  from mock_sent obtain s' where sent: "signAndSend mockNet engineRequester 7 (\<lambda>d object. signFor mockNet engineRequester
      (signingRequest mockNet d object)) (\<lambda>_. dkgBuild mockNet None None) 0 engineState =
    Some (0, s', Inr (ClosedBeforeAnswer \<lparr>se_epoch = 7, se_session = theKey, se_kept = (mockPrepared, None)\<rparr>
      ''request epoch 7 does not match current epoch 8''))" by blast
  have "undescribed mockNet (dkgDescribe mockNet)" by (rule mock_undescribed) simp
  from undescribed_pendingOf [OF this] obtain t s'' e where "pendingOf mockNet engineRequester
      \<lparr>se_epoch = 7, se_session = theKey, se_kept = (mockPrepared, None)\<rparr> (dkgDescribe mockNet) 0 s' = Some (t, s'', Inl (Thrown e))"
    by blast
  with sent show ?thesis
    by (simp add: dkg_def run_simps REBUILDS_AFTER_EPOCH_CLOSE_def numeral_2_eq_2 submitOnce_def engine_epoch)
qed

theorem mock_creation_hides_epoch_close_witness:
  "\<exists>t s' e. dkg mockNet engineRequester None None 0 engineState = Some (t, s', Inl e) \<and> \<not> saysMayHaveRun e"
proof -
  from mock_dkg_fails obtain t s' e where run: "dkg mockNet engineRequester None None 0 engineState = Some (t, s', Inl e)" by blast
  have "cn_cryptography mockNet = mockCryptography demoMock" by simp
  from mock_creation_hides_epoch_close [OF this disjI1 [OF run]] run show ?thesis by blast
qed

section \<open>A user's keys\<close>

definition seedLib :: key_lib where
  "seedLib =
     \<lparr>kl_keccak = (\<lambda>_. theKey), hmacSha512 = (\<lambda>k m. replicate 64 1), kl_ed25519 = engineEd,
      generateClassGroups = (\<lambda>n seed. Inr ([5], [6])),
      versionedKeysBcs = oneValue (KeysV3 \<lparr>sy_encryptionKey = [5], sy_decryptionKey = [6],
        sy_holderSecretKey = replicate 32 1, sy_requestSecretKey = theKey, sy_curve = 2\<rparr>) [8]\<rparr>"

definition seedKeys :: user_keys where
  "seedKeys = \<lparr>uk_encryptionKey = [5], uk_decryptionKey = [6], uk_curve = ED25519,
     holderKeypair = \<lparr>kp_secretKey = replicate 32 1, kp_publicKey = theKey\<rparr>,
     requestKeypair = \<lparr>kp_secretKey = theKey, kp_publicKey = theKey\<rparr>\<rparr>"

lemma seed_keys_demo: "fromRootSeedKey seedLib [9] ED25519 = Inr seedKeys"
  by (simp add: fromRootSeedKey_def derivationHash_def derivationBytes_Inr derivationBytes_def createClassGroupsKeypair_def
      mock_numbers bindE_def seedLib_def userKeys_def keypairOf_def engineEd_def ofOption_def suiEd25519SecretKey_def
      hardenedChild_def chainKeyOf_def SUI_ED25519_PATH_def seedKeys_def)

theorem seed_keys_round_trip_witness:
  "\<exists>bs. toShareEncryptionKeysBytes seedLib seedKeys = Inr bs \<and> fromShareEncryptionKeysBytes seedLib bs = Inr seedKeys"
proof -
  have codec: "codec_ok (versionedKeysBcs seedLib)" by (simp add: seedLib_def)
  have stored: "toShareEncryptionKeysBytes seedLib seedKeys = Inr [8]"
    by (simp add: toShareEncryptionKeysBytes_def mock_numbers seedKeys_def seedLib_def bindE_def ofOption_def)
  from seed_keys_round_trip [OF codec seed_keys_demo stored] stored show ?thesis by blast
qed

end
