(* ===== verification/Spec2Isabelle.thy ===== *)
theory Spec2Isabelle
  imports Demo Table_Laws Reader_Laws Committee_Laws Network_Key_Output Address_Laws Record_Laws
    Answer_Laws Cross_Check Demo_Answers Ownership_Laws Demo_Ownership Request_Laws Demo_Requests
    Across_Laws Grpc_Reads Demo_Grpc Request_Building Demo_Building Demo_Solana
    Share_Call_Laws Demo_Connect Base_Sign_Laws User_Key_Laws Mock_Laws Demo_Base Demo_Modes
begin

text \<open>
  A model of the ika dWallet SDK for TypeScript (\<open>src/sdk/core\<close>) and of its Solana chain package
  (\<open>src/sdk/solana\<close>), and what their checks and their sending of requests promise.

  \<^bold>\<open>The program.\<close> A dWallet is a signing key split between a user and the ika network. The SDK builds a
  request, signs it with the user's transport key, sends it to the network's validators over gRPC, and
  checks the answer: an attestation the network signed, or a signature. Nothing a validator or one chain
  endpoint serves is believed on its own. An attestation is checked under keys the client trusts; a
  network key's outputs and a committee are checked against records the chain keeps; a read no signature
  covers is asked of a second endpoint; and a request that spends something of the user's rests on a check
  that the user's own key holds the dWallet's share on the chain. An epoch may close while a request is on
  its way: the SDK then finds out from the chain whether the request ran before it signs another one.

  \<^bold>\<open>The theories and the code.\<close> Paths are under \<open>src/sdk\<close>.

  \<^item> \<open>Ika_Prelude\<close>: bytes, results and errors, the codecs, the lemma collections, and the locale
    \<open>wire_format\<close>. \<open>Polling\<close>: a timed read, the loop that reads until a budget runs out.
  \<^item> \<open>Schemes\<close> (\<open>core/src/client/types.ts\<close>, \<open>hash-signature-validation.ts\<close>): curves, algorithms, hashes.
    \<open>Network_Keys\<close> (\<open>grpc/deployed-networks.ts\<close>, \<open>deployed-networks-internal.ts\<close>, \<open>network-key-id.ts\<close>):
    the networks and keys trusted. \<open>Table_Laws\<close>: their tables agree.
  \<^item> \<open>Attestations\<close> (\<open>grpc/bcs.ts\<close>): the attested values. \<open>Attestation_Record\<close>
    (\<open>grpc/attestation-record.ts\<close>, \<open>share-acceptance.ts\<close>): their check. \<open>Record_Laws\<close>: a check passes exactly
    when a trusted key signed the bytes under the message of their kind and the fields are the ones asked
    for; the locale \<open>record_check\<close> is that contract, interpreted for the five kinds.
  \<^item> \<open>Network_Key_Output\<close> (\<open>grpc/network-key-output.ts\<close>) and \<open>Committee\<close>, \<open>Committee_Laws\<close> (\<open>grpc/committee.ts\<close>):
    outputs and committees against the chain's records and its epoch.
  \<^item> \<open>Request_Signing\<close> (\<open>grpc/request-size-limits.ts\<close>, \<open>session-identifier.ts\<close>, \<open>sign-request-bytes.ts\<close>),
    \<open>Signatures\<close> (\<open>grpc/signature-verification.ts\<close>), \<open>Answer_Checks\<close>, \<open>Answer_Laws\<close> (\<open>grpc/answer-checks.ts\<close>,
    \<open>dwallet-share-acceptance.ts\<close>, \<open>share-acceptance-signing.ts\<close>): what is signed, and which answers pass.
  \<^item> \<open>Cross_Check\<close> (\<open>grpc/read-cross-check.ts\<close>, \<open>solana/src/read-cross-check.ts\<close>): a read of two endpoints.
  \<^item> \<open>Share_Ownership\<close>, \<open>Ownership_Laws\<close> (\<open>grpc/share-ownership.ts\<close>, \<open>usable-state.ts\<close>): the ownership check and
    the results it issues. The state is the list of results issued; a result is a reference into it, as the
    \<open>WeakMap\<close> of the code is keyed by the object. \<open>Requests\<close>, \<open>Request_Building\<close> (\<open>grpc/requests.ts\<close>): the requests
    built from such a result, with the list of holders kept for waiting dWallets as state.
  \<^item> \<open>Wire_Tables\<close>, \<open>Addresses\<close>, \<open>Address_Laws\<close>, \<open>Accounts\<close>, \<open>Reader_Laws\<close>, \<open>Solana_Records\<close>, \<open>Solana_Readers\<close>,
    \<open>Solana_Shares\<close>, \<open>Solana_Share_Laws\<close>, \<open>Instructions\<close>, \<open>Key_Registry\<close>, \<open>Instruction_Laws\<close>: the files of \<open>solana/src\<close>
    of these names: the addresses, accounts and instructions of the program on Solana, and the readers over
    them. The locale \<open>account_reader\<close> is the contract of an account's reader, interpreted for seven of them.
    The readers give the generic checks above their chain, so their laws compose the two.
  \<^item> \<open>Request_Records\<close>, \<open>Request_Laws\<close> (\<open>common/request-records.ts\<close>, \<open>solana/src/request-records.ts\<close>): what a request
    left on the chain.
  \<^item> \<open>Grpc_Client\<close>, \<open>Grpc_Laws\<close>, \<open>Across_Laws\<close>, \<open>Grpc_Reads\<close> (\<open>grpc/dwallet-client.ts\<close>): calls over the validators of a
    setup. The state holds which validators refused, with logs of what was sent and built.
  \<^item> \<open>Engine_Runs\<close>, \<open>Engine_Calls\<close>, \<open>Engine_Signing\<close>, \<open>Engine_Connect\<close> (\<open>common/engine.ts\<close>, \<open>client/mock-format.ts\<close>): a
    connection and its calls, over everything above. \<open>Engine_Laws\<close>, \<open>Submission_Laws\<close>: one submission;
    \<open>Engine_Call_Laws\<close>, \<open>Creation_Laws\<close>, \<open>Signing_Laws\<close>, \<open>Share_Call_Laws\<close>: what each call returns; \<open>Connect_Laws\<close>:
    what a connection is made on, and the cache of derived parameters; \<open>Forward_Laws\<close>: no run ends before it starts,
    if no answer comes before its question.
  \<^item> \<open>User_Keys\<close>, \<open>User_Key_Laws\<close> (\<open>common/user-share-encryption-keys.ts\<close>, \<open>request-key.ts\<close>): the keys of a root seed, and
    the request key of an app.
  \<^item> \<open>Real_Cryptography\<close> (\<open>client/cryptography.ts\<close>, \<open>user-cryptography.ts\<close>), \<open>Mock_Cryptography\<close>
    (\<open>client/mock-cryptography.ts\<close>): the user's half of each protocol step, for the 2PC-MPC protocol and for a mock
    network. \<open>Mode_Laws\<close>, \<open>Mock_Laws\<close>: the locales \<open>user_mode\<close> and \<open>engine_mode\<close> are what a mode promises,
    that it runs a step on its own values only, each interpreted for both; what \<open>two_modes\<close> with opposite values
    refuse of each other.
  \<^item> \<open>Client_Base\<close>, \<open>Base_Laws\<close>, \<open>Base_Sign_Laws\<close> (\<open>common/ika-client-base.ts\<close>, \<open>wait.ts\<close>): the client an app
    holds. Its state \<open>base_state\<close> is the connections it keeps, one for each curve and network key. A call checks
    the dWallet or the voucher on the chain first and then runs the calls of one connection.
  \<^item> \<open>Demo\<close> and the theories named \<open>Demo_*\<close>: concrete libraries, chains, validators and requests, on which the
    definitions compute and the laws that have hypotheses apply.

  \<^bold>\<open>How the code is modelled.\<close> A \<open>Uint8Array\<close> is a list of 8-bit words, a \<open>bigint\<close> or integer \<open>number\<close> an \<open>int\<close>. A
  function that may throw returns \<open>sdk_error + 'a\<close>; the message of an error is its constant text. A call of the
  gRPC client fails with a \<open>call_error\<close>, and a call of a connection with an \<open>engine_error\<close>. A read that takes
  time is a function of the time it starts at and gives the time it settles at, or \<open>None\<close> if it never does. A
  method of the client or of a connection is a function of the time and of the state; \<open>meanwhile\<close>,
  \<open>othersEpoch\<close> and \<open>othersTrusted\<close> are what the other calls in flight did to the state at each \<open>await\<close>, so a law
  over any of them is a law of the interleavings. The connection's state \<open>net_state\<close> is \<open>#epoch\<close>,
  \<open>#trustedNetworkKeys\<close>, the client's state, the two stores and, for the laws only, the requests signed, each with the time its
  signing began. Copies the
  code takes of a caller's values are the values themselves.

  \<^bold>\<open>Code that is not here\<close> is a parameter: \<open>sdk_lib\<close> and \<open>ed25519_lib\<close> (\<open>@noble/curves\<close>, \<open>@noble/hashes\<close>, and the codecs of
  \<open>@mysten/bcs\<close>), \<open>user_cryptography\<close> and \<open>engine_cryptography\<close> (what a connection takes of its
  mode), \<open>wasm_lib\<close> (the WASM module, whose randomised steps take the time they run at), \<open>mock_lib\<close> and \<open>key_lib\<close> (the
  hashes, verifiers and key derivations under the mock and the user's keys), \<open>address_lib\<close> and \<open>web3_lib\<close> (\<open>@solana/web3.js\<close>), \<open>rpc_method\<close> (the messages protobufjs builds), and the
  transport of the client. The laws assume of them only what they document: \<open>codec_ok\<close>, that a codec parses
  what it serialized and nothing else to it; \<open>keeps_keys\<close>, that a public key holds the bytes it was made of;
  \<open>digests_something\<close>, that a digest is not empty; and, where a law says that something ends, that the transport
  or the chain settles (\<open>transport_settles\<close>, \<open>calls_in_time\<close>, \<open>network_answers\<close>); where a law orders steps in time, \<open>client_later\<close> and
  \<open>environment_later\<close> say that no answer comes before its question. \<open>epochs_grow\<close> and \<open>kept_by_others\<close> say of the
  other calls in flight that they never lower the epoch and keep an invariant of the trusted keys.

  \<^bold>\<open>Loops.\<close> A loop over a list is structural. A loop that waits is a \<open>partial_function (option)\<close>, ended by its own
  deadline: its laws are proved by fixpoint induction, and that it ends by the time left to the deadline
  (\<open>submit_ends\<close>, \<open>connect_ends\<close>, \<open>submitTransactionAcrossEpochClose_ends\<close>, \<open>crossCheckedRead_ends\<close>,
  \<open>share_wait_ends\<close>, the last if each of its checks of the chain settles: none is cut short). A submission is
  signed again at most \<open>REBUILDS_AFTER_EPOCH_CLOSE\<close> times, a primitive recursion on the rebuilds left. There is no
  fuel. The search of a program address recurses on the bump, from 255 down.

  \<^bold>\<open>What the laws show.\<close> Of a record, an answer, a committee, an output or an account: exactly when its check
  passes. Of the ownership check: what the chain then holds, that every result issued is of a check that passed,
  and that a sign request is signed only on a result of its own dWallet, key and chain at most five minutes old.
  Of the bytes signed: that no message is signed for two purposes. Of a cross-checked read: that what it returns both
  endpoints served, and that it waits for either of them to catch up. Of an instruction: its shape, and the key, the
  message and the signature its precompile carries. Of a submission: that it is signed at most
  three times, for ever later epochs, and again only when the chain showed that the one before never ran; that a
  request over a presign is signed at most once and never for a past epoch; and that it ends. Of each call
  of a connection: that what it returns answers the very request it signed. Of the client: that a connection it
  keeps is one made for that curve and key, that a wait for a share ends once its checks do, that a sign is signed only
  after a voucher on the chain approved its message and at most five minutes after its dWallet was checked there, and that a session is resolved only once the chain
  settled it. Of the two modes: that what one accepts the other refuses, in a step and in a whole signature.

  \<^bold>\<open>Not modelled.\<close> \<open>requestPresigns\<close> of the engine and \<open>requestGlobalPresigns\<close> of the client run a request several
  times at once and collect the results. The calls of the client run one at a time, against the other calls in
  flight that \<open>Engine_Runs\<close> models. Building a gRPC client from an endpoint is left out, as are the transports
  (\<open>grpc/node-transport.ts\<close>, \<open>web-transport.ts\<close>, \<open>network-key-tls.ts\<close>, \<open>messages.ts\<close>), which are network I/O, and the
  loading of the WASM module and the worker it runs in. The glue over the Solana packages (\<open>solana/src/kit\<close>,
  \<open>solana/src/web3\<close>, \<open>client-core.ts\<close>), the Rust crates for programs on the chain and the examples are left out. So
  are key generation, which is library randomness, the details an error carries beside its message's constant
  text, and the passing of time between the reads of one ownership check over Solana, which all start at one time.
\<close>

end
